(* ===== verification/GoPrelude.thy ===== *)
theory GoPrelude
  imports Main "HOL-Library.AList" "HOL-Library.Sublist"
begin

text \<open>
  What the modelled Go code uses of the language and of its standard library, and the
  lemmas the components share.

  \<^item> A Go \<open>string\<close> and a \<open>[]byte\<close> are lists of bytes: HOL's \<open>string\<close>
    (a \<open>char\<close> is a byte). Runes are natural numbers, and \<open>utf8_chunks\<close> is the
    decoding loop of a \<open>for _, r := range s\<close>.
  \<^item> \<open>int64\<close> and \<open>int\<close> are integers with the wrap-around written out as
    \<open>wrap64\<close> wherever a value can leave the range.
  \<^item> \<open>time.Time\<close> is an integer, the nanoseconds since Go's zero time, so that
    \<open>IsZero\<close> is \<open>t = 0\<close>; \<open>time.Duration\<close> is a number of nanoseconds and
    \<open>Sub\<close> saturates as Go's does.
  \<^item> A Go map is an association list with distinct keys (\<open>gomap\<close>); its order stands
    for the unspecified iteration order of Go, and every theorem holds for every order.
\<close>

named_theorems golib \<open>equations of the modelled standard library\<close>
named_theorems bounds_lemmas \<open>size bounds of bounded containers\<close>

type_synonym gotime = int
type_synonym duration = int
type_synonym ('k, 'v) gomap = "('k \<times> 'v) list"

section \<open>Integers\<close>

definition wrap64 :: "int \<Rightarrow> int" where
  "wrap64 i = (i + 2 ^ 63) mod 2 ^ 64 - 2 ^ 63"

definition int64_range :: "int \<Rightarrow> bool" where
  "int64_range i \<longleftrightarrow> - (2 ^ 63) \<le> i \<and> i < 2 ^ 63"

text \<open>Go's \<open>/\<close> and \<open>%\<close> truncate towards zero.\<close>

definition go_div :: "int \<Rightarrow> int \<Rightarrow> int" where
  "go_div a b = sgn a * sgn b * (\<bar>a\<bar> div \<bar>b\<bar>)"

definition go_mod :: "int \<Rightarrow> int \<Rightarrow> int" where
  "go_mod a b = a - b * go_div a b"

lemma wrap64_range [simp]: "int64_range (wrap64 i)"
proof -
  have "0 \<le> (i + 2 ^ 63) mod 2 ^ 64" "(i + 2 ^ 63) mod (2 ^ 64 :: int) < 2 ^ 64"
    by simp_all
  then show ?thesis by (simp add: wrap64_def int64_range_def)
qed

lemma wrap64_id: "int64_range i \<Longrightarrow> wrap64 i = i"
  by (simp add: wrap64_def int64_range_def)

lemma wrap64_small: "- (2 ^ 63) \<le> i \<Longrightarrow> i < 2 ^ 63 \<Longrightarrow> wrap64 i = i"
  by (simp add: wrap64_id int64_range_def)

lemma wrap64_wrap64 [simp]: "wrap64 (wrap64 i) = wrap64 i"
  by (simp add: wrap64_id)

section \<open>Time\<close>

definition max_duration :: int where "max_duration = 2 ^ 63 - 1"
definition min_duration :: int where "min_duration = - (2 ^ 63)"

definition time_sub :: "gotime \<Rightarrow> gotime \<Rightarrow> duration" where
  "time_sub a b = max min_duration (min max_duration (a - b))"

definition millisecond :: duration where "millisecond = 1000000"
definition second :: duration where "second = 1000000000"
definition minute :: duration where "minute = 60 * second"
definition hour :: duration where "hour = 60 * minute"

lemma time_sub_mono: "a \<le> a' \<Longrightarrow> time_sub a b \<le> time_sub a' b"
  by (simp add: time_sub_def)

section \<open>Bytes and runes\<close>

definition byte_in :: "char \<Rightarrow> nat \<Rightarrow> nat \<Rightarrow> bool" where
  "byte_in c lo hi \<longleftrightarrow> lo \<le> of_char c \<and> (of_char c :: nat) \<le> hi"

definition is_digit :: "char \<Rightarrow> bool" where
  "is_digit c \<longleftrightarrow> byte_in c 48 57"

definition is_lower :: "char \<Rightarrow> bool" where
  "is_lower c \<longleftrightarrow> byte_in c 97 122"

definition is_upper :: "char \<Rightarrow> bool" where
  "is_upper c \<longleftrightarrow> byte_in c 65 90"

definition is_letter :: "char \<Rightarrow> bool" where
  "is_letter c \<longleftrightarrow> is_lower c \<or> is_upper c"

definition ascii_lower :: "char \<Rightarrow> char" where
  "ascii_lower c = (if is_upper c then char_of (of_char c + (32 :: nat)) else c)"

definition ascii_upper :: "char \<Rightarrow> char" where
  "ascii_upper c = (if is_lower c then char_of (of_char c - (32 :: nat)) else c)"

definition is_ascii :: "string \<Rightarrow> bool" where
  "is_ascii s \<longleftrightarrow> (\<forall>c \<in> set s. (of_char c :: nat) < 128)"

text \<open>
  \<open>utf8_size s\<close> is the length of the well-formed UTF-8 sequence \<open>s\<close> starts with
  (the accept ranges of Go's \<open>unicode/utf8\<close>), and 0 when there is none.
\<close>

definition cont_byte :: "char \<Rightarrow> bool" where
  "cont_byte c \<longleftrightarrow> byte_in c 128 191"

fun utf8_size :: "string \<Rightarrow> nat" where
  "utf8_size [] = 0"
| "utf8_size (a # s) =
     (let x = (of_char a :: nat) in
      if x < 128 then 1
      else if 194 \<le> x \<and> x \<le> 223 then
        (case s of b # _ \<Rightarrow> if cont_byte b then 2 else 0 | [] \<Rightarrow> 0)
      else if 224 \<le> x \<and> x \<le> 239 then
        (case s of b # c # _ \<Rightarrow>
           (if byte_in b (if x = 224 then 160 else 128) (if x = 237 then 159 else 191)
               \<and> cont_byte c then 3 else 0)
         | _ \<Rightarrow> 0)
      else if 240 \<le> x \<and> x \<le> 244 then
        (case s of b # c # d # _ \<Rightarrow>
           (if byte_in b (if x = 240 then 144 else 128) (if x = 244 then 143 else 191)
               \<and> cont_byte c \<and> cont_byte d then 4 else 0)
         | _ \<Rightarrow> 0)
      else 0)"

fun utf8_value :: "string \<Rightarrow> nat" where
  "utf8_value [a] = of_char a"
| "utf8_value [a, b] = (of_char a mod 32) * 64 + of_char b mod 64"
| "utf8_value [a, b, c] = (of_char a mod 16) * 4096 + (of_char b mod 64) * 64 + of_char c mod 64"
| "utf8_value [a, b, c, d] =
     (of_char a mod 8) * 262144 + (of_char b mod 64) * 4096 + (of_char c mod 64) * 64 + of_char d mod 64"
| "utf8_value _ = 0"

definition rune_error :: nat where "rune_error = 65533"

text \<open>The rune and the bytes of each step of a \<open>range\<close> loop over a string.\<close>

function utf8_chunks :: "string \<Rightarrow> (nat \<times> string) list" where
  "utf8_chunks [] = []"
| "utf8_chunks (a # s) =
     (let n = utf8_size (a # s) in
      if n = 0 then (rune_error, [a]) # utf8_chunks s
      else (utf8_value (take n (a # s)), take n (a # s)) # utf8_chunks (drop n (a # s)))"
  by pat_completeness auto
termination
  by (relation "measure length") (auto simp del: utf8_size.simps)

definition runes :: "string \<Rightarrow> nat list" where
  "runes s = map fst (utf8_chunks s)"

text \<open>\<open>utf8.ValidString\<close>.\<close>

function valid_utf8 :: "string \<Rightarrow> bool" where
  "valid_utf8 [] = True"
| "valid_utf8 (a # s) = (let n = utf8_size (a # s) in if n = 0 then False else valid_utf8 (drop n (a # s)))"
  by pat_completeness auto
termination
  by (relation "measure length") (auto simp del: utf8_size.simps)

text \<open>\<open>utf8.AppendRune\<close>: surrogates and values past the last code point become U+FFFD.\<close>

definition encode_rune :: "nat \<Rightarrow> string" where
  "encode_rune r =
     (if r < 128 then [char_of r]
      else if r < 2048 then [char_of (192 + r div 64), char_of (128 + r mod 64)]
      else if 1114111 < r \<or> (55296 \<le> r \<and> r \<le> 57343) then
        [char_of (239 :: nat), char_of (191 :: nat), char_of (189 :: nat)]
      else if r < 65536 then
        [char_of (224 + r div 4096), char_of (128 + r div 64 mod 64), char_of (128 + r mod 64)]
      else
        [char_of (240 + r div 262144), char_of (128 + r div 4096 mod 64),
         char_of (128 + r div 64 mod 64), char_of (128 + r mod 64)])"

definition encode_runes :: "nat list \<Rightarrow> string" where
  "encode_runes rs = concat (map encode_rune rs)"

text \<open>\<open>unicode.IsSpace\<close>.\<close>

definition rune_is_space :: "nat \<Rightarrow> bool" where
  "rune_is_space r \<longleftrightarrow>
     (9 \<le> r \<and> r \<le> 13) \<or> r = 32 \<or> r = 133 \<or> r = 160 \<or> r = 5760
     \<or> (8192 \<le> r \<and> r \<le> 8202) \<or> r = 8232 \<or> r = 8233 \<or> r = 8239 \<or> r = 8287 \<or> r = 12288"

definition char_is_space :: "char \<Rightarrow> bool" where
  "char_is_space c \<longleftrightarrow> c = CHR '' '' \<or> byte_in c 9 13"

section \<open>The \<open>strings\<close> package\<close>

definition dropWhileEnd :: "('a \<Rightarrow> bool) \<Rightarrow> 'a list \<Rightarrow> 'a list" where
  "dropWhileEnd P xs = rev (dropWhile P (rev xs))"

definition TrimSpace :: "string \<Rightarrow> string" where
  "TrimSpace s =
     concat (map snd
       (dropWhileEnd (\<lambda>p. rune_is_space (fst p))
         (dropWhile (\<lambda>p. rune_is_space (fst p)) (utf8_chunks s))))"

text \<open>
  \<open>ToLower\<close> and \<open>ToUpper\<close> are exact on ASCII. On other strings Go consults the
  Unicode tables; the model takes that part as the argument \<open>uni\<close>, and nothing is
  assumed of it.
\<close>

definition ToLower :: "(string \<Rightarrow> string) \<Rightarrow> string \<Rightarrow> string" where
  "ToLower uni s = (if is_ascii s then map ascii_lower s else uni s)"

definition EqualFold :: "(string \<Rightarrow> string) \<Rightarrow> string \<Rightarrow> string \<Rightarrow> bool" where
  "EqualFold fold_case a b \<longleftrightarrow> ToLower fold_case a = ToLower fold_case b"

definition ToUpper :: "(string \<Rightarrow> string) \<Rightarrow> string \<Rightarrow> string" where
  "ToUpper uni s = (if is_ascii s then map ascii_upper s else uni s)"

definition HasPrefix :: "string \<Rightarrow> string \<Rightarrow> bool" where
  "HasPrefix s p \<longleftrightarrow> take (length p) s = p"

definition HasSuffix :: "string \<Rightarrow> string \<Rightarrow> bool" where
  "HasSuffix s p \<longleftrightarrow> length p \<le> length s \<and> drop (length s - length p) s = p"

definition TrimPrefix :: "string \<Rightarrow> string \<Rightarrow> string" where
  "TrimPrefix s p = (if HasPrefix s p then drop (length p) s else s)"

definition TrimSuffix :: "string \<Rightarrow> string \<Rightarrow> string" where
  "TrimSuffix s p = (if HasSuffix s p then take (length s - length p) s else s)"

text \<open>\<open>Index\<close> is \<open>None\<close> where Go returns -1.\<close>

fun Index :: "string \<Rightarrow> string \<Rightarrow> nat option" where
  "Index [] p = (if p = [] then Some 0 else None)"
| "Index (c # s) p = (if HasPrefix (c # s) p then Some 0 else map_option Suc (Index s p))"

definition Contains :: "string \<Rightarrow> string \<Rightarrow> bool" where
  "Contains s p \<longleftrightarrow> Index s p \<noteq> None"

fun IndexByte :: "string \<Rightarrow> char \<Rightarrow> nat option" where
  "IndexByte [] c = None"
| "IndexByte (x # s) c = (if x = c then Some 0 else map_option Suc (IndexByte s c))"

fun LastIndexByte :: "string \<Rightarrow> char \<Rightarrow> nat option" where
  "LastIndexByte [] c = None"
| "LastIndexByte (x # s) c =
     (case LastIndexByte s c of Some i \<Rightarrow> Some (Suc i) | None \<Rightarrow> if x = c then Some 0 else None)"

text \<open>\<open>Cut(s, sep)\<close> for a one-byte separator.\<close>

definition CutByte :: "string \<Rightarrow> char \<Rightarrow> string \<times> string \<times> bool" where
  "CutByte s c =
     (case IndexByte s c of
        Some i \<Rightarrow> (take i s, drop (Suc i) s, True)
      | None \<Rightarrow> (s, [], False))"

text \<open>\<open>Split\<close> by a one-byte separator.\<close>

fun SplitByte :: "string \<Rightarrow> char \<Rightarrow> string list" where
  "SplitByte [] c = [[]]"
| "SplitByte (x # s) c =
     (if x = c then [] # SplitByte s c
      else (case SplitByte s c of [] \<Rightarrow> [[x]] | w # ws \<Rightarrow> (x # w) # ws))"

fun Join :: "string list \<Rightarrow> string \<Rightarrow> string" where
  "Join [] sep = []"
| "Join [w] sep = w"
| "Join (w # ws) sep = w @ sep @ Join ws sep"

function ReplaceAll :: "string \<Rightarrow> string \<Rightarrow> string \<Rightarrow> string" where
  "ReplaceAll [] old new = []"
| "ReplaceAll (c # s) old new =
     (if old \<noteq> [] \<and> HasPrefix (c # s) old then new @ ReplaceAll (drop (length old) (c # s)) old new
      else c # ReplaceAll s old new)"
  by pat_completeness auto
termination
  by (relation "measure (\<lambda>(s, _, _). length s)") (auto simp: neq_Nil_conv)

text \<open>\<open>Fields\<close>: the maximal runs of bytes outside white space.\<close>

fun fields_acc :: "(nat \<times> string) list \<Rightarrow> string \<Rightarrow> string list" where
  "fields_acc [] cur = (if cur = [] then [] else [cur])"
| "fields_acc ((r, b) # cs) cur =
     (if rune_is_space r then (if cur = [] then fields_acc cs [] else cur # fields_acc cs [])
      else fields_acc cs (cur @ b))"

definition Fields :: "string \<Rightarrow> string list" where
  "Fields s = fields_acc (utf8_chunks s) []"

section \<open>The \<open>strconv\<close> package\<close>

definition digit_char :: "nat \<Rightarrow> char" where
  "digit_char d = char_of (if d < 10 then 48 + d else 87 + d)"

function nat_digits :: "nat \<Rightarrow> nat \<Rightarrow> string" where
  "nat_digits base n =
     (if base < 2 then [] else if n < base then [digit_char n]
      else nat_digits base (n div base) @ [digit_char (n mod base)])"
  by pat_completeness auto
termination
  by (relation "measure snd") (auto intro!: div_less_dividend)

declare nat_digits.simps [simp del]

definition FormatInt :: "int \<Rightarrow> nat \<Rightarrow> string" where
  "FormatInt i base = (if i < 0 then CHR ''-'' # nat_digits base (nat (- i)) else nat_digits base (nat i))"

definition Itoa :: "int \<Rightarrow> string" where
  "Itoa i = FormatInt i 10"

text \<open>The outcome of \<open>strconv.ParseInt\<close>: a value, or an error with the value Go returns beside it.\<close>

datatype parsed = Parsed int | Syntax_Error | Range_Error int

definition parsed_value :: "parsed \<Rightarrow> int" where
  "parsed_value p = (case p of Parsed v \<Rightarrow> v | Syntax_Error \<Rightarrow> 0 | Range_Error v \<Rightarrow> v)"

definition parsed_ok :: "parsed \<Rightarrow> bool" where
  "parsed_ok p \<longleftrightarrow> (case p of Parsed _ \<Rightarrow> True | _ \<Rightarrow> False)"

definition digit_value :: "char \<Rightarrow> nat option" where
  "digit_value c =
     (if is_digit c then Some (of_char c - 48)
      else if is_letter c then Some (of_char (ascii_lower c) - 87)
      else None)"

text \<open>The digit loop of \<open>ParseUint\<close>; a value past \<open>2 ^ 64 - 1\<close> ends it with a range error.\<close>

fun parse_digits :: "nat \<Rightarrow> bool \<Rightarrow> string \<Rightarrow> nat \<Rightarrow> parsed" where
  "parse_digits base base0 [] n = Parsed (int n)"
| "parse_digits base base0 (c # s) n =
     (if c = CHR ''_'' \<and> base0 then parse_digits base base0 s n
      else (case digit_value c of
          None \<Rightarrow> Syntax_Error
        | Some d \<Rightarrow>
            if base \<le> d then Syntax_Error
            else if 2 ^ 64 \<le> n * base + d then Range_Error (2 ^ 64 - 1)
            else parse_digits base base0 s (n * base + d)))"

text \<open>\<open>underscoreOK\<close>: underscores only between digits (a base prefix counts as one).\<close>

datatype usaw = Saw_Start | Saw_Digit | Saw_Under | Saw_Other

fun underscore_loop :: "bool \<Rightarrow> string \<Rightarrow> usaw \<Rightarrow> bool" where
  "underscore_loop hex [] saw = (saw \<noteq> Saw_Under)"
| "underscore_loop hex (c # s) saw =
     (if is_digit c \<or> (hex \<and> byte_in (ascii_lower c) 97 102) then underscore_loop hex s Saw_Digit
      else if c = CHR ''_'' then (if saw \<noteq> Saw_Digit then False else underscore_loop hex s Saw_Under)
      else if saw = Saw_Under then False
      else underscore_loop hex s Saw_Other)"

definition base_prefix :: "string \<Rightarrow> bool" where
  "base_prefix s \<longleftrightarrow> (case s of z # b # _ \<Rightarrow> z = CHR ''0'' \<and> ascii_lower b \<in> set ''box'' | _ \<Rightarrow> False)"

definition underscore_ok :: "string \<Rightarrow> bool" where
  "underscore_ok s =
     (if base_prefix s then underscore_loop (ascii_lower (s ! 1) = CHR ''x'') (drop 2 s) Saw_Digit
      else underscore_loop False s Saw_Start)"

text \<open>The base and the digits \<open>ParseUint\<close> reads when its base argument is 0.\<close>

definition detect_base :: "string \<Rightarrow> nat \<times> string" where
  "detect_base s =
     (case s of
        [] \<Rightarrow> (10, s)
      | z # t \<Rightarrow>
          if z \<noteq> CHR ''0'' then (10, s)
          else if length s \<ge> 3 \<and> ascii_lower (hd t) = CHR ''b'' then (2, tl t)
          else if length s \<ge> 3 \<and> ascii_lower (hd t) = CHR ''o'' then (8, tl t)
          else if length s \<ge> 3 \<and> ascii_lower (hd t) = CHR ''x'' then (16, tl t)
          else (8, t))"

definition ParseUint :: "string \<Rightarrow> nat \<Rightarrow> parsed" where
  "ParseUint s base =
     (if s = [] then Syntax_Error
      else if base = 0 then
        (case detect_base s of (b, ds) \<Rightarrow>
          (case parse_digits b True ds 0 of
             Parsed v \<Rightarrow> if CHR ''_'' \<in> set ds \<and> \<not> underscore_ok s then Syntax_Error else Parsed v
           | r \<Rightarrow> r))
      else parse_digits base False s 0)"

definition ParseInt :: "string \<Rightarrow> nat \<Rightarrow> parsed" where
  "ParseInt s base =
     (case s of
        [] \<Rightarrow> Syntax_Error
      | c # t \<Rightarrow>
         (let neg = (c = CHR ''-''); u = (if c = CHR ''-'' \<or> c = CHR ''+'' then t else s) in
          case ParseUint u base of
            Syntax_Error \<Rightarrow> Syntax_Error
          | Parsed v \<Rightarrow>
              if \<not> neg \<and> 2 ^ 63 \<le> v then Range_Error (2 ^ 63 - 1)
              else if neg \<and> 2 ^ 63 < v then Range_Error (- (2 ^ 63))
              else Parsed (if neg then - v else v)
          | Range_Error v \<Rightarrow> if neg then Range_Error (- (2 ^ 63)) else Range_Error (2 ^ 63 - 1)))"

section \<open>Maps and bounded lists\<close>

definition lookup_or :: "'v \<Rightarrow> ('k, 'v) gomap \<Rightarrow> 'k \<Rightarrow> 'v" where
  "lookup_or d m k = (case map_of m k of Some v \<Rightarrow> v | None \<Rightarrow> d)"

definition has_key :: "('k, 'v) gomap \<Rightarrow> 'k \<Rightarrow> bool" where
  "has_key m k \<longleftrightarrow> map_of m k \<noteq> None"

definition map_wf :: "('k, 'v) gomap \<Rightarrow> bool" where
  "map_wf m \<longleftrightarrow> distinct (map fst m)"

text \<open>\<open>m[k]++\<close>.\<close>

definition incr :: "'k \<Rightarrow> ('k, int) gomap \<Rightarrow> ('k, int) gomap" where
  "incr k m = AList.update k (wrap64 (lookup_or 0 m k + 1)) m"

text \<open>\<open>xs = append(xs, x); if len(xs) > n { xs = xs[len(xs)-n:] }\<close>.\<close>

definition last_n :: "nat \<Rightarrow> 'a list \<Rightarrow> 'a list" where
  "last_n n xs = drop (length xs - n) xs"

definition push_last :: "nat \<Rightarrow> 'a \<Rightarrow> 'a list \<Rightarrow> 'a list" where
  "push_last n x xs = last_n n (xs @ [x])"

end
