(* ===== verification/GoLemmas.thy ===== *)
theory GoLemmas
  imports GoPrelude
begin

text \<open>
  The lemmas the components share: UTF-8 decoding and trimming, prefixes and indices,
  maps as association lists, bounded lists. The equations that should always rewrite are
  \<open>[simp]\<close>; the others sit in \<open>golib\<close> and \<open>bounds_lemmas\<close>.
\<close>

section \<open>Lists\<close>

lemma dropWhileEnd_Nil [simp]: "dropWhileEnd P [] = []"
  by (simp add: dropWhileEnd_def)

lemma dropWhileEnd_snoc [simp]: "dropWhileEnd P (xs @ [x]) = (if P x then dropWhileEnd P xs else xs @ [x])"
  by (simp add: dropWhileEnd_def)

lemma dropWhileEnd_map: "dropWhileEnd P (map f xs) = map f (dropWhileEnd (P \<circ> f) xs)"
  by (simp add: dropWhileEnd_def rev_map dropWhile_map)

lemma dropWhileEnd_id: "xs = [] \<or> \<not> P (last xs) \<Longrightarrow> dropWhileEnd P xs = xs"
  by (cases xs rule: rev_cases) auto

lemma dropWhile_id: "xs = [] \<or> \<not> P (hd xs) \<Longrightarrow> dropWhile P xs = xs"
  by (cases xs) auto

lemma set_dropWhileEnd: "set (dropWhileEnd P xs) \<subseteq> set xs"
  unfolding dropWhileEnd_def using set_dropWhileD [of _ P "rev xs"] by auto

lemma dropWhileEnd_prefix: "\<exists>ys. xs = dropWhileEnd P xs @ ys"
proof -
  have "rev xs = takeWhile P (rev xs) @ dropWhile P (rev xs)" by simp
  then have "xs = rev (dropWhile P (rev xs)) @ rev (takeWhile P (rev xs))"
    by (metis rev_append rev_rev_ident)
  then show ?thesis unfolding dropWhileEnd_def by blast
qed

lemma last_dropWhileEnd: "dropWhileEnd P xs \<noteq> [] \<Longrightarrow> \<not> P (last (dropWhileEnd P xs))"
  by (induction xs rule: rev_induct) (auto split: if_splits)

lemma hd_dropWhileEnd: "dropWhileEnd P xs \<noteq> [] \<Longrightarrow> hd (dropWhileEnd P xs) = hd xs"
  by (metis dropWhileEnd_prefix hd_append2)

lemma length_last_n [simp]: "length (last_n n xs) = min n (length xs)"
  by (simp add: last_n_def min_def)

lemma last_n_id [simp]: "length xs \<le> n \<Longrightarrow> last_n n xs = xs"
  by (simp add: last_n_def)

lemma length_push_last [bounds_lemmas]: "length (push_last n x xs) \<le> n"
  by (simp add: push_last_def)

lemma push_last_length: "length (push_last n x xs) = min n (Suc (length xs))"
  by (simp add: push_last_def)

lemma last_push_last: "0 < n \<Longrightarrow> push_last n x xs \<noteq> [] \<and> last (push_last n x xs) = x"
  by (simp add: push_last_def last_n_def last_drop)

lemma set_last_n: "set (last_n n xs) \<subseteq> set xs"
  by (simp add: last_n_def set_drop_subset)

lemma last_n_last_n: "n \<le> m \<Longrightarrow> last_n n (last_n m xs) = last_n n xs"
  by (auto simp: last_n_def intro: arg_cong [where f = "\<lambda>k. drop k xs"])

lemma last_n_append1: "last_n (Suc n) (xs @ [x]) = last_n n xs @ [x]"
  by (simp add: last_n_def)

lemma push_last_last_n: "push_last n x (last_n n xs) = last_n n (xs @ [x])"
  by (cases n) (simp_all add: push_last_def last_n_append1 last_n_last_n, simp_all add: last_n_def)

section \<open>UTF-8\<close>

lemma of_char_less_256 [simp]: "(of_char c :: nat) < 256"
  by (rule nat_of_char_less_256)

lemma utf8_size_le: "utf8_size s \<le> length s"
  by (cases s) (auto simp: Let_def split: list.splits)

lemma utf8_size_ascii [simp]: "(of_char a :: nat) < 128 \<Longrightarrow> utf8_size (a # s) = 1"
  by (simp add: Let_def)

declare utf8_size.simps(2) [simp del]

lemma utf8_chunks_Nil [simp]: "utf8_chunks [] = []"
  by simp

lemma utf8_chunks_ascii [simp]:
  "(of_char a :: nat) < 128 \<Longrightarrow> utf8_chunks (a # s) = (of_char a, [a]) # utf8_chunks s"
  by (simp add: Let_def)

lemma concat_utf8_chunks [simp]: "concat (map snd (utf8_chunks s)) = s"
proof (induction s rule: utf8_chunks.induct)
  case 1
  then show ?case by simp
next
  case (2 a s)
  show ?case
  proof (cases "utf8_size (a # s) = 0")
    case True
    with "2.IH"(1) [OF refl] show ?thesis by (simp add: Let_def)
  next
    case False
    then have "concat (map snd (utf8_chunks (a # s)))
        = take (utf8_size (a # s)) (a # s) @ drop (utf8_size (a # s)) (a # s)"
      using "2.IH"(2) [OF refl] by (simp add: Let_def del: append_take_drop_id)
    then show ?thesis by (simp del: utf8_chunks.simps)
  qed
qed

declare utf8_chunks.simps(2) [simp del]

lemma utf8_chunks_ascii_list: "is_ascii s \<Longrightarrow> utf8_chunks s = map (\<lambda>c. (of_char c, [c])) s"
  by (induction s) (auto simp: is_ascii_def)

lemma utf8_chunk_nonempty: "p \<in> set (utf8_chunks s) \<Longrightarrow> snd p \<noteq> []"
proof (induction s rule: utf8_chunks.induct)
  case 1
  then show ?case by simp
next
  case (2 a s)
  then show ?case
    by (cases "utf8_size (a # s) = 0") (auto simp: utf8_chunks.simps(2) Let_def)
qed

lemma is_ascii_simps [simp]:
  "is_ascii []"
  "is_ascii (c # s) \<longleftrightarrow> (of_char c :: nat) < 128 \<and> is_ascii s"
  "is_ascii (s @ t) \<longleftrightarrow> is_ascii s \<and> is_ascii t"
  by (auto simp: is_ascii_def)

lemma of_char_eq_iff_char_of: "(of_char c :: nat) = 32 \<longleftrightarrow> c = CHR '' ''"
proof
  assume "(of_char c :: nat) = 32"
  then have "char_of (of_char c :: nat) = char_of (32 :: nat)" by (simp only:)
  then have "c = char_of (32 :: nat)" by (simp only: char_of_char)
  moreover have "char_of (32 :: nat) = CHR '' ''" by code_simp
  ultimately show "c = CHR '' ''" by simp
qed simp

lemma rune_is_space_of_char:
  "(of_char c :: nat) < 128 \<Longrightarrow> rune_is_space (of_char c) \<longleftrightarrow> char_is_space c"
  by (auto simp: rune_is_space_def char_is_space_def byte_in_def of_char_eq_iff_char_of)

lemma TrimSpace_ascii:
  assumes "is_ascii s"
  shows "TrimSpace s = dropWhileEnd char_is_space (dropWhile char_is_space s)"
proof -
  let ?f = "\<lambda>c. (of_char c :: nat, [c])"
  have eq: "\<forall>c \<in> set s. rune_is_space (fst (?f c)) = char_is_space c"
    using assms by (auto simp: is_ascii_def rune_is_space_of_char)
  have 1: "dropWhile (\<lambda>p. rune_is_space (fst p)) (map ?f s) = map ?f (dropWhile char_is_space s)"
    using eq by (simp add: dropWhile_map comp_def cong: dropWhile_cong)
  have "\<forall>c \<in> set (rev (dropWhile char_is_space s)). rune_is_space (of_char c) = char_is_space c"
    using eq by (auto dest: set_dropWhileD)
  then have "dropWhile (\<lambda>c. rune_is_space (of_char c)) (rev (dropWhile char_is_space s))
      = dropWhile char_is_space (rev (dropWhile char_is_space s))"
    by (intro dropWhile_cong) auto
  then have 2: "dropWhileEnd (\<lambda>p. rune_is_space (fst p)) (map ?f (dropWhile char_is_space s))
      = map ?f (dropWhileEnd char_is_space (dropWhile char_is_space s))"
    by (simp add: dropWhileEnd_map dropWhileEnd_def rev_map dropWhile_map comp_def cong: dropWhile_cong)
  have "concat (map snd (map ?f xs)) = xs" for xs :: string
    by (induction xs) auto
  then show ?thesis
    using 1 2 assms by (simp add: TrimSpace_def utf8_chunks_ascii_list)
qed

text \<open>Decoding what was encoded: a well-formed sequence is the encoding of its value.\<close>

lemma sextets2:
  "y < 64 \<Longrightarrow> (x * 64 + y) div 64 = x \<and> (x * 64 + y) mod 64 = (y :: nat)"
  by simp

lemma utf8_size_cases:
  assumes "utf8_size (a # t) = n" "n \<noteq> 0"
  obtains (one) "(of_char a :: nat) < 128" "n = 1"
  | (two) b v where "t = b # v" "194 \<le> (of_char a :: nat)" "(of_char a :: nat) \<le> 223" "cont_byte b" "n = 2"
  | (three) b c v where "t = b # c # v" "224 \<le> (of_char a :: nat)" "(of_char a :: nat) \<le> 239"
      "byte_in b (if (of_char a :: nat) = 224 then 160 else 128) (if (of_char a :: nat) = 237 then 159 else 191)"
      "cont_byte c" "n = 3"
  | (four) b c d v where "t = b # c # d # v" "240 \<le> (of_char a :: nat)" "(of_char a :: nat) \<le> 244"
      "byte_in b (if (of_char a :: nat) = 240 then 144 else 128) (if (of_char a :: nat) = 244 then 143 else 191)"
      "cont_byte c" "cont_byte d" "n = 4"
proof -
  define x :: nat where "x = of_char a"
  have eq: "utf8_size (a # t) =
     (if x < 128 then 1
      else if 194 \<le> x \<and> x \<le> 223 then (case t of b # _ \<Rightarrow> if cont_byte b then 2 else 0 | [] \<Rightarrow> 0)
      else if 224 \<le> x \<and> x \<le> 239 then
        (case t of b # c # _ \<Rightarrow>
           (if byte_in b (if x = 224 then 160 else 128) (if x = 237 then 159 else 191)
               \<and> cont_byte c then 3 else 0) | _ \<Rightarrow> 0)
      else if 240 \<le> x \<and> x \<le> 244 then
        (case t of b # c # d # _ \<Rightarrow>
           (if byte_in b (if x = 240 then 144 else 128) (if x = 244 then 143 else 191)
               \<and> cont_byte c \<and> cont_byte d then 4 else 0) | _ \<Rightarrow> 0)
      else 0)"
    by (simp only: utf8_size.simps(2) Let_def x_def)
  consider "x < 128" | "194 \<le> x \<and> x \<le> 223" | "224 \<le> x \<and> x \<le> 239" | "240 \<le> x \<and> x \<le> 244"
    | "\<not> x < 128" "\<not> (194 \<le> x \<and> x \<le> 223)" "\<not> (224 \<le> x \<and> x \<le> 239)" "\<not> (240 \<le> x \<and> x \<le> 244)"
    by blast
  then show thesis
  proof cases
    case 1
    with eq assms one show thesis by (simp add: x_def)
  next
    case 2
    with eq assms two show thesis by (cases t) (auto simp: x_def split: if_splits)
  next
    case 3
    with eq assms have "utf8_size (a # t) = n" "n \<noteq> 0" "\<not> x < 128" "\<not> (194 \<le> x \<and> x \<le> 223)" by auto
    then obtain b c v where "t = b # c # v"
      using eq 3 by (cases t; cases "tl t") auto
    with eq assms 3 three show thesis by (auto simp: x_def split: if_splits)
  next
    case 4
    then have "\<not> x < 128" "\<not> (194 \<le> x \<and> x \<le> 223)" "\<not> (224 \<le> x \<and> x \<le> 239)" by auto
    moreover from this obtain b c d v where "t = b # c # d # v"
      using eq 4 assms by (cases t; cases "tl t"; cases "tl (tl t)") auto
    ultimately show thesis using eq assms 4 four by (auto simp: x_def split: if_splits)
  next
    case 5
    with eq assms show thesis by simp
  qed
qed

lemma mod_block:
  assumes "k * m \<le> x" "x < k * m + (m :: nat)"
  shows "x mod m = x - k * m"
proof -
  have "x mod m = (x - k * m + k * m) mod m" using assms by simp
  also have "\<dots> = (x - k * m) mod m" by (rule mod_mult_self1)
  also have "\<dots> = x - k * m" using assms by simp
  finally show ?thesis .
qed

lemma encode_two:
  fixes x y :: nat
  assumes "194 \<le> x" "x \<le> 223" "128 \<le> y" "y \<le> 191"
  shows "encode_rune ((x mod 32) * 64 + y mod 64) = [char_of x, char_of y]"
proof -
  define X Y where "X = x - 192" and "Y = y - 128"
  then have XY: "x = 192 + X" "y = 128 + Y"
    using assms by simp_all
  then have m: "x mod 32 = X" "y mod 64 = Y" "Y < 64" "2 \<le> X" "X < 32"
    using assms mod_block [of 6 32 x] mod_block [of 2 64 y] by simp_all
  then show ?thesis
    using sextets2 [of Y X] by (simp add: encode_rune_def XY)
qed

lemma encode_three:
  fixes x y z :: nat
  assumes "224 \<le> x" "x \<le> 239" "128 \<le> y" "y \<le> 191" "128 \<le> z" "z \<le> 191"
    and "x = 224 \<longrightarrow> 160 \<le> y" "x = 237 \<longrightarrow> y \<le> 159"
  shows "encode_rune ((x mod 16) * 4096 + (y mod 64) * 64 + z mod 64) = [char_of x, char_of y, char_of z]"
proof -
  define X Y Z where "X = x - 224" and "Y = y - 128" and "Z = z - 128"
  then have XYZ: "x = 224 + X" "y = 128 + Y" "z = 128 + Z"
    using assms by simp_all
  then have m: "x mod 16 = X" "y mod 64 = Y" "z mod 64 = Z" "Y < 64" "Z < 64" "X < 16"
    "X = 0 \<longrightarrow> 32 \<le> Y" "X = 13 \<longrightarrow> Y < 32"
    using assms mod_block [of 14 16 x] mod_block [of 2 64 y] mod_block [of 2 64 z] by auto
  define r where "r = (X * 64 + Y) * 64 + Z"
  have r1: "r div 64 = X * 64 + Y" "r mod 64 = Z"
    unfolding r_def using sextets2 [OF m(5)] by blast+
  have r2: "(X * 64 + Y) div 64 = X" "(X * 64 + Y) mod 64 = Y"
    using sextets2 [OF m(4)] by blast+
  have d: "r div 4096 = r div 64 div 64"
    using div_mult2_eq [of r 64 64] by simp
  have r: "r div 64 = X * 64 + Y" "r mod 64 = Z" "r div 4096 = X" "r div 64 mod 64 = Y"
    by (simp_all only: d r1 r2)
  have rr: "r = X * 4096 + Y * 64 + Z" by (simp add: r_def)
  have "2048 \<le> r" using m(7,8) rr by (cases "X = 0") linarith+
  moreover have "r < 65536" using m(4,5,6) rr by linarith
  moreover have "\<not> (55296 \<le> r \<and> r \<le> 57343)"
  proof -
    consider "X \<le> 12" | "X = 13" | "14 \<le> X" by linarith
    then show ?thesis using m(4,5,8) rr by cases linarith+
  qed
  ultimately have "2048 \<le> r" "r < 65536" "\<not> (55296 \<le> r \<and> r \<le> 57343)" by blast+
  then have "encode_rune r = [char_of x, char_of y, char_of z]"
    using r by (auto simp: encode_rune_def XYZ)
  moreover have "(x mod 16) * 4096 + (y mod 64) * 64 + z mod 64 = r" by (simp add: m r_def)
  ultimately show ?thesis by simp
qed

lemma encode_four:
  fixes x y z w :: nat
  assumes "240 \<le> x" "x \<le> 244" "128 \<le> y" "y \<le> 191" "128 \<le> z" "z \<le> 191" "128 \<le> w" "w \<le> 191"
    and "x = 240 \<longrightarrow> 144 \<le> y" "x = 244 \<longrightarrow> y \<le> 143"
  shows "encode_rune ((x mod 8) * 262144 + (y mod 64) * 4096 + (z mod 64) * 64 + w mod 64)
    = [char_of x, char_of y, char_of z, char_of w]"
proof -
  define X Y Z W where "X = x - 240" and "Y = y - 128" and "Z = z - 128" and "W = w - 128"
  then have XYZ: "x = 240 + X" "y = 128 + Y" "z = 128 + Z" "w = 128 + W"
    using assms by simp_all
  then have m: "x mod 8 = X" "y mod 64 = Y" "z mod 64 = Z" "w mod 64 = W" "Y < 64" "Z < 64" "W < 64"
    "X \<le> 4" "X = 0 \<longrightarrow> 16 \<le> Y" "X = 4 \<longrightarrow> Y < 16"
    using assms mod_block [of 30 8 x] mod_block [of 2 64 y] mod_block [of 2 64 z] mod_block [of 2 64 w]
    by auto
  define r where "r = ((X * 64 + Y) * 64 + Z) * 64 + W"
  have r1: "r div 64 = (X * 64 + Y) * 64 + Z" "r mod 64 = W"
    unfolding r_def using sextets2 [OF m(7)] by blast+
  have r2: "((X * 64 + Y) * 64 + Z) div 64 = X * 64 + Y" "((X * 64 + Y) * 64 + Z) mod 64 = Z"
    using sextets2 [OF m(6)] by blast+
  have r3: "(X * 64 + Y) div 64 = X" "(X * 64 + Y) mod 64 = Y"
    using sextets2 [OF m(5)] by blast+
  have d: "r div 4096 = r div 64 div 64" "r div 262144 = r div 4096 div 64"
    using div_mult2_eq [of r 64 64] div_mult2_eq [of r 4096 64] by simp_all
  have r: "r div 64 = (X * 64 + Y) * 64 + Z" "r mod 64 = W" "r div 64 mod 64 = Z"
      "r div 4096 = X * 64 + Y" "r div 4096 mod 64 = Y" "r div 262144 = X"
    by (simp_all only: d r1 r2 r3)
  have rr: "r = X * 262144 + Y * 4096 + Z * 64 + W" by (simp add: r_def)
  have "65536 \<le> r"
  proof (cases "X = 0")
    case True
    with m(9) have "16 \<le> Y" by simp
    with rr show ?thesis by linarith
  next
    case False
    then have "1 \<le> X" by simp
    with rr show ?thesis by linarith
  qed
  moreover have "r \<le> 1114111"
  proof (cases "X = 4")
    case True
    with m(10) have "Y \<le> 15" by simp
    with True m(6,7) rr show ?thesis by linarith
  next
    case False
    with m(8) have "X \<le> 3" by simp
    with m(5,6,7) rr show ?thesis by linarith
  qed
  ultimately have "65536 \<le> r" "r \<le> 1114111" by blast+
  then have "encode_rune r = [char_of x, char_of y, char_of z, char_of w]"
    using r by (auto simp: encode_rune_def XYZ)
  moreover have "(x mod 8) * 262144 + (y mod 64) * 4096 + (z mod 64) * 64 + w mod 64 = r"
    by (simp add: m r_def)
  ultimately show ?thesis by simp
qed

lemma utf8_encode_value:
  assumes "utf8_size s = n" "n \<noteq> 0"
  shows "encode_rune (utf8_value (take n s)) = take n s"
proof (cases s)
  case Nil
  with assms show ?thesis by simp
next
  case (Cons a t)
  from assms have "utf8_size (a # t) = n" "n \<noteq> 0" by (auto simp: Cons)
  then show ?thesis
  proof (cases rule: utf8_size_cases)
    case one
    with Cons show ?thesis by (simp add: encode_rune_def)
  next
    case (two b v)
    then have "encode_rune (utf8_value [a, b]) = [char_of (of_char a :: nat), char_of (of_char b :: nat)]"
      unfolding utf8_value.simps by (intro encode_two) (auto simp: cont_byte_def byte_in_def)
    with two Cons show ?thesis by simp
  next
    case (three b c v)
    then have "encode_rune (utf8_value [a, b, c])
        = [char_of (of_char a :: nat), char_of (of_char b :: nat), char_of (of_char c :: nat)]"
      unfolding utf8_value.simps
      by (intro encode_three) (auto simp only: cont_byte_def byte_in_def split: if_splits)
    with three Cons show ?thesis by simp
  next
    case (four b c d v)
    then have "encode_rune (utf8_value [a, b, c, d])
        = [char_of (of_char a :: nat), char_of (of_char b :: nat), char_of (of_char c :: nat),
           char_of (of_char d :: nat)]"
      unfolding utf8_value.simps
      by (intro encode_four) (auto simp only: cont_byte_def byte_in_def split: if_splits)
    with four Cons show ?thesis by simp
  qed
qed

lemma encode_runes_valid:
  "valid_utf8 s \<Longrightarrow> encode_runes (runes s) = s"
proof (induction s rule: utf8_chunks.induct)
  case 1
  then show ?case by (simp add: runes_def encode_runes_def)
next
  case (2 a s)
  have n: "utf8_size (a # s) \<noteq> 0" and v: "valid_utf8 (drop (utf8_size (a # s)) (a # s))"
    using "2.prems" by (auto simp: Let_def split: if_splits)
  have "encode_runes (runes (a # s))
      = encode_rune (utf8_value (take (utf8_size (a # s)) (a # s)))
        @ encode_runes (runes (drop (utf8_size (a # s)) (a # s)))"
    using n by (simp add: runes_def encode_runes_def utf8_chunks.simps(2) Let_def del: take_Cons' drop_Cons')
  also have "\<dots> = a # s"
    using "2.IH"(2) [OF refl n v] utf8_encode_value [OF refl n] by (simp only: append_take_drop_id)
  finally show ?case .
qed

section \<open>Trimming\<close>

lemma utf8_size_append:
  assumes "utf8_size t \<noteq> 0"
  shows "utf8_size (t @ u) = utf8_size t"
proof (cases t)
  case Nil
  with assms show ?thesis by simp
next
  case (Cons a v)
  define n where "n = utf8_size (a # v)"
  have "utf8_size (a # v) = n" "n \<noteq> 0" using assms Cons by (simp_all add: n_def)
  then show ?thesis
    by (cases rule: utf8_size_cases) (simp_all add: Cons utf8_size.simps(2) Let_def del: One_nat_def)
qed

lemma utf8_size_take:
  assumes "utf8_size t \<noteq> 0"
  shows "utf8_size (take (utf8_size t) t) = utf8_size t"
proof (cases t)
  case Nil
  with assms show ?thesis by simp
next
  case (Cons a v)
  define n where "n = utf8_size (a # v)"
  have n: "utf8_size (a # v) = n" "n \<noteq> 0" using assms Cons by (simp_all add: n_def)
  then have "utf8_size (take n (a # v)) = n"
    by (cases rule: utf8_size_cases) (auto simp: utf8_size.simps(2) Let_def)
  with n Cons show ?thesis by simp
qed

lemma utf8_chunks_valid: "utf8_size s \<noteq> 0 \<Longrightarrow>
   utf8_chunks s = (utf8_value (take (utf8_size s) s), take (utf8_size s) s) # utf8_chunks (drop (utf8_size s) s)"
  by (cases s) (auto simp: utf8_chunks.simps(2) Let_def)

lemma utf8_chunks_invalid: "utf8_size (a # s) = 0 \<Longrightarrow> utf8_chunks (a # s) = (rune_error, [a]) # utf8_chunks s"
  by (simp add: utf8_chunks.simps(2))

lemma utf8_chunks_suffix:
  "utf8_chunks s = xs @ ys \<Longrightarrow> utf8_chunks (concat (map snd ys)) = ys"
proof (induction s arbitrary: xs rule: utf8_chunks.induct)
  case 1
  then show ?case by simp
next
  case (2 a s)
  show ?case
  proof (cases xs)
    case Nil
    then show ?thesis using "2.prems" concat_utf8_chunks [of "a # s"] by (simp del: concat_utf8_chunks)
  next
    case (Cons x xs')
    show ?thesis
    proof (cases "utf8_size (a # s) = 0")
      case True
      then have "utf8_chunks s = xs' @ ys" using "2.prems" Cons by (simp add: utf8_chunks_invalid)
      with "2.IH"(1) [OF refl True] show ?thesis by blast
    next
      case False
      then have "utf8_chunks (drop (utf8_size (a # s)) (a # s)) = xs' @ ys"
        using "2.prems" Cons by (simp add: utf8_chunks_valid)
      with "2.IH"(2) [OF refl False] show ?thesis by blast
    qed
  qed
qed

lemma utf8_chunks_prefix:
  "utf8_chunks s = xs @ ys \<Longrightarrow> utf8_chunks (concat (map snd xs)) = xs"
proof (induction s arbitrary: xs rule: utf8_chunks.induct)
  case 1
  then show ?case by simp
next
  case (2 a s)
  show ?case
  proof (cases xs)
    case Nil
    then show ?thesis by simp
  next
    case (Cons x xs')
    show ?thesis
    proof (cases "utf8_size (a # s) = 0")
      case True
      then have s: "utf8_chunks s = xs' @ ys" and x: "x = (rune_error, [a])"
        using "2.prems" Cons by (simp_all add: utf8_chunks_invalid)
      let ?r = "concat (map snd xs')"
      have "a # s = (a # ?r) @ concat (map snd ys)"
        using concat_utf8_chunks [of s] s by simp
      then have "utf8_size (a # ?r) = 0" using True utf8_size_append by metis
      with "2.IH"(1) [OF refl True s] x Cons show ?thesis by (simp add: utf8_chunks_invalid)
    next
      case False
      let ?n = "utf8_size (a # s)"
      have s: "utf8_chunks (drop ?n (a # s)) = xs' @ ys"
        and x: "x = (utf8_value (take ?n (a # s)), take ?n (a # s))"
        using "2.prems" Cons False by (simp_all add: utf8_chunks_valid)
      let ?r = "concat (map snd xs')" and ?h = "take ?n (a # s)"
      have len: "length ?h = ?n" using utf8_size_le [of "a # s"] by simp
      have sz: "utf8_size (?h @ ?r) = ?n"
        using utf8_size_take [OF False] utf8_size_append [of ?h ?r] False by simp
      have "utf8_chunks (?h @ ?r) = x # utf8_chunks ?r"
        using utf8_chunks_valid [of "?h @ ?r"] sz len False x by simp
      moreover have "utf8_chunks ?r = xs'" using "2.IH"(2) [OF refl False s] .
      ultimately show ?thesis using Cons x by simp
    qed
  qed
qed

definition trimmed_chunks :: "string \<Rightarrow> (nat \<times> string) list" where
  "trimmed_chunks s =
     dropWhileEnd (\<lambda>p. rune_is_space (fst p)) (dropWhile (\<lambda>p. rune_is_space (fst p)) (utf8_chunks s))"

lemma TrimSpace_chunks: "utf8_chunks (TrimSpace s) = trimmed_chunks s"
proof -
  let ?P = "\<lambda>p :: nat \<times> string. rune_is_space (fst p)"
  let ?d = "dropWhile ?P (utf8_chunks s)"
  have "utf8_chunks s = takeWhile ?P (utf8_chunks s) @ ?d" by simp
  then have 1: "utf8_chunks (concat (map snd ?d)) = ?d" by (rule utf8_chunks_suffix)
  obtain ys where "?d = dropWhileEnd ?P ?d @ ys" using dropWhileEnd_prefix by metis
  with 1 have "utf8_chunks (concat (map snd ?d)) = dropWhileEnd ?P ?d @ ys" by simp
  then have "utf8_chunks (concat (map snd (dropWhileEnd ?P ?d))) = dropWhileEnd ?P ?d"
    by (rule utf8_chunks_prefix)
  then show ?thesis by (simp add: TrimSpace_def trimmed_chunks_def)
qed

lemma TrimSpace_idem [simp]: "TrimSpace (TrimSpace s) = TrimSpace s"
proof -
  let ?P = "\<lambda>p :: nat \<times> string. rune_is_space (fst p)"
  let ?d = "dropWhile ?P (utf8_chunks s)"
  have "dropWhile ?P (trimmed_chunks s) = trimmed_chunks s"
  proof (rule dropWhile_id)
    show "trimmed_chunks s = [] \<or> \<not> ?P (hd (trimmed_chunks s))"
      unfolding trimmed_chunks_def using hd_dropWhileEnd [of ?P ?d] hd_dropWhile [of ?P "utf8_chunks s"]
      by (metis dropWhileEnd_Nil)
  qed
  moreover have "dropWhileEnd ?P (trimmed_chunks s) = trimmed_chunks s"
    unfolding trimmed_chunks_def using last_dropWhileEnd [of ?P ?d] by (intro dropWhileEnd_id) blast
  ultimately show ?thesis
    by (simp add: TrimSpace_def [of "TrimSpace s"] TrimSpace_chunks) (simp add: TrimSpace_def trimmed_chunks_def)
qed

lemma utf8_chunks_last_ascii:
  assumes "s \<noteq> []" "(of_char (last s) :: nat) < 128"
  shows "\<exists>xs. utf8_chunks s = xs @ [(of_char (last s), [last s])]"
  using assms
proof (induction s rule: utf8_chunks.induct)
  case 1
  then show ?case by simp
next
  case (2 a s)
  show ?case
  proof (cases "utf8_size (a # s) = 0")
    case True
    then have "s \<noteq> []" using "2.prems" by (cases s) auto
    then show ?thesis using "2.IH"(1) [OF refl True] "2.prems" True
      by (auto simp: utf8_chunks_invalid)
  next
    case False
    let ?n = "utf8_size (a # s)"
    show ?thesis
    proof (cases "drop ?n (a # s) = []")
      case False': False
      moreover have "last (drop ?n (a # s)) = last (a # s)" using False' by (meson last_drop length_drop not_less drop_eq_Nil)
      ultimately show ?thesis using "2.IH"(2) [OF refl False] "2.prems" False
        by (auto simp: utf8_chunks_valid)
    next
      case True
      then have len: "length (a # s) = ?n" using utf8_size_le [of "a # s"] by simp
      obtain m where m: "?n = m" by simp
      have "m = 1"
        using m False "2.prems" len
        by (cases rule: utf8_size_cases [OF m]) (auto simp: cont_byte_def byte_in_def)
      with m len have "s = []" by simp
      with "2.prems" show ?thesis by simp
    qed
  qed
qed

lemma TrimSpace_id:
  assumes "s \<noteq> []" "(of_char (hd s) :: nat) < 128" "\<not> char_is_space (hd s)"
    "(of_char (last s) :: nat) < 128" "\<not> char_is_space (last s)"
  shows "TrimSpace s = s"
proof -
  let ?P = "\<lambda>p :: nat \<times> string. rune_is_space (fst p)"
  obtain a t where s: "s = a # t" using assms(1) by (cases s) auto
  obtain xs where xs: "utf8_chunks s = xs @ [(of_char (last s), [last s])]"
    using utf8_chunks_last_ascii [OF assms(1,4)] by blast
  have "dropWhile ?P (utf8_chunks s) = utf8_chunks s"
    using assms(2,3) s by (simp add: rune_is_space_of_char)
  moreover have "dropWhileEnd ?P (utf8_chunks s) = utf8_chunks s"
    using assms(4,5) unfolding xs by (simp add: rune_is_space_of_char)
  ultimately have "TrimSpace s = concat (map snd (utf8_chunks s))" by (simp add: TrimSpace_def)
  then show ?thesis by simp
qed

lemma TrimSpace_Nil [simp]: "TrimSpace [] = []"
  by (simp add: TrimSpace_def)

lemma TrimSpace_space:
  "char_is_space c \<Longrightarrow> TrimSpace (c # s) = TrimSpace s"
proof -
  assume c: "char_is_space c"
  then have a: "(of_char c :: nat) < 128" by (auto simp: char_is_space_def byte_in_def)
  with c show ?thesis by (simp add: TrimSpace_def rune_is_space_of_char)
qed

lemma encode_runes_append: "encode_runes (xs @ ys) = encode_runes xs @ encode_runes ys"
  by (simp add: encode_runes_def)

lemma ReplaceAll_Nil: "ReplaceAll s [] new = s"
  by (induction s) auto

lemma Contains_Nil [simp]: "Contains [] p \<longleftrightarrow> p = []"
  by (simp add: Contains_def)

end
