(* ===== verification/GoPath.thy ===== *)
theory GoPath
  imports GoLemmas
begin

text \<open>
  Go's \<open>path\<close> package on slash-separated strings: \<open>Clean\<close>, \<open>Base\<close>, \<open>Dir\<close> and
  \<open>Join\<close>. \<open>Clean\<close> keeps a stack of path elements; the lemmas say that a cleaned
  rooted path has no empty, \<open>.\<close> or \<open>..\<close> element and that cleaning it again
  changes nothing.
\<close>

definition slash :: char where "slash = CHR ''/''"
definition dot :: string where "dot = ''.''"
definition dotdot :: string where "dotdot = ''..''"

definition rooted :: "string \<Rightarrow> bool" where
  "rooted p \<longleftrightarrow> p \<noteq> [] \<and> hd p = slash"

definition clean_step :: "bool \<Rightarrow> string list \<Rightarrow> string \<Rightarrow> string list" where
  "clean_step r st c =
     (if c = [] \<or> c = dot then st
      else if c = dotdot then
        (if st \<noteq> [] \<and> hd st \<noteq> dotdot then tl st else if r then st else dotdot # st)
      else c # st)"

definition clean_stack :: "string \<Rightarrow> string list" where
  "clean_stack p = fold (\<lambda>c st. clean_step (rooted p) st c) (SplitByte p slash) []"

definition Clean :: "string \<Rightarrow> string" where
  "Clean p =
     (let body = Join (rev (clean_stack p)) [slash] in
      if rooted p then slash # body else if body = [] then dot else body)"

definition Base :: "string \<Rightarrow> string" where
  "Base p =
     (if p = [] then dot
      else (let q = dropWhileEnd (\<lambda>c. c = slash) p;
                b = rev (takeWhile (\<lambda>c. c \<noteq> slash) (rev q))
            in if b = [] then [slash] else b))"

definition Dir :: "string \<Rightarrow> string" where
  "Dir p = Clean (dropWhileEnd (\<lambda>c. c \<noteq> slash) p)"

definition PathJoin :: "string \<Rightarrow> string \<Rightarrow> string" where
  "PathJoin a b = (if a = [] then (if b = [] then [] else Clean b) else Clean (a @ [slash] @ b))"

section \<open>Lemmas\<close>

lemma SplitByte_nonempty [simp]: "SplitByte s c \<noteq> []"
  by (induction s) (auto split: list.splits)

lemma SplitByte_no_sep: "w \<in> set (SplitByte s c) \<Longrightarrow> c \<notin> set w"
  by (induction s arbitrary: w) (auto split: list.splits if_splits)

lemma SplitByte_word: "c \<notin> set w \<Longrightarrow> SplitByte w c = [w]"
  by (induction w) auto

lemma SplitByte_snoc: "SplitByte (s @ [c]) c = SplitByte s c @ [[]]"
proof (induction s)
  case (Cons a s)
  obtain w ws where "SplitByte s c = w # ws" by (cases "SplitByte s c") auto
  then show ?case using Cons by simp
qed simp

lemma SplitByte_append: "c \<notin> set w \<Longrightarrow> SplitByte (w @ c # s) c = w # SplitByte s c"
  by (induction w) auto

lemma SplitByte_Join:
  "ws \<noteq> [] \<Longrightarrow> \<forall>w \<in> set ws. c \<notin> set w \<Longrightarrow> SplitByte (Join ws [c]) c = ws"
  by (induction ws "[c]" rule: Join.induct) (auto simp: SplitByte_word SplitByte_append)

lemma Join_SplitByte: "Join (SplitByte s c) [c] = s"
proof (induction s)
  case Nil
  then show ?case by simp
next
  case (Cons x s)
  then show ?case
    by (cases "SplitByte s c"; cases "tl (SplitByte s c)") auto
qed

definition proper_comp :: "string \<Rightarrow> bool" where
  "proper_comp c \<longleftrightarrow> c \<noteq> [] \<and> c \<noteq> dot \<and> slash \<notin> set c"

fun stack_ok :: "bool \<Rightarrow> string list \<Rightarrow> bool" where
  "stack_ok r [] = True"
| "stack_ok r (c # st) =
     (proper_comp c \<and> (r \<longrightarrow> c \<noteq> dotdot) \<and> (c = dotdot \<longrightarrow> set st \<subseteq> {dotdot}) \<and> stack_ok r st)"

lemma stack_ok_mem: "stack_ok r st \<Longrightarrow> c \<in> set st \<Longrightarrow> proper_comp c \<and> (r \<longrightarrow> c \<noteq> dotdot)"
  by (induction st) auto

lemma stack_ok_append: "stack_ok r (xs @ st) \<Longrightarrow> stack_ok r st"
  by (induction xs) auto

lemma clean_step_ok:
  "stack_ok r st \<Longrightarrow> slash \<notin> set c \<Longrightarrow> stack_ok r (clean_step r st c)"
  by (cases st) (auto simp: clean_step_def proper_comp_def dotdot_def dot_def slash_def)

lemma clean_fold_ok:
  "stack_ok r st \<Longrightarrow> \<forall>c \<in> set cs. slash \<notin> set c
     \<Longrightarrow> stack_ok r (fold (\<lambda>c st. clean_step r st c) cs st)"
  by (induction cs arbitrary: st) (auto simp: clean_step_ok)

lemma clean_stack_ok: "stack_ok (rooted p) (clean_stack p)"
  unfolding clean_stack_def by (rule clean_fold_ok) (auto dest: SplitByte_no_sep)

lemma clean_fold_id:
  "stack_ok r (rev cs @ st) \<Longrightarrow> fold (\<lambda>c st. clean_step r st c) cs st = rev cs @ st"
proof (induction cs arbitrary: st)
  case Nil
  then show ?case by simp
next
  case (Cons c cs)
  have ok: "stack_ok r (c # st)"
    using Cons.prems stack_ok_append [of r "rev cs" "c # st"] by simp
  have "clean_step r st c = c # st"
    using ok by (cases st) (auto simp: clean_step_def proper_comp_def)
  with Cons show ?case by simp
qed

lemma Join_Cons: "Join (w # ws) sep = (if ws = [] then w else w @ sep @ Join ws sep)"
  by (cases ws) auto

lemma Join_slash_empty: "Join ws [slash] = [] \<longleftrightarrow> ws = [] \<or> ws = [[]]"
  by (cases ws) (auto simp: Join_Cons)

lemma Join_hd: "ws \<noteq> [] \<Longrightarrow> hd ws \<noteq> [] \<Longrightarrow> hd (Join ws sep) = hd (hd ws)"
  by (cases ws) (auto simp: Join_Cons)

lemma rooted_Clean [simp]: "rooted (Clean p) \<longleftrightarrow> rooted p"
proof (cases "rooted p")
  case True
  then show ?thesis by (simp add: Clean_def rooted_def Let_def)
next
  case False
  have ok: "stack_ok (rooted p) (clean_stack p)" by (rule clean_stack_ok)
  show ?thesis
  proof (cases "clean_stack p = []")
    case True
    with False show ?thesis by (simp add: Clean_def rooted_def Let_def dot_def slash_def)
  next
    case ne: False
    define w where "w = hd (rev (clean_stack p))"
    have "w \<in> set (clean_stack p)" using ne unfolding w_def by (metis hd_in_set rev_is_Nil_conv set_rev)
    with ok have w: "proper_comp w" by (simp add: stack_ok_mem)
    then have "hd (Join (rev (clean_stack p)) [slash]) = hd w"
      using ne unfolding w_def by (subst Join_hd) (auto simp: proper_comp_def)
    moreover have "hd w \<noteq> slash" using w by (cases w) (auto simp: proper_comp_def)
    ultimately show ?thesis using False w
      by (auto simp: Clean_def rooted_def Let_def dot_def slash_def)
  qed
qed

lemma clean_stack_Clean: "clean_stack (Clean p) = clean_stack p"
proof -
  let ?st = "clean_stack p"
  have ok: "stack_ok (rooted p) (rev (rev ?st) @ [])" using clean_stack_ok by simp
  have nosl: "\<forall>w \<in> set (rev ?st). slash \<notin> set w"
    using stack_ok_mem [OF clean_stack_ok] by (auto simp: proper_comp_def)
  have fold: "fold (\<lambda>c st. clean_step (rooted p) st c) (rev ?st) [] = ?st"
    using clean_fold_id [OF ok] by simp
  show ?thesis
  proof (cases "?st = []")
    case True
    then have "Clean p = (if rooted p then [slash] else dot)" by (simp add: Clean_def)
    then show ?thesis using True
      by (auto simp: clean_stack_def clean_step_def rooted_def dot_def slash_def)
  next
    case False
    then have ne: "rev ?st \<noteq> []" by simp
    have body: "SplitByte (Join (rev ?st) [slash]) slash = rev ?st"
      using ne nosl by (rule SplitByte_Join)
    have "Join (rev ?st) [slash] \<noteq> []"
      using False clean_stack_ok [of p] stack_ok_mem [OF clean_stack_ok, of "[]" p] by (auto simp: Join_slash_empty proper_comp_def)
    then have "SplitByte (Clean p) slash = (if rooted p then [] # rev ?st else rev ?st)"
      using body by (simp add: Clean_def Let_def)
    then show ?thesis
      using fold by (simp add: clean_stack_def [of "Clean p"] clean_step_def)
  qed
qed

theorem Clean_idem: "Clean (Clean p) = Clean p"
  by (simp add: Clean_def [of "Clean p"] clean_stack_Clean) (simp add: Clean_def Let_def)

definition clean_abs :: "string \<Rightarrow> bool" where
  "clean_abs p \<longleftrightarrow> rooted p \<and> Clean p = p"

lemma clean_abs_Clean: "rooted p \<Longrightarrow> clean_abs (Clean p)"
  by (simp add: clean_abs_def Clean_idem)

text \<open>The elements of a clean rooted path are proper names: none is empty, \<open>.\<close> or \<open>..\<close>.\<close>

lemma clean_abs_comps:
  assumes "clean_abs p" "c \<in> set (SplitByte (tl p) slash)" "p \<noteq> [slash]"
  shows "proper_comp c \<and> c \<noteq> dotdot"
proof -
  have r: "rooted p" and eq: "Clean p = p" using assms by (simp_all add: clean_abs_def)
  let ?st = "clean_stack p"
  have tl: "tl p = Join (rev ?st) [slash]" 
  proof -
    have "tl (Clean p) = Join (rev ?st) [slash]" using r by (simp add: Clean_def Let_def)
    then show ?thesis by (simp only: eq)
  qed
  have ne: "rev ?st \<noteq> []"
  proof
    assume "rev ?st = []"
    then have "Clean p = [slash]" using r by (simp add: Clean_def)
    with eq assms(3) show False by simp
  qed
  have "\<forall>w \<in> set (rev ?st). slash \<notin> set w"
    using stack_ok_mem [OF clean_stack_ok] by (auto simp: proper_comp_def)
  then have "SplitByte (tl p) slash = rev ?st" using ne by (simp add: tl SplitByte_Join)
  with assms(2) r show ?thesis using stack_ok_mem [OF clean_stack_ok [of p]] by auto
qed

lemma clean_abs_PathJoin: "rooted a \<Longrightarrow> clean_abs (PathJoin a b)"
  by (auto simp: PathJoin_def rooted_def intro!: clean_abs_Clean)

end
