(* ===== verification/ShellLexer.thy ===== *)
theory ShellLexer
  imports GoPath
begin

text \<open>
  The lexical layer of the virtual shell (\<open>internal/server/trap_ssh_shell.go\<close>,
  \<open>trap_ssh_unix_semantics.go\<close>): splitting a line into a chain of commands, a command
  into pipeline stages, a stage into words and redirections, and peeling groups and
  assignments. Every scanner of the code is a loop over bytes (or runes) with a small
  state; here each is a recursion over the rest of the input with the same state.
\<close>

section \<open>Names\<close>

text \<open>
  A name is read rune by rune; every accepted rune is ASCII, so a byte of a longer rune
  is rejected just as the rune is.
\<close>

definition env_char :: "bool \<Rightarrow> char \<Rightarrow> bool" where
  "env_char first r \<longleftrightarrow> is_letter r \<or> r = CHR ''_'' \<or> (\<not> first \<and> is_digit r)"

definition validVirtualEnvName :: "string \<Rightarrow> bool" where
  "validVirtualEnvName v = (case v of [] \<Rightarrow> False | c # s \<Rightarrow> env_char True c \<and> list_all (env_char False) s)"

section \<open>Command chains\<close>

record chainPart =
  before :: string
  command :: string
  background :: bool

record chainState =
  cs_out :: "chainPart list"
  cs_b :: string
  cs_word :: string
  cs_quote :: "char option"
  cs_escaped :: bool
  cs_paren :: nat
  cs_brace :: nat
  cs_case :: nat
  cs_if :: nat
  cs_loop :: nat
  cs_before :: string

definition chain_init :: chainState where
  "chain_init = \<lparr>cs_out = [], cs_b = [], cs_word = [], cs_quote = None, cs_escaped = False,
     cs_paren = 0, cs_brace = 0, cs_case = 0, cs_if = 0, cs_loop = 0, cs_before = []\<rparr>"

definition processWord :: "chainState \<Rightarrow> chainState" where
  "processWord st =
     (let w = TrimSpace (cs_word st); st = st\<lparr>cs_word := []\<rparr> in
      if w = ''case'' then st\<lparr>cs_case := cs_case st + 1\<rparr>
      else if w = ''esac'' then st\<lparr>cs_case := cs_case st - 1\<rparr>
      else if w = ''if'' then st\<lparr>cs_if := cs_if st + 1\<rparr>
      else if w = ''fi'' then st\<lparr>cs_if := cs_if st - 1\<rparr>
      else if w = ''for'' \<or> w = ''while'' \<or> w = ''until'' then st\<lparr>cs_loop := cs_loop st + 1\<rparr>
      else if w = ''done'' then st\<lparr>cs_loop := cs_loop st - 1\<rparr>
      else st)"

definition chain_flush :: "string \<Rightarrow> chainState \<Rightarrow> chainState" where
  "chain_flush nxt st0 =
     (let st = processWord st0; cmd = TrimSpace (cs_b st) in
      (if cmd \<noteq> [] then
         st\<lparr>cs_out := cs_out st @ [\<lparr>before = cs_before st, command = cmd, background = False\<rparr>],
            cs_before := nxt, cs_b := []\<rparr>
       else st\<lparr>cs_b := []\<rparr>))"

definition set_last_background :: "chainPart list \<Rightarrow> chainPart list" where
  "set_last_background ps = (if ps = [] then [] else butlast ps @ [(last ps)\<lparr>background := True\<rparr>])"

definition in_construct :: "chainState \<Rightarrow> bool" where
  "in_construct st \<longleftrightarrow> cs_case st > 0 \<or> cs_if st > 0 \<or> cs_loop st > 0"

definition put_b :: "string \<Rightarrow> chainState \<Rightarrow> chainState" where
  "put_b s st = st\<lparr>cs_b := cs_b st @ s\<rparr>"

definition bump_delims :: "char \<Rightarrow> chainState \<Rightarrow> chainState" where
  "bump_delims c st =
     (if c = CHR ''('' then st\<lparr>cs_paren := cs_paren st + 1\<rparr>
      else if c = CHR '')'' then st\<lparr>cs_paren := cs_paren st - 1\<rparr>
      else if c = CHR ''{'' then st\<lparr>cs_brace := cs_brace st + 1\<rparr>
      else if c = CHR ''}'' then st\<lparr>cs_brace := cs_brace st - 1\<rparr>
      else st)"

text \<open>
  A byte outside quotes, parentheses and braces. The result says whether the byte after it
  was consumed too (the second byte of \<open>&&\<close> and \<open>||\<close>). \<open>prev\<close> is
  \<open>line[i-1]\<close> and \<open>rest\<close> is \<open>line[i+1:]\<close>.
\<close>

definition chain_open :: "char option \<Rightarrow> char \<Rightarrow> string \<Rightarrow> chainState \<Rightarrow> chainState \<times> bool" where
  "chain_open prev c rest st =
     (if c = CHR '' '' \<or> c = CHR 0x09 \<or> c = CHR 0x0A \<or> c = CHR 0x0D then
        (put_b [c] (processWord st), False)
      else if c = CHR '';'' then
        (let st = processWord st in
         if in_construct st then (put_b [c] st, False) else (chain_flush '';'' st, False))
      else if c = CHR ''&'' \<and> rest \<noteq> [] \<and> hd rest = CHR ''&'' then
        (let st = processWord st in
         if in_construct st then (put_b ''&&'' st, True) else (chain_flush ''&&'' st, True))
      else if c = CHR ''|'' \<and> rest \<noteq> [] \<and> hd rest = CHR ''|'' then
        (let st = processWord st in
         if in_construct st then (put_b ''||'' st, True) else (chain_flush ''||'' st, True))
      else if c = CHR ''&'' \<and> \<not> ((rest \<noteq> [] \<and> hd rest = CHR ''>'') \<or> prev = Some (CHR ''>'') \<or> prev = Some (CHR ''<'')) then
        (let st = processWord st in
         if in_construct st then (put_b [c] st, False)
         else (let st = chain_flush '';'' st in (st\<lparr>cs_out := set_last_background (cs_out st)\<rparr>, False)))
      else if is_letter c \<or> c = CHR ''-'' then
        (put_b [c] (st\<lparr>cs_word := cs_word st @ [c]\<rparr>), False)
      else (put_b [c] (if cs_word st \<noteq> [] then processWord st else st), False))"

definition chain_char :: "char option \<Rightarrow> char \<Rightarrow> string \<Rightarrow> chainState \<Rightarrow> chainState \<times> bool" where
  "chain_char prev c rest st =
     (if cs_escaped st then
        (let st = put_b [c] st;
             st = (if cs_quote st = None then st\<lparr>cs_word := cs_word st @ [c]\<rparr> else st)
         in (st\<lparr>cs_escaped := False\<rparr>, False))
      else if c = CHR 0x5C then (put_b [c] (st\<lparr>cs_escaped := True\<rparr>), False)
      else if cs_quote st \<noteq> None then
        (let st' = put_b [c] st in
         (if Some c = cs_quote st then st'\<lparr>cs_quote := None\<rparr> else st', False))
      else if c = CHR 0x27 \<or> c = CHR 0x22 then (put_b [c] (st\<lparr>cs_quote := Some c\<rparr>), False)
      else
        (let st = bump_delims c st in
         if cs_paren st = 0 \<and> cs_brace st = 0 then chain_open prev c rest st
         else (put_b [c] st, False)))"

function chain_loop :: "char option \<Rightarrow> string \<Rightarrow> chainState \<Rightarrow> chainState" where
  "chain_loop prev [] st = st"
| "chain_loop prev (c # s) st =
     (case chain_char prev c s st of (st', skip) \<Rightarrow>
        if skip then chain_loop (Some (hd s)) (tl s) st' else chain_loop (Some c) s st')"
  by pat_completeness auto
termination
  by (relation "measure (\<lambda>(_, s, _). length s)") auto

definition splitVirtualChain :: "string \<Rightarrow> chainPart list" where
  "splitVirtualChain line = cs_out (chain_flush [] (chain_loop None line chain_init))"

section \<open>Redirections\<close>

text \<open>\<open>None\<close> is the code's \<open>(-1, 0)\<close>; \<open>prev\<close> is the byte before the position \<open>i\<close>.\<close>

fun redirect_loop :: "char \<Rightarrow> bool \<Rightarrow> char option \<Rightarrow> char option \<Rightarrow> bool \<Rightarrow> string \<Rightarrow> nat \<Rightarrow> (nat \<times> nat) option" where
  "redirect_loop op doubled quote prev escaped [] i = None"
| "redirect_loop op doubled quote prev escaped (c # s) i =
     (if escaped then redirect_loop op doubled quote (Some c) False s (Suc i)
      else if c = CHR 0x5C then redirect_loop op doubled quote (Some c) True s (Suc i)
      else if quote \<noteq> None then
        redirect_loop op doubled (if Some c = quote then None else quote) (Some c) False s (Suc i)
      else if c = CHR 0x27 \<or> c = CHR 0x22 then redirect_loop op doubled (Some c) (Some c) False s (Suc i)
      else if c \<noteq> op then redirect_loop op doubled quote (Some c) False s (Suc i)
      else if (\<exists>p. prev = Some p \<and> is_digit p) then redirect_loop op doubled quote (Some c) False s (Suc i)
      else if doubled \<and> s \<noteq> [] \<and> hd s = op then Some (i, 2)
      else Some (i, 1))"

definition findVirtualRedirect :: "string \<Rightarrow> char \<Rightarrow> bool \<Rightarrow> (nat \<times> nat) option" where
  "findVirtualRedirect line op doubled = redirect_loop op doubled None None False line 0"

section \<open>Words\<close>

text \<open>The byte after a backslash that a double-quoted string unescapes.\<close>

definition dquote_escapable :: "char \<Rightarrow> bool" where
  "dquote_escapable n \<longleftrightarrow> n \<in> {CHR ''$'', CHR 0x60, CHR 0x22, CHR 0x5C, CHR 0x0A}"

definition flush_word :: "string list \<Rightarrow> string \<Rightarrow> string list" where
  "flush_word out b = (if b \<noteq> [] then out @ [b] else out)"

fun words_loop :: "string list \<Rightarrow> string \<Rightarrow> char option \<Rightarrow> string \<Rightarrow> string list" where
  "words_loop out b quote [] = flush_word out b"
| "words_loop out b quote (c # s) =
     (if quote = Some (CHR 0x27) then
        (if c = CHR 0x27 then words_loop out b None s else words_loop out (b @ [c]) quote s)
      else if quote = Some (CHR 0x22) then
        (if c = CHR 0x22 then words_loop out b None s
         else if c = CHR 0x5C \<and> s \<noteq> [] then
           (case s of n # s' \<Rightarrow>
              (if dquote_escapable n then words_loop out (b @ [n]) quote s'
               else words_loop out (b @ [CHR 0x5C]) quote s)
            | [] \<Rightarrow> flush_word out b)
         else words_loop out (b @ [c]) quote s)
      else if c = CHR 0x27 \<or> c = CHR 0x22 then words_loop out b (Some c) s
      else if c = CHR 0x5C \<and> s \<noteq> [] then
        (case s of n # s' \<Rightarrow> words_loop out (b @ [n]) quote s' | [] \<Rightarrow> flush_word out b)
      else if c = CHR '' '' \<or> c = CHR 0x09 then words_loop (flush_word out b) [] quote s
      else words_loop out (b @ [c]) quote s)"

definition virtualWords :: "string \<Rightarrow> string list" where
  "virtualWords v = words_loop [] [] None (TrimSpace v)"

section \<open>Redirection of a stage\<close>

record virtualRedirection =
  rd_stdin :: string
  rd_stdout :: string
  rd_append :: bool
  suppressStderr :: bool
  suppressStdout :: bool
  syntaxError :: bool

definition no_redirection :: virtualRedirection where
  "no_redirection = \<lparr>rd_stdin = [], rd_stdout = [], rd_append = False, suppressStderr = False,
     suppressStdout = False, syntaxError = False\<rparr>"

text \<open>One loop \<open>for _, token := range tokens\<close> that marks and removes each token found.\<close>

definition strip_tokens ::
  "(virtualRedirection \<Rightarrow> virtualRedirection) \<Rightarrow> string list \<Rightarrow> string \<times> virtualRedirection \<Rightarrow> string \<times> virtualRedirection" where
  "strip_tokens mark tokens =
     fold (\<lambda>token (line, r). if Contains line token then (ReplaceAll line token [], mark r) else (line, r)) tokens"

definition parseVirtualRedirection :: "string \<Rightarrow> string \<times> virtualRedirection" where
  "parseVirtualRedirection line0 =
     (let (line, r) = strip_tokens (\<lambda>r. r\<lparr>suppressStdout := True, suppressStderr := True\<rparr>)
                        [''&>/dev/null'', ''&> /dev/null''] (line0, no_redirection);
          (line, r) = strip_tokens (\<lambda>r. r\<lparr>suppressStderr := True\<rparr>)
                        [''2>/dev/null'', ''2> /dev/null''] (line, r);
          line = ReplaceAll (ReplaceAll line ''2>&1'' []) ''1>&2'' [];
          (line, r) = strip_tokens (\<lambda>r. r\<lparr>suppressStdout := True\<rparr>)
                        [''1>/dev/null'', ''1> /dev/null'', ''>/dev/null'', ''> /dev/null''] (line, r);
          (stop, line, r) =
            (case findVirtualRedirect line (CHR ''>'') True of
               None \<Rightarrow> (False, line, r)
             | Some (pos, width) \<Rightarrow>
                 (let r = r\<lparr>rd_append := (width = 2)\<rparr>;
                      words = virtualWords (TrimSpace (drop (pos + width) line));
                      head = TrimSpace (take pos line)
                  in if words = [] then (True, head, r\<lparr>syntaxError := True\<rparr>)
                     else (False, head, r\<lparr>rd_stdout := hd words\<rparr>)))
      in if stop then (line, r)
         else (case findVirtualRedirect line (CHR ''<'') False of
                 None \<Rightarrow> (TrimSpace line, r)
               | Some (pos, width) \<Rightarrow>
                   (let words = virtualWords (TrimSpace (drop (pos + width) line));
                        head = TrimSpace (take pos line)
                    in if words = [] then (head, r\<lparr>syntaxError := True\<rparr>)
                       else (TrimSpace head, r\<lparr>rd_stdin := hd words\<rparr>))))"

section \<open>Pipeline stages\<close>

record quoteState =
  q_quote :: "nat option"
  q_escaped :: bool
  q_paren :: nat
  q_brace :: nat

definition quote_init :: quoteState where
  "quote_init = \<lparr>q_quote = None, q_escaped = False, q_paren = 0, q_brace = 0\<rparr>"

text \<open>
  The scanner works on runes (\<open>for _, r := range v\<close> with \<open>WriteRune\<close>): the result's
  strings are re-encoded, so an invalid byte comes out as U+FFFD.
\<close>

definition rune_delims :: "nat \<Rightarrow> quoteState \<Rightarrow> quoteState" where
  "rune_delims r st =
     (if r = 40 then st\<lparr>q_paren := q_paren st + 1\<rparr>
      else if r = 41 then st\<lparr>q_paren := q_paren st - 1\<rparr>
      else if r = 123 then st\<lparr>q_brace := q_brace st + 1\<rparr>
      else if r = 125 then st\<lparr>q_brace := q_brace st - 1\<rparr>
      else st)"

fun split_runes :: "nat \<Rightarrow> quoteState \<Rightarrow> nat list \<Rightarrow> nat list \<Rightarrow> nat list list" where
  "split_runes d st b [] = [b]"
| "split_runes d st b (r # rs) =
     (if q_escaped st then split_runes d (st\<lparr>q_escaped := False\<rparr>) (b @ [r]) rs
      else if r = 92 then split_runes d (st\<lparr>q_escaped := True\<rparr>) (b @ [r]) rs
      else if q_quote st \<noteq> None then
        split_runes d (if Some r = q_quote st then st\<lparr>q_quote := None\<rparr> else st) (b @ [r]) rs
      else if r = 39 \<or> r = 34 then split_runes d (st\<lparr>q_quote := Some r\<rparr>) (b @ [r]) rs
      else
        (let st = rune_delims r st
         in if r = d \<and> q_paren st = 0 \<and> q_brace st = 0 then b # split_runes d st [] rs
            else split_runes d st (b @ [r]) rs))"

definition splitOutsideQuotes :: "string \<Rightarrow> char \<Rightarrow> string list" where
  "splitOutsideQuotes v delim =
     map encode_runes (split_runes (of_char delim) quote_init [] (runes v))"

section \<open>Groups\<close>

fun balanced_loop :: "int \<Rightarrow> int \<Rightarrow> nat option \<Rightarrow> bool \<Rightarrow> nat list \<Rightarrow> bool" where
  "balanced_loop paren brace quote escaped [] = (paren = 0 \<and> brace = 0 \<and> quote = None)"
| "balanced_loop paren brace quote escaped (r # rs) =
     (if escaped then balanced_loop paren brace quote False rs
      else if r = 92 then balanced_loop paren brace quote True rs
      else if quote \<noteq> None then
        balanced_loop paren brace (if Some r = quote then None else quote) False rs
      else if r = 39 \<or> r = 34 then balanced_loop paren brace (Some r) False rs
      else
        (let paren = (if r = 40 then paren + 1 else if r = 41 then paren - 1 else paren);
             brace = (if r = 123 then brace + 1 else if r = 125 then brace - 1 else brace)
         in if paren < 0 \<or> brace < 0 then False else balanced_loop paren brace None False rs))"

definition balancedVirtualDelims :: "string \<Rightarrow> bool" where
  "balancedVirtualDelims v = balanced_loop 0 0 None False (runes v)"

definition unwrapVirtualGroup :: "string \<Rightarrow> string option" where
  "unwrapVirtualGroup raw0 =
     (let raw = TrimSpace raw0; inner = butlast (tl raw) in
      if length raw < 2 then None
      else if hd raw = CHR ''('' \<and> last raw = CHR '')'' \<and> balancedVirtualDelims inner then Some (TrimSpace inner)
      else if hd raw = CHR ''{'' \<and> last raw = CHR ''}'' \<and> balancedVirtualDelims inner
        then Some (TrimSpace (TrimSuffix (TrimSpace inner) '';''))
      else None)"

section \<open>Assignments\<close>

definition splitVirtualAssignment :: "string \<Rightarrow> (string \<times> string) option" where
  "splitVirtualAssignment raw =
     (case IndexByte raw (CHR ''='') of
        None \<Rightarrow> None
      | Some idx \<Rightarrow>
          if idx = 0 then None
          else (let name = TrimSpace (take idx raw) in
                if \<not> validVirtualEnvName name then None
                else if CHR '' '' \<in> set name \<or> CHR 0x09 \<in> set name then None
                else Some (name, TrimSpace (drop (Suc idx) raw))))"

fun unescape_dquoted :: "string \<Rightarrow> string" where
  "unescape_dquoted [] = []"
| "unescape_dquoted [c] = [c]"
| "unescape_dquoted (c # n # s) =
     (if c = CHR 0x5C \<and> n \<in> {CHR ''$'', CHR 0x60, CHR 0x22, CHR 0x5C} then n # unescape_dquoted s
      else c # unescape_dquoted (n # s))"

definition unquoteVirtualAssignmentValue :: "string \<Rightarrow> string" where
  "unquoteVirtualAssignmentValue value0 =
     (let value = TrimSpace value0 in
      if length value < 2 then value
      else if hd value = CHR 0x27 \<and> last value = CHR 0x27 then butlast (tl value)
      else if hd value = CHR 0x22 \<and> last value = CHR 0x22 then unescape_dquoted (butlast (tl value))
      else value)"

text \<open>
  \<open>nextVirtualShellWord\<close> reads one word at \<open>pos\<close>: the word, where it starts and where
  it ends. \<open>word_scan\<close> is its inner loop over the rest of the input and returns the word
  and the number of bytes consumed.
\<close>

definition shell_space :: "char \<Rightarrow> bool" where
  "shell_space c \<longleftrightarrow> c \<in> {CHR '' '', CHR 0x09, CHR 0x0D, CHR 0x0A}"

fun word_scan :: "char option \<Rightarrow> string \<Rightarrow> string \<Rightarrow> nat \<Rightarrow> string \<times> nat" where
  "word_scan quote b [] n = (b, n)"
| "word_scan quote b (c # s) n =
     (if quote = Some (CHR 0x27) then
        (if c = CHR 0x27 then word_scan None b s (n + 1) else word_scan quote (b @ [c]) s (n + 1))
      else if quote = Some (CHR 0x22) then
        (if c = CHR 0x22 then word_scan None b s (n + 1)
         else (case s of
                 m # s' \<Rightarrow>
                   if c = CHR 0x5C \<and> dquote_escapable m then word_scan quote (b @ [m]) s' (n + 2)
                   else word_scan quote (b @ [c]) s (n + 1)
               | [] \<Rightarrow> word_scan quote (b @ [c]) s (n + 1)))
      else if c = CHR 0x27 \<or> c = CHR 0x22 then word_scan (Some c) b s (n + 1)
      else (case s of
              m # s' \<Rightarrow>
                if c = CHR 0x5C then word_scan quote (b @ [m]) s' (n + 2)
                else if shell_space c then (b, n)
                else word_scan quote (b @ [c]) s (n + 1)
            | [] \<Rightarrow> if shell_space c then (b, n) else word_scan quote (b @ [c]) s (n + 1)))"

definition nextVirtualShellWord :: "string \<Rightarrow> nat \<Rightarrow> (string \<times> nat \<times> nat) option" where
  "nextVirtualShellWord raw pos =
     (let spaces = length (takeWhile shell_space (drop pos raw)); start = pos + spaces in
      if length raw \<le> start then None
      else (case word_scan None [] (drop start raw) 0 of (w, n) \<Rightarrow> Some (w, start, start + n)))"

text \<open>A word that is found starts at or after \<open>pos\<close>, is not empty in the input, and ends inside it.\<close>

lemma word_scan_bounds: "n \<le> snd (word_scan q b s n) \<and> snd (word_scan q b s n) \<le> n + length s"
proof (induction s arbitrary: q b n rule: length_induct)
  case (1 s)
  have IH: "n' \<le> snd (word_scan q' b' s' n')" "snd (word_scan q' b' s' n') \<le> n' + length s'"
    if "length s' < length s" for q' b' s' n' using 1 that by blast+
  show ?case
  proof (cases s)
    case (Cons c t)
    have t: "m \<le> snd (word_scan q' b' t m)" "snd (word_scan q' b' t m) \<le> m + length t" for q' b' m
      using IH [of t] Cons by auto
    show ?thesis
    proof (cases t)
      case Nil
      then show ?thesis by (simp add: Cons)
    next
      case (Cons m u)
      have u: "k \<le> snd (word_scan q' b' u k)" "snd (word_scan q' b' u k) \<le> k + length u" for q' b' k
        using IH [of u] \<open>s = c # t\<close> Cons by auto
      note tm = t [unfolded Cons]
      show ?thesis unfolding \<open>s = c # t\<close> Cons
        by (subst (1 2) word_scan.simps)
          (simp del: word_scan.simps add: order_trans [OF _ tm(1)] order_trans [OF tm(2)]
             order_trans [OF _ u(1)] order_trans [OF u(2)])
    qed
  qed simp
qed

lemma word_scan_progress: "\<not> shell_space c \<Longrightarrow> n < snd (word_scan None b (c # s) n)"
proof -
  assume c: "\<not> shell_space c"
  have lt: "n < snd (word_scan q' b' s' (Suc n))" "n < snd (word_scan q' b' s' (Suc (Suc n)))" for q' b' s'
    using word_scan_bounds [of "Suc n" q' b' s'] word_scan_bounds [of "Suc (Suc n)" q' b' s'] by linarith+
  show ?thesis using c lt by (cases s; subst word_scan.simps(2)) (simp_all del: word_scan.simps)
qed

lemma nextVirtualShellWord_bounds:
  assumes "nextVirtualShellWord raw pos = Some (w, start, stop)"
  shows "pos \<le> start \<and> start < stop \<and> stop \<le> length raw"
proof -
  define k where "k = length (takeWhile shell_space (drop pos raw))"
  have st: "start = pos + k" and lt: "start < length raw"
    and stop: "stop = start + snd (word_scan None [] (drop start raw) 0)"
    using assms by (auto simp: nextVirtualShellWord_def k_def Let_def split: if_splits prod.splits)
  have "k < length (drop pos raw)" using st lt by simp
  then have ns: "\<not> shell_space (drop pos raw ! k)" unfolding k_def by (rule nth_length_takeWhile)
  have d: "drop start raw = (drop pos raw ! k) # drop (Suc start) raw"
    using st lt Cons_nth_drop_Suc [of start raw] by (simp add: nth_drop)
  then have "0 < snd (word_scan None [] (drop start raw) 0)"
    using word_scan_progress [OF ns, of 0 "[]" "drop (Suc start) raw"] by simp
  moreover have "snd (word_scan None [] (drop start raw) 0) \<le> length (drop start raw)"
    using word_scan_bounds [of 0 None "[]" "drop start raw"] by simp
  ultimately show ?thesis using st stop lt by simp
qed

function env_prefix_loop :: "string \<Rightarrow> nat \<Rightarrow> (string \<times> string) list \<Rightarrow> string \<times> (string \<times> string) list" where
  "env_prefix_loop raw pos assigns =
     (case nextVirtualShellWord raw pos of
        None \<Rightarrow> (if assigns \<noteq> [] then ([], assigns) else (raw, []))
      | Some (word, start, stop) \<Rightarrow>
         (case CutByte word (CHR ''='') of (name, val, assignment) \<Rightarrow>
            if \<not> assignment \<or> \<not> validVirtualEnvName name then
              (if assigns = [] then (raw, []) else (TrimSpace (drop start raw), assigns))
            else env_prefix_loop raw stop (assigns @ [(name, val)])))"
  by pat_completeness auto
termination
  by (relation "measure (\<lambda>(raw, pos, _). length raw - pos)") (auto dest!: nextVirtualShellWord_bounds)

declare env_prefix_loop.simps [simp del]

definition virtualCommandEnvPrefix :: "string \<Rightarrow> string \<times> (string \<times> string) list" where
  "virtualCommandEnvPrefix raw = env_prefix_loop raw 0 []"

end
