(* ===== verification/ShellLexerProofs.thy ===== *)
theory ShellLexerProofs
  imports ShellLexer
begin

text \<open>
  What the lexer promises: splitting loses nothing, a rendered chain or word list splits
  back into its parts, positions stay inside the line, a peeled group is balanced.
\<close>

section \<open>Words\<close>

text \<open>A word in single quotes, and a command line of such words.\<close>

definition quote_word :: "string \<Rightarrow> string" where
  "quote_word w = CHR 0x27 # w @ [CHR 0x27]"

definition quote_line :: "string list \<Rightarrow> string" where
  "quote_line ws = Join (map quote_word ws) '' ''"

lemma words_loop_quoted:
  "CHR 0x27 \<notin> set w \<Longrightarrow>
     words_loop out b (Some (CHR 0x27)) (w @ CHR 0x27 # s) = words_loop out (b @ w) None s"
  by (induction w arbitrary: b) auto

lemma words_loop_quote_line:
  "\<forall>w \<in> set ws. w \<noteq> [] \<and> CHR 0x27 \<notin> set w \<Longrightarrow> words_loop out [] None (quote_line ws) = out @ ws"
proof (induction ws arbitrary: out)
  case Nil
  then show ?case by (simp add: quote_line_def flush_word_def)
next
  case (Cons w ws)
  then show ?case
    by (cases ws) (auto simp: quote_line_def quote_word_def words_loop_quoted flush_word_def)
qed

lemma quote_line_ends:
  "ws \<noteq> [] \<Longrightarrow> quote_line ws \<noteq> [] \<and> hd (quote_line ws) = CHR 0x27 \<and> last (quote_line ws) = CHR 0x27"
proof (induction ws)
  case Nil
  then show ?case by simp
next
  case (Cons w ws)
  then show ?case by (cases ws) (auto simp: quote_line_def quote_word_def)
qed

lemma TrimSpace_quote_line: "TrimSpace (quote_line ws) = quote_line ws"
proof (cases "ws = []")
  case True
  then show ?thesis by (simp add: quote_line_def)
next
  case False
  then show ?thesis using quote_line_ends [OF False]
    by (intro TrimSpace_id) (auto simp: char_is_space_def byte_in_def)
qed

text \<open>Quoting words one by one and joining them with blanks is undone by \<open>virtualWords\<close>.\<close>

lemma virtualWords_quote_roundtrip:
  assumes "\<forall>w \<in> set ws. w \<noteq> [] \<and> CHR 0x27 \<notin> set w"
  shows "virtualWords (quote_line ws) = ws"
  using words_loop_quote_line [OF assms, of "[]"] by (simp add: virtualWords_def TrimSpace_quote_line)

theorem virtualWords_quote_roundtrip_witness:
  "virtualWords (quote_line [''sh'', ''-c'', ''id; uname'']) = [''sh'', ''-c'', ''id; uname'']"
  by (rule virtualWords_quote_roundtrip) simp

section \<open>Pipeline stages\<close>

fun join_runes :: "nat \<Rightarrow> nat list list \<Rightarrow> nat list" where
  "join_runes d [] = []"
| "join_runes d [x] = x"
| "join_runes d (x # xs) = x @ d # join_runes d xs"

lemma split_runes_nonempty [simp]: "split_runes d st b rs \<noteq> []"
  by (induction d st b rs rule: split_runes.induct) (auto simp: Let_def)

lemma join_runes_Cons: "xs \<noteq> [] \<Longrightarrow> join_runes d (x # xs) = x @ d # join_runes d xs"
  by (cases xs) auto

lemma join_split_runes: "join_runes d (split_runes d st b rs) = b @ rs"
  by (induction d st b rs rule: split_runes.induct) (auto simp: Let_def join_runes_Cons)

lemma Join_encode_runes:
  "Join (map encode_runes xss) (encode_runes [d]) = encode_runes (join_runes d xss)"
  by (induction d xss rule: join_runes.induct) (auto simp: encode_runes_def)

text \<open>Joining the stages of a pipeline with the delimiter gives the line back.\<close>

lemma splitOutsideQuotes_lossless:
  assumes "(of_char delim :: nat) < 128"
  shows "Join (splitOutsideQuotes v delim) [delim] = encode_runes (runes v)"
proof -
  have "encode_runes [of_char delim] = [delim]"
    using assms by (simp add: encode_runes_def encode_rune_def)
  then show ?thesis
    using Join_encode_runes [of "split_runes (of_char delim) quote_init [] (runes v)" "of_char delim"]
    by (simp add: splitOutsideQuotes_def join_split_runes)
qed

theorem splitOutsideQuotes_lossless_witness:
  "Join (splitOutsideQuotes ''cat a|wc'' (CHR ''|'')) ''|'' = encode_runes (runes ''cat a|wc'')"
  by (rule splitOutsideQuotes_lossless) simp

section \<open>Chains\<close>

datatype chain_sep = Semi | Amp | AndAnd | OrOr

fun sep_text :: "chain_sep \<Rightarrow> string" where
  "sep_text Semi = '';''"
| "sep_text Amp = ''&''"
| "sep_text AndAnd = ''&&''"
| "sep_text OrOr = ''||''"

definition sep_before :: "chain_sep \<Rightarrow> string" where
  "sep_before s = (if s = Amp then '';'' else sep_text s)"

text \<open>A chain of quoted command lines, and the parts it stands for.\<close>

fun render_chain :: "string list \<Rightarrow> (chain_sep \<times> string list) list \<Rightarrow> string" where
  "render_chain ws [] = quote_line ws"
| "render_chain ws ((s, ws') # cs) = quote_line ws @ sep_text s @ render_chain ws' cs"

fun chain_parts :: "string \<Rightarrow> string list \<Rightarrow> (chain_sep \<times> string list) list \<Rightarrow> chainPart list" where
  "chain_parts b ws [] = [\<lparr>before = b, command = quote_line ws, background = False\<rparr>]"
| "chain_parts b ws ((s, ws') # cs) =
     \<lparr>before = b, command = quote_line ws, background = (s = Amp)\<rparr> # chain_parts (sep_before s) ws' cs"

definition quotable :: "string \<Rightarrow> bool" where
  "quotable w \<longleftrightarrow> w \<noteq> [] \<and> CHR 0x27 \<notin> set w \<and> CHR 0x5C \<notin> set w"

definition idle_state :: "chainState \<Rightarrow> bool" where
  "idle_state st \<longleftrightarrow> cs_word st = [] \<and> cs_quote st = None \<and> \<not> cs_escaped st \<and> cs_paren st = 0
     \<and> cs_brace st = 0 \<and> cs_case st = 0 \<and> cs_if st = 0 \<and> cs_loop st = 0"

lemma processWord_idle: "idle_state st \<Longrightarrow> processWord st = st"
  by (simp add: idle_state_def processWord_def)

lemma chain_loop_in_quote:
  "CHR 0x27 \<notin> set w \<Longrightarrow> CHR 0x5C \<notin> set w \<Longrightarrow> cs_quote st = Some (CHR 0x27) \<Longrightarrow> \<not> cs_escaped st \<Longrightarrow>
     chain_loop p (w @ CHR 0x27 # s) st =
       chain_loop (Some (CHR 0x27)) s (st\<lparr>cs_b := cs_b st @ w @ [CHR 0x27], cs_quote := None\<rparr>)"
proof (induction w arbitrary: p st)
  case Nil
  then show ?case by (simp add: chain_char_def put_b_def Let_def)
next
  case (Cons c w)
  have c: "c \<noteq> CHR 0x27" "c \<noteq> CHR 0x5C" using Cons.prems by auto
  show ?case
    using Cons.prems c Cons.IH [of "st\<lparr>cs_b := cs_b st @ [c]\<rparr>" "Some c"]
    by (simp add: chain_char_def put_b_def Let_def)
qed

lemma chain_loop_word:
  assumes "quotable w" "idle_state st"
  shows "chain_loop p (quote_word w @ s) st =
           chain_loop (Some (CHR 0x27)) s (st\<lparr>cs_b := cs_b st @ quote_word w\<rparr>)"
proof -
  have "st\<lparr>cs_b := x, cs_quote := None\<rparr> = st\<lparr>cs_b := x\<rparr>" for x
    using assms(2) by (cases st) (simp add: idle_state_def)
  then show ?thesis
    using assms chain_loop_in_quote [of w "st\<lparr>cs_quote := Some (CHR 0x27), cs_b := cs_b st @ [CHR 0x27]\<rparr>"
       "Some (CHR 0x27)" s]
    by (simp add: quote_word_def chain_char_def put_b_def quotable_def idle_state_def Let_def)
qed

lemma idle_state_put: "idle_state (st\<lparr>cs_b := x\<rparr>) = idle_state st"
  by (simp add: idle_state_def)

lemma chain_loop_quote_line:
  assumes "ws \<noteq> []" "\<forall>w \<in> set ws. quotable w" "idle_state st"
  shows "chain_loop p (quote_line ws @ s) st =
           chain_loop (Some (CHR 0x27)) s (st\<lparr>cs_b := cs_b st @ quote_line ws\<rparr>)"
  using assms
proof (induction ws arbitrary: p st)
  case Nil
  then show ?case by simp
next
  case (Cons w ws)
  show ?case
  proof (cases ws)
    case Nil
    then show ?thesis using Cons.prems by (simp add: quote_line_def chain_loop_word)
  next
    case (Cons v vs)
    have line: "quote_line (w # ws) = quote_word w @ '' '' @ quote_line ws"
      using Cons by (simp add: quote_line_def)
    define st1 where "st1 = st\<lparr>cs_b := cs_b st @ quote_word w\<rparr>"
    have idle1: "idle_state st1" using Cons.prems by (simp add: st1_def idle_state_put)
    have blank: "chain_loop q ('' '' @ t) st1 = chain_loop (Some (CHR '' '')) t (st1\<lparr>cs_b := cs_b st1 @ '' ''\<rparr>)"
      for q t using idle1 processWord_idle [OF idle1]
      by (simp add: chain_char_def chain_open_def bump_delims_def put_b_def idle_state_def Let_def)
    have "chain_loop p (quote_line (w # ws) @ s) st
            = chain_loop (Some (CHR 0x27)) ('' '' @ quote_line ws @ s) st1"
      using Cons.prems chain_loop_word [of w st] by (simp add: line st1_def)
    also have "\<dots> = chain_loop (Some (CHR '' '')) (quote_line ws @ s) (st1\<lparr>cs_b := cs_b st1 @ '' ''\<rparr>)"
      by (rule blank)
    also have "\<dots> = chain_loop (Some (CHR 0x27)) s (st\<lparr>cs_b := cs_b st @ quote_line (w # ws)\<rparr>)"
      using Cons.IH [of "st1\<lparr>cs_b := cs_b st1 @ '' ''\<rparr>" "Some (CHR '' '')"] Cons.prems Cons idle1
      unfolding line by (simp add: idle_state_put st1_def)
    finally show ?thesis .
  qed
qed

lemma chain_flush_idle:
  assumes "idle_state st" "cs_b st = quote_line ws" "ws \<noteq> []"
  shows "chain_flush nxt st =
           st\<lparr>cs_out := cs_out st @ [\<lparr>before = cs_before st, command = quote_line ws, background = False\<rparr>],
              cs_before := nxt, cs_b := []\<rparr>"
  using assms quote_line_ends [OF assms(3)]
  by (simp add: chain_flush_def processWord_idle TrimSpace_quote_line Let_def)

lemma chain_loop_sep:
  assumes "idle_state st" "cs_b st = quote_line ws" "ws \<noteq> []"
  shows "\<exists>p. chain_loop (Some (CHR 0x27)) (sep_text sp @ CHR 0x27 # s) st =
           chain_loop p (CHR 0x27 # s)
             (st\<lparr>cs_out := cs_out st @ [\<lparr>before = cs_before st, command = quote_line ws, background = (sp = Amp)\<rparr>],
                 cs_before := sep_before sp, cs_b := []\<rparr>)"
proof -
  have swap: "st\<lparr>cs_before := a, cs_b := b, cs_out := c\<rparr> = st\<lparr>cs_out := c, cs_before := a, cs_b := b\<rparr>" for a b c
    by (cases st) simp
  show ?thesis
    using assms chain_flush_idle [OF assms] processWord_idle [OF assms(1)]
    by (cases sp)
      (auto simp: chain_char_def chain_open_def bump_delims_def idle_state_def in_construct_def
         set_last_background_def sep_before_def swap Let_def)
qed

lemma render_chain_quote: "ws \<noteq> [] \<Longrightarrow> \<exists>s. render_chain ws cs = CHR 0x27 # s"
  by (cases cs; cases ws) (auto simp: quote_line_def quote_word_def Join_Cons)

lemma chain_loop_render:
  assumes "ws \<noteq> []" "\<forall>w \<in> set ws. quotable w" "\<forall>(s, us) \<in> set cs. us \<noteq> [] \<and> (\<forall>w \<in> set us. quotable w)"
    "idle_state st" "cs_b st = []"
  shows "cs_out (chain_flush [] (chain_loop p (render_chain ws cs) st)) = cs_out st @ chain_parts (cs_before st) ws cs"
  using assms
proof (induction cs arbitrary: p ws st)
  case Nil
  then show ?case
    using chain_loop_quote_line [of ws st p "[]"] chain_flush_idle [of "st\<lparr>cs_b := quote_line ws\<rparr>" ws "[]"]
    by (simp add: idle_state_put)
next
  case (Cons c cs)
  obtain sp us where c: "c = (sp, us)" by (cases c)
  define st1 where "st1 = st\<lparr>cs_b := quote_line ws\<rparr>"
  define st2 where "st2 = st1\<lparr>cs_out := cs_out st1 @ [\<lparr>before = cs_before st1, command = quote_line ws,
      background = (sp = Amp)\<rparr>], cs_before := sep_before sp, cs_b := []\<rparr>"
  have idle: "idle_state st1" "idle_state st2" using Cons.prems by (simp_all add: st1_def st2_def idle_state_def)
  have us: "us \<noteq> []" "\<forall>w \<in> set us. quotable w" using Cons.prems(3) by (auto simp: c)
  obtain s where s: "render_chain us cs = CHR 0x27 # s" using render_chain_quote [OF us(1)] by blast
  obtain q where q: "chain_loop (Some (CHR 0x27)) (sep_text sp @ CHR 0x27 # s) st1 = chain_loop q (CHR 0x27 # s) st2"
    using chain_loop_sep [OF idle(1), of ws] Cons.prems(1) by (auto simp: st1_def st2_def)
  have "chain_loop p (render_chain ws (c # cs)) st = chain_loop q (render_chain us cs) st2"
    using chain_loop_quote_line [of ws st p "sep_text sp @ CHR 0x27 # s"] Cons.prems q
    by (simp add: c s st1_def)
  then show ?case
    using Cons.IH [of us st2 q] Cons.prems(3) us idle(2) by (simp add: c st2_def st1_def)
qed

text \<open>C39: a chain of quoted command lines splits into exactly its commands, operators and background marks.\<close>

theorem splitVirtualChain_roundtrip:
  assumes "ws \<noteq> []" "\<forall>w \<in> set ws. quotable w"
    and "\<forall>(s, us) \<in> set cs. us \<noteq> [] \<and> (\<forall>w \<in> set us. quotable w)"
  shows "splitVirtualChain (render_chain ws cs) = chain_parts [] ws cs"
  using chain_loop_render [OF assms, of chain_init] by (simp add: splitVirtualChain_def chain_init_def idle_state_def)

theorem splitVirtualChain_roundtrip_witness:
  "splitVirtualChain (render_chain [''wget'', ''x;y''] [(AndAnd, [''if'']), (Amp, [''sh'']), (Semi, [''id''])])
     = chain_parts [] [''wget'', ''x;y''] [(AndAnd, [''if'']), (Amp, [''sh'']), (Semi, [''id''])]"
  by (rule splitVirtualChain_roundtrip) (simp_all add: quotable_def)

section \<open>Environment prefixes\<close>

text \<open>\<open>NAME='value' \<close> for each assignment, in front of a command.\<close>

definition render_env :: "(string \<times> string) list \<Rightarrow> string" where
  "render_env as = concat (map (\<lambda>(n, v). n @ CHR ''='' # quote_word v @ '' '') as)"

text \<open>A trimmed command whose first word is no assignment.\<close>

definition env_command :: "string \<Rightarrow> bool" where
  "env_command cmd \<longleftrightarrow> cmd \<noteq> [] \<and> TrimSpace cmd = cmd \<and> \<not> shell_space (hd cmd)
     \<and> (case nextVirtualShellWord cmd 0 of
          Some (w, _, _) \<Rightarrow> (case CutByte w (CHR ''='') of (n, _, assignment) \<Rightarrow> \<not> assignment \<or> \<not> validVirtualEnvName n)
        | None \<Rightarrow> False)"

definition word_plain :: "char \<Rightarrow> bool" where
  "word_plain c \<longleftrightarrow> c \<noteq> CHR 0x27 \<and> c \<noteq> CHR 0x22 \<and> c \<noteq> CHR 0x5C \<and> \<not> shell_space c"

lemma word_scan_plain: "word_plain c \<Longrightarrow> word_scan None b (c # s) n = word_scan None (b @ [c]) s (n + 1)"
  by (cases s; subst word_scan.simps(2)) (simp_all del: word_scan.simps add: word_plain_def)

lemma word_scan_plains:
  "\<forall>c \<in> set w. word_plain c \<Longrightarrow> word_scan None b (w @ s) n = word_scan None (b @ w) s (n + length w)"
proof (induction w arbitrary: b n)
  case (Cons c w)
  then show ?case using Cons.IH [of "b @ [c]" "Suc n"] by (simp del: word_scan.simps add: word_scan_plain)
qed simp

lemma word_scan_quoted:
  "CHR 0x27 \<notin> set w \<Longrightarrow>
     word_scan (Some (CHR 0x27)) b (w @ CHR 0x27 # s) n = word_scan None (b @ w) s (n + length w + 1)"
proof (induction w arbitrary: b n)
  case Nil
  show ?case by (subst append_Nil, subst word_scan.simps(2)) (simp del: word_scan.simps)
next
  case (Cons c w)
  moreover have "c \<noteq> CHR 0x27" using Cons.prems by auto
  ultimately show ?case using Cons.IH [of "b @ [c]" "Suc n"]
    by (subst append_Cons, subst word_scan.simps(2)) (simp del: word_scan.simps)
qed

lemma env_char_plain: "env_char f c \<Longrightarrow> word_plain c \<and> c \<noteq> CHR ''=''"
  by (auto simp: env_char_def is_letter_def is_lower_def is_upper_def is_digit_def byte_in_def
      word_plain_def shell_space_def)

lemma env_name_plain:
  assumes "validVirtualEnvName n"
  shows "n \<noteq> []" "\<forall>c \<in> set n. word_plain c" "CHR ''='' \<notin> set n"
  using assms env_char_plain
  by (auto simp: validVirtualEnvName_def list_all_iff split: list.splits)

lemma word_scan_assignment:
  assumes "validVirtualEnvName n" "CHR 0x27 \<notin> set v"
  shows "word_scan None [] (n @ CHR ''='' # quote_word v @ CHR '' '' # s) 0
           = (n @ CHR ''='' # v, length n + length v + 3)"
proof -
  have q: "word_scan None b (CHR 0x27 # t) k = word_scan (Some (CHR 0x27)) b t (k + 1)" for b t k
    by (subst word_scan.simps(2)) (simp del: word_scan.simps)
  have sp: "word_scan None b (CHR '' '' # t) k = (b, k)" for b t k
    by (cases t; subst word_scan.simps(2)) (simp_all del: word_scan.simps add: shell_space_def)
  have eq: "word_plain (CHR ''='')" by (simp add: word_plain_def shell_space_def)
  show ?thesis
    using env_name_plain(2) [OF assms(1)] assms(2) word_scan_quoted [OF assms(2)]
    by (simp del: word_scan.simps add: word_scan_plains word_scan_plain [OF eq] quote_word_def q sp)
qed

lemma nextVirtualShellWord_shift:
  "nextVirtualShellWord raw pos =
     map_option (\<lambda>(w, a, b). (w, pos + a, pos + b)) (nextVirtualShellWord (drop pos raw) 0)"
  by (auto simp: nextVirtualShellWord_def Let_def drop_drop add.commute add.left_commute split: prod.splits)

lemma drop_past: "drop pos raw = sp @ t \<Longrightarrow> drop (pos + length sp) raw = t"
  using drop_drop [of "length sp" pos raw] by (simp add: add.commute)

lemma nextVirtualShellWord_assignment:
  assumes "drop pos raw = sp @ n @ CHR ''='' # quote_word v @ CHR '' '' # s" "list_all shell_space sp"
    and "validVirtualEnvName n" "CHR 0x27 \<notin> set v"
  shows "nextVirtualShellWord raw pos =
    Some (n @ CHR ''='' # v, pos + length sp, pos + length sp + length n + length v + 3)"
proof -
  obtain c m where n: "n = c # m" "\<not> shell_space c"
    using env_name_plain [OF assms(3)] by (cases n) (auto simp: word_plain_def)
  have "takeWhile shell_space (drop pos raw) = sp"
    using assms(1,2) n by (auto simp: list_all_iff takeWhile_append)
  moreover have "drop (pos + length sp) raw = n @ CHR ''='' # quote_word v @ CHR '' '' # s"
    using assms(1) by (rule drop_past)
  moreover have "pos + length sp < length raw"
    using calculation(2) n by (metis append_Cons drop_eq_Nil list.distinct(1) not_le)
  ultimately show ?thesis
    using word_scan_assignment [OF assms(3,4), of s] by (simp add: nextVirtualShellWord_def Let_def)
qed

lemma CutByte_assignment: "c \<notin> set n \<Longrightarrow> CutByte (n @ c # v) c = (n, v, True)"
proof -
  assume "c \<notin> set n"
  then have "IndexByte (n @ c # v) c = Some (length n)" by (induction n) auto
  then show ?thesis by (simp add: CutByte_def)
qed

lemma env_prefix_loop_render:
  assumes "drop pos raw = sp @ render_env as @ cmd" "list_all shell_space sp" "env_command cmd"
    and "\<forall>(n, v) \<in> set as. validVirtualEnvName n \<and> CHR 0x27 \<notin> set v"
    and "acc = [] \<longrightarrow> pos = 0 \<and> sp = []"
  shows "env_prefix_loop raw pos acc = (cmd, acc @ as)"
  using assms
proof (induction as arbitrary: pos sp acc)
  case Nil
  have d: "drop pos raw = sp @ cmd" using Nil.prems by (simp add: render_env_def)
  have tw: "takeWhile shell_space (sp @ cmd) = sp" "takeWhile shell_space cmd = []"
    using Nil.prems(2,3) by (cases cmd; auto simp: env_command_def list_all_iff takeWhile_append)+
  have dl: "drop (pos + length sp) raw = cmd"
    using d by (rule drop_past)
  obtain w n where w: "nextVirtualShellWord cmd 0 = Some (w, 0, n)"
    and cut: "case CutByte w (CHR ''='') of (n, _, assignment) \<Rightarrow> \<not> assignment \<or> \<not> validVirtualEnvName n"
    using Nil.prems(3) tw(2)
    by (auto simp: env_command_def nextVirtualShellWord_def Let_def split: option.splits prod.splits if_splits)
  have "pos + length sp < length raw"
    using dl Nil.prems(3) by (metis drop_eq_Nil env_command_def not_le)
  then have nw: "\<exists>e. nextVirtualShellWord raw pos = Some (w, pos + length sp, e)"
    using w tw d dl Nil.prems(3)
    by (auto simp: nextVirtualShellWord_def Let_def split: prod.splits if_splits)
  show ?case
    using nw cut Nil.prems(3,5) d dl
    by (subst env_prefix_loop.simps) (auto simp: env_command_def split: prod.splits)
next
  case (Cons a as)
  obtain n v where a: "a = (n, v)" by (cases a)
  have nv: "validVirtualEnvName n" "CHR 0x27 \<notin> set v" using Cons.prems(4) by (auto simp: a)
  define e where "e = pos + length sp + length n + length v + 3"
  have d: "drop pos raw = sp @ n @ CHR ''='' # quote_word v @ CHR '' '' # (render_env as @ cmd)"
    using Cons.prems(1) by (simp add: a render_env_def)
  then have nw: "nextVirtualShellWord raw pos = Some (n @ CHR ''='' # v, pos + length sp, e)"
    using nextVirtualShellWord_assignment [OF d Cons.prems(2) nv] by (simp add: e_def)
  have "drop e raw = drop (e - pos) (drop pos raw)" by (simp add: e_def add.commute add.left_commute)
  then have de: "drop e raw = '' '' @ render_env as @ cmd"
    by (simp add: d e_def quote_word_def eval_nat_numeral)
  have "env_prefix_loop raw e (acc @ [(n, v)]) = (cmd, (acc @ [(n, v)]) @ as)"
    by (rule Cons.IH [OF de]) (use Cons.prems in \<open>auto simp: shell_space_def\<close>)
  then show ?case
    using nw CutByte_assignment [OF env_name_plain(3) [OF nv(1)], of v] nv(1)
    by (subst env_prefix_loop.simps) (simp add: a)
qed

text \<open>Assignments in front of a command are peeled exactly, and the command is left as it was written.\<close>

lemma virtualCommandEnvPrefix_roundtrip:
  assumes "\<forall>(n, v) \<in> set as. validVirtualEnvName n \<and> CHR 0x27 \<notin> set v" "env_command cmd"
  shows "virtualCommandEnvPrefix (render_env as @ cmd) = (cmd, as)"
  using env_prefix_loop_render [of 0 "render_env as @ cmd" "[]" as cmd "[]"] assms
  by (simp add: virtualCommandEnvPrefix_def)

theorem virtualCommandEnvPrefix_roundtrip_witness:
  "virtualCommandEnvPrefix (render_env [(''LC_ALL'', ''C''), (''X'', ''a b'')] @ ''awk a'') = (''awk a'', [(''LC_ALL'', ''C''), (''X'', ''a b'')])"
proof (rule virtualCommandEnvPrefix_roundtrip)
  have "TrimSpace ''awk a'' = ''awk a''" by (rule TrimSpace_id) (simp_all add: char_is_space_def byte_in_def)
  moreover have "nextVirtualShellWord ''awk a'' 0 = Some (''awk'', 0, 3)" by code_simp
  moreover have "CutByte ''awk'' (CHR ''='') = (''awk'', [], False)" by code_simp
  ultimately show "env_command ''awk a''" by (simp add: env_command_def shell_space_def)
qed code_simp

end
