(* ===== verification/GoNumbers.thy ===== *)
theory GoNumbers
  imports GoPath
begin

unbundle bit_operations_syntax

text \<open>
  Printing a number and reading it back: \<open>strconv.ParseInt\<close> inverts
  \<open>strconv.FormatInt\<close> in the range of \<open>int64\<close>.
\<close>

definition Atoi :: "string \<Rightarrow> parsed" where
  "Atoi s = ParseInt s 10"

text \<open>\<open>hex.EncodeToString\<close>, and the 32-bit FNV-1a hash of \<open>hash/fnv\<close>.\<close>

definition hex_encode :: "string \<Rightarrow> string" where
  "hex_encode s = concat (map (\<lambda>c. [digit_char (of_char c div 16), digit_char (of_char c mod 16)]) s)"

definition fnv32a :: "string \<Rightarrow> nat" where
  "fnv32a s = foldl (\<lambda>h c. ((h XOR of_char c) * 16777619) mod 2 ^ 32) 2166136261 s"

lemma of_char_digit_char: "d < 36 \<Longrightarrow> (of_char (digit_char d) :: nat) = (if d < 10 then 48 + d else 87 + d)"
  by (simp add: digit_char_def)

lemma digit_value_digit_char: "d < 36 \<Longrightarrow> digit_value (digit_char d) = Some d"
  by (auto simp: digit_value_def is_digit_def is_letter_def is_lower_def is_upper_def ascii_lower_def
      byte_in_def of_char_digit_char)

lemma digit_char_neq: "d < 36 \<Longrightarrow> c \<in> {CHR ''_'', CHR ''+'', CHR ''-''} \<Longrightarrow> digit_char d \<noteq> c"
  using of_char_digit_char [of d] by (auto split: if_splits)

lemma nat_digits_nonempty: "2 \<le> base \<Longrightarrow> nat_digits base n \<noteq> []"
  by (subst nat_digits.simps) simp

lemma set_nat_digits: "2 \<le> base \<Longrightarrow> c \<in> set (nat_digits base n) \<Longrightarrow> \<exists>d < base. c = digit_char d"
proof (induction base n rule: nat_digits.induct)
  case (1 base n)
  show ?case
  proof (cases "n < base")
    case True
    then have "nat_digits base n = [digit_char n]" using 1 by (subst nat_digits.simps) simp
    then show ?thesis using 1 True by auto
  next
    case False
    then have "nat_digits base n = nat_digits base (n div base) @ [digit_char (n mod base)]"
      using 1 by (subst nat_digits.simps) simp
    then consider "c \<in> set (nat_digits base (n div base))" | "c = digit_char (n mod base)"
      using 1 by auto
    then show ?thesis
    proof cases
      case 2
      moreover have "n mod base < base" using 1 by simp
      ultimately show ?thesis by blast
    qed (use 1 False in auto)
  qed
qed

lemma parse_digits_nat_digits:
  "2 \<le> base \<Longrightarrow> base \<le> 36 \<Longrightarrow> n < 2 ^ 64 \<Longrightarrow>
     parse_digits base b (nat_digits base n @ s) 0 = parse_digits base b s n"
proof (induction base n arbitrary: s rule: nat_digits.induct)
  case (1 base n)
  have step: "parse_digits base b (digit_char d # s) m = parse_digits base b s (m * base + d)"
    if "d < base" "m * base + d < 2 ^ 64" for d m s
    using that 1 digit_value_digit_char [of d] digit_char_neq [of d "CHR ''_''"] by simp
  show ?case
  proof (cases "n < base")
    case True
    then show ?thesis using 1 step [of n 0] by (subst nat_digits.simps) simp
  next
    case False
    then have "n div base < 2 ^ 64" using 1 by (meson div_le_dividend le_less_trans)
    then show ?thesis
      using 1 False step [of "n mod base" "n div base" s]
      by (subst nat_digits.simps) (simp add: div_mult_mod_eq)
  qed
qed

lemma hd_nat_digits: "0 < n \<Longrightarrow> \<exists>d s. nat_digits 10 n = digit_char d # s \<and> 0 < d \<and> d < 10"
proof (induction n rule: less_induct)
  case (less n)
  show ?case
  proof (cases "n < 10")
    case True
    then show ?thesis using less.prems by (subst nat_digits.simps) auto
  next
    case False
    then have "nat_digits 10 n = nat_digits 10 (n div 10) @ [digit_char (n mod 10)]"
      by (subst nat_digits.simps) simp
    then show ?thesis using less.IH [of "n div 10"] False by fastforce
  qed
qed

lemma nat_digits_zero: "nat_digits 10 0 = ''0''"
  by code_simp

lemma digit_char_sign: "d < 36 \<Longrightarrow> digit_char d \<noteq> CHR ''-'' \<and> digit_char d \<noteq> CHR ''+''"
  using digit_char_neq by blast

lemma ParseInt_digits:
  assumes "\<exists>d s. ds = digit_char d # s \<and> d < 36" "ParseUint ds base = Parsed (int n)" "n < 2 ^ 63"
  shows "ParseInt ds base = Parsed (int n)" "ParseInt (CHR ''-'' # ds) base = Parsed (- int n)"
  using assms digit_char_sign by (auto simp: ParseInt_def Let_def)

lemma nat_digits_Cons: "2 \<le> base \<Longrightarrow> base \<le> 36 \<Longrightarrow> \<exists>d s. nat_digits base n = digit_char d # s \<and> d < 36"
  using nat_digits_nonempty [of base n] set_nat_digits [of base "hd (nat_digits base n)" n]
  by (metis hd_in_set le_trans less_le_not_le linorder_not_le list.exhaust_sel)

text \<open>With the base written out, and with base 0 on decimal text.\<close>

lemma ParseUint_nat_digits:
  assumes "2 \<le> base" "base \<le> 36" "n < 2 ^ 64"
  shows "ParseUint (nat_digits base n) base = Parsed (int n)"
  using assms parse_digits_nat_digits [OF assms, of False "[]"] nat_digits_nonempty [of base n]
  by (simp add: ParseUint_def)

lemma digit_char_nz: "0 < d \<Longrightarrow> d < 36 \<Longrightarrow> digit_char d \<noteq> CHR ''0''"
  using of_char_digit_char [of d] by (auto split: if_splits)

lemma ParseUint_0_nat_digits:
  assumes "n < 2 ^ 64"
  shows "ParseUint (nat_digits 10 n) 0 = Parsed (int n)"
proof (cases "n = 0")
  case True
  then show ?thesis by (simp add: nat_digits_zero ParseUint_def detect_base_def)
next
  case False
  obtain d s where ds: "nat_digits 10 n = digit_char d # s" "0 < d" "d < 10" using hd_nat_digits False by blast
  have "detect_base (nat_digits 10 n) = (10, nat_digits 10 n)"
    using ds digit_char_nz by (simp add: detect_base_def)
  moreover have "CHR ''_'' \<notin> set (nat_digits 10 n)"
  proof
    assume "CHR ''_'' \<in> set (nat_digits 10 n)"
    from set_nat_digits [OF _ this] obtain e where "e < 10" "CHR ''_'' = digit_char e" by auto
    then show False using digit_char_neq [of e "CHR ''_''"] by simp
  qed
  ultimately show ?thesis
    using parse_digits_nat_digits [of 10 n True "[]"] assms ds by (simp add: ParseUint_def)
qed

lemma ParseInt_FormatInt:
  assumes "2 \<le> base" "base \<le> 36" "- (2 ^ 63) < i" "i < 2 ^ 63"
  shows "ParseInt (FormatInt i base) base = Parsed i"
proof -
  have n: "ParseInt (nat_digits base n) base = Parsed (int n)"
    "ParseInt (CHR ''-'' # nat_digits base n) base = Parsed (- int n)" if "n < 2 ^ 63" for n
    using ParseInt_digits [OF nat_digits_Cons ParseUint_nat_digits] assms that by auto
  show ?thesis using assms n [of "nat i"] n [of "nat (- i)"] by (auto simp: FormatInt_def nat_less_iff)
qed

lemma ParseInt_0_nat_digits: "n < 2 ^ 63 \<Longrightarrow> ParseInt (nat_digits 10 n) 0 = Parsed (int n)"
  by (rule ParseInt_digits [OF nat_digits_Cons ParseUint_0_nat_digits]) auto

lemma Atoi_Itoa: "- (2 ^ 63) < i \<Longrightarrow> i < 2 ^ 63 \<Longrightarrow> Atoi (Itoa i) = Parsed i"
  using ParseInt_FormatInt [of 10 i] by (simp add: Atoi_def Itoa_def)

lemma nat_digits_is_digit: "c \<in> set (nat_digits 10 n) \<Longrightarrow> is_digit c"
proof -
  assume "c \<in> set (nat_digits 10 n)"
  then obtain d where "d < 10" "c = digit_char d" using set_nat_digits [of 10 c n] by auto
  then show ?thesis using of_char_digit_char [of d] by (simp add: is_digit_def byte_in_def)
qed

lemma is_digit_not_space: "is_digit c \<Longrightarrow> (of_char c :: nat) < 128 \<and> \<not> char_is_space c"
  by (auto simp: is_digit_def byte_in_def char_is_space_def)

lemma TrimSpace_nat_digits: "TrimSpace (nat_digits 10 n) = nat_digits 10 n"
proof -
  have ne: "nat_digits 10 n \<noteq> []" by (simp add: nat_digits_nonempty)
  then have "is_digit (hd (nat_digits 10 n))" "is_digit (last (nat_digits 10 n))"
    using hd_in_set last_in_set nat_digits_is_digit by blast+
  then show ?thesis using ne is_digit_not_space by (intro TrimSpace_id) auto
qed

end
