(* ===== verification/ShellArith.thy ===== *)
theory ShellArith
  imports GoNumbers
begin

text \<open>
  The arithmetic of the virtual shell (\<open>trap_ssh_unix_semantics.go\<close>): the recursive
  descent parser behind \<open>$((...))\<close>, and \<open>seq\<close>, \<open>expr\<close> and \<open>printf\<close>.

  The parser's state, the text and a position in it, is the rest of the text. The five
  functions call each other; \<open>fuel\<close> bounds the calls, and running out of it is the outer
  \<open>None\<close>. The inner \<open>None\<close> is the code's \<open>(0, false)\<close>. \<open>var\<close> is
  \<open>virtualVariable\<close>, the shell's variables.
\<close>

section \<open>The parser\<close>

type_synonym parse_result = "(int \<times> string) option option"

definition and_then :: "parse_result \<Rightarrow> (int \<Rightarrow> string \<Rightarrow> parse_result) \<Rightarrow> parse_result" where
  "and_then r k = (case r of None \<Rightarrow> None | Some None \<Rightarrow> Some None | Some (Some (v, s)) \<Rightarrow> k v s)"

definition arith_blank :: "char \<Rightarrow> bool" where
  "arith_blank c \<longleftrightarrow> c = CHR '' '' \<or> c = CHR 0x09"

definition skip_blanks :: "string \<Rightarrow> string" where
  "skip_blanks s = dropWhile arith_blank s"

definition hex_digit :: "char \<Rightarrow> bool" where
  "hex_digit c \<longleftrightarrow> is_digit c \<or> byte_in c 97 102 \<or> byte_in c 65 70"

definition arith_name_char :: "char \<Rightarrow> bool" where
  "arith_name_char c \<longleftrightarrow> is_letter c \<or> is_digit c \<or> c = CHR ''_''"

text \<open>The number at the start of the text and what follows it.\<close>

fun number_text :: "string \<Rightarrow> string \<times> string" where
  "number_text (c # x # s) =
     (if c = CHR ''0'' \<and> (x = CHR ''x'' \<or> x = CHR ''X'') then (c # x # takeWhile hex_digit s, dropWhile hex_digit s)
      else (c # takeWhile is_digit (x # s), dropWhile is_digit (x # s)))"
| "number_text s = (s, [])"

text \<open>
  The bodies of the five functions, over the functions they call: \<open>expr_step\<close> and
  \<open>term_step\<close> are one round of the loops of \<open>parseExpr\<close> and
  \<open>parseTerm\<close>, and \<open>again\<close> is the next round.
\<close>

definition expr_step ::
  "(string \<Rightarrow> parse_result) \<Rightarrow> (int \<Rightarrow> string \<Rightarrow> parse_result) \<Rightarrow> int \<Rightarrow> string \<Rightarrow> parse_result" where
  "expr_step term_of again left s =
     (case skip_blanks s of
        [] \<Rightarrow> Some (Some (left, []))
      | op # t \<Rightarrow>
          if op \<noteq> CHR ''+'' \<and> op \<noteq> CHR ''-'' then Some (Some (left, op # t))
          else and_then (term_of t) (\<lambda>right r.
                 again (wrap64 (if op = CHR ''+'' then left + right else left - right)) r))"

definition term_step ::
  "(string \<Rightarrow> parse_result) \<Rightarrow> (int \<Rightarrow> string \<Rightarrow> parse_result) \<Rightarrow> int \<Rightarrow> string \<Rightarrow> parse_result" where
  "term_step factor_of again left s =
     (case skip_blanks s of
        [] \<Rightarrow> Some (Some (left, []))
      | op # t \<Rightarrow>
          if op \<noteq> CHR ''*'' \<and> op \<noteq> CHR ''/'' \<and> op \<noteq> CHR ''%'' then Some (Some (left, op # t))
          else and_then (factor_of t) (\<lambda>right r.
                 if (op = CHR ''/'' \<or> op = CHR ''%'') \<and> right = 0 then Some None
                 else again
                        (wrap64 (if op = CHR ''*'' then left * right
                                 else if op = CHR ''/'' then go_div left right else go_mod left right)) r))"

definition factor_step ::
  "(string \<Rightarrow> string) \<Rightarrow> (string \<Rightarrow> parse_result) \<Rightarrow> (string \<Rightarrow> parse_result) \<Rightarrow> string \<Rightarrow> parse_result" where
  "factor_step var factor_of expr_of s0 =
     (case skip_blanks s0 of
        [] \<Rightarrow> Some None
      | c # t \<Rightarrow>
          if c = CHR ''+'' \<or> c = CHR ''-'' then
            and_then (factor_of t) (\<lambda>v r. Some (Some (if c = CHR ''-'' then wrap64 (- v) else v, r)))
          else if c = CHR ''('' then
            and_then (expr_of t) (\<lambda>v r.
              case skip_blanks r of
                d # r' \<Rightarrow> if d = CHR '')'' then Some (Some (v, r')) else Some None
              | [] \<Rightarrow> Some None)
          else if is_digit c then
            (case number_text (c # t) of (num, r) \<Rightarrow>
               (case ParseInt num 0 of Parsed v \<Rightarrow> Some (Some (v, r)) | _ \<Rightarrow> Some None))
          else
            (let name = takeWhile arith_name_char (c # t) in
             if name = [] then Some None
             else Some (Some (parsed_value (ParseInt (TrimSpace (var name)) 0), dropWhile arith_name_char (c # t)))))"

function (sequential) parseExpr :: "(string \<Rightarrow> string) \<Rightarrow> nat \<Rightarrow> string \<Rightarrow> parse_result"
and expr_loop :: "(string \<Rightarrow> string) \<Rightarrow> nat \<Rightarrow> int \<Rightarrow> string \<Rightarrow> parse_result"
and parseTerm :: "(string \<Rightarrow> string) \<Rightarrow> nat \<Rightarrow> string \<Rightarrow> parse_result"
and term_loop :: "(string \<Rightarrow> string) \<Rightarrow> nat \<Rightarrow> int \<Rightarrow> string \<Rightarrow> parse_result"
and parseFactor :: "(string \<Rightarrow> string) \<Rightarrow> nat \<Rightarrow> string \<Rightarrow> parse_result" where
  "parseExpr var 0 s = None"
| "parseExpr var (Suc fuel) s = and_then (parseTerm var fuel s) (\<lambda>v r. expr_loop var fuel v r)"
| "expr_loop var 0 left s = None"
| "expr_loop var (Suc fuel) left s = expr_step (\<lambda>t. parseTerm var fuel t) (\<lambda>v r. expr_loop var fuel v r) left s"
| "parseTerm var 0 s = None"
| "parseTerm var (Suc fuel) s = and_then (parseFactor var fuel s) (\<lambda>v r. term_loop var fuel v r)"
| "term_loop var 0 left s = None"
| "term_loop var (Suc fuel) left s = term_step (\<lambda>t. parseFactor var fuel t) (\<lambda>v r. term_loop var fuel v r) left s"
| "parseFactor var 0 s = None"
| "parseFactor var (Suc fuel) s = factor_step var (\<lambda>t. parseFactor var fuel t) (\<lambda>t. parseExpr var fuel t) s"
  by pat_completeness auto
termination
  by (relation "measure (case_sum (case_sum (\<lambda>(_, f, _). f) (\<lambda>(_, f, _, _). f))
        (case_sum (\<lambda>(_, f, _). f) (case_sum (\<lambda>(_, f, _, _). f) (\<lambda>(_, f, _). f))))") simp_all

definition evalVirtualArithmetic :: "(string \<Rightarrow> string) \<Rightarrow> string \<Rightarrow> int option" where
  "evalVirtualArithmetic var expr =
     (if 256 < length expr then None
      else (case parseExpr var (3 * length expr + 3) expr of
              Some (Some (v, r)) \<Rightarrow> if skip_blanks r = [] then Some v else None
            | _ \<Rightarrow> None))"

section \<open>Expanding \<open>$((...))\<close>\<close>

text \<open>
  The scan for the last \<open>$((\<close> outside single quotes: \<open>i + 2 < len(line)\<close> bounds it,
  so it looks at positions with two bytes after them.
\<close>

fun arith_open :: "char option \<Rightarrow> nat \<Rightarrow> nat option \<Rightarrow> string \<Rightarrow> nat option" where
  "arith_open quote i start (c # d # e # s) =
     (if c = CHR 0x5C then arith_open quote (i + 2) start (e # s)
      else if quote = Some (CHR 0x27) then
        arith_open (if c = CHR 0x27 then None else quote) (i + 1) start (d # e # s)
      else if c = CHR 0x27 then arith_open (Some (CHR 0x27)) (i + 1) start (d # e # s)
      else if c = CHR 0x22 then
        arith_open (if quote = Some (CHR 0x22) then None else if quote = None then Some (CHR 0x22) else quote)
          (i + 1) start (d # e # s)
      else arith_open quote (i + 1)
             (if c = CHR ''$'' \<and> d = CHR ''('' \<and> e = CHR ''('' then Some i else start) (d # e # s))"
| "arith_open quote i start _ = start"

text \<open>The position of the closing \<open>))\<close> in the text after \<open>$((\<close>.\<close>

fun arith_close :: "nat \<Rightarrow> nat \<Rightarrow> string \<Rightarrow> nat option" where
  "arith_close depth i (c # d # s) =
     (if c = CHR ''('' then arith_close (depth + 1) (i + 1) (d # s)
      else if c = CHR '')'' then
        (if depth > 1 then arith_close (depth - 1) (i + 1) (d # s)
         else if d = CHR '')'' then Some i
         else arith_close depth (i + 1) (d # s))
      else arith_close depth (i + 1) (d # s))"
| "arith_close depth i _ = None"

fun arith_passes :: "nat \<Rightarrow> (string \<Rightarrow> string) \<Rightarrow> string \<Rightarrow> string" where
  "arith_passes 0 var line = line"
| "arith_passes (Suc n) var line =
     (case arith_open None 0 None line of
        None \<Rightarrow> line
      | Some start \<Rightarrow>
          (case arith_close 1 0 (drop (start + 3) line) of
             None \<Rightarrow> line
           | Some k \<Rightarrow>
               (let value = (case evalVirtualArithmetic var (take k (drop (start + 3) line)) of Some v \<Rightarrow> v | None \<Rightarrow> 0)
                in arith_passes n var (take start line @ FormatInt value 10 @ drop (start + 3 + k + 2) line))))"

definition expandVirtualArithmetic :: "(string \<Rightarrow> string) \<Rightarrow> string \<Rightarrow> string" where
  "expandVirtualArithmetic var line = arith_passes 12 var line"

section \<open>\<open>seq\<close> and \<open>expr\<close>\<close>

text \<open>The curly quotes of the messages are the UTF-8 bytes of U+2018 and U+2019.\<close>

definition curly_quote :: "string \<Rightarrow> string" where
  "curly_quote s = [CHR 0xE2, CHR 0x80, CHR 0x98] @ s @ [CHR 0xE2, CHR 0x80, CHR 0x99]"

fun seq_rows :: "nat \<Rightarrow> int \<Rightarrow> int \<Rightarrow> int \<Rightarrow> string list" where
  "seq_rows 0 n step stop = []"
| "seq_rows (Suc k) n step stop =
     (if (step > 0 \<and> n \<le> stop) \<or> (step < 0 \<and> n \<ge> stop)
      then FormatInt n 10 # seq_rows k (wrap64 (n + step)) step stop else [])"

fun seq_numbers :: "string list \<Rightarrow> string + int list" where
  "seq_numbers [] = Inr []"
| "seq_numbers (a # as) =
     (if HasPrefix a ''-'' then seq_numbers as
      else (case ParseInt a 10 of
              Parsed n \<Rightarrow> (case seq_numbers as of Inl e \<Rightarrow> Inl e | Inr ns \<Rightarrow> Inr (n # ns))
            | _ \<Rightarrow> Inl (''seq: invalid floating point argument: '' @ curly_quote a)))"

definition virtualSeq :: "string list \<Rightarrow> string \<times> int" where
  "virtualSeq args =
     (case seq_numbers args of
        Inl msg \<Rightarrow> (msg, 1)
      | Inr nums \<Rightarrow>
          (case (case nums of
                   [b] \<Rightarrow> Some (1, 1, b)
                 | [a, b] \<Rightarrow> Some (a, 1, b)
                 | [a, s, b] \<Rightarrow> Some (a, s, b)
                 | _ \<Rightarrow> None) of
             None \<Rightarrow> (''seq: missing operand'', 1)
           | Some (first, step, stop) \<Rightarrow>
               if step = 0 then (''seq: invalid Zero increment value: '' @ curly_quote ''0'', 1)
               else (Join (seq_rows 4096 first step stop) [CHR 0x0A], 0)))"

definition truth :: "bool \<Rightarrow> string \<times> int" where
  "truth b = (if b then (''1'', 0) else (''0'', 1))"

text \<open>A binary operator on two integers; \<open>None\<close> where the \<open>switch\<close> falls through.\<close>

definition expr_int_op :: "string \<Rightarrow> int \<Rightarrow> int \<Rightarrow> (string \<times> int) option" where
  "expr_int_op op a b =
     (if op = ''+'' then Some (FormatInt (wrap64 (a + b)) 10, 0)
      else if op = ''-'' then Some (FormatInt (wrap64 (a - b)) 10, 0)
      else if op = ''*'' then Some (FormatInt (wrap64 (a * b)) 10, 0)
      else if op = ''/'' then
        Some (if b = 0 then (''expr: division by zero'', 2) else (FormatInt (wrap64 (go_div a b)) 10, 0))
      else if op = ''%'' then
        Some (if b = 0 then (''expr: division by zero'', 2) else (FormatInt (wrap64 (go_mod a b)) 10, 0))
      else if op = ''='' \<or> op = ''=='' then Some (truth (a = b))
      else if op = ''!='' then Some (truth (a \<noteq> b))
      else if op = ''>'' then Some (truth (a > b))
      else if op = ''<'' then Some (truth (a < b))
      else None)"

definition expr_text_op :: "string \<Rightarrow> string \<Rightarrow> string \<Rightarrow> (string \<times> int) option" where
  "expr_text_op op l r =
     (if op = ''='' \<or> op = ''=='' then Some (truth (l = r))
      else if op = ''!='' then Some (truth (l \<noteq> r))
      else None)"

definition virtualExpr :: "string list \<Rightarrow> string \<times> int" where
  "virtualExpr args =
     (case args of
        [] \<Rightarrow> (''expr: missing operand'', 2)
      | [a] \<Rightarrow> (if a = [] \<or> a = ''0'' then (a, 1) else (a, 0))
      | l # op # r # _ \<Rightarrow>
          (let int_case = (case (ParseInt l 10, ParseInt r 10) of
                             (Parsed a, Parsed b) \<Rightarrow> expr_int_op op a b
                           | _ \<Rightarrow> None)
           in case int_case of
                Some res \<Rightarrow> res
              | None \<Rightarrow> (case expr_text_op op l r of Some res \<Rightarrow> res | None \<Rightarrow> (Join args '' '', 0)))
      | _ \<Rightarrow> (Join args '' '', 0))"

section \<open>\<open>printf\<close>\<close>

fun hex_value :: "char \<Rightarrow> char \<Rightarrow> nat option" where
  "hex_value a b = (case ParseUint [a, b] 16 of Parsed v \<Rightarrow> Some (nat v) | _ \<Rightarrow> None)"

definition octal_char :: "char \<Rightarrow> bool" where
  "octal_char c \<longleftrightarrow> byte_in c 48 55"

text \<open>
  \<open>\\0\<close> with up to three octal digits; \<open>ParseUint\<close> is asked for 8 bits, so a value
  over 255 is an error, and the byte 0 is written with the digits left to be read as text.
\<close>

function decodeVirtualEscapes :: "string \<Rightarrow> string" where
  "decodeVirtualEscapes [] = []"
| "decodeVirtualEscapes [c] = [c]"
| "decodeVirtualEscapes (c # e # s) =
     (if c \<noteq> CHR 0x5C then c # decodeVirtualEscapes (e # s)
      else if e = CHR ''n'' then CHR 0x0A # decodeVirtualEscapes s
      else if e = CHR ''r'' then CHR 0x0D # decodeVirtualEscapes s
      else if e = CHR ''t'' then CHR 0x09 # decodeVirtualEscapes s
      else if e = CHR 0x5C then CHR 0x5C # decodeVirtualEscapes s
      else if e = CHR ''x'' then
        (case s of
           a # b # s' \<Rightarrow> (case hex_value a b of
                         Some n \<Rightarrow> char_of n # decodeVirtualEscapes s'
                       | None \<Rightarrow> [CHR 0x5C, CHR ''x''] @ decodeVirtualEscapes s)
         | _ \<Rightarrow> [CHR 0x5C, CHR ''x''] @ decodeVirtualEscapes s)
      else if e = CHR ''0'' then
        (let ds = takeWhile octal_char (take 3 s) in
         case ParseUint ds 8 of
           Parsed v \<Rightarrow> if v < 256 then char_of (nat v) # decodeVirtualEscapes (drop (length ds) s)
                       else CHR 0x00 # decodeVirtualEscapes s
         | _ \<Rightarrow> CHR 0x00 # decodeVirtualEscapes s)
      else c # e # decodeVirtualEscapes s)"
  by pat_completeness auto
termination
  by (relation "measure length") auto

text \<open>One conversion: the text for the argument, or \<open>None\<close> for an unknown letter.\<close>

definition printf_convert :: "char \<Rightarrow> string \<Rightarrow> string option" where
  "printf_convert conv value =
     (if conv = CHR ''s'' then Some value
      else if conv = CHR ''b'' then Some (decodeVirtualEscapes value)
      else if conv = CHR ''c'' then Some (take 1 value)
      else if conv \<in> set ''diuxXo'' then
        (let n = parsed_value (ParseInt (TrimSpace value) 0);
             base = (if conv = CHR ''x'' \<or> conv = CHR ''X'' then 16 else if conv = CHR ''o'' then 8 else 10);
             f = FormatInt n base
         in Some (if conv = CHR ''X'' then map ascii_upper f else f))
      else None)"

text \<open>
  The inner loop over the format; \<open>arg\<close> counts the arguments used and \<open>used\<close> is
  \<open>usedConversion\<close>.
\<close>

function printf_loop :: "string list \<Rightarrow> nat \<Rightarrow> bool \<Rightarrow> string \<Rightarrow> string \<Rightarrow> string \<times> nat \<times> bool" where
  "printf_loop args arg used out [] = (out, arg, used)"
| "printf_loop args arg used out (c # s) =
     (if c \<noteq> CHR ''%'' then printf_loop args arg used (out @ [c]) s
      else if s \<noteq> [] \<and> hd s = CHR ''%'' then printf_loop args arg used (out @ ''%'') (tl s)
      else
        (let zeroPad = (s \<noteq> [] \<and> hd s = CHR ''0'');
             s1 = (if zeroPad then tl s else s);
             ds = takeWhile is_digit s1;
             width = (if ds = [] then 0 else parsed_value (Atoi ds))
         in case dropWhile is_digit s1 of
              [] \<Rightarrow> (out @ c # s, arg, used)
            | conv # rest \<Rightarrow>
                (let value = (if arg < length args then args ! arg else []) in
                 case printf_convert conv value of
                   None \<Rightarrow> printf_loop args (arg + 1) True (out @ [CHR ''%'', conv]) rest
                 | Some f \<Rightarrow>
                     printf_loop args (arg + 1) True
                       (out @ replicate (nat (width - int (length f))) (if zeroPad then CHR ''0'' else CHR '' '') @ f) rest)))"
  by pat_completeness auto
termination
proof (relation "measure (\<lambda>(_, _, _, _, s). length s)", goal_cases)
  case (4 args arg used out c s zp s1 ds width conv rest val)
  have "length (dropWhile is_digit s1) \<le> length s" using 4(4) length_dropWhile_le [of is_digit s1]
    by (cases s) (auto split: if_splits)
  then show ?case using 4(7) by simp
next
  case (5 args arg used out c s zp s1 ds width conv rest val f)
  have "length (dropWhile is_digit s1) \<le> length s" using 5(4) length_dropWhile_le [of is_digit s1]
    by (cases s) (auto split: if_splits)
  then show ?case using 5(7) by simp
qed auto

fun printf_passes :: "nat \<Rightarrow> string list \<Rightarrow> string \<Rightarrow> nat \<Rightarrow> string \<Rightarrow> string" where
  "printf_passes 0 args format arg out = out"
| "printf_passes (Suc n) args format arg out =
     (case printf_loop args arg False out format of
        (out', arg', used) \<Rightarrow>
          if length args \<le> arg' \<or> \<not> used then out' else printf_passes n args format arg' out')"

definition virtualFormatPrintf :: "string \<Rightarrow> string list \<Rightarrow> string" where
  "virtualFormatPrintf format args = printf_passes 64 args (decodeVirtualEscapes format) 0 []"

end
