(* ===== verification/ShellArithProofs.thy ===== *)
theory ShellArithProofs
  imports ShellArith
begin

text \<open>
  The arithmetic parser always returns (its fuel is enough), gives the same result for any
  larger fuel, and on the text of an expression gives the value of the expression: the
  usual precedences, left-associative operators, 64-bit wrap-around, no value where the
  expression divides by zero. Then \<open>seq\<close>, \<open>expr\<close> and \<open>printf\<close>.
\<close>

section \<open>Enough fuel\<close>

definition returns :: "parse_result \<Rightarrow> nat \<Rightarrow> bool" where
  "returns r n \<longleftrightarrow> (\<exists>x. r = Some x \<and> (\<forall>v s. x = Some (v, s) \<longrightarrow> length s \<le> n))"

lemma returns_and_then:
  "returns r n \<Longrightarrow> (\<And>v s. length s \<le> n \<Longrightarrow> returns (k v s) m) \<Longrightarrow> returns (and_then r k) m"
  by (auto simp: returns_def and_then_def split: option.splits)

lemma returns_done [simp]: "returns (Some None) n" "returns (Some (Some (v, s))) n \<longleftrightarrow> length s \<le> n"
  by (auto simp: returns_def)

lemma returns_mono: "returns r n \<Longrightarrow> n \<le> m \<Longrightarrow> returns r m"
  by (fastforce simp: returns_def)

lemma skip_blanks_length: "length (skip_blanks s) \<le> length s"
  by (simp add: skip_blanks_def length_dropWhile_le)

lemma skip_blanks_Cons_length: "skip_blanks s = c # t \<Longrightarrow> length t < length s"
  using skip_blanks_length [of s] by simp

lemma number_text_length: "number_text (c # t) = (num, r) \<Longrightarrow> length r \<le> length t"
  by (cases t) (auto split: if_splits simp: length_dropWhile_le le_SucI intro: le_trans [OF length_dropWhile_le])

lemma expr_step_returns:
  assumes "\<And>t. length t < length s \<Longrightarrow> returns (f t) (length t - 1)"
    and "\<And>v t. length t < length s \<Longrightarrow> returns (k v t) (length t)"
  shows "returns (expr_step f k left s) (length s)"
proof (cases "skip_blanks s")
  case (Cons c t)
  then have "length t < length s" by (rule skip_blanks_Cons_length)
  then show ?thesis using Cons skip_blanks_length [of s] assms(1) [of t]
    by (auto simp: expr_step_def intro!: returns_and_then [where n = "length t - 1"] returns_mono [OF assms(2)])
qed (simp add: expr_step_def)

lemma term_step_returns:
  assumes "\<And>t. length t < length s \<Longrightarrow> returns (f t) (length t - 1)"
    and "\<And>v t. length t < length s \<Longrightarrow> returns (k v t) (length t)"
  shows "returns (term_step f k left s) (length s)"
proof (cases "skip_blanks s")
  case (Cons c t)
  then have "length t < length s" by (rule skip_blanks_Cons_length)
  then show ?thesis using Cons skip_blanks_length [of s] assms(1) [of t]
    by (auto simp: term_step_def intro!: returns_and_then [where n = "length t - 1"] returns_mono [OF assms(2)])
qed (simp add: term_step_def)

lemma factor_step_returns:
  assumes "\<And>t. length t < length s \<Longrightarrow> returns (f t) (length t - 1)"
    and "\<And>t. length t < length s \<Longrightarrow> returns (e t) (length t - 1)"
  shows "returns (factor_step var f e s) (length s - 1)"
proof (cases "skip_blanks s")
  case (Cons c t)
  then have lt: "length t < length s" by (rule skip_blanks_Cons_length)
  have name: "length (dropWhile arith_name_char (c # t)) \<le> length s - 1"
    if "takeWhile arith_name_char (c # t) \<noteq> []"
    using that lt length_dropWhile_le [of arith_name_char t] by (auto split: if_splits)
  have close: "length r' \<le> length s - Suc 0" if "length r \<le> length t - Suc 0" "skip_blanks r = d # r'" for r d r'
    using that lt skip_blanks_Cons_length [of r d r'] by linarith
  show ?thesis using Cons lt assms(1,2) [of t] name number_text_length [of c t]
    by (auto simp: factor_step_def Let_def split: prod.splits parsed.splits list.splits
        intro!: returns_and_then [where n = "length t - 1"] dest: close)
qed (simp add: factor_step_def)

lemma parser_returns:
  "(3 * length s + 3 \<le> fuel \<longrightarrow> returns (parseExpr var fuel s) (length s - 1))
   \<and> (3 * length s + 1 \<le> fuel \<longrightarrow> returns (expr_loop var fuel v s) (length s))
   \<and> (3 * length s + 2 \<le> fuel \<longrightarrow> returns (parseTerm var fuel s) (length s - 1))
   \<and> (3 * length s + 1 \<le> fuel \<longrightarrow> returns (term_loop var fuel v s) (length s))
   \<and> (3 * length s + 1 \<le> fuel \<longrightarrow> returns (parseFactor var fuel s) (length s - 1))"
proof (induction fuel arbitrary: s v)
  case (Suc fuel)
  note E = Suc.IH [THEN conjunct1, rule_format]
  note EL = Suc.IH [THEN conjunct2, THEN conjunct1, rule_format]
  note T = Suc.IH [THEN conjunct2, THEN conjunct2, THEN conjunct1, rule_format]
  note TL = Suc.IH [THEN conjunct2, THEN conjunct2, THEN conjunct2, THEN conjunct1, rule_format]
  note F = Suc.IH [THEN conjunct2, THEN conjunct2, THEN conjunct2, THEN conjunct2, rule_format]
  show ?case
  proof (intro conjI impI)
    assume "3 * length s + 3 \<le> Suc fuel"
    then show "returns (parseExpr var (Suc fuel) s) (length s - 1)" unfolding parseExpr.simps
      by (intro returns_and_then [where n = "length s - 1"] T returns_mono [OF EL]) auto
  next
    assume "3 * length s + 1 \<le> Suc fuel"
    then show "returns (expr_loop var (Suc fuel) v s) (length s)" unfolding expr_loop.simps
      by (intro expr_step_returns T EL) auto
  next
    assume "3 * length s + 2 \<le> Suc fuel"
    then show "returns (parseTerm var (Suc fuel) s) (length s - 1)" unfolding parseTerm.simps
      by (intro returns_and_then [where n = "length s - 1"] F returns_mono [OF TL]) auto
  next
    assume "3 * length s + 1 \<le> Suc fuel"
    then show "returns (term_loop var (Suc fuel) v s) (length s)" unfolding term_loop.simps
      by (intro term_step_returns F TL) auto
  next
    assume "3 * length s + 1 \<le> Suc fuel"
    then show "returns (parseFactor var (Suc fuel) s) (length s - 1)" unfolding parseFactor.simps
      by (intro factor_step_returns F E) auto
  qed
qed simp

section \<open>More fuel changes nothing\<close>

definition refines :: "parse_result \<Rightarrow> parse_result \<Rightarrow> bool" where
  "refines a b \<longleftrightarrow> a = None \<or> a = b"

lemma refines_refl [simp]: "refines a a" by (simp add: refines_def)

lemma refines_and_then:
  "refines a b \<Longrightarrow> (\<And>v s. refines (k v s) (k' v s)) \<Longrightarrow> refines (and_then a k) (and_then b k')"
  by (auto simp: refines_def and_then_def split: option.splits)

lemma loop_steps_refine:
  assumes "\<And>t. refines (f t) (f' t)" "\<And>v t. refines (k v t) (k' v t)"
  shows "refines (expr_step f k v s) (expr_step f' k' v s)" "refines (term_step f k v s) (term_step f' k' v s)"
  using assms by (auto simp: expr_step_def term_step_def split: list.splits intro!: refines_and_then)

lemma factor_step_refines:
  assumes "\<And>t. refines (f t) (f' t)" "\<And>t. refines (e t) (e' t)"
  shows "refines (factor_step var f e s) (factor_step var f' e' s)"
  using assms by (auto simp: factor_step_def Let_def split: list.splits intro!: refines_and_then)

definition all_refine :: "(string \<Rightarrow> string) \<Rightarrow> nat \<Rightarrow> nat \<Rightarrow> bool" where
  "all_refine var n m \<longleftrightarrow> (\<forall>s v.
     refines (parseExpr var n s) (parseExpr var m s) \<and> refines (expr_loop var n v s) (expr_loop var m v s)
     \<and> refines (parseTerm var n s) (parseTerm var m s) \<and> refines (term_loop var n v s) (term_loop var m v s)
     \<and> refines (parseFactor var n s) (parseFactor var m s))"

lemma all_refine_Suc: "all_refine var n m \<Longrightarrow> all_refine var (Suc n) (Suc m)"
  by (auto simp: all_refine_def intro!: refines_and_then loop_steps_refine factor_step_refines)

lemma parser_refines: "all_refine var n (Suc n)"
proof (induction n)
  case 0
  show ?case by (simp add: all_refine_def refines_def)
qed (rule all_refine_Suc)

lemma parseExpr_refines: "refines (parseExpr var n s) (parseExpr var (Suc n) s)"
  using parser_refines [of var n] unfolding all_refine_def by blast

lemma parseExpr_returns: "\<exists>r. parseExpr var (3 * length s + 3) s = Some r"
  using parser_returns [THEN conjunct1, rule_format, OF order_refl] unfolding returns_def by blast

lemma parseExpr_more_fuel: "parseExpr var n s = Some r \<Longrightarrow> parseExpr var (n + k) s = Some r"
proof (induction k)
  case (Suc k)
  then show ?case using parseExpr_refines [of var "n + k" s] by (simp add: refines_def del: parseExpr.simps)
qed simp

lemma parseExpr_fuel:
  assumes "3 * length s + 3 \<le> n"
  shows "parseExpr var n s = parseExpr var (3 * length s + 3) s"
proof -
  obtain r where "parseExpr var (3 * length s + 3) s = Some r"
    using parseExpr_returns by blast
  then show ?thesis
    using parseExpr_more_fuel [of var "3 * length s + 3" s r "n - (3 * length s + 3)"] assms by simp
qed

section \<open>Expressions and their values\<close>

text \<open>
  The grammar, with the left-associative operator chains on the left, its text, and its
  value. \<open>Sign True\<close> is a minus.
\<close>

datatype arith_factor = Lit nat | Var string | Sign bool arith_factor | Paren arith_expr
and arith_term = Fac arith_factor | Mul arith_term char arith_factor
and arith_expr = Term arith_term | Add arith_expr bool arith_term

primrec factor_text :: "arith_factor \<Rightarrow> string" and term_text :: "arith_term \<Rightarrow> string" and expr_text :: "arith_expr \<Rightarrow> string" where
  "factor_text (Lit n) = nat_digits 10 n"
| "factor_text (Var x) = x"
| "factor_text (Sign neg f) = (if neg then CHR ''-'' else CHR ''+'') # factor_text f"
| "factor_text (Paren e) = CHR ''('' # expr_text e @ '')''"
| "term_text (Fac f) = factor_text f"
| "term_text (Mul t op f) = term_text t @ op # factor_text f"
| "expr_text (Term t) = term_text t"
| "expr_text (Add e sub t) = expr_text e @ (if sub then CHR ''-'' else CHR ''+'') # term_text t"

definition mul_value :: "char \<Rightarrow> int \<Rightarrow> int \<Rightarrow> int option" where
  "mul_value op a b =
     (if op = CHR ''*'' then Some (wrap64 (a * b))
      else if b = 0 then None
      else if op = CHR ''/'' then Some (wrap64 (go_div a b))
      else Some (wrap64 (go_mod a b)))"

definition variable_value :: "(string \<Rightarrow> string) \<Rightarrow> string \<Rightarrow> int" where
  "variable_value var x = parsed_value (ParseInt (TrimSpace (var x)) 0)"

primrec factor_value :: "(string \<Rightarrow> string) \<Rightarrow> arith_factor \<Rightarrow> int option"
and term_value :: "(string \<Rightarrow> string) \<Rightarrow> arith_term \<Rightarrow> int option"
and expr_value :: "(string \<Rightarrow> string) \<Rightarrow> arith_expr \<Rightarrow> int option" where
  "factor_value var (Lit n) = Some (int n)"
| "factor_value var (Var x) = Some (variable_value var x)"
| "factor_value var (Sign neg f) = map_option (\<lambda>v. if neg then wrap64 (- v) else v) (factor_value var f)"
| "factor_value var (Paren e) = expr_value var e"
| "term_value var (Fac f) = factor_value var f"
| "term_value var (Mul t op f) =
     Option.bind (term_value var t) (\<lambda>a. Option.bind (factor_value var f) (mul_value op a))"
| "expr_value var (Term t) = term_value var t"
| "expr_value var (Add e sub t) =
     Option.bind (expr_value var e) (\<lambda>a. map_option (\<lambda>b. wrap64 (if sub then a - b else a + b)) (term_value var t))"

text \<open>Literals fit an \<open>int64\<close>, names are names and operators are \<open>*\<close>, \<open>/\<close> and \<open>%\<close>.\<close>

primrec wf_factor :: "arith_factor \<Rightarrow> bool" and wf_term :: "arith_term \<Rightarrow> bool" and wf_expr :: "arith_expr \<Rightarrow> bool" where
  "wf_factor (Lit n) = (n < 2 ^ 63)"
| "wf_factor (Var x) = (x \<noteq> [] \<and> list_all arith_name_char x \<and> \<not> is_digit (hd x))"
| "wf_factor (Sign neg f) = wf_factor f"
| "wf_factor (Paren e) = wf_expr e"
| "wf_term (Fac f) = wf_factor f"
| "wf_term (Mul t op f) = (wf_term t \<and> op \<in> {CHR ''*'', CHR ''/'', CHR ''%''} \<and> wf_factor f)"
| "wf_expr (Term t) = wf_term t"
| "wf_expr (Add e sub t) = (wf_expr e \<and> wf_term t)"

definition after_expr :: "string \<Rightarrow> bool" where
  "after_expr s \<longleftrightarrow> s = [] \<or> hd s = CHR '')''"

definition after_term :: "string \<Rightarrow> bool" where
  "after_term s \<longleftrightarrow> after_expr s \<or> hd s \<in> {CHR ''+'', CHR ''-''}"

definition after_factor :: "string \<Rightarrow> bool" where
  "after_factor s \<longleftrightarrow> after_term s \<or> hd s \<in> {CHR ''*'', CHR ''/'', CHR ''%''}"

lemma after_factor_stops:
  "after_factor s \<Longrightarrow> s = [] \<or> (\<not> arith_name_char (hd s) \<and> \<not> is_digit (hd s) \<and> \<not> arith_blank (hd s))"
  by (auto simp: after_factor_def after_term_def after_expr_def arith_name_char_def is_letter_def
      is_lower_def is_upper_def is_digit_def byte_in_def arith_blank_def)

lemma scan_stops:
  assumes "list_all P w" "s = [] \<or> \<not> P (hd s)"
  shows "takeWhile P (w @ s) = w" "dropWhile P (w @ s) = s"
  using assms by (cases s; auto simp: list_all_iff takeWhile_append dropWhile_append)+

lemma skip_blanks_id: "s = [] \<or> \<not> arith_blank (hd s) \<Longrightarrow> skip_blanks s = s"
  by (cases s) (auto simp: skip_blanks_def)

lemma number_text_digits:
  assumes "list_all is_digit w" "w \<noteq> []" "s = [] \<or> (\<not> is_digit (hd s) \<and> \<not> arith_name_char (hd s))"
  shows "number_text (w @ s) = (w, s)"
proof (cases "w @ s")
  case (Cons c t)
  show ?thesis
  proof (cases t)
    case Nil
    then show ?thesis using Cons assms(2) by (cases w) auto
  next
    case (Cons x r)
    have x: "x \<noteq> CHR ''x'' \<and> x \<noteq> CHR ''X''"
    proof (cases "tl w")
      case Nil
      then have "s = x # r" using Cons \<open>w @ s = c # t\<close> assms(2) by (cases w) auto
      then show ?thesis using assms(3)
        by (auto simp: arith_name_char_def is_letter_def is_lower_def is_upper_def byte_in_def)
    next
      case (Cons y u)
      then have "is_digit x" using \<open>t = x # r\<close> \<open>w @ s = c # t\<close> assms(1,2) by (cases w) auto
      then show ?thesis by (auto simp: is_digit_def byte_in_def)
    qed
    have w: "w = c # tl w" "t = tl w @ s" using \<open>w @ s = c # t\<close> assms(2) by (cases w; auto)+
    then have "list_all is_digit (tl w)" using assms(1) by (cases w) auto
    then have "takeWhile is_digit t = tl w" "dropWhile is_digit t = s"
      using scan_stops [of is_digit "tl w" s] assms(3) w(2) by auto
    then show ?thesis using x Cons w(1) \<open>w @ s = c # t\<close> by auto
  qed
qed (use assms in simp)

definition parses :: "(nat \<Rightarrow> parse_result) \<Rightarrow> int option \<Rightarrow> string \<Rightarrow> bool" where
  "parses p r s \<longleftrightarrow> (\<exists>k. \<forall>n \<ge> k. p n = Some (map_option (\<lambda>v. (v, s)) r))"

text \<open>With enough fuel \<open>p\<close> fails, or arrives in its loop with the value so far.\<close>

definition reaches :: "(nat \<Rightarrow> parse_result) \<Rightarrow> (nat \<Rightarrow> int \<Rightarrow> string \<Rightarrow> parse_result) \<Rightarrow> int option \<Rightarrow> string \<Rightarrow> bool" where
  "reaches p loop r s \<longleftrightarrow>
     (\<exists>k. \<forall>n \<ge> k. case r of None \<Rightarrow> p n = Some None | Some v \<Rightarrow> \<exists>g. n \<le> g + k \<and> p n = loop g v s)"

lemma parses_Suc: "parses (\<lambda>n. p (Suc n)) r s \<Longrightarrow> parses p r s"
  unfolding parses_def by (metis Suc_le_D Suc_le_mono)

lemma parses_step:
  assumes "parses p r s"
    and "\<And>n. p n = Some (map_option (\<lambda>v. (v, s)) r) \<Longrightarrow> q (Suc n) = Some (map_option (\<lambda>v. (v, s')) r')"
  shows "parses q r' s'"
proof -
  obtain k where k: "\<And>n. k \<le> n \<Longrightarrow> p n = Some (map_option (\<lambda>v. (v, s)) r)"
    using assms(1) by (auto simp: parses_def)
  show ?thesis
    by (rule parses_Suc) (use k assms(2) in \<open>auto simp: parses_def intro!: exI [of _ k]\<close>)
qed

lemma reaches_start:
  assumes "parses p r s" "\<And>n. q (Suc n) = and_then (p n) (loop n)"
  shows "reaches q loop r s"
proof -
  obtain k where k: "\<And>n. k \<le> n \<Longrightarrow> p n = Some (map_option (\<lambda>v. (v, s)) r)"
    using assms(1) by (auto simp: parses_def)
  show ?thesis unfolding reaches_def
  proof (intro exI [of _ "Suc k"] allI impI)
    fix n assume "Suc k \<le> n"
    then obtain m where m: "n = Suc m" "k \<le> m" by (cases n) auto
    then show "case r of None \<Rightarrow> q n = Some None | Some v \<Rightarrow> \<exists>g. n \<le> g + Suc k \<and> q n = loop g v s"
      using k [of m] assms(2) [of m] by (cases r) (auto simp: and_then_def intro!: exI [of _ m])
  qed
qed

text \<open>From the loop on to the next operand: \<open>f a b\<close> is the value after it.\<close>

lemma reaches_step:
  assumes "reaches p loop (Some a) s0" "parses q r s"
    and "\<And>n. loop (Suc n) a s0 =
           and_then (q n) (\<lambda>b t. case f b of None \<Rightarrow> Some None | Some v \<Rightarrow> loop n v t)"
  shows "reaches p loop (Option.bind r f) s"
proof -
  obtain k where k: "\<And>n. k \<le> n \<Longrightarrow> \<exists>g. n \<le> g + k \<and> p n = loop g a s0"
    using assms(1) by (auto simp: reaches_def)
  obtain j where j: "\<And>n. j \<le> n \<Longrightarrow> q n = Some (map_option (\<lambda>v. (v, s)) r)"
    using assms(2) by (auto simp: parses_def)
  show ?thesis unfolding reaches_def
  proof (intro exI [of _ "Suc (k + j)"] allI impI)
    fix n assume n: "Suc (k + j) \<le> n"
    obtain g where g: "n \<le> g + k" "p n = loop g a s0" using k [of n] n by auto
    then obtain m where m: "g = Suc m" "j \<le> m" using n by (cases g) auto
    then have "p n = and_then (Some (map_option (\<lambda>v. (v, s)) r)) (\<lambda>b t. case f b of None \<Rightarrow> Some None | Some v \<Rightarrow> loop m v t)"
      using g assms(3) [of m] j [of m] by simp
    then show "case Option.bind r f of None \<Rightarrow> p n = Some None | Some v \<Rightarrow> \<exists>g. n \<le> g + Suc (k + j) \<and> p n = loop g v s"
      using g m by (cases r) (auto simp: and_then_def split: option.splits intro!: exI [of _ m])
  qed
qed

lemma reaches_fail: "reaches p loop None s0 \<Longrightarrow> reaches p loop None s"
  by (simp add: reaches_def)

lemma reaches_stop:
  assumes "reaches p loop r s" "\<And>n v. loop (Suc n) v s = Some (Some (v, s))"
  shows "parses p r s"
proof -
  obtain k where k: "\<And>n. k \<le> n \<Longrightarrow>
      (case r of None \<Rightarrow> p n = Some None | Some v \<Rightarrow> \<exists>g. n \<le> g + k \<and> p n = loop g v s)"
    using assms(1) by (auto simp: reaches_def)
  show ?thesis unfolding parses_def
  proof (intro exI [of _ "Suc k"] allI impI)
    fix n assume n: "Suc k \<le> n"
    show "p n = Some (map_option (\<lambda>v. (v, s)) r)"
    proof (cases r)
      case None
      then show ?thesis using k [of n] n by simp
    next
      case (Some v)
      then obtain g where g: "n \<le> g + k" "p n = loop g v s" using k [of n] n by auto
      then obtain m where "g = Suc m" using n by (cases g) auto
      then show ?thesis using g assms(2) Some by simp
    qed
  qed
qed

lemma factor_step_paren:
  "skip_blanks x = CHR ''('' # t \<Longrightarrow> e t = Some (map_option (\<lambda>v. (v, CHR '')'' # s)) r) \<Longrightarrow>
     factor_step var f e x = Some (map_option (\<lambda>v. (v, s)) r)"
  by (cases r) (simp_all add: factor_step_def and_then_def skip_blanks_id arith_blank_def)

lemma factor_step_sign:
  "x = (if neg then CHR ''-'' else CHR ''+'') # t \<Longrightarrow> f t = Some (map_option (\<lambda>v. (v, s)) r) \<Longrightarrow>
     factor_step var f e x = Some (map_option (\<lambda>v. (if neg then wrap64 (- v) else v, s)) r)"
  by (cases r) (auto simp: factor_step_def and_then_def skip_blanks_id arith_blank_def)

lemma is_digit_plain:
  "is_digit c \<Longrightarrow> \<not> arith_blank c \<and> c \<noteq> CHR ''+'' \<and> c \<noteq> CHR ''-'' \<and> c \<noteq> CHR ''(''"
  "arith_name_char c \<Longrightarrow> \<not> arith_blank c \<and> c \<noteq> CHR ''+'' \<and> c \<noteq> CHR ''-'' \<and> c \<noteq> CHR ''(''"
  by (auto simp: arith_name_char_def is_letter_def is_lower_def is_upper_def is_digit_def byte_in_def arith_blank_def)

lemma factor_step_literal:
  assumes "n < 2 ^ 63" "after_factor s"
  shows "factor_step var f e (nat_digits 10 n @ s) = Some (Some (int n, s))"
proof -
  have ds: "nat_digits 10 n \<noteq> []" "list_all is_digit (nat_digits 10 n)"
    using nat_digits_nonempty nat_digits_is_digit by (auto simp: list_all_iff)
  then have hd: "is_digit (hd (nat_digits 10 n))" by (cases "nat_digits 10 n") auto
  have "number_text (nat_digits 10 n @ s) = (nat_digits 10 n, s)"
    using ds after_factor_stops [OF assms(2)] by (intro number_text_digits) auto
  then show ?thesis
    using ds hd is_digit_plain(1) [OF hd] ParseInt_0_nat_digits [OF assms(1)]
    by (cases "nat_digits 10 n") (simp_all add: factor_step_def skip_blanks_id)
qed

lemma factor_step_variable:
  assumes "x \<noteq> []" "list_all arith_name_char x" "\<not> is_digit (hd x)" "after_factor s"
  shows "factor_step var f e (x @ s) = Some (Some (variable_value var x, s))"
proof -
  obtain c w where x: "x = c # w" "arith_name_char c" using assms(1,2) by (cases x) auto
  have "takeWhile arith_name_char (x @ s) = x" "dropWhile arith_name_char (x @ s) = s"
    using scan_stops [of arith_name_char x s] assms after_factor_stops [of s] by auto
  then show ?thesis
    using x assms(3) is_digit_plain(2) [OF x(2)]
    by (simp add: factor_step_def skip_blanks_id variable_value_def Let_def)
qed

lemma term_step_mul:
  assumes "op \<in> {CHR ''*'', CHR ''/'', CHR ''%''}"
  shows "term_step f k a (op # t) =
    and_then (f t) (\<lambda>b r. case mul_value op a b of None \<Rightarrow> Some None | Some v \<Rightarrow> k v r)"
  using assms by (auto simp: term_step_def skip_blanks_id arith_blank_def mul_value_def fun_eq_iff
      intro!: arg_cong [where f = "and_then (f t)"])

lemma expr_step_add:
  "expr_step f k a ((if sub then CHR ''-'' else CHR ''+'') # t) =
     and_then (f t) (\<lambda>b r. case Some (wrap64 (if sub then a - b else a + b)) of None \<Rightarrow> Some None | Some v \<Rightarrow> k v r)"
  by (simp add: expr_step_def skip_blanks_id arith_blank_def)

lemma term_step_stop: "after_term s \<Longrightarrow> term_step f k v s = Some (Some (v, s))"
  by (cases s) (auto simp: term_step_def skip_blanks_id after_term_def after_expr_def arith_blank_def)

lemma expr_step_stop: "after_expr s \<Longrightarrow> expr_step f k v s = Some (Some (v, s))"
  by (cases s) (auto simp: expr_step_def skip_blanks_id after_expr_def arith_blank_def)

lemma after_intros:
  "after_expr s \<Longrightarrow> after_term s" "after_term s \<Longrightarrow> after_factor s"
  "after_expr []" "after_expr (CHR '')'' # s)"
  "after_term ((if sub then CHR ''-'' else CHR ''+'') # s)"
  "op \<in> {CHR ''*'', CHR ''/'', CHR ''%''} \<Longrightarrow> after_factor (op # s)"
  by (auto simp: after_factor_def after_term_def after_expr_def)

lemma expr_stops: "reaches p (expr_loop var) r s \<Longrightarrow> after_expr s \<Longrightarrow> parses p r s"
  by (erule reaches_stop) (simp add: expr_step_stop)

lemma term_stops: "reaches p (term_loop var) r s \<Longrightarrow> after_term s \<Longrightarrow> parses p r s"
  by (erule reaches_stop) (simp add: term_step_stop)

lemma parser_values:
  shows "wf_factor f \<Longrightarrow> after_factor s \<Longrightarrow>
      parses (\<lambda>n. parseFactor var n (factor_text f @ s)) (factor_value var f) s"
    and "wf_term t \<Longrightarrow> after_factor s \<Longrightarrow>
      reaches (\<lambda>n. parseTerm var n (term_text t @ s)) (term_loop var) (term_value var t) s"
    and "wf_expr e \<Longrightarrow> after_term s \<Longrightarrow>
      reaches (\<lambda>n. parseExpr var n (expr_text e @ s)) (expr_loop var) (expr_value var e) s"
proof (induction f and t and e arbitrary: s and s and s)
  case (Lit n)
  show ?case by (rule parses_Suc) (use Lit factor_step_literal [of n s] in \<open>auto simp: parses_def\<close>)
next
  case (Var x)
  show ?case by (rule parses_Suc) (use Var factor_step_variable [of x s] in \<open>auto simp: parses_def\<close>)
next
  case (Sign neg f)
  then have f: "parses (\<lambda>n. parseFactor var n (factor_text f @ s)) (factor_value var f) s" by simp
  show ?case
    by (rule parses_step [OF f])
      (simp add: option.map_comp comp_def factor_step_sign [where neg = neg and r = "factor_value var f" and s = s])
next
  case (Paren e)
  have e: "parses (\<lambda>n. parseExpr var n (expr_text e @ CHR '')'' # s)) (expr_value var e) (CHR '')'' # s)"
    using Paren.IH [of "CHR '')'' # s"] Paren.prems after_intros(1,4) by (intro expr_stops) auto
  show ?case
    by (rule parses_step [OF e]) (simp add: skip_blanks_id arith_blank_def factor_step_paren)
next
  case (Fac f)
  then have f: "parses (\<lambda>n. parseFactor var n (factor_text f @ s)) (factor_value var f) s" by simp
  from reaches_start [OF f] show ?case by simp
next
  case (Mul t op f)
  have op: "op \<in> {CHR ''*'', CHR ''/'', CHR ''%''}" using Mul.prems by simp
  have t: "reaches (\<lambda>n. parseTerm var n (term_text t @ op # factor_text f @ s)) (term_loop var) (term_value var t)
      (op # factor_text f @ s)"
    using Mul.IH(1) Mul.prems after_intros(6) [OF op] by simp
  show ?case
  proof (cases "term_value var t")
    case None
    then show ?thesis using t reaches_fail by fastforce
  next
    case (Some a)
    then show ?thesis
      using reaches_step [OF t [unfolded Some] Mul.IH(2), of s "mul_value op a"] Mul.prems op
      by (simp add: term_step_mul)
  qed
next
  case (Term t)
  have "parses (\<lambda>n. parseTerm var n (term_text t @ s)) (term_value var t) s"
    using Term.IH [of s] Term.prems after_intros(2) by (intro term_stops) auto
  from reaches_start [OF this] show ?case by simp
next
  case (Add e sub t)
  define s0 where "s0 = (if sub then CHR ''-'' else CHR ''+'') # term_text t @ s"
  have e: "reaches (\<lambda>n. parseExpr var n (expr_text e @ s0)) (expr_loop var) (expr_value var e) s0"
    using Add.IH(1) Add.prems after_intros(5) by (simp add: s0_def)
  have t: "parses (\<lambda>n. parseTerm var n (term_text t @ s)) (term_value var t) s"
    using Add.IH(2) [of s] Add.prems after_intros(2) by (intro term_stops) auto
  show ?case
  proof (cases "expr_value var e")
    case None
    then show ?thesis using e reaches_fail by (fastforce simp: s0_def)
  next
    case (Some a)
    have "expr_loop var (Suc n) a s0 = and_then (parseTerm var n (term_text t @ s))
        (\<lambda>b t. case Some (wrap64 (if sub then a - b else a + b)) of None \<Rightarrow> Some None | Some v \<Rightarrow> expr_loop var n v t)" for n
      by (simp only: s0_def expr_loop.simps expr_step_add)
    from reaches_step [OF e [unfolded Some] t this]
    show ?thesis using Some by (cases "term_value var t"; cases sub) (simp_all add: s0_def)
  qed
qed

text \<open>C40: the fuel is enough for every text, and more of it changes nothing.\<close>

theorem parseExpr_total:
  "\<exists>r. parseExpr var (3 * length s + 3) s = Some r \<and> parseExpr var (3 * length s + 3 + k) s = Some r"
  using parseExpr_returns [of var s] parseExpr_more_fuel by blast

text \<open>C37: on the text of an expression the parser gives the expression's value.\<close>

theorem evalVirtualArithmetic_value:
  assumes "wf_expr e" "length (expr_text e) \<le> 256"
  shows "evalVirtualArithmetic var (expr_text e) = expr_value var e"
proof -
  have "parses (\<lambda>n. parseExpr var n (expr_text e @ [])) (expr_value var e) []"
    using parser_values(3) [OF assms(1), of "[]"] after_intros(1,3) expr_stops by blast
  then obtain k where k: "\<And>n. k \<le> n \<Longrightarrow> parseExpr var n (expr_text e) = Some (map_option (\<lambda>v. (v, [])) (expr_value var e))"
    by (auto simp: parses_def)
  define m where "m = 3 * length (expr_text e) + 3"
  have "parseExpr var m (expr_text e) = parseExpr var (max k m) (expr_text e)"
    unfolding m_def by (rule parseExpr_fuel [symmetric]) simp
  then have "parseExpr var m (expr_text e) = Some (map_option (\<lambda>v. (v, [])) (expr_value var e))"
    using k [of "max k m"] by simp
  then show ?thesis
    using assms(2) by (cases "expr_value var e") (simp_all add: evalVirtualArithmetic_def m_def skip_blanks_def)
qed

theorem evalVirtualArithmetic_value_witness:
  "evalVirtualArithmetic (\<lambda>_. nat_digits 10 7) ''2+x*(3-10)%4'' = Some 1"
proof -
  define e where "e = Add (Term (Fac (Lit 2))) False
    (Mul (Mul (Fac (Var ''x'')) (CHR ''*'') (Paren (Add (Term (Fac (Lit 3))) True (Fac (Lit 10))))) (CHR ''%'') (Lit 4))"
  have "expr_text e = ''2+x*(3-10)%4''" unfolding e_def by code_simp
  moreover have x7: "variable_value (\<lambda>_. nat_digits 10 7) ''x'' = 7"
    by (simp add: variable_value_def TrimSpace_nat_digits ParseInt_0_nat_digits parsed_value_def)
  moreover have "expr_value (\<lambda>_. nat_digits 10 7) e = Some (2 + go_mod (-49) 4)"
    using x7 by (simp add: e_def mul_value_def wrap64_small go_mod_def go_div_def)
  moreover have "wf_expr e"
    by (simp add: e_def arith_name_char_def is_letter_def is_lower_def is_digit_def byte_in_def)
  ultimately show ?thesis using evalVirtualArithmetic_value [of e "\<lambda>_. nat_digits 10 7"]
    by (simp add: go_mod_def go_div_def)
qed

section \<open>\<open>seq\<close>\<close>

definition seq_count :: "int \<Rightarrow> int \<Rightarrow> int \<Rightarrow> nat" where
  "seq_count a s b = (if a \<le> b then nat ((b - a) div s) + 1 else 0)"

lemma seq_count_step: "0 < s \<Longrightarrow> a \<le> b \<Longrightarrow> seq_count a s b = Suc (seq_count (a + s) s b)"
proof -
  assume s: "0 < s" and ab: "a \<le> b"
  have d: "(b - a) div s = (b - (a + s)) div s + 1"
    using s div_add_self2 [of s "b - (a + s)"] by simp
  show ?thesis
  proof (cases "a + s \<le> b")
    case True
    then have "0 \<le> (b - (a + s)) div s" using s by (simp add: pos_imp_zdiv_nonneg_iff)
    then show ?thesis using True ab d by (simp add: seq_count_def nat_add_distrib)
  next
    case False
    then have "(b - a) div s = 0" using s ab by (simp add: div_pos_pos_trivial)
    then show ?thesis using False ab by (simp add: seq_count_def)
  qed
qed

lemma seq_rows_count:
  assumes "0 < s" "- (2 ^ 63) \<le> a" "b + s < 2 ^ 63"
  shows "seq_rows k a s b = map (\<lambda>i. Itoa (a + int i * s)) [0..<min k (seq_count a s b)]"
  using assms(2)
proof (induction k arbitrary: a)
  case (Suc k)
  show ?case
  proof (cases "a \<le> b")
    case True
    then have w: "wrap64 (a + s) = a + s" using assms Suc.prems by (intro wrap64_small) auto
    have "map (\<lambda>i. Itoa (a + s + int i * s)) [0..<n] = map (\<lambda>i. Itoa (a + int i * s)) [1..<Suc n]" for n
      by (simp add: map_Suc_upt [symmetric] algebra_simps del: upt_Suc)
    then show ?thesis
      using True Suc.IH [of "a + s"] Suc.prems assms(1) w seq_count_step [OF assms(1) True]
      by (simp add: Itoa_def upt_conv_Cons del: upt_Suc)
  next
    case False
    then show ?thesis using assms(1) by (simp add: seq_count_def)
  qed
qed simp

lemma seq_numbers_Itoa: "0 \<le> n \<Longrightarrow> n < 2 ^ 63 \<Longrightarrow>
    seq_numbers (Itoa n # as) = (case seq_numbers as of Inl e \<Rightarrow> Inl e | Inr ns \<Rightarrow> Inr (n # ns))"
proof -
  assume n: "0 \<le> n" "n < 2 ^ 63"
  obtain d s where d: "nat_digits 10 (nat n) = digit_char d # s" "d < 36"
    using nat_digits_Cons [of 10 "nat n"] by auto
  have "ParseInt (Itoa n) 10 = Parsed n" using n ParseInt_FormatInt [of 10 n] by (simp add: Itoa_def)
  moreover have "\<not> HasPrefix (Itoa n) ''-''"
    using n d digit_char_sign [of d] by (simp add: Itoa_def FormatInt_def HasPrefix_def)
  ultimately show ?thesis by simp
qed

text \<open>\<open>seq\<close> counts up in steps and stops at the bound or after 4096 rows.\<close>

lemma virtualSeq_rows:
  assumes "0 \<le> a" "a < 2 ^ 63" "0 < s" "0 \<le> b" "b + s < 2 ^ 63"
  shows "virtualSeq [Itoa a, Itoa s, Itoa b] =
           (Join (map (\<lambda>i. Itoa (a + int i * s)) [0..<min 4096 (seq_count a s b)]) [CHR 0x0A], 0)"
  using assms seq_numbers_Itoa [of a "[Itoa s, Itoa b]"] seq_numbers_Itoa [of s "[Itoa b]"]
    seq_numbers_Itoa [of b "[]"] seq_rows_count [of s a b 4096]
  by (simp add: virtualSeq_def)

theorem virtualSeq_rows_witness:
  "virtualSeq [Itoa 1, Itoa 3, Itoa 7] = (Join (map (\<lambda>i. Itoa (1 + int i * 3)) [0..<min 4096 (seq_count 1 3 7)]) [CHR 0x0A], 0)"
proof (rule virtualSeq_rows [of 1 3 7])
  show "(0 :: int) \<le> 1" "(1 :: int) < 2 ^ 63" "(0 :: int) < 3" "(0 :: int) \<le> 7" "(7 :: int) + 3 < 2 ^ 63" by simp_all
qed

section \<open>\<open>printf\<close>\<close>

lemma decode_other: "c \<noteq> CHR 0x5C \<Longrightarrow> decodeVirtualEscapes (c # s) = c # decodeVirtualEscapes s"
  by (cases s) simp_all

lemma decode_plain: "CHR 0x5C \<notin> set s \<Longrightarrow> decodeVirtualEscapes s = s"
proof (induction s)
  case (Cons c s)
  then have "c \<noteq> CHR 0x5C" by auto
  then show ?case using Cons by (simp add: decode_other)
qed simp

text \<open>The width of a conversion is the number of bytes written; nothing bounds it.\<close>

lemma virtualFormatPrintf_width:
  assumes "0 < n" "n < 2 ^ 63"
  shows "virtualFormatPrintf (CHR ''%'' # nat_digits 10 n @ ''s'') [] = replicate n (CHR '' '')"
proof -
  obtain d r where d: "nat_digits 10 n = digit_char d # r" "0 < d" "d < 10" using hd_nat_digits assms(1) by blast
  have dig: "list_all is_digit (nat_digits 10 n)" using nat_digits_is_digit by (auto simp: list_all_iff)
  then have "CHR 0x5C \<notin> set (nat_digits 10 n)" by (auto simp: list_all_iff is_digit_def byte_in_def)
  then have dec: "decodeVirtualEscapes (CHR ''%'' # nat_digits 10 n @ ''s'') = CHR ''%'' # nat_digits 10 n @ ''s''"
    by (intro decode_plain) auto
  have hd: "hd (nat_digits 10 n) \<noteq> CHR ''%''" "hd (nat_digits 10 n) \<noteq> CHR ''0''" "nat_digits 10 n \<noteq> []"
    using d of_char_digit_char [of d] by auto
  have scan: "takeWhile is_digit (nat_digits 10 n @ ''s'') = nat_digits 10 n"
    "dropWhile is_digit (nat_digits 10 n @ ''s'') = ''s''"
    using dig by (auto simp: list_all_iff takeWhile_append dropWhile_append is_digit_def byte_in_def)
  have w: "parsed_value (Atoi (nat_digits 10 n)) = int n"
    using Atoi_Itoa [of "int n"] assms by (simp add: Itoa_def FormatInt_def parsed_value_def)
  have loop: "printf_loop [] 0 False [] (CHR ''%'' # nat_digits 10 n @ ''s'') = (replicate n (CHR '' ''), 1, True)"
    using hd scan w by (subst printf_loop.simps) (simp add: printf_convert_def)
  have "printf_passes (Suc 63) [] (CHR ''%'' # nat_digits 10 n @ ''s'') 0 [] = replicate n (CHR '' '')"
    by (simp only: printf_passes.simps loop prod.case) simp
  then show ?thesis by (simp add: virtualFormatPrintf_def dec)
qed

theorem virtualFormatPrintf_width_witness:
  "virtualFormatPrintf (CHR ''%'' # nat_digits 10 5 @ ''s'') [] = replicate 5 (CHR '' '')"
  by (rule virtualFormatPrintf_width) simp_all

end
