(* ===== verification/GoMaps.thy ===== *)
theory GoMaps
  imports GoPath
begin

text \<open>
  Go maps as association lists: lookup, membership, size and totals after an insertion or a
  deletion. The collection \<open>gomap\<close> holds the equations; \<open>map_wf\<close> (distinct keys) is
  the invariant under which a list is a map.
\<close>

named_theorems gomap \<open>lookup, membership and size of maps after an update\<close>

lemma map_of_update [gomap]: "map_of (AList.update k v m) j = (if j = k then Some v else map_of m j)"
  by (simp add: update_conv')

lemma map_of_delete [gomap]: "map_of (AList.delete k m) j = (if j = k then None else map_of m j)"
  by (simp add: delete_conv')

lemma lookup_or_update [gomap]: "lookup_or d (AList.update k v m) j = (if j = k then v else lookup_or d m j)"
  by (simp add: lookup_or_def gomap)

lemma lookup_or_delete [gomap]: "lookup_or d (AList.delete k m) j = (if j = k then d else lookup_or d m j)"
  by (simp add: lookup_or_def gomap)

lemma has_key_update [gomap]: "has_key (AList.update k v m) j \<longleftrightarrow> j = k \<or> has_key m j"
  by (simp add: has_key_def gomap)

lemma has_key_delete [gomap]: "has_key (AList.delete k m) j \<longleftrightarrow> j \<noteq> k \<and> has_key m j"
  by (simp add: has_key_def gomap)

lemma map_wf_update [simp]: "map_wf m \<Longrightarrow> map_wf (AList.update k v m)"
  by (simp add: map_wf_def distinct_update)

lemma map_wf_delete [simp]: "map_wf m \<Longrightarrow> map_wf (AList.delete k m)"
  by (simp add: map_wf_def distinct_delete)

lemma map_wf_Nil [simp]: "map_wf []"
  by (simp add: map_wf_def)

lemma map_wf_filter [simp]: "map_wf m \<Longrightarrow> map_wf (List.filter P m)"
  by (induction m) (auto simp: map_wf_def)

lemma has_key_iff: "has_key m k \<longleftrightarrow> k \<in> fst ` set m"
  by (induction m) (auto simp: has_key_def)

lemma length_update: "length (AList.update k v m) = (if has_key m k then length m else Suc (length m))"
  by (induction m) (auto simp: has_key_def split: if_splits)

lemma length_delete_le [simp]: "length (AList.delete k m) \<le> length m"
  by (simp add: AList.delete_eq)

lemma length_delete: "map_wf m \<Longrightarrow> length (AList.delete k m) = (if has_key m k then length m - 1 else length m)"
proof (induction m)
  case (Cons p m)
  obtain j v where p: "p = (j, v)" by (cases p)
  have wf: "map_wf m" "j \<notin> fst ` set m" using Cons.prems by (auto simp: map_wf_def p)
  have none: "AList.delete j m = m" using wf(2) by (induction m) (auto simp: AList.delete_eq)
  have pos: "has_key m k \<Longrightarrow> 0 < length m" by (cases m) (auto simp: has_key_def)
  show ?case
    using Cons.IH wf none pos by (auto simp: p has_key_def AList.delete_eq)
qed (simp add: has_key_def)

lemma set_update: "set (AList.update k v m) \<subseteq> insert (k, v) (set m)"
  by (induction m) auto

lemma set_delete: "set (AList.delete k m) \<subseteq> set m"
  by (auto simp: AList.delete_eq)

text \<open>The sum of a measure of the values.\<close>

definition total :: "('v \<Rightarrow> nat) \<Rightarrow> ('k, 'v) gomap \<Rightarrow> nat" where
  "total f m = sum_list (map (f \<circ> snd) m)"

lemma total_update:
  "total f (AList.update k v m) = (case map_of m k of None \<Rightarrow> total f m + f v | Some u \<Rightarrow> total f m - f u + f v)"
proof (induction m)
  case (Cons p m)
  have "f u \<le> total f m" if "map_of m k = Some u" for u
    using that by (induction m) (auto simp: total_def split: if_splits)
  then show ?case using Cons by (cases p) (auto simp: total_def split: option.splits)
qed (simp add: total_def)

lemma total_delete_le: "total f (AList.delete k m) \<le> total f m"
  by (induction m) (auto simp: total_def AList.delete_eq)

lemma map_of_le_total: "map_of m k = Some u \<Longrightarrow> f u \<le> total f m"
  by (induction m) (auto simp: total_def split: if_splits)

section \<open>Sorting strings\<close>

fun lex_le :: "string \<Rightarrow> string \<Rightarrow> bool" where
  "lex_le [] b = True"
| "lex_le (x # a) [] = False"
| "lex_le (x # a) (y # b) = (if x = y then lex_le a b else (of_char x :: nat) < of_char y)"

fun insert_name :: "string \<Rightarrow> string list \<Rightarrow> string list" where
  "insert_name x [] = [x]"
| "insert_name x (y # ys) = (if lex_le x y then x # y # ys else y # insert_name x ys)"

text \<open>\<open>sort.Strings\<close>: any sort gives this list, equal strings being equal.\<close>

definition sort_strings :: "string list \<Rightarrow> string list" where
  "sort_strings xs = foldr insert_name xs []"

lemma set_insert_name [simp]: "set (insert_name x ys) = insert x (set ys)"
  by (induction ys) auto

lemma set_sort_strings [simp]: "set (sort_strings xs) = set xs"
  by (induction xs) (auto simp: sort_strings_def)

lemma length_sort_strings [simp]: "length (sort_strings xs) = length xs"
proof (induction xs)
  case (Cons x xs)
  have "length (insert_name x ys) = Suc (length ys)" for ys by (induction ys) auto
  then show ?case using Cons by (simp add: sort_strings_def)
qed (simp add: sort_strings_def)

end
