(* ===== verification/Vfs.thy ===== *)
theory Vfs
  imports GoNumbers GoMaps
begin

unbundle bit_operations_syntax

text \<open>
  The virtual filesystem of an SSH session (\<open>internal/server/trap_ssh_shell.go\<close>,
  \<open>trap_ssh_os_reality.go\<close>, \<open>trap_ssh_system_commands.go\<close>): the maps of the
  world that hold files, metadata, modes, attributes and directories, path resolution, the
  guarded writes, permission queries and directory listings.

  The record holds the fields of \<open>virtualSSHWorld\<close> that the filesystem code uses.
  \<open>now\<close> is the time of the system snapshot, \<open>dyn\<close> is \<open>virtualDynamicFile\<close>
  (the generated contents of \<open>/proc\<close> and \<open>/etc\<close>), \<open>uni\<close> the case mapping
  outside ASCII. Modes are natural numbers below \<open>2 ^ 32\<close>; the octal constants of
  the code are written in hexadecimal.
\<close>

record virtualFileMeta =
  m_size :: int
  m_mtime :: gotime
  m_kind :: string

record world =
  user :: string
  cwd :: string
  files :: "(string, string) gomap"
  fileMeta :: "(string, virtualFileMeta) gomap"
  dirs :: "(string, bool) gomap"
  fileAttrs :: "(string, string) gomap"
  fileModes :: "(string, nat) gomap"
  stagingAttempts :: "(string, int) gomap"
  stagingPayloadHash :: "(string, string) gomap"
  sessionPayloadHash :: "(string, string) gomap"

definition maxVirtualFiles :: nat where "maxVirtualFiles = 512"
definition maxVirtualDirs :: nat where "maxVirtualDirs = 256"
definition maxVirtualFileBytes :: nat where "maxVirtualFileBytes = 16384"
definition maxVirtualTotalBytes :: nat where "maxVirtualTotalBytes = 524288"

definition zero_meta :: virtualFileMeta where
  "zero_meta = \<lparr>m_size = 0, m_mtime = 0, m_kind = []\<rparr>"

section \<open>Paths\<close>

definition safe_name_char :: "nat \<Rightarrow> bool" where
  "safe_name_char r \<longleftrightarrow> (97 \<le> r \<and> r \<le> 122) \<or> (65 \<le> r \<and> r \<le> 90) \<or> (48 \<le> r \<and> r \<le> 57) \<or> r = 45 \<or> r = 95"

definition safeVirtualName :: "string \<Rightarrow> string" where
  "safeVirtualName v =
     (let b = encode_runes (List.filter safe_name_char (runes v)) in if b = [] then ''user'' else b)"

definition homeDir :: "world \<Rightarrow> string" where
  "homeDir w =
     (if user w = ''root'' then ''/root''
      else if user w = ''svc-web'' then ''/opt/app''
      else if user w = ''svc-backup'' then ''/var/lib/backup''
      else ''/home/'' @ safeVirtualName (user w))"

definition resolve :: "world \<Rightarrow> string \<Rightarrow> string" where
  "resolve w v0 =
     (let v = TrimSpace v0 in
      if v = [] \<or> v = ''.'' then cwd w
      else if v = ''~'' then homeDir w
      else if HasPrefix v ''~/'' then Clean (PathJoin (homeDir w) (TrimPrefix v ''~/''))
      else if HasPrefix v ''/'' then Clean v
      else Clean (PathJoin (cwd w) v))"

section \<open>Contents\<close>

fun drop_invalid_tail :: "nat \<Rightarrow> string \<Rightarrow> string" where
  "drop_invalid_tail 0 v = v"
| "drop_invalid_tail (Suc n) v = (if v \<noteq> [] \<and> \<not> valid_utf8 v then drop_invalid_tail n (butlast v) else v)"

text \<open>The loop shortens \<open>v\<close> by a byte per round, so its length is enough fuel.\<close>

definition limitVirtualContent :: "string \<Rightarrow> string" where
  "limitVirtualContent v =
     (if length v \<le> maxVirtualFileBytes then v
      else drop_invalid_tail maxVirtualFileBytes (take maxVirtualFileBytes v))"

definition inferVirtualFileKind :: "(string \<Rightarrow> string) \<Rightarrow> string \<Rightarrow> string \<Rightarrow> string" where
  "inferVirtualFileKind uni name content =
     (let lower = ToLower uni name in
      if HasSuffix lower ''.tar.gz'' \<or> HasSuffix lower ''.tgz'' then ''tar-gzip''
      else if HasSuffix lower ''.gz'' \<or> HasPrefix content [CHR 0x1F, CHR 0x8B] then ''gzip''
      else if HasSuffix lower ''.zip'' \<or> HasPrefix content [CHR ''P'', CHR ''K'', CHR 0x03, CHR 0x04] then ''zip''
      else if HasSuffix lower ''.json'' then ''json''
      else if HasSuffix lower ''.html'' \<or> HasSuffix lower ''.htm'' then ''html''
      else if HasSuffix lower ''.csv'' then ''csv''
      else if HasSuffix lower ''.sh'' \<or> HasSuffix lower ''.bash'' \<or> HasPrefix content ''#!/bin/sh''
                \<or> HasPrefix content ''#!/bin/bash'' then ''shell''
      else if HasSuffix lower ''.deb'' then ''deb''
      else if HasSuffix lower ''.rpm'' then ''rpm''
      else if HasSuffix lower ''.so'' \<or> HasSuffix lower ''.bin'' \<or> HasPrefix content [CHR 0x7F, CHR ''E'', CHR ''L'', CHR ''F''] then ''elf''
      else ''text'')"

definition virtualReadFile :: "(string \<Rightarrow> string option) \<Rightarrow> world \<Rightarrow> string \<Rightarrow> string option" where
  "virtualReadFile dyn w name =
     (let resolved = resolve w name in
      if resolved = ''/dev/null'' then Some []
      else (case dyn resolved of Some content \<Rightarrow> Some content | None \<Rightarrow> map_of (files w) resolved))"

section \<open>Modes and attributes\<close>

definition virtualFileMode :: "world \<Rightarrow> string \<Rightarrow> nat" where
  "virtualFileMode w target0 =
     (let target = Clean target0; m = lookup_or 0 (fileModes w) target; base = Base target in
      if m \<noteq> 0 then m
      else if target = ''/etc/shadow'' then 0x1A0
      else if Contains target ''/.ssh/'' \<and> (HasPrefix base ''id_'' \<or> base = ''authorized_keys'' \<or> base = ''config'') then 0x180
      else if base = ''.bash_history'' then 0x180
      else if base = ''.env'' \<or> HasSuffix base ''.env.production'' \<or> Contains target ''/credentials'' then 0x1A0
      else 0x1A4)"

definition virtualDirMode :: "string \<Rightarrow> nat" where
  "virtualDirMode target0 =
     (let target = Clean target0 in
      if target = ''/tmp'' \<or> target = ''/var/tmp'' \<or> target = ''/dev/shm'' then 0x3FF
      else if target = ''/root'' \<or> HasSuffix target ''/.ssh'' then 0x1C0
      else if HasPrefix target ''/home/'' \<and> count_list (TrimPrefix target ''/home/'') slash = 0 then 0x1E8
      else 0x1ED)"

definition virtualFileImmutable :: "world \<Rightarrow> string \<Rightarrow> bool" where
  "virtualFileImmutable w target \<longleftrightarrow> Contains (lookup_or [] (fileAttrs w) (Clean target)) ''i''"

definition virtualWriteFailure :: "world \<Rightarrow> string \<Rightarrow> string" where
  "virtualWriteFailure w target =
     (if virtualFileImmutable w target then ''Operation not permitted'' else ''No space left on device'')"

definition virtualFileReadable :: "(string \<Rightarrow> string option) \<Rightarrow> world \<Rightarrow> string \<Rightarrow> bool" where
  "virtualFileReadable dyn w target =
     (let resolved = resolve w target in
      if virtualReadFile dyn w resolved = None then False
      else if user w = ''root'' then True
      else (virtualFileMode w resolved AND 0x124) \<noteq> 0)"

definition is_dir :: "world \<Rightarrow> string \<Rightarrow> bool" where
  "is_dir w p = lookup_or False (dirs w) p"

definition virtualFileWritable :: "(string \<Rightarrow> string option) \<Rightarrow> world \<Rightarrow> string \<Rightarrow> bool" where
  "virtualFileWritable dyn w target =
     (let resolved = resolve w target in
      if virtualFileImmutable w resolved then False
      else if virtualReadFile dyn w resolved \<noteq> None then
        (if user w = ''root'' then True else (virtualFileMode w resolved AND 0x92) \<noteq> 0)
      else is_dir w (Dir resolved) \<and> (user w = ''root'' \<or> (virtualDirMode (Dir resolved) AND 0x2) \<noteq> 0))"

definition isVirtualPayloadStagingPath :: "string \<Rightarrow> bool" where
  "isVirtualPayloadStagingPath target0 =
     (let target = Clean target0; base = Base target in
      if \<not> (HasPrefix target ''/dev/shm/'' \<or> HasPrefix target ''/tmp/'' \<or> HasPrefix target ''/var/tmp/'') then False
      else base \<noteq> [] \<and> base \<noteq> ''.'' \<and> base \<noteq> ''..'')"

definition isStealthPayloadPath :: "string \<Rightarrow> bool" where
  "isStealthPayloadPath p0 =
     (let p = TrimSpace p0;
          base = (case LastIndexByte p slash of Some i \<Rightarrow> drop (Suc i) p | None \<Rightarrow> p)
      in p \<noteq> [] \<and> HasPrefix base ''.'' \<and> base \<noteq> ''.'' \<and> base \<noteq> ''..'')"

section \<open>Writes\<close>

definition setVirtualDir :: "string \<Rightarrow> world \<Rightarrow> world \<times> bool" where
  "setVirtualDir target w =
     (if is_dir w target then (w, True)
      else if maxVirtualDirs \<le> length (dirs w) then (w, False)
      else (w\<lparr>dirs := AList.update target True (dirs w)\<rparr>, True))"

definition virtualStorageBytes :: "world \<Rightarrow> nat" where
  "virtualStorageBytes w = total length (files w)"

definition canStoreVirtualContent :: "world \<Rightarrow> string \<Rightarrow> string \<Rightarrow> bool" where
  "canStoreVirtualContent w target stored \<longleftrightarrow>
     virtualStorageBytes w - length (lookup_or [] (files w) target) + length stored \<le> maxVirtualTotalBytes"

text \<open>The end that \<open>setVirtualFile\<close> and \<open>appendVirtualFile\<close> share: \<open>content\<close> is stored.\<close>

definition storeVirtualFile :: "(string \<Rightarrow> string) \<Rightarrow> gotime \<Rightarrow> string \<Rightarrow> string \<Rightarrow> world \<Rightarrow> world \<times> bool" where
  "storeVirtualFile uni now target content w =
     (let stored = limitVirtualContent content in
      if \<not> canStoreVirtualContent w target stored then (w, False)
      else (w\<lparr>files := AList.update target stored (files w),
              fileMeta := AList.update target
                \<lparr>m_size = int (length content), m_mtime = now, m_kind = inferVirtualFileKind uni target stored\<rparr> (fileMeta w),
              fileModes := (if lookup_or 0 (fileModes w) target = 0 then AList.update target 0x1A4 (fileModes w)
                            else fileModes w)\<rparr>, True))"

definition setVirtualFile :: "(string \<Rightarrow> string) \<Rightarrow> gotime \<Rightarrow> string \<Rightarrow> string \<Rightarrow> world \<Rightarrow> world \<times> bool" where
  "setVirtualFile uni now target0 content w =
     (let target = Clean target0 in
      if virtualFileImmutable w target then (w, False)
      else if \<not> has_key (files w) target \<and> maxVirtualFiles \<le> length (files w) then (w, False)
      else storeVirtualFile uni now target content w)"

definition appendVirtualFile :: "(string \<Rightarrow> string) \<Rightarrow> gotime \<Rightarrow> string \<Rightarrow> string \<Rightarrow> world \<Rightarrow> world \<times> bool" where
  "appendVirtualFile uni now target0 content w =
     (let target = Clean target0 in
      if virtualFileImmutable w target then (w, False)
      else if \<not> has_key (files w) target \<and> maxVirtualFiles \<le> length (files w) then (w, False)
      else storeVirtualFile uni now target (lookup_or [] (files w) target @ content) w)"

definition deleteVirtualFile :: "string \<Rightarrow> world \<Rightarrow> world" where
  "deleteVirtualFile target w =
     w\<lparr>files := AList.delete target (files w),
       fileMeta := AList.delete target (fileMeta w),
       fileModes := AList.delete target (fileModes w),
       fileAttrs := AList.delete target (fileAttrs w)\<rparr>"

section \<open>Payload staging\<close>

text \<open>
  \<open>classifyVirtualPayloadStage\<close>: the stage and the relation of an uploaded payload to the
  ones before it. \<open>digest\<close> is the hash of its bytes.
\<close>

definition classifyVirtualPayloadStage :: "string \<Rightarrow> string \<Rightarrow> world \<Rightarrow> world \<times> string \<times> string \<times> string" where
  "classifyVirtualPayloadStage target0 digest w =
     (let target = Clean target0;
          w' = w\<lparr>sessionPayloadHash := AList.update target digest (sessionPayloadHash w)\<rparr>
      in case map_of (sessionPayloadHash w) target of
           Some previous \<Rightarrow>
             (if previous = digest then (w', ''retry'', ''same-path-retry'', ''identical virtual payload staging retry'')
              else (w', ''completed'', ''payload-replacement'', ''virtual payload replaced at previously staged path''))
         | None \<Rightarrow>
             if list_ex (\<lambda>(other, previous). other \<noteq> target \<and> previous = digest) (sessionPayloadHash w)
             then (w', ''completed'', ''payload-relocation'', ''identical payload staged at a second virtual path'')
             else if sessionPayloadHash w \<noteq> []
             then (w', ''completed'', ''companion-payload'', ''additional companion payload staged in the same SSH session'')
             else if map_of (stagingPayloadHash w) target = Some digest
             then (w', ''completed'', ''recurring-campaign-payload'', ''previously observed payload staged again in a new SSH session'')
             else if list_ex (\<lambda>(other, previous). other \<noteq> target \<and> previous = digest) (stagingPayloadHash w)
             then (w', ''completed'', ''recurring-payload-relocation'', ''previously observed payload staged again at a different virtual path'')
             else (w', ''completed'', ''new-payload'', ''virtual payload staging completed''))"

section \<open>Listing\<close>

definition virtualFileOwner :: "string \<Rightarrow> string" where
  "virtualFileOwner name0 =
     (let name = Clean name0; base = Base name in
      if name = ''/'' \<or> name = ''/root'' \<or> HasPrefix name ''/root/'' \<or> Contains base ''id_ed25519'' then ''root''
      else if HasPrefix name ''/home/'' \<and> hd (SplitByte (TrimPrefix name ''/home/'') slash) \<noteq> []
        then hd (SplitByte (TrimPrefix name ''/home/'') slash)
      else if HasPrefix name ''/var/lib/backup'' \<or> HasPrefix name ''/opt/backup'' then ''svc-backup''
      else if HasPrefix name ''/opt/app'' then ''svc-web''
      else if name \<in> {''/bin'', ''/sbin'', ''/usr'', ''/usr/bin'', ''/usr/sbin'', ''/etc'', ''/proc'', ''/srv'', ''/var'',
                      ''/var/log'', ''/tmp'', ''/var/tmp'', ''/dev'', ''/dev/shm'', ''/home'', ''/opt''}
            \<or> list_ex (HasPrefix name) [''/bin/'', ''/usr/bin/'', ''/sbin/'', ''/usr/sbin/'', ''/etc/'', ''/proc/'', ''/srv/'', ''/var/log/'']
        then ''root''
      else ''svc-web'')"

definition virtualModeString :: "nat \<Rightarrow> bool \<Rightarrow> string" where
  "virtualModeString mode dir =
     (let bit = (\<lambda>b c. if (mode AND b) \<noteq> 0 then c else CHR ''-'');
          special = (\<lambda>b x low up. if (mode AND b) \<noteq> 0 then (if x = CHR ''x'' then low else up) else x)
      in [if dir then CHR ''d'' else CHR ''-'',
          bit 0x100 (CHR ''r''), bit 0x80 (CHR ''w''), special 0x800 (bit 0x40 (CHR ''x'')) (CHR ''s'') (CHR ''S''),
          bit 0x20 (CHR ''r''), bit 0x10 (CHR ''w''), special 0x400 (bit 0x8 (CHR ''x'')) (CHR ''s'') (CHR ''S''),
          bit 0x4 (CHR ''r''), bit 0x2 (CHR ''w''), special 0x200 (bit 0x1 (CHR ''x'')) (CHR ''t'') (CHR ''T'')])"

text \<open>
  The names \<open>ls\<close> shows: the children of the target among directories and files, each once,
  a file when it is one, sorted.
\<close>

definition child_dirs :: "world \<Rightarrow> string \<Rightarrow> string list" where
  "child_dirs w target = map Base (List.filter (\<lambda>d. d \<noteq> target \<and> Dir d = target) (map fst (dirs w)))"

definition child_files :: "world \<Rightarrow> string \<Rightarrow> string list" where
  "child_files w target = map Base (List.filter (\<lambda>f. Dir f = target) (map fst (files w)))"

definition list_names :: "world \<Rightarrow> string \<Rightarrow> bool \<Rightarrow> string list" where
  "list_names w target showAll =
     sort_strings (List.filter (\<lambda>n. showAll \<or> \<not> HasPrefix n ''.'')
       (remdups (child_dirs w target @ child_files w target)))"

definition listDir_short :: "world \<Rightarrow> string \<Rightarrow> bool \<Rightarrow> string \<times> int" where
  "listDir_short w target showAll =
     (if has_key (files w) target then (Base target, 0)
      else if \<not> is_dir w target then (''ls: cannot access '' @ [CHR 0x27] @ target @ [CHR 0x27] @ '': No such file or directory'', 2)
      else (Join (list_names w target showAll) ''  '', 0))"

end
