(* ===== verification/GoBinary.thy ===== *)
theory GoBinary
  imports GoNumbers
begin

text \<open>
  Big-endian integers (\<open>encoding/binary\<close>), bytes combined with XOR, and the unpadded
  URL alphabet of \<open>encoding/base64\<close>. The collection \<open>wire\<close> holds what reading back a
  written value gives.
\<close>

named_theorems wire \<open>reading back what was written\<close>

definition byte :: "nat \<Rightarrow> char" where "byte n = char_of n"

definition be32 :: "nat \<Rightarrow> string" where
  "be32 n = [char_of (n div 2 ^ 24 mod 256), char_of (n div 2 ^ 16 mod 256), char_of (n div 2 ^ 8 mod 256), char_of (n mod 256)]"

definition be64 :: "nat \<Rightarrow> string" where
  "be64 n = be32 (n div 2 ^ 32 mod 2 ^ 32) @ be32 (n mod 2 ^ 32)"

fun be_value :: "string \<Rightarrow> nat" where
  "be_value [] = 0"
| "be_value (c # s) = of_char c * 256 ^ length s + be_value s"

lemma be_value_append: "be_value (a @ b) = be_value a * 256 ^ length b + be_value b"
  by (induction a) (simp_all add: power_add algebra_simps)

lemma length_be32 [simp]: "length (be32 n) = 4" by (simp add: be32_def)
lemma length_be64 [simp]: "length (be64 n) = 8" by (simp add: be64_def)

lemma be_value_be32 [wire]:
  assumes "n < 2 ^ 32"
  shows "be_value (be32 n) = n"
proof -
  have a: "n div 16777216 mod 256 = n div 16777216" using assms by simp
  have b: "n div 65536 = n div 16777216 * 256 + n div 65536 mod 256"
    using div_mult_mod_eq [of "n div 65536" 256] by (simp add: div_mult2_eq [symmetric])
  have c: "n div 256 = n div 65536 * 256 + n div 256 mod 256"
    using div_mult_mod_eq [of "n div 256" 256] by (simp add: div_mult2_eq [symmetric])
  have d: "n = n div 256 * 256 + n mod 256" using div_mult_mod_eq [of n 256] by simp
  have "n div 16777216 * 16777216 + n div 65536 mod 256 * 65536 + n div 256 mod 256 * 256 + n mod 256 = n"
    using b c d by linarith
  then show ?thesis using a by (simp add: be32_def)
qed

lemma be_value_be64 [wire]: "n < 2 ^ 64 \<Longrightarrow> be_value (be64 n) = n"
proof -
  assume n: "n < 2 ^ 64"
  have "n div 2 ^ 32 < 2 ^ 32" using n by (simp add: less_mult_imp_div_less)
  then have "be_value (be64 n) = n div 2 ^ 32 * 2 ^ 32 + n mod 2 ^ 32"
    using be_value_be32 [of "n div 2 ^ 32"] be_value_be32 [of "n mod 2 ^ 32"]
    by (simp add: be64_def be_value_append del: power_numeral) (simp add: power2_eq_square [symmetric])
  then show ?thesis by (simp only: div_mult_mod_eq)
qed

definition be16 :: "nat \<Rightarrow> string" where
  "be16 n = [char_of (n div 256 mod 256), char_of (n mod 256)]"

lemma length_be16 [simp]: "length (be16 n) = 2" by (simp add: be16_def)

lemma be_value_be16 [wire]: "n < 65536 \<Longrightarrow> be_value (be16 n) = n"
  by (simp add: be16_def)

definition byte_xor :: "char \<Rightarrow> char \<Rightarrow> char" where
  "byte_xor a b = char_of ((of_char a :: nat) XOR of_char b)"

lemma byte_xor_twice [simp]: "byte_xor (byte_xor a k) k = a"
proof -
  have b: "(of_char a :: nat) < 2 ^ 8" "(of_char k :: nat) < 2 ^ 8" by simp_all
  have "(of_char a :: nat) = take_bit 8 (of_char a)" "(of_char k :: nat) = take_bit 8 (of_char k)"
    using b by (metis take_bit_nat_eq_self)+
  then have "((of_char a :: nat) XOR of_char k) = take_bit 8 ((of_char a :: nat) XOR of_char k)"
    by (simp add: take_bit_xor)
  then have "((of_char a :: nat) XOR of_char k) < 2 ^ 8" by (metis take_bit_nat_less_exp)
  then have "((of_char a :: nat) XOR of_char k) < 256" by simp
  then show ?thesis by (simp add: byte_xor_def of_char_of xor.assoc)
qed

section \<open>\<open>base64.RawURLEncoding\<close>\<close>

definition b64_char :: "nat \<Rightarrow> char" where
  "b64_char n =
     (if n < 26 then char_of (65 + n) else if n < 52 then char_of (71 + n)
      else if n < 62 then char_of (n - 4) else if n = 62 then CHR ''-'' else CHR ''_'')"

fun b64_url :: "string \<Rightarrow> string" where
  "b64_url [] = []"
| "b64_url [a] = (let x = (of_char a :: nat) in [b64_char (x div 4), b64_char (x mod 4 * 16)])"
| "b64_url [a, b] =
     (let x = (of_char a :: nat); y = of_char b in
      [b64_char (x div 4), b64_char (x mod 4 * 16 + y div 16), b64_char (y mod 16 * 4)])"
| "b64_url (a # b # c # s) =
     (let x = (of_char a :: nat); y = of_char b; z = of_char c in
      [b64_char (x div 4), b64_char (x mod 4 * 16 + y div 16), b64_char (y mod 16 * 4 + z div 64), b64_char (z mod 64)]
        @ b64_url s)"

lemma b64_char_ok: "n < 64 \<Longrightarrow> (of_char (b64_char n) :: nat) < 128 \<and> \<not> char_is_space (b64_char n)"
  unfolding char_is_space_def of_char_eq_iff_char_of [symmetric] by (auto simp: b64_char_def byte_in_def of_char_of)

lemma b64_url_ok: "c \<in> set (b64_url s) \<Longrightarrow> (of_char c :: nat) < 128 \<and> \<not> char_is_space c"
proof (induction s rule: b64_url.induct)
  case (2 a)
  have "(of_char a :: nat) div 4 < 64" using of_char_less_256 [of a] by linarith
  then show ?case using 2 b64_char_ok by (auto simp: Let_def)
next
  case (3 a b)
  have "(of_char a :: nat) div 4 < 64" "(of_char b :: nat) div 16 < 16" using of_char_less_256 [of a] of_char_less_256 [of b] by linarith+
  moreover have "(of_char a :: nat) mod 4 < 4" "(of_char b :: nat) mod 16 < 16" by simp_all
  ultimately have "(of_char a :: nat) div 4 < 64" "(of_char a :: nat) mod 4 * 16 + of_char b div 16 < 64" "(of_char b :: nat) mod 16 * 4 < 64"
    by linarith+
  then show ?case using 3 b64_char_ok by (auto simp: Let_def)
next
  case (4 a b c s)
  have "(of_char a :: nat) div 4 < 64" "(of_char b :: nat) div 16 < 16" "(of_char c :: nat) div 64 < 4"
    using of_char_less_256 [of a] of_char_less_256 [of b] of_char_less_256 [of c] by linarith+
  moreover have "(of_char a :: nat) mod 4 < 4" "(of_char b :: nat) mod 16 < 16" by simp_all
  ultimately have "(of_char a :: nat) div 4 < 64" "(of_char a :: nat) mod 4 * 16 + of_char b div 16 < 64"
    "(of_char b :: nat) mod 16 * 4 + of_char c div 64 < 64" "(of_char c :: nat) mod 64 < 64"
    by linarith+
  then show ?case using 4 b64_char_ok by (auto simp: Let_def)
qed simp

lemma b64_url_nonempty [simp]: "b64_url s = [] \<longleftrightarrow> s = []"
  by (induction s rule: b64_url.induct) (auto simp: Let_def)

lemma TrimSpace_b64 [simp]: "TrimSpace (b64_url s) = b64_url s"
proof (cases "s = []")
  case False
  then have "b64_url s \<noteq> []" by simp
  then show ?thesis using b64_url_ok [of "hd (b64_url s)" s] b64_url_ok [of "last (b64_url s)" s]
    by (intro TrimSpace_id) auto
qed simp

end
