(* ===== verification/Sftp.thy ===== *)
theory Sftp
  imports Vfs GoBinary
begin

unbundle bit_operations_syntax

text \<open>
  The SFTP subsystem (\<open>internal/server/trap_ssh_sftp.go\<close>): the wire encoding, one
  function per request of \<open>runVirtualSFTP\<close>, and the request loop over the bytes of the
  channel. A request works on the shared world and the session's handles, writes packets to
  the channel and may record an upload. A slice out of range, which panics in Go, is the
  outcome \<open>Panics\<close>.

  \<open>sysEnv\<close> is what the handlers ask of the system at the time of a request: the virtual
  clock, \<open>time.Now().Unix()\<close> as a \<open>uint32\<close>, and the generated files. \<open>sha\<close> is
  SHA-256; a hasher is the bytes written to it.
\<close>

record sysEnv =
  se_now :: gotime
  se_unix :: nat
  se_dyn :: "string \<Rightarrow> string option"

record sftpHandle =
  h_path :: string
  h_dir :: bool
  h_write :: bool
  h_read :: bool
  h_listed :: bool
  h_data :: string
  h_total :: int
  h_hasher :: "string option"
  h_next :: nat

record sftpState =
  st_world :: world
  st_handles :: "(string, sftpHandle) gomap"
  st_next :: int

text \<open>The fields of the recorded result of an upload.\<close>

record uploadEvent =
  up_path :: string
  up_bytes :: int
  up_sum :: string
  up_kind :: string
  up_depth :: int
  up_risk :: int
  up_loop :: int
  up_stage :: string
  up_relation :: string
  up_message :: string

datatype sftpOutcome = Returns | Panics | Goes_On sftpState string "uploadEvent list"

definition maxVirtualSCPUploadBytes :: int where "maxVirtualSCPUploadBytes = 67108864"

section \<open>The wire\<close>

definition putString :: "string \<Rightarrow> string" where
  "putString s = be32 (length s mod 2 ^ 32) @ s"

text \<open>
  A reader takes the rest of the packet and leaves what it did not read; a short packet
  leaves the position where it was, except that \<open>sftpGetString\<close> has read the length.
\<close>

definition getU32 :: "string \<Rightarrow> nat option \<times> string" where
  "getU32 b = (if length b < 4 then (None, b) else (Some (be_value (take 4 b)), drop 4 b))"

definition getU64 :: "string \<Rightarrow> nat option \<times> string" where
  "getU64 b = (if length b < 8 then (None, b) else (Some (be_value (take 8 b)), drop 8 b))"

definition getString :: "string \<Rightarrow> string option \<times> string" where
  "getString b =
     (case getU32 b of
        (None, r) \<Rightarrow> (None, r)
      | (Some n, r) \<Rightarrow> if length r < n then (None, r) else (Some (take n r), drop n r))"

definition sftpWritePacket :: "string \<Rightarrow> string" where
  "sftpWritePacket payload = be32 (length payload mod 2 ^ 32) @ payload"

text \<open>\<open>None\<close> is a read error: the end of the channel or a length the server refuses.\<close>

definition sftpReadPacket :: "string \<Rightarrow> (string \<times> string) option" where
  "sftpReadPacket ch =
     (if length ch < 4 then None
      else (let n = be_value (take 4 ch); r = drop 4 ch in
            if n = 0 \<or> 2 ^ 20 < n then None
            else if length r < n then None
            else Some (take n r, drop n r)))"

definition sftpReplyStatus :: "nat \<Rightarrow> nat \<Rightarrow> string \<Rightarrow> string" where
  "sftpReplyStatus rid code msg =
     sftpWritePacket (byte 101 # be32 rid @ be32 code @ putString msg @ putString [])"

definition fx_failure :: "nat \<Rightarrow> string" where
  "fx_failure rid = sftpReplyStatus rid 4 ''Failure''"

definition fx_no_such_file :: "nat \<Rightarrow> string" where
  "fx_no_such_file rid = sftpReplyStatus rid 2 ''No such file''"

definition fx_ok :: "nat \<Rightarrow> string" where
  "fx_ok rid = sftpReplyStatus rid 0 ''OK''"

definition fx_eof :: "nat \<Rightarrow> string" where
  "fx_eof rid = sftpReplyStatus rid 1 ''EOF''"

definition unix_seconds :: "gotime \<Rightarrow> nat" where
  "unix_seconds t = nat ((t div second - 62135596800) mod 2 ^ 32)"

definition sftpAttrsForWorld :: "sysEnv \<Rightarrow> world \<Rightarrow> string \<Rightarrow> string" where
  "sftpAttrsForWorld e w target =
     (let meta = lookup_or zero_meta (fileMeta w) target;
          isDir = is_dir w target;
          mode = (if isDir then 0x1ED else lookup_or 0 (fileModes w) target);
          size = (if isDir then 4096 else m_size meta);
          perm = (mode AND 0xFFF) OR (if isDir then 0x4000 else 0x8000);
          ts = (if m_mtime meta = 0 then se_unix e else unix_seconds (m_mtime meta))
      in be32 (1 OR 4 OR 8) @ be64 (nat (max size 0)) @ be32 perm @ be32 ts @ be32 ts)"

section \<open>Requests\<close>

text \<open>An answer that changes nothing.\<close>

definition answer :: "sftpState \<Rightarrow> string \<Rightarrow> sftpOutcome" where
  "answer st pkt = Goes_On st pkt []"

definition do_realpath :: "sysEnv \<Rightarrow> nat \<Rightarrow> string \<Rightarrow> sftpState \<Rightarrow> sftpOutcome" where
  "do_realpath e rid body st =
     (case getString body of
        (None, _) \<Rightarrow> answer st (fx_failure rid)
      | (Some p, _) \<Rightarrow>
          (let target = resolve (st_world st) p;
               attrs = sftpAttrsForWorld e (st_world st) target
           in answer st (sftpWritePacket (byte 104 # be32 rid @ be32 1 @ putString target @ putString target @ attrs))))"

definition do_stat :: "sysEnv \<Rightarrow> nat \<Rightarrow> string \<Rightarrow> sftpState \<Rightarrow> sftpOutcome" where
  "do_stat e rid body st =
     (case getString body of
        (None, _) \<Rightarrow> answer st (fx_failure rid)
      | (Some p, _) \<Rightarrow>
          (let w = st_world st;
               target = resolve w p;
               fileOK = (virtualReadFile (se_dyn e) w target \<noteq> None);
               attrs = sftpAttrsForWorld e w target
           in if \<not> fileOK \<and> \<not> is_dir w target then answer st (fx_no_such_file rid)
              else answer st (sftpWritePacket (byte 105 # be32 rid @ attrs))))"

definition do_open :: "(string \<Rightarrow> string) \<Rightarrow> sysEnv \<Rightarrow> nat \<Rightarrow> string \<Rightarrow> sftpState \<Rightarrow> sftpOutcome" where
  "do_open uni e rid body st =
     (case getString body of
        (None, _) \<Rightarrow> answer st (fx_failure rid)
      | (Some p, r) \<Rightarrow>
          (case getU32 r of
             (None, _) \<Rightarrow> answer st (fx_failure rid)
           | (Some flags, _) \<Rightarrow>
               (let w = st_world st;
                    target = resolve w p;
                    h = CHR ''f'' # Itoa (st_next st);
                    write = ((flags AND (2 OR 4 OR 8 OR 16)) \<noteq> 0);
                    read = ((flags AND 1) \<noteq> 0);
                    found = virtualReadFile (se_dyn e) w target;
                    trunc = (write \<and> (flags AND 16) \<noteq> 0);
                    content = (if trunc then [] else case found of Some c \<Rightarrow> c | None \<Rightarrow> []);
                    exists = (trunc \<or> found \<noteq> None);
                    w = (if trunc then fst (setVirtualFile uni (se_now e) target [] w) else w);
                    st = st\<lparr>st_world := w, st_next := st_next st + 1\<rparr>
                in if \<not> exists \<and> \<not> write then answer st (fx_no_such_file rid)
                   else (let vh = \<lparr>h_path = target, h_dir = False, h_write = write, h_read = read, h_listed = False,
                                   h_data = content, h_total = int (length content),
                                   h_hasher = (if write then Some [] else None), h_next = 0\<rparr>
                         in answer (st\<lparr>st_handles := AList.update h vh (st_handles st)\<rparr>)
                              (sftpWritePacket (byte 102 # be32 rid @ putString h))))))"

text \<open>
  The change a WRITE makes to its handle; \<open>None\<close> is the panic of
  \<open>h.data[int(offset):...]\<close> on a negative index. \<open>i\<close> is \<open>int(offset)\<close>, negative
  for an offset of \<open>2 ^ 63\<close> and more.
\<close>

definition write_data :: "int \<Rightarrow> string \<Rightarrow> string \<Rightarrow> string option" where
  "write_data i d old =
     (if i < int maxVirtualFileBytes then
        (let need = min (wrap64 (i + int (length d))) (int maxVirtualFileBytes);
             grown = (if int (length old) < need then old @ replicate (nat need - length old) (CHR 0x00) else old);
             n = (if int maxVirtualFileBytes < wrap64 (i + int (length d)) then int maxVirtualFileBytes - i else int (length d))
         in if n > 0 then
              (if i < 0 then None
               else Some (take (nat i) grown @ take (nat n) d @ drop (nat i + nat n) grown))
            else Some grown)
      else Some old)"

definition do_write :: "nat \<Rightarrow> string \<Rightarrow> sftpState \<Rightarrow> sftpOutcome" where
  "do_write rid body st =
     (case getString body of
        (None, _) \<Rightarrow> answer st (fx_failure rid)
      | (Some hs, r) \<Rightarrow>
     (case getU64 r of
        (None, _) \<Rightarrow> answer st (fx_failure rid)
      | (Some offset, r) \<Rightarrow>
     (case getString r of
        (None, _) \<Rightarrow> answer st (fx_failure rid)
      | (Some d, _) \<Rightarrow>
     (case map_of (st_handles st) hs of
        None \<Rightarrow> answer st (fx_failure rid)
      | Some h \<Rightarrow>
          if \<not> h_write h then answer st (fx_failure rid)
          else (let i = wrap64 (int offset); stop = wrap64 (i + int (length d)) in
                if maxVirtualSCPUploadBytes < stop
                then answer st (sftpReplyStatus rid 4 ''No space left on device'')
                else (case write_data i d (h_data h) of
                        None \<Rightarrow> Panics
                      | Some data' \<Rightarrow>
                          (let h = h\<lparr>h_data := data'\<rparr>;
                               h = (case h_hasher h of
                                      Some fed \<Rightarrow> (if offset = h_next h
                                                  then h\<lparr>h_hasher := Some (fed @ d), h_next := (h_next h + length d) mod 2 ^ 64\<rparr>
                                                  else h)
                                    | None \<Rightarrow> h);
                               h = (if h_total h < stop then h\<lparr>h_total := stop\<rparr> else h)
                           in answer (st\<lparr>st_handles := AList.update hs h (st_handles st)\<rparr>) (fx_ok rid))))))))"

definition do_read :: "nat \<Rightarrow> string \<Rightarrow> sftpState \<Rightarrow> sftpOutcome" where
  "do_read rid body st =
     (case getString body of
        (None, _) \<Rightarrow> answer st (fx_failure rid)
      | (Some hs, r) \<Rightarrow>
     (case getU64 r of
        (None, _) \<Rightarrow> answer st (fx_failure rid)
      | (Some offset, r) \<Rightarrow>
     (case getU32 r of
        (None, _) \<Rightarrow> answer st (fx_failure rid)
      | (Some n, _) \<Rightarrow>
     (case map_of (st_handles st) hs of
        None \<Rightarrow> answer st (fx_failure rid)
      | Some h \<Rightarrow>
          if \<not> h_read h then answer st (fx_failure rid)
          else (let i = wrap64 (int offset) in
                if int (length (h_data h)) \<le> i then answer st (fx_eof rid)
                else if i < 0 then Panics
                else answer st (sftpWritePacket
                       (byte 103 # be32 rid @ putString (take n (drop (nat i) (h_data h))))))))))"

text \<open>What CLOSE records of an upload, and the staging maps it changes.\<close>

definition record_upload ::
  "(string \<Rightarrow> string) \<Rightarrow> (string \<Rightarrow> string) \<Rightarrow> sftpHandle \<Rightarrow> world \<Rightarrow> world \<times> uploadEvent" where
  "record_upload uni sha h w =
     (let digest = (case h_hasher h of
                      Some fed \<Rightarrow> if int (h_next h) = h_total h mod 2 ^ 64 then sha fed else sha (h_data h)
                    | None \<Rightarrow> sha (h_data h));
          kind = inferVirtualFileKind uni (h_path h) (h_data h);
          isPayloadKind = (kind = ''script'' \<or> Contains (ToLower uni kind) ''elf'');
          isPayload = (isPayloadKind \<and> (isVirtualPayloadStagingPath (h_path h) \<or> isStealthPayloadPath (h_path h)));
          base = \<lparr>up_path = h_path h, up_bytes = h_total h, up_sum = hex_encode digest, up_kind = kind,
                  up_depth = 5, up_risk = 92, up_loop = 0, up_stage = [], up_relation = [],
                  up_message = ''virtual SFTP upload received''\<rparr>
      in if isPayload then
           (case classifyVirtualPayloadStage (h_path h) digest w of
              (w, stage, relation, message) \<Rightarrow>
                (w\<lparr>stagingAttempts := incr (h_path h) (stagingAttempts w),
                   stagingPayloadHash := AList.update (h_path h) digest (stagingPayloadHash w)\<rparr>,
                 base\<lparr>up_depth := 6, up_risk := (if stage = ''retry'' then 98 else 97),
                      up_loop := (if stage = ''retry'' then 1 else 0), up_stage := stage, up_relation := relation,
                      up_message := message\<rparr>))
         else (w, base))"

definition set_size :: "string \<Rightarrow> int \<Rightarrow> world \<Rightarrow> world" where
  "set_size p n w = w\<lparr>fileMeta := AList.update p ((lookup_or zero_meta (fileMeta w) p)\<lparr>m_size := n\<rparr>) (fileMeta w)\<rparr>"

definition do_close ::
  "(string \<Rightarrow> string) \<Rightarrow> (string \<Rightarrow> string) \<Rightarrow> sysEnv \<Rightarrow> nat \<Rightarrow> string \<Rightarrow> sftpState \<Rightarrow> sftpOutcome" where
  "do_close uni sha e rid body st =
     (case getString body of
        (None, _) \<Rightarrow> answer st (fx_failure rid)
      | (Some hs, _) \<Rightarrow>
     (case map_of (st_handles st) hs of
        None \<Rightarrow> answer st (fx_failure rid)
      | Some h \<Rightarrow>
          (let closed = st\<lparr>st_handles := AList.delete hs (st_handles st)\<rparr> in
           if h_write h then
             (case setVirtualFile uni (se_now e) (h_path h) (h_data h) (st_world st) of
                (w, stored) \<Rightarrow>
                  if \<not> stored then answer (closed\<lparr>st_world := w\<rparr>) (sftpReplyStatus rid 4 ''No space left on device'')
                  else (case record_upload uni sha h (set_size (h_path h) (h_total h) w) of
                          (w, ev) \<Rightarrow> Goes_On (closed\<lparr>st_world := w\<rparr>) (fx_ok rid) [ev]))
           else answer closed (fx_ok rid))))"

definition do_rename :: "(string \<Rightarrow> string) \<Rightarrow> sysEnv \<Rightarrow> nat \<Rightarrow> string \<Rightarrow> sftpState \<Rightarrow> sftpOutcome" where
  "do_rename uni e rid body st =
     (case getString body of
        (oldp, r) \<Rightarrow>
     (case (oldp, fst (getString r)) of
        (Some oldp, Some newp) \<Rightarrow>
          (let w = st_world st; old = resolve w oldp; new = resolve w newp in
           case virtualReadFile (se_dyn e) w old of
             None \<Rightarrow> answer st (fx_no_such_file rid)
           | Some content \<Rightarrow>
               (let meta = lookup_or zero_meta (fileMeta w) old;
                    mode = lookup_or 0 (fileModes w) old;
                    attrs = lookup_or [] (fileAttrs w) old
                in case setVirtualFile uni (se_now e) new content w of
                     (w, False) \<Rightarrow> answer (st\<lparr>st_world := w\<rparr>) (fx_no_such_file rid)
                   | (w, True) \<Rightarrow>
                       (let w = w\<lparr>fileMeta := AList.update new meta (fileMeta w),
                                  fileModes := AList.update new mode (fileModes w),
                                  fileAttrs := AList.update new attrs (fileAttrs w)\<rparr>
                        in answer (st\<lparr>st_world := deleteVirtualFile old w\<rparr>) (fx_ok rid))))
      | _ \<Rightarrow> answer st (fx_failure rid)))"

definition do_remove :: "sysEnv \<Rightarrow> nat \<Rightarrow> string \<Rightarrow> sftpState \<Rightarrow> sftpOutcome" where
  "do_remove e rid body st =
     (case getString body of
        (None, _) \<Rightarrow> answer st (fx_failure rid)
      | (Some p, _) \<Rightarrow>
          (let w = st_world st; target = resolve w p in
           if virtualReadFile (se_dyn e) w target = None then answer st (fx_no_such_file rid)
           else answer (st\<lparr>st_world := deleteVirtualFile target w\<rparr>) (fx_ok rid)))"

definition do_mkdir :: "nat \<Rightarrow> string \<Rightarrow> sftpState \<Rightarrow> sftpOutcome" where
  "do_mkdir rid body st =
     (case getString body of
        (None, _) \<Rightarrow> answer st (fx_failure rid)
      | (Some p, _) \<Rightarrow>
          (case setVirtualDir (resolve (st_world st) p) (st_world st) of
             (w, good) \<Rightarrow> answer (st\<lparr>st_world := w\<rparr>) (if good then fx_ok rid else fx_failure rid)))"

definition do_rmdir :: "nat \<Rightarrow> string \<Rightarrow> sftpState \<Rightarrow> sftpOutcome" where
  "do_rmdir rid body st =
     (case getString body of
        (None, _) \<Rightarrow> answer st (fx_failure rid)
      | (Some p, _) \<Rightarrow>
          (let w = st_world st; target = resolve w p in
           if is_dir w target
           then answer (st\<lparr>st_world := w\<lparr>dirs := AList.delete target (dirs w)\<rparr>\<rparr>) (fx_ok rid)
           else answer st (fx_no_such_file rid)))"

definition do_setstat :: "sysEnv \<Rightarrow> nat \<Rightarrow> string \<Rightarrow> sftpState \<Rightarrow> sftpOutcome" where
  "do_setstat e rid body st =
     (case getString body of
        (None, _) \<Rightarrow> answer st (fx_failure rid)
      | (Some p, r) \<Rightarrow>
     (case getU32 r of
        (None, _) \<Rightarrow> answer st (fx_failure rid)
      | (Some flags, r) \<Rightarrow>
          (let w = st_world st;
               target = resolve w p;
               fileOK = (virtualReadFile (se_dyn e) w target \<noteq> None);
               dirOK = is_dir w target;
               r = (if (flags AND 1) \<noteq> 0 then snd (getU64 r) else r);
               r = (if (flags AND 2) \<noteq> 0 then snd (getU32 (snd (getU32 r))) else r);
               w = (if (flags AND 4) \<noteq> 0 then
                      (case fst (getU32 r) of
                         Some perm \<Rightarrow> if fileOK then w\<lparr>fileModes := AList.update target (perm AND 0xFFF) (fileModes w)\<rparr> else w
                       | None \<Rightarrow> w)
                    else w);
               st = st\<lparr>st_world := w\<rparr>
           in if \<not> fileOK \<and> \<not> dirOK then answer st (fx_no_such_file rid) else answer st (fx_ok rid))))"

definition do_opendir :: "nat \<Rightarrow> string \<Rightarrow> sftpState \<Rightarrow> sftpOutcome" where
  "do_opendir rid body st =
     (case getString body of
        (None, _) \<Rightarrow> answer st (fx_failure rid)
      | (Some p, _) \<Rightarrow>
          (let target = resolve (st_world st) p in
           if \<not> is_dir (st_world st) target then answer st (fx_no_such_file rid)
           else (let h = CHR ''d'' # Itoa (st_next st);
                     vh = \<lparr>h_path = target, h_dir = True, h_write = False, h_read = False, h_listed = False,
                           h_data = [], h_total = 0, h_hasher = None, h_next = 0\<rparr>
                 in answer (st\<lparr>st_next := st_next st + 1, st_handles := AList.update h vh (st_handles st)\<rparr>)
                      (sftpWritePacket (byte 102 # be32 rid @ putString h)))))"

definition do_readdir :: "sysEnv \<Rightarrow> nat \<Rightarrow> string \<Rightarrow> sftpState \<Rightarrow> sftpOutcome" where
  "do_readdir e rid body st =
     (case getString body of
        (None, _) \<Rightarrow> answer st (fx_failure rid)
      | (Some hs, _) \<Rightarrow>
     (case map_of (st_handles st) hs of
        None \<Rightarrow> answer st (fx_eof rid)
      | Some h \<Rightarrow>
          if \<not> h_dir h \<or> h_listed h then answer st (fx_eof rid)
          else (let w = st_world st;
                    names = sort_strings (child_dirs w (h_path h) @ child_files w (h_path h));
                    entry = (\<lambda>name. putString name @ putString name @ sftpAttrsForWorld e w (PathJoin (h_path h) name))
                in answer (st\<lparr>st_handles := AList.update hs (h\<lparr>h_listed := True\<rparr>) (st_handles st)\<rparr>)
                     (sftpWritePacket (byte 104 # be32 rid @ be32 (length names mod 2 ^ 32) @ concat (map entry names))))))"

section \<open>The loop\<close>

definition sftp_request ::
  "(string \<Rightarrow> string) \<Rightarrow> (string \<Rightarrow> string) \<Rightarrow> sysEnv \<Rightarrow> nat \<Rightarrow> nat \<Rightarrow> string \<Rightarrow> sftpState \<Rightarrow> sftpOutcome" where
  "sftp_request uni sha e typ rid body st =
     (if typ = 16 then do_realpath e rid body st
      else if typ = 17 \<or> typ = 7 then do_stat e rid body st
      else if typ = 3 then do_open uni e rid body st
      else if typ = 6 then do_write rid body st
      else if typ = 5 then do_read rid body st
      else if typ = 4 then do_close uni sha e rid body st
      else if typ = 18 then do_rename uni e rid body st
      else if typ = 13 then do_remove e rid body st
      else if typ = 14 then do_mkdir rid body st
      else if typ = 15 then do_rmdir rid body st
      else if typ = 9 then do_setstat e rid body st
      else if typ = 11 then do_opendir rid body st
      else if typ = 12 then do_readdir e rid body st
      else answer st (sftpReplyStatus rid 8 ''Operation unsupported''))"

definition sftp_packet ::
  "(string \<Rightarrow> string) \<Rightarrow> (string \<Rightarrow> string) \<Rightarrow> sysEnv \<Rightarrow> string \<Rightarrow> sftpState \<Rightarrow> sftpOutcome" where
  "sftp_packet uni sha e pkt st =
     (case pkt of
        [] \<Rightarrow> Returns
      | t # rest \<Rightarrow>
          if of_char t = (1 :: nat) then answer st (sftpWritePacket (byte 2 # be32 3))
          else (case getU32 rest of
                  (None, _) \<Rightarrow> Returns
                | (Some rid, body) \<Rightarrow> sftp_request uni sha e (of_char t) rid body st))"

text \<open>
  The loop over the bytes of the channel; \<open>env k\<close> is the system at request \<open>k\<close>. The
  result is the last state, the bytes written, the uploads recorded, and whether the
  session ended in a panic.
\<close>

function runVirtualSFTP ::
  "(string \<Rightarrow> string) \<Rightarrow> (string \<Rightarrow> string) \<Rightarrow> (nat \<Rightarrow> sysEnv) \<Rightarrow> nat \<Rightarrow> string \<Rightarrow> sftpState
     \<Rightarrow> sftpState \<times> string \<times> uploadEvent list \<times> bool" where
  "runVirtualSFTP uni sha env k ch st =
     (case sftpReadPacket ch of
        None \<Rightarrow> (st, [], [], False)
      | Some (pkt, rest) \<Rightarrow>
          (case sftp_packet uni sha (env k) pkt st of
             Returns \<Rightarrow> (st, [], [], False)
           | Panics \<Rightarrow> (st, [], [], True)
           | Goes_On st out evs \<Rightarrow>
               (case runVirtualSFTP uni sha env (Suc k) rest st of
                  (st, outs, evss, p) \<Rightarrow> (st, out @ outs, evs @ evss, p))))"
  by pat_completeness auto
termination
  by (relation "measure (\<lambda>(_, _, _, _, ch, _). length ch)")
    (auto simp: sftpReadPacket_def Let_def split: if_splits)

declare runVirtualSFTP.simps [simp del]

end
