(* ===== verification/VfsProofs.thy ===== *)
theory VfsProofs
  imports Vfs
begin

text \<open>
  The filesystem keeps its quotas, a write that is accepted is what is read, a write that is
  refused changes nothing, immutable files stay, resolved paths are absolute and clean, and
  truncation never cuts a UTF-8 text by more than the bytes of its last character.
\<close>

section \<open>A bounded store\<close>

text \<open>
  What the users of the filesystem (the shell's redirections, SCP, SFTP) rely on: \<open>put\<close>
  stores \<open>keep v\<close> under \<open>norm k\<close> or refuses and leaves the state as it was,
  \<open>del\<close> removes one key, and both keep the invariant \<open>ok\<close>.
\<close>

datatype ('k, 'v) store_op = Put 'k 'v | Del 'k

primrec apply_op :: "('k \<Rightarrow> 'v \<Rightarrow> 's \<Rightarrow> 's \<times> bool) \<Rightarrow> ('k \<Rightarrow> 's \<Rightarrow> 's) \<Rightarrow> ('k, 'v) store_op \<Rightarrow> 's \<Rightarrow> 's" where
  "apply_op put del (Put k v) s = fst (put k v s)"
| "apply_op put del (Del k) s = del k s"

definition run_store ::
  "('k \<Rightarrow> 'v \<Rightarrow> 's \<Rightarrow> 's \<times> bool) \<Rightarrow> ('k \<Rightarrow> 's \<Rightarrow> 's) \<Rightarrow> ('k, 'v) store_op list \<Rightarrow> 's \<Rightarrow> 's" where
  "run_store put del xs s = fold (apply_op put del) xs s"

definition touched :: "('k \<Rightarrow> 'k) \<Rightarrow> ('k, 'v) store_op \<Rightarrow> 'k" where
  "touched norm x = (case x of Put k v \<Rightarrow> norm k | Del k \<Rightarrow> k)"

locale bounded_store =
  fixes put :: "'k \<Rightarrow> 'v \<Rightarrow> 's \<Rightarrow> 's \<times> bool"
    and del :: "'k \<Rightarrow> 's \<Rightarrow> 's"
    and get :: "'s \<Rightarrow> 'k \<Rightarrow> 'v option"
    and norm :: "'k \<Rightarrow> 'k"
    and keep :: "'v \<Rightarrow> 'v"
    and ok :: "'s \<Rightarrow> bool"
  assumes put_ok: "ok s \<Longrightarrow> ok (fst (put k v s))"
    and del_ok: "ok s \<Longrightarrow> ok (del k s)"
    and put_get: "snd (put k v s) \<Longrightarrow> get (fst (put k v s)) j = (if j = norm k then Some (keep v) else get s j)"
    and put_refused: "\<not> snd (put k v s) \<Longrightarrow> fst (put k v s) = s"
    and del_get: "get (del k s) j = (if j = k then None else get s j)"
begin

lemma apply_op_ok: "ok s \<Longrightarrow> ok (apply_op put del x s)"
  by (cases x) (simp_all add: put_ok del_ok)

lemma run_ok: "ok s \<Longrightarrow> ok (run_store put del xs s)"
  unfolding run_store_def by (induction xs arbitrary: s) (simp_all add: apply_op_ok)

text \<open>A key that no operation of the sequence touches keeps its value.\<close>

lemma apply_op_other: "j \<noteq> touched norm x \<Longrightarrow> get (apply_op put del x s) j = get s j"
proof (cases x)
  case (Put k v)
  then show "j \<noteq> touched norm x \<Longrightarrow> get (apply_op put del x s) j = get s j"
    by (cases "snd (put k v s)") (auto simp: put_get put_refused touched_def)
qed (simp add: del_get touched_def)

lemma run_other: "j \<notin> touched norm ` set xs \<Longrightarrow> get (run_store put del xs s) j = get s j"
  unfolding run_store_def by (induction xs arbitrary: s) (simp_all add: apply_op_other)

text \<open>An accepted write is what is read until an operation on the same key.\<close>

lemma run_after_put:
  assumes "snd (put k v s)" "norm k \<notin> touched norm ` set xs"
  shows "get (run_store put del xs (fst (put k v s))) (norm k) = Some (keep v)"
  using run_other [OF assms(2)] put_get [OF assms(1)] by simp

end

section \<open>The quotas\<close>

definition quota_ok :: "world \<Rightarrow> bool" where
  "quota_ok w \<longleftrightarrow>
     map_wf (files w) \<and> length (files w) \<le> maxVirtualFiles
     \<and> (\<forall>c \<in> snd ` set (files w). length c \<le> maxVirtualFileBytes)
     \<and> virtualStorageBytes w \<le> maxVirtualTotalBytes
     \<and> map_wf (dirs w) \<and> length (dirs w) \<le> maxVirtualDirs"

lemma drop_invalid_tail_prefix: "\<exists>k \<le> length v. drop_invalid_tail n v = take k v"
proof (induction n arbitrary: v)
  case 0
  show ?case by (intro exI [of _ "length v"]) simp
next
  case (Suc n)
  obtain k where "k \<le> length (butlast v)" "drop_invalid_tail n (butlast v) = take k (butlast v)"
    using Suc.IH by blast
  then show ?case
    by (cases "v \<noteq> [] \<and> \<not> valid_utf8 v")
      (auto simp: butlast_conv_take intro: exI [of _ "min k (length v - 1)"] exI [of _ "length v"])
qed

lemma limitVirtualContent_prefix: "\<exists>k. limitVirtualContent v = take k v \<and> k \<le> maxVirtualFileBytes"
proof (cases "length v \<le> maxVirtualFileBytes")
  case True
  then show ?thesis by (auto simp: limitVirtualContent_def intro!: exI [of _ "length v"])
next
  case False
  obtain k where k: "k \<le> length (take maxVirtualFileBytes v)"
    "drop_invalid_tail maxVirtualFileBytes (take maxVirtualFileBytes v) = take k (take maxVirtualFileBytes v)"
    using drop_invalid_tail_prefix by blast
  then have "k \<le> maxVirtualFileBytes" using False by simp
  then show ?thesis using k False
    by (intro exI [of _ k]) (simp add: limitVirtualContent_def min_absorb1)
qed

lemma limitVirtualContent_length [bounds_lemmas]: "length (limitVirtualContent v) \<le> maxVirtualFileBytes"
  using limitVirtualContent_prefix [of v] by (metis length_take min.coboundedI2 min.commute)

lemma storeVirtualFile_ok:
  assumes "quota_ok w" "has_key (files w) t \<or> length (files w) < maxVirtualFiles"
  shows "quota_ok (fst (storeVirtualFile uni now t c w))"
proof -
  let ?s = "limitVirtualContent c"
  have sz: "\<forall>x \<in> snd ` set (AList.update t ?s (files w)). length x \<le> maxVirtualFileBytes"
    using assms(1) set_update [of t ?s "files w"] limitVirtualContent_length [of c]
    by (fastforce simp: quota_ok_def)
  have tot: "total length (AList.update t ?s (files w)) \<le> maxVirtualTotalBytes"
    if "canStoreVirtualContent w t ?s"
    using that by (auto simp: canStoreVirtualContent_def virtualStorageBytes_def total_update lookup_or_def split: option.splits)
  show ?thesis
    using assms sz tot
    by (auto simp: storeVirtualFile_def quota_ok_def Let_def length_update virtualStorageBytes_def)
qed

lemma setVirtualFile_ok: "quota_ok w \<Longrightarrow> quota_ok (fst (setVirtualFile uni now t c w))"
  by (auto simp: setVirtualFile_def Let_def intro!: storeVirtualFile_ok)

lemma appendVirtualFile_ok: "quota_ok w \<Longrightarrow> quota_ok (fst (appendVirtualFile uni now t c w))"
  by (auto simp: appendVirtualFile_def Let_def intro!: storeVirtualFile_ok)

lemma deleteVirtualFile_ok:
  assumes "quota_ok w"
  shows "quota_ok (deleteVirtualFile t w)"
proof -
  have "\<forall>c \<in> snd ` set (AList.delete t (files w)). length c \<le> maxVirtualFileBytes"
    using set_delete [of t "files w"] assms by (fastforce simp: quota_ok_def)
  moreover have "total length (AList.delete t (files w)) \<le> maxVirtualTotalBytes"
    using assms total_delete_le [of length t "files w"] by (simp add: quota_ok_def virtualStorageBytes_def)
  moreover have "length (AList.delete t (files w)) \<le> maxVirtualFiles"
    using assms by (auto simp: quota_ok_def intro: le_trans [OF length_delete_le])
  ultimately show ?thesis using assms
    by (simp add: quota_ok_def deleteVirtualFile_def virtualStorageBytes_def)
qed

lemma setVirtualDir_ok: "quota_ok w \<Longrightarrow> quota_ok (fst (setVirtualDir t w))"
  by (auto simp: setVirtualDir_def quota_ok_def length_update virtualStorageBytes_def)

text \<open>With a free slot and room for one more file of the largest size a write is accepted.\<close>

lemma setVirtualFile_accepts:
  assumes "\<not> virtualFileImmutable w p" "length (files w) < maxVirtualFiles"
    and "virtualStorageBytes w + maxVirtualFileBytes \<le> maxVirtualTotalBytes"
  shows "snd (setVirtualFile uni now p c w)"
  using assms limitVirtualContent_length [of c]
  by (auto simp: setVirtualFile_def storeVirtualFile_def canStoreVirtualContent_def virtualFileImmutable_def Clean_idem Let_def)

lemma setVirtualFile_get:
  "snd (setVirtualFile uni now t c w) \<Longrightarrow>
     map_of (files (fst (setVirtualFile uni now t c w))) j
       = (if j = Clean t then Some (limitVirtualContent c) else map_of (files w) j)"
  by (auto simp: setVirtualFile_def storeVirtualFile_def Let_def gomap split: if_splits)

lemma setVirtualFile_refused: "\<not> snd (setVirtualFile uni now t c w) \<Longrightarrow> fst (setVirtualFile uni now t c w) = w"
  by (auto simp: setVirtualFile_def storeVirtualFile_def Let_def split: if_splits)

interpretation vfs: bounded_store "setVirtualFile uni now" deleteVirtualFile "\<lambda>w. map_of (files w)"
  Clean limitVirtualContent quota_ok for uni now
proof
  show "map_of (files (deleteVirtualFile k s)) j = (if j = k then None else map_of (files s) j)" for k s j
    by (simp add: deleteVirtualFile_def gomap)
qed (simp_all add: setVirtualFile_ok deleteVirtualFile_ok setVirtualFile_get setVirtualFile_refused)

section \<open>Properties\<close>

datatype vfs_op = Write_File string string | Append_File string string | Remove_File string | Make_Dir string

fun vfs_step :: "(string \<Rightarrow> string) \<Rightarrow> gotime \<Rightarrow> vfs_op \<Rightarrow> world \<Rightarrow> world" where
  "vfs_step uni now (Write_File p c) w = fst (setVirtualFile uni now p c w)"
| "vfs_step uni now (Append_File p c) w = fst (appendVirtualFile uni now p c w)"
| "vfs_step uni now (Remove_File p) w = deleteVirtualFile p w"
| "vfs_step uni now (Make_Dir p) w = fst (setVirtualDir p w)"

lemma vfs_step_ok: "quota_ok w \<Longrightarrow> quota_ok (vfs_step uni now x w)"
  by (cases x) (simp_all add: setVirtualFile_ok appendVirtualFile_ok deleteVirtualFile_ok setVirtualDir_ok)

definition empty_world :: world where
  "empty_world = \<lparr>user = ''root'', cwd = ''/root'', files = [], fileMeta = [], dirs = [(''/root'', True)],
     fileAttrs = [], fileModes = [], stagingAttempts = [], stagingPayloadHash = [], sessionPayloadHash = []\<rparr>"

lemma empty_world_ok: "quota_ok empty_world"
  by (simp add: quota_ok_def empty_world_def virtualStorageBytes_def total_def map_wf_def
      maxVirtualFiles_def maxVirtualTotalBytes_def maxVirtualDirs_def)

text \<open>No sequence of writes, appends, deletions and directory creations leaves the quotas.\<close>

lemma vfs_quota_invariant:
  assumes "quota_ok w"
  shows "quota_ok (fold (\<lambda>(now, x). vfs_step uni now x) xs w)"
  using assms by (induction xs arbitrary: w) (auto simp: vfs_step_ok)

theorem vfs_quota_invariant_witness:
  "quota_ok (fold (\<lambda>(now, x). vfs_step id now x) [(1, Write_File ''/tmp/a'' ''x''), (2, Remove_File ''/tmp/a'')] empty_world)"
  by (rule vfs_quota_invariant) (rule empty_world_ok)

text \<open>An accepted write is what is read at that path until the path itself is written or removed.\<close>

lemma setVirtualFile_read_back:
  assumes "snd (setVirtualFile uni now p c w)" "Clean p \<notin> touched Clean ` set xs"
  shows "map_of (files (run_store (setVirtualFile uni now) deleteVirtualFile xs (fst (setVirtualFile uni now p c w)))) (Clean p)
           = Some (limitVirtualContent c)"
  by (rule vfs.run_after_put [OF assms])

text \<open>C38: a refused write leaves the world as it was, and a write to an immutable file is refused.\<close>

theorem setVirtualFile_refused_unchanged:
  "(\<not> snd (setVirtualFile uni now p c w) \<longrightarrow> fst (setVirtualFile uni now p c w) = w)
   \<and> (virtualFileImmutable w p \<longrightarrow> setVirtualFile uni now p c w = (w, False) \<and> appendVirtualFile uni now p c w = (w, False))"
  using setVirtualFile_refused [of uni now p c w]
  by (auto simp: setVirtualFile_def appendVirtualFile_def virtualFileImmutable_def Clean_idem Let_def)

theorem setVirtualFile_read_back_witness:
  "map_of (files (run_store (setVirtualFile id 7) deleteVirtualFile [Del ''/tmp/b'']
     (fst (setVirtualFile id 7 ''/tmp//a'' ''id'' empty_world)))) (Clean ''/tmp//a'') = Some (limitVirtualContent ''id'')"
proof (rule setVirtualFile_read_back)
  show "snd (setVirtualFile id 7 ''/tmp//a'' ''id'' empty_world)"
    by (rule setVirtualFile_accepts)
      (simp_all add: empty_world_def virtualFileImmutable_def lookup_or_def virtualStorageBytes_def total_def
         maxVirtualFiles_def maxVirtualTotalBytes_def maxVirtualFileBytes_def)
  show "Clean ''/tmp//a'' \<notin> touched Clean ` set [Del ''/tmp/b'' :: (string, string) store_op]" by code_simp
qed

theorem setVirtualFile_refused_unchanged_witness:
  "let w = empty_world\<lparr>fileAttrs := [(''/etc/passwd'', ''i'')]\<rparr> in
     setVirtualFile id 1 ''/etc/passwd'' ''x'' w = (w, False) \<and> appendVirtualFile id 1 ''/etc/passwd'' ''x'' w = (w, False)"
proof -
  have "virtualFileImmutable (empty_world\<lparr>fileAttrs := [(''/etc/passwd'', ''i'')]\<rparr>) ''/etc/passwd''" by code_simp
  then show ?thesis using setVirtualFile_refused_unchanged by (simp add: Let_def)
qed

lemma rooted_homeDir: "rooted (homeDir w)"
  by (simp add: homeDir_def rooted_def slash_def)

lemma rooted_prefix: "HasPrefix v ''/'' \<Longrightarrow> rooted v"
  by (cases v) (auto simp: HasPrefix_def rooted_def slash_def)

text \<open>Every path a session names resolves to an absolute path without empty, \<open>.\<close> or \<open>..\<close> elements.\<close>

lemma resolve_clean_abs:
  assumes "clean_abs (cwd w)" "clean_abs (homeDir w)"
  shows "clean_abs (resolve w v)
    \<and> (resolve w v = ''/'' \<or> (\<forall>c \<in> set (SplitByte (tl (resolve w v)) slash). c \<noteq> [] \<and> c \<noteq> ''.'' \<and> c \<noteq> ''..''))"
proof
  have r: "rooted (cwd w)" using assms(1) by (simp add: clean_abs_def)
  show c: "clean_abs (resolve w v)"
    using assms clean_abs_PathJoin [OF r] clean_abs_PathJoin [OF rooted_homeDir [of w]] clean_abs_Clean [OF rooted_prefix]
    by (auto simp: resolve_def Let_def clean_abs_def Clean_idem)
  show "resolve w v = ''/'' \<or> (\<forall>c \<in> set (SplitByte (tl (resolve w v)) slash). c \<noteq> [] \<and> c \<noteq> ''.'' \<and> c \<noteq> ''..'')"
    using clean_abs_comps [OF c] by (auto simp: slash_def dot_def dotdot_def proper_comp_def)
qed

theorem resolve_clean_abs_witness:
  "clean_abs (resolve empty_world ''../../etc/./passwd'')
   \<and> (resolve empty_world ''../../etc/./passwd'' = ''/''
      \<or> (\<forall>c \<in> set (SplitByte (tl (resolve empty_world ''../../etc/./passwd'')) slash). c \<noteq> [] \<and> c \<noteq> ''.'' \<and> c \<noteq> ''..''))"
  by (rule resolve_clean_abs) (code_simp+)

section \<open>Truncation\<close>

lemma utf8_size_le_4: "utf8_size s \<le> 4"
  by (cases s) (auto simp: utf8_size.simps(2) Let_def split: list.splits)

lemma valid_utf8_prefix:
  "valid_utf8 v \<Longrightarrow> n \<le> length v \<Longrightarrow> \<exists>m \<le> n. n \<le> m + 3 \<and> valid_utf8 (take m v)"
proof (induction v arbitrary: n rule: valid_utf8.induct)
  case 1
  then show ?case by auto
next
  case (2 a s)
  define k where "k = utf8_size (a # s)"
  have k: "k \<noteq> 0" "valid_utf8 (drop k (a # s))"
    using "2.prems"(1) by (auto simp: k_def Let_def split: if_splits)
  have k4: "k \<le> 4" "k \<le> length (a # s)"
    using utf8_size_le [of "a # s"] utf8_size_le_4 [of "a # s"] by (simp_all add: k_def)
  show ?case
  proof (cases "n < k")
    case True
    then show ?thesis using k4 by (intro exI [of _ 0]) auto
  next
    case False
    have "n - k \<le> length (drop k (a # s))" using "2.prems"(2) by simp
    from "2.IH" [OF k_def k(1,2) this]
    obtain m where m: "m \<le> n - k" "n - k \<le> m + 3" "valid_utf8 (take m (drop k (a # s)))" by blast
    define u where "u = take k (a # s) @ take m (drop k (a # s))"
    have u: "u = take (k + m) (a # s)" by (simp only: u_def take_add)
    have "utf8_size (take k (a # s)) = k" using utf8_size_take [of "a # s"] k by (simp add: k_def)
    then have sz: "utf8_size u = k" using utf8_size_append [of "take k (a # s)"] k by (simp add: u_def)
    have "drop k u = take m (drop k (a # s))" using k4 by (simp add: u_def)
    moreover obtain b t where "u = b # t" using sz k by (cases u) auto
    ultimately have "valid_utf8 u" using sz k m(3) by (simp add: Let_def)
    then show ?thesis using m u False by (intro exI [of _ "k + m"]) auto
  qed
qed

lemma drop_invalid_tail_ge:
  "valid_utf8 (take m v) \<Longrightarrow> m \<le> length v \<Longrightarrow> length v \<le> n + m \<Longrightarrow>
     m \<le> length (drop_invalid_tail n v) \<and> valid_utf8 (drop_invalid_tail n v)"
proof (induction n arbitrary: v)
  case (Suc n)
  show ?case
  proof (cases "v \<noteq> [] \<and> \<not> valid_utf8 v")
    case True
    then have "m < length v" using Suc.prems by (metis le_neq_implies_less take_all order_refl)
    then show ?thesis using True Suc.prems Suc.IH [of "butlast v"] by (simp add: butlast_conv_take min_absorb1)
  next
    case False
    then show ?thesis using Suc.prems by (cases v) auto
  qed
qed simp

text \<open>A text that is too long is cut to a valid text of its first 16381 to 16384 bytes.\<close>

lemma limitVirtualContent_utf8:
  assumes "valid_utf8 v" "maxVirtualFileBytes < length v"
  shows "\<exists>k. limitVirtualContent v = take k v \<and> maxVirtualFileBytes - 3 \<le> k \<and> k \<le> maxVirtualFileBytes
            \<and> valid_utf8 (limitVirtualContent v)"
proof -
  let ?v = "take maxVirtualFileBytes v"
  obtain m where m: "m \<le> maxVirtualFileBytes" "maxVirtualFileBytes \<le> m + 3" "valid_utf8 (take m v)"
    using valid_utf8_prefix [OF assms(1), of maxVirtualFileBytes] assms(2) by auto
  have g: "m \<le> length (limitVirtualContent v) \<and> valid_utf8 (limitVirtualContent v)"
    using drop_invalid_tail_ge [of m ?v maxVirtualFileBytes] m assms(2)
    by (simp add: limitVirtualContent_def min_absorb1 min_absorb2)
  obtain k where k: "limitVirtualContent v = take k v" "k \<le> maxVirtualFileBytes"
    using limitVirtualContent_prefix by blast
  then have "m \<le> k" using g assms(2) by simp
  then show ?thesis using k g m by (intro exI [of _ k]) auto
qed

lemma valid_utf8_replicate: "(of_char c :: nat) < 128 \<Longrightarrow> valid_utf8 (replicate n c)"
  by (induction n) (auto simp: Let_def)

theorem limitVirtualContent_utf8_witness:
  "\<exists>k. limitVirtualContent (replicate 20000 (CHR ''a'')) = take k (replicate 20000 (CHR ''a''))
     \<and> maxVirtualFileBytes - 3 \<le> k \<and> k \<le> maxVirtualFileBytes
     \<and> valid_utf8 (limitVirtualContent (replicate 20000 (CHR ''a'')))"
proof (rule limitVirtualContent_utf8)
  show "valid_utf8 (replicate 20000 (CHR ''a''))" by (rule valid_utf8_replicate) simp
  show "maxVirtualFileBytes < length (replicate 20000 (CHR ''a''))"
    by (simp only: length_replicate maxVirtualFileBytes_def)
qed

text \<open>Appending is writing the old content followed by the new bytes.\<close>

theorem appendVirtualFile_is_write:
  "appendVirtualFile uni now p c w = setVirtualFile uni now p (lookup_or [] (files w) (Clean p) @ c) w"
  by (simp add: appendVirtualFile_def setVirtualFile_def)

end
