(* ===== verification/SftpProofs.thy ===== *)
theory SftpProofs
  imports Sftp VfsProofs
begin

text \<open>
  The wire format round-trips; every request is answered by exactly one packet with its id;
  no session leaves the quotas; an upload in consecutive chunks stores the bytes sent and
  records their digest; and the requests whose guards are missing, with what they do.
\<close>

section \<open>The wire\<close>

lemma getU32_be32 [wire]: "n < 2 ^ 32 \<Longrightarrow> getU32 (be32 n @ s) = (Some n, s)"
  by (simp add: getU32_def be_value_be32)

lemma getU64_be64 [wire]: "n < 2 ^ 64 \<Longrightarrow> getU64 (be64 n @ s) = (Some n, s)"
  by (simp add: getU64_def be_value_be64)

lemma getString_putString [wire]: "length s < 2 ^ 32 \<Longrightarrow> getString (putString s @ t) = (Some s, t)"
  by (simp add: getString_def putString_def getU32_be32)

lemma sftpReadPacket_write [wire]:
  assumes "p \<noteq> []" "length p \<le> 2 ^ 20"
  shows "sftpReadPacket (sftpWritePacket p @ s) = Some (p, s)"
  using assms be_value_be32 [of "length p"] by (simp add: sftpReadPacket_def sftpWritePacket_def)

text \<open>Packets, strings and integers read back as they were written, and nothing more is consumed.\<close>

lemma sftp_wire_roundtrip:
  assumes "p \<noteq> []" "length p \<le> 2 ^ 20" "m < 2 ^ 32" "n < 2 ^ 64" "length s < 2 ^ 32"
  shows "sftpReadPacket (sftpWritePacket p @ t) = Some (p, t) \<and> getU32 (be32 m @ t) = (Some m, t)
         \<and> getU64 (be64 n @ t) = (Some n, t) \<and> getString (putString s @ t) = (Some s, t)"
  using assms by (simp add: wire)

theorem sftp_wire_roundtrip_witness:
  "sftpReadPacket (sftpWritePacket ''ab'' @ ''c'') = Some (''ab'', ''c'') \<and> getU32 (be32 70000 @ ''c'') = (Some 70000, ''c'')
   \<and> getU64 (be64 5000000000 @ ''c'') = (Some 5000000000, ''c'') \<and> getString (putString ''/tmp'' @ ''c'') = (Some ''/tmp'', ''c'')"
  by (rule sftp_wire_roundtrip) simp_all

section \<open>Responses\<close>

definition response :: "nat \<Rightarrow> string \<Rightarrow> bool" where
  "response rid out \<longleftrightarrow> (\<exists>t body. t \<in> {101, 102, 103, 104, 105} \<and> out = sftpWritePacket (byte t # be32 rid @ body))"

lemma response_status [simp]: "response rid (sftpReplyStatus rid code msg)"
  by (auto simp: response_def sftpReplyStatus_def)

lemma response_fx [simp]:
  "response rid (fx_failure rid)" "response rid (fx_no_such_file rid)" "response rid (fx_ok rid)" "response rid (fx_eof rid)"
  by (simp_all add: fx_failure_def fx_no_such_file_def fx_ok_def fx_eof_def)

lemma response_packet [simp]:
  "t \<in> {101, 102, 103, 104, 105} \<Longrightarrow> response rid (sftpWritePacket (byte t # be32 rid @ body))"
  by (auto simp: response_def)

definition answered :: "nat \<Rightarrow> sftpOutcome \<Rightarrow> bool" where
  "answered rid out \<longleftrightarrow> (case out of Goes_On _ pkt _ \<Rightarrow> response rid pkt | Returns \<Rightarrow> False | Panics \<Rightarrow> False)"

lemma answered_answer [simp]: "answered rid (answer st pkt) = response rid pkt"
  "answered rid (Goes_On st pkt evs) = response rid pkt"
  by (simp_all add: answered_def answer_def)

lemma requests_answered:
  "answered rid (do_realpath e rid body st)" "answered rid (do_stat e rid body st)"
  "answered rid (do_open uni e rid body st)" "answered rid (do_close uni sha e rid body st)"
  "answered rid (do_rename uni e rid body st)" "answered rid (do_remove e rid body st)"
  "answered rid (do_mkdir rid body st)" "answered rid (do_rmdir rid body st)"
  "answered rid (do_setstat e rid body st)" "answered rid (do_opendir rid body st)"
  "answered rid (do_readdir e rid body st)"
  by (auto simp: do_realpath_def do_stat_def do_open_def do_close_def do_rename_def do_remove_def do_mkdir_def
      do_rmdir_def do_setstat_def do_opendir_def do_readdir_def Let_def split: option.splits prod.splits bool.splits)

lemma write_answered: "do_write rid body st = Panics \<or> answered rid (do_write rid body st)"
  by (auto simp: do_write_def Let_def split: option.splits prod.splits)

lemma read_answered: "do_read rid body st = Panics \<or> answered rid (do_read rid body st)"
  by (auto simp: do_read_def Let_def split: option.splits prod.splits)

text \<open>C35: a request is answered by exactly one packet that carries its id; only READ and WRITE can panic instead.\<close>

theorem sftp_request_answered:
  "answered rid (sftp_request uni sha e typ rid body st)
   \<or> (typ \<in> {5, 6} \<and> sftp_request uni sha e typ rid body st = Panics)"
  using requests_answered write_answered [of rid body st] read_answered [of rid body st]
  by (auto simp: sftp_request_def)

section \<open>Quotas\<close>

definition keeps_quota :: "sftpOutcome \<Rightarrow> bool" where
  "keeps_quota out \<longleftrightarrow> (case out of Goes_On st _ _ \<Rightarrow> quota_ok (st_world st) | _ \<Rightarrow> True)"

lemma keeps_quota_simps [simp]:
  "keeps_quota (answer st pkt) = quota_ok (st_world st)" "keeps_quota (Goes_On st pkt evs) = quota_ok (st_world st)"
  "keeps_quota Panics" "keeps_quota Returns"
  by (simp_all add: keeps_quota_def answer_def)

lemma quota_ok_meta [simp]:
  "quota_ok (w\<lparr>fileMeta := m\<rparr>) = quota_ok w" "quota_ok (w\<lparr>fileModes := n\<rparr>) = quota_ok w"
  "quota_ok (w\<lparr>fileAttrs := a\<rparr>) = quota_ok w" "quota_ok (w\<lparr>stagingAttempts := x\<rparr>) = quota_ok w"
  "quota_ok (w\<lparr>stagingPayloadHash := y\<rparr>) = quota_ok w" "quota_ok (w\<lparr>sessionPayloadHash := z\<rparr>) = quota_ok w"
  "quota_ok (set_size p s w) = quota_ok w"
  by (simp_all add: quota_ok_def virtualStorageBytes_def set_size_def)

lemma classify_quota: "classifyVirtualPayloadStage p d w = (w', s, r, m) \<Longrightarrow> quota_ok w' = quota_ok w"
  by (auto simp: classifyVirtualPayloadStage_def Let_def split: option.splits if_splits)

lemma record_upload_ok: "record_upload uni sha h w = (w', ev) \<Longrightarrow> quota_ok w' = quota_ok w"
proof -
  define d where "d = (case h_hasher h of
      Some fed \<Rightarrow> if int (h_next h) = h_total h mod 2 ^ 64 then sha fed else sha (h_data h) | None \<Rightarrow> sha (h_data h))"
  show "record_upload uni sha h w = (w', ev) \<Longrightarrow> quota_ok w' = quota_ok w"
    using classify_quota [of "h_path h" d w]
    by (cases "classifyVirtualPayloadStage (h_path h) d w")
      (auto simp: record_upload_def Let_def d_def [symmetric] split: if_splits)
qed

lemma setVirtualFile_ok': "quota_ok w \<Longrightarrow> setVirtualFile uni now p c w = (w', b) \<Longrightarrow> quota_ok w'"
  using setVirtualFile_ok [of w uni now p c] by simp

lemma setVirtualDir_ok': "quota_ok w \<Longrightarrow> setVirtualDir p w = (w', b) \<Longrightarrow> quota_ok w'"
  using setVirtualDir_ok [of w p] by simp

lemma quota_ok_rmdir: "quota_ok w \<Longrightarrow> quota_ok (w\<lparr>dirs := AList.delete p (dirs w)\<rparr>)"
  by (auto simp: quota_ok_def virtualStorageBytes_def intro: le_trans [OF length_delete_le])

lemma requests_keep_quota:
  assumes "quota_ok (st_world st)"
  shows "keeps_quota (do_open uni e rid body st)" "keeps_quota (do_close uni sha e rid body st)"
    "keeps_quota (do_rename uni e rid body st)" "keeps_quota (do_remove e rid body st)"
    "keeps_quota (do_mkdir rid body st)" "keeps_quota (do_rmdir rid body st)" "keeps_quota (do_setstat e rid body st)"
    "keeps_quota (do_realpath e rid body st)" "keeps_quota (do_stat e rid body st)" "keeps_quota (do_write rid body st)"
    "keeps_quota (do_read rid body st)" "keeps_quota (do_opendir rid body st)" "keeps_quota (do_readdir e rid body st)"
proof -
  note simps = assms setVirtualFile_ok [OF assms] deleteVirtualFile_ok quota_ok_rmdir [OF assms]
  show "keeps_quota (do_open uni e rid body st)"
    using simps by (auto simp: do_open_def Let_def split: option.splits prod.splits)
  show "keeps_quota (do_close uni sha e rid body st)"
    using simps setVirtualFile_ok' [OF assms] record_upload_ok
    by (auto simp: do_close_def Let_def split: option.splits prod.splits)
  show "keeps_quota (do_rename uni e rid body st)"
    using simps setVirtualFile_ok' [OF assms]
    by (auto simp: do_rename_def Let_def split: option.splits prod.splits bool.splits)
  show "keeps_quota (do_mkdir rid body st)"
    using setVirtualDir_ok' [OF assms] simps by (auto simp: do_mkdir_def split: option.splits prod.splits)
qed (use assms deleteVirtualFile_ok quota_ok_rmdir in
  \<open>auto simp: do_remove_def do_rmdir_def do_setstat_def do_realpath_def do_stat_def do_write_def do_read_def
     do_opendir_def do_readdir_def Let_def split: option.splits prod.splits\<close>)

lemma sftp_packet_keeps_quota: "quota_ok (st_world st) \<Longrightarrow> keeps_quota (sftp_packet uni sha e pkt st)"
  using requests_keep_quota [of st]
  by (auto simp: sftp_packet_def sftp_request_def split: list.splits option.splits prod.splits)

text \<open>C29: whatever bytes a client sends, an SFTP session leaves the filesystem within its quotas.\<close>

theorem runVirtualSFTP_keeps_quota:
  assumes "quota_ok (st_world st)"
  shows "quota_ok (st_world (fst (runVirtualSFTP uni sha env k ch st)))"
  using assms
proof (induction uni sha env k ch st rule: runVirtualSFTP.induct)
  case (1 uni sha env k ch st)
  show ?case
  proof (cases "sftpReadPacket ch")
    case None
    then show ?thesis using 1 by (subst runVirtualSFTP.simps) simp
  next
    case (Some p)
    obtain pkt rest where p: "p = (pkt, rest)" by (cases p)
    show ?thesis
    proof (cases "sftp_packet uni sha (env k) pkt st")
      case (Goes_On st' out evs)
      then have "quota_ok (st_world st')"
        using sftp_packet_keeps_quota [OF "1.prems", of uni sha "env k" pkt] by simp
      then show ?thesis
        using "1.IH" [OF Some p [symmetric] Goes_On] Goes_On
        by (subst runVirtualSFTP.simps; cases "runVirtualSFTP uni sha env (Suc k) rest st'") (simp add: Some p)
    qed (use 1 Some p in \<open>subst runVirtualSFTP.simps, simp\<close>)+
  qed
qed

definition start_state :: "world \<Rightarrow> sftpState" where
  "start_state w = \<lparr>st_world = w, st_handles = [], st_next = 1\<rparr>"

theorem runVirtualSFTP_keeps_quota_witness:
  "quota_ok (st_world (fst (runVirtualSFTP id id (\<lambda>_. \<lparr>se_now = 0, se_unix = 0, se_dyn = \<lambda>_. None\<rparr>) 0
     (sftpWritePacket (byte 14 # be32 7 @ putString ''/tmp'')) (start_state empty_world))))"
  by (rule runVirtualSFTP_keeps_quota) (simp add: start_state_def empty_world_ok)

section \<open>Uploads\<close>

text \<open>The requests of a client that uploads \<open>ds\<close> in consecutive chunks; flag 26 is write, create, truncate.\<close>

definition open_req :: "nat \<Rightarrow> string \<Rightarrow> string" where
  "open_req r p = byte 3 # be32 r @ putString p @ be32 26 @ be32 0"

definition write_req :: "nat \<Rightarrow> string \<Rightarrow> nat \<Rightarrow> string \<Rightarrow> string" where
  "write_req r h off d = byte 6 # be32 r @ putString h @ be64 off @ putString d"

definition close_req :: "nat \<Rightarrow> string \<Rightarrow> string" where
  "close_req r h = byte 4 # be32 r @ putString h"

fun write_reqs :: "nat \<Rightarrow> string \<Rightarrow> nat \<Rightarrow> string list \<Rightarrow> string" where
  "write_reqs r h off [] = []"
| "write_reqs r h off (d # ds) = sftpWritePacket (write_req r h off d) @ write_reqs r h (off + length d) ds"

definition upload_handle :: "string \<Rightarrow> string \<Rightarrow> sftpHandle" where
  "upload_handle p s = \<lparr>h_path = p, h_dir = False, h_write = True, h_read = False, h_listed = False,
     h_data = take maxVirtualFileBytes s, h_total = int (length s), h_hasher = Some s, h_next = length s\<rparr>"

lemma write_data_append:
  assumes "length s + length d < 2 ^ 62"
  shows "write_data (int (length s)) d (take maxVirtualFileBytes s) = Some (take maxVirtualFileBytes (s @ d))"
proof -
  have w: "wrap64 (int (length s) + int (length d)) = int (length s) + int (length d)"
    using assms by (intro wrap64_small) auto
  show ?thesis
  proof (cases "length s < maxVirtualFileBytes")
    case True
    define n where "n = min (length d) (maxVirtualFileBytes - length s)"
    have n: "(if int maxVirtualFileBytes < int (length s) + int (length d) then int maxVirtualFileBytes - int (length s)
              else int (length d)) = int n"
      using True by (auto simp: n_def min_def)
    have need: "min (int (length s) + int (length d)) (int maxVirtualFileBytes) = int (length s + n)"
      using True by (auto simp: n_def min_def)
    have "take maxVirtualFileBytes (s @ d) = s @ take n d" using True by (auto simp: n_def min_def)
    then show ?thesis
      using True by (simp add: write_data_def w n need Let_def)
  next
    case False
    then show ?thesis by (simp add: write_data_def)
  qed
qed

lemma do_write_append:
  assumes "map_of (st_handles st) h = Some (upload_handle p s)" "length h < 2 ^ 20"
    and "int (length s + length d) \<le> maxVirtualSCPUploadBytes"
  shows "do_write r (putString h @ be64 (length s) @ putString d) st =
           answer (st\<lparr>st_handles := AList.update h (upload_handle p (s @ d)) (st_handles st)\<rparr>) (fx_ok r)"
proof -
  have b: "length s + length d \<le> 67108864" using assms(3) by (simp add: maxVirtualSCPUploadBytes_def)
  then have w: "wrap64 (int (length s)) = int (length s)"
    "wrap64 (int (length s) + int (length d)) = int (length s) + int (length d)"
    by (auto intro!: wrap64_small)
  have r1: "getString (putString h @ be64 (length s) @ putString d) = (Some h, be64 (length s) @ putString d)"
    using assms(2) by (intro getString_putString) simp
  have r2: "getU64 (be64 (length s) @ putString d) = (Some (length s), putString d)"
    using b by (intro getU64_be64) simp
  have r3: "getString (putString d) = (Some d, [])"
    using getString_putString [of d "[]"] b by simp
  have "write_data (int (length s)) d (take maxVirtualFileBytes s) = Some (take maxVirtualFileBytes (s @ d))"
    using b by (intro write_data_append) simp
  moreover have "(length s + length d) mod 2 ^ 64 = length s + length d" using b by simp
  ultimately show ?thesis
    using assms(1,3) b by (simp add: do_write_def r1 r2 r3 w upload_handle_def Let_def)
qed

lemma run_packet:
  assumes "p \<noteq> []" "length p \<le> 2 ^ 20" "sftp_packet uni sha (env k) p st = Goes_On st' out evs"
  shows "runVirtualSFTP uni sha env k (sftpWritePacket p @ rest) st =
           (case runVirtualSFTP uni sha env (Suc k) rest st' of (s, outs, evss, b) \<Rightarrow> (s, out @ outs, evs @ evss, b))"
  using assms by (subst runVirtualSFTP.simps) (simp add: sftpReadPacket_write)

lemma sftp_packet_write:
  "r < 2 ^ 32 \<Longrightarrow> sftp_packet uni sha e (write_req r h off d) st = do_write r (putString h @ be64 off @ putString d) st"
  by (simp add: sftp_packet_def write_req_def byte_def getU32_be32 sftp_request_def)

lemma run_writes:
  assumes "map_of (st_handles st) h = Some (upload_handle p s)" "length h \<le> 100" "r < 2 ^ 32"
    and "\<forall>d \<in> set ds. length d \<le> 2 ^ 19" "int (length s + length (concat ds)) \<le> maxVirtualSCPUploadBytes"
  shows "\<exists>outs hs m. map_of hs h = Some (upload_handle p (s @ concat ds)) \<and> (\<forall>j. j \<noteq> h \<longrightarrow> map_of hs j = map_of (st_handles st) j)
     \<and> runVirtualSFTP uni sha env k (write_reqs r h (length s) ds @ rest) st =
       (case runVirtualSFTP uni sha env m rest (st\<lparr>st_handles := hs\<rparr>) of
          (s, o', e, b) \<Rightarrow> (s, outs @ o', e, b))"
  using assms(1,4,5)
proof (induction ds arbitrary: s st k)
  case Nil
  then show ?case by (intro exI [of _ "[]"] exI [of _ "st_handles st"] exI [of _ k]) simp
next
  case (Cons d ds)
  define st1 where "st1 = st\<lparr>st_handles := AList.update h (upload_handle p (s @ d)) (st_handles st)\<rparr>"
  have pk: "sftp_packet uni sha (env k) (write_req r h (length s) d) st = Goes_On st1 (fx_ok r) []"
    using Cons.prems assms(2,3) do_write_append [of st h p s d r]
    by (simp add: sftp_packet_write st1_def answer_def)
  have len: "write_req r h (length s) d \<noteq> []" "length (write_req r h (length s) d) \<le> 2 ^ 20"
    using Cons.prems(2) assms(2) by (simp_all add: write_req_def putString_def)
  have h1: "map_of (st_handles st1) h = Some (upload_handle p (s @ d))" by (simp add: st1_def gomap)
  obtain outs hs m where IH: "map_of hs h = Some (upload_handle p ((s @ d) @ concat ds))"
    "\<forall>j. j \<noteq> h \<longrightarrow> map_of hs j = map_of (st_handles st1) j"
    "runVirtualSFTP uni sha env (Suc k) (write_reqs r h (length (s @ d)) ds @ rest) st1 =
       (case runVirtualSFTP uni sha env m rest (st1\<lparr>st_handles := hs\<rparr>) of (s, o', e, b) \<Rightarrow> (s, outs @ o', e, b))"
    using Cons.IH [OF h1, of "Suc k"] Cons.prems(2,3) by auto
  have "st1\<lparr>st_handles := hs\<rparr> = st\<lparr>st_handles := hs\<rparr>" by (simp add: st1_def)
  moreover have "\<forall>j. j \<noteq> h \<longrightarrow> map_of hs j = map_of (st_handles st) j" using IH(2) by (simp add: st1_def gomap)
  ultimately show ?case
    using IH(1,3) run_packet [where env = env and k = k, OF len pk, of "write_reqs r h (length s + length d) ds @ rest"]
    by (intro exI [of _ "fx_ok r @ outs"] exI [of _ hs] exI [of _ m]) (auto split: prod.splits)
qed

lemma setVirtualFile_fields:
  assumes "setVirtualFile uni now t c w = (w', True)" "Clean t = t"
  shows "files w' = AList.update t (limitVirtualContent c) (files w)" "fileAttrs w' = fileAttrs w" "dirs w' = dirs w"
    "user w' = user w" "cwd w' = cwd w" "\<exists>m. map_of (fileMeta w') t = Some m"
  using assms by (auto simp: setVirtualFile_def storeVirtualFile_def Let_def gomap split: if_splits)

lemma limit_id: "length c \<le> maxVirtualFileBytes \<Longrightarrow> limitVirtualContent c = c"
  by (simp add: limitVirtualContent_def)

text \<open>After the truncation by OPEN the file exists, so CLOSE has its slot and the room.\<close>

lemma setVirtualFile_again:
  assumes "setVirtualFile uni now t [] w = (w1, True)" "Clean t = t"
    and "virtualStorageBytes w + maxVirtualFileBytes \<le> maxVirtualTotalBytes" "length c \<le> maxVirtualFileBytes"
  shows "\<exists>w2. setVirtualFile uni now' t c w1 = (w2, True)"
proof -
  have im: "\<not> virtualFileImmutable w t" using assms(1,2) by (auto simp: setVirtualFile_def Let_def split: if_splits)
  note f = setVirtualFile_fields [OF assms(1,2)]
  have "total length (files w1) \<le> total length (files w)"
    by (auto simp: f limit_id total_update split: option.splits)
  then have "canStoreVirtualContent w1 t (limitVirtualContent c)"
    using assms(3,4) by (simp add: canStoreVirtualContent_def virtualStorageBytes_def limit_id)
  then show ?thesis using im assms(2)
    by (simp add: setVirtualFile_def storeVirtualFile_def Let_def virtualFileImmutable_def f gomap)
qed

lemma classify_fields:
  "classifyVirtualPayloadStage p d w = (w', s, r, m) \<Longrightarrow> files w' = files w \<and> fileMeta w' = fileMeta w"
  by (auto simp: classifyVirtualPayloadStage_def Let_def split: option.splits if_splits)

lemma record_upload_full:
  assumes "record_upload uni sha (upload_handle p s) w = (w', ev)" "length s < 2 ^ 63"
  shows "files w' = files w \<and> fileMeta w' = fileMeta w \<and> up_path ev = p
    \<and> up_sum ev = hex_encode (sha s) \<and> up_bytes ev = int (length s)"
proof -
  have d: "int (length s) mod 18446744073709551616 = int (length s)" using assms(2) by simp
  show ?thesis
    using assms(1) classify_fields [of p "sha s" w]
    by (cases "classifyVirtualPayloadStage p (sha s) w")
      (auto simp: record_upload_def upload_handle_def d Let_def split: if_splits)
qed

lemma open_upload:
  assumes "Clean (resolve w path) = resolve w path" "length path \<le> 2 ^ 19" "r < 2 ^ 32"
    and "setVirtualFile uni (se_now e) (resolve w path) [] w = (w1, True)"
  shows "sftp_packet uni sha e (open_req r path) (start_state w) =
    Goes_On \<lparr>st_world = w1, st_handles = [(''f1'', upload_handle (resolve w path) [])], st_next = 2\<rparr>
      (sftpWritePacket (byte 102 # be32 r @ putString ''f1'')) []"
proof -
  have flags: "(26 AND (2 OR 4 OR 8 OR 16) :: nat) \<noteq> 0" "(26 AND 16 :: nat) \<noteq> 0" "(26 AND 1 :: nat) = 0" by simp_all
  have itoa: "Itoa 1 = ''1''" by code_simp
  have rd: "getString (putString path @ be32 26 @ be32 0) = (Some path, be32 26 @ be32 0)"
    "getU32 (be32 26 @ be32 0) = (Some 26, be32 0)"
    using assms(2) by (simp_all add: wire)
  have "do_open uni e r (putString path @ be32 26 @ be32 0) (start_state w) =
      answer \<lparr>st_world = w1, st_handles = [(''f1'', upload_handle (resolve w path) [])], st_next = 2\<rparr>
        (sftpWritePacket (byte 102 # be32 r @ putString ''f1''))"
    by (simp add: do_open_def rd start_state_def flags itoa assms(4) upload_handle_def Let_def)
  then show ?thesis
    using assms(3) by (simp add: sftp_packet_def open_req_def byte_def getU32_be32 sftp_request_def answer_def)
qed

text \<open>What CLOSE leaves of an upload of the bytes \<open>s\<close> to \<open>t\<close>.\<close>

definition upload_done :: "(string \<Rightarrow> string) \<Rightarrow> string \<Rightarrow> string \<Rightarrow> world \<Rightarrow> uploadEvent \<Rightarrow> bool" where
  "upload_done sha t s w ev \<longleftrightarrow>
     map_of (files w) t = Some (take maxVirtualFileBytes s)
     \<and> (\<exists>meta. map_of (fileMeta w) t = Some meta \<and> m_size meta = int (length s))
     \<and> up_path ev = t \<and> up_bytes ev = int (length s) \<and> up_sum ev = hex_encode (sha s)"

lemma close_upload:
  assumes "map_of (st_handles st) ''f1'' = Some (upload_handle t s)" "r < 2 ^ 32" "length s < 2 ^ 63" "Clean t = t"
    and "setVirtualFile uni (se_now e) t (take maxVirtualFileBytes s) (st_world st) = (w2, True)"
  shows "\<exists>w3 ev. sftp_packet uni sha e (close_req r ''f1'') st =
      Goes_On (st\<lparr>st_handles := AList.delete ''f1'' (st_handles st), st_world := w3\<rparr>) (fx_ok r) [ev]
    \<and> upload_done sha t s w3 ev"
proof -
  define h where "h = upload_handle t s"
  obtain w3 ev where w3: "record_upload uni sha h (set_size t (int (length s)) w2) = (w3, ev)"
    by (cases "record_upload uni sha h (set_size t (int (length s)) w2)")
  have rec: "files w3 = files w2 \<and> fileMeta w3 = fileMeta (set_size t (int (length s)) w2)
      \<and> up_path ev = t \<and> up_sum ev = hex_encode (sha s) \<and> up_bytes ev = int (length s)"
    using record_upload_full [OF w3 [unfolded h_def] assms(3)] by (simp add: set_size_def)
  have hf: "h_write h" "h_path h = t" "h_data h = take maxVirtualFileBytes s" "h_total h = int (length s)"
    by (simp_all add: h_def upload_handle_def)
  have rd: "getString (putString ''f1'') = (Some ''f1'', [])" using getString_putString [of "''f1''" "[]"] by simp
  have cl: "do_close uni sha e r (putString ''f1'') st =
      Goes_On (st\<lparr>st_handles := AList.delete ''f1'' (st_handles st), st_world := w3\<rparr>) (fx_ok r) [ev]"
    by (simp add: do_close_def rd assms(1) h_def [symmetric] hf assms(5) w3 Let_def)
  have "sftp_packet uni sha e (close_req r ''f1'') st =
      Goes_On (st\<lparr>st_handles := AList.delete ''f1'' (st_handles st), st_world := w3\<rparr>) (fx_ok r) [ev]"
    using assms(2) cl by (simp add: sftp_packet_def close_req_def byte_def getU32_be32 sftp_request_def)
  moreover have "upload_done sha t s w3 ev"
    using rec setVirtualFile_fields(1) [OF assms(5,4)] by (simp add: upload_done_def gomap limit_id set_size_def)
  ultimately show ?thesis by blast
qed

lemma run_end: "runVirtualSFTP uni sha env m [] st = (st, [], [], False)"
  by (subst runVirtualSFTP.simps) (simp add: sftpReadPacket_def)

text \<open>C17: a client that opens a file for writing, sends it in consecutive chunks and closes it gets the
  bytes stored (up to the preview of 16 KiB), the full size in the metadata, and one upload record with
  the number and the digest of all the bytes sent.
\<close>

theorem sftp_upload_stores:
  assumes "clean_abs (cwd w)" "clean_abs (homeDir w)" "length path \<le> 2 ^ 19" "r < 2 ^ 32"
    and "\<not> virtualFileImmutable w (resolve w path)" "length (files w) < maxVirtualFiles"
    and "virtualStorageBytes w + maxVirtualFileBytes \<le> maxVirtualTotalBytes"
    and "\<forall>d \<in> set ds. length d \<le> 2 ^ 19" "int (length (concat ds)) \<le> maxVirtualSCPUploadBytes"
  shows "\<exists>st out ev.
    runVirtualSFTP uni sha env k
      (sftpWritePacket (open_req r path) @ write_reqs r ''f1'' 0 ds @ sftpWritePacket (close_req r ''f1''))
      (start_state w) = (st, out, [ev], False)
    \<and> upload_done sha (resolve w path) (concat ds) (st_world st) ev"
proof -
  define t where "t = resolve w path"
  have ct: "Clean t = t" using resolve_clean_abs [OF assms(1,2), of path] by (simp add: t_def clean_abs_def)
  obtain w1 where w1: "setVirtualFile uni (se_now (env k)) t [] w = (w1, True)"
    using setVirtualFile_accepts [of w t uni "se_now (env k)" "[]"] assms(5-7)
    by (cases "setVirtualFile uni (se_now (env k)) t [] w") (auto simp: t_def)
  define st1 where "st1 = \<lparr>st_world = w1, st_handles = [(''f1'', upload_handle t [])], st_next = 2\<rparr>"
  have pk1: "sftp_packet uni sha (env k) (open_req r path) (start_state w) =
      Goes_On st1 (sftpWritePacket (byte 102 # be32 r @ putString ''f1'')) []"
    using open_upload [OF ct [unfolded t_def] assms(3,4) w1 [unfolded t_def]] by (simp add: t_def st1_def)
  have len1: "open_req r path \<noteq> []" "length (open_req r path) \<le> 2 ^ 20"
    using assms(3) by (simp_all add: open_req_def putString_def)
  obtain outs hs m where ws: "map_of hs ''f1'' = Some (upload_handle t (concat ds))"
    "runVirtualSFTP uni sha env (Suc k) (write_reqs r ''f1'' 0 ds @ sftpWritePacket (close_req r ''f1'')) st1 =
       (case runVirtualSFTP uni sha env m (sftpWritePacket (close_req r ''f1'')) (st1\<lparr>st_handles := hs\<rparr>) of
          (s, o', e, b) \<Rightarrow> (s, outs @ o', e, b))"
    using run_writes [of st1 "''f1''" t "[]" r ds uni sha env "Suc k" "sftpWritePacket (close_req r ''f1'')"] assms(4,8,9)
    by (auto simp: st1_def)
  obtain w2 where w2: "setVirtualFile uni (se_now (env m)) t (take maxVirtualFileBytes (concat ds)) w1 = (w2, True)"
    using setVirtualFile_again [OF w1 ct assms(7)] by fastforce
  have big: "length (concat ds) < 2 ^ 63" using assms(9) by (simp add: maxVirtualSCPUploadBytes_def)
  obtain w3 ev where pk2: "sftp_packet uni sha (env m) (close_req r ''f1'') (st1\<lparr>st_handles := hs\<rparr>) =
      Goes_On (st1\<lparr>st_handles := AList.delete ''f1'' hs, st_world := w3\<rparr>) (fx_ok r) [ev]"
    and fin: "upload_done sha t (concat ds) w3 ev"
    using close_upload [of "st1\<lparr>st_handles := hs\<rparr>" t "concat ds" r uni "env m" w2 sha] ws(1) assms(4) big ct w2
    by (auto simp: st1_def)
  have len2: "close_req r ''f1'' \<noteq> []" "length (close_req r ''f1'') \<le> 2 ^ 20" by (simp_all add: close_req_def putString_def)
  have "runVirtualSFTP uni sha env m (sftpWritePacket (close_req r ''f1'')) (st1\<lparr>st_handles := hs\<rparr>) =
      (st1\<lparr>st_handles := AList.delete ''f1'' hs, st_world := w3\<rparr>, fx_ok r, [ev], False)"
    using run_packet [where env = env and k = m, OF len2 pk2, of "[]"] by (simp add: run_end)
  then show ?thesis
    using fin run_packet [where env = env and k = k, OF len1 pk1, of "write_reqs r ''f1'' 0 ds @ sftpWritePacket (close_req r ''f1'')"]
    by (simp add: ws(2) t_def)
qed

definition quiet_env :: "nat \<Rightarrow> sysEnv" where
  "quiet_env k = \<lparr>se_now = 63000000000000000000 + int k, se_unix = 5, se_dyn = \<lambda>_. None\<rparr>"

theorem sftp_upload_stores_witness:
  "\<exists>st out ev. runVirtualSFTP id id quiet_env 0
     (sftpWritePacket (open_req 9 ''../tmp/x'') @ write_reqs 9 ''f1'' 0 [''#!/bin/sh'', ''id''] @ sftpWritePacket (close_req 9 ''f1''))
     (start_state empty_world) = (st, out, [ev], False)
   \<and> upload_done id (resolve empty_world ''../tmp/x'') (concat [''#!/bin/sh'', ''id'']) (st_world st) ev"
proof (rule sftp_upload_stores)
  show "clean_abs (cwd empty_world)" "clean_abs (homeDir empty_world)" by code_simp+
  show "\<not> virtualFileImmutable empty_world (resolve empty_world ''../tmp/x'')"
    by (simp add: virtualFileImmutable_def empty_world_def lookup_or_def)
qed (simp_all add: empty_world_def virtualStorageBytes_def total_def maxVirtualFiles_def maxVirtualFileBytes_def
    maxVirtualTotalBytes_def maxVirtualSCPUploadBytes_def)

section \<open>Missing guards\<close>

text \<open>RENAME of a file onto itself removes the file.\<close>

lemma sftp_rename_onto_itself:
  assumes "getString body = (Some p, r)" "getString r = (Some q, r')" "resolve w p = t" "resolve w q = t"
    and "st_world st = w" "Clean t = t" "virtualReadFile (se_dyn e) w t \<noteq> None"
    and "\<And>c. snd (setVirtualFile uni (se_now e) t c w)"
  shows "\<exists>st' evs. do_rename uni e rid body st = Goes_On st' (fx_ok rid) evs \<and> map_of (files (st_world st')) t = None"
proof -
  obtain c where c: "virtualReadFile (se_dyn e) w t = Some c" using assms(7) by auto
  obtain w1 where "setVirtualFile uni (se_now e) t c w = (w1, True)"
    using assms(8) [of c] by (cases "setVirtualFile uni (se_now e) t c w") auto
  then show ?thesis using assms(1-6) c
    by (simp add: do_rename_def answer_def Let_def deleteVirtualFile_def gomap)
qed

text \<open>REMOVE deletes a file that \<open>chattr +i\<close> protects from every write.\<close>

lemma sftp_remove_ignores_immutable:
  assumes "getString body = (Some p, r)" "resolve (st_world st) p = t" "Clean t = t"
    and "virtualFileImmutable (st_world st) t" "virtualReadFile (se_dyn e) (st_world st) t \<noteq> None"
  shows "setVirtualFile uni now t c (st_world st) = (st_world st, False)
    \<and> (\<exists>st' evs. do_remove e rid body st = Goes_On st' (fx_ok rid) evs \<and> map_of (files (st_world st')) t = None)"
  using assms by (auto simp: do_remove_def answer_def Let_def deleteVirtualFile_def gomap setVirtualFile_def)

text \<open>A READ or WRITE at an offset of \<open>2 ^ 63\<close> or more on an open handle panics.\<close>

lemma sftp_offset_panics:
  assumes "2 ^ 63 \<le> offset" "offset + length d < 2 ^ 64" "length hs < 2 ^ 32" "d \<noteq> []" "length d < 2 ^ 32" "n < 2 ^ 32"
    and "map_of (st_handles st) hs = Some h" "h_write h" "h_read h"
  shows "do_write rid (putString hs @ be64 offset @ putString d) st = Panics
         \<and> do_read rid (putString hs @ be64 offset @ be32 n) st = Panics"
proof -
  define i where "i = int offset - 2 ^ 64"
  have w: "wrap64 (int offset) = i"
  proof -
    have "int offset + 2 ^ 63 = (int offset - 2 ^ 63) + 2 ^ 64" by simp
    then have "(int offset + 2 ^ 63) mod 2 ^ 64 = (int offset - 2 ^ 63) mod 2 ^ 64" by (metis mod_add_self2)
    also have "\<dots> = int offset - 2 ^ 63" using assms(1,2) by (intro mod_pos_pos_trivial) auto
    finally show ?thesis by (simp add: wrap64_def i_def)
  qed
  have i: "i < 0" "- (2 ^ 63) \<le> i" "i + int (length d) < 0" using assms(1,2) by (simp_all add: i_def)
  then have w2: "wrap64 (i + int (length d)) = i + int (length d)" by (intro wrap64_small) auto
  have rd: "getString (putString hs @ t) = (Some hs, t)" "getU64 (be64 offset @ t) = (Some offset, t)"
    "getString (putString d) = (Some d, [])" "getU32 (be32 n) = (Some n, [])" for t
    using assms(2,3,5,6) getString_putString [of d "[]"] getU32_be32 [of n "[]"] by (simp_all add: wire)
  have "write_data i d old = None" for old
    using i assms(4) by (simp add: write_data_def w2 maxVirtualFileBytes_def Let_def)
  then show ?thesis
    using assms(7-9) i
    by (simp add: do_write_def do_read_def rd w w2 maxVirtualSCPUploadBytes_def Let_def)
qed

definition one_file :: world where
  "one_file = empty_world\<lparr>files := [(''/tmp/x'', ''id'')]\<rparr>"

lemma one_file_accepts: "snd (setVirtualFile uni now ''/tmp/x'' c one_file)"
  by (rule setVirtualFile_accepts)
    (simp_all add: one_file_def empty_world_def virtualFileImmutable_def lookup_or_def virtualStorageBytes_def total_def
       maxVirtualFiles_def maxVirtualTotalBytes_def maxVirtualFileBytes_def)

lemma resolve_tmp_x: "resolve w ''/tmp/x'' = ''/tmp/x''"
proof -
  have "Clean ''/tmp/x'' = ''/tmp/x''" by code_simp
  moreover have "TrimSpace ''/tmp/x'' = ''/tmp/x''"
    by (rule TrimSpace_id) (simp_all add: char_is_space_def byte_in_def)
  ultimately show ?thesis by (simp add: resolve_def HasPrefix_def Let_def)
qed

lemma one_file_read: "virtualReadFile (\<lambda>_. None) (one_file\<lparr>fileAttrs := a\<rparr>) ''/tmp/x'' = Some ''id''"
  by (simp add: virtualReadFile_def resolve_tmp_x one_file_def)

theorem sftp_rename_onto_itself_witness:
  "\<exists>st' evs. do_rename id \<lparr>se_now = 1, se_unix = 1, se_dyn = \<lambda>_. None\<rparr> 5
      (putString ''/tmp/x'' @ putString ''/tmp/x'') (start_state one_file) = Goes_On st' (fx_ok 5) evs
    \<and> map_of (files (st_world st')) ''/tmp/x'' = None"
proof (rule sftp_rename_onto_itself [where w = one_file])
  show "getString (putString ''/tmp/x'' @ putString ''/tmp/x'') = (Some ''/tmp/x'', putString ''/tmp/x'')"
    by (simp add: getString_putString)
  show "getString (putString ''/tmp/x'') = (Some ''/tmp/x'', [])" using getString_putString [of "''/tmp/x''" "[]"] by simp
  show "resolve one_file ''/tmp/x'' = ''/tmp/x''" "resolve one_file ''/tmp/x'' = ''/tmp/x''" by (rule resolve_tmp_x)+
  show "Clean ''/tmp/x'' = ''/tmp/x''" by code_simp
  show "virtualReadFile (se_dyn \<lparr>se_now = 1, se_unix = 1, se_dyn = \<lambda>_. None\<rparr>) one_file ''/tmp/x'' \<noteq> None"
    using one_file_read [of "fileAttrs one_file"] by simp
qed (simp_all add: start_state_def one_file_accepts)

theorem sftp_remove_ignores_immutable_witness:
  "let w = one_file\<lparr>fileAttrs := [(''/tmp/x'', ''i'')]\<rparr>; st = start_state w in
     setVirtualFile id 1 ''/tmp/x'' ''y'' w = (w, False)
     \<and> (\<exists>st' evs. do_remove \<lparr>se_now = 1, se_unix = 1, se_dyn = \<lambda>_. None\<rparr> 5 (putString ''/tmp/x'') st
            = Goes_On st' (fx_ok 5) evs \<and> map_of (files (st_world st')) ''/tmp/x'' = None)"
proof -
  define w where "w = one_file\<lparr>fileAttrs := [(''/tmp/x'', ''i'')]\<rparr>"
  have "setVirtualFile id 1 ''/tmp/x'' ''y'' (st_world (start_state w)) = (st_world (start_state w), False)
     \<and> (\<exists>st' evs. do_remove \<lparr>se_now = 1, se_unix = 1, se_dyn = \<lambda>_. None\<rparr> 5 (putString ''/tmp/x'') (start_state w)
            = Goes_On st' (fx_ok 5) evs \<and> map_of (files (st_world st')) ''/tmp/x'' = None)"
  proof (rule sftp_remove_ignores_immutable)
    show "getString (putString ''/tmp/x'') = (Some ''/tmp/x'', [])" using getString_putString [of "''/tmp/x''" "[]"] by simp
    show "resolve (st_world (start_state w)) ''/tmp/x'' = ''/tmp/x''" by (rule resolve_tmp_x)
    show "Clean ''/tmp/x'' = ''/tmp/x''" by code_simp
    show "virtualFileImmutable (st_world (start_state w)) ''/tmp/x''" unfolding w_def by code_simp
    show "virtualReadFile (se_dyn \<lparr>se_now = 1, se_unix = 1, se_dyn = \<lambda>_. None\<rparr>) (st_world (start_state w)) ''/tmp/x'' \<noteq> None"
      by (simp add: start_state_def w_def one_file_read)
  qed
  then show ?thesis by (simp add: w_def Let_def start_state_def)
qed

theorem sftp_offset_panics_witness:
  "let h = \<lparr>h_path = ''/x'', h_dir = False, h_write = True, h_read = True, h_listed = False, h_data = ''abc'',
            h_total = 3, h_hasher = Some [], h_next = 0\<rparr>;
       st = \<lparr>st_world = empty_world, st_handles = [(''f1'', h)], st_next = 2\<rparr>
   in do_write 1 (putString ''f1'' @ be64 (2 ^ 63) @ putString ''z'') st = Panics
      \<and> do_read 1 (putString ''f1'' @ be64 (2 ^ 63) @ be32 10) st = Panics"
  unfolding Let_def by (rule sftp_offset_panics) simp_all+

end
