(* ===== verification/AuthReality.thy ===== *)
theory AuthReality
  imports GoNumbers GoMaps
begin

text \<open>
  Which SSH passwords the trap accepts (\<open>internal/store/ssh_auth_reality.go\<close>,
  \<open>internal/store/ssh.go\<close>, \<open>internal/store/automation.go\<close>,
  \<open>internal/server/trap_ssh_auth_policy.go\<close>): the pool of credential slots of each
  account, the credential each source is bound to, what the store knows of a source, and the
  decision over them.

  \<open>mac\<close> is HMAC-SHA256 and \<open>uni\<close> the case mapping outside ASCII. \<open>wr n\<close> says
  whether the \<open>n\<close>-th write of the state file succeeds; the file holds the structures
  that the code encodes as JSON. The calls of \<open>time.Now\<close> within one operation are one
  \<open>now\<close>.
\<close>

record credentialSlot =
  sl_fingerprint :: string
  sl_first :: gotime
  sl_last :: gotime

record credentialBinding =
  bi_fingerprint :: string
  bi_last :: gotime

record credentialDisk =
  dk_fingerprints :: "(string, string) gomap"
  dk_pools :: "(string, credentialSlot list) gomap"
  dk_bindings :: "(string, credentialBinding) gomap"

record authStore =
  au_key :: string
  au_pools :: "(string, credentialSlot list) gomap"
  au_bindings :: "(string, credentialBinding) gomap"
  au_disk :: credentialDisk
  au_writes :: nat

definition sshCredentialPoolSize :: nat where "sshCredentialPoolSize = 8"
definition sshCredentialRotateAfter :: duration where "sshCredentialRotateAfter = 45 * minute"

definition norm_name :: "(string \<Rightarrow> string) \<Rightarrow> string \<Rightarrow> string" where
  "norm_name uni s = ToLower uni (TrimSpace s)"

section \<open>The store\<close>

definition pool_of :: "authStore \<Rightarrow> string \<Rightarrow> credentialSlot list" where
  "pool_of s u = lookup_or [] (au_pools s) u"

text \<open>
  The loop over the slots of one account ends when the pool holds eight; what it takes from
  the file are the first slots that fill it.
\<close>

fun load_pool :: "(string \<Rightarrow> string) \<Rightarrow> credentialSlot list \<Rightarrow> credentialSlot list \<Rightarrow> credentialSlot list" where
  "load_pool uni pool [] = pool"
| "load_pool uni pool (slot # slots) =
     (let fp = norm_name uni (sl_fingerprint slot) in
      if length fp \<noteq> 64 then load_pool uni pool slots
      else (let pool = pool @ [slot\<lparr>sl_fingerprint := fp\<rparr>] in
            if sshCredentialPoolSize \<le> length pool then pool else load_pool uni pool slots))"

definition load_pools :: "(string \<Rightarrow> string) \<Rightarrow> (string, credentialSlot list) gomap \<Rightarrow> authStore \<Rightarrow> authStore" where
  "load_pools uni ps s =
     fold (\<lambda>(user, slots) s.
         let user = norm_name uni user in
         if user = [] then s
         else if load_pool uni (pool_of s user) slots = pool_of s user then s
         else s\<lparr>au_pools := AList.update user (load_pool uni (pool_of s user) slots) (au_pools s)\<rparr>) ps s"

definition load_bindings :: "(string \<Rightarrow> string) \<Rightarrow> (string, credentialBinding) gomap \<Rightarrow> authStore \<Rightarrow> authStore" where
  "load_bindings uni bs s =
     fold (\<lambda>(key, b) s.
         let key = norm_name uni key; fp = norm_name uni (bi_fingerprint b) in
         if key = [] \<or> length fp \<noteq> 64 then s
         else s\<lparr>au_bindings := AList.update key (b\<lparr>bi_fingerprint := fp\<rparr>) (au_bindings s)\<rparr>) bs s"

definition load_legacy :: "(string \<Rightarrow> string) \<Rightarrow> (string, string) gomap \<Rightarrow> authStore \<Rightarrow> authStore" where
  "load_legacy uni fs s =
     fold (\<lambda>(user, fp) s.
         let user = norm_name uni user; fp = norm_name uni fp in
         if user = [] \<or> length fp \<noteq> 64 \<or> pool_of s user \<noteq> [] then s
         else s\<lparr>au_pools := AList.update user [\<lparr>sl_fingerprint = fp, sl_first = 0, sl_last = 0\<rparr>] (au_pools s)\<rparr>) fs s"

text \<open>\<open>initSSHCredentialReality\<close> on the key and the decoded state file.\<close>

definition initSSHCredentialReality :: "(string \<Rightarrow> string) \<Rightarrow> string \<Rightarrow> credentialDisk \<Rightarrow> authStore \<Rightarrow> authStore" where
  "initSSHCredentialReality uni key disk s =
     load_legacy uni (dk_fingerprints disk)
       (load_bindings uni (dk_bindings disk)
         (load_pools uni (dk_pools disk)
           (if key = [] then s else s\<lparr>au_key := key\<rparr>)))"

definition persist :: "(nat \<Rightarrow> bool) \<Rightarrow> authStore \<Rightarrow> authStore \<times> bool" where
  "persist wr s =
     (let s' = s\<lparr>au_writes := au_writes s + 1\<rparr> in
      if wr (au_writes s)
      then (s'\<lparr>au_disk := \<lparr>dk_fingerprints = [], dk_pools = au_pools s, dk_bindings = au_bindings s\<rparr>\<rparr>, True)
      else (s', False))"

definition fingerprint :: "(string \<Rightarrow> string \<Rightarrow> string) \<Rightarrow> (string \<Rightarrow> string) \<Rightarrow> authStore \<Rightarrow> string \<Rightarrow> string \<Rightarrow> string" where
  "fingerprint mac uni s user pw =
     (if au_key s = [] \<or> user = [] \<or> pw = [] then []
      else hex_encode (mac (au_key s) (norm_name uni user @ [CHR 0x00] @ pw)))"

text \<open>Setting \<open>LastSeen\<close> of the first slot with the fingerprint.\<close>

fun touch_slot :: "string \<Rightarrow> gotime \<Rightarrow> credentialSlot list \<Rightarrow> credentialSlot list option" where
  "touch_slot fp now [] = None"
| "touch_slot fp now (sl # sls) =
     (if sl_fingerprint sl = fp then Some (sl\<lparr>sl_last := now\<rparr> # sls)
      else map_option ((#) sl) (touch_slot fp now sls))"

definition SSHCredentialStatus ::
  "(string \<Rightarrow> string \<Rightarrow> string) \<Rightarrow> (string \<Rightarrow> string) \<Rightarrow> (nat \<Rightarrow> bool) \<Rightarrow> gotime \<Rightarrow> string \<Rightarrow> string \<Rightarrow> authStore
     \<Rightarrow> authStore \<times> bool \<times> bool" where
  "SSHCredentialStatus mac uni wr now user0 pw s =
     (let user = norm_name uni user0; slots = pool_of s user in
      if slots = [] then (s, False, False)
      else (let got = fingerprint mac uni s user pw in
            if got = [] then (s, True, False)
            else (case touch_slot got now slots of
                    Some slots' \<Rightarrow>
                      (fst (persist wr (s\<lparr>au_pools := AList.update user slots' (au_pools s)\<rparr>)), True, True)
                  | None \<Rightarrow> (s, True, False))))"

text \<open>
  The pool with a slot for the fingerprint: the slot it has, a new one while there is room, or
  the least recently used one when it has been idle long enough; \<open>None\<close> when the pool is busy.
\<close>

definition place_slot :: "string \<Rightarrow> gotime \<Rightarrow> credentialSlot list \<Rightarrow> credentialSlot list option" where
  "place_slot fp now slots =
     (let fresh = \<lparr>sl_fingerprint = fp, sl_first = now, sl_last = now\<rparr> in
      case touch_slot fp now slots of
        Some slots' \<Rightarrow> Some slots'
      | None \<Rightarrow>
          if length slots < sshCredentialPoolSize then Some (slots @ [fresh])
          else (let sorted = sort_key sl_last slots; oldest = sl_last (hd sorted) in
                if oldest = 0 \<or> sshCredentialRotateAfter \<le> time_sub now oldest
                then Some (fresh # tl sorted) else None))"

definition EstablishSSHCredential ::
  "(string \<Rightarrow> string \<Rightarrow> string) \<Rightarrow> (string \<Rightarrow> string) \<Rightarrow> (nat \<Rightarrow> bool) \<Rightarrow> gotime \<Rightarrow> string \<Rightarrow> string \<Rightarrow> authStore
     \<Rightarrow> authStore \<times> bool" where
  "EstablishSSHCredential mac uni wr now user0 pw s =
     (let user = norm_name uni user0; fp = fingerprint mac uni s user pw in
      if user = [] \<or> pw = [] \<or> 256 < length pw then (s, False)
      else if fp = [] then (s, False)
      else (case place_slot fp now (pool_of s user) of
              Some slots \<Rightarrow> persist wr (s\<lparr>au_pools := AList.update user slots (au_pools s)\<rparr>)
            | None \<Rightarrow> (s, False)))"

definition sshCredentialBindingKey :: "(string \<Rightarrow> string) \<Rightarrow> string \<Rightarrow> string \<Rightarrow> string" where
  "sshCredentialBindingKey uni source user = norm_name uni source @ ''|'' @ norm_name uni user"

definition SSHSourceCredentialStatus ::
  "(string \<Rightarrow> string \<Rightarrow> string) \<Rightarrow> (string \<Rightarrow> string) \<Rightarrow> (nat \<Rightarrow> bool) \<Rightarrow> gotime \<Rightarrow> string \<Rightarrow> string \<Rightarrow> string
     \<Rightarrow> authStore \<Rightarrow> authStore \<times> bool \<times> bool" where
  "SSHSourceCredentialStatus mac uni wr now source user pw s =
     (let key = sshCredentialBindingKey uni source user in
      case map_of (au_bindings s) key of
        None \<Rightarrow> (s, False, False)
      | Some b \<Rightarrow>
          (let got = fingerprint mac uni s user pw in
           if got = [] then (s, True, False)
           else if bi_fingerprint b = got then
             (fst (persist wr (s\<lparr>au_bindings := AList.update key (b\<lparr>bi_last := now\<rparr>) (au_bindings s)\<rparr>)), True, True)
           else (s, True, False)))"

definition day :: duration where "day = 24 * hour"

definition prune_bindings :: "gotime \<Rightarrow> (string, credentialBinding) gomap \<Rightarrow> (string, credentialBinding) gomap" where
  "prune_bindings now bs =
     (let kept = List.filter (\<lambda>(k, b). bi_last b = 0 \<or> \<not> bi_last b < now - 30 * day) bs;
          rows = sort_key (\<lambda>(k, b). bi_last b) kept
      in if 4096 < length kept
         then fold (\<lambda>(k, b) m. AList.delete k m) (take (length rows - 4096) rows) kept
         else kept)"

definition BindSSHSourceCredential ::
  "(string \<Rightarrow> string \<Rightarrow> string) \<Rightarrow> (string \<Rightarrow> string) \<Rightarrow> (nat \<Rightarrow> bool) \<Rightarrow> gotime \<Rightarrow> string \<Rightarrow> string \<Rightarrow> string
     \<Rightarrow> authStore \<Rightarrow> authStore \<times> bool" where
  "BindSSHSourceCredential mac uni wr now source user pw s =
     (let key = sshCredentialBindingKey uni source user; fp = fingerprint mac uni s user pw in
      if key = ''|'' then (s, False)
      else if fp = [] then (s, False)
      else (case map_of (au_bindings s) key of
              Some b \<Rightarrow> if bi_fingerprint b \<noteq> fp then (s, False)
                        else persist wr (s\<lparr>au_bindings :=
                               prune_bindings now (AList.update key \<lparr>bi_fingerprint = fp, bi_last = now\<rparr> (au_bindings s))\<rparr>)
            | None \<Rightarrow> persist wr (s\<lparr>au_bindings :=
                        prune_bindings now (AList.update key \<lparr>bi_fingerprint = fp, bi_last = now\<rparr> (au_bindings s))\<rparr>)))"

definition SSHCredentialPoolSize :: "(string \<Rightarrow> string) \<Rightarrow> authStore \<Rightarrow> string \<Rightarrow> nat" where
  "SSHCredentialPoolSize uni s user = length (pool_of s (norm_name uni user))"

section \<open>What is known of a source\<close>

record connectEvent =
  ce_at :: gotime
  ce_ip :: string
  ce_type :: string

record sshRecurrence =
  rc_connections :: int
  rc_median :: int
  rc_jitter :: int
  rc_rapid :: bool
  rc_low_slow :: bool

fun recent_connects :: "string \<Rightarrow> gotime \<Rightarrow> connectEvent list \<Rightarrow> gotime list" where
  "recent_connects ip now [] = []"
| "recent_connects ip now (e # es) =
     (if time_sub now (ce_at e) > 24 * hour then []
      else if ce_ip e = ip \<and> ce_type e = ''connect'' then ce_at e # recent_connects ip now es
      else recent_connects ip now es)"

fun gaps :: "gotime list \<Rightarrow> int list" where
  "gaps (a # b # ts) = go_div (time_sub b a) second # gaps (b # ts)"
| "gaps _ = []"

text \<open>The events are walked from the newest back.\<close>

definition SSHRecurrence :: "string \<Rightarrow> gotime \<Rightarrow> connectEvent list \<Rightarrow> sshRecurrence" where
  "SSHRecurrence ip now events =
     (let ts = recent_connects ip now (rev events); n = length ts in
      if n < 3 then \<lparr>rc_connections = int n, rc_median = 0, rc_jitter = 0, rc_rapid = False, rc_low_slow = False\<rparr>
      else (let ds = sort (gaps (sort ts));
                med = ds ! (length ds div 2);
                dev = sort (map (\<lambda>d. \<bar>d - med\<bar>) ds);
                jitter = dev ! (length dev div 2)
            in \<lparr>rc_connections = int n, rc_median = med, rc_jitter = jitter,
                rc_rapid = (8 \<le> n \<and> 0 \<le> med \<and> med < 20 \<and> jitter \<le> max 3 (go_div med 3)),
                rc_low_slow = (6 \<le> n \<and> 20 \<le> med \<and> med \<le> 3600 \<and> jitter \<le> max 20 (go_div med 5))\<rparr>))"

record sshSessionRow =
  ss_ip :: string
  ss_accepted :: bool
  ss_username :: string
  ss_active :: bool
  ss_last :: gotime

record sshActor =
  ac_unique_users :: int
  ac_accepted :: int
  ac_rejected :: int

record authProfile =
  ap_unique_users :: int
  ap_accepted :: int
  ap_rejected :: int
  ap_recent :: "string list"
  ap_active :: "string list"

fun distinct_users :: "nat \<Rightarrow> string list \<Rightarrow> string list \<Rightarrow> string list" where
  "distinct_users n seen [] = []"
| "distinct_users n seen (u # us) =
     (if u \<in> set seen then distinct_users n seen us
      else if n = 0 then []
      else u # distinct_users (n - 1) (u # seen) us)"

text \<open>\<open>actor\<close> is the record of the source in the store, when it has one.\<close>

definition SSHAuthProfile :: "(string \<Rightarrow> string) \<Rightarrow> string \<Rightarrow> sshActor option \<Rightarrow> sshSessionRow list \<Rightarrow> authProfile" where
  "SSHAuthProfile uni ip0 actor sessions =
     (let ip = TrimSpace ip0 in
      if ip = [] then \<lparr>ap_unique_users = 0, ap_accepted = 0, ap_rejected = 0, ap_recent = [], ap_active = []\<rparr>
      else (let rows = List.filter (\<lambda>r. ss_ip r = ip \<and> ss_accepted r \<and> TrimSpace (ss_username r) \<noteq> []) sessions;
                name = (\<lambda>r. norm_name uni (ss_username r));
                recent = map name (sort_key (\<lambda>r. - ss_last r) rows);
                count = (\<lambda>f. case actor of Some a \<Rightarrow> f a | None \<Rightarrow> 0)
            in \<lparr>ap_unique_users = count ac_unique_users, ap_accepted = count ac_accepted, ap_rejected = count ac_rejected,
                ap_recent = distinct_users 8 [] recent,
                ap_active = sort_strings (remdups (map name (List.filter ss_active rows)))\<rparr>))"

section \<open>The decision\<close>

definition virtualSSHAccountExists :: "(string \<Rightarrow> string) \<Rightarrow> string \<Rightarrow> bool" where
  "virtualSSHAccountExists uni user \<longleftrightarrow> norm_name uni user \<in> set [''root'', ''admin'', ''svc-web'', ''svc-backup'']"

definition usable :: "string \<Rightarrow> string \<Rightarrow> bool" where
  "usable user pw \<longleftrightarrow> \<not> (user = [] \<or> pw = [] \<or> 256 < length pw)"

definition shouldAcceptTrapPassword :: "string \<Rightarrow> string \<Rightarrow> string \<Rightarrow> int \<Rightarrow> int \<Rightarrow> bool" where
  "shouldAcceptTrapPassword remote user pw attempt maxTries \<longleftrightarrow>
     usable user pw
     \<and> (let threshold = 2 + int (fnv32a (remote @ ''|'' @ user) mod 2) in
        (if maxTries > 0 \<and> threshold > maxTries then maxTries else threshold) \<le> attempt)"

definition shouldAcceptRecurringProbe :: "sshRecurrence \<Rightarrow> string \<Rightarrow> string \<Rightarrow> string \<Rightarrow> int \<Rightarrow> bool" where
  "shouldAcceptRecurringProbe recur remote user pw attempt \<longleftrightarrow>
     attempt = 1 \<and> rc_low_slow recur \<and> 6 \<le> rc_connections recur \<and> usable user pw
     \<and> (nat (rc_connections recur mod 2 ^ 32) + fnv32a (remote @ ''|'' @ user)) mod 2 ^ 32 mod 3 = 0"

definition shouldAcceptFirstKnownAccount :: "string \<Rightarrow> string \<Rightarrow> string \<Rightarrow> int \<Rightarrow> bool" where
  "shouldAcceptFirstKnownAccount remote user pw attempt \<longleftrightarrow>
     attempt = 1 \<and> usable user pw \<and> fnv32a (remote @ ''|'' @ user @ ''|'' @ pw) mod 5 = 0"

text \<open>The user the source has last been accepted as, among the accounts of the host.\<close>

definition sticky_user :: "(string \<Rightarrow> string) \<Rightarrow> authProfile \<Rightarrow> string" where
  "sticky_user uni p = (case List.find (virtualSSHAccountExists uni) (ap_recent p) of Some u \<Rightarrow> u | None \<Rightarrow> [])"

text \<open>A new slot for the credential, and the source bound to it.\<close>

definition establish_and_bind ::
  "(string \<Rightarrow> string \<Rightarrow> string) \<Rightarrow> (string \<Rightarrow> string) \<Rightarrow> (nat \<Rightarrow> bool) \<Rightarrow> gotime \<Rightarrow> string \<Rightarrow> string \<Rightarrow> string \<Rightarrow> string
     \<Rightarrow> authStore \<Rightarrow> authStore \<times> bool \<times> string" where
  "establish_and_bind mac uni wr now remote user pw reason s =
     (case EstablishSSHCredential mac uni wr now user pw s of
        (s, True) \<Rightarrow> (fst (BindSSHSourceCredential mac uni wr now remote user pw s), True, reason)
      | (s, False) \<Rightarrow> (s, False, ''reject-credential-pool-busy''))"

definition trapCredentialDecision ::
  "(string \<Rightarrow> string \<Rightarrow> string) \<Rightarrow> (string \<Rightarrow> string) \<Rightarrow> (nat \<Rightarrow> bool) \<Rightarrow> gotime \<Rightarrow> int \<Rightarrow> authProfile \<Rightarrow> sshRecurrence
     \<Rightarrow> string \<Rightarrow> string \<Rightarrow> string \<Rightarrow> int \<Rightarrow> authStore \<Rightarrow> authStore \<times> bool \<times> string" where
  "trapCredentialDecision mac uni wr now maxTries profile recur remote user0 pw attempt s =
     (let user = norm_name uni user0 in
      if \<not> usable user pw then (s, False, ''reject-invalid-credential'')
      else if \<not> virtualSSHAccountExists uni user then (s, False, ''reject-unknown-account'')
      else
        (let sticky = sticky_user uni profile in
         if sticky \<noteq> [] \<and> user \<noteq> sticky then (s, False, ''reject-source-account-conflict'')
         else if list_ex (\<lambda>a. a \<noteq> user) (ap_active profile) then (s, False, ''reject-concurrent-identity'')
         else
           (case SSHSourceCredentialStatus mac uni wr now remote user pw s of
              (s, sourceBound, sourceMatches) \<Rightarrow>
                if sourceBound \<and> \<not> sourceMatches then (s, False, ''reject-credential-mismatch'')
                else
                  (case SSHCredentialStatus mac uni wr now user pw s of
                     (s, established, matches) \<Rightarrow>
                       if matches then
                         ((if sourceBound then s else fst (BindSSHSourceCredential mac uni wr now remote user pw s)),
                          True, ''accepted-existing-credential'')
                       else if sticky = user \<and> \<not> established then
                         establish_and_bind mac uni wr now remote user pw ''accepted-legacy-sticky'' s
                       else if 30 \<le> ap_unique_users profile then (s, False, ''reject-spray-hardening'')
                       else if \<not> (shouldAcceptFirstKnownAccount remote user pw attempt
                                  \<or> shouldAcceptTrapPassword remote user pw attempt maxTries
                                  \<or> shouldAcceptRecurringProbe recur remote user pw attempt) then
                         (s, False, if established then ''reject-credential-mismatch'' else ''reject-policy'')
                       else establish_and_bind mac uni wr now remote user pw ''accepted-new-credential-slot'' s))))"

text \<open>
  The decision on what the store holds: the profile of the source and its recurrence are read
  from the sessions and the connection events.
\<close>

definition shouldAcceptTrapCredential ::
  "(string \<Rightarrow> string \<Rightarrow> string) \<Rightarrow> (string \<Rightarrow> string) \<Rightarrow> (nat \<Rightarrow> bool) \<Rightarrow> gotime \<Rightarrow> int
     \<Rightarrow> sshActor option \<Rightarrow> sshSessionRow list \<Rightarrow> connectEvent list
     \<Rightarrow> string \<Rightarrow> string \<Rightarrow> string \<Rightarrow> int \<Rightarrow> authStore \<Rightarrow> authStore \<times> bool" where
  "shouldAcceptTrapCredential mac uni wr now maxTries actor sessions events remote user pw attempt s =
     (case trapCredentialDecision mac uni wr now maxTries (SSHAuthProfile uni remote actor sessions)
             (SSHRecurrence remote now events) remote user pw attempt s of
        (s, ok, _) \<Rightarrow> (s, ok))"

end
