(* ===== verification/AuthRealityProofs.thy ===== *)
theory AuthRealityProofs
  imports AuthReality "HOL-Library.Multiset"
begin

text \<open>
  The trap's password policy: what is accepted is known afterwards and belongs to an account of
  the host, pools and bindings stay bounded, a source sticks to its credential, a spraying
  source creates nothing, a full pool only gives up a slot that has been idle.
\<close>

section \<open>A host with known credentials\<close>

text \<open>
  What the decision relies on: establishing a credential makes it known, asking and binding
  change nothing of what is known, and asking answers what is known.
\<close>

locale credential_host =
  fixes knows :: "'s \<Rightarrow> 'u \<Rightarrow> 'c \<Rightarrow> bool"
    and ask :: "'u \<Rightarrow> 'c \<Rightarrow> 's \<Rightarrow> 's \<times> bool \<times> bool"
    and establish :: "'u \<Rightarrow> 'c \<Rightarrow> 's \<Rightarrow> 's \<times> bool"
    and bind :: "'a \<Rightarrow> 'u \<Rightarrow> 'c \<Rightarrow> 's \<Rightarrow> 's \<times> bool"
  assumes ask_answers: "snd (snd (ask u c s)) \<longleftrightarrow> knows s u c"
    and ask_keeps: "knows (fst (ask u c s)) v d \<longleftrightarrow> knows s v d"
    and establish_knows: "snd (establish u c s) \<Longrightarrow> knows (fst (establish u c s)) u c"
    and bind_keeps: "knows (fst (bind a u c s)) v d \<longleftrightarrow> knows s v d"
begin

lemma known_after_establish:
  "establish u c s = (s', True) \<Longrightarrow> knows (fst (bind a u c s')) u c"
  using establish_knows [of u c s] by (simp add: bind_keeps)

lemma known_after_ask:
  "ask u c s = (s', e, True) \<Longrightarrow> knows s' u c \<and> knows (fst (bind a u c s')) u c"
  using ask_answers [of u c s] ask_keeps [of u c s u c] by (simp add: bind_keeps)

lemma asked_again:
  "establish u c s = (s', True) \<Longrightarrow> snd (snd (ask u c (fst (bind a u c s'))))"
  by (simp add: ask_answers known_after_establish)

end

section \<open>Slots\<close>

definition fps :: "credentialSlot list \<Rightarrow> string list" where
  "fps = map sl_fingerprint"

lemma touch_slot_Some:
  "touch_slot fp now sls = Some sls' \<Longrightarrow> fps sls' = fps sls \<and> fp \<in> set (fps sls) \<and> length sls' = length sls"
  by (induction sls arbitrary: sls') (auto simp: fps_def split: if_splits)

lemma touch_slot_None: "touch_slot fp now sls = None \<longleftrightarrow> fp \<notin> set (fps sls)"
  by (induction sls) (auto simp: fps_def)

definition known :: "(string \<Rightarrow> string \<Rightarrow> string) \<Rightarrow> (string \<Rightarrow> string) \<Rightarrow> authStore \<Rightarrow> string \<Rightarrow> string \<Rightarrow> bool" where
  "known mac uni s u pw \<longleftrightarrow>
     fingerprint mac uni s (norm_name uni u) pw \<noteq> []
     \<and> fingerprint mac uni s (norm_name uni u) pw \<in> set (fps (pool_of s (norm_name uni u)))"

lemma persist_simps [simp]:
  "au_pools (fst (persist wr s)) = au_pools s" "au_bindings (fst (persist wr s)) = au_bindings s"
  "au_key (fst (persist wr s)) = au_key s" "pool_of (fst (persist wr s)) u = pool_of s u"
  by (simp_all add: persist_def pool_of_def Let_def)

lemma persist_eq: "persist wr s = (s', b) \<Longrightarrow> au_pools s' = au_pools s \<and> au_bindings s' = au_bindings s \<and> au_key s' = au_key s"
  using persist_simps [of wr s] by simp

lemma pool_of_update [simp]:
  "pool_of (s\<lparr>au_pools := AList.update u p (au_pools s)\<rparr>) v = (if v = u then p else pool_of s v)"
  by (simp add: pool_of_def gomap)

lemma pool_of_bindings [simp]: "pool_of (s\<lparr>au_bindings := b\<rparr>) v = pool_of s v"
  by (simp add: pool_of_def)

lemma fingerprint_fields:
  "au_key s' = au_key s \<Longrightarrow> fingerprint mac uni s' u pw = fingerprint mac uni s u pw"
  by (simp add: fingerprint_def)

lemma known_fields:
  "au_key s' = au_key s \<Longrightarrow> (\<And>u. fps (pool_of s' u) = fps (pool_of s u)) \<Longrightarrow> known mac uni s' u pw = known mac uni s u pw"
  by (simp add: known_def fingerprint_def)

section \<open>The operations\<close>

lemma status_effect:
  assumes "SSHCredentialStatus mac uni wr now u pw s = (s', e, m)"
  shows "au_key s' = au_key s \<and> au_bindings s' = au_bindings s
    \<and> (\<forall>v. fps (pool_of s' v) = fps (pool_of s v)) \<and> (\<forall>v. pool_of s' v = [] \<longleftrightarrow> pool_of s v = [])
    \<and> (m \<longleftrightarrow> known mac uni s u pw) \<and> (e \<longleftrightarrow> pool_of s (norm_name uni u) \<noteq> [])"
proof (cases "fingerprint mac uni s (norm_name uni u) pw = []")
  case True
  then show ?thesis using assms by (auto simp: SSHCredentialStatus_def known_def Let_def split: if_splits)
next
  case False
  let ?fp = "fingerprint mac uni s (norm_name uni u) pw" and ?p = "pool_of s (norm_name uni u)"
  show ?thesis
  proof (cases "touch_slot ?fp now ?p")
    case None
    then show ?thesis using assms False touch_slot_None [of ?fp now ?p]
      by (auto simp: SSHCredentialStatus_def known_def Let_def split: if_splits)
  next
    case (Some p')
    note t = touch_slot_Some [OF Some]
    then have "?p \<noteq> []" "p' \<noteq> []" by (auto simp: fps_def)
    then have "s' = fst (persist wr (s\<lparr>au_pools := AList.update (norm_name uni u) p' (au_pools s)\<rparr>)) \<and> e \<and> m"
      using assms False Some by (simp add: SSHCredentialStatus_def Let_def)
    then show ?thesis using t False \<open>?p \<noteq> []\<close> \<open>p' \<noteq> []\<close>
      by (simp add: known_def split: if_split)
  qed
qed

lemma place_slot_Some:
  assumes "place_slot fp now slots = Some p"
  shows "fp \<in> set (fps p)" "length slots \<le> sshCredentialPoolSize \<Longrightarrow> length p \<le> sshCredentialPoolSize"
    "distinct (fps slots) \<Longrightarrow> distinct (fps p)"
proof -
  let ?sorted = "sort_key sl_last slots"
  let ?fresh = "\<lparr>sl_fingerprint = fp, sl_first = now, sl_last = now\<rparr>"
  have "fp \<in> set (fps p) \<and> (length slots \<le> sshCredentialPoolSize \<longrightarrow> length p \<le> sshCredentialPoolSize)
      \<and> (distinct (fps slots) \<longrightarrow> distinct (fps p))"
  proof (cases "touch_slot fp now slots")
    case (Some q)
    then show ?thesis using touch_slot_Some [OF Some] assms by (simp add: place_slot_def)
  next
    case None
    then have fp: "fp \<notin> set (fps slots)" by (simp add: touch_slot_None)
    then have tl: "fp \<notin> set (fps (tl ?sorted))"
    proof -
      have "set (tl ?sorted) \<subseteq> set ?sorted" by (cases ?sorted) auto
      then show ?thesis using fp by (auto simp: fps_def)
    qed
    have d: "distinct (fps ?sorted) = distinct (fps slots)"
      unfolding fps_def by (rule mset_eq_imp_distinct_iff) simp
    have "p = slots @ [?fresh] \<and> length slots < sshCredentialPoolSize
        \<or> p = ?fresh # tl ?sorted \<and> sshCredentialPoolSize \<le> length slots"
      using assms None by (auto simp: place_slot_def Let_def split: if_splits)
    then show ?thesis using fp tl d
      by (auto simp: fps_def map_tl distinct_tl sshCredentialPoolSize_def)
  qed
  then show "fp \<in> set (fps p)" "length slots \<le> sshCredentialPoolSize \<Longrightarrow> length p \<le> sshCredentialPoolSize"
    "distinct (fps slots) \<Longrightarrow> distinct (fps p)" by auto
qed

lemma establish_cases:
  assumes "EstablishSSHCredential mac uni wr now u pw s = (s', b)"
  obtains (refused) "s' = s" "\<not> b"
  | (placed) p where "place_slot (fingerprint mac uni s (norm_name uni u) pw) now (pool_of s (norm_name uni u)) = Some p"
      "fingerprint mac uni s (norm_name uni u) pw \<noteq> []" "au_key s' = au_key s" "au_bindings s' = au_bindings s"
      "au_pools s' = AList.update (norm_name uni u) p (au_pools s)"
  using assms
  by (auto simp: EstablishSSHCredential_def Let_def split: if_splits option.splits dest!: persist_eq)

lemma establish_effect:
  assumes "EstablishSSHCredential mac uni wr now u pw s = (s', b)"
  shows "au_key s' = au_key s \<and> au_bindings s' = au_bindings s
    \<and> (\<forall>v. v \<noteq> norm_name uni u \<longrightarrow> pool_of s' v = pool_of s v) \<and> (b \<longrightarrow> known mac uni s' u pw)"
  using assms
proof (cases rule: establish_cases)
  case (placed p)
  then show ?thesis using place_slot_Some(1) [OF placed(1)]
    by (simp add: known_def pool_of_def gomap fingerprint_fields [OF placed(3)])
qed simp

lemma bind_effect:
  assumes "BindSSHSourceCredential mac uni wr now src u pw s = (s', b)"
  shows "au_key s' = au_key s \<and> au_pools s' = au_pools s"
  using assms by (auto simp: BindSSHSourceCredential_def Let_def split: if_splits option.splits dest!: persist_eq)

lemma source_status_effect:
  assumes "SSHSourceCredentialStatus mac uni wr now src u pw s = (s', e, m)"
  shows "au_key s' = au_key s \<and> au_pools s' = au_pools s"
  using assms by (auto simp: SSHSourceCredentialStatus_def Let_def split: if_splits option.splits)

interpretation host: credential_host "known mac uni" "SSHCredentialStatus mac uni wr now"
  "EstablishSSHCredential mac uni wr now" "BindSSHSourceCredential mac uni wr now" for mac uni wr now
proof
  fix u pw s v d a
  obtain s1 e m where st: "SSHCredentialStatus mac uni wr now u pw s = (s1, e, m)" by (cases "SSHCredentialStatus mac uni wr now u pw s")
  show "snd (snd (SSHCredentialStatus mac uni wr now u pw s)) \<longleftrightarrow> known mac uni s u pw"
    using status_effect [OF st] by (simp add: st)
  show "known mac uni (fst (SSHCredentialStatus mac uni wr now u pw s)) v d \<longleftrightarrow> known mac uni s v d"
    using status_effect [OF st] known_fields [of s1 s] by (simp add: st)
  show "snd (EstablishSSHCredential mac uni wr now u pw s) \<Longrightarrow> known mac uni (fst (EstablishSSHCredential mac uni wr now u pw s)) u pw"
    using establish_effect [of mac uni wr now u pw s] by (cases "EstablishSSHCredential mac uni wr now u pw s") auto
  show "known mac uni (fst (BindSSHSourceCredential mac uni wr now a u pw s)) v d \<longleftrightarrow> known mac uni s v d"
    using bind_effect [of mac uni wr now a u pw s] known_fields [of "fst (BindSSHSourceCredential mac uni wr now a u pw s)" s]
    by (cases "BindSSHSourceCredential mac uni wr now a u pw s") (auto simp: pool_of_def)
qed

section \<open>The decision\<close>

lemma decision_cases:
  assumes "trapCredentialDecision mac uni wr now tries profile recur remote user pw attempt s = (s', acc, reason)"
  obtains (rejected) "\<not> acc" "s' = s"
  | (checked) s1 b m s2 e m2 where "virtualSSHAccountExists uni (norm_name uni user)" "usable (norm_name uni user) pw"
      "sticky_user uni profile = [] \<or> sticky_user uni profile = norm_name uni user"
      "list_all (\<lambda>a. a = norm_name uni user) (ap_active profile)"
      "SSHSourceCredentialStatus mac uni wr now remote (norm_name uni user) pw s = (s1, b, m)" "b \<longrightarrow> m"
      "SSHCredentialStatus mac uni wr now (norm_name uni user) pw s1 = (s2, e, m2)"
      "m2 \<and> acc \<and> reason = ''accepted-existing-credential''
         \<and> s' = (if b then s2 else fst (BindSSHSourceCredential mac uni wr now remote (norm_name uni user) pw s2))
       \<or> \<not> m2 \<and> \<not> acc \<and> s' = s2
       \<or> \<not> m2 \<and> (ap_unique_users profile < 30 \<or> sticky_user uni profile = norm_name uni user \<and> \<not> e)
         \<and> (\<exists>why. establish_and_bind mac uni wr now remote (norm_name uni user) pw why s2 = (s', acc, reason)
               \<and> why \<in> {''accepted-legacy-sticky'', ''accepted-new-credential-slot''})"
  | (mismatch) "\<not> acc" "reason = ''reject-credential-mismatch''"
      "SSHSourceCredentialStatus mac uni wr now remote (norm_name uni user) pw s = (s', True, False)"
proof -
  let ?u = "norm_name uni user"
  obtain s1 b m where st: "SSHSourceCredentialStatus mac uni wr now remote ?u pw s = (s1, b, m)"
    by (cases "SSHSourceCredentialStatus mac uni wr now remote ?u pw s")
  obtain s2 e m2 where st2: "SSHCredentialStatus mac uni wr now ?u pw s1 = (s2, e, m2)"
    by (cases "SSHCredentialStatus mac uni wr now ?u pw s1")
  have ex: "list_ex (\<lambda>a. a \<noteq> ?u) (ap_active profile) \<longleftrightarrow> \<not> list_all (\<lambda>a. a = ?u) (ap_active profile)"
    by (auto simp: list_ex_iff list_all_iff)
  let ?go = "usable ?u pw \<and> virtualSSHAccountExists uni ?u
    \<and> (sticky_user uni profile = [] \<or> sticky_user uni profile = ?u) \<and> list_all (\<lambda>a. a = ?u) (ap_active profile)"
  note def = assms [unfolded trapCredentialDecision_def Let_def ex]
  show thesis
  proof (cases ?go)
    case False
    then have "\<not> acc \<and> s' = s" using def by (auto split: if_splits)
    then show ?thesis using rejected by blast
  next
    case go: True
    show ?thesis
    proof (cases "b \<and> \<not> m")
      case True
      then have "\<not> acc \<and> reason = ''reject-credential-mismatch'' \<and> s' = s1" using def go st by (auto split: if_splits)
      then show ?thesis using mismatch st True by simp
    next
      case False
      note d = def [unfolded st st2 prod.case]
      have "m2 \<and> acc \<and> reason = ''accepted-existing-credential''
         \<and> s' = (if b then s2 else fst (BindSSHSourceCredential mac uni wr now remote ?u pw s2))
       \<or> \<not> m2 \<and> \<not> acc \<and> s' = s2
       \<or> \<not> m2 \<and> (ap_unique_users profile < 30 \<or> sticky_user uni profile = ?u \<and> \<not> e)
         \<and> (\<exists>why. establish_and_bind mac uni wr now remote ?u pw why s2 = (s', acc, reason)
               \<and> why \<in> {''accepted-legacy-sticky'', ''accepted-new-credential-slot''})"
      proof (cases m2)
        case True
        then show ?thesis using d go \<open>\<not> (b \<and> \<not> m)\<close> by auto
      next
        case False
        then show ?thesis using d go \<open>\<not> (b \<and> \<not> m)\<close>
          by (cases "sticky_user uni profile = ?u \<and> \<not> e"; cases "30 \<le> ap_unique_users profile") (auto split: if_splits)
      qed
      then show ?thesis using checked go st st2 False by blast
    qed
  qed
qed

lemma establish_and_bind_effect:
  assumes "establish_and_bind mac uni wr now remote u pw why s = (s', acc, reason)"
  shows "acc \<longrightarrow> known mac uni s' u pw \<and> reason = why" "\<not> acc \<longrightarrow> reason = ''reject-credential-pool-busy''"
    "\<forall>v. v \<noteq> norm_name uni u \<longrightarrow> pool_of s' v = pool_of s v"
proof -
  obtain s1 b where e: "EstablishSSHCredential mac uni wr now u pw s = (s1, b)"
    by (cases "EstablishSSHCredential mac uni wr now u pw s")
  note eff = establish_effect [OF e]
  have pools: "pool_of (fst (BindSSHSourceCredential mac uni wr now remote u pw s1)) v = pool_of s1 v" for v
    using bind_effect [of mac uni wr now remote u pw s1]
    by (cases "BindSSHSourceCredential mac uni wr now remote u pw s1") (auto simp: pool_of_def)
  show "acc \<longrightarrow> known mac uni s' u pw \<and> reason = why" "\<not> acc \<longrightarrow> reason = ''reject-credential-pool-busy''"
    "\<forall>v. v \<noteq> norm_name uni u \<longrightarrow> pool_of s' v = pool_of s v"
    using assms e eff pools host.known_after_establish [of mac uni wr now u pw s s1 remote]
    by (auto simp: establish_and_bind_def split: bool.splits)
qed

text \<open>C25: an accepted login names an account of the host with a usable password, and the credential
  is one the host knows afterwards, so that asking for it again confirms it.
\<close>

theorem accepted_credential_known:
  assumes "trapCredentialDecision mac uni wr now tries profile recur remote user pw attempt s = (s', True, reason)"
  shows "virtualSSHAccountExists uni (norm_name uni user) \<and> usable (norm_name uni user) pw
    \<and> known mac uni s' (norm_name uni user) pw
    \<and> snd (snd (SSHCredentialStatus mac uni wr' now' (norm_name uni user) pw s'))
    \<and> reason \<in> {''accepted-existing-credential'', ''accepted-legacy-sticky'', ''accepted-new-credential-slot''}"
  using assms
proof (cases rule: decision_cases)
  case (checked s1 b m s2 e m2)
  have k: "m2 \<Longrightarrow> known mac uni s2 (norm_name uni user) pw
      \<and> known mac uni (fst (BindSSHSourceCredential mac uni wr now remote (norm_name uni user) pw s2)) (norm_name uni user) pw"
    using checked(7) host.known_after_ask [of mac uni wr now "norm_name uni user" pw s1 s2 e remote] by simp
  have "known mac uni s' (norm_name uni user) pw
    \<and> reason \<in> {''accepted-existing-credential'', ''accepted-legacy-sticky'', ''accepted-new-credential-slot''}"
    using checked(8) k establish_and_bind_effect(1) by (fastforce split: if_splits)
  then show ?thesis using checked(1,2) host.ask_answers by simp
qed simp_all

text \<open>A source that has tried thirty user names or more is accepted only with a credential the host
  already knew (or as the account it had reached before pools existed), and creates no slot.
\<close>

lemma spray_creates_nothing:
  assumes "trapCredentialDecision mac uni wr now tries profile recur remote user pw attempt s = (s', acc, reason)"
    and "30 \<le> ap_unique_users profile" "sticky_user uni profile \<noteq> norm_name uni user \<or> pool_of s (norm_name uni (norm_name uni user)) \<noteq> []"
  shows "(\<forall>v. fps (pool_of s' v) = fps (pool_of s v)) \<and> (acc \<longrightarrow> known mac uni s (norm_name uni user) pw)"
  using assms(1)
proof (cases rule: decision_cases)
  case (checked s1 b m s2 e m2)
  have s1: "au_key s1 = au_key s" "pool_of s1 v = pool_of s v" for v
    using source_status_effect [OF checked(5)] by (auto simp: pool_of_def)
  note st = status_effect [OF checked(7)]
  have bind: "pool_of (fst (BindSSHSourceCredential mac uni wr now remote (norm_name uni user) pw s2)) v = pool_of s2 v" for v
    using bind_effect [of mac uni wr now remote "norm_name uni user" pw s2]
    by (cases "BindSSHSourceCredential mac uni wr now remote (norm_name uni user) pw s2") (auto simp: pool_of_def)
  have "\<not> (ap_unique_users profile < 30 \<or> sticky_user uni profile = norm_name uni user \<and> \<not> e)"
    using assms(2,3) st s1 by auto
  then have "m2 \<and> acc \<and> (\<forall>v. pool_of s' v = pool_of s2 v) \<or> \<not> acc \<and> s' = s2"
    using checked(8) bind by (auto split: if_splits)
  moreover have "known mac uni s1 (norm_name uni user) pw = known mac uni s (norm_name uni user) pw"
    using s1 by (intro known_fields) auto
  ultimately show ?thesis using st s1 by auto
next
  case mismatch
  then show ?thesis using source_status_effect [OF mismatch(3)] by (auto simp: pool_of_def)
qed simp

text \<open>A source bound to a credential is refused with any other one, and nothing changes.\<close>

lemma bound_source_is_sticky:
  assumes "map_of (au_bindings s) (sshCredentialBindingKey uni remote (norm_name uni user)) = Some b"
    and "bi_fingerprint b \<noteq> fingerprint mac uni s (norm_name uni user) pw"
  shows "\<exists>reason. trapCredentialDecision mac uni wr now tries profile recur remote user pw attempt s = (s, False, reason)"
proof -
  have st: "SSHSourceCredentialStatus mac uni wr now remote (norm_name uni user) pw s = (s, True, False)"
    using assms by (simp add: SSHSourceCredentialStatus_def Let_def)
  obtain s' acc reason where d:
    "trapCredentialDecision mac uni wr now tries profile recur remote user pw attempt s = (s', acc, reason)"
    by (cases "trapCredentialDecision mac uni wr now tries profile recur remote user pw attempt s")
  have "\<not> acc \<and> s' = s" using d by (cases rule: decision_cases) (use st in auto)
  then show ?thesis using d by auto
qed

section \<open>Bounds\<close>

definition pools_ok :: "(string, credentialSlot list) gomap \<Rightarrow> bool" where
  "pools_ok ps \<longleftrightarrow> map_wf ps \<and> (\<forall>p \<in> snd ` set ps. length p \<le> sshCredentialPoolSize \<and> distinct (fps p))"

definition auth_ok :: "authStore \<Rightarrow> bool" where
  "auth_ok s \<longleftrightarrow> pools_ok (au_pools s) \<and> map_wf (au_bindings s) \<and> length (au_bindings s) \<le> 4096"

lemma pool_of_ok: "pools_ok (au_pools s) \<Longrightarrow> length (pool_of s u) \<le> sshCredentialPoolSize \<and> distinct (fps (pool_of s u))"
  by (cases "map_of (au_pools s) u")
    (auto simp: pool_of_def lookup_or_def pools_ok_def fps_def sshCredentialPoolSize_def dest!: map_of_SomeD)

lemma pools_ok_update:
  assumes "pools_ok ps" "length p \<le> sshCredentialPoolSize" "distinct (fps p)"
  shows "pools_ok (AList.update u p ps)"
  using assms set_update [of u p ps] by (fastforce simp: pools_ok_def)

lemma fold_delete: "fold (\<lambda>(k, b) m. AList.delete k m) rows m = List.filter (\<lambda>p. fst p \<notin> fst ` set rows) m"
proof (induction rows arbitrary: m)
  case (Cons r rows)
  obtain k b where r: "r = (k, b)" by (cases r)
  have "AList.delete k m = List.filter (\<lambda>p. fst p \<noteq> k) m"
    unfolding AList.delete_eq by (rule filter_cong) auto
  then show ?case using Cons.IH by (simp add: r)
qed simp

lemma prune_bindings_ok:
  assumes "map_wf bs"
  shows "map_wf (prune_bindings now bs)" "length (prune_bindings now bs) \<le> 4096"
proof -
  define kept where "kept = List.filter (\<lambda>(k, b). bi_last b = 0 \<or> \<not> bi_last b < now - 30 * day) bs"
  define rows where "rows = sort_key (\<lambda>(k, b). bi_last b) kept"
  define n where "n = length rows - 4096"
  have wf: "map_wf kept" using assms by (simp add: kept_def)
  have p: "prune_bindings now bs =
      (if 4096 < length kept then List.filter (\<lambda>p. fst p \<notin> fst ` set (take n rows)) kept else kept)"
    by (simp add: prune_bindings_def kept_def rows_def n_def fold_delete Let_def)
  show "map_wf (prune_bindings now bs)" using wf by (simp add: p)
  have d: "distinct (map fst rows)"
    using wf unfolding rows_def map_wf_def by (subst mset_eq_imp_distinct_iff [of _ "map fst kept"]) simp_all
  let ?P = "\<lambda>p. fst p \<notin> fst ` set (take n rows)"
  have "length (List.filter ?P kept) = size (filter_mset ?P (mset rows))"
    by (simp add: rows_def flip: mset_filter)
  also have "\<dots> = length (List.filter ?P rows)" by (simp flip: mset_filter)
  also have "List.filter ?P rows = List.filter ?P (take n rows) @ List.filter ?P (drop n rows)"
    by (metis append_take_drop_id filter_append)
  also have "List.filter ?P (take n rows) = []" by (simp add: filter_empty_conv)
  also have "length ([] @ List.filter ?P (drop n rows)) \<le> length rows - n"
    using length_filter_le [of ?P "drop n rows"] by simp
  finally show "length (prune_bindings now bs) \<le> 4096" by (auto simp: p n_def rows_def)
qed

lemma auth_ok_persist [simp]: "auth_ok (fst (persist wr s)) = auth_ok s"
  by (simp add: auth_ok_def)

lemma status_ok:
  assumes "auth_ok s" "SSHCredentialStatus mac uni wr now u pw s = (s', e, m)"
  shows "auth_ok s'"
proof (cases "touch_slot (fingerprint mac uni s (norm_name uni u) pw) now (pool_of s (norm_name uni u))")
  case (Some p)
  then have "auth_ok (s\<lparr>au_pools := AList.update (norm_name uni u) p (au_pools s)\<rparr>)"
    using assms(1) touch_slot_Some [OF Some] pool_of_ok [of s "norm_name uni u"]
    by (auto simp: auth_ok_def intro: pools_ok_update)
  then show ?thesis using assms Some by (auto simp: SSHCredentialStatus_def Let_def split: if_splits)
qed (use assms in \<open>auto simp: SSHCredentialStatus_def Let_def split: if_splits\<close>)

lemma establish_ok:
  assumes "auth_ok s" "EstablishSSHCredential mac uni wr now u pw s = (s', b)"
  shows "auth_ok s'"
  using assms(2)
proof (cases rule: establish_cases)
  case (placed p)
  then show ?thesis
    using assms(1) place_slot_Some [OF placed(1)] pool_of_ok [of s "norm_name uni u"]
    by (auto simp: auth_ok_def placed intro: pools_ok_update)
qed (use assms(1) in simp)

lemma bind_ok:
  assumes "auth_ok s"
  shows "auth_ok (fst (BindSSHSourceCredential mac uni wr now src u pw s))"
proof -
  have "auth_ok (s\<lparr>au_bindings := prune_bindings now (AList.update k v (au_bindings s))\<rparr>)" for k v
    using assms by (simp add: auth_ok_def prune_bindings_ok)
  then show ?thesis using assms by (auto simp: BindSSHSourceCredential_def Let_def split: option.splits)
qed

lemma source_status_ok:
  assumes "auth_ok s" "SSHSourceCredentialStatus mac uni wr now src u pw s = (s', e, m)"
  shows "auth_ok s'"
proof -
  have "auth_ok (s\<lparr>au_bindings := AList.update k v (au_bindings s)\<rparr>)" if "map_of (au_bindings s) k = Some b" for k v b
    using assms that by (simp add: auth_ok_def length_update has_key_def)
  then show ?thesis using assms by (auto simp: SSHSourceCredentialStatus_def Let_def split: if_splits option.splits)
qed

lemma establish_and_bind_ok:
  assumes "auth_ok s" "establish_and_bind mac uni wr now src u pw why s = (t, a, r)"
  shows "auth_ok t"
proof -
  obtain s1 b where e: "EstablishSSHCredential mac uni wr now u pw s = (s1, b)"
    by (cases "EstablishSSHCredential mac uni wr now u pw s")
  have "auth_ok s1" by (rule establish_ok [OF assms(1) e])
  moreover have "t = (if b then fst (BindSSHSourceCredential mac uni wr now src u pw s1) else s1)"
    using assms(2) by (simp add: establish_and_bind_def e split: bool.splits)
  ultimately show ?thesis using bind_ok by simp
qed

text \<open>C27: no login attempt makes a pool larger than eight slots, repeats a credential in it, or keeps more than 4096 bindings.\<close>

theorem decision_keeps_bounds:
  assumes "auth_ok s"
  shows "auth_ok (fst (trapCredentialDecision mac uni wr now tries profile recur remote user pw attempt s))"
proof -
  obtain s' acc reason where d:
    "trapCredentialDecision mac uni wr now tries profile recur remote user pw attempt s = (s', acc, reason)"
    by (cases "trapCredentialDecision mac uni wr now tries profile recur remote user pw attempt s")
  from d have "auth_ok s'"
  proof (cases rule: decision_cases)
    case (checked s1 b m s2 e m2)
    have s2: "auth_ok s2" by (rule status_ok [OF source_status_ok [OF assms checked(5)] checked(7)])
    note establish_and_bind_ok [OF s2]
    then show ?thesis using checked(8) s2 bind_ok [OF s2] by (auto split: if_splits)
  next
    case mismatch
    then show ?thesis using assms source_status_ok by blast
  qed (use assms in simp)
  then show ?thesis by (simp add: d)
qed

text \<open>A full pool gives up a slot only when it has been idle for 45 minutes; the others stay.\<close>

lemma fresh_slots_survive:
  assumes "EstablishSSHCredential mac uni wr now u pw s = (s', b)" "sl \<in> set (pool_of s (norm_name uni u))"
    and "sl_last sl \<noteq> 0" "time_sub now (sl_last sl) < sshCredentialRotateAfter"
  shows "sl_fingerprint sl \<in> set (fps (pool_of s' (norm_name uni u)))"
  using assms(1)
proof (cases rule: establish_cases)
  case refused
  then show ?thesis using assms(2) by (simp add: fps_def)
next
  case (placed p)
  define fp where "fp = fingerprint mac uni s (norm_name uni u) pw"
  define slots where "slots = pool_of s (norm_name uni u)"
  have pool: "pool_of s' (norm_name uni u) = p" by (simp add: pool_of_def placed gomap)
  have mem: "sl \<in> set slots" using assms(2) by (simp add: slots_def)
  have "sl_fingerprint sl \<in> set (fps p)"
  proof (cases "touch_slot fp now slots")
    case (Some q)
    then have "fps p = fps slots" using placed(1) touch_slot_Some [OF Some]
      by (simp add: place_slot_def fp_def [symmetric] slots_def [symmetric])
    then show ?thesis using mem by (simp add: fps_def)
  next
    case None
    define sorted where "sorted = sort_key sl_last slots"
    have mem': "sl \<in> set sorted" using mem by (simp add: sorted_def)
    show ?thesis
    proof (cases "length slots < sshCredentialPoolSize")
      case True
      then show ?thesis using placed(1) None mem
        by (auto simp: place_slot_def fp_def [symmetric] slots_def [symmetric] fps_def Let_def)
    next
      case False
      then have idle: "sl_last (hd sorted) = 0 \<or> sshCredentialRotateAfter \<le> time_sub now (sl_last (hd sorted))"
        and p: "tl p = tl sorted" "p \<noteq> []"
        using placed(1) None
        by (auto simp: place_slot_def fp_def [symmetric] slots_def [symmetric] sorted_def [symmetric] Let_def split: if_splits)
      then have "sl \<noteq> hd sorted" using assms(3,4) by auto
      then have "sl \<in> set (tl p)" using mem' p by (cases sorted) auto
      then show ?thesis using p(2) by (cases p) (auto simp: fps_def)
    qed
  qed
  then show ?thesis by (simp add: pool)
qed

section \<open>A restart\<close>

definition restorable :: "(string \<Rightarrow> string) \<Rightarrow> authStore \<Rightarrow> bool" where
  "restorable uni s \<longleftrightarrow>
     map_wf (au_pools s) \<and> map_wf (au_bindings s)
     \<and> (\<forall>(u, p) \<in> set (au_pools s). u \<noteq> [] \<and> norm_name uni u = u \<and> p \<noteq> [] \<and> length p \<le> sshCredentialPoolSize
          \<and> (\<forall>sl \<in> set p. norm_name uni (sl_fingerprint sl) = sl_fingerprint sl \<and> length (sl_fingerprint sl) = 64))
     \<and> (\<forall>(k, b) \<in> set (au_bindings s). k \<noteq> [] \<and> norm_name uni k = k
          \<and> norm_name uni (bi_fingerprint b) = bi_fingerprint b \<and> length (bi_fingerprint b) = 64)"

lemma load_pool_id:
  "length (acc @ p) \<le> sshCredentialPoolSize \<Longrightarrow>
     \<forall>sl \<in> set p. norm_name uni (sl_fingerprint sl) = sl_fingerprint sl \<and> length (sl_fingerprint sl) = 64 \<Longrightarrow>
     load_pool uni acc p = acc @ p"
proof (induction p arbitrary: acc)
  case (Cons sl p)
  have sl: "norm_name uni (sl_fingerprint sl) = sl_fingerprint sl" "length (sl_fingerprint sl) = 64"
    "sl\<lparr>sl_fingerprint := sl_fingerprint sl\<rparr> = sl"
    using Cons.prems(2) by auto
  show ?case
  proof (cases "sshCredentialPoolSize \<le> length (acc @ [sl])")
    case True
    then have "length p = 0" using Cons.prems(1) unfolding length_append list.size by linarith
    then have "p = []" by simp
    then show ?thesis using sl by (simp add: Let_def)
  next
    case False
    then show ?thesis using sl Cons.IH [of "acc @ [sl]"] Cons.prems by (simp add: Let_def)
  qed
qed simp

lemma update_new: "\<not> has_key m k \<Longrightarrow> AList.update k v m = m @ [(k, v)]"
  by (induction m) (auto simp: has_key_def split: if_splits)

lemma load_pools_id:
  assumes "\<forall>(u, p) \<in> set ps. u \<noteq> [] \<and> norm_name uni u = u \<and> p \<noteq> [] \<and> length p \<le> sshCredentialPoolSize
      \<and> (\<forall>sl \<in> set p. norm_name uni (sl_fingerprint sl) = sl_fingerprint sl \<and> length (sl_fingerprint sl) = 64)"
    and "map_wf (au_pools s @ ps)"
  shows "load_pools uni ps s = s\<lparr>au_pools := au_pools s @ ps\<rparr>"
  using assms
proof (induction ps arbitrary: s)
  case (Cons x ps)
  obtain u p where x: "x = (u, p)" by (cases x)
  have u: "u \<noteq> []" "norm_name uni u = u" "p \<noteq> []" "length p \<le> sshCredentialPoolSize"
    "\<forall>sl \<in> set p. norm_name uni (sl_fingerprint sl) = sl_fingerprint sl \<and> length (sl_fingerprint sl) = 64"
    using Cons.prems(1) by (auto simp: x)
  have new: "\<not> has_key (au_pools s) u" using Cons.prems(2) by (auto simp: has_key_iff x map_wf_def)
  then have e: "pool_of s u = []" by (simp add: pool_of_def lookup_or_def has_key_def)
  have "load_pool uni [] p = p" using load_pool_id [of "[]" p uni] u by simp
  then have "load_pools uni (x # ps) s = load_pools uni ps (s\<lparr>au_pools := au_pools s @ [(u, p)]\<rparr>)"
    using u e new by (simp add: load_pools_def x update_new)
  also have "\<dots> = s\<lparr>au_pools := au_pools s @ x # ps\<rparr>"
    using Cons.IH [of "s\<lparr>au_pools := au_pools s @ [(u, p)]\<rparr>"] Cons.prems by (simp add: x)
  finally show ?case .
qed (simp add: load_pools_def)

lemma load_bindings_id:
  assumes "\<forall>(k, b) \<in> set bs. k \<noteq> [] \<and> norm_name uni k = k
      \<and> norm_name uni (bi_fingerprint b) = bi_fingerprint b \<and> length (bi_fingerprint b) = 64"
    and "map_wf (au_bindings s @ bs)"
  shows "load_bindings uni bs s = s\<lparr>au_bindings := au_bindings s @ bs\<rparr>"
  using assms
proof (induction bs arbitrary: s)
  case (Cons x bs)
  obtain k b where x: "x = (k, b)" by (cases x)
  have new: "\<not> has_key (au_bindings s) k" using Cons.prems(2) by (auto simp: has_key_iff x map_wf_def)
  have "load_bindings uni (x # bs) s = load_bindings uni bs (s\<lparr>au_bindings := au_bindings s @ [(k, b)]\<rparr>)"
    using Cons.prems(1) new by (simp add: load_bindings_def x update_new)
  also have "\<dots> = s\<lparr>au_bindings := au_bindings s @ x # bs\<rparr>"
    using Cons.IH [of "s\<lparr>au_bindings := au_bindings s @ [(k, b)]\<rparr>"] Cons.prems by (simp add: x)
  finally show ?case .
qed (simp add: load_bindings_def)

definition new_store :: authStore where
  "new_store = \<lparr>au_key = [], au_pools = [], au_bindings = [],
     au_disk = \<lparr>dk_fingerprints = [], dk_pools = [], dk_bindings = []\<rparr>, au_writes = 0\<rparr>"

text \<open>What a successful write of the state file saved is what a restart loads.\<close>

lemma restart_restores:
  assumes "restorable uni s" "persist wr s = (s', True)"
  shows "au_pools (initSSHCredentialReality uni key (au_disk s') new_store) = au_pools s
    \<and> au_bindings (initSSHCredentialReality uni key (au_disk s') new_store) = au_bindings s"
proof -
  have d: "au_disk s' = \<lparr>dk_fingerprints = [], dk_pools = au_pools s, dk_bindings = au_bindings s\<rparr>"
    using assms(2) by (auto simp: persist_def Let_def split: if_splits)
  define s0 where "s0 = (if key = [] then new_store else new_store\<lparr>au_key := key\<rparr>)"
  have s0: "au_pools s0 = []" "au_bindings s0 = []" by (simp_all add: s0_def new_store_def)
  have "load_pools uni (au_pools s) s0 = s0\<lparr>au_pools := au_pools s\<rparr>"
    using load_pools_id [of "au_pools s" uni s0] assms(1) s0 by (auto simp: restorable_def)
  moreover have "load_bindings uni (au_bindings s) (s0\<lparr>au_pools := au_pools s\<rparr>)
      = s0\<lparr>au_pools := au_pools s, au_bindings := au_bindings s\<rparr>"
    using load_bindings_id [of "au_bindings s" uni "s0\<lparr>au_pools := au_pools s\<rparr>"] assms(1) s0 by (auto simp: restorable_def)
  ultimately show ?thesis
    by (simp add: initSSHCredentialReality_def d load_legacy_def s0_def [symmetric])
qed

section \<open>One source, one account\<close>

lemma recent_names: "set (distinct_users n seen us) \<subseteq> set us"
  by (induction n seen us rule: distinct_users.induct) auto

text \<open>While a source holds an open session as one user, no login of that source as another user is
  accepted and nothing changes.
\<close>

lemma one_identity_at_a_time:
  assumes "r \<in> set sessions" "ss_ip r = TrimSpace remote" "ss_accepted r" "ss_active r"
    and "TrimSpace (ss_username r) \<noteq> []" "TrimSpace remote \<noteq> []" "norm_name uni (ss_username r) \<noteq> norm_name uni user"
  shows "shouldAcceptTrapCredential mac uni wr now tries actor sessions events remote user pw attempt s = (s, False)"
proof -
  let ?p = "SSHAuthProfile uni remote actor sessions" and ?r = "SSHRecurrence remote now events"
  obtain s' acc reason where d: "trapCredentialDecision mac uni wr now tries ?p ?r remote user pw attempt s = (s', acc, reason)"
    by (cases "trapCredentialDecision mac uni wr now tries ?p ?r remote user pw attempt s")
  have "norm_name uni (ss_username r) \<in> set (ap_active ?p)"
    using assms by (auto simp: SSHAuthProfile_def Let_def)
  then have "\<not> list_all (\<lambda>a. a = norm_name uni user) (ap_active ?p)"
    using assms(7) by (auto simp: list_all_iff)
  then have ex: "list_ex (\<lambda>a. a \<noteq> norm_name uni user) (ap_active ?p)"
    by (auto simp: list_ex_iff list_all_iff)
  have "\<not> acc \<and> s' = s"
    using d ex by (auto simp: trapCredentialDecision_def Let_def split: if_splits)
  then show ?thesis using d by (simp add: shouldAcceptTrapCredential_def)
qed

section \<open>Witnesses\<close>

lemma norm_root: "norm_name uni ''root'' = ''root''"
proof -
  have "TrimSpace ''root'' = ''root''" by (rule TrimSpace_id) (simp_all add: char_is_space_def byte_in_def)
  then show ?thesis by (simp add: norm_name_def ToLower_def is_ascii_def ascii_lower_def is_upper_def byte_in_def)
qed

lemma norm_Nil: "norm_name uni [] = []"
  by (simp add: norm_name_def ToLower_def is_ascii_def)

definition demo_store :: authStore where
  "demo_store = new_store\<lparr>au_key := ''k''\<rparr>"

definition demo_mac :: "string \<Rightarrow> string \<Rightarrow> string" where
  "demo_mac k m = replicate 32 (CHR ''a'')"

definition quiet_profile :: authProfile where
  "quiet_profile = \<lparr>ap_unique_users = 0, ap_accepted = 0, ap_rejected = 0, ap_recent = [], ap_active = []\<rparr>"

definition no_recurrence :: sshRecurrence where
  "no_recurrence = \<lparr>rc_connections = 0, rc_median = 0, rc_jitter = 0, rc_rapid = False, rc_low_slow = False\<rparr>"

lemma third_attempt: "usable u pw \<Longrightarrow> shouldAcceptTrapPassword r u pw 3 0"
  by (simp add: shouldAcceptTrapPassword_def Let_def)

lemma demo_accepts:
  "\<exists>s'. trapCredentialDecision demo_mac id (\<lambda>_. True) 5 0 quiet_profile no_recurrence ''192.0.2.1'' ''root'' ''pw'' 3 demo_store
     = (s', True, ''accepted-new-credential-slot'')"
proof -
  have fp: "fingerprint demo_mac id demo_store ''root'' ''pw'' \<noteq> []"
    by (simp add: fingerprint_def demo_store_def demo_mac_def hex_encode_def)
  have use: "usable ''root'' ''pw''" by (simp add: usable_def)
  have "\<exists>s'. EstablishSSHCredential demo_mac id (\<lambda>_. True) 5 ''root'' ''pw'' demo_store = (s', True)"
    using fp by (simp add: EstablishSSHCredential_def norm_root place_slot_def pool_of_def demo_store_def new_store_def
        lookup_or_def sshCredentialPoolSize_def persist_def Let_def)
  then obtain s' where e: "EstablishSSHCredential demo_mac id (\<lambda>_. True) 5 ''root'' ''pw'' demo_store = (s', True)" by blast
  have a: "SSHSourceCredentialStatus demo_mac id (\<lambda>_. True) 5 ''192.0.2.1'' ''root'' ''pw'' demo_store = (demo_store, False, False)"
    by (simp add: SSHSourceCredentialStatus_def demo_store_def new_store_def Let_def)
  have b: "SSHCredentialStatus demo_mac id (\<lambda>_. True) 5 ''root'' ''pw'' demo_store = (demo_store, False, False)"
    by (simp add: SSHCredentialStatus_def pool_of_def demo_store_def new_store_def lookup_or_def Let_def)
  show ?thesis
    using third_attempt [OF use]
    by (simp add: trapCredentialDecision_def norm_root use virtualSSHAccountExists_def sticky_user_def quiet_profile_def
        a b establish_and_bind_def e Let_def)
qed

theorem accepted_credential_known_witness:
  "\<exists>s'. virtualSSHAccountExists id (norm_name id ''root'') \<and> known demo_mac id s' (norm_name id ''root'') ''pw''"
  using demo_accepts accepted_credential_known by blast

text \<open>A spraying source asks for a credential that the host does not know.\<close>

theorem spray_creates_nothing_witness:
  "\<exists>s' acc reason. trapCredentialDecision demo_mac id (\<lambda>_. True) 5 0 (quiet_profile\<lparr>ap_unique_users := 40\<rparr>) no_recurrence
       ''192.0.2.1'' ''root'' ''pw'' 3 demo_store = (s', acc, reason) \<and> fps (pool_of s' ''root'') = []"
proof -
  obtain s' acc reason where d: "trapCredentialDecision demo_mac id (\<lambda>_. True) 5 0 (quiet_profile\<lparr>ap_unique_users := 40\<rparr>)
      no_recurrence ''192.0.2.1'' ''root'' ''pw'' 3 demo_store = (s', acc, reason)"
    by (cases "trapCredentialDecision demo_mac id (\<lambda>_. True) 5 0 (quiet_profile\<lparr>ap_unique_users := 40\<rparr>)
      no_recurrence ''192.0.2.1'' ''root'' ''pw'' 3 demo_store")
  have "fps (pool_of s' ''root'') = fps (pool_of demo_store ''root'')"
    using spray_creates_nothing [OF d] by (simp add: sticky_user_def quiet_profile_def norm_root)
  also have "\<dots> = []" by (simp add: pool_of_def demo_store_def new_store_def lookup_or_def fps_def)
  finally show ?thesis using d by blast
qed

lemma hex_encode_length: "length (hex_encode s) = 2 * length s"
  by (induction s) (simp_all add: hex_encode_def)

definition bound_store :: authStore where
  "bound_store = demo_store\<lparr>au_bindings :=
     [(sshCredentialBindingKey id ''192.0.2.1'' ''root'', \<lparr>bi_fingerprint = ''other'', bi_last = 5\<rparr>)]\<rparr>"

theorem bound_source_is_sticky_witness:
  "\<exists>reason. trapCredentialDecision demo_mac id (\<lambda>_. True) 9 0 quiet_profile no_recurrence ''192.0.2.1'' ''root'' ''pw'' 3 bound_store
     = (bound_store, False, reason)"
proof (rule bound_source_is_sticky)
  show "map_of (au_bindings bound_store) (sshCredentialBindingKey id ''192.0.2.1'' (norm_name id ''root''))
      = Some \<lparr>bi_fingerprint = ''other'', bi_last = 5\<rparr>"
    by (simp add: bound_store_def norm_root)
  have "length (fingerprint demo_mac id bound_store (norm_name id ''root'') ''pw'') \<noteq> length ''other''"
    by (simp add: fingerprint_def bound_store_def demo_store_def norm_root demo_mac_def hex_encode_length)
  then show "bi_fingerprint \<lparr>bi_fingerprint = ''other'', bi_last = 5\<rparr> \<noteq> fingerprint demo_mac id bound_store (norm_name id ''root'') ''pw''"
    unfolding credentialBinding.select_convs by metis
qed

theorem decision_keeps_bounds_witness:
  "auth_ok (fst (trapCredentialDecision demo_mac id (\<lambda>_. True) 5 0 quiet_profile no_recurrence ''192.0.2.1'' ''root'' ''pw'' 3 demo_store))"
  by (rule decision_keeps_bounds) (simp add: auth_ok_def pools_ok_def demo_store_def new_store_def map_wf_def)

definition one_slot :: credentialSlot where
  "one_slot = \<lparr>sl_fingerprint = replicate 64 (CHR ''a''), sl_first = 5, sl_last = 5\<rparr>"

definition slot_store :: authStore where
  "slot_store = demo_store\<lparr>au_pools := [(''root'', [one_slot])]\<rparr>"

theorem fresh_slots_survive_witness:
  "sl_fingerprint one_slot \<in> set (fps (pool_of (fst (EstablishSSHCredential demo_mac id (\<lambda>_. True) 6 ''root'' ''pw'' slot_store)) ''root''))"
proof -
  obtain s' b where e: "EstablishSSHCredential demo_mac id (\<lambda>_. True) 6 ''root'' ''pw'' slot_store = (s', b)"
    by (cases "EstablishSSHCredential demo_mac id (\<lambda>_. True) 6 ''root'' ''pw'' slot_store")
  have "sl_fingerprint one_slot \<in> set (fps (pool_of s' (norm_name id ''root'')))"
    by (rule fresh_slots_survive [OF e])
      (simp_all add: slot_store_def one_slot_def pool_of_def lookup_or_def norm_root time_sub_def sshCredentialRotateAfter_def
        minute_def second_def max_duration_def min_duration_def)
  then show ?thesis by (simp add: e norm_root)
qed

lemma norm_slot: "norm_name id (replicate 64 (CHR ''a'')) = replicate 64 (CHR ''a'')"
proof -
  have "TrimSpace (replicate 64 (CHR ''a'')) = replicate 64 (CHR ''a'')"
    by (rule TrimSpace_id) (simp_all add: char_is_space_def byte_in_def)
  then show ?thesis by (simp add: norm_name_def ToLower_def is_ascii_def ascii_lower_def is_upper_def byte_in_def)
qed

theorem restart_restores_witness:
  "au_pools (initSSHCredentialReality id ''key'' (au_disk (fst (persist (\<lambda>_. True) slot_store))) new_store) = [(''root'', [one_slot])]"
proof -
  have r: "restorable id slot_store"
    by (simp add: restorable_def slot_store_def demo_store_def new_store_def map_wf_def one_slot_def sshCredentialPoolSize_def
        norm_root norm_slot)
  obtain s' where p: "persist (\<lambda>_. True) slot_store = (s', True)" by (simp add: persist_def Let_def)
  show ?thesis using restart_restores [OF r p, of "''key''"] by (simp add: p) (simp add: slot_store_def)
qed

definition admin_session :: sshSessionRow where
  "admin_session = \<lparr>ss_ip = ''192.0.2.1'', ss_accepted = True, ss_username = ''root'', ss_active = True, ss_last = 5\<rparr>"

theorem one_identity_at_a_time_witness:
  "shouldAcceptTrapCredential demo_mac id (\<lambda>_. True) 9 0 None [admin_session] [] ''192.0.2.1'' ''admin'' ''pw'' 3 demo_store
     = (demo_store, False)"
proof -
  have ip: "TrimSpace ''192.0.2.1'' = ''192.0.2.1''" and root: "TrimSpace ''root'' = ''root''" and admin: "TrimSpace ''admin'' = ''admin''"
    by (rule TrimSpace_id; simp add: char_is_space_def byte_in_def)+
  have "norm_name id ''admin'' = ''admin''"
    by (simp add: norm_name_def admin ToLower_def is_ascii_def ascii_lower_def is_upper_def byte_in_def)
  then show ?thesis
    by (intro one_identity_at_a_time [of admin_session]) (simp_all add: admin_session_def ip root norm_root)
qed

end
