(* ===== verification/Terminal.thy ===== *)
theory Terminal
  imports Vfs
begin

text \<open>
  The terminal of an SSH session (\<open>internal/server/trap_ssh_terminal.go\<close>): the buffered
  reader with its discarded line feed, the readline-style editor with history, kill buffer,
  reverse search and completion, and the reading of secrets.

  \<open>rd_chunks\<close> is what the reads of the channel return, in order, until it is closed; a chunk
  is at most the 4096 bytes of the buffer and an empty one is skipped. What the editor writes to
  the terminal is collected in \<open>le_out\<close>. The activity callback of the reader is left out: it
  resets a timer outside the session's state.
\<close>

section \<open>The reader\<close>

record lineReader =
  rd_buf :: string
  rd_chunks :: "string list"
  rd_discardLF :: bool

definition CR :: char where "CR = CHR 0x0D"
definition LF :: char where "LF = CHR 0x0A"
definition ESC :: char where "ESC = CHR 0x1B"

fun next_chunk :: "string list \<Rightarrow> (char \<times> string \<times> string list) option" where
  "next_chunk [] = None"
| "next_chunk ([] # cs) = next_chunk cs"
| "next_chunk ((b # c) # cs) = Some (b, c, cs)"

definition raw_byte :: "lineReader \<Rightarrow> (char \<times> lineReader) option" where
  "raw_byte r =
     (case rd_buf r of
        b # bs \<Rightarrow> Some (b, r\<lparr>rd_buf := bs\<rparr>)
      | [] \<Rightarrow> (case next_chunk (rd_chunks r) of
                None \<Rightarrow> None
              | Some (b, c, cs) \<Rightarrow> Some (b, r\<lparr>rd_buf := c, rd_chunks := cs\<rparr>)))"

text \<open>The loop of \<open>readByte\<close> goes round at most once: the flag is cleared on the way.\<close>

definition readByte :: "lineReader \<Rightarrow> (char \<times> lineReader) option" where
  "readByte r =
     (case raw_byte r of
        None \<Rightarrow> None
      | Some (b, r) \<Rightarrow>
          if rd_discardLF r \<and> b = LF then raw_byte (r\<lparr>rd_discardLF := False\<rparr>)
          else Some (b, r\<lparr>rd_discardLF := False\<rparr>))"

text \<open>\<open>utf8.FullRune\<close>, and \<open>ReadRune\<close> after \<open>UnreadByte\<close> has put \<open>b\<close> back.\<close>

definition rune_need :: "char \<Rightarrow> nat" where
  "rune_need a =
     (if byte_in a 194 223 then 2 else if byte_in a 224 239 then 3 else if byte_in a 240 244 then 4 else 1)"

definition second_ok :: "char \<Rightarrow> char \<Rightarrow> bool" where
  "second_ok a b \<longleftrightarrow>
     (let x = (of_char a :: nat) in
      byte_in b (if x = 224 then 160 else if x = 240 then 144 else 128) (if x = 237 then 159 else if x = 244 then 143 else 191))"

fun FullRune :: "string \<Rightarrow> bool" where
  "FullRune [] = False"
| "FullRune (a # s) =
     (rune_need a \<le> length (a # s)
      \<or> (case s of [] \<Rightarrow> False
         | b # t \<Rightarrow> \<not> second_ok a b \<or> (case t of [] \<Rightarrow> False | c # _ \<Rightarrow> \<not> cont_byte c)))"

fun fill_rune :: "string \<Rightarrow> string list \<Rightarrow> string \<times> string list" where
  "fill_rune b [] = (b, [])"
| "fill_rune b (c # cs) = (if FullRune b then (b, c # cs) else fill_rune (b @ c) cs)"

definition reread_rune :: "char \<Rightarrow> lineReader \<Rightarrow> nat \<times> lineReader" where
  "reread_rune b r =
     (case fill_rune (b # rd_buf r) (rd_chunks r) of
        (s, cs) \<Rightarrow>
          if utf8_size s = 0 then (rune_error, r\<lparr>rd_buf := tl s, rd_chunks := cs\<rparr>)
          else (utf8_value (take (utf8_size s) s), r\<lparr>rd_buf := drop (utf8_size s) s, rd_chunks := cs\<rparr>))"

definition escape_final :: "char \<Rightarrow> bool" where
  "escape_final c \<longleftrightarrow> byte_in c 65 90 \<or> byte_in c 97 122 \<or> c = CHR ''~''"

fun escape_tail :: "nat \<Rightarrow> string \<Rightarrow> lineReader \<Rightarrow> (string \<times> lineReader) option" where
  "escape_tail 0 sq r = Some (sq, r)"
| "escape_tail (Suc n) sq r =
     (case readByte r of
        None \<Rightarrow> None
      | Some (c, r) \<Rightarrow> if escape_final c then Some (sq @ [c], r) else escape_tail n (sq @ [c]) r)"

text \<open>A sequence has at most twelve bytes: eleven after the first.\<close>

definition readEscapeSequence :: "lineReader \<Rightarrow> (string \<times> lineReader) option" where
  "readEscapeSequence r =
     (case readByte r of
        None \<Rightarrow> None
      | Some (b, r) \<Rightarrow> if b \<noteq> CHR ''['' \<and> b \<noteq> CHR ''O'' then Some ([b], r) else escape_tail 11 [b] r)"

definition readEscapeSequenceMaybe :: "lineReader \<Rightarrow> (string \<times> lineReader) option" where
  "readEscapeSequenceMaybe r =
     (if rd_buf r = [] then Some ([], r)
      else (case readByte r of
              None \<Rightarrow> None
            | Some (b, r) \<Rightarrow> if b \<noteq> CHR ''['' \<and> b \<noteq> CHR ''O'' then Some ([], r\<lparr>rd_buf := b # rd_buf r\<rparr>)
                            else escape_tail 11 [b] r))"

section \<open>Words and history\<close>

fun back_while :: "(nat \<Rightarrow> bool) \<Rightarrow> nat list \<Rightarrow> nat \<Rightarrow> nat" where
  "back_while P buf 0 = 0"
| "back_while P buf (Suc c) = (if P (buf ! c) then back_while P buf c else Suc c)"

function forward_while :: "(nat \<Rightarrow> bool) \<Rightarrow> nat list \<Rightarrow> nat \<Rightarrow> nat" where
  "forward_while P buf c = (if c < length buf \<and> P (buf ! c) then forward_while P buf (Suc c) else c)"
  by pat_completeness auto
termination by (relation "measure (\<lambda>(P, buf, c). length buf - c)") auto

declare forward_while.simps [simp del]

definition not_space :: "nat \<Rightarrow> bool" where "not_space r \<longleftrightarrow> \<not> rune_is_space r"

definition previousWordBoundary :: "nat list \<Rightarrow> nat \<Rightarrow> nat" where
  "previousWordBoundary buf c = back_while not_space buf (back_while rune_is_space buf c)"

definition nextWordBoundary :: "nat list \<Rightarrow> nat \<Rightarrow> nat" where
  "nextWordBoundary buf c = forward_while rune_is_space buf (forward_while not_space buf c)"

definition insertRune :: "nat list \<Rightarrow> nat \<Rightarrow> nat \<Rightarrow> nat list" where
  "insertRune buf at r = take at buf @ r # drop at buf"

definition maxVirtualHistory :: nat where "maxVirtualHistory = 100"

definition addHistory :: "string \<Rightarrow> string list \<Rightarrow> string list" where
  "addHistory line0 h =
     (let line = TrimSpace line0 in
      if line = [] then h
      else (let h = h @ [line] in
            if maxVirtualHistory < length h then drop (length h - maxVirtualHistory) h else h))"

section \<open>Completion\<close>

definition virtualSSHCommands :: "string list" where
  "virtualSSHCommands =
    [''alias'', ''apt'', ''apt-get'', ''arch'', ''arp'', ''awk'', ''base64'', ''basename'', ''bash'',
    ''blkid'', ''capsh'', ''cat'', ''cd'', ''chattr'', ''chmod'', ''chown'', ''clear'', ''command'',
    ''continue'', ''cp'', ''crontab'', ''curl'', ''cut'', ''date'', ''df'', ''dirname'', ''dmesg'',
    ''docker'', ''dpkg'', ''du'', ''echo'', ''env'', ''exit'', ''export'', ''false'', ''file'', ''find'',
    ''free'', ''getcap'', ''getconf'', ''getent'', ''gcc'', ''cc'', ''git'', ''go'', ''grep'', ''groups'',
    ''gunzip'', ''gzip'', ''head'', ''help'', ''history'', ''jobs'', ''disown'', ''hostname'',
    ''hostnamectl'', ''id'', ''ifconfig'', ''iptables'', ''ip'', ''journalctl'', ''kill'', ''killall'',
    ''kubectl'', ''last'', ''less'', ''ln'', ''logout'', ''ls'', ''lsattr'', ''lsblk'', ''lscpu'',
    ''lsb_release'', ''lsmod'', ''lsof'', ''make'', ''man'', ''mariadb'', ''mysql'', ''md5sum'', ''mkdir'',
    ''mktemp'', ''more'', ''mount'', ''mv'', ''nano'', ''nc'', ''ncat'', ''netcat'', ''nft'', ''node'',
    ''npm'', ''netstat'', ''nproc'', ''nvidia-smi'', ''nohup'', ''openssl'', ''passwd'', ''perl'', ''php'',
    ''pgrep'', ''pidof'', ''ping'', ''pkill'', ''printenv'', ''printf'', ''ps'', ''psql'', ''readelf'',
    ''redis-cli'', ''rsync'', ''pwd'', ''python'', ''python3'', ''read'', ''readlink'', ''realpath'',
    ''reset'', ''rm'', ''route'', ''scp'', ''sftp'', ''socat'', ''screen'', ''sed'', ''seq'', ''service'',
    ''set'', ''source'', ''sha256sum'', ''sh'', ''shutdown'', ''reboot'', ''poweroff'', ''halt'',
    ''sleep'', ''sort'', ''ss'', ''ssh'', ''stat'', ''strace'', ''strings'', ''su'', ''sudo'', ''sysctl'',
    ''systemctl'', ''systemd-detect-virt'', ''virt-what'', ''dmidecode'', ''stty'', ''tty'', ''tail'',
    ''tar'', ''tracepath'', ''traceroute'', ''tee'', ''telnet'', ''tmux'', ''top'', ''touch'', ''tr'',
    ''true'', ''type'', ''ulimit'', ''umask'', ''uname'', ''ufw'', ''uniq'', ''unzip'', ''unset'',
    ''expr'', ''timedatectl'', ''uptime'', ''vi'', ''vim'', ''w'', ''wc'', ''wget'', ''whereis'',
    ''which'', ''who'', ''dig'', ''host'', ''nslookup'', ''ldd'', ''objdump'', ''whoami'', ''xargs'',
    ''xxd'', ''zcat'', ''zip'']"

definition completeVirtualPath :: "world \<Rightarrow> string \<Rightarrow> string list" where
  "completeVirtualPath w token =
     (let (displayDir, base) = (case LastIndexByte token slash of
              Some i \<Rightarrow> (take (Suc i) token, drop (Suc i) token) | None \<Rightarrow> ([], token));
          lookupDir = (if displayDir \<noteq> [] then resolve w (TrimSuffix displayDir ''/'') else cwd w)
      in sort_strings (remdups
           (map (\<lambda>d. displayDir @ Base d @ ''/'')
              (List.filter (\<lambda>d. d \<noteq> lookupDir \<and> Dir d = lookupDir \<and> HasPrefix (Base d) base) (map fst (dirs w)))
            @ map (\<lambda>f. displayDir @ Base f)
              (List.filter (\<lambda>f. Dir f = lookupDir \<and> HasPrefix (Base f) base) (map fst (files w))))))"

definition completeVirtualLine :: "world \<Rightarrow> string \<Rightarrow> nat \<Rightarrow> nat \<times> nat \<times> string list" where
  "completeVirtualLine w line cursor0 =
     (let rs = runes line;
          cursor = min cursor0 (length rs);
          start = back_while not_space rs cursor;
          stop = forward_while not_space rs cursor;
          token = encode_runes (drop start (take cursor rs))
      in if TrimSpace (encode_runes (take start rs)) = [] \<and> \<not> Contains token ''/''
         then (start, stop, List.filter (\<lambda>c. HasPrefix c token) virtualSSHCommands)
         else (start, stop, completeVirtualPath w token))"

function shrink_prefix :: "string \<Rightarrow> string \<Rightarrow> string" where
  "shrink_prefix v p = (if HasPrefix v p \<or> p = [] then p else shrink_prefix v (butlast p))"
  by pat_completeness auto
termination by (relation "measure (\<lambda>(v, p). length p)") auto

declare shrink_prefix.simps [simp del]

definition commonStringPrefix :: "string list \<Rightarrow> string" where
  "commonStringPrefix vs = (case vs of [] \<Rightarrow> [] | v # vs \<Rightarrow> fold shrink_prefix vs v)"

section \<open>The line editor\<close>

record lineEditor =
  le_buf :: "nat list"
  le_cursor :: nat
  le_hist :: nat
  le_draft :: "nat list"
  le_kill :: "nat list"
  le_rev_index :: nat
  le_rev_query :: string
  le_rev_active :: bool
  le_out :: string

definition emit :: "string \<Rightarrow> lineEditor \<Rightarrow> lineEditor" where
  "emit v ed = ed\<lparr>le_out := le_out ed @ v\<rparr>"

definition cursor_back :: "lineEditor \<Rightarrow> string" where
  "cursor_back ed =
     (let n = length (le_buf ed) - le_cursor ed in if 0 < n then [ESC, CHR ''[''] @ Itoa (int n) @ ''D'' else [])"

definition redraw :: "string \<Rightarrow> lineEditor \<Rightarrow> lineEditor" where
  "redraw prompt ed = emit ([CR, ESC] @ ''[2K'' @ prompt @ encode_runes (le_buf ed) @ cursor_back ed) ed"

definition put_text :: "nat list \<Rightarrow> nat \<Rightarrow> lineEditor \<Rightarrow> lineEditor" where
  "put_text buf cursor ed = ed\<lparr>le_buf := buf, le_cursor := cursor\<rparr>"

definition setBuffer :: "nat \<Rightarrow> string \<Rightarrow> string \<Rightarrow> lineEditor \<Rightarrow> lineEditor" where
  "setBuffer mx prompt v ed = (let buf = take mx (runes v) in redraw prompt (put_text buf (length buf) ed))"

text \<open>The keys, each as the code between its \<open>case\<close> labels.\<close>

definition key_left :: "string \<Rightarrow> lineEditor \<Rightarrow> lineEditor" where
  "key_left prompt ed = (if 0 < le_cursor ed then redraw prompt (ed\<lparr>le_cursor := le_cursor ed - 1\<rparr>) else ed)"

definition key_right :: "string \<Rightarrow> lineEditor \<Rightarrow> lineEditor" where
  "key_right prompt ed =
     (if le_cursor ed < length (le_buf ed) then redraw prompt (ed\<lparr>le_cursor := le_cursor ed + 1\<rparr>) else ed)"

definition key_home :: "string \<Rightarrow> lineEditor \<Rightarrow> lineEditor" where
  "key_home prompt ed = redraw prompt (ed\<lparr>le_cursor := 0\<rparr>)"

definition key_end :: "string \<Rightarrow> lineEditor \<Rightarrow> lineEditor" where
  "key_end prompt ed = redraw prompt (ed\<lparr>le_cursor := length (le_buf ed)\<rparr>)"

definition key_delete :: "string \<Rightarrow> lineEditor \<Rightarrow> lineEditor" where
  "key_delete prompt ed =
     (let buf = le_buf ed; c = le_cursor ed in
      if c < length buf then redraw prompt (ed\<lparr>le_buf := take c buf @ drop (c + 1) buf\<rparr>) else ed)"

definition key_backspace :: "string \<Rightarrow> lineEditor \<Rightarrow> lineEditor" where
  "key_backspace prompt ed =
     (let buf = le_buf ed; c = le_cursor ed in
      if 0 < c then redraw prompt (put_text (take (c - 1) buf @ drop c buf) (c - 1) ed) else ed)"

definition key_kill_end :: "string \<Rightarrow> lineEditor \<Rightarrow> lineEditor" where
  "key_kill_end prompt ed =
     (let buf = le_buf ed; c = le_cursor ed in
      if c < length buf then redraw prompt (ed\<lparr>le_kill := drop c buf, le_buf := take c buf\<rparr>) else ed)"

definition key_kill_start :: "string \<Rightarrow> lineEditor \<Rightarrow> lineEditor" where
  "key_kill_start prompt ed =
     (let buf = le_buf ed; c = le_cursor ed in
      if 0 < c then redraw prompt (put_text (drop c buf) 0 (ed\<lparr>le_kill := take c buf\<rparr>)) else ed)"

definition key_kill_word :: "string \<Rightarrow> lineEditor \<Rightarrow> lineEditor" where
  "key_kill_word prompt ed =
     (let buf = le_buf ed; c = le_cursor ed; start = back_while not_space buf (back_while rune_is_space buf c) in
      if 0 < c then redraw prompt (put_text (take start buf @ drop c buf) start
                      (ed\<lparr>le_kill := drop start (take c buf)\<rparr>)) else ed)"

definition key_kill_next_word :: "string \<Rightarrow> lineEditor \<Rightarrow> lineEditor" where
  "key_kill_next_word prompt ed =
     (let buf = le_buf ed; c = le_cursor ed; stop = nextWordBoundary buf c in
      if c < stop then redraw prompt (ed\<lparr>le_kill := drop c (take stop buf), le_buf := take c buf @ drop stop buf\<rparr>) else ed)"

definition key_yank :: "nat \<Rightarrow> string \<Rightarrow> lineEditor \<Rightarrow> lineEditor" where
  "key_yank mx prompt ed =
     (let buf = le_buf ed; c = le_cursor ed; k = le_kill ed in
      if k \<noteq> [] \<and> length buf + length k \<le> mx
      then redraw prompt (put_text (take c buf @ k @ drop c buf) (length (take c buf @ k)) ed) else ed)"

definition key_clear :: "string \<Rightarrow> lineEditor \<Rightarrow> lineEditor" where
  "key_clear prompt ed = emit ([ESC] @ ''[2J'' @ [ESC] @ ''[H'' @ prompt @ encode_runes (le_buf ed) @ cursor_back ed) ed"

definition key_next :: "string list \<Rightarrow> nat \<Rightarrow> string \<Rightarrow> lineEditor \<Rightarrow> lineEditor" where
  "key_next h mx prompt ed =
     (let i = le_hist ed in
      if Suc i < length h then setBuffer mx prompt (h ! Suc i) (ed\<lparr>le_hist := Suc i\<rparr>)
      else if Suc i = length h then
        redraw prompt (put_text (le_draft ed) (length (le_draft ed)) (ed\<lparr>le_hist := length h\<rparr>))
      else ed)"

definition key_previous :: "string list \<Rightarrow> nat \<Rightarrow> string \<Rightarrow> lineEditor \<Rightarrow> lineEditor" where
  "key_previous h mx prompt ed0 =
     (if h = [] then ed0
      else (let ed = (if le_hist ed0 = length h then ed0\<lparr>le_draft := le_buf ed0\<rparr> else ed0); i = le_hist ed in
            if 0 < i then setBuffer mx prompt (h ! (i - 1)) (ed\<lparr>le_hist := i - 1\<rparr>) else ed))"

fun search_back :: "string \<Rightarrow> string list \<Rightarrow> nat \<Rightarrow> nat option" where
  "search_back query h 0 = None"
| "search_back query h (Suc i) = (if query = [] \<or> Contains (h ! i) query then Some i else search_back query h i)"

definition bell :: string where "bell = [CHR 0x07]"

definition key_reverse :: "string list \<Rightarrow> nat \<Rightarrow> string \<Rightarrow> lineEditor \<Rightarrow> lineEditor" where
  "key_reverse h mx prompt ed0 =
     (let ed = (if le_rev_active ed0 then ed0
                else ed0\<lparr>le_rev_query := encode_runes (le_buf ed0), le_rev_index := length h, le_rev_active := True\<rparr>) in
      case search_back (le_rev_query ed) h (le_rev_index ed) of
        Some i \<Rightarrow> setBuffer mx prompt (h ! i) (ed\<lparr>le_rev_index := i, le_hist := i\<rparr>)
      | None \<Rightarrow> emit bell ed)"

definition replace_word :: "nat \<Rightarrow> nat \<Rightarrow> nat list \<Rightarrow> lineEditor \<Rightarrow> lineEditor" where
  "replace_word start stop repl ed =
     (let left = take start (le_buf ed); right = drop stop (le_buf ed)
      in put_text (left @ repl @ right) (length left + length repl) ed)"

definition key_complete :: "world \<Rightarrow> string \<Rightarrow> lineEditor \<Rightarrow> lineEditor" where
  "key_complete w prompt ed =
     (case completeVirtualLine w (encode_runes (le_buf ed)) (le_cursor ed) of
        (start, stop, matches) \<Rightarrow>
          if matches = [] then emit bell ed
          else if length matches = 1 then
            (let ed = replace_word start stop (runes (hd matches)) ed in
             redraw prompt
               (if le_cursor ed = length (le_buf ed) \<and> \<not> HasSuffix (hd matches) ''/''
                then put_text (le_buf ed @ [32]) (le_cursor ed + 1) ed else ed))
          else if length (encode_runes (drop start (take stop (le_buf ed)))) < length (commonStringPrefix matches) then
            redraw prompt (replace_word start stop (runes (commonStringPrefix matches)) ed)
          else redraw prompt (emit ([CR, LF] @ Join matches ''  '' @ [CR, LF]) ed))"

definition key_escape :: "string list \<Rightarrow> nat \<Rightarrow> string \<Rightarrow> string \<Rightarrow> lineEditor \<Rightarrow> lineEditor" where
  "key_escape h mx prompt sq ed =
     (if sq = ''[A'' then key_previous h mx prompt ed
      else if sq = ''[B'' then key_next h mx prompt ed
      else if sq = ''[C'' then key_right prompt ed
      else if sq = ''[D'' then key_left prompt ed
      else if sq \<in> set [''[H'', ''[1~'', ''[7~'', ''OH''] then key_home prompt ed
      else if sq \<in> set [''[F'', ''[4~'', ''[8~'', ''OF''] then key_end prompt ed
      else if sq = ''[3~'' then key_delete prompt ed
      else if sq = ''b'' then redraw prompt (ed\<lparr>le_cursor := previousWordBoundary (le_buf ed) (le_cursor ed)\<rparr>)
      else if sq = ''f'' then redraw prompt (ed\<lparr>le_cursor := nextWordBoundary (le_buf ed) (le_cursor ed)\<rparr>)
      else if sq = ''d'' then key_kill_next_word prompt ed
      else ed)"

text \<open>The control keys that only edit; \<open>None\<close> for every other byte.\<close>

definition control_key :: "world \<Rightarrow> string list \<Rightarrow> nat \<Rightarrow> string \<Rightarrow> nat \<Rightarrow> (lineEditor \<Rightarrow> lineEditor) option" where
  "control_key w h mx prompt n =
     (if n = 1 then Some (key_home prompt)
      else if n = 2 then Some (key_left prompt)
      else if n = 5 then Some (key_end prompt)
      else if n = 6 then Some (key_right prompt)
      else if n = 11 then Some (key_kill_end prompt)
      else if n = 12 then Some (key_clear prompt)
      else if n = 14 then Some (key_next h mx prompt)
      else if n = 16 then Some (key_previous h mx prompt)
      else if n = 18 then Some (key_reverse h mx prompt)
      else if n = 21 then Some (key_kill_start prompt)
      else if n = 23 then Some (key_kill_word prompt)
      else if n = 25 then Some (key_yank mx prompt)
      else if n = 8 \<or> n = 127 then Some (key_backspace prompt)
      else if n = 9 then Some (key_complete w prompt)
      else None)"

datatype lineOutcome =
    Editing lineEditor lineReader
  | LineRead string string lineReader
  | LineFailed string

definition insert_key :: "string \<Rightarrow> nat \<Rightarrow> lineEditor \<Rightarrow> lineEditor" where
  "insert_key prompt r ed =
     redraw prompt (put_text (insertRune (le_buf ed) (le_cursor ed) r) (le_cursor ed + 1) ed)"

definition insert_byte :: "string \<Rightarrow> char \<Rightarrow> lineEditor \<Rightarrow> lineEditor" where
  "insert_byte prompt b ed0 =
     (let ed = put_text (insertRune (le_buf ed0) (le_cursor ed0) (of_char b)) (le_cursor ed0 + 1) ed0 in
      if le_cursor ed = length (le_buf ed) then emit [b] ed else redraw prompt ed)"

definition line_key ::
  "world \<Rightarrow> string list \<Rightarrow> nat \<Rightarrow> string \<Rightarrow> char \<Rightarrow> lineEditor \<Rightarrow> lineReader \<Rightarrow> lineOutcome" where
  "line_key w h mx prompt b ed0 r =
     (let n = (of_char b :: nat); ed = (if n \<noteq> 18 then ed0\<lparr>le_rev_active := False\<rparr> else ed0) in
      if b = CR then LineRead (encode_runes (le_buf ed)) (le_out ed @ [CR, LF]) (r\<lparr>rd_discardLF := True\<rparr>)
      else if b = LF then LineRead (encode_runes (le_buf ed)) (le_out ed @ [CR, LF]) r
      else if n = 3 then LineRead [] (le_out ed @ ''^C'' @ [CR, LF]) r
      else if n = 4 then (if le_buf ed = [] then LineFailed (le_out ed) else Editing (key_delete prompt ed) r)
      else if b = ESC then
        (case readEscapeSequence r of
           None \<Rightarrow> LineFailed (le_out ed)
         | Some (sq, r) \<Rightarrow> Editing (key_escape h mx prompt sq ed) r)
      else (case control_key w h mx prompt n of
              Some key \<Rightarrow> Editing (key ed) r
            | None \<Rightarrow>
                if n < 32 \<or> mx \<le> length (le_buf ed) then Editing ed r
                else if n < 128 then Editing (insert_byte prompt b ed) r
                else (case reread_rune b r of (ru, r) \<Rightarrow> Editing (insert_key prompt ru ed) r)))"

definition new_editor :: "string list \<Rightarrow> lineEditor" where
  "new_editor h = \<lparr>le_buf = [], le_cursor = 0, le_hist = length h, le_draft = [], le_kill = [],
     le_rev_index = length h, le_rev_query = [], le_rev_active = False, le_out = []\<rparr>"

definition line_step :: "world \<Rightarrow> string list \<Rightarrow> nat \<Rightarrow> string \<Rightarrow> lineEditor \<Rightarrow> lineReader \<Rightarrow> lineOutcome" where
  "line_step w h mx prompt ed r =
     (case readByte r of None \<Rightarrow> LineFailed (le_out ed) | Some (b, r) \<Rightarrow> line_key w h mx prompt b ed r)"

text \<open>What is still to be read: every step of the loop takes a byte of it.\<close>

definition unread :: "lineReader \<Rightarrow> nat" where
  "unread r = length (rd_buf r) + length (concat (rd_chunks r))"

lemma next_chunk_less: "next_chunk cs = Some (b, c, cs') \<Longrightarrow> length (concat cs) = Suc (length c + length (concat cs'))"
  by (induction cs rule: next_chunk.induct) auto

lemma raw_byte_unread: "raw_byte r = Some (b, r') \<Longrightarrow> unread r = Suc (unread r')"
  by (auto simp: raw_byte_def unread_def split: list.splits option.splits dest: next_chunk_less)

lemma unread_discard [simp]: "unread (r\<lparr>rd_discardLF := d\<rparr>) = unread r"
  by (simp add: unread_def)

lemma readByte_unread: "readByte r = Some (b, r') \<Longrightarrow> unread r' < unread r"
  by (auto simp: readByte_def split: option.splits if_splits dest!: raw_byte_unread)

lemma escape_tail_unread: "escape_tail n sq r = Some (sq', r') \<Longrightarrow> unread r' \<le> unread r"
proof (induction n sq r rule: escape_tail.induct)
  case (2 n sq r)
  show ?case
  proof (cases "readByte r")
    case (Some p)
    obtain c r1 where p: "p = (c, r1)" by (cases p)
    then have "unread r1 < unread r" using readByte_unread Some by blast
    then show ?thesis using 2 Some p by (force split: if_splits)
  qed (use 2 in simp)
qed simp

lemma readEscapeSequence_unread: "readEscapeSequence r = Some (sq, r') \<Longrightarrow> unread r' < unread r"
  by (auto simp: readEscapeSequence_def split: option.splits if_splits dest!: escape_tail_unread readByte_unread)

lemma fill_rune_concat: "fill_rune b cs = (s, cs') \<Longrightarrow> s @ concat cs' = b @ concat cs"
  by (induction b cs rule: fill_rune.induct) (auto split: if_splits)

lemma fill_rune_nonempty: "fill_rune b cs = (s, cs') \<Longrightarrow> b \<noteq> [] \<Longrightarrow> s \<noteq> []"
  by (induction b cs rule: fill_rune.induct) (auto split: if_splits)

lemma reread_rune_unread: "reread_rune b r = (ru, r') \<Longrightarrow> unread r' \<le> unread r"
proof -
  assume a: "reread_rune b r = (ru, r')"
  obtain s cs where f: "fill_rune (b # rd_buf r) (rd_chunks r) = (s, cs)" by fastforce
  have "length s + length (concat cs) = Suc (unread r)"
    using arg_cong [OF fill_rune_concat [OF f], of length] by (simp add: unread_def)
  moreover have "s \<noteq> []" using fill_rune_nonempty [OF f] by simp
  ultimately show ?thesis using a f by (cases s) (auto simp: reread_rune_def unread_def split: if_splits)
qed

lemma line_key_unread: "line_key w h mx prompt b ed r = Editing ed' r' \<Longrightarrow> unread r' \<le> unread r"
  by (auto simp: line_key_def Let_def split: if_splits option.splits prod.splits
      dest!: readEscapeSequence_unread reread_rune_unread)

lemma line_step_unread: "line_step w h mx prompt ed r = Editing ed' r' \<Longrightarrow> unread r' < unread r"
  by (auto simp: line_step_def split: option.splits dest!: readByte_unread line_key_unread)

function line_loop :: "world \<Rightarrow> string list \<Rightarrow> nat \<Rightarrow> string \<Rightarrow> lineEditor \<Rightarrow> lineReader \<Rightarrow> lineOutcome" where
  "line_loop w h mx prompt ed r =
     (case line_step w h mx prompt ed r of
        Editing ed r \<Rightarrow> line_loop w h mx prompt ed r
      | outcome \<Rightarrow> outcome)"
  by pat_completeness auto
termination
  by (relation "measure (\<lambda>(w, h, mx, prompt, ed, r). unread r)") (auto dest: line_step_unread)

declare line_loop.simps [simp del]

text \<open>\<open>ReadLine\<close>: the line and what was written, or \<open>LineFailed\<close> at the end of the input.\<close>

definition ReadLine :: "world \<Rightarrow> string list \<Rightarrow> nat \<Rightarrow> string \<Rightarrow> lineReader \<Rightarrow> lineOutcome" where
  "ReadLine w h mx prompt r = line_loop w h mx prompt (new_editor h) r"

section \<open>Secrets\<close>

datatype secretOutcome = Secret string lineReader | SecretFailed

function secret_loop :: "nat \<Rightarrow> string \<Rightarrow> lineReader \<Rightarrow> secretOutcome" where
  "secret_loop mx buf r =
     (case readByte r of
        None \<Rightarrow> SecretFailed
      | Some (b, r) \<Rightarrow>
          if b = CR then Secret buf (r\<lparr>rd_discardLF := True\<rparr>)
          else if b = LF then Secret buf r
          else if b = CHR 0x03 then SecretFailed
          else if b = CHR 0x08 \<or> b = CHR 0x7F then secret_loop mx (butlast buf) r
          else if 32 \<le> (of_char b :: nat) \<and> length buf < mx then secret_loop mx (buf @ [b]) r
          else secret_loop mx buf r)"
  by pat_completeness auto
termination
  by (relation "measure (\<lambda>(mx, buf, r). unread r)") (auto dest: readByte_unread)

declare secret_loop.simps [simp del]

definition ReadSecretLine :: "nat \<Rightarrow> lineReader \<Rightarrow> secretOutcome" where
  "ReadSecretLine mx r = secret_loop mx [] r"

end
