(* ===== verification/GoRunes.thy ===== *)
theory GoRunes
  imports GoLemmas
begin

text \<open>
  Conversions between strings and rune slices: the runes of a string are scalar values, and
  encoding scalar values and decoding them again gives the same runes.
\<close>

definition scalar :: "nat \<Rightarrow> bool" where
  "scalar r \<longleftrightarrow> r \<le> 1114111 \<and> \<not> (55296 \<le> r \<and> r \<le> 57343)"

definition scalars :: "nat list \<Rightarrow> bool" where
  "scalars rs \<longleftrightarrow> list_all scalar rs"

lemma scalars_simps [simp]:
  "scalars []" "scalars (r # rs) \<longleftrightarrow> scalar r \<and> scalars rs" "scalars (xs @ ys) \<longleftrightarrow> scalars xs \<and> scalars ys"
  by (simp_all add: scalars_def)

lemma scalars_take [simp]: "scalars rs \<Longrightarrow> scalars (take n rs)" "scalars rs \<Longrightarrow> scalars (drop n rs)"
  by (auto simp: scalars_def list_all_iff dest: in_set_takeD in_set_dropD)

lemma scalar_error [simp]: "scalar rune_error"
  by (simp add: scalar_def rune_error_def)

lemma scalar_ascii: "r < 128 \<Longrightarrow> scalar r"
  by (simp add: scalar_def)

lemma of_char_of_small: "n < 256 \<Longrightarrow> (of_char (char_of n) :: nat) = n"
  by (simp add: of_char_of)

lemma size_two: "194 \<le> (of_char a :: nat) \<Longrightarrow> (of_char a :: nat) \<le> 223 \<Longrightarrow> cont_byte b \<Longrightarrow> utf8_size (a # b # t) = 2"
  by (simp add: utf8_size.simps(2) Let_def)

lemma size_three:
  "224 \<le> (of_char a :: nat) \<Longrightarrow> (of_char a :: nat) \<le> 239 \<Longrightarrow>
     byte_in b (if (of_char a :: nat) = 224 then 160 else 128) (if (of_char a :: nat) = 237 then 159 else 191) \<Longrightarrow>
     cont_byte c \<Longrightarrow> utf8_size (a # b # c # t) = 3"
  by (simp add: utf8_size.simps(2) Let_def)

lemma size_four:
  "240 \<le> (of_char a :: nat) \<Longrightarrow> (of_char a :: nat) \<le> 244 \<Longrightarrow>
     byte_in b (if (of_char a :: nat) = 240 then 144 else 128) (if (of_char a :: nat) = 244 then 143 else 191) \<Longrightarrow>
     cont_byte c \<Longrightarrow> cont_byte d \<Longrightarrow> utf8_size (a # b # c # d # t) = 4"
  by (simp add: utf8_size.simps(2) Let_def)

lemma cont_byte_char_of: "(y :: nat) < 64 \<Longrightarrow> cont_byte (char_of (128 + y))"
  by (simp add: cont_byte_def byte_in_def of_char_of_small)

lemma mod_cont: "y < 64 \<Longrightarrow> (128 + y) mod 64 = (y :: nat)"
  using mod_block [of 2 64 "128 + y"] by simp

lemma decode_two:
  assumes "128 \<le> r" "r < 2048"
  shows "utf8_size (char_of (192 + r div 64) # char_of (128 + r mod 64) # t) = 2"
    "utf8_value [char_of (192 + r div 64), char_of (128 + r mod 64)] = r"
proof -
  define X Y where "X = r div 64" and "Y = r mod 64"
  have r: "r = X * 64 + Y" by (simp add: X_def Y_def)
  have b: "2 \<le> X" "X < 32" "Y < 64" using assms by (simp_all add: X_def Y_def)
  have c: "(of_char (char_of (192 + X)) :: nat) = 192 + X" "(of_char (char_of (128 + Y)) :: nat) = 128 + Y"
    using b by (simp_all add: of_char_of_small)
  have m: "(192 + X) mod 32 = X" using b mod_block [of 6 32 "192 + X"] by simp
  show "utf8_size (char_of (192 + r div 64) # char_of (128 + r mod 64) # t) = 2"
    unfolding X_def [symmetric] Y_def [symmetric] by (rule size_two; (unfold c)?; use b cont_byte_char_of in auto)
  show "utf8_value [char_of (192 + r div 64), char_of (128 + r mod 64)] = r"
    unfolding X_def [symmetric] Y_def [symmetric] utf8_value.simps c m mod_cont [OF b(3)] by (simp add: r)
qed

lemma decode_three:
  assumes "2048 \<le> r" "r < 65536" "scalar r"
  shows "utf8_size (char_of (224 + r div 4096) # char_of (128 + r div 64 mod 64) # char_of (128 + r mod 64) # t) = 3"
    "utf8_value [char_of (224 + r div 4096), char_of (128 + r div 64 mod 64), char_of (128 + r mod 64)] = r"
proof -
  define X Y Z where "X = r div 4096" and "Y = r div 64 mod 64" and "Z = r mod 64"
  have X: "X = r div 64 div 64" unfolding X_def using div_mult2_eq [of r 64 64] by simp
  have "r = r div 64 * 64 + Z" "r div 64 = X * 64 + Y" unfolding X Y_def Z_def by simp_all
  then have r: "r = X * 4096 + Y * 64 + Z" by simp
  have b: "X < 16" "Y < 64" "Z < 64" using assms by (simp_all add: X_def Y_def Z_def)
  have e: "X = 0 \<Longrightarrow> 32 \<le> Y" "X = 13 \<Longrightarrow> Y < 32"
    using assms r b by (auto simp: scalar_def)
  have c: "(of_char (char_of (224 + X)) :: nat) = 224 + X" "(of_char (char_of (128 + Y)) :: nat) = 128 + Y"
    "(of_char (char_of (128 + Z)) :: nat) = 128 + Z"
    using b by (simp_all add: of_char_of_small)
  have m: "(224 + X) mod 16 = X" using b mod_block [of 14 16 "224 + X"] by simp
  have y: "byte_in (char_of (128 + Y)) (if 224 + X = 224 then 160 else 128) (if 224 + X = 237 then 159 else 191)"
    unfolding byte_in_def c using b e by auto
  show "utf8_size (char_of (224 + r div 4096) # char_of (128 + r div 64 mod 64) # char_of (128 + r mod 64) # t) = 3"
    unfolding X_def [symmetric] Y_def [symmetric] Z_def [symmetric]
    by (rule size_three; (unfold c)?; use b y cont_byte_char_of in auto)
  show "utf8_value [char_of (224 + r div 4096), char_of (128 + r div 64 mod 64), char_of (128 + r mod 64)] = r"
    unfolding X_def [symmetric] Y_def [symmetric] Z_def [symmetric] utf8_value.simps c m mod_cont [OF b(2)] mod_cont [OF b(3)]
    by (simp add: r)
qed

lemma decode_four:
  assumes "65536 \<le> r" "scalar r"
  shows "utf8_size (char_of (240 + r div 262144) # char_of (128 + r div 4096 mod 64) # char_of (128 + r div 64 mod 64)
      # char_of (128 + r mod 64) # t) = 4"
    "utf8_value [char_of (240 + r div 262144), char_of (128 + r div 4096 mod 64), char_of (128 + r div 64 mod 64),
      char_of (128 + r mod 64)] = r"
proof -
  define W X Y Z where "W = r div 262144" and "X = r div 4096 mod 64" and "Y = r div 64 mod 64" and "Z = r mod 64"
  have d: "r div 4096 = r div 64 div 64" "r div 262144 = r div 4096 div 64"
    using div_mult2_eq [of r 64 64] div_mult2_eq [of r 4096 64] by simp_all
  have "r = r div 64 * 64 + Z" "r div 64 = r div 4096 * 64 + Y" "r div 4096 = W * 64 + X"
    unfolding W_def X_def Y_def Z_def d by simp_all
  then have r: "r = W * 262144 + X * 4096 + Y * 64 + Z" by simp
  have b: "W \<le> 4" "X < 64" "Y < 64" "Z < 64" using assms by (simp_all add: W_def X_def Y_def Z_def scalar_def)
  have e: "W = 0 \<Longrightarrow> 16 \<le> X" "W = 4 \<Longrightarrow> X < 16"
    using assms r b by (auto simp: scalar_def)
  have c: "(of_char (char_of (240 + W)) :: nat) = 240 + W" "(of_char (char_of (128 + X)) :: nat) = 128 + X"
    "(of_char (char_of (128 + Y)) :: nat) = 128 + Y" "(of_char (char_of (128 + Z)) :: nat) = 128 + Z"
    using b by (simp_all add: of_char_of_small)
  have m: "(240 + W) mod 8 = W" using b mod_block [of 30 8 "240 + W"] by simp
  have x: "byte_in (char_of (128 + X)) (if 240 + W = 240 then 144 else 128) (if 240 + W = 244 then 143 else 191)"
    unfolding byte_in_def c using b e by auto
  show "utf8_size (char_of (240 + r div 262144) # char_of (128 + r div 4096 mod 64) # char_of (128 + r div 64 mod 64)
      # char_of (128 + r mod 64) # t) = 4"
    unfolding W_def [symmetric] X_def [symmetric] Y_def [symmetric] Z_def [symmetric]
    by (rule size_four; (unfold c)?; use b x cont_byte_char_of in auto)
  show "utf8_value [char_of (240 + r div 262144), char_of (128 + r div 4096 mod 64), char_of (128 + r div 64 mod 64),
      char_of (128 + r mod 64)] = r"
    unfolding W_def [symmetric] X_def [symmetric] Y_def [symmetric] Z_def [symmetric] utf8_value.simps c m
      mod_cont [OF b(2)] mod_cont [OF b(3)] mod_cont [OF b(4)]
    by (simp add: r)
qed

lemma decode_encode_rune:
  assumes "scalar r"
  shows "utf8_size (encode_rune r @ t) = length (encode_rune r)" "utf8_value (encode_rune r) = r"
proof -
  consider (one) "r < 128" | (two) "128 \<le> r" "r < 2048" | (three) "2048 \<le> r" "r < 65536" | (four) "65536 \<le> r" by linarith
  then have "utf8_size (encode_rune r @ t) = length (encode_rune r) \<and> utf8_value (encode_rune r) = r"
  proof cases
    case one
    then show ?thesis by (simp add: encode_rune_def of_char_of_small)
  next
    case two
    then have "encode_rune r = [char_of (192 + r div 64), char_of (128 + r mod 64)]" by (simp add: encode_rune_def)
    then show ?thesis using decode_two [OF two] by (simp del: utf8_value.simps)
  next
    case three
    then have "encode_rune r = [char_of (224 + r div 4096), char_of (128 + r div 64 mod 64), char_of (128 + r mod 64)]"
      using assms by (auto simp: encode_rune_def scalar_def)
    then show ?thesis using decode_three [OF three assms] by (simp del: utf8_value.simps)
  next
    case four
    then have "encode_rune r = [char_of (240 + r div 262144), char_of (128 + r div 4096 mod 64),
        char_of (128 + r div 64 mod 64), char_of (128 + r mod 64)]"
      using assms by (auto simp: encode_rune_def scalar_def)
    then show ?thesis using decode_four [OF four assms] by (simp del: utf8_value.simps)
  qed
  then show "utf8_size (encode_rune r @ t) = length (encode_rune r)" "utf8_value (encode_rune r) = r" by simp_all
qed

lemma encode_rune_nonempty [simp]: "encode_rune r \<noteq> []" "[] \<noteq> encode_rune r"
  by (simp_all add: encode_rune_def)

lemma runes_encode [simp]: "scalars rs \<Longrightarrow> runes (encode_runes rs) = rs"
proof (induction rs)
  case (Cons r rs)
  have s: "scalar r" using Cons.prems by simp
  note d = decode_encode_rune [OF s]
  have "utf8_chunks (encode_rune r @ encode_runes rs) = (r, encode_rune r) # utf8_chunks (encode_runes rs)"
    using d(1) [of "encode_runes rs"] d(2) by (subst utf8_chunks_valid) simp_all
  then show ?case using Cons by (simp add: runes_def encode_runes_def)
qed (simp add: encode_runes_def runes_def)

lemma valid_encode [simp]: "scalars rs \<Longrightarrow> valid_utf8 (encode_runes rs)"
proof (induction rs)
  case (Cons r rs)
  have s: "scalar r" using Cons.prems by simp
  obtain a t where e: "encode_rune r = a # t" by (cases "encode_rune r") auto
  note d = decode_encode_rune(1) [OF s, of "encode_runes rs"]
  have "valid_utf8 (encode_runes rs)" using Cons by simp
  then show ?case using d by (simp add: encode_runes_def e Let_def del: utf8_size.simps)
qed (simp add: encode_runes_def)

text \<open>
  The value of a well-formed sequence is a scalar value: any other one would be encoded as the
  replacement character, which is one.
\<close>

lemma scalar_utf8_value:
  assumes "utf8_size s = n" "n \<noteq> 0"
  shows "scalar (utf8_value (take n s))"
proof (rule ccontr)
  let ?r = "utf8_value (take n s)"
  assume no: "\<not> scalar ?r"
  then have "encode_rune ?r = [char_of (239 :: nat), char_of (191 :: nat), char_of (189 :: nat)]"
    by (auto simp: scalar_def encode_rune_def)
  then have "take n s = [char_of (239 :: nat), char_of (191 :: nat), char_of (189 :: nat)]"
    using utf8_encode_value [OF assms] by simp
  then have "?r = utf8_value [char_of (239 :: nat), char_of (191 :: nat), char_of (189 :: nat)]" by (rule arg_cong)
  also have "\<dots> = 65533" by simp
  finally show False using no by (simp add: scalar_def)
qed

lemma scalars_runes [simp]: "scalars (runes s)"
proof (induction s rule: utf8_chunks.induct)
  case (2 a s)
  show ?case
  proof (cases "utf8_size (a # s) = 0")
    case True
    then show ?thesis using "2.IH"(1) [OF refl True] by (simp add: runes_def utf8_chunks_invalid)
  next
    case False
    then show ?thesis using "2.IH"(2) [OF refl False] scalar_utf8_value [OF refl False]
      by (simp add: runes_def utf8_chunks_valid)
  qed
qed (simp add: runes_def)

lemma runes_Nil [simp]: "runes [] = []"
  by (simp add: runes_def)

lemma encode_runes_simps [simp]:
  "encode_runes [] = []" "encode_runes (r # rs) = encode_rune r @ encode_runes rs"
  by (simp_all add: encode_runes_def)

lemma encode_ascii: "(of_char b :: nat) < 128 \<Longrightarrow> encode_rune (of_char b) = [b]"
  by (simp add: encode_rune_def)

end
