(* ===== verification/TerminalProofs.thy ===== *)
theory TerminalProofs
  imports Terminal GoRunes
begin

text \<open>
  The line editor refines a text with a cursor (the runes left of it, nearest first, and the
  runes right of it); its indices stay in range whatever is typed; a typed line is the line that
  is read, across any split of the input into chunks and with any line ending.
\<close>

section \<open>A text with a cursor\<close>

type_synonym zipper = "nat list \<times> nat list"

definition z_left :: "zipper \<Rightarrow> zipper" where
  "z_left z = (case z of (x # l, r) \<Rightarrow> (l, x # r) | ([], r) \<Rightarrow> ([], r))"

definition z_right :: "zipper \<Rightarrow> zipper" where
  "z_right z = (case z of (l, x # r) \<Rightarrow> (x # l, r) | (l, []) \<Rightarrow> (l, []))"

definition z_home :: "zipper \<Rightarrow> zipper" where "z_home z = ([], rev (fst z) @ snd z)"
definition z_end :: "zipper \<Rightarrow> zipper" where "z_end z = (rev (snd z) @ fst z, [])"
definition z_insert :: "nat list \<Rightarrow> zipper \<Rightarrow> zipper" where "z_insert k z = (rev k @ fst z, snd z)"
definition z_backspace :: "zipper \<Rightarrow> zipper" where "z_backspace z = (tl (fst z), snd z)"
definition z_delete :: "zipper \<Rightarrow> zipper" where "z_delete z = (fst z, tl (snd z))"

definition z_back_word :: "nat list \<Rightarrow> nat list" where
  "z_back_word l = dropWhile not_space (dropWhile rune_is_space l)"

definition z_next_word :: "nat list \<Rightarrow> nat list" where
  "z_next_word r = dropWhile rune_is_space (dropWhile not_space r)"

definition z_to :: "nat list \<Rightarrow> zipper \<Rightarrow> zipper" where
  "z_to l z = (l, drop (length l) (rev (fst z) @ snd z))"

definition z_text :: "zipper \<Rightarrow> nat list" where "z_text z = rev (fst z) @ snd z"

text \<open>
  What an editor owes to such a text. \<open>ok\<close> is its invariant; runes that are scalar values can
  be typed.
\<close>

locale text_editor =
  fixes ok :: "'s \<Rightarrow> bool"
    and zip_of :: "'s \<Rightarrow> zipper"
    and typed :: "nat \<Rightarrow> 's \<Rightarrow> 's"
    and erase :: "'s \<Rightarrow> 's"
  assumes typed: "ok s \<Longrightarrow> scalar r \<Longrightarrow> ok (typed r s) \<and> zip_of (typed r s) = z_insert [r] (zip_of s)"
    and erase: "ok s \<Longrightarrow> ok (erase s) \<and> zip_of (erase s) = z_backspace (zip_of s)"
begin

lemma typed_all: "ok s \<Longrightarrow> scalars rs \<Longrightarrow> ok (fold typed rs s) \<and> zip_of (fold typed rs s) = z_insert rs (zip_of s)"
  by (induction rs arbitrary: s) (auto simp: typed z_insert_def)

lemma erase_all: "ok s \<Longrightarrow> ok ((erase ^^ n) s) \<and> zip_of ((erase ^^ n) s) = (drop n (fst (zip_of s)), snd (zip_of s))"
  by (induction n) (auto simp: erase z_backspace_def tl_drop drop_Suc)

lemma typed_erased:
  assumes "ok s" "scalars rs"
  shows "zip_of ((erase ^^ length rs) (fold typed rs s)) = zip_of s"
  using typed_all [OF assms] erase_all [of "fold typed rs s" "length rs"] by (simp add: z_insert_def)

end

text \<open>An editor whose Delete key also takes the next rune, whatever it is.\<close>

locale deleting_editor = text_editor +
  fixes delete_next :: "'a \<Rightarrow> 'a"
  assumes delete_next: "ok s \<Longrightarrow> ok (delete_next s) \<and> zip_of (delete_next s) = z_delete (zip_of s)"
begin

lemma delete_all: "ok s \<Longrightarrow> ok ((delete_next ^^ n) s) \<and> zip_of ((delete_next ^^ n) s) = (fst (zip_of s), drop n (snd (zip_of s)))"
  by (induction n) (auto simp: delete_next z_delete_def tl_drop drop_Suc)

lemma retyped:
  assumes "ok s" "scalars rs" "rs = take n (snd (zip_of s))"
  shows "z_text (zip_of (fold typed rs ((delete_next ^^ n) s))) = z_text (zip_of s)"
  using assms(1,2) delete_all [OF assms(1), of n] typed_all [of "(delete_next ^^ n) s" rs]
  by (simp add: z_text_def z_insert_def) (simp add: assms(3))

end

section \<open>Words\<close>

lemma back_while_le [simp]: "back_while P buf c \<le> c"
  by (induction c) (auto intro: le_SucI)

lemma take_back_while: "c \<le> length buf \<Longrightarrow> rev (take (back_while P buf c) buf) = dropWhile P (rev (take c buf))"
  by (induction c) (auto simp: take_Suc_conv_app_nth)

lemma forward_while_ge [simp]: "c \<le> forward_while P buf c"
  by (induction P buf c rule: forward_while.induct) (subst forward_while.simps, auto)

lemma forward_while_le: "c \<le> length buf \<Longrightarrow> forward_while P buf c \<le> length buf"
  by (induction P buf c rule: forward_while.induct) (subst forward_while.simps, auto)

lemma drop_forward_while: "drop (forward_while P buf c) buf = dropWhile P (drop c buf)"
proof (induction P buf c rule: forward_while.induct)
  case (1 P buf c)
  show ?case
  proof (cases "c < length buf")
    case True
    then show ?thesis using 1 by (subst forward_while.simps) (auto simp: Cons_nth_drop_Suc [symmetric])
  next
    case False
    then show ?thesis by (subst forward_while.simps) simp
  qed
qed

lemma word_bounds [simp]:
  "c \<le> length buf \<Longrightarrow> previousWordBoundary buf c \<le> length buf"
  "c \<le> length buf \<Longrightarrow> nextWordBoundary buf c \<le> length buf"
  by (auto simp: previousWordBoundary_def nextWordBoundary_def intro: forward_while_le
      intro!: le_trans [OF back_while_le])

lemma word_room [simp]: "c \<le> length buf \<Longrightarrow> c \<le> c + length buf - nextWordBoundary buf c"
  using word_bounds(2) [of c buf] by (simp del: word_bounds)

lemma take_previous: "c \<le> length buf \<Longrightarrow> rev (take (previousWordBoundary buf c) buf) = z_back_word (rev (take c buf))"
  using le_trans [OF back_while_le] by (simp add: previousWordBoundary_def z_back_word_def take_back_while)

lemma drop_next: "drop (nextWordBoundary buf c) buf = z_next_word (drop c buf)"
  by (simp add: nextWordBoundary_def z_next_word_def drop_forward_while)

lemma next_ge: "c \<le> nextWordBoundary buf c"
  unfolding nextWordBoundary_def by (rule le_trans [OF forward_while_ge forward_while_ge])

section \<open>The invariant of the line editor\<close>

definition line_ok :: "string list \<Rightarrow> lineEditor \<Rightarrow> bool" where
  "line_ok h ed \<longleftrightarrow>
     le_cursor ed \<le> length (le_buf ed) \<and> le_hist ed \<le> length h \<and> le_rev_index ed \<le> length h
     \<and> scalars (le_buf ed) \<and> scalars (le_draft ed) \<and> scalars (le_kill ed)"

definition zipper_of :: "lineEditor \<Rightarrow> zipper" where
  "zipper_of ed = (rev (take (le_cursor ed) (le_buf ed)), drop (le_cursor ed) (le_buf ed))"

lemma emit_simps [simp]:
  "line_ok h (emit v ed) = line_ok h ed" "zipper_of (emit v ed) = zipper_of ed" "le_buf (emit v ed) = le_buf ed"
  "le_cursor (emit v ed) = le_cursor ed" "le_kill (emit v ed) = le_kill ed" "le_hist (emit v ed) = le_hist ed"
  "le_draft (emit v ed) = le_draft ed" "le_rev_index (emit v ed) = le_rev_index ed"
  by (simp_all add: emit_def line_ok_def zipper_of_def)

lemma redraw_simps [simp]:
  "line_ok h (redraw p ed) = line_ok h ed" "zipper_of (redraw p ed) = zipper_of ed" "le_buf (redraw p ed) = le_buf ed"
  "le_cursor (redraw p ed) = le_cursor ed" "le_kill (redraw p ed) = le_kill ed" "le_hist (redraw p ed) = le_hist ed"
  "le_draft (redraw p ed) = le_draft ed" "le_rev_index (redraw p ed) = le_rev_index ed"
  by (simp_all add: redraw_def)

lemma put_text_simps [simp]:
  "le_buf (put_text b c ed) = b" "le_cursor (put_text b c ed) = c" "le_kill (put_text b c ed) = le_kill ed"
  "le_hist (put_text b c ed) = le_hist ed" "le_draft (put_text b c ed) = le_draft ed"
  "le_rev_index (put_text b c ed) = le_rev_index ed"
  "zipper_of (put_text b c ed) = (rev (take c b), drop c b)"
  "line_ok h (put_text b c ed) \<longleftrightarrow> c \<le> length b \<and> scalars b \<and> le_hist ed \<le> length h \<and> le_rev_index ed \<le> length h
     \<and> scalars (le_draft ed) \<and> scalars (le_kill ed)"
  by (auto simp: put_text_def zipper_of_def line_ok_def)

lemma setBuffer_ok [simp]:
  "line_ok h (setBuffer mx p v ed) \<longleftrightarrow> le_hist ed \<le> length h \<and> le_rev_index ed \<le> length h
     \<and> scalars (le_draft ed) \<and> scalars (le_kill ed)"
  "le_buf (setBuffer mx p v ed) = take mx (runes v)" "le_cursor (setBuffer mx p v ed) = length (take mx (runes v))"
  "le_hist (setBuffer mx p v ed) = le_hist ed" "le_draft (setBuffer mx p v ed) = le_draft ed"
  "le_rev_index (setBuffer mx p v ed) = le_rev_index ed" "le_kill (setBuffer mx p v ed) = le_kill ed"
  by (auto simp: setBuffer_def Let_def)

lemmas key_defs = key_left_def key_right_def key_home_def key_end_def key_delete_def key_backspace_def
  key_kill_end_def key_kill_start_def key_kill_word_def key_kill_next_word_def key_yank_def key_clear_def

lemma key_ok:
  assumes "line_ok h ed"
  shows "line_ok h (key_left p ed)" "line_ok h (key_right p ed)" "line_ok h (key_home p ed)" "line_ok h (key_end p ed)"
    "line_ok h (key_delete p ed)" "line_ok h (key_backspace p ed)" "line_ok h (key_kill_end p ed)"
    "line_ok h (key_kill_start p ed)" "line_ok h (key_kill_word p ed)" "line_ok h (key_kill_next_word p ed)"
    "line_ok h (key_yank mx p ed)" "line_ok h (key_clear p ed)"
  using assms le_trans [OF back_while_le]
  by (auto simp: key_defs line_ok_def Let_def)

lemma history_ok:
  assumes "line_ok h ed"
  shows "line_ok h (key_next h mx p ed)" "line_ok h (key_previous h mx p ed)"
  using assms by (auto simp: key_next_def key_previous_def line_ok_def Let_def)

lemma search_back_less: "search_back q h n = Some i \<Longrightarrow> i < n"
  by (induction n) (auto split: if_splits)

lemma reverse_ok: "line_ok h ed \<Longrightarrow> line_ok h (key_reverse h mx p ed)"
  by (auto simp: key_reverse_def line_ok_def Let_def split: option.splits dest!: search_back_less)

lemma complete_bounds:
  assumes "completeVirtualLine w line c = (a, b, ms)" "c \<le> length (runes line)"
  shows "a \<le> c \<and> c \<le> b \<and> b \<le> length (runes line)"
  using assms forward_while_le [of c "runes line" not_space] by (auto simp: completeVirtualLine_def Let_def split: if_splits)

lemma replace_word_ok:
  assumes "line_ok h ed" "a \<le> length (le_buf ed)"
  shows "line_ok h (replace_word a b (runes m) ed)"
  using assms by (auto simp: replace_word_def line_ok_def Let_def)

lemma complete_ok:
  assumes "line_ok h ed"
  shows "line_ok h (key_complete w p ed)"
proof -
  obtain a b ms where c: "completeVirtualLine w (encode_runes (le_buf ed)) (le_cursor ed) = (a, b, ms)"
    by (cases "completeVirtualLine w (encode_runes (le_buf ed)) (le_cursor ed)")
  have "a \<le> length (le_buf ed)" using complete_bounds [OF c] assms by (auto simp: line_ok_def)
  note r = replace_word_ok [OF assms this, of b]
  have "line_ok h (put_text (le_buf e @ [32]) (Suc (le_cursor e)) e)" if "line_ok h e" for e
    using that by (auto simp: line_ok_def scalar_def)
  then show ?thesis using assms r by (auto simp: key_complete_def c Let_def)
qed

lemma escape_ok: "line_ok h ed \<Longrightarrow> line_ok h (key_escape h mx p sq ed)"
  by (auto simp: key_escape_def key_ok history_ok) (auto simp: line_ok_def)

lemma control_ok: "line_ok h ed \<Longrightarrow> control_key w h mx p n = Some key \<Longrightarrow> line_ok h (key ed)"
  by (auto simp: control_key_def key_ok history_ok reverse_ok complete_ok split: if_splits)

lemma insert_ok:
  assumes "line_ok h ed" "scalar r"
  shows "line_ok h (insert_key p r ed)" "zipper_of (insert_key p r ed) = z_insert [r] (zipper_of ed)"
    "length (le_buf (insert_key p r ed)) = Suc (length (le_buf ed))"
  using assms by (auto simp: insert_key_def insertRune_def line_ok_def zipper_of_def z_insert_def)

lemma insert_byte_ok:
  assumes "line_ok h ed" "(of_char b :: nat) < 128"
  shows "line_ok h (insert_byte p b ed)" "zipper_of (insert_byte p b ed) = z_insert [of_char b] (zipper_of ed)"
    "length (le_buf (insert_byte p b ed)) = Suc (length (le_buf ed))"
  using assms by (auto simp: insert_byte_def insertRune_def line_ok_def zipper_of_def z_insert_def scalar_ascii Let_def)

lemma reread_scalar: "reread_rune b r = (ru, r') \<Longrightarrow> scalar ru"
  by (auto simp: reread_rune_def scalar_utf8_value split: prod.splits if_splits)

lemma new_editor_ok: "line_ok h (new_editor h)"
  by (simp add: new_editor_def line_ok_def)

lemma line_key_ok:
  assumes "line_key w h mx p b ed r = Editing ed' r'" "line_ok h ed"
  shows "line_ok h ed'"
proof -
  have ok: "line_ok h (if (of_char b :: nat) \<noteq> 18 then ed\<lparr>le_rev_active := False\<rparr> else ed)"
    using assms(2) by (simp add: line_ok_def)
  note keys = control_ok [OF ok] escape_ok [OF ok] key_ok [OF ok] insert_ok(1) [OF ok] insert_byte_ok(1) [OF ok]
  show ?thesis using assms(1) ok keys reread_scalar
    by (auto simp: line_key_def Let_def split: if_splits option.splits prod.splits)
qed

lemma line_step_ok: "line_step w h mx p ed r = Editing ed' r' \<Longrightarrow> line_ok h ed \<Longrightarrow> line_ok h ed'"
  by (auto simp: line_step_def split: option.splits dest: line_key_ok)

inductive line_reach :: "world \<Rightarrow> string list \<Rightarrow> nat \<Rightarrow> string \<Rightarrow> lineReader \<Rightarrow> lineEditor \<Rightarrow> lineReader \<Rightarrow> bool"
  for w h mx p r0 where
  begun: "line_reach w h mx p r0 (new_editor h) r0"
| went_on: "line_reach w h mx p r0 ed r \<Longrightarrow> line_step w h mx p ed r = Editing ed' r' \<Longrightarrow> line_reach w h mx p r0 ed' r'"

inductive_cases line_reach_E: "line_reach w h mx p r0 ed r"

text \<open>Whatever bytes arrive, in whatever chunks, the cursor of the line editor stays within the
  buffer, its history indices within the history, and its texts are runes that can be encoded.
\<close>

lemma line_editor_invariant:
  assumes "line_reach w h mx p r0 ed r"
  shows "line_ok h ed"
  using assms by (induction rule: line_reach.induct) (auto intro: new_editor_ok line_step_ok)

section \<open>The keys on the text\<close>

text \<open>
  What each key does to the text. \<open>k\<close> is the kill buffer, \<open>mx\<close> the limit that a yank respects.
\<close>

definition zip_control :: "nat \<Rightarrow> nat list \<Rightarrow> nat \<Rightarrow> zipper \<Rightarrow> zipper" where
  "zip_control mx k n z =
     (if n = 1 then z_home z
      else if n = 2 then z_left z
      else if n = 5 then z_end z
      else if n = 6 then z_right z
      else if n = 11 then (fst z, [])
      else if n = 21 then ([], snd z)
      else if n = 23 then (z_back_word (fst z), snd z)
      else if n = 25 \<and> length (z_text z) + length k \<le> mx then z_insert k z
      else if n = 8 \<or> n = 127 then z_backspace z
      else z)"

definition zip_escape :: "string \<Rightarrow> zipper \<Rightarrow> zipper" where
  "zip_escape sq z =
     (if sq = ''[C'' then z_right z
      else if sq = ''[D'' then z_left z
      else if sq \<in> set [''[H'', ''[1~'', ''[7~'', ''OH''] then z_home z
      else if sq \<in> set [''[F'', ''[4~'', ''[8~'', ''OF''] then z_end z
      else if sq = ''[3~'' then z_delete z
      else if sq = ''b'' then z_to (z_back_word (fst z)) z
      else if sq = ''f'' then (rev (take (length (snd z) - length (z_next_word (snd z))) (snd z)) @ fst z, z_next_word (snd z))
      else if sq = ''d'' then (fst z, z_next_word (snd z))
      else z)"

lemma zip_lengths:
  assumes "c \<le> length buf"
  shows "previousWordBoundary buf c = length (z_back_word (rev (take c buf)))"
    "nextWordBoundary buf c = length buf - length (z_next_word (drop c buf))"
proof -
  show "previousWordBoundary buf c = length (z_back_word (rev (take c buf)))"
    using arg_cong [OF take_previous [OF assms], of length] assms by simp
  show "nextWordBoundary buf c = length buf - length (z_next_word (drop c buf))"
    using arg_cong [OF drop_next [of buf c], of length] word_bounds(2) [OF assms] by (simp del: word_bounds)
qed

lemma split_at:
  assumes "c \<le> length buf"
  obtains l r where "buf = rev l @ r" "c = length l"
  using assms by (metis append_take_drop_id length_rev length_take min_absorb2 rev_rev_ident)

lemma move_left: "line_ok h ed \<Longrightarrow> zipper_of (key_left p ed) = z_left (zipper_of ed)"
proof -
  assume "line_ok h ed"
  then have "le_cursor ed \<le> length (le_buf ed)" by (simp add: line_ok_def)
  then obtain l r where s: "le_buf ed = rev l @ r" "le_cursor ed = length l" by (rule split_at)
  show ?thesis by (cases l) (use s in \<open>auto simp: key_left_def zipper_of_def z_left_def\<close>)
qed

lemma move_right: "line_ok h ed \<Longrightarrow> zipper_of (key_right p ed) = z_right (zipper_of ed)"
proof -
  assume "line_ok h ed"
  then have "le_cursor ed \<le> length (le_buf ed)" by (simp add: line_ok_def)
  then obtain l r where s: "le_buf ed = rev l @ r" "le_cursor ed = length l" by (rule split_at)
  show ?thesis by (cases r) (use s in \<open>auto simp: key_right_def zipper_of_def z_right_def\<close>)
qed

lemma erase_keys:
  assumes "line_ok h ed"
  shows "zipper_of (key_backspace p ed) = z_backspace (zipper_of ed)" "zipper_of (key_delete p ed) = z_delete (zipper_of ed)"
proof -
  have "le_cursor ed \<le> length (le_buf ed)" using assms by (simp add: line_ok_def)
  then obtain l r where s: "le_buf ed = rev l @ r" "le_cursor ed = length l" by (rule split_at)
  show "zipper_of (key_backspace p ed) = z_backspace (zipper_of ed)"
    by (cases l) (use s in \<open>auto simp: key_backspace_def Let_def zipper_of_def z_backspace_def\<close>)
  show "zipper_of (key_delete p ed) = z_delete (zipper_of ed)"
    by (cases r) (use s in \<open>auto simp: key_delete_def Let_def zipper_of_def z_delete_def\<close>)
qed

lemma kill_keys:
  assumes "line_ok h ed"
  shows "zipper_of (key_kill_end p ed) = (fst (zipper_of ed), [])"
    "zipper_of (key_kill_start p ed) = ([], snd (zipper_of ed))"
    "zipper_of (key_kill_word p ed) = (z_back_word (fst (zipper_of ed)), snd (zipper_of ed))"
    "zipper_of (key_kill_next_word p ed) = (fst (zipper_of ed), z_next_word (snd (zipper_of ed)))"
proof -
  let ?c = "le_cursor ed" and ?buf = "le_buf ed"
  have c: "?c \<le> length ?buf" using assms by (simp add: line_ok_def)
  then obtain l r where s: "?buf = rev l @ r" "?c = length l" by (rule split_at)
  show "zipper_of (key_kill_end p ed) = (fst (zipper_of ed), [])" "zipper_of (key_kill_start p ed) = ([], snd (zipper_of ed))"
    using s by (auto simp: key_kill_end_def key_kill_start_def zipper_of_def Let_def)
  let ?b = "previousWordBoundary ?buf ?c"
  have b: "?b \<le> ?c" unfolding previousWordBoundary_def by (rule le_trans [OF back_while_le back_while_le])
  then have "min (length ?buf) ?b = ?b" using c by simp
  note b = b this
  show "zipper_of (key_kill_word p ed) = (z_back_word (fst (zipper_of ed)), snd (zipper_of ed))"
    using c b take_previous [OF c]
    by (auto simp: key_kill_word_def Let_def zipper_of_def previousWordBoundary_def [symmetric] z_back_word_def)
  let ?n = "nextWordBoundary ?buf ?c"
  show "zipper_of (key_kill_next_word p ed) = (fst (zipper_of ed), z_next_word (snd (zipper_of ed)))"
    using c next_ge [of ?c ?buf] drop_next [of ?buf ?c]
    by (cases "?c < ?n") (auto simp: key_kill_next_word_def Let_def zipper_of_def)
qed

lemma yank_key:
  assumes "line_ok h ed"
  shows "zipper_of (key_yank mx p ed) =
    (if length (z_text (zipper_of ed)) + length (le_kill ed) \<le> mx then z_insert (le_kill ed) (zipper_of ed) else zipper_of ed)"
proof -
  have "le_cursor ed \<le> length (le_buf ed)" using assms by (simp add: line_ok_def)
  then obtain l r where s: "le_buf ed = rev l @ r" "le_cursor ed = length l" by (rule split_at)
  show ?thesis using s by (auto simp: key_yank_def z_text_def z_insert_def zipper_of_def Let_def)
qed

lemma ends_keys:
  "zipper_of (key_home p ed) = z_home (zipper_of ed)" "zipper_of (key_end p ed) = z_end (zipper_of ed)"
  "zipper_of (key_clear p ed) = zipper_of ed"
  by (auto simp: key_home_def key_end_def key_clear_def zipper_of_def z_home_def z_end_def simp flip: rev_append)

lemma word_keys:
  assumes "line_ok h ed"
  shows "zipper_of (redraw p (ed\<lparr>le_cursor := previousWordBoundary (le_buf ed) (le_cursor ed)\<rparr>))
      = z_to (z_back_word (fst (zipper_of ed))) (zipper_of ed)"
    "zipper_of (redraw p (ed\<lparr>le_cursor := nextWordBoundary (le_buf ed) (le_cursor ed)\<rparr>))
      = (rev (take (length (snd (zipper_of ed)) - length (z_next_word (snd (zipper_of ed)))) (snd (zipper_of ed)))
          @ fst (zipper_of ed), z_next_word (snd (zipper_of ed)))"
proof -
  let ?c = "le_cursor ed" and ?buf = "le_buf ed"
  have c: "?c \<le> length ?buf" using assms by (simp add: line_ok_def)
  show "zipper_of (redraw p (ed\<lparr>le_cursor := previousWordBoundary ?buf ?c\<rparr>))
      = z_to (z_back_word (fst (zipper_of ed))) (zipper_of ed)"
    using take_previous [OF c] zip_lengths(1) [OF c] by (simp add: zipper_of_def z_to_def)
  let ?n = "nextWordBoundary ?buf ?c"
  have "take ?n ?buf = take ?c ?buf @ take (?n - ?c) (drop ?c ?buf)"
    using next_ge [of ?c ?buf] by (metis le_add_diff_inverse take_add)
  moreover have "?n - ?c = length (drop ?c ?buf) - length (z_next_word (drop ?c ?buf))"
    using zip_lengths(2) [OF c] by simp
  ultimately show "zipper_of (redraw p (ed\<lparr>le_cursor := ?n\<rparr>))
      = (rev (take (length (snd (zipper_of ed)) - length (z_next_word (snd (zipper_of ed)))) (snd (zipper_of ed)))
          @ fst (zipper_of ed), z_next_word (snd (zipper_of ed)))"
    by (simp add: zipper_of_def drop_next)
qed

lemma control_refines:
  assumes "line_ok h ed" "control_key w h mx p n = Some key" "n \<notin> {9, 14, 16, 18}"
  shows "zipper_of (key ed) = zip_control mx (le_kill ed) n (zipper_of ed)"
  using assms
  by (auto simp: control_key_def zip_control_def move_left move_right erase_keys kill_keys yank_key ends_keys split: if_splits)

lemma escape_refines:
  assumes "line_ok h ed" "sq \<noteq> ''[A''" "sq \<noteq> ''[B''"
  shows "zipper_of (key_escape h mx p sq ed) = zip_escape sq (zipper_of ed)"
proof -
  have "zipper_of (key_escape h mx p sq ed) = zip_escape sq (zipper_of ed)" if "sq \<notin> {''b'', ''f''}"
    using assms that by (simp add: key_escape_def zip_escape_def move_left move_right erase_keys kill_keys ends_keys)
  moreover have "zipper_of (key_escape h mx p ''b'' ed) = zip_escape ''b'' (zipper_of ed)"
    unfolding key_escape_def zip_escape_def using word_keys(1) [OF assms(1)] by (simp del: redraw_simps)
  moreover have "zipper_of (key_escape h mx p ''f'' ed) = zip_escape ''f'' (zipper_of ed)"
    unfolding key_escape_def zip_escape_def using word_keys(2) [OF assms(1)] by (simp del: redraw_simps)
  ultimately show ?thesis by blast
qed

text \<open>C20: on a buffer with its cursor in range, every control key and every escape sequence other than
  those of the history and of completion does to the text and the cursor what the list-level
  editor does.
\<close>

theorem line_keys_refine:
  assumes "line_ok h ed"
  shows "(\<forall>n key. control_key w h mx p n = Some key \<and> n \<notin> {9, 14, 16, 18}
      \<longrightarrow> zipper_of (key ed) = zip_control mx (le_kill ed) n (zipper_of ed))
    \<and> (\<forall>sq. sq \<noteq> ''[A'' \<and> sq \<noteq> ''[B'' \<longrightarrow> zipper_of (key_escape h mx p sq ed) = zip_escape sq (zipper_of ed))"
  using control_refines [OF assms] escape_refines [OF assms] by blast

interpretation line: deleting_editor "line_ok h" zipper_of "insert_key p" "key_backspace p" "key_delete p" for h p
  by unfold_locales (auto simp: insert_ok key_ok erase_keys)

lemmas line_typed_erased = line.typed_erased and line_retyped = line.retyped

section \<open>A typed line\<close>

definition stream :: "lineReader \<Rightarrow> string" where
  "stream r = rd_buf r @ concat (rd_chunks r)"

text \<open>What the next reads deliver: a line feed after a carriage return is dropped.\<close>

definition pending :: "lineReader \<Rightarrow> string" where
  "pending r = (case stream r of b # s \<Rightarrow> if rd_discardLF r \<and> b = LF then s else b # s | [] \<Rightarrow> [])"

lemma raw_byte_stream:
  "(case raw_byte r of None \<Rightarrow> stream r = [] | Some (b, r') \<Rightarrow> stream r = b # stream r' \<and> rd_discardLF r' = rd_discardLF r)"
proof -
  have "(case next_chunk cs of None \<Rightarrow> concat cs = [] | Some (b, c, cs') \<Rightarrow> concat cs = b # c @ concat cs')" for cs
    by (induction cs rule: next_chunk.induct) (auto split: option.splits)
  from this [of "rd_chunks r"] show ?thesis
    by (auto simp: raw_byte_def stream_def split: list.splits option.splits)
qed

lemma readByte_pending:
  assumes "pending r = b # s"
  obtains r' where "readByte r = Some (b, r')" "pending r' = s" "\<not> rd_discardLF r'"
proof -
  have flag: "stream (r\<lparr>rd_discardLF := False\<rparr>) = stream r" for r by (simp add: stream_def)
  obtain c r1 where r1: "raw_byte r = Some (c, r1)" "stream r = c # stream r1" "rd_discardLF r1 = rd_discardLF r"
    using raw_byte_stream [of r] assms by (auto simp: pending_def split: option.splits list.splits)
  show thesis
  proof (cases "rd_discardLF r \<and> c = LF")
    case True
    then have s1: "stream r1 = b # s" using assms r1 by (simp add: pending_def)
    then obtain r2 where "raw_byte (r1\<lparr>rd_discardLF := False\<rparr>) = Some (b, r2)" "stream r2 = s" "\<not> rd_discardLF r2"
      using raw_byte_stream [of "r1\<lparr>rd_discardLF := False\<rparr>"] flag [of r1] by (auto split: option.splits)
    then show thesis using that r1 True by (auto simp: readByte_def pending_def split: list.splits)
  next
    case False
    then have "c = b" "stream r1 = s" using assms r1 by (auto simp: pending_def split: if_splits)
    then show thesis using that [of "r1\<lparr>rd_discardLF := False\<rparr>"] r1 False flag [of r1]
      by (auto simp: readByte_def pending_def split: list.splits)
  qed
qed

definition printable :: "char \<Rightarrow> bool" where "printable b \<longleftrightarrow> byte_in b 32 126"

lemma printable_cases: "printable b \<Longrightarrow> (of_char b :: nat) \<ge> 32 \<and> (of_char b :: nat) < 127 \<and> b \<noteq> CR \<and> b \<noteq> LF \<and> b \<noteq> ESC"
  by (auto simp: printable_def byte_in_def CR_def LF_def ESC_def)

lemma step_typed:
  assumes "pending r = b # s" "printable b" "le_cursor ed = length (le_buf ed)" "length (le_buf ed) < mx"
  obtains ed' r' where "line_step w h mx p ed r = Editing ed' r'" "pending r' = s"
    "le_buf ed' = le_buf ed @ [of_char b]" "le_cursor ed' = length (le_buf ed')"
proof -
  obtain r' where r': "readByte r = Some (b, r')" "pending r' = s" by (rule readByte_pending [OF assms(1)])
  let ?n = "of_char b :: nat"
  have n: "32 \<le> ?n" "?n < 127" "b \<noteq> CR" "b \<noteq> LF" "b \<noteq> ESC" using printable_cases [OF assms(2)] by auto
  have "control_key w h mx p ?n = None" using n by (simp add: control_key_def)
  then have "line_step w h mx p ed r = Editing (insert_byte p b (ed\<lparr>le_rev_active := False\<rparr>)) r'"
    using r' n assms(4) by (simp add: line_step_def line_key_def)
  moreover have "le_buf (insert_byte p b (ed\<lparr>le_rev_active := False\<rparr>)) = le_buf ed @ [?n]"
    "le_cursor (insert_byte p b (ed\<lparr>le_rev_active := False\<rparr>)) = Suc (length (le_buf ed))"
    using assms(3) by (simp_all add: insert_byte_def insertRune_def Let_def)
  ultimately show thesis using that r' by simp
qed

definition ascii_runes :: "string \<Rightarrow> nat list" where "ascii_runes s = map of_char s"

lemma encode_ascii_runes: "list_all printable s \<Longrightarrow> encode_runes (ascii_runes s) = s"
  by (induction s) (auto simp: ascii_runes_def encode_ascii dest: printable_cases)

lemma loop_typed:
  assumes "pending r = s @ e # rest" "list_all printable s" "le_cursor ed = length (le_buf ed)"
    "length (le_buf ed) + length s \<le> mx" "e = CR \<or> e = LF"
  shows "\<exists>out r'. line_loop w h mx p ed r = LineRead (encode_runes (le_buf ed @ ascii_runes s)) out r'
    \<and> pending r' = (if e = CR \<and> rest \<noteq> [] \<and> hd rest = LF then tl rest else rest)"
  using assms
proof (induction s arbitrary: ed r)
  case Nil
  from Nil(1) have p0: "pending r = e # rest" by simp
  obtain r' where r': "readByte r = Some (e, r')" "pending r' = rest" "\<not> rd_discardLF r'" by (rule readByte_pending [OF p0])
  have st: "stream r' = rest" using r'(2,3) by (auto simp: pending_def split: list.splits)
  have "(of_char e :: nat) \<noteq> 18" using Nil(5) by (auto simp: CR_def LF_def)
  then have "line_step w h mx p ed r = LineRead (encode_runes (le_buf ed)) (le_out ed @ [CR, LF])
      (if e = CR then r'\<lparr>rd_discardLF := True\<rparr> else r')"
    using r'(1) Nil(5) by (auto simp: line_step_def line_key_def)
  moreover have "pending (if e = CR then r'\<lparr>rd_discardLF := True\<rparr> else r')
      = (if e = CR \<and> rest \<noteq> [] \<and> hd rest = LF then tl rest else rest)"
    using st r'(3) by (auto simp: pending_def stream_def split: list.splits)
  ultimately show ?case by (subst line_loop.simps) (simp add: ascii_runes_def)
next
  case (Cons b s)
  have pb: "pending r = b # (s @ e # rest)" "printable b" "length (le_buf ed) < mx" using Cons.prems by auto
  obtain ed' r' where st: "line_step w h mx p ed r = Editing ed' r'" "pending r' = s @ e # rest"
    "le_buf ed' = le_buf ed @ [of_char b]" "le_cursor ed' = length (le_buf ed')"
    by (rule step_typed [OF pb(1,2) Cons.prems(3) pb(3)])
  have "\<exists>out q. line_loop w h mx p ed' r' = LineRead (encode_runes (le_buf ed' @ ascii_runes s)) out q
    \<and> pending q = (if e = CR \<and> rest \<noteq> [] \<and> hd rest = LF then tl rest else rest)"
    using Cons.IH [of r' ed'] st Cons.prems by simp
  then show ?case using st by (subst line_loop.simps) (simp add: ascii_runes_def)
qed

text \<open>A line of printable ASCII that fits the limit is read as it was typed, however the input is
  cut into chunks, and the next line starts after its CR, LF or CR LF.
\<close>

lemma ReadLine_typed:
  assumes "pending r = s @ e # rest" "list_all printable s" "length s \<le> mx" "e = CR \<or> e = LF"
  shows "\<exists>out r'. ReadLine w h mx p r = LineRead s out r'
    \<and> pending r' = (if e = CR \<and> rest \<noteq> [] \<and> hd rest = LF then tl rest else rest)"
  using loop_typed [OF assms(1,2), of "new_editor h" mx w h p] assms(3,4) encode_ascii_runes [OF assms(2)]
  by (simp add: ReadLine_def new_editor_def)

section \<open>The limit\<close>

lemma readByte_suffix: "readByte r = Some (b, r') \<Longrightarrow> \<exists>pre. stream r = pre @ b # stream r'"
proof -
  assume a: "readByte r = Some (b, r')"
  obtain c r1 where r1: "raw_byte r = Some (c, r1)" "stream r = c # stream r1"
    using raw_byte_stream [of r] a by (auto simp: readByte_def split: option.splits)
  show ?thesis
  proof (cases "rd_discardLF r1 \<and> c = LF")
    case True
    then have "raw_byte (r1\<lparr>rd_discardLF := False\<rparr>) = Some (b, r')" using a r1 by (simp add: readByte_def)
    then have "stream (r1\<lparr>rd_discardLF := False\<rparr>) = b # stream r'"
      using raw_byte_stream [of "r1\<lparr>rd_discardLF := False\<rparr>"] by simp
    then have "stream r = [c] @ b # stream r'" using r1 by (simp add: stream_def)
    then show ?thesis by blast
  next
    case False
    then have "stream r = [] @ b # stream r'" using a r1 by (auto simp: readByte_def stream_def split: if_splits)
    then show ?thesis by blast
  qed
qed

lemma escape_tail_suffix: "escape_tail n sq r = Some (sq', r') \<Longrightarrow> \<exists>pre. stream r = pre @ stream r'"
proof (induction n sq r rule: escape_tail.induct)
  case (2 n sq r)
  obtain c r1 where r1: "readByte r = Some (c, r1)" using 2(2) by (auto split: option.splits)
  obtain pre where pre: "stream r = pre @ c # stream r1" using readByte_suffix [OF r1] by blast
  show ?case
  proof (cases "escape_final c")
    case True
    then have "r' = r1" using 2(2) r1 by simp
    then have "stream r = (pre @ [c]) @ stream r'" using pre by simp
    then show ?thesis by blast
  next
    case False
    then obtain pre2 where "stream r1 = pre2 @ stream r'" using 2(1) [OF r1 refl False] 2(2) r1 by auto
    then have "stream r = (pre @ c # pre2) @ stream r'" using pre by simp
    then show ?thesis by blast
  qed
qed auto

lemma readEscapeSequence_suffix: "readEscapeSequence r = Some (sq, r') \<Longrightarrow> set (stream r') \<subseteq> set (stream r)"
proof -
  assume a: "readEscapeSequence r = Some (sq, r')"
  obtain b r1 where r1: "readByte r = Some (b, r1)" using a by (auto simp: readEscapeSequence_def split: option.splits)
  have "set (stream r1) \<subseteq> set (stream r)" using readByte_suffix [OF r1] by auto
  moreover have "set (stream r') \<subseteq> set (stream r1)"
    using a r1 by (auto simp: readEscapeSequence_def split: if_splits dest!: escape_tail_suffix)
  ultimately show ?thesis by blast
qed

lemma reread_rune_suffix: "reread_rune b r = (ru, r') \<Longrightarrow> set (stream r') \<subseteq> insert b (set (stream r))"
proof -
  assume a: "reread_rune b r = (ru, r')"
  obtain s cs where f: "fill_rune (b # rd_buf r) (rd_chunks r) = (s, cs)" by fastforce
  have "s @ concat cs = b # stream r" using fill_rune_concat [OF f] by (simp add: stream_def)
  then have "set s \<union> set (concat cs) = insert b (set (stream r))" by (metis set_append list.simps(15))
  moreover have "set (stream r') \<subseteq> set s \<union> set (concat cs)"
    using a f set_drop_subset [of "utf8_size s" s] set_drop_subset [of 1 s]
    by (auto simp: reread_rune_def stream_def drop_Suc split: if_splits)
  ultimately show ?thesis by simp
qed

definition line_fits :: "nat \<Rightarrow> lineEditor \<Rightarrow> bool" where
  "line_fits mx ed \<longleftrightarrow> length (le_buf ed) \<le> mx \<and> length (le_draft ed) \<le> mx"

lemma fits_emit [simp]:
  "line_fits mx (emit v ed) = line_fits mx ed" "line_fits mx (redraw p ed) = line_fits mx ed"
  "line_fits mx (put_text b c ed) \<longleftrightarrow> length b \<le> mx \<and> length (le_draft ed) \<le> mx"
  "line_fits mx (setBuffer mx p v ed) \<longleftrightarrow> length (le_draft ed) \<le> mx"
  by (auto simp: line_fits_def)

lemma fits_keys:
  assumes "line_fits mx ed"
  shows "line_fits mx (key_left p ed)" "line_fits mx (key_right p ed)" "line_fits mx (key_home p ed)" "line_fits mx (key_end p ed)"
    "line_fits mx (key_delete p ed)" "line_fits mx (key_backspace p ed)" "line_fits mx (key_kill_end p ed)"
    "line_fits mx (key_kill_start p ed)" "line_fits mx (key_kill_next_word p ed)"
    "line_fits mx (key_clear p ed)"
    "line_fits mx (key_next h mx p ed)" "line_fits mx (key_previous h mx p ed)" "line_fits mx (key_reverse h mx p ed)"
  using assms next_ge [of "le_cursor ed" "le_buf ed"]
  by (auto simp: key_defs key_next_def key_previous_def key_reverse_def line_fits_def Let_def split: option.splits)

lemma fits_text:
  assumes "line_fits mx ed" "line_ok h ed"
  shows "line_fits mx (key_kill_word p ed)" "line_fits mx (key_yank mx p ed)"
proof -
  let ?b = "back_while not_space (le_buf ed) (back_while rune_is_space (le_buf ed) (le_cursor ed))"
  have "?b \<le> le_cursor ed" by (rule le_trans [OF back_while_le back_while_le])
  then show "line_fits mx (key_kill_word p ed)" "line_fits mx (key_yank mx p ed)"
    using assms by (auto simp: key_kill_word_def key_yank_def line_fits_def line_ok_def Let_def)
qed

lemma fits_escape: "line_fits mx ed \<Longrightarrow> line_fits mx (key_escape h mx p sq ed)"
  by (auto simp: key_escape_def fits_keys) (auto simp: line_fits_def)

lemma fits_control:
  assumes "line_fits mx ed" "line_ok h ed" "control_key w h mx p n = Some key" "n \<noteq> 9"
  shows "line_fits mx (key ed)"
  using assms fits_keys [OF assms(1)] fits_text [OF assms(1,2)] by (auto simp: control_key_def split: if_splits)

lemma fits_line_key:
  assumes "line_key w h mx p b ed r = Editing ed' r'" "line_ok h ed" "line_fits mx ed" "b \<noteq> CHR 0x09"
  shows "line_fits mx ed' \<and> set (stream r') \<subseteq> insert b (set (stream r))"
proof -
  let ?ed = "if (of_char b :: nat) \<noteq> 18 then ed\<lparr>le_rev_active := False\<rparr> else ed"
  have ok: "line_ok h ?ed" and fit: "line_fits mx ?ed" using assms(2,3) by (simp_all add: line_ok_def line_fits_def)
  have "(of_char (CHR 0x09) :: nat) = 9" by simp
  then have n: "(of_char b :: nat) \<noteq> 9" using assms(4) by (metis of_char_eq_iff)
  have ins: "line_fits mx (insert_byte p b ?ed)" "line_fits mx (insert_key p ru ?ed)" if "length (le_buf ?ed) < mx" for ru
    using that ok fit by (auto simp: insert_byte_def insert_key_def insertRune_def line_fits_def line_ok_def Let_def)
  note keys = fits_control [OF fit ok _ n] fits_escape [OF fit] fits_keys(5) [OF fit] ins
  show ?thesis using assms(1) fit keys
    by (auto simp: line_key_def Let_def not_le split: if_splits option.splits prod.splits
        dest!: readEscapeSequence_suffix reread_rune_suffix)
qed

lemma step_result:
  assumes "line_step w h mx p ed r = LineRead line out r'" "line_ok h ed"
  shows "line = [] \<or> line = encode_runes (le_buf ed) \<and> scalars (le_buf ed)"
  using assms by (auto simp: line_step_def line_key_def line_ok_def Let_def split: option.splits if_splits prod.splits)

lemma fits_line_step:
  assumes "line_step w h mx p ed r = Editing ed' r'" "line_ok h ed" "line_fits mx ed" "CHR 0x09 \<notin> set (stream r)"
  shows "line_fits mx ed' \<and> CHR 0x09 \<notin> set (stream r')"
proof -
  obtain b r1 where b: "readByte r = Some (b, r1)" "line_key w h mx p b ed r1 = Editing ed' r'"
    using assms(1) by (auto simp: line_step_def split: option.splits)
  obtain pre where "stream r = pre @ b # stream r1" using readByte_suffix [OF b(1)] by blast
  then have "b \<noteq> CHR 0x09" "CHR 0x09 \<notin> set (stream r1)" using assms(4) by auto
  then show ?thesis using fits_line_key [OF b(2) assms(2,3)] by auto
qed

lemma loop_limit:
  assumes "line_loop w h mx p ed r = LineRead line out r'" "line_ok h ed"
  shows "valid_utf8 line \<and> (line_fits mx ed \<and> CHR 0x09 \<notin> set (stream r) \<longrightarrow> length (runes line) \<le> mx)"
  using assms
proof (induction w h mx p ed r rule: line_loop.induct)
  case (1 w h mx p ed r)
  show ?case
  proof (cases "line_step w h mx p ed r")
    case (Editing ed' r1)
    have "line_ok h ed'" using line_step_ok [OF Editing 1(3)] .
    moreover have "line_loop w h mx p ed' r1 = LineRead line out r'"
      using 1(2) Editing by (subst (asm) line_loop.simps) simp
    ultimately show ?thesis using 1(1) [OF Editing] fits_line_step [OF Editing 1(3)] by blast
  next
    case (LineRead l o2 r2)
    then have "l = line" using 1(2) by (subst (asm) line_loop.simps) simp
    then show ?thesis using step_result [OF LineRead 1(3)] by (auto simp: line_fits_def)
  next
    case (LineFailed o2)
    then show ?thesis using 1(2) by (subst (asm) line_loop.simps) simp
  qed
qed

text \<open>Every line that is read is valid UTF-8, and without Tab it has at most the limit's runes.\<close>

lemma ReadLine_limit:
  assumes "ReadLine w h mx p r = LineRead line out r'"
  shows "valid_utf8 line \<and> (CHR 0x09 \<notin> set (stream r) \<longrightarrow> length (runes line) \<le> mx)"
  using loop_limit [OF assms [unfolded ReadLine_def] new_editor_ok] by (simp add: line_fits_def new_editor_def)

text \<open>
  Completion does not ask for the limit: at two runes of a limit of two, Tab leaves four.
\<close>

lemma completion_ignores_limit:
  "\<exists>key. control_key w [] 2 [] 9 = Some key
    \<and> length (le_buf (key ((new_editor [])\<lparr>le_buf := ascii_runes ''zi'', le_cursor := 2\<rparr>))) = 4"
proof -
  have r: "ascii_runes ''zi'' = [122, 105]" by (simp add: ascii_runes_def)
  have e: "encode_runes (ascii_runes ''zi'') = ''zi''"
    by (rule encode_ascii_runes) (simp add: printable_def byte_in_def)
  have s: "runes ''zi'' = ascii_runes ''zi''"
    by (simp add: runes_def utf8_chunks_ascii_list is_ascii_def ascii_runes_def)
  have b: "back_while not_space [122, 105] 2 = 0"
    unfolding numeral_2_eq_2 by (simp add: not_space_def rune_is_space_def)
  have f: "forward_while not_space [122, 105] 2 = 2"
    by (subst forward_while.simps) simp
  have c: "completeVirtualLine w ''zi'' 2 = (0, 2, [''zip''])"
  proof -
    have "List.filter (\<lambda>c. HasPrefix c ''zi'') virtualSSHCommands = [''zip'']"
      by (simp add: virtualSSHCommands_def HasPrefix_def)
    then show ?thesis
      using e [unfolded r] b f f [unfolded numeral_2_eq_2]
      unfolding completeVirtualLine_def s r
      by (simp add: Contains_def Let_def HasPrefix_def not_space_def rune_is_space_def)
  qed
  have d: "drop 2 (ascii_runes ''zi'') = []" by (simp add: r)
  have z: "runes ''zip'' = [122, 105, 112]" by (simp add: runes_def utf8_chunks_ascii_list is_ascii_def)
  show ?thesis
    by (simp add: control_key_def key_complete_def e c replace_word_def z new_editor_def HasSuffix_def d)
qed

text \<open>A path directly below the root is completed from the working directory.\<close>

lemma root_completes_cwd:
  assumes "slash \<notin> set base"
  shows "m \<in> set (completeVirtualPath w (slash # base)) \<longleftrightarrow>
    (\<exists>d \<in> fst ` set (dirs w). d \<noteq> cwd w \<and> Dir d = cwd w \<and> HasPrefix (Base d) base \<and> m = slash # Base d @ ''/'')
    \<or> (\<exists>f \<in> fst ` set (files w). Dir f = cwd w \<and> HasPrefix (Base f) base \<and> m = slash # Base f)"
proof -
  have "LastIndexByte base slash = None" using assms by (induction base) auto
  then have "LastIndexByte (slash # base) slash = Some 0" by simp
  moreover have "resolve w [] = cwd w" by (simp add: resolve_def)
  ultimately show ?thesis
    by (auto simp: completeVirtualPath_def TrimSuffix_def HasSuffix_def slash_def Let_def)
qed

section \<open>History\<close>

lemma addHistory_bound: "length h \<le> maxVirtualHistory \<Longrightarrow> length (addHistory line h) \<le> maxVirtualHistory"
  by (auto simp: addHistory_def maxVirtualHistory_def Let_def)

section \<open>Witnesses\<close>

definition split_input :: lineReader where
  "split_input = \<lparr>rd_buf = ''l'', rd_chunks = [''s'' @ [CR], [], [LF] @ ''pwd''], rd_discardLF = False\<rparr>"

lemma split_pending: "pending split_input = ''ls'' @ CR # LF # ''pwd''"
  by (simp add: split_input_def pending_def stream_def CR_def LF_def)

theorem ReadLine_typed_witness:
  "\<forall>w. \<exists>out r'. ReadLine w [] 10 ''$ '' split_input = LineRead ''ls'' out r' \<and> pending r' = ''pwd''"
  using ReadLine_typed [OF split_pending, of 10]
  by (simp add: printable_def byte_in_def)

theorem ReadLine_limit_witness:
  "\<forall>w. \<exists>line out r'. ReadLine w [] 10 ''$ '' split_input = LineRead line out r' \<and> length (runes line) \<le> 10"
proof
  fix w
  obtain line out r' where l: "ReadLine w [] 10 ''$ '' split_input = LineRead line out r'"
    using loop_typed [OF split_pending, of "new_editor []" 10 w "[]" "''$ ''"]
    by (auto simp: ReadLine_def new_editor_def printable_def byte_in_def)
  moreover have "CHR 0x09 \<notin> set (stream split_input)" by (simp add: split_input_def stream_def CR_def LF_def)
  ultimately show "\<exists>line out r'. ReadLine w [] 10 ''$ '' split_input = LineRead line out r' \<and> length (runes line) \<le> 10"
    using ReadLine_limit [OF l] by blast
qed

theorem line_editor_invariant_witness:
  "\<forall>w. \<exists>ed r. line_reach w [] 10 ''$ '' split_input ed r \<and> le_buf ed = [108] \<and> line_ok [] ed"
proof
  fix w
  have p: "pending split_input = CHR ''l'' # (''s'' @ CR # LF # ''pwd'')" using split_pending by simp
  obtain ed r where st: "line_step w [] 10 ''$ '' (new_editor []) split_input = Editing ed r"
      "le_buf ed = le_buf (new_editor []) @ [of_char (CHR ''l'')]"
    by (rule step_typed [OF p, of "new_editor []" 10 w "[]" "''$ ''"])
      (auto simp: new_editor_def printable_def byte_in_def)
  have "line_reach w [] 10 ''$ '' split_input ed r" by (rule line_reach.went_on [OF line_reach.begun st(1)])
  then show "\<exists>ed r. line_reach w [] 10 ''$ '' split_input ed r \<and> le_buf ed = [108] \<and> line_ok [] ed"
    using line_editor_invariant st(2) by (fastforce simp: new_editor_def)
qed

theorem line_keys_refine_witness:
  "\<forall>w. control_key w [] 10 ''$ '' 21 = Some (key_kill_start ''$ '')
    \<and> zipper_of (key_kill_start ''$ '' ((new_editor [])\<lparr>le_buf := [97, 98, 99], le_cursor := 2\<rparr>)) = ([], [99])"
proof
  fix w
  let ?ed = "(new_editor [])\<lparr>le_buf := [97, 98, 99], le_cursor := 2\<rparr>"
  have ok: "line_ok [] ?ed" by (simp add: line_ok_def new_editor_def scalar_def)
  have k: "control_key w [] 10 ''$ '' 21 = Some (key_kill_start ''$ '')" by (simp add: control_key_def)
  show "control_key w [] 10 ''$ '' 21 = Some (key_kill_start ''$ '')
    \<and> zipper_of (key_kill_start ''$ '' ?ed) = ([], [99])"
    using conjunct1 [OF line_keys_refine [OF ok, of w 10 "''$ ''"], rule_format, OF conjI [OF k]] k
    by (simp only: zip_control_def) (simp add: zipper_of_def)
qed

end
