(* ===== verification/TextEditor.thy ===== *)
theory TextEditor
  imports Terminal
begin

text \<open>
  The full-screen editors of an SSH session (\<open>internal/server/trap_ssh_editor.go\<close>): the text
  buffer they share, and the key loops of \<open>vim\<close> and \<open>nano\<close>. Rows and columns are the
  code's signed integers; an access out of range, which panics in Go, is \<open>None\<close>. Drawing the
  screen is left out: it only reads the state. \<open>exec\<close> is the effect of a shell command on the
  world (\<open>:!\<close>), \<open>uni\<close> the case mapping outside ASCII, \<open>now\<close> the time of the write.
\<close>

section \<open>The text buffer\<close>

record textBuffer =
  tb_lines :: "string list"
  tb_row :: int
  tb_col :: int
  tb_modified :: bool
  tb_yank :: string
  tb_undo :: "string list"

definition newVirtualTextBuffer :: "string \<Rightarrow> textBuffer" where
  "newVirtualTextBuffer content0 =
     (let content = ReplaceAll (ReplaceAll content0 [CR, LF] [LF]) [CR] [LF];
          lines = SplitByte content LF;
          lines = (if 1 < length lines \<and> last lines = [] then butlast lines else lines);
          lines = (if lines = [] then [[]] else lines)
      in \<lparr>tb_lines = lines, tb_row = 0, tb_col = 0, tb_modified = False, tb_yank = [], tb_undo = []\<rparr>)"

definition snapshot :: "textBuffer \<Rightarrow> textBuffer" where
  "snapshot b = b\<lparr>tb_undo := tb_lines b\<rparr>"

definition RuneCount :: "string \<Rightarrow> int" where "RuneCount s = int (length (runes s))"

definition line_at :: "textBuffer \<Rightarrow> int \<Rightarrow> string option" where
  "line_at b i = (if 0 \<le> i \<and> i < int (length (tb_lines b)) then Some (tb_lines b ! nat i) else None)"

definition clamp :: "textBuffer \<Rightarrow> textBuffer" where
  "clamp b0 =
     (let b = (if tb_lines b0 = [] then b0\<lparr>tb_lines := [[]]\<rparr> else b0);
          b = (if tb_row b < 0 then b\<lparr>tb_row := 0\<rparr> else b);
          b = (if int (length (tb_lines b)) \<le> tb_row b then b\<lparr>tb_row := int (length (tb_lines b)) - 1\<rparr> else b);
          mx = RuneCount (tb_lines b ! nat (tb_row b));
          b = (if tb_col b < 0 then b\<lparr>tb_col := 0\<rparr> else b)
      in if mx < tb_col b then b\<lparr>tb_col := mx\<rparr> else b)"

text \<open>\<open>undo\<close> is \<open>nil\<close> exactly when it is empty: a snapshot copies at least one line.\<close>

definition restoreUndo :: "textBuffer \<Rightarrow> textBuffer" where
  "restoreUndo b =
     (if tb_undo b = [] then b
      else clamp (b\<lparr>tb_lines := tb_undo b, tb_undo := tb_lines b\<rparr>)\<lparr>tb_modified := True\<rparr>)"

definition set_line :: "int \<Rightarrow> string \<Rightarrow> textBuffer \<Rightarrow> textBuffer" where
  "set_line i v b = b\<lparr>tb_lines := (tb_lines b)[nat i := v]\<rparr>"

definition col_in :: "textBuffer \<Rightarrow> nat list \<Rightarrow> bool" where
  "col_in b line \<longleftrightarrow> 0 \<le> tb_col b \<and> tb_col b \<le> int (length line)"

definition insert_rune :: "nat \<Rightarrow> textBuffer \<Rightarrow> textBuffer option" where
  "insert_rune r b =
     (case line_at b (tb_row b) of
        None \<Rightarrow> None
      | Some v \<Rightarrow>
          if col_in b (runes v) then
            Some ((set_line (tb_row b) (encode_runes (insertRune (runes v) (nat (tb_col b)) r)) (snapshot b))
                    \<lparr>tb_col := tb_col b + 1, tb_modified := True\<rparr>)
          else None)"

definition newline :: "textBuffer \<Rightarrow> textBuffer option" where
  "newline b =
     (case line_at b (tb_row b) of
        None \<Rightarrow> None
      | Some v \<Rightarrow>
          if col_in b (runes v) then
            (let i = nat (tb_row b); c = nat (tb_col b);
                 left = encode_runes (take c (runes v)); right = encode_runes (drop c (runes v))
             in Some ((snapshot b)\<lparr>tb_lines := take i (tb_lines b) @ [left, right] @ drop (i + 1) (tb_lines b),
                        tb_row := tb_row b + 1, tb_col := 0, tb_modified := True\<rparr>))
          else None)"

definition backspace :: "textBuffer \<Rightarrow> textBuffer option" where
  "backspace b =
     (if 0 < tb_col b then
        (case line_at b (tb_row b) of
           None \<Rightarrow> None
         | Some v \<Rightarrow>
             if col_in b (runes v) then
               (let c = nat (tb_col b) in
                Some ((set_line (tb_row b) (encode_runes (take (c - 1) (runes v) @ drop c (runes v))) (snapshot b))
                        \<lparr>tb_col := tb_col b - 1, tb_modified := True\<rparr>))
             else None)
      else if 0 < tb_row b then
        (case (line_at b (tb_row b - 1), line_at b (tb_row b)) of
           (Some prev, Some v) \<Rightarrow>
             (let i = nat (tb_row b) in
              Some ((snapshot b)\<lparr>tb_lines := take (i - 1) (tb_lines b) @ [prev @ v] @ drop (i + 1) (tb_lines b),
                      tb_row := tb_row b - 1, tb_col := RuneCount prev, tb_modified := True\<rparr>))
         | _ \<Rightarrow> None)
      else Some b)"

definition deleteAt :: "textBuffer \<Rightarrow> textBuffer option" where
  "deleteAt b =
     (case line_at b (tb_row b) of
        None \<Rightarrow> None
      | Some v \<Rightarrow>
          if tb_col b < RuneCount v then
            (if 0 \<le> tb_col b then
               (let c = nat (tb_col b) in
                Some ((set_line (tb_row b) (encode_runes (take c (runes v) @ drop (c + 1) (runes v))) (snapshot b))
                        \<lparr>tb_modified := True\<rparr>))
             else None)
          else Some b)"

definition deleteLine :: "textBuffer \<Rightarrow> textBuffer option" where
  "deleteLine b =
     (case line_at b (tb_row b) of
        None \<Rightarrow> None
      | Some v \<Rightarrow>
          (let i = nat (tb_row b) in
           Some (clamp ((snapshot b)
             \<lparr>tb_yank := v,
              tb_lines := (if length (tb_lines b) = 1 then [[]] else take i (tb_lines b) @ drop (i + 1) (tb_lines b)),
              tb_col := 0, tb_modified := True\<rparr>))))"

definition pasteLine :: "textBuffer \<Rightarrow> textBuffer option" where
  "pasteLine b =
     (if tb_yank b = [] then Some b
      else (let i = tb_row b + 1 in
            if 0 \<le> i \<and> i \<le> int (length (tb_lines b)) then
              Some ((snapshot b)\<lparr>tb_lines := take (nat i) (tb_lines b) @ [tb_yank b] @ drop (nat i) (tb_lines b),
                      tb_row := i, tb_col := 0, tb_modified := True\<rparr>)
            else None))"

definition content :: "textBuffer \<Rightarrow> string" where
  "content b = Join (tb_lines b) [LF] @ [LF]"

definition line_end :: "textBuffer \<Rightarrow> textBuffer option" where
  "line_end b = (case line_at b (tb_row b) of None \<Rightarrow> None | Some v \<Rightarrow> Some (b\<lparr>tb_col := RuneCount v\<rparr>))"

text \<open>The arrow and function keys, the same in all three key loops.\<close>

definition move_key :: "string \<Rightarrow> textBuffer \<Rightarrow> textBuffer option" where
  "move_key sq b =
     (if sq = ''[A'' then Some (b\<lparr>tb_row := tb_row b - 1\<rparr>)
      else if sq = ''[B'' then Some (b\<lparr>tb_row := tb_row b + 1\<rparr>)
      else if sq = ''[C'' then Some (b\<lparr>tb_col := tb_col b + 1\<rparr>)
      else if sq = ''[D'' then Some (b\<lparr>tb_col := tb_col b - 1\<rparr>)
      else if sq \<in> set [''[H'', ''[1~'', ''[7~'', ''OH''] then Some (b\<lparr>tb_col := 0\<rparr>)
      else if sq \<in> set [''[F'', ''[4~'', ''[8~'', ''OF''] then line_end b
      else if sq = ''[3~'' then deleteAt b
      else Some b)"

text \<open>The search starts at the row of the cursor.\<close>

fun search_lines :: "string \<Rightarrow> nat \<Rightarrow> string list \<Rightarrow> (nat \<times> int) option" where
  "search_lines q i [] = None"
| "search_lines q i (v # vs) =
     (case Index v q of Some col \<Rightarrow> Some (i, RuneCount (take col v)) | None \<Rightarrow> search_lines q (i + 1) vs)"

text \<open>The outer option is the panic of a negative row, the inner one the search that finds nothing.\<close>

definition search_from :: "string \<Rightarrow> textBuffer \<Rightarrow> textBuffer option option" where
  "search_from q b =
     (if tb_row b < 0 then None
      else (case search_lines q (nat (tb_row b)) (drop (nat (tb_row b)) (tb_lines b)) of
              None \<Rightarrow> Some None
            | Some (i, col) \<Rightarrow> Some (Some (b\<lparr>tb_row := int i, tb_col := col\<rparr>))))"

section \<open>Command lines\<close>

function command_loop :: "string \<Rightarrow> lineReader \<Rightarrow> string option \<times> lineReader" where
  "command_loop buf r =
     (case readByte r of
        None \<Rightarrow> (None, r)
      | Some (b, r) \<Rightarrow>
          if b = CR then (Some buf, r\<lparr>rd_discardLF := True\<rparr>)
          else if b = LF then (Some buf, r)
          else if b = ESC \<or> b = CHR 0x03 then (None, r)
          else if b = CHR 0x08 \<or> b = CHR 0x7F then command_loop (butlast buf) r
          else if byte_in b 32 126 then command_loop (buf @ [b]) r
          else command_loop buf r)"
  by pat_completeness auto
termination
  by (relation "measure (\<lambda>(buf, r). unread r)") (auto dest: readByte_unread)

declare command_loop.simps [simp del]

definition readVirtualEditorCommand :: "lineReader \<Rightarrow> string option \<times> lineReader" where
  "readVirtualEditorCommand r = command_loop [] r"

section \<open>vim\<close>

record vim =
  v_buf :: textBuffer
  v_insert :: bool
  v_status :: string
  v_numbers :: bool
  v_pending :: "char option"
  v_name :: string
  v_world :: world

datatype editorStep =
    Continue vim lineReader
  | Leave vim lineReader
  | Panicked

definition with_buf :: "textBuffer option \<Rightarrow> vim \<Rightarrow> lineReader \<Rightarrow> editorStep" where
  "with_buf ob v r = (case ob of None \<Rightarrow> Panicked | Some b \<Rightarrow> Continue (v\<lparr>v_buf := b\<rparr>) r)"

definition quoted :: "string \<Rightarrow> string" where "quoted s = [CHR 0x22] @ s @ [CHR 0x22]"

definition vim_write :: "(string \<Rightarrow> string) \<Rightarrow> gotime \<Rightarrow> string \<Rightarrow> vim \<Rightarrow> vim \<times> bool" where
  "vim_write uni now dst v =
     (if dst = [] then (v\<lparr>v_status := ''E32: No file name''\<rparr>, False)
      else (case setVirtualFile uni now dst (content (v_buf v)) (v_world v) of
              (w, False) \<Rightarrow> (v\<lparr>v_world := w, v_status := ''E514: write error (file system full?)''\<rparr>, False)
            | (w, True) \<Rightarrow>
                (v\<lparr>v_world := w, v_name := dst, v_buf := (v_buf v)\<lparr>tb_modified := False\<rparr>,
                   v_status := quoted (Base dst) @ '' '' @ Itoa (int (length (tb_lines (v_buf v)))) @ ''L, ''
                     @ Itoa (int (length (content (v_buf v)))) @ ''B written''\<rparr>, True)))"

text \<open>The line after a colon.\<close>

definition vim_colon ::
  "(string \<Rightarrow> string) \<Rightarrow> gotime \<Rightarrow> (string \<Rightarrow> world \<Rightarrow> world) \<Rightarrow> string \<Rightarrow> vim \<Rightarrow> lineReader \<Rightarrow> editorStep" where
  "vim_colon uni now exec cmd v r =
     (if cmd = ''q'' then
        (if tb_modified (v_buf v)
         then Continue (v\<lparr>v_status := ''E37: No write since last change (add ! to override)''\<rparr>) r else Leave v r)
      else if cmd = ''q!'' then Leave v r
      else if cmd = ''w'' \<or> cmd = ''w!'' then Continue (fst (vim_write uni now (v_name v) v)) r
      else if HasPrefix cmd ''w '' then
        Continue (fst (vim_write uni now (resolve (v_world v) (TrimSpace (TrimPrefix cmd ''w ''))) v)) r
      else if cmd = ''wq'' \<or> cmd = ''wq!'' \<or> cmd = ''x'' then
        (if \<not> tb_modified (v_buf v) then Leave v r
         else (case vim_write uni now (v_name v) v of
                 (v, True) \<Rightarrow> Leave v r | (v, False) \<Rightarrow> Continue v r))
      else if cmd = ''set number'' \<or> cmd = ''set nu'' then Continue (v\<lparr>v_numbers := True\<rparr>) r
      else if cmd = ''set nonumber'' \<or> cmd = ''set nonu'' then Continue (v\<lparr>v_numbers := False\<rparr>) r
      else if HasPrefix cmd ''!'' then
        (let v = v\<lparr>v_world := exec (TrimSpace (TrimPrefix cmd ''!'')) (v_world v)\<rparr> in
         case readByte r of None \<Rightarrow> Continue v r | Some (_, r) \<Rightarrow> Continue v r)
      else if cmd = ''%d'' then
        Continue (v\<lparr>v_buf := (snapshot (v_buf v))\<lparr>tb_lines := [[]], tb_row := 0, tb_col := 0, tb_modified := True\<rparr>\<rparr>) r
      else Continue (v\<lparr>v_status := ''E492: Not an editor command: '' @ cmd\<rparr>) r)"

definition doubled :: "char \<Rightarrow> textBuffer option \<Rightarrow> vim \<Rightarrow> lineReader \<Rightarrow> editorStep" where
  "doubled c ob v r =
     (if v_pending v = Some c then with_buf ob (v\<lparr>v_pending := None\<rparr>) r
      else Continue (v\<lparr>v_pending := Some c\<rparr>) r)"

definition open_above :: "textBuffer \<Rightarrow> textBuffer option" where
  "open_above b =
     (let i = nat (tb_row b) in
      if 0 \<le> tb_row b \<and> tb_row b \<le> int (length (tb_lines b)) then
        Some ((snapshot b)\<lparr>tb_lines := take i (tb_lines b) @ [[]] @ drop i (tb_lines b), tb_col := 0, tb_modified := True\<rparr>)
      else None)"

definition yank_line :: "textBuffer \<Rightarrow> textBuffer option" where
  "yank_line b = (case line_at b (tb_row b) of None \<Rightarrow> None | Some l \<Rightarrow> Some (b\<lparr>tb_yank := l\<rparr>))"

definition append_col :: "textBuffer \<Rightarrow> textBuffer option" where
  "append_col b =
     (case line_at b (tb_row b) of
        None \<Rightarrow> None
      | Some l \<Rightarrow> Some (if tb_col b < RuneCount l then b\<lparr>tb_col := tb_col b + 1\<rparr> else b))"

text \<open>The keys of the normal mode that act on the buffer alone.\<close>

definition normal_key :: "char \<Rightarrow> vim \<Rightarrow> lineReader \<Rightarrow> editorStep" where
  "normal_key c v r =
     (let b = v_buf v; ins = v\<lparr>v_insert := True\<rparr> in
      if c = CHR ''i'' then Continue ins r
      else if c = CHR ''a'' then with_buf (append_col b) ins r
      else if c = CHR ''o'' then with_buf (Option.bind (line_end b) newline) ins r
      else if c = CHR ''O'' then with_buf (open_above b) ins r
      else if c = CHR ''h'' then Continue (v\<lparr>v_buf := b\<lparr>tb_col := tb_col b - 1\<rparr>\<rparr>) r
      else if c = CHR ''j'' then Continue (v\<lparr>v_buf := b\<lparr>tb_row := tb_row b + 1\<rparr>\<rparr>) r
      else if c = CHR ''k'' then Continue (v\<lparr>v_buf := b\<lparr>tb_row := tb_row b - 1\<rparr>\<rparr>) r
      else if c = CHR ''l'' then Continue (v\<lparr>v_buf := b\<lparr>tb_col := tb_col b + 1\<rparr>\<rparr>) r
      else if c = CHR ''0'' then Continue (v\<lparr>v_buf := b\<lparr>tb_col := 0\<rparr>\<rparr>) r
      else if c = CHR ''$'' then with_buf (line_end b) v r
      else if c = CHR ''x'' then with_buf (deleteAt b) v r
      else if c = CHR ''u'' then with_buf (Some (restoreUndo b)) v r
      else if c = CHR ''p'' then with_buf (pasteLine b) v r
      else if c = CHR ''d'' then doubled c (deleteLine b) v r
      else if c = CHR ''y'' then doubled c (yank_line b) v r
      else if c = CHR ''g'' then doubled c (Some (b\<lparr>tb_row := 0, tb_col := 0\<rparr>)) v r
      else if c = CHR ''G'' then with_buf (Some (b\<lparr>tb_row := int (length (tb_lines b)) - 1, tb_col := 0\<rparr>)) v r
      else Continue (v\<lparr>v_pending := None\<rparr>) r)"

definition clamped :: "editorStep \<Rightarrow> editorStep" where
  "clamped s = (case s of Continue v r \<Rightarrow> Continue (v\<lparr>v_buf := clamp (v_buf v)\<rparr>) r | _ \<Rightarrow> s)"

definition vim_normal ::
  "(string \<Rightarrow> string) \<Rightarrow> gotime \<Rightarrow> (string \<Rightarrow> world \<Rightarrow> world) \<Rightarrow> char \<Rightarrow> vim \<Rightarrow> lineReader \<Rightarrow> editorStep" where
  "vim_normal uni now exec c v r =
     (if c = CHR '':'' then
        (case readVirtualEditorCommand r of
           (None, r) \<Rightarrow> Continue v r
         | (Some cmd, r) \<Rightarrow> clamped (vim_colon uni now exec (TrimSpace cmd) v r))
      else if c = CHR ''/'' then
        (case readVirtualEditorCommand r of
           (Some q, r) \<Rightarrow>
             clamped (if q = [] then Continue v r
                      else (case search_from q (v_buf v) of
                              None \<Rightarrow> Panicked
                            | Some None \<Rightarrow> Continue (v\<lparr>v_status := ''Pattern not found: '' @ q\<rparr>) r
                            | Some (Some b) \<Rightarrow> Continue (v\<lparr>v_buf := b\<rparr>) r))
         | (None, r) \<Rightarrow> clamped (Continue v r))
      else clamped (normal_key c v r))"

text \<open>A byte that is typed as text.\<close>

definition type_byte :: "char \<Rightarrow> textBuffer \<Rightarrow> lineReader \<Rightarrow> textBuffer option \<times> lineReader" where
  "type_byte b buf r =
     (if byte_in b 32 126 then (insert_rune (of_char b) buf, r)
      else if byte_in b 128 255 then (case reread_rune b r of (ru, r) \<Rightarrow> (insert_rune ru buf, r))
      else (Some buf, r))"

definition vim_insert :: "char \<Rightarrow> vim \<Rightarrow> lineReader \<Rightarrow> editorStep" where
  "vim_insert c v r =
     (if c = ESC then
        (case readEscapeSequenceMaybe r of
           None \<Rightarrow> Leave v r
         | Some (sq, r) \<Rightarrow>
             if sq = [] then Continue (v\<lparr>v_insert := False, v_pending := None\<rparr>) r
             else clamped (with_buf (move_key sq (v_buf v)) v r))
      else if c = CR then with_buf (newline (v_buf v)) v (r\<lparr>rd_discardLF := True\<rparr>)
      else if c = LF then with_buf (newline (v_buf v)) v r
      else if c = CHR 0x08 \<or> c = CHR 0x7F then with_buf (backspace (v_buf v)) v r
      else (case type_byte c (v_buf v) r of (ob, r) \<Rightarrow> with_buf ob v r))"

definition vim_step ::
  "(string \<Rightarrow> string) \<Rightarrow> gotime \<Rightarrow> (string \<Rightarrow> world \<Rightarrow> world) \<Rightarrow> vim \<Rightarrow> lineReader \<Rightarrow> editorStep" where
  "vim_step uni now exec v0 r =
     (case readByte r of
        None \<Rightarrow> Leave v0 r
      | Some (c, r) \<Rightarrow>
          (let v = v0\<lparr>v_status := []\<rparr> in
           if v_insert v then vim_insert c v r
           else if c = ESC then
             (case readEscapeSequenceMaybe r of
                None \<Rightarrow> Leave v r
              | Some (sq, r) \<Rightarrow> clamped (with_buf (move_key sq (v_buf v)) v r))
           else vim_normal uni now exec c v r))"

definition new_vim :: "world \<Rightarrow> string \<Rightarrow> vim" where
  "new_vim w target =
     \<lparr>v_buf = newVirtualTextBuffer (if target \<noteq> [] then lookup_or [] (files w) target else []),
      v_insert = False, v_status = [], v_numbers = False, v_pending = None, v_name = target, v_world = w\<rparr>"

text \<open>Every round takes a byte of the input.\<close>

lemma command_loop_unread: "command_loop buf r = (c, r') \<Longrightarrow> unread r' \<le> unread r"
proof (induction "unread r" arbitrary: buf r rule: less_induct)
  case less
  show ?case
  proof (cases "readByte r")
    case None
    then show ?thesis using less.prems by (subst (asm) command_loop.simps) simp
  next
    case (Some p)
    obtain b r1 where p: "p = (b, r1)" by (cases p)
    have le: "unread r1 < unread r" using readByte_unread Some p by blast
    have "command_loop buf1 r1 = (c, r') \<Longrightarrow> unread r' \<le> unread r" for buf1
      using less.hyps [OF le, of buf1] le by simp
    then show ?thesis using less.prems Some p le
      by (subst (asm) command_loop.simps) (auto split: if_splits)
  qed
qed

lemma readEscapeSequenceMaybe_unread: "readEscapeSequenceMaybe r = Some (sq, r') \<Longrightarrow> unread r' \<le> unread r"
proof (cases "rd_buf r = []")
  case False
  assume a: "readEscapeSequenceMaybe r = Some (sq, r')"
  obtain b r1 where b: "readByte r = Some (b, r1)" using a False by (auto simp: readEscapeSequenceMaybe_def split: option.splits)
  have "unread (r1\<lparr>rd_buf := b # rd_buf r1\<rparr>) = Suc (unread r1)" by (simp add: unread_def)
  then show ?thesis using a b False readByte_unread [OF b]
    by (auto simp: readEscapeSequenceMaybe_def split: if_splits dest!: escape_tail_unread)
qed (simp add: readEscapeSequenceMaybe_def)

lemma with_buf_Continue: "with_buf ob v r = Continue v' r' \<longleftrightarrow> (\<exists>b. ob = Some b \<and> v' = v\<lparr>v_buf := b\<rparr> \<and> r' = r)"
  by (auto simp: with_buf_def split: option.splits)

lemma clamped_Continue:
  "clamped s = Continue v r \<longleftrightarrow> (\<exists>v0. s = Continue v0 r \<and> v = v0\<lparr>v_buf := clamp (v_buf v0)\<rparr>)"
  by (auto simp: clamped_def split: editorStep.splits)

lemma vim_colon_unread: "vim_colon uni now exec cmd v r = Continue v' r' \<Longrightarrow> unread r' \<le> unread r"
  by (auto simp: vim_colon_def Let_def split: if_splits option.splits prod.splits bool.splits dest!: readByte_unread)

lemma normal_key_unread: "normal_key c v r = Continue v' r' \<Longrightarrow> r' = r"
  by (auto simp: normal_key_def doubled_def Let_def with_buf_Continue split: if_splits)

lemma vim_normal_unread: "vim_normal uni now exec c v r = Continue v' r' \<Longrightarrow> unread r' \<le> unread r"
  by (auto simp: vim_normal_def readVirtualEditorCommand_def clamped_Continue split: if_splits prod.splits option.splits
      dest!: normal_key_unread command_loop_unread vim_colon_unread)

lemma vim_insert_unread: "vim_insert c v r = Continue v' r' \<Longrightarrow> unread r' \<le> unread r"
  by (auto simp: vim_insert_def type_byte_def clamped_Continue with_buf_Continue split: if_splits prod.splits option.splits
      dest!: readEscapeSequenceMaybe_unread reread_rune_unread)

lemma vim_step_unread: "vim_step uni now exec v r = Continue v' r' \<Longrightarrow> unread r' < unread r"
  by (auto simp: vim_step_def clamped_Continue with_buf_Continue Let_def split: if_splits option.splits prod.splits
      dest!: vim_normal_unread vim_insert_unread readByte_unread readEscapeSequenceMaybe_unread)

function vim_loop ::
  "(string \<Rightarrow> string) \<Rightarrow> gotime \<Rightarrow> (string \<Rightarrow> world \<Rightarrow> world) \<Rightarrow> vim \<Rightarrow> lineReader \<Rightarrow> editorStep" where
  "vim_loop uni now exec v r =
     (case vim_step uni now exec v r of Continue v r \<Rightarrow> vim_loop uni now exec v r | s \<Rightarrow> s)"
  by pat_completeness auto
termination
  by (relation "measure (\<lambda>(uni, now, exec, v, r). unread r)") (auto dest: vim_step_unread)

declare vim_loop.simps [simp del]

definition runVirtualVim ::
  "(string \<Rightarrow> string) \<Rightarrow> gotime \<Rightarrow> (string \<Rightarrow> world \<Rightarrow> world) \<Rightarrow> string \<Rightarrow> world \<Rightarrow> lineReader \<Rightarrow> editorStep" where
  "runVirtualVim uni now exec target w r = vim_loop uni now exec (new_vim w target) r"

section \<open>nano\<close>

text \<open>The state is that of \<open>vim\<close> without its modes; what \<open>nano\<close> lacks keeps its initial value.\<close>

definition nano_write :: "(string \<Rightarrow> string) \<Rightarrow> gotime \<Rightarrow> vim \<Rightarrow> vim \<times> bool" where
  "nano_write uni now v0 =
     (let v = (if v_name v0 = [] then v0\<lparr>v_status := ''File Name to Write: /tmp/nano-buffer'', v_name := ''/tmp/nano-buffer''\<rparr> else v0) in
      case setVirtualFile uni now (v_name v) (content (v_buf v)) (v_world v) of
        (w, False) \<Rightarrow> (v\<lparr>v_world := w, v_status := ''Error writing file''\<rparr>, False)
      | (w, True) \<Rightarrow>
          (v\<lparr>v_world := w, v_buf := (v_buf v)\<lparr>tb_modified := False\<rparr>,
             v_status := ''[ Wrote '' @ Itoa (int (length (tb_lines (v_buf v)))) @ '' lines ]''\<rparr>, True))"

text \<open>Ctrl+X: a modified buffer is saved, dropped or kept open by the answer.\<close>

definition nano_exit :: "(string \<Rightarrow> string) \<Rightarrow> gotime \<Rightarrow> vim \<Rightarrow> lineReader \<Rightarrow> editorStep" where
  "nano_exit uni now v r =
     (if \<not> tb_modified (v_buf v) then Leave v r
      else (case readByte r of
              None \<Rightarrow> Leave v r
            | Some (a, r) \<Rightarrow>
                if a = CHR ''y'' \<or> a = CHR ''Y'' then
                  (case nano_write uni now v of (v, True) \<Rightarrow> Leave v r | (v, False) \<Rightarrow> Continue v r)
                else if a \<noteq> CHR ''n'' \<and> a \<noteq> CHR ''N'' then Continue v r
                else Leave v r))"

definition nano_cut :: "textBuffer \<Rightarrow> textBuffer option" where
  "nano_cut b = Option.bind (yank_line b) deleteLine"

definition nano_step :: "(string \<Rightarrow> string) \<Rightarrow> gotime \<Rightarrow> vim \<Rightarrow> lineReader \<Rightarrow> editorStep" where
  "nano_step uni now v0 r =
     (case readByte r of
        None \<Rightarrow> Leave v0 r
      | Some (c, r) \<Rightarrow>
          (let v = v0\<lparr>v_status := []\<rparr>; b = v_buf v in
           if c = CHR 0x18 then nano_exit uni now v r
           else clamped
             (if c = CHR 0x0F then Continue (fst (nano_write uni now v)) r
              else if c = CHR 0x0B then with_buf (nano_cut b) v r
              else if c = CHR 0x15 then with_buf (pasteLine b) v r
              else if c = CHR 0x17 then
                (case readVirtualEditorCommand r of
                   (Some q, r) \<Rightarrow>
                     if q = [] then Continue v r
                     else (case search_from q b of
                             None \<Rightarrow> Panicked
                           | Some None \<Rightarrow> Continue v r
                           | Some (Some b) \<Rightarrow> Continue (v\<lparr>v_buf := b\<rparr>) r)
                 | (None, r) \<Rightarrow> Continue v r)
              else if c = CHR 0x08 \<or> c = CHR 0x7F then with_buf (backspace b) v r
              else if c = CR then with_buf (newline b) v (r\<lparr>rd_discardLF := True\<rparr>)
              else if c = LF then with_buf (newline b) v r
              else if c = ESC then
                (case readEscapeSequenceMaybe r of
                   None \<Rightarrow> Leave v r
                 | Some (sq, r) \<Rightarrow> with_buf (move_key sq b) v r)
              else (case type_byte c b r of (ob, r) \<Rightarrow> with_buf ob v r))))"

lemma nano_step_unread: "nano_step uni now v r = Continue v' r' \<Longrightarrow> unread r' < unread r"
  by (auto simp: nano_step_def nano_exit_def type_byte_def readVirtualEditorCommand_def clamped_Continue with_buf_Continue Let_def
      split: if_splits option.splits prod.splits bool.splits
      dest!: readByte_unread readEscapeSequenceMaybe_unread command_loop_unread reread_rune_unread)

function nano_loop :: "(string \<Rightarrow> string) \<Rightarrow> gotime \<Rightarrow> vim \<Rightarrow> lineReader \<Rightarrow> editorStep" where
  "nano_loop uni now v r = (case nano_step uni now v r of Continue v r \<Rightarrow> nano_loop uni now v r | s \<Rightarrow> s)"
  by pat_completeness auto
termination
  by (relation "measure (\<lambda>(uni, now, v, r). unread r)") (auto dest: nano_step_unread)

declare nano_loop.simps [simp del]

definition runVirtualNano :: "(string \<Rightarrow> string) \<Rightarrow> gotime \<Rightarrow> string \<Rightarrow> world \<Rightarrow> lineReader \<Rightarrow> editorStep" where
  "runVirtualNano uni now target w r = nano_loop uni now (new_vim w target) r"

end
