(* ===== verification/TextEditorProofs.thy ===== *)
theory TextEditorProofs
  imports TextEditor TerminalProofs VfsProofs
begin

text \<open>
  The text buffer refines one text with a cursor; the key loops of \<open>nano\<close> never index out of
  range, those of \<open>vim\<close> only on lines that are not UTF-8; what is typed is what is saved.
\<close>

section \<open>The invariant of the buffer\<close>

definition tb_ok :: "textBuffer \<Rightarrow> bool" where
  "tb_ok b \<longleftrightarrow>
     0 \<le> tb_row b \<and> tb_row b < int (length (tb_lines b)) \<and> 0 \<le> tb_col b
     \<and> tb_col b \<le> RuneCount (tb_lines b ! nat (tb_row b))"

definition utf8_lines :: "string list \<Rightarrow> bool" where
  "utf8_lines vs \<longleftrightarrow> list_all valid_utf8 vs"

definition tb_utf8 :: "textBuffer \<Rightarrow> bool" where
  "tb_utf8 b \<longleftrightarrow> utf8_lines (tb_lines b) \<and> utf8_lines (tb_undo b) \<and> valid_utf8 (tb_yank b)"

lemma utf8_lines_simps [simp]:
  "utf8_lines []" "utf8_lines (v # vs) \<longleftrightarrow> valid_utf8 v \<and> utf8_lines vs" "utf8_lines (xs @ ys) \<longleftrightarrow> utf8_lines xs \<and> utf8_lines ys"
  by (simp_all add: utf8_lines_def)

lemma utf8_lines_take [simp]: "utf8_lines vs \<Longrightarrow> utf8_lines (take n vs)" "utf8_lines vs \<Longrightarrow> utf8_lines (drop n vs)"
  by (auto simp: utf8_lines_def list_all_iff dest: in_set_takeD in_set_dropD)

lemma utf8_lines_nth: "utf8_lines vs \<Longrightarrow> i < length vs \<Longrightarrow> valid_utf8 (vs ! i)"
  by (simp add: utf8_lines_def list_all_length)

lemma utf8_lines_update [simp]: "utf8_lines vs \<Longrightarrow> valid_utf8 v \<Longrightarrow> utf8_lines (vs[i := v])"
  by (auto simp: utf8_lines_def list_all_iff dest: set_update_subset_insert [THEN subsetD])

lemma runes_append:
  assumes "valid_utf8 s"
  shows "runes (s @ t) = runes s @ runes t"
proof -
  have "runes (encode_runes rs @ t) = rs @ runes t" if "scalars rs" for rs
    using that
  proof (induction rs)
    case (Cons r rs)
    have s: "scalar r" using Cons.prems by simp
    have "utf8_chunks (encode_rune r @ encode_runes rs @ t) = (r, encode_rune r) # utf8_chunks (encode_runes rs @ t)"
      using decode_encode_rune [OF s] by (subst utf8_chunks_valid) simp_all
    then show ?case using Cons by (simp add: runes_def)
  qed simp
  from this [of "runes s"] show ?thesis using encode_runes_valid [OF assms] by simp
qed

lemma RuneCount_nonneg [simp]: "0 \<le> RuneCount s"
  by (simp add: RuneCount_def)

lemma RuneCount_encode [simp]: "scalars rs \<Longrightarrow> RuneCount (encode_runes rs) = int (length rs)"
  by (simp add: RuneCount_def)

lemma line_at_ok:
  assumes "tb_ok b"
  obtains v where "line_at b (tb_row b) = Some v" "v = tb_lines b ! nat (tb_row b)" "col_in b (runes v)"
    "nat (tb_row b) < length (tb_lines b)" "nat (tb_col b) \<le> length (runes v)"
  using assms by (auto simp: tb_ok_def line_at_def col_in_def RuneCount_def)

lemma clamp_ok [simp]: "tb_ok (clamp b)"
proof -
  obtain ls row col m y u where b: "b = \<lparr>tb_lines = ls, tb_row = row, tb_col = col, tb_modified = m, tb_yank = y, tb_undo = u\<rparr>"
    by (cases b)
  consider "ls = []" | "ls \<noteq> []" "row < 0" | "ls \<noteq> []" "0 \<le> row" "int (length ls) \<le> row" | "0 \<le> row" "row < int (length ls)"
    by linarith
  then show ?thesis
  proof cases
    case 2
    then show ?thesis by (cases ls) (auto simp: b clamp_def tb_ok_def Let_def)
  next
    case 3
    then show ?thesis by (cases ls) (auto simp: b clamp_def tb_ok_def Let_def)
  next
    case 4
    then have "ls \<noteq> []" by auto
    with 4 show ?thesis by (auto simp: b clamp_def tb_ok_def Let_def)
  qed (auto simp: b clamp_def tb_ok_def Let_def)
qed

lemma clamp_fields [simp]:
  "tb_lines b \<noteq> [] \<Longrightarrow> tb_lines (clamp b) = tb_lines b" "tb_undo (clamp b) = tb_undo b" "tb_yank (clamp b) = tb_yank b"
  "tb_modified (clamp b) = tb_modified b"
  by (simp_all add: clamp_def Let_def)

lemma clamp_id: "tb_ok b \<Longrightarrow> clamp b = b"
  by (auto simp: clamp_def tb_ok_def Let_def)

lemma clamp_utf8 [simp]: "tb_utf8 b \<Longrightarrow> tb_utf8 (clamp b)"
proof (cases "tb_lines b = []")
  case True
  then show "tb_utf8 b \<Longrightarrow> tb_utf8 (clamp b)" by (simp add: tb_utf8_def clamp_def Let_def)
qed (simp add: tb_utf8_def)

section \<open>The text of a buffer\<close>

definition flat_left :: "textBuffer \<Rightarrow> nat list" where
  "flat_left b = concat (map (\<lambda>v. runes v @ [10]) (take (nat (tb_row b)) (tb_lines b)))
     @ take (nat (tb_col b)) (runes (tb_lines b ! nat (tb_row b)))"

definition flat_right :: "textBuffer \<Rightarrow> nat list" where
  "flat_right b = drop (nat (tb_col b)) (runes (tb_lines b ! nat (tb_row b)))
     @ concat (map (\<lambda>v. 10 # runes v) (drop (Suc (nat (tb_row b))) (tb_lines b)))"

definition flat :: "textBuffer \<Rightarrow> zipper" where
  "flat b = (rev (flat_left b), flat_right b)"

lemma split_lines:
  assumes "i < length vs"
  obtains xs v ys where "vs = xs @ v # ys" "length xs = i" "v = vs ! i"
  using assms id_take_nth_drop [OF assms] that by (metis length_take min.absorb4)

lemma insert_rune_flat:
  assumes "tb_ok b" "scalar r"
  obtains b' where "insert_rune r b = Some b'" "tb_ok b'" "flat b' = z_insert [r] (flat b)" "tb_utf8 b \<Longrightarrow> tb_utf8 b'"
    "tb_modified b'"
proof -
  obtain v where v: "line_at b (tb_row b) = Some v" "v = tb_lines b ! nat (tb_row b)" "col_in b (runes v)"
    "nat (tb_row b) < length (tb_lines b)" "nat (tb_col b) \<le> length (runes v)" by (rule line_at_ok [OF assms(1)])
  let ?l = "insertRune (runes v) (nat (tb_col b)) r"
  define b' where "b' = (set_line (tb_row b) (encode_runes ?l) (snapshot b))\<lparr>tb_col := tb_col b + 1, tb_modified := True\<rparr>"
  have s: "scalars ?l" using assms(2) by (simp add: insertRune_def)
  have n: "nat (tb_col b + 1) = Suc (nat (tb_col b))" using assms(1) by (simp add: tb_ok_def nat_add_distrib)
  have lines: "tb_lines b' = (tb_lines b)[nat (tb_row b) := encode_runes ?l]" "tb_row b' = tb_row b" "tb_col b' = tb_col b + 1"
    "tb_undo b' = tb_lines b" "tb_yank b' = tb_yank b" "tb_modified b'"
    by (simp_all add: b'_def set_line_def snapshot_def)
  have runes': "runes (encode_runes ?l) = ?l" using s by simp
  have "insert_rune r b = Some b'" using v by (simp add: insert_rune_def b'_def)
  moreover have "tb_ok b'" using assms v s by (simp add: tb_ok_def lines insertRune_def)
  moreover have "flat b' = z_insert [r] (flat b)"
    using v n assms(2) by (simp add: flat_def flat_left_def flat_right_def z_insert_def lines insertRune_def)
  moreover have "tb_utf8 b \<Longrightarrow> tb_utf8 b'" using s by (simp add: tb_utf8_def lines)
  ultimately show thesis using that lines(6) by blast
qed

lemma newline_flat:
  assumes "tb_ok b"
  obtains b' where "newline b = Some b'" "tb_ok b'" "flat b' = z_insert [10] (flat b)" "tb_utf8 b \<Longrightarrow> tb_utf8 b'"
proof -
  obtain v where v: "line_at b (tb_row b) = Some v" "v = tb_lines b ! nat (tb_row b)" "col_in b (runes v)"
    "nat (tb_row b) < length (tb_lines b)" "nat (tb_col b) \<le> length (runes v)" by (rule line_at_ok [OF assms])
  let ?i = "nat (tb_row b)" and ?c = "nat (tb_col b)"
  define b' where "b' = (snapshot b)\<lparr>tb_lines := take ?i (tb_lines b)
      @ [encode_runes (take ?c (runes v)), encode_runes (drop ?c (runes v))] @ drop (?i + 1) (tb_lines b),
      tb_row := tb_row b + 1, tb_col := 0, tb_modified := True\<rparr>"
  obtain xs ys where ls: "tb_lines b = xs @ v # ys" "length xs = ?i" using split_lines [OF v(4)] v(2) by metis
  have n: "nat (tb_row b + 1) = Suc ?i" using assms by (simp add: tb_ok_def nat_add_distrib)
  have lines: "tb_lines b' = xs @ [encode_runes (take ?c (runes v)), encode_runes (drop ?c (runes v))] @ ys"
    "tb_row b' = tb_row b + 1" "tb_col b' = 0" "tb_undo b' = tb_lines b" "tb_yank b' = tb_yank b"
    using ls by (simp_all add: b'_def snapshot_def)
  have at: "(tb_lines b') ! Suc ?i = encode_runes (drop ?c (runes v))" "tb_lines b ! ?i = v" "(xs @ v # ys) ! ?i = v"
    using ls by (simp_all add: lines nth_append)
  have "newline b = Some b'" using v by (simp add: newline_def b'_def Let_def)
  moreover have "tb_ok b'" using assms ls by (simp add: tb_ok_def lines(2,3) n at) (simp add: lines)
  moreover have "flat b' = z_insert [10] (flat b)"
    using ls by (simp add: flat_def flat_left_def flat_right_def z_insert_def lines(2,3) n at) (simp add: lines)
  moreover have "tb_utf8 b \<Longrightarrow> tb_utf8 b'" using ls by (simp add: tb_utf8_def lines)
  ultimately show thesis using that by blast
qed

lemma backspace_in_line:
  assumes "tb_ok b" "0 < tb_col b"
  obtains b' where "backspace b = Some b'" "tb_ok b'" "flat b' = z_backspace (flat b)" "tb_utf8 b \<Longrightarrow> tb_utf8 b'"
proof -
  obtain v where v: "line_at b (tb_row b) = Some v" "v = tb_lines b ! nat (tb_row b)" "col_in b (runes v)"
    "nat (tb_row b) < length (tb_lines b)" "nat (tb_col b) \<le> length (runes v)" by (rule line_at_ok [OF assms(1)])
  let ?c = "nat (tb_col b)"
  let ?l = "take (?c - 1) (runes v) @ drop ?c (runes v)"
  define b' where "b' = (set_line (tb_row b) (encode_runes ?l) (snapshot b))\<lparr>tb_col := tb_col b - 1, tb_modified := True\<rparr>"
  have s: "scalars ?l" by simp
  have n: "nat (tb_col b - 1) = ?c - 1" by (simp add: nat_diff_distrib)
  have lines: "tb_lines b' = (tb_lines b)[nat (tb_row b) := encode_runes ?l]" "tb_row b' = tb_row b" "tb_col b' = tb_col b - 1"
    "tb_undo b' = tb_lines b" "tb_yank b' = tb_yank b"
    by (simp_all add: b'_def set_line_def snapshot_def)
  obtain x xs where x: "rev (take ?c (runes v)) = x # xs"
    using assms(2) v(5) by (cases "rev (take ?c (runes v))") auto
  have xs: "rev (take (?c - 1) (runes v)) = xs"
    using arg_cong [OF x, of tl] butlast_take [OF v(5)] by (metis butlast_rev list.sel(3) rev_rev_ident)
  have len: "min (length (runes v)) (?c - 1) = ?c - 1" using v(5) by simp
  have "backspace b = Some b'" using v assms(2) by (simp add: backspace_def b'_def Let_def)
  moreover have "tb_ok b'" using assms v by (simp add: tb_ok_def lines)
  moreover have "flat b' = z_backspace (flat b)"
    using v x xs len by (simp add: flat_def flat_left_def flat_right_def z_backspace_def lines n)
  moreover have "tb_utf8 b \<Longrightarrow> tb_utf8 b'" by (simp add: tb_utf8_def lines)
  ultimately show thesis using that by blast
qed

lemma backspace_joins:
  assumes "tb_ok b" "\<not> 0 < tb_col b" "0 < tb_row b" "tb_utf8 b"
  obtains b' where "backspace b = Some b'" "tb_ok b'" "flat b' = z_backspace (flat b)" "tb_utf8 b'"
proof -
  have col: "tb_col b = 0" using assms(1,2) by (simp add: tb_ok_def)
  obtain i where i: "tb_row b = int (Suc i)" using assms(3) by (metis gr0_implies_Suc zero_less_imp_eq_int)
  have less: "Suc i < length (tb_lines b)" using assms(1) by (simp add: tb_ok_def i)
  obtain xs v ys where l1: "tb_lines b = xs @ v # ys" "length xs = Suc i" using split_lines [OF less] by metis
  obtain us u where "xs = us @ [u]" "length us = i" using l1(2) by (cases xs rule: rev_cases) auto
  then have ls: "tb_lines b = us @ u # v # ys" "length us = i" using l1 by simp_all
  have val: "valid_utf8 u" "valid_utf8 v" using assms(4) by (simp_all add: tb_utf8_def ls)
  then have join: "valid_utf8 (u @ v)"
    using valid_encode [of "runes u @ runes v"] encode_runes_valid by (simp add: encode_runes_append)
  define b' where "b' = (snapshot b)\<lparr>tb_lines := us @ (u @ v) # ys, tb_row := int i, tb_col := RuneCount u, tb_modified := True\<rparr>"
  have at: "(us @ u # v # ys) ! i = u" "(us @ u # v # ys) ! Suc i = v" "(us @ (u @ v) # ys) ! i = u @ v"
    "take i (us @ u # v # ys) = us" "take (Suc i) (us @ u # v # ys) = us @ [u]"
    "drop (Suc (Suc i)) (us @ u # v # ys) = ys" "drop (Suc i) (us @ (u @ v) # ys) = ys" "take i (us @ (u @ v) # ys) = us"
    using ls(2) by (simp_all add: nth_append)
  have "backspace b = Some b'"
    unfolding b'_def ls(2) [symmetric]
    by (simp add: backspace_def col i line_at_def ls(1) ls(2) [symmetric] nth_append Let_def nat_add_distrib)
  moreover have "tb_ok b'" using ls(2) by (simp add: tb_ok_def b'_def at runes_append [OF val(1)] RuneCount_def)
  moreover have "flat b' = z_backspace (flat b)"
    by (simp add: flat_def flat_left_def flat_right_def z_backspace_def b'_def i col ls(1) ls(2) [symmetric]
        runes_append [OF val(1)] RuneCount_def nat_add_distrib nth_append)
  moreover have "tb_utf8 b'" using assms(4) join by (simp add: tb_utf8_def b'_def snapshot_def ls)
  ultimately show thesis using that by blast
qed

lemma backspace_start:
  assumes "tb_ok b" "\<not> 0 < tb_col b" "\<not> 0 < tb_row b"
  shows "backspace b = Some b" "flat b = z_backspace (flat b)"
proof -
  have "tb_row b = 0" "tb_col b = 0" using assms by (simp_all add: tb_ok_def)
  then show "backspace b = Some b" "flat b = z_backspace (flat b)"
    by (simp_all add: backspace_def flat_def flat_left_def z_backspace_def)
qed

lemma deleteAt_flat:
  assumes "tb_ok b"
  obtains b' where "deleteAt b = Some b'" "tb_ok b'" "tb_utf8 b \<Longrightarrow> tb_utf8 b'"
    "flat b' = (if snd (flat b) = [] \<or> tb_col b = RuneCount (tb_lines b ! nat (tb_row b)) then flat b else z_delete (flat b))"
proof -
  obtain v where v: "line_at b (tb_row b) = Some v" "v = tb_lines b ! nat (tb_row b)" "col_in b (runes v)"
    "nat (tb_row b) < length (tb_lines b)" "nat (tb_col b) \<le> length (runes v)" by (rule line_at_ok [OF assms])
  let ?c = "nat (tb_col b)"
  show thesis
  proof (cases "tb_col b < RuneCount v")
    case False
    then have "tb_col b = RuneCount v" "deleteAt b = Some b" using assms v by (auto simp: tb_ok_def deleteAt_def)
    then show ?thesis using that [of b] assms v by simp
  next
    case True
    let ?l = "take ?c (runes v) @ drop (?c + 1) (runes v)"
    define b' where "b' = (set_line (tb_row b) (encode_runes ?l) (snapshot b))\<lparr>tb_modified := True\<rparr>"
    have lines: "tb_lines b' = (tb_lines b)[nat (tb_row b) := encode_runes ?l]" "tb_row b' = tb_row b" "tb_col b' = tb_col b"
      "tb_undo b' = tb_lines b" "tb_yank b' = tb_yank b"
      by (simp_all add: b'_def set_line_def snapshot_def)
    have c: "?c < length (runes v)" "0 \<le> tb_col b" using True assms by (auto simp: RuneCount_def tb_ok_def)
    then obtain x xs where x: "drop ?c (runes v) = x # xs" "drop (Suc ?c) (runes v) = xs"
      by (metis Cons_nth_drop_Suc)
    have "scalars xs" using scalars_take(2) [OF scalars_runes, of "Suc ?c" v] x(2) by simp
    note x = x this
    have "deleteAt b = Some b'" using v True c by (simp add: deleteAt_def b'_def Let_def)
    moreover have "tb_ok b'" using assms v c by (simp add: tb_ok_def lines)
    moreover have "flat b' = z_delete (flat b)" "snd (flat b) \<noteq> []"
      using v x c by (simp_all add: flat_def flat_left_def flat_right_def z_delete_def lines min_def)
    moreover have "tb_utf8 b \<Longrightarrow> tb_utf8 b'" by (simp add: tb_utf8_def lines)
    moreover have "tb_col b \<noteq> RuneCount (tb_lines b ! nat (tb_row b))" using True v by simp
    ultimately show ?thesis using that by simp
  qed
qed

definition editor_ok :: "textBuffer \<Rightarrow> bool" where
  "editor_ok b \<longleftrightarrow> tb_ok b \<and> tb_utf8 b"

lemma backspace_flat:
  assumes "editor_ok b"
  obtains b' where "backspace b = Some b'" "editor_ok b'" "flat b' = z_backspace (flat b)"
  using assms backspace_in_line [of b] backspace_joins [of b] backspace_start [of b] unfolding editor_ok_def by metis

text \<open>The result of an operation that does not panic.\<close>

definition run_op :: "(textBuffer \<Rightarrow> textBuffer option) \<Rightarrow> textBuffer \<Rightarrow> textBuffer" where
  "run_op f b = (case f b of Some b' \<Rightarrow> b' | None \<Rightarrow> b)"

interpretation buffer: text_editor editor_ok flat "\<lambda>r. run_op (insert_rune r)" "run_op backspace"
proof
  fix b r
  assume ok: "editor_ok b"
  show "editor_ok (run_op backspace b) \<and> flat (run_op backspace b) = z_backspace (flat b)"
    using backspace_flat [OF ok] by (metis option.simps(5) run_op_def)
  assume "scalar r"
  then show "editor_ok (run_op (insert_rune r) b) \<and> flat (run_op (insert_rune r) b) = z_insert [r] (flat b)"
    using ok insert_rune_flat [of b r] unfolding editor_ok_def by (metis option.simps(5) run_op_def)
qed

text \<open>C22: on a buffer of UTF-8 lines with its cursor in range, inserting a rune, breaking the line and
  erasing backwards never panic and are the edits of one text with LF between the lines; deleting
  forwards is too, except that it stops at the end of a line.
\<close>

theorem buffer_refines_text:
  assumes "editor_ok b" "scalar r"
  shows "(\<exists>b'. insert_rune r b = Some b' \<and> editor_ok b' \<and> flat b' = z_insert [r] (flat b))
    \<and> (\<exists>b'. newline b = Some b' \<and> editor_ok b' \<and> flat b' = z_insert [10] (flat b))
    \<and> (\<exists>b'. backspace b = Some b' \<and> editor_ok b' \<and> flat b' = z_backspace (flat b))
    \<and> (\<exists>b'. deleteAt b = Some b' \<and> editor_ok b'
          \<and> flat b' = (if tb_col b = RuneCount (tb_lines b ! nat (tb_row b)) then flat b else z_delete (flat b)))"
proof (intro conjI)
  have ok: "tb_ok b" "tb_utf8 b" using assms(1) by (simp_all add: editor_ok_def)
  show "\<exists>b'. insert_rune r b = Some b' \<and> editor_ok b' \<and> flat b' = z_insert [r] (flat b)"
    using insert_rune_flat [OF ok(1) assms(2)] ok(2) unfolding editor_ok_def by metis
  show "\<exists>b'. newline b = Some b' \<and> editor_ok b' \<and> flat b' = z_insert [10] (flat b)"
    using newline_flat [OF ok(1)] ok(2) unfolding editor_ok_def by metis
  show "\<exists>b'. backspace b = Some b' \<and> editor_ok b' \<and> flat b' = z_backspace (flat b)"
    using backspace_flat [OF assms(1)] by metis
  have "z_delete (flat b) = flat b" if "snd (flat b) = []" using that by (cases "flat b") (simp add: z_delete_def)
  then show "\<exists>b'. deleteAt b = Some b' \<and> editor_ok b'
      \<and> flat b' = (if tb_col b = RuneCount (tb_lines b ! nat (tb_row b)) then flat b else z_delete (flat b))"
    using deleteAt_flat [OF ok(1)] ok(2) unfolding editor_ok_def by metis
qed

section \<open>No index out of range\<close>

definition fine :: "(textBuffer \<Rightarrow> bool) \<Rightarrow> textBuffer option \<Rightarrow> bool" where
  "fine P ob \<longleftrightarrow> (\<exists>b. ob = Some b \<and> P b)"

lemma fine_simps [simp]: "fine P (Some b) \<longleftrightarrow> P b" "\<not> fine P None"
  by (simp_all add: fine_def)

lemma backspace_fine:
  assumes "tb_ok b"
  shows "fine (\<lambda>_. True) (backspace b)"
proof (cases "0 < tb_col b")
  case True
  then show ?thesis using backspace_in_line [OF assms] by (metis fine_simps(1))
next
  case False
  then show ?thesis using assms by (auto simp: backspace_def line_at_def tb_ok_def Let_def)
qed

lemma rows_ok:
  assumes "tb_ok b"
  shows "fine tb_ok (deleteLine b)" "fine tb_ok (pasteLine b)" "fine tb_ok (open_above b)" "fine tb_ok (yank_line b)"
    "fine tb_ok (line_end b)" "fine tb_ok (append_col b)"
proof -
  obtain v where v: "line_at b (tb_row b) = Some v" "v = tb_lines b ! nat (tb_row b)" "col_in b (runes v)"
    "nat (tb_row b) < length (tb_lines b)" "nat (tb_col b) \<le> length (runes v)" by (rule line_at_ok [OF assms])
  have row: "0 \<le> tb_row b" "tb_row b < int (length (tb_lines b))" "0 \<le> tb_col b" using assms by (simp_all add: tb_ok_def)
  show "fine tb_ok (deleteLine b)" using v(1) by (simp add: deleteLine_def Let_def)
  show "fine tb_ok (pasteLine b)" using assms row by (simp add: pasteLine_def tb_ok_def snapshot_def Let_def)
  show "fine tb_ok (open_above b)" using row v by (simp add: open_above_def tb_ok_def snapshot_def Let_def)
  show "fine tb_ok (yank_line b)" using assms v(1) by (simp add: yank_line_def tb_ok_def)
  show "fine tb_ok (line_end b)" using assms v(1,2) by (simp add: line_end_def tb_ok_def)
  show "fine tb_ok (append_col b)" using assms v(1,2) by (simp add: append_col_def tb_ok_def)
qed

lemma edits_ok:
  assumes "tb_ok b"
  shows "fine tb_ok (newline b)" "scalar r \<Longrightarrow> fine tb_ok (insert_rune r b)" "fine tb_ok (deleteAt b)"
    "fine tb_ok (Option.bind (line_end b) newline)" "fine tb_ok (nano_cut b)"
proof -
  have nl: "fine tb_ok (newline b)" if "tb_ok b" for b using newline_flat [OF that] by (metis fine_simps(1))
  show "fine tb_ok (newline b)" by (rule nl [OF assms])
  show "fine tb_ok (Option.bind (line_end b) newline)"
    using rows_ok(5) [OF assms] nl by (cases "line_end b") simp_all
  show "fine tb_ok (nano_cut b)"
    using rows_ok(4) [OF assms] rows_ok(1) by (cases "yank_line b") (simp_all add: nano_cut_def)
  show "fine tb_ok (deleteAt b)" using deleteAt_flat [OF assms] by (metis fine_simps(1))
  show "scalar r \<Longrightarrow> fine tb_ok (insert_rune r b)" using insert_rune_flat [OF assms] by (metis fine_simps(1))
qed

lemma move_key_fine: "tb_ok b \<Longrightarrow> fine (\<lambda>_. True) (move_key sq b)"
  using rows_ok(5) [of b] edits_ok(3) [of b] by (auto simp: move_key_def fine_def)

lemma type_byte_ok: "tb_ok b \<Longrightarrow> fine tb_ok (fst (type_byte c b r))"
  using edits_ok(2) [of b] by (auto simp: type_byte_def scalar_ascii byte_in_def reread_scalar split: prod.splits)

text \<open>What a step may do: go on with a buffer in range, or leave.\<close>

definition safe_step :: "(vim \<Rightarrow> bool) \<Rightarrow> editorStep \<Rightarrow> bool" where
  "safe_step P s \<longleftrightarrow> (case s of Continue v r \<Rightarrow> P v | Leave v r \<Rightarrow> True | Panicked \<Rightarrow> False)"

abbreviation "buf_ok \<equiv> \<lambda>v. tb_ok (v_buf v)"

lemma safe_simps [simp]:
  "safe_step P (Continue v r) = P v" "safe_step P (Leave v r)" "\<not> safe_step P Panicked"
  "safe_step P (with_buf ob v r) \<longleftrightarrow> fine (\<lambda>b. P (v\<lparr>v_buf := b\<rparr>)) ob"
  by (simp_all add: safe_step_def with_buf_def split: option.splits)

lemma safe_clamped: "safe_step (\<lambda>_. True) s \<Longrightarrow> safe_step buf_ok (clamped s)"
  by (cases s) (simp_all add: clamped_def)

lemma safe_weaken: "safe_step P s \<Longrightarrow> safe_step (\<lambda>_. True) s"
  by (cases s) simp_all

lemma fine_weaken: "fine P ob \<Longrightarrow> fine (\<lambda>_. True) ob"
  by (auto simp: fine_def)

lemma search_safe: "tb_ok b \<Longrightarrow> search_from q b \<noteq> None"
  by (auto simp: search_from_def tb_ok_def split: option.splits)

lemma write_buf: "vim_write uni now dst v = (v', ok) \<Longrightarrow> buf_ok v \<Longrightarrow> buf_ok v'"
  by (auto simp: vim_write_def tb_ok_def split: if_splits prod.splits bool.splits)

lemma nano_write_buf: "nano_write uni now v = (v', ok) \<Longrightarrow> buf_ok v \<Longrightarrow> buf_ok v'"
  by (auto simp: nano_write_def tb_ok_def Let_def split: if_splits prod.splits bool.splits)

lemma nano_step_safe:
  assumes "buf_ok v"
  shows "safe_step buf_ok (nano_step uni now v r)"
proof (cases "readByte r")
  case (Some p)
  obtain c r1 where p: "p = (c, r1)" by (cases p)
  let ?v = "v\<lparr>v_status := []\<rparr>"
  have ok: "buf_ok ?v" using assms by simp
  have exit: "safe_step buf_ok (nano_exit uni now ?v r1)"
    using ok nano_write_buf [of uni now ?v] by (auto simp: nano_exit_def split: option.splits prod.splits bool.splits)
  note ops = backspace_fine [OF assms] fine_weaken [OF edits_ok(1) [OF assms]] fine_weaken [OF edits_ok(5) [OF assms]]
    fine_weaken [OF rows_ok(2) [OF assms]] move_key_fine [OF assms] fine_weaken [OF type_byte_ok [OF assms]]
  obtain ob r2 where tb: "type_byte c (v_buf v) r1 = (ob, r2)" by fastforce
  obtain q r3 where q: "readVirtualEditorCommand r1 = (q, r3)" by fastforce
  have typed: "safe_step (\<lambda>_. True) (with_buf ob ?v r2)" using ops(6) [of c r1] by (simp add: tb)
  have found: "safe_step (\<lambda>_. True) (case q of Some q \<Rightarrow>
        if q = [] then Continue ?v r3
        else (case search_from q (v_buf v) of None \<Rightarrow> Panicked | Some None \<Rightarrow> Continue ?v r3
              | Some (Some b) \<Rightarrow> Continue (?v\<lparr>v_buf := b\<rparr>) r3)
      | None \<Rightarrow> Continue ?v r3)"
  proof (cases q)
    case (Some s)
    then show ?thesis using search_safe [OF assms, of s] by (auto split: option.splits)
  qed simp
  have escaped: "safe_step (\<lambda>_. True) (case readEscapeSequenceMaybe r1 of None \<Rightarrow> Leave ?v r1
      | Some (sq, r) \<Rightarrow> with_buf (move_key sq (v_buf v)) ?v r)"
    using ops(5) by (simp split: option.splits prod.splits)
  show ?thesis
  proof (cases "c = CHR 0x18")
    case True
    then show ?thesis using exit by (simp add: nano_step_def Some p Let_def)
  next
    case False
    have "nano_step uni now v r = clamped
        (if c = CHR 0x0F then Continue (fst (nano_write uni now ?v)) r1
         else if c = CHR 0x0B then with_buf (nano_cut (v_buf v)) ?v r1
         else if c = CHR 0x15 then with_buf (pasteLine (v_buf v)) ?v r1
         else if c = CHR 0x17 then
           (case q of Some q \<Rightarrow>
                if q = [] then Continue ?v r3
                else (case search_from q (v_buf v) of None \<Rightarrow> Panicked | Some None \<Rightarrow> Continue ?v r3
                      | Some (Some b) \<Rightarrow> Continue (?v\<lparr>v_buf := b\<rparr>) r3)
              | None \<Rightarrow> Continue ?v r3)
         else if c = CHR 0x08 \<or> c = CHR 0x7F then with_buf (backspace (v_buf v)) ?v r1
         else if c = CR then with_buf (newline (v_buf v)) ?v (r1\<lparr>rd_discardLF := True\<rparr>)
         else if c = LF then with_buf (newline (v_buf v)) ?v r1
         else if c = ESC then
           (case readEscapeSequenceMaybe r1 of None \<Rightarrow> Leave ?v r1
            | Some (sq, r) \<Rightarrow> with_buf (move_key sq (v_buf v)) ?v r)
         else with_buf ob ?v r2)"
      using False by (simp add: nano_step_def Some p tb q Let_def split: option.split)
    then show ?thesis using typed found escaped ops(1-4) by (auto intro!: safe_clamped)
  qed
qed (simp add: nano_step_def)

lemma nano_loop_safe: "buf_ok v \<Longrightarrow> nano_loop uni now v r \<noteq> Panicked"
proof (induction uni now v r rule: nano_loop.induct)
  case (1 uni now v r)
  show ?case using nano_step_safe [OF 1(2), of uni now r] 1(1)
    by (subst nano_loop.simps) (cases "nano_step uni now v r", simp_all)
qed

lemma new_vim_ok: "buf_ok (new_vim w target)"
proof -
  have "tb_ok (newVirtualTextBuffer c)" for c
    by (auto simp: newVirtualTextBuffer_def tb_ok_def Let_def)
  then show ?thesis by (simp add: new_vim_def)
qed

text \<open>\<open>nano\<close> never panics, whatever the file holds and whatever is typed.\<close>

lemma nano_never_panics: "runVirtualNano uni now target w r \<noteq> Panicked"
  using nano_loop_safe [OF new_vim_ok] by (simp add: runVirtualNano_def)

subsection \<open>vim\<close>

definition vim_ok :: "vim \<Rightarrow> bool" where
  "vim_ok v \<longleftrightarrow> editor_ok (v_buf v)"

lemma vim_ok_buf: "vim_ok v \<Longrightarrow> buf_ok v"
  by (simp add: vim_ok_def editor_ok_def)

lemma vim_ok_fields [simp]: "vim_ok (v\<lparr>v_buf := b\<rparr>) = editor_ok b" "vim_ok (v\<lparr>v_status := s\<rparr>) = vim_ok v"
  "vim_ok (v\<lparr>v_insert := i\<rparr>) = vim_ok v" "vim_ok (v\<lparr>v_pending := q\<rparr>) = vim_ok v"
  "vim_ok (v\<lparr>v_numbers := n\<rparr>) = vim_ok v" "vim_ok (v\<lparr>v_world := w\<rparr>) = vim_ok v" "vim_ok (v\<lparr>v_name := m\<rparr>) = vim_ok v"
  by (simp_all add: vim_ok_def)

definition vim_utf8 :: "vim \<Rightarrow> bool" where
  "vim_utf8 v \<longleftrightarrow> tb_utf8 (v_buf v)"

lemma safe_clamped_utf8: "safe_step vim_utf8 s \<Longrightarrow> safe_step vim_ok (clamped s)"
  by (cases s) (simp_all add: clamped_def vim_ok_def editor_ok_def vim_utf8_def)

text \<open>The operations keep the lines UTF-8.\<close>

lemma line_utf8: "tb_utf8 b \<Longrightarrow> line_at b i = Some v \<Longrightarrow> valid_utf8 v"
  by (auto simp: line_at_def tb_utf8_def utf8_lines_nth split: if_splits)

lemma ops_utf8:
  assumes "editor_ok b"
  shows "fine editor_ok (newline b)" "scalar r \<Longrightarrow> fine editor_ok (insert_rune r b)" "fine editor_ok (backspace b)"
    "fine editor_ok (deleteAt b)" "fine editor_ok (line_end b)" "fine editor_ok (append_col b)" "fine editor_ok (yank_line b)"
    "fine editor_ok (deleteLine b)" "fine editor_ok (pasteLine b)" "fine editor_ok (open_above b)"
    "fine editor_ok (Option.bind (line_end b) newline)"
proof -
  have ok: "tb_ok b" "tb_utf8 b" using assms by (simp_all add: editor_ok_def)
  have nl: "fine editor_ok (newline b)" if "editor_ok b" for b
    using that newline_flat [of b] unfolding editor_ok_def fine_def by metis
  show "fine editor_ok (newline b)" by (rule nl [OF assms])
  show "scalar r \<Longrightarrow> fine editor_ok (insert_rune r b)" using insert_rune_flat [OF ok(1)] ok(2) unfolding editor_ok_def fine_def by metis
  show "fine editor_ok (backspace b)" using backspace_flat [OF assms] unfolding fine_def by metis
  show "fine editor_ok (deleteAt b)" using deleteAt_flat [OF ok(1)] ok(2) unfolding editor_ok_def fine_def by metis
  have utf: "fine tb_utf8 (line_end b)" "fine tb_utf8 (append_col b)" "fine tb_utf8 (yank_line b)" "fine tb_utf8 (deleteLine b)"
    "fine tb_utf8 (pasteLine b)" "fine tb_utf8 (open_above b)"
  proof -
    obtain v where v: "line_at b (tb_row b) = Some v" by (rule line_at_ok [OF ok(1)])
    have val: "valid_utf8 v" by (rule line_utf8 [OF ok(2) v])
    show "fine tb_utf8 (line_end b)" "fine tb_utf8 (append_col b)" "fine tb_utf8 (yank_line b)"
      using ok(2) v val by (simp_all add: line_end_def append_col_def yank_line_def tb_utf8_def)
    show "fine tb_utf8 (deleteLine b)"
    proof -
      let ?b = "(snapshot b)\<lparr>tb_yank := v, tb_lines := (if length (tb_lines b) = 1 then [[]]
          else take (nat (tb_row b)) (tb_lines b) @ drop (nat (tb_row b) + 1) (tb_lines b)), tb_col := 0, tb_modified := True\<rparr>"
      have "tb_utf8 ?b" using ok(2) val by (simp add: tb_utf8_def snapshot_def)
      then have "tb_utf8 (clamp ?b)" by (rule clamp_utf8)
      then show ?thesis using v unfolding deleteLine_def Let_def by simp
    qed
    show "fine tb_utf8 (pasteLine b)" "fine tb_utf8 (open_above b)"
      using rows_ok(2,3) [OF ok(1)] ok(2)
      by (auto simp: pasteLine_def open_above_def tb_utf8_def snapshot_def fine_def Let_def split: if_splits)
  qed
  have both: "fine tb_ok ob \<Longrightarrow> fine tb_utf8 ob \<Longrightarrow> fine editor_ok ob" for ob by (auto simp: fine_def editor_ok_def)
  show "fine editor_ok (line_end b)" "fine editor_ok (append_col b)" "fine editor_ok (yank_line b)"
    "fine editor_ok (deleteLine b)" "fine editor_ok (pasteLine b)" "fine editor_ok (open_above b)"
    using both rows_ok [OF ok(1)] utf by blast+
  then show "fine editor_ok (Option.bind (line_end b) newline)" using nl by (cases "line_end b") simp_all
qed

lemma restoreUndo_ok:
  assumes "editor_ok b"
  shows "editor_ok (restoreUndo b)"
proof -
  have "tb_utf8 (b\<lparr>tb_lines := tb_undo b, tb_undo := tb_lines b\<rparr>)" using assms by (simp add: editor_ok_def tb_utf8_def)
  then have "tb_utf8 (clamp (b\<lparr>tb_lines := tb_undo b, tb_undo := tb_lines b\<rparr>)\<lparr>tb_modified := m\<rparr>)" for m
    using clamp_utf8 by (simp add: tb_utf8_def)
  moreover have "tb_ok (clamp x\<lparr>tb_modified := m\<rparr>)" for x m using clamp_ok [of x] by (simp add: tb_ok_def del: clamp_ok)
  ultimately show ?thesis using assms by (simp add: restoreUndo_def editor_ok_def)
qed

lemma search_utf8: "search_from q b = Some (Some b') \<Longrightarrow> tb_utf8 b \<Longrightarrow> tb_utf8 b'"
  by (auto simp: search_from_def tb_utf8_def split: option.splits if_splits)

lemma move_key_utf8:
  assumes "editor_ok b"
  shows "fine tb_utf8 (move_key sq b)"
proof -
  have "fine tb_utf8 ob" if "fine editor_ok ob" for ob using that by (auto simp: fine_def editor_ok_def)
  note w = this [OF ops_utf8(5) [OF assms]] this [OF ops_utf8(4) [OF assms]]
  have "tb_utf8 b" "tb_utf8 (b\<lparr>tb_row := i\<rparr>)" "tb_utf8 (b\<lparr>tb_col := i\<rparr>)" for i
    using assms by (simp_all add: editor_ok_def tb_utf8_def)
  then show ?thesis using w unfolding move_key_def by (simp del: list.set)
qed

lemma type_byte_utf8: "editor_ok b \<Longrightarrow> type_byte c b r = (ob, r') \<Longrightarrow> fine editor_ok ob"
  using ops_utf8(2) [of b] by (auto simp: type_byte_def scalar_ascii byte_in_def reread_scalar split: prod.splits if_splits)

lemma vim_insert_safe:
  assumes "vim_ok v"
  shows "safe_step vim_ok (vim_insert c v r)"
proof -
  have ok: "editor_ok (v_buf v)" using assms by (simp add: vim_ok_def)
  obtain ob r2 where tb: "type_byte c (v_buf v) r = (ob, r2)" by fastforce
  have moved: "safe_step vim_ok (clamped (with_buf (move_key sq (v_buf v)) v r))" for sq r
    by (rule safe_clamped_utf8) (use move_key_utf8 [OF ok] in \<open>simp add: vim_utf8_def\<close>)
  show ?thesis
    using assms moved ops_utf8(1,3) [OF ok] type_byte_utf8 [OF ok tb]
    by (auto simp: vim_insert_def tb split: option.splits prod.splits)
qed

lemma normal_key_safe:
  assumes "vim_ok v"
  shows "safe_step vim_utf8 (normal_key c v r)"
proof -
  have ok: "editor_ok (v_buf v)" "tb_utf8 (v_buf v)" using assms by (simp_all add: vim_ok_def editor_ok_def)
  have w: "fine tb_utf8 ob" if "fine editor_ok ob" for ob using that by (auto simp: fine_def editor_ok_def)
  have moved: "tb_utf8 ((v_buf v)\<lparr>tb_row := i, tb_col := j\<rparr>)" "tb_utf8 ((v_buf v)\<lparr>tb_row := i\<rparr>)"
    "tb_utf8 ((v_buf v)\<lparr>tb_col := j\<rparr>)" for i j
    using ok(2) by (simp_all add: tb_utf8_def)
  have undo: "tb_utf8 (restoreUndo (v_buf v))" using restoreUndo_ok [OF ok(1)] by (simp add: editor_ok_def)
  note ops = ops_utf8(4-11) [OF ok(1), THEN w]
  show ?thesis using ok(2) moved undo ops by (auto simp: normal_key_def doubled_def vim_utf8_def Let_def)
qed

lemma vim_write_utf8: "vim_utf8 v \<Longrightarrow> vim_write uni now dst v = (v', ok) \<Longrightarrow> vim_utf8 v'"
  by (auto simp: vim_write_def vim_utf8_def tb_utf8_def split: if_splits prod.splits bool.splits)

lemma vim_colon_safe:
  assumes "vim_ok v"
  shows "safe_step vim_utf8 (vim_colon uni now exec cmd v r)"
proof -
  have u: "vim_utf8 v" using assms by (simp add: vim_ok_def editor_ok_def vim_utf8_def)
  have w: "vim_utf8 (fst (vim_write uni now dst v))" for dst
    using vim_write_utf8 [OF u] by (metis prod.collapse)
  have d: "vim_utf8 (v\<lparr>v_buf := (snapshot (v_buf v))\<lparr>tb_lines := [[]], tb_row := 0, tb_col := 0, tb_modified := True\<rparr>\<rparr>)"
    using u by (simp add: vim_utf8_def tb_utf8_def snapshot_def)
  have f: "vim_utf8 (v\<lparr>v_status := s\<rparr>)" "vim_utf8 (v\<lparr>v_numbers := n\<rparr>)" "vim_utf8 (v\<lparr>v_world := x\<rparr>)" for s n x
    using u by (simp_all add: vim_utf8_def)
  have wq: "safe_step vim_utf8 (case vim_write uni now (v_name v) v of (v, True) \<Rightarrow> Leave v r | (v, False) \<Rightarrow> Continue v r)"
    using vim_write_utf8 [OF u] by (auto split: prod.splits bool.splits)
  show ?thesis using u w d f wq unfolding vim_colon_def Let_def by (simp split: option.split prod.split)
qed

lemma vim_normal_safe:
  assumes "vim_ok v"
  shows "safe_step vim_ok (vim_normal uni now exec c v r)"
proof -
  have u: "vim_utf8 v" "buf_ok v" using assms by (simp_all add: vim_ok_def editor_ok_def vim_utf8_def)
  obtain q r2 where q: "readVirtualEditorCommand r = (q, r2)" by fastforce
  have found: "safe_step vim_utf8 (if s = [] then Continue v r2
      else (case search_from s (v_buf v) of None \<Rightarrow> Panicked
            | Some None \<Rightarrow> Continue (v\<lparr>v_status := ''Pattern not found: '' @ s\<rparr>) r2
            | Some (Some b) \<Rightarrow> Continue (v\<lparr>v_buf := b\<rparr>) r2))" for s
    using u search_safe [OF u(2), of s] search_utf8 [of s "v_buf v"] by (auto simp: vim_utf8_def split: option.splits)
  show ?thesis
  proof (cases q)
    case None
    then show ?thesis using assms u normal_key_safe [OF assms]
      by (auto simp: vim_normal_def q intro!: safe_clamped_utf8)
  next
    case (Some s)
    then show ?thesis using found [of s] vim_colon_safe [OF assms] normal_key_safe [OF assms]
      by (auto simp: vim_normal_def q intro!: safe_clamped_utf8)
  qed
qed

lemma vim_step_safe:
  assumes "vim_ok v"
  shows "safe_step vim_ok (vim_step uni now exec v r)"
proof (cases "readByte r")
  case (Some p)
  obtain c r1 where p: "p = (c, r1)" by (cases p)
  let ?v = "v\<lparr>v_status := []\<rparr>"
  have ok: "vim_ok ?v" "editor_ok (v_buf v)" using assms by (simp_all add: vim_ok_def)
  have moved: "safe_step vim_ok (clamped (with_buf (move_key sq (v_buf v)) ?v r))" for sq r
    by (rule safe_clamped_utf8) (use move_key_utf8 [OF ok(2)] in \<open>simp add: vim_utf8_def\<close>)
  show ?thesis
    using vim_insert_safe [OF ok(1)] vim_normal_safe [OF ok(1)] moved
    by (simp add: vim_step_def Some p Let_def split: option.split prod.split)
qed (simp add: vim_step_def)

lemma vim_loop_safe: "vim_ok v \<Longrightarrow> vim_loop uni now exec v r \<noteq> Panicked"
proof (induction uni now exec v r rule: vim_loop.induct)
  case (1 uni now exec v r)
  show ?case using vim_step_safe [OF 1(2), of uni now exec r] 1(1)
    by (subst vim_loop.simps) (cases "vim_step uni now exec v r", simp_all)
qed

text \<open>C32: \<open>vim\<close> on a file whose lines are UTF-8 never panics, whatever is typed and whatever the
  commands run from it do to the world.
\<close>

theorem vim_never_panics_on_utf8:
  assumes "utf8_lines (tb_lines (newVirtualTextBuffer (if target \<noteq> [] then lookup_or [] (files w) target else [])))"
  shows "runVirtualVim uni now exec target w r \<noteq> Panicked"
proof -
  have "tb_undo (newVirtualTextBuffer c) = [] \<and> tb_yank (newVirtualTextBuffer c) = []" for c
    by (simp add: newVirtualTextBuffer_def Let_def)
  then have "vim_ok (new_vim w target)"
    using assms new_vim_ok [of w target] by (simp add: vim_ok_def editor_ok_def tb_utf8_def new_vim_def)
  then show ?thesis using vim_loop_safe by (simp add: runVirtualVim_def)
qed

section \<open>Lines that are not UTF-8\<close>

definition broken :: string where
  "broken = [CHR 0xE2, CHR 0x82, LF, CHR 0xAC]"

definition broken_keys :: lineReader where
  "broken_keys = \<lparr>rd_buf = ''ji'' @ [CHR 0x08] @ ''a'', rd_chunks = [], rd_discardLF = False\<rparr>"

lemma broken_buffer:
  "newVirtualTextBuffer broken = \<lparr>tb_lines = [[CHR 0xE2, CHR 0x82], [CHR 0xAC]], tb_row = 0, tb_col = 0,
     tb_modified = False, tb_yank = [], tb_undo = []\<rparr>"
  by (simp add: newVirtualTextBuffer_def broken_def LF_def CR_def HasPrefix_def Let_def)

lemma broken_runes:
  "runes [CHR 0xE2, CHR 0x82] = [rune_error, rune_error]" "runes [CHR 0xAC] = [rune_error]"
  "runes [CHR 0xE2, CHR 0x82, CHR 0xAC] = [8364]"
  by (simp_all add: runes_def utf8_chunks.simps utf8_size.simps byte_in_def cont_byte_def Let_def)

lemma read_cons: "readByte \<lparr>rd_buf = b # s, rd_chunks = cs, rd_discardLF = False\<rparr>
    = Some (b, \<lparr>rd_buf = s, rd_chunks = cs, rd_discardLF = False\<rparr>)"
  by (simp add: readByte_def raw_byte_def)

text \<open>There is a file on which \<open>vim\<close> panics: going to its second line, entering the insert mode,
  joining the lines with Backspace and typing a letter indexes past the end of the line.
\<close>

lemma vim_panics_on_broken_lines:
  "runVirtualVim uni now exec ''f'' (w\<lparr>files := [(''f'', broken)]\<rparr>) broken_keys = Panicked"
proof -
  let ?w = "w\<lparr>files := [(''f'', broken)]\<rparr>"
  let ?r = "\<lambda>s. \<lparr>rd_buf = s, rd_chunks = [], rd_discardLF = False\<rparr>"
  let ?b = "\<lambda>ls row col m u. \<lparr>tb_lines = ls, tb_row = row, tb_col = col, tb_modified = m, tb_yank = [], tb_undo = u\<rparr>"
  let ?v = "\<lambda>b i. \<lparr>v_buf = b, v_insert = i, v_status = [], v_numbers = False, v_pending = None, v_name = ''f'', v_world = ?w\<rparr>"
  let ?ls = "[[CHR 0xE2, CHR 0x82], [CHR 0xAC]]"
  have start: "new_vim ?w ''f'' = ?v (?b ?ls 0 0 False []) False"
    by (simp add: new_vim_def lookup_or_def broken_buffer)
  have j: "vim_step uni now exec (?v (?b ?ls 0 0 False []) False) (?r (''ji'' @ [CHR 0x08] @ ''a''))
      = Continue (?v (?b ?ls 1 0 False []) False) (?r (''i'' @ [CHR 0x08] @ ''a''))"
    by (simp add: vim_step_def read_cons vim_normal_def normal_key_def clamped_def clamp_def ESC_def RuneCount_def Let_def)
  have i: "vim_step uni now exec (?v (?b ?ls 1 0 False []) False) (?r (''i'' @ [CHR 0x08] @ ''a''))
      = Continue (?v (?b ?ls 1 0 False []) True) (?r ([CHR 0x08] @ ''a''))"
    by (simp add: vim_step_def read_cons vim_normal_def normal_key_def clamped_def clamp_def ESC_def RuneCount_def Let_def)
  have bs: "vim_step uni now exec (?v (?b ?ls 1 0 False []) True) (?r ([CHR 0x08] @ ''a''))
      = Continue (?v (?b [[CHR 0xE2, CHR 0x82, CHR 0xAC]] 0 2 True ?ls) True) (?r ''a'')"
    by (simp add: vim_step_def read_cons vim_insert_def with_buf_def backspace_def line_at_def ESC_def CR_def LF_def
        RuneCount_def broken_runes snapshot_def Let_def)
  have a: "vim_step uni now exec (?v (?b [[CHR 0xE2, CHR 0x82, CHR 0xAC]] 0 2 True ?ls) True) (?r ''a'') = Panicked"
    by (simp add: vim_step_def read_cons vim_insert_def with_buf_def type_byte_def insert_rune_def line_at_def ESC_def CR_def LF_def
        byte_in_def col_in_def broken_runes Let_def)
  show ?thesis
    unfolding runVirtualVim_def broken_keys_def start
    by (subst vim_loop.simps, unfold j editorStep.case, subst vim_loop.simps, unfold i editorStep.case,
        subst vim_loop.simps, unfold bs editorStep.case, subst vim_loop.simps, unfold a editorStep.case, rule refl)
qed

section \<open>Opening and saving\<close>

lemma ReplaceAll_absent: "x \<notin> set s \<Longrightarrow> ReplaceAll s (x # xs) new = s"
proof (induction s)
  case (Cons a s)
  then show ?case by (auto simp: HasPrefix_def)
qed simp

text \<open>A text without CR that ends in LF is saved by the editors as it was opened.\<close>

lemma open_save_identity:
  assumes "CR \<notin> set s"
  shows "content (newVirtualTextBuffer (s @ [LF])) = s @ [LF]"
proof -
  have "ReplaceAll (ReplaceAll (s @ [LF]) [CR, LF] [LF]) [CR] [LF] = s @ [LF]"
    using assms by (simp add: ReplaceAll_absent CR_def LF_def)
  then have "tb_lines (newVirtualTextBuffer (s @ [LF])) = SplitByte s LF"
    by (simp add: newVirtualTextBuffer_def SplitByte_snoc Let_def)
  then show ?thesis by (simp add: content_def Join_SplitByte)
qed

section \<open>A session\<close>

lemma command_typed:
  assumes "pending r = s @ CR # rest" "list_all printable s"
  shows "\<exists>r'. command_loop buf r = (Some (buf @ s), r')"
  using assms
proof (induction s arbitrary: buf r)
  case Nil
  from Nil(1) have p0: "pending r = CR # rest" by simp
  obtain r' where "readByte r = Some (CR, r')" by (rule readByte_pending [OF p0])
  then show ?case by (subst command_loop.simps) simp
next
  case (Cons b s)
  have pb: "pending r = b # (s @ CR # rest)" using Cons.prems by simp
  obtain r' where r': "readByte r = Some (b, r')" "pending r' = s @ CR # rest" by (rule readByte_pending [OF pb])
  have b: "byte_in b 32 126" "b \<noteq> CR" "b \<noteq> LF" "b \<noteq> ESC" using Cons.prems(2) printable_cases by (auto simp: printable_def)
  then have "b \<noteq> CHR 0x03" "b \<noteq> CHR 0x08" "b \<noteq> CHR 0x7F" by (auto simp: byte_in_def)
  moreover obtain q where "command_loop (buf @ [b]) r' = (Some ((buf @ [b]) @ s), q)"
    using Cons.IH [OF r'(2)] Cons.prems(2) by fastforce
  ultimately show ?case using r'(1) b by (subst command_loop.simps) simp
qed

lemma maybe_escape:
  assumes "pending r = b # s" "\<not> rd_discardLF r" "b \<noteq> CHR ''[''" "b \<noteq> CHR ''O''"
  obtains r' where "readEscapeSequenceMaybe r = Some ([], r')" "pending r' = b # s" "\<not> rd_discardLF r'"
proof (cases "rd_buf r = []")
  case True
  then show ?thesis using that [of r] assms by (simp add: readEscapeSequenceMaybe_def)
next
  case False
  obtain r1 where r1: "readByte r = Some (b, r1)" "pending r1 = s" "\<not> rd_discardLF r1" by (rule readByte_pending [OF assms(1)])
  have "pending (r1\<lparr>rd_buf := b # rd_buf r1\<rparr>) = b # s" using r1 by (auto simp: pending_def stream_def split: list.splits)
  then show ?thesis using that False r1 assms(3,4) by (simp add: readEscapeSequenceMaybe_def)
qed

definition typing :: "vim \<Rightarrow> string \<Rightarrow> bool" where
  "typing v s \<longleftrightarrow> v_insert v \<and> tb_lines (v_buf v) = [s] \<and> tb_row (v_buf v) = 0 \<and> tb_col (v_buf v) = int (length s)
     \<and> tb_modified (v_buf v) = (s \<noteq> [])"

lemma runes_printable:
  assumes "list_all printable s"
  shows "runes s = ascii_runes s"
proof -
  have "scalars (ascii_runes s)"
    using assms by (induction s) (auto simp: ascii_runes_def scalar_ascii dest!: printable_cases)
  then show ?thesis using runes_encode [of "ascii_runes s"] encode_ascii_runes [OF assms] by simp
qed

lemma vim_typed:
  assumes "pending r = b # s" "printable b" "typing v t" "list_all printable t"
  obtains v' r' where "vim_step uni now exec v r = Continue v' r'" "pending r' = s" "typing v' (t @ [b])"
    "v_name v' = v_name v" "v_world v' = v_world v"
proof -
  obtain r1 where r1: "readByte r = Some (b, r1)" "pending r1 = s" by (rule readByte_pending [OF assms(1)])
  have b: "byte_in b 32 126" "b \<noteq> CR" "b \<noteq> LF" "b \<noteq> ESC" using assms(2) printable_cases by (auto simp: printable_def)
  then have b2: "b \<noteq> CHR 0x08" "b \<noteq> CHR 0x7F" by (auto simp: byte_in_def)
  have tb: "tb_ok (v_buf v)" using assms(3,4)
    by (simp add: typing_def tb_ok_def RuneCount_def runes_printable) (simp add: ascii_runes_def)
  define b' where "b' = (set_line 0 (t @ [b]) (snapshot (v_buf v)))\<lparr>tb_col := tb_col (v_buf v) + 1, tb_modified := True\<rparr>"
  have e: "encode_runes (insertRune (runes t) (length t) (of_char b)) = t @ [b]"
    using encode_ascii_runes [of "t @ [b]"] assms(2,4)
    by (simp add: runes_printable insertRune_def ascii_runes_def)
  have "col_in (v_buf v) (runes t)" using assms(3,4) by (simp add: typing_def col_in_def runes_printable ascii_runes_def)
  then have "insert_rune (of_char b) (v_buf v) = Some b'"
    using assms(3) e by (simp add: insert_rune_def line_at_def typing_def b'_def)
  then have "vim_step uni now exec v r = Continue (v\<lparr>v_status := [], v_buf := b'\<rparr>) r1"
    using assms(3) r1 b b2 by (simp add: vim_step_def vim_insert_def typing_def type_byte_def with_buf_def)
  moreover have "typing (v\<lparr>v_status := [], v_buf := b'\<rparr>) (t @ [b])"
    using assms(3) by (simp add: typing_def b'_def set_line_def snapshot_def)
  ultimately show thesis using that r1 by simp
qed

lemma vim_typed_all:
  assumes "pending r = s @ rest" "list_all printable s" "typing v t" "list_all printable t"
  obtains v' r' where "vim_loop uni now exec v r = vim_loop uni now exec v' r'" "pending r' = rest" "typing v' (t @ s)"
    "v_name v' = v_name v" "v_world v' = v_world v"
proof -
  have "\<exists>v' r'. vim_loop uni now exec v r = vim_loop uni now exec v' r' \<and> pending r' = rest \<and> typing v' (t @ s)
      \<and> v_name v' = v_name v \<and> v_world v' = v_world v"
    using assms
  proof (induction s arbitrary: r v t)
    case (Cons b s)
    have pb: "pending r = b # (s @ rest)" "printable b" using Cons.prems by simp_all
    obtain v1 r1 where v1: "vim_step uni now exec v r = Continue v1 r1" "pending r1 = s @ rest" "typing v1 (t @ [b])"
      "v_name v1 = v_name v" "v_world v1 = v_world v"
      by (rule vim_typed [OF pb Cons.prems(3,4)])
    have "list_all printable s" "list_all printable (t @ [b])" using Cons.prems by simp_all
    from Cons.IH [OF v1(2) this(1) v1(3) this(2)] v1(1,4,5) show ?case by (subst vim_loop.simps) simp
  qed auto
  then show thesis using that by blast
qed

text \<open>Leaving the insert mode, and the line \<open>:wq\<close>.\<close>

lemma vim_wq:
  assumes "pending r = ESC # '':wq'' @ CR # rest" "typing v s" "s \<noteq> []" "v_name v \<noteq> []"
    and "setVirtualFile uni now (v_name v) (s @ [LF]) (v_world v) = (w', True)"
  shows "\<exists>v' r'. vim_loop uni now exec v r = Leave v' r' \<and> v_world v' = w'"
proof -
  obtain r1 where r1: "readByte r = Some (ESC, r1)" "pending r1 = CHR '':'' # ''wq'' @ CR # rest" "\<not> rd_discardLF r1"
    using assms(1) by (auto elim: readByte_pending)
  obtain r2 where r2: "readEscapeSequenceMaybe r1 = Some ([], r2)" "pending r2 = CHR '':'' # ''wq'' @ CR # rest"
    by (rule maybe_escape [OF r1(2,3)]) simp_all
  define v1 where "v1 = v\<lparr>v_status := [], v_insert := False, v_pending := None\<rparr>"
  have one: "vim_step uni now exec v r = Continue v1 r2"
    using r1 r2 assms(2) by (simp add: vim_step_def vim_insert_def typing_def v1_def)
  obtain r3 where r3: "readByte r2 = Some (CHR '':'', r3)" "pending r3 = ''wq'' @ CR # rest"
    by (rule readByte_pending [OF r2(2)])
  obtain r4 where r4: "command_loop [] r3 = (Some ''wq'', r4)"
    using command_typed [OF r3(2), of "[]"] by (auto simp: printable_def byte_in_def)
  have trim: "TrimSpace ''wq'' = ''wq''" by (rule TrimSpace_id) (simp_all add: char_is_space_def byte_in_def)
  have "content (v_buf v) = s @ [LF]" using assms(2) by (simp add: content_def typing_def)
  then obtain v2 where v2: "vim_write uni now (v_name v) (v1\<lparr>v_status := []\<rparr>) = (v2, True)" "v_world v2 = w'"
    using assms(4,5) by (auto simp: vim_write_def v1_def)
  have "vim_colon uni now exec ''wq'' (v1\<lparr>v_status := []\<rparr>) r4 = Leave v2 r4"
    using assms(2,3) v2(1) by (simp add: vim_colon_def typing_def v1_def HasPrefix_def)
  then have "vim_step uni now exec v1 r2 = Leave v2 r4"
    using r3(1) r4 trim
    by (simp add: vim_step_def vim_normal_def readVirtualEditorCommand_def clamped_def v1_def ESC_def)
  then show ?thesis using one v2(2)
    by (subst vim_loop.simps, simp, subst vim_loop.simps) simp
qed

text \<open>C18: opening a new file in \<open>vim\<close>, typing a line in the insert mode and leaving with \<open>:wq\<close>
  leaves the world that the write of that line makes, however the keys are cut into chunks.
\<close>

theorem vim_session_saves:
  assumes "pending r = CHR ''i'' # s @ ESC # '':wq'' @ CR # rest" "list_all printable s" "s \<noteq> []"
    and "target \<noteq> []" "map_of (files w) target = None" "setVirtualFile uni now target (s @ [LF]) w = (w', True)"
  shows "\<exists>v r'. runVirtualVim uni now exec target w r = Leave v r' \<and> v_world v = w'"
proof -
  obtain r1 where r1: "readByte r = Some (CHR ''i'', r1)" "pending r1 = s @ ESC # '':wq'' @ CR # rest"
    by (rule readByte_pending [OF assms(1)])
  define v1 where "v1 = (new_vim w target)\<lparr>v_insert := True\<rparr>"
  have empty: "newVirtualTextBuffer [] = \<lparr>tb_lines = [[]], tb_row = 0, tb_col = 0, tb_modified = False, tb_yank = [], tb_undo = []\<rparr>"
    by (simp add: newVirtualTextBuffer_def Let_def)
  have new: "v_buf v1 = newVirtualTextBuffer []" "v_name v1 = target" "v_world v1 = w" "v_insert v1" "v_status v1 = []"
    using assms(4,5) by (simp_all add: v1_def new_vim_def lookup_or_def)
  have "clamp (newVirtualTextBuffer []) = newVirtualTextBuffer []" by (simp add: empty clamp_def RuneCount_def Let_def)
  then have i: "vim_step uni now exec (new_vim w target) r = Continue v1 r1"
    using r1(1) new assms(4,5)
    by (simp add: vim_step_def vim_normal_def normal_key_def clamped_def v1_def new_vim_def ESC_def lookup_or_def Let_def)
  have t: "typing v1 []" using new by (simp add: typing_def empty)
  obtain v2 r2 where v2: "vim_loop uni now exec v1 r1 = vim_loop uni now exec v2 r2" "pending r2 = ESC # '':wq'' @ CR # rest"
    "typing v2 ([] @ s)" "v_name v2 = v_name v1" "v_world v2 = v_world v1"
    by (rule vim_typed_all [OF r1(2) assms(2) t]) simp_all
  have "\<exists>v' r'. vim_loop uni now exec v2 r2 = Leave v' r' \<and> v_world v' = w'"
    by (rule vim_wq [OF v2(2)]) (use v2 new assms in simp_all)
  then show ?thesis using i v2(1) by (simp add: runVirtualVim_def) (subst vim_loop.simps, simp)
qed

section \<open>Witnesses\<close>

lemma empty_buffer_ok: "editor_ok (newVirtualTextBuffer [])"
  by (simp add: newVirtualTextBuffer_def editor_ok_def tb_ok_def tb_utf8_def RuneCount_def Let_def)

theorem buffer_refines_text_witness:
  "\<exists>b'. insert_rune 97 (newVirtualTextBuffer []) = Some b' \<and> flat b' = z_insert [97] (flat (newVirtualTextBuffer []))"
  using buffer_refines_text [OF empty_buffer_ok, of 97] by (auto simp: scalar_def)

theorem vim_never_panics_on_utf8_witness:
  "\<forall>w. runVirtualVim id 0 (\<lambda>_ w. w) [] w broken_keys \<noteq> Panicked"
  using vim_never_panics_on_utf8 [of "[]"] by (simp add: newVirtualTextBuffer_def Let_def)

theorem open_save_identity_witness:
  "content (newVirtualTextBuffer (''a'' @ [LF])) = ''a'' @ [LF]"
  by (rule open_save_identity) (simp add: CR_def)

theorem vim_session_saves_witness:
  "\<exists>v r' w'. runVirtualVim id 7 (\<lambda>_ w. w) ''/tmp/a'' empty_world
       \<lparr>rd_buf = ''ihi'' @ [ESC], rd_chunks = ['':w'', ''q'' @ [CR]], rd_discardLF = False\<rparr> = Leave v r'
     \<and> setVirtualFile id 7 ''/tmp/a'' (''hi'' @ [LF]) empty_world = (w', True) \<and> v_world v = w'"
proof -
  let ?r = "\<lparr>rd_buf = ''ihi'' @ [ESC], rd_chunks = ['':w'', ''q'' @ [CR]], rd_discardLF = False\<rparr>"
  have "snd (setVirtualFile id 7 ''/tmp/a'' (''hi'' @ [LF]) empty_world)"
    by (rule setVirtualFile_accepts)
      (simp_all add: empty_world_def virtualFileImmutable_def lookup_or_def virtualStorageBytes_def total_def
         maxVirtualFiles_def maxVirtualTotalBytes_def maxVirtualFileBytes_def)
  then obtain w' where w: "setVirtualFile id 7 ''/tmp/a'' (''hi'' @ [LF]) empty_world = (w', True)"
    by (cases "setVirtualFile id 7 ''/tmp/a'' (''hi'' @ [LF]) empty_world") auto
  have p: "pending ?r = CHR ''i'' # ''hi'' @ ESC # '':wq'' @ CR # []" by (simp add: pending_def stream_def)
  have "\<exists>v r'. runVirtualVim id 7 (\<lambda>_ w. w) ''/tmp/a'' empty_world ?r = Leave v r' \<and> v_world v = w'"
    by (rule vim_session_saves [OF p _ _ _ _ w]) (simp_all add: printable_def byte_in_def empty_world_def)
  then show ?thesis using w by blast
qed

end
