(* ===== verification/AdminAuth.thy ===== *)
theory AdminAuth
  imports GoBinary GoMaps
begin

text \<open>
  The sessions of the administration server (\<open>internal/server/admin_auth.go\<close>,
  \<open>internal/server/admin.go\<close>): the table of sessions keyed by the hash of their token, the
  table of failed logins with its delays, the handlers that log in and out, and the guard in
  front of every other handler.

  A request is what the handlers read of it; a reply is the status, the body, the cookie and the
  cache header they set. \<open>sha\<close> is SHA-256, \<open>rnd n\<close> the \<open>n\<close> bytes that
  \<open>crypto/rand\<close> gives (\<open>None\<close> when it fails), \<open>uni\<close> the normal form of a string outside ASCII
  under simple case folding.
  Go leaves the order of map iteration open; the model iterates in the order of the list.
\<close>

section \<open>State\<close>

record adminSession =
  as_created :: gotime
  as_expires :: gotime
  as_csrf :: string

record adminAuthFailure =
  af_count :: int
  af_last :: gotime

record adminServer =
  ad_user :: string
  ad_password :: string
  ad_sessions :: "(string, adminSession) gomap"
  ad_failures :: "(string, adminAuthFailure) gomap"

record adminRequest =
  rq_method :: string
  rq_path :: string
  rq_uri :: string
  rq_cookie :: "string option"
  rq_csrf :: string
  rq_client :: string
  rq_connection :: "string list"
  rq_basic :: "(string \<times> string) option"
  rq_proto :: string
  rq_tls :: bool
  rq_ip :: string
  rq_login :: "(string \<times> string) option"
  rq_gone :: bool

record cookie =
  ck_value :: string
  ck_expires :: gotime
  ck_max_age :: int
  ck_secure :: bool

datatype replyBody =
    NextHandler
  | LoggedIn string string gotime
  | SessionInfo string string gotime
  | OkBody
  | ErrorBody string
  | RedirectTo string
  | LoginPage
  | NoReply

record reply =
  rp_status :: nat
  rp_body :: replyBody
  rp_cookie :: "cookie option"
  rp_nostore :: bool

definition adminSessionLifetime :: duration where "adminSessionLifetime = 12 * hour"
definition maxAdminSessions :: nat where "maxAdminSessions = 256"
definition maxAuthFailures :: nat where "maxAuthFailures = 2048"

definition NewAdmin :: "string \<Rightarrow> string \<Rightarrow> adminServer" where
  "NewAdmin user password = \<lparr>ad_user = user, ad_password = password, ad_sessions = [], ad_failures = []\<rparr>"

section \<open>The session table\<close>

definition randomAdminToken :: "(nat \<Rightarrow> string option) \<Rightarrow> nat \<Rightarrow> string option" where
  "randomAdminToken rnd n = map_option b64_url (rnd n)"

definition drop_expired :: "gotime \<Rightarrow> (string, adminSession) gomap \<Rightarrow> (string, adminSession) gomap" where
  "drop_expired now m = List.filter (\<lambda>(k, e). now < as_expires e) m"

text \<open>The scan for the oldest entry; a zero time stands for none so far.\<close>

definition oldest_step :: "string \<times> gotime \<Rightarrow> string \<times> adminSession \<Rightarrow> string \<times> gotime" where
  "oldest_step acc p = (if snd acc = 0 \<or> as_created (snd p) < snd acc then (fst p, as_created (snd p)) else acc)"

definition oldest_key :: "(string, adminSession) gomap \<Rightarrow> string" where
  "oldest_key m = fst (fold (\<lambda>p acc. oldest_step acc p) m ([], 0))"

lemma fst_oldest_step: "fst (oldest_step a p) = fst a \<or> fst (oldest_step a p) = fst p"
  by (simp add: oldest_step_def)

lemma fold_oldest: "fst (fold (\<lambda>p acc. oldest_step acc p) m a) \<in> insert (fst a) (fst ` set m)"
proof (induction m arbitrary: a)
  case (Cons p m)
  show ?case using Cons.IH [of "oldest_step a p"] fst_oldest_step [of a p] by auto
qed simp

lemma oldest_key_in: "m \<noteq> [] \<Longrightarrow> oldest_key m \<in> fst ` set m"
  using fold_oldest [of "tl m" "oldest_step ([], 0) (hd m)"]
  by (cases m) (auto simp: oldest_key_def oldest_step_def)

lemma delete_smaller:
  assumes "k \<in> fst ` set m"
  shows "length (AList.delete k m) < length m"
  using assms by (induction m) (force simp: less_Suc_eq_le)+

function make_room :: "(string, adminSession) gomap \<Rightarrow> (string, adminSession) gomap" where
  "make_room m = (if maxAdminSessions \<le> length m then make_room (AList.delete (oldest_key m) m) else m)"
  by pat_completeness auto
termination
proof (relation "measure length")
  fix m :: "(string, adminSession) gomap"
  assume "maxAdminSessions \<le> length m"
  then have "oldest_key m \<in> fst ` set m" by (intro oldest_key_in) (auto simp: maxAdminSessions_def)
  then show "(AList.delete (oldest_key m) m, m) \<in> measure length"
    using delete_smaller by simp
qed simp

declare make_room.simps [simp del]

definition createAdminSession ::
  "(string \<Rightarrow> string) \<Rightarrow> (nat \<Rightarrow> string option) \<Rightarrow> gotime \<Rightarrow> adminServer \<Rightarrow> adminServer \<times> (string \<times> adminSession) option" where
  "createAdminSession sha rnd now s =
     (case randomAdminToken rnd 32 of
        None \<Rightarrow> (s, None)
      | Some token \<Rightarrow>
          (case randomAdminToken rnd 24 of
             None \<Rightarrow> (s, None)
           | Some csrf \<Rightarrow>
               (let sess = \<lparr>as_created = now, as_expires = now + adminSessionLifetime, as_csrf = csrf\<rparr>
                in (s\<lparr>ad_sessions := AList.update (sha token) sess (make_room (drop_expired now (ad_sessions s)))\<rparr>,
                    Some (token, sess)))))"

text \<open>The key of the request's cookie, when it has one that is not blank.\<close>

definition cookie_key :: "(string \<Rightarrow> string) \<Rightarrow> adminRequest \<Rightarrow> string option" where
  "cookie_key sha r =
     (case rq_cookie r of None \<Rightarrow> None | Some v \<Rightarrow> if TrimSpace v = [] then None else Some (sha v))"

definition adminSessionFromRequest ::
  "(string \<Rightarrow> string) \<Rightarrow> adminRequest \<Rightarrow> gotime \<Rightarrow> adminServer \<Rightarrow> adminServer \<times> adminSession option" where
  "adminSessionFromRequest sha r now s =
     (case cookie_key sha r of
        None \<Rightarrow> (s, None)
      | Some key \<Rightarrow>
          (case map_of (ad_sessions s) key of
             None \<Rightarrow> (s, None)
           | Some sess \<Rightarrow>
               if as_expires sess \<le> now then (s\<lparr>ad_sessions := AList.delete key (ad_sessions s)\<rparr>, None)
               else (s, Some sess)))"

definition deleteAdminSession :: "(string \<Rightarrow> string) \<Rightarrow> adminRequest \<Rightarrow> adminServer \<Rightarrow> adminServer" where
  "deleteAdminSession sha r s =
     (case cookie_key sha r of
        None \<Rightarrow> s
      | Some key \<Rightarrow> s\<lparr>ad_sessions := AList.delete key (ad_sessions s)\<rparr>)"

section \<open>Failed logins\<close>

definition auth_ip :: "string \<Rightarrow> string" where
  "auth_ip ip = (if ip = [] then ''unknown'' else ip)"

text \<open>The loop that deletes entries of other addresses until the table fits.\<close>

fun trim_failures :: "nat \<Rightarrow> string \<Rightarrow> (string, adminAuthFailure) gomap \<Rightarrow> (string, adminAuthFailure) gomap" where
  "trim_failures 0 ip m = m"
| "trim_failures (Suc n) ip m =
     (if maxAuthFailures < length m
      then trim_failures n ip (case List.find (\<lambda>p. fst p \<noteq> ip) m of Some p \<Rightarrow> AList.delete (fst p) m | None \<Rightarrow> m)
      else m)"

definition recordAdminAuthFailure :: "string \<Rightarrow> gotime \<Rightarrow> adminServer \<Rightarrow> adminServer \<times> duration" where
  "recordAdminAuthFailure ip0 now s =
     (let ip = auth_ip ip0;
          old = lookup_or \<lparr>af_count = 0, af_last = 0\<rparr> (ad_failures s) ip;
          count = (if af_last old \<noteq> 0 \<and> time_sub now (af_last old) > 10 * minute then 0 else af_count old) + 1;
          m = AList.update ip \<lparr>af_count = count, af_last = now\<rparr> (ad_failures s);
          m = (if maxAuthFailures < length m
               then (let m = List.filter (\<lambda>(k, e). \<not> time_sub now (af_last e) > 10 * minute) m
                     in trim_failures (length m) ip m)
               else m);
          shift = min 4 (nat (count - 2))
      in (s\<lparr>ad_failures := m\<rparr>, if count \<le> 1 then 0 else 150 * 2 ^ shift * millisecond))"

definition clearAdminAuthFailures :: "string \<Rightarrow> adminServer \<Rightarrow> adminServer" where
  "clearAdminAuthFailures ip s = s\<lparr>ad_failures := AList.delete (auth_ip ip) (ad_failures s)\<rparr>"

section \<open>Handlers\<close>

definition subtleStringMismatch :: "(string \<Rightarrow> string) \<Rightarrow> string \<Rightarrow> string \<Rightarrow> bool" where
  "subtleStringMismatch sha a b \<longleftrightarrow> sha a \<noteq> sha b"

definition adminRequestIsHTTPS :: "(string \<Rightarrow> string) \<Rightarrow> adminRequest \<Rightarrow> bool" where
  "adminRequestIsHTTPS uni r \<longleftrightarrow> rq_tls r \<or> EqualFold uni (TrimSpace (rq_proto r)) ''https''"

definition setAdminSessionCookie :: "(string \<Rightarrow> string) \<Rightarrow> adminRequest \<Rightarrow> string \<Rightarrow> gotime \<Rightarrow> cookie" where
  "setAdminSessionCookie uni r token expires =
     \<lparr>ck_value = token, ck_expires = expires, ck_max_age = go_div adminSessionLifetime second,
      ck_secure = adminRequestIsHTTPS uni r\<rparr>"

definition clearAdminSessionCookie :: "(string \<Rightarrow> string) \<Rightarrow> adminRequest \<Rightarrow> cookie" where
  "clearAdminSessionCookie uni r =
     \<lparr>ck_value = [], ck_expires = second, ck_max_age = -1, ck_secure = adminRequestIsHTTPS uni r\<rparr>"

definition answer_with :: "nat \<Rightarrow> replyBody \<Rightarrow> reply" where
  "answer_with status body = \<lparr>rp_status = status, rp_body = body, rp_cookie = None, rp_nostore = False\<rparr>"

definition nostore :: "reply \<Rightarrow> reply" where "nostore p = p\<lparr>rp_nostore := True\<rparr>"

definition methodNotAllowed :: reply where
  "methodNotAllowed = answer_with 405 (ErrorBody ''Method not allowed'')"

definition adminLogin ::
  "(string \<Rightarrow> string) \<Rightarrow> (string \<Rightarrow> string) \<Rightarrow> (nat \<Rightarrow> string option) \<Rightarrow> adminRequest \<Rightarrow> gotime \<Rightarrow> adminServer \<Rightarrow> adminServer \<times> reply" where
  "adminLogin sha uni rnd r now s =
     (if rq_method r \<noteq> ''POST'' then (s, methodNotAllowed)
      else (case rq_login r of
              None \<Rightarrow> (s, nostore (answer_with 400 (ErrorBody ''invalid login payload'')))
            | Some (u, p) \<Rightarrow>
                if subtleStringMismatch sha u (ad_user s) \<or> subtleStringMismatch sha p (ad_password s) then
                  (case recordAdminAuthFailure (rq_ip r) now s of
                     (s, delay) \<Rightarrow>
                       if delay > 0 \<and> rq_gone r then (s, nostore (answer_with 0 NoReply))
                       else (s, nostore (answer_with 401 (ErrorBody ''invalid credentials''))))
                else
                  (case createAdminSession sha rnd now (clearAdminAuthFailures (rq_ip r) s) of
                     (s, None) \<Rightarrow> (s, nostore (answer_with 500 (ErrorBody ''failed to create admin session'')))
                   | (s, Some (token, sess)) \<Rightarrow>
                       (s, nostore (answer_with 200 (LoggedIn (ad_user s) (as_csrf sess) (as_expires sess)))
                             \<lparr>rp_cookie := Some (setAdminSessionCookie uni r token (as_expires sess))\<rparr>))))"

definition adminSessionInfo :: "(string \<Rightarrow> string) \<Rightarrow> adminRequest \<Rightarrow> gotime \<Rightarrow> adminServer \<Rightarrow> adminServer \<times> reply" where
  "adminSessionInfo sha r now s =
     (if rq_method r \<noteq> ''GET'' then (s, methodNotAllowed)
      else (case adminSessionFromRequest sha r now s of
              (s, None) \<Rightarrow> (s, nostore (answer_with 401 (ErrorBody [])))
            | (s, Some sess) \<Rightarrow> (s, nostore (answer_with 200 (SessionInfo (ad_user s) (as_csrf sess) (as_expires sess))))))"

definition adminLogout :: "(string \<Rightarrow> string) \<Rightarrow> (string \<Rightarrow> string) \<Rightarrow> adminRequest \<Rightarrow> gotime \<Rightarrow> adminServer \<Rightarrow> adminServer \<times> reply" where
  "adminLogout sha uni r now s =
     (if rq_method r \<noteq> ''POST'' then (s, methodNotAllowed)
      else (case adminSessionFromRequest sha r now s of
              (s, None) \<Rightarrow> (s, (answer_with 401 (ErrorBody []))\<lparr>rp_cookie := Some (clearAdminSessionCookie uni r)\<rparr>)
            | (s, Some sess) \<Rightarrow>
                if subtleStringMismatch sha (rq_csrf r) (as_csrf sess)
                then (s, answer_with 403 (ErrorBody ''csrf validation failed''))
                else (deleteAdminSession sha r s,
                      (nostore (answer_with 200 OkBody))\<lparr>rp_cookie := Some (clearAdminSessionCookie uni r)\<rparr>)))"

text \<open>\<open>page\<close> says whether the embedded login page can be read.\<close>

definition adminLoginPage :: "(string \<Rightarrow> string) \<Rightarrow> bool \<Rightarrow> adminRequest \<Rightarrow> gotime \<Rightarrow> adminServer \<Rightarrow> adminServer \<times> reply" where
  "adminLoginPage sha page r now s =
     (if rq_path r \<noteq> ''/login'' \<or> rq_method r \<noteq> ''GET'' then (s, answer_with 404 (ErrorBody ''404 page not found''))
      else (case adminSessionFromRequest sha r now s of
              (s, Some _) \<Rightarrow> (s, answer_with 303 (RedirectTo ''/''))
            | (s, None) \<Rightarrow>
                if \<not> page then (s, answer_with 500 (ErrorBody ''login page unavailable''))
                else (s, nostore (answer_with 200 LoginPage))))"

definition headerHasToken :: "(string \<Rightarrow> string) \<Rightarrow> string list \<Rightarrow> string \<Rightarrow> bool" where
  "headerHasToken uni values token \<longleftrightarrow>
     list_ex (\<lambda>v. list_ex (\<lambda>part. EqualFold uni (TrimSpace part) token) (SplitByte v (CHR '',''))) values"

definition is_api :: "adminRequest \<Rightarrow> bool" where "is_api r \<longleftrightarrow> HasPrefix (rq_path r) ''/api/''"

definition reads_only :: "adminRequest \<Rightarrow> bool" where
  "reads_only r \<longleftrightarrow> rq_method r = ''GET'' \<or> rq_method r = ''HEAD''"

text \<open>The Basic credentials of the command-line client.\<close>

definition top_client :: "(string \<Rightarrow> string) \<Rightarrow> adminRequest \<Rightarrow> adminServer \<Rightarrow> bool" where
  "top_client sha r s \<longleftrightarrow>
     reads_only r \<and> is_api r \<and> rq_client r = ''top''
     \<and> (case rq_basic r of None \<Rightarrow> False
        | Some (u, p) \<Rightarrow> \<not> subtleStringMismatch sha u (ad_user s) \<and> \<not> subtleStringMismatch sha p (ad_password s))"

text \<open>\<open>escape\<close> is \<open>url.QueryEscape\<close>; \<open>NextHandler\<close> hands the request on.\<close>

definition adminSessionAuth ::
  "(string \<Rightarrow> string) \<Rightarrow> (string \<Rightarrow> string) \<Rightarrow> (string \<Rightarrow> string) \<Rightarrow> adminRequest \<Rightarrow> gotime \<Rightarrow> adminServer \<Rightarrow> adminServer \<times> reply" where
  "adminSessionAuth sha uni escape r now s0 =
     (case adminSessionFromRequest sha r now s0 of
        (s, None) \<Rightarrow>
          (if top_client sha r s then
             (clearAdminAuthFailures (rq_ip r) s, (answer_with 200 NextHandler)\<lparr>rp_nostore := is_api r\<rparr>)
           else if is_api r \<or> headerHasToken uni (rq_connection r) ''upgrade'' then
             (s, (answer_with 401 (ErrorBody ''authentication required''))\<lparr>rp_nostore := is_api r\<rparr>)
           else if rq_uri r = [] \<or> rq_uri r = ''/'' then (s, answer_with 303 (RedirectTo ''/login''))
           else (s, answer_with 303 (RedirectTo (''/login?next='' @ escape (rq_uri r)))))
      | (s, Some sess) \<Rightarrow>
          (if \<not> reads_only r \<and> rq_method r \<noteq> ''OPTIONS'' \<and> subtleStringMismatch sha (rq_csrf r) (as_csrf sess) then
             (s, (answer_with 403 (ErrorBody ''csrf validation failed''))\<lparr>rp_nostore := is_api r\<rparr>)
           else (s, (answer_with 200 NextHandler)\<lparr>rp_nostore := is_api r\<rparr>)))"

text \<open>The public routes of \<open>Handler\<close>; the static files need no session.\<close>

definition public_files :: "string list" where
  "public_files = [''/login.js'', ''/login.css'', ''/favicon.png'', ''/zentloop-logo.png'', ''/manifest.webmanifest'', ''/sw.js'',
     ''/icon-192.png'', ''/icon-512.png'', ''/icon-maskable-512.png'']"

definition admin_handler ::
  "(string \<Rightarrow> string) \<Rightarrow> (string \<Rightarrow> string) \<Rightarrow> (string \<Rightarrow> string) \<Rightarrow> (nat \<Rightarrow> string option) \<Rightarrow> bool
     \<Rightarrow> adminRequest \<Rightarrow> gotime \<Rightarrow> adminServer \<Rightarrow> adminServer \<times> reply" where
  "admin_handler sha uni escape rnd page r now s =
     (if rq_path r = ''/api/auth/login'' then adminLogin sha uni rnd r now s
      else if rq_path r = ''/api/auth/session'' then adminSessionInfo sha r now s
      else if rq_path r = ''/api/auth/logout'' then adminLogout sha uni r now s
      else if rq_path r = ''/login'' then adminLoginPage sha page r now s
      else if rq_path r \<in> set public_files then (s, answer_with 200 NextHandler)
      else adminSessionAuth sha uni escape r now s)"

definition connect_char :: "nat \<Rightarrow> bool" where
  "connect_char r \<longleftrightarrow> (97 \<le> r \<and> r \<le> 122) \<or> (65 \<le> r \<and> r \<le> 90) \<or> (48 \<le> r \<and> r \<le> 57) \<or> r \<in> set (runes ''.-_:[]'')"

definition quote_self :: string where "quote_self = [CHR 0x27] @ ''self'' @ [CHR 0x27]"

definition adminConnectSources :: "string \<Rightarrow> string" where
  "adminConnectSources host0 =
     (let host = TrimSpace host0 in
      if host = [] then quote_self
      else if list_all connect_char (runes host) then quote_self @ '' ws://'' @ host @ '' wss://'' @ host
      else quote_self)"

end
