(* ===== verification/AdminRealtime.thy ===== *)
theory AdminRealtime
  imports AdminAuth
begin

text \<open>
  The live feed of the administration page (\<open>internal/server/admin_realtime.go\<close>): the
  checks before a connection becomes a WebSocket, its frames, and the loop that sends the store's
  messages and answers the client's control frames.

  Bytes are characters. \<open>url_host\<close> is the host of a URL as \<open>url.Parse\<close> reads it
  (\<open>None\<close> for an error). The loop takes the events in the order in which \<open>select\<close>
  picks them; the bytes it writes are its result.
\<close>

section \<open>Frames\<close>

definition wsOpcodeText :: nat where "wsOpcodeText = 1"
definition wsOpcodeClose :: nat where "wsOpcodeClose = 8"
definition wsOpcodePing :: nat where "wsOpcodePing = 9"
definition wsOpcodePong :: nat where "wsOpcodePong = 10"
definition wsMaxPayload :: nat where "wsMaxPayload = 64 * 1024"

record wsFrame =
  ws_opcode :: nat
  ws_payload :: string

datatype wsError = FrameTruncated | FrameFragmented | FrameUnmasked | FrameTooLarge

definition frame_length :: "nat \<Rightarrow> string" where
  "frame_length n =
     (if n < 126 then [char_of n]
      else if n \<le> 65535 then char_of (126 :: nat) # be16 n
      else char_of (127 :: nat) # replicate 4 (char_of (0 :: nat)) @ be32 n)"

definition writeWebSocketFrame :: "nat \<Rightarrow> string \<Rightarrow> string option" where
  "writeWebSocketFrame opcode payload =
     (if wsMaxPayload < length payload then None
      else Some (char_of (128 + opcode mod 16) # frame_length (length payload) @ payload))"

text \<open>\<open>io.ReadFull\<close>: exactly \<open>n\<close> bytes or an error.\<close>

definition read_full :: "nat \<Rightarrow> string \<Rightarrow> (string \<times> string) option" where
  "read_full n s = (if length s < n then None else Some (take n s, drop n s))"

definition read_length :: "nat \<Rightarrow> string \<Rightarrow> (nat \<times> string) option" where
  "read_length l s =
     (if l = 126 then map_option (\<lambda>(ext, s). (be_value ext, s)) (read_full 2 s)
      else if l = 127 then map_option (\<lambda>(ext, s). (be_value ext, s)) (read_full 8 s)
      else Some (l, s))"

definition unmask :: "string \<Rightarrow> string \<Rightarrow> string" where
  "unmask key payload = map (\<lambda>i. byte_xor (payload ! i) (key ! (i mod 4))) [0..<length payload]"

definition readWebSocketFrame :: "string \<Rightarrow> wsError + wsFrame \<times> string" where
  "readWebSocketFrame s =
     (case read_full 2 s of
        None \<Rightarrow> Inl FrameTruncated
      | Some (head, s) \<Rightarrow>
          (let b0 = (of_char (head ! 0) :: nat); b1 = (of_char (head ! 1) :: nat) in
           if b0 < 128 then Inl FrameFragmented
           else if b1 < 128 then Inl FrameUnmasked
           else (case read_length (b1 mod 128) s of
                   None \<Rightarrow> Inl FrameTruncated
                 | Some (n, s) \<Rightarrow>
                     if wsMaxPayload < n then Inl FrameTooLarge
                     else (case read_full 4 s of
                             None \<Rightarrow> Inl FrameTruncated
                           | Some (key, s) \<Rightarrow>
                               (case read_full n s of
                                  None \<Rightarrow> Inl FrameTruncated
                                | Some (payload, s) \<Rightarrow>
                                    Inr (\<lparr>ws_opcode = b0 mod 16, ws_payload = unmask key payload\<rparr>, s))))))"

text \<open>The reading goroutine: frames until the first error.\<close>

function read_frames :: "string \<Rightarrow> wsFrame list \<times> wsError" where
  "read_frames s =
     (case readWebSocketFrame s of
        Inl e \<Rightarrow> ([], e)
      | Inr (f, rest) \<Rightarrow> (case read_frames rest of (fs, e) \<Rightarrow> (f # fs, e)))"
  by pat_completeness auto
termination
  by (relation "measure length")
    (auto simp: readWebSocketFrame_def read_full_def read_length_def Let_def split: if_splits option.splits prod.splits)

declare read_frames.simps [simp del]

section \<open>The upgrade\<close>

record upgradeRequest =
  up_method :: string
  up_connection :: "string list"
  up_upgrade :: string
  up_version :: string
  up_key :: string
  up_origin :: string
  up_host :: string

definition sameAdminOrigin ::
  "(string \<Rightarrow> string) \<Rightarrow> (string \<Rightarrow> string option) \<Rightarrow> string \<Rightarrow> string \<Rightarrow> bool" where
  "sameAdminOrigin uni url_host origin host =
     (case url_host origin of None \<Rightarrow> False | Some h \<Rightarrow> if h = [] then False else EqualFold uni h host)"

text \<open>The reply that refuses the upgrade, if one does.\<close>

definition upgrade_refusal ::
  "(string \<Rightarrow> string) \<Rightarrow> (string \<Rightarrow> string option) \<Rightarrow> upgradeRequest \<Rightarrow> reply option" where
  "upgrade_refusal uni url_host r =
     (let origin = TrimSpace (up_origin r) in
      if up_method r \<noteq> ''GET'' then Some methodNotAllowed
      else if \<not> headerHasToken uni (up_connection r) ''upgrade'' \<or> \<not> EqualFold uni (TrimSpace (up_upgrade r)) ''websocket''
        \<or> TrimSpace (up_version r) \<noteq> ''13'' then Some (answer_with 426 (ErrorBody ''websocket upgrade required''))
      else if TrimSpace (up_key r) = [] then Some (answer_with 400 (ErrorBody ''missing websocket key''))
      else if origin \<noteq> [] \<and> \<not> sameAdminOrigin uni url_host origin (up_host r)
        then Some (answer_with 403 (ErrorBody ''origin not allowed''))
      else None)"

definition crlf :: string where "crlf = [CHR 0x0D, CHR 0x0A]"

text \<open>\<open>sha1_b64\<close> is the base64 form of the SHA-1 digest.\<close>

definition websocketAccept :: "(string \<Rightarrow> string) \<Rightarrow> string \<Rightarrow> string" where
  "websocketAccept sha1_b64 key = sha1_b64 (key @ ''258EAFA5-E914-47DA-95CA-C5AB0DC85B11'')"

definition switching :: "(string \<Rightarrow> string) \<Rightarrow> string \<Rightarrow> string" where
  "switching sha1_b64 key =
     ''HTTP/1.1 101 Switching Protocols'' @ crlf @ ''Upgrade: websocket'' @ crlf @ ''Connection: Upgrade'' @ crlf
       @ ''Sec-WebSocket-Accept: '' @ websocketAccept sha1_b64 key @ crlf @ crlf"

section \<open>The loop\<close>

text \<open>A message or a heartbeat comes with its JSON text; \<open>None\<close> is a text that cannot be made.\<close>

datatype feedEvent =
    StoreMessage "string option"
  | StoreClosed
  | HeartbeatTick string
  | ClientFrame wsFrame
  | ClientError
  | RequestGone

text \<open>One turn: the bytes written and whether the loop goes on.\<close>

definition feed_step :: "feedEvent \<Rightarrow> string \<times> bool" where
  "feed_step ev =
     (case ev of
        StoreMessage msg \<Rightarrow>
          (case msg of
             None \<Rightarrow> ([], False)
           | Some payload \<Rightarrow>
               (case writeWebSocketFrame wsOpcodeText payload of None \<Rightarrow> ([], False) | Some out \<Rightarrow> (out, True)))
      | StoreClosed \<Rightarrow> ([], False)
      | HeartbeatTick payload \<Rightarrow>
          (case writeWebSocketFrame wsOpcodeText payload of None \<Rightarrow> ([], False) | Some out \<Rightarrow> (out, True))
      | ClientFrame f \<Rightarrow>
          if ws_opcode f = wsOpcodeClose then
            (case writeWebSocketFrame wsOpcodeClose (ws_payload f) of None \<Rightarrow> [] | Some out \<Rightarrow> out, False)
          else if ws_opcode f = wsOpcodePing then
            (case writeWebSocketFrame wsOpcodePong (ws_payload f) of None \<Rightarrow> ([], False) | Some out \<Rightarrow> (out, True))
          else ([], True)
      | ClientError \<Rightarrow> ([], False)
      | RequestGone \<Rightarrow> ([], False))"

fun feed :: "feedEvent list \<Rightarrow> string" where
  "feed [] = []"
| "feed (ev # evs) = (case feed_step ev of (out, open_) \<Rightarrow> out @ (if open_ then feed evs else []))"

end
