(* ===== verification/AdminRealtimeProofs.thy ===== *)
theory AdminRealtimeProofs
  imports AdminRealtime
begin

text \<open>
  Frames of the live feed: a frame that a client makes by masking reads back as it was meant,
  whatever follows it; what is read is bounded; the reader gets through any sequence of frames; and
  the loop answers every ping with its payload until the client closes.
\<close>

section \<open>Reading exactly\<close>

lemma read_full_append [wire]: "length a = n \<Longrightarrow> read_full n (a @ s) = Some (a, s)"
  by (auto simp: read_full_def)

lemma read_full_Some: "read_full n s = Some (a, t) \<longleftrightarrow> s = a @ t \<and> length a = n"
  by (auto simp: read_full_def)

lemma char_value [wire]: "n < 256 \<Longrightarrow> (of_char (char_of n) :: nat) = n"
  by (simp add: of_char_of)

section \<open>Masked frames\<close>

text \<open>The frame of a client: the mask bit on the length, the key, and the payload masked with it.\<close>

definition client_frame :: "nat \<Rightarrow> string \<Rightarrow> string \<Rightarrow> string" where
  "client_frame opcode key payload =
     char_of (128 + opcode mod 16) #
     char_of ((of_char (hd (frame_length (length payload))) :: nat) + 128) # tl (frame_length (length payload))
       @ key @ unmask key payload"

lemma length_unmask [simp]: "length (unmask key payload) = length payload"
  by (simp add: unmask_def)

lemma unmask_twice [simp]: "unmask key (unmask key payload) = payload"
  by (rule nth_equalityI) (simp_all add: unmask_def)

lemma be_value_zeros: "be_value (replicate m (char_of (0 :: nat))) = 0"
  by (induction m) simp_all

lemma frame_length_read:
  assumes "n \<le> wsMaxPayload"
  shows "\<exists>l ext. frame_length n = char_of l # ext \<and> l < 128 \<and> read_length l (ext @ s) = Some (n, s)"
proof -
  have zeros: "be_value (replicate 4 (char_of (0 :: nat)) @ be32 n) = n"
    using assms be_value_zeros [of 4] by (simp add: be_value_append wire wsMaxPayload_def)
  consider "n < 126" | "126 \<le> n" "n \<le> 65535" | "65535 < n" by linarith
  then show ?thesis
  proof cases
    case 1
    then show ?thesis by (intro exI [of _ n] exI [of _ "[]"]) (simp add: frame_length_def read_length_def)
  next
    case 2
    then show ?thesis
      by (intro exI [of _ 126] exI [of _ "be16 n"]) (simp add: frame_length_def read_length_def wire)
  next
    case 3
    have "read_full 8 ((replicate 4 (char_of (0 :: nat)) @ be32 n) @ s) = Some (replicate 4 (char_of (0 :: nat)) @ be32 n, s)"
      by (rule read_full_append) simp
    then show ?thesis using 3 zeros
      by (intro exI [of _ 127] exI [of _ "replicate 4 (char_of (0 :: nat)) @ be32 n"])
        (simp add: frame_length_def read_length_def)
  qed
qed

lemma read_client_frame:
  assumes "opcode < 16" "length key = 4" "length payload \<le> wsMaxPayload"
  shows "readWebSocketFrame (client_frame opcode key payload @ rest) = Inr (\<lparr>ws_opcode = opcode, ws_payload = payload\<rparr>, rest)"
proof -
  obtain l ext where l: "frame_length (length payload) = char_of l # ext" "l < 128"
    "read_length l (ext @ key @ unmask key payload @ rest) = Some (length payload, key @ unmask key payload @ rest)"
    using frame_length_read [OF assms(3), of "key @ unmask key payload @ rest"] by blast
  have head: "read_full 2 (a # b # s) = Some ([a, b], s)" for a b :: char and s
    by (simp add: read_full_def numeral_2_eq_2)
  have "(128 + opcode) mod 16 = opcode" using assms(1) by presburger
  then show ?thesis
    using assms l by (simp add: readWebSocketFrame_def client_frame_def head wire)
qed

text \<open>A frame that a client masks is read as its opcode and payload, whatever the key and whatever
  follows: masking what \<open>writeWebSocketFrame\<close> writes turns a frame of the server into one of a
  client.\<close>

lemma websocket_roundtrip:
  assumes "opcode < 16" "length key = 4" "writeWebSocketFrame opcode payload = Some out"
  shows "\<exists>len. out = char_of (128 + opcode) # len @ payload
      \<and> readWebSocketFrame (char_of (128 + opcode) # char_of ((of_char (hd len) :: nat) + 128) # tl len @ key @ unmask key payload @ rest)
          = Inr (\<lparr>ws_opcode = opcode, ws_payload = payload\<rparr>, rest)"
proof -
  have "length payload \<le> wsMaxPayload" "out = char_of (128 + opcode) # frame_length (length payload) @ payload"
    using assms by (auto simp: writeWebSocketFrame_def split: if_splits)
  then show ?thesis
    using read_client_frame [OF assms(1,2)] assms(1) by (auto simp: client_frame_def)
qed

text \<open>Whatever bytes arrive, a frame is accepted only if it is final, masked and of at most 64 KiB,
  and the bytes behind it are left as they are.\<close>

lemma frame_accepted_bounded:
  assumes "readWebSocketFrame s = Inr (f, rest)"
  shows "length (ws_payload f) \<le> 65536 \<and> ws_opcode f < 16
    \<and> (\<exists>b0 b1 ext key raw. s = b0 # b1 # ext @ key @ raw @ rest \<and> 128 \<le> (of_char b0 :: nat) \<and> 128 \<le> (of_char b1 :: nat)
         \<and> length ext \<le> 8 \<and> length key = 4 \<and> ws_payload f = unmask key raw)"
proof -
  obtain head s1 where h: "read_full 2 s = Some (head, s1)" using assms by (cases "read_full 2 s") (auto simp: readWebSocketFrame_def)
  then have s: "s = head @ s1" "length head = 2" by (auto simp: read_full_Some)
  then obtain b0 b1 where b: "head = [b0, b1]" by (auto simp: numeral_2_eq_2 length_Suc_conv)
  obtain n s2 key s3 raw where r: "\<not> (of_char b0 :: nat) < 128" "\<not> (of_char b1 :: nat) < 128"
      "read_length (of_char b1 mod 128) s1 = Some (n, s2)" "n \<le> wsMaxPayload"
      "read_full 4 s2 = Some (key, s3)" "read_full n s3 = Some (raw, rest)"
      "f = \<lparr>ws_opcode = of_char b0 mod 16, ws_payload = unmask key raw\<rparr>"
    using assms by (auto simp: readWebSocketFrame_def h b Let_def split: if_splits option.splits prod.splits)
  obtain ext where e: "s1 = ext @ s2" "length ext \<le> 8"
    using r(3) by (auto simp: read_length_def read_full_Some split: if_splits)
  show ?thesis
    using r e s b by (auto simp: read_full_Some wsMaxPayload_def)
qed

section \<open>Sequences of frames\<close>

lemma read_frames_sequence:
  assumes "\<forall>(opcode, key, payload) \<in> set fs. opcode < 16 \<and> length key = 4 \<and> length payload \<le> wsMaxPayload"
  shows "read_frames (concat (map (\<lambda>(opcode, key, payload). client_frame opcode key payload) fs))
     = (map (\<lambda>(opcode, key, payload). \<lparr>ws_opcode = opcode, ws_payload = payload\<rparr>) fs, FrameTruncated)"
  using assms
proof (induction fs)
  case Nil
  show ?case by (subst read_frames.simps) (simp add: readWebSocketFrame_def read_full_def)
next
  case (Cons f fs)
  obtain opcode key payload where f: "f = (opcode, key, payload)" by (cases f) auto
  show ?case using Cons by (subst read_frames.simps) (simp add: f read_client_frame)
qed

text \<open>The feed answers every ping of a session, in order, with a pong of the same payload, ignores
  the other frames of the client, and its last words after a close are the close frame that echoes
  the payload; the client's bytes are read frame by frame on the way.\<close>

lemma feed_answers:
  assumes "\<forall>(opcode, key, payload) \<in> set fs. opcode < 16 \<and> opcode \<noteq> wsOpcodeClose \<and> length key = 4 \<and> length payload \<le> wsMaxPayload"
    and "length key0 = 4" "length payload0 \<le> wsMaxPayload"
  shows "feed (map ClientFrame (fst (read_frames
           (concat (map (\<lambda>(opcode, key, payload). client_frame opcode key payload) (fs @ [(wsOpcodeClose, key0, payload0)]))))) @ later)
     = concat (map (\<lambda>(opcode, key, payload). the (writeWebSocketFrame wsOpcodePong payload))
           (List.filter (\<lambda>(opcode, key, payload). opcode = wsOpcodePing) fs))
       @ the (writeWebSocketFrame wsOpcodeClose payload0)"
proof -
  have frames: "fst (read_frames (concat (map (\<lambda>(opcode, key, payload). client_frame opcode key payload) (fs @ [(wsOpcodeClose, key0, payload0)]))))
      = map (\<lambda>(opcode, key, payload). \<lparr>ws_opcode = opcode, ws_payload = payload\<rparr>) (fs @ [(wsOpcodeClose, key0, payload0)])"
    by (subst read_frames_sequence) (use assms in \<open>auto simp: wsOpcodeClose_def\<close>)
  have "feed (map ClientFrame (map (\<lambda>(opcode, key, payload). \<lparr>ws_opcode = opcode, ws_payload = payload\<rparr>) (fs @ [(wsOpcodeClose, key0, payload0)])) @ later)
     = concat (map (\<lambda>(opcode, key, payload). the (writeWebSocketFrame wsOpcodePong payload))
           (List.filter (\<lambda>(opcode, key, payload). opcode = wsOpcodePing) fs))
       @ the (writeWebSocketFrame wsOpcodeClose payload0)"
    using assms by (induction fs) (auto simp: feed_step_def writeWebSocketFrame_def not_less)
  then show ?thesis by (simp only: frames)
qed

lemma websocket_roundtrip_witness:
  "\<exists>len. the (writeWebSocketFrame wsOpcodePing ''hi'') = char_of (137 :: nat) # len @ ''hi''
      \<and> readWebSocketFrame (char_of (137 :: nat) # char_of ((of_char (hd len) :: nat) + 128) # tl len @ ''mask'' @ unmask ''mask'' ''hi'' @ ''more'')
          = Inr (\<lparr>ws_opcode = 9, ws_payload = ''hi''\<rparr>, ''more'')"
  using websocket_roundtrip [of 9 "''mask''" "''hi''" "the (writeWebSocketFrame wsOpcodePing ''hi'')" "''more''"]
  by (simp add: writeWebSocketFrame_def wsMaxPayload_def wsOpcodePing_def)

lemma frame_accepted_bounded_witness:
  "length (ws_payload (fst (projr (readWebSocketFrame (client_frame 1 ''mask'' ''hi''))))) \<le> 65536"
  using frame_accepted_bounded [of "client_frame 1 ''mask'' ''hi''" "\<lparr>ws_opcode = 1, ws_payload = ''hi''\<rparr>" "[]"]
    read_client_frame [of 1 "''mask''" "''hi''" "[]"]
  by (simp add: wsMaxPayload_def)

lemma feed_answers_witness:
  "feed (map ClientFrame (fst (read_frames (concat (map (\<lambda>(opcode, key, payload). client_frame opcode key payload)
       [(9, ''key1'', ''a''), (1, ''key2'', ''b''), (9, ''key3'', ''c''), (8, ''key4'', ''d'')])))) @ [StoreClosed])
   = the (writeWebSocketFrame 10 ''a'') @ the (writeWebSocketFrame 10 ''c'') @ the (writeWebSocketFrame 8 ''d'')"
  using feed_answers [of "[(9, ''key1'', ''a''), (1, ''key2'', ''b''), (9, ''key3'', ''c'')]" "''key4''" "''d''" "[StoreClosed]"]
  by (simp add: wsOpcodePing_def wsOpcodeClose_def wsOpcodePong_def wsMaxPayload_def)

end
