(* ===== verification/AdminAuthProofs.thy ===== *)
theory AdminAuthProofs
  imports AdminAuth
begin

text \<open>
  Properties of the administration sessions. The locale \<open>session_table\<close> states what the
  handlers use of a table of sessions that expire: a lookup that forgets an expired entry, and
  removal. Its lemmas follow an entry through any uses of the table; the model's table is
  interpreted below. The rest shows what the guard lets through, that both tables are bounded,
  how long a login lasts, and how failed logins are slowed down.
\<close>

section \<open>Tables of sessions that expire\<close>

locale session_table =
  fixes lookup :: "'s \<Rightarrow> 'k \<Rightarrow> gotime \<Rightarrow> 'e option"
    and touch :: "'k \<Rightarrow> gotime \<Rightarrow> 's \<Rightarrow> 's"
    and remove :: "'k \<Rightarrow> 's \<Rightarrow> 's"
    and expiry :: "'e \<Rightarrow> gotime"
  assumes lookup_alive: "lookup s k t = Some e \<Longrightarrow> t < expiry e"
    and lookup_until: "lookup s k t = Some e \<Longrightarrow> u < expiry e \<Longrightarrow> lookup s k u = Some e"
    and lookup_touch: "t \<le> u \<Longrightarrow> lookup (touch k t s) j u = lookup s j u"
    and lookup_remove: "lookup (remove k s) j u = (if j = k then None else lookup s j u)"
begin

lemma expired_stays:
  assumes "lookup s k t = None" "t \<le> u"
  shows "lookup s k u = None"
proof (cases "lookup s k u")
  case (Some e)
  then have "t < expiry e" using lookup_alive assms(2) by fastforce
  then have "lookup s k t = Some e" using Some by (rule lookup_until [rotated])
  then show ?thesis using assms(1) by simp
qed

lemma lookup_exact:
  assumes "lookup s k t = Some e"
  shows "lookup s k u = (if u < expiry e then Some e else None)"
proof (cases "u < expiry e")
  case True
  then show ?thesis using lookup_until [OF assms] by simp
next
  case False
  have "lookup s k u \<noteq> Some e'" for e'
  proof
    assume u: "lookup s k u = Some e'"
    have "t < expiry e" by (rule lookup_alive [OF assms])
    then have "t \<le> u" using False by simp
    show False
    proof (cases "t < expiry e'")
      case True
      then have "lookup s k t = Some e'" by (rule lookup_until [OF u])
      then show False using assms lookup_alive [OF u] False by simp
    next
      case False
      then show False using \<open>t \<le> u\<close> lookup_alive [OF u] by simp
    qed
  qed
  then have "lookup s k u = None" by (cases "lookup s k u") blast+
  then show ?thesis using False by simp
qed

lemma touches_keep: "\<forall>(j, t) \<in> set ts. t \<le> u \<Longrightarrow> lookup (fold (\<lambda>(j, t). touch j t) ts s) k u = lookup s k u"
  by (induction ts arbitrary: s) (auto simp: lookup_touch)

lemma removed_stays: "\<forall>(j, t) \<in> set ts. t \<le> u \<Longrightarrow> lookup (fold (\<lambda>(j, t). touch j t) ts (remove k s)) k u = None"
  by (simp add: touches_keep lookup_remove)

end

section \<open>The model's table\<close>

definition live :: "adminServer \<Rightarrow> string \<Rightarrow> gotime \<Rightarrow> adminSession option" where
  "live s key now = (case map_of (ad_sessions s) key of
     None \<Rightarrow> None | Some e \<Rightarrow> if as_expires e \<le> now then None else Some e)"

definition expire :: "string \<Rightarrow> gotime \<Rightarrow> adminServer \<Rightarrow> adminServer" where
  "expire key now s = (case map_of (ad_sessions s) key of
     None \<Rightarrow> s
   | Some e \<Rightarrow> if as_expires e \<le> now then s\<lparr>ad_sessions := AList.delete key (ad_sessions s)\<rparr> else s)"

definition forget :: "string \<Rightarrow> adminServer \<Rightarrow> adminServer" where
  "forget key s = s\<lparr>ad_sessions := AList.delete key (ad_sessions s)\<rparr>"

interpretation admin: session_table live expire forget as_expires
  by unfold_locales
    (auto simp: live_def expire_def forget_def gomap split: option.splits if_splits)

lemma fromRequest_eq:
  "adminSessionFromRequest sha r now s =
     (case cookie_key sha r of None \<Rightarrow> (s, None) | Some key \<Rightarrow> (expire key now s, live s key now))"
  by (simp add: adminSessionFromRequest_def live_def expire_def split: option.split)

lemma deleteAdminSession_eq:
  "deleteAdminSession sha r s = (case cookie_key sha r of None \<Rightarrow> s | Some key \<Rightarrow> forget key s)"
  by (simp add: deleteAdminSession_def forget_def split: option.split)

lemma config_kept [simp]:
  "ad_user (expire k t s) = ad_user s" "ad_password (expire k t s) = ad_password s"
  "ad_user (forget k s) = ad_user s" "ad_password (forget k s) = ad_password s"
  "ad_user (clearAdminAuthFailures ip s) = ad_user s" "ad_password (clearAdminAuthFailures ip s) = ad_password s"
  by (simp_all add: expire_def forget_def clearAdminAuthFailures_def split: option.split)

lemma failures_kept [simp]:
  "ad_failures (expire k t s) = ad_failures s" "ad_failures (forget k s) = ad_failures s"
  by (simp_all add: expire_def forget_def split: option.split)

lemma sessions_clear [simp]: "ad_sessions (clearAdminAuthFailures ip s) = ad_sessions s"
  by (simp add: clearAdminAuthFailures_def)

lemma live_clear [simp]: "live (clearAdminAuthFailures ip s) = live s"
  by (simp add: live_def fun_eq_iff)

lemma answer_simps [simp]:
  "rp_body (answer_with st b) = b" "rp_status (answer_with st b) = st" "rp_cookie (answer_with st b) = None"
  "rp_body (nostore p) = rp_body p" "rp_status (nostore p) = rp_status p" "rp_cookie (nostore p) = rp_cookie p"
  by (simp_all add: answer_with_def nostore_def)

lemma mismatch_inj: "inj sha \<Longrightarrow> subtleStringMismatch sha a b \<longleftrightarrow> a \<noteq> b"
  by (auto simp: subtleStringMismatch_def dest: injD)

section \<open>What the guard lets through\<close>

definition guarded :: "adminRequest \<Rightarrow> bool" where
  "guarded r \<longleftrightarrow> rq_path r \<notin> set (''/api/auth/login'' # ''/api/auth/session'' # ''/api/auth/logout'' # ''/login'' # public_files)"

lemma guarded_handler: "guarded r \<Longrightarrow> admin_handler sha uni escape rnd page r now s = adminSessionAuth sha uni escape r now s"
  unfolding guarded_def admin_handler_def set_simps(2) by (simp del: set_simps)

lemma auth_passes:
  "rp_body (snd (adminSessionAuth sha uni escape r now s)) = NextHandler \<longleftrightarrow>
     (case adminSessionFromRequest sha r now s of
        (s', None) \<Rightarrow> top_client sha r s'
      | (s', Some e) \<Rightarrow> reads_only r \<or> rq_method r = ''OPTIONS'' \<or> \<not> subtleStringMismatch sha (rq_csrf r) (as_csrf e))"
  by (auto simp: adminSessionAuth_def split: option.split prod.split)

text \<open>C21: a request for anything but the login routes and the static files of the login page reaches
  a handler only with a live session of its cookie, whose CSRF token it carries when its method can
  change something, or as a reading API request of the command-line client with the administrator's
  credentials. The hash is supposed to have no collisions.\<close>

theorem guard_sound:
  assumes "inj sha" "guarded r"
    and "admin_handler sha uni escape rnd page r now s = (s', p)" "rp_body p = NextHandler"
  shows "(\<exists>key e. cookie_key sha r = Some key \<and> map_of (ad_sessions s) key = Some e \<and> now < as_expires e
            \<and> (rq_method r \<in> {''GET'', ''HEAD'', ''OPTIONS''} \<or> rq_csrf r = as_csrf e))
         \<or> rq_method r \<in> {''GET'', ''HEAD''} \<and> HasPrefix (rq_path r) ''/api/'' \<and> rq_client r = ''top''
            \<and> rq_basic r = Some (ad_user s, ad_password s)"
proof -
  have "rp_body (snd (adminSessionAuth sha uni escape r now s)) = NextHandler"
    using assms(2-4) by (simp add: guarded_handler)
  then show ?thesis
    unfolding auth_passes fromRequest_eq
    using mismatch_inj [OF assms(1)]
    by (auto simp: top_client_def is_api_def reads_only_def live_def split: option.splits if_splits prod.splits)
qed

section \<open>Bounds\<close>

definition tables_ok :: "adminServer \<Rightarrow> bool" where
  "tables_ok s \<longleftrightarrow> map_wf (ad_sessions s) \<and> length (ad_sessions s) \<le> 256
     \<and> map_wf (ad_failures s) \<and> length (ad_failures s) \<le> 2048"

lemma make_room_wf: "map_wf m \<Longrightarrow> map_wf (make_room m)"
  by (induction m rule: make_room.induct) (subst make_room.simps, simp)

lemma make_room_fits: "length (make_room m) < 256"
  by (induction m rule: make_room.induct) (subst make_room.simps, simp add: maxAdminSessions_def)

lemma make_room_id: "length m < 256 \<Longrightarrow> make_room m = m"
  by (subst make_room.simps) (simp add: maxAdminSessions_def)

lemma drop_expired_wf [simp]: "map_wf m \<Longrightarrow> map_wf (drop_expired now m)"
  by (simp add: drop_expired_def)

lemma trim_failures_wf: "map_wf m \<Longrightarrow> map_wf (trim_failures n ip m)"
  by (induction n ip m rule: trim_failures.induct) (auto split: option.split)

lemma other_entry:
  assumes "map_wf m" "1 < length m"
  shows "\<exists>p. List.find (\<lambda>p. fst p \<noteq> ip) m = Some p \<and> p \<in> set m \<and> fst p \<noteq> ip"
proof -
  obtain a b m' where m: "m = a # b # m'" using assms(2) by (cases m; cases "tl m") auto
  have "fst a \<noteq> fst b" using assms(1) by (simp add: m map_wf_def)
  then show ?thesis by (cases a; cases b) (auto simp: m)
qed

lemma trim_failures_fits: "map_wf m \<Longrightarrow> length m \<le> n + 2048 \<Longrightarrow> length (trim_failures n ip m) \<le> 2048"
proof (induction n ip m rule: trim_failures.induct)
  case (2 n ip m)
  show ?case
  proof (cases "maxAuthFailures < length m")
    case True
    obtain p where p: "List.find (\<lambda>p. fst p \<noteq> ip) m = Some p" "p \<in> set m"
      using other_entry [OF "2.prems"(1), of ip] True by (auto simp: maxAuthFailures_def)
    have "has_key m (fst p)" using p(2) by (auto simp: has_key_iff)
    then show ?thesis
      using 2 True p(1) by (simp add: length_delete)
  qed (simp add: maxAuthFailures_def)
qed simp

lemma failure_table_ok:
  assumes "tables_ok s"
  shows "tables_ok (fst (recordAdminAuthFailure ip now s))"
proof -
  have len: "length (AList.update k v (ad_failures s)) \<le> 2049" for k v
    using assms by (auto simp: tables_ok_def length_update)
  show ?thesis
    using assms
    by (auto simp: tables_ok_def recordAdminAuthFailure_def Let_def trim_failures_wf maxAuthFailures_def
        intro!: trim_failures_fits)
qed

lemma create_table_ok: "tables_ok s \<Longrightarrow> tables_ok (fst (createAdminSession sha rnd now s))"
  using make_room_fits [of "drop_expired now (ad_sessions s)"]
  by (auto simp: tables_ok_def createAdminSession_def Let_def make_room_wf length_update split: option.split)

lemma expire_table_ok: "tables_ok s \<Longrightarrow> tables_ok (expire key now s)"
  using length_delete_le [of key "ad_sessions s"]
  by (auto simp: tables_ok_def expire_def simp del: length_delete_le split: option.split)

lemma forget_table_ok: "tables_ok s \<Longrightarrow> tables_ok (forget key s)"
  using length_delete_le [of key "ad_sessions s"] by (auto simp: tables_ok_def forget_def simp del: length_delete_le)

lemma clear_table_ok: "tables_ok s \<Longrightarrow> tables_ok (clearAdminAuthFailures ip s)"
  using length_delete_le [of "auth_ip ip" "ad_failures s"]
  by (auto simp: tables_ok_def clearAdminAuthFailures_def simp del: length_delete_le)

lemmas table_ok = failure_table_ok create_table_ok expire_table_ok forget_table_ok clear_table_ok

section \<open>What one request does to the sessions\<close>

lemma live_sessions: "ad_sessions s' = ad_sessions s \<Longrightarrow> live s' k u = live s k u"
  by (simp add: live_def)

lemma sessions_record [simp]: "ad_sessions (fst (recordAdminAuthFailure ip now s)) = ad_sessions s"
  by (simp add: recordAdminAuthFailure_def Let_def)

lemma sessions_create_cong:
  "ad_sessions s' = ad_sessions s \<Longrightarrow>
     ad_sessions (fst (createAdminSession sha rnd now s')) = ad_sessions (fst (createAdminSession sha rnd now s))"
  by (simp add: createAdminSession_def Let_def split: option.split)

lemma login_state:
  "fst (adminLogin sha uni rnd r now s) \<in>
     {s, fst (recordAdminAuthFailure (rq_ip r) now s),
      fst (createAdminSession sha rnd now (clearAdminAuthFailures (rq_ip r) s))}"
  by (auto simp: adminLogin_def split: option.split prod.split)

lemma info_state:
  "fst (adminSessionInfo sha r now s) \<in> {s, fst (adminSessionFromRequest sha r now s)}"
  by (auto simp: adminSessionInfo_def split: option.split prod.split)

lemma logout_state:
  "fst (adminLogout sha uni r now s) \<in> {s, fst (adminSessionFromRequest sha r now s),
      deleteAdminSession sha r (fst (adminSessionFromRequest sha r now s))}"
  by (auto simp: adminLogout_def split: option.split prod.split)

lemma page_state:
  "fst (adminLoginPage sha page r now s) \<in> {s, fst (adminSessionFromRequest sha r now s)}"
  by (auto simp: adminLoginPage_def split: option.split prod.split)

lemma auth_state:
  "fst (adminSessionAuth sha uni escape r now s) \<in> {fst (adminSessionFromRequest sha r now s),
      clearAdminAuthFailures (rq_ip r) (fst (adminSessionFromRequest sha r now s))}"
  by (auto simp: adminSessionAuth_def split: option.split prod.split)

lemma fromRequest_state:
  "fst (adminSessionFromRequest sha r now s) = s \<or>
     (\<exists>key. cookie_key sha r = Some key \<and> fst (adminSessionFromRequest sha r now s) = expire key now s)"
  by (simp add: fromRequest_eq split: option.split)

lemma fromRequest_table_ok: "tables_ok s \<Longrightarrow> tables_ok (fst (adminSessionFromRequest sha r now s))"
  by (simp add: fromRequest_eq table_ok split: option.split)

lemma delete_table_ok: "tables_ok s \<Longrightarrow> tables_ok (deleteAdminSession sha r s)"
  by (simp add: deleteAdminSession_eq table_ok split: option.split)

lemma handler_rule:
  assumes "rq_path r = ''/api/auth/login'' \<Longrightarrow> P (adminLogin sha uni rnd r now s)"
    and "P (adminSessionInfo sha r now s)"
    and "rq_path r = ''/api/auth/logout'' \<Longrightarrow> P (adminLogout sha uni r now s)"
    and "P (adminLoginPage sha page r now s)"
    and "P (s, answer_with 200 NextHandler)"
    and "P (adminSessionAuth sha uni escape r now s)"
  shows "P (admin_handler sha uni escape rnd page r now s)"
  unfolding admin_handler_def
  by (simp only: split: if_split) (intro conjI impI assms; assumption)

lemma state_rule2: "x \<in> {a, b} \<Longrightarrow> Q a \<Longrightarrow> Q b \<Longrightarrow> Q x" by blast
lemma state_rule3: "x \<in> {a, b, c} \<Longrightarrow> Q a \<Longrightarrow> Q b \<Longrightarrow> Q c \<Longrightarrow> Q x" by blast

lemma handler_table_ok:
  assumes "tables_ok s"
  shows "tables_ok (fst (admin_handler sha uni escape rnd page r now s))"
proof (rule handler_rule)
  note ok = assms table_ok delete_table_ok fromRequest_table_ok
  show "tables_ok (fst (adminLogin sha uni rnd r now s))"
    by (rule state_rule3 [OF login_state]) (simp_all add: ok)
  show "tables_ok (fst (adminSessionInfo sha r now s))"
    by (rule state_rule2 [OF info_state]) (simp_all add: ok)
  show "tables_ok (fst (adminLogout sha uni r now s))"
    by (rule state_rule3 [OF logout_state]) (simp_all add: ok)
  show "tables_ok (fst (adminLoginPage sha page r now s))"
    by (rule state_rule2 [OF page_state]) (simp_all add: ok)
  show "tables_ok (fst (s, answer_with 200 NextHandler))" by (simp add: assms)
  show "tables_ok (fst (adminSessionAuth sha uni escape r now s))"
    by (rule state_rule2 [OF auth_state]) (simp_all add: ok)
qed

definition admin_run where
  "admin_run sha uni escape page evs s =
     fold (\<lambda>(rnd, r, now) s. fst (admin_handler sha uni escape rnd page r now s)) evs s"

lemma run_table_ok: "tables_ok s \<Longrightarrow> tables_ok (admin_run sha uni escape page evs s)"
  unfolding admin_run_def by (induction evs arbitrary: s) (auto simp: handler_table_ok)

lemma new_table_ok: "tables_ok (NewAdmin u p)"
  by (simp add: tables_ok_def NewAdmin_def)

text \<open>Whatever requests the server gets, at whatever times and with whatever random bytes, it
  keeps at most 256 sessions and at most 2048 addresses with failed logins.\<close>

lemma admin_tables_bounded:
  "length (ad_sessions (admin_run sha uni escape page evs (NewAdmin u p))) \<le> 256
   \<and> length (ad_failures (admin_run sha uni escape page evs (NewAdmin u p))) \<le> 2048"
  using run_table_ok [OF new_table_ok] by (simp add: tables_ok_def)

text \<open>An entry's life: only a logout with its key, a login that draws its token or the eviction of
  a full table ends it before its time.\<close>

definition draws :: "(string \<Rightarrow> string) \<Rightarrow> (nat \<Rightarrow> string option) \<Rightarrow> string \<Rightarrow> bool" where
  "draws sha rnd key \<longleftrightarrow> (case randomAdminToken rnd 32 of None \<Rightarrow> False | Some token \<Rightarrow> sha token = key)"

lemma map_of_filter_wf:
  "map_wf m \<Longrightarrow> map_of (List.filter P m) k = (case map_of m k of None \<Rightarrow> None | Some v \<Rightarrow> if P (k, v) then Some v else None)"
proof (induction m)
  case (Cons p m)
  have "fst p \<notin> fst ` set m" "map_wf m" using Cons.prems by (auto simp: map_wf_def)
  then show ?case using Cons.IH
    by (cases p) (auto split: option.splits simp: map_of_eq_None_iff [symmetric])
qed simp

lemma make_room_mono: "map_of (make_room m) k = Some e \<Longrightarrow> map_of m k = Some e"
proof (induction m rule: make_room.induct)
  case (1 m)
  show ?case
  proof (cases "maxAdminSessions \<le> length m")
    case True
    then have "map_of (AList.delete (oldest_key m) m) k = Some e"
      using 1 by (simp add: make_room.simps [of m])
    then show ?thesis by (simp add: gomap split: if_splits)
  qed (use 1 in \<open>simp add: make_room.simps [of m]\<close>)
qed

lemma live_create_none:
  assumes "map_wf (ad_sessions s)" "\<not> draws sha rnd k" "live s k u = None"
  shows "live (fst (createAdminSession sha rnd t s)) k u = None"
  using assms make_room_mono [of "drop_expired t (ad_sessions s)" k]
  by (cases "map_of (make_room (drop_expired t (ad_sessions s))) k")
    (auto simp: createAdminSession_def Let_def draws_def live_def gomap drop_expired_def map_of_filter_wf
      split: option.splits if_splits)

lemma live_create_keep:
  assumes "map_wf (ad_sessions s)" "\<not> draws sha rnd k" "length (ad_sessions s) < 256" "t \<le> u"
  shows "live (fst (createAdminSession sha rnd t s)) k u = live s k u"
proof -
  have "length (drop_expired t (ad_sessions s)) < 256"
    using assms(3) unfolding drop_expired_def by (rule le_less_trans [OF length_filter_le])
  then show ?thesis using assms
    by (auto simp: createAdminSession_def Let_def draws_def live_def gomap make_room_id drop_expired_def
        map_of_filter_wf split: option.splits)
qed

definition ends :: "(string \<Rightarrow> string) \<Rightarrow> string \<Rightarrow> (nat \<Rightarrow> string option) \<Rightarrow> adminRequest \<Rightarrow> bool" where
  "ends sha k rnd r \<longleftrightarrow> rq_path r = ''/api/auth/login'' \<and> draws sha rnd k
     \<or> rq_path r = ''/api/auth/logout'' \<and> cookie_key sha r = Some k"

lemma live_fromRequest: "t \<le> u \<Longrightarrow> live (fst (adminSessionFromRequest sha r t s)) k u = live s k u"
  by (simp add: fromRequest_eq admin.lookup_touch split: option.split)

lemma live_delete:
  "live (deleteAdminSession sha r s) k u = (if cookie_key sha r = Some k then None else live s k u)"
  by (simp add: deleteAdminSession_eq admin.lookup_remove split: option.split)

lemma handler_live:
  assumes "t \<le> u"
    and login: "rq_path r = ''/api/auth/login'' \<Longrightarrow> live (fst (createAdminSession sha rnd t s)) k u = live s k u"
    and logout: "rq_path r = ''/api/auth/logout'' \<Longrightarrow> cookie_key sha r = Some k \<Longrightarrow> live s k u = None"
  shows "live (fst (admin_handler sha uni escape rnd page r t s)) k u = live s k u"
proof (rule handler_rule)
  note keep = live_fromRequest [OF assms(1)] live_delete
  show "live (fst (adminSessionInfo sha r t s)) k u = live s k u"
    by (rule state_rule2 [OF info_state]) (simp_all add: keep)
  show "live (fst (adminLoginPage sha page r t s)) k u = live s k u"
    by (rule state_rule2 [OF page_state]) (simp_all add: keep)
  show "live (fst (s, answer_with 200 NextHandler)) k u = live s k u" by simp
  show "live (fst (adminSessionAuth sha uni escape r t s)) k u = live s k u"
    by (rule state_rule2 [OF auth_state]) (simp_all add: keep)
  show "live (fst (adminLogin sha uni rnd r t s)) k u = live s k u" if p: "rq_path r = ''/api/auth/login''"
  proof (rule state_rule3 [OF login_state])
    have "live (fst (createAdminSession sha rnd t (clearAdminAuthFailures (rq_ip r) s))) k u
        = live (fst (createAdminSession sha rnd t s)) k u"
      by (rule live_sessions, rule sessions_create_cong) simp
    then show "live (fst (createAdminSession sha rnd t (clearAdminAuthFailures (rq_ip r) s))) k u = live s k u"
      using login [OF p] by simp
  qed (rule refl, rule live_sessions, rule sessions_record)
  show "live (fst (adminLogout sha uni r t s)) k u = live s k u" if p: "rq_path r = ''/api/auth/logout''"
    by (rule state_rule3 [OF logout_state]) (simp_all add: keep logout [OF p])
qed

lemma sessions_grow:
  "length (ad_sessions (fst (admin_handler sha uni escape rnd page r t s)))
     \<le> length (ad_sessions s) + (if rq_path r = ''/api/auth/login'' then 1 else 0)"
proof -
  let ?n = "length (ad_sessions s)"
  have touch: "length (ad_sessions (fst (adminSessionFromRequest sha r t s))) \<le> ?n"
    by (simp add: fromRequest_eq expire_def split: option.split)
  have delete: "length (ad_sessions (deleteAdminSession sha r s')) \<le> length (ad_sessions s')" for s'
    by (simp add: deleteAdminSession_eq forget_def split: option.split)
  have "length (make_room m) \<le> length m" for m
    by (induction m rule: make_room.induct)
      (subst make_room.simps, auto intro: order_trans [OF _ length_delete_le])
  then have "length (make_room (drop_expired t m)) \<le> length m" for m
    using order_trans [OF _ length_filter_le] by (fastforce simp: drop_expired_def)
  then have create: "length (ad_sessions (fst (createAdminSession sha rnd t s'))) \<le> Suc (length (ad_sessions s'))" for s'
    by (simp add: createAdminSession_def Let_def length_update le_SucI split: option.split)
  have create': "length (ad_sessions (fst (createAdminSession sha rnd t (clearAdminAuthFailures ip s)))) \<le> Suc ?n" for ip
    using create [of "clearAdminAuthFailures ip s"] by simp
  show ?thesis
  proof (rule handler_rule)
    show "length (ad_sessions (fst (adminSessionInfo sha r t s))) \<le> ?n + (if rq_path r = ''/api/auth/login'' then 1 else 0)"
      by (rule state_rule2 [OF info_state]) (use touch in simp_all)
    show "length (ad_sessions (fst (adminLoginPage sha page r t s))) \<le> ?n + (if rq_path r = ''/api/auth/login'' then 1 else 0)"
      by (rule state_rule2 [OF page_state]) (use touch in simp_all)
    show "length (ad_sessions (fst (adminSessionAuth sha uni escape r t s))) \<le> ?n + (if rq_path r = ''/api/auth/login'' then 1 else 0)"
      by (rule state_rule2 [OF auth_state]) (use touch in simp_all)
    show "length (ad_sessions (fst (adminLogout sha uni r t s))) \<le> ?n + (if rq_path r = ''/api/auth/login'' then 1 else 0)"
      by (rule state_rule3 [OF logout_state]) (use touch order_trans [OF delete touch] in simp_all)
    show "length (ad_sessions (fst (adminLogin sha uni rnd r t s))) \<le> ?n + (if rq_path r = ''/api/auth/login'' then 1 else 0)"
      if "rq_path r = ''/api/auth/login''"
      by (rule state_rule3 [OF login_state]) (use create' in \<open>simp_all add: that\<close>)
  qed simp
qed

definition logins :: "((nat \<Rightarrow> string option) \<times> adminRequest \<times> gotime) list \<Rightarrow> nat" where
  "logins evs = length (List.filter (\<lambda>(rnd, r, t). rq_path r = ''/api/auth/login'') evs)"

lemma run_keeps:
  assumes "tables_ok s" "\<forall>(rnd, r, t) \<in> set evs. t \<le> u \<and> \<not> ends sha k rnd r"
    "length (ad_sessions s) + logins evs \<le> 256"
  shows "live (admin_run sha uni escape page evs s) k u = live s k u"
  using assms
proof (induction evs arbitrary: s)
  case (Cons ev evs)
  obtain rnd r t where ev: "ev = (rnd, r, t)" by (cases ev) auto
  let ?s = "fst (admin_handler sha uni escape rnd page r t s)"
  have here: "t \<le> u" "\<not> ends sha k rnd r" using Cons.prems(2) by (auto simp: ev)
  have "live ?s k u = live s k u"
  proof (rule handler_live [OF here(1)])
    assume "rq_path r = ''/api/auth/login''"
    then show "live (fst (createAdminSession sha rnd t s)) k u = live s k u"
      using here Cons.prems by (intro live_create_keep) (auto simp: ends_def tables_ok_def logins_def ev)
  qed (use here in \<open>simp_all add: ends_def\<close>)
  moreover have "length (ad_sessions ?s) + logins evs \<le> 256"
    using sessions_grow [of sha uni escape rnd page r t s] Cons.prems(3)
    by (simp add: logins_def ev split: if_splits)
  ultimately show ?case
    using Cons.IH [of ?s] Cons.prems handler_table_ok [OF Cons.prems(1)]
    by (simp add: admin_run_def ev)
qed (simp add: admin_run_def)

lemma run_refuses:
  assumes "tables_ok s" "\<forall>(rnd, r, t) \<in> set evs. t \<le> u \<and> \<not> draws sha rnd k" "live s k u = None"
  shows "live (admin_run sha uni escape page evs s) k u = None"
  using assms
proof (induction evs arbitrary: s)
  case (Cons ev evs)
  obtain rnd r t where ev: "ev = (rnd, r, t)" by (cases ev) auto
  let ?s = "fst (admin_handler sha uni escape rnd page r t s)"
  have "live ?s k u = live s k u"
    using Cons.prems by (intro handler_live) (auto simp: live_create_none tables_ok_def ev)
  then show ?case
    using Cons.IH [of ?s] Cons.prems handler_table_ok [OF Cons.prems(1)]
    by (simp add: admin_run_def ev)
qed (simp add: admin_run_def)

section \<open>How long a login lasts\<close>

lemma admitted:
  assumes "guarded r" "cookie_key sha r = Some k" "live s k u = Some e" "rq_csrf r = as_csrf e"
  shows "rp_body (snd (admin_handler sha uni escape rnd page r u s)) = NextHandler"
  using assms by (simp add: guarded_handler auth_passes fromRequest_eq subtleStringMismatch_def)

lemma refused:
  assumes "guarded r" "cookie_key sha r = Some k" "live s k u = None" "rq_client r \<noteq> ''top''"
  shows "rp_body (snd (admin_handler sha uni escape rnd page r u s)) \<noteq> NextHandler"
  using assms by (simp add: guarded_handler auth_passes fromRequest_eq top_client_def)

lemma login_stores:
  assumes "rq_path r = ''/api/auth/login''" "admin_handler sha uni escape rnd page r t s = (s', p)"
    and "rp_body p = LoggedIn user csrf expires" "rp_cookie p = Some ck" "\<forall>n b. rnd n = Some b \<longrightarrow> length b = n"
  shows "live s' (sha (ck_value ck)) u =
           (if u < t + adminSessionLifetime then Some \<lparr>as_created = t, as_expires = t + adminSessionLifetime, as_csrf = csrf\<rparr> else None)"
    and "TrimSpace (ck_value ck) \<noteq> []"
proof -
  have "adminLogin sha uni rnd r t s = (s', p)" using assms(1,2) by (simp add: admin_handler_def)
  then obtain b c where b: "rnd 32 = Some b" "rnd 24 = Some c"
    and s': "ad_sessions s' = AList.update (sha (b64_url b)) \<lparr>as_created = t, as_expires = t + adminSessionLifetime, as_csrf = b64_url c\<rparr>
               (make_room (drop_expired t (ad_sessions s)))"
    and p: "ck_value ck = b64_url b" "csrf = b64_url c"
    using assms(3,4)
    by (auto simp: adminLogin_def createAdminSession_def randomAdminToken_def Let_def setAdminSessionCookie_def
        nostore_def answer_with_def methodNotAllowed_def split: if_splits option.splits prod.splits)
  then show "live s' (sha (ck_value ck)) u =
           (if u < t + adminSessionLifetime then Some \<lparr>as_created = t, as_expires = t + adminSessionLifetime, as_csrf = csrf\<rparr> else None)"
    by (simp add: live_def gomap)
  have "b \<noteq> []" using assms(5) b(1) by fastforce
  then show "TrimSpace (ck_value ck) \<noteq> []" by (simp add: p TrimSpace_b64)
qed

text \<open>C26: after a login, whatever other requests come in between, the cookie and the CSRF token that
  the reply carried open every handler for twelve hours: as long as the cookie is not logged out,
  its token is not drawn again and the table does not fill up.\<close>

theorem login_lasts:
  assumes "s = admin_run sha uni escape page evs0 (NewAdmin name password)"
    and "rq_path r0 = ''/api/auth/login''" "\<forall>n b. rnd n = Some b \<longrightarrow> length b = n"
    and "admin_handler sha uni escape rnd page r0 t s = (s1, p)"
    and "rp_body p = LoggedIn user csrf expires" "rp_cookie p = Some ck"
    and "\<forall>(rnd, r, v) \<in> set evs. v \<le> u \<and> \<not> ends sha (sha (ck_value ck)) rnd r"
    and "length (ad_sessions s1) + logins evs \<le> 256" "u < t + 12 * hour"
    and "guarded r" "rq_cookie r = Some (ck_value ck)" "rq_csrf r = csrf"
  shows "rp_body (snd (admin_handler sha uni escape rnd' page r u (admin_run sha uni escape page evs s1))) = NextHandler"
proof -
  note stored = login_stores [OF assms(2,4,5,6,3)]
  have "tables_ok s1"
    using handler_table_ok [OF run_table_ok [OF new_table_ok]] assms(1,4) by (metis fst_conv)
  then have "live (admin_run sha uni escape page evs s1) (sha (ck_value ck)) u = live s1 (sha (ck_value ck)) u"
    using assms(7,8) by (rule run_keeps)
  moreover have "cookie_key sha r = Some (sha (ck_value ck))"
    using assms(11) stored(2) by (simp add: cookie_key_def)
  ultimately show ?thesis
    using assms(9,10,12) stored(1) [of u] by (intro admitted [where e = "\<lparr>as_created = t, as_expires = t + adminSessionLifetime, as_csrf = csrf\<rparr>"])
      (simp_all add: adminSessionLifetime_def)
qed

text \<open>C28: once a logout was answered, its cookie opens nothing any more, whatever requests follow, as
  long as no login draws the same token again.\<close>

theorem logout_ends:
  assumes "s = admin_run sha uni escape page evs0 (NewAdmin user password)"
    and "rq_path r0 = ''/api/auth/logout''" "admin_handler sha uni escape rnd page r0 t s = (s1, p)" "rp_body p = OkBody"
    and "\<forall>(rnd, r, v) \<in> set evs. v \<le> u \<and> \<not> draws sha rnd (sha (the (rq_cookie r0)))"
    and "guarded r" "rq_cookie r = rq_cookie r0" "rq_client r \<noteq> ''top''"
  shows "rp_body (snd (admin_handler sha uni escape rnd' page r u (admin_run sha uni escape page evs s1))) \<noteq> NextHandler"
proof -
  have "adminLogout sha uni r0 t s = (s1, p)" using assms(2,3) by (simp add: admin_handler_def)
  then obtain k where k: "cookie_key sha r0 = Some k" and s1: "s1 = forget k (expire k t s)"
    using assms(4)
    by (auto simp: adminLogout_def fromRequest_eq deleteAdminSession_eq methodNotAllowed_def split: if_splits option.splits)
  have key: "k = sha (the (rq_cookie r0))" using k by (auto simp: cookie_key_def split: option.splits if_splits)
  have "tables_ok s1"
    using handler_table_ok [OF run_table_ok [OF new_table_ok]] assms(1,3) by (metis fst_conv)
  moreover have "live s1 k u = None" by (simp add: s1 admin.lookup_remove)
  ultimately have "live (admin_run sha uni escape page evs s1) k u = None"
    using assms(5) by (intro run_refuses) (auto simp: key)
  moreover have "cookie_key sha r = Some k" using k assms(7) by (simp add: cookie_key_def)
  ultimately show ?thesis using assms(6,8) by (intro refused)
qed

section \<open>Failed logins are slowed down\<close>

definition failed :: "string \<Rightarrow> gotime list \<Rightarrow> adminServer \<Rightarrow> adminServer" where
  "failed ip ts s = fold (\<lambda>t s. fst (recordAdminAuthFailure ip t s)) ts s"

definition failure_count :: "string \<Rightarrow> adminServer \<Rightarrow> int" where
  "failure_count ip s = (case map_of (ad_failures s) (auth_ip ip) of None \<Rightarrow> 0 | Some f \<Rightarrow> af_count f)"

text \<open>Every time is at most ten minutes after the one before.\<close>

fun close_times :: "gotime \<Rightarrow> gotime list \<Rightarrow> bool" where
  "close_times t [] \<longleftrightarrow> True"
| "close_times t (u # us) \<longleftrightarrow> t \<le> u \<and> u - t \<le> 10 * minute \<and> close_times u us"

lemma map_of_trim: "map_of (trim_failures n ip m) ip = map_of m ip"
proof (induction n ip m rule: trim_failures.induct)
  case (2 n ip m)
  have "List.find (\<lambda>p. fst p \<noteq> ip) m = Some p \<Longrightarrow> fst p \<noteq> ip" for p by (auto simp: find_Some_iff)
  then show ?case using 2 by (auto simp: gomap split: option.split)
qed simp

lemma recorded_entry:
  assumes "tables_ok s"
  shows "\<exists>c. map_of (ad_failures (fst (recordAdminAuthFailure ip t s))) (auth_ip ip) = Some \<lparr>af_count = c, af_last = t\<rparr>
     \<and> snd (recordAdminAuthFailure ip t s) = (if c \<le> 1 then 0 else 150 * 2 ^ min 4 (nat (c - 2)) * millisecond)
     \<and> c = (let old = lookup_or \<lparr>af_count = 0, af_last = 0\<rparr> (ad_failures s) (auth_ip ip)
            in (if af_last old \<noteq> 0 \<and> time_sub t (af_last old) > 10 * minute then 0 else af_count old) + 1)"
proof -
  have "map_wf (AList.update k v (ad_failures s))" for k v using assms by (simp add: tables_ok_def)
  moreover have "\<not> 10 * minute < time_sub t t" by (simp add: time_sub_def max_duration_def min_duration_def minute_def second_def)
  ultimately show ?thesis
    by (auto simp: recordAdminAuthFailure_def Let_def gomap map_of_trim map_of_filter_wf)
qed

lemma recorded_next:
  assumes "tables_ok s" "map_of (ad_failures s) (auth_ip ip) = Some \<lparr>af_count = c, af_last = v\<rparr>" "v \<le> t" "t - v \<le> 10 * minute"
  shows "map_of (ad_failures (fst (recordAdminAuthFailure ip t s))) (auth_ip ip) = Some \<lparr>af_count = c + 1, af_last = t\<rparr>"
proof -
  have "\<not> 10 * minute < time_sub t v"
    using assms(3,4) by (auto simp: time_sub_def min_def max_def max_duration_def min_duration_def minute_def second_def)
  then show ?thesis using recorded_entry [OF assms(1), of ip t] assms(2) by (auto simp: lookup_or_def Let_def)
qed

lemma failed_count:
  assumes "tables_ok s" "map_of (ad_failures s) (auth_ip ip) = Some \<lparr>af_count = c, af_last = v\<rparr>" "close_times v ts"
  shows "\<exists>w. map_of (ad_failures (failed ip ts s)) (auth_ip ip) = Some \<lparr>af_count = c + int (length ts), af_last = w\<rparr>
     \<and> w = List.last (v # ts) \<and> tables_ok (failed ip ts s)"
  using assms
proof (induction ts arbitrary: s c v)
  case (Cons t ts)
  show ?case
    using Cons.IH [OF failure_table_ok [OF Cons.prems(1)] recorded_next [OF Cons.prems(1,2)]] Cons.prems(3)
    by (auto simp: failed_def add.assoc)
qed (simp add: failed_def)

text \<open>The delay before a refusal grows with the refusals: the first costs nothing, the n-th in a
  row from one address, none more than ten minutes after the one before, 150 ms doubled n - 2 times,
  2.4 seconds at most; and a successful login starts the count again.\<close>

lemma failures_slow_down:
  assumes "s = clearAdminAuthFailures ip (admin_run sha uni escape page evs (NewAdmin name password))"
    and "close_times t (ts @ [u])"
  shows "snd (recordAdminAuthFailure ip t s) = 0 \<and>
      snd (recordAdminAuthFailure ip u (failed ip (t # ts) s)) = 150 * 2 ^ min 4 (length ts) * millisecond"
proof -
  have ok: "tables_ok s" using assms(1) clear_table_ok run_table_ok new_table_ok by blast
  have none: "map_of (ad_failures s) (auth_ip ip) = None" by (simp add: assms(1) clearAdminAuthFailures_def gomap)
  have first: "map_of (ad_failures (fst (recordAdminAuthFailure ip t s))) (auth_ip ip) = Some \<lparr>af_count = 1, af_last = t\<rparr>"
    and "snd (recordAdminAuthFailure ip t s) = 0"
    using recorded_entry [OF ok, of ip t] none by (auto simp: lookup_or_def Let_def)
  let ?s = "failed ip (t # ts) s"
  let ?w = "List.last (t # ts)"
  have close: "close_times t ts \<and> ?w \<le> u \<and> u - ?w \<le> 10 * minute" using assms(2)
    by (induction ts arbitrary: t) auto
  have s': "?s = failed ip ts (fst (recordAdminAuthFailure ip t s))" by (simp add: failed_def)
  have n: "map_of (ad_failures ?s) (auth_ip ip) = Some \<lparr>af_count = 1 + int (length ts), af_last = ?w\<rparr>" "tables_ok ?s"
    using failed_count [OF failure_table_ok [OF ok] first] close by (auto simp: s')
  then have "snd (recordAdminAuthFailure ip u ?s) = 150 * 2 ^ min 4 (length ts) * millisecond"
    using recorded_entry [OF n(2), of ip u] recorded_next [OF n(2,1)] close by auto
  then show ?thesis using \<open>snd (recordAdminAuthFailure ip t s) = 0\<close> by simp
qed

section \<open>Witnesses\<close>

definition plain_request :: "string \<Rightarrow> string \<Rightarrow> adminRequest" where
  "plain_request meth path =
     \<lparr>rq_method = meth, rq_path = path, rq_uri = path, rq_cookie = None, rq_csrf = [], rq_client = [], rq_connection = [],
      rq_basic = None, rq_proto = [], rq_tls = True, rq_ip = ''10.0.0.1'', rq_login = Some (''admin'', ''secret''), rq_gone = False\<rparr>"

definition some_bytes :: "nat \<Rightarrow> string option" where "some_bytes n = Some (replicate n (CHR ''k''))"

definition some_admin :: adminServer where "some_admin = NewAdmin ''admin'' ''secret''"

definition handle where
  "handle r t s = admin_handler (\<lambda>x. x) (\<lambda>x. x) (\<lambda>x. x) some_bytes True r t s"

definition logged_in :: adminServer where
  "logged_in = fst (handle (plain_request ''POST'' ''/api/auth/login'') 5 some_admin)"

abbreviation "a_token \<equiv> b64_url (replicate 32 (CHR ''k''))"
abbreviation "a_csrf \<equiv> b64_url (replicate 24 (CHR ''k''))"

lemma login_example:
  "admin_handler (\<lambda>x. x) (\<lambda>x. x) (\<lambda>x. x) some_bytes True (plain_request ''POST'' ''/api/auth/login'') 5 some_admin =
     (\<lparr>ad_user = ''admin'', ad_password = ''secret'',
       ad_sessions = [(a_token, \<lparr>as_created = 5, as_expires = 5 + 12 * hour, as_csrf = a_csrf\<rparr>)], ad_failures = []\<rparr>,
      (nostore (answer_with 200 (LoggedIn ''admin'' a_csrf (5 + 12 * hour))))\<lparr>rp_cookie :=
         Some \<lparr>ck_value = a_token, ck_expires = 5 + 12 * hour, ck_max_age = go_div adminSessionLifetime second, ck_secure = True\<rparr>\<rparr>)"
  by (simp add: admin_handler_def adminLogin_def plain_request_def some_admin_def NewAdmin_def some_bytes_def
      subtleStringMismatch_def createAdminSession_def randomAdminToken_def clearAdminAuthFailures_def
      drop_expired_def make_room_id setAdminSessionCookie_def adminRequestIsHTTPS_def adminSessionLifetime_def
      nostore_def answer_with_def Let_def)

lemma plain_fields [simp]:
  "rq_path (plain_request meth path) = path" "rq_method (plain_request meth path) = meth"
  "rq_cookie (plain_request meth path) = None" "rq_csrf (plain_request meth path) = []"
  "rq_client (plain_request meth path) = []"
  by (simp_all add: plain_request_def)

lemma some_bytes_length [simp]: "some_bytes n = Some b \<Longrightarrow> length b = n"
  by (auto simp: some_bytes_def)

lemma hour_facts [simp]: "7 \<le> 11 * hour" "0 < hour + 5" "3 * hour \<le> 1 \<longleftrightarrow> False" "0 < hour"
  by (simp_all add: hour_def minute_def second_def)

lemma inj_self: "inj (\<lambda>x. x)" by simp

lemma not_public [simp]: "guarded (plain_request meth ''/api/events'')" "guarded (plain_request meth ''/'')"
  by (simp_all add: guarded_def public_files_def plain_request_def)

lemma guarded_update [simp]: "guarded (r\<lparr>rq_cookie := c\<rparr>) = guarded r" "guarded (r\<lparr>rq_csrf := x\<rparr>) = guarded r"
  by (simp_all add: guarded_def)

definition with_session :: "string \<Rightarrow> adminRequest" where
  "with_session path = (plain_request ''POST'' path)\<lparr>rq_cookie := Some a_token, rq_csrf := a_csrf\<rparr>"

lemma logged_in_eq:
  "logged_in = \<lparr>ad_user = ''admin'', ad_password = ''secret'',
       ad_sessions = [(a_token, \<lparr>as_created = 5, as_expires = 5 + 12 * hour, as_csrf = a_csrf\<rparr>)], ad_failures = []\<rparr>"
  by (simp add: logged_in_def handle_def login_example)

lemma ends_events [simp]: "\<not> ends sha k rnd (plain_request meth ''/'')"
  by (simp add: ends_def plain_request_def)

lemma login_lasts_witness:
  "rp_body (snd (admin_handler (\<lambda>x. x) (\<lambda>x. x) (\<lambda>x. x) (\<lambda>_. None) True (with_session ''/api/events'') (11 * hour)
     (admin_run (\<lambda>x. x) (\<lambda>x. x) (\<lambda>x. x) True [(some_bytes, plain_request ''GET'' ''/'', 7)] logged_in))) = NextHandler"
  by (rule login_lasts [where ?evs0.0 = "[]" and name = "''admin''" and password = "''secret''" and ?r0.0 = "plain_request ''POST'' ''/api/auth/login''"
        and rnd = some_bytes and t = 5 and csrf = a_csrf and user = "''admin''" and expires = "5 + 12 * hour"
        and p = "(nostore (answer_with 200 (LoggedIn ''admin'' a_csrf (5 + 12 * hour))))\<lparr>rp_cookie :=
         Some \<lparr>ck_value = a_token, ck_expires = 5 + 12 * hour, ck_max_age = go_div adminSessionLifetime second, ck_secure = True\<rparr>\<rparr>"
        and ck = "\<lparr>ck_value = a_token, ck_expires = 5 + 12 * hour, ck_max_age = go_div adminSessionLifetime second, ck_secure = True\<rparr>"
        and s = some_admin])
    (simp_all add: some_admin_def admin_run_def logged_in_eq login_example [unfolded some_admin_def] with_session_def
      logins_def)

lemma logout_example:
  "admin_handler (\<lambda>x. x) (\<lambda>x. x) (\<lambda>x. x) some_bytes True (with_session ''/api/auth/logout'') 9 logged_in =
     (some_admin, (nostore (answer_with 200 OkBody))\<lparr>rp_cookie := Some (clearAdminSessionCookie (\<lambda>x. x) (with_session ''/api/auth/logout''))\<rparr>)"
  by (simp add: logged_in_eq some_admin_def NewAdmin_def admin_handler_def adminLogout_def with_session_def fromRequest_eq cookie_key_def live_def
      expire_def deleteAdminSession_eq forget_def subtleStringMismatch_def)

lemma logged_in_run:
  "logged_in = admin_run (\<lambda>x. x) (\<lambda>x. x) (\<lambda>x. x) True [(some_bytes, plain_request ''POST'' ''/api/auth/login'', 5)] (NewAdmin ''admin'' ''secret'')"
  by (simp add: admin_run_def logged_in_def handle_def some_admin_def)

lemma session_fields [simp]:
  "rq_path (with_session path) = path" "rq_cookie (with_session path) = Some a_token" "rq_client (with_session path) = []"
  "guarded (with_session ''/api/events'')"
  by (simp_all add: with_session_def)

lemma logout_ends_witness:
  "rp_body (snd (admin_handler (\<lambda>x. x) (\<lambda>x. x) (\<lambda>x. x) (\<lambda>_. None) True (with_session ''/api/events'') 20
     (admin_run (\<lambda>x. x) (\<lambda>x. x) (\<lambda>x. x) True [(\<lambda>_. None, plain_request ''GET'' ''/'', 10)] some_admin))) \<noteq> NextHandler"
  by (rule logout_ends [where ?evs0.0 = "[(some_bytes, plain_request ''POST'' ''/api/auth/login'', 5)]" and user = "''admin''"
        and password = "''secret''" and ?r0.0 = "with_session ''/api/auth/logout''" and rnd = some_bytes and t = 9 and s = logged_in
        and p = "(nostore (answer_with 200 OkBody))\<lparr>rp_cookie := Some (clearAdminSessionCookie (\<lambda>x. x) (with_session ''/api/auth/logout''))\<rparr>"])
    (rule logged_in_run, simp, rule logout_example, simp_all add: draws_def randomAdminToken_def)

lemma guard_sound_witness:
  "cookie_key (\<lambda>x. x) (with_session ''/api/events'') = Some a_token \<and>
   (\<exists>e. map_of (ad_sessions logged_in) a_token = Some e \<and> 9 < as_expires e \<and> as_csrf e = a_csrf)"
  using guard_sound [OF inj_self, of "with_session ''/api/events''" "\<lambda>x. x" "\<lambda>x. x" some_bytes True 9 logged_in logged_in
      "(answer_with 200 NextHandler)\<lparr>rp_nostore := True\<rparr>"]
  by (simp add: with_session_def guarded_handler adminSessionAuth_def fromRequest_eq cookie_key_def live_def expire_def logged_in_eq
      reads_only_def subtleStringMismatch_def is_api_def HasPrefix_def answer_with_def)

lemma failures_slow_down_witness:
  "snd (recordAdminAuthFailure ''10.0.0.9'' 300 (failed ''10.0.0.9'' [100, 200] (clearAdminAuthFailures ''10.0.0.9'' some_admin)))
     = 300 * millisecond"
  using failures_slow_down [of "clearAdminAuthFailures ''10.0.0.9'' some_admin" "''10.0.0.9''" "\<lambda>x. x" "\<lambda>x. x" "\<lambda>x. x" True "[]"
      "''admin''" "''secret''" 100 "[200]" 300]
  by (simp add: admin_run_def some_admin_def minute_def second_def)

end
