(* ===== verification/GoHosts.thy ===== *)
theory GoHosts
  imports GoMaps GoRunes
begin

text \<open>
  Host names: \<open>net.SplitHostPort\<close> and \<open>strings.Trim\<close> with a set of bytes, and the
  lemmas on suffixes and on strings of ASCII runes that host names need.
\<close>

definition SplitHostPort :: "string \<Rightarrow> (string \<times> string) option" where
  "SplitHostPort s =
     (case LastIndexByte s (CHR '':'') of
        None \<Rightarrow> None
      | Some i \<Rightarrow>
          if take 1 s = ''['' then
            (case IndexByte s (CHR '']'') of
               None \<Rightarrow> None
             | Some e \<Rightarrow>
                 if Suc e \<noteq> i then None
                 else if CHR ''['' \<in> set (drop 1 s) \<or> CHR '']'' \<in> set (drop (Suc e) s) then None
                 else Some (take (e - 1) (drop 1 s), drop (Suc i) s))
          else if CHR '':'' \<in> set (take i s) then None
          else if CHR ''['' \<in> set s \<or> CHR '']'' \<in> set s then None
          else Some (take i s, drop (Suc i) s))"

definition TrimBytes :: "char list \<Rightarrow> string \<Rightarrow> string" where
  "TrimBytes cs s = dropWhileEnd (\<lambda>c. c \<in> set cs) (dropWhile (\<lambda>c. c \<in> set cs) s)"

lemma LastIndexByte_None: "LastIndexByte s c = None \<longleftrightarrow> c \<notin> set s"
  by (induction s) (auto split: option.split)

lemma LastIndexByte_Some: "LastIndexByte s c = Some i \<Longrightarrow> s = take i s @ c # drop (Suc i) s \<and> c \<notin> set (drop (Suc i) s)"
  by (induction s arbitrary: i) (auto split: option.splits if_splits simp: LastIndexByte_None)

lemma SplitHostPort_no_colon: "CHR '':'' \<notin> set s \<Longrightarrow> SplitHostPort s = None"
  using LastIndexByte_None [of s "CHR '':''"] by (simp add: SplitHostPort_def)

lemma SplitHostPort_many:
  assumes "take 1 s \<noteq> ''[''" "2 \<le> length (List.filter (\<lambda>c. c = CHR '':'') s)"
  shows "SplitHostPort s = None"
proof (cases "LastIndexByte s (CHR '':'')")
  case (Some i)
  let ?f = "\<lambda>t. length (List.filter (\<lambda>c. c = CHR '':'') t)"
  have split: "s = take i s @ CHR '':'' # drop (Suc i) s" "CHR '':'' \<notin> set (drop (Suc i) s)"
    using LastIndexByte_Some [OF Some] by auto
  have "?f (drop (Suc i) s) = 0" using split(2) by (auto simp: filter_empty_conv)
  moreover have "?f s = ?f (take i s) + 1 + ?f (drop (Suc i) s)" by (subst split(1)) simp
  ultimately have "?f (take i s) \<noteq> 0" using assms(2) by linarith
  then have "CHR '':'' \<in> set (take i s)" by (auto simp: filter_empty_conv)
  then show ?thesis using Some assms(1) by (simp add: SplitHostPort_def)
qed (simp add: SplitHostPort_def)

lemma TrimBytes_id: "s = [] \<or> (hd s \<notin> set cs \<and> last s \<notin> set cs) \<Longrightarrow> TrimBytes cs s = s"
  by (auto simp: TrimBytes_def dropWhile_id dropWhileEnd_id)

section \<open>Suffixes\<close>

lemma HasSuffix_iff: "HasSuffix s p \<longleftrightarrow> (\<exists>q. s = q @ p)"
  by (auto simp: HasSuffix_def intro: exI [of _ "take (length s - length p) s"] append_take_drop_id [symmetric])
    (metis append_take_drop_id)

lemma same_length_suffix: "HasSuffix s p \<Longrightarrow> HasSuffix s q \<Longrightarrow> length p = length q \<Longrightarrow> p = q"
  by (auto simp: HasSuffix_def)

lemma TrimSuffix_id: "s = [] \<or> last s \<noteq> c \<Longrightarrow> TrimSuffix s [c] = s"
  by (auto simp: TrimSuffix_def HasSuffix_iff)

section \<open>Strings of ASCII runes\<close>

lemma ascii_chunk:
  assumes "p \<in> set (utf8_chunks s)" "fst p < 128"
  shows "snd p = [char_of (fst p)]"
  using assms
proof (induction s rule: utf8_chunks.induct)
  case (2 a s)
  show ?case
  proof (cases "utf8_size (a # s) = 0")
    case True
    then show ?thesis using 2 by (auto simp: utf8_chunks_invalid rune_error_def)
  next
    case False
    let ?n = "utf8_size (a # s)"
    have "encode_rune (utf8_value (take ?n (a # s))) = take ?n (a # s)" using utf8_encode_value False by blast
    then show ?thesis using 2 False by (auto simp: utf8_chunks_valid encode_rune_def)
  qed
qed simp

lemma ascii_runes: "\<forall>r \<in> set (runes s). r < 128 \<Longrightarrow> runes s = map of_char s \<and> is_ascii s"
proof -
  assume small: "\<forall>r \<in> set (runes s). r < 128"
  then have "\<forall>p \<in> set (utf8_chunks s). snd p = [char_of (fst p)]" using ascii_chunk by (auto simp: runes_def)
  then have "concat (map snd (utf8_chunks s)) = concat (map (\<lambda>p. [char_of (fst p)]) (utf8_chunks s))"
    by (metis (mono_tags, lifting) map_cong)
  then have s: "s = map char_of (runes s)" by (simp add: runes_def comp_def)
  have "is_ascii (map char_of (runes s))" using small by (auto simp: is_ascii_def of_char_of)
  then have "is_ascii s" using s by simp
  then show ?thesis by (simp add: runes_def utf8_chunks_ascii_list)
qed

lemma runes_ascii: "is_ascii s \<Longrightarrow> runes s = map of_char s"
  by (simp add: runes_def utf8_chunks_ascii_list)

end
