(* ===== verification/TrustedDomains.thy ===== *)
theory TrustedDomains
  imports GoHosts
begin

text \<open>
  The operator's trusted domains (\<open>internal/store/trusted_domains.go\<close>): the canonical form
  of a host, the table with its file, and the test that decides which observations may show
  their target.

  Parameters: \<open>uni\<close> lowers a string outside ASCII, \<open>parse_ip\<close> is \<open>net.ParseIP\<close>
  followed by \<open>String\<close>, \<open>internal_ip\<close> says of an address in that form whether it is
  private, loopback or link-local. The file holds the rows that the code encodes as JSON
  (\<open>None\<close>: no file), and \<open>writable\<close> says whether the write and the rename succeed.
\<close>

record trustedDomain =
  td_domain :: string
  td_source :: string
  td_integration :: string
  td_added :: gotime

definition host_rune :: "nat \<Rightarrow> bool" where
  "host_rune r \<longleftrightarrow> (97 \<le> r \<and> r \<le> 122) \<or> (48 \<le> r \<and> r \<le> 57) \<or> r = 45"

definition label_ok :: "string \<Rightarrow> bool" where
  "label_ok w \<longleftrightarrow> w \<noteq> [] \<and> length w \<le> 63 \<and> hd w \<noteq> CHR ''-'' \<and> last w \<noteq> CHR ''-'' \<and> list_all host_rune (runes w)"

definition name_ok :: "string \<Rightarrow> bool" where
  "name_ok v \<longleftrightarrow>
     length v \<le> 253 \<and> \<not> list_ex (\<lambda>c. c \<in> set ''/'' \<union> {CHR 0x5C} \<union> set ''?#@ :'') v
     \<and> 2 \<le> length (SplitByte v (CHR ''.'')) \<and> list_all label_ok (SplitByte v (CHR ''.''))"

definition canonicalTrustedHost :: "(string \<Rightarrow> string) \<Rightarrow> (string \<Rightarrow> string option) \<Rightarrow> string \<Rightarrow> string" where
  "canonicalTrustedHost uni parse_ip v0 =
     (let v = ToLower uni (TrimSpace v0) in
      if v = [] then []
      else (let v = (case SplitHostPort v of Some (h, _) \<Rightarrow> h | None \<Rightarrow> v);
                v = TrimBytes ''[]'' (TrimSuffix v ''.'') in
            case parse_ip v of
              Some ip \<Rightarrow> ip
            | None \<Rightarrow> if name_ok v then v else []))"

definition internalUntrustedHost ::
  "(string \<Rightarrow> string) \<Rightarrow> (string \<Rightarrow> string option) \<Rightarrow> (string \<Rightarrow> bool) \<Rightarrow> string \<Rightarrow> bool" where
  "internalUntrustedHost uni parse_ip internal_ip raw =
     (let host = canonicalTrustedHost uni parse_ip raw in
      if host = [] then False
      else (case parse_ip host of None \<Rightarrow> False | Some ip \<Rightarrow> internal_ip ip))"

section \<open>The table and its file\<close>

record domainStore =
  ds_manual :: "(string, trustedDomain) gomap"
  ds_file :: "trustedDomain list option"

fun insert_row :: "trustedDomain \<Rightarrow> trustedDomain list \<Rightarrow> trustedDomain list" where
  "insert_row r [] = [r]"
| "insert_row r (q # qs) = (if lex_le (td_domain r) (td_domain q) then r # q # qs else q # insert_row r qs)"

definition trustedDomainRows :: "(string, trustedDomain) gomap \<Rightarrow> trustedDomain list" where
  "trustedDomainRows m = foldr insert_row (map snd m) []"

definition load_row ::
  "(string \<Rightarrow> string) \<Rightarrow> (string \<Rightarrow> string option) \<Rightarrow> trustedDomain \<Rightarrow> (string, trustedDomain) gomap \<Rightarrow> (string, trustedDomain) gomap" where
  "load_row uni parse_ip row m =
     (let d = canonicalTrustedHost uni parse_ip (td_domain row) in
      if d = [] then m else AList.update d (row\<lparr>td_domain := d, td_source := ''manual''\<rparr>) m)"

definition loadTrustedDomains ::
  "(string \<Rightarrow> string) \<Rightarrow> (string \<Rightarrow> string option) \<Rightarrow> domainStore \<Rightarrow> domainStore" where
  "loadTrustedDomains uni parse_ip s =
     (case ds_file s of
        None \<Rightarrow> s
      | Some rows \<Rightarrow> s\<lparr>ds_manual := fold (load_row uni parse_ip) rows (ds_manual s)\<rparr>)"

definition persistTrustedDomains :: "bool \<Rightarrow> domainStore \<Rightarrow> domainStore \<times> bool" where
  "persistTrustedDomains writable s =
     (if writable then (s\<lparr>ds_file := Some (trustedDomainRows (ds_manual s))\<rparr>, True) else (s, False))"

text \<open>The new table, or the text that is no domain.\<close>

fun next_domains ::
  "(string \<Rightarrow> string) \<Rightarrow> (string \<Rightarrow> string option) \<Rightarrow> (string, trustedDomain) gomap \<Rightarrow> gotime \<Rightarrow> string list
     \<Rightarrow> (string, trustedDomain) gomap \<Rightarrow> string + (string, trustedDomain) gomap" where
  "next_domains uni parse_ip old now [] acc = Inr acc"
| "next_domains uni parse_ip old now (raw # raws) acc =
     (let d = canonicalTrustedHost uni parse_ip raw in
      if d = [] then Inl (TrimSpace raw)
      else (let added = (case map_of old d of
                           Some row \<Rightarrow> if td_added row \<noteq> 0 then td_added row else now
                         | None \<Rightarrow> now)
            in next_domains uni parse_ip old now raws
                 (AList.update d \<lparr>td_domain = d, td_source = ''manual'', td_integration = [], td_added = added\<rparr> acc)))"

datatype domainError = InvalidTrustedDomain string | PersistFailed

definition SetManualTrustedDomains ::
  "(string \<Rightarrow> string) \<Rightarrow> (string \<Rightarrow> string option) \<Rightarrow> bool \<Rightarrow> string list \<Rightarrow> gotime \<Rightarrow> domainStore
     \<Rightarrow> domainStore \<times> domainError option" where
  "SetManualTrustedDomains uni parse_ip writable domains now s =
     (case next_domains uni parse_ip (ds_manual s) now domains [] of
        Inl raw \<Rightarrow> (s, Some (InvalidTrustedDomain raw))
      | Inr m \<Rightarrow>
          (case persistTrustedDomains writable (s\<lparr>ds_manual := m\<rparr>) of
             (s', ok) \<Rightarrow> if ok then (s', None) else (s'\<lparr>ds_manual := ds_manual s\<rparr>, Some PersistFailed)))"

section \<open>Which hosts are trusted\<close>

definition covers :: "string \<Rightarrow> string \<Rightarrow> bool" where
  "covers domain host \<longleftrightarrow> host = domain \<or> HasSuffix host (''.'' @ domain)"

definition longer_root :: "string \<Rightarrow> string \<Rightarrow> string \<Rightarrow> string" where
  "longer_root host domain root = (if covers domain host \<and> length root < length domain then domain else root)"

text \<open>\<open>None\<close> for a host that is not trusted.\<close>

definition trustedTargetRoot ::
  "(string \<Rightarrow> string) \<Rightarrow> (string \<Rightarrow> string option) \<Rightarrow> domainStore \<Rightarrow> string \<Rightarrow> (string \<times> string) option" where
  "trustedTargetRoot uni parse_ip s raw =
     (let host = canonicalTrustedHost uni parse_ip raw in
      if host = [] then None
      else (let root = fold (longer_root host) (map fst (ds_manual s)) [] in
            if root \<noteq> [] then Some (root, ''manual'') else None))"

definition trustedHost ::
  "(string \<Rightarrow> string) \<Rightarrow> (string \<Rightarrow> string option) \<Rightarrow> domainStore \<Rightarrow> string \<Rightarrow> string option" where
  "trustedHost uni parse_ip s raw = map_option snd (trustedTargetRoot uni parse_ip s raw)"

definition targetFilterMatches ::
  "(string \<Rightarrow> string) \<Rightarrow> (string \<Rightarrow> string option) \<Rightarrow> domainStore \<Rightarrow> string \<Rightarrow> string \<Rightarrow> bool" where
  "targetFilterMatches uni parse_ip s raw flt0 =
     (let flt = canonicalTrustedHost uni parse_ip flt0 in
      if flt = [] then True
      else (case trustedTargetRoot uni parse_ip s raw of None \<Rightarrow> False | Some (root, _) \<Rightarrow> root = flt))"

text \<open>The three fields of an event or a session that are shown: target, its trust, and host.\<close>

record targetView =
  tv_target :: string
  tv_trust :: string
  tv_host :: string

definition decorate ::
  "(string \<Rightarrow> string) \<Rightarrow> (string \<Rightarrow> string option) \<Rightarrow> (string \<Rightarrow> bool) \<Rightarrow> domainStore \<Rightarrow> targetView \<Rightarrow> targetView" where
  "decorate uni parse_ip internal_ip s v =
     (let raw = (if tv_target v = [] then tv_host v else tv_target v) in
      case trustedHost uni parse_ip s raw of
        Some source \<Rightarrow> v\<lparr>tv_target := canonicalTrustedHost uni parse_ip raw, tv_trust := source\<rparr>
      | None \<Rightarrow>
          v\<lparr>tv_target := [], tv_trust := ''untrusted'',
            tv_host := if internalUntrustedHost uni parse_ip internal_ip (tv_host v) then [] else tv_host v\<rparr>)"

end
