(* ===== verification/TrustedDomainsProofs.thy ===== *)
theory TrustedDomainsProofs
  imports TrustedDomains
begin

text \<open>
  The canonical form is a normal form, the root of a host is the longest domain of the table
  that covers it whatever the order of the map, a stored table is loaded again as it was, and an
  observation shows a target only when the table covers it.
\<close>

section \<open>Canonical hosts\<close>

text \<open>What \<open>net.ParseIP\<close> and \<open>IP.String\<close> promise: the text of an address is made of
  hexadecimal digits, dots and colons, with no or several colons, and parses to itself.\<close>

definition ip_law :: "(string \<Rightarrow> string option) \<Rightarrow> bool" where
  "ip_law parse_ip \<longleftrightarrow> (\<forall>v w. parse_ip v = Some w \<longrightarrow>
     parse_ip w = Some w \<and> w \<noteq> [] \<and> set w \<subseteq> set ''0123456789abcdef.:'' \<and> last w \<noteq> CHR ''.''
     \<and> length (List.filter (\<lambda>c. c = CHR '':'') w) \<noteq> 1)"

definition host_char :: "char \<Rightarrow> bool" where
  "host_char c \<longleftrightarrow> byte_in c 97 122 \<or> byte_in c 48 57 \<or> c = CHR ''-'' \<or> c = CHR ''.'' \<or> c = CHR '':''"

lemma host_char_plain:
  assumes "host_char c"
  shows "(of_char c :: nat) < 128" "\<not> char_is_space c" "ascii_lower c = c" "c \<noteq> CHR ''[''" "c \<noteq> CHR '']''"
proof -
  have c: "(of_char c :: nat) < 128 \<and> (of_char c :: nat) \<notin> {91, 93} \<and> \<not> is_upper c \<and> \<not> byte_in c 9 13 \<and> (of_char c :: nat) \<noteq> 32"
    using assms unfolding host_char_def byte_in_def is_upper_def
    by (elim disjE) (simp_all add: byte_in_def)
  then show "(of_char c :: nat) < 128" "ascii_lower c = c" by (simp_all add: ascii_lower_def)
  show "c \<noteq> CHR ''[''" "c \<noteq> CHR '']''" using c by auto
  show "\<not> char_is_space c" using c unfolding char_is_space_def by auto
qed

lemma ip_char: "c \<in> set ''0123456789abcdef.:'' \<Longrightarrow> host_char c"
  unfolding host_char_def byte_in_def
  by (simp only: list.set insert_iff empty_iff simp_thms, elim disjE) (simp_all add: byte_in_def)

lemma host_string:
  assumes "\<forall>c \<in> set v. host_char c" "v \<noteq> []"
  shows "ToLower uni (TrimSpace v) = v" "take 1 v \<noteq> ''[''" "TrimBytes ''[]'' v = v"
proof -
  have mem: "host_char (hd v)" "host_char (last v)" using assms by auto
  have "TrimSpace v = v" using TrimSpace_id [OF assms(2)] mem host_char_plain by blast
  moreover have "is_ascii v" "map ascii_lower v = v"
    using assms(1) host_char_plain by (auto simp: is_ascii_def intro: map_idI)
  ultimately show "ToLower uni (TrimSpace v) = v" by (simp add: ToLower_def)
  show "take 1 v \<noteq> ''[''" using mem(1) host_char_plain(4) assms(2) by (cases v) auto
  show "TrimBytes ''[]'' v = v" using mem host_char_plain(4,5) by (intro TrimBytes_id) auto
qed

lemma canon_ip:
  assumes "ip_law parse_ip" "parse_ip v = Some w"
  shows "canonicalTrustedHost uni parse_ip w = w"
proof -
  have w: "parse_ip w = Some w" "w \<noteq> []" "\<forall>c \<in> set w. host_char c" "last w \<noteq> CHR ''.''"
    "length (List.filter (\<lambda>c. c = CHR '':'') w) \<noteq> 1"
    using assms ip_char unfolding ip_law_def by blast+
  have "SplitHostPort w = None"
  proof (cases "CHR '':'' \<in> set w")
    case True
    then have "List.filter (\<lambda>c. c = CHR '':'') w \<noteq> []" by (auto simp: filter_empty_conv)
    then have "2 \<le> length (List.filter (\<lambda>c. c = CHR '':'') w)"
      using w(5) by (cases "List.filter (\<lambda>c. c = CHR '':'') w") (auto simp: Suc_le_eq)
    then show ?thesis using SplitHostPort_many host_string(2) [OF w(3,2)] by blast
  qed (rule SplitHostPort_no_colon)
  then show ?thesis
    using w host_string [OF w(3,2)] by (simp add: canonicalTrustedHost_def TrimSuffix_id Let_def)
qed

lemma set_Join: "set (Join ws sep) \<subseteq> \<Union> (set ` set ws) \<union> set sep"
  by (induction ws sep rule: Join.induct) auto

lemma name_ok_facts:
  assumes "name_ok v"
  shows "v \<noteq> []" "\<forall>c \<in> set v. host_char c" "CHR '':'' \<notin> set v" "last v \<noteq> CHR ''.''"
proof -
  let ?ws = "SplitByte v (CHR ''.'')"
  have ok: "label_ok w" if "w \<in> set ?ws" for w using assms that by (auto simp: name_ok_def list_all_iff)
  have chars: "host_char c \<and> c \<noteq> CHR '':''" if "w \<in> set ?ws" "c \<in> set w" for w c
  proof -
    have runes: "\<forall>r \<in> set (runes w). host_rune r" using ok [OF that(1)] by (auto simp: label_ok_def list_all_iff)
    then have "\<forall>r \<in> set (runes w). r < 128" by (auto simp: host_rune_def)
    then have "runes w = map of_char w" using ascii_runes by blast
    then have "host_rune (of_char c)" using runes that(2) by auto
    then have "byte_in c 97 122 \<or> byte_in c 48 57 \<or> (of_char c :: nat) = of_char (CHR ''-'')"
      by (auto simp: host_rune_def byte_in_def)
    then show ?thesis unfolding of_char_eq_iff by (auto simp: host_char_def byte_in_def)
  qed
  have "set v \<subseteq> \<Union> (set ` set ?ws) \<union> {CHR ''.''}"
    using set_Join [of ?ws "[CHR ''.'']"] by (simp add: Join_SplitByte)
  then show "\<forall>c \<in> set v. host_char c" "CHR '':'' \<notin> set v"
    using chars by (auto simp: host_char_def)
  show "v \<noteq> []" using assms by (auto simp: name_ok_def)
  show "last v \<noteq> CHR ''.''"
  proof
    assume l: "last v = CHR ''.''"
    have "v = butlast v @ [CHR ''.'']" using \<open>v \<noteq> []\<close> l by (metis append_butlast_last_id)
    then have "[] \<in> set ?ws" using SplitByte_snoc [of "butlast v" "CHR ''.''"] by (metis in_set_conv_decomp)
    then show False using ok by (auto simp: label_ok_def)
  qed
qed

lemma canon_name:
  assumes "name_ok v" "parse_ip v = None"
  shows "canonicalTrustedHost uni parse_ip v = v"
  using assms name_ok_facts [OF assms(1)] host_string(1) [of v uni] host_string(3) [of v] SplitHostPort_no_colon [of v]
  by (simp add: canonicalTrustedHost_def TrimSuffix_id Let_def)

lemma canon_form:
  "canonicalTrustedHost uni parse_ip v = [] \<or> (\<exists>u. parse_ip u = Some (canonicalTrustedHost uni parse_ip v))
   \<or> (name_ok (canonicalTrustedHost uni parse_ip v) \<and> parse_ip (canonicalTrustedHost uni parse_ip v) = None)"
  by (auto simp: canonicalTrustedHost_def Let_def split: option.split)

lemma canon_idem:
  assumes "ip_law parse_ip"
  shows "canonicalTrustedHost uni parse_ip (canonicalTrustedHost uni parse_ip v) = canonicalTrustedHost uni parse_ip v"
proof -
  have "canonicalTrustedHost uni parse_ip [] = []" by (simp add: canonicalTrustedHost_def ToLower_def)
  then show ?thesis using canon_form [of uni parse_ip v] canon_ip [OF assms] canon_name by metis
qed

section \<open>The root of a host\<close>

lemma covers_suffix: "covers d host \<Longrightarrow> HasSuffix host d"
  by (auto simp: covers_def HasSuffix_iff)

lemma covers_unique: "covers d host \<Longrightarrow> covers e host \<Longrightarrow> length d = length e \<Longrightarrow> d = e"
  by (rule same_length_suffix) (auto dest: covers_suffix)

lemma longest_root:
  assumes "r0 = [] \<or> covers r0 host"
  shows "fold (longer_root host) ds r0 = root \<longleftrightarrow>
     (root = r0 \<and> (\<forall>d \<in> set ds. covers d host \<longrightarrow> length d \<le> length r0)
      \<or> root \<in> set ds \<and> covers root host \<and> length r0 < length root \<and> (\<forall>d \<in> set ds. covers d host \<longrightarrow> length d \<le> length root))"
  using assms
proof (induction ds arbitrary: r0)
  case (Cons d ds)
  show ?case
  proof (cases "covers d host \<and> length r0 < length d")
    case True
    then have step: "fold (longer_root host) (d # ds) r0 = fold (longer_root host) ds d" by (simp add: longer_root_def)
    have IH: "fold (longer_root host) ds d = root \<longleftrightarrow>
     (root = d \<and> (\<forall>e \<in> set ds. covers e host \<longrightarrow> length e \<le> length d)
      \<or> root \<in> set ds \<and> covers root host \<and> length d < length root \<and> (\<forall>e \<in> set ds. covers e host \<longrightarrow> length e \<le> length root))"
      using Cons.IH [of d] True by blast
    show ?thesis
    proof (cases "root = d")
      case eq: True
      show ?thesis unfolding step IH using True eq by auto
    next
      case neq: False
      then have "covers root host \<Longrightarrow> length root \<noteq> length d" using covers_unique True by blast
      then show ?thesis unfolding step IH using True neq by (auto simp: le_less)
    qed
  next
    case False
    then have "longer_root host d r0 = r0" by (auto simp: longer_root_def)
    then show ?thesis using Cons.IH [of r0] Cons.prems False by (auto simp: not_less)
  qed
qed auto

lemma trusted_root_lemma:
  "trustedTargetRoot uni parse_ip s raw = Some (root, source) \<longleftrightarrow>
     source = ''manual'' \<and> root \<noteq> [] \<and> canonicalTrustedHost uni parse_ip raw \<noteq> []
     \<and> root \<in> fst ` set (ds_manual s) \<and> covers root (canonicalTrustedHost uni parse_ip raw)
     \<and> (\<forall>d \<in> fst ` set (ds_manual s). covers d (canonicalTrustedHost uni parse_ip raw) \<longrightarrow> length d \<le> length root)"
  using longest_root [of "[]" "canonicalTrustedHost uni parse_ip raw" "map fst (ds_manual s)" root]
  by (auto simp: trustedTargetRoot_def Let_def)

text \<open>The root of a host is the longest domain of the table that is the host or that the host
  ends in after a dot: two stores that trust the same domains give the same answer whatever the
  order in which Go walks the map, and the answer is that domain.\<close>

lemma trusted_root_exact:
  assumes "fst ` set (ds_manual s) = fst ` set (ds_manual s')"
  shows "trustedTargetRoot uni parse_ip s raw = trustedTargetRoot uni parse_ip s' raw
    \<and> (\<forall>root source. trustedTargetRoot uni parse_ip s raw = Some (root, source) \<longrightarrow>
         covers root (canonicalTrustedHost uni parse_ip raw)
         \<and> (\<forall>d \<in> fst ` set (ds_manual s). covers d (canonicalTrustedHost uni parse_ip raw) \<longrightarrow> length d \<le> length root))"
proof -
  have "trustedTargetRoot uni parse_ip s raw = Some p \<longleftrightarrow> trustedTargetRoot uni parse_ip s' raw = Some p" for p
    by (cases p) (simp only: trusted_root_lemma assms)
  then have "trustedTargetRoot uni parse_ip s raw = trustedTargetRoot uni parse_ip s' raw"
    by (metis not_Some_eq)
  moreover have "covers root (canonicalTrustedHost uni parse_ip raw)
      \<and> (\<forall>d \<in> fst ` set (ds_manual s). covers d (canonicalTrustedHost uni parse_ip raw) \<longrightarrow> length d \<le> length root)"
    if "trustedTargetRoot uni parse_ip s raw = Some (root, source)" for root source
    using that unfolding trusted_root_lemma by blast
  ultimately show ?thesis by blast
qed

section \<open>Saving and loading\<close>

definition rows_ok :: "(string \<Rightarrow> string) \<Rightarrow> (string \<Rightarrow> string option) \<Rightarrow> (string, trustedDomain) gomap \<Rightarrow> bool" where
  "rows_ok uni parse_ip m \<longleftrightarrow> map_wf m \<and> (\<forall>(d, row) \<in> set m. d \<noteq> [] \<and> td_domain row = d \<and> td_source row = ''manual''
     \<and> canonicalTrustedHost uni parse_ip d = d)"

lemma rows_ok_update:
  assumes "rows_ok uni parse_ip m" "d \<noteq> []" "canonicalTrustedHost uni parse_ip d = d" "td_domain row = d" "td_source row = ''manual''"
  shows "rows_ok uni parse_ip (AList.update d row m)"
proof -
  have "set (AList.update d row m) \<subseteq> insert (d, row) (set m)" by (rule set_update)
  then show ?thesis using assms unfolding rows_ok_def by fastforce
qed

lemma next_domains_ok:
  assumes "ip_law parse_ip"
  shows "rows_ok uni parse_ip acc \<Longrightarrow> next_domains uni parse_ip old now raws acc = Inr m \<Longrightarrow> rows_ok uni parse_ip m"
proof (induction raws arbitrary: acc)
  case (Cons raw raws)
  let ?d = "canonicalTrustedHost uni parse_ip raw"
  have "?d \<noteq> []" using Cons.prems(2) by (auto simp: Let_def split: if_splits)
  then have upd: "rows_ok uni parse_ip (AList.update ?d \<lparr>td_domain = ?d, td_source = ''manual'', td_integration = [], td_added = t\<rparr> acc)" for t
    using Cons.prems(1) canon_idem [OF assms] by (intro rows_ok_update) simp_all
  show ?case using Cons.prems(2) \<open>?d \<noteq> []\<close> by (simp add: Let_def) (erule Cons.IH [rotated], rule upd)
qed simp

lemma set_insert_row [simp]: "set (insert_row r qs) = insert r (set qs)"
  by (induction qs) auto

lemma insert_row_mset: "distinct (map td_domain qs) \<Longrightarrow> td_domain r \<notin> td_domain ` set qs \<Longrightarrow> distinct (map td_domain (insert_row r qs))"
  by (induction qs) auto

lemma rows_of:
  assumes "map_wf m" "\<forall>(d, row) \<in> set m. td_domain row = d"
  shows "set (trustedDomainRows m) = snd ` set m \<and> distinct (map td_domain (trustedDomainRows m))"
  using assms
proof (induction m)
  case (Cons p m)
  have "fst p \<notin> fst ` set m" "map_wf m" using Cons.prems(1) by (auto simp: map_wf_def)
  moreover have "td_domain ` snd ` set m = fst ` set m" using Cons.prems(2) by force
  ultimately show ?case
    using Cons by (cases p) (auto simp: trustedDomainRows_def intro!: insert_row_mset)
qed (simp add: trustedDomainRows_def)

lemma load_rows:
  assumes "distinct (map td_domain rows)"
    and "\<forall>row \<in> set rows. td_domain row \<noteq> [] \<and> canonicalTrustedHost uni parse_ip (td_domain row) = td_domain row \<and> td_source row = ''manual''"
  shows "map_of (fold (load_row uni parse_ip) rows m) d =
     (case List.find (\<lambda>row. td_domain row = d) rows of Some row \<Rightarrow> Some row | None \<Rightarrow> map_of m d)"
  using assms
proof (induction rows arbitrary: m)
  case (Cons row rows)
  have load: "load_row uni parse_ip row m = AList.update (td_domain row) row m"
    using Cons.prems(2) by (cases row) (simp add: load_row_def Let_def)
  have none: "List.find (\<lambda>row'. td_domain row' = td_domain row) rows = None"
    using Cons.prems(1) by (simp add: find_None_iff) (metis imageI)
  show ?case using Cons load none by (auto simp: gomap split: option.split)
qed simp

lemma find_row:
  assumes "distinct (map td_domain rows)" "row \<in> set rows"
  shows "List.find (\<lambda>q. td_domain q = td_domain row) rows = Some row"
proof -
  obtain q where q: "List.find (\<lambda>q. td_domain q = td_domain row) rows = Some q"
    using assms(2) by (cases "List.find (\<lambda>q. td_domain q = td_domain row) rows") (auto simp: find_None_iff)
  then have "q \<in> set rows" "td_domain q = td_domain row" by (auto simp: find_Some_iff)
  then have "q = row" using assms by (auto simp: distinct_map dest: inj_onD)
  then show ?thesis using q by simp
qed

lemma load_table:
  assumes "rows_ok uni parse_ip m"
  shows "map_of (fold (load_row uni parse_ip) (trustedDomainRows m) []) d = map_of m d"
proof -
  let ?rows = "trustedDomainRows m"
  have wf: "map_wf m" and keys: "\<forall>(d, row) \<in> set m. td_domain row = d"
    using assms by (auto simp: rows_ok_def)
  have rows: "set ?rows = snd ` set m" "distinct (map td_domain ?rows)" using rows_of [OF wf keys] by auto
  have "\<forall>row \<in> set ?rows. td_domain row \<noteq> [] \<and> canonicalTrustedHost uni parse_ip (td_domain row) = td_domain row \<and> td_source row = ''manual''"
    using assms rows(1) by (auto simp: rows_ok_def)
  then have load: "map_of (fold (load_row uni parse_ip) ?rows []) d =
      (case List.find (\<lambda>row. td_domain row = d) ?rows of Some row \<Rightarrow> Some row | None \<Rightarrow> map_of [] d)"
    by (rule load_rows [OF rows(2)])
  show ?thesis
  proof (cases "map_of m d")
    case None
    then have "\<forall>(e, row) \<in> set m. e \<noteq> d" by (force simp: map_of_eq_None_iff)
    then have "List.find (\<lambda>row. td_domain row = d) ?rows = None" using keys rows(1) by (fastforce simp: find_None_iff)
    then show ?thesis using load None by simp
  next
    case (Some row)
    then have mem: "(d, row) \<in> set m" by (rule map_of_SomeD)
    have row: "row \<in> set ?rows" "td_domain row = d"
      using bspec [OF keys mem] image_eqI [OF _ mem, of row snd] rows(1) by simp_all
    have "List.find (\<lambda>q. td_domain q = d) ?rows = Some row" using find_row [OF rows(2) row(1)] unfolding row(2) .
    then show ?thesis using load Some by simp
  qed
qed

lemma next_domains_keys:
  "next_domains uni parse_ip old now domains acc = Inr m \<Longrightarrow>
     has_key m d \<longleftrightarrow> d \<in> canonicalTrustedHost uni parse_ip ` set domains \<or> has_key acc d"
  by (induction domains arbitrary: acc) (auto simp: Let_def gomap split: if_splits)

text \<open>After a successful update the table holds exactly the canonical forms of the given names,
  and loading the file into a new store gives the same table.\<close>

lemma domains_survive_restart:
  assumes "ip_law parse_ip" "SetManualTrustedDomains uni parse_ip True domains now s = (s', None)"
  shows "map_of (ds_manual (loadTrustedDomains uni parse_ip \<lparr>ds_manual = [], ds_file = ds_file s'\<rparr>)) = map_of (ds_manual s')
     \<and> (\<forall>d. has_key (ds_manual s') d \<longleftrightarrow> d \<in> canonicalTrustedHost uni parse_ip ` set domains)"
proof -
  obtain m where m: "next_domains uni parse_ip (ds_manual s) now domains [] = Inr m"
    and s': "s' = s\<lparr>ds_manual := m, ds_file := Some (trustedDomainRows m)\<rparr>"
    using assms(2) by (auto simp: SetManualTrustedDomains_def persistTrustedDomains_def split: sum.splits)
  have "rows_ok uni parse_ip m" using next_domains_ok [OF assms(1) _ m] by (simp add: rows_ok_def)
  then show ?thesis
    using next_domains_keys [OF m] by (simp add: s' loadTrustedDomains_def fun_eq_iff load_table has_key_def)
qed

lemma refused_domains_unchanged:
  "SetManualTrustedDomains uni parse_ip writable domains now s = (s', Some e) \<Longrightarrow> s' = s"
  by (auto simp: SetManualTrustedDomains_def persistTrustedDomains_def split: sum.splits if_splits prod.splits)

section \<open>What an observation shows\<close>

text \<open>An event or a session shows a target only as the canonical host that a trusted domain
  covers; otherwise the target is blank and an internal address of the operator is never shown.\<close>

lemma decorated_target_trusted:
  assumes "ip_law parse_ip" "v' = decorate uni parse_ip internal_ip s v"
  shows "if tv_target v' \<noteq> []
    then (\<exists>d \<in> fst ` set (ds_manual s). covers d (tv_target v')) \<and> canonicalTrustedHost uni parse_ip (tv_target v') = tv_target v'
      \<and> tv_trust v' = ''manual'' \<and> tv_host v' = tv_host v
    else tv_trust v' = ''untrusted'' \<and> \<not> internalUntrustedHost uni parse_ip internal_ip (tv_host v')"
proof -
  let ?raw = "if tv_target v = [] then tv_host v else tv_target v"
  have blank: "\<not> internalUntrustedHost uni parse_ip internal_ip []"
    by (simp add: internalUntrustedHost_def canonicalTrustedHost_def ToLower_def)
  show ?thesis
  proof (cases "trustedTargetRoot uni parse_ip s ?raw")
    case None
    then show ?thesis using assms(2) blank by (simp add: decorate_def Let_def trustedHost_def)
  next
    case (Some p)
    obtain root source where p: "p = (root, source)" by (cases p)
    have "tv_target v' = canonicalTrustedHost uni parse_ip ?raw" "tv_trust v' = source" "tv_host v' = tv_host v"
      using assms(2) Some by (simp_all add: decorate_def Let_def trustedHost_def p)
    then show ?thesis
      using trusted_root_lemma [THEN iffD1, OF Some [unfolded p]] canon_idem [OF assms(1)] by metis
  qed
qed

section \<open>Witnesses\<close>

text \<open>An address parser that knows one address.\<close>

definition one_ip :: "string \<Rightarrow> string option" where
  "one_ip v = (if v = ''10.0.0.7'' then Some v else None)"

lemma one_ip_law: "ip_law one_ip"
  by (auto simp: ip_law_def one_ip_def)

lemma example_runes: "is_ascii w \<Longrightarrow> list_all host_rune (runes w) \<longleftrightarrow> list_all host_rune (map of_char w)"
  by (simp only: runes_ascii)

lemma name_examples: "name_ok ''a.example.com''" "name_ok ''example.com''" "name_ok ''b.org''"
  by (simp_all add: name_ok_def label_ok_def example_runes host_rune_def)

lemma canon_examples:
  "canonicalTrustedHost u one_ip ''a.example.com'' = ''a.example.com''"
  "canonicalTrustedHost u one_ip ''example.com'' = ''example.com''"
  "canonicalTrustedHost u one_ip ''b.org'' = ''b.org''"
  by (rule canon_name, rule name_examples, simp add: one_ip_def)+

abbreviation "plain_row d \<equiv> \<lparr>td_domain = d, td_source = ''manual'', td_integration = [], td_added = 7\<rparr>"

definition two_domains :: domainStore where
  "two_domains = \<lparr>ds_manual = [(''example.com'', plain_row ''example.com''), (''a.example.com'', plain_row ''a.example.com'')], ds_file = None\<rparr>"

definition domains_swapped :: domainStore where
  "domains_swapped = \<lparr>ds_manual = [(''a.example.com'', plain_row ''a.example.com''), (''example.com'', plain_row ''example.com'')], ds_file = None\<rparr>"

lemma trusted_root_exact_witness:
  "trustedTargetRoot (\<lambda>x. x) one_ip two_domains ''a.example.com'' = trustedTargetRoot (\<lambda>x. x) one_ip domains_swapped ''a.example.com''"
  using trusted_root_exact [of two_domains domains_swapped "\<lambda>x. x" one_ip "''a.example.com''"]
  by (simp add: two_domains_def domains_swapped_def insert_commute)

lemma domains_survive_restart_witness:
  "\<exists>s'. SetManualTrustedDomains (\<lambda>x. x) one_ip True [''example.com''] 7 two_domains = (s', None)
     \<and> map_of (ds_manual (loadTrustedDomains (\<lambda>x. x) one_ip \<lparr>ds_manual = [], ds_file = ds_file s'\<rparr>)) = map_of (ds_manual s')
     \<and> (\<forall>d. has_key (ds_manual s') d \<longleftrightarrow> d = ''example.com'')"
proof -
  obtain s' where s': "SetManualTrustedDomains (\<lambda>x. x) one_ip True [''example.com''] 7 two_domains = (s', None)"
    by (simp add: SetManualTrustedDomains_def canon_examples persistTrustedDomains_def Let_def)
  show ?thesis
    using s' domains_survive_restart [OF one_ip_law s'] by (auto simp: canon_examples)
qed

lemma decorated_target_trusted_witness:
  "tv_target (decorate (\<lambda>x. x) one_ip (\<lambda>ip. ip = ''10.0.0.7'') two_domains
       \<lparr>tv_target = ''b.org'', tv_trust = [], tv_host = ''10.0.0.7''\<rparr>) = []
   \<and> \<not> internalUntrustedHost (\<lambda>x. x) one_ip (\<lambda>ip. ip = ''10.0.0.7'')
        (tv_host (decorate (\<lambda>x. x) one_ip (\<lambda>ip. ip = ''10.0.0.7'') two_domains \<lparr>tv_target = ''b.org'', tv_trust = [], tv_host = ''10.0.0.7''\<rparr>))"
proof -
  let ?v = "decorate (\<lambda>x. x) one_ip (\<lambda>ip. ip = ''10.0.0.7'') two_domains \<lparr>tv_target = ''b.org'', tv_trust = [], tv_host = ''10.0.0.7''\<rparr>"
  have "tv_target ?v = []"
    by (simp add: decorate_def trustedHost_def trustedTargetRoot_def canon_examples two_domains_def longer_root_def covers_def HasSuffix_def)
  then show ?thesis
    using decorated_target_trusted [OF one_ip_law refl, of "\<lambda>x. x" "\<lambda>ip. ip = ''10.0.0.7''" two_domains
        "\<lparr>tv_target = ''b.org'', tv_trust = [], tv_host = ''10.0.0.7''\<rparr>"] by simp
qed

end
