(* ===== verification/GoSort.thy ===== *)
theory GoSort
  imports GoMaps "HOL-Library.Multiset"
begin

text \<open>
  \<open>sort.Slice\<close>: insertion sort by a comparison. The result is a permutation of the rows,
  ordered whenever the comparison is total and transitive; Go may order equal rows otherwise,
  and nothing here depends on it. \<open>limit_rows\<close> is the truncation that follows every sort.
\<close>

fun insert_by :: "('a \<Rightarrow> 'a \<Rightarrow> bool) \<Rightarrow> 'a \<Rightarrow> 'a list \<Rightarrow> 'a list" where
  "insert_by le x [] = [x]"
| "insert_by le x (y # ys) = (if le x y then x # y # ys else y # insert_by le x ys)"

definition sort_by :: "('a \<Rightarrow> 'a \<Rightarrow> bool) \<Rightarrow> 'a list \<Rightarrow> 'a list" where
  "sort_by le xs = foldr (insert_by le) xs []"

definition limit_rows :: "int \<Rightarrow> 'a list \<Rightarrow> 'a list" where
  "limit_rows limit xs = (if 0 < limit then take (nat limit) xs else xs)"

locale row_order =
  fixes le :: "'a \<Rightarrow> 'a \<Rightarrow> bool"
  assumes total: "le x y \<or> le y x"
    and trans: "le x y \<Longrightarrow> le y z \<Longrightarrow> le x z"
begin

lemma sorted_insert: "sorted_wrt le xs \<Longrightarrow> sorted_wrt le (insert_by le x xs)"
proof (induction xs)
  case (Cons y ys)
  have mem: "set (insert_by le x ys) = insert x (set ys)" by (induction ys) auto
  show ?case
  proof (cases "le x y")
    case True
    then have "\<forall>z \<in> set (y # ys). le x z" using Cons.prems trans by (auto intro: trans)
    then show ?thesis using True Cons.prems by simp
  next
    case False
    then have "le y x" using total by blast
    then show ?thesis using False Cons mem by simp
  qed
qed simp

lemma sorted_sort: "sorted_wrt le (sort_by le xs)"
  by (induction xs) (auto simp: sort_by_def sorted_insert)

text \<open>Sorting and filtering commute.\<close>

lemma filter_insert:
  "sorted_wrt le ys \<Longrightarrow> List.filter P (insert_by le x ys) = (if P x then insert_by le x (List.filter P ys) else List.filter P ys)"
proof (induction ys)
  case (Cons y ys)
  show ?case
  proof (cases "le x y")
    case True
    then have "\<forall>z \<in> set (y # ys). le x z" using Cons.prems trans by (auto intro: trans)
    moreover have "insert_by le x zs = x # zs" if "\<forall>z \<in> set zs. le x z" for zs using that by (cases zs) auto
    ultimately have "insert_by le x (List.filter P (y # ys)) = x # List.filter P (y # ys)" by simp
    then show ?thesis using True by simp
  qed (use Cons in auto)
qed simp

lemma filter_sort: "List.filter P (sort_by le xs) = sort_by le (List.filter P xs)"
  by (induction xs) (simp_all add: sort_by_def filter_insert sorted_sort [unfolded sort_by_def])

text \<open>What is cut off is not before what is kept.\<close>

lemma take_first: "x \<in> set (take n (sort_by le xs)) \<Longrightarrow> y \<in> set (drop n (sort_by le xs)) \<Longrightarrow> le x y"
  using sorted_sort [of xs] sorted_wrt_append [of le "take n (sort_by le xs)" "drop n (sort_by le xs)"] by simp

end

lemma mset_insert_by [simp]: "mset (insert_by le x xs) = add_mset x (mset xs)"
  by (induction xs) auto

lemma mset_sort_by [simp]: "mset (sort_by le xs) = mset xs"
  by (induction xs) (auto simp: sort_by_def)

lemma set_sort_by [simp]: "set (sort_by le xs) = set xs"
  by (metis mset_sort_by set_mset_mset)

lemma length_sort_by [simp]: "length (sort_by le xs) = length xs"
  by (metis mset_sort_by size_mset)

lemma distinct_sort_by [simp]: "distinct (sort_by le xs) = distinct xs"
  by (metis mset_sort_by distinct_count_atmost_1 set_sort_by)

lemma distinct_map_sort_by [simp]: "distinct (map f (sort_by le xs)) = distinct (map f xs)"
  by (simp add: distinct_map)

lemma sort_by_Nil [simp]: "sort_by le [] = []"
  by (simp add: sort_by_def)

section \<open>Orders of rows\<close>

lemma lex_le_total: "lex_le a b \<or> lex_le b a"
proof (induction a b rule: lex_le.induct)
  case (3 x a y b)
  show ?case
  proof (cases "x = y")
    case False
    then have "(of_char x :: nat) \<noteq> of_char y" by simp
    then have "(of_char x :: nat) < of_char y \<or> (of_char y :: nat) < of_char x" by linarith
    then show ?thesis using False by auto
  qed (use 3 in simp)
qed simp_all

lemma lex_le_trans: "lex_le a b \<Longrightarrow> lex_le b c \<Longrightarrow> lex_le a c"
proof (induction a b arbitrary: c rule: lex_le.induct)
  case (3 x a y b)
  then show ?case by (cases c) (auto split: if_splits)
qed auto

lemma lex_le_antisym: "lex_le a b \<Longrightarrow> lex_le b a \<Longrightarrow> a = b"
  by (induction a b rule: lex_le.induct) (auto split: if_splits elim: lex_le.elims)

text \<open>Greater counts first, then names; later times first; earlier times first.\<close>

definition count_before :: "string \<times> int \<Rightarrow> string \<times> int \<Rightarrow> bool" where
  "count_before p q \<longleftrightarrow> snd q < snd p \<or> (snd p = snd q \<and> lex_le (fst p) (fst q))"

definition more_recent :: "('a \<Rightarrow> int) \<Rightarrow> ('a \<Rightarrow> gotime) \<Rightarrow> 'a \<Rightarrow> 'a \<Rightarrow> bool" where
  "more_recent n time p q \<longleftrightarrow> n q < n p \<or> (n p = n q \<and> time q \<le> time p)"

definition later_first :: "('a \<Rightarrow> gotime) \<Rightarrow> 'a \<Rightarrow> 'a \<Rightarrow> bool" where
  "later_first time p q \<longleftrightarrow> time q \<le> time p"

definition earlier_first :: "('a \<Rightarrow> gotime) \<Rightarrow> 'a \<Rightarrow> 'a \<Rightarrow> bool" where
  "earlier_first time p q \<longleftrightarrow> time p \<le> time q"

interpretation count_rows: row_order count_before
  using lex_le_total by unfold_locales (auto simp: count_before_def intro: lex_le_trans)

interpretation recent_rows: row_order "more_recent n time" for n time
  by unfold_locales (auto simp: more_recent_def)

interpretation later_rows: row_order "later_first time" for time
  by unfold_locales (auto simp: later_first_def)

interpretation earlier_rows: row_order "earlier_first time" for time
  by unfold_locales (auto simp: earlier_first_def)

lemma mset_take_drop: "mset (take n xs) + mset (drop n xs) = mset xs"
  by (metis append_take_drop_id mset_append)

end
