(* ===== verification/SshRecords.thy ===== *)
theory SshRecords
  imports GoSort GoNumbers
begin

text \<open>
  What the store keeps of SSH (\<open>internal/model/types.go\<close>): events and sessions, with the fields that the
  code copies together grouped into sub-records, and the fingerprints that \<open>internal/store/actors.go\<close>
  reads from one event. The digest and the case of letters past ASCII are parameters.
\<close>

record sshAuth =
  sa_method :: string
  sa_accepted :: bool
  sa_supplied :: bool
  sa_length :: int
  sa_key :: string
  sa_reason :: string

record sshCommand =
  sk_line :: string
  sk_name :: string
  sk_family :: string
  sk_stages :: "string list"
  sk_intent :: string
  sk_target :: string
  sk_cwd :: string
  sk_output :: string

record sshLevel =
  sl_depth :: int
  sl_loop :: int
  sl_frustration :: int
  sl_persona :: string
  sl_risk :: int
  sl_class :: string
  sl_actor :: string

record sshPayload =
  sy_bytes :: int
  sy_sha :: string
  sy_kind :: string
  sy_stage :: string
  sy_path :: string
  sy_relation :: string
  sy_network :: string
  sy_port :: int

record sshEvent =
  sv_id :: string
  sv_at :: gotime
  sv_session :: string
  sv_ip :: string
  sv_country :: string
  sv_country_source :: string
  sv_client :: string
  sv_user :: string
  sv_type :: string
  sv_auth :: sshAuth
  sv_command :: sshCommand
  sv_level :: sshLevel
  sv_message :: string
  sv_canaries :: "string list"
  sv_fingerprint :: string
  sv_secondary :: "string list"
  sv_payload :: sshPayload

record sshSession =
  sx_id :: string
  sx_ip :: string
  sx_country :: string
  sx_country_source :: string
  sx_client :: string
  sx_user :: string
  sx_first :: gotime
  sx_last :: gotime
  sx_gone :: gotime
  sx_attempts :: int
  sx_accepted :: bool
  sx_shell :: bool
  sx_sftp :: bool
  sx_execs :: int
  sx_commands :: int
  sx_current :: string
  sx_action :: string
  sx_dir :: string
  sx_level :: sshLevel
  sx_active :: bool
  sx_duration :: int

definition ran_command :: "sshEvent \<Rightarrow> bool" where
  "ran_command e \<longleftrightarrow> sv_type e = ''exec'' \<or> sv_type e = ''command''"

section \<open>Keys and passwords left behind\<close>

text \<open>Letters under \<open>(?i)\<close>: the long s and the Kelvin sign fold to s and k. \<open>\b\<close> knows ASCII words only.\<close>

definition fold_rune :: "nat \<Rightarrow> nat" where
  "fold_rune r = (if r = 0x17F then 115 else if r = 0x212A then 107 else if 65 \<le> r \<and> r \<le> 90 then r + 32 else r)"

definition word_rune :: "nat \<Rightarrow> bool" where
  "word_rune r \<longleftrightarrow> (48 \<le> r \<and> r \<le> 57) \<or> (65 \<le> r \<and> r \<le> 90) \<or> r = 95 \<or> (97 \<le> r \<and> r \<le> 122)"

definition space_rune :: "nat \<Rightarrow> bool" where
  "space_rune r \<longleftrightarrow> r \<in> {9, 10, 12, 13, 32}"

definition alnum_rune :: "nat \<Rightarrow> bool" where
  "alnum_rune r \<longleftrightarrow> (48 \<le> fold_rune r \<and> fold_rune r \<le> 57) \<or> (97 \<le> fold_rune r \<and> fold_rune r \<le> 122)"

type_synonym chunks = "(nat \<times> string) list"

definition fold_prefix :: "string \<Rightarrow> chunks \<Rightarrow> bool" where
  "fold_prefix p cs \<longleftrightarrow> take (length p) (map (fold_rune \<circ> fst) cs) = map of_char p"

definition chunk_text :: "chunks \<Rightarrow> string" where
  "chunk_text cs = concat (map snd cs)"

text \<open>The length of the key's kind at the start of the text, 0 for none.\<close>

definition key_kind :: "chunks \<Rightarrow> nat" where
  "key_kind cs =
     (case List.find (\<lambda>p. fold_prefix p cs) [''ssh-rsa'', ''ssh-ed25519'', ''ssh-dss''] of
        Some p \<Rightarrow> length p
      | None \<Rightarrow>
          if fold_prefix ''ecdsa-sha2-'' cs then
            (let tail = takeWhile (\<lambda>c. alnum_rune (fst c) \<or> fst c = 45) (drop 11 cs) in if tail = [] then 0 else 11 + length tail)
          else 0)"

definition match_key :: "chunks \<Rightarrow> (string \<times> string) option" where
  "match_key cs =
     (let n = key_kind cs; rest = drop n cs; gap = takeWhile (space_rune \<circ> fst) rest;
          body = takeWhile (\<lambda>c. alnum_rune (fst c) \<or> fst c \<in> {43, 47, 61}) (drop (length gap) rest)
      in if n = 0 \<or> gap = [] \<or> length body < 40 then None else Some (chunk_text (take n cs), chunk_text body))"

text \<open>The leftmost match at a word boundary; \<open>prev\<close> is the rune before, a blank at the start.\<close>

fun find_key :: "nat \<Rightarrow> chunks \<Rightarrow> (string \<times> string) option" where
  "find_key prev [] = None"
| "find_key prev (c # cs) =
     (case (if word_rune prev \<noteq> word_rune (fst c) then match_key (c # cs) else None) of
        Some m \<Rightarrow> Some m
      | None \<Rightarrow> find_key (fst c) cs)"

definition sshAuthorizedKeyFingerprint :: "(string \<Rightarrow> string) \<Rightarrow> (string \<Rightarrow> string) \<Rightarrow> string \<Rightarrow> string" where
  "sshAuthorizedKeyFingerprint sha uni command =
     (case find_key 32 (utf8_chunks command) of
        None \<Rightarrow> []
      | Some (kind, body) \<Rightarrow>
          ''ssh:authorized-key-sha256:'' @ hex_encode (take 8 (sha (ToLower uni (TrimSpace kind) @ '' '' @ TrimSpace body))))"

fun has_chpasswd :: "nat \<Rightarrow> chunks \<Rightarrow> bool" where
  "has_chpasswd prev [] \<longleftrightarrow> False"
| "has_chpasswd prev (c # cs) \<longleftrightarrow>
     (\<not> word_rune prev \<and> fold_prefix ''chpasswd'' (c # cs)
      \<and> \<not> word_rune (case drop 7 cs of [] \<Rightarrow> 32 | d # _ \<Rightarrow> fst d))
     \<or> has_chpasswd (fst c) cs"

definition sshCredentialPersistenceFingerprint :: "string \<Rightarrow> string" where
  "sshCredentialPersistenceFingerprint command =
     (if has_chpasswd 32 (utf8_chunks command) then ''ssh:account-credential-persistence'' else [])"

section \<open>Clients, payloads and topics\<close>

definition ssh_clients :: "(string \<times> string) list" where
  "ssh_clients =
    [(''paramiko'', ''ssh:paramiko''), (''libssh'', ''ssh:libssh''), (''ssh-2.0-go'', ''ssh:go-client''),
     (''golang'', ''ssh:go-client''), (''go-ssh'', ''ssh:go-client''), (''openssh'', ''ssh:openssh'')]"

definition fingerprintSSH :: "(string \<Rightarrow> string) \<Rightarrow> sshEvent \<Rightarrow> string" where
  "fingerprintSSH uni e =
     (if sv_fingerprint e \<noteq> [] then sv_fingerprint e
      else (case List.find (\<lambda>(needle, _). Contains (ToLower uni (sv_client e)) needle) ssh_clients of
              None \<Rightarrow> [] | Some (_, label) \<Rightarrow> label))"

definition hex_start :: "string \<Rightarrow> bool" where
  "hex_start h \<longleftrightarrow> 16 \<le> length h \<and> list_all (\<lambda>r. (48 \<le> r \<and> r \<le> 57) \<or> (97 \<le> r \<and> r \<le> 102)) (runes (take 16 h))"

definition sshPayloadHashFingerprint :: "(string \<Rightarrow> string) \<Rightarrow> sshEvent \<Rightarrow> string" where
  "sshPayloadHashFingerprint uni e =
     (let h = ToLower uni (TrimSpace (sy_sha (sv_payload e))); kind = ToLower uni (TrimSpace (sy_kind (sv_payload e)));
          low = ToLower uni (sk_line (sv_command e)) in
      if \<not> hex_start h then []
      else if kind = ''script'' \<or> Contains kind ''elf'' then ''ssh:payload-sha256:'' @ take 16 h
      else if kind = ''text'' \<and> Contains low ''systemctl --user'' \<and> Contains low ''.service'' then ''ssh:service-unit-sha256:'' @ take 16 h
      else [])"

definition recon_topics :: "(string list \<times> string) list" where
  "recon_topics =
    [([''hostname'', ''uname'', ''uptime'', ''lscpu'', ''nproc'', ''free'', ''vmstat''], ''system''),
     ([''ps'', ''top'', ''w'', ''who''], ''process''),
     ([''netstat'', ''ss'', ''ip'', ''ifconfig'', ''route'', ''arp'', ''ping''], ''network''),
     ([''whoami'', ''id'', ''last'', ''lastlog'', ''groups''], ''identity''),
     ([''pwd'', ''ls'', ''find'', ''mount'', ''df'', ''du''], ''filesystem''),
     ([''systemctl'', ''service'', ''rc-service''], ''services''),
     ([''env'', ''printenv'', ''set''], ''environment''),
     ([''history''], ''history''),
     ([''ssh''], ''ssh-client''),
     ([''dpkg'', ''rpm'', ''apt'', ''apt-get'', ''yum'', ''dnf'', ''apk''], ''packages''),
     ([''dd'', ''fio''], ''storage'')]"

definition sshReconTopic :: "(string \<Rightarrow> string) \<Rightarrow> string \<Rightarrow> string \<Rightarrow> string" where
  "sshReconTopic uni command_name family =
     (let name = ToLower uni (TrimSpace command_name); fam = ToLower uni (TrimSpace family) in
      case List.find (\<lambda>(names, _). name \<in> set names) recon_topics of
        Some (_, topic) \<Rightarrow> topic
      | None \<Rightarrow> if fam = ''recon'' \<or> fam = ''filesystem'' \<or> fam = ''network'' then fam else [])"

end
