(* ===== verification/JsonLog.thy ===== *)
theory JsonLog
  imports GoRunes GoPath
begin

text \<open>
  What the logs of the store (one JSON object in a line, \<open>events.jsonl\<close> and \<open>ssh-events.jsonl\<close>) keep of a
  record. \<open>encoding/json\<close> writes a string as its runes, so a byte that is no UTF-8 is written as U+FFFD;
  every other string, every number and every time reads back as it was. A log is a list of lines,
  \<open>None\<close> for one that does not decode. \<open>bufio.Scanner\<close> takes no line of two mebibytes.
\<close>

section \<open>Texts\<close>

definition json_text :: "string \<Rightarrow> string" where
  "json_text s = encode_runes (runes s)"

lemma json_text_Nil [simp]: "json_text [] = []"
  by (simp add: json_text_def)

lemma json_text_idem [simp]: "json_text (json_text s) = json_text s"
  by (simp add: json_text_def)

lemma json_text_valid: "valid_utf8 (json_text s)"
  by (simp add: json_text_def)

lemma json_text_same: "json_text s = s \<longleftrightarrow> valid_utf8 s"
proof
  assume "json_text s = s"
  then show "valid_utf8 s" using json_text_valid [of s] by metis
qed (simp add: json_text_def encode_runes_valid)

lemma runes_empty_iff [simp]: "runes s = [] \<longleftrightarrow> s = []"
  by (cases s) (auto simp: runes_def utf8_chunks.simps Let_def split: prod.splits)

lemma json_text_empty_iff [simp]: "json_text s = [] \<longleftrightarrow> s = []" "[] = json_text s \<longleftrightarrow> s = []"
  by (auto simp: json_text_def encode_runes_def)

lemma json_text_ascii [simp]: "is_ascii s \<Longrightarrow> json_text s = s"
  by (simp add: json_text_def runes_def utf8_chunks_ascii_list encode_runes_def is_ascii_def encode_ascii cong: map_cong)

lemma valid_ascii: "is_ascii s \<Longrightarrow> valid_utf8 s"
  by (simp add: json_text_same [symmetric])

section \<open>Lines\<close>

definition maxLogLine :: nat where "maxLogLine = 2097152"

text \<open>Whether the scanner gets through a log whose lines have these lengths.\<close>

definition scannable :: "nat list \<Rightarrow> bool" where
  "scannable sizes \<longleftrightarrow> list_all (\<lambda>n. n < maxLogLine) sizes"

lemma not_scannable: "\<not> scannable sizes \<longleftrightarrow> (\<exists>n \<in> set sizes. 2097152 \<le> n)"
  by (auto simp: scannable_def maxLogLine_def list_all_iff not_less)

text \<open>At the start the lines without a time or older than the retention are removed.\<close>

definition compactJSONL :: "('e \<Rightarrow> gotime) \<Rightarrow> gotime \<Rightarrow> 'e option list \<Rightarrow> 'e option list" where
  "compactJSONL at cutoff = List.filter (\<lambda>l. case l of None \<Rightarrow> False | Some e \<Rightarrow> at e \<noteq> 0 \<and> cutoff \<le> at e)"

lemma compact_all:
  "\<forall>e \<in> set es. at e \<noteq> 0 \<and> cutoff \<le> at e \<Longrightarrow> compactJSONL at cutoff (map Some es) = map Some es"
  by (induction es) (simp_all add: compactJSONL_def)

end
