(* ===== verification/EventStore.thy ===== *)
theory EventStore
  imports TrustedDomains GoSort SshRecords JsonLog
begin

text \<open>
  The store of web events (\<open>internal/store/store.go\<close>, with the parts of
  \<open>activity.go\<close>, \<open>trusted_domains.go\<close> and \<open>realtime.go\<close> that an event runs
  through): the ring of events, the counters, the sessions rebuilt from the log, the pruning of
  sessions, the subscribers of the live feed, and the log file with its replay at start.

  Fields that the code copies together are grouped into sub-records. The parameters are a record
  \<open>eventEnv\<close>: case mapping outside ASCII, \<open>net.ParseIP\<close>, the digits outside ASCII, the
  time zone, and the two operations on the actor profiles (\<open>actors.go\<close>), whose state is the
  component \<open>es_actors\<close> of arbitrary type. The file holds what its lines decode to (\<open>json_event\<close> of the
  events that were written), and \<open>None\<close> for a line that does not decode.
\<close>

section \<open>Events and sessions\<close>

record eventOrigin =
  eo_ip_source :: string
  eo_proxy :: string
  eo_country :: string
  eo_country_source :: string
  eo_cf_ray :: string
  eo_cf_colo :: string
  eo_referrer :: string
  eo_referrer_host :: string
  eo_request_host :: string
  eo_target :: string
  eo_target_trust :: string
  eo_self_origin :: bool
  eo_host_sweep :: bool
  eo_sweep_hosts :: int
  eo_origin :: string
  eo_language :: string
  eo_protocol :: string
  eo_integration :: string
  eo_integration_trust :: string
  eo_catch_all :: bool

record eventVisit =
  vi_first_seen :: gotime
  vi_requests :: int
  vi_visits :: int
  vi_started :: gotime
  vi_visit_requests :: int
  vi_first_path :: string

record eventProbe =
  pr_name :: string
  pr_product :: string
  pr_cve :: string
  pr_known :: bool

record scoring =
  sc_risk :: int
  sc_automation :: int
  sc_class :: string
  sc_actor :: string
  sc_confidence :: string
  sc_avg :: int
  sc_var :: int
  sc_persona :: string
  sc_depth :: int
  sc_loop :: int
  sc_frustration :: int

record webStory =
  st_name :: string
  st_confidence :: string
  st_locked :: bool

record botClaim =
  bc_provider :: string
  bc_name :: string
  bc_claimed :: bool
  bc_verified :: bool

record graphqlSeen =
  gq_bytes :: int
  gq_sha :: string
  gq_operation :: string
  gq_name :: string
  gq_fields :: "string list"

definition no_bot :: botClaim where
  "no_bot = \<lparr>bc_provider = [], bc_name = [], bc_claimed = False, bc_verified = False\<rparr>"

definition no_graphql :: graphqlSeen where
  "no_graphql = \<lparr>gq_bytes = 0, gq_sha = [], gq_operation = [], gq_name = [], gq_fields = []\<rparr>"

record webEvent =
  ev_id :: string
  ev_at :: gotime
  ev_session :: string
  ev_ip :: string
  ev_method :: string
  ev_path :: string
  ev_status :: int
  ev_category :: string
  ev_message :: string
  ev_agent :: string
  ev_origin :: eventOrigin
  ev_visit :: eventVisit
  ev_probe :: eventProbe
  ev_scoring :: scoring
  ev_story :: webStory
  ev_bytes :: int
  ev_bot :: botClaim
  ev_graphql :: graphqlSeen

record sessionOrigin =
  so_ip_source :: string
  so_proxy :: string
  so_country :: string
  so_country_source :: string
  so_cf_ray :: string
  so_cf_colo :: string
  so_first_referrer :: string
  so_last_referrer :: string
  so_referrer_host :: string
  so_request_host :: string
  so_target :: string
  so_target_trust :: string
  so_self_origin :: bool
  so_host_sweep :: bool
  so_sweep_hosts :: int
  so_origin :: string
  so_language :: string
  so_protocol :: string
  so_integration :: string
  so_integration_trust :: string
  so_catch_all :: bool

record journeyStep =
  js_at :: gotime
  js_path :: string
  js_label :: string

record webSession =
  ss_id :: string
  ss_ip :: string
  ss_agent :: string
  ss_origin :: sessionOrigin
  ss_first_path :: string
  ss_first_seen :: gotime
  ss_last_seen :: gotime
  ss_requests :: int
  ss_visits :: int
  ss_visit_started :: gotime
  ss_visit_requests :: int
  ss_visit_first_path :: string
  ss_scoring :: scoring
  ss_story :: webStory
  ss_current_path :: string
  ss_last_method :: string
  ss_last_status :: int
  ss_recent :: "gotime list"
  ss_journey :: "journeyStep list"
  ss_logins :: int
  ss_bot :: botClaim

section \<open>Counters and the store\<close>

record rawHostStat =
  rh_requests :: int
  rh_sweeps :: int
  rh_first :: gotime
  rh_last :: gotime
  rh_sources :: "string list"

record unknownPath =
  un_path :: string
  un_method :: string
  un_count :: int
  un_first :: gotime
  un_last :: gotime
  un_ip :: string
  un_agent :: string

record probeStat =
  ps_name :: string
  ps_product :: string
  ps_cve :: string
  ps_count :: int
  ps_hostile :: int
  ps_suspicious :: int
  ps_first :: gotime
  ps_last :: gotime

record catchAllHost =
  ca_host :: string
  ca_requests :: int
  ca_hostile :: int
  ca_suspicious :: int
  ca_first :: gotime
  ca_last :: gotime
  ca_integration :: string

record ipBucket =
  ib_http :: int
  ib_ssh :: int

datatype feedMessage =
    WebMessage gotime webEvent "webSession option"
  | SshMessage gotime sshEvent "sshSession option"
  | ResyncRequired gotime

record subscriber =
  su_queue :: "feedMessage list"
  su_missed :: bool

record 'a eventStore =
  es_sessions :: "(string, webSession) gomap"
  es_fingerprints :: "(string, string) gomap"
  es_events :: "webEvent list"
  es_paths :: "(string, int) gomap"
  es_days :: "(string, int) gomap"
  es_targets :: "(string, int) gomap"
  es_hosts :: "(string, rawHostStat) gomap"
  es_unknown :: "(string, unknownPath) gomap"
  es_probes :: "(string, probeStat) gomap"
  es_catch :: "(string, catchAllHost) gomap"
  es_integrations :: "(string, int) gomap"
  es_catch_total :: int
  es_total :: int
  es_hours :: "(int, (string, int) gomap) gomap"
  es_daily :: "(string, (int, ipBucket) gomap) gomap"
  es_actors :: 'a
  es_subs :: "subscriber list"
  es_rejected :: int
  es_domains :: domainStore
  es_file :: "webEvent option list"

record 'a eventEnv =
  en_lower :: "string \<Rightarrow> string"
  en_upper :: "string \<Rightarrow> string"
  en_parse_ip :: "string \<Rightarrow> string option"
  en_internal_ip :: "string \<Rightarrow> bool"
  en_digit :: "nat \<Rightarrow> bool"
  en_day_key :: "gotime \<Rightarrow> string"
  en_local_day :: "gotime \<Rightarrow> int"
  en_actor_event :: "webEvent list \<Rightarrow> webEvent \<Rightarrow> 'a \<Rightarrow> 'a"
  en_actor_drop :: "string list \<Rightarrow> 'a \<Rightarrow> 'a"

definition maxRing :: nat where "maxRing = 5000"
definition maxPathKeys :: nat where "maxPathKeys = 5000"
definition maxSessions :: nat where "maxSessions = 10000"
definition maxRealtimeSubscribers :: nat where "maxRealtimeSubscribers = 24"

definition empty_store :: "'a \<Rightarrow> domainStore \<Rightarrow> webEvent option list \<Rightarrow> 'a eventStore" where
  "empty_store actors domains file =
     \<lparr>es_sessions = [], es_fingerprints = [], es_events = [], es_paths = [], es_days = [], es_targets = [], es_hosts = [],
      es_unknown = [], es_probes = [], es_catch = [], es_integrations = [], es_catch_total = 0, es_total = 0, es_hours = [],
      es_daily = [], es_actors = actors, es_subs = [], es_rejected = 0, es_domains = domains, es_file = file\<rparr>"

section \<open>Paths\<close>

definition ellipsis :: string where "ellipsis = [CHR 0xE2, CHR 0x80, CHR 0xA6]"

definition isHex :: "string \<Rightarrow> bool" where
  "isHex s \<longleftrightarrow> list_all (\<lambda>r. (48 \<le> r \<and> r \<le> 57) \<or> (97 \<le> r \<and> r \<le> 102) \<or> (65 \<le> r \<and> r \<le> 70)) (runes s) \<and> s \<noteq> []"

text \<open>\<open>uni\<close> says which runes past ASCII are digits.\<close>

definition isDigits :: "(nat \<Rightarrow> bool) \<Rightarrow> string \<Rightarrow> bool" where
  "isDigits uni s \<longleftrightarrow> list_all (\<lambda>r. if r < 128 then 48 \<le> r \<and> r \<le> 57 else uni r) (runes s) \<and> s \<noteq> []"

definition normalize_part :: "(nat \<Rightarrow> bool) \<Rightarrow> string \<Rightarrow> string" where
  "normalize_part uni p =
     (if 8 \<le> length p \<and> isHex p then '':token''
      else if 3 \<le> length p \<and> isDigits uni p then '':id''
      else if 48 < length p then take 47 p @ ellipsis
      else p)"

definition normalizePath :: "(nat \<Rightarrow> bool) \<Rightarrow> string \<Rightarrow> string" where
  "normalizePath uni path =
     (if path = [] then ''/''
      else (let out = Join (map (normalize_part uni) (SplitByte path (CHR ''/''))) ''/''
            in if 160 < length out then take 159 out @ ellipsis else out))"

section \<open>Counting an event\<close>

definition hour_key :: "gotime \<Rightarrow> int" where
  "hour_key t = (t - t mod hour) div second - 62135596800"

definition activityTarget :: "webEvent \<Rightarrow> string" where
  "activityTarget e =
     (let target = TrimSpace (eo_target (ev_origin e))
      in if target = [] then TrimSpace (eo_request_host (ev_origin e)) else target)"

definition countIPDailyActivity :: "'a eventEnv \<Rightarrow> string \<Rightarrow> gotime \<Rightarrow> bool \<Rightarrow> 'a eventStore \<Rightarrow> 'a eventStore" where
  "countIPDailyActivity env ip0 at http s =
     (let ip = TrimSpace ip0 in
      if ip = [] \<or> at = 0 then s
      else (let rows = lookup_or [] (es_daily s) ip;
                b = lookup_or \<lparr>ib_http = 0, ib_ssh = 0\<rparr> rows (en_local_day env at);
                b = (if http then b\<lparr>ib_http := wrap64 (ib_http b + 1)\<rparr> else b\<lparr>ib_ssh := wrap64 (ib_ssh b + 1)\<rparr>)
            in s\<lparr>es_daily := AList.update ip (AList.update (en_local_day env at) b rows) (es_daily s)\<rparr>))"

definition countHTTPActivity :: "'a eventEnv \<Rightarrow> webEvent \<Rightarrow> 'a eventStore \<Rightarrow> 'a eventStore" where
  "countHTTPActivity env e s =
     (let h = hour_key (ev_at e)
      in countIPDailyActivity env (ev_ip e) (ev_at e) True
           (s\<lparr>es_hours := AList.update h (incr (activityTarget e) (lookup_or [] (es_hours s) h)) (es_hours s)\<rparr>))"

definition named_or :: "string \<Rightarrow> string \<Rightarrow> string" where
  "named_or d v = (if v = [] then d else v)"

definition countTarget :: "'a eventEnv \<Rightarrow> string \<Rightarrow> 'a eventStore \<Rightarrow> 'a eventStore" where
  "countTarget env target0 s =
     s\<lparr>es_targets := incr (named_or ''(unknown)'' (TrimSpace (ToLower (en_lower env) target0))) (es_targets s)\<rparr>"

definition add_source :: "string \<Rightarrow> string list \<Rightarrow> string list" where
  "add_source ip sources =
     (if ip \<noteq> [] \<and> length sources < 256 then (if ip \<in> set sources then sources else ip # sources) else sources)"

definition canonical :: "'a eventEnv \<Rightarrow> string \<Rightarrow> string" where
  "canonical env v = canonicalTrustedHost (en_lower env) (en_parse_ip env) v"

definition new_host :: "webEvent \<Rightarrow> rawHostStat" where
  "new_host e = \<lparr>rh_requests = 0, rh_sweeps = 0, rh_first = ev_at e, rh_last = 0, rh_sources = []\<rparr>"

definition host_seen :: "webEvent \<Rightarrow> rawHostStat \<Rightarrow> rawHostStat" where
  "host_seen e row =
     \<lparr>rh_requests = wrap64 (rh_requests row + 1),
      rh_sweeps = (if eo_host_sweep (ev_origin e) then wrap64 (rh_sweeps row + 1) else rh_sweeps row),
      rh_first = (if rh_first row = 0 \<or> ev_at e < rh_first row then ev_at e else rh_first row),
      rh_last = max (rh_last row) (ev_at e),
      rh_sources = add_source (ev_ip e) (rh_sources row)\<rparr>"

text \<open>The key of a map that counts its overflow under one other name.\<close>

definition cap_key :: "string \<Rightarrow> (string, 'v) gomap \<Rightarrow> string \<Rightarrow> string" where
  "cap_key other m k = (if \<not> has_key m k \<and> maxPathKeys \<le> length m then other else k)"

definition countPath :: "'a eventEnv \<Rightarrow> string \<Rightarrow> 'a eventStore \<Rightarrow> 'a eventStore" where
  "countPath env path s =
     s\<lparr>es_paths := incr (cap_key ''(other unique paths)'' (es_paths s) (normalizePath (en_digit env) path)) (es_paths s)\<rparr>"

definition countRequestHost :: "'a eventEnv \<Rightarrow> webEvent \<Rightarrow> 'a eventStore \<Rightarrow> 'a eventStore" where
  "countRequestHost env e s =
     (let host = canonical env (eo_request_host (ev_origin e));
          host = (if host = [] then canonical env (eo_target (ev_origin e)) else host);
          k = cap_key ''(other request hosts)'' (es_hosts s) host in
      if host = [] then s
      else s\<lparr>es_hosts := AList.update k (host_seen e (lookup_or (new_host e) (es_hosts s) k)) (es_hosts s)\<rparr>)"

definition isStoredActivityPubRelay :: "'a eventEnv \<Rightarrow> webEvent \<Rightarrow> string \<Rightarrow> bool" where
  "isStoredActivityPubRelay env e normalized \<longleftrightarrow>
     normalized = ''/inbox'' \<and> ToUpper (en_upper env) (TrimSpace (ev_method e)) = ''POST''
     \<and> (let ua = ToLower (en_lower env) (ev_agent e)
        in ev_message e = ''activitypub-relay'' \<or> Contains ua ''activity-relay'' \<or> Contains ua ''toot relay'')"

definition generic_paths :: "string list" where
  "generic_paths = [''/'', ''/favicon.ico'', ''/index.html'', ''/index.htm'', ''/robots.txt'', ''/sitemap.xml'',
     ''/.well-known/passkey-endpoints'']"

definition countUnknown :: "'a eventEnv \<Rightarrow> webEvent \<Rightarrow> 'a eventStore \<Rightarrow> 'a eventStore" where
  "countUnknown env e s =
     (let path = normalizePath (en_digit env) (ev_path e) in
      if pr_known (ev_probe e) \<or> path \<in> set generic_paths \<or> isStoredActivityPubRelay env e path then s
      else if ev_category e = ''request'' \<and> sc_risk (ev_scoring e) < 20 \<and> ev_status e \<noteq> 404 then s
      else (let k = ToUpper (en_upper env) (ev_method e) @ ''|'' @ path;
                u = lookup_or \<lparr>un_path = path, un_method = ev_method e, un_count = 0, un_first = ev_at e, un_last = 0,
                               un_ip = ev_ip e, un_agent = ev_agent e\<rparr> (es_unknown s) k
            in s\<lparr>es_unknown := AList.update k (u\<lparr>un_count := wrap64 (un_count u + 1), un_last := ev_at e\<rparr>) (es_unknown s)\<rparr>))"

definition new_probe :: "webEvent \<Rightarrow> probeStat" where
  "new_probe e = \<lparr>ps_name = pr_name (ev_probe e), ps_product = pr_product (ev_probe e), ps_cve = pr_cve (ev_probe e),
     ps_count = 0, ps_hostile = 0, ps_suspicious = 0, ps_first = ev_at e, ps_last = 0\<rparr>"

definition probe_seen :: "webEvent \<Rightarrow> probeStat \<Rightarrow> probeStat" where
  "probe_seen e p =
     p\<lparr>ps_count := wrap64 (ps_count p + 1),
       ps_hostile := (if sc_class (ev_scoring e) = ''hostile'' then wrap64 (ps_hostile p + 1) else ps_hostile p),
       ps_suspicious := (if sc_class (ev_scoring e) = ''suspicious'' then wrap64 (ps_suspicious p + 1) else ps_suspicious p),
       ps_first := (if ps_first p = 0 \<or> ev_at e < ps_first p then ev_at e else ps_first p),
       ps_last := max (ps_last p) (ev_at e)\<rparr>"

definition probe_key :: "'a eventEnv \<Rightarrow> eventProbe \<Rightarrow> string" where
  "probe_key env p = ToLower (en_lower env) (TrimSpace (pr_name p) @ ''|'' @ TrimSpace (pr_product p) @ ''|'' @ TrimSpace (pr_cve p))"

definition countProbe :: "'a eventEnv \<Rightarrow> webEvent \<Rightarrow> 'a eventStore \<Rightarrow> 'a eventStore" where
  "countProbe env e s =
     (if \<not> pr_known (ev_probe e) \<or> TrimSpace (pr_name (ev_probe e)) = [] then s
      else (let k = probe_key env (ev_probe e)
            in s\<lparr>es_probes := AList.update k (probe_seen e (lookup_or (new_probe e) (es_probes s) k)) (es_probes s)\<rparr>))"

definition new_catch :: "string \<Rightarrow> webEvent \<Rightarrow> catchAllHost" where
  "new_catch host e = \<lparr>ca_host = host, ca_requests = 0, ca_hostile = 0, ca_suspicious = 0, ca_first = ev_at e, ca_last = 0,
     ca_integration = []\<rparr>"

definition catch_seen :: "webEvent \<Rightarrow> catchAllHost \<Rightarrow> catchAllHost" where
  "catch_seen e h =
     h\<lparr>ca_requests := wrap64 (ca_requests h + 1), ca_last := ev_at e,
       ca_first := (if ca_first h = 0 \<or> ev_at e < ca_first h then ev_at e else ca_first h),
       ca_hostile := (if sc_class (ev_scoring e) = ''hostile'' then wrap64 (ca_hostile h + 1) else ca_hostile h),
       ca_suspicious := (if sc_class (ev_scoring e) = ''suspicious'' then wrap64 (ca_suspicious h + 1) else ca_suspicious h),
       ca_integration := (if eo_integration (ev_origin e) \<noteq> [] then eo_integration (ev_origin e) else ca_integration h)\<rparr>"

definition countCatchAll :: "'a eventEnv \<Rightarrow> webEvent \<Rightarrow> 'a eventStore \<Rightarrow> 'a eventStore" where
  "countCatchAll env e s =
     (if \<not> eo_catch_all (ev_origin e) then s
      else (let host = named_or ''(unknown)'' (TrimSpace (ToLower (en_lower env) (eo_target (ev_origin e))));
                k = cap_key ''(other catch-all hosts)'' (es_catch s) host
            in s\<lparr>es_catch := AList.update k (catch_seen e (lookup_or (new_catch k e) (es_catch s) k)) (es_catch s),
                 es_integrations := incr (named_or ''(unspecified)'' (eo_integration (ev_origin e))) (es_integrations s),
                 es_catch_total := wrap64 (es_catch_total s + 1)\<rparr>))"

definition countDay :: "'a eventEnv \<Rightarrow> webEvent \<Rightarrow> 'a eventStore \<Rightarrow> 'a eventStore" where
  "countDay env e s = s\<lparr>es_days := incr (en_day_key env (ev_at e)) (es_days s)\<rparr>"

definition pushEvent :: "webEvent \<Rightarrow> 'a eventStore \<Rightarrow> 'a eventStore" where
  "pushEvent e s = s\<lparr>es_events := push_last maxRing e (es_events s), es_total := wrap64 (es_total s + 1)\<rparr>"

definition actorEvent :: "'a eventEnv \<Rightarrow> webEvent \<Rightarrow> 'a eventStore \<Rightarrow> 'a eventStore" where
  "actorEvent env e s = s\<lparr>es_actors := en_actor_event env (es_events s) e (es_actors s)\<rparr>"

text \<open>What both \<open>AddEvent\<close> and the replay of the log do with an event, in their order.\<close>

definition countEvent :: "'a eventEnv \<Rightarrow> webEvent \<Rightarrow> 'a eventStore \<Rightarrow> 'a eventStore" where
  "countEvent env e s =
     (let s = pushEvent e (countHTTPActivity env e s);
          s = countDay env e (countPath env (ev_path e) s);
          s = countRequestHost env e (countTarget env (eo_target (ev_origin e)) s);
          s = countProbe env e (countUnknown env e s)
      in actorEvent env e (countCatchAll env e s))"

section \<open>The live feed\<close>

definition offer :: "feedMessage \<Rightarrow> gotime \<Rightarrow> subscriber \<Rightarrow> subscriber" where
  "offer msg at sub =
     (if su_missed sub then
        (if length (su_queue sub) < 128 then \<lparr>su_queue = su_queue sub @ [ResyncRequired at], su_missed = False\<rparr> else sub)
      else if length (su_queue sub) < 128 then sub\<lparr>su_queue := su_queue sub @ [msg]\<rparr>
      else sub\<lparr>su_missed := True\<rparr>)"

definition publishRealtime :: "feedMessage \<Rightarrow> gotime \<Rightarrow> 'a eventStore \<Rightarrow> 'a eventStore" where
  "publishRealtime msg at s = s\<lparr>es_subs := map (offer msg at) (es_subs s)\<rparr>"

definition SubscribeRealtime :: "'a eventStore \<Rightarrow> 'a eventStore \<times> bool" where
  "SubscribeRealtime s =
     (if maxRealtimeSubscribers \<le> length (es_subs s) then (s\<lparr>es_rejected := wrap64 (es_rejected s + 1)\<rparr>, False)
      else (s\<lparr>es_subs := \<lparr>su_queue = [], su_missed = False\<rparr> # es_subs s\<rparr>, True))"

text \<open>The \<open>i\<close>-th subscriber cancels; its reader takes the oldest message.\<close>

definition cancelRealtime :: "nat \<Rightarrow> 'a eventStore \<Rightarrow> 'a eventStore" where
  "cancelRealtime i s = s\<lparr>es_subs := take i (es_subs s) @ drop (Suc i) (es_subs s)\<rparr>"

definition takeRealtime :: "nat \<Rightarrow> 'a eventStore \<Rightarrow> 'a eventStore" where
  "takeRealtime i s =
     (if i < length (es_subs s) then s\<lparr>es_subs := (es_subs s)[i := (es_subs s ! i)\<lparr>su_queue := tl (su_queue (es_subs s ! i))\<rparr>]\<rparr> else s)"

definition decorateEvent :: "'a eventEnv \<Rightarrow> domainStore \<Rightarrow> webEvent \<Rightarrow> webEvent" where
  "decorateEvent env ds e =
     (let og = ev_origin e;
          v = decorate (en_lower env) (en_parse_ip env) (en_internal_ip env) ds
                \<lparr>tv_target = eo_target og, tv_trust = eo_target_trust og, tv_host = eo_request_host og\<rparr>
      in e\<lparr>ev_origin := og\<lparr>eo_target := tv_target v, eo_target_trust := tv_trust v, eo_request_host := tv_host v\<rparr>\<rparr>)"

definition decorateSession :: "'a eventEnv \<Rightarrow> domainStore \<Rightarrow> webSession \<Rightarrow> webSession" where
  "decorateSession env ds ss =
     (let og = ss_origin ss;
          v = decorate (en_lower env) (en_parse_ip env) (en_internal_ip env) ds
                \<lparr>tv_target = so_target og, tv_trust = so_target_trust og, tv_host = so_request_host og\<rparr>
      in ss\<lparr>ss_origin := og\<lparr>so_target := tv_target v, so_target_trust := tv_trust v, so_request_host := tv_host v\<rparr>\<rparr>)"

text \<open>The names that a user agent must have one of for a claim of a provider.\<close>

definition provider_agents :: "string \<Rightarrow> string list" where
  "provider_agents provider =
     (if provider = ''openai'' then [''oai-searchbot'', ''gptbot'', ''chatgpt-user'', ''oai-adsbot'']
      else if provider = ''perplexity'' then [''perplexitybot'', ''perplexity-user'']
      else if provider = ''google'' then [''googlebot'', ''googleother'', ''googleinspectiontool'', ''adsbot-google'']
      else if provider = ''apple'' then [''applebot'']
      else if provider = ''duckduckgo'' then [''duckduckbot'', ''duckassistbot'']
      else if provider = ''xai'' then [''grokbot'']
      else if provider = ''commoncrawl'' then [''ccbot'']
      else if provider = ''bytedance'' then [''bytespider'']
      else if provider = ''baidu'' then [''baiduspider'']
      else [])"

definition botIdentityMatchesUserAgent :: "(string \<Rightarrow> string) \<Rightarrow> string \<Rightarrow> string \<Rightarrow> string \<Rightarrow> bool" where
  "botIdentityMatchesUserAgent uni agent provider name =
     (let ua = ToLower uni (TrimSpace agent) in
      ua \<noteq> [] \<and> list_ex (\<lambda>c. ToLower uni (TrimSpace c) \<noteq> [] \<and> Contains ua (ToLower uni (TrimSpace c)))
                  (ToLower uni (TrimSpace name) # provider_agents (ToLower uni (TrimSpace provider))))"

definition sanitizeBotIdentity :: "(string \<Rightarrow> string) \<Rightarrow> string \<Rightarrow> botClaim \<Rightarrow> botClaim" where
  "sanitizeBotIdentity uni agent b =
     (if \<not> bc_claimed b \<and> \<not> bc_verified b \<and> bc_provider b = [] \<and> bc_name b = [] then no_bot
      else if \<not> botIdentityMatchesUserAgent uni agent (bc_provider b) (bc_name b) then no_bot else b)"

definition json_origin :: "eventOrigin \<Rightarrow> eventOrigin" where
  "json_origin og =
     og\<lparr>eo_ip_source := json_text (eo_ip_source og), eo_proxy := json_text (eo_proxy og), eo_country := json_text (eo_country og),
        eo_country_source := json_text (eo_country_source og), eo_cf_ray := json_text (eo_cf_ray og), eo_cf_colo := json_text (eo_cf_colo og),
        eo_referrer := json_text (eo_referrer og), eo_referrer_host := json_text (eo_referrer_host og),
        eo_request_host := json_text (eo_request_host og), eo_target := json_text (eo_target og),
        eo_target_trust := json_text (eo_target_trust og), eo_origin := json_text (eo_origin og), eo_language := json_text (eo_language og),
        eo_protocol := json_text (eo_protocol og), eo_integration := json_text (eo_integration og),
        eo_integration_trust := json_text (eo_integration_trust og)\<rparr>"

definition json_scoring :: "scoring \<Rightarrow> scoring" where
  "json_scoring sc =
     sc\<lparr>sc_class := json_text (sc_class sc), sc_actor := json_text (sc_actor sc), sc_confidence := json_text (sc_confidence sc),
        sc_persona := json_text (sc_persona sc)\<rparr>"

definition json_bot :: "botClaim \<Rightarrow> botClaim" where
  "json_bot b = b\<lparr>bc_provider := json_text (bc_provider b), bc_name := json_text (bc_name b)\<rparr>"

text \<open>\<open>MarshalJSON\<close> of an event, read back: what the log keeps of it.\<close>

definition json_event :: "'a eventEnv \<Rightarrow> webEvent \<Rightarrow> webEvent" where
  "json_event env e =
     e\<lparr>ev_id := json_text (ev_id e), ev_session := json_text (ev_session e), ev_ip := json_text (ev_ip e),
       ev_method := json_text (ev_method e), ev_path := json_text (ev_path e), ev_category := json_text (ev_category e),
       ev_message := json_text (ev_message e), ev_agent := json_text (ev_agent e), ev_origin := json_origin (ev_origin e),
       ev_visit := (ev_visit e)\<lparr>vi_first_path := json_text (vi_first_path (ev_visit e))\<rparr>,
       ev_probe := (ev_probe e)\<lparr>pr_name := json_text (pr_name (ev_probe e)), pr_product := json_text (pr_product (ev_probe e)),
                                pr_cve := json_text (pr_cve (ev_probe e))\<rparr>,
       ev_scoring := json_scoring (ev_scoring e),
       ev_story := (ev_story e)\<lparr>st_name := json_text (st_name (ev_story e)), st_confidence := json_text (st_confidence (ev_story e))\<rparr>,
       ev_bot := json_bot (sanitizeBotIdentity (en_lower env) (ev_agent e) (ev_bot e)),
       ev_graphql := (ev_graphql e)\<lparr>gq_sha := json_text (gq_sha (ev_graphql e)), gq_operation := json_text (gq_operation (ev_graphql e)),
                                    gq_name := json_text (gq_name (ev_graphql e)), gq_fields := map json_text (gq_fields (ev_graphql e))\<rparr>\<rparr>"

text \<open>The log: \<open>None\<close> when no file is open, else whether the write succeeds.\<close>

definition write_log :: "'a eventEnv \<Rightarrow> bool option \<Rightarrow> webEvent \<Rightarrow> 'a eventStore \<Rightarrow> 'a eventStore" where
  "write_log env log e s = (if log = Some True then s\<lparr>es_file := es_file s @ [Some (json_event env e)]\<rparr> else s)"

definition AddEvent :: "'a eventEnv \<Rightarrow> bool option \<Rightarrow> webEvent \<Rightarrow> 'a eventStore \<Rightarrow> 'a eventStore \<times> bool" where
  "AddEvent env log e s =
     (if log = Some False then (s, False)
      else (let s = countEvent env e (write_log env log e s);
                view = map_option (\<lambda>ss. (decorateSession env (es_domains s) ss)\<lparr>ss_recent := []\<rparr>) (map_of (es_sessions s) (ev_session e))
            in (publishRealtime (WebMessage (ev_at e) (decorateEvent env (es_domains s) e) view) (ev_at e) s, True)))"

section \<open>Sessions from events\<close>

definition fresh_session :: "webEvent \<Rightarrow> webSession" where
  "fresh_session e =
     \<lparr>ss_id = ev_session e, ss_ip = ev_ip e, ss_agent = ev_agent e,
      ss_origin = \<lparr>so_ip_source = [], so_proxy = [], so_country = [], so_country_source = [], so_cf_ray = [], so_cf_colo = [],
        so_first_referrer = [], so_last_referrer = [], so_referrer_host = [], so_request_host = [], so_target = [],
        so_target_trust = [], so_self_origin = False, so_host_sweep = False, so_sweep_hosts = 0, so_origin = [],
        so_language = [], so_protocol = [], so_integration = [], so_integration_trust = [], so_catch_all = False\<rparr>,
      ss_first_path = [],
      ss_first_seen = (if vi_first_seen (ev_visit e) = 0 then ev_at e else vi_first_seen (ev_visit e)),
      ss_last_seen = 0, ss_requests = 0, ss_visits = 0, ss_visit_started = 0, ss_visit_requests = 0, ss_visit_first_path = [],
      ss_scoring = ev_scoring e, ss_story = \<lparr>st_name = [], st_confidence = [], st_locked = False\<rparr>,
      ss_current_path = [], ss_last_method = [], ss_last_status = 0, ss_recent = [], ss_journey = [],
      ss_logins = 0, ss_bot = no_bot\<rparr>"

definition newer :: "string \<Rightarrow> string \<Rightarrow> string" where
  "newer new old = (if new \<noteq> [] then new else old)"

definition merge_origin :: "eventOrigin \<Rightarrow> sessionOrigin \<Rightarrow> sessionOrigin" where
  "merge_origin e og =
     og\<lparr>so_ip_source := eo_ip_source e, so_proxy := eo_proxy e,
       so_country := newer (eo_country e) (so_country og),
       so_country_source := (if eo_country e \<noteq> [] then eo_country_source e else so_country_source og),
       so_cf_ray := newer (eo_cf_ray e) (so_cf_ray og), so_cf_colo := newer (eo_cf_colo e) (so_cf_colo og),
       so_first_referrer := (if eo_referrer e \<noteq> [] \<and> so_first_referrer og = [] then eo_referrer e else so_first_referrer og),
       so_last_referrer := newer (eo_referrer e) (so_last_referrer og),
       so_referrer_host := (if eo_referrer e \<noteq> [] then eo_referrer_host e else so_referrer_host og),
       so_request_host := newer (eo_request_host e) (so_request_host og),
       so_target := newer (eo_target e) (so_target og),
       so_target_trust := newer (eo_target_trust e) (so_target_trust og),
       so_self_origin := (eo_self_origin e \<or> so_self_origin og),
       so_host_sweep := (eo_host_sweep e \<or> so_host_sweep og),
       so_sweep_hosts := (if eo_host_sweep e then max (eo_sweep_hosts e) (so_sweep_hosts og) else so_sweep_hosts og),
       so_origin := newer (eo_origin e) (so_origin og), so_language := newer (eo_language e) (so_language og),
       so_protocol := newer (eo_protocol e) (so_protocol og),
       so_integration := newer (eo_integration e) (so_integration og),
       so_integration_trust := (if eo_integration e \<noteq> [] then eo_integration_trust e else so_integration_trust og),
       so_catch_all := (eo_catch_all e \<or> so_catch_all og)\<rparr>"

text \<open>The visit an event belongs to and its counters; old logs do not carry them.\<close>

definition merge_visit :: "webEvent \<Rightarrow> webSession \<Rightarrow> webSession" where
  "merge_visit e ss =
     (let v = ev_visit e;
          requests = (if vi_requests v > 0 then vi_requests v else wrap64 (ss_requests ss + 1));
          visits = (if vi_visits v > 0 then vi_visits v else if ss_visits ss = 0 then 1 else ss_visits ss);
          changed = (if vi_started v \<noteq> 0 then ss_visit_started ss = 0 \<or> ss_visit_started ss \<noteq> vi_started v
                     else ss_visit_started ss = 0);
          started = (if vi_started v \<noteq> 0 then vi_started v
                     else if ss_visit_started ss = 0 then ss_first_seen ss else ss_visit_started ss);
          visit_requests = (if vi_visit_requests v > 0 then vi_visit_requests v
                            else wrap64 ((if changed then 0 else ss_visit_requests ss) + 1));
          first_path = (if vi_first_path v \<noteq> [] then vi_first_path v
                        else if changed \<or> ss_visit_first_path ss = [] then ev_path e else ss_visit_first_path ss)
      in ss\<lparr>ss_requests := requests, ss_visits := visits, ss_visit_started := started,
            ss_visit_requests := visit_requests, ss_visit_first_path := first_path\<rparr>)"

definition journey_event :: "webEvent \<Rightarrow> bool" where
  "journey_event e \<longleftrightarrow> sc_depth (ev_scoring e) > 0 \<and> ev_message e \<noteq> ''benign''"

definition add_journey :: "webEvent \<Rightarrow> journeyStep list \<Rightarrow> journeyStep list" where
  "add_journey e js =
     (if journey_event e \<and> (js = [] \<or> js_path (List.last js) \<noteq> ev_path e)
      then push_last 30 \<lparr>js_at = ev_at e, js_path = ev_path e, js_label = ev_message e\<rparr> js else js)"

definition event_session :: "webEvent \<Rightarrow> webSession \<Rightarrow> webSession" where
  "event_session e ss0 =
     (let ss = merge_visit e (ss0\<lparr>ss_last_seen := ev_at e, ss_ip := ev_ip e, ss_origin := merge_origin (ev_origin e) (ss_origin ss0),
                                 ss_first_path := (if ss_first_path ss0 = [] then ev_path e else ss_first_path ss0)\<rparr>)
      in ss\<lparr>ss_scoring := ev_scoring e,
            ss_story := (if st_name (ev_story e) \<noteq> [] then ev_story e else ss_story ss),
            ss_current_path := ev_path e, ss_last_method := ev_method e, ss_last_status := ev_status e,
            ss_recent := push_last 12 (ev_at e) (ss_recent ss), ss_journey := add_journey e (ss_journey ss)\<rparr>)"

definition event_fingerprint :: "webEvent \<Rightarrow> string" where
  "event_fingerprint e = ev_ip e @ ''|'' @ eo_target (ev_origin e) @ ''|'' @ ev_agent e"

definition applyEvent :: "webEvent \<Rightarrow> 'a eventStore \<Rightarrow> 'a eventStore" where
  "applyEvent e s =
     s\<lparr>es_sessions := AList.update (ev_session e) (event_session e (lookup_or (fresh_session e) (es_sessions s) (ev_session e)))
                        (es_sessions s),
       es_fingerprints := (if ev_agent e \<noteq> [] then AList.update (event_fingerprint e) (ev_session e) (es_fingerprints s)
                           else es_fingerprints s)\<rparr>"

text \<open>The sessions seen last stay.\<close>

definition dead_sessions :: "nat \<Rightarrow> (string, webSession) gomap \<Rightarrow> string list" where
  "dead_sessions target m =
     map fst (take (length m - target) (sort_by (earlier_first (\<lambda>p. ss_last_seen (snd p))) m))"

definition pruneSessions :: "'a eventEnv \<Rightarrow> nat \<Rightarrow> 'a eventStore \<Rightarrow> 'a eventStore" where
  "pruneSessions env target s =
     (if length (es_sessions s) \<le> target then s
      else (let dead = dead_sessions target (es_sessions s)
            in s\<lparr>es_sessions := List.filter (\<lambda>p. fst p \<notin> set dead) (es_sessions s),
                 es_fingerprints := List.filter (\<lambda>p. snd p \<notin> set dead) (es_fingerprints s),
                 es_actors := en_actor_drop env dead (es_actors s)\<rparr>))"

definition UpsertSession :: "'a eventEnv \<Rightarrow> webSession \<Rightarrow> string \<Rightarrow> 'a eventStore \<Rightarrow> 'a eventStore" where
  "UpsertSession env ss fingerprint s =
     (let existed = has_key (es_sessions s) (ss_id ss);
          s = s\<lparr>es_sessions := AList.update (ss_id ss) ss (es_sessions s),
                es_fingerprints := (if fingerprint \<noteq> [] then AList.update fingerprint (ss_id ss) (es_fingerprints s)
                                    else es_fingerprints s)\<rparr>
      in if \<not> existed \<and> maxSessions < length (es_sessions s) then pruneSessions env (maxSessions - 1000) s else s)"

definition GetSession :: "string \<Rightarrow> 'a eventStore \<Rightarrow> webSession option" where
  "GetSession i s = map_of (es_sessions s) i"

definition GetSessionByFingerprint :: "string \<Rightarrow> 'a eventStore \<Rightarrow> webSession option" where
  "GetSessionByFingerprint fp s = (case map_of (es_fingerprints s) fp of None \<Rightarrow> None | Some i \<Rightarrow> GetSession i s)"

section \<open>The replay of the log\<close>

definition load_line :: "'a eventEnv \<Rightarrow> webEvent option \<Rightarrow> 'a eventStore \<Rightarrow> 'a eventStore" where
  "load_line env line s =
     (case line of
        None \<Rightarrow> s
      | Some e \<Rightarrow>
          (let s = applyEvent e (countEvent env e s)
           in if maxSessions + 1000 < length (es_sessions s) then pruneSessions env maxSessions s else s))"

definition load :: "'a eventEnv \<Rightarrow> 'a eventStore \<Rightarrow> 'a eventStore" where
  "load env s =
     (let s = fold (load_line env) (es_file s) s
      in if maxSessions < length (es_sessions s) then pruneSessions env maxSessions s else s)"

text \<open>
  A start (\<open>NewWithRetention\<close>) on a log whose lines have the lengths \<open>sizes\<close>: the expired lines are removed,
  then the log is read. A line that is too long for the scanner is an error that ends the start. The
  compaction of logs past their storage budget is left out.
\<close>

definition openStore ::
  "'a eventEnv \<Rightarrow> nat list \<Rightarrow> gotime \<Rightarrow> 'a \<Rightarrow> domainStore \<Rightarrow> webEvent option list \<Rightarrow> 'a eventStore option" where
  "openStore env sizes cutoff actors domains lines =
     (if scannable sizes then Some (load env (empty_store actors domains (compactJSONL ev_at cutoff lines))) else None)"

section \<open>Queries\<close>

definition raw_target :: "string \<Rightarrow> string \<Rightarrow> string" where
  "raw_target target host = (if target = [] then host else target)"

definition filterMatches :: "'a eventEnv \<Rightarrow> 'a eventStore \<Rightarrow> string \<Rightarrow> string \<Rightarrow> bool" where
  "filterMatches env s raw flt = targetFilterMatches (en_lower env) (en_parse_ip env) (es_domains s) raw flt"

text \<open>The newest events first, at most \<open>limit\<close> when it is positive.\<close>

definition Events :: "'a eventEnv \<Rightarrow> int \<Rightarrow> string \<Rightarrow> 'a eventStore \<Rightarrow> webEvent list" where
  "Events env limit target0 s =
     (let target = TrimSpace target0;
          rows = List.filter (\<lambda>e. target = [] \<or> filterMatches env s (raw_target (eo_target (ev_origin e)) (eo_request_host (ev_origin e))) target)
                   (rev (es_events s))
      in take (if limit \<le> 0 then length (es_events s) else nat limit) rows)"

definition EventsView :: "'a eventEnv \<Rightarrow> int \<Rightarrow> string \<Rightarrow> 'a eventStore \<Rightarrow> webEvent list" where
  "EventsView env limit target s = map (decorateEvent env (es_domains s)) (Events env limit target s)"

definition session_rows ::
  "'a eventEnv \<Rightarrow> (webSession \<Rightarrow> bool) \<Rightarrow> int \<Rightarrow> string \<Rightarrow> 'a eventStore \<Rightarrow> webSession list" where
  "session_rows env keep limit target s =
     (let rows = List.filter (\<lambda>ss. (target = [] \<or> filterMatches env s (raw_target (so_target (ss_origin ss)) (so_request_host (ss_origin ss))) target)
                                \<and> keep ss) (map snd (es_sessions s))
      in limit_rows limit (sort_by (later_first ss_last_seen) (map (\<lambda>ss. ss\<lparr>ss_recent := []\<rparr>) rows)))"

definition Sessions :: "'a eventEnv \<Rightarrow> gotime \<Rightarrow> duration \<Rightarrow> int \<Rightarrow> string \<Rightarrow> 'a eventStore \<Rightarrow> webSession list" where
  "Sessions env now within limit target s =
     session_rows env (\<lambda>ss. \<not> (within > 0 \<and> time_sub now (ss_last_seen ss) > within)) limit target s"

definition History :: "'a eventEnv \<Rightarrow> gotime \<Rightarrow> duration \<Rightarrow> int \<Rightarrow> string \<Rightarrow> 'a eventStore \<Rightarrow> webSession list" where
  "History env now inactive limit target s =
     session_rows env (\<lambda>ss. \<not> (inactive > 0 \<and> time_sub now (ss_last_seen ss) \<le> inactive)) limit target s"

definition UnknownPaths :: "int \<Rightarrow> 'a eventStore \<Rightarrow> unknownPath list" where
  "UnknownPaths limit s = limit_rows limit (sort_by (more_recent un_count un_last) (map snd (es_unknown s)))"

definition ProbeStats :: "int \<Rightarrow> 'a eventStore \<Rightarrow> probeStat list" where
  "ProbeStats limit s = limit_rows limit (sort_by (more_recent ps_count ps_last) (map snd (es_probes s)))"

text \<open>The entries of a map, greater counts first and then by name.\<close>

definition rankedCounts :: "(string, int) gomap \<Rightarrow> int \<Rightarrow> (string \<times> int) list" where
  "rankedCounts m limit = limit_rows limit (sort_by count_before m)"

definition CatchAllOverview :: "int \<Rightarrow> 'a eventStore \<Rightarrow> int \<times> nat \<times> catchAllHost list \<times> (string \<times> int) list" where
  "CatchAllOverview limit s =
     (es_catch_total s, length (es_catch s), limit_rows limit (sort_by (more_recent ca_requests ca_last) (map snd (es_catch s))),
      rankedCounts (es_integrations s) 12)"

definition eventBelongsToVisit :: "webEvent \<Rightarrow> gotime \<Rightarrow> bool" where
  "eventBelongsToVisit e started \<longleftrightarrow>
     (if started = 0 then True
      else if vi_started (ev_visit e) \<noteq> 0 then vi_started (ev_visit e) = started
      else started \<le> ev_at e)"

definition currentVisitEventsFromDisk :: "string \<Rightarrow> gotime \<Rightarrow> int \<Rightarrow> 'a eventStore \<Rightarrow> webEvent list" where
  "currentVisitEventsFromDisk i started limit s =
     last_n (if limit \<le> 0 then 5000 else nat limit)
       (List.filter (\<lambda>e. ev_session e = i \<and> eventBelongsToVisit e started) (List.map_filter (\<lambda>x. x) (es_file s)))"

end
