(* ===== verification/EventStoreProofs.thy ===== *)
theory EventStoreProofs
  imports EventStore TrustedDomainsProofs
begin

text \<open>
  Properties of the event store: its tables stay bounded whatever is recorded, the totals agree,
  a restart rebuilds every counter from the log, pruning keeps the sessions seen last, and a
  reader of the live feed never misses a message without being told.
\<close>

section \<open>Operations as a sequence\<close>

datatype storeOp =
    OpEvent "bool option" webEvent
  | OpUpsert webSession string
  | OpSubscribe
  | OpCancel nat
  | OpTake nat

fun store_step :: "'a eventEnv \<Rightarrow> storeOp \<Rightarrow> 'a eventStore \<Rightarrow> 'a eventStore" where
  "store_step env (OpEvent log e) s = fst (AddEvent env log e s)"
| "store_step env (OpUpsert ss fp) s = UpsertSession env ss fp s"
| "store_step env OpSubscribe s = fst (SubscribeRealtime s)"
| "store_step env (OpCancel i) s = cancelRealtime i s"
| "store_step env (OpTake i) s = takeRealtime i s"

definition store_run :: "'a eventEnv \<Rightarrow> storeOp list \<Rightarrow> 'a eventStore \<Rightarrow> 'a eventStore" where
  "store_run env ops s = fold (store_step env) ops s"

section \<open>The counters do not depend on the rest\<close>

text \<open>The part of the store that \<open>countEvent\<close> fills, without the actors.\<close>

definition tallies :: "'a eventStore \<Rightarrow> unit eventStore" where
  "tallies s =
     \<lparr>es_sessions = [], es_fingerprints = [], es_events = es_events s, es_paths = es_paths s, es_days = es_days s,
      es_targets = es_targets s, es_hosts = es_hosts s, es_unknown = es_unknown s, es_probes = es_probes s, es_catch = es_catch s,
      es_integrations = es_integrations s, es_catch_total = es_catch_total s, es_total = es_total s, es_hours = es_hours s,
      es_daily = es_daily s, es_actors = (), es_subs = [], es_rejected = 0, es_domains = \<lparr>ds_manual = [], ds_file = None\<rparr>, es_file = []\<rparr>"

lemma tallies_cong:
  assumes "tallies s = tallies t"
  shows "es_events s = es_events t" "es_paths s = es_paths t" "es_days s = es_days t" "es_targets s = es_targets t"
    "es_hosts s = es_hosts t" "es_unknown s = es_unknown t" "es_probes s = es_probes t" "es_catch s = es_catch t"
    "es_integrations s = es_integrations t" "es_catch_total s = es_catch_total t" "es_total s = es_total t"
    "es_hours s = es_hours t" "es_daily s = es_daily t"
  using assms by (simp_all add: tallies_def)

lemmas count_defs = countHTTPActivity_def countIPDailyActivity_def pushEvent_def countPath_def countDay_def
  countTarget_def countRequestHost_def countUnknown_def countProbe_def countCatchAll_def actorEvent_def

lemma tallies_step:
  assumes "tallies s = tallies t"
  shows "tallies (countHTTPActivity env e s) = tallies (countHTTPActivity env e t)"
    "tallies (pushEvent e s) = tallies (pushEvent e t)"
    "tallies (countPath env path s) = tallies (countPath env path t)"
    "tallies (countDay env e s) = tallies (countDay env e t)"
    "tallies (countTarget env target s) = tallies (countTarget env target t)"
    "tallies (countRequestHost env e s) = tallies (countRequestHost env e t)"
    "tallies (countUnknown env e s) = tallies (countUnknown env e t)"
    "tallies (countProbe env e s) = tallies (countProbe env e t)"
    "tallies (countCatchAll env e s) = tallies (countCatchAll env e t)"
    "tallies (actorEvent env e s) = tallies (actorEvent env e t)"
  using tallies_cong [OF assms]
  by (simp_all add: count_defs tallies_def Let_def)

lemma tallies_count: "tallies s = tallies t \<Longrightarrow> tallies (countEvent env e s) = tallies (countEvent env e t)"
  unfolding countEvent_def Let_def by (intro tallies_step)

lemma tallies_other [simp]:
  "tallies (write_log env log e s) = tallies s" "tallies (publishRealtime msg at s) = tallies s"
  "tallies (fst (SubscribeRealtime s)) = tallies s" "tallies (cancelRealtime i s) = tallies s"
  "tallies (takeRealtime i s) = tallies s" "tallies (applyEvent e s) = tallies s"
  "tallies (pruneSessions env n s) = tallies s" "tallies (UpsertSession env ss fp s) = tallies s"
  by (simp_all add: tallies_def write_log_def publishRealtime_def SubscribeRealtime_def cancelRealtime_def takeRealtime_def
      applyEvent_def pruneSessions_def UpsertSession_def Let_def)

lemma file_parts [simp]:
  "es_file (countHTTPActivity env e s) = es_file s" "es_file (pushEvent e s) = es_file s"
  "es_file (countPath env path s) = es_file s" "es_file (countDay env e s) = es_file s"
  "es_file (countTarget env target s) = es_file s" "es_file (countRequestHost env e s) = es_file s"
  "es_file (countUnknown env e s) = es_file s" "es_file (countProbe env e s) = es_file s"
  "es_file (countCatchAll env e s) = es_file s" "es_file (actorEvent env e s) = es_file s"
  by (simp_all add: count_defs Let_def)

lemma file_count [simp]: "es_file (countEvent env e s) = es_file s"
  by (simp add: countEvent_def Let_def)

lemma file_other [simp]:
  "es_file (publishRealtime msg at s) = es_file s"
  "es_file (fst (SubscribeRealtime s)) = es_file s" "es_file (cancelRealtime i s) = es_file s"
  "es_file (takeRealtime i s) = es_file s" "es_file (pruneSessions env n s) = es_file s"
  "es_file (UpsertSession env ss fp s) = es_file s" "es_file (applyEvent e s) = es_file s"
  by (simp_all add: publishRealtime_def SubscribeRealtime_def cancelRealtime_def takeRealtime_def pruneSessions_def
      UpsertSession_def applyEvent_def Let_def)

definition op_logged :: "'a eventEnv \<Rightarrow> storeOp \<Rightarrow> webEvent option list" where
  "op_logged env op = (case op of OpEvent log e \<Rightarrow> if log = Some True then [Some (json_event env e)] else [] | _ \<Rightarrow> [])"

text \<open>The events that are taken in, as they are and as the log keeps them.\<close>

definition op_taken :: "storeOp \<Rightarrow> webEvent option list" where
  "op_taken op = (case op of OpEvent log e \<Rightarrow> if log = Some True then [Some e] else [] | _ \<Rightarrow> [])"

definition as_logged :: "'a eventEnv \<Rightarrow> storeOp \<Rightarrow> storeOp" where
  "as_logged env op = (case op of OpEvent log e \<Rightarrow> OpEvent log (json_event env e) | _ \<Rightarrow> op)"

lemma taken_as_logged [simp]: "op_taken (as_logged env op) = op_logged env op"
  by (simp add: op_taken_def op_logged_def as_logged_def split: storeOp.split)

text \<open>Nothing is counted without being logged: a file is open.\<close>

definition logging :: "storeOp \<Rightarrow> bool" where
  "logging op = (case op of OpEvent log e \<Rightarrow> log \<noteq> None | _ \<Rightarrow> True)"

lemma logging_as_logged [simp]: "logging (as_logged env op) = logging op"
  by (simp add: logging_def as_logged_def split: storeOp.split)

lemma file_write [simp]: "es_file (write_log env log e s) = es_file s @ (if log = Some True then [Some (json_event env e)] else [])"
  by (simp add: write_log_def)

lemma AddEvent_state:
  "fst (AddEvent env log e s) =
     (if log = Some False then s
      else publishRealtime (WebMessage (ev_at e) (decorateEvent env (es_domains (countEvent env e (write_log env log e s))) e)
             (map_option (\<lambda>ss. (decorateSession env (es_domains (countEvent env e (write_log env log e s))) ss)\<lparr>ss_recent := []\<rparr>)
                (map_of (es_sessions (countEvent env e (write_log env log e s))) (ev_session e)))) (ev_at e)
             (countEvent env e (write_log env log e s)))"
  by (simp only: AddEvent_def Let_def if_distrib [of fst] fst_conv)

lemma step_file: "es_file (store_step env op s) = es_file s @ op_logged env op"
proof (cases op)
  case (OpEvent log e)
  show ?thesis unfolding OpEvent store_step.simps AddEvent_state if_distrib [of es_file]
    by (simp add: op_logged_def)
qed (simp_all add: op_logged_def)

definition count_line :: "'a eventEnv \<Rightarrow> webEvent option \<Rightarrow> 'a eventStore \<Rightarrow> 'a eventStore" where
  "count_line env line s = (case line of None \<Rightarrow> s | Some e \<Rightarrow> countEvent env e s)"

lemma step_tallies:
  assumes "logging op"
  shows "tallies (store_step env op s) = tallies (fold (count_line env) (op_taken op) s)"
proof (cases op)
  case (OpEvent log e)
  have "tallies (countEvent env e (write_log env l e s)) = tallies (countEvent env e s)" for l by (rule tallies_count) simp
  moreover have "log \<noteq> None" using assms by (simp add: OpEvent logging_def)
  ultimately show ?thesis
    unfolding OpEvent store_step.simps AddEvent_state if_distrib [of tallies] tallies_other
    by (cases log) (simp_all add: op_taken_def count_line_def)
qed (simp_all add: op_taken_def)

lemma tallies_line: "tallies s = tallies t \<Longrightarrow> tallies (count_line env l s) = tallies (count_line env l t)"
  using tallies_count [of s t env] by (cases l) (simp_all add: count_line_def)

lemma tallies_lines: "tallies s = tallies t \<Longrightarrow> tallies (fold (count_line env) ls s) = tallies (fold (count_line env) ls t)"
proof (induction ls arbitrary: s t)
  case (Cons l ls)
  show ?case using Cons.IH [OF tallies_line [OF Cons.prems]] by simp
qed simp

lemma run_tallies:
  "\<forall>op \<in> set ops. logging op \<Longrightarrow>
     tallies (store_run env ops s) = tallies (fold (count_line env) (concat (map op_taken ops)) s)"
proof (induction ops arbitrary: s)
  case (Cons op ops)
  have "tallies (store_run env (op # ops) s) = tallies (store_run env ops (store_step env op s))" by (simp add: store_run_def)
  also have "\<dots> = tallies (fold (count_line env) (concat (map op_taken ops)) (store_step env op s))" using Cons by simp
  also have "\<dots> = tallies (fold (count_line env) (concat (map op_taken ops)) (fold (count_line env) (op_taken op) s))"
    using Cons.prems by (intro tallies_lines step_tallies) simp
  finally show ?case by simp
qed (simp add: store_run_def)

lemma run_file: "es_file (store_run env ops s) = es_file s @ concat (map (op_logged env) ops)"
  by (induction ops arbitrary: s) (auto simp: store_run_def step_file)

lemma load_tallies_fold: "tallies (fold (load_line env) ls s) = tallies (fold (count_line env) ls s)"
proof (induction ls rule: rev_induct)
  case (snoc l ls)
  then show ?case by (auto simp: load_line_def count_line_def Let_def intro: tallies_count split: option.split)
qed simp

lemma load_tallies: "tallies (load env s) = tallies (fold (count_line env) (es_file s) s)"
  by (simp add: load_def Let_def load_tallies_fold)

lemma load_file: "es_file (load env s) = es_file s"
proof -
  have "es_file (fold (load_line env) ls s) = es_file s" for ls
    by (induction ls rule: rev_induct) (simp_all add: load_line_def Let_def split: option.split)
  then show ?thesis by (simp add: load_def Let_def)
qed

section \<open>What the log keeps of an event\<close>

text \<open>Every text of an event but those of its claim to be a bot.\<close>

definition event_texts :: "webEvent \<Rightarrow> string list" where
  "event_texts e =
     (let og = ev_origin e; sc = ev_scoring e in
      [ev_id e, ev_session e, ev_ip e, ev_method e, ev_path e, ev_category e, ev_message e, ev_agent e,
       eo_ip_source og, eo_proxy og, eo_country og, eo_country_source og, eo_cf_ray og, eo_cf_colo og, eo_referrer og, eo_referrer_host og,
       eo_request_host og, eo_target og, eo_target_trust og, eo_origin og, eo_language og, eo_protocol og, eo_integration og,
       eo_integration_trust og, vi_first_path (ev_visit e), pr_name (ev_probe e), pr_product (ev_probe e), pr_cve (ev_probe e),
       sc_class sc, sc_actor sc, sc_confidence sc, sc_persona sc, st_name (ev_story e), st_confidence (ev_story e),
       gq_sha (ev_graphql e), gq_operation (ev_graphql e), gq_name (ev_graphql e)] @ gq_fields (ev_graphql e))"

text \<open>An event comes back as it was when its texts are UTF-8 and its user agent supports what it claims to be.\<close>

definition kept_whole :: "'a eventEnv \<Rightarrow> webEvent \<Rightarrow> bool" where
  "kept_whole env e \<longleftrightarrow> list_all valid_utf8 (event_texts e @ [bc_provider (ev_bot e), bc_name (ev_bot e)])
     \<and> (ev_bot e = no_bot \<or> botIdentityMatchesUserAgent (en_lower env) (ev_agent e) (bc_provider (ev_bot e)) (bc_name (ev_bot e)))"

lemma json_texts_same: "list_all valid_utf8 ss \<Longrightarrow> map json_text ss = ss"
  by (induction ss) (simp_all add: json_text_same)

lemma sanitize_same:
  "ev_bot e = no_bot \<or> botIdentityMatchesUserAgent uni agent (bc_provider (ev_bot e)) (bc_name (ev_bot e))
   \<Longrightarrow> sanitizeBotIdentity uni agent (ev_bot e) = ev_bot e"
  by (auto simp: sanitizeBotIdentity_def no_bot_def)

lemma json_event_same: "kept_whole env e \<Longrightarrow> json_event env e = e"
  unfolding kept_whole_def event_texts_def Let_def
  by (simp add: json_event_def json_origin_def json_scoring_def json_bot_def json_text_same json_texts_same sanitize_same)

lemma as_logged_same: "(\<And>log e. op = OpEvent log e \<Longrightarrow> kept_whole env e) \<Longrightarrow> as_logged env op = op"
  by (cases op) (simp_all add: as_logged_def json_event_same)

lemma count_compacted:
  "\<forall>e. Some e \<in> set ls \<longrightarrow> ev_at e \<noteq> 0 \<and> cutoff \<le> ev_at e \<Longrightarrow>
     fold (count_line env) (compactJSONL ev_at cutoff ls) s = fold (count_line env) ls s"
  by (induction ls arbitrary: s) (auto simp: compactJSONL_def count_line_def split: option.splits)


section \<open>Bounds\<close>

text \<open>A map whose keys past the limit are counted under one other name.\<close>

definition capped :: "string \<Rightarrow> (string, 'v) gomap \<Rightarrow> bool" where
  "capped other m \<longleftrightarrow> length m \<le> maxPathKeys + (if has_key m other then 1 else 0)"

lemma capped_update:
  assumes "capped other m"
  shows "capped other (AList.update (cap_key other m k) v m)"
  using assms by (auto simp: capped_def cap_key_def length_update gomap)

lemma capped_size: "capped other m \<Longrightarrow> length m \<le> 5001"
  by (auto simp: capped_def maxPathKeys_def split: if_splits)

definition counters_ok :: "'a eventStore \<Rightarrow> bool" where
  "counters_ok s \<longleftrightarrow> length (es_events s) \<le> 5000 \<and> capped ''(other unique paths)'' (es_paths s)
     \<and> capped ''(other request hosts)'' (es_hosts s) \<and> capped ''(other catch-all hosts)'' (es_catch s)
     \<and> (\<forall>(k, row) \<in> set (es_hosts s). length (rh_sources row) \<le> 256)"

lemma counters_ok_tallies: "tallies s = tallies t \<Longrightarrow> counters_ok s = counters_ok t"
  using tallies_cong [of s t] by (simp add: counters_ok_def)

lemma counters_ok_other [simp]:
  "counters_ok (write_log env log e s) = counters_ok s" "counters_ok (publishRealtime msg at s) = counters_ok s"
  "counters_ok (fst (SubscribeRealtime s)) = counters_ok s" "counters_ok (cancelRealtime i s) = counters_ok s"
  "counters_ok (takeRealtime i s) = counters_ok s" "counters_ok (UpsertSession env ss fp s) = counters_ok s"
  by (rule counters_ok_tallies, simp)+

lemma add_source_bound: "length sources \<le> 256 \<Longrightarrow> length (add_source ip sources) \<le> 256"
  by (simp add: add_source_def)

lemma update_Ball:
  "\<forall>(k, row) \<in> set m. P row \<Longrightarrow> P v \<Longrightarrow> \<forall>(k, row) \<in> set (AList.update j v m). P row"
  using set_update [of j v m] by fastforce

lemma lookup_Ball: "\<forall>(k, row) \<in> set m. P row \<Longrightarrow> P d \<Longrightarrow> P (lookup_or d m j)"
  by (auto simp: lookup_or_def split: option.split dest: map_of_SomeD)

lemma host_counters_ok:
  assumes "counters_ok s"
  shows "counters_ok (countRequestHost env e s)"
proof -
  let ?P = "\<lambda>row. length (rh_sources row) \<le> 256"
  have rows: "\<forall>(k, row) \<in> set (es_hosts s). ?P row" using assms by (simp add: counters_ok_def)
  have "?P (lookup_or (new_host e) (es_hosts s) k)" for k
    by (rule lookup_Ball [OF rows]) (simp add: new_host_def)
  then have "?P (host_seen e (lookup_or (new_host e) (es_hosts s) k))" for k
    using add_source_bound by (simp add: host_seen_def)
  then have "\<forall>(j, row) \<in> set (AList.update k (host_seen e (lookup_or (new_host e) (es_hosts s) k)) (es_hosts s)). ?P row" for k
    by (intro update_Ball [where P = ?P] rows)
  then show ?thesis
    using assms capped_update [of "''(other request hosts)''" "es_hosts s"]
    by (simp add: countRequestHost_def Let_def counters_ok_def)
qed

lemma catch_counters_ok: "counters_ok s \<Longrightarrow> counters_ok (countCatchAll env e s)"
  using capped_update [of "''(other catch-all hosts)''" "es_catch s"]
  by (simp add: countCatchAll_def Let_def counters_ok_def)

lemma path_counters_ok: "counters_ok s \<Longrightarrow> counters_ok (countPath env path s)"
  using capped_update [of "''(other unique paths)''" "es_paths s"]
  by (simp add: countPath_def incr_def counters_ok_def)

lemma other_counters_ok:
  "counters_ok s \<Longrightarrow> counters_ok (countHTTPActivity env e s)"
  "counters_ok s \<Longrightarrow> counters_ok (pushEvent e s)"
  "counters_ok s \<Longrightarrow> counters_ok (countDay env e s)"
  "counters_ok s \<Longrightarrow> counters_ok (countTarget env target s)"
  "counters_ok s \<Longrightarrow> counters_ok (countUnknown env e s)"
  "counters_ok s \<Longrightarrow> counters_ok (countProbe env e s)"
  "counters_ok s \<Longrightarrow> counters_ok (actorEvent env e s)"
  unfolding count_defs Let_def counters_ok_def by (simp_all add: push_last_length maxRing_def)

lemma count_counters_ok: "counters_ok s \<Longrightarrow> counters_ok (countEvent env e s)"
  unfolding countEvent_def Let_def
  by (intro other_counters_ok host_counters_ok catch_counters_ok path_counters_ok)

lemma line_counters_ok: "counters_ok s \<Longrightarrow> counters_ok (count_line env l s)"
  by (cases l) (simp_all add: count_line_def count_counters_ok)

lemma lines_counters_ok: "counters_ok s \<Longrightarrow> counters_ok (fold (count_line env) ls s)"
  by (induction ls arbitrary: s) (simp_all add: line_counters_ok)

lemma step_counters_ok: "counters_ok s \<Longrightarrow> counters_ok (store_step env op s)"
proof (cases op)
  case (OpEvent log e)
  assume ok: "counters_ok s"
  then have "counters_ok (countEvent env e (write_log env log e s))" by (simp add: count_counters_ok)
  then show ?thesis using ok unfolding OpEvent store_step.simps AddEvent_state by simp
qed simp_all

section \<open>Pruning\<close>

lemma dead_sessions_facts:
  assumes "map_wf m" "target \<le> length m"
  shows "distinct (dead_sessions target m)" "length (dead_sessions target m) = length m - target"
    "set (dead_sessions target m) \<subseteq> fst ` set m"
proof -
  let ?rows = "sort_by (earlier_first (\<lambda>p. ss_last_seen (snd p))) m"
  have "distinct (map fst ?rows)" using assms(1) by (simp add: map_wf_def)
  then show "distinct (dead_sessions target m)" by (simp add: dead_sessions_def take_map [symmetric])
  show "length (dead_sessions target m) = length m - target" by (simp add: dead_sessions_def)
  have "set (take n ?rows) \<subseteq> set m" for n using set_take_subset [of n ?rows] by simp
  then show "set (dead_sessions target m) \<subseteq> fst ` set m" unfolding dead_sessions_def by auto
qed

lemma filter_not_dead:
  assumes "map_wf m" "distinct dead" "set dead \<subseteq> fst ` set m"
  shows "length (List.filter (\<lambda>p. fst p \<notin> set dead) m) = length m - length dead"
proof -
  have "card (fst ` set (List.filter (\<lambda>p. fst p \<notin> set dead) m)) = length (List.filter (\<lambda>p. fst p \<notin> set dead) m)"
    using assms(1) distinct_card [of "map fst (List.filter (\<lambda>p. fst p \<notin> set dead) m)"]
    by (simp add: map_wf_def distinct_map_filter)
  moreover have "fst ` set (List.filter (\<lambda>p. fst p \<notin> set dead) m) = fst ` set m - set dead" by force
  moreover have "card (fst ` set m - set dead) = card (fst ` set m) - card (set dead)" using assms(3) by (simp add: card_Diff_subset)
  moreover have "card (fst ` set m) = length m" using assms(1) distinct_card [of "map fst m"] by (simp add: map_wf_def)
  ultimately show ?thesis using assms(2) by (simp add: distinct_card)
qed

lemma prune_size:
  assumes "map_wf (es_sessions s)" "target \<le> length (es_sessions s)"
  shows "length (es_sessions (pruneSessions env target s)) = target"
  using filter_not_dead [OF assms(1) dead_sessions_facts(1) [OF assms] dead_sessions_facts(3) [OF assms]] assms(2)
    dead_sessions_facts(2) [OF assms]
  by (auto simp: pruneSessions_def Let_def)

lemma prune_wf: "map_wf (es_sessions s) \<Longrightarrow> map_wf (es_sessions (pruneSessions env target s))"
  by (simp add: pruneSessions_def Let_def)

text \<open>Pruning leaves exactly the wanted number of sessions, each seen no earlier than any that it
  removes, and no fingerprint that leads to a removed one.\<close>

lemma prune_keeps_recent:
  assumes "map_wf (es_sessions s)" "target < length (es_sessions s)" "s' = pruneSessions env target s"
  shows "length (es_sessions s') = target
    \<and> (\<forall>(i, ss) \<in> set (es_sessions s'). (i, ss) \<in> set (es_sessions s)
         \<and> (\<forall>(j, gone) \<in> set (es_sessions s) - set (es_sessions s'). ss_last_seen gone \<le> ss_last_seen ss))
    \<and> (\<forall>(fp, i) \<in> set (es_fingerprints s'). has_key (es_sessions s) i \<longrightarrow> has_key (es_sessions s') i)"
proof -
  let ?m = "es_sessions s" and ?le = "earlier_first (\<lambda>p :: string \<times> webSession. ss_last_seen (snd p))"
  let ?n = "length ?m - target"
  let ?dead = "dead_sessions target ?m"
  have s': "es_sessions s' = List.filter (\<lambda>p. fst p \<notin> set ?dead) ?m" "es_fingerprints s' = List.filter (\<lambda>p. snd p \<notin> set ?dead) (es_fingerprints s)"
    using assms(2) by (simp_all add: assms(3) pruneSessions_def Let_def)
  have dead: "set ?dead = fst ` set (take ?n (sort_by ?le ?m))" by (simp add: dead_sessions_def)
  have size: "length (es_sessions s') = target" using prune_size [OF assms(1)] assms(2,3) by simp
  have first: "ss_last_seen gone \<le> ss_last_seen ss"
    if "(i, ss) \<in> set (es_sessions s')" "(j, gone) \<in> set ?m" "(j, gone) \<notin> set (es_sessions s')" for i ss j gone
  proof -
    have "j \<in> set ?dead" "i \<notin> set ?dead" "(i, ss) \<in> set ?m" using that by (auto simp: s')
    then obtain gone' where g: "(j, gone') \<in> set (take ?n (sort_by ?le ?m))" by (auto simp: dead)
    then have "(j, gone') \<in> set ?m" using set_take_subset [of ?n "sort_by ?le ?m"] by auto
    then have "gone' = gone" using assms(1) that(2) by (auto simp: map_wf_def dest: eq_key_imp_eq_value)
    have "set (sort_by ?le ?m) = set (take ?n (sort_by ?le ?m)) \<union> set (drop ?n (sort_by ?le ?m))"
      by (metis append_take_drop_id set_append)
    moreover have "(i, ss) \<notin> set (take ?n (sort_by ?le ?m))" using \<open>i \<notin> set ?dead\<close> by (force simp: dead)
    ultimately have "(i, ss) \<in> set (drop ?n (sort_by ?le ?m))" using \<open>(i, ss) \<in> set ?m\<close> by auto
    with g have "?le (j, gone') (i, ss)" by (rule earlier_rows.take_first)
    then show ?thesis by (simp add: earlier_first_def \<open>gone' = gone\<close>)
  qed
  have prints: "has_key (es_sessions s') i" if "(fp, i) \<in> set (es_fingerprints s')" "has_key ?m i" for fp i
    using that by (force simp: s' has_key_iff)
  show ?thesis using size first prints by (auto simp: s')
qed

section \<open>The bounds of the whole store\<close>

definition store_ok :: "'a eventStore \<Rightarrow> bool" where
  "store_ok s \<longleftrightarrow> counters_ok s \<and> map_wf (es_sessions s) \<and> length (es_sessions s) \<le> 10000
     \<and> length (es_subs s) \<le> 24 \<and> (\<forall>sub \<in> set (es_subs s). length (su_queue sub) \<le> 128)"

lemma parts_keep [simp]:
  "es_sessions (countHTTPActivity env e s) = es_sessions s" "es_subs (countHTTPActivity env e s) = es_subs s" "es_fingerprints (countHTTPActivity env e s) = es_fingerprints s"
  "es_sessions (pushEvent e s) = es_sessions s" "es_subs (pushEvent e s) = es_subs s" "es_fingerprints (pushEvent e s) = es_fingerprints s"
  "es_sessions (countPath env path s) = es_sessions s" "es_subs (countPath env path s) = es_subs s" "es_fingerprints (countPath env path s) = es_fingerprints s"
  "es_sessions (countDay env e s) = es_sessions s" "es_subs (countDay env e s) = es_subs s" "es_fingerprints (countDay env e s) = es_fingerprints s"
  "es_sessions (countTarget env target s) = es_sessions s" "es_subs (countTarget env target s) = es_subs s" "es_fingerprints (countTarget env target s) = es_fingerprints s"
  "es_sessions (countRequestHost env e s) = es_sessions s" "es_subs (countRequestHost env e s) = es_subs s" "es_fingerprints (countRequestHost env e s) = es_fingerprints s"
  "es_sessions (countUnknown env e s) = es_sessions s" "es_subs (countUnknown env e s) = es_subs s" "es_fingerprints (countUnknown env e s) = es_fingerprints s"
  "es_sessions (countProbe env e s) = es_sessions s" "es_subs (countProbe env e s) = es_subs s" "es_fingerprints (countProbe env e s) = es_fingerprints s"
  "es_sessions (countCatchAll env e s) = es_sessions s" "es_subs (countCatchAll env e s) = es_subs s" "es_fingerprints (countCatchAll env e s) = es_fingerprints s"
  "es_sessions (actorEvent env e s) = es_sessions s" "es_subs (actorEvent env e s) = es_subs s" "es_fingerprints (actorEvent env e s) = es_fingerprints s"
  by (simp_all add: count_defs Let_def)

lemma count_keeps [simp]:
  "es_sessions (countEvent env e s) = es_sessions s" "es_subs (countEvent env e s) = es_subs s"
  "es_fingerprints (countEvent env e s) = es_fingerprints s"
  by (simp_all add: countEvent_def Let_def)

lemma write_keeps [simp]:
  "es_sessions (write_log env log e s) = es_sessions s" "es_subs (write_log env log e s) = es_subs s"
  by (simp_all add: write_log_def)

lemma offer_bound: "length (su_queue sub) \<le> 128 \<Longrightarrow> length (su_queue (offer msg at sub)) \<le> 128"
  by (simp add: offer_def)

lemma upsert_bound:
  assumes "map_wf (es_sessions s)" "length (es_sessions s) \<le> 10000"
  shows "map_wf (es_sessions (UpsertSession env ss fp s)) \<and> length (es_sessions (UpsertSession env ss fp s)) \<le> 10000"
proof -
  let ?s = "s\<lparr>es_sessions := AList.update (ss_id ss) ss (es_sessions s),
                es_fingerprints := (if fp \<noteq> [] then AList.update fp (ss_id ss) (es_fingerprints s) else es_fingerprints s)\<rparr>"
  have wf: "map_wf (es_sessions ?s)" using assms(1) by simp
  have eq: "UpsertSession env ss fp s = (if \<not> has_key (es_sessions s) (ss_id ss) \<and> maxSessions < length (es_sessions ?s)
      then pruneSessions env 9000 ?s else ?s)"
    by (simp add: UpsertSession_def Let_def maxSessions_def)
  have "maxSessions < length (es_sessions ?s) \<Longrightarrow> length (es_sessions (pruneSessions env 9000 ?s)) = 9000"
    using wf by (intro prune_size) (simp_all add: maxSessions_def)
  then show ?thesis unfolding eq using wf prune_wf [OF wf] assms(2)
    by (auto simp: maxSessions_def length_update simp del: eventStore.simps split: if_splits)
qed

lemma upsert_subs [simp]: "es_subs (UpsertSession env ss fp s) = es_subs s"
  by (simp add: UpsertSession_def pruneSessions_def Let_def)

lemma step_store_ok: "store_ok s \<Longrightarrow> store_ok (store_step env op s)"
proof (cases op)
  case (OpEvent log e)
  assume ok: "store_ok s"
  then have "counters_ok (store_step env op s)" using step_counters_ok [of s env op] by (simp add: store_ok_def)
  then show ?thesis using ok offer_bound
    unfolding OpEvent store_step.simps AddEvent_state store_ok_def by (auto simp: publishRealtime_def)
next
  case (OpUpsert ss fp)
  assume "store_ok s"
  then show ?thesis using upsert_bound [of s env ss fp] by (simp add: OpUpsert store_ok_def)
next
  case OpSubscribe
  assume "store_ok s"
  moreover have "counters_ok (fst (SubscribeRealtime s)) = counters_ok s" by simp
  ultimately show ?thesis
    unfolding OpSubscribe store_step.simps store_ok_def
    by (auto simp: SubscribeRealtime_def maxRealtimeSubscribers_def counters_ok_def)
next
  case (OpCancel i)
  assume "store_ok s"
  then show ?thesis
    by (auto simp: OpCancel store_ok_def cancelRealtime_def counters_ok_def dest: in_set_takeD in_set_dropD)
next
  case (OpTake i)
  assume ok: "store_ok s"
  have queues: "\<forall>sub \<in> set (es_subs s). length (su_queue sub) \<le> 128" using ok by (simp add: store_ok_def)
  have "length (su_queue sub) \<le> 128" if sub: "sub \<in> set (es_subs (takeRealtime i s))" for sub
  proof (cases "i < length (es_subs s)")
    case True
    let ?q = "(es_subs s ! i)\<lparr>su_queue := tl (su_queue (es_subs s ! i))\<rparr>"
    have "length (su_queue (es_subs s ! i)) \<le> 128" using queues True by (meson nth_mem)
    then have "length (su_queue ?q) \<le> 128" by simp
    moreover have "sub = ?q \<or> sub \<in> set (es_subs s)"
      using sub True set_update_subset_insert [of "es_subs s" i ?q] by (auto simp: takeRealtime_def)
    ultimately show ?thesis using queues by blast
  qed (use sub queues in \<open>simp add: takeRealtime_def\<close>)
  then show ?thesis using ok by (simp add: OpTake store_ok_def takeRealtime_def counters_ok_def)
qed

lemma apply_wf: "map_wf (es_sessions s) \<Longrightarrow> map_wf (es_sessions (applyEvent e s))"
  by (simp add: applyEvent_def)

lemma apply_length: "length (es_sessions (applyEvent e s)) \<le> Suc (length (es_sessions s))"
  by (simp add: applyEvent_def length_update)

lemma load_line_ok:
  assumes "map_wf (es_sessions s)" "length (es_sessions s) \<le> 11000"
  shows "map_wf (es_sessions (load_line env l s)) \<and> length (es_sessions (load_line env l s)) \<le> 11000"
proof (cases l)
  case (Some e)
  let ?s = "applyEvent e (countEvent env e s)"
  have wf: "map_wf (es_sessions ?s)" using assms(1) by (intro apply_wf) simp
  have "length (es_sessions ?s) \<le> 11001" using apply_length [of e "countEvent env e s"] assms(2) by simp
  moreover have "11000 < length (es_sessions ?s) \<Longrightarrow> length (es_sessions (pruneSessions env 10000 ?s)) = 10000"
    using wf by (intro prune_size) simp_all
  ultimately show ?thesis using wf prune_wf [OF wf] by (simp add: Some load_line_def Let_def maxSessions_def)
qed (use assms in \<open>simp add: load_line_def\<close>)

lemma load_lines_ok:
  "map_wf (es_sessions s) \<Longrightarrow> length (es_sessions s) \<le> 11000 \<Longrightarrow>
     map_wf (es_sessions (fold (load_line env) ls s)) \<and> length (es_sessions (fold (load_line env) ls s)) \<le> 11000"
proof (induction ls arbitrary: s)
  case (Cons l ls)
  show ?case using Cons.IH [of "load_line env l s"] load_line_ok [OF Cons.prems, of env l] by simp
qed simp

lemma empty_counters_ok: "counters_ok (empty_store a ds ls)"
  by (simp add: counters_ok_def empty_store_def capped_def)

lemma prune_subs [simp]: "es_subs (pruneSessions env n s) = es_subs s"
  by (simp add: pruneSessions_def Let_def)

lemma load_line_subs [simp]: "es_subs (load_line env l s) = es_subs s"
  by (cases l) (simp_all add: load_line_def Let_def applyEvent_def)

lemma load_subs: "es_subs (load env s) = es_subs s"
proof -
  have "es_subs (fold (load_line env) ls s) = es_subs s" for ls by (induction ls arbitrary: s) simp_all
  then show ?thesis by (simp add: load_def Let_def)
qed

lemma load_store_ok: "store_ok (load env (empty_store a ds ls))"
proof -
  let ?e = "empty_store a ds ls"
  let ?f = "fold (load_line env) ls ?e"
  have "counters_ok (load env ?e) = counters_ok (fold (count_line env) (es_file ?e) ?e)"
    by (rule counters_ok_tallies [OF load_tallies])
  then have "counters_ok (load env ?e)" 
    using lines_counters_ok [OF empty_counters_ok, of env "es_file ?e" a ds ls] by simp
  moreover have f: "map_wf (es_sessions ?f) \<and> length (es_sessions ?f) \<le> 11000"
    by (rule load_lines_ok) (simp_all add: empty_store_def)
  moreover have "10000 < length (es_sessions ?f) \<Longrightarrow> length (es_sessions (pruneSessions env 10000 ?f)) = 10000"
    using f by (intro prune_size) simp_all
  moreover have "load env ?e = (if 10000 < length (es_sessions ?f) then pruneSessions env 10000 ?f else ?f)"
    by (simp add: load_def Let_def maxSessions_def) (simp add: empty_store_def)
  moreover have "es_subs (load env ?e) = []" by (simp add: load_subs) (simp add: empty_store_def)
  ultimately show ?thesis using prune_wf [of ?f env 10000] unfolding store_ok_def by (auto split: if_splits)
qed

lemma run_store_ok: "store_ok s \<Longrightarrow> store_ok (store_run env ops s)"
  unfolding store_run_def
proof (induction ops arbitrary: s)
  case (Cons op ops)
  show ?case using Cons.IH [OF step_store_ok [OF Cons.prems]] by simp
qed simp

text \<open>C24: from any log and through any recording, subscribing and reading, the store keeps at most
  5000 events, 5001 paths, request hosts and catch-all hosts, 256 sources of a host, 10000 sessions
  and 24 subscribers with 128 waiting messages each. (The other tables, of targets, unknown paths,
  probes, integrations and fingerprints, have no such bound.)\<close>

theorem store_bounded:
  assumes "s = store_run env ops (load env (empty_store a ds ls))"
  shows "length (es_events s) \<le> 5000 \<and> length (es_paths s) \<le> 5001 \<and> length (es_hosts s) \<le> 5001 \<and> length (es_catch s) \<le> 5001
    \<and> (\<forall>(k, row) \<in> set (es_hosts s). length (rh_sources row) \<le> 256)
    \<and> length (es_sessions s) \<le> 10000 \<and> length (es_subs s) \<le> 24 \<and> (\<forall>sub \<in> set (es_subs s). length (su_queue sub) \<le> 128)"
proof -
  have ok: "store_ok s" unfolding assms by (rule run_store_ok [OF load_store_ok])
  then have "capped ''(other unique paths)'' (es_paths s)" "capped ''(other request hosts)'' (es_hosts s)"
    "capped ''(other catch-all hosts)'' (es_catch s)"
    by (simp_all add: store_ok_def counters_ok_def)
  then have "length (es_paths s) \<le> 5001 \<and> length (es_hosts s) \<le> 5001 \<and> length (es_catch s) \<le> 5001" by (simp add: capped_size)
  then show ?thesis using ok by (simp add: store_ok_def counters_ok_def)
qed

section \<open>The totals agree\<close>

definition balanced :: "('k, int) gomap \<Rightarrow> int \<Rightarrow> bool" where
  "balanced m n \<longleftrightarrow> (\<forall>v \<in> snd ` set m. 0 \<le> v) \<and> sum_list (map snd m) = n"

lemma balanced_update:
  assumes "balanced m n" "0 \<le> v"
  shows "balanced (AList.update k v m) (n - lookup_or 0 m k + v)"
  using assms
proof (induction m arbitrary: n)
  case (Cons p m)
  have "balanced m (n - snd p)" using Cons.prems(1) by (auto simp: balanced_def)
  from Cons.IH [OF this Cons.prems(2)] show ?case using Cons.prems by (cases p) (auto simp: balanced_def lookup_or_def)
qed (simp add: balanced_def lookup_or_def)

lemma balanced_lookup: "balanced m n \<Longrightarrow> 0 \<le> lookup_or 0 m k \<and> lookup_or 0 m k \<le> n"
proof (induction m arbitrary: n)
  case (Cons p m)
  have "balanced m (n - snd p)" "0 \<le> snd p" using Cons.prems by (auto simp: balanced_def)
  moreover have "0 \<le> sum_list (map snd m)" using Cons.prems by (intro sum_list_nonneg) (auto simp: balanced_def)
  ultimately show ?case using Cons.IH [of "n - snd p"] Cons.prems
    by (cases p) (auto simp: lookup_or_def balanced_def split: option.splits)
qed (simp add: balanced_def lookup_or_def)

lemma balanced_incr:
  assumes "balanced m n" "n < 2 ^ 63 - 1"
  shows "balanced (incr k m) (n + 1)"
proof -
  have "0 \<le> lookup_or 0 m k \<and> lookup_or 0 m k \<le> n" by (rule balanced_lookup [OF assms(1)])
  then have "wrap64 (lookup_or 0 m k + 1) = lookup_or 0 m k + 1" using assms(2) by (intro wrap64_small) auto
  moreover have "balanced (AList.update k (lookup_or 0 m k + 1) m) (n - lookup_or 0 m k + (lookup_or 0 m k + 1))"
    using balanced_lookup [OF assms(1)] by (intro balanced_update assms) simp
  ultimately show ?thesis by (simp add: incr_def)
qed

definition requests_of :: "(string, catchAllHost) gomap \<Rightarrow> (string, int) gomap" where
  "requests_of m = map (\<lambda>(k, h). (k, ca_requests h)) m"

lemma requests_update: "requests_of (AList.update k h m) = AList.update k (ca_requests h) (requests_of m)"
  by (induction m) (auto simp: requests_of_def)

lemma requests_lookup: "ca_requests d = 0 \<Longrightarrow> ca_requests (lookup_or d m k) = lookup_or 0 (requests_of m) k"
  by (induction m) (auto simp: requests_of_def lookup_or_def split: option.split)

definition totals_ok :: "int \<Rightarrow> int \<Rightarrow> 'a eventStore \<Rightarrow> bool" where
  "totals_ok n c s \<longleftrightarrow> es_total s = n \<and> balanced (es_paths s) n \<and> balanced (es_days s) n \<and> balanced (es_targets s) n
     \<and> es_catch_total s = c \<and> balanced (requests_of (es_catch s)) c \<and> balanced (es_integrations s) c"

lemma totals_ok_tallies: "tallies s = tallies t \<Longrightarrow> totals_ok n c s = totals_ok n c t"
  using tallies_cong [of s t] by (simp add: totals_ok_def)

lemma parts_totals [simp]:
  "totals_ok n c (countHTTPActivity env e s) = totals_ok n c s"
  "totals_ok n c (countRequestHost env e s) = totals_ok n c s"
  "totals_ok n c (countUnknown env e s) = totals_ok n c s"
  "totals_ok n c (countProbe env e s) = totals_ok n c s"
  "totals_ok n c (actorEvent env e s) = totals_ok n c s"
  by (simp_all add: count_defs Let_def totals_ok_def)

lemma catch_totals:
  assumes "totals_ok n c s" "0 \<le> c" "c < 2 ^ 63 - 1"
  shows "totals_ok n (c + (if eo_catch_all (ev_origin e) then 1 else 0)) (countCatchAll env e s)"
proof (cases "eo_catch_all (ev_origin e)")
  case True
  have "balanced (incr k (requests_of (es_catch s))) (c + 1)" for k
    using assms by (intro balanced_incr) (simp_all add: totals_ok_def)
  then have "balanced (requests_of (AList.update k (catch_seen e (lookup_or (new_catch k e) (es_catch s) k)) (es_catch s))) (c + 1)" for k
    by (simp add: requests_update catch_seen_def incr_def requests_lookup new_catch_def)
  moreover have "wrap64 (c + 1) = c + 1" using assms(2,3) by (intro wrap64_small) auto
  ultimately show ?thesis using True assms by (simp add: countCatchAll_def Let_def totals_ok_def balanced_incr)
qed (use assms in \<open>simp add: countCatchAll_def\<close>)

lemma count_totals:
  assumes "totals_ok n c s" "0 \<le> n" "0 \<le> c" "n < 2 ^ 63 - 1" "c < 2 ^ 63 - 1"
  shows "totals_ok (n + 1) (c + (if eo_catch_all (ev_origin e) then 1 else 0)) (countEvent env e s)"
proof -
  let ?s = "countTarget env (eo_target (ev_origin e)) (countDay env e (countPath env (ev_path e) (pushEvent e (countHTTPActivity env e s))))"
  have "totals_ok n c (countHTTPActivity env e s)" using assms by simp
  moreover have "wrap64 (n + 1) = n + 1" using assms(2,4) by (intro wrap64_small) auto
  ultimately have "totals_ok (n + 1) c ?s"
    using assms(4) by (simp add: totals_ok_def pushEvent_def countPath_def countDay_def countTarget_def balanced_incr)
  then have "totals_ok (n + 1) c (countProbe env e (countUnknown env e (countRequestHost env e ?s)))" by simp
  from catch_totals [OF this assms(3,5)] show ?thesis by (simp add: countEvent_def Let_def)
qed

lemma lines_totals:
  assumes "totals_ok n c s" "0 \<le> c" "c \<le> n" "n + int (length ls) < 2 ^ 63"
  shows "\<exists>n' c'. totals_ok n' c' (fold (count_line env) ls s)"
  using assms
proof (induction ls arbitrary: n c s)
  case (Cons l ls)
  show ?case
  proof (cases l)
    case None
    then show ?thesis using Cons.IH [OF Cons.prems(1-3)] Cons.prems(4) by (simp add: count_line_def)
  next
    case (Some e)
    let ?c = "c + (if eo_catch_all (ev_origin e) then 1 else 0)"
    have "totals_ok (n + 1) ?c (countEvent env e s)" using Cons.prems by (intro count_totals) auto
    from Cons.IH [OF this] show ?thesis using Cons.prems(2-4) by (simp add: Some count_line_def)
  qed
qed auto

lemma empty_totals: "totals_ok 0 0 (empty_store a ds ls)"
  by (simp add: totals_ok_def empty_store_def balanced_def requests_of_def)

text \<open>C23: as long as fewer than \<open>2 ^ 63\<close> events were recorded, the total of requests is the sum of the
  counts of the paths, of the days and of the targets, and the total of catch-all requests is the sum
  over the hosts and over the integrations: no event is lost or counted twice, also where the tables
  overflow into their common entry, and also after a restart.\<close>

theorem totals_agree:
  assumes "\<forall>op \<in> set ops. logging op" "s = store_run env ops (load env (empty_store a ds ls))"
    and "int (length ls + length ops) < 2 ^ 63"
  shows "sum_list (map snd (es_paths s)) = es_total s \<and> sum_list (map snd (es_days s)) = es_total s
    \<and> sum_list (map snd (es_targets s)) = es_total s
    \<and> sum_list (map (ca_requests \<circ> snd) (es_catch s)) = es_catch_total s \<and> sum_list (map snd (es_integrations s)) = es_catch_total s"
proof -
  let ?ls = "ls @ concat (map op_taken ops)"
  have "length (concat (map op_taken ops)) \<le> length ops"
    by (induction ops) (auto simp: op_taken_def split: storeOp.split)
  then have "int (length ?ls) \<le> int (length ls + length ops)" by simp
  then have size: "int (length ?ls) < 2 ^ 63" using assms(3) by (rule le_less_trans)
  have "tallies s = tallies (fold (count_line env) (concat (map op_taken ops)) (load env (empty_store a ds ls)))"
    unfolding assms(2) by (rule run_tallies [OF assms(1)])
  also have "\<dots> = tallies (fold (count_line env) (concat (map op_taken ops)) (fold (count_line env) ls (empty_store a ds ls)))"
    using load_tallies [of env "empty_store a ds ls"] by (intro tallies_lines) (simp add: empty_store_def)
  finally have eq: "tallies s = tallies (fold (count_line env) ?ls (empty_store a ds ls))" by simp
  obtain n c where "totals_ok n c (fold (count_line env) ?ls (empty_store a ds ls))"
    using lines_totals [OF empty_totals, of ?ls env a ds ls] size by auto
  then have "totals_ok n c s" using totals_ok_tallies [OF eq] by simp
  then show ?thesis by (simp add: totals_ok_def balanced_def requests_of_def comp_def case_prod_unfold)
qed

section \<open>Rankings\<close>

text \<open>A ranking holds the greatest counts of the map, the greatest first and equal ones by name; a
  limit cuts it, and what is cut off ranks behind everything that is shown.\<close>

theorem rankedCounts_top:
  "sorted_wrt count_before (rankedCounts m limit)
   \<and> length (rankedCounts m limit) = (if 0 < limit then min (nat limit) (length m) else length m)
   \<and> (\<exists>rest. mset (rankedCounts m limit) + mset rest = mset m \<and> (\<forall>p \<in> set (rankedCounts m limit). \<forall>q \<in> set rest. count_before p q))"
proof -
  let ?rows = "sort_by count_before m"
  let ?n = "if 0 < limit then nat limit else length m"
  have eq: "rankedCounts m limit = take ?n ?rows" by (simp add: rankedCounts_def limit_rows_def)
  have "sorted_wrt count_before ?rows" by (rule count_rows.sorted_sort)
  then have "sorted_wrt count_before (take ?n ?rows)" by (rule sorted_wrt_take)
  moreover have "mset (take ?n ?rows) + mset (drop ?n ?rows) = mset m" by (simp add: mset_take_drop)
  moreover have "\<forall>p \<in> set (take ?n ?rows). \<forall>q \<in> set (drop ?n ?rows). count_before p q"
    using count_rows.take_first by blast
  ultimately show ?thesis unfolding eq by auto
qed

section \<open>Sessions rebuilt from the log\<close>

lemma apply_lookup:
  "map_of (es_sessions (applyEvent e s)) i =
     (if ev_session e = i then Some (event_session e (lookup_or (fresh_session e) (es_sessions s) i)) else map_of (es_sessions s) i)"
  by (auto simp: applyEvent_def gomap)

definition own :: "string \<Rightarrow> webEvent list \<Rightarrow> webEvent list" where
  "own i es = List.filter (\<lambda>e. ev_session e = i) es"

definition rebuilt :: "webEvent list \<Rightarrow> webSession option" where
  "rebuilt es = (case es of [] \<Rightarrow> None | e # _ \<Rightarrow> Some (fold event_session es (fresh_session e)))"

lemma rebuilt_snoc: "rebuilt (es @ [e]) = Some (event_session e (case rebuilt es of Some ss \<Rightarrow> ss | None \<Rightarrow> fresh_session e))"
  by (cases es) (simp_all add: rebuilt_def)

lemma load_line_session:
  assumes "length (es_sessions (applyEvent e s)) \<le> 11000"
  shows "es_sessions (load_line env (Some e) s) = es_sessions (applyEvent e s)"
  using assms by (simp add: load_line_def Let_def maxSessions_def) (simp add: applyEvent_def)

lemma sessions_length:
  assumes "map_wf m"
  shows "length m = card (fst ` set m)"
  using assms distinct_card [of "map fst m"] by (simp add: map_wf_def)

lemma keys_update: "fst ` set (AList.update k v m) = insert k (fst ` set m)"
  by (induction m) auto

lemma load_lines_sessions:
  assumes "finite (ev_session ` set es)" "card (ev_session ` set es) \<le> 10000"
  shows "map_wf (es_sessions (fold (load_line env) (map Some es) (empty_store a ds ls)))
    \<and> fst ` set (es_sessions (fold (load_line env) (map Some es) (empty_store a ds ls))) = ev_session ` set es
    \<and> (\<forall>i. map_of (es_sessions (fold (load_line env) (map Some es) (empty_store a ds ls))) i = rebuilt (own i es))"
  using assms
proof (induction es rule: rev_induct)
  case Nil
  show ?case by (simp add: empty_store_def rebuilt_def own_def)
next
  case (snoc e es)
  let ?s = "fold (load_line env) (map Some es) (empty_store a ds ls)"
  have "card (ev_session ` set es) \<le> card (ev_session ` set (es @ [e]))" by (rule card_mono) auto
  then have IH: "map_wf (es_sessions ?s)" "fst ` set (es_sessions ?s) = ev_session ` set es" "\<And>i. map_of (es_sessions ?s) i = rebuilt (own i es)"
    using snoc by simp_all
  have wf: "map_wf (es_sessions (applyEvent e ?s))" by (rule apply_wf [OF IH(1)])
  have keys: "fst ` set (es_sessions (applyEvent e ?s)) = ev_session ` set (es @ [e])"
    using IH(2) by (simp add: applyEvent_def keys_update)
  have "length (es_sessions (applyEvent e ?s)) \<le> 11000" using sessions_length [OF wf] keys snoc.prems(2) by simp
  then have eq: "es_sessions (fold (load_line env) (map Some (es @ [e])) (empty_store a ds ls)) = es_sessions (applyEvent e ?s)"
    using load_line_session [of e ?s env] by simp
  have "map_of (es_sessions (applyEvent e ?s)) i = rebuilt (own i (es @ [e]))" for i
    by (cases "ev_session e = i") (simp_all add: apply_lookup IH(3) own_def rebuilt_snoc lookup_or_def split: option.split)
  then show ?case unfolding eq using wf keys by simp
qed

lemma load_skips: "fold (load_line env) lines s = fold (load_line env) (map Some (List.map_filter (\<lambda>x. x) lines)) s"
  by (induction lines arbitrary: s) (auto simp: List.map_filter_simps load_line_def split: option.split)

lemma load_sessions:
  assumes "es = List.map_filter (\<lambda>x. x) lines" "card (ev_session ` set es) \<le> 10000"
  shows "map_of (es_sessions (load env (empty_store a ds lines))) i = rebuilt (own i es)"
proof -
  let ?s = "fold (load_line env) lines (empty_store a ds lines)"
  have facts: "map_wf (es_sessions ?s)" "fst ` set (es_sessions ?s) = ev_session ` set es" "map_of (es_sessions ?s) i = rebuilt (own i es)"
    using load_lines_sessions [of es env a ds lines] assms load_skips [of env lines "empty_store a ds lines"] by simp_all
  have "length (es_sessions ?s) \<le> 10000" using sessions_length [OF facts(1)] facts(2) assms(2) by simp
  then have "load env (empty_store a ds lines) = ?s"
    by (simp add: load_def Let_def maxSessions_def) (simp add: empty_store_def)
  then show ?thesis using facts(3) by simp
qed

lemma successively_last_n: "successively P xs \<Longrightarrow> successively P (last_n n xs)"
  unfolding last_n_def by (metis append_take_drop_id successively_append_iff)

definition steps_ok :: "journeyStep list \<Rightarrow> bool" where
  "steps_ok js \<longleftrightarrow> length js \<le> 30 \<and> successively (\<lambda>a b. js_path a \<noteq> js_path b) js"

lemma steps_ok_add: "steps_ok js \<Longrightarrow> steps_ok (add_journey e js)"
  by (auto simp: steps_ok_def add_journey_def push_last_length push_last_def successively_append_iff intro: successively_last_n)

lemma event_session_fields [simp]:
  "ss_id (event_session e ss) = ss_id ss" "ss_last_seen (event_session e ss) = ev_at e"
  "ss_scoring (event_session e ss) = ev_scoring e" "ss_current_path (event_session e ss) = ev_path e"
  "ss_recent (event_session e ss) = push_last 12 (ev_at e) (ss_recent ss)"
  "ss_journey (event_session e ss) = add_journey e (ss_journey ss)"
  "ss_first_seen (event_session e ss) = ss_first_seen ss"
  "vi_requests (ev_visit e) = 0 \<Longrightarrow> ss_requests (event_session e ss) = wrap64 (ss_requests ss + 1)"
  by (simp_all add: event_session_def merge_visit_def Let_def)

lemma rebuilt_facts:
  assumes "es \<noteq> []"
  shows "\<exists>ss. rebuilt es = Some ss \<and> ss_id ss = ev_session (hd es) \<and> ss_last_seen ss = ev_at (List.last es)
    \<and> ss_scoring ss = ev_scoring (List.last es) \<and> ss_current_path ss = ev_path (List.last es)
    \<and> ss_recent ss = last_n 12 (map ev_at es) \<and> steps_ok (ss_journey ss)
    \<and> ((\<forall>e \<in> set es. vi_requests (ev_visit e) = 0) \<longrightarrow> int (length es) < 2 ^ 63 \<longrightarrow> ss_requests ss = int (length es))"
  using assms
proof (induction es rule: rev_nonempty_induct)
  case (single e)
  have "steps_ok (ss_journey (fresh_session e))" by (simp add: steps_ok_def fresh_session_def)
  then show ?case by (simp add: rebuilt_def fresh_session_def push_last_def steps_ok_add wrap64_small)
next
  case (snoc e es)
  then obtain ss where ss: "rebuilt es = Some ss" "ss_id ss = ev_session (hd es)" "ss_recent ss = last_n 12 (map ev_at es)"
    "steps_ok (ss_journey ss)"
    "(\<forall>e \<in> set es. vi_requests (ev_visit e) = 0) \<longrightarrow> int (length es) < 2 ^ 63 \<longrightarrow> ss_requests ss = int (length es)" by blast
  have "wrap64 (int (length es) + 1) = int (length es) + 1" if "int (length es) + 1 < 2 ^ 63"
    using that by (intro wrap64_small) auto
  then show ?case using ss snoc.hyps(1)
    by (simp add: rebuilt_snoc steps_ok_add push_last_last_n)
qed

text \<open>From a log of at most 10000 sessions the replay gives a session exactly to those that have
  events; each shows the time, the path and the scores of its last event, the times of its last
  twelve, at most thirty steps of its journey with no step repeated, and, from logs without
  counters, as many requests as it has events.\<close>

lemma sessions_rebuilt:
  assumes "es = List.map_filter (\<lambda>x. x) lines" "card (ev_session ` set es) \<le> 10000" "mine = List.filter (\<lambda>e. ev_session e = i) es"
  shows "case GetSession i (load env (empty_store a ds lines)) of
      None \<Rightarrow> mine = []
    | Some ss \<Rightarrow> mine \<noteq> [] \<and> ss_id ss = i \<and> ss_last_seen ss = ev_at (List.last mine) \<and> ss_current_path ss = ev_path (List.last mine)
        \<and> ss_scoring ss = ev_scoring (List.last mine) \<and> ss_recent ss = last_n 12 (map ev_at mine)
        \<and> length (ss_journey ss) \<le> 30 \<and> successively (\<lambda>a b. js_path a \<noteq> js_path b) (ss_journey ss)
        \<and> ((\<forall>e \<in> set mine. vi_requests (ev_visit e) = 0) \<longrightarrow> int (length mine) < 2 ^ 63 \<longrightarrow> ss_requests ss = int (length mine))"
proof (cases "mine = []")
  case True
  then show ?thesis using load_sessions [OF assms(1,2), of env a ds i] assms(3) by (simp add: GetSession_def own_def rebuilt_def)
next
  case False
  then have "ev_session (hd mine) = i" using hd_in_set [OF False] by (simp add: assms(3))
  then show ?thesis
    using rebuilt_facts [OF False] load_sessions [OF assms(1,2), of env a ds i] False
    by (auto simp: GetSession_def own_def assms(3) [symmetric] steps_ok_def)
qed

section \<open>Sessions rebuilt from what JSON kept\<close>

definition json_session_origin :: "sessionOrigin \<Rightarrow> sessionOrigin" where
  "json_session_origin og =
     og\<lparr>so_ip_source := json_text (so_ip_source og), so_proxy := json_text (so_proxy og), so_country := json_text (so_country og),
        so_country_source := json_text (so_country_source og), so_cf_ray := json_text (so_cf_ray og), so_cf_colo := json_text (so_cf_colo og),
        so_first_referrer := json_text (so_first_referrer og), so_last_referrer := json_text (so_last_referrer og),
        so_referrer_host := json_text (so_referrer_host og), so_request_host := json_text (so_request_host og),
        so_target := json_text (so_target og), so_target_trust := json_text (so_target_trust og), so_origin := json_text (so_origin og),
        so_language := json_text (so_language og), so_protocol := json_text (so_protocol og),
        so_integration := json_text (so_integration og), so_integration_trust := json_text (so_integration_trust og)\<rparr>"

text \<open>The session with its texts as JSON keeps them; its journey and its bot are left alone.\<close>

definition json_session :: "webSession \<Rightarrow> webSession" where
  "json_session ss =
     ss\<lparr>ss_id := json_text (ss_id ss), ss_ip := json_text (ss_ip ss), ss_agent := json_text (ss_agent ss),
        ss_origin := json_session_origin (ss_origin ss), ss_first_path := json_text (ss_first_path ss),
        ss_visit_first_path := json_text (ss_visit_first_path ss), ss_scoring := json_scoring (ss_scoring ss),
        ss_story := (ss_story ss)\<lparr>st_name := json_text (st_name (ss_story ss)), st_confidence := json_text (st_confidence (ss_story ss))\<rparr>,
        ss_current_path := json_text (ss_current_path ss), ss_last_method := json_text (ss_last_method ss)\<rparr>"

definition session_texts :: "webSession \<Rightarrow> string list" where
  "session_texts ss =
     (let og = ss_origin ss in
      [ss_id ss, ss_ip ss, ss_agent ss, so_ip_source og, so_proxy og, so_country og, so_country_source og, so_cf_ray og, so_cf_colo og,
       so_first_referrer og, so_last_referrer og, so_referrer_host og, so_request_host og, so_target og, so_target_trust og, so_origin og,
       so_language og, so_protocol og, so_integration og, so_integration_trust og, ss_first_path ss, ss_visit_first_path ss,
       ss_current_path ss, ss_last_method ss])"

lemma newer_json: "newer (json_text a) (json_text b) = json_text (newer a b)"
  by (simp add: newer_def)

lemma merge_origin_json:
  "merge_origin (json_origin e) (json_session_origin og) = json_session_origin (merge_origin e og)"
  by (simp add: merge_origin_def json_origin_def json_session_origin_def newer_json)

lemma merge_visit_json:
  "merge_visit (json_event env e) (json_session ss) = json_session (merge_visit e ss)"
  by (simp add: merge_visit_def json_event_def json_session_def Let_def)

lemma fresh_json: "fresh_session (json_event env e) = json_session (fresh_session e)"
  by (simp add: fresh_session_def json_event_def json_session_def json_session_origin_def)

lemma event_session_journey:
  "event_session e (ss\<lparr>ss_journey := js\<rparr>) = (event_session e ss)\<lparr>ss_journey := add_journey e js\<rparr>"
  by (simp add: event_session_def merge_visit_def Let_def)

lemma event_session_json:
  "event_session (json_event env e) (json_session ss)
     = (json_session (event_session e ss))\<lparr>ss_journey := add_journey (json_event env e) (ss_journey ss)\<rparr>"
proof -
  let ?seen = "ss\<lparr>ss_last_seen := ev_at e, ss_ip := ev_ip e, ss_origin := merge_origin (ev_origin e) (ss_origin ss),
      ss_first_path := (if ss_first_path ss = [] then ev_path e else ss_first_path ss)\<rparr>"
  have "(json_session ss)\<lparr>ss_last_seen := ev_at e, ss_ip := ev_ip (json_event env e),
      ss_origin := merge_origin (ev_origin (json_event env e)) (ss_origin (json_session ss)),
      ss_first_path := (if ss_first_path (json_session ss) = [] then ev_path (json_event env e) else ss_first_path (json_session ss))\<rparr>
    = json_session ?seen"
    by (simp add: json_session_def json_event_def merge_origin_json)
  moreover have "ev_at (json_event env e) = ev_at e" by (simp add: json_event_def)
  ultimately have "event_session (json_event env e) (json_session ss) =
      (let ss = json_session (merge_visit e ?seen)
       in ss\<lparr>ss_scoring := ev_scoring (json_event env e),
            ss_story := (if st_name (ev_story (json_event env e)) \<noteq> [] then ev_story (json_event env e) else ss_story ss),
            ss_current_path := ev_path (json_event env e), ss_last_method := ev_method (json_event env e),
            ss_last_status := ev_status (json_event env e),
            ss_recent := push_last 12 (ev_at (json_event env e)) (ss_recent ss), ss_journey := add_journey (json_event env e) (ss_journey ss)\<rparr>)"
    unfolding event_session_def by (simp only: merge_visit_json)
  also have "\<dots> = (json_session (event_session e ss))\<lparr>ss_journey := add_journey (json_event env e) (ss_journey ss)\<rparr>"
    by (simp add: event_session_def json_session_def json_event_def merge_visit_def Let_def)
  finally show ?thesis .
qed

lemma fold_session_json:
  "\<exists>js'. fold event_session (map (json_event env) es) ((json_session ss)\<lparr>ss_journey := js\<rparr>)
     = (json_session (fold event_session es ss))\<lparr>ss_journey := js'\<rparr>"
proof (induction es arbitrary: ss js)
  case (Cons e es)
  have "event_session (json_event env e) ((json_session ss)\<lparr>ss_journey := js\<rparr>)
      = (json_session (event_session e ss))\<lparr>ss_journey := add_journey (json_event env e) js\<rparr>"
    by (simp add: event_session_journey event_session_json)
  then show ?case using Cons.IH by simp
qed auto

lemma rebuilt_json:
  "rebuilt es = None \<and> rebuilt (map (json_event env) es) = None
   \<or> (\<exists>ss js. rebuilt es = Some ss \<and> rebuilt (map (json_event env) es) = Some ((json_session ss)\<lparr>ss_journey := js\<rparr>))"
proof (cases es)
  case (Cons e rest)
  have "json_session (fresh_session e) = (json_session (fresh_session e))\<lparr>ss_journey := ss_journey (json_session (fresh_session e))\<rparr>" by simp
  then show ?thesis
    using fold_session_json [where ss = "fresh_session e" and js = "ss_journey (json_session (fresh_session e))" and es = es and env = env]
    by (simp add: Cons rebuilt_def fresh_json)
qed (simp add: rebuilt_def)

lemma json_event_fields [simp]:
  "ev_session (json_event env e) = json_text (ev_session e)" "ev_at (json_event env e) = ev_at e"
  by (simp_all add: json_event_def)

lemma own_json:
  "\<forall>e \<in> set es. valid_utf8 (ev_session e) \<Longrightarrow> own i (map (json_event env) es) = map (json_event env) (own i es)"
  by (induction es) (auto simp: own_def json_text_same [symmetric])

lemma map_filter_Some: "List.map_filter (\<lambda>x. x) (map Some xs) = xs"
  by (induction xs) (simp_all add: List.map_filter_simps)

text \<open>A start on the log of the events \<open>es\<close>, none expired and of at most 10000 sessions.\<close>

lemma reopened_sessions:
  assumes "\<forall>e \<in> set es. valid_utf8 (ev_session e) \<and> ev_at e \<noteq> 0 \<and> cutoff \<le> ev_at e" "card (ev_session ` set es) \<le> 10000"
    and "openStore env sizes cutoff actors domains (map (\<lambda>e. Some (json_event env e)) es) = Some s"
  shows "GetSession i s = rebuilt (map (json_event env) (own i es))"
proof -
  let ?es = "map (json_event env) es"
  have kept: "compactJSONL ev_at cutoff (map Some ?es) = map Some ?es"
    using assms(1) by (intro compact_all) simp
  have ids: "ev_session ` set ?es = ev_session ` set es"
    using assms(1) by (auto simp: image_image json_text_same [symmetric] intro: image_cong)
  have "?es = List.map_filter (\<lambda>x. x) (map Some ?es)" by (simp only: map_filter_Some)
  moreover have "s = load env (empty_store actors domains (map Some ?es))"
    using assms(3) kept by (simp add: openStore_def comp_def split: if_splits)
  ultimately have "GetSession i s = rebuilt (own i ?es)"
    using assms(2) unfolding GetSession_def ids [symmetric] by (simp only: load_sessions)
  then show ?thesis using own_json [of es i env] assms(1) by simp
qed

section \<open>The feed tells of every gap\<close>

text \<open>What a reader may be given of a publication: the messages in order, where a gap is replaced by
  one notice to read everything again, stamped with the time of the last message missed.\<close>

inductive told :: "(feedMessage \<times> gotime) list \<Rightarrow> feedMessage list \<Rightarrow> bool" where
  nothing: "told [] []"
| message: "told xs ys \<Longrightarrow> told (xs @ [(m, at)]) (ys @ [m])"
| gap: "told xs ys \<Longrightarrow> missed \<noteq> [] \<Longrightarrow> told (xs @ missed) (ys @ [ResyncRequired (snd (List.last missed))])"

datatype readerOp = Published feedMessage gotime | Taken

fun reader_step :: "readerOp \<Rightarrow> subscriber \<times> feedMessage list \<Rightarrow> subscriber \<times> feedMessage list" where
  "reader_step (Published m at) (sub, got) = (offer m at sub, got)"
| "reader_step Taken (sub, got) = (sub\<lparr>su_queue := tl (su_queue sub)\<rparr>, got @ take 1 (su_queue sub))"

definition published :: "readerOp list \<Rightarrow> (feedMessage \<times> gotime) list" where
  "published ops = List.map_filter (\<lambda>op. case op of Published m at \<Rightarrow> Some (m, at) | Taken \<Rightarrow> None) ops"

lemma published_snoc [simp]:
  "published [] = []" "published (ops @ [Published m at]) = published ops @ [(m, at)]" "published (ops @ [Taken]) = published ops"
  by (simp_all add: published_def List.map_filter_def)

lemma told_offer:
  assumes "told seen (got @ su_queue sub)" "su_missed sub \<longleftrightarrow> missed \<noteq> []"
  shows "\<exists>seen' missed'. seen @ missed @ [(m, at)] = seen' @ missed' \<and> told seen' (got @ su_queue (offer m at sub))
    \<and> (su_missed (offer m at sub) \<longleftrightarrow> missed' \<noteq> [])"
proof -
  consider "su_missed sub" "length (su_queue sub) < 128" | "\<not> length (su_queue sub) < 128"
    | "\<not> su_missed sub" "length (su_queue sub) < 128" by blast
  then show ?thesis
  proof cases
    case 1
    have "told (seen @ (missed @ [(m, at)])) ((got @ su_queue sub) @ [ResyncRequired (snd (List.last (missed @ [(m, at)])))])"
      by (rule told.gap [OF assms(1)]) simp
    then show ?thesis using 1
      by (intro exI [of _ "seen @ missed @ [(m, at)]"] exI [of _ "[]"]) (simp add: offer_def)
  next
    case 2
    then show ?thesis using assms
      by (intro exI [of _ seen] exI [of _ "missed @ [(m, at)]"]) (simp add: offer_def)
  next
    case 3
    have "told (seen @ [(m, at)]) ((got @ su_queue sub) @ [m])" by (rule told.message [OF assms(1)])
    then show ?thesis using 3 assms(2)
      by (intro exI [of _ "seen @ [(m, at)]"] exI [of _ "[]"]) (simp add: offer_def)
  qed
qed

text \<open>Whatever is published and however slowly a subscriber reads, what it was given and what waits
  in its queue is the publication with every gap replaced by a notice; messages it has not been told
  of are at the end, and then the next thing it gets is the notice.\<close>

lemma feed_tells_gaps:
  assumes "(sub, got) = fold reader_step ops (\<lparr>su_queue = [], su_missed = False\<rparr>, [])"
  shows "\<exists>seen missed. published ops = seen @ missed \<and> told seen (got @ su_queue sub) \<and> (su_missed sub \<longleftrightarrow> missed \<noteq> [])"
  using assms
proof (induction ops arbitrary: sub got rule: rev_induct)
  case Nil
  then show ?case by (auto intro: told.nothing)
next
  case (snoc op ops)
  obtain sub0 got0 where r: "(sub0, got0) = fold reader_step ops (\<lparr>su_queue = [], su_missed = False\<rparr>, [])"
    by (metis prod.exhaust)
  obtain seen missed where IH: "published ops = seen @ missed" "told seen (got0 @ su_queue sub0)" "su_missed sub0 \<longleftrightarrow> missed \<noteq> []"
    using snoc.IH [OF r] by blast
  have step: "(sub, got) = reader_step op (sub0, got0)" using snoc.prems r by simp
  show ?case
  proof (cases op)
    case Taken
    then have "got @ su_queue sub = got0 @ su_queue sub0" "su_missed sub = su_missed sub0"
      using step by (cases "su_queue sub0"; simp)+
    then show ?thesis using IH by (auto simp: Taken)
  next
    case (Published m at)
    have "sub = offer m at sub0" "got = got0" using step by (simp_all add: Published)
    then show ?thesis using told_offer [OF IH(2,3), of m at] IH(1) by (simp add: Published)
  qed
qed

section \<open>Witnesses\<close>

definition plain_env :: "unit eventEnv" where
  "plain_env = \<lparr>en_lower = \<lambda>x. x, en_upper = \<lambda>x. x, en_parse_ip = \<lambda>_. None, en_internal_ip = \<lambda>_. False, en_digit = \<lambda>_. False,
     en_day_key = \<lambda>_. ''2024-05-01'', en_local_day = \<lambda>_. 0, en_actor_event = \<lambda>_ _ _. (), en_actor_drop = \<lambda>_ _. ()\<rparr>"

definition plain_event :: "string \<Rightarrow> gotime \<Rightarrow> string \<Rightarrow> webEvent" where
  "plain_event i at path =
     \<lparr>ev_id = [], ev_at = at, ev_session = i, ev_ip = ''192.0.2.1'', ev_method = ''GET'', ev_path = path, ev_status = 404, ev_category = ''probe'',
      ev_message = ''m'', ev_agent = ''curl'',
      ev_origin = \<lparr>eo_ip_source = [], eo_proxy = [], eo_country = [], eo_country_source = [], eo_cf_ray = [], eo_cf_colo = [],
        eo_referrer = [], eo_referrer_host = [], eo_request_host = [], eo_target = [], eo_target_trust = [], eo_self_origin = False,
        eo_host_sweep = False, eo_sweep_hosts = 0, eo_origin = [], eo_language = [], eo_protocol = [], eo_integration = [],
        eo_integration_trust = [], eo_catch_all = True\<rparr>,
      ev_visit = \<lparr>vi_first_seen = 0, vi_requests = 0, vi_visits = 0, vi_started = 0, vi_visit_requests = 0, vi_first_path = []\<rparr>,
      ev_probe = \<lparr>pr_name = [], pr_product = [], pr_cve = [], pr_known = False\<rparr>,
      ev_scoring = \<lparr>sc_risk = 30, sc_automation = 0, sc_class = ''suspicious'', sc_actor = ''unknown'', sc_confidence = ''low'',
        sc_avg = 0, sc_var = 0, sc_persona = [], sc_depth = 1, sc_loop = 0, sc_frustration = 0\<rparr>,
      ev_story = \<lparr>st_name = [], st_confidence = [], st_locked = False\<rparr>, ev_bytes = 0, ev_bot = no_bot,
      ev_graphql = no_graphql\<rparr>"

lemma plain_event_fields [simp]:
  "ev_at (plain_event i at path) = at" "ev_session (plain_event i at path) = i" "ev_path (plain_event i at path) = path"
  "vi_requests (ev_visit (plain_event i at path)) = 0"
  by (simp_all add: plain_event_def)

definition some_ops :: "storeOp list" where
  "some_ops = [OpSubscribe, OpEvent (Some True) (plain_event ''a'' 5 ''/x''), OpEvent (Some False) (plain_event ''b'' 6 ''/y''),
     OpEvent (Some True) (plain_event ''b'' 7 ''/z''), OpTake 0]"

abbreviation "no_domains \<equiv> \<lparr>ds_manual = [], ds_file = None\<rparr>"
abbreviation "some_store \<equiv> store_run plain_env some_ops (load plain_env (empty_store () no_domains [None]))"

lemma some_ops_logging: "\<forall>op \<in> set some_ops. logging op"
  by (simp add: some_ops_def logging_def)

lemma plain_event_kept: "is_ascii i \<Longrightarrow> is_ascii path \<Longrightarrow> kept_whole env (plain_event i at path)"
  by (simp add: kept_whole_def event_texts_def plain_event_def no_bot_def no_graphql_def valid_ascii)

lemma some_ops_file: "es_file some_store = [None, Some (plain_event ''a'' 5 ''/x''), Some (plain_event ''b'' 7 ''/z'')]"
  by (simp add: run_file load_file empty_store_def some_ops_def op_logged_def json_event_same plain_event_kept is_ascii_def)

lemma some_ops_kept: "\<forall>log e. OpEvent log e \<in> set some_ops \<longrightarrow> kept_whole env e"
  by (simp add: some_ops_def plain_event_kept is_ascii_def)


lemma store_bounded_witness: "length (es_events some_store) \<le> 5000 \<and> length (es_sessions some_store) \<le> 10000"
  using store_bounded [OF refl, of plain_env some_ops "()" no_domains "[None]"] by simp

lemma totals_agree_witness: "sum_list (map snd (es_paths some_store)) = es_total some_store"
  using totals_agree [OF some_ops_logging refl, of "[None]" plain_env "()" no_domains] by (simp add: some_ops_def)

lemma sessions_rebuilt_witness:
  "\<exists>ss. GetSession ''a'' (load plain_env (empty_store () no_domains
      [Some (plain_event ''a'' 5 ''/x''), None, Some (plain_event ''b'' 6 ''/y''), Some (plain_event ''a'' 7 ''/z'')])) = Some ss
    \<and> ss_last_seen ss = 7 \<and> ss_recent ss = [5, 7] \<and> ss_requests ss = 2"
  using sessions_rebuilt [OF refl _ refl, of "[Some (plain_event ''a'' 5 ''/x''), None, Some (plain_event ''b'' 6 ''/y''),
      Some (plain_event ''a'' 7 ''/z'')]" "''a''" plain_env "()" no_domains]
  by (simp add: List.map_filter_def last_n_def card_insert_if split: option.splits)

definition two_sessions :: "unit eventStore" where
  "two_sessions = (empty_store () no_domains [])\<lparr>es_sessions :=
     [(''a'', event_session (plain_event ''a'' 9 ''/x'') (fresh_session (plain_event ''a'' 9 ''/x''))),
      (''b'', event_session (plain_event ''b'' 5 ''/x'') (fresh_session (plain_event ''b'' 5 ''/x'')))],
     es_fingerprints := [(''f'', ''b'')]\<rparr>"

lemma prune_keeps_recent_witness:
  "length (es_sessions (pruneSessions plain_env 1 two_sessions)) = 1 \<and> \<not> has_key (es_sessions (pruneSessions plain_env 1 two_sessions)) ''b''"
proof -
  have "length (es_sessions (pruneSessions plain_env 1 two_sessions)) = 1"
    using prune_keeps_recent [OF _ _ refl, of two_sessions 1 plain_env] by (simp add: two_sessions_def map_wf_def)
  then show ?thesis
    by (simp add: two_sessions_def pruneSessions_def Let_def dead_sessions_def sort_by_def earlier_first_def has_key_def)
qed

lemma rankedCounts_top_witness:
  "sorted_wrt count_before (rankedCounts [(''a'', 1), (''b'', 3), (''c'', 3)] 2)
   \<and> rankedCounts [(''a'', 1), (''b'', 3), (''c'', 3)] 2 = [(''b'', 3), (''c'', 3)]"
  using rankedCounts_top [of "[(''a'', 1), (''b'', 3), (''c'', 3)]" 2]
  by (simp add: rankedCounts_def limit_rows_def sort_by_def count_before_def numeral_2_eq_2)

lemma feed_tells_gaps_witness:
  "\<exists>seen missed. published [Published (ResyncRequired 1) 1, Taken, Published (ResyncRequired 2) 2] = seen @ missed
    \<and> told seen [ResyncRequired 1, ResyncRequired 2] \<and> missed = []"
  using feed_tells_gaps [of "\<lparr>su_queue = [ResyncRequired 2], su_missed = False\<rparr>" "[ResyncRequired 1]"
      "[Published (ResyncRequired 1) 1, Taken, Published (ResyncRequired 2) 2]"]
  by (simp add: offer_def)

end
