(* ===== verification/WebRequest.thy ===== *)
theory WebRequest
  imports TrustedDomains GoNumbers
begin

text \<open>
  What the web trap believes of a request (\<open>internal/server/trap.go\<close>, with
  \<open>geoip.go\<close> and the secrets of \<open>internal/config/config.go\<close>): the address and the
  proxy of the client, the host it asked for, the metadata of a validated integration. Everything
  here decides across which boundary a header is believed.

  Parameters (record \<open>webEnv\<close>): case mapping outside ASCII; \<open>net.ParseIP\<close> followed by
  \<open>String\<close> and the address classes of the result; HMAC-SHA256; \<open>url.Parse\<close> followed by
  \<open>Hostname\<close>; whether the country database is a file; the output of \<open>mmdblookup\<close>.
  A request holds the first value of each header under its canonical name, and the value of the
  cookie \<open>zl_sid\<close>.
\<close>

record webEnv =
  we_lower :: "string \<Rightarrow> string"
  we_upper :: "string \<Rightarrow> string"
  we_parse_ip :: "string \<Rightarrow> string option"
  we_internal_ip :: "string \<Rightarrow> bool"
  we_special_ip :: "string \<Rightarrow> bool"
  we_mac :: "string \<Rightarrow> string \<Rightarrow> string"
  we_url_host :: "string \<Rightarrow> string option"
  we_geo_file :: bool
  we_mmdb :: "string \<Rightarrow> string option"

record httpRequest =
  hr_method :: string
  hr_path :: string
  hr_escaped :: string
  hr_query :: string
  hr_uri :: string
  hr_host :: string
  hr_remote :: string
  hr_proto :: string
  hr_tls :: bool
  hr_headers :: "(string, string) gomap"
  hr_cookie :: "string option"
  hr_body :: string

record trapConfig =
  tc_proxy_mode :: string
  tc_proxy_rules :: string
  tc_secret :: string
  tc_max_skew :: int
  tc_hostile :: int
  tc_suspicious :: int
  tc_live_minutes :: int
  tc_resume_hours :: int
  tc_geo_db :: string

section \<open>Headers\<close>

text \<open>\<open>CanonicalHeaderKey\<close> on the literal names of the code, which are valid tokens.\<close>

fun canonical_key :: "bool \<Rightarrow> string \<Rightarrow> string" where
  "canonical_key up [] = []"
| "canonical_key up (c # s) = (if up then ascii_upper c else ascii_lower c) # canonical_key (c = CHR ''-'') s"

definition Header :: "httpRequest \<Rightarrow> string \<Rightarrow> string" where
  "Header r name = lookup_or [] (hr_headers r) (canonical_key True name)"

definition UserAgent :: "httpRequest \<Rightarrow> string" where
  "UserAgent r = Header r ''User-Agent''"

definition cleanHeader :: "string \<Rightarrow> nat \<Rightarrow> string" where
  "cleanHeader v0 max_len =
     (let v = take max_len (TrimSpace v0)
      in if list_ex (\<lambda>c. c < 32 \<or> c = 127) (runes v) then [] else v)"

definition headerBool :: "webEnv \<Rightarrow> string \<Rightarrow> bool" where
  "headerBool env v = (ToLower (we_lower env) (TrimSpace v) \<in> {''1'', ''true'', ''yes'', ''on''})"

section \<open>Addresses and hosts\<close>

definition JoinHostPort :: "string \<Rightarrow> string \<Rightarrow> string" where
  "JoinHostPort h p = (if CHR '':'' \<in> set h then ''['' @ h @ '']:'' @ p else h @ '':'' @ p)"

definition validIP :: "webEnv \<Rightarrow> string \<Rightarrow> string" where
  "validIP env v = (case we_parse_ip env (TrimSpace v) of None \<Rightarrow> [] | Some ip \<Rightarrow> ip)"

definition isPrivateOrLoopback :: "webEnv \<Rightarrow> string \<Rightarrow> bool" where
  "isPrivateOrLoopback env raw = (case we_parse_ip env (TrimSpace raw) of None \<Rightarrow> False | Some ip \<Rightarrow> we_internal_ip env ip)"

definition remoteIP :: "webEnv \<Rightarrow> string \<Rightarrow> string" where
  "remoteIP env addr =
     (case SplitHostPort addr of
        Some (host, _) \<Rightarrow> host
      | None \<Rightarrow> if validIP env addr \<noteq> [] then validIP env addr else addr)"

definition firstForwardedIP :: "webEnv \<Rightarrow> string \<Rightarrow> string" where
  "firstForwardedIP env v =
     (case List.find (\<lambda>ip. ip \<noteq> []) (map (validIP env) (SplitByte v (CHR '',''))) of None \<Rightarrow> [] | Some ip \<Rightarrow> ip)"

text \<open>An address is an IPv4 one when its text has no colon; the octet before its first dot is tested.\<close>

definition isCloudflarePseudoIPv4 :: "webEnv \<Rightarrow> string \<Rightarrow> bool" where
  "isCloudflarePseudoIPv4 env v =
     (case we_parse_ip env v of
        None \<Rightarrow> False
      | Some ip \<Rightarrow> CHR '':'' \<notin> set ip \<and> 240 \<le> parsed_value (Atoi (fst (CutByte ip (CHR ''.''))))) "

definition cleanCountry :: "webEnv \<Rightarrow> string \<Rightarrow> string" where
  "cleanCountry env v0 =
     (let v = ToUpper (we_upper env) (TrimSpace v0)
      in if v = ''T1'' \<or> v = ''XX'' then v
         else if length v = 2 \<and> list_all is_upper v then v
         else [])"

definition cloudflareColo :: "webEnv \<Rightarrow> string \<Rightarrow> string" where
  "cloudflareColo env ray =
     (case LastIndexByte ray (CHR ''-'') of
        None \<Rightarrow> []
      | Some i \<Rightarrow>
          if length ray \<le> Suc i then []
          else (let colo = ToUpper (we_upper env) (drop (Suc i) ray)
                in if length colo = 3 \<and> list_all (\<lambda>c. 65 \<le> c \<and> c \<le> 90) (runes colo) then colo else []))"

definition targetHostOnly :: "webEnv \<Rightarrow> string \<Rightarrow> string" where
  "targetHostOnly env target =
     (case SplitHostPort target of
        Some (h, _) \<Rightarrow> ToLower (we_lower env) (TrimSpace h)
      | None \<Rightarrow> TrimBytes ''[]'' (ToLower (we_lower env) (TrimSpace target)))"

definition internalUpstreamTarget :: "webEnv \<Rightarrow> string \<Rightarrow> bool" where
  "internalUpstreamTarget env v =
     (case we_parse_ip env (targetHostOnly env v) of None \<Rightarrow> False | Some ip \<Rightarrow> we_internal_ip env ip)"

definition canonicalTarget :: "webEnv \<Rightarrow> httpRequest \<Rightarrow> string" where
  "canonicalTarget env r =
     (let host = TrimSpace (ToLower (we_lower env) (hr_host r)) in
      if host = [] then ''(unknown)''
      else (case SplitHostPort host of
              Some (h, p) \<Rightarrow> if (hr_tls r \<and> p = ''443'') \<or> (\<not> hr_tls r \<and> p = ''80'') then h else JoinHostPort h p
            | None \<Rightarrow> TrimSuffix host ''.''))"

definition canonicalIntegrationTarget :: "webEnv \<Rightarrow> string \<Rightarrow> string" where
  "canonicalIntegrationTarget env v0 =
     (let v = TrimSpace (ToLower (we_lower env) (cleanHeader v0 255)) in
      if v = [] \<or> list_ex (\<lambda>c. c \<in> set ''/'' \<union> {CHR 0x5C} \<union> set ''?#@'') v then []
      else (case SplitHostPort v of
              Some (h, p) \<Rightarrow>
                if h = [] \<or> p = [] then [] else JoinHostPort (TrimSuffix (ToLower (we_lower env) h) ''.'') p
            | None \<Rightarrow> TrimSuffix v ''.''))"

definition canonicalForwardedHost :: "webEnv \<Rightarrow> string \<Rightarrow> string" where
  "canonicalForwardedHost env v = canonicalIntegrationTarget env (TrimSpace (fst (CutByte v (CHR '',''))))"

definition referrerHost :: "webEnv \<Rightarrow> string \<Rightarrow> string" where
  "referrerHost env ref =
     (if ref = [] then []
      else (case we_url_host env ref of None \<Rightarrow> [] | Some h \<Rightarrow> cleanHeader (ToLower (we_lower env) (TrimSpace h)) 255))"

section \<open>Which proxy headers are believed\<close>

definition rule_covers :: "webEnv \<Rightarrow> string \<Rightarrow> string \<Rightarrow> bool" where
  "rule_covers env target pattern =
     (let host = targetHostOnly env target in
      if target = pattern \<or> host = pattern then True
      else HasPrefix pattern ''*.''
         \<and> (let suffix = TrimPrefix pattern ''*''
            in (HasSuffix target suffix \<and> length suffix < length target) \<or> (HasSuffix host suffix \<and> length suffix < length host)))"

definition proxy_mode_name :: "string \<Rightarrow> bool" where
  "proxy_mode_name m \<longleftrightarrow> m \<in> {''direct'', ''generic'', ''cloudflare''}"

text \<open>The loop over the items; an item without \<open>=\<close> or with another mode is skipped.\<close>

fun match_items :: "webEnv \<Rightarrow> string \<Rightarrow> string list \<Rightarrow> string" where
  "match_items env target [] = []"
| "match_items env target (item # items) =
     (case CutByte (TrimSpace item) (CHR ''='') of (a, b, found) \<Rightarrow>
        if \<not> found then match_items env target items
        else (let pattern = ToLower (we_lower env) (TrimSpace a);
                  mode = ToLower (we_lower env) (TrimSpace b) in
              if \<not> proxy_mode_name mode then match_items env target items
              else if rule_covers env target pattern then mode
              else match_items env target items))"

definition matchProxyRule :: "webEnv \<Rightarrow> string \<Rightarrow> string \<Rightarrow> string" where
  "matchProxyRule env target0 raw =
     (let target = ToLower (we_lower env) (TrimSpace target0)
      in if target = [] \<or> TrimSpace raw = [] then [] else match_items env target (SplitByte raw (CHR '','')))"

definition proxyModeForRequest :: "webEnv \<Rightarrow> trapConfig \<Rightarrow> httpRequest \<Rightarrow> string \<Rightarrow> string \<Rightarrow> string" where
  "proxyModeForRequest env cfg r remote target =
     (let mode = matchProxyRule env target (tc_proxy_rules cfg) in
      if mode \<noteq> [] then mode
      else if tc_proxy_mode cfg \<noteq> ''auto'' then tc_proxy_mode cfg
      else if isPrivateOrLoopback env remote then
        (if validIP env (Header r ''CF-Connecting-IP'') \<noteq> [] \<and> TrimSpace (Header r ''CF-Ray'') \<noteq> [] then ''cloudflare''
         else if firstForwardedIP env (Header r ''X-Forwarded-For'') \<noteq> [] \<or> validIP env (Header r ''X-Real-IP'') \<noteq> [] then ''generic''
         else ''direct'')
      else ''direct'')"

definition forwardedHostTrusted :: "webEnv \<Rightarrow> trapConfig \<Rightarrow> httpRequest \<Rightarrow> bool" where
  "forwardedHostTrusted env cfg r =
     (if tc_proxy_mode cfg = ''generic'' \<or> tc_proxy_mode cfg = ''cloudflare'' then True
      else if tc_proxy_mode cfg \<noteq> ''auto'' then False
      else if \<not> isPrivateOrLoopback env (remoteIP env (hr_remote r)) then False
      else if firstForwardedIP env (Header r ''X-Forwarded-For'') \<noteq> [] \<or> validIP env (Header r ''X-Real-IP'') \<noteq> [] then True
      else validIP env (Header r ''CF-Connecting-IP'') \<noteq> [] \<and> TrimSpace (Header r ''CF-Ray'') \<noteq> [])"

definition requestArrivedThroughTrustedProxy :: "webEnv \<Rightarrow> trapConfig \<Rightarrow> httpRequest \<Rightarrow> string \<Rightarrow> bool" where
  "requestArrivedThroughTrustedProxy env cfg r direct =
     (proxyModeForRequest env cfg r (remoteIP env (hr_remote r)) direct \<in> {''generic'', ''cloudflare''})"

section \<open>Integrations\<close>

record integrationMeta =
  im_name :: string
  im_target :: string
  im_catch_all :: bool
  im_trust :: string
  im_key :: string
  im_valid :: bool

definition no_integration :: integrationMeta where
  "no_integration = \<lparr>im_name = [], im_target = [], im_catch_all = False, im_trust = [], im_key = [], im_valid = False\<rparr>"

definition cleanIntegrationName :: "webEnv \<Rightarrow> string \<Rightarrow> string" where
  "cleanIntegrationName env v0 =
     (let v = ToLower (we_lower env) (TrimSpace v0) in
      if v = [] \<or> 64 < length v then []
      else if list_all (\<lambda>c. (97 \<le> c \<and> c \<le> 122) \<or> (48 \<le> c \<and> c \<le> 57) \<or> c = 45 \<or> c = 95 \<or> c = 46) (runes v) then v
      else [])"

definition IntegrationSecrets :: "trapConfig \<Rightarrow> string list" where
  "IntegrationSecrets cfg = List.filter (\<lambda>v. v \<noteq> []) (map TrimSpace (SplitByte (tc_secret cfg) (CHR '','')))"

fun hex_decode :: "string \<Rightarrow> string option" where
  "hex_decode [] = Some []"
| "hex_decode [a] = None"
| "hex_decode (a # b # s) =
     (case (digit_value a, digit_value b) of
        (Some x, Some y) \<Rightarrow> if x < 16 \<and> y < 16 then map_option ((#) (char_of (16 * x + y))) (hex_decode s) else None
      | _ \<Rightarrow> None)"

definition integrationSignaturePayload ::
  "webEnv \<Rightarrow> string \<Rightarrow> string \<Rightarrow> string \<Rightarrow> bool \<Rightarrow> string \<Rightarrow> string \<Rightarrow> string" where
  "integrationSignaturePayload env ts name target catch_all method uri =
     Join [''v1'', ts, name, target, (if catch_all then ''1'' else ''0''), ToUpper (we_upper env) method, uri] [CHR 0x0A]"

definition integrationSecretKeyID :: "nat \<Rightarrow> string" where
  "integrationSecretKeyID i = ''key-'' @ Itoa (int i + 1)"

fun first_key :: "webEnv \<Rightarrow> string \<Rightarrow> string \<Rightarrow> nat \<Rightarrow> string list \<Rightarrow> nat option" where
  "first_key env payload got i [] = None"
| "first_key env payload got i (secret # secrets) =
     (if got = we_mac env secret payload then Some i else first_key env payload got (Suc i) secrets)"

text \<open>The Unix seconds of a time.\<close>

definition unix_time :: "gotime \<Rightarrow> int" where
  "unix_time t = t div second - 62135596800"

definition skew_ok :: "trapConfig \<Rightarrow> gotime \<Rightarrow> int \<Rightarrow> bool" where
  "skew_ok cfg now ts =
     (let max_skew = (if tc_max_skew cfg \<le> 0 then 300 else tc_max_skew cfg);
          delta = wrap64 (unix_time now - ts);
          delta = (if delta < 0 then wrap64 (- delta) else delta)
      in \<not> max_skew < delta)"

definition integrationTarget :: "webEnv \<Rightarrow> httpRequest \<Rightarrow> string" where
  "integrationTarget env r =
     (let target = canonicalIntegrationTarget env (Header r ''X-ZentLoop-Target'')
      in if target = [] then canonicalTarget env r else target)"

definition integrationMetaOf :: "webEnv \<Rightarrow> trapConfig \<Rightarrow> httpRequest \<Rightarrow> gotime \<Rightarrow> integrationMeta" where
  "integrationMetaOf env cfg r now =
     (let name = cleanIntegrationName env (Header r ''X-ZentLoop-Integration'') in
      if name = [] then no_integration
      else (let target = integrationTarget env r;
                catch_all = headerBool env (Header r ''X-ZentLoop-Catch-All'');
                secrets = IntegrationSecrets cfg in
            if secrets = [] then
              (if \<not> isPrivateOrLoopback env (remoteIP env (hr_remote r)) then no_integration
               else \<lparr>im_name = name, im_target = target, im_catch_all = catch_all, im_trust = ''private-peer'', im_key = [],
                     im_valid = True\<rparr>)
            else (let raw = TrimSpace (Header r ''X-ZentLoop-Timestamp'') in
                  case ParseInt raw 10 of
                    Parsed ts \<Rightarrow>
                      if \<not> skew_ok cfg now ts then no_integration
                      else (let sig = TrimPrefix (ToLower (we_lower env) (TrimSpace (Header r ''X-ZentLoop-Signature''))) ''sha256='' in
                            case hex_decode sig of
                              None \<Rightarrow> no_integration
                            | Some got \<Rightarrow>
                                if length got \<noteq> 32 then no_integration
                                else (case first_key env (integrationSignaturePayload env raw name target catch_all (hr_method r) (hr_uri r))
                                             got 0 secrets of
                                        None \<Rightarrow> no_integration
                                      | Some i \<Rightarrow> \<lparr>im_name = name, im_target = target, im_catch_all = catch_all, im_trust = ''signed'',
                                                   im_key = integrationSecretKeyID i, im_valid = True\<rparr>))
                  | _ \<Rightarrow> no_integration)))"

section \<open>The host the client asked for\<close>

definition originalRequestHost :: "webEnv \<Rightarrow> trapConfig \<Rightarrow> httpRequest \<Rightarrow> integrationMeta \<Rightarrow> string" where
  "originalRequestHost env cfg r im =
     (let direct = canonicalTarget env r;
          forwarded = canonicalForwardedHost env (Header r ''X-Forwarded-Host'');
          usable = (\<lambda>v. v \<noteq> [] \<and> \<not> internalUpstreamTarget env v) in
      if im_valid im then
        (let target = canonicalIntegrationTarget env (im_target im) in
         if usable target then target
         else if usable forwarded then forwarded
         else if usable target then target
         else [])
      else if usable forwarded \<and> forwardedHostTrusted env cfg r then forwarded
      else if internalUpstreamTarget env direct \<and> requestArrivedThroughTrustedProxy env cfg r direct then []
      else direct)"

section \<open>The country of an address\<close>

record geoResolver =
  ge_db :: string
  ge_cache :: "(string, string) gomap"

text \<open>The first two letters between quotes in the output of the lookup.\<close>

fun parse_quoted :: "string \<Rightarrow> string option" where
  "parse_quoted (q # a # b # e # s) =
     (if q = CHR 0x22 \<and> is_letter a \<and> is_letter b \<and> e = CHR 0x22 then Some [a, b] else parse_quoted (a # b # e # s))"
| "parse_quoted _ = None"

definition parseMMDBCountry :: "string \<Rightarrow> string" where
  "parseMMDBCountry v = (case parse_quoted v of None \<Rightarrow> [] | Some w \<Rightarrow> map ascii_upper w)"

definition geo_named :: "string \<Rightarrow> string \<times> string" where
  "geo_named code = (if code = [] then ([], []) else (code, ''geoip''))"

definition mmdb_code :: "webEnv \<Rightarrow> string \<Rightarrow> string" where
  "mmdb_code env ip = (case we_mmdb env ip of None \<Rightarrow> [] | Some out \<Rightarrow> parseMMDBCountry out)"

definition country :: "webEnv \<Rightarrow> string \<Rightarrow> geoResolver \<Rightarrow> (string \<times> string) \<times> geoResolver" where
  "country env ip_text g =
     (case we_parse_ip env (TrimSpace ip_text) of
        None \<Rightarrow> (([], []), g)
      | Some ip \<Rightarrow>
          if we_internal_ip env ip \<or> we_special_ip env ip then ((''LAN'', ''private''), g)
          else if ge_db g = [] then (([], []), g)
          else (case map_of (ge_cache g) ip of
                  Some v \<Rightarrow> (geo_named v, g)
                | None \<Rightarrow>
                    if \<not> we_geo_file env then (([], []), g)
                    else (geo_named (mmdb_code env ip), g\<lparr>ge_cache := AList.update ip (mmdb_code env ip) (ge_cache g)\<rparr>)))"

section \<open>The client\<close>

record clientMeta =
  cm_ip :: string
  cm_ip_source :: string
  cm_proxy :: string
  cm_country :: string
  cm_country_source :: string
  cm_ray :: string
  cm_colo :: string

text \<open>\<open>if meta.Country == "" { meta.Country, meta.CountrySource = s.geo.country(meta.IP) }\<close>\<close>

definition fill_country :: "webEnv \<Rightarrow> clientMeta \<Rightarrow> geoResolver \<Rightarrow> clientMeta \<times> geoResolver" where
  "fill_country env m g =
     (if cm_country m = [] then
        (case country env (cm_ip m) g of ((c, src), g') \<Rightarrow> (m\<lparr>cm_country := c, cm_country_source := src\<rparr>, g'))
      else (m, g))"

definition clientMetaOf ::
  "webEnv \<Rightarrow> trapConfig \<Rightarrow> httpRequest \<Rightarrow> string \<Rightarrow> geoResolver \<Rightarrow> clientMeta \<times> geoResolver" where
  "clientMetaOf env cfg r target g =
     (let remote = remoteIP env (hr_remote r);
          meta = \<lparr>cm_ip = remote, cm_ip_source = ''remote'', cm_proxy = ''direct'', cm_country = [], cm_country_source = [],
                  cm_ray = [], cm_colo = []\<rparr>;
          mode = proxyModeForRequest env cfg r remote target in
      if mode = ''cloudflare'' then
        (let c = cleanCountry env (Header r ''CF-IPCountry'');
             ray = cleanHeader (Header r ''CF-Ray'') 96;
             meta = meta\<lparr>cm_proxy := ''cloudflare'', cm_country := c,
                         cm_country_source := (if c = [] then [] else ''cloudflare''),
                         cm_ray := ray, cm_colo := cloudflareColo env ray\<rparr>;
             ip = validIP env (Header r ''CF-Connecting-IP'');
             v6 = validIP env (Header r ''CF-Connecting-IPv6'')
         in if isCloudflarePseudoIPv4 env ip \<and> v6 \<noteq> [] then
              fill_country env (meta\<lparr>cm_ip := v6, cm_ip_source := ''cf-connecting-ipv6''\<rparr>) g
            else if ip \<noteq> [] then fill_country env (meta\<lparr>cm_ip := ip, cm_ip_source := ''cf-connecting-ip''\<rparr>) g
            else fill_country env (meta\<lparr>cm_ip_source := ''remote (cf header missing)''\<rparr>) g)
      else if mode = ''generic'' then
        (let meta = meta\<lparr>cm_proxy := ''generic''\<rparr>;
             fwd = firstForwardedIP env (Header r ''X-Forwarded-For'');
             real = validIP env (Header r ''X-Real-IP'')
         in if fwd \<noteq> [] then fill_country env (meta\<lparr>cm_ip := fwd, cm_ip_source := ''x-forwarded-for''\<rparr>) g
            else if real \<noteq> [] then fill_country env (meta\<lparr>cm_ip := real, cm_ip_source := ''x-real-ip''\<rparr>) g
            else fill_country env meta g)
      else fill_country env meta g)"

definition selfOriginRequest :: "webEnv \<Rightarrow> clientMeta \<Rightarrow> string \<Rightarrow> bool \<Rightarrow> bool" where
  "selfOriginRequest env c target trusted =
     (trusted \<and> (case (we_parse_ip env (TrimSpace (cm_ip c)), we_parse_ip env (targetHostOnly env target)) of
                    (Some a, Some b) \<Rightarrow> a = b
                  | _ \<Rightarrow> False))"

section \<open>What is kept of a request\<close>

record requestMeta =
  rm_referrer :: string
  rm_referrer_host :: string
  rm_host :: string
  rm_target :: string
  rm_origin :: string
  rm_language :: string
  rm_protocol :: string
  rm_integration :: string
  rm_integration_trust :: string
  rm_catch_all :: bool

definition extractRequestMeta :: "webEnv \<Rightarrow> httpRequest \<Rightarrow> string \<Rightarrow> string \<Rightarrow> integrationMeta \<Rightarrow> requestMeta" where
  "extractRequestMeta env r host target im =
     (let ref = cleanHeader (Header r ''Referer'') 1024
      in \<lparr>rm_referrer = ref, rm_referrer_host = referrerHost env ref, rm_host = host, rm_target = target,
          rm_origin = cleanHeader (Header r ''Origin'') 512, rm_language = cleanHeader (Header r ''Accept-Language'') 256,
          rm_protocol = cleanHeader (hr_proto r) 32, rm_integration = im_name im, rm_integration_trust = im_trust im,
          rm_catch_all = im_catch_all im\<rparr>)"

end
