(* ===== verification/WebRequestProofs.thy ===== *)
theory WebRequestProofs
  imports WebRequest
begin

text \<open>
  The trust boundary of the web trap: what a public client can and cannot make the trap believe,
  which integration requests are accepted, which rule decides, and that the cache of countries
  only saves work.
\<close>

section \<open>Headers\<close>

lemma Header_other [simp]:
  "hr_remote (r\<lparr>hr_headers := hs\<rparr>) = hr_remote r" "hr_tls (r\<lparr>hr_headers := hs\<rparr>) = hr_tls r"
  "canonicalTarget env (r\<lparr>hr_headers := hs\<rparr>) = canonicalTarget env r"
  by (simp_all add: canonicalTarget_def Let_def split: option.split)

lemma proxy_mode_public:
  assumes "tc_proxy_mode cfg = ''auto''" "\<not> isPrivateOrLoopback env remote"
    "matchProxyRule env target (tc_proxy_rules cfg) = []"
  shows "proxyModeForRequest env cfg r remote target = ''direct''"
  using assms by (simp add: proxyModeForRequest_def)

lemma clientMeta_direct:
  assumes "proxyModeForRequest env cfg r (remoteIP env (hr_remote r)) target = ''direct''"
  shows "clientMetaOf env cfg r target g =
    fill_country env \<lparr>cm_ip = remoteIP env (hr_remote r), cm_ip_source = ''remote'', cm_proxy = ''direct'', cm_country = [],
                      cm_country_source = [], cm_ray = [], cm_colo = []\<rparr> g"
  using assms by (simp add: clientMetaOf_def Let_def)

lemma fill_country_ip [simp]:
  "cm_ip (fst (fill_country env m g)) = cm_ip m" "cm_proxy (fst (fill_country env m g)) = cm_proxy m"
  by (auto simp: fill_country_def split: prod.split)

lemma host_public:
  assumes "tc_proxy_mode cfg = ''auto''" "\<not> isPrivateOrLoopback env (remoteIP env (hr_remote r))" "\<not> im_valid im"
    "matchProxyRule env (canonicalTarget env r) (tc_proxy_rules cfg) = []"
  shows "originalRequestHost env cfg r im = canonicalTarget env r"
  using assms proxy_mode_public [of cfg env "remoteIP env (hr_remote r)" "canonicalTarget env r" r]
  by (simp add: originalRequestHost_def forwardedHostTrusted_def requestArrivedThroughTrustedProxy_def Let_def)

lemma unsigned_public_invalid:
  assumes "IntegrationSecrets cfg = []" "\<not> isPrivateOrLoopback env (remoteIP env (hr_remote r))"
  shows "integrationMetaOf env cfg r now = no_integration"
  using assms by (simp add: integrationMetaOf_def Let_def)

text \<open>C5: In automatic proxy mode, with no rule for the host and no shared secret, nothing that a client
  on a public address puts into its headers changes who the trap takes it for or which host it takes
  the request to be for: both are those of the connection, for any two sets of headers.
\<close>

theorem public_peer_cannot_spoof:
  fixes hs :: "(string, string) gomap"
  assumes "tc_proxy_mode cfg = ''auto''" "IntegrationSecrets cfg = []"
    and "\<not> isPrivateOrLoopback env (remoteIP env (hr_remote r))"
    and "matchProxyRule env (canonicalTarget env r) (tc_proxy_rules cfg) = []"
    and "r' = r\<lparr>hr_headers := hs\<rparr>" "im' = integrationMetaOf env cfg r' now" "host' = originalRequestHost env cfg r' im'"
  shows "\<not> im_valid im' \<and> host' = canonicalTarget env r
    \<and> clientMetaOf env cfg r' host' g = clientMetaOf env cfg r host' g
    \<and> cm_ip (fst (clientMetaOf env cfg r' host' g)) = remoteIP env (hr_remote r)
    \<and> cm_proxy (fst (clientMetaOf env cfg r' host' g)) = ''direct''"
proof -
  have im: "im' = no_integration" using assms unsigned_public_invalid [of cfg env r'] by simp
  have host: "host' = canonicalTarget env r"
    using host_public [of cfg env r' im'] assms(1,3,4,7) im by (simp add: assms(5) no_integration_def)
  have mode: "proxyModeForRequest env cfg q (remoteIP env (hr_remote r)) host' = ''direct''" for q
    using assms host by (simp add: proxy_mode_public)
  show ?thesis
    using im host mode [of r] mode [of r'] assms(5) clientMeta_direct [of env cfg r host' g] clientMeta_direct [of env cfg r' host' g]
    by (simp add: no_integration_def)
qed

definition web_env :: webEnv where
  "web_env = \<lparr>we_lower = (\<lambda>s. s), we_upper = (\<lambda>s. s),
     we_parse_ip = (\<lambda>s. if s \<in> {''9.9.9.9'', ''10.0.0.1'', ''7.7.7.7''} then Some s else None),
     we_internal_ip = (\<lambda>s. s = ''10.0.0.1''), we_special_ip = (\<lambda>s. False),
     we_mac = (\<lambda>k m. take 32 (k @ replicate 32 (CHR 0x41))), we_url_host = (\<lambda>s. None), we_geo_file = False,
     we_mmdb = (\<lambda>s. None)\<rparr>"

definition web_config :: trapConfig where
  "web_config = \<lparr>tc_proxy_mode = ''auto'', tc_proxy_rules = [], tc_secret = [], tc_max_skew = 300, tc_hostile = 60,
     tc_suspicious = 30, tc_live_minutes = 5, tc_resume_hours = 720, tc_geo_db = []\<rparr>"

definition web_request :: httpRequest where
  "web_request = \<lparr>hr_method = ''GET'', hr_path = ''/'', hr_escaped = ''/'', hr_query = [], hr_uri = ''/'', hr_host = ''a.b'',
     hr_remote = ''9.9.9.9:1'', hr_proto = ''HTTP/1.1'', hr_tls = False, hr_headers = [], hr_cookie = None, hr_body = []\<rparr>"

lemma web_remote: "remoteIP web_env ''9.9.9.9:1'' = ''9.9.9.9''"
  by code_simp

lemma web_public: "\<not> isPrivateOrLoopback web_env ''9.9.9.9''"
  by (simp add: isPrivateOrLoopback_def web_env_def TrimSpace_id char_is_space_def byte_in_def)

lemma web_secrets: "IntegrationSecrets web_config = []"
  by (simp add: IntegrationSecrets_def web_config_def)

lemma web_no_rule: "matchProxyRule web_env target (tc_proxy_rules web_config) = []"
  by (simp add: matchProxyRule_def web_config_def Let_def)

theorem public_peer_cannot_spoof_witness:
  "\<exists>r' host'. hr_headers r' = [(''X-Forwarded-For'', ''7.7.7.7'')]
     \<and> host' = originalRequestHost web_env web_config r' (integrationMetaOf web_env web_config r' 0)
     \<and> cm_ip (fst (clientMetaOf web_env web_config r' host' \<lparr>ge_db = [], ge_cache = []\<rparr>)) = ''9.9.9.9''"
proof -
  let ?r = "web_request\<lparr>hr_headers := [(''X-Forwarded-For'', ''7.7.7.7'')]\<rparr>"
  have remote: "remoteIP web_env (hr_remote web_request) = ''9.9.9.9''"
    unfolding web_request_def httpRequest.simps by (rule web_remote)
  have mode: "tc_proxy_mode web_config = ''auto''" by (simp add: web_config_def)
  have public: "\<not> isPrivateOrLoopback web_env (remoteIP web_env (hr_remote web_request))"
    unfolding remote by (rule web_public)
  show ?thesis
  proof (intro exI conjI)
    show "hr_headers ?r = [(''X-Forwarded-For'', ''7.7.7.7'')]" by simp
    show "cm_ip (fst (clientMetaOf web_env web_config ?r (originalRequestHost web_env web_config ?r
        (integrationMetaOf web_env web_config ?r 0)) \<lparr>ge_db = [], ge_cache = []\<rparr>)) = ''9.9.9.9''"
      unfolding remote [symmetric]
      using public_peer_cannot_spoof [OF mode web_secrets public web_no_rule refl refl refl,
        of "[(''X-Forwarded-For'', ''7.7.7.7'')]" 0 "\<lparr>ge_db = [], ge_cache = []\<rparr>"] by (elim conjE)
  qed (rule refl)
qed

section \<open>Signed metadata\<close>

lemma first_key_Some:
  "first_key env payload got i secrets = Some k \<Longrightarrow> i \<le> k \<and> k - i < length secrets \<and> got = we_mac env (secrets ! (k - i)) payload"
proof (induction secrets arbitrary: i)
  case (Cons a secrets)
  show ?case
  proof (cases "got = we_mac env a payload")
    case False
    then have "first_key env payload got (Suc i) secrets = Some k" using Cons.prems by simp
    then show ?thesis using Cons.IH [of "Suc i"] by (auto simp: nth_Cons' Suc_diff_Suc)
  qed (use Cons.prems in simp)
qed simp

lemma first_key_exists: "secret \<in> set secrets \<Longrightarrow> \<exists>k. first_key env payload (we_mac env secret payload) i secrets = Some k"
  by (induction secrets arbitrary: i) auto

lemma signed_metadata:
  assumes "IntegrationSecrets cfg \<noteq> []" "im = integrationMetaOf env cfg r now" "im_valid im"
  shows "\<exists>k ts. k < length (IntegrationSecrets cfg) \<and> im_trust im = ''signed'' \<and> im_key im = integrationSecretKeyID k
    \<and> ParseInt (TrimSpace (Header r ''X-ZentLoop-Timestamp'')) 10 = Parsed ts \<and> skew_ok cfg now ts
    \<and> hex_decode (TrimPrefix (ToLower (we_lower env) (TrimSpace (Header r ''X-ZentLoop-Signature''))) ''sha256='')
        = Some (we_mac env (IntegrationSecrets cfg ! k)
            (integrationSignaturePayload env (TrimSpace (Header r ''X-ZentLoop-Timestamp'')) (im_name im) (im_target im)
               (im_catch_all im) (hr_method r) (hr_uri r)))"
  using assms
  by (auto simp: integrationMetaOf_def no_integration_def Let_def split: if_splits parsed.splits option.splits)
    (drule first_key_Some, auto)

lemma parse_digits_nonneg: "parse_digits base base0 s n = Parsed v \<Longrightarrow> 0 \<le> v"
  by (induction base base0 s n rule: parse_digits.induct) (auto simp: Let_def split: if_splits option.splits)

lemma ParseUint_nonneg: "ParseUint s base = Parsed v \<Longrightarrow> 0 \<le> v"
  by (auto simp: ParseUint_def Let_def split: if_splits parsed.splits prod.splits dest: parse_digits_nonneg)

lemma ParseInt_range: "ParseInt s base = Parsed v \<Longrightarrow> int64_range v"
  by (auto simp: ParseInt_def Let_def int64_range_def split: list.splits if_splits parsed.splits dest: ParseUint_nonneg)

text \<open>The configured number of seconds, five minutes by default.\<close>

definition allowed_skew :: "trapConfig \<Rightarrow> int" where
  "allowed_skew cfg = (if tc_max_skew cfg \<le> 0 then 300 else tc_max_skew cfg)"

text \<open>The window of timestamps: those within the configured skew, on either side, and one more, the
  timestamp 2 to the 63 seconds in the past, whose distance overflows.
\<close>

lemma skew_window:
  assumes "tc_max_skew cfg < 2 ^ 62" "0 \<le> unix_time now" "unix_time now < 2 ^ 62" "int64_range ts"
  shows "skew_ok cfg now ts \<longleftrightarrow> \<bar>unix_time now - ts\<bar> \<le> allowed_skew cfg \<or> unix_time now - ts = 2 ^ 63"
proof -
  have skew: "0 < allowed_skew cfg" "allowed_skew cfg < 2 ^ 62" using assms(1) by (simp_all add: allowed_skew_def)
  define d where "d = unix_time now - ts"
  have d: "- (2 ^ 63) < d" "d < 2 ^ 63 + 2 ^ 62" using assms(2-4) by (simp_all add: d_def int64_range_def)
  consider "d < 2 ^ 63" | "d = 2 ^ 63" | "2 ^ 63 < d" by linarith
  then have "(let e = wrap64 d in let e = (if e < 0 then wrap64 (- e) else e) in \<not> allowed_skew cfg < e)
      \<longleftrightarrow> \<bar>d\<bar> \<le> allowed_skew cfg \<or> d = 2 ^ 63"
  proof cases
    case 1
    then have "wrap64 d = d" "wrap64 (- d) = - d" if "d < 0 \<or> True"
      using d by (simp_all add: wrap64_small)
    then show ?thesis using 1 skew(1) by (auto simp: Let_def abs_if)
  next
    case 2
    then have "wrap64 d = - (2 ^ 63)" "wrap64 (2 ^ 63) = - (2 ^ 63)" by (simp_all add: wrap64_def)
    then show ?thesis using 2 skew by (simp add: Let_def)
  next
    case 3
    have "(d + 2 ^ 63) mod 2 ^ 64 = (d + 2 ^ 63 - 2 ^ 64) mod 2 ^ 64" by (rule minus_mod_self2 [symmetric])
    also have "\<dots> = d + 2 ^ 63 - 2 ^ 64" using 3 d by (intro mod_pos_pos_trivial) simp_all
    finally have w: "wrap64 d = d - 2 ^ 64" by (simp add: wrap64_def)
    have "wrap64 (2 ^ 64 - d) = 2 ^ 64 - d" using d 3 by (simp add: wrap64_small)
    then show ?thesis using 3 d w skew(2) by (simp add: Let_def)
  qed
  then show ?thesis by (simp add: skew_ok_def allowed_skew_def d_def Let_def)
qed

text \<open>C16: When secrets are configured, an integration is only believed, from any address, when the request
  carries the HMAC, under one of the secrets, of exactly the metadata that is used, with the method and
  the URI of this request, and a timestamp that is at most the allowed number of seconds (300 when none is
  configured) before or after the clock. One other timestamp is let through: the one exactly \<open>2 ^ 63\<close>
  seconds before the clock, whose distance overflows. (The clock is at or after 1970, and clock and
  configuration are below \<open>2 ^ 62\<close> seconds.)
\<close>

theorem signed_metadata_sound:
  assumes "IntegrationSecrets cfg \<noteq> []" "im = integrationMetaOf env cfg r now" "im_valid im"
    and "tc_max_skew cfg < 2 ^ 62" "0 \<le> unix_time now" "unix_time now < 2 ^ 62"
  shows "\<exists>k ts. k < length (IntegrationSecrets cfg) \<and> im_trust im = ''signed'' \<and> im_key im = integrationSecretKeyID k
    \<and> ParseInt (TrimSpace (Header r ''X-ZentLoop-Timestamp'')) 10 = Parsed ts
    \<and> (\<bar>unix_time now - ts\<bar> \<le> (if tc_max_skew cfg \<le> 0 then 300 else tc_max_skew cfg) \<or> ts = unix_time now - 2 ^ 63)
    \<and> hex_decode (TrimPrefix (ToLower (we_lower env) (TrimSpace (Header r ''X-ZentLoop-Signature''))) ''sha256='')
        = Some (we_mac env (IntegrationSecrets cfg ! k)
            (integrationSignaturePayload env (TrimSpace (Header r ''X-ZentLoop-Timestamp'')) (im_name im) (im_target im)
               (im_catch_all im) (hr_method r) (hr_uri r)))"
proof -
  obtain k ts where k: "k < length (IntegrationSecrets cfg)" "im_trust im = ''signed''" "im_key im = integrationSecretKeyID k"
      "hex_decode (TrimPrefix (ToLower (we_lower env) (TrimSpace (Header r ''X-ZentLoop-Signature''))) ''sha256='')
        = Some (we_mac env (IntegrationSecrets cfg ! k)
            (integrationSignaturePayload env (TrimSpace (Header r ''X-ZentLoop-Timestamp'')) (im_name im) (im_target im)
               (im_catch_all im) (hr_method r) (hr_uri r)))"
    and ts: "ParseInt (TrimSpace (Header r ''X-ZentLoop-Timestamp'')) 10 = Parsed ts" "skew_ok cfg now ts"
    using signed_metadata [OF assms(1-3)] by blast
  have "\<bar>unix_time now - ts\<bar> \<le> allowed_skew cfg \<or> unix_time now - ts = 2 ^ 63"
    using skew_window [OF assms(4-6) ParseInt_range [OF ts(1)]] ts(2) by simp
  then have "\<bar>unix_time now - ts\<bar> \<le> (if tc_max_skew cfg \<le> 0 then 300 else tc_max_skew cfg) \<or> ts = unix_time now - 2 ^ 63"
    by (auto simp: allowed_skew_def)
  then show ?thesis using k ts(1) by blast
qed

text \<open>The headers of an integration that signs as \<open>docs/INTEGRATION_PROTOCOL.md\<close> says.\<close>

definition sign_headers :: "webEnv \<Rightarrow> string \<Rightarrow> int \<Rightarrow> string \<Rightarrow> string \<Rightarrow> bool \<Rightarrow> string \<Rightarrow> string \<Rightarrow> (string, string) gomap" where
  "sign_headers env secret ts name target catch_all method uri =
     [(''X-Zentloop-Integration'', name), (''X-Zentloop-Target'', target),
      (''X-Zentloop-Catch-All'', if catch_all then ''1'' else ''0''), (''X-Zentloop-Timestamp'', Itoa ts),
      (''X-Zentloop-Signature'',
       ''sha256='' @ hex_encode (we_mac env secret (integrationSignaturePayload env (Itoa ts) name target catch_all method uri)))]"

lemma hex_decode_encode [simp]: "hex_decode (hex_encode s) = Some s"
proof (induction s)
  case (Cons c s)
  have "(of_char c :: nat) < 16 * 16" using of_char_less_256 [of c] by simp
  then have d: "(of_char c :: nat) div 16 < 16" by (simp only: less_mult_imp_div_less)
  have "(16 * (of_char c div 16) + of_char c mod 16 :: nat) = of_char c" by simp
  then have "char_of (16 * (of_char c div 16) + of_char c mod 16 :: nat) = c" by simp
  then show ?case using Cons d by (simp add: hex_encode_def digit_value_digit_char)
qed (simp add: hex_encode_def)

lemma hex_encode_digits: "c \<in> set (hex_encode s) \<Longrightarrow> \<exists>d < 16. c = digit_char d"
proof -
  assume "c \<in> set (hex_encode s)"
  then obtain x where "x \<in> set s" "c = digit_char (of_char x div 16) \<or> c = digit_char (of_char x mod 16)"
    by (auto simp: hex_encode_def)
  moreover have "(of_char x :: nat) < 16 * 16" using of_char_less_256 [of x] by simp
  then have "(of_char x :: nat) div 16 < 16" by (simp only: less_mult_imp_div_less)
  ultimately show ?thesis by (auto intro: exI [of _ "(of_char x :: nat) div 16"] exI [of _ "(of_char x :: nat) mod 16"])
qed

lemma word_digit_char:
  assumes "d < 36"
  shows "(of_char (digit_char d) :: nat) < 128" "\<not> char_is_space (digit_char d)" "ascii_lower (digit_char d) = digit_char d"
proof -
  have v: "48 \<le> (of_char (digit_char d) :: nat) \<and> (of_char (digit_char d) :: nat) < 65 \<or>
      97 \<le> (of_char (digit_char d) :: nat) \<and> (of_char (digit_char d) :: nat) < 128"
    using of_char_digit_char [OF assms] assms by auto
  then show "(of_char (digit_char d) :: nat) < 128" by auto
  have "digit_char d \<noteq> CHR '' ''" using v of_char_eq_iff_char_of [of "digit_char d"] by auto
  then show "\<not> char_is_space (digit_char d)" using v by (auto simp: char_is_space_def byte_in_def)
  show "ascii_lower (digit_char d) = digit_char d" using v by (auto simp: ascii_lower_def is_upper_def byte_in_def)
qed

text \<open>Words without space, which trimming and lowering leave as they are.\<close>

definition plain_word :: "string \<Rightarrow> bool" where
  "plain_word w \<longleftrightarrow> w \<noteq> [] \<and> (\<forall>c \<in> set w. (of_char c :: nat) < 128 \<and> \<not> char_is_space c \<and> ascii_lower c = c)"

lemma plain_word_trim: "plain_word w \<Longrightarrow> TrimSpace w = w"
  by (rule TrimSpace_id) (auto simp: plain_word_def)

lemma plain_word_lower: "plain_word w \<Longrightarrow> ToLower uni w = w"
  by (auto simp: plain_word_def ToLower_def is_ascii_def intro: map_idI)

lemma plain_word_append: "plain_word v \<Longrightarrow> plain_word w \<Longrightarrow> plain_word (v @ w)"
  by (auto simp: plain_word_def)

lemma plain_word_hex: "s \<noteq> [] \<Longrightarrow> plain_word (hex_encode s)"
proof -
  assume "s \<noteq> []"
  then have "hex_encode s \<noteq> []" by (cases s) (simp_all add: hex_encode_def)
  moreover have "(of_char c :: nat) < 128 \<and> \<not> char_is_space c \<and> ascii_lower c = c" if c: "c \<in> set (hex_encode s)" for c
  proof -
    obtain d where "d < 16" "c = digit_char d" using hex_encode_digits [OF c] by blast
    then show ?thesis using word_digit_char [of d] by simp
  qed
  ultimately show ?thesis by (simp add: plain_word_def)
qed

lemma plain_word_prefix: "plain_word ''sha256=''"
  by (simp add: plain_word_def char_is_space_def byte_in_def ascii_lower_def is_upper_def)

lemma trim_Itoa: "TrimSpace (Itoa i) = Itoa i"
proof (rule plain_word_trim)
  have "plain_word (nat_digits 10 n)" for n
    unfolding plain_word_def
  proof (intro conjI ballI)
    fix c assume "c \<in> set (nat_digits 10 n)"
    then obtain d where "d < 10" "c = digit_char d" using set_nat_digits [of 10 c n] by auto
    then show "(of_char c :: nat) < 128" "\<not> char_is_space c" "ascii_lower c = c"
      using word_digit_char [of d] by simp_all
  qed (simp add: nat_digits_nonempty)
  moreover have "plain_word ''-''"
    by (simp add: plain_word_def char_is_space_def byte_in_def ascii_lower_def is_upper_def)
  ultimately show "plain_word (Itoa i)"
    using plain_word_append [of "''-''"] by (simp add: Itoa_def FormatInt_def)
qed

lemma canonical_keys:
  "canonical_key True ''X-ZentLoop-Integration'' = ''X-Zentloop-Integration''"
  "canonical_key True ''X-ZentLoop-Target'' = ''X-Zentloop-Target''"
  "canonical_key True ''X-ZentLoop-Catch-All'' = ''X-Zentloop-Catch-All''"
  "canonical_key True ''X-ZentLoop-Timestamp'' = ''X-Zentloop-Timestamp''"
  "canonical_key True ''X-ZentLoop-Signature'' = ''X-Zentloop-Signature''"
  by code_simp+

lemma sign_headers_fields:
  assumes "hr_headers r = sign_headers env secret ts name target catch_all method uri"
  shows "Header r ''X-ZentLoop-Integration'' = name" "Header r ''X-ZentLoop-Target'' = target"
    "Header r ''X-ZentLoop-Catch-All'' = (if catch_all then ''1'' else ''0'')" "Header r ''X-ZentLoop-Timestamp'' = Itoa ts"
    "Header r ''X-ZentLoop-Signature'' =
       ''sha256='' @ hex_encode (we_mac env secret (integrationSignaturePayload env (Itoa ts) name target catch_all method uri))"
  using assms
  by (simp_all only: Header_def canonical_keys) (simp_all add: sign_headers_def lookup_or_def)

lemma headerBool_digit: "headerBool env (if b then ''1'' else ''0'') = b"
proof -
  have "plain_word ''1''" "plain_word ''0''"
    by (simp_all add: plain_word_def char_is_space_def byte_in_def ascii_lower_def is_upper_def)
  then show ?thesis by (simp add: headerBool_def plain_word_trim plain_word_lower)
qed

lemma signed_accepted:
  assumes "hr_headers r = sign_headers env secret ts name target catch_all (hr_method r) (hr_uri r)"
    and "secret \<in> set (IntegrationSecrets cfg)" "skew_ok cfg now ts" "- (2 ^ 63) < ts" "ts < 2 ^ 63"
    and "cleanIntegrationName env name = name" "name \<noteq> []" "canonicalIntegrationTarget env target = target" "target \<noteq> []"
    and "\<And>m. length (we_mac env secret m) = 32"
  shows "\<exists>k. integrationMetaOf env cfg r now =
    \<lparr>im_name = name, im_target = target, im_catch_all = catch_all, im_trust = ''signed'', im_key = integrationSecretKeyID k, im_valid = True\<rparr>"
proof -
  let ?p = "integrationSignaturePayload env (Itoa ts) name target catch_all (hr_method r) (hr_uri r)"
  let ?sig = "''sha256='' @ hex_encode (we_mac env secret ?p)"
  note fields = sign_headers_fields [OF assms(1)]
  have ts: "ParseInt (Itoa ts) 10 = Parsed ts" using Atoi_Itoa [OF assms(4,5)] by (simp add: Atoi_def)
  have "we_mac env secret ?p \<noteq> []" using assms(10) [of ?p] by auto
  then have "plain_word ?sig" by (intro plain_word_append plain_word_prefix plain_word_hex)
  then have sig: "TrimPrefix (ToLower (we_lower env) (TrimSpace ?sig)) ''sha256='' = hex_encode (we_mac env secret ?p)"
    unfolding plain_word_trim [OF \<open>plain_word ?sig\<close>] plain_word_lower [OF \<open>plain_word ?sig\<close>]
    by (simp add: TrimPrefix_def HasPrefix_def)
  obtain k where k: "first_key env ?p (we_mac env secret ?p) 0 (IntegrationSecrets cfg) = Some k"
    using first_key_exists [OF assms(2)] by blast
  have target: "integrationTarget env r = target" using assms(8,9) fields by (simp add: integrationTarget_def)
  have some: "IntegrationSecrets cfg \<noteq> []" using assms(2) by auto
  show ?thesis
    by (rule exI [of _ k]) (use some assms(3,6,7,10) target k ts fields sig
      in \<open>simp add: integrationMetaOf_def Let_def trim_Itoa headerBool_digit del: append.simps append_Cons\<close>)
qed


text \<open>C30: A request signed as the protocol says is accepted from any address: with its name, target and
  catch-all mark as they were signed, as long as the timestamp is fresh and the secret is configured.
\<close>

theorem signed_request_accepted:
  assumes "hr_headers r = sign_headers env secret ts name target catch_all (hr_method r) (hr_uri r)"
    and "secret \<in> set (IntegrationSecrets cfg)" "skew_ok cfg now ts" "- (2 ^ 63) < ts" "ts < 2 ^ 63"
    and "cleanIntegrationName env name = name" "name \<noteq> []" "canonicalIntegrationTarget env target = target" "target \<noteq> []"
    and "\<And>m. length (we_mac env secret m) = 32"
  shows "\<exists>k. integrationMetaOf env cfg r now =
    \<lparr>im_name = name, im_target = target, im_catch_all = catch_all, im_trust = ''signed'', im_key = integrationSecretKeyID k, im_valid = True\<rparr>"
  by (rule signed_accepted [OF assms])

definition signed_config :: trapConfig where
  "signed_config = web_config\<lparr>tc_secret := ''k''\<rparr>"

text \<open>The beginning of 1970.\<close>

definition clock_start :: gotime where "clock_start = 62135596800 * second"

lemma clock_start [simp]: "unix_time clock_start = 0"
  by (simp add: clock_start_def unix_time_def second_def)

definition signed_request :: httpRequest where
  "signed_request = web_request\<lparr>hr_headers := sign_headers web_env ''k'' 0 ''npm'' ''a.b'' True ''GET'' ''/''\<rparr>"

lemma signed_facts:
  "hr_headers signed_request = sign_headers web_env ''k'' 0 ''npm'' ''a.b'' True (hr_method signed_request) (hr_uri signed_request)"
  "IntegrationSecrets signed_config = [''k'']" "skew_ok signed_config clock_start 0"
  "cleanIntegrationName web_env ''npm'' = ''npm''" "canonicalIntegrationTarget web_env ''a.b'' = ''a.b''"
  "length (we_mac web_env ''k'' m) = 32"
proof -
  have words: "plain_word ''k''" "plain_word ''npm''" "plain_word ''a.b''"
    by (simp_all add: plain_word_def char_is_space_def byte_in_def ascii_lower_def is_upper_def)
  show "hr_headers signed_request = sign_headers web_env ''k'' 0 ''npm'' ''a.b'' True (hr_method signed_request) (hr_uri signed_request)"
    by (simp add: signed_request_def web_request_def)
  show "IntegrationSecrets signed_config = [''k'']"
    by (simp add: IntegrationSecrets_def signed_config_def web_config_def plain_word_trim [OF words(1)])
  show "skew_ok signed_config clock_start 0"
    by (simp add: skew_ok_def wrap64_def signed_config_def web_config_def)
  show "cleanIntegrationName web_env ''npm'' = ''npm''"
    unfolding cleanIntegrationName_def Let_def plain_word_trim [OF words(2)] plain_word_lower [OF words(2)]
    by (simp add: runes_ascii)
  have "cleanHeader ''a.b'' 255 = ''a.b''"
    by (simp add: cleanHeader_def plain_word_trim [OF words(3)] runes_ascii Let_def)
  then show "canonicalIntegrationTarget web_env ''a.b'' = ''a.b''"
    by (simp add: canonicalIntegrationTarget_def plain_word_lower [OF words(3)] plain_word_trim [OF words(3)]
        SplitHostPort_no_colon TrimSuffix_id Let_def)
  show "length (we_mac web_env ''k'' m) = 32" by (simp add: web_env_def)
qed

theorem signed_request_accepted_witness:
  "im_valid (integrationMetaOf web_env signed_config signed_request clock_start)"
proof -
  have "''k'' \<in> set (IntegrationSecrets signed_config)" by (simp add: signed_facts)
  then have "\<exists>k. integrationMetaOf web_env signed_config signed_request clock_start =
      \<lparr>im_name = ''npm'', im_target = ''a.b'', im_catch_all = True, im_trust = ''signed'', im_key = integrationSecretKeyID k, im_valid = True\<rparr>"
    by (intro signed_request_accepted [OF signed_facts(1)]) (simp_all add: signed_facts)
  then show ?thesis by auto
qed

theorem signed_metadata_sound_witness:
  "im_trust (integrationMetaOf web_env signed_config signed_request clock_start) = ''signed''"
proof -
  have "''k'' \<in> set (IntegrationSecrets signed_config)" by (simp add: signed_facts)
  then have "\<exists>k. integrationMetaOf web_env signed_config signed_request clock_start =
      \<lparr>im_name = ''npm'', im_target = ''a.b'', im_catch_all = True, im_trust = ''signed'', im_key = integrationSecretKeyID k, im_valid = True\<rparr>"
    by (intro signed_accepted [OF signed_facts(1)]) (simp_all add: signed_facts)
  then have valid: "im_valid (integrationMetaOf web_env signed_config signed_request clock_start)" by auto
  have "IntegrationSecrets signed_config \<noteq> []" by (simp add: signed_facts)
  from signed_metadata_sound [OF this refl valid] show ?thesis
    by (simp add: signed_config_def web_config_def) (elim exE conjE)
qed

lemma newline_split:
  assumes "c \<notin> set v" "c \<notin> set w" "v @ c # s = w @ c # t"
  shows "v = w \<and> s = t"
proof -
  have "takeWhile (\<lambda>x. x \<noteq> c) (v @ c # s) = v" "takeWhile (\<lambda>x. x \<noteq> c) (w @ c # t) = w"
    using assms(1,2) by (auto simp: takeWhile_append2 takeWhile_tail)
  then show ?thesis using assms(3) by auto
qed

text \<open>
  A signature is for one request: two requests whose timestamp, name, target and method have no
  line feed have the same signed text only when all six of its fields are the same.
\<close>

theorem payload_injective:
  assumes "integrationSignaturePayload env ts name target ca m uri = integrationSignaturePayload env ts' name' target' ca' m' uri'"
    and "CHR 0x0A \<notin> set ts \<union> set name \<union> set target \<union> set (ToUpper (we_upper env) m)"
    and "CHR 0x0A \<notin> set ts' \<union> set name' \<union> set target' \<union> set (ToUpper (we_upper env) m')"
  shows "ts = ts' \<and> name = name' \<and> target = target' \<and> ca = ca' \<and> ToUpper (we_upper env) m = ToUpper (we_upper env) m' \<and> uri = uri'"
proof -
  have "ts @ CHR 0x0A # name @ CHR 0x0A # target @ CHR 0x0A # (if ca then ''1'' else ''0'') @ CHR 0x0A # ToUpper (we_upper env) m @ CHR 0x0A # uri
      = ts' @ CHR 0x0A # name' @ CHR 0x0A # target' @ CHR 0x0A # (if ca' then ''1'' else ''0'') @ CHR 0x0A # ToUpper (we_upper env) m' @ CHR 0x0A # uri'"
    using assms(1) by (simp add: integrationSignaturePayload_def)
  from newline_split [OF _ _ this] assms(2,3) have 1: "ts = ts'"
    "name @ CHR 0x0A # target @ CHR 0x0A # (if ca then ''1'' else ''0'') @ CHR 0x0A # ToUpper (we_upper env) m @ CHR 0x0A # uri
      = name' @ CHR 0x0A # target' @ CHR 0x0A # (if ca' then ''1'' else ''0'') @ CHR 0x0A # ToUpper (we_upper env) m' @ CHR 0x0A # uri'"
    by blast+
  from newline_split [OF _ _ 1(2)] assms(2,3) have 2: "name = name'"
    "target @ CHR 0x0A # (if ca then ''1'' else ''0'') @ CHR 0x0A # ToUpper (we_upper env) m @ CHR 0x0A # uri
      = target' @ CHR 0x0A # (if ca' then ''1'' else ''0'') @ CHR 0x0A # ToUpper (we_upper env) m' @ CHR 0x0A # uri'"
    by blast+
  from newline_split [OF _ _ 2(2)] assms(2,3) have 3: "target = target'"
    "(if ca then ''1'' else ''0'') @ CHR 0x0A # ToUpper (we_upper env) m @ CHR 0x0A # uri
      = (if ca' then ''1'' else ''0'') @ CHR 0x0A # ToUpper (we_upper env) m' @ CHR 0x0A # uri'"
    by blast+
  then have 4: "ca = ca'" "ToUpper (we_upper env) m @ CHR 0x0A # uri = ToUpper (we_upper env) m' @ CHR 0x0A # uri'"
    by (auto split: if_splits)
  from newline_split [OF _ _ 4(2)] assms(2,3) have "ToUpper (we_upper env) m = ToUpper (we_upper env) m'" "uri = uri'"
    by blast+
  then show ?thesis using 1 2 3 4 by blast
qed

theorem skew_window_witness:
  "skew_ok web_config (62135596800 * second) 300 \<and> \<not> skew_ok web_config (62135596800 * second) 301
   \<and> skew_ok web_config (62135596800 * second) (- (2 ^ 63))"
proof -
  have now: "unix_time (62135596800 * second) = 0" by (simp add: unix_time_def second_def)
  show ?thesis
    using skew_window [of web_config "62135596800 * second" 300] skew_window [of web_config "62135596800 * second" 301]
      skew_window [of web_config "62135596800 * second" "- (2 ^ 63)"]
    by (simp add: now int64_range_def web_config_def allowed_skew_def)
qed

section \<open>The rules\<close>

definition rule_word :: "string \<Rightarrow> bool" where
  "rule_word w \<longleftrightarrow> plain_word w \<and> CHR '','' \<notin> set w \<and> CHR ''='' \<notin> set w"

definition rules_text :: "(string \<times> string) list \<Rightarrow> string" where
  "rules_text rules = Join (map (\<lambda>(p, m). p @ ''='' @ m) rules) '',''"

lemma CutByte_found: "c \<notin> set a \<Longrightarrow> CutByte (a @ c # b) c = (a, b, True)"
proof -
  assume "c \<notin> set a"
  then have "IndexByte (a @ c # b) c = Some (length a)" by (induction a) auto
  then show ?thesis by (simp add: CutByte_def)
qed

lemma match_items_rules:
  "\<forall>(p, m) \<in> set rules. rule_word p \<and> rule_word m \<and> proxy_mode_name m \<Longrightarrow>
     match_items env target (map (\<lambda>(p, m). p @ ''='' @ m) rules)
       = (case List.find (\<lambda>(p, m). rule_covers env target p) rules of None \<Rightarrow> [] | Some (p, m) \<Rightarrow> m)"
proof (induction rules)
  case (Cons rule rules)
  obtain p m where rule: "rule = (p, m)" by (cases rule)
  have w: "rule_word p" "rule_word m" "proxy_mode_name m" using Cons.prems rule by auto
  have "plain_word ''=''" by (simp add: plain_word_def char_is_space_def byte_in_def ascii_lower_def is_upper_def)
  then have "plain_word (p @ ''='' @ m)" using w by (intro plain_word_append) (simp_all add: rule_word_def)
  then have "TrimSpace (p @ ''='' @ m) = p @ ''='' @ m" by (rule plain_word_trim)
  moreover have "CutByte (p @ CHR ''='' # m) (CHR ''='') = (p, m, True)"
    using w(1) by (intro CutByte_found) (simp add: rule_word_def)
  ultimately show ?case
    using Cons w by (simp add: rule rule_word_def plain_word_trim plain_word_lower Let_def)
qed simp

lemma rules_text_nonempty: "rules \<noteq> [] \<Longrightarrow> \<forall>(p, m) \<in> set rules. rule_word p \<Longrightarrow> plain_word (take 1 (rules_text rules))"
proof (cases rules)
  case (Cons rule rest)
  assume all: "\<forall>(p, m) \<in> set rules. rule_word p"
  obtain p m where rule: "rule = (p, m)" by (cases rule)
  then have "rule_word p" using all Cons by auto
  then obtain c q where p: "p = c # q" by (cases p) (auto simp: rule_word_def plain_word_def)
  have "take 1 (rules_text rules) = [c]" by (cases rest) (auto simp: rules_text_def Cons rule p)
  then show ?thesis using \<open>rule_word p\<close> by (simp add: p rule_word_def plain_word_def)
qed simp

lemma TrimSpace_nonempty: "plain_word (take 1 s) \<Longrightarrow> TrimSpace s \<noteq> []"
proof (cases s)
  case (Cons c t)
  assume "plain_word (take 1 s)"
  then have c: "(of_char c :: nat) < 128" "\<not> char_is_space c" by (simp_all add: Cons plain_word_def)
  then have no: "\<not> rune_is_space (of_char c)" by (simp add: rune_is_space_of_char)
  have "dropWhileEnd (\<lambda>p. rune_is_space (fst p)) (utf8_chunks s) \<noteq> []"
  proof
    assume "dropWhileEnd (\<lambda>p. rune_is_space (fst p)) (utf8_chunks s) = []"
    then have "\<forall>p \<in> set (utf8_chunks s). rune_is_space (fst p)"
      by (simp add: dropWhileEnd_def dropWhile_eq_Nil_conv)
    then show False using c(1) no by (simp add: Cons)
  qed
  then obtain p ps where "dropWhileEnd (\<lambda>p. rune_is_space (fst p)) (utf8_chunks s) = p # ps" by (meson neq_Nil_conv)
  moreover have "p \<in> set (utf8_chunks s)" using calculation set_dropWhileEnd [of _ "utf8_chunks s"] by (metis list.set_intros(1) subsetD)
  ultimately show ?thesis using c no utf8_chunk_nonempty [of p s] by (simp add: TrimSpace_def Cons)
qed (simp add: plain_word_def)

text \<open>The table of proxy rules means what it says: for rules written as pattern and mode, the mode
  used for a target is that of the first rule in order that covers it, and none when no rule does.
\<close>

lemma rules_first_match:
  assumes "\<forall>(p, m) \<in> set rules. rule_word p \<and> rule_word m \<and> proxy_mode_name m" "plain_word target"
  shows "matchProxyRule env target (rules_text rules)
    = (case List.find (\<lambda>(p, m). rule_covers env target p) rules of None \<Rightarrow> [] | Some (p, m) \<Rightarrow> m)"
proof (cases "rules = []")
  case False
  have "TrimSpace (rules_text rules) \<noteq> []"
    using rules_text_nonempty [OF False] assms(1) by (intro TrimSpace_nonempty) auto
  moreover have "SplitByte (rules_text rules) (CHR '','') = map (\<lambda>(p, m). p @ ''='' @ m) rules"
    unfolding rules_text_def using False assms(1) by (intro SplitByte_Join) (auto simp: rule_word_def)
  ultimately show ?thesis
    using match_items_rules [OF assms(1), of env target] assms(2)
    by (simp add: matchProxyRule_def plain_word_trim plain_word_lower Let_def) (simp add: plain_word_def)
qed (simp add: rules_text_def matchProxyRule_def Let_def)

theorem rules_first_match_witness:
  "matchProxyRule web_env ''x.b'' (rules_text [(''*.b'', ''generic''), (''x.b'', ''cloudflare'')]) = ''generic''"
proof -
  have words: "rule_word ''*.b''" "rule_word ''x.b''" "rule_word ''generic''" "rule_word ''cloudflare''" "plain_word ''x.b''"
    by (simp_all add: rule_word_def plain_word_def char_is_space_def byte_in_def ascii_lower_def is_upper_def)
  have host: "targetHostOnly web_env ''x.b'' = ''x.b''"
    using words(5) by (simp add: targetHostOnly_def SplitHostPort_no_colon plain_word_trim plain_word_lower TrimBytes_id)
  have "rule_covers web_env ''x.b'' ''*.b''"
    by (simp add: rule_covers_def host Let_def HasPrefix_def TrimPrefix_def HasSuffix_def)
  then show ?thesis
    using rules_first_match [of "[(''*.b'', ''generic''), (''x.b'', ''cloudflare'')]" "''x.b''" web_env] words
    by (simp add: proxy_mode_name_def)
qed

section \<open>What is kept is clean\<close>

lemma utf8_take_ascii:
  assumes "utf8_size (a # s) \<noteq> 0" "c \<in> set (take (utf8_size (a # s)) (a # s))" "(of_char c :: nat) < 128"
  shows "take (utf8_size (a # s)) (a # s) = [c]"
proof (rule utf8_size_cases [OF refl assms(1)])
qed (use assms(2,3) in \<open>auto simp: cont_byte_def byte_in_def take_Cons' split: if_splits\<close>)

lemma ascii_byte_rune: "c \<in> set s \<Longrightarrow> (of_char c :: nat) < 128 \<Longrightarrow> of_char c \<in> set (runes s)"
proof (induction s rule: utf8_chunks.induct)
  case (2 a s)
  show ?case
  proof (cases "utf8_size (a # s) = 0")
    case True
    then have "\<not> (of_char a :: nat) < 128" by auto
    then have "c \<noteq> a" using 2(4) by auto
    then show ?thesis using 2 True by (simp add: runes_def utf8_chunks_invalid)
  next
    case False
    let ?n = "utf8_size (a # s)"
    have "c \<in> set (take ?n (a # s)) \<or> c \<in> set (drop ?n (a # s))"
      using 2(3) by (metis UnE append_take_drop_id set_append)
    then show ?thesis
    proof
      assume "c \<in> set (take ?n (a # s))"
      then have "take ?n (a # s) = [c]" using utf8_take_ascii [OF False] 2(4) by blast
      then show ?thesis using False by (simp add: runes_def utf8_chunks_valid)
    next
      assume "c \<in> set (drop ?n (a # s))"
      then have "of_char c \<in> set (runes (drop ?n (a # s)))" using 2(2) [OF refl False] 2(4) by blast
      then show ?thesis using False by (simp add: runes_def utf8_chunks_valid)
    qed
  qed
qed simp

definition clean_text :: "nat \<Rightarrow> string \<Rightarrow> bool" where
  "clean_text n s \<longleftrightarrow> length s \<le> n \<and> (\<forall>c \<in> set s. 32 \<le> (of_char c :: nat) \<and> (of_char c :: nat) \<noteq> 127)"

lemma cleanHeader_clean: "clean_text n (cleanHeader v n)"
proof -
  have "32 \<le> (of_char c :: nat) \<and> (of_char c :: nat) \<noteq> 127"
    if "c \<in> set w" "\<not> list_ex (\<lambda>c. c < 32 \<or> c = 127) (runes w)" for c w
    using that ascii_byte_rune [of c w] by (cases "(of_char c :: nat) < 128") (auto simp: list_ex_iff)
  then show ?thesis by (auto simp: clean_text_def cleanHeader_def Let_def)
qed

text \<open>Whatever the headers of a request hold, the texts kept of them are bounded and have no control
  byte: the referrer, the host of the referrer, the origin, the language and the protocol.
\<close>

lemma metadata_clean:
  "clean_text 1024 (rm_referrer (extractRequestMeta env r host target im))
   \<and> clean_text 255 (rm_referrer_host (extractRequestMeta env r host target im))
   \<and> clean_text 512 (rm_origin (extractRequestMeta env r host target im))
   \<and> clean_text 256 (rm_language (extractRequestMeta env r host target im))
   \<and> clean_text 32 (rm_protocol (extractRequestMeta env r host target im))"
proof -
  have "clean_text n []" for n by (simp add: clean_text_def)
  then show ?thesis
    using cleanHeader_clean by (auto simp: extractRequestMeta_def Let_def referrerHost_def split: option.split)
qed

section \<open>Internal addresses stay hidden\<close>

text \<open>
  The address of the operator's own upstream never becomes the host of a request that came through
  a validated integration or a trusted proxy; an internal address is only ever shown when it is what
  the client itself connected to, outside any proxy.
\<close>

theorem upstream_hidden:
  "internalUpstreamTarget env (originalRequestHost env cfg r im) \<Longrightarrow>
     originalRequestHost env cfg r im \<noteq> [] \<Longrightarrow>
     \<not> im_valid im \<and> originalRequestHost env cfg r im = canonicalTarget env r
     \<and> \<not> requestArrivedThroughTrustedProxy env cfg r (canonicalTarget env r)"
  by (auto simp: originalRequestHost_def Let_def split: if_splits)

section \<open>The cache of countries\<close>

text \<open>The same lookup without the cache.\<close>

definition country_ref :: "webEnv \<Rightarrow> string \<Rightarrow> string \<Rightarrow> string \<times> string" where
  "country_ref env db ip_text =
     (case we_parse_ip env (TrimSpace ip_text) of
        None \<Rightarrow> ([], [])
      | Some ip \<Rightarrow>
          if we_internal_ip env ip \<or> we_special_ip env ip then (''LAN'', ''private'')
          else if db = [] \<or> \<not> we_geo_file env then ([], [])
          else geo_named (mmdb_code env ip))"

definition cache_ok :: "webEnv \<Rightarrow> geoResolver \<Rightarrow> bool" where
  "cache_ok env g \<longleftrightarrow> (\<forall>ip code. map_of (ge_cache g) ip = Some code \<longrightarrow>
     we_geo_file env \<and> code = mmdb_code env ip)"

fun countries :: "webEnv \<Rightarrow> string list \<Rightarrow> geoResolver \<Rightarrow> (string \<times> string) list" where
  "countries env [] g = []"
| "countries env (ip # ips) g = (case country env ip g of (c, g') \<Rightarrow> c # countries env ips g')"

lemma country_cached:
  assumes "cache_ok env g"
  shows "fst (country env ip g) = country_ref env (ge_db g) ip \<and> cache_ok env (snd (country env ip g))
    \<and> ge_db (snd (country env ip g)) = ge_db g"
  using assms
  by (auto simp: country_def country_ref_def cache_ok_def gomap Let_def split: option.split if_splits)

text \<open>The cache of countries only saves work: any sequence of lookups that starts with an empty cache
  gives what the lookups give without one.
\<close>

lemma country_cache_transparent:
  "countries env ips \<lparr>ge_db = db, ge_cache = []\<rparr> = map (country_ref env db) ips"
proof -
  have "cache_ok env g \<Longrightarrow> countries env ips g = map (country_ref env (ge_db g)) ips" for g
  proof (induction ips arbitrary: g)
    case (Cons ip ips)
    then show ?case using country_cached [OF Cons.prems, of ip] by (auto split: prod.split)
  qed simp
  moreover have "cache_ok env \<lparr>ge_db = db, ge_cache = []\<rparr>" by (simp add: cache_ok_def)
  ultimately show ?thesis by fastforce
qed

end
