(* ===== verification/WebProbe.thy ===== *)
theory WebProbe
  imports WebRequest
begin

text \<open>
  Which paths are known probes (\<open>internal/server/probes.go\<close>, \<open>probe_families.go\<close> and
  \<open>probe_observed_web.go\<close>): the normal form of a path, the families of paths, the table of
  rules. \<open>uni\<close> lowers a string outside ASCII; \<open>url.PathUnescape\<close> is modelled.
\<close>

record probeInfo =
  pi_name :: string
  pi_product :: string
  pi_cve :: string

datatype probeMatch = MatchContains | MatchPrefix | MatchExact

record probeRule =
  ru_needle :: string
  ru_match :: probeMatch
  ru_info :: probeInfo

definition probe_rule :: "string \<Rightarrow> probeMatch \<Rightarrow> string \<Rightarrow> string \<Rightarrow> string \<Rightarrow> probeRule" where
  "probe_rule needle how name product cve =
     \<lparr>ru_needle = needle, ru_match = how, ru_info = \<lparr>pi_name = name, pi_product = product, pi_cve = cve\<rparr>\<rparr>"

section \<open>The normal form of a path\<close>

definition hex_nibble :: "char \<Rightarrow> nat option" where
  "hex_nibble c = (case digit_value c of Some d \<Rightarrow> if d < 16 then Some d else None | None \<Rightarrow> None)"

fun PathUnescape :: "string \<Rightarrow> string option" where
  "PathUnescape [] = Some []"
| "PathUnescape (c # s) =
     (if c = CHR ''%'' then
        (case s of
           a # b # t \<Rightarrow>
             (case (hex_nibble a, hex_nibble b) of
                (Some x, Some y) \<Rightarrow> map_option ((#) (char_of (16 * x + y))) (PathUnescape t)
              | _ \<Rightarrow> None)
         | _ \<Rightarrow> None)
      else map_option ((#) c) (PathUnescape s))"

text \<open>The loop \<open>for strings.Contains(p, "//") { p = strings.ReplaceAll(p, "//", "/") }\<close>.\<close>

lemma HasPrefix_two: "HasPrefix s ''//'' \<longleftrightarrow> (\<exists>t. s = CHR ''/'' # CHR ''/'' # t)"
  by (cases s; cases "tl s") (auto simp: HasPrefix_def)

lemma length_ReplaceAll_le: "length (ReplaceAll s ''//'' ''/'') \<le> length s"
  by (induction s "''//''" "''/''" rule: ReplaceAll.induct) (auto simp: HasPrefix_two)

lemma length_ReplaceAll: "Contains s ''//'' \<Longrightarrow> length (ReplaceAll s ''//'' ''/'') < length s"
proof (induction s "''//''" "''/''" rule: ReplaceAll.induct)
  case (2 c s)
  show ?case
  proof (cases "HasPrefix (c # s) ''//''")
    case True
    then obtain t where "c # s = CHR ''/'' # CHR ''/'' # t" using HasPrefix_two by blast
    then show ?thesis using True length_ReplaceAll_le [of t] by (simp add: less_Suc_eq_le)
  next
    case False
    then have "Contains s ''//''" using 2(3) by (auto simp: Contains_def)
    then show ?thesis using 2(2) False by simp
  qed
qed (simp add: Contains_def)

function collapse_slashes :: "string \<Rightarrow> string" where
  "collapse_slashes p = (if Contains p ''//'' then collapse_slashes (ReplaceAll p ''//'' ''/'') else p)"
  by pat_completeness auto
termination
  by (relation "measure length") (auto simp: length_ReplaceAll)

declare collapse_slashes.simps [simp del]

text \<open>At most two rounds of decoding; one that fails or changes nothing is the last.\<close>

definition decode_once :: "string \<Rightarrow> string option" where
  "decode_once p = (case PathUnescape p of None \<Rightarrow> None | Some u \<Rightarrow> if u = p then None else Some u)"

definition decode_twice :: "string \<Rightarrow> string" where
  "decode_twice p =
     (case decode_once p of
        None \<Rightarrow> p
      | Some u \<Rightarrow> (case decode_once u of None \<Rightarrow> u | Some v \<Rightarrow> v))"

definition backslashes :: "string \<Rightarrow> string" where
  "backslashes p = map (\<lambda>c. if c = CHR 0x5C then CHR ''/'' else c) p"

definition rooted_path :: "string \<Rightarrow> string" where
  "rooted_path p = (if HasPrefix p ''/'' then p else CHR ''/'' # p)"

definition static_prefix :: "string \<Rightarrow> string" where
  "static_prefix p = (if HasPrefix p ''/static../'' then CHR ''/'' # TrimPrefix p ''/static../'' else p)"

definition one_semicolon :: "string \<Rightarrow> string" where
  "one_semicolon p =
     (if HasSuffix p '';'' \<and> CHR '';'' \<notin> set (TrimSuffix p '';'') then TrimSuffix p '';'' else p)"

definition clean_path :: "string \<Rightarrow> string" where
  "clean_path p = (if Clean p = ''.'' then ''/'' else Clean p)"

definition normalizeProbePath :: "(string \<Rightarrow> string) \<Rightarrow> string \<Rightarrow> string" where
  "normalizeProbePath uni raw =
     (let p = ToLower uni (TrimSpace raw) in
      if p = [] then ''/''
      else clean_path (one_semicolon (static_prefix (rooted_path (collapse_slashes (backslashes (decode_twice p)))))))"

definition canonicalObservedProbePath :: "(string \<Rightarrow> string) \<Rightarrow> string \<Rightarrow> string" where
  "canonicalObservedProbePath uni raw =
     (let p = ToLower uni (TrimSpace raw);
          p = (case PathUnescape p of Some u \<Rightarrow> u | None \<Rightarrow> p)
      in clean_path (rooted_path (collapse_slashes (backslashes p))))"

section \<open>Families\<close>

definition has_any :: "string \<Rightarrow> string list \<Rightarrow> bool" where
  "has_any p needles = list_ex (Contains p) needles"

definition starts_any :: "string \<Rightarrow> string list \<Rightarrow> bool" where
  "starts_any p needles = list_ex (HasPrefix p) needles"

definition ends_any :: "string \<Rightarrow> string list \<Rightarrow> bool" where
  "ends_any p needles = list_ex (HasSuffix p) needles"

fun LastIndex :: "string \<Rightarrow> string \<Rightarrow> nat option" where
  "LastIndex [] p = (if p = [] then Some 0 else None)"
| "LastIndex (c # s) p =
     (case LastIndex s p of Some i \<Rightarrow> Some (Suc i) | None \<Rightarrow> if HasPrefix (c # s) p then Some 0 else None)"

definition isDockerAPIProbe :: "string \<Rightarrow> bool" where
  "isDockerAPIProbe p =
     (if p \<in> {''/containers/json'', ''/images/json'', ''/version'', ''/info''} then True
      else HasPrefix p ''/containers/'' \<and> ends_any p [''/json'', ''/logs'', ''/exec''])"

definition isLaravelLivewireProbe :: "string \<Rightarrow> bool" where
  "isLaravelLivewireProbe p =
     (p \<in> {''/livewire/update'', ''/livewire/message''} \<or> HasPrefix p ''/livewire/message/''
      \<or> p \<in> {''/_debugbar'', ''/__clockwork'', ''/elmah''})"

definition isPHPDiagnosticsProbe :: "string \<Rightarrow> bool" where
  "isPHPDiagnosticsProbe p =
     (let b = Base p in
      if p \<in> {''/info'', ''/phpinfo'', ''/phpinfo/''} \<or> b \<in> {''phpinfo.php'', ''phpinfo.php3'', ''info.php'', ''pinfo.php'', ''i.php''}
         \<or> p = ''/_profiler'' \<or> HasPrefix p ''/_profiler/phpinfo'' \<or> Contains p ''/_profiler/phpinfo'' then True
      else list_ex (\<lambda>ext. HasSuffix b ext \<and> HasPrefix (TrimSuffix b ext) ''phpinfo.php'') [''.bak'', ''.old'', ''.save'', ''~''])"

definition isCIBuildProbe :: "(string \<Rightarrow> string) \<Rightarrow> string \<Rightarrow> bool" where
  "isCIBuildProbe uni p =
     (if Base (ToLower uni p) \<in> set
    [''jenkinsfile'', ''.travis.yml'', ''.drone.yml'', ''.gitlab-ci.yml'', ''azure-pipelines.yml'', ''cloudbuild.yaml'',
     ''cloudbuild.yml'', ''buildspec.yml'', ''buildspec.yaml'']
      then True
      else p = ''/.jenkins/config.xml'' \<or> HasSuffix p ''/gitlab-runner/config.toml'')"

definition isBuildManifestProbe :: "(string \<Rightarrow> string) \<Rightarrow> string \<Rightarrow> bool" where
  "isBuildManifestProbe uni p =
     (if Base (ToLower uni p) \<in> {''asset-manifest.json'', ''amplify_outputs.json''} then True
      else HasSuffix p ''/.vite/manifest.json'' \<or> p \<in> {''/dist/manifest.json'', ''/build/manifest.json'', ''/cdk.out/manifest.json''}
         \<or> HasSuffix p ''/amplify/backend/amplify-meta.json'' \<or> Contains p ''/amplify/.config/'')"

definition isOpsLogProbe :: "(string \<Rightarrow> string) \<Rightarrow> string \<Rightarrow> bool" where
  "isOpsLogProbe uni p =
     (if p = ''/proc/1/environ'' then True
      else if Base (ToLower uni p) \<in> {''error.log'', ''debug.log'', ''laravel.log'', ''lumen.log'', ''app.log'', ''production.log'',
                 ''error_log'', ''mail.log''} then True
      else has_any p [''/storage/logs/'', ''/var/log/apache2/'', ''/var/log/nginx/'', ''/wp-content/debug.log''])"

definition isApplianceProbe :: "string \<Rightarrow> bool" where
  "isApplianceProbe p =
     (p \<in> {''/hnap1'', ''/hnap1/'', ''/webui'', ''/webui/''} \<or> HasPrefix p ''/webui/''
      \<or> p \<in> {''/geoserver'', ''/geoserver/''} \<or> HasPrefix p ''/geoserver/'')"

definition isSSRFProbeFamily :: "string \<Rightarrow> bool" where
  "isSSRFProbeFamily p =
     (HasPrefix p ''/latest/meta-data/'' \<or> p \<in> set
    [''/fetch'', ''/proxy'', ''/download'', ''/preview'', ''/image'', ''/screenshot'', ''/webhook'', ''/redirect'',
     ''/read'', ''/api/fetch'', ''/api/proxy'', ''/api/download'', ''/api/preview'', ''/api/image'', ''/api/webhook'',
     ''/api/v1/fetch'', ''/api/file''])"

definition isVirtualFileReadProbe :: "string \<Rightarrow> bool" where
  "isVirtualFileReadProbe p =
     (HasPrefix p ''/@fs/'' \<or> has_any p [''../etc/passwd'', ''../proc/self/environ''] \<or> p = ''/proc/self/environ'')"

definition isEnvProbeFamily :: "string \<Rightarrow> bool" where
  "isEnvProbeFamily p =
     (let b = Base p
      in b = ''.env'' \<or> HasPrefix b ''.env.'' \<or> HasSuffix b ''.env'' \<or> b = ''env'' \<or> b = ''env.txt'' \<or> HasSuffix b ''.env.txt'')"

definition credential_names :: "string list" where
  "credential_names =
    [''credentials'', ''serviceaccountkey.json'', ''serviceaccount.json'', ''service-account.json'',
     ''service_account.json'', ''gcloud-service-key.json'', ''awsconfig.js'', ''awsconfiguration.json'',
     ''firebase-adminsdk.json'', ''firebase-admin.json'', ''firebase-service-account.json'',
     ''firebase-credentials.json'', ''credentials.json'', ''google-credentials.json'', ''gcp-credentials.json'',
     ''gcp-key.json'', ''gcp-service.json'', ''gcp-service-account.json'', ''google-service-account.json'',
     ''gc-service.json'', ''application_default_credentials.json'', ''key.json'', ''sa.json'', ''secrets.json'',
     ''aws.json'', ''aws-credentials.json'', ''aws_credentials.txt'', ''aws_credentials.json'', ''aws_creds.js'',
     ''.aws_creds.json'', ''s3-credentials.json'', ''s3-credentials.bak'', ''aws-config.js'', ''rclone.conf'', ''.boto'',
     ''.s3cfg'', ''.netrc'', ''.npmrc'', ''accessTokens.json'', ''openai.json'', ''anthropic.json'',
     ''claude_desktop_config.json'', ''.mcp.json'', ''rootkey.csv'']"

definition isCloudCredentialProbe :: "(string \<Rightarrow> string) \<Rightarrow> string \<Rightarrow> bool" where
  "isCloudCredentialProbe uni p =
     (let low = ToLower uni p in
      if Base p \<in> set credential_names then True
      else if HasPrefix low ''/latest/meta-data/'' \<or> Contains low ''ecs/task-credentials'' then True
      else if p \<in> {''/__/firebase/init.json'', ''/assets/credentials.json''}
         \<or> has_any low [''/.azure/'', ''/.gcloud/'', ''/.config/gcloud/'', ''/.aws/'', ''/aws/'', ''/secrets/aws'', ''/secrets/gcp'',
              ''/k8s/eks/credentials'', ''/.kube/config'', ''/serviceaccount/token''] then True
      else if has_any low [''/.openai/'', ''/.anthropic/'', ''/.config/anthropic/'', ''/.claude'', ''/.cursor/'', ''/.continue/'',
              ''/.codex/'', ''/.hermes/'', ''/.aider'', ''/.openclaw/''] then True
      else Contains low ''credentials'' \<and> has_any low [''aws'', ''gcp'', ''google'', ''firebase'', ''azure''])"

definition isTerraformProbe :: "string \<Rightarrow> bool" where
  "isTerraformProbe p =
     (let b = Base p
      in b \<in> {''terraform.tfvars'', ''terraform.tfvars.json'', ''terraform.auto.tfvars'', ''terraform.tfstate'',
              ''terraform.tfstate.backup'', ''terraform.tfstate.old'', ''.terraform.lock.hcl''}
         \<or> (b = ''environment'' \<and> Contains p ''/.terraform/'') \<or> HasSuffix p ''/.terraform/terraform.tfstate'')"

definition isSQLDumpProbe :: "string \<Rightarrow> bool" where
  "isSQLDumpProbe p = (Base p \<in> {''db.sql'', ''database.sql'', ''dump.sql'', ''backup.sql''})"

definition isDebugToolProbe :: "string \<Rightarrow> bool" where
  "isDebugToolProbe p =
     (starts_any p [''/horizon/'', ''/telescope/'', ''/_debugbar/''] \<or> p = ''/log-viewer''
      \<or> starts_any p [''/rails/info/'', ''/_profiler/''] \<or> p \<in> {''/__debug__/'', ''/trace.axd'', ''/elmah.axd''}
      \<or> Contains p ''/app_dev.php/_profiler''
      \<or> p \<in> {''/_ignition/health-check'', ''/nginx_status'', ''/server-info'', ''/health'', ''/api/health''})"

definition isHiddenPHPProbe :: "string \<Rightarrow> bool" where
  "isHiddenPHPProbe p = (HasPrefix p ''/.well-known/'' \<and> HasSuffix p ''.php'')"

definition isWordPressSurfaceProbe :: "string \<Rightarrow> bool" where
  "isWordPressSurfaceProbe p =
     (p = ''/wp-json'' \<or> starts_any p [''/wp-includes/'', ''/wp-content/''] \<or> Base p = ''wp-blog.php''
      \<or> HasPrefix (Base p) ''wp-ws'' \<or> Contains p ''/wordpress/'')"

definition suspiciousPHPProbeName :: "string \<Rightarrow> string option" where
  "suspiciousPHPProbeName b =
     (case List.find (HasSuffix b) [''.php'', ''.php7'', ''.phps''] of
        Some ext \<Rightarrow> Some (TrimSuffix b ext)
      | None \<Rightarrow>
          (case LastIndex b ''.php'' of
             None \<Rightarrow> None
           | Some i \<Rightarrow>
               if i + 4 < length b \<and> list_all (\<lambda>r. 48 \<le> r \<and> r \<le> 57) (runes (drop (i + 4) b)) then Some (take i b) else None))"

definition isPHPWebshellProbe :: "(string \<Rightarrow> string) \<Rightarrow> string \<Rightarrow> bool" where
  "isPHPWebshellProbe uni p =
     (if map ascii_lower p = ''/alfa_data/alfacgiapi'' then True
      else (case suspiciousPHPProbeName (ToLower uni (Base p)) of
              None \<Rightarrow> False
            | Some name \<Rightarrow>
                if has_any p [''/wp-includes/'', ''/wp-content/''] then False
                else if name \<in> {''temp'', ''phpinfo'', ''info'', ''pinfo'', ''i''} then False
                else if name = ''index'' then
                  has_any p [''/.trash'', ''/storage/'', ''/files/'', ''/images/'', ''/css/'', ''/modules/'', ''/wk/'', ''/ocean/'']
                else if CHR ''/'' \<notin> set (TrimBytes ''/'' p) then True
                else if has_any p
    [''/update/'', ''/uploads/'', ''/filemanager/'', ''/plugins/'', ''/themes/'', ''/images/'', ''/css/'', ''/files/'',
     ''/public/'', ''/fw/'', ''/function/'', ''/about/'', ''/storage/'', ''/ocean/'', ''/modules/'', ''/.trash'']
                then True
                else if starts_any name
    [''admin'', ''adminer'', ''adminner'', ''shell'', ''file'', ''upload'', ''ops'', ''media'', ''images'', ''image'',
     ''random'', ''class'', ''coff'', ''biu'', ''rt'', ''av'', ''mac'', ''wp-'']
                then True
                else (name \<noteq> [] \<and> list_all (\<lambda>r. 48 \<le> r \<and> r \<le> 57) (runes name))
                   \<or> (8 \<le> length name \<and> list_ex (\<lambda>r. 97 \<le> r \<and> r \<le> 122) (runes name) \<and> list_ex (\<lambda>r. 48 \<le> r \<and> r \<le> 57) (runes name))
                   \<or> Contains name ''tostring''))"

definition isSSHMaterialProbe :: "string \<Rightarrow> bool" where
  "isSSHMaterialProbe p =
     (if Contains p ''/.ssh/'' \<and> Base p \<in> set
    [''id_rsa'', ''id_ed25519'', ''id_ecdsa'', ''id_dsa'', ''known_hosts'', ''authorized_keys'', ''config'']
      then True
      else if Base p \<in> set
    [''id_ecdsa'', ''id_dsa'', ''id_rsa.pub'', ''host.key'', ''server.key'', ''localhost.key'', ''privatekey.key'',
     ''private.key'', ''key.pem'', ''private-key'']
      then True
      else HasPrefix p ''/ssl/'' \<and> HasSuffix (Base p) ''.key'')"

definition isManagementSurfaceProbe :: "string \<Rightarrow> bool" where
  "isManagementSurfaceProbe p \<longleftrightarrow> p \<in> set
    [''/dashboard'', ''/workspace'', ''/my'', ''/account'', ''/user/login'', ''/settings'', ''/portal'', ''/app'',
     ''/profile'', ''/admin'', ''/auth/login'', ''/signin'', ''/manage'', ''/console'', ''/api/account'']"

definition application_config_names :: "string list" where
  "application_config_names =
    [''/config'', ''/config.json'', ''/config.py'', ''/instance/config.py'', ''/application.yml'', ''/application.yaml'',
     ''/api/config'', ''/api/config.json'', ''/api/settings'', ''/api/v1/config'', ''/api/v1/settings'',
     ''/database.yml'', ''/vault.yml'', ''/kubernetes.yml'', ''/k8s/secrets.yaml'', ''/web.config'',
     ''/local.settings.json'', ''/settings.py'', ''/settings.local.py'', ''/gradle.properties'',
     ''/.gradle/gradle.properties'', ''/dockerfile'', ''/values.yaml'', ''/.pypirc'', ''/.htpasswd'',
     ''/config/master.key'', ''/config.toml'', ''/config.yaml'', ''/.vscode/launch.json'', ''/.svn/entries'',
     ''/metrics'', ''/_health'', ''/push_config.json'', ''/firebase.json'', ''/public/admin.json'', ''/auth.json'',
     ''/bootstrap.properties'', ''/bootstrap.yml'', ''/configuration.php.bak'', ''/storage/logs/laravel.log'',
     ''/.bashrc'', ''/.bash_profile'', ''/.zshrc'', ''/.profile'', ''/.well-known/jwks.json'', ''/api/v2/config'',
     ''/api/v2/settings'', ''/.streamlit/secrets.toml'', ''/.circleci/config.yml'', ''/web-inf/web.xml'',
     ''/web-inf/classes/application.properties'']"

definition isApplicationConfigProbe :: "string \<Rightarrow> bool" where
  "isApplicationConfigProbe p =
     (let b = Base p in
      if p \<in> {''/.vscode/sftp.json'', ''/docker-cloud.yml'', ''/docker-cloud.yaml'', ''/app/config/parameters.yml'',
              ''/app/config/parameters.yml.dist''} \<or> HasPrefix p ''/.chalice/'' then True
      else if b \<in> {''.bash_history'', ''secrets.yml'', ''secrets.yaml''} \<or> HasPrefix b ''config.php.'' then True
      else if p \<in> set application_config_names \<or> HasSuffix p ''/settings.py'' then True
      else if HasPrefix p ''/config/'' then
        ends_any p [''.php'', ''.exs'', ''.json'', ''.yml'', ''.yaml'', ''.properties''] \<or> Contains p ''/environments/''
      else if HasPrefix b ''appsettings.'' \<and> HasSuffix b ''.json'' then True
      else if HasPrefix b ''application-'' \<and> ends_any b [''.yml'', ''.yaml'', ''.properties''] then True
      else b \<in> {''application.properties'', ''docker-compose.yml'', ''docker-compose.yaml''} \<or> HasPrefix b ''docker-compose.''
         \<or> b \<in> {''bitbucket-pipelines.yml'', ''amplifyconfiguration.json'', ''app-config.json'', ''env.json'', ''settings.json''})"

definition isFrontendConfigProbe :: "(string \<Rightarrow> string) \<Rightarrow> string \<Rightarrow> bool" where
  "isFrontendConfigProbe uni p =
     (if Base (ToLower uni p) \<in> set
    [''env.js'', ''env.prod.js'', ''env.production.js'', ''env.dev.js'', ''env.development.js'', ''environment.js'',
     ''config.js'', ''configuration.js'', ''runtime-config.js'', ''__env.js'', ''aws-exports.js'',
     ''google-services.json'', ''firebase-config.json'', ''service-worker.js'', ''sw.js'', ''runtime.js'', ''ngsw.json'',
     ''manifest.webmanifest'']
      then True
      else ends_any p [''/static/js/main.js'', ''/static/js/main.chunk.js'', ''/static/js/bundle.js'', ''/scripts/main.js'']
         \<or> p = ''/main.js'')"

definition observedSecretBackupProbe :: "(string \<Rightarrow> string) \<Rightarrow> string \<Rightarrow> bool" where
  "observedSecretBackupProbe uni b0 =
     (let b = TrimSuffix (ToLower uni b0) '';''
      in Contains b ''credentials.'' \<and> ends_any b [''.bak'', ''.save'', ''.swp'', ''.old''])"

definition observedPHPBackdoorProbe :: "string \<Rightarrow> bool" where
  "observedPHPBackdoorProbe p =
     (let b = Base p; name = TrimSuffix b ''.php'' in
      if \<not> HasSuffix b ''.php'' \<or> has_any p [''/wp-content/'', ''/wp-includes/''] then False
      else if name \<in> {''index'', ''phpinfo'', ''info''} then False
      else if name \<in> {''function'', ''database'', ''dialog'', ''autoload_classmap'', ''footer'', ''m'', ''css''} then True
      else has_any p [''/uploads/'', ''/filemanager/'', ''/plugins/'', ''/themes/'', ''/images/'', ''/css/'', ''/files/'', ''/public/'',
             ''/fw/'', ''/function/'', ''/about/''])"

definition info :: "string \<Rightarrow> string \<Rightarrow> probeInfo option" where
  "info name product = Some \<lparr>pi_name = name, pi_product = product, pi_cve = []\<rparr>"

definition identifyObservedWebProbe :: "(string \<Rightarrow> string) \<Rightarrow> string \<Rightarrow> probeInfo option" where
  "identifyObservedWebProbe uni raw =
     (let p = canonicalObservedProbePath uni raw; b = Base p in
      if has_any p [''/wp-json/'', ''/wp/v2/''] \<or> p = ''/wp-json'' then info ''WordPress REST / plugin API discovery'' ''WordPress''
      else if ends_any p [''/config/credentials.yml.enc'', ''/config/initializers/secret_token.rb'', ''/config/master.key'']
         \<or> Contains p ''/redmine/config/configuration.yml'' then info ''Rails secret / configuration discovery'' ''Ruby on Rails / Redmine''
      else if p \<in> {''/.svn/wc.db'', ''/.svn/entries'', ''/.hg/hgrc'', ''/.hg/requires'', ''/.hg/branch''} then
        info ''Source control metadata discovery'' ''Subversion / Mercurial''
      else if b = ''aws.ini'' \<or> p = ''/.aws;/config'' \<or> p = ''/.amplifyrc'' \<or> HasSuffix p ''/amplify/team-provider-info.json''
         \<or> b = ''s3.yml'' \<or> b = ''s3.yaml'' then info ''Cloud deployment configuration discovery'' ''AWS / Amplify / S3''
      else if HasSuffix b ''.sql.gz'' \<or> b \<in> {''api.zip'', ''app.zip'', ''site.zip'', ''public_html.zip'', ''www.tar.gz''} then
        info ''Application backup / archive discovery'' ''Generic web application''
      else if observedSecretBackupProbe uni b then info ''Credential backup artifact discovery'' ''Generic web application''
      else if observedPHPBackdoorProbe p then info ''PHP webshell / backdoor discovery'' ''PHP web application''
      else None)"

text \<open>The sequence of tests on a normal form, the first that holds deciding.\<close>

definition probe_family :: "(string \<Rightarrow> string) \<Rightarrow> string \<Rightarrow> probeInfo option" where
  "probe_family uni p =
     (let b = Base p in
      if p \<in> {''/mcp'', ''/mcp/'', ''/api/mcp'', ''/sse''} then info ''MCP / SSE transport discovery'' ''Model Context Protocol endpoint''
      else if isSSRFProbeFamily p then info ''Server-side fetch / SSRF discovery'' ''URL fetcher / proxy endpoint''
      else if isVirtualFileReadProbe p then info ''Development server file-read discovery'' ''Vite / static file server''
      else (case identifyObservedWebProbe uni p of
        Some i \<Rightarrow> Some i
      | None \<Rightarrow>
      if isDockerAPIProbe p then info ''Docker Engine API discovery / exec probing'' ''Docker Engine API''
      else if isLaravelLivewireProbe p then info ''Laravel Livewire / diagnostics discovery'' ''Laravel / Livewire''
      else if isCIBuildProbe uni p then info ''CI/CD build configuration discovery'' ''CI/CD / build tooling''
      else if isBuildManifestProbe uni p then info ''Frontend / deployment manifest discovery'' ''Web build / deployment tooling''
      else if isOpsLogProbe uni p then info ''Application / operations log discovery'' ''Web application operations''
      else if isApplianceProbe p then info ''Appliance / management surface discovery'' ''Network / application appliance''
      else if isEnvProbeFamily p then info ''Environment / secret file discovery'' ''Generic web application''
      else if b = ''wp-config.php'' \<or> HasPrefix b ''wp-config.php.'' \<or> Contains p ''/wp-content/w3tc-config/'' then
        info ''WordPress configuration discovery'' ''WordPress''
      else if p \<in> {''/wp/'', ''/wordpress/'', ''/blog/'', ''/blog/robots.txt''} then info ''WordPress installation discovery'' ''WordPress''
      else if isWordPressSurfaceProbe p then info ''WordPress surface / upload discovery'' ''WordPress''
      else if isPHPWebshellProbe uni p then info ''PHP webshell / backdoor discovery'' ''PHP web application''
      else if isPHPDiagnosticsProbe p then info ''PHP runtime / profiler discovery'' ''PHP / Symfony''
      else if p = ''/index.php'' \<or> p = ''/temp.php'' \<or> isHiddenPHPProbe p then
        info ''Legacy / hidden PHP endpoint discovery'' ''PHP web application''
      else if isSSHMaterialProbe p then info ''SSH key / client material discovery'' ''OpenSSH''
      else if isManagementSurfaceProbe p then info ''Management / account surface discovery'' ''Generic web application''
      else if p \<in> {''/id_rsa'', ''/id_ed25519''} \<or> ends_any p [''/.ssh/id_rsa'', ''/.ssh/id_ed25519''] then
        info ''SSH private key discovery'' ''OpenSSH''
      else if HasSuffix p ''/.docker/config.json'' then info ''Docker registry credential discovery'' ''Docker''
      else if isCloudCredentialProbe uni p then info ''Cloud / DevOps credential discovery'' ''Cloud / developer tooling''
      else if isTerraformProbe p then info ''Terraform state / variable discovery'' ''Terraform''
      else if isSQLDumpProbe p then info ''Database dump / backup discovery'' ''SQL database''
      else if isDebugToolProbe p then info ''Debug / operations console discovery'' ''Web framework tooling''
      else if isApplicationConfigProbe p then info ''Application configuration discovery'' ''Web application framework''
      else if b = ''.passwd-s3fs'' then info ''S3FS credential file discovery'' ''s3fs / object storage''
      else if isFrontendConfigProbe uni p then info ''Frontend runtime configuration discovery'' ''JavaScript web application''
      else None))"

definition identifyProbeFamily :: "(string \<Rightarrow> string) \<Rightarrow> string \<Rightarrow> probeInfo option" where
  "identifyProbeFamily uni raw = probe_family uni (normalizeProbePath uni raw)"

section \<open>Rules\<close>

definition knownProbes :: "probeRule list" where
  "knownProbes =
    [probe_rule ''/sdk/weblanguage'' MatchContains ''Hikvision webLanguage command-injection probe'' ''Hikvision IP camera/NVR'' ''CVE-2021-36260'',
     probe_rule ''/+cscoe+/logon.html'' MatchContains ''Cisco WebVPN / Secure Client login discovery'' ''Cisco ASA / Firepower remote access'' [],
     probe_rule ''/remote/logincheck'' MatchPrefix ''ZentLoop decoy SSL-VPN authentication follow'' ''ZentLoop'' [],
     probe_rule ''/remote/login'' MatchPrefix ''SSL-VPN remote login discovery'' ''Fortinet / remote-access appliance'' [],
     probe_rule ''/dispatch.asp'' MatchExact ''Embedded gateway dispatcher discovery'' ''Router / embedded web UI'' [],
     probe_rule ''/webpages/login.html'' MatchExact ''Embedded device login discovery'' ''Network / embedded appliance'' [],
     probe_rule ''/doc/index.html'' MatchExact ''Embedded device web console discovery'' ''Network / embedded appliance'' [],
     probe_rule ''/manage/account/login'' MatchPrefix ''Management account login discovery'' ''Generic management portal'' [],
     probe_rule ''/login.jsp'' MatchExact ''Java management login discovery'' ''Java web application / appliance'' [],
     probe_rule ''/login.html'' MatchExact ''HTML login endpoint discovery'' ''Generic web application'' [],
     probe_rule ''/login.htm'' MatchExact ''Legacy HTML login endpoint discovery'' ''Generic web application'' [],
     probe_rule ''/login'' MatchExact ''Generic login endpoint discovery'' ''Generic web application'' [],
     probe_rule ''/web/'' MatchExact ''Embedded web root discovery'' ''Network / embedded appliance'' [],
     probe_rule ''/api/v1/internal/'' MatchPrefix ''ZentLoop internal API bait follow'' ''ZentLoop'' [],
     probe_rule ''/api/v2/private/'' MatchPrefix ''ZentLoop private API bait follow'' ''ZentLoop'' [],
     probe_rule ''/backup/'' MatchPrefix ''Backup discovery / ZentLoop bait'' ''Generic web application'' [],
     probe_rule ''/debug/'' MatchPrefix ''Debug endpoint discovery / ZentLoop bait'' ''Generic web application'' [],
     probe_rule ''/admin/'' MatchPrefix ''Admin endpoint discovery / ZentLoop bait'' ''Generic web application'' [],
     probe_rule ''/auth/session/'' MatchPrefix ''ZentLoop decoy authentication follow'' ''ZentLoop'' [],
     probe_rule ''/auth/mfa/'' MatchPrefix ''ZentLoop decoy MFA follow'' ''ZentLoop'' [],
     probe_rule ''/auth/recovery/'' MatchPrefix ''ZentLoop decoy recovery follow'' ''ZentLoop'' [],
     probe_rule ''/sso/status'' MatchExact ''ZentLoop decoy SSO status follow'' ''ZentLoop'' [],
     probe_rule ''/help/admin'' MatchExact ''ZentLoop decoy admin help follow'' ''ZentLoop'' [],
     probe_rule ''/manage/status/'' MatchPrefix ''ZentLoop decoy management status follow'' ''ZentLoop'' [],
     probe_rule ''/diag/status/'' MatchPrefix ''ZentLoop decoy diagnostics follow'' ''ZentLoop'' [],
     probe_rule ''/config/export/'' MatchPrefix ''ZentLoop decoy configuration export follow'' ''ZentLoop'' [],
     probe_rule ''/+cscoe+/portal.html'' MatchPrefix ''ZentLoop decoy WebVPN portal follow'' ''ZentLoop'' [],
     probe_rule ''/+cscoe+/login.html'' MatchPrefix ''ZentLoop decoy WebVPN authentication follow'' ''ZentLoop'' [],
     probe_rule ''/.env'' MatchPrefix ''Environment file discovery'' ''Generic web application'' [],
     probe_rule ''/.git'' MatchContains ''Exposed Git repository discovery'' ''Git'' [],
     probe_rule ''/wp-login'' MatchContains ''WordPress login discovery'' ''WordPress'' [],
     probe_rule ''/wp-admin'' MatchContains ''WordPress admin discovery'' ''WordPress'' [],
     probe_rule ''/xmlrpc.php'' MatchContains ''WordPress XML-RPC discovery'' ''WordPress'' [],
     probe_rule ''/phpmyadmin'' MatchContains ''phpMyAdmin discovery'' ''phpMyAdmin'' [],
     probe_rule ''/actuator'' MatchContains ''Spring Boot actuator discovery'' ''Spring Boot'' [],
     probe_rule ''/server-status'' MatchContains ''Apache server-status discovery'' ''Apache HTTP Server'' [],
     probe_rule ''/vendor/phpunit'' MatchContains ''PHPUnit exposed endpoint probe'' ''PHPUnit'' ''CVE-2017-9841'',
     probe_rule ''/phpunit/'' MatchContains ''PHPUnit eval-stdin endpoint probe'' ''PHPUnit'' ''CVE-2017-9841'',
     probe_rule ''/lib/phpunit/'' MatchContains ''PHPUnit eval-stdin endpoint probe'' ''PHPUnit'' ''CVE-2017-9841'',
     probe_rule ''/containers/json'' MatchExact ''Docker Engine API container discovery'' ''Docker Engine API'' [],
     probe_rule ''/settings.js'' MatchExact ''Frontend runtime configuration discovery'' ''Web application'' [],
     probe_rule ''/config.json.js'' MatchExact ''Frontend runtime configuration discovery'' ''Web application'' [],
     probe_rule ''/credentials.js'' MatchExact ''Frontend credential/configuration discovery'' ''Web application'' [],
     probe_rule ''/administrator/manifests/files/joomla.xml'' MatchExact ''Joomla version manifest discovery'' ''Joomla'' [],
     probe_rule ''/language/en-gb/en-gb.xml'' MatchExact ''Joomla language/version discovery'' ''Joomla'' [],
     probe_rule ''/media/system/js/core.js'' MatchExact ''Joomla core asset discovery'' ''Joomla'' [],
     probe_rule ''/administrator/'' MatchExact ''Joomla administrator discovery'' ''Joomla'' [],
     probe_rule ''/_next/webpack-hmr'' MatchExact ''Next.js development endpoint discovery'' ''Next.js'' [],
     probe_rule ''/_next/static/'' MatchExact ''Next.js static asset discovery'' ''Next.js'' [],
     probe_rule ''/cgi-bin/'' MatchContains ''CGI endpoint discovery'' ''Generic CGI'' [],
     probe_rule ''/swagger'' MatchContains ''Swagger/OpenAPI discovery'' ''API'' [],
     probe_rule ''/openapi'' MatchContains ''OpenAPI discovery'' ''API'' [],
     probe_rule ''/graphql'' MatchContains ''GraphQL discovery'' ''GraphQL'' [],
     probe_rule ''/jenkins'' MatchContains ''Jenkins discovery'' ''Jenkins'' [],
     probe_rule ''/solr/'' MatchContains ''Apache Solr discovery'' ''Apache Solr'' [],
     probe_rule ''/boaform/'' MatchContains ''Embedded router/webcam probe'' ''Embedded web server'' [],
     probe_rule ''/hudson'' MatchContains ''Hudson/Jenkins discovery'' ''Hudson/Jenkins'' [],
     probe_rule ''/.aws/credentials'' MatchContains ''Cloud credential discovery'' ''AWS'' []]"

definition rule_matches :: "string \<Rightarrow> probeRule \<Rightarrow> bool" where
  "rule_matches p x =
     (case ru_match x of
        MatchExact \<Rightarrow> p = ru_needle x
      | MatchPrefix \<Rightarrow> HasPrefix p (ru_needle x)
      | MatchContains \<Rightarrow> Contains p (ru_needle x))"

definition identifyProbe :: "(string \<Rightarrow> string) \<Rightarrow> string \<Rightarrow> probeInfo option" where
  "identifyProbe uni path =
     (case identifyProbeFamily uni path of
        Some i \<Rightarrow> Some i
      | None \<Rightarrow> map_option ru_info (List.find (rule_matches (ToLower uni path)) knownProbes))"

definition looksLikeBait :: "(string \<Rightarrow> string) \<Rightarrow> string \<Rightarrow> bool" where
  "looksLikeBait uni p \<longleftrightarrow> identifyProbe uni p \<noteq> None"

definition isBenignDiscovery :: "(string \<Rightarrow> string) \<Rightarrow> string \<Rightarrow> bool" where
  "isBenignDiscovery uni path \<longleftrightarrow> ToLower uni (TrimSpace path) = ''/.well-known/passkey-endpoints''"

definition isActivityPubInboxRequest :: "(string \<Rightarrow> string) \<Rightarrow> httpRequest \<Rightarrow> bool" where
  "isActivityPubInboxRequest uni r =
     (if hr_method r \<noteq> ''POST'' \<or> normalizeProbePath uni (hr_path r) \<noteq> ''/inbox'' then False
      else (let ua = ToLower uni (UserAgent r); ct = ToLower uni (Header r ''Content-Type'')
            in Contains ua ''activity-relay'' \<or> Contains ua ''toot relay'' \<or> Contains ct ''application/activity+json''
               \<or> Contains ct ''application/ld+json''))"

end
