(* ===== verification/WebProbeProofs.thy ===== *)
theory WebProbeProofs
  imports WebProbe WebRequestProofs
begin

text \<open>
  Known probes: the normal form of a path is a clean absolute path, letters in either case and
  percent-encoding (once or twice) make no difference, and the tests that ask for a trailing slash
  can never hold.
\<close>

section \<open>Normal forms\<close>

lemma clean_path_clean: "rooted p \<Longrightarrow> clean_abs (clean_path p)"
proof -
  assume p: "rooted p"
  then have "rooted (Clean p)" by simp
  then have "Clean p \<noteq> ''.''" by (auto simp: rooted_def slash_def)
  then show ?thesis using p by (simp add: clean_path_def clean_abs_Clean)
qed

lemma rooted_steps:
  "rooted (rooted_path p)" "rooted p \<Longrightarrow> rooted (static_prefix p)" "rooted p \<Longrightarrow> rooted (one_semicolon p)"
proof -
  show "rooted (rooted_path p)" by (cases p) (auto simp: rooted_path_def rooted_def slash_def HasPrefix_def)
  show "rooted p \<Longrightarrow> rooted (static_prefix p)" by (simp add: static_prefix_def rooted_def slash_def)
  assume p: "rooted p"
  show "rooted (one_semicolon p)"
  proof (cases "HasSuffix p '';''")
    case True
    then obtain q where q: "p = q @ '';''" using HasSuffix_iff by blast
    then have "q \<noteq> []" using p by (auto simp: rooted_def slash_def)
    then have "rooted q" using p q by (auto simp: rooted_def)
    moreover have "TrimSuffix p '';'' = q" using True q by (simp add: TrimSuffix_def)
    ultimately show ?thesis using p by (simp add: one_semicolon_def)
  qed (use p in \<open>simp add: one_semicolon_def\<close>)
qed

lemma clean_abs_root: "clean_abs ''/''"
  by (simp add: clean_abs_def rooted_def slash_def Clean_def clean_stack_def clean_step_def)

lemma clean_last: "clean_abs p \<Longrightarrow> p \<noteq> ''/'' \<Longrightarrow> last p \<noteq> CHR ''/''"
proof
  assume p: "clean_abs p" "p \<noteq> ''/''" and slash_end: "last p = CHR ''/''"
  obtain q where q: "p = slash # q" using p(1) by (cases p) (auto simp: clean_abs_def rooted_def)
  then have "q \<noteq> []" using p(2) by (auto simp: slash_def)
  then obtain r where "q = r @ [slash]" using slash_end q by (metis append_butlast_last_id last_ConsR slash_def)
  then have "[] \<in> set (SplitByte q slash)" by (simp add: SplitByte_snoc)
  then have "proper_comp []" using clean_abs_comps [OF p(1), of "[]"] p(2) q by (auto simp: slash_def)
  then show False by (simp add: proper_comp_def)
qed

text \<open>The normal form that probes are matched on is a clean absolute path for every requested path:
  it starts with a slash, has no empty or dot component, does not end in a slash unless it is the
  root, and cleaning it again changes nothing.
\<close>

lemma normal_path_clean:
  "clean_abs (normalizeProbePath uni raw)
   \<and> (normalizeProbePath uni raw = ''/'' \<or> last (normalizeProbePath uni raw) \<noteq> CHR ''/'')"
proof -
  have "clean_abs (normalizeProbePath uni raw)"
    by (simp add: normalizeProbePath_def Let_def clean_path_clean rooted_steps clean_abs_root)
  then show ?thesis using clean_last by blast
qed

section \<open>Case and encoding\<close>

lemma upper_value: "is_lower c \<Longrightarrow> \<exists>k < 26. (of_char c :: nat) = 97 + k \<and> (of_char (ascii_upper c) :: nat) = 65 + k"
proof -
  assume c: "is_lower c"
  then have "97 \<le> (of_char c :: nat)" "(of_char c :: nat) \<le> 122" by (simp_all add: is_lower_def byte_in_def)
  then obtain k where k: "(of_char c :: nat) = 97 + k" "k < 26" using le_Suc_ex [of 97 "of_char c"] by auto
  then have "(of_char (ascii_upper c) :: nat) = 65 + k" using c by (simp add: ascii_upper_def)
  then show ?thesis using k by blast
qed

lemma space_upper: "char_is_space (ascii_upper c) = char_is_space c"
proof (cases "is_lower c")
  case True
  then obtain k where k: "k < 26" "(of_char c :: nat) = 97 + k" "(of_char (ascii_upper c) :: nat) = 65 + k" using upper_value by blast
  then have "c \<noteq> CHR '' ''" "ascii_upper c \<noteq> CHR '' ''" by auto
  then show ?thesis using k by (simp add: char_is_space_def byte_in_def)
qed (simp add: ascii_upper_def)

lemma lower_upper: "ascii_lower (ascii_upper c) = ascii_lower c"
proof (cases "is_lower c")
  case True
  then obtain k where k: "k < 26" "(of_char c :: nat) = 97 + k" "(of_char (ascii_upper c) :: nat) = 65 + k" using upper_value by blast
  then have "ascii_lower (ascii_upper c) = char_of (97 + k)" by (simp add: ascii_lower_def is_upper_def byte_in_def)
  also have "\<dots> = c" by (simp flip: k(2))
  finally show ?thesis using k by (simp add: ascii_lower_def is_upper_def byte_in_def)
qed (simp add: ascii_upper_def)

lemma is_ascii_upper: "is_ascii (map ascii_upper s) = is_ascii s"
proof -
  have "((of_char (ascii_upper c) :: nat) < 128) = ((of_char c :: nat) < 128)" for c
    by (auto simp: ascii_upper_def is_lower_def byte_in_def)
  then show ?thesis by (simp add: is_ascii_def)
qed

lemma TrimSpace_upper: "is_ascii s \<Longrightarrow> TrimSpace (map ascii_upper s) = map ascii_upper (TrimSpace s)"
  by (simp add: TrimSpace_ascii is_ascii_upper dropWhile_map dropWhileEnd_map comp_def space_upper)

lemma TrimSpace_is_ascii: "is_ascii s \<Longrightarrow> is_ascii (TrimSpace s)"
  using set_dropWhileEnd [of char_is_space "dropWhile char_is_space s"] set_dropWhileD [of _ char_is_space s]
  by (auto simp: TrimSpace_ascii is_ascii_def)

lemma ToLower_upper: "is_ascii s \<Longrightarrow> ToLower uni (map ascii_upper s) = ToLower uni s"
  by (simp add: ToLower_def is_ascii_upper lower_upper)

lemma normalize_upper: "is_ascii s \<Longrightarrow> normalizeProbePath uni (map ascii_upper s) = normalizeProbePath uni s"
  by (simp add: normalizeProbePath_def TrimSpace_upper ToLower_upper TrimSpace_is_ascii)

text \<open>Writing a path in capital letters hides nothing: a path and its upper-case form are the same
  probe, or none.
\<close>

lemma probe_ignores_case:
  assumes "is_ascii path"
  shows "identifyProbe uni (map ascii_upper path) = identifyProbe uni path"
  using assms by (simp add: identifyProbe_def identifyProbeFamily_def normalize_upper ToLower_upper split: option.split)

theorem probe_ignores_case_witness:
  "identifyProbe uni ''/.GIT/CONFIG'' = identifyProbe uni ''/.git/config''"
proof -
  have "map ascii_upper ''/.git/config'' = ''/.GIT/CONFIG''"
    by code_simp
  then show ?thesis using probe_ignores_case [of "''/.git/config''" uni] by simp
qed

definition percent_encode :: "string \<Rightarrow> string" where
  "percent_encode p = concat (map (\<lambda>c. CHR ''%'' # hex_encode [c]) p)"

lemma hex_nibble_char: "d < 16 \<Longrightarrow> hex_nibble (digit_char d) = Some d"
  by (simp add: hex_nibble_def digit_value_digit_char)

lemma unescape_percent: "PathUnescape (percent_encode p) = Some p"
proof (induction p)
  case (Cons c p)
  have "(of_char c :: nat) < 16 * 16" using of_char_less_256 [of c] by simp
  then have d: "(of_char c :: nat) div 16 < 16" by (simp only: less_mult_imp_div_less)
  then show ?case using Cons by (simp add: percent_encode_def hex_encode_def hex_nibble_char)
qed (simp add: percent_encode_def)

lemma unescape_plain: "CHR ''%'' \<notin> set p \<Longrightarrow> PathUnescape p = Some p"
  by (induction p) auto

lemma length_percent: "length (percent_encode p) = 3 * length p"
  by (induction p) (simp_all add: percent_encode_def hex_encode_def)

lemma percent_plain_word: "p \<noteq> [] \<Longrightarrow> plain_word (percent_encode p)"
proof -
  assume "p \<noteq> []"
  then have "percent_encode p \<noteq> []" using length_percent [of p] by auto
  moreover have "(of_char c :: nat) < 128 \<and> \<not> char_is_space c \<and> ascii_lower c = c" if c: "c \<in> set (percent_encode p)" for c
  proof -
    have "c = CHR ''%'' \<or> (\<exists>x. c \<in> set (hex_encode [x]))" using c by (auto simp: percent_encode_def split: if_splits)
    then show ?thesis
    proof
      assume "\<exists>x. c \<in> set (hex_encode [x])"
      then obtain d where "d < 16" "c = digit_char d" using hex_encode_digits by blast
      then show ?thesis using word_digit_char [of d] by simp
    qed (simp add: char_is_space_def byte_in_def ascii_lower_def is_upper_def)
  qed
  ultimately show ?thesis by (simp add: plain_word_def)
qed

lemma decode_once_plain: "CHR ''%'' \<notin> set p \<Longrightarrow> decode_once p = None"
  by (simp add: decode_once_def unescape_plain)

lemma decode_once_percent: "p \<noteq> [] \<Longrightarrow> decode_once (percent_encode p) = Some p"
proof -
  assume "p \<noteq> []"
  then have "percent_encode p \<noteq> p" using length_percent [of p] by (cases p) force+
  then show ?thesis by (auto simp: decode_once_def unescape_percent)
qed

lemma normalize_plain_word:
  assumes "plain_word p"
  shows "normalizeProbePath uni p =
    clean_path (one_semicolon (static_prefix (rooted_path (collapse_slashes (backslashes (decode_twice p))))))"
proof -
  have "p \<noteq> []" using assms by (simp add: plain_word_def)
  then show ?thesis by (simp add: normalizeProbePath_def plain_word_trim [OF assms] plain_word_lower [OF assms])
qed

text \<open>C31: Percent-encoding hides no lower-case path from the families of probes: an ASCII path without upper-case
  letters, blanks and percent signs, with every byte of it encoded once, or encoded and then encoded
  again, is the same probe. (Upper-case letters that are encoded escape: \<open>upper_case_escapes\<close>.)
\<close>

theorem encoded_probe_found:
  assumes "plain_word p" "CHR ''%'' \<notin> set p"
  shows "identifyProbeFamily uni (percent_encode p) = identifyProbeFamily uni p
    \<and> identifyProbeFamily uni (percent_encode (percent_encode p)) = identifyProbeFamily uni p"
proof -
  have ne: "p \<noteq> []" "percent_encode p \<noteq> []" using assms length_percent [of p] by (auto simp: plain_word_def)
  have "decode_twice p = p" "decode_twice (percent_encode p) = p" "decode_twice (percent_encode (percent_encode p)) = p"
    using assms(2) ne by (simp_all add: decode_twice_def decode_once_plain decode_once_percent)
  then show ?thesis
    using assms(1) percent_plain_word [OF ne(1)] percent_plain_word [OF ne(2)]
    by (simp add: identifyProbeFamily_def normalize_plain_word)
qed

theorem encoded_probe_found_witness:
  "identifyProbeFamily (\<lambda>s. s) (percent_encode ''/.env'') = identifyProbeFamily (\<lambda>s. s) ''/.env''"
proof -
  have "plain_word ''/.env''" by (simp add: plain_word_def char_is_space_def byte_in_def ascii_lower_def is_upper_def)
  then show ?thesis using encoded_probe_found [of "''/.env''" "\<lambda>s. s"] by simp
qed

text \<open>
  The lower-casing comes before the decoding: an upper-case path is compared in lower case as it is, and in
  upper case, in which no family is named, when it comes encoded.
\<close>

lemma upper_case_escapes:
  "normalizeProbePath (\<lambda>s. s) ''/MCP'' = ''/mcp''" "normalizeProbePath (\<lambda>s. s) (percent_encode ''/MCP'') = ''/MCP''"
proof -
  have trim: "TrimSpace ''/MCP'' = ''/MCP''" by (rule TrimSpace_id) (simp_all add: char_is_space_def byte_in_def)
  have lower: "ToLower (\<lambda>s. s) ''/MCP'' = ''/mcp''" by code_simp
  have "plain_word ''/mcp''" by (simp add: plain_word_def char_is_space_def byte_in_def ascii_lower_def is_upper_def)
  then have "normalizeProbePath (\<lambda>s. s) ''/MCP'' = normalizeProbePath (\<lambda>s. s) ''/mcp''"
    by (simp add: normalizeProbePath_def trim lower plain_word_trim plain_word_lower)
  also have "\<dots> = clean_path (one_semicolon (static_prefix (rooted_path (collapse_slashes (backslashes ''/mcp'')))))"
    using \<open>plain_word ''/mcp''\<close> by (simp add: normalize_plain_word decode_twice_def decode_once_plain)
  also have "\<dots> = ''/mcp''" by code_simp
  finally show "normalizeProbePath (\<lambda>s. s) ''/MCP'' = ''/mcp''" .
  have "decode_twice (percent_encode ''/MCP'') = ''/MCP''"
    by (simp add: decode_twice_def decode_once_percent decode_once_plain)
  moreover have "clean_path (one_semicolon (static_prefix (rooted_path (collapse_slashes (backslashes ''/MCP''))))) = ''/MCP''" by code_simp
  ultimately show "normalizeProbePath (\<lambda>s. s) (percent_encode ''/MCP'') = ''/MCP''"
    by (simp add: normalize_plain_word percent_plain_word)
qed

section \<open>Tests that cannot hold\<close>

text \<open>
  The paths with a trailing slash that the families compare with are never normal forms: those tests
  never hold, whatever is requested.
\<close>

theorem slash_tests_dead:
  "normalizeProbePath uni raw \<notin> {''/mcp/'', ''/wp/'', ''/wordpress/'', ''/blog/'', ''/phpinfo/'', ''/hnap1/'', ''/webui/'',
     ''/geoserver/'', ''/__debug__/''}"
  using normal_path_clean [of uni raw] by auto

end
