(* ===== verification/Scorer.thy ===== *)
theory Scorer
  imports EventStore WebProbe
begin

text \<open>
  The score of a request (\<open>internal/engine/scorer.go\<close>): signals in its path, query and body,
  in its user agent and headers and in the times of the session's last requests, added to scores that
  decay slowly.

  Parameters: the case mapping of \<open>webEnv\<close>, and \<open>dev\<close>, the standard deviation that the code
  computes with \<open>float64\<close> and truncates. The other floating-point operations are on small
  integers: the mean is exact before it is truncated, and the product with 0.72 is never within
  rounding distance of a half, so both are written with integers.
\<close>

record assessment =
  as_risk :: int
  as_automation :: int
  as_class :: string
  as_actor :: string
  as_confidence :: string
  as_category :: string
  as_persona :: string

definition pathSignals :: "(string \<times> int \<times> string \<times> string) list" where
  "pathSignals =
    [(''/sdk/weblanguage'', 52, ''exploit-probe'', ''embedded''), (''/.env'', 42, ''secret-discovery'', ''devops''),
     (''/.git'', 38, ''source-discovery'', ''devops''), (''/wp-admin'', 28, ''cms-enumeration'', ''wordpress''),
     (''/+cscoe+/logon.html'', 34, ''vpn-enumeration'', ''remote-access''),
     (''/remote/login'', 32, ''vpn-enumeration'', ''remote-access''),
     (''/dispatch.asp'', 26, ''appliance-enumeration'', ''embedded''),
     (''/webpages/login.html'', 22, ''appliance-enumeration'', ''embedded''),
     (''/doc/index.html'', 20, ''appliance-enumeration'', ''embedded''),
     (''/manage/account/login'', 22, ''admin-enumeration'', ''web''), (''/login.jsp'', 20, ''admin-enumeration'', ''web''),
     (''/login.html'', 14, ''login-enumeration'', ''web''), (''/login.htm'', 14, ''login-enumeration'', ''web''),
     (''/wp-login'', 28, ''cms-enumeration'', ''wordpress''), (''/phpmyadmin'', 35, ''admin-enumeration'', ''web''),
     (''/swagger'', 28, ''api-enumeration'', ''api''), (''/openapi'', 28, ''api-enumeration'', ''api''),
     (''/graphql'', 20, ''api-enumeration'', ''api''), (''/api/json/settings/'', 34, ''config-enumeration'', ''api''),
     (''/actuator'', 35, ''framework-enumeration'', ''devops''), (''/jenkins'', 32, ''ci-enumeration'', ''devops''),
     (''/backup'', 25, ''backup-discovery'', ''web''), (''/admin'', 14, ''admin-enumeration'', ''web''),
     (''/server-status'', 30, ''server-enumeration'', ''web''), (''/vendor/phpunit'', 45, ''exploit-probe'', ''web''),
     (''/phpunit/'', 45, ''exploit-probe'', ''web''), (''/lib/phpunit/'', 45, ''exploit-probe'', ''web''),
     (''/containers/json'', 44, ''container-enumeration'', ''containers''),
     (''/credentials.js'', 38, ''credential-discovery'', ''devops''),
     (''/config.json.js'', 32, ''config-discovery'', ''devops''), (''/settings.js'', 28, ''config-discovery'', ''devops''),
     (''/administrator/manifests/files/joomla.xml'', 30, ''cms-enumeration'', ''joomla''),
     (''/_next/'', 18, ''framework-enumeration'', ''web''), (''/cgi-bin'', 30, ''exploit-probe'', ''web''),
     (''/fetch'', 32, ''ssrf-discovery'', ''api''), (''/$(pwd)/'', 48, ''file-read'', ''devops''),
     (''/var/www/html/.env'', 48, ''file-read'', ''devops''), (''/proxy'', 32, ''ssrf-discovery'', ''api''),
     (''/@fs/'', 52, ''file-read'', ''devops''), (''/proc/self/environ'', 52, ''file-read'', ''devops''),
     (''terraform.tfstate'', 48, ''credential-discovery'', ''cloud''),
     (''terraform.tfvars'', 46, ''credential-discovery'', ''cloud''),
     (''.azure/'', 46, ''credential-discovery'', ''cloud''), (''.npmrc'', 42, ''credential-discovery'', ''devops''),
     (''.netrc'', 44, ''credential-discovery'', ''devops''), (''rclone.conf'', 44, ''credential-discovery'', ''cloud''),
     (''/latest/meta-data/'', 52, ''cloud-metadata-discovery'', ''cloud''),
     (''/db.sql'', 40, ''backup-discovery'', ''database''), (''/dump.sql'', 40, ''backup-discovery'', ''database''),
     (''/id_rsa'', 48, ''credential-discovery'', ''devops''), (''/id_ed25519'', 48, ''credential-discovery'', ''devops''),
     (''/.docker/config.json'', 46, ''credential-discovery'', ''containers''),
     (''serviceaccountkey.json'', 46, ''credential-discovery'', ''cloud''),
     (''service-account.json'', 46, ''credential-discovery'', ''cloud''),
     (''firebase-adminsdk.json'', 44, ''credential-discovery'', ''cloud''),
     (''/credentials.json'', 42, ''credential-discovery'', ''cloud''),
     (''/secrets.json'', 42, ''credential-discovery'', ''cloud''), (''/wp-json/'', 30, ''cms-enumeration'', ''wordpress''),
     (''/wp/v2/'', 30, ''cms-enumeration'', ''wordpress''),
     (''credentials.yml.enc'', 46, ''credential-discovery'', ''rails''),
     (''secret_token.rb'', 44, ''credential-discovery'', ''rails''), (''/.svn/'', 36, ''source-discovery'', ''devops''),
     (''/.hg/'', 36, ''source-discovery'', ''devops''), (''aws.ini'', 38, ''credential-discovery'', ''cloud''),
     (''s3.yml'', 38, ''credential-discovery'', ''cloud''), (''s3.yaml'', 38, ''credential-discovery'', ''cloud''),
     (''.sql.gz'', 42, ''backup-discovery'', ''database''), (''/api/v1/internal/'', 35, ''bait-follow'', ''api''),
     (''/api/v2/private/'', 40, ''bait-follow'', ''api''), (''/ops/inventory'', 38, ''bait-follow'', ''network''),
     (''/internal/inventory'', 38, ''bait-follow'', ''network''), (''/registry/v2/'', 38, ''bait-follow'', ''containers''),
     (''/debug/'', 32, ''bait-follow'', ''devops''), (''../'', 45, ''path-traversal'', ''web''),
     (''%2e%2e'', 45, ''path-traversal'', ''web''), (''/etc/passwd'', 55, ''file-read'', ''web'')]"

definition payloadSignals :: "(string \<times> int \<times> string) list" where
  "payloadSignals =
    [(''union select'', 50, ''sql-injection''), (''or 1=1'', 42, ''sql-injection''), (''<script'', 40, ''xss''),
     (''${jndi:'', 55, ''jndi-probe''), (''/bin/sh'', 45, ''command-injection''), (''cmd='', 20, ''command-injection''),
     (''wget '', 35, ''command-injection''), (''curl '', 25, ''command-injection'')]"

definition scannerUA :: "string list" where
  "scannerUA =
    [''nuclei'', ''sqlmap'', ''nikto'', ''masscan'', ''zgrab'', ''gobuster'', ''ffuf'', ''dirbuster'', ''wpscan'',
     ''acunetix'', ''nessus'', ''openvas'', ''python-requests'', ''go-http-client'', ''genomecrawlerd'']"

definition measurementUA :: "string list" where
  "measurementUA = [''censysinspect'', ''shodan'', ''internet-measurement'']"

definition clampInt :: "int \<Rightarrow> int \<Rightarrow> int \<Rightarrow> int" where
  "clampInt v lo hi = (if v < lo then lo else if hi < v then hi else v)"

section \<open>Signals\<close>

text \<open>The state of the loops over the tables: the risk, the category, the persona.\<close>

definition path_signal ::
  "string \<Rightarrow> string \<times> int \<times> string \<times> string \<Rightarrow> int \<times> string \<times> string \<Rightarrow> int \<times> string \<times> string" where
  "path_signal tx sig acc =
     (case sig of (needle, weight, cat, persona) \<Rightarrow> case acc of (risk, c, p) \<Rightarrow>
        if Contains tx needle then (max risk weight, cat, if p = [] then persona else p) else acc)"

definition payload_signal :: "string \<Rightarrow> string \<times> int \<times> string \<Rightarrow> int \<times> string \<times> string \<Rightarrow> int \<times> string \<times> string" where
  "payload_signal tx sig acc =
     (case sig of (needle, weight, cat) \<Rightarrow> case acc of (risk, c, p) \<Rightarrow>
        if Contains tx needle then (max risk weight, cat, p) else acc)"

definition text_signals :: "string \<Rightarrow> string \<Rightarrow> int \<times> string \<times> string" where
  "text_signals tx persona =
     fold (payload_signal tx) payloadSignals (fold (path_signal tx) pathSignals (0, ''request'', persona))"

definition request_text :: "webEnv \<Rightarrow> httpRequest \<Rightarrow> string \<Rightarrow> string" where
  "request_text env r body =
     ToLower (we_lower env) (hr_escaped r) @ ''?'' @ ToLower (we_lower env) (hr_query r) @ '' '' @ ToLower (we_lower env) body"

text \<open>What the user agent, the method and the headers add: risk, automation, category.\<close>

definition client_signals :: "webEnv \<Rightarrow> httpRequest \<Rightarrow> int \<times> int \<times> string \<Rightarrow> int \<times> int \<times> string" where
  "client_signals env r acc =
     (let ua = ToLower (we_lower env) (UserAgent r);
          path = ToLower (we_lower env) (hr_escaped r);
          (risk, auto, cat) = acc;
          (risk, auto, cat) = (if Contains path ''/api/json/settings/'' \<and> Contains ua ''cve-'' \<and> Contains ua ''audit''
                               then (max risk 48, auto + 35, ''vulnerability-audit-probe'') else (risk, auto, cat));
          (auto, cat) = (if has_any ua measurementUA then (auto + 75, ''internet-measurement'') else (auto, cat));
          (risk, auto, cat) = (if has_any ua scannerUA then (risk + 22, auto + 35, ''scanner-fingerprint'') else (risk, auto, cat));
          (risk, auto, cat) = (if hr_method r = ''TRACE'' \<or> hr_method r = ''CONNECT'' then (risk + 30, auto + 10, ''unusual-method'')
                               else (risk, auto, cat));
          auto = (if TrimSpace (UserAgent r) = [] then auto + 12 else auto);
          auto = (if Header r ''Sec-Fetch-Site'' \<noteq> [] \<or> Header r ''Sec-Fetch-Mode'' \<noteq> [] then auto - 8 else auto);
          auto = (if Header r ''Accept-Language'' \<noteq> [] then auto - 4
                  else if Header r ''Sec-Fetch-Mode'' = [] then auto + 8 else auto)
      in (risk, auto, cat))"

section \<open>Intervals\<close>

definition milliseconds :: "duration \<Rightarrow> int" where
  "milliseconds d = go_div d millisecond"

fun time_gaps :: "gotime list \<Rightarrow> duration list" where
  "time_gaps (a # b # ts) = time_sub b a # time_gaps (b # ts)"
| "time_gaps _ = []"

definition intervalStats :: "(int list \<Rightarrow> int) \<Rightarrow> gotime list \<Rightarrow> int \<times> int" where
  "intervalStats dev ts =
     (let vals = map milliseconds (time_gaps ts)
      in if vals = [] then (0, 0) else (go_div (sum_list vals) (int (length vals)), dev vals))"

definition interval_signal :: "(int list \<Rightarrow> int) \<Rightarrow> gotime list \<Rightarrow> int" where
  "interval_signal dev ts =
     (case intervalStats dev ts of (avg, var) \<Rightarrow>
        if length ts < 3 then 0
        else (if avg < 150 then 45 else if avg < 350 then 32 else if avg < 800 then 18 else if 2500 < avg then - 18 else 0)
           + (if var < 80 \<and> avg < 1200 then 12 else 0)
           + (if 6 \<le> length ts \<and> time_sub (List.last ts) (ts ! (length ts - 6)) < 2 * second then 18 else 0))"

section \<open>The assessment\<close>

text \<open>\<open>int(math.Round(float64(x) * 0.72))\<close>, rounding halves away from zero.\<close>

definition decayed :: "int \<Rightarrow> int" where
  "decayed x = (if 0 \<le> x then (72 * x + 50) div 100 else - ((72 * - x + 50) div 100))"

definition classOf :: "trapConfig \<Rightarrow> int \<Rightarrow> string" where
  "classOf cfg risk = (if tc_hostile cfg \<le> risk then ''hostile'' else if tc_suspicious cfg \<le> risk then ''suspicious'' else ''benign'')"

definition AssessAt ::
  "webEnv \<Rightarrow> (int list \<Rightarrow> int) \<Rightarrow> trapConfig \<Rightarrow> httpRequest \<Rightarrow> webSession \<Rightarrow> string \<Rightarrow> gotime \<Rightarrow> assessment" where
  "AssessAt env dev cfg r ss body now =
     (let (risk, cat, persona) = text_signals (request_text env r body) (sc_persona (ss_scoring ss));
          (risk_delta, auto_delta, cat) = client_signals env r (risk, 0, cat);
          ts = last_n 12 (sort (ss_recent ss @ [now]));
          auto_delta = auto_delta + interval_signal dev ts;
          risk = clampInt (max (sc_risk (ss_scoring ss) - 2) 0 + risk_delta) 0 100;
          auto = clampInt (decayed (sc_automation (ss_scoring ss)) + auto_delta) 0 100;
          known = 3 \<le> wrap64 (ss_requests ss + 1);
          actor = (if \<not> known then ''unknown'' else if 65 \<le> auto then ''automated'' else if auto \<le> 30 then ''human'' else ''unknown'');
          confidence = (if \<not> known then ''low'' else if 85 \<le> auto \<or> auto \<le> 15 then ''high''
                        else if actor \<noteq> ''unknown'' then ''medium'' else ''low'')
      in \<lparr>as_risk = risk, as_automation = auto, as_class = classOf cfg risk, as_actor = actor, as_confidence = confidence,
          as_category = cat, as_persona = persona\<rparr>)"

end
