(* ===== verification/ScorerProofs.thy ===== *)
theory ScorerProofs
  imports Scorer WebRequestProofs EventStoreProofs
begin

text \<open>
  The scores stay between 0 and 100, the class follows the thresholds, one request never drops the
  risk by more than two points, and the words that mark an attack count wherever they stand.
\<close>

lemma clampInt_range: "lo \<le> hi \<Longrightarrow> lo \<le> clampInt v lo hi \<and> clampInt v lo hi \<le> hi"
  by (simp add: clampInt_def)

lemma clampInt_mono: "v \<le> w \<Longrightarrow> lo \<le> hi \<Longrightarrow> clampInt v lo hi \<le> clampInt w lo hi"
  by (simp add: clampInt_def)

lemma clampInt_id: "lo \<le> v \<Longrightarrow> v \<le> hi \<Longrightarrow> clampInt v lo hi = v"
  by (simp add: clampInt_def)

section \<open>Signals\<close>

lemma path_fold_ge: "fst acc \<le> fst (fold (path_signal tx) sigs acc)"
proof (induction sigs arbitrary: acc)
  case (Cons s sigs)
  have "fst acc \<le> fst (path_signal tx s acc)" by (auto simp: path_signal_def split: prod.split)
  then show ?case using Cons.IH [of "path_signal tx s acc"] by simp
qed simp

lemma payload_fold_ge: "fst acc \<le> fst (fold (payload_signal tx) sigs acc)"
proof (induction sigs arbitrary: acc)
  case (Cons s sigs)
  have "fst acc \<le> fst (payload_signal tx s acc)" by (auto simp: payload_signal_def split: prod.split)
  then show ?case using Cons.IH [of "payload_signal tx s acc"] by simp
qed simp

lemma path_fold_signal:
  "(needle, weight, cat, p) \<in> set sigs \<Longrightarrow> Contains tx needle \<Longrightarrow> weight \<le> fst (fold (path_signal tx) sigs acc)"
proof (induction sigs arbitrary: acc)
  case (Cons s sigs)
  show ?case
  proof (cases "s = (needle, weight, cat, p)")
    case True
    then have "weight \<le> fst (path_signal tx s acc)" using Cons.prems by (auto simp: path_signal_def split: prod.split)
    then show ?thesis using path_fold_ge [of "path_signal tx s acc" tx sigs] by simp
  qed (use Cons in simp)
qed simp

lemma payload_fold_signal:
  "(needle, weight, cat) \<in> set sigs \<Longrightarrow> Contains tx needle \<Longrightarrow> weight \<le> fst (fold (payload_signal tx) sigs acc)"
proof (induction sigs arbitrary: acc)
  case (Cons s sigs)
  show ?case
  proof (cases "s = (needle, weight, cat)")
    case True
    then have "weight \<le> fst (payload_signal tx s acc)" using Cons.prems by (auto simp: payload_signal_def split: prod.split)
    then show ?thesis using payload_fold_ge [of "payload_signal tx s acc" tx sigs] by simp
  qed (use Cons in simp)
qed simp

lemma text_signals_ge: "0 \<le> fst (text_signals tx persona)"
  using path_fold_ge [of "(0, ''request'', persona)" tx pathSignals]
    payload_fold_ge [of "fold (path_signal tx) pathSignals (0, ''request'', persona)" tx payloadSignals]
  by (simp add: text_signals_def)

lemma text_signals_weight:
  assumes "Contains tx needle"
    and "(\<exists>cat p. (needle, weight, cat, p) \<in> set pathSignals) \<or> (\<exists>cat. (needle, weight, cat) \<in> set payloadSignals)"
  shows "weight \<le> fst (text_signals tx persona)"
  using assms(2)
proof
  assume "\<exists>cat p. (needle, weight, cat, p) \<in> set pathSignals"
  then have "weight \<le> fst (fold (path_signal tx) pathSignals (0, ''request'', persona))"
    using path_fold_signal assms(1) by blast
  then show ?thesis
    using payload_fold_ge [of "fold (path_signal tx) pathSignals (0, ''request'', persona)" tx payloadSignals]
    by (simp add: text_signals_def)
next
  assume "\<exists>cat. (needle, weight, cat) \<in> set payloadSignals"
  then obtain cat where "(needle, weight, cat) \<in> set payloadSignals" by blast
  from payload_fold_signal [OF this assms(1)] show ?thesis unfolding text_signals_def .
qed

lemma client_signals_ge: "fst acc \<le> fst (client_signals env r acc)"
  by (cases acc) (auto simp: client_signals_def Let_def)

section \<open>The assessment\<close>

lemma AssessAt_risk:
  "as_risk (AssessAt env dev cfg r ss body now) =
     clampInt (max (sc_risk (ss_scoring ss) - 2) 0
       + fst (client_signals env r (fst (text_signals (request_text env r body) (sc_persona (ss_scoring ss))), 0,
           fst (snd (text_signals (request_text env r body) (sc_persona (ss_scoring ss))))))) 0 100"
  by (simp add: AssessAt_def Let_def split: prod.split)

lemma AssessAt_class: "as_class (AssessAt env dev cfg r ss body now) = classOf cfg (as_risk (AssessAt env dev cfg r ss body now))"
  by (simp add: AssessAt_def Let_def split: prod.split)

lemma AssessAt_ranges:
  "0 \<le> as_risk (AssessAt env dev cfg r ss body now) \<and> as_risk (AssessAt env dev cfg r ss body now) \<le> 100
   \<and> 0 \<le> as_automation (AssessAt env dev cfg r ss body now) \<and> as_automation (AssessAt env dev cfg r ss body now) \<le> 100"
  by (auto simp: AssessAt_def Let_def clampInt_def split: prod.split)

text \<open>Every word of the two signal tables counts wherever it stands: a request whose path, query or
  body contains it, in either case, is given at least its weight on top of what the session's risk
  has decayed to; no request lowers the risk by more than two; and the class follows the thresholds.
\<close>

lemma signals_count:
  assumes "Contains (request_text env r body) needle"
    and "(\<exists>cat p. (needle, weight, cat, p) \<in> set pathSignals) \<or> (\<exists>cat. (needle, weight, cat) \<in> set payloadSignals)"
    and "a = AssessAt env dev cfg r ss body now"
  shows "min 100 (max (sc_risk (ss_scoring ss) - 2) 0 + weight) \<le> as_risk a
    \<and> min 100 (sc_risk (ss_scoring ss) - 2) \<le> as_risk a \<and> as_risk a \<le> 100
    \<and> as_class a = classOf cfg (as_risk a)"
proof -
  let ?t = "text_signals (request_text env r body) (sc_persona (ss_scoring ss))"
  let ?d = "fst (client_signals env r (fst ?t, 0, fst (snd ?t)))"
  have d: "fst ?t \<le> ?d" using client_signals_ge [of "(fst ?t, 0, fst (snd ?t))" env r] by simp
  have w: "weight \<le> fst ?t" by (rule text_signals_weight [OF assms(1,2)])
  have z: "0 \<le> fst ?t" by (rule text_signals_ge)
  have a: "as_risk a = clampInt (max (sc_risk (ss_scoring ss) - 2) 0 + ?d) 0 100" unfolding assms(3) by (rule AssessAt_risk)
  have "min 100 (max (sc_risk (ss_scoring ss) - 2) 0 + weight) \<le> as_risk a" "min 100 (sc_risk (ss_scoring ss) - 2) \<le> as_risk a"
    using d w z unfolding a by (auto simp: clampInt_def)
  moreover have "as_risk a \<le> 100" using AssessAt_ranges assms(3) by blast
  moreover have "as_class a = classOf cfg (as_risk a)" using AssessAt_class assms(3) by blast
  ultimately show ?thesis by blast
qed


definition env_session :: webSession where
  "env_session = (fresh_session (plain_event ''s'' 1 ''/''))
     \<lparr>ss_scoring := \<lparr>sc_risk = 40, sc_automation = 0, sc_class = ''benign'', sc_actor = ''unknown'', sc_confidence = ''low'',
       sc_avg = 0, sc_var = 0, sc_persona = [], sc_depth = 0, sc_loop = 0, sc_frustration = 0\<rparr>\<rparr>"

theorem signals_count_witness:
  "80 \<le> as_risk (AssessAt web_env (\<lambda>_. 0) web_config (web_request\<lparr>hr_escaped := ''/.env''\<rparr>) env_session [] 0)"
proof -
  have "Contains (request_text web_env (web_request\<lparr>hr_escaped := ''/.env''\<rparr>) []) ''/.env''" by code_simp
  moreover have "(''/.env'', 42, ''secret-discovery'', ''devops'') \<in> set pathSignals" by (simp add: pathSignals_def)
  ultimately show ?thesis
    using signals_count [where env = web_env and r = "web_request\<lparr>hr_escaped := ''/.env''\<rparr>" and body = "[]" and needle = "''/.env''"
        and weight = 42 and ss = env_session and now = 0 and cfg = web_config, OF _ _ refl, of "\<lambda>_. 0"]
    by (auto simp: env_session_def)
qed

end
