(* ===== verification/WebBehavior.thy ===== *)
theory WebBehavior
  imports EventStore
begin

text \<open>
  What the recent requests of one address say of it (\<open>internal/store/automation.go\<close>): the
  signals of its behaviour, the slow prober, the sweep over host headers, and the promotion of its
  sessions. The operation on the actor profile that follows a promotion is a parameter.
\<close>

section \<open>Tables\<close>

definition bot_claims :: "(string \<times> string) list" where
  "bot_claims =
    [(''googlebot'', ''google''), (''googleother'', ''google''), (''google-cloudvertexbot'', ''google''),
     (''applebot'', ''apple''), (''duckduckbot'', ''duckduckgo''), (''duckassistbot'', ''duckduckgo''),
     (''oai-searchbot'', ''openai''), (''gptbot'', ''openai''), (''chatgpt-user'', ''openai''),
     (''perplexitybot'', ''perplexity''), (''perplexity-user'', ''perplexity''), (''bingbot'', ''bing''), (''baiduspider'', ''baidu''),
     (''yandexbot'', ''yandex''), (''ccbot'', ''commoncrawl''), (''bytespider'', ''bytedance''),
     (''grokbot'', ''xai''), (''telegrambot'', ''telegram'')]"

definition botClaimLabel :: "(string \<Rightarrow> string) \<Rightarrow> string \<Rightarrow> string" where
  "botClaimLabel uni ua =
     (case List.find (\<lambda>(needle, _). Contains (ToLower uni ua) needle) bot_claims of None \<Rightarrow> [] | Some (_, label) \<Rightarrow> label)"

definition holds_any :: "string list \<Rightarrow> string \<Rightarrow> bool" where
  "holds_any needles p = list_ex (Contains p) needles"

definition ssrf_path :: "string \<Rightarrow> bool" where
  "ssrf_path = holds_any [''/fetch'', ''/proxy'', ''/webhook'', ''/preview'', ''/screenshot'']"

definition credential_path :: "string \<Rightarrow> bool" where
  "credential_path = holds_any [''credential'', ''.aws'', ''.azure'', ''terraform'', ''.npmrc'', ''.netrc'', ''service_account'', ''service-account'']"

definition file_read_path :: "string \<Rightarrow> bool" where
  "file_read_path = holds_any [''/@fs/'', ''/proc/self/environ'', ''../etc/passwd'']"

definition php_path :: "string \<Rightarrow> bool" where
  "php_path p = HasSuffix p ''.php''"

definition wordpress_path :: "string \<Rightarrow> bool" where
  "wordpress_path = holds_any [''/wp-includes/'', ''/wp-content/'', ''/wp-'']"

definition structured_api_path :: "string \<Rightarrow> bool" where
  "structured_api_path p = HasPrefix p ''/api/json/settings/''"

definition remote_access_path :: "string \<Rightarrow> bool" where
  "remote_access_path = holds_any [''fire_admin'', ''vpn'', ''officialsite'', ''/+cscoe+/'', ''/remote/login'', ''smacfilter_conf'', ''/cgi-bin/luci/'']"

section \<open>Signals\<close>

record httpBehavior =
  hb_automation :: int
  hb_risk :: int
  hb_fingerprints :: "string list"
  hb_requests :: nat
  hb_sessions :: nat
  hb_agents :: nat
  hb_paths :: nat

text \<open>The events from the newest back to the first that is too old.\<close>

definition recent_events :: "duration \<Rightarrow> gotime \<Rightarrow> webEvent list \<Rightarrow> webEvent list" where
  "recent_events window now es = takeWhile (\<lambda>e. \<not> window < time_sub now (ev_at e)) (rev es)"

definition lower_trim :: "(string \<Rightarrow> string) \<Rightarrow> string \<Rightarrow> string" where
  "lower_trim uni s = TrimSpace (ToLower uni s)"

definition path_count :: "(string \<Rightarrow> string) \<Rightarrow> (string \<Rightarrow> bool) \<Rightarrow> webEvent list \<Rightarrow> nat" where
  "path_count uni kind rows = length (List.filter (\<lambda>e. ev_path e \<noteq> [] \<and> kind (ToLower uni (ev_path e))) rows)"

definition distinct_values :: "string list \<Rightarrow> nat" where
  "distinct_values xs = length (remdups (List.filter (\<lambda>x. x \<noteq> []) xs))"

text \<open>The middle of the sorted numbers, the later one of two.\<close>

definition middle :: "int list \<Rightarrow> int" where
  "middle xs = sort xs ! (length xs div 2)"

definition lowAndSlowHTTPProber :: "(string \<Rightarrow> string) \<Rightarrow> webEvent list \<Rightarrow> string \<Rightarrow> gotime \<Rightarrow> bool" where
  "lowAndSlowHTTPProber uni es ip now =
     (let rows = take 120 (List.filter (\<lambda>e. ev_ip e = ip \<and> \<not> eo_self_origin (ev_origin e)) (recent_events (20 * minute) now es));
          times = sort (map ev_at rows);
          known = length (List.filter (\<lambda>e. pr_known (ev_probe e) \<or> pr_name (ev_probe e) \<noteq> []) rows);
          paths = distinct_values (map (\<lambda>e. if ev_path e = [] then [] else ToLower uni (ev_path e)) rows) in
      if length times < 20 \<or> known < 12 \<or> paths < 15 then False
      else if time_sub (List.last times) (hd times) < 3 * minute then False
      else (let gs = List.filter (\<lambda>g. 0 < g) (map2 (\<lambda>a b. go_div (time_sub b a) millisecond) times (tl times)) in
            if length gs < 15 then False
            else (let median = middle gs in
                  if median < 3000 \<or> 30000 < median then False
                  else (let mad = middle (map (\<lambda>g. \<bar>g - median\<bar>) gs)
                        in mad \<le> max 1000 (go_div median 4)))))"

text \<open>One test: the boosts and the fingerprint it adds when it holds.\<close>

definition add_signal :: "bool \<times> int \<times> int \<times> string \<Rightarrow> int \<times> int \<times> string list \<Rightarrow> int \<times> int \<times> string list" where
  "add_signal sig acc =
     (case sig of (holds, a, k, fp) \<Rightarrow> case acc of (auto, risk, fps) \<Rightarrow>
        if holds then (auto + a, risk + k, fps @ [fp]) else acc)"

definition HTTPBehavior :: "(string \<Rightarrow> string) \<Rightarrow> webEvent list \<Rightarrow> string \<Rightarrow> string \<Rightarrow> gotime \<Rightarrow> httpBehavior" where
  "HTTPBehavior uni es ip current_ua now =
     (let rows = List.filter (\<lambda>e. ev_ip e = ip) (recent_events (45 * second) now es);
          requests = length rows;
          sessions = length (remdups (map ev_session rows));
          agents = distinct_values (lower_trim uni current_ua # map (\<lambda>e. lower_trim uni (ev_agent e)) rows);
          paths = distinct_values (map ev_path rows);
          claims = distinct_values (botClaimLabel uni current_ua # map (\<lambda>e. botClaimLabel uni (ev_agent e)) rows);
          (auto, risk, fps) = fold add_signal
            [(4 \<le> requests \<and> 3 \<le> sessions, 45, 0, ''http:parallel-prober''),
             (8 \<le> requests \<and> 6 \<le> paths, 30, 8, ''http:config-hunter''),
             (3 \<le> agents, 35, 0, ''http:user-agent-rotation''),
             (3 \<le> claims, 30, 8, ''http:spoofed-crawler-rotation''),
             (16 \<le> requests, 20, 0, ''http:burst-automation''),
             (2 \<le> path_count uni ssrf_path rows, 0, 10, ''http:ssrf-prober''),
             (4 \<le> path_count uni credential_path rows, 0, 12, ''http:cloud-credential-hunter''),
             (2 \<le> path_count uni file_read_path rows, 0, 12, ''http:dev-file-reader''),
             (4 \<le> path_count uni php_path rows, 0, 10, ''http:php-backdoor-hunter''),
             (3 \<le> path_count uni wordpress_path rows, 0, 8, ''http:wordpress-webshell-scanner''),
             (2 \<le> path_count uni structured_api_path rows, 15, 14, ''http:structured-api-enumeration''),
             (3 \<le> path_count uni remote_access_path rows, 18, 8, ''http:remote-access-panel-fingerprint-sweep''),
             (lowAndSlowHTTPProber uni es ip now, 55, 12, ''http:low-and-slow-prober'')]
            (0, 0, [])
      in \<lparr>hb_automation = auto, hb_risk = risk, hb_fingerprints = sort_strings fps, hb_requests = requests, hb_sessions = sessions,
          hb_agents = agents, hb_paths = paths\<rparr>)"

section \<open>Sweeps over host headers\<close>

record hostSweep =
  hs_detected :: bool
  hs_hosts :: nat
  hs_requests :: nat

definition untrusted :: "'a eventEnv \<Rightarrow> domainStore \<Rightarrow> string \<Rightarrow> bool" where
  "untrusted env ds host = (trustedHost (en_lower env) (en_parse_ip env) ds host = None)"

definition event_host :: "'a eventEnv \<Rightarrow> webEvent \<Rightarrow> string" where
  "event_host env e =
     (let host = canonical env (eo_request_host (ev_origin e))
      in if host = [] then canonical env (eo_target (ev_origin e)) else host)"

definition same_agent :: "'a eventEnv \<Rightarrow> string \<Rightarrow> webEvent \<Rightarrow> bool" where
  "same_agent env ua e =
     (let ua = ToLower (en_lower env) (TrimSpace ua)
      in ua = [] \<or> ToLower (en_lower env) (TrimSpace (ev_agent e)) = ua)"

text \<open>The untrusted hosts asked for, one entry for each request.\<close>

definition sweep_hosts :: "'a eventEnv \<Rightarrow> domainStore \<Rightarrow> webEvent list \<Rightarrow> string \<Rightarrow> string \<Rightarrow> string \<Rightarrow> gotime \<Rightarrow> string list" where
  "sweep_hosts env ds es ip current_host ua now =
     List.filter (\<lambda>h. h \<noteq> [] \<and> untrusted env ds h)
       (map (event_host env) (List.filter (\<lambda>e. ev_ip e = ip \<and> same_agent env ua e) (recent_events (2 * minute) now es))
        @ [canonical env current_host])"

definition HTTPHostSweep ::
  "'a eventEnv \<Rightarrow> domainStore \<Rightarrow> webEvent list \<Rightarrow> string \<Rightarrow> string \<Rightarrow> string \<Rightarrow> gotime \<Rightarrow> hostSweep" where
  "HTTPHostSweep env ds es ip current_host ua now =
     (let rows = sweep_hosts env ds es ip current_host ua now; hosts = length (remdups rows); requests = length rows
      in \<lparr>hs_detected = (4 \<le> hosts \<and> 4 \<le> requests \<and> requests \<le> 2 * hosts), hs_hosts = hosts, hs_requests = requests\<rparr>)"

section \<open>Promotion\<close>

definition promoted :: "int \<Rightarrow> webSession \<Rightarrow> webSession" where
  "promoted floor ss =
     (let sc = ss_scoring ss
      in ss\<lparr>ss_scoring := sc\<lparr>sc_actor := ''automated'', sc_automation := max (sc_automation sc) floor,
             sc_confidence := (if sc_confidence sc = [] \<or> sc_confidence sc = ''low'' then ''high'' else sc_confidence sc)\<rparr>\<rparr>)"

definition PromoteHTTPAutomation :: "(string \<Rightarrow> 'a \<Rightarrow> 'a) \<Rightarrow> string \<Rightarrow> int \<Rightarrow> 'a eventStore \<Rightarrow> 'a eventStore" where
  "PromoteHTTPAutomation promote_actor ip0 automation_min s =
     (let ip = TrimSpace ip0; floor = min 100 (max 65 automation_min) in
      if ip = [] then s
      else s\<lparr>es_sessions := map (\<lambda>(i, ss). (i, if ss_ip ss = ip then promoted floor ss else ss)) (es_sessions s),
             es_actors := promote_actor ip (es_actors s)\<rparr>)"

definition ApplyHTTPActorFingerprint ::
  "(string \<Rightarrow> string list \<Rightarrow> 'a \<Rightarrow> 'a) \<Rightarrow> string \<Rightarrow> string list \<Rightarrow> 'a eventStore \<Rightarrow> 'a eventStore" where
  "ApplyHTTPActorFingerprint mark ip fps s =
     (if TrimSpace ip = [] \<or> fps = [] then s else s\<lparr>es_actors := mark ip fps (es_actors s)\<rparr>)"

end
