(* ===== verification/WebBehaviorProofs.thy ===== *)
theory WebBehaviorProofs
  imports WebBehavior EventStoreProofs
begin

text \<open>
  The signals of an address depend on its own events only, trusted hosts never make a sweep, and a
  promotion touches the sessions of its address and no other.
\<close>

section \<open>Recent events\<close>

definition in_order :: "webEvent list \<Rightarrow> bool" where
  "in_order es \<longleftrightarrow> sorted_wrt (\<lambda>a b. ev_at a \<le> ev_at b) es"

lemma in_order_filter: "in_order es \<Longrightarrow> in_order (List.filter P es)"
  by (simp add: in_order_def sorted_wrt_filter)

lemma recent_filter:
  assumes "in_order es"
  shows "recent_events w now es = rev (List.filter (\<lambda>e. \<not> w < time_sub now (ev_at e)) es)"
  using assms
proof (induction es rule: rev_induct)
  case (snoc e es)
  have order: "in_order es" "\<forall>x \<in> set es. ev_at x \<le> ev_at e"
    using snoc.prems by (simp_all add: in_order_def sorted_wrt_append)
  show ?case
  proof (cases "w < time_sub now (ev_at e)")
    case True
    have "w < time_sub now (ev_at x)" if x: "x \<in> set es" for x
    proof -
      have "time_sub now (ev_at e) \<le> time_sub now (ev_at x)" using order(2) x by (auto simp: time_sub_def)
      then show ?thesis using True by simp
    qed
    then show ?thesis using True by (simp add: recent_events_def filter_empty_conv)
  next
    case False
    then show ?thesis using snoc.IH [OF order(1)] by (simp add: recent_events_def)
  qed
qed (simp add: recent_events_def)

lemma recent_own:
  assumes "in_order es"
  shows "List.filter P (recent_events w now (List.filter Q es)) = List.filter (\<lambda>e. P e \<and> Q e) (recent_events w now es)"
  unfolding recent_filter [OF assms] recent_filter [OF in_order_filter [OF assms]]
  by (simp add: rev_filter [symmetric] conj_ac)

lemma recent_restrict:
  assumes "in_order es" "\<And>e. P e \<Longrightarrow> Q e"
  shows "List.filter P (recent_events w now (List.filter Q es)) = List.filter P (recent_events w now es)"
  unfolding recent_own [OF assms(1)] by (rule filter_cong) (auto simp: assms(2))

section \<open>Own events\<close>

lemma behavior_restrict:
  assumes "in_order es"
  shows "HTTPBehavior uni (List.filter (\<lambda>e. ev_ip e = ip) es) ip ua now = HTTPBehavior uni es ip ua now"
proof -
  have own: "List.filter (\<lambda>e. ev_ip e = ip) (recent_events w now (List.filter (\<lambda>e. ev_ip e = ip) es))
      = List.filter (\<lambda>e. ev_ip e = ip) (recent_events w now es)" for w
    by (rule recent_restrict [OF assms])
  have "List.filter (\<lambda>e. ev_ip e = ip \<and> \<not> eo_self_origin (ev_origin e)) (recent_events w now (List.filter (\<lambda>e. ev_ip e = ip) es))
      = List.filter (\<lambda>e. ev_ip e = ip \<and> \<not> eo_self_origin (ev_origin e)) (recent_events w now es)" for w
    by (rule recent_restrict [OF assms]) simp
  then have "lowAndSlowHTTPProber uni (List.filter (\<lambda>e. ev_ip e = ip) es) ip now = lowAndSlowHTTPProber uni es ip now"
    by (simp only: lowAndSlowHTTPProber_def)
  then show ?thesis by (simp only: HTTPBehavior_def own)
qed

lemma sweep_restrict:
  assumes "in_order es"
  shows "HTTPHostSweep env ds (List.filter (\<lambda>e. ev_ip e = ip) es) ip host ua now = HTTPHostSweep env ds es ip host ua now"
  unfolding HTTPHostSweep_def sweep_hosts_def by (subst recent_restrict [OF assms]) auto

text \<open>The signals of an address depend on its own requests only: two logs in time order that hold the
  same events of the address give the same signals, whatever other addresses did.
\<close>

lemma behavior_is_own:
  assumes "in_order es" "in_order es'" "List.filter (\<lambda>e. ev_ip e = ip) es = List.filter (\<lambda>e. ev_ip e = ip) es'"
  shows "HTTPBehavior uni es ip ua now = HTTPBehavior uni es' ip ua now
    \<and> HTTPHostSweep env ds es ip host ua now = HTTPHostSweep env ds es' ip host ua now"
  using behavior_restrict [OF assms(1)] behavior_restrict [OF assms(2)] sweep_restrict [OF assms(1)] sweep_restrict [OF assms(2)] assms(3)
  by metis

theorem behavior_is_own_witness:
  "HTTPBehavior (\<lambda>s. s) [(plain_event ''a'' 1 ''/'')\<lparr>ev_ip := ''7.7.7.7''\<rparr>, plain_event ''b'' 2 ''/''] ''192.0.2.1'' [] 3
   = HTTPBehavior (\<lambda>s. s) [plain_event ''b'' 2 ''/''] ''192.0.2.1'' [] 3"
proof -
  have "in_order [(plain_event ''a'' 1 ''/'')\<lparr>ev_ip := ''7.7.7.7''\<rparr>, plain_event ''b'' 2 ''/'']" "in_order [plain_event ''b'' 2 ''/'']"
    by (simp_all add: in_order_def plain_event_def)
  then show ?thesis
    using behavior_is_own [of "[(plain_event ''a'' 1 ''/'')\<lparr>ev_ip := ''7.7.7.7''\<rparr>, plain_event ''b'' 2 ''/'']"
        "[plain_event ''b'' 2 ''/'']" "''192.0.2.1''" "\<lambda>s. s" "[]" 3 plain_env "\<lparr>ds_manual = [], ds_file = None\<rparr>" "[]"]
    by (simp add: plain_event_def)
qed

section \<open>Trusted hosts\<close>

text \<open>Visiting the operator's own sites is no sweep: an address all of whose requests were for trusted
  hosts, or for none, is never taken for one that sweeps over host headers.
\<close>

lemma trusted_hosts_no_sweep:
  assumes "\<forall>e \<in> set es. ev_ip e = ip \<longrightarrow> event_host env e = [] \<or> \<not> untrusted env ds (event_host env e)"
  shows "\<not> hs_detected (HTTPHostSweep env ds es ip host ua now)"
proof -
  have "event_host env e = [] \<or> \<not> untrusted env ds (event_host env e)"
    if "e \<in> set (List.filter (\<lambda>e. ev_ip e = ip \<and> same_agent env ua e) (recent_events (2 * minute) now es))" for e
    using that assms set_takeWhileD by (fastforce simp: recent_events_def)
  then have "List.filter (\<lambda>h. h \<noteq> [] \<and> untrusted env ds h)
      (map (event_host env) (List.filter (\<lambda>e. ev_ip e = ip \<and> same_agent env ua e) (recent_events (2 * minute) now es))) = []"
    by (auto simp: filter_empty_conv)
  then have "length (sweep_hosts env ds es ip host ua now) \<le> 1" unfolding sweep_hosts_def by simp
  then show ?thesis by (simp add: HTTPHostSweep_def Let_def)
qed

theorem trusted_hosts_no_sweep_witness:
  "\<not> hs_detected (HTTPHostSweep plain_env \<lparr>ds_manual = [], ds_file = None\<rparr> [] ''192.0.2.1'' [] [] 3)"
  using trusted_hosts_no_sweep [of "[]" "''192.0.2.1''" plain_env "\<lparr>ds_manual = [], ds_file = None\<rparr>" "[]" "[]" 3] by simp

section \<open>Promotion\<close>

lemma map_of_map_values: "map_of (map (\<lambda>(i, v). (i, f v)) m) k = map_option f (map_of m k)"
  by (induction m) auto

definition promote_own :: "string \<Rightarrow> int \<Rightarrow> webSession \<Rightarrow> webSession" where
  "promote_own ip m ss = (if ss_ip ss = ip then promoted (min 100 (max 65 m)) ss else ss)"

lemma promoted_fields:
  "ss_ip (promoted k ss) = ss_ip ss" "sc_actor (ss_scoring (promoted k ss)) = ''automated''"
  "sc_automation (ss_scoring (promoted k ss)) = max (sc_automation (ss_scoring ss)) k"
  "sc_confidence (ss_scoring (promoted k ss))
    = (if sc_confidence (ss_scoring ss) = [] \<or> sc_confidence (ss_scoring ss) = ''low'' then ''high'' else sc_confidence (ss_scoring ss))"
  by (simp_all add: promoted_def Let_def)

lemma promoted_idem: "promoted k (promoted k ss) = promoted k ss"
proof -
  have same: "ss\<lparr>ss_scoring := ss_scoring ss\<rparr> = ss" for ss :: webSession by simp
  have "(ss_scoring (promoted k ss))\<lparr>sc_actor := ''automated'', sc_automation := max (sc_automation (ss_scoring (promoted k ss))) k,
      sc_confidence := (if sc_confidence (ss_scoring (promoted k ss)) = [] \<or> sc_confidence (ss_scoring (promoted k ss)) = ''low'' then ''high''
        else sc_confidence (ss_scoring (promoted k ss)))\<rparr> = ss_scoring (promoted k ss)"
    unfolding promoted_fields by (simp add: promoted_def Let_def)
  then show ?thesis unfolding promoted_def [of k "promoted k ss"] Let_def by (simp only: same)
qed

lemma promote_own_idem: "promote_own ip m (promote_own ip m ss) = promote_own ip m ss"
  by (simp add: promote_own_def promoted_fields promoted_idem)

lemma promote_state:
  assumes "TrimSpace ip = ip" "ip \<noteq> []"
  shows "PromoteHTTPAutomation act ip m s =
    s\<lparr>es_sessions := map (\<lambda>(i, ss). (i, promote_own ip m ss)) (es_sessions s), es_actors := act ip (es_actors s)\<rparr>"
  using assms by (simp only: PromoteHTTPAutomation_def Let_def promote_own_def if_False)

text \<open>A promotion marks exactly the sessions of its address: each of them is automated with a score of
  at least the given one, kept between 65 and 100, and never lower than it was; every other session
  and every other table of the store stay as they were; promoting again changes no session.
\<close>

lemma promotion_exact:
  fixes s :: "'a eventStore"
  assumes "TrimSpace ip = ip" "ip \<noteq> []" "s' = PromoteHTTPAutomation act ip m s"
  shows "(case (GetSession i s, GetSession i s') of
      (None, None) \<Rightarrow> True
    | (Some ss, Some ss') \<Rightarrow>
        (if ss_ip ss = ip then sc_actor (ss_scoring ss') = ''automated'' \<and> 65 \<le> sc_automation (ss_scoring ss')
           \<and> min 100 m \<le> sc_automation (ss_scoring ss') \<and> sc_automation (ss_scoring ss) \<le> sc_automation (ss_scoring ss')
         else ss' = ss)
    | _ \<Rightarrow> False)
    \<and> s' = s\<lparr>es_sessions := es_sessions s', es_actors := es_actors s'\<rparr>
    \<and> es_sessions (PromoteHTTPAutomation act ip m s') = es_sessions s'"
proof -
  note s' = assms(3) [unfolded promote_state [OF assms(1,2)]]
  have get: "GetSession i s' = map_option (promote_own ip m) (GetSession i s)"
    unfolding s' GetSession_def by (simp add: map_of_map_values)
  have "es_sessions (PromoteHTTPAutomation act ip m s') = map (\<lambda>(i, ss). (i, promote_own ip m ss)) (es_sessions s')"
    unfolding promote_state [OF assms(1,2)] by simp
  also have "\<dots> = es_sessions s'"
    unfolding s' by (simp add: comp_def split_beta promote_own_idem)
  finally have again: "es_sessions (PromoteHTTPAutomation act ip m s') = es_sessions s'" .
  have rest: "s' = s\<lparr>es_sessions := es_sessions s', es_actors := es_actors s'\<rparr>"
    unfolding s' by simp
  show ?thesis
  proof (cases "GetSession i s")
    case (Some ss)
    have "65 \<le> max x (min 100 (max 65 m)) \<and> min 100 m \<le> max x (min 100 (max 65 m))" for x :: int by (auto simp: max_def min_def)
    then show ?thesis using Some get again rest by (simp add: promote_own_def promoted_fields)
  qed (use get again rest in simp)
qed

theorem promotion_exact_witness:
  "\<exists>ss'. GetSession ''s'' (PromoteHTTPAutomation (\<lambda>_ a. a) ''192.0.2.1'' 90
      ((empty_store () \<lparr>ds_manual = [], ds_file = None\<rparr> [])\<lparr>es_sessions := [(''s'', fresh_session (plain_event ''s'' 1 ''/''))]\<rparr>)) = Some ss'
    \<and> sc_actor (ss_scoring ss') = ''automated''"
proof -
  let ?s = "(empty_store () \<lparr>ds_manual = [], ds_file = None\<rparr> [])\<lparr>es_sessions := [(''s'', fresh_session (plain_event ''s'' 1 ''/''))]\<rparr>"
  have trim: "TrimSpace ''192.0.2.1'' = ''192.0.2.1''" by (rule TrimSpace_id) (simp_all add: char_is_space_def byte_in_def)
  have get: "GetSession ''s'' ?s = Some (fresh_session (plain_event ''s'' 1 ''/''))" by (simp add: GetSession_def)
  have ip: "ss_ip (fresh_session (plain_event ''s'' 1 ''/'')) = ''192.0.2.1''" by (simp add: fresh_session_def plain_event_def)
  show ?thesis
    using promotion_exact [where act = "\<lambda>_ a. a" and m = 90 and s = ?s and i = "''s''", OF trim _ refl] get ip
    by (auto split: option.splits)
qed

end
