(* ===== verification/Integrations.thy ===== *)
theory Integrations
  imports GoHosts GoSort
begin

text \<open>
  The reverse proxies that have proved themselves (\<open>internal/store/integrations.go\<close>): the table
  of peers, its file, a verification, a failure, the list with each peer's state.

  \<open>uni\<close> lowers a string outside ASCII. The file holds the rows that the code encodes as JSON
  (\<open>None\<close>: no file), \<open>writable\<close> says whether the write and the rename succeed.
\<close>

record integrationPeer =
  pe_name :: string
  pe_source :: string
  pe_key :: string
  pe_trust :: string
  pe_first :: gotime
  pe_verified :: gotime
  pe_failure :: gotime
  pe_checks :: int
  pe_failures :: int
  pe_error :: string

record peerStore =
  pt_peers :: "(string, integrationPeer) gomap"
  pt_persist :: "(string, gotime) gomap"
  pt_file :: "integrationPeer list option"

definition integrationStaleAfter :: duration where "integrationStaleAfter = 45 * second"
definition integrationOfflineAfter :: duration where "integrationOfflineAfter = 90 * second"

definition integrationPeerKey :: "(string \<Rightarrow> string) \<Rightarrow> string \<Rightarrow> string \<Rightarrow> string \<Rightarrow> string" where
  "integrationPeerKey uni name source key =
     Join [TrimSpace (ToLower uni name), TrimSpace source, TrimSpace (ToLower uni key)] [CHR 0x00]"

definition row_key :: "(string \<Rightarrow> string) \<Rightarrow> integrationPeer \<Rightarrow> string" where
  "row_key uni p = integrationPeerKey uni (pe_name p) (pe_source p) (pe_key p)"

definition load_peer :: "(string \<Rightarrow> string) \<Rightarrow> integrationPeer \<Rightarrow> (string, integrationPeer) gomap \<Rightarrow> (string, integrationPeer) gomap" where
  "load_peer uni row m =
     (let row = row\<lparr>pe_name := TrimSpace (ToLower uni (pe_name row)), pe_source := TrimSpace (pe_source row),
                    pe_key := TrimSpace (ToLower uni (pe_key row))\<rparr>
      in if pe_name row = [] then m else AList.update (row_key uni row) row m)"

definition loadIntegrationPeers :: "(string \<Rightarrow> string) \<Rightarrow> peerStore \<Rightarrow> peerStore" where
  "loadIntegrationPeers uni s =
     (case pt_file s of None \<Rightarrow> s | Some rows \<Rightarrow> s\<lparr>pt_peers := fold (load_peer uni) rows (pt_peers s)\<rparr>)"

definition peer_before :: "integrationPeer \<Rightarrow> integrationPeer \<Rightarrow> bool" where
  "peer_before p q =
     (if pe_name p \<noteq> pe_name q then lex_le (pe_name p) (pe_name q)
      else if pe_source p \<noteq> pe_source q then lex_le (pe_source p) (pe_source q)
      else lex_le (pe_key p) (pe_key q))"

definition persistIntegrationPeers :: "bool \<Rightarrow> peerStore \<Rightarrow> peerStore \<times> bool" where
  "persistIntegrationPeers writable s =
     (if writable then (s\<lparr>pt_file := Some (sort_by peer_before (map snd (pt_peers s)))\<rparr>, True) else (s, False))"

text \<open>The row a verification works on, and whether it is new or renamed: an older row without key
  identifier takes the key of the next signed verification.\<close>

definition find_peer ::
  "(string \<Rightarrow> string) \<Rightarrow> string \<Rightarrow> string \<Rightarrow> string \<Rightarrow> gotime \<Rightarrow> peerStore \<Rightarrow> peerStore \<times> integrationPeer \<times> bool" where
  "find_peer uni name source key now s =
     (let k = integrationPeerKey uni name source key;
          legacy = integrationPeerKey uni name source [];
          fresh = \<lparr>pe_name = name, pe_source = source, pe_key = key, pe_trust = [], pe_first = now, pe_verified = 0, pe_failure = 0,
                   pe_checks = 0, pe_failures = 0, pe_error = []\<rparr> in
      case map_of (pt_peers s) k of
        Some p \<Rightarrow> (s, p, False)
      | None \<Rightarrow>
          (case if key = [] then None else map_of (pt_peers s) legacy of
             Some old \<Rightarrow>
               if pe_trust old = ''signed'' then
                 (s\<lparr>pt_peers := AList.delete legacy (pt_peers s), pt_persist := AList.delete legacy (pt_persist s)\<rparr>,
                  old\<lparr>pe_key := key\<rparr>, True)
               else (s, fresh, True)
           | None \<Rightarrow> (s, fresh, True)))"

definition RecordIntegrationVerified ::
  "(string \<Rightarrow> string) \<Rightarrow> bool \<Rightarrow> string \<Rightarrow> string \<Rightarrow> string \<Rightarrow> string \<Rightarrow> gotime \<Rightarrow> peerStore \<Rightarrow> peerStore" where
  "RecordIntegrationVerified uni writable name0 source0 trust key0 now s =
     (let name = TrimSpace (ToLower uni name0); source = TrimSpace source0; key = TrimSpace (ToLower uni key0);
          k = integrationPeerKey uni name source key in
      if name = [] then s
      else (case find_peer uni name source key now s of
              (s, p, changed) \<Rightarrow>
                (let changed = (changed \<or> pe_source p \<noteq> source \<or> pe_trust p \<noteq> trust \<or> pe_key p \<noteq> key);
                     p = p\<lparr>pe_source := source, pe_trust := trust, pe_key := key, pe_verified := now,
                           pe_checks := wrap64 (pe_checks p + 1), pe_error := []\<rparr>;
                     s = s\<lparr>pt_peers := AList.update k p (pt_peers s)\<rparr>;
                     last_saved = lookup_or 0 (pt_persist s) k in
                 if changed \<or> last_saved = 0 \<or> 5 * minute \<le> time_sub now last_saved then
                   (case persistIntegrationPeers writable s of
                      (s, ok) \<Rightarrow> if ok then s\<lparr>pt_persist := AList.update k now (pt_persist s)\<rparr> else s)
                 else s)))"

text \<open>Which of several rows with the same name and source is found follows the order of the map.\<close>

definition RecordIntegrationFailure ::
  "(string \<Rightarrow> string) \<Rightarrow> bool \<Rightarrow> string \<Rightarrow> string \<Rightarrow> string \<Rightarrow> gotime \<Rightarrow> bool \<Rightarrow> peerStore \<Rightarrow> peerStore" where
  "RecordIntegrationFailure uni writable name0 source0 message now allow_create s =
     (let name = TrimSpace (ToLower uni name0); source = TrimSpace source0;
          found = List.find (\<lambda>(_, p). pe_name p = name \<and> pe_source p = source) (pt_peers s);
          fresh = \<lparr>pe_name = name, pe_source = source, pe_key = [], pe_trust = [], pe_first = now, pe_verified = 0, pe_failure = 0,
                   pe_checks = 0, pe_failures = 0, pe_error = []\<rparr> in
      if name = [] \<or> (found = None \<and> \<not> allow_create) then s
      else (let (k, p) = (case found of Some row \<Rightarrow> row | None \<Rightarrow> (integrationPeerKey uni name source [], fresh));
                p = p\<lparr>pe_source := source, pe_failure := now, pe_failures := wrap64 (pe_failures p + 1), pe_error := TrimSpace message\<rparr>;
                s = s\<lparr>pt_peers := AList.update k p (pt_peers s)\<rparr>;
                s = fst (persistIntegrationPeers writable s)
            in s\<lparr>pt_persist := AList.update k now (pt_persist s)\<rparr>))"

definition peer_status :: "gotime \<Rightarrow> integrationPeer \<Rightarrow> string" where
  "peer_status now p =
     (let age = time_sub now (pe_verified p) in
      if pe_verified p = 0 \<or> integrationOfflineAfter < age then ''offline''
      else if integrationStaleAfter < age then ''stale''
      else ''verified'')"

definition IntegrationPeers :: "gotime \<Rightarrow> peerStore \<Rightarrow> (integrationPeer \<times> string) list" where
  "IntegrationPeers now s =
     sort_by (later_first (\<lambda>(p, _). pe_verified p)) (map (\<lambda>(_, p). (p, peer_status now p)) (pt_peers s))"

end
