(* ===== verification/IntegrationsProofs.thy ===== *)
theory IntegrationsProofs
  imports Integrations WebRequestProofs
begin

text \<open>
  The table of peers: its keys belong to its rows whatever happens, the peers that are known survive
  a restart, and an older row is renamed, never doubled.
\<close>

section \<open>Keys\<close>

text \<open>Names and key identifiers as \<open>cleanIntegrationName\<close> makes them; addresses without blanks.\<close>

definition peer_word :: "string \<Rightarrow> bool" where
  "peer_word w \<longleftrightarrow> (w = [] \<or> plain_word w) \<and> CHR 0x00 \<notin> set w"

definition peer_source :: "string \<Rightarrow> bool" where
  "peer_source w \<longleftrightarrow> TrimSpace w = w \<and> CHR 0x00 \<notin> set w"

definition peer_ok :: "integrationPeer \<Rightarrow> bool" where
  "peer_ok p \<longleftrightarrow> pe_name p \<noteq> [] \<and> peer_word (pe_name p) \<and> peer_word (pe_key p) \<and> peer_source (pe_source p)"

lemma peer_word_norm: "peer_word w \<Longrightarrow> TrimSpace (ToLower uni w) = w"
proof -
  assume w: "peer_word w"
  have "TrimSpace (ToLower uni w) = w" if "plain_word w" using that by (simp add: plain_word_lower plain_word_trim)
  then show ?thesis using w by (auto simp: peer_word_def ToLower_def)
qed

lemma peer_key_eq:
  assumes "peer_word n" "peer_source s" "peer_word k"
  shows "integrationPeerKey uni n s k = n @ CHR 0x00 # s @ CHR 0x00 # k"
  using assms by (simp add: integrationPeerKey_def peer_word_norm) (simp add: peer_source_def)

lemma peer_key_inj:
  assumes "peer_word n" "peer_source s" "peer_word k" "peer_word n'" "peer_source s'" "peer_word k'"
    and "integrationPeerKey uni n s k = integrationPeerKey uni n' s' k'"
  shows "n = n' \<and> s = s' \<and> k = k'"
proof -
  have eq: "n @ CHR 0x00 # s @ CHR 0x00 # k = n' @ CHR 0x00 # s' @ CHR 0x00 # k'"
    using assms(7) unfolding peer_key_eq [OF assms(1-3)] peer_key_eq [OF assms(4-6)] .
  have no: "CHR 0x00 \<notin> set n" "CHR 0x00 \<notin> set n'" "CHR 0x00 \<notin> set s" "CHR 0x00 \<notin> set s'"
    using assms(1-6) by (simp_all add: peer_word_def peer_source_def)
  from newline_split [OF no(1,2) eq] have 1: "n = n'" "s @ CHR 0x00 # k = s' @ CHR 0x00 # k'" by blast+
  from newline_split [OF no(3,4) 1(2)] 1(1) show ?thesis by blast
qed

section \<open>The table\<close>

definition peers_ok :: "(string \<Rightarrow> string) \<Rightarrow> (string, integrationPeer) gomap \<Rightarrow> bool" where
  "peers_ok uni m \<longleftrightarrow> map_wf m \<and> (\<forall>(k, p) \<in> set m. peer_ok p \<and> k = row_key uni p)"

lemma peers_ok_update: "peers_ok uni m \<Longrightarrow> peer_ok p \<Longrightarrow> k = row_key uni p \<Longrightarrow> peers_ok uni (AList.update k p m)"
  using set_update [of k p m] by (auto simp: peers_ok_def)

lemma peers_ok_delete: "peers_ok uni m \<Longrightarrow> peers_ok uni (AList.delete k m)"
  using set_delete [of k m] by (auto simp: peers_ok_def)

lemma peers_ok_lookup: "peers_ok uni m \<Longrightarrow> map_of m k = Some p \<Longrightarrow> peer_ok p \<and> k = row_key uni p"
  using map_of_SomeD [of m k p] by (auto simp: peers_ok_def)

text \<open>What identifies a peer; the other fields are its counters and times.\<close>

definition ident :: "integrationPeer \<Rightarrow> string \<times> string \<times> string \<times> string \<times> gotime" where
  "ident p = (pe_name p, pe_source p, pe_key p, pe_trust p, pe_first p)"

definition idents :: "(string, integrationPeer) gomap \<Rightarrow> (string \<times> string \<times> string \<times> string \<times> gotime) multiset" where
  "idents m = mset (map (ident \<circ> snd) m)"

lemma idents_update_same:
  "map_of m k = Some p \<Longrightarrow> ident p' = ident p \<Longrightarrow> idents (AList.update k p' m) = idents m"
  by (induction m) (auto simp: idents_def split: if_splits)

definition saved :: "peerStore \<Rightarrow> bool" where
  "saved s \<longleftrightarrow> (case pt_file s of None \<Rightarrow> pt_peers s = [] | Some rows \<Rightarrow> mset (map ident rows) = idents (pt_peers s))"

lemma saved_persist: "saved (fst (persistIntegrationPeers True s))"
  by (simp add: saved_def persistIntegrationPeers_def idents_def mset_map comp_def) (simp add: image_mset.compositionality comp_def)

section \<open>Operations\<close>

datatype peerOp = Verified string string string string gotime | Failed string string string gotime bool

definition peer_step :: "(string \<Rightarrow> string) \<Rightarrow> peerOp \<Rightarrow> peerStore \<Rightarrow> peerStore" where
  "peer_step uni op s =
     (case op of
        Verified name source trust key now \<Rightarrow> RecordIntegrationVerified uni True name source trust key now s
      | Failed name source message now allow \<Rightarrow> RecordIntegrationFailure uni True name source message now allow s)"

fun op_ok :: "peerOp \<Rightarrow> bool" where
  "op_ok (Verified name source trust key now) = (peer_word name \<and> peer_source source \<and> peer_word key)"
| "op_ok (Failed name source message now allow) = (peer_word name \<and> peer_source source)"

definition peer_inv :: "(string \<Rightarrow> string) \<Rightarrow> peerStore \<Rightarrow> bool" where
  "peer_inv uni s \<longleftrightarrow> peers_ok uni (pt_peers s) \<and> saved s"

lemma find_peer_ok:
  assumes "peers_ok uni (pt_peers s)" "peer_word name" "name \<noteq> []" "peer_source source" "peer_word key"
    and "find_peer uni name source key now s = (s', p, changed)"
  shows "peers_ok uni (pt_peers s') \<and> peer_ok p \<and> pe_name p = name \<and> pe_source p = source \<and> pe_key p = key
    \<and> pt_file s' = pt_file s
    \<and> (\<not> changed \<longrightarrow> s' = s \<and> map_of (pt_peers s) (integrationPeerKey uni name source key) = Some p)"
proof -
  let ?k = "integrationPeerKey uni name source key"
  let ?l = "integrationPeerKey uni name source []"
  have nil: "peer_word []" by (simp add: peer_word_def)
  show ?thesis
  proof (cases "map_of (pt_peers s) ?k")
    case (Some q)
    then have q: "s' = s" "p = q" "\<not> changed" using assms(6) by (simp_all add: find_peer_def Let_def)
    have "peer_ok q" "?k = row_key uni q" using peers_ok_lookup [OF assms(1) Some] by simp_all
    then have "name = pe_name q \<and> source = pe_source q \<and> key = pe_key q"
      using assms(2,4,5) by (intro peer_key_inj [of _ _ _ _ _ _ uni]) (simp_all add: peer_ok_def row_key_def)
    then show ?thesis using q Some assms(1) \<open>peer_ok q\<close> by simp
  next
    case None
    show ?thesis
    proof (cases "key \<noteq> [] \<and> (\<exists>old. map_of (pt_peers s) ?l = Some old \<and> pe_trust old = ''signed'')")
      case True
      then obtain old where old: "map_of (pt_peers s) ?l = Some old" "pe_trust old = ''signed''" "key \<noteq> []" by blast
      have ok: "peer_ok old" "?l = row_key uni old" using peers_ok_lookup [OF assms(1) old(1)] by simp_all
      then have "name = pe_name old \<and> source = pe_source old \<and> [] = pe_key old"
        using assms(2,4) nil by (intro peer_key_inj [of _ _ _ _ _ _ uni]) (simp_all add: peer_ok_def row_key_def)
      then show ?thesis using None old ok(1) assms(1,5,6) by (auto simp: find_peer_def Let_def peer_ok_def peers_ok_delete)
    next
      case False
      then have "s' = s \<and> changed \<and> pe_name p = name \<and> pe_source p = source \<and> pe_key p = key"
        using None assms(6) by (auto simp: find_peer_def Let_def split: option.splits if_splits)
      then show ?thesis using assms(1-5) by (simp add: peer_ok_def)
    qed
  qed
qed

lemma verified_inv:
  assumes "peer_inv uni s" "peer_word name" "peer_source source" "peer_word key"
  shows "peer_inv uni (RecordIntegrationVerified uni True name source trust key now s)"
proof (cases "name = []")
  case False
  obtain t p changed where found: "find_peer uni name source key now s = (t, p, changed)" by (metis prod_cases3)
  note ok = find_peer_ok [OF _ assms(2) False assms(3,4) found]
  have table: "peers_ok uni (pt_peers s)" using assms(1) by (simp add: peer_inv_def)
  define c where "c = (changed \<or> pe_source p \<noteq> source \<or> pe_trust p \<noteq> trust \<or> pe_key p \<noteq> key)"
  define q where "q = p\<lparr>pe_source := source, pe_trust := trust, pe_key := key, pe_verified := now,
    pe_checks := wrap64 (pe_checks p + 1), pe_error := []\<rparr>"
  define k where "k = integrationPeerKey uni name source key"
  define u where "u = t\<lparr>pt_peers := AList.update k q (pt_peers t)\<rparr>"
  have q: "peer_ok q" "k = row_key uni q" using ok [OF table] assms(2-4) False
    by (simp_all add: q_def k_def peer_ok_def row_key_def)
  have tab: "peers_ok uni (pt_peers u)" unfolding u_def using peers_ok_update [OF _ q] ok [OF table] by simp
  have same: "saved u" if "\<not> c"
  proof -
    have nc: "\<not> changed" "pe_source p = source" "pe_trust p = trust" "pe_key p = key" using that by (simp_all add: c_def)
    then have "t = s" "map_of (pt_peers s) k = Some p" using ok [OF table] by (simp_all add: k_def)
    moreover have "ident q = ident p" using nc by (simp add: q_def ident_def)
    ultimately have "idents (pt_peers u) = idents (pt_peers s)" by (simp add: u_def idents_update_same)
    moreover have "pt_peers s \<noteq> []" using \<open>map_of (pt_peers s) k = Some p\<close> by auto
    ultimately show ?thesis using assms(1) \<open>t = s\<close> by (auto simp: peer_inv_def saved_def u_def split: option.splits)
  qed
  have step: "RecordIntegrationVerified uni True name source trust key now s =
      (if c \<or> lookup_or 0 (pt_persist u) k = 0 \<or> 5 * minute \<le> time_sub now (lookup_or 0 (pt_persist u) k)
       then (fst (persistIntegrationPeers True u))\<lparr>pt_persist := AList.update k now (pt_persist u)\<rparr> else u)"
    using assms(2-4) False
    by (simp add: RecordIntegrationVerified_def peer_word_norm found Let_def c_def q_def k_def u_def peer_source_def
        persistIntegrationPeers_def)
  show ?thesis
  proof (cases "c \<or> lookup_or 0 (pt_persist u) k = 0 \<or> 5 * minute \<le> time_sub now (lookup_or 0 (pt_persist u) k)")
    case True
    then show ?thesis unfolding step using saved_persist [of u] tab
      by (simp add: peer_inv_def saved_def persistIntegrationPeers_def)
  next
    case False
    then show ?thesis unfolding step using tab same by (simp add: peer_inv_def)
  qed
qed (use assms in \<open>simp add: RecordIntegrationVerified_def Let_def ToLower_def is_ascii_def\<close>)

lemma find_member: "List.find P xs = Some x \<Longrightarrow> x \<in> set xs \<and> P x"
  by (induction xs) (auto split: if_splits)

lemma failure_inv:
  assumes "peer_inv uni s" "peer_word name" "peer_source source"
  shows "peer_inv uni (RecordIntegrationFailure uni True name source message now allow s)"
proof -
  let ?found = "List.find (\<lambda>(_, p). pe_name p = name \<and> pe_source p = source) (pt_peers s)"
  show ?thesis
  proof (cases "name = [] \<or> (?found = None \<and> \<not> allow)")
    case True
    then show ?thesis using assms by (auto simp: RecordIntegrationFailure_def Let_def peer_word_norm peer_source_def)
  next
    case False
    define row where "row = (case ?found of Some row \<Rightarrow> row | None \<Rightarrow> (integrationPeerKey uni name source [],
      \<lparr>pe_name = name, pe_source = source, pe_key = [], pe_trust = [], pe_first = now, pe_verified = 0, pe_failure = 0,
       pe_checks = 0, pe_failures = 0, pe_error = []\<rparr>))"
    define q where "q = (snd row)\<lparr>pe_source := source, pe_failure := now, pe_failures := wrap64 (pe_failures (snd row) + 1),
      pe_error := TrimSpace message\<rparr>"
    define u where "u = s\<lparr>pt_peers := AList.update (fst row) q (pt_peers s)\<rparr>"
    have table: "peers_ok uni (pt_peers s)" using assms(1) by (simp add: peer_inv_def)
    have "peer_ok q \<and> fst row = row_key uni q"
    proof (cases ?found)
      case None
      then show ?thesis using False assms(2,3)
        by (simp add: row_def q_def peer_ok_def row_key_def) (simp add: peer_word_def)
    next
      case (Some r)
      then have "r \<in> set (pt_peers s)" "pe_source (snd r) = source"
        using find_member [OF Some] by (simp_all add: split_beta)
      then have "peer_ok (snd r)" "fst r = row_key uni (snd r)" using table by (cases r; auto simp: peers_ok_def)+
      then show ?thesis using Some \<open>pe_source (snd r) = source\<close> by (simp add: row_def q_def peer_ok_def row_key_def)
    qed
    then have "peers_ok uni (pt_peers u)" unfolding u_def using peers_ok_update [OF table] by simp
    moreover have "RecordIntegrationFailure uni True name source message now allow s =
        (fst (persistIntegrationPeers True u))\<lparr>pt_persist := AList.update (fst row) now (pt_persist u)\<rparr>"
      using False assms(2,3)
      by (auto simp: RecordIntegrationFailure_def Let_def peer_word_norm peer_source_def row_def q_def u_def
          persistIntegrationPeers_def split_beta)
    ultimately show ?thesis using saved_persist [of u] by (simp add: peer_inv_def saved_def persistIntegrationPeers_def)
  qed
qed

lemma step_inv: "peer_inv uni s \<Longrightarrow> op_ok op \<Longrightarrow> peer_inv uni (peer_step uni op s)"
  by (cases op) (simp_all add: peer_step_def verified_inv failure_inv)

lemma run_inv: "peer_inv uni s \<Longrightarrow> list_all op_ok ops \<Longrightarrow> peer_inv uni (fold (peer_step uni) ops s)"
  by (induction ops arbitrary: s) (simp_all add: step_inv)

section \<open>Restart\<close>

lemma row_key_ident: "ident p = ident q \<Longrightarrow> row_key uni p = row_key uni q"
  by (simp add: ident_def row_key_def)

lemma load_peer_ok: "peer_ok p \<Longrightarrow> load_peer uni p m = AList.update (row_key uni p) p m"
proof -
  assume p: "peer_ok p"
  then have "p\<lparr>pe_name := TrimSpace (ToLower uni (pe_name p)), pe_source := TrimSpace (pe_source p),
      pe_key := TrimSpace (ToLower uni (pe_key p))\<rparr> = p"
    by (simp add: peer_ok_def peer_word_norm peer_source_def)
  then show ?thesis using p unfolding load_peer_def by (simp only: Let_def if_False peer_ok_def)
qed

lemma fold_load:
  "\<forall>p \<in> set rows. peer_ok p \<Longrightarrow> map_of (fold (load_peer uni) rows m) k =
     (case List.find (\<lambda>p. row_key uni p = k) (rev rows) of Some p \<Rightarrow> Some p | None \<Rightarrow> map_of m k)"
proof (induction rows arbitrary: m)
  case (Cons p rows)
  have app: "List.find P (xs @ [x]) = (case List.find P xs of Some y \<Rightarrow> Some y | None \<Rightarrow> if P x then Some x else None)"
    for P and x :: integrationPeer and xs by (induction xs) auto
  show ?case using Cons by (auto simp: load_peer_ok gomap app split: option.split)
qed simp

lemma find_key_ident:
  assumes "mset (map ident rows) = idents m" "peers_ok uni m" "\<forall>p \<in> set rows. peer_ok p"
  shows "map_option ident (List.find (\<lambda>p. row_key uni p = k) rows) = map_option ident (map_of m k)"
proof (cases "map_of m k")
  case None
  have "row_key uni p \<noteq> k" if p: "p \<in> set rows" for p
  proof
    assume k: "row_key uni p = k"
    have "ident p \<in># idents m" using p assms(1) [symmetric] by simp
    then obtain j q where q: "(j, q) \<in> set m" "ident q = ident p" by (auto simp: idents_def)
    then have "j = row_key uni p" using assms(2) row_key_ident [OF q(2)] by (auto simp: peers_ok_def)
    then show False using None q(1) k by (auto simp: map_of_eq_None_iff image_iff)
  qed
  then show ?thesis using None by (simp add: find_None_iff)
next
  case (Some p)
  have "ident p \<in># idents m" using map_of_SomeD [OF Some] by (force simp: idents_def)
  then obtain r where "r \<in> set rows" "ident r = ident p" using assms(1) [symmetric] by auto
  then have "row_key uni r = k" using row_key_ident peers_ok_lookup [OF assms(2) Some] by metis
  then have "List.find (\<lambda>p. row_key uni p = k) rows \<noteq> None" using \<open>r \<in> set rows\<close> by (auto simp: find_None_iff)
  then obtain r' where r': "List.find (\<lambda>p. row_key uni p = k) rows = Some r'" by blast
  then have "r' \<in> set rows" "row_key uni r' = k" by (auto simp: find_Some_iff)
  then have "ident r' \<in># idents m" using assms(1) [symmetric] by simp
  then obtain j q where q: "(j, q) \<in> set m" "ident q = ident r'" by (auto simp: idents_def)
  then have "j = k" using assms(2) row_key_ident [OF q(2)] \<open>row_key uni r' = k\<close> by (auto simp: peers_ok_def)
  then have "q = p" using q(1) Some assms(2) by (auto simp: peers_ok_def map_wf_def)
  then show ?thesis using Some r' q(2) by simp
qed

text \<open>C36: The peers survive a restart: after any sequence of verifications and failures, loading the file
  into an empty store gives a peer under exactly the same keys, with the same name, address, key
  identifier, trust and time of its first appearance; only counters and times may be behind.
\<close>

theorem peers_survive_restart:
  assumes "list_all op_ok ops" "s = fold (peer_step uni) ops \<lparr>pt_peers = [], pt_persist = [], pt_file = None\<rparr>"
  shows "map_option ident (map_of (pt_peers (loadIntegrationPeers uni \<lparr>pt_peers = [], pt_persist = [], pt_file = pt_file s\<rparr>)) k)
    = map_option ident (map_of (pt_peers s) k)
    \<and> (\<forall>p. map_of (pt_peers s) k = Some p \<longrightarrow> k = row_key uni p)"
proof -
  have "peer_inv uni \<lparr>pt_peers = [], pt_persist = [], pt_file = None\<rparr>" by (simp add: peer_inv_def peers_ok_def saved_def)
  then have inv: "peers_ok uni (pt_peers s)" "saved s" using run_inv assms by (auto simp: peer_inv_def)
  have keys: "\<forall>p. map_of (pt_peers s) k = Some p \<longrightarrow> k = row_key uni p" using peers_ok_lookup [OF inv(1)] by blast
  show ?thesis
  proof (cases "pt_file s")
    case None
    then show ?thesis using inv(2) keys by (simp add: saved_def loadIntegrationPeers_def)
  next
    case (Some rows)
    then have eq: "mset (map ident rows) = idents (pt_peers s)" using inv(2) by (simp add: saved_def)
    have "peer_ok p" if p: "p \<in> set rows" for p
    proof -
      have "ident p \<in># idents (pt_peers s)" using p eq [symmetric] by simp
      then obtain j q where q: "(j, q) \<in> set (pt_peers s)" "ident q = ident p" by (auto simp: idents_def)
      then have "peer_ok q" using inv(1) by (auto simp: peers_ok_def)
      then show ?thesis using q(2) by (simp add: ident_def peer_ok_def)
    qed
    then have ok: "\<forall>p \<in> set rows. peer_ok p" by blast
    have "mset (map ident (rev rows)) = idents (pt_peers s)" using eq by simp
    then have "map_option ident (List.find (\<lambda>p. row_key uni p = k) (rev rows)) = map_option ident (map_of (pt_peers s) k)"
      using ok by (intro find_key_ident [OF _ inv(1)]) auto
    then show ?thesis using fold_load [OF ok, of uni "[]" k] keys Some
      by (auto simp: loadIntegrationPeers_def split: option.split)
  qed
qed


theorem peers_survive_restart_witness:
  "\<exists>s. s = fold (peer_step (\<lambda>s. s)) [Verified ''npm'' ''10.0.0.2'' ''signed'' ''key-1'' 5, Failed ''npm'' ''10.0.0.2'' ''bad'' 6 False]
      \<lparr>pt_peers = [], pt_persist = [], pt_file = None\<rparr>
    \<and> (\<forall>k. map_option ident (map_of (pt_peers (loadIntegrationPeers (\<lambda>s. s) \<lparr>pt_peers = [], pt_persist = [], pt_file = pt_file s\<rparr>)) k)
      = map_option ident (map_of (pt_peers s) k))"
proof -
  have "peer_word ''npm''" "peer_word ''key-1''"
    by (simp_all add: peer_word_def plain_word_def char_is_space_def byte_in_def ascii_lower_def is_upper_def)
  moreover have "peer_source ''10.0.0.2''"
    unfolding peer_source_def by (simp add: TrimSpace_id char_is_space_def byte_in_def)
  ultimately have "list_all op_ok [Verified ''npm'' ''10.0.0.2'' ''signed'' ''key-1'' 5, Failed ''npm'' ''10.0.0.2'' ''bad'' 6 False]"
    by simp
  from peers_survive_restart [OF this refl, of "\<lambda>s. s"] show ?thesis by blast
qed

end
