(* ===== verification/BotVerify.thy ===== *)
theory BotVerify
  imports GoHosts
begin

text \<open>
  The registry of the crawlers' official address ranges (\<open>internal/botverify/registry.go\<close>): who a
  user agent claims to be, whether its address is in the ranges of that provider, the refresh from
  the providers' lists, the cache file.

  Parameters, in \<open>botEnv\<close>: lowering outside ASCII and the package \<open>net/netip\<close> on addresses of type
  \<open>'i\<close> and prefixes of type \<open>'p\<close> (\<open>be_addr\<close> is \<open>ParseAddr\<close> followed by \<open>Unmap\<close>, \<open>be_prefix\<close> is
  \<open>ParsePrefix\<close> followed by \<open>Masked\<close>, \<open>be_single\<close> the prefix of one address). What a list on the
  network holds is an argument: \<open>None\<close> for any failure up to the decoded JSON. The fields of a JSON
  object are in the order the code happens to visit them.
\<close>

record ('i, 'p) botEnv =
  be_lower :: "string \<Rightarrow> string"
  be_addr :: "string \<Rightarrow> 'i option"
  be_prefix :: "string \<Rightarrow> 'p option"
  be_single :: "'i \<Rightarrow> 'p"
  be_contains :: "'p \<Rightarrow> 'i \<Rightarrow> bool"
  be_show :: "'p \<Rightarrow> string"

record cacheFile =
  cf_updated :: gotime
  cf_providers :: "(string, string list) gomap"

record 'p registry =
  bt_providers :: "(string, 'p list) gomap"
  bt_updated :: gotime
  bt_path :: string
  bt_cache :: "cacheFile option"

record botVerdict =
  bv_provider :: string
  bv_bot :: string
  bv_claimed :: bool
  bv_verified :: bool

definition no_claim :: botVerdict where
  "no_claim = \<lparr>bv_provider = [], bv_bot = [], bv_claimed = False, bv_verified = False\<rparr>"

definition officialSources :: "(string \<times> string) list" where
  "officialSources =
    [(''google'', ''https://developers.google.com/static/crawling/ipranges/common-crawlers.json''),
     (''google'', ''https://developers.google.com/static/crawling/ipranges/special-crawlers.json''),
     (''google'', ''https://developers.google.com/static/crawling/ipranges/user-triggered-fetchers.json''),
     (''google'', ''https://developers.google.com/static/crawling/ipranges/user-triggered-fetchers-google.json''),
     (''google'', ''https://developers.google.com/static/crawling/ipranges/user-triggered-agents.json''),
     (''apple'', ''https://search.developer.apple.com/applebot.json''),
     (''duckduckgo'', ''https://duckduckgo.com/duckduckbot.json''),
     (''duckduckgo'', ''https://duckduckgo.com/duckassistbot.json''),
     (''openai'', ''https://openai.com/searchbot.json''),
     (''openai'', ''https://openai.com/gptbot.json''),
     (''openai'', ''https://openai.com/chatgpt-user.json''),
     (''openai'', ''https://openai.com/adsbot.json''),
     (''perplexity'', ''https://www.perplexity.com/perplexitybot.json''),
     (''perplexity'', ''https://www.perplexity.com/perplexity-user.json'')]"

section \<open>Claims\<close>

definition firstBotName :: "(string \<Rightarrow> string) \<Rightarrow> string \<Rightarrow> string list \<Rightarrow> string" where
  "firstBotName uni ua names =
     (case List.find (\<lambda>n. Contains (ToLower uni ua) (ToLower uni n)) names of Some n \<Rightarrow> n | None \<Rightarrow> hd names)"

definition google_names :: "string list" where
  "google_names = [''Googlebot'', ''GoogleOther'', ''Google-CloudVertexBot'', ''GoogleInspectionTool'', ''AdsBot-Google'']"

text \<open>The cases after the first: what to look for, the provider, the name.\<close>

definition claim_table :: "(string \<times> string \<times> string) list" where
  "claim_table =
    [(''applebot'', ''apple'', ''Applebot''),
     (''duckduckbot'', ''duckduckgo'', ''DuckDuckBot''),
     (''duckassistbot'', ''duckduckgo'', ''DuckAssistBot''),
     (''oai-searchbot'', ''openai'', ''OAI-SearchBot''),
     (''gptbot'', ''openai'', ''GPTBot''),
     (''chatgpt-user'', ''openai'', ''ChatGPT-User''),
     (''oai-adsbot'', ''openai'', ''OAI-AdsBot''),
     (''perplexitybot'', ''perplexity'', ''PerplexityBot''),
     (''perplexity-user'', ''perplexity'', ''Perplexity-User''),
     (''bingbot'', ''bing'', ''bingbot''),
     (''baiduspider'', ''baidu'', ''Baiduspider''),
     (''yandexbot'', ''yandex'', ''YandexBot''),
     (''ccbot'', ''commoncrawl'', ''CCBot''),
     (''bytespider'', ''bytedance'', ''Bytespider''),
     (''grokbot'', ''xai'', ''GrokBot''),
     (''telegrambot'', ''telegram'', ''TelegramBot'')]"

definition claimFromUA :: "(string \<Rightarrow> string) \<Rightarrow> string \<Rightarrow> string \<times> string" where
  "claimFromUA uni ua =
     (let l = ToLower uni ua in
      if list_ex (Contains l) [''googlebot'', ''googleother'', ''google-cloudvertexbot'', ''googleinspectiontool'', ''adsbot-google'']
      then (''google'', firstBotName uni ua google_names)
      else (case List.find (\<lambda>(needle, _). Contains l needle) claim_table of None \<Rightarrow> ([], []) | Some (_, row) \<Rightarrow> row))"

definition HasProvider :: "string \<Rightarrow> 'p registry \<Rightarrow> bool" where
  "HasProvider provider r = (lookup_or [] (bt_providers r) provider \<noteq> [])"

definition PrefixCount :: "'p registry \<Rightarrow> nat" where
  "PrefixCount r = sum_list (map (length \<circ> snd) (bt_providers r))"

definition VerifyBot :: "('i, 'p) botEnv \<Rightarrow> string \<Rightarrow> string \<Rightarrow> 'p registry \<Rightarrow> botVerdict" where
  "VerifyBot env ip ua r =
     (case claimFromUA (be_lower env) ua of (provider, name) \<Rightarrow>
        if provider = [] then no_claim
        else (let c = \<lparr>bv_provider = provider, bv_bot = name, bv_claimed = True, bv_verified = False\<rparr> in
              case be_addr env (TrimSpace ip) of
                None \<Rightarrow> c
              | Some a \<Rightarrow> c\<lparr>bv_verified := list_ex (\<lambda>p. be_contains env p a) (lookup_or [] (bt_providers r) provider)\<rparr>))"

section \<open>Reading a list\<close>

datatype jvalue =
    JObject "(string \<times> jvalue) list"
  | JArray "jvalue list"
  | JString string
  | JAtom

definition address_field :: "(string \<Rightarrow> string) \<Rightarrow> string \<Rightarrow> bool" where
  "address_field uni k =
     (let lk = ToLower uni k in Contains lk ''prefix'' \<or> lk = ''ipv4'' \<or> lk = ''ipv6'' \<or> lk = ''ip'')"

definition plain_entry :: "('i, 'p) botEnv \<Rightarrow> string \<Rightarrow> string list" where
  "plain_entry env t =
     (let s = TrimSpace t in if be_addr env s \<noteq> None \<or> be_prefix env s \<noteq> None then [s] else [])"

fun collectPrefixStrings :: "('i, 'p) botEnv \<Rightarrow> jvalue \<Rightarrow> string list"
and collect_fields :: "('i, 'p) botEnv \<Rightarrow> (string \<times> jvalue) list \<Rightarrow> string list"
and collect_items :: "('i, 'p) botEnv \<Rightarrow> jvalue list \<Rightarrow> string list" where
  "collectPrefixStrings env (JObject kvs) = collect_fields env kvs"
| "collectPrefixStrings env (JArray items) = collect_items env items"
| "collectPrefixStrings env (JString t) = plain_entry env t"
| "collectPrefixStrings env JAtom = []"
| "collect_fields env [] = []"
| "collect_fields env ((k, JString s) # rest) =
     (if address_field (be_lower env) k then [TrimSpace s] else plain_entry env s) @ collect_fields env rest"
| "collect_fields env ((k, v) # rest) = collectPrefixStrings env v @ collect_fields env rest"
| "collect_items env [] = []"
| "collect_items env (v # rest) = collectPrefixStrings env v @ collect_items env rest"

definition entry_prefix :: "('i, 'p) botEnv \<Rightarrow> string \<Rightarrow> 'p option" where
  "entry_prefix env s = (case be_addr env s of Some a \<Rightarrow> Some (be_single env a) | None \<Rightarrow> be_prefix env s)"

definition fetch_source :: "('i, 'p) botEnv \<Rightarrow> (string \<Rightarrow> jvalue option) \<Rightarrow> string \<Rightarrow> 'p list option" where
  "fetch_source env network url =
     (case network url of
        None \<Rightarrow> None
      | Some raw \<Rightarrow> (let out = List.map_filter (entry_prefix env) (collectPrefixStrings env raw)
                      in if out = [] then None else Some out))"

section \<open>The refresh\<close>

text \<open>A prefix is known by its text.\<close>

fun dedupe_from :: "('i, 'p) botEnv \<Rightarrow> string list \<Rightarrow> 'p list \<Rightarrow> 'p list" where
  "dedupe_from env seen [] = []"
| "dedupe_from env seen (p # ps) =
     (if be_show env p \<in> set seen then dedupe_from env seen ps else p # dedupe_from env (be_show env p # seen) ps)"

definition dedupe :: "('i, 'p) botEnv \<Rightarrow> 'p list \<Rightarrow> 'p list" where
  "dedupe env ps = dedupe_from env [] ps"

definition sources_of :: "string \<Rightarrow> string list" where
  "sources_of provider = map snd (List.filter (\<lambda>(p, _). p = provider) officialSources)"

text \<open>The fresh prefixes of a provider all of whose sources answered.\<close>

definition complete_provider :: "('i, 'p) botEnv \<Rightarrow> (string \<Rightarrow> jvalue option) \<Rightarrow> string \<Rightarrow> 'p list option" where
  "complete_provider env network provider =
     (let answers = map (fetch_source env network) (sources_of provider); fresh = concat (List.map_filter (\<lambda>a. a) answers) in
      if None \<in> set answers \<or> fresh = [] then None else Some (dedupe env fresh))"

definition merge_provider ::
  "('i, 'p) botEnv \<Rightarrow> (string \<Rightarrow> jvalue option) \<Rightarrow> string \<Rightarrow> (string, 'p list) gomap \<times> bool \<Rightarrow> (string, 'p list) gomap \<times> bool" where
  "merge_provider env network provider acc =
     (case complete_provider env network provider of
        None \<Rightarrow> acc
      | Some ps \<Rightarrow> (AList.update provider ps (fst acc), True))"

definition saveCache :: "('i, 'p) botEnv \<Rightarrow> bool \<Rightarrow> 'p registry \<Rightarrow> 'p registry \<times> bool" where
  "saveCache env writable r =
     (if TrimSpace (bt_path r) = [] then (r, True)
      else if \<not> writable then (r, False)
      else (r\<lparr>bt_cache := Some \<lparr>cf_updated = bt_updated r,
                cf_providers = map (\<lambda>(p, rows). (p, map (be_show env) rows)) (List.filter (\<lambda>(_, rows). rows \<noteq> []) (bt_providers r))\<rparr>\<rparr>, True))"

definition RefreshBots ::
  "('i, 'p) botEnv \<Rightarrow> (string \<Rightarrow> jvalue option) \<Rightarrow> bool \<Rightarrow> gotime \<Rightarrow> 'p registry \<Rightarrow> 'p registry \<times> bool" where
  "RefreshBots env network writable now r =
     (case fold (merge_provider env network) (remdups (map fst officialSources)) (bt_providers r, False) of
        (merged, updated) \<Rightarrow>
          if \<not> updated then (r, False) else saveCache env writable (r\<lparr>bt_providers := merged, bt_updated := now\<rparr>))"

definition load_provider :: "('i, 'p) botEnv \<Rightarrow> string \<times> string list \<Rightarrow> (string, 'p list) gomap \<Rightarrow> (string, 'p list) gomap" where
  "load_provider env row m =
     (case row of (provider, rows) \<Rightarrow>
        (let ps = List.map_filter (be_prefix env) rows in if ps = [] then m else AList.update provider ps m))"

definition loadCache :: "('i, 'p) botEnv \<Rightarrow> 'p registry \<Rightarrow> 'p registry" where
  "loadCache env r =
     (if TrimSpace (bt_path r) = [] then r
      else (case bt_cache r of
              None \<Rightarrow> r
            | Some c \<Rightarrow> r\<lparr>bt_providers := fold (load_provider env) (cf_providers c) [], bt_updated := cf_updated c\<rparr>))"

definition NewRegistry :: "('i, 'p) botEnv \<Rightarrow> string \<Rightarrow> cacheFile option \<Rightarrow> 'p registry" where
  "NewRegistry env path cache =
     loadCache env \<lparr>bt_providers = [], bt_updated = 0, bt_path = path, bt_cache = cache\<rparr>"

end
