(* ===== verification/BotVerifyProofs.thy ===== *)
theory BotVerifyProofs
  imports BotVerify
begin

text \<open>
  The ranges of the crawlers: a refresh replaces the ranges of a provider as a whole or leaves them,
  and what it saved is what the next start loads.
\<close>

definition ranges :: "string \<Rightarrow> 'p registry \<Rightarrow> 'p list" where
  "ranges provider r = lookup_or [] (bt_providers r) provider"

section \<open>Deduplication\<close>

lemma dedupe_from_shows: "be_show env ` set (dedupe_from env seen ps) \<union> set seen = be_show env ` set ps \<union> set seen"
  by (induction env seen ps rule: dedupe_from.induct) auto

lemma dedupe_from_distinct:
  "distinct (map (be_show env) (dedupe_from env seen ps)) \<and> be_show env ` set (dedupe_from env seen ps) \<inter> set seen = {}"
  by (induction env seen ps rule: dedupe_from.induct) auto

lemma dedupe_shows: "be_show env ` set (dedupe env ps) = be_show env ` set ps"
  using dedupe_from_shows [of env "[]" ps] by (simp add: dedupe_def)

lemma dedupe_distinct: "distinct (map (be_show env) (dedupe env ps))"
  using dedupe_from_distinct [of env "[]" ps] by (simp add: dedupe_def)

lemma dedupe_empty [simp]: "dedupe env ps = [] \<longleftrightarrow> ps = []"
  using dedupe_shows [of env ps] by auto

section \<open>Refresh\<close>

lemma concat_answers:
  "None \<notin> set (map f xs) \<Longrightarrow> set (concat (List.map_filter (\<lambda>a. a) (map f xs))) = (\<Union>x \<in> set xs. set (the (f x)))"
proof (induction xs)
  case (Cons a xs)
  then obtain y where "f a = Some y" by (cases "f a") auto
  then show ?case using Cons by (simp add: List.map_filter_simps)
qed (simp add: List.map_filter_simps)

lemma sources_of_iff: "url \<in> set (sources_of p) \<longleftrightarrow> (p, url) \<in> set officialSources"
  unfolding sources_of_def by force

lemma complete_provider_some:
  assumes "complete_provider env network p = Some ps"
  shows "\<forall>url. (p, url) \<in> set officialSources \<longrightarrow> fetch_source env network url \<noteq> None"
    and "be_show env ` set ps = (\<Union>url \<in> set (sources_of p). be_show env ` set (the (fetch_source env network url)))"
    and "distinct (map (be_show env) ps)" and "ps \<noteq> []"
proof -
  let ?answers = "map (fetch_source env network) (sources_of p)"
  have none: "None \<notin> set ?answers" and ps: "ps = dedupe env (concat (List.map_filter (\<lambda>a. a) ?answers))"
    and ne: "concat (List.map_filter (\<lambda>a. a) ?answers) \<noteq> []"
    using assms unfolding complete_provider_def by (auto simp: Let_def split: if_splits)
  show "\<forall>url. (p, url) \<in> set officialSources \<longrightarrow> fetch_source env network url \<noteq> None"
    using none by (force simp: sources_of_iff)
  have "set (concat (List.map_filter (\<lambda>a. a) ?answers)) = (\<Union>url \<in> set (sources_of p). set (the (fetch_source env network url)))"
    by (rule concat_answers [OF none])
  then show "be_show env ` set ps = (\<Union>url \<in> set (sources_of p). be_show env ` set (the (fetch_source env network url)))"
    unfolding ps dedupe_shows by auto
  show "distinct (map (be_show env) ps)" unfolding ps by (rule dedupe_distinct)
  show "ps \<noteq> []" unfolding ps using ne by simp
qed

lemma merge_fold:
  "distinct names \<Longrightarrow> lookup_or [] (fst (fold (merge_provider env network) names acc)) p
     = (case if p \<in> set names then complete_provider env network p else None of
          Some ps \<Rightarrow> ps | None \<Rightarrow> lookup_or [] (fst acc) p)"
  by (induction names arbitrary: acc) (auto simp: merge_provider_def gomap split: option.splits)

lemma merge_fold_idle:
  "\<not> snd (fold (merge_provider env network) names acc) \<Longrightarrow> fst (fold (merge_provider env network) names acc) = fst acc \<and> \<not> snd acc"
proof (induction names arbitrary: acc)
  case (Cons n names)
  have "\<not> snd (merge_provider env network n acc) \<Longrightarrow> merge_provider env network n acc = acc"
    by (simp add: merge_provider_def split: option.splits)
  then show ?case using Cons.IH [of "merge_provider env network n acc"] Cons.prems by simp
qed simp

lemma saveCache_ranges [simp]: "bt_providers (fst (saveCache env writable r)) = bt_providers r"
  by (simp add: saveCache_def)

lemma refresh_ranges:
  "ranges p (fst (RefreshBots env network writable now r))
     = (case if p \<in> set (map fst officialSources) then complete_provider env network p else None of
          Some ps \<Rightarrow> ps | None \<Rightarrow> ranges p r)"
proof -
  let ?names = "remdups (map fst officialSources)"
  obtain merged updated where f: "fold (merge_provider env network) ?names (bt_providers r, False) = (merged, updated)"
    by (cases "fold (merge_provider env network) ?names (bt_providers r, False)")
  have m: "lookup_or [] merged p = (case if p \<in> set (map fst officialSources) then complete_provider env network p else None of
      Some ps \<Rightarrow> ps | None \<Rightarrow> lookup_or [] (bt_providers r) p)"
    using merge_fold [of ?names env network "(bt_providers r, False)" p] unfolding f set_remdups fst_conv by simp
  show ?thesis
  proof (cases updated)
    case True
    then have "ranges p (fst (RefreshBots env network writable now r)) = lookup_or [] merged p"
      using f by (simp add: RefreshBots_def ranges_def)
    then show ?thesis using m unfolding ranges_def by simp
  next
    case False
    then have "merged = bt_providers r" using merge_fold_idle [of env network ?names "(bt_providers r, False)"] f by simp
    then have "ranges p (fst (RefreshBots env network writable now r)) = lookup_or [] merged p"
      using f False by (simp add: RefreshBots_def ranges_def)
    then show ?thesis using m unfolding ranges_def by simp
  qed
qed

text \<open>C33: A refresh replaces the address ranges of a provider as a whole or not at all: either they stay as
  they were, or every official list of that provider was read and the new ranges are exactly the
  entries of those lists, each once. No failure on the network empties a provider.
\<close>

theorem refresh_whole_providers:
  assumes "r' = fst (RefreshBots env network writable now r)"
  shows "(ranges p r' = ranges p r
     \<or> (\<forall>url. (p, url) \<in> set officialSources \<longrightarrow> fetch_source env network url \<noteq> None)
       \<and> be_show env ` set (ranges p r') = (\<Union>url \<in> set (sources_of p). be_show env ` set (the (fetch_source env network url)))
       \<and> distinct (map (be_show env) (ranges p r')))
    \<and> (HasProvider p r \<longrightarrow> HasProvider p r')"
proof (cases "if p \<in> set (map fst officialSources) then complete_provider env network p else None")
  case None
  then have "ranges p r' = ranges p r" using refresh_ranges [of p env network writable now r] assms by simp
  then show ?thesis by (simp add: HasProvider_def ranges_def)
next
  case (Some ps)
  then have c: "complete_provider env network p = Some ps" by (simp split: if_splits)
  have "ranges p r' = ps" using Some refresh_ranges [of p env network writable now r] assms by simp
  then show ?thesis using complete_provider_some [OF c] by (auto simp: HasProvider_def ranges_def)
qed

text \<open>Prefixes as texts, addresses as texts, one list that can be read.\<close>

definition text_env :: "(string, string) botEnv" where
  "text_env = \<lparr>be_lower = (\<lambda>s. s), be_addr = (\<lambda>s. None), be_prefix = Some, be_single = (\<lambda>a. a), be_contains = (\<lambda>p a. p = a),
     be_show = (\<lambda>p. p)\<rparr>"

definition apple_only :: "string \<Rightarrow> jvalue option" where
  "apple_only url =
     (if url = ''https://search.developer.apple.com/applebot.json'' then
        Some (JObject [(''prefixes'', JArray [JObject [(''ipv4Prefix'', JString ''17.0.0.0/8'')]])])
      else None)"

definition old_registry :: "string registry" where
  "old_registry = \<lparr>bt_providers = [(''openai'', [''20.0.0.0/8''])], bt_updated = 1, bt_path = ''bots.json'', bt_cache = None\<rparr>"

theorem refresh_whole_providers_witness:
  "HasProvider ''openai'' (fst (RefreshBots text_env apple_only True 2 old_registry))"
proof -
  have "HasProvider ''openai'' old_registry" by code_simp
  then show ?thesis using refresh_whole_providers [of _ text_env apple_only True 2 old_registry "''openai''", OF refl] by blast
qed

section \<open>The cache\<close>

lemma load_fold:
  "distinct (map fst rows) \<Longrightarrow> lookup_or [] (fold (load_provider env) rows m) p
     = (case map_of rows p of
          Some texts \<Rightarrow> (let ps = List.map_filter (be_prefix env) texts in if ps = [] then lookup_or [] m p else ps)
        | None \<Rightarrow> lookup_or [] m p)"
proof (induction rows arbitrary: m)
  case (Cons row rows)
  then show ?case
    by (cases row) (auto simp: load_provider_def gomap Let_def map_of_eq_None_iff [symmetric] split: option.splits)
qed simp

lemma map_filter_shown: "\<forall>p \<in> set rows. be_prefix env (be_show env p) = Some p \<Longrightarrow> List.map_filter (be_prefix env) (map (be_show env) rows) = rows"
  by (induction rows) (auto simp: List.map_filter_simps)

lemma map_of_saved:
  "distinct (map fst m) \<Longrightarrow> map_of (map (\<lambda>(p, rows). (p, map f rows)) (List.filter (\<lambda>(_, rows). rows \<noteq> []) m)) p
     = (case map_of m p of Some rows \<Rightarrow> if rows = [] then None else Some (map f rows) | None \<Rightarrow> None)"
  by (induction m) (auto split: option.splits simp: map_of_eq_None_iff image_iff)

lemma merge_keys: "distinct (map fst (fst acc)) \<Longrightarrow> distinct (map fst (fst (fold (merge_provider env network) names acc)))"
proof (induction names arbitrary: acc)
  case (Cons n names)
  have "distinct (map fst (fst (merge_provider env network n acc)))"
    using Cons.prems by (auto simp: merge_provider_def distinct_update split: option.splits)
  then show ?case using Cons.IH by simp
qed simp

lemma distinct_saved:
  "distinct (map fst m) \<Longrightarrow> distinct (map fst (map (\<lambda>(p, rows). (p, map f rows)) (List.filter (\<lambda>(_, rows). rows \<noteq> []) m)))"
  by (induction m) (force split: if_splits)+

text \<open>After a refresh that reports success and has a cache file, a start that reads the file has the same
  ranges for every provider, if every prefix is read back from its text.
\<close>

lemma ranges_survive_restart:
  assumes "RefreshBots env network writable now r = (r', True)" "distinct (map fst (bt_providers r))"
    and "TrimSpace (bt_path r) \<noteq> []" "\<forall>p. be_prefix env (be_show env p) = Some p"
  shows "ranges p (NewRegistry env (bt_path r) (bt_cache r')) = ranges p r'
    \<and> bt_updated (NewRegistry env (bt_path r) (bt_cache r')) = now"
proof -
  let ?f = "fold (merge_provider env network) (remdups (map fst officialSources)) (bt_providers r, False)"
  let ?rows = "map (\<lambda>(p, rows). (p, map (be_show env) rows)) (List.filter (\<lambda>(_, rows). rows \<noteq> []) (fst ?f))"
  have d: "distinct (map fst (fst ?f))" using merge_keys [of "(bt_providers r, False)"] assms(2) by simp
  have r': "bt_providers r' = fst ?f" "bt_cache r' = Some \<lparr>cf_updated = now, cf_providers = ?rows\<rparr>"
    using assms(1,3) by (auto simp: RefreshBots_def saveCache_def split: prod.splits if_splits)
  have "List.map_filter (be_prefix env) (map (be_show env) rows) = rows" for rows using map_filter_shown [of rows env] assms(4) by simp
  then have "lookup_or [] (fold (load_provider env) ?rows []) p = lookup_or [] (fst ?f) p"
    unfolding load_fold [OF distinct_saved [OF d]] map_of_saved [OF d] by (auto simp: lookup_or_def Let_def split: option.splits)
  then show ?thesis using assms(3) r' by (simp add: NewRegistry_def loadCache_def ranges_def)
qed

theorem ranges_survive_restart_witness:
  "ranges ''apple'' (NewRegistry text_env ''bots.json'' (bt_cache (fst (RefreshBots text_env apple_only True 2 old_registry))))
   = [''17.0.0.0/8'']"
proof -
  have trim: "TrimSpace ''bots.json'' = ''bots.json''" "TrimSpace ''17.0.0.0/8'' = ''17.0.0.0/8''"
    by (rule TrimSpace_id; simp add: char_is_space_def byte_in_def)+
  have c: "complete_provider text_env apple_only ''google'' = None" "complete_provider text_env apple_only ''duckduckgo'' = None"
      "complete_provider text_env apple_only ''openai'' = None" "complete_provider text_env apple_only ''perplexity'' = None"
    by code_simp+
  have "sources_of ''apple'' = [''https://search.developer.apple.com/applebot.json'']"
      "address_field (\<lambda>s. s) ''ipv4Prefix''" by code_simp+
  then have a: "complete_provider text_env apple_only ''apple'' = Some [''17.0.0.0/8'']"
    by (simp add: complete_provider_def fetch_source_def apple_only_def trim List.map_filter_simps entry_prefix_def text_env_def dedupe_def)
  have n: "remdups (map fst officialSources) = [''google'', ''apple'', ''duckduckgo'', ''openai'', ''perplexity'']" by code_simp
  have sh: "be_show text_env = (\<lambda>p. p)" by (simp add: text_env_def)
  have r0: "RefreshBots text_env apple_only True 2 old_registry =
      (\<lparr>bt_providers = [(''openai'', [''20.0.0.0/8'']), (''apple'', [''17.0.0.0/8''])], bt_updated = 2, bt_path = ''bots.json'',
        bt_cache = Some \<lparr>cf_updated = 2, cf_providers = [(''openai'', [''20.0.0.0/8'']), (''apple'', [''17.0.0.0/8''])]\<rparr>\<rparr>, True)"
    unfolding RefreshBots_def n by (simp add: merge_provider_def c a trim sh old_registry_def saveCache_def)
  then have r: "RefreshBots text_env apple_only True 2 old_registry = (fst (RefreshBots text_env apple_only True 2 old_registry), True)"
    by simp
  have "ranges ''apple'' (fst (RefreshBots text_env apple_only True 2 old_registry)) = [''17.0.0.0/8'']"
    by (simp add: r0 ranges_def lookup_or_def)
  moreover have "distinct (map fst (bt_providers old_registry))" "bt_path old_registry = ''bots.json''"
    by (simp_all add: old_registry_def)
  moreover have "TrimSpace ''bots.json'' \<noteq> []" by (simp add: trim)
  moreover have "\<forall>p. be_prefix text_env (be_show text_env p) = Some p" by (simp add: text_env_def)
  ultimately show ?thesis using ranges_survive_restart [OF r, of "''apple''"] by metis
qed

end
