(* ===== verification/WebTrap.thy ===== *)
theory WebTrap
  imports Scorer WebBehavior Integrations BotVerify
begin

text \<open>
  One request to the web trap (\<open>handle\<close> of \<open>internal/server/trap.go\<close>): integration checks, the session
  with its visits, the assessment in its stages, the answer, the session stored and the event logged.

  Requests are handled one after the other: the code holds a lock for the fingerprint and one for the
  session. Writes to the client succeed and the delay of an answer is left out. Parameters, in
  \<open>trapEnv\<close>: the environments of the parts, the deception engine (its answer and its own state of type
  \<open>'d\<close>), the directory of benign pages if there is one, the observation of a GraphQL body, and the
  operations on the actor profiles. The random identifiers are arguments.
\<close>

section \<open>State\<close>

text \<open>An answer of the deception engine, with the fields of the session that it sets.\<close>

record deceptionReply =
  dr_status :: int
  dr_body :: string
  dr_label :: string
  dr_depth :: int
  dr_loop :: int
  dr_logins :: int
  dr_story :: webStory

record ('a, 'd, 'i, 'p) trapEnv =
  te_web :: webEnv
  te_store :: "'a eventEnv"
  te_bots :: "('i, 'p) botEnv"
  te_registry :: "'p registry"
  te_fold :: "string \<Rightarrow> string"
  te_dev :: "int list \<Rightarrow> int"
  te_build :: "httpRequest \<Rightarrow> webSession \<Rightarrow> string \<Rightarrow> 'd \<Rightarrow> deceptionReply \<times> 'd"
  te_files :: "(httpRequest \<Rightarrow> int \<times> int) option"
  te_graphql :: "string \<Rightarrow> string \<Rightarrow> string \<Rightarrow> graphqlSeen"
  te_intel :: "string \<Rightarrow> string \<Rightarrow> string \<Rightarrow> string \<Rightarrow> 'a \<Rightarrow> 'a"
  te_promote :: "string \<Rightarrow> 'a \<Rightarrow> 'a"
  te_mark :: "string \<Rightarrow> string list \<Rightarrow> 'a \<Rightarrow> 'a"

record ('a, 'd) trapState =
  ts_store :: "'a eventStore"
  ts_peers :: peerStore
  ts_geo :: geoResolver
  ts_pages :: 'd
  ts_rejected :: int

text \<open>What the client gets: status, bytes of the body, session cookie. The label is logged.\<close>

record webAnswer =
  wa_status :: int
  wa_bytes :: int
  wa_label :: string
  wa_cookie :: "string option"

definition integrationCheckPath :: string where
  "integrationCheckPath = ''/.well-known/zentloop/integration-check''"

section \<open>The session of a request\<close>

definition effectiveLiveMinutes :: "trapConfig \<Rightarrow> int" where
  "effectiveLiveMinutes cfg = (if 0 < tc_live_minutes cfg then tc_live_minutes cfg else 5)"

definition effectiveResumeHours :: "trapConfig \<Rightarrow> int" where
  "effectiveResumeHours cfg = (if 0 < tc_resume_hours cfg then tc_resume_hours cfg else 720)"

definition applyClientMeta :: "clientMeta \<Rightarrow> webSession \<Rightarrow> webSession" where
  "applyClientMeta c ss =
     (let og = ss_origin ss
      in ss\<lparr>ss_ip := cm_ip c,
            ss_origin := og\<lparr>so_ip_source := cm_ip_source c, so_proxy := cm_proxy c,
              so_country := newer (cm_country c) (so_country og),
              so_country_source := (if cm_country c \<noteq> [] then cm_country_source c else so_country_source og),
              so_cf_ray := newer (cm_ray c) (so_cf_ray og), so_cf_colo := newer (cm_colo c) (so_cf_colo og)\<rparr>\<rparr>)"

definition visit_defaults :: "webSession \<Rightarrow> webSession" where
  "visit_defaults ss =
     ss\<lparr>ss_visits := (if ss_visits ss = 0 then 1 else ss_visits ss),
       ss_visit_started := (if ss_visit_started ss = 0 then ss_first_seen ss else ss_visit_started ss),
       ss_visit_first_path := (if ss_visit_first_path ss = [] then ss_first_path ss else ss_visit_first_path ss)\<rparr>"

text \<open>A long pause starts a new visit, and its times are measured from scratch.\<close>

definition prepareReturnVisit :: "gotime \<Rightarrow> duration \<Rightarrow> string \<Rightarrow> webSession \<Rightarrow> webSession" where
  "prepareReturnVisit now inactive_after path ss0 =
     (let ss = visit_defaults ss0 in
      if ss_last_seen ss \<noteq> 0 \<and> inactive_after < time_sub now (ss_last_seen ss) then
        ss\<lparr>ss_visits := wrap64 (ss_visits ss + 1), ss_visit_started := now, ss_visit_requests := 0, ss_visit_first_path := path,
          ss_recent := [], ss_scoring := (ss_scoring ss)\<lparr>sc_avg := 0, sc_var := 0\<rparr>\<rparr>
      else ss)"

definition resume_session :: "trapConfig \<Rightarrow> httpRequest \<Rightarrow> clientMeta \<Rightarrow> gotime \<Rightarrow> webSession \<Rightarrow> webSession" where
  "resume_session cfg r c now ss =
     prepareReturnVisit now (wrap64 (effectiveLiveMinutes cfg * minute)) (hr_path r) (applyClientMeta c ss)"

definition new_session :: "httpRequest \<Rightarrow> clientMeta \<Rightarrow> string \<Rightarrow> gotime \<Rightarrow> string \<Rightarrow> webSession" where
  "new_session r c target now sid =
     \<lparr>ss_id = sid, ss_ip = cm_ip c, ss_agent = UserAgent r,
      ss_origin = \<lparr>so_ip_source = cm_ip_source c, so_proxy = cm_proxy c, so_country = cm_country c,
        so_country_source = cm_country_source c, so_cf_ray = cm_ray c, so_cf_colo = cm_colo c,
        so_first_referrer = [], so_last_referrer = [], so_referrer_host = [], so_request_host = [], so_target = target,
        so_target_trust = [], so_self_origin = False, so_host_sweep = False, so_sweep_hosts = 0, so_origin = [],
        so_language = [], so_protocol = [], so_integration = [], so_integration_trust = [], so_catch_all = False\<rparr>,
      ss_first_path = hr_path r, ss_first_seen = now, ss_last_seen = now, ss_requests = 0, ss_visits = 1,
      ss_visit_started = now, ss_visit_requests = 0, ss_visit_first_path = hr_path r,
      ss_scoring = \<lparr>sc_risk = 0, sc_automation = 0, sc_class = ''benign'', sc_actor = ''unknown'', sc_confidence = ''low'',
        sc_avg = 0, sc_var = 0, sc_persona = [], sc_depth = 0, sc_loop = 0, sc_frustration = 0\<rparr>,
      ss_story = \<lparr>st_name = [], st_confidence = [], st_locked = False\<rparr>, ss_current_path = [], ss_last_method = [],
      ss_last_status = 0, ss_recent = [], ss_journey = [], ss_logins = 0, ss_bot = no_bot\<rparr>"

text \<open>Which stored session a request belongs to: that of its cookie for the same target, else the one
  with the same address, target and user agent, both within the window.\<close>

definition cookie_session :: "(string \<Rightarrow> string) \<Rightarrow> trapConfig \<Rightarrow> httpRequest \<Rightarrow> string \<Rightarrow> gotime \<Rightarrow> 'a eventStore \<Rightarrow> webSession option" where
  "cookie_session uni cfg r target now s =
     (case hr_cookie r of
        None \<Rightarrow> None
      | Some v \<Rightarrow>
          (case GetSession v s of
             None \<Rightarrow> None
           | Some ss \<Rightarrow>
               if time_sub now (ss_last_seen ss) \<le> wrap64 (effectiveResumeHours cfg * hour)
                  \<and> (so_target (ss_origin ss) = [] \<or> EqualFold uni (so_target (ss_origin ss)) target)
               then Some ss else None))"

definition known_session ::
  "(string \<Rightarrow> string) \<Rightarrow> trapConfig \<Rightarrow> httpRequest \<Rightarrow> string \<Rightarrow> string \<Rightarrow> gotime \<Rightarrow> 'a eventStore \<Rightarrow> webSession option" where
  "known_session uni cfg r fp target now s =
     (case cookie_session uni cfg r target now s of
        Some ss \<Rightarrow> Some ss
      | None \<Rightarrow>
          (case GetSessionByFingerprint fp s of
             None \<Rightarrow> None
           | Some ss \<Rightarrow> if time_sub now (ss_last_seen ss) \<le> wrap64 (effectiveResumeHours cfg * hour) then Some ss else None))"

definition sessionFor ::
  "(string \<Rightarrow> string) \<Rightarrow> trapConfig \<Rightarrow> httpRequest \<Rightarrow> string \<Rightarrow> clientMeta \<Rightarrow> string \<Rightarrow> gotime \<Rightarrow> string \<Rightarrow> 'a eventStore
     \<Rightarrow> webSession \<times> bool" where
  "sessionFor uni cfg r fp c target now sid s =
     (case known_session uni cfg r fp target now s of
        Some ss \<Rightarrow> (resume_session cfg r c now ss, False)
      | None \<Rightarrow> (new_session r c target now sid, True))"

text \<open>Under the lock of the session it is read again from the store.\<close>

definition refresh_session :: "trapConfig \<Rightarrow> httpRequest \<Rightarrow> clientMeta \<Rightarrow> gotime \<Rightarrow> 'a eventStore \<Rightarrow> webSession \<times> bool \<Rightarrow> webSession" where
  "refresh_session cfg r c now s found =
     (case found of (ss, created) \<Rightarrow>
        if created then ss
        else (case GetSession (ss_id ss) s of Some latest \<Rightarrow> resume_session cfg r c now latest | None \<Rightarrow> ss))"

definition applyRequestMeta :: "requestMeta \<Rightarrow> webSession \<Rightarrow> webSession" where
  "applyRequestMeta m ss =
     (let og = ss_origin ss; ref = rm_referrer m \<noteq> []
      in ss\<lparr>ss_first_path := (if ss_first_path ss = [] then ss_current_path ss else ss_first_path ss),
            ss_origin := og\<lparr>
              so_first_referrer := (if ref \<and> so_first_referrer og = [] then rm_referrer m else so_first_referrer og),
              so_last_referrer := newer (rm_referrer m) (so_last_referrer og),
              so_referrer_host := (if ref then rm_referrer_host m else so_referrer_host og),
              so_request_host := newer (rm_host m) (so_request_host og), so_target := newer (rm_target m) (so_target og),
              so_origin := newer (rm_origin m) (so_origin og), so_language := newer (rm_language m) (so_language og),
              so_protocol := newer (rm_protocol m) (so_protocol og),
              so_integration := newer (rm_integration m) (so_integration og),
              so_integration_trust := (if rm_integration m \<noteq> [] then rm_integration_trust m else so_integration_trust og),
              so_catch_all := (rm_catch_all m \<or> so_catch_all og)\<rparr>\<rparr>)"

definition fingerprintOf :: "string \<Rightarrow> string \<Rightarrow> string" where
  "fingerprintOf ip ua = ip @ ''|'' @ ua"

section \<open>The assessment in stages\<close>

definition isWebManagementLoginPath :: "(string \<Rightarrow> string) \<Rightarrow> string \<Rightarrow> bool" where
  "isWebManagementLoginPath uni p0 =
     (ToLower uni (TrimSpace p0) \<in> {''/login'', ''/login.html'', ''/login.htm'', ''/login.jsp'', ''/manage/account/login''})"

definition confidence_of :: "int \<Rightarrow> string" where
  "confidence_of auto = (if 85 \<le> auto then ''high'' else ''medium'')"

definition sweep_boost :: "hostSweep \<Rightarrow> httpBehavior \<Rightarrow> httpBehavior" where
  "sweep_boost sweep b =
     (if hs_detected sweep then
        b\<lparr>hb_automation := hb_automation b + 40, hb_risk := hb_risk b + 18,
          hb_fingerprints := hb_fingerprints b @ [''web:host-header-sweep'']\<rparr>
      else b)"

definition boosted :: "httpBehavior \<Rightarrow> assessment \<Rightarrow> assessment" where
  "boosted b a =
     a\<lparr>as_automation := clampInt (as_automation a + hb_automation b) 0 100, as_risk := clampInt (as_risk a + hb_risk b) 0 100\<rparr>"

text \<open>A session that was automated once stays so, with at most eight points less.\<close>

definition sticky_automation :: "scoring \<Rightarrow> assessment \<Rightarrow> assessment" where
  "sticky_automation sc a =
     (if sc_actor sc = ''automated'' \<or> 65 \<le> sc_automation sc then
        (let auto = max (as_automation a) (max (sc_automation sc - 8) 65)
         in a\<lparr>as_automation := auto, as_actor := ''automated'', as_confidence := confidence_of auto\<rparr>)
      else a)"

definition relay_stage :: "bool \<Rightarrow> assessment \<times> httpBehavior \<Rightarrow> assessment \<times> httpBehavior" where
  "relay_stage inbox x =
     (case x of (a, b) \<Rightarrow>
        if inbox then
          (a\<lparr>as_risk := 0, as_automation := 100, as_class := ''benign'', as_actor := ''automated'', as_confidence := ''high'',
             as_category := ''activitypub-relay''\<rparr>,
           b\<lparr>hb_automation := 0, hb_risk := 0, hb_fingerprints := hb_fingerprints b @ [''http:activitypub-relay'']\<rparr>)
        else x)"

definition bot_stage :: "botVerdict \<Rightarrow> bool \<Rightarrow> assessment \<times> httpBehavior \<Rightarrow> assessment \<times> httpBehavior" where
  "bot_stage v has_ranges x =
     (case x of (a, b) \<Rightarrow>
        if bv_verified v then
          (a\<lparr>as_automation := max (as_automation a) 95, as_actor := ''automated'', as_confidence := ''high''\<rparr>,
           b\<lparr>hb_fingerprints := hb_fingerprints b @ [''http:verified-bot:'' @ bv_provider v]\<rparr>)
        else if bv_claimed v \<and> has_ranges then
          (a\<lparr>as_automation := max (as_automation a) 92, as_risk := clampInt (as_risk a + 12) 0 100, as_actor := ''automated'',
             as_confidence := ''high'', as_category := ''spoofed-bot''\<rparr>,
           b\<lparr>hb_fingerprints := hb_fingerprints b @ [''http:spoofed-bot:'' @ bv_provider v]\<rparr>)
        else x)"

definition sweep_stage :: "bool \<Rightarrow> assessment \<Rightarrow> assessment" where
  "sweep_stage detected a =
     (if detected then
        a\<lparr>as_actor := ''automated'', as_confidence := ''high'', as_category := ''host-header-sweep'',
          as_class := (if as_class a = ''benign'' then ''suspicious'' else as_class a)\<rparr>
      else a)"

definition login_stage :: "(string \<Rightarrow> string) \<Rightarrow> httpRequest \<Rightarrow> webSession \<Rightarrow> assessment \<Rightarrow> assessment" where
  "login_stage uni r ss a =
     (if hr_method r = ''POST'' \<and> isWebManagementLoginPath uni (hr_path r) \<and> 80 \<le> as_automation a
         \<and> (1 \<le> ss_logins ss \<or> 2 \<le> ss_visits ss) then
        a\<lparr>as_risk := max (as_risk a) 82, as_class := ''hostile'', as_actor := ''automated'', as_confidence := ''high'',
          as_category := ''credential-validation''\<rparr>
      else a)"

definition actor_stage :: "assessment \<Rightarrow> assessment" where
  "actor_stage a =
     (if 65 \<le> as_automation a then a\<lparr>as_actor := ''automated'', as_confidence := confidence_of (as_automation a)\<rparr> else a)"

definition assess_request ::
  "('a, 'd, 'i, 'p) trapEnv \<Rightarrow> trapConfig \<Rightarrow> httpRequest \<Rightarrow> webSession \<Rightarrow> string \<Rightarrow> string \<Rightarrow> string \<Rightarrow> gotime \<Rightarrow> 'a eventStore
     \<Rightarrow> assessment \<times> httpBehavior \<times> hostSweep" where
  "assess_request env cfg r ss body ip host now s =
     (let web = te_web env; uni = we_lower web;
          a = AssessAt web (te_dev env) cfg r ss body now;
          sweep = HTTPHostSweep (te_store env) (es_domains s) (es_events s) ip host (UserAgent r) now;
          b = sweep_boost sweep (HTTPBehavior uni (es_events s) ip (UserAgent r) now);
          a = sticky_automation (ss_scoring ss) (boosted b a);
          v = VerifyBot (te_bots env) ip (UserAgent r) (te_registry env);
          (a, b) = bot_stage v (HasProvider (bv_provider v) (te_registry env))
                     (relay_stage (isActivityPubInboxRequest uni r) (a, b));
          a = actor_stage (login_stage uni r ss (sweep_stage (hs_detected sweep) a))
      in (a, b, sweep))"

section \<open>The session after the assessment\<close>

definition was_hostile :: "bool \<Rightarrow> webSession \<Rightarrow> bool" where
  "was_hostile inbox ss = ((sc_class (ss_scoring ss) = ''hostile'' \<or> 2 \<le> sc_depth (ss_scoring ss)) \<and> \<not> inbox)"

definition score_session :: "trapConfig \<Rightarrow> bool \<Rightarrow> assessment \<Rightarrow> webSession \<Rightarrow> webSession" where
  "score_session cfg hostile a ss =
     (let sc = ss_scoring ss
      in ss\<lparr>ss_scoring := sc\<lparr>
            sc_risk := (if hostile then max (as_risk a) (tc_hostile cfg) else as_risk a),
            sc_automation := as_automation a,
            sc_class := (if hostile then ''hostile'' else as_class a),
            sc_actor := as_actor a, sc_confidence := as_confidence a,
            sc_persona := newer (as_persona a) (sc_persona sc)\<rparr>\<rparr>)"

definition target_session :: "string option \<Rightarrow> bool \<Rightarrow> hostSweep \<Rightarrow> webSession \<Rightarrow> webSession" where
  "target_session trust self_origin sweep ss =
     (let og = ss_origin ss
      in ss\<lparr>ss_origin := og\<lparr>so_target_trust := (case trust of Some t \<Rightarrow> t | None \<Rightarrow> ''untrusted''),
            so_self_origin := self_origin, so_host_sweep := (hs_detected sweep \<or> so_host_sweep og),
            so_sweep_hosts := (if hs_detected sweep then max (so_sweep_hosts og) (int (hs_hosts sweep)) else so_sweep_hosts og)\<rparr>\<rparr>)"

definition calcIntervals :: "gotime list \<Rightarrow> int \<times> int" where
  "calcIntervals ts0 =
     (let vals = map milliseconds (time_gaps (sort ts0)) in
      if vals = [] then (0, 0)
      else (let avg = go_div (sum_list vals) (int (length vals))
            in (avg, go_div (sum_list (map (\<lambda>v. \<bar>v - avg\<bar>) vals)) (int (length vals)))))"

definition count_request :: "httpRequest \<Rightarrow> gotime \<Rightarrow> webSession \<Rightarrow> webSession" where
  "count_request r now ss =
     (let recent = push_last 12 now (ss_recent ss); (avg, var) = calcIntervals recent
      in ss\<lparr>ss_requests := wrap64 (ss_requests ss + 1), ss_visit_requests := wrap64 (ss_visit_requests ss + 1),
            ss_last_seen := now, ss_last_method := hr_method r, ss_current_path := hr_path r, ss_recent := recent,
            ss_scoring := (ss_scoring ss)\<lparr>sc_avg := avg, sc_var := var\<rparr>\<rparr>)"

definition addJourney :: "gotime \<Rightarrow> string \<Rightarrow> string \<Rightarrow> webSession \<Rightarrow> webSession" where
  "addJourney at path label ss =
     (if ss_journey ss \<noteq> [] \<and> js_path (List.last (ss_journey ss)) = path then ss
      else ss\<lparr>ss_journey := push_last 30 \<lparr>js_at = at, js_path = path, js_label = label\<rparr> (ss_journey ss)\<rparr>)"

section \<open>Answers\<close>

record vhostReply =
  vh_type :: string
  vh_body :: string
  vh_server :: string
  vh_label :: string

definition hostSweepVHostResponse :: "(string \<Rightarrow> string) \<Rightarrow> string \<Rightarrow> string \<Rightarrow> vhostReply" where
  "hostSweepVHostResponse uni host actor_key =
     (let k = fnv32a (ToLower uni host @ ''|'' @ actor_key) mod 3 in
      if k = 0 then
        \<lparr>vh_type = ''text/html; charset=utf-8'',
         vh_body = ''<!doctype html><html><head><title>Welcome to nginx!</title></head><body><h1>Welcome to nginx!</h1><p>If you see this page, the web server is successfully installed and working.</p><!-- legacy-vhost: /admin/ --></body></html>'',
         vh_server = ''nginx/1.24.0'', vh_label = ''host-sweep-default-vhost''\<rparr>
      else if k = 1 then
        \<lparr>vh_type = ''text/html; charset=utf-8'',
         vh_body = ''<!doctype html><html><head><title>Service Console</title></head><body><h2>Service Console</h2><p>Local authentication is available.</p><a href=\"/login\">Continue</a><br><a href=\"/manage/status/legacy\">System status</a></body></html>'',
         vh_server = ''Apache/2.4.58'', vh_label = ''host-sweep-legacy-vhost''\<rparr>
      else
        \<lparr>vh_type = ''application/json'',
         vh_body = ''{\"service\":\"gateway\",\"status\":\"degraded\",\"admin\":\"/admin/legacy\",\"diagnostics\":\"/diag/status/legacy\",\"backup\":\"/backup/legacy/\"}'',
         vh_server = ''openresty'', vh_label = ''host-sweep-api-vhost''\<rparr>)"

definition written :: "httpRequest \<Rightarrow> string \<Rightarrow> int" where
  "written r body = (if hr_method r = ''HEAD'' then 0 else int (length body))"

definition StatusText :: "int \<Rightarrow> string" where
  "StatusText status = (if status = 403 then ''Forbidden'' else if status = 404 then ''Not Found'' else [])"

text \<open>\<open>http.NotFound\<close> writes its text for \<open>HEAD\<close>, too.\<close>

definition NotFound :: "int \<times> int" where
  "NotFound = (404, int (length ''404 page not found'') + 1)"

definition serveBenignDiscovery :: "(string \<Rightarrow> string) \<Rightarrow> httpRequest \<Rightarrow> int \<times> int" where
  "serveBenignDiscovery uni r =
     (if ToLower uni (hr_path r) = ''/.well-known/passkey-endpoints'' then (200, written r [CHR ''{'', CHR ''}'', CHR 0x0A])
      else NotFound)"

definition benign_page :: string where
  "benign_page =
     ''<!doctype html><html><head><meta name=viewport content='' @ [CHR 0x27] @ ''width=device-width'' @ [CHR 0x27]
     @ ''><title>Welcome</title><style>body{font:16px system-ui;margin:10vh auto;max-width:680px;padding:24px;color:#222}''
     @ ''small{color:#777}</style></head><body><h1>Welcome</h1><p>This service is online.</p><small>HTTP service</small></body></html>''"

definition defaultBenign :: "httpRequest \<Rightarrow> int \<times> int" where
  "defaultBenign r = (if hr_path r \<noteq> ''/'' then NotFound else (200, written r benign_page))"

text \<open>
  The answer, with the session as it is left. \<open>claim\<close> is the name a failed integration check claims.
\<close>

definition check_answer :: "trapConfig \<Rightarrow> httpRequest \<Rightarrow> string \<Rightarrow> webSession \<Rightarrow> (int \<times> int \<times> string) \<times> webSession" where
  "check_answer cfg r claim ss =
     (let sc = ss_scoring ss;
          status = (if claim \<noteq> [] then 403 else 404);
          label = (if claim \<noteq> [] then ''integration verification failed'' else ''not found'');
          ss = (if claim \<noteq> [] then ss\<lparr>ss_scoring := sc\<lparr>sc_class := ''suspicious'', sc_risk := max (sc_risk sc) (tc_suspicious cfg)\<rparr>\<rparr> else ss)
      in ((status, written r (StatusText status @ [CHR 0x0A]), label), ss\<lparr>ss_last_status := status\<rparr>))"

definition sweep_answer :: "(string \<Rightarrow> string) \<Rightarrow> httpRequest \<Rightarrow> string \<Rightarrow> gotime \<Rightarrow> webSession \<Rightarrow> (int \<times> int \<times> string) \<times> webSession" where
  "sweep_answer uni r target now ss =
     (let resp = hostSweepVHostResponse uni target (ss_ip ss); sc = ss_scoring ss
      in ((200, written r (vh_body resp), vh_label resp),
          addJourney now (hr_path r) (vh_label resp)
            (ss\<lparr>ss_last_status := 200, ss_scoring := sc\<lparr>sc_depth := max (sc_depth sc) 1\<rparr>\<rparr>)))"

definition deception_answer :: "httpRequest \<Rightarrow> gotime \<Rightarrow> deceptionReply \<Rightarrow> webSession \<Rightarrow> (int \<times> int \<times> string) \<times> webSession" where
  "deception_answer r now d ss0 =
     (let ss = ss0\<lparr>ss_logins := dr_logins d, ss_story := dr_story d\<rparr>;
          sc = (ss_scoring ss)\<lparr>sc_depth := dr_depth d\<rparr>;
          step = (ss_journey ss = [] \<or> js_path (List.last (ss_journey ss)) \<noteq> hr_path r);
          sc = (if 0 < dr_loop d \<and> step then
                  sc\<lparr>sc_loop := wrap64 (sc_loop sc + dr_loop d), sc_frustration := min 10 (sc_frustration sc + dr_loop d)\<rparr>
                else sc);
          ss = ss\<lparr>ss_scoring := sc, ss_last_status := dr_status d\<rparr>
      in ((dr_status d, written r (dr_body d), dr_label d),
          if 0 < dr_depth d then addJourney now (hr_path r) (dr_label d) ss else ss))"

definition benign_answer :: "('a, 'd, 'i, 'p) trapEnv \<Rightarrow> httpRequest \<Rightarrow> webSession \<Rightarrow> (int \<times> int \<times> string) \<times> webSession" where
  "benign_answer env r ss =
     (let uni = we_lower (te_web env);
          (status, n) = (if isBenignDiscovery uni (hr_path r) then serveBenignDiscovery uni r
                         else (case te_files env of Some files \<Rightarrow> files r | None \<Rightarrow> defaultBenign r))
      in ((status, n, ''benign''), ss\<lparr>ss_last_status := 200\<rparr>))"

definition answer_request ::
  "('a, 'd, 'i, 'p) trapEnv \<Rightarrow> trapConfig \<Rightarrow> httpRequest \<Rightarrow> string \<Rightarrow> string \<Rightarrow> bool \<Rightarrow> string \<Rightarrow> gotime \<Rightarrow> webSession \<Rightarrow> 'd
     \<Rightarrow> (int \<times> int \<times> string) \<times> webSession \<times> 'd" where
  "answer_request env cfg r claim target trusted body now ss d =
     (let uni = we_lower (te_web env) in
      if hr_path r = integrationCheckPath then
        (case check_answer cfg r claim ss of (x, ss) \<Rightarrow> (x, ss, d))
      else if isActivityPubInboxRequest uni r then ((202, 0, ''activitypub-relay''), ss\<lparr>ss_last_status := 202\<rparr>, d)
      else if \<not> trusted \<and> so_host_sweep (ss_origin ss) \<and> hr_path r = ''/'' then
        (case sweep_answer uni r target now ss of (x, ss) \<Rightarrow> (x, ss, d))
      else if sc_class (ss_scoring ss) = ''hostile'' \<or> looksLikeBait uni (hr_path r) then
        (case te_build env r ss body d of (resp, d) \<Rightarrow> (case deception_answer r now resp ss of (x, ss) \<Rightarrow> (x, ss, d)))
      else (case benign_answer env r ss of (x, ss) \<Rightarrow> (x, ss, d)))"

section \<open>The event\<close>

definition event_of ::
  "('a, 'd, 'i, 'p) trapEnv \<Rightarrow> httpRequest \<Rightarrow> requestMeta \<Rightarrow> string \<Rightarrow> string \<Rightarrow> string \<Rightarrow> int \<times> int \<times> string \<Rightarrow> gotime
     \<Rightarrow> webSession \<Rightarrow> webEvent" where
  "event_of env r m body category eid x now ss =
     (case x of (status, n, label) \<Rightarrow>
        (let og = ss_origin ss; probe = identifyProbe (we_lower (te_web env)) (hr_path r)
         in \<lparr>ev_id = eid, ev_at = now, ev_session = ss_id ss, ev_ip = ss_ip ss, ev_method = hr_method r, ev_path = hr_path r,
             ev_status = status, ev_category = category, ev_message = label, ev_agent = ss_agent ss,
             ev_origin = \<lparr>eo_ip_source = so_ip_source og, eo_proxy = so_proxy og, eo_country = so_country og,
               eo_country_source = so_country_source og, eo_cf_ray = so_cf_ray og, eo_cf_colo = so_cf_colo og,
               eo_referrer = rm_referrer m, eo_referrer_host = rm_referrer_host m, eo_request_host = rm_host m,
               eo_target = so_target og, eo_target_trust = so_target_trust og, eo_self_origin = so_self_origin og,
               eo_host_sweep = so_host_sweep og, eo_sweep_hosts = so_sweep_hosts og, eo_origin = rm_origin m,
               eo_language = rm_language m, eo_protocol = rm_protocol m, eo_integration = rm_integration m,
               eo_integration_trust = rm_integration_trust m, eo_catch_all = rm_catch_all m\<rparr>,
             ev_visit = \<lparr>vi_first_seen = ss_first_seen ss, vi_requests = ss_requests ss, vi_visits = ss_visits ss,
               vi_started = ss_visit_started ss, vi_visit_requests = ss_visit_requests ss,
               vi_first_path = ss_visit_first_path ss\<rparr>,
             ev_probe = (case probe of
                 Some i \<Rightarrow> \<lparr>pr_name = pi_name i, pr_product = pi_product i, pr_cve = pi_cve i, pr_known = True\<rparr>
               | None \<Rightarrow> \<lparr>pr_name = [], pr_product = [], pr_cve = [], pr_known = False\<rparr>),
             ev_scoring = ss_scoring ss, ev_story = ss_story ss, ev_bytes = n, ev_bot = ss_bot ss,
             ev_graphql = te_graphql env (hr_path r) (hr_query r) body\<rparr>))"

section \<open>The handler\<close>

definition body_sample :: "httpRequest \<Rightarrow> string" where
  "body_sample r = (if hr_method r \<in> {''POST'', ''PUT'', ''PATCH''} then take 8192 (hr_body r) else [])"

definition request_fingerprint :: "httpRequest \<Rightarrow> clientMeta \<Rightarrow> string \<Rightarrow> string" where
  "request_fingerprint r c target = fingerprintOf (cm_ip c @ ''|'' @ target) (UserAgent r)"

text \<open>The session as the assessment finds it.\<close>

definition start_session ::
  "('a, 'd, 'i, 'p) trapEnv \<Rightarrow> trapConfig \<Rightarrow> httpRequest \<Rightarrow> requestMeta \<Rightarrow> clientMeta \<Rightarrow> gotime \<Rightarrow> string \<Rightarrow> 'a eventStore \<Rightarrow> webSession" where
  "start_session env cfg r m c now sid s =
     applyRequestMeta m (refresh_session cfg r c now s
       (sessionFor (te_fold env) cfg r (request_fingerprint r c (rm_target m)) c (rm_target m) now sid s))"

text \<open>What the assessment says of the actor goes to its profile and to its other sessions.\<close>

definition mark_actor :: "('a, 'd, 'i, 'p) trapEnv \<Rightarrow> string \<Rightarrow> bool \<Rightarrow> assessment \<Rightarrow> httpBehavior \<Rightarrow> 'a eventStore \<Rightarrow> 'a eventStore" where
  "mark_actor env ip self_origin a b s =
     (if self_origin then s
      else (let s = ApplyHTTPActorFingerprint (te_mark env) ip (hb_fingerprints b) s
            in if 65 \<le> as_automation a \<or> 30 \<le> hb_automation b then PromoteHTTPAutomation (te_promote env) ip (as_automation a) s
               else s))"

definition bot_seen :: "botVerdict \<Rightarrow> botClaim" where
  "bot_seen v = \<lparr>bc_provider = bv_provider v, bc_name = bv_bot v, bc_claimed = bv_claimed v, bc_verified = bv_verified v\<rparr>"

text \<open>The session before the answer: assessed, of its target, counted.\<close>

definition judge_session ::
  "('a, 'd, 'i, 'p) trapEnv \<Rightarrow> trapConfig \<Rightarrow> httpRequest \<Rightarrow> clientMeta \<Rightarrow> string option \<Rightarrow> bool \<Rightarrow> assessment \<Rightarrow> hostSweep \<Rightarrow> gotime
     \<Rightarrow> webSession \<Rightarrow> webSession" where
  "judge_session env cfg r c trust self_origin a sweep now ss =
     count_request r now (target_session trust self_origin sweep
       (score_session cfg (was_hostile (isActivityPubInboxRequest (we_lower (te_web env)) r) ss) a
         (ss\<lparr>ss_bot := bot_seen (VerifyBot (te_bots env) (cm_ip c) (UserAgent r) (te_registry env))\<rparr>)))"

definition serve ::
  "('a, 'd, 'i, 'p) trapEnv \<Rightarrow> trapConfig \<Rightarrow> bool option \<Rightarrow> httpRequest \<Rightarrow> requestMeta \<Rightarrow> clientMeta \<Rightarrow> string \<Rightarrow> gotime \<Rightarrow> string
     \<Rightarrow> string \<Rightarrow> ('a, 'd) trapState \<Rightarrow> webAnswer \<times> ('a, 'd) trapState" where
  "serve env cfg log r m c claim now sid eid ts =
     (let s = ts_store ts; target = rm_target m; ip = cm_ip c; body = body_sample r;
          trust = trustedHost (en_lower (te_store env)) (en_parse_ip (te_store env)) (es_domains s) target;
          ss = start_session env cfg r m c now sid s;
          s = s\<lparr>es_actors := te_intel env ip (ss_id ss) (hr_query r) body (es_actors s)\<rparr>;
          (a, b, sweep) = assess_request env cfg r ss body ip (rm_host m) now s;
          self_origin = selfOriginRequest (te_web env) c target (trust \<noteq> None);
          s = mark_actor env ip self_origin a b s;
          ss = judge_session env cfg r c trust self_origin a sweep now ss;
          (x, ss, d) = answer_request env cfg r claim target (trust \<noteq> None) body now ss (ts_pages ts);
          s = UpsertSession (te_store env) ss (request_fingerprint r c target) s;
          s = fst (AddEvent (te_store env) log (event_of env r m body (as_category a) eid x now ss) s)
      in (\<lparr>wa_status = fst x, wa_bytes = fst (snd x), wa_label = snd (snd x), wa_cookie = Some (ss_id ss)\<rparr>,
          ts\<lparr>ts_store := s, ts_pages := d\<rparr>))"

definition handleTrap ::
  "('a, 'd, 'i, 'p) trapEnv \<Rightarrow> trapConfig \<Rightarrow> bool option \<Rightarrow> bool \<Rightarrow> bool \<Rightarrow> httpRequest \<Rightarrow> gotime \<Rightarrow> string \<Rightarrow> string
     \<Rightarrow> ('a, 'd) trapState \<Rightarrow> webAnswer \<times> ('a, 'd) trapState" where
  "handleTrap env cfg log writable slot_free r now sid eid ts =
     (let web = te_web env in
      if \<not> slot_free then
        (\<lparr>wa_status = 503, wa_bytes = int (length ''Service Unavailable'') + 1, wa_label = [], wa_cookie = None\<rparr>,
         ts\<lparr>ts_rejected := wrap64 (ts_rejected ts + 1)\<rparr>)
      else (let im = integrationMetaOf web cfg r now; check = (hr_path r = integrationCheckPath);
                claim = cleanIntegrationName web (Header r ''X-ZentLoop-Integration'');
                source = remoteIP web (hr_remote r) in
        if check \<and> hr_method r = ''GET'' \<and> im_valid im then
          (\<lparr>wa_status = 204, wa_bytes = 0, wa_label = [], wa_cookie = None\<rparr>,
           ts\<lparr>ts_peers := RecordIntegrationVerified (we_lower web) writable (im_name im) source (im_trust im) (im_key im) now (ts_peers ts)\<rparr>)
        else (let peers = (if check \<and> claim \<noteq> [] \<and> \<not> im_valid im then
                             RecordIntegrationFailure (we_lower web) writable claim source ''integration verification failed'' now
                               (isPrivateOrLoopback web source) (ts_peers ts)
                           else ts_peers ts);
                  host = originalRequestHost web cfg r im;
                  (c, geo) = clientMetaOf web cfg r host (ts_geo ts)
              in serve env cfg log r (extractRequestMeta web r host host im) c claim now sid eid (ts\<lparr>ts_peers := peers, ts_geo := geo\<rparr>))))"

end
