(* ===== verification/WebTrapProofs.thy ===== *)
theory WebTrapProofs
  imports WebTrap WebRequestProofs EventStoreProofs WebBehaviorProofs ScorerProofs BotVerifyProofs
begin

text \<open>
  One request and what it leaves: every admitted request is logged once, the session that is stored is
  the one a restart rebuilds from the log, sessions stay well formed, what was hostile stays so.
\<close>

section \<open>What the steps leave alone\<close>

lemma country_source: "fst (fst (country env ip g)) = [] \<Longrightarrow> snd (fst (country env ip g)) = []"
  by (auto simp: country_def geo_named_def split: option.splits if_splits)

lemma fill_country_source:
  assumes "cm_country m = [] \<longrightarrow> cm_country_source m = []"
  shows "cm_country (fst (fill_country env m g)) = [] \<longrightarrow> cm_country_source (fst (fill_country env m g)) = []"
  using assms country_source [of env "cm_ip m" g] by (auto simp: fill_country_def split: prod.splits)

lemma client_source:
  "cm_country (fst (clientMetaOf env cfg r target g)) = [] \<Longrightarrow> cm_country_source (fst (clientMetaOf env cfg r target g)) = []"
proof -
  have "cm_country (fst (clientMetaOf env cfg r target g)) = [] \<longrightarrow> cm_country_source (fst (clientMetaOf env cfg r target g)) = []"
    unfolding clientMetaOf_def Let_def by (simp only: if_distrib [of fst] split: if_split) (simp add: fill_country_source)
  then show "cm_country (fst (clientMetaOf env cfg r target g)) = [] \<Longrightarrow> cm_country_source (fst (clientMetaOf env cfg r target g)) = []"
    by blast
qed

text \<open>The answer changes the scores, the status, the story, the logins and the journey.\<close>

lemma answer_frame:
  assumes "answer_request env cfg r claim target trusted body now ss d = (x, ss', d')"
  shows "ss' = ss\<lparr>ss_scoring := ss_scoring ss', ss_last_status := ss_last_status ss', ss_story := ss_story ss',
      ss_logins := ss_logins ss', ss_journey := ss_journey ss'\<rparr>"
  using assms
  by (auto simp: answer_request_def check_answer_def sweep_answer_def deception_answer_def benign_answer_def addJourney_def Let_def
      split: if_splits prod.splits)

lemma answer_keeps:
  assumes "answer_request env cfg r claim target trusted body now ss d = (x, ss', d')"
  shows "ss_id ss' = ss_id ss" "ss_ip ss' = ss_ip ss" "ss_agent ss' = ss_agent ss" "ss_origin ss' = ss_origin ss"
    "ss_first_path ss' = ss_first_path ss" "ss_first_seen ss' = ss_first_seen ss" "ss_last_seen ss' = ss_last_seen ss"
    "ss_requests ss' = ss_requests ss" "ss_visits ss' = ss_visits ss" "ss_visit_started ss' = ss_visit_started ss"
    "ss_visit_requests ss' = ss_visit_requests ss" "ss_visit_first_path ss' = ss_visit_first_path ss"
    "ss_current_path ss' = ss_current_path ss" "ss_last_method ss' = ss_last_method ss" "ss_recent ss' = ss_recent ss"
    "ss_bot ss' = ss_bot ss"
  by (subst answer_frame [OF assms], simp)+

lemma judge_keeps [simp]:
  "ss_id (judge_session env cfg r c trust so a sweep now ss) = ss_id ss"
  "ss_ip (judge_session env cfg r c trust so a sweep now ss) = ss_ip ss"
  "ss_agent (judge_session env cfg r c trust so a sweep now ss) = ss_agent ss"
  "ss_first_path (judge_session env cfg r c trust so a sweep now ss) = ss_first_path ss"
  "ss_first_seen (judge_session env cfg r c trust so a sweep now ss) = ss_first_seen ss"
  "ss_last_seen (judge_session env cfg r c trust so a sweep now ss) = now"
  "ss_requests (judge_session env cfg r c trust so a sweep now ss) = wrap64 (ss_requests ss + 1)"
  "ss_visits (judge_session env cfg r c trust so a sweep now ss) = ss_visits ss"
  "ss_visit_started (judge_session env cfg r c trust so a sweep now ss) = ss_visit_started ss"
  "ss_visit_requests (judge_session env cfg r c trust so a sweep now ss) = wrap64 (ss_visit_requests ss + 1)"
  "ss_visit_first_path (judge_session env cfg r c trust so a sweep now ss) = ss_visit_first_path ss"
  "ss_current_path (judge_session env cfg r c trust so a sweep now ss) = hr_path r"
  "ss_last_method (judge_session env cfg r c trust so a sweep now ss) = hr_method r"
  "ss_recent (judge_session env cfg r c trust so a sweep now ss) = push_last 12 now (ss_recent ss)"
  "ss_journey (judge_session env cfg r c trust so a sweep now ss) = ss_journey ss"
  "ss_story (judge_session env cfg r c trust so a sweep now ss) = ss_story ss"
  "ss_origin (judge_session env cfg r c trust so a sweep now ss) = ss_origin (target_session trust so sweep ss)"
  by (simp_all add: judge_session_def count_request_def target_session_def score_session_def Let_def split: prod.split)

section \<open>One request\<close>

text \<open>The parts of \<open>serve\<close>.\<close>

lemma serve_cases:
  fixes ts :: "('a, 'd) trapState"
  assumes "serve env cfg log r m c claim now sid eid ts = (ans, ts')"
  obtains s0 ss0 a b sweep s1 x ss d where
    "ss0 = start_session env cfg r m c now sid (ts_store ts)"
    "s0 = (ts_store ts)\<lparr>es_actors := te_intel env (cm_ip c) (ss_id ss0) (hr_query r) (body_sample r) (es_actors (ts_store ts))\<rparr>"
    "assess_request env cfg r ss0 (body_sample r) (cm_ip c) (rm_host m) now s0 = (a, b, sweep)"
    "s1 = mark_actor env (cm_ip c) (selfOriginRequest (te_web env) c (rm_target m)
       (trustedHost (en_lower (te_store env)) (en_parse_ip (te_store env)) (es_domains (ts_store ts)) (rm_target m) \<noteq> None)) a b s0"
    "answer_request env cfg r claim (rm_target m)
       (trustedHost (en_lower (te_store env)) (en_parse_ip (te_store env)) (es_domains (ts_store ts)) (rm_target m) \<noteq> None)
       (body_sample r) now
       (judge_session env cfg r c (trustedHost (en_lower (te_store env)) (en_parse_ip (te_store env)) (es_domains (ts_store ts)) (rm_target m))
          (selfOriginRequest (te_web env) c (rm_target m)
            (trustedHost (en_lower (te_store env)) (en_parse_ip (te_store env)) (es_domains (ts_store ts)) (rm_target m) \<noteq> None))
          a sweep now ss0)
       (ts_pages ts) = (x, ss, d)"
    "ans = \<lparr>wa_status = fst x, wa_bytes = fst (snd x), wa_label = snd (snd x), wa_cookie = Some (ss_id ss)\<rparr>"
    "ts' = ts\<lparr>ts_store := fst (AddEvent (te_store env) log (event_of env r m (body_sample r) (as_category a) eid x now ss)
       (UpsertSession (te_store env) ss (request_fingerprint r c (rm_target m)) s1)), ts_pages := d\<rparr>"
  using assms unfolding serve_def Let_def by (auto split: prod.splits)

lemma mark_actor_store:
  "es_file (mark_actor env ip so a b s) = es_file s" "es_fingerprints (mark_actor env ip so a b s) = es_fingerprints s"
  "es_domains (mark_actor env ip so a b s) = es_domains s" "es_events (mark_actor env ip so a b s) = es_events s"
  "tallies (mark_actor env ip so a b s) = tallies s" "es_subs (mark_actor env ip so a b s) = es_subs s"
  by (simp_all add: mark_actor_def ApplyHTTPActorFingerprint_def PromoteHTTPAutomation_def tallies_def Let_def)

text \<open>The sessions of the address may be promoted, which changes their scores only.\<close>

definition same_but_scores :: "webSession \<Rightarrow> webSession \<Rightarrow> bool" where
  "same_but_scores ss ss' \<longleftrightarrow> ss' = ss\<lparr>ss_scoring := ss_scoring ss'\<rparr>"

lemma same_but_scores_refl [simp]: "same_but_scores ss ss"
  by (simp add: same_but_scores_def)

lemma promoted_same [simp]: "same_but_scores ss (promoted k ss)"
  by (simp add: same_but_scores_def promoted_def Let_def)

lemma mark_actor_sessions:
  "\<exists>f. es_sessions (mark_actor env ip so a b s) = map (\<lambda>(i, ss). (i, f ss)) (es_sessions s)
     \<and> (\<forall>ss. f ss = ss \<or> f ss = promoted (min 100 (max 65 (as_automation a))) ss)"
proof -
  have id: "map (\<lambda>(i, ss). (i, ss)) m = m" for m :: "(string, webSession) gomap" by (induction m) auto
  show ?thesis
  proof (cases "so \<or> \<not> (65 \<le> as_automation a \<or> 30 \<le> hb_automation b) \<or> TrimSpace ip = []")
    case True
    then have "es_sessions (mark_actor env ip so a b s) = es_sessions s"
      by (auto simp: mark_actor_def ApplyHTTPActorFingerprint_def PromoteHTTPAutomation_def Let_def)
    then show ?thesis using id [of "es_sessions s"] by (intro exI [of _ "\<lambda>ss. ss"]) simp
  next
    case False
    let ?k = "min 100 (max 65 (as_automation a))"
    have "es_sessions (mark_actor env ip so a b s)
        = map (\<lambda>(i, ss). (i, if ss_ip ss = TrimSpace ip then promoted ?k ss else ss)) (es_sessions s)"
      using False by (auto simp: mark_actor_def ApplyHTTPActorFingerprint_def PromoteHTTPAutomation_def Let_def)
    then show ?thesis by (intro exI [of _ "\<lambda>ss. if ss_ip ss = TrimSpace ip then promoted ?k ss else ss"]) auto
  qed
qed

lemma mark_actor_lookup:
  "case (map_of (es_sessions s) i, map_of (es_sessions (mark_actor env ip so a b s)) i) of
     (None, None) \<Rightarrow> True | (Some ss, Some ss') \<Rightarrow> same_but_scores ss ss' | _ \<Rightarrow> False"
proof -
  obtain f where f: "es_sessions (mark_actor env ip so a b s) = map (\<lambda>(i, ss). (i, f ss)) (es_sessions s)"
    "\<And>ss. same_but_scores ss (f ss)"
    using mark_actor_sessions [of env ip so a b s] promoted_same same_but_scores_refl by metis
  then show ?thesis by (simp add: map_of_map_values split: option.splits)
qed

lemma mark_actor_keys: "map fst (es_sessions (mark_actor env ip so a b s)) = map fst (es_sessions s)"
proof -
  have "map fst (map (\<lambda>(i, ss). (i, f ss)) m) = map fst m" for f :: "webSession \<Rightarrow> webSession" and m :: "(string, webSession) gomap"
    by (induction m) auto
  then show ?thesis using mark_actor_sessions [of env ip so a b s] by metis
qed

section \<open>The session and the log\<close>

text \<open>
  A live session and the one that a restart has rebuilt: everything but the scores, the recent times,
  the journey, the logins, the claim of a crawler, and whether the last request came from the target
  itself. Counters and times that a replay takes for missing when they are zero are not.
\<close>

definition same_history :: "webSession \<Rightarrow> webSession \<Rightarrow> bool" where
  "same_history ss ss' \<longleftrightarrow> ss_id ss' = ss_id ss \<and> ss_ip ss' = ss_ip ss \<and> ss_agent ss' = ss_agent ss
     \<and> (ss_origin ss')\<lparr>so_self_origin := so_self_origin (ss_origin ss)\<rparr> = ss_origin ss
     \<and> ss_first_path ss' = ss_first_path ss \<and> ss_first_seen ss' = ss_first_seen ss \<and> ss_last_seen ss' = ss_last_seen ss
     \<and> ss_requests ss' = ss_requests ss \<and> ss_visits ss' = ss_visits ss \<and> ss_visit_started ss' = ss_visit_started ss
     \<and> ss_visit_requests ss' = ss_visit_requests ss \<and> ss_visit_first_path ss' = ss_visit_first_path ss
     \<and> ss_current_path ss' = ss_current_path ss \<and> ss_last_method ss' = ss_last_method ss"

definition counted :: "int \<Rightarrow> webSession \<Rightarrow> bool" where
  "counted n ss \<longleftrightarrow> ss_first_seen ss \<noteq> 0 \<and> ss_visit_started ss \<noteq> 0 \<and> ss_first_path ss \<noteq> [] \<and> ss_visit_first_path ss \<noteq> []
     \<and> 0 \<le> ss_requests ss \<and> ss_requests ss \<le> n \<and> 1 \<le> ss_visits ss \<and> ss_visits ss \<le> n + 1
     \<and> 0 \<le> ss_visit_requests ss \<and> ss_visit_requests ss \<le> n \<and> (so_country (ss_origin ss) = [] \<longrightarrow> so_country_source (ss_origin ss) = [])"

text \<open>The origin of an event of a session with origin \<open>og\<close>, for the request \<open>m\<close>.\<close>

definition origin_of_event :: "requestMeta \<Rightarrow> sessionOrigin \<Rightarrow> eventOrigin" where
  "origin_of_event m og =
     \<lparr>eo_ip_source = so_ip_source og, eo_proxy = so_proxy og, eo_country = so_country og,
      eo_country_source = so_country_source og, eo_cf_ray = so_cf_ray og, eo_cf_colo = so_cf_colo og,
      eo_referrer = rm_referrer m, eo_referrer_host = rm_referrer_host m, eo_request_host = rm_host m,
      eo_target = so_target og, eo_target_trust = so_target_trust og, eo_self_origin = so_self_origin og,
      eo_host_sweep = so_host_sweep og, eo_sweep_hosts = so_sweep_hosts og, eo_origin = rm_origin m,
      eo_language = rm_language m, eo_protocol = rm_protocol m, eo_integration = rm_integration m,
      eo_integration_trust = rm_integration_trust m, eo_catch_all = rm_catch_all m\<rparr>"

lemma event_of_fields [simp]:
  "ev_session (event_of env r m body cat eid x now ss) = ss_id ss" "ev_at (event_of env r m body cat eid x now ss) = now"
  "ev_ip (event_of env r m body cat eid x now ss) = ss_ip ss" "ev_method (event_of env r m body cat eid x now ss) = hr_method r"
  "ev_path (event_of env r m body cat eid x now ss) = hr_path r" "ev_agent (event_of env r m body cat eid x now ss) = ss_agent ss"
  "ev_scoring (event_of env r m body cat eid x now ss) = ss_scoring ss" "ev_status (event_of env r m body cat eid x now ss) = fst x"
  "ev_bytes (event_of env r m body cat eid x now ss) = fst (snd x)" "ev_message (event_of env r m body cat eid x now ss) = snd (snd x)"
  "ev_story (event_of env r m body cat eid x now ss) = ss_story ss" "ev_category (event_of env r m body cat eid x now ss) = cat"
  "ev_visit (event_of env r m body cat eid x now ss) = \<lparr>vi_first_seen = ss_first_seen ss, vi_requests = ss_requests ss,
     vi_visits = ss_visits ss, vi_started = ss_visit_started ss, vi_visit_requests = ss_visit_requests ss,
     vi_first_path = ss_visit_first_path ss\<rparr>"
  "ev_origin (event_of env r m body cat eid x now ss) = origin_of_event m (ss_origin ss)"
  by (simp_all add: event_of_def origin_of_event_def Let_def split: prod.split)

lemma trust_named: "trustedHost uni p ds host = Some t \<Longrightarrow> t \<noteq> []"
  by (auto simp: trustedHost_def trustedTargetRoot_def Let_def split: if_splits)

lemma newer_newer [simp]: "newer (newer a b) b = newer a b" "newer [] b = b" "newer a [] = a"
  by (simp_all add: newer_def)

lemma newer_empty [simp]: "newer a b = [] \<longleftrightarrow> a = [] \<and> b = []"
  by (simp add: newer_def)

text \<open>Merging the origin of the event into the rebuilt origin gives the live one.\<close>

lemma origin_replayed:
  fixes c m
  assumes og': "og'\<lparr>so_self_origin := so_self_origin (ss_origin ss)\<rparr> = ss_origin ss"
    and src: "so_country (ss_origin ss) = [] \<longrightarrow> so_country_source (ss_origin ss) = []"
    and live: "og = ss_origin (target_session trust so sweep (applyRequestMeta m (applyClientMeta c ss)))"
    and trust: "\<And>t. trust = Some t \<Longrightarrow> t \<noteq> []"
  shows "(merge_origin (origin_of_event m og) og')\<lparr>so_self_origin := so_self_origin og\<rparr> = og"
proof -
  have "(og'\<lparr>so_self_origin := b\<rparr>)\<lparr>so_self_origin := so_self_origin og'\<rparr> = og'" for b by simp
  then have eq: "og' = (ss_origin ss)\<lparr>so_self_origin := so_self_origin og'\<rparr>" using og' by metis
  show ?thesis
    by (subst eq, rule sessionOrigin.equality)
      (use trust in \<open>auto simp: live merge_origin_def origin_of_event_def target_session_def applyRequestMeta_def applyClientMeta_def
        newer_def Let_def split: option.splits\<close>)
qed

lemma origin_created:
  assumes live: "og = ss_origin (target_session trust so sweep (applyRequestMeta m (new_session r c (rm_target m) now sid)))"
    and src: "cm_country c = [] \<longrightarrow> cm_country_source c = []"
    and trust: "\<And>t. trust = Some t \<Longrightarrow> t \<noteq> []"
  shows "(merge_origin (origin_of_event m og) (ss_origin (fresh_session e)))\<lparr>so_self_origin := so_self_origin og\<rparr> = og"
  by (rule sessionOrigin.equality)
    (use src trust in \<open>auto simp: live merge_origin_def origin_of_event_def target_session_def applyRequestMeta_def new_session_def
      fresh_session_def newer_def Let_def split: option.splits\<close>)

lemma resume_fields [simp]:
  "ss_id (resume_session cfg r c now ss) = ss_id ss" "ss_ip (resume_session cfg r c now ss) = cm_ip c"
  "ss_agent (resume_session cfg r c now ss) = ss_agent ss" "ss_first_path (resume_session cfg r c now ss) = ss_first_path ss"
  "ss_first_seen (resume_session cfg r c now ss) = ss_first_seen ss" "ss_requests (resume_session cfg r c now ss) = ss_requests ss"
  "ss_origin (resume_session cfg r c now ss) = ss_origin (applyClientMeta c ss)"
  "ss_journey (resume_session cfg r c now ss) = ss_journey ss"
  by (simp_all add: resume_session_def prepareReturnVisit_def visit_defaults_def applyClientMeta_def Let_def)

lemma resume_counted:
  assumes "counted n ss" "now \<noteq> 0" "hr_path r \<noteq> []" "n < 2 ^ 62"
  shows "1 \<le> ss_visits (resume_session cfg r c now ss)" "ss_visits (resume_session cfg r c now ss) \<le> n + 2"
    and "0 \<le> ss_visit_requests (resume_session cfg r c now ss)" "ss_visit_requests (resume_session cfg r c now ss) \<le> n"
    and "ss_visit_started (resume_session cfg r c now ss) \<noteq> 0" "ss_visit_first_path (resume_session cfg r c now ss) \<noteq> []"
proof -
  have w: "wrap64 (ss_visits ss + 1) = ss_visits ss + 1" using assms by (intro wrap64_small) (auto simp: counted_def)
  show "1 \<le> ss_visits (resume_session cfg r c now ss)" "ss_visits (resume_session cfg r c now ss) \<le> n + 2"
    "0 \<le> ss_visit_requests (resume_session cfg r c now ss)" "ss_visit_requests (resume_session cfg r c now ss) \<le> n"
    "ss_visit_started (resume_session cfg r c now ss) \<noteq> 0" "ss_visit_first_path (resume_session cfg r c now ss) \<noteq> []"
    using assms w by (auto simp: counted_def resume_session_def prepareReturnVisit_def visit_defaults_def applyClientMeta_def Let_def)
qed

lemma request_meta_fields [simp]:
  "ss_id (applyRequestMeta m ss) = ss_id ss" "ss_ip (applyRequestMeta m ss) = ss_ip ss" "ss_agent (applyRequestMeta m ss) = ss_agent ss"
  "ss_first_seen (applyRequestMeta m ss) = ss_first_seen ss" "ss_requests (applyRequestMeta m ss) = ss_requests ss"
  "ss_visits (applyRequestMeta m ss) = ss_visits ss" "ss_visit_started (applyRequestMeta m ss) = ss_visit_started ss"
  "ss_visit_requests (applyRequestMeta m ss) = ss_visit_requests ss"
  "ss_visit_first_path (applyRequestMeta m ss) = ss_visit_first_path ss"
  "ss_recent (applyRequestMeta m ss) = ss_recent ss" "ss_journey (applyRequestMeta m ss) = ss_journey ss"
  "ss_scoring (applyRequestMeta m ss) = ss_scoring ss" "ss_logins (applyRequestMeta m ss) = ss_logins ss"
  "ss_first_path (applyRequestMeta m ss) = (if ss_first_path ss = [] then ss_current_path ss else ss_first_path ss)"
  by (simp_all add: applyRequestMeta_def Let_def)

lemma new_fields [simp]:
  "ss_id (new_session r c target now sid) = sid" "ss_ip (new_session r c target now sid) = cm_ip c"
  "ss_agent (new_session r c target now sid) = UserAgent r" "ss_first_path (new_session r c target now sid) = hr_path r"
  "ss_first_seen (new_session r c target now sid) = now" "ss_requests (new_session r c target now sid) = 0"
  "ss_visits (new_session r c target now sid) = 1" "ss_visit_started (new_session r c target now sid) = now"
  "ss_visit_requests (new_session r c target now sid) = 0" "ss_visit_first_path (new_session r c target now sid) = hr_path r"
  "ss_recent (new_session r c target now sid) = []" "ss_journey (new_session r c target now sid) = []"
  by (simp_all add: new_session_def)

text \<open>Keys are identifiers.\<close>

definition keyed :: "'a eventStore \<Rightarrow> bool" where
  "keyed s \<longleftrightarrow> map_wf (es_sessions s) \<and> (\<forall>i ss. map_of (es_sessions s) i = Some ss \<longrightarrow> ss_id ss = i)"

lemma start_session_cases:
  assumes "keyed s"
  obtains (resumed) ss where "GetSession (ss_id ss) s = Some ss" "known_session (te_fold env) cfg r (request_fingerprint r c (rm_target m)) (rm_target m) now s = Some ss"
      "start_session env cfg r m c now sid s = applyRequestMeta m (resume_session cfg r c now ss)"
  | (created) "known_session (te_fold env) cfg r (request_fingerprint r c (rm_target m)) (rm_target m) now s = None"
      "start_session env cfg r m c now sid s = applyRequestMeta m (new_session r c (rm_target m) now sid)"
proof (cases "known_session (te_fold env) cfg r (request_fingerprint r c (rm_target m)) (rm_target m) now s")
  case None
  then show thesis using created by (simp add: start_session_def sessionFor_def refresh_session_def)
next
  case (Some ss)
  then have "\<exists>i. GetSession i s = Some ss"
    by (auto simp: known_session_def cookie_session_def GetSessionByFingerprint_def split: option.splits if_splits)
  then have g: "GetSession (ss_id ss) s = Some ss" using assms by (auto simp: keyed_def GetSession_def)
  then show thesis using resumed [OF g] Some by (simp add: start_session_def sessionFor_def refresh_session_def)
qed

text \<open>The visit an event carries overrides what the replay had, when its counters are set.\<close>

lemma event_session_visit:
  assumes "vi_requests (ev_visit e) > 0" "vi_visits (ev_visit e) > 0" "vi_started (ev_visit e) \<noteq> 0"
    "vi_visit_requests (ev_visit e) > 0" "vi_first_path (ev_visit e) \<noteq> []"
  shows "event_session e ss = ss\<lparr>ss_last_seen := ev_at e, ss_ip := ev_ip e, ss_origin := merge_origin (ev_origin e) (ss_origin ss),
      ss_first_path := (if ss_first_path ss = [] then ev_path e else ss_first_path ss),
      ss_requests := vi_requests (ev_visit e), ss_visits := vi_visits (ev_visit e), ss_visit_started := vi_started (ev_visit e),
      ss_visit_requests := vi_visit_requests (ev_visit e), ss_visit_first_path := vi_first_path (ev_visit e),
      ss_scoring := ev_scoring e, ss_story := (if st_name (ev_story e) \<noteq> [] then ev_story e else ss_story ss),
      ss_current_path := ev_path e, ss_last_method := ev_method e, ss_last_status := ev_status e,
      ss_recent := push_last 12 (ev_at e) (ss_recent ss), ss_journey := add_journey e (ss_journey ss)\<rparr>"
  using assms by (simp add: event_session_def merge_visit_def Let_def)

lemma replay_step:
  assumes ans: "answer_request env cfg r claim target trusted body now (judge_session env cfg r c trust so a sweep now ss0) d = (x, ss, d')"
    and e: "e = event_of env r m body cat eid x now ss"
    and n: "0 \<le> n" "n < 2 ^ 62" and path: "hr_path r \<noteq> []"
    and ss0: "0 \<le> ss_requests ss0" "ss_requests ss0 \<le> n" "1 \<le> ss_visits ss0" "ss_visits ss0 \<le> n + 2"
      "0 \<le> ss_visit_requests ss0" "ss_visit_requests ss0 \<le> n" "ss_visit_started ss0 \<noteq> 0" "ss_visit_first_path ss0 \<noteq> []"
      "ss_first_path ss0 \<noteq> []" "ss_first_seen ss0 \<noteq> 0"
    and old: "ss_id old = ss_id ss0" "ss_agent old = ss_agent ss0" "ss_first_seen old = ss_first_seen ss0"
      "(if ss_first_path old = [] then hr_path r else ss_first_path old) = ss_first_path ss0"
    and og: "(merge_origin (origin_of_event m og) (ss_origin old))\<lparr>so_self_origin := so_self_origin og\<rparr> = og"
      "og = ss_origin (target_session trust so sweep ss0)" "so_country og = [] \<longrightarrow> so_country_source og = []"
  shows "counted (n + 1) ss \<and> same_history ss (event_session e old)"
proof -
  note keeps = answer_keeps [OF ans]
  have w: "wrap64 (ss_requests ss0 + 1) = ss_requests ss0 + 1" "wrap64 (ss_visit_requests ss0 + 1) = ss_visit_requests ss0 + 1"
    using n ss0 by (auto intro: wrap64_small)
  have o: "ss_origin ss = og" using keeps og(2) by simp
  have ev: "event_session e old = old\<lparr>ss_last_seen := ev_at e, ss_ip := ev_ip e, ss_origin := merge_origin (ev_origin e) (ss_origin old),
      ss_first_path := (if ss_first_path old = [] then ev_path e else ss_first_path old),
      ss_requests := vi_requests (ev_visit e), ss_visits := vi_visits (ev_visit e), ss_visit_started := vi_started (ev_visit e),
      ss_visit_requests := vi_visit_requests (ev_visit e), ss_visit_first_path := vi_first_path (ev_visit e),
      ss_scoring := ev_scoring e, ss_story := (if st_name (ev_story e) \<noteq> [] then ev_story e else ss_story old),
      ss_current_path := ev_path e, ss_last_method := ev_method e, ss_last_status := ev_status e,
      ss_recent := push_last 12 (ev_at e) (ss_recent old), ss_journey := add_journey e (ss_journey old)\<rparr>"
    using ss0 keeps w by (intro event_session_visit) (simp_all add: e)
  have c: "counted (n + 1) ss" using ss0 keeps w o og(3) by (simp add: counted_def)
  have "same_history ss (event_session e old)"
    unfolding same_history_def ev using keeps w o og(1) old path by (simp add: e split: if_splits)
  then show ?thesis using c by blast
qed

lemma scores_history: "same_but_scores ss ss2 \<Longrightarrow> same_history ss ss' \<Longrightarrow> same_history ss2 ss'"
  unfolding same_but_scores_def by (erule ssubst) (simp add: same_history_def)

lemma scores_id: "same_but_scores ss ss2 \<Longrightarrow> ss_id ss2 = ss_id ss"
  unfolding same_but_scores_def by (erule ssubst) simp

lemma scores_counted: "same_but_scores ss ss2 \<Longrightarrow> counted n ss \<Longrightarrow> counted n ss2"
  unfolding same_but_scores_def by (erule ssubst) (simp add: counted_def)

lemma counted_mono: "counted n ss \<Longrightarrow> n \<le> k \<Longrightarrow> counted k ss"
  by (auto simp: counted_def)

lemma client_counted: "counted n ss \<Longrightarrow> cm_country c = [] \<longrightarrow> cm_country_source c = [] \<Longrightarrow> og = ss_origin (applyClientMeta c ss)
    \<Longrightarrow> so_country og = [] \<longrightarrow> so_country_source og = []"
  by (auto simp: counted_def applyClientMeta_def newer_def Let_def split: if_splits)

lemma target_country:
  "so_country (ss_origin (target_session trust so sweep (applyRequestMeta m ss))) = so_country (ss_origin ss)"
  "so_country_source (ss_origin (target_session trust so sweep (applyRequestMeta m ss))) = so_country_source (ss_origin ss)"
  by (simp_all add: target_session_def applyRequestMeta_def Let_def)

lemma target_meta_client:
  "ss_origin (target_session trust so sweep (applyRequestMeta m (resume_session cfg r c now ss)))
     = ss_origin (target_session trust so sweep (applyRequestMeta m (applyClientMeta c ss)))"
  by (simp add: target_session_def applyRequestMeta_def Let_def)

lemma fresh_fields [simp]:
  "ss_id (fresh_session e) = ev_session e" "ss_agent (fresh_session e) = ev_agent e" "ss_first_path (fresh_session e) = []"
  "ss_first_seen (fresh_session e) = (if vi_first_seen (ev_visit e) = 0 then ev_at e else vi_first_seen (ev_visit e))"
  by (simp_all add: fresh_session_def)

text \<open>The session after a request, against the replay of its event.\<close>

lemma request_replayed:
  assumes ans: "answer_request env cfg r claim target trusted body now (judge_session env cfg r c trust so a sweep now ss0) d = (x, ss, d')"
    and e: "e = event_of env r m body cat eid x now ss"
    and ss0: "ss0 = start_session env cfg r m c now sid s" and keyed: "keyed s" and fresh: "GetSession sid s = None"
    and src: "cm_country c = [] \<longrightarrow> cm_country_source c = []" and trust: "\<And>t. trust = Some t \<Longrightarrow> t \<noteq> []"
    and n: "0 \<le> n" "n < 2 ^ 62" and path: "hr_path r \<noteq> []" and now: "now \<noteq> 0"
    and live: "\<And>i ss. GetSession i s = Some ss \<Longrightarrow> counted n ss \<and> (\<exists>ss'. rep i = Some ss' \<and> same_history ss ss')"
    and gone: "\<And>i. GetSession i s = None \<Longrightarrow> rep i = None"
  shows "counted (n + 1) ss \<and> same_history ss (event_session e (case rep (ss_id ss) of Some ss' \<Rightarrow> ss' | None \<Rightarrow> fresh_session e))"
proof (rule start_session_cases [OF keyed, of env cfg r c m now sid])
  fix old
  assume old: "GetSession (ss_id old) s = Some old"
    and eq: "start_session env cfg r m c now sid s = applyRequestMeta m (resume_session cfg r c now old)"
  obtain old' where l: "counted n old" "rep (ss_id old) = Some old'" "same_history old old'" using live [OF old] by blast
  note res = resume_counted [OF l(1) now path n(2), of cfg c]
  have fp: "ss_first_path old \<noteq> []" "ss_first_seen old \<noteq> 0" using l(1) by (simp_all add: counted_def)
  have id: "ss_id ss = ss_id old" using answer_keeps [OF ans] by (simp add: ss0 eq)
  let ?og = "ss_origin (target_session trust so sweep (applyRequestMeta m (applyClientMeta c old)))"
  have rep: "(merge_origin (origin_of_event m ?og) (ss_origin old'))\<lparr>so_self_origin := so_self_origin ?og\<rparr> = ?og"
    using l trust by (intro origin_replayed [OF _ _ refl]) (simp_all add: same_history_def counted_def)
  have "counted (n + 1) ss \<and> same_history ss (event_session e old')"
    using res fp l n path
    by (intro replay_step [OF ans e n path, where og = ?og] rep)
      (simp_all add: ss0 eq target_meta_client target_country client_counted [OF l(1) src] same_history_def counted_def)
  then show ?thesis by (simp add: id l(2))
next
  assume eq: "start_session env cfg r m c now sid s = applyRequestMeta m (new_session r c (rm_target m) now sid)"
  have id: "ss_id ss = sid" using answer_keeps [OF ans] by (simp add: ss0 eq)
  have agent: "ss_agent ss = UserAgent r" "ss_first_seen ss = now" using answer_keeps [OF ans] by (simp_all add: ss0 eq)
  let ?og = "ss_origin (target_session trust so sweep (applyRequestMeta m (new_session r c (rm_target m) now sid)))"
  have rep: "(merge_origin (origin_of_event m ?og) (ss_origin (fresh_session e)))\<lparr>so_self_origin := so_self_origin ?og\<rparr> = ?og"
    using trust by (intro origin_created [OF refl src]) simp_all
  have "counted (n + 1) ss \<and> same_history ss (event_session e (fresh_session e))"
    using n path now src id agent
    by (intro replay_step [OF ans e n path, where og = ?og] rep) (simp_all add: ss0 eq target_country e, simp add: new_session_def)
  then show ?thesis by (simp add: id gone [OF fresh])
qed

section \<open>Any number of requests\<close>

record arrival =
  ar_request :: httpRequest
  ar_now :: gotime
  ar_session :: string
  ar_event :: string
  ar_slot :: bool
  ar_writable :: bool

definition trap_step :: "('a, 'd, 'i, 'p) trapEnv \<Rightarrow> trapConfig \<Rightarrow> arrival \<Rightarrow> ('a, 'd) trapState \<Rightarrow> ('a, 'd) trapState" where
  "trap_step env cfg x ts =
     snd (handleTrap env cfg (Some True) (ar_writable x) (ar_slot x) (ar_request x) (ar_now x) (ar_session x) (ar_event x) ts)"

definition trap_run :: "('a, 'd, 'i, 'p) trapEnv \<Rightarrow> trapConfig \<Rightarrow> arrival list \<Rightarrow> ('a, 'd) trapState \<Rightarrow> ('a, 'd) trapState" where
  "trap_run env cfg xs ts = fold (trap_step env cfg) xs ts"

definition new_trap :: "'a \<Rightarrow> domainStore \<Rightarrow> peerStore \<Rightarrow> geoResolver \<Rightarrow> 'd \<Rightarrow> ('a, 'd) trapState" where
  "new_trap actors domains peers geo pages =
     \<lparr>ts_store = empty_store actors domains [], ts_peers = peers, ts_geo = geo, ts_pages = pages, ts_rejected = 0\<rparr>"

text \<open>A request is refused, or answered as an integration check, or served.\<close>

lemma step_cases:
  obtains (idle) "ts_store (trap_step env cfg x ts) = ts_store ts"
  | (served) m c claim ts1 where "ts_store ts1 = ts_store ts" "cm_country c = [] \<longrightarrow> cm_country_source c = []"
      "trap_step env cfg x ts = snd (serve env cfg (Some True) (ar_request x) m c claim (ar_now x) (ar_session x) (ar_event x) ts1)"
proof -
  let ?r = "ar_request x" and ?web = "te_web env"
  let ?im = "integrationMetaOf ?web cfg ?r (ar_now x)"
  let ?host = "originalRequestHost ?web cfg ?r ?im"
  show thesis
  proof (cases "ar_slot x \<and> \<not> (hr_path ?r = integrationCheckPath \<and> hr_method ?r = ''GET'' \<and> im_valid ?im)")
    case False
    then show thesis using idle by (auto simp: trap_step_def handleTrap_def Let_def)
  next
    case True
    obtain c geo where c: "clientMetaOf ?web cfg ?r ?host (ts_geo ts) = (c, geo)" by fastforce
    have src: "cm_country c = [] \<longrightarrow> cm_country_source c = []" using client_source [of ?web cfg ?r ?host "ts_geo ts"] c by simp
    obtain peers claim where eq: "trap_step env cfg x ts = snd (serve env cfg (Some True) ?r (extractRequestMeta ?web ?r ?host ?host ?im) c claim
        (ar_now x) (ar_session x) (ar_event x) (ts\<lparr>ts_peers := peers, ts_geo := geo\<rparr>))"
      using True c by (auto simp: trap_step_def handleTrap_def Let_def)
    show thesis by (rule served [OF _ src eq]) simp
  qed
qed

definition tracks :: "'a eventEnv \<Rightarrow> gotime \<Rightarrow> webEvent list \<Rightarrow> 'a eventStore \<Rightarrow> bool" where
  "tracks env cutoff es s \<longleftrightarrow> keyed s \<and> es_file s = map (\<lambda>e. Some (json_event env e)) es \<and> length (es_sessions s) \<le> length es
     \<and> (\<forall>e \<in> set es. valid_utf8 (ev_session e) \<and> ev_at e \<noteq> 0 \<and> cutoff \<le> ev_at e) \<and> (\<forall>i. GetSession i s \<noteq> None \<longrightarrow> valid_utf8 i)
     \<and> (\<forall>i ss. GetSession i s = Some ss \<longrightarrow> counted (int (length es)) ss \<and> (\<exists>ss'. rebuilt (own i es) = Some ss' \<and> same_history ss ss'))
     \<and> (\<forall>i. GetSession i s = None \<longrightarrow> rebuilt (own i es) = None)"

lemma keyed_upsert:
  assumes "keyed s" "map fst (es_sessions s1) = map fst (es_sessions s)" "length (es_sessions s) < 10000"
    "\<And>i ss. map_of (es_sessions s1) i = Some ss \<Longrightarrow> ss_id ss = i"
  shows "es_sessions (UpsertSession env ss fp s1) = AList.update (ss_id ss) ss (es_sessions s1)
    \<and> keyed (UpsertSession env ss fp s1)"
proof -
  have len: "length (es_sessions s1) < 10000" using assms(2,3) by (metis length_map)
  have wf: "map_wf (es_sessions s1)" using assms(1,2) by (simp add: keyed_def map_wf_def)
  have "length (AList.update (ss_id ss) ss (es_sessions s1)) \<le> maxSessions"
    using len by (simp add: length_update maxSessions_def)
  then have eq: "es_sessions (UpsertSession env ss fp s1) = AList.update (ss_id ss) ss (es_sessions s1)"
    by (simp add: UpsertSession_def Let_def)
  then show ?thesis using wf assms(4) by (auto simp: keyed_def gomap)
qed

lemma AddEvent_open:
  "es_sessions (fst (AddEvent env (Some True) e s)) = es_sessions s"
  "es_file (fst (AddEvent env (Some True) e s)) = es_file s @ [Some (json_event env e)]"
  unfolding AddEvent_state by (simp_all add: publishRealtime_def)

lemma store_updated: "ts_store (ts\<lparr>ts_store := s, ts_pages := d\<rparr>) = s"
  by simp

lemma own_snoc: "own i (es @ [e]) = own i es @ (if ev_session e = i then [e] else [])"
  by (simp add: own_def)

text \<open>The store after a served request: one event more, one session stored, others at most promoted.\<close>

definition stored :: "'a eventEnv \<Rightarrow> webSession \<Rightarrow> webEvent \<Rightarrow> 'a eventStore \<Rightarrow> 'a eventStore \<Rightarrow> bool" where
  "stored env ss e s s' \<longleftrightarrow> keyed s' \<and> es_file s' = es_file s @ [Some (json_event env e)] \<and> length (es_sessions s') \<le> Suc (length (es_sessions s))
     \<and> GetSession (ss_id ss) s' = Some ss
     \<and> (\<forall>i. i \<noteq> ss_id ss \<longrightarrow> GetSession i s' = None \<longrightarrow> GetSession i s = None)
     \<and> (\<forall>i u. i \<noteq> ss_id ss \<longrightarrow> GetSession i s' = Some u \<longrightarrow> (\<exists>v. GetSession i s = Some v \<and> same_but_scores v u))"

lemma upsert_stored:
  assumes keyed: "keyed s" and len: "length (es_sessions s) < 10000" and fil: "es_file s1 = es_file s"
    and sess: "map fst (es_sessions s1) = map fst (es_sessions s)"
    and look: "\<And>i. case (GetSession i s, GetSession i s1) of (None, None) \<Rightarrow> True | (Some u, Some u') \<Rightarrow> same_but_scores u u' | _ \<Rightarrow> False"
    and s': "s' = fst (AddEvent env (Some True) e (UpsertSession env ss fp s1))"
  shows "stored env ss e s s'"
proof -
  let ?up = "UpsertSession env ss fp s1"
  have some: "\<exists>v. GetSession i s = Some v \<and> same_but_scores v u" if "GetSession i s1 = Some u" for i u
    using look [of i] that by (simp split: option.splits)
  have keys1: "ss_id u = i" if m: "map_of (es_sessions s1) i = Some u" for i u
  proof -
    obtain v where v: "GetSession i s = Some v" "same_but_scores v u" using some [of i u] m by (auto simp: GetSession_def)
    then have "ss_id v = i" using keyed by (auto simp: keyed_def GetSession_def)
    then show ?thesis using scores_id [OF v(2)] by simp
  qed
  have up: "es_sessions ?up = AList.update (ss_id ss) ss (es_sessions s1)" "keyed ?up"
    using keyed_upsert [OF keyed sess len keys1] by auto
  have st: "es_sessions s' = es_sessions ?up" "es_file s' = es_file s1 @ [Some (json_event env e)]"
    unfolding s' by (simp_all only: AddEvent_open file_other)
  have get: "GetSession i s' = (if i = ss_id ss then Some ss else GetSession i s1)" for i
    by (simp add: GetSession_def st up(1) gomap)
  have "length (es_sessions s1) = length (es_sessions s)" using sess by (metis length_map)
  then have "length (es_sessions s') \<le> Suc (length (es_sessions s))" by (simp add: st(1) up(1) length_update)
  moreover have "keyed s'" using up(2) unfolding keyed_def st(1) .
  moreover have "GetSession i s = None" if "GetSession i s1 = None" for i using look [of i] that by (simp split: option.splits)
  ultimately show ?thesis unfolding stored_def using some by (simp add: get st(2) fil)
qed

lemma serve_effect:
  fixes ts :: "('a, 'd) trapState"
  assumes serve: "serve env cfg (Some True) r m c claim now sid eid ts = (ans, ts')"
    and keyed: "keyed (ts_store ts)" and len: "length (es_sessions (ts_store ts)) < 10000"
  obtains ss0 trusted trust so a sweep x ss d cat where
    "ss0 = start_session env cfg r m c now sid (ts_store ts)"
    "trust = trustedHost (en_lower (te_store env)) (en_parse_ip (te_store env)) (es_domains (ts_store ts)) (rm_target m)"
    "answer_request env cfg r claim (rm_target m) trusted (body_sample r) now (judge_session env cfg r c trust so a sweep now ss0)
       (ts_pages ts) = (x, ss, d)"
    "stored (te_store env) ss (event_of env r m (body_sample r) cat eid x now ss) (ts_store ts) (ts_store ts')"
    "ans = \<lparr>wa_status = fst x, wa_bytes = fst (snd x), wa_label = snd (snd x), wa_cookie = Some (ss_id ss)\<rparr>"
proof (rule serve_cases [OF serve])
  fix s0 s1 :: "'a eventStore" and ss0 ss :: webSession and a :: assessment and b :: httpBehavior and sweep :: hostSweep
    and x :: "int \<times> int \<times> string" and d :: 'd
  let ?s = "ts_store ts"
  let ?trust = "trustedHost (en_lower (te_store env)) (en_parse_ip (te_store env)) (es_domains ?s) (rm_target m)"
  let ?so = "selfOriginRequest (te_web env) c (rm_target m) (?trust \<noteq> None)"
  let ?e = "event_of env r m (body_sample r) (as_category a) eid x now ss"
  assume ss0: "ss0 = start_session env cfg r m c now sid ?s"
    and s0: "s0 = ?s\<lparr>es_actors := te_intel env (cm_ip c) (ss_id ss0) (hr_query r) (body_sample r) (es_actors ?s)\<rparr>"
    and s1: "s1 = mark_actor env (cm_ip c) ?so a b s0"
    and ans: "answer_request env cfg r claim (rm_target m) (?trust \<noteq> None) (body_sample r) now
       (judge_session env cfg r c ?trust ?so a sweep now ss0) (ts_pages ts) = (x, ss, d)"
    and reply: "ans = \<lparr>wa_status = fst x, wa_bytes = fst (snd x), wa_label = snd (snd x), wa_cookie = Some (ss_id ss)\<rparr>"
    and ts': "ts' = ts\<lparr>ts_store := fst (AddEvent (te_store env) (Some True) ?e
       (UpsertSession (te_store env) ss (request_fingerprint r c (rm_target m)) s1)), ts_pages := d\<rparr>"
  have "stored (te_store env) ss ?e ?s (ts_store ts')"
  proof (rule upsert_stored [OF keyed len])
    show "es_file s1 = es_file ?s" by (simp add: s1 mark_actor_store s0)
    show "map fst (es_sessions s1) = map fst (es_sessions ?s)" unfolding s1 mark_actor_keys by (simp add: s0)
    show "case (GetSession i ?s, GetSession i s1) of (None, None) \<Rightarrow> True | (Some u, Some u') \<Rightarrow> same_but_scores u u' | _ \<Rightarrow> False" for i
      using mark_actor_lookup [of s0 i env "cm_ip c" ?so a b] by (simp add: s1 GetSession_def s0)
    show "ts_store ts' = fst (AddEvent (te_store env) (Some True) ?e
       (UpsertSession (te_store env) ss (request_fingerprint r c (rm_target m)) s1))" by (simp only: ts' store_updated)
  qed
  then show thesis using that [OF ss0 refl ans _ reply] by blast
qed

lemma serve_tracks:
  fixes ts :: "('a, 'd) trapState"
  assumes serve: "serve env cfg (Some True) r m c claim now sid eid ts = (ans, ts')"
    and t: "tracks (te_store env) cutoff es (ts_store ts)" and n: "length es < 10000" and fresh: "GetSession sid (ts_store ts) = None"
    and src: "cm_country c = [] \<longrightarrow> cm_country_source c = []" and path: "hr_path r \<noteq> []" and now: "now \<noteq> 0" "cutoff \<le> now"
    and sid: "valid_utf8 sid"
  shows "\<exists>e. tracks (te_store env) cutoff (es @ [e]) (ts_store ts')
     \<and> (\<forall>i. GetSession i (ts_store ts') \<noteq> None \<longrightarrow> GetSession i (ts_store ts) \<noteq> None \<or> i = sid)"
proof -
  let ?s = "ts_store ts" and ?s' = "ts_store ts'"
  have k: "keyed ?s" and len: "length (es_sessions ?s) \<le> length es" and fil: "es_file ?s = map (\<lambda>e. Some (json_event (te_store env) e)) es"
    and logged: "\<forall>e \<in> set es. valid_utf8 (ev_session e) \<and> ev_at e \<noteq> 0 \<and> cutoff \<le> ev_at e" "\<forall>i. GetSession i ?s \<noteq> None \<longrightarrow> valid_utf8 i" using t by (simp_all add: tracks_def)
  obtain ss0 trusted trust so a sweep x ss d cat where
    ss0: "ss0 = start_session env cfg r m c now sid ?s"
    and trust: "trust = trustedHost (en_lower (te_store env)) (en_parse_ip (te_store env)) (es_domains ?s) (rm_target m)"
    and ans: "answer_request env cfg r claim (rm_target m) trusted (body_sample r) now (judge_session env cfg r c trust so a sweep now ss0)
       (ts_pages ts) = (x, ss, d)"
    and st: "stored (te_store env) ss (event_of env r m (body_sample r) cat eid x now ss) ?s ?s'"
  proof (rule serve_effect [OF serve k])
    show "length (es_sessions ?s) < 10000" using len n by simp
  qed (rule that)
  define e where "e = event_of env r m (body_sample r) cat eid x now ss"
  note stored = st [folded e_def, unfolded stored_def]
  have own: "own i (es @ [e]) = own i es @ (if i = ss_id ss then [e] else [])" for i by (auto simp: own_snoc e_def)
  have rep: "counted (int (length es) + 1) ss \<and> same_history ss (event_session e (case rebuilt (own (ss_id ss) es) of Some ss' \<Rightarrow> ss' | None \<Rightarrow> fresh_session e))"
  proof (rule request_replayed [OF ans e_def ss0 k fresh src])
    fix t assume "trust = Some t"
    then show "t \<noteq> []" unfolding trust by (rule trust_named)
  qed (use n now path t in \<open>simp_all add: tracks_def\<close>)
  have mine: "counted (int (length (es @ [e]))) u \<and> (\<exists>ss'. rebuilt (own i (es @ [e])) = Some ss' \<and> same_history u ss')"
    if u: "GetSession i ?s' = Some u" for i u
  proof (cases "i = ss_id ss")
    case True
    then show ?thesis using u rep stored by (simp add: own rebuilt_snoc add.commute)
  next
    case False
    then obtain v where v: "GetSession i ?s = Some v" "same_but_scores v u" using u stored by blast
    then have "counted (int (length es)) v \<and> (\<exists>ss'. rebuilt (own i es) = Some ss' \<and> same_history v ss')" using t by (simp add: tracks_def)
    then show ?thesis using False scores_history [OF v(2)] counted_mono [OF scores_counted [OF v(2)]] by (auto simp: own)
  qed
  have none: "rebuilt (own i (es @ [e])) = None" if "GetSession i ?s' = None" for i
    using that stored t by (cases "i = ss_id ss") (auto simp: own tracks_def)
  have "ss_id ss = sid \<or> GetSession (ss_id ss) ?s \<noteq> None"
    using answer_keeps(1) [OF ans] by (cases rule: start_session_cases [OF k, of env cfg r c m now sid]) (auto simp: ss0)
  then have names: "GetSession i ?s \<noteq> None \<or> i = sid" if some: "GetSession i ?s' \<noteq> None" for i
  proof (cases "i = ss_id ss")
    case False
    obtain u where "GetSession i ?s' = Some u" using some by blast
    then have "\<exists>v. GetSession i ?s = Some v" using stored False by blast
    then show ?thesis by auto
  qed auto
  have valid: "\<forall>i. GetSession i ?s' \<noteq> None \<longrightarrow> valid_utf8 i" using names logged(2) sid by blast
  then have "valid_utf8 (ev_session e) \<and> ev_at e \<noteq> 0 \<and> cutoff \<le> ev_at e" using stored now by (simp add: e_def)
  then have "tracks (te_store env) cutoff (es @ [e]) ?s'" unfolding tracks_def using stored mine none len logged(1) valid by (auto simp: fil)
  then show ?thesis using names by blast
qed

definition arrives :: "gotime \<Rightarrow> arrival \<Rightarrow> bool" where
  "arrives cutoff x \<longleftrightarrow> ar_now x \<noteq> 0 \<and> cutoff \<le> ar_now x \<and> hr_path (ar_request x) \<noteq> [] \<and> valid_utf8 (ar_session x)"

lemma run_tracks:
  assumes "length es + length xs < 10000" "distinct (map ar_session xs)" "\<forall>x \<in> set xs. arrives cutoff x"
    "\<forall>x \<in> set xs. GetSession (ar_session x) (ts_store ts) = None" "tracks (te_store env) cutoff es (ts_store ts)"
  shows "\<exists>es'. length es' \<le> length es + length xs \<and> tracks (te_store env) cutoff es' (ts_store (trap_run env cfg xs ts))"
  using assms unfolding trap_run_def
proof (induction xs arbitrary: es ts)
  case (Cons x xs)
  show ?case
  proof (cases rule: step_cases [of env cfg x ts])
    case idle
    then show ?thesis using Cons.IH [of es "trap_step env cfg x ts"] Cons.prems by fastforce
  next
    case (served m c claim ts1)
    let ?ts = "trap_step env cfg x ts"
    obtain ans where ans: "serve env cfg (Some True) (ar_request x) m c claim (ar_now x) (ar_session x) (ar_event x) ts1 = (ans, ?ts)"
      using served(3) by (metis prod.collapse)
    have "\<exists>e. tracks (te_store env) cutoff (es @ [e]) (ts_store ?ts) \<and> (\<forall>i. GetSession i (ts_store ?ts) \<noteq> None \<longrightarrow> GetSession i (ts_store ts1) \<noteq> None \<or> i = ar_session x)"
      using Cons.prems served(1) by (intro serve_tracks [OF ans _ _ _ served(2)]) (simp_all add: arrives_def)
    then obtain e where e: "tracks (te_store env) cutoff (es @ [e]) (ts_store ?ts)"
      "\<forall>i. GetSession i (ts_store ?ts) \<noteq> None \<longrightarrow> GetSession i (ts_store ts) \<noteq> None \<or> i = ar_session x"
      unfolding served(1) by blast
    have fresh: "\<forall>y \<in> set xs. GetSession (ar_session y) (ts_store ?ts) = None"
    proof
      fix y assume y: "y \<in> set xs"
      have "ar_session y \<in> set (map ar_session xs)" "ar_session x \<notin> set (map ar_session xs)" using y Cons.prems(2) by simp_all
      then have "ar_session y \<noteq> ar_session x" by metis
      moreover have "GetSession (ar_session y) (ts_store ts) = None" using y Cons.prems(4) by simp
      ultimately show "GetSession (ar_session y) (ts_store ?ts) = None" using e(2) by blast
    qed
    have "\<exists>es'. length es' \<le> length (es @ [e]) + length xs \<and> tracks (te_store env) cutoff es' (ts_store (fold (trap_step env cfg) xs ?ts))"
      using Cons.prems by (intro Cons.IH [OF _ _ _ fresh e(1)]) simp_all
    then show ?thesis by simp
  qed
qed auto

lemma same_history_json:
  assumes "same_history ss old"
  shows "same_history (json_session ss) ((json_session old)\<lparr>ss_journey := js\<rparr>)"
proof -
  have og: "ss_origin ss = (ss_origin old)\<lparr>so_self_origin := so_self_origin (ss_origin ss)\<rparr>" using assms by (simp add: same_history_def)
  have "(json_session_origin (ss_origin old))\<lparr>so_self_origin := so_self_origin (ss_origin ss)\<rparr>
      = json_session_origin ((ss_origin old)\<lparr>so_self_origin := so_self_origin (ss_origin ss)\<rparr>)"
    by (simp add: json_session_origin_def)
  also have "\<dots> = json_session_origin (ss_origin ss)" by (simp only: og [symmetric])
  finally have "(json_session_origin (ss_origin old))\<lparr>so_self_origin := so_self_origin (ss_origin ss)\<rparr> = json_session_origin (ss_origin ss)" .
  moreover have "so_self_origin (json_session_origin (ss_origin ss)) = so_self_origin (ss_origin ss)" by (simp add: json_session_origin_def)
  ultimately show ?thesis using assms by (simp add: same_history_def json_session_def)
qed

lemma json_session_history:
  assumes "list_all valid_utf8 (session_texts ss)" "same_history (json_session ss) again"
  shows "same_history ss again"
proof -
  have "json_session_origin (ss_origin ss) = ss_origin ss"
    using assms(1) by (simp add: session_texts_def Let_def json_text_same json_session_origin_def)
  then show ?thesis
    using assms by (simp add: session_texts_def Let_def json_text_same same_history_def json_session_def)
qed


section \<open>What a handled request leaves\<close>

lemma handle_cases:
  assumes "handleTrap env cfg log writable slot r now sid eid ts = (ans, ts')"
  obtains (idle) "wa_cookie ans = None" "ts_store ts' = ts_store ts"
  | (served) m c claim ts1 where "ts_store ts1 = ts_store ts" "claim = cleanIntegrationName (te_web env) (Header r ''X-ZentLoop-Integration'')"
      "rm_target m = rm_host m" "serve env cfg log r m c claim now sid eid ts1 = (ans, ts')"
proof -
  let ?web = "te_web env"
  let ?im = "integrationMetaOf ?web cfg r now"
  let ?host = "originalRequestHost ?web cfg r ?im"
  show thesis
  proof (cases "slot \<and> \<not> (hr_path r = integrationCheckPath \<and> hr_method r = ''GET'' \<and> im_valid ?im)")
    case False
    then show thesis using idle assms by (auto simp: handleTrap_def Let_def split: if_splits)
  next
    case True
    obtain c geo where c: "clientMetaOf ?web cfg r ?host (ts_geo ts) = (c, geo)" by fastforce
    let ?claim = "cleanIntegrationName ?web (Header r ''X-ZentLoop-Integration'')" and ?source = "remoteIP ?web (hr_remote r)"
    let ?peers = "if hr_path r = integrationCheckPath \<and> ?claim \<noteq> [] \<and> \<not> im_valid ?im then
        RecordIntegrationFailure (we_lower ?web) writable ?claim ?source ''integration verification failed'' now
          (isPrivateOrLoopback ?web ?source) (ts_peers ts) else ts_peers ts"
    have eq: "serve env cfg log r (extractRequestMeta ?web r ?host ?host ?im) c ?claim now sid eid
        (ts\<lparr>ts_peers := ?peers, ts_geo := geo\<rparr>) = (ans, ts')"
      using assms conjunct1 [OF True] conjunct2 [OF True] unfolding handleTrap_def Let_def by (simp only: c if_False not_True_eq_False prod.case)
    show thesis by (rule served [OF _ refl _ eq]) (simp_all add: extractRequestMeta_def Let_def)
  qed
qed

lemma GetSession_id: "keyed s \<Longrightarrow> GetSession i s = Some ss \<Longrightarrow> ss_id ss = i"
  by (simp add: keyed_def GetSession_def)

lemma serve_stored:
  assumes "handleTrap env cfg (Some True) writable slot r now sid eid ts = (ans, ts')"
    and "keyed (ts_store ts)" "length (es_sessions (ts_store ts)) < 10000" "wa_cookie ans = Some i"
  shows "\<exists>ss. GetSession i (ts_store ts') = Some ss"
  using assms(1)
proof (cases rule: handle_cases)
  case (served m c claim ts1)
  show ?thesis
    by (rule serve_effect [OF served(4)]) (use assms(2-4) in \<open>auto simp: served(1) stored_def\<close>)
qed (use assms(4) in simp)

text \<open>C10: Every request is logged once: with the log open a handled request is either refused or answered as a
  proved integration check, which leaves events and sessions alone, or adds exactly one event to the
  log, for the session of the cookie it sets, with the time, the path, the status and the size of the
  answer and the scores with which that session is stored; every other session stays but for its
  scores.
\<close>

theorem request_logged:
  assumes "handleTrap env cfg (Some True) writable slot r now sid eid ts = (ans, ts')"
    and "keyed (ts_store ts)" "length (es_sessions (ts_store ts)) < 10000"
  shows "case wa_cookie ans of
      None \<Rightarrow> ts_store ts' = ts_store ts
    | Some i \<Rightarrow> \<exists>e ss. es_file (ts_store ts') = es_file (ts_store ts) @ [Some (json_event (te_store env) e)] \<and> GetSession i (ts_store ts') = Some ss
        \<and> ev_session e = i \<and> ev_at e = now \<and> ev_path e = hr_path r \<and> ev_status e = wa_status ans \<and> ev_bytes e = wa_bytes ans
        \<and> ev_scoring e = ss_scoring ss \<and> ss_last_seen ss = now
        \<and> (\<forall>j u. j \<noteq> i \<longrightarrow> GetSession j (ts_store ts') = Some u \<longrightarrow> (\<exists>v. GetSession j (ts_store ts) = Some v \<and> same_but_scores v u))"
  using assms(1)
proof (cases rule: handle_cases)
  case (served m c claim ts1)
  show ?thesis
  proof (rule serve_effect [OF served(4)])
    show "keyed (ts_store ts1)" "length (es_sessions (ts_store ts1)) < 10000" using assms(2,3) by (simp_all add: served(1))
    fix ss0 ss :: webSession and trusted so trust and a :: assessment and sweep :: hostSweep and x :: "int \<times> int \<times> string" and d cat
    assume ans: "answer_request env cfg r claim (rm_target m) trusted (body_sample r) now (judge_session env cfg r c trust so a sweep now ss0)
        (ts_pages ts1) = (x, ss, d)"
      and st: "stored (te_store env) ss (event_of env r m (body_sample r) cat eid x now ss) (ts_store ts1) (ts_store ts')"
      and reply: "ans = \<lparr>wa_status = fst x, wa_bytes = fst (snd x), wa_label = snd (snd x), wa_cookie = Some (ss_id ss)\<rparr>"
    have "ss_last_seen ss = now" using answer_keeps [OF ans] by simp
    then show ?thesis
      using st unfolding stored_def served(1) reply
      by (auto intro!: exI [of _ "event_of env r m (body_sample r) cat eid x now ss"])
  qed
qed simp

lemma addJourney_scoring [simp]: "ss_scoring (addJourney at path label ss) = ss_scoring ss"
  by (simp add: addJourney_def)

lemma was_hostile_bot [simp]: "was_hostile inbox (ss\<lparr>ss_bot := v\<rparr>) = was_hostile inbox ss"
  by (simp add: was_hostile_def)

lemma judge_hostile:
  assumes "was_hostile (isActivityPubInboxRequest (we_lower (te_web env)) r) ss0"
  shows "sc_class (ss_scoring (judge_session env cfg r c trust so a sweep now ss0)) = ''hostile''
    \<and> tc_hostile cfg \<le> sc_risk (ss_scoring (judge_session env cfg r c trust so a sweep now ss0))"
  using assms by (simp add: judge_session_def count_request_def target_session_def score_session_def Let_def split: prod.split)

lemma hostile_answer:
  assumes ans: "answer_request env cfg r claim target trusted body now (judge_session env cfg r c trust so a sweep now ss0) d = (x, ss, d')"
    and inbox: "\<not> isActivityPubInboxRequest (we_lower (te_web env)) r"
    and hostile: "was_hostile (isActivityPubInboxRequest (we_lower (te_web env)) r) ss0"
  shows "if hr_path r = integrationCheckPath \<and> claim \<noteq> [] then sc_class (ss_scoring ss) = ''suspicious''
    else sc_class (ss_scoring ss) = ''hostile'' \<and> tc_hostile cfg \<le> sc_risk (ss_scoring ss)"
proof -
  define j where "j = judge_session env cfg r c trust so a sweep now ss0"
  have j: "sc_class (ss_scoring j) = ''hostile''" "tc_hostile cfg \<le> sc_risk (ss_scoring j)" using judge_hostile [OF hostile] by (simp_all add: j_def)
  show ?thesis using ans [folded j_def] inbox j
    by (auto simp: answer_request_def check_answer_def sweep_answer_def deception_answer_def benign_answer_def Let_def
        split: if_splits prod.splits)
qed

text \<open>C6: What was hostile stays hostile: a session that was classed hostile, or had come two levels deep, is
  stored as hostile again after any request that is not a delivery to a federation inbox, with a risk
  of at least the threshold. The one exception is a failed integration check, which makes it merely
  suspicious.
\<close>

theorem hostile_sticky:
  assumes "handleTrap env cfg (Some True) writable slot r now sid eid ts = (ans, ts')"
    and "keyed (ts_store ts)" "length (es_sessions (ts_store ts)) < 10000"
    and "wa_cookie ans = Some i" "GetSession i (ts_store ts) = Some old"
    and "sc_class (ss_scoring old) = ''hostile'' \<or> 2 \<le> sc_depth (ss_scoring old)"
    and "\<not> isActivityPubInboxRequest (we_lower (te_web env)) r"
    and "GetSession sid (ts_store ts) = None"
  shows "\<exists>ss. GetSession i (ts_store ts') = Some ss
    \<and> (if hr_path r = integrationCheckPath \<and> cleanIntegrationName (te_web env) (Header r ''X-ZentLoop-Integration'') \<noteq> []
       then sc_class (ss_scoring ss) = ''suspicious''
       else sc_class (ss_scoring ss) = ''hostile'' \<and> tc_hostile cfg \<le> sc_risk (ss_scoring ss))"
  using assms(1)
proof (cases rule: handle_cases)
  case idle
  then show ?thesis using assms(4) by simp
next
  case (served m c claim ts1)
  show ?thesis
  proof (rule serve_effect [OF served(4)])
    show k: "keyed (ts_store ts1)" and "length (es_sessions (ts_store ts1)) < 10000" using assms(2,3) by (simp_all add: served(1))
    fix ss0 ss :: webSession and trusted so trust and a :: assessment and sweep :: hostSweep and x :: "int \<times> int \<times> string" and d cat
    assume ss0: "ss0 = start_session env cfg r m c now sid (ts_store ts1)"
      and ans: "answer_request env cfg r claim (rm_target m) trusted (body_sample r) now (judge_session env cfg r c trust so a sweep now ss0)
        (ts_pages ts1) = (x, ss, d)"
      and st: "stored (te_store env) ss (event_of env r m (body_sample r) cat eid x now ss) (ts_store ts1) (ts_store ts')"
      and reply: "ans = \<lparr>wa_status = fst x, wa_bytes = fst (snd x), wa_label = snd (snd x), wa_cookie = Some (ss_id ss)\<rparr>"
    have id: "i = ss_id ss0" using assms(4) answer_keeps [OF ans] by (simp add: reply)
    have "sc_class (ss_scoring ss0) = sc_class (ss_scoring old) \<and> sc_depth (ss_scoring ss0) = sc_depth (ss_scoring old)"
    proof (cases rule: start_session_cases [OF k, of env cfg r c m now sid])
      case (1 u)
      then have "u = old" using id assms(5) by (simp add: ss0 served(1))
      then show ?thesis using 1 by (simp add: ss0 resume_session_def prepareReturnVisit_def visit_defaults_def applyClientMeta_def Let_def)
    next
      case 2
      then show ?thesis using id assms(5,8) by (simp add: ss0)
    qed
    then have "was_hostile (isActivityPubInboxRequest (we_lower (te_web env)) r) ss0" using assms(6,7) by (simp add: was_hostile_def)
    then have "if hr_path r = integrationCheckPath \<and> claim \<noteq> [] then sc_class (ss_scoring ss) = ''suspicious''
        else sc_class (ss_scoring ss) = ''hostile'' \<and> tc_hostile cfg \<le> sc_risk (ss_scoring ss)"
      using hostile_answer [OF ans] assms(7) by simp
    moreover have "GetSession i (ts_store ts') = Some ss" using st id answer_keeps [OF ans] by (simp add: stored_def)
    ultimately show ?thesis by (simp add: served(2))
  qed
qed

section \<open>Well-formed sessions\<close>

definition scores_ok :: "trapConfig \<Rightarrow> scoring \<Rightarrow> bool" where
  "scores_ok cfg sc \<longleftrightarrow> 0 \<le> sc_risk sc \<and> sc_risk sc \<le> max 100 (max (tc_hostile cfg) (tc_suspicious cfg))
     \<and> 0 \<le> sc_automation sc \<and> sc_automation sc \<le> 100
     \<and> sc_class sc \<in> {''benign'', ''suspicious'', ''hostile''} \<and> sc_actor sc \<in> {''unknown'', ''human'', ''automated''}
     \<and> sc_confidence sc \<in> {''low'', ''medium'', ''high''} \<and> (65 \<le> sc_automation sc \<longrightarrow> sc_actor sc = ''automated'')
     \<and> sc_frustration sc \<le> 10"

definition well_formed :: "trapConfig \<Rightarrow> webSession \<Rightarrow> bool" where
  "well_formed cfg ss \<longleftrightarrow> scores_ok cfg (ss_scoring ss) \<and> length (ss_recent ss) \<le> 12 \<and> length (ss_journey ss) \<le> 30"

definition assessed :: "assessment \<Rightarrow> bool" where
  "assessed a \<longleftrightarrow> 0 \<le> as_risk a \<and> as_risk a \<le> 100 \<and> 0 \<le> as_automation a \<and> as_automation a \<le> 100
     \<and> as_class a \<in> {''benign'', ''suspicious'', ''hostile''} \<and> as_actor a \<in> {''unknown'', ''human'', ''automated''}
     \<and> as_confidence a \<in> {''low'', ''medium'', ''high''}"

lemma AssessAt_assessed: "assessed (AssessAt env dev cfg r ss body now)"
proof -
  let ?a = "AssessAt env dev cfg r ss body now"
  have "as_actor ?a \<in> {''unknown'', ''human'', ''automated''}" "as_confidence ?a \<in> {''low'', ''medium'', ''high''}"
    by (simp_all add: AssessAt_def Let_def split: prod.split)
  then show ?thesis using AssessAt_ranges [of env dev cfg r ss body now] AssessAt_class [of env dev cfg r ss body now]
    by (simp add: assessed_def classOf_def)
qed

lemma stages_assessed:
  "assessed a \<Longrightarrow> assessed (boosted b a)" 
  "assessed a \<Longrightarrow> sc_automation sc \<le> 100 \<Longrightarrow> assessed (sticky_automation sc a)"
  "assessed a \<Longrightarrow> assessed (fst (relay_stage inbox (a, b)))"
  "assessed a \<Longrightarrow> assessed (fst (bot_stage v rs (a, b)))"
  "assessed a \<Longrightarrow> assessed (sweep_stage det a)"
  "assessed a \<Longrightarrow> assessed (login_stage uni r ss a)"
  "assessed a \<Longrightarrow> assessed (actor_stage a)"
  using clampInt_range [of 0 100]
  by (auto simp: assessed_def boosted_def sticky_automation_def relay_stage_def bot_stage_def sweep_stage_def login_stage_def actor_stage_def
      confidence_of_def Let_def)

lemma actor_automated: "65 \<le> as_automation (actor_stage a) \<Longrightarrow> as_actor (actor_stage a) = ''automated''"
  by (auto simp: actor_stage_def split: if_splits)

lemma assess_request_ok:
  assumes "assess_request env cfg r ss body ip host now s = (a, b, sweep)" "sc_automation (ss_scoring ss) \<le> 100"
  shows "assessed a \<and> (65 \<le> as_automation a \<longrightarrow> as_actor a = ''automated'')"
proof -
  obtain b0 v rs inbox a2 b2 det where a2: "bot_stage v rs (relay_stage inbox (sticky_automation (ss_scoring ss)
        (boosted b0 (AssessAt (te_web env) (te_dev env) cfg r ss body now)), b0)) = (a2, b2)"
    and eq: "a = actor_stage (login_stage (we_lower (te_web env)) r ss (sweep_stage det a2))"
    using assms(1) unfolding assess_request_def Let_def by (auto split: prod.splits)
  obtain a1 b1 where a1: "relay_stage inbox (sticky_automation (ss_scoring ss)
      (boosted b0 (AssessAt (te_web env) (te_dev env) cfg r ss body now)), b0) = (a1, b1)" by fastforce
  have "assessed (sticky_automation (ss_scoring ss) (boosted b0 (AssessAt (te_web env) (te_dev env) cfg r ss body now)))"
    using assms(2) by (intro stages_assessed(1,2) AssessAt_assessed)
  then have "assessed a1" using stages_assessed(3) a1 by (metis fst_conv)
  then have "assessed a2" using stages_assessed(4) a2 unfolding a1 by (metis fst_conv)
  then show ?thesis unfolding eq using actor_automated by (blast intro: stages_assessed(5-7))
qed

lemma judge_scoring:
  "\<exists>avg var. ss_scoring (judge_session env cfg r c trust so a sweep now ss) = (ss_scoring ss)\<lparr>
      sc_risk := (if was_hostile (isActivityPubInboxRequest (we_lower (te_web env)) r) ss then max (as_risk a) (tc_hostile cfg) else as_risk a),
      sc_automation := as_automation a,
      sc_class := (if was_hostile (isActivityPubInboxRequest (we_lower (te_web env)) r) ss then ''hostile'' else as_class a),
      sc_actor := as_actor a, sc_confidence := as_confidence a, sc_avg := avg, sc_var := var,
      sc_persona := newer (as_persona a) (sc_persona (ss_scoring ss))\<rparr>"
proof (cases "calcIntervals (push_last 12 now (ss_recent ss))")
  case (Pair avg var)
  then show ?thesis
    by (intro exI [of _ avg] exI [of _ var]) (simp add: judge_session_def count_request_def target_session_def score_session_def Let_def)
qed

lemma scores_ok_judged:
  assumes "assessed a" "65 \<le> as_automation a \<longrightarrow> as_actor a = ''automated''" "scores_ok cfg sc"
  shows "scores_ok cfg (sc\<lparr>sc_risk := (if h then max (as_risk a) (tc_hostile cfg) else as_risk a), sc_automation := as_automation a,
      sc_class := (if h then ''hostile'' else as_class a), sc_actor := as_actor a, sc_confidence := as_confidence a,
      sc_avg := avg, sc_var := var, sc_persona := p\<rparr>)"
proof -
  have "sc_frustration sc \<le> 10" using assms(3) by (simp add: scores_ok_def)
  moreover note assms(1) [unfolded assessed_def] assms(2)
  moreover have "0 \<le> max (as_risk a) (tc_hostile cfg)" "as_risk a \<le> max 100 (max (tc_hostile cfg) (tc_suspicious cfg))"
    "max (as_risk a) (tc_hostile cfg) \<le> max 100 (max (tc_hostile cfg) (tc_suspicious cfg))"
    using assms(1) by (auto simp: assessed_def)
  ultimately show ?thesis unfolding scores_ok_def by (cases h) simp_all
qed

lemma judge_well_formed:
  assumes "assessed a" "65 \<le> as_automation a \<longrightarrow> as_actor a = ''automated''" "well_formed cfg ss"
  shows "well_formed cfg (judge_session env cfg r c trust so a sweep now ss)"
proof -
  have "scores_ok cfg (ss_scoring (judge_session env cfg r c trust so a sweep now ss))"
    using judge_scoring [of env cfg r c trust so a sweep now ss] assms(3) scores_ok_judged [OF assms(1,2)]
    by (elim exE) (simp only: well_formed_def)
  then show ?thesis using assms(3) push_last_length [of 12 now "ss_recent ss"] by (simp add: well_formed_def)
qed

lemma journey_length: "length (ss_journey ss) \<le> 30 \<Longrightarrow> length (ss_journey (addJourney at path label ss)) \<le> 30"
  by (simp add: addJourney_def push_last_length)

lemma addJourney_recent [simp]: "ss_recent (addJourney at path label ss) = ss_recent ss"
  by (simp add: addJourney_def)

lemma well_formed_status [simp]:
  "well_formed cfg (ss\<lparr>ss_last_status := n\<rparr>) = well_formed cfg ss"
  "well_formed cfg (ss\<lparr>ss_logins := k, ss_story := t\<rparr>) = well_formed cfg ss"
  by (simp_all add: well_formed_def)

lemma addJourney_well_formed: "well_formed cfg ss \<Longrightarrow> well_formed cfg (addJourney at path label ss)"
  by (simp add: well_formed_def journey_length)

lemma well_formed_scores:
  "well_formed cfg ss \<Longrightarrow> scores_ok cfg sc \<Longrightarrow> well_formed cfg (ss\<lparr>ss_scoring := sc\<rparr>)"
  "well_formed cfg ss \<Longrightarrow> scores_ok cfg sc \<Longrightarrow> well_formed cfg (ss\<lparr>ss_last_status := n, ss_scoring := sc\<rparr>)"
  "well_formed cfg ss \<Longrightarrow> scores_ok cfg sc \<Longrightarrow> well_formed cfg (ss\<lparr>ss_logins := k, ss_story := t, ss_scoring := sc, ss_last_status := n\<rparr>)"
  by (simp_all add: well_formed_def)

lemma scores_ok_depth [simp]: "scores_ok cfg (sc\<lparr>sc_depth := k\<rparr>) = scores_ok cfg sc"
  by (simp add: scores_ok_def)

lemma scores_ok_loop: "scores_ok cfg sc \<Longrightarrow> f \<le> 10 \<Longrightarrow> scores_ok cfg (sc\<lparr>sc_loop := k, sc_frustration := f\<rparr>)"
  by (simp add: scores_ok_def)

lemma scores_ok_suspicious:
  "scores_ok cfg sc \<Longrightarrow> scores_ok cfg (sc\<lparr>sc_class := ''suspicious'', sc_risk := max (sc_risk sc) (tc_suspicious cfg)\<rparr>)"
  by (auto simp: scores_ok_def max_def)

lemma answers_well_formed:
  assumes "well_formed cfg ss"
  shows "well_formed cfg (snd (check_answer cfg r claim ss))" "well_formed cfg (snd (sweep_answer uni r target now ss))"
    "well_formed cfg (snd (deception_answer r now resp ss))" "well_formed cfg (snd (benign_answer env r ss))"
proof -
  have sc: "scores_ok cfg (ss_scoring ss)" using assms by (simp add: well_formed_def)
  show "well_formed cfg (snd (check_answer cfg r claim ss))"
    using assms sc by (simp add: check_answer_def Let_def well_formed_scores scores_ok_suspicious)
  show "well_formed cfg (snd (sweep_answer uni r target now ss))"
    using assms sc by (simp add: sweep_answer_def Let_def addJourney_well_formed well_formed_scores)
  show "well_formed cfg (snd (benign_answer env r ss))"
    using assms by (simp add: benign_answer_def Let_def split: prod.split)
  have "well_formed cfg (ss\<lparr>ss_logins := k, ss_story := t, ss_scoring := s2, ss_last_status := n\<rparr>)"
    if "scores_ok cfg s2" for k t s2 n using that assms by (rule well_formed_scores(3) [rotated])
  then show "well_formed cfg (snd (deception_answer r now resp ss))"
    using sc by (simp add: deception_answer_def Let_def addJourney_well_formed scores_ok_loop)
qed

lemma answer_well_formed:
  assumes "answer_request env cfg r claim target trusted body now ss d = (x, ss', d')" "well_formed cfg ss"
  shows "well_formed cfg ss'"
proof -
  have "fst (snd (answer_request env cfg r claim target trusted body now ss d)) = ss'" using assms(1) by simp
  moreover have "well_formed cfg (fst (snd (answer_request env cfg r claim target trusted body now ss d)))"
    using assms(2) by (simp add: answers_well_formed [OF assms(2)] answer_request_def Let_def split_beta)
  ultimately show ?thesis by simp
qed

definition all_sessions :: "(webSession \<Rightarrow> bool) \<Rightarrow> 'a eventStore \<Rightarrow> bool" where
  "all_sessions P s \<longleftrightarrow> (\<forall>(i, ss) \<in> set (es_sessions s). P ss)"

lemma all_sessions_get: "all_sessions P s \<Longrightarrow> GetSession i s = Some ss \<Longrightarrow> P ss"
  by (auto simp: all_sessions_def GetSession_def dest: map_of_SomeD)

lemma all_sessions_upsert: "all_sessions P s \<Longrightarrow> P ss \<Longrightarrow> all_sessions P (UpsertSession env ss fp s)"
proof -
  assume "all_sessions P s" "P ss"
  then have "\<forall>(k, row) \<in> set (AList.update (ss_id ss) ss (es_sessions s)). P row" unfolding all_sessions_def by (intro update_Ball)
  then show ?thesis by (simp add: all_sessions_def UpsertSession_def pruneSessions_def Let_def)
qed

lemma all_sessions_event: "all_sessions P s \<Longrightarrow> all_sessions P (fst (AddEvent env log e s))"
  unfolding AddEvent_state by (simp add: all_sessions_def publishRealtime_def)

lemma promoted_well_formed: "well_formed cfg ss \<Longrightarrow> 65 \<le> k \<Longrightarrow> k \<le> 100 \<Longrightarrow> well_formed cfg (promoted k ss)"
  by (auto simp: well_formed_def scores_ok_def promoted_def Let_def)

lemma mark_well_formed:
  assumes "all_sessions (well_formed cfg) s"
  shows "all_sessions (well_formed cfg) (mark_actor env ip so a b s)"
proof -
  obtain f where f: "es_sessions (mark_actor env ip so a b s) = map (\<lambda>(i, ss). (i, f ss)) (es_sessions s)"
    "\<And>ss. f ss = ss \<or> f ss = promoted (min 100 (max 65 (as_automation a))) ss"
    using mark_actor_sessions [of env ip so a b s] by blast
  have "well_formed cfg (f ss)" if "well_formed cfg ss" for ss using f(2) [of ss] promoted_well_formed [OF that] that by auto
  then show ?thesis using assms by (auto simp: all_sessions_def f(1))
qed

lemma start_well_formed:
  assumes "all_sessions (well_formed cfg) s"
  shows "well_formed cfg (start_session env cfg r m c now sid s)"
proof -
  have meta: "well_formed cfg (applyRequestMeta m ss)" if "well_formed cfg ss" for ss using that by (simp add: well_formed_def)
  have resume: "well_formed cfg (resume_session cfg r c now ss)" if "well_formed cfg ss" for ss
    using that by (simp add: well_formed_def scores_ok_def resume_session_def prepareReturnVisit_def visit_defaults_def applyClientMeta_def Let_def)
  have new: "well_formed cfg (new_session r c target now sid)" for target by (simp add: well_formed_def scores_ok_def new_session_def)
  have known: "well_formed cfg ss" if "known_session uni cfg r fp target now s = Some ss" for uni fp target ss
    using that all_sessions_get [OF assms]
    by (auto simp: known_session_def cookie_session_def GetSessionByFingerprint_def split: option.splits if_splits)
  show ?thesis unfolding start_session_def sessionFor_def refresh_session_def
    using known all_sessions_get [OF assms] by (intro meta) (auto intro!: resume new split: option.splits)
qed

lemma serve_well_formed:
  fixes ts :: "('a, 'd) trapState"
  assumes "serve env cfg log r m c claim now sid eid ts = (ans, ts')" "all_sessions (well_formed cfg) (ts_store ts)"
  shows "all_sessions (well_formed cfg) (ts_store ts')"
proof (rule serve_cases [OF assms(1)])
  fix s0 s1 :: "'a eventStore" and ss0 ss :: webSession and a :: assessment and b :: httpBehavior and sweep :: hostSweep
    and x :: "int \<times> int \<times> string" and d :: 'd
  let ?s = "ts_store ts"
  let ?trust = "trustedHost (en_lower (te_store env)) (en_parse_ip (te_store env)) (es_domains ?s) (rm_target m)"
  let ?so = "selfOriginRequest (te_web env) c (rm_target m) (?trust \<noteq> None)"
  assume ss0: "ss0 = start_session env cfg r m c now sid ?s"
    and s0: "s0 = ?s\<lparr>es_actors := te_intel env (cm_ip c) (ss_id ss0) (hr_query r) (body_sample r) (es_actors ?s)\<rparr>"
    and assess: "assess_request env cfg r ss0 (body_sample r) (cm_ip c) (rm_host m) now s0 = (a, b, sweep)"
    and s1: "s1 = mark_actor env (cm_ip c) ?so a b s0"
    and ans: "answer_request env cfg r claim (rm_target m) (?trust \<noteq> None) (body_sample r) now
       (judge_session env cfg r c ?trust ?so a sweep now ss0) (ts_pages ts) = (x, ss, d)"
    and ts': "ts' = ts\<lparr>ts_store := fst (AddEvent (te_store env) log (event_of env r m (body_sample r) (as_category a) eid x now ss)
       (UpsertSession (te_store env) ss (request_fingerprint r c (rm_target m)) s1)), ts_pages := d\<rparr>"
  have w0: "well_formed cfg ss0" unfolding ss0 by (rule start_well_formed [OF assms(2)])
  then have "sc_automation (ss_scoring ss0) \<le> 100" by (simp add: well_formed_def scores_ok_def)
  note a = assess_request_ok [OF assess this]
  have "well_formed cfg ss" using a by (intro answer_well_formed [OF ans] judge_well_formed w0) simp_all
  moreover have "all_sessions (well_formed cfg) s1"
    unfolding s1 using assms(2) by (intro mark_well_formed) (simp add: s0 all_sessions_def)
  ultimately show ?thesis unfolding ts' store_updated by (intro all_sessions_event all_sessions_upsert)
qed

text \<open>C13: Sessions are always well formed: after any requests to a new trap every session has scores between 0
  and 100 (the risk no higher than 100 or a configured threshold), a class, an actor and a confidence
  that exist, no automated score without the automated actor, at most twelve recent times, thirty steps
  of its journey and a frustration of ten.
\<close>

theorem sessions_well_formed:
  assumes "ts = trap_run env cfg xs (new_trap actors domains peers geo pages)" "GetSession i (ts_store ts) = Some ss"
  shows "well_formed cfg ss"
proof -
  have "all_sessions (well_formed cfg) (ts_store (trap_step env cfg x ts))" if "all_sessions (well_formed cfg) (ts_store ts)" for x ts
  proof (cases rule: step_cases [of env cfg x ts])
    case (served m c claim ts1)
    obtain ans where "serve env cfg (Some True) (ar_request x) m c claim (ar_now x) (ar_session x) (ar_event x) ts1 = (ans, trap_step env cfg x ts)"
      using served(3) by (metis prod.collapse)
    then show ?thesis by (rule serve_well_formed) (simp add: served(1) that)
  qed (simp add: that)
  then have "all_sessions (well_formed cfg) (ts_store ts) \<Longrightarrow> all_sessions (well_formed cfg) (ts_store (trap_run env cfg xs ts))" for ts
    unfolding trap_run_def by (induction xs arbitrary: ts) simp_all
  moreover have "all_sessions (well_formed cfg) (ts_store (new_trap actors domains peers geo pages))"
    by (simp add: all_sessions_def new_trap_def empty_store_def)
  ultimately show ?thesis using all_sessions_get assms by blast
qed

section \<open>Witnesses\<close>

definition trap_env :: "(unit, unit, string, string) trapEnv" where
  "trap_env =
     \<lparr>te_web = web_env, te_store = plain_env, te_bots = text_env, te_registry = old_registry, te_fold = (\<lambda>s. s), te_dev = (\<lambda>_. 0),
      te_build = (\<lambda>r ss body d. (\<lparr>dr_status = 200, dr_body = ''login'', dr_label = ''page'', dr_depth = 1, dr_loop = 0, dr_logins = 0,
        dr_story = ss_story ss\<rparr>, d)), te_files = None, te_graphql = (\<lambda>_ _ _. no_graphql), te_intel = (\<lambda>_ _ _ _ a. a),
      te_promote = (\<lambda>_ a. a), te_mark = (\<lambda>_ _ a. a)\<rparr>"

definition first_trap :: "(unit, unit) trapState" where
  "first_trap = new_trap () \<lparr>ds_manual = [], ds_file = None\<rparr> \<lparr>pt_peers = [], pt_persist = [], pt_file = None\<rparr> \<lparr>ge_db = [], ge_cache = []\<rparr> ()"

definition visit_of :: "string \<Rightarrow> gotime \<Rightarrow> string \<Rightarrow> arrival" where
  "visit_of path now sid =
     \<lparr>ar_request = web_request\<lparr>hr_path := path\<rparr>, ar_now = now, ar_session = sid, ar_event = ''e'', ar_slot = True, ar_writable = True\<rparr>"

lemma first_run:
  "trap_run trap_env cfg xs first_trap = trap_run trap_env cfg xs (new_trap () \<lparr>ds_manual = [], ds_file = None\<rparr>
     \<lparr>pt_peers = [], pt_persist = [], pt_file = None\<rparr> \<lparr>ge_db = [], ge_cache = []\<rparr> ())"
  by (simp add: first_trap_def)

lemma trap_env_store: "te_store trap_env = plain_env"
  by (simp add: trap_env_def)


lemma first_trap_keyed: "keyed (ts_store first_trap)" "es_sessions (ts_store first_trap) = []"
  by (simp_all add: first_trap_def new_trap_def empty_store_def keyed_def)

lemma handle_served:
  assumes "handleTrap env cfg log writable True r now sid eid ts = (ans, ts')" "hr_path r \<noteq> integrationCheckPath"
  shows "wa_cookie ans \<noteq> None"
  using assms by (auto simp: handleTrap_def serve_def Let_def split: prod.splits)

lemma request_logged_witness:
  "\<exists>i e. wa_cookie (fst (handleTrap trap_env web_config (Some True) True True (web_request\<lparr>hr_path := ''/''\<rparr>) 5 ''s1'' ''e'' first_trap)) = Some i
     \<and> es_file (ts_store (snd (handleTrap trap_env web_config (Some True) True True (web_request\<lparr>hr_path := ''/''\<rparr>) 5 ''s1'' ''e'' first_trap)))
       = es_file (ts_store first_trap) @ [Some (json_event plain_env e)] \<and> ev_session e = i"
proof -
  obtain ans ts' where h: "handleTrap trap_env web_config (Some True) True True (web_request\<lparr>hr_path := ''/''\<rparr>) 5 ''s1'' ''e'' first_trap = (ans, ts')"
    by fastforce
  have "wa_cookie ans \<noteq> None" by (rule handle_served [OF h]) (simp add: integrationCheckPath_def)
  then show ?thesis using request_logged [OF h first_trap_keyed(1)] by (auto simp: first_trap_keyed(2) h trap_env_store)
qed

lemma sessions_well_formed_witness:
  "\<exists>i ss. GetSession i (ts_store (trap_run trap_env web_config [visit_of ''/'' 5 ''s1''] first_trap)) = Some ss \<and> well_formed web_config ss"
proof -
  let ?x = "visit_of ''/'' 5 ''s1''"
  obtain ans ts' where h: "handleTrap trap_env web_config (Some True) True True (web_request\<lparr>hr_path := ''/''\<rparr>) 5 ''s1'' ''e'' first_trap = (ans, ts')"
    by fastforce
  have run: "trap_run trap_env web_config [?x] first_trap = ts'" by (simp add: trap_run_def trap_step_def visit_of_def h)
  obtain i where "wa_cookie ans = Some i" using handle_served [OF h] by (auto simp: integrationCheckPath_def)
  moreover have "length (es_sessions (ts_store first_trap)) < 10000" by (simp add: first_trap_keyed)
  ultimately obtain ss where ss: "GetSession i (ts_store ts') = Some ss" 
    using serve_stored [OF h first_trap_keyed(1)] by blast
  then show ?thesis
    using sessions_well_formed [OF first_run [of web_config "[?x]"], of i ss] unfolding run by blast
qed

definition hostile_session :: webSession where
  "hostile_session = (fresh_session (plain_event ''s'' 1 ''/''))\<lparr>ss_last_seen := 4,
     ss_scoring := (ss_scoring (fresh_session (plain_event ''s'' 1 ''/'')))\<lparr>sc_class := ''hostile''\<rparr>\<rparr>"

definition hostile_trap :: "(unit, unit) trapState" where
  "hostile_trap = first_trap\<lparr>ts_store := (ts_store first_trap)\<lparr>es_sessions := [(''s'', hostile_session)]\<rparr>\<rparr>"

definition cookie_request :: httpRequest where
  "cookie_request = web_request\<lparr>hr_path := ''/x'', hr_cookie := Some ''s''\<rparr>"

lemma cookie_resumes:
  assumes "handleTrap env cfg (Some True) writable True r now sid eid ts = (ans, ts')" "keyed (ts_store ts)"
    "length (es_sessions (ts_store ts)) < 10000" "hr_path r \<noteq> integrationCheckPath"
    and "hr_cookie r = Some v" "GetSession v (ts_store ts) = Some ss" "so_target (ss_origin ss) = []"
    "time_sub now (ss_last_seen ss) \<le> wrap64 (effectiveResumeHours cfg * hour)"
  shows "wa_cookie ans = Some v"
  using assms(1)
proof (cases rule: handle_cases)
  case idle
  then show ?thesis using handle_served [OF assms(1,4)] by simp
next
  case (served m c claim ts1)
  show ?thesis
  proof (rule serve_effect [OF served(4)])
    show k: "keyed (ts_store ts1)" and "length (es_sessions (ts_store ts1)) < 10000" using assms(2,3) by (simp_all add: served(1))
    fix ss0 u :: webSession and trusted so trust and a :: assessment and sweep :: hostSweep and x :: "int \<times> int \<times> string" and d
    assume ss0: "ss0 = start_session env cfg r m c now sid (ts_store ts1)"
      and ans: "answer_request env cfg r claim (rm_target m) trusted (body_sample r) now (judge_session env cfg r c trust so a sweep now ss0)
        (ts_pages ts1) = (x, u, d)"
      and reply: "ans = \<lparr>wa_status = fst x, wa_bytes = fst (snd x), wa_label = snd (snd x), wa_cookie = Some (ss_id u)\<rparr>"
    have "known_session (te_fold env) cfg r (request_fingerprint r c (rm_target m)) (rm_target m) now (ts_store ts1) = Some ss"
      using assms(5-8) by (simp add: known_session_def cookie_session_def served(1))
    then have "ss_id ss0 = ss_id ss"
      by (cases rule: start_session_cases [OF k, of env cfg r c m now sid]) (simp_all add: ss0)
    then show ?thesis using GetSession_id [OF assms(2,6)] answer_keeps [OF ans] by (simp add: reply)
  qed
qed

lemma hostile_sticky_witness:
  "\<exists>ss. GetSession ''s'' (ts_store (snd (handleTrap trap_env web_config (Some True) True True cookie_request 5 ''t'' ''e'' hostile_trap))) = Some ss
     \<and> sc_class (ss_scoring ss) = ''hostile''"
proof -
  obtain ans ts' where h: "handleTrap trap_env web_config (Some True) True True cookie_request 5 ''t'' ''e'' hostile_trap = (ans, ts')" by fastforce
  have k: "keyed (ts_store hostile_trap)" "es_sessions (ts_store hostile_trap) = [(''s'', hostile_session)]"
    by (simp_all add: hostile_trap_def keyed_def hostile_session_def plain_event_def map_wf_def)
  have g: "GetSession ''s'' (ts_store hostile_trap) = Some hostile_session" "GetSession ''t'' (ts_store hostile_trap) = None"
    by (simp_all add: GetSession_def k)
  have p: "hr_path cookie_request \<noteq> integrationCheckPath" "hr_cookie cookie_request = Some ''s''" "hr_method cookie_request = ''GET''"
    by (simp_all add: cookie_request_def web_request_def integrationCheckPath_def)
  have "time_sub 5 (ss_last_seen hostile_session) \<le> wrap64 (effectiveResumeHours web_config * hour)" by code_simp
  then have c: "wa_cookie ans = Some ''s''"
    by (intro cookie_resumes [OF h k(1) _ p(1,2) g(1)]) (simp_all add: k(2) hostile_session_def fresh_session_def)
  have "\<exists>ss. GetSession ''s'' (ts_store ts') = Some ss \<and> (if hr_path cookie_request = integrationCheckPath
      \<and> cleanIntegrationName (te_web trap_env) (Header cookie_request ''X-ZentLoop-Integration'') \<noteq> []
      then sc_class (ss_scoring ss) = ''suspicious''
      else sc_class (ss_scoring ss) = ''hostile'' \<and> tc_hostile web_config \<le> sc_risk (ss_scoring ss))"
    by (rule hostile_sticky [OF h k(1) _ c g(1) _ _ g(2)]) (simp_all add: k(2) hostile_session_def isActivityPubInboxRequest_def p(3))
  then show ?thesis using p(1) by (auto simp: h)
qed

end
