(* ===== verification/GoTime.thy ===== *)
theory GoTime
  imports GoPath
begin

text \<open>
  The part of the \<open>time\<close> package that writes an instant as text: the civil date of a day (proleptic
  Gregorian calendar, instants counted in nanoseconds from the first of January of the year 1 UTC) and
  the layout \<open>RFC3339Nano\<close>, for the years 0 to 9999.
\<close>

definition day_ns :: int where "day_ns = 24 * hour"

text \<open>Years of 400, of 100, of 4 and of 1, counted from the first of March of the year 0.\<close>

definition march_year :: "int \<Rightarrow> int" where
  "march_year doe = (doe - doe div 1460 + doe div 36524 - doe div 146096) div 365"

definition civil :: "int \<Rightarrow> int \<times> int \<times> int" where
  "civil day =
     (let z = day + 306; era = z div 146097; doe = z mod 146097; yoe = march_year doe;
          doy = doe - (365 * yoe + yoe div 4 - yoe div 100); mp = (5 * doy + 2) div 153;
          d = doy - (153 * mp + 2) div 5 + 1; m = (if mp < 10 then mp + 3 else mp - 9)
      in (yoe + era * 400 + (if m \<le> 2 then 1 else 0), m, d))"

definition zero_pad :: "nat \<Rightarrow> int \<Rightarrow> string" where
  "zero_pad w n = (let s = Itoa n in replicate (w - length s) (CHR ''0'') @ s)"

text \<open>The fraction of the second without its trailing zeros; nothing for a whole second.\<close>

definition fraction :: "int \<Rightarrow> string" where
  "fraction ns = (let digits = dropWhileEnd (\<lambda>c. c = CHR ''0'') (zero_pad 9 ns) in if digits = [] then [] else CHR ''.'' # digits)"

definition RFC3339Nano :: "gotime \<Rightarrow> string" where
  "RFC3339Nano t =
     (case civil (t div day_ns) of (y, m, d) \<Rightarrow>
        let s = t mod day_ns in
        zero_pad 4 y @ ''-'' @ zero_pad 2 m @ ''-'' @ zero_pad 2 d @ ''T''
        @ zero_pad 2 (s div hour) @ '':'' @ zero_pad 2 (s mod hour div minute) @ '':'' @ zero_pad 2 (s mod minute div second)
        @ fraction (s mod second) @ ''Z'')"

end
