(* ===== verification/ActorProfiles.thy ===== *)
theory ActorProfiles
  imports WebBehavior GoNumbers GoTime
begin

text \<open>
  The actor profiles (\<open>internal/store/actors.go\<close>): one profile per address, with its protocols,
  its fingerprints, the ranking of its behaviours, its active time and its timeline. This theory holds the
  state, the steps that both protocols share, the steps of a web event, the intelligence signals and the
  pages that read profiles; the steps of an SSH event are in \<open>SshActors\<close>. A step on a profile and on the
  counters of all fingerprints has type \<open>marked \<Rightarrow> marked\<close>.
\<close>

section \<open>State\<close>

record wallClock =
  wc_total :: int
  wc_active :: int
  wc_end :: gotime

record sshFigures =
  sf_median :: int
  sf_jitter :: int
  sf_accepted :: int
  sf_rejected :: int
  sf_users :: nat
  sf_concurrent :: nat
  sf_per_minute :: nat

record actorProfile =
  ap_id :: string
  ap_ip :: string
  ap_country :: string
  ap_first :: gotime
  ap_last :: gotime
  ap_requests :: int
  ap_self_requests :: int
  ap_connections :: int
  ap_commands :: int
  ap_protocols :: "string list"
  ap_risk :: int
  ap_depth :: int
  ap_class :: string
  ap_actor :: string
  ap_engagement :: int
  ap_canaries :: int
  ap_payloads :: int
  ap_fingerprints :: "string list"
  ap_behavior :: "(string \<times> int) list"
  ap_ssh :: sshFigures
  ap_http_wall :: wallClock
  ap_ssh_wall :: wallClock

record actorActivity =
  aa_at :: gotime
  aa_protocol :: string
  aa_kind :: string
  aa_session :: string
  aa_summary :: string
  aa_path :: string
  aa_command :: string
  aa_family :: string
  aa_risk :: int
  aa_depth :: int
  aa_canary :: string
  aa_fingerprint :: string

record sighting =
  sg_ip :: string
  sg_target :: string
  sg_agent :: string
  sg_at :: gotime

record intelSignal =
  is_id :: string
  is_at :: gotime
  is_actor :: string
  is_ip :: string
  is_protocol :: string
  is_session :: string
  is_kind :: string
  is_tool :: string
  is_technique :: string
  is_url :: string
  is_host :: string
  is_filename :: string
  is_canary :: string
  is_summary :: string

text \<open>The maps of the store that the profiles use. A set of names is the list of its elements.\<close>

record actorStore =
  ax_actors :: "(string, actorProfile) gomap"
  ax_timeline :: "(string, actorActivity list) gomap"
  ax_session_last :: "(string, gotime) gomap"
  ax_engagement :: "(string, int) gomap"
  ax_fingerprints :: "(string, int) gomap"
  ax_users :: "(string, string list) gomap"
  ax_last_command :: "(string, string) gomap"
  ax_last_command_at :: "(string, gotime) gomap"
  ax_claims :: "(string, string list) gomap"
  ax_agents :: "(string, (string, gotime) gomap) gomap"
  ax_sequences :: "(string, string list) gomap"
  ax_sightings :: "(string, sighting list) gomap"
  ax_intel :: "intelSignal list"
  ax_intel_file :: "intelSignal option list"

definition empty_actors :: "intelSignal option list \<Rightarrow> actorStore" where
  "empty_actors log =
     \<lparr>ax_actors = [], ax_timeline = [], ax_session_last = [], ax_engagement = [], ax_fingerprints = [], ax_users = [],
      ax_last_command = [], ax_last_command_at = [], ax_claims = [], ax_agents = [], ax_sequences = [], ax_sightings = [],
      ax_intel = [], ax_intel_file = log\<rparr>"

text \<open>The digest of SHA-256 and the case of letters past ASCII.\<close>

record actorEnv =
  ae_sha :: "string \<Rightarrow> string"
  ae_lower :: "string \<Rightarrow> string"
  ae_upper :: "string \<Rightarrow> string"

type_synonym marked = "actorProfile \<times> (string, int) gomap"

definition maxActorTimeline :: nat where "maxActorTimeline = 240"
definition maxIntelRing :: nat where "maxIntelRing = 3000"
definition maxActorBehaviorSummary :: nat where "maxActorBehaviorSummary = 24"

section \<open>Shared steps\<close>

definition actorID :: "(string \<Rightarrow> string) \<Rightarrow> string \<Rightarrow> string" where
  "actorID sha ip = ''actor-'' @ hex_encode (take 6 (sha (TrimSpace ip)))"

definition new_clock :: wallClock where
  "new_clock = \<lparr>wc_total = 0, wc_active = 0, wc_end = 0\<rparr>"

definition new_actor :: "string \<Rightarrow> string \<Rightarrow> string \<Rightarrow> gotime \<Rightarrow> actorProfile" where
  "new_actor i ip country at =
     \<lparr>ap_id = i, ap_ip = ip, ap_country = country, ap_first = at, ap_last = at, ap_requests = 0, ap_self_requests = 0,
      ap_connections = 0, ap_commands = 0, ap_protocols = [], ap_risk = 0, ap_depth = 0, ap_class = ''benign'',
      ap_actor = ''unknown'', ap_engagement = 0, ap_canaries = 0, ap_payloads = 0, ap_fingerprints = [], ap_behavior = [],
      ap_ssh = \<lparr>sf_median = 0, sf_jitter = 0, sf_accepted = 0, sf_rejected = 0, sf_users = 0, sf_concurrent = 0, sf_per_minute = 0\<rparr>,
      ap_http_wall = new_clock, ap_ssh_wall = new_clock\<rparr>"

definition seen_actor :: "string \<Rightarrow> string \<Rightarrow> gotime \<Rightarrow> actorProfile \<Rightarrow> actorProfile" where
  "seen_actor ip country at a =
     a\<lparr>ap_ip := (if ap_ip a = [] then ip else ap_ip a),
       ap_country := (if country \<noteq> [] then country else ap_country a),
       ap_first := (if ap_first a = 0 \<or> at < ap_first a then at else ap_first a),
       ap_last := (if ap_last a = 0 \<or> ap_last a < at then at else ap_last a)\<rparr>"

definition ensureActor :: "(string \<Rightarrow> string) \<Rightarrow> string \<Rightarrow> string \<Rightarrow> gotime \<Rightarrow> actorStore \<Rightarrow> actorProfile" where
  "ensureActor sha ip country at s =
     (let i = actorID sha ip in seen_actor ip country at (lookup_or (new_actor i ip country at) (ax_actors s) i))"

definition put_actor :: "string \<Rightarrow> actorProfile \<Rightarrow> actorStore \<Rightarrow> actorStore" where
  "put_actor i a s = s\<lparr>ax_actors := AList.update i a (ax_actors s)\<rparr>"

definition addProtocol :: "string \<Rightarrow> actorProfile \<Rightarrow> actorProfile" where
  "addProtocol p a = (if p \<in> set (ap_protocols a) then a else a\<lparr>ap_protocols := sort_strings (ap_protocols a @ [p])\<rparr>)"

definition addFingerprint :: "string \<Rightarrow> actorProfile \<Rightarrow> actorProfile \<times> bool" where
  "addFingerprint fp0 a =
     (let fp = TrimSpace fp0 in
      if fp = [] \<or> fp \<in> set (ap_fingerprints a) then (a, False)
      else (a\<lparr>ap_fingerprints := sort_strings (ap_fingerprints a @ [fp])\<rparr>, True))"

text \<open>\<open>if addFingerprint(a, fp) { s.actorFingerprints[fp]++ }\<close>, the text every mark repeats.\<close>

definition mark_fingerprint :: "string \<Rightarrow> marked \<Rightarrow> marked" where
  "mark_fingerprint fp m =
     (case addFingerprint fp (fst m) of (a, new) \<Rightarrow> (a, if new then incr fp (snd m) else snd m))"

definition on_profile :: "(actorProfile \<Rightarrow> actorProfile) \<Rightarrow> marked \<Rightarrow> marked" where
  "on_profile f m = (f (fst m), snd m)"

definition automated :: "actorProfile \<Rightarrow> actorProfile" where
  "automated a = a\<lparr>ap_actor := ''automated''\<rparr>"

fun count_name :: "string \<Rightarrow> (string \<times> int) list \<Rightarrow> (string \<times> int) list option" where
  "count_name x [] = None"
| "count_name x ((y, n) # rows) =
     (if y = x then Some ((y, wrap64 (n + 1)) # rows) else map_option ((#) (y, n)) (count_name x rows))"

definition bump_rows :: "string \<Rightarrow> (string \<times> int) list \<Rightarrow> (string \<times> int) list" where
  "bump_rows x rows =
     (case count_name x rows of
        Some rows' \<Rightarrow> sort_by count_before rows'
      | None \<Rightarrow> take maxActorBehaviorSummary (sort_by count_before (rows @ [(x, 1)])))"

definition bumpActorBehavior :: "(string \<Rightarrow> string) \<Rightarrow> string \<Rightarrow> actorProfile \<Rightarrow> actorProfile" where
  "bumpActorBehavior uni x0 a =
     (let x = TrimSpace (ToLower uni x0) in if x = [] then a else a\<lparr>ap_behavior := bump_rows x (ap_behavior a)\<rparr>)"

definition actorFingerprintCountPrefix :: "string \<Rightarrow> actorProfile \<Rightarrow> nat" where
  "actorFingerprintCountPrefix p a = length (List.filter (\<lambda>fp. HasPrefix fp p) (ap_fingerprints a))"

definition class_rank :: "string \<Rightarrow> nat" where
  "class_rank v = (if v = ''hostile'' then 3 else if v = ''suspicious'' then 2 else if v = ''benign'' then 1 else 0)"

definition strongerClassification :: "string \<Rightarrow> string \<Rightarrow> string" where
  "strongerClassification a b = (if class_rank a < class_rank b then b else a)"

definition strongerActor :: "string \<Rightarrow> string \<Rightarrow> string" where
  "strongerActor a b =
     (if a = ''automated'' \<or> b = ''automated'' then ''automated''
      else if a = ''human'' \<or> b = ''human'' then ''human'' else ''unknown'')"

text \<open>Both protocols have the same clock.\<close>

definition wall_segment :: "gotime \<Rightarrow> gotime \<Rightarrow> wallClock \<Rightarrow> wallClock" where
  "wall_segment from to w =
     (if from = 0 \<or> to = 0 \<or> to \<le> from then w
      else (let d = time_sub to from in
        w\<lparr>wc_total := wrap64 (wc_total w + d),
          wc_active := (if wc_end w = 0 \<or> wc_end w \<le> from then wrap64 (wc_active w + d)
                        else if wc_end w < to then wrap64 (wc_active w + time_sub to (wc_end w)) else wc_active w),
          wc_end := (if wc_end w < to then to else wc_end w)\<rparr>))"

definition addActorWallSegment :: "string \<Rightarrow> gotime \<Rightarrow> gotime \<Rightarrow> actorProfile \<Rightarrow> actorProfile" where
  "addActorWallSegment protocol from to a =
     (if protocol = ''http'' then a\<lparr>ap_http_wall := wall_segment from to (ap_http_wall a)\<rparr>
      else if protocol = ''ssh'' then a\<lparr>ap_ssh_wall := wall_segment from to (ap_ssh_wall a)\<rparr>
      else a)"

definition engagement_key :: "actorProfile \<Rightarrow> string \<Rightarrow> string \<Rightarrow> string" where
  "engagement_key a protocol activity = ap_id a @ ''|'' @ protocol @ ''|'' @ activity"

definition idle_gap :: duration where "idle_gap = 5 * minute"

definition engage :: "string \<Rightarrow> gotime \<Rightarrow> gotime \<Rightarrow> actorProfile \<times> actorStore \<Rightarrow> actorProfile \<times> actorStore" where
  "engage protocol prev at p =
     (case p of (a, s) \<Rightarrow>
        if prev < at \<and> time_sub at prev \<le> idle_gap then
          (let ms = wrap64 (lookup_or 0 (ax_engagement s) (ap_id a) + go_div (time_sub at prev) millisecond)
           in (addActorWallSegment protocol prev at (a\<lparr>ap_engagement := go_div ms 1000\<rparr>),
               s\<lparr>ax_engagement := AList.update (ap_id a) ms (ax_engagement s)\<rparr>))
        else (a, s))"

definition addActorEngagement :: "string \<Rightarrow> string \<Rightarrow> gotime \<Rightarrow> actorProfile \<times> actorStore \<Rightarrow> actorProfile \<times> actorStore" where
  "addActorEngagement protocol activity at p =
     (if activity = [] \<or> at = 0 then p
      else (let key = engagement_key (fst p) protocol activity in
        case map_of (ax_session_last (snd p)) key of
          None \<Rightarrow> (fst p, (snd p)\<lparr>ax_session_last := AList.update key at (ax_session_last (snd p))\<rparr>)
        | Some prev \<Rightarrow>
            (case engage protocol prev at p of (a, s) \<Rightarrow>
               (a, if prev < at then s\<lparr>ax_session_last := AList.update key at (ax_session_last s)\<rparr> else s))))"

definition appendActorActivity :: "string \<Rightarrow> actorActivity \<Rightarrow> actorStore \<Rightarrow> actorStore" where
  "appendActorActivity i item s =
     s\<lparr>ax_timeline := AList.update i (push_last maxActorTimeline item (lookup_or [] (ax_timeline s) i)) (ax_timeline s)\<rparr>"

text \<open>A step that marks fingerprints, run on the profile and on the store.\<close>

definition marking :: "(marked \<Rightarrow> marked) \<Rightarrow> actorProfile \<times> actorStore \<Rightarrow> actorProfile \<times> actorStore" where
  "marking f p =
     (case f (fst p, ax_fingerprints (snd p)) of (a, c) \<Rightarrow> (a, (snd p)\<lparr>ax_fingerprints := c\<rparr>))"

text \<open>The rows of a log from the newest back to the first before the cut.\<close>

definition back_to :: "('r \<Rightarrow> gotime) \<Rightarrow> gotime \<Rightarrow> 'r list \<Rightarrow> 'r list" where
  "back_to time limit rows = takeWhile (\<lambda>r. \<not> time r < limit) (rev rows)"

definition gaps_between :: "gotime list \<Rightarrow> duration list" where
  "gaps_between ts = map2 (\<lambda>a b. time_sub b a) ts (tl ts)"

section \<open>Web events\<close>

definition isHTTPSequenceToken :: "string \<Rightarrow> bool" where
  "isHTTPSequenceToken v \<longleftrightarrow>
     10 \<le> length v
     \<and> list_all (\<lambda>r. (48 \<le> r \<and> r \<le> 57) \<or> (97 \<le> r \<and> r \<le> 102) \<or> r = 45) (runes v)
     \<and> 10 \<le> length (List.filter (\<lambda>r. r \<noteq> 45) (runes v))"

definition sequence_part :: "string \<Rightarrow> string" where
  "sequence_part p =
     (if p = [] then p
      else if HasPrefix p ''exec-'' \<and> 9 < length p then ''exec-<token>''
      else if isHTTPSequenceToken p then ''<token>'' else p)"

definition normalizedHTTPSequencePath :: "(string \<Rightarrow> string) \<Rightarrow> string \<Rightarrow> string" where
  "normalizedHTTPSequencePath uni raw =
     (let p = ToLower uni (TrimSpace raw) in
      if p = [] then ''/''
      else (let out = Join (map sequence_part (SplitByte p (CHR ''/''))) ''/''
            in if HasPrefix out ''/'' then out else CHR ''/'' # out))"

definition sequence_length :: nat where "sequence_length = 12"
definition max_sequence_fingerprints :: nat where "max_sequence_fingerprints = 32"
definition max_sightings :: nat where "max_sightings = 64"

definition sequence_step :: "actorEnv \<Rightarrow> webEvent \<Rightarrow> string" where
  "sequence_step env e =
     ToUpper (ae_upper env) (TrimSpace (ev_method e)) @ '' '' @ normalizedHTTPSequencePath (ae_lower env) (ev_path e)"

definition sequence_fingerprint :: "actorEnv \<Rightarrow> string list \<Rightarrow> string" where
  "sequence_fingerprint env steps = ''http:sequence:'' @ hex_encode (take 8 (ae_sha env (Join steps [CHR 0x0A])))"

definition fresh_sightings :: "gotime \<Rightarrow> sighting list \<Rightarrow> sighting list" where
  "fresh_sightings at rows = List.filter (\<lambda>r. \<not> sg_at r < at - 5 * second) rows"

definition parallel_worker :: "webEvent \<Rightarrow> sighting list \<Rightarrow> bool" where
  "parallel_worker e rows \<longleftrightarrow>
     list_ex (\<lambda>r. sg_ip r = ev_ip e \<and> sg_target r \<noteq> [] \<and> eo_target (ev_origin e) \<noteq> [] \<and> sg_target r \<noteq> eo_target (ev_origin e)
                  \<and> sg_agent r \<noteq> [] \<and> ev_agent e \<noteq> [] \<and> sg_agent r \<noteq> ev_agent e) rows"

definition sighting_of :: "webEvent \<Rightarrow> sighting" where
  "sighting_of e = \<lparr>sg_ip = ev_ip e, sg_target = eo_target (ev_origin e), sg_agent = ev_agent e, sg_at = ev_at e\<rparr>"

text \<open>The steps of a full sequence: its fingerprint (at most 32 of the kind) and the parallel workers seen with it.\<close>

definition sequence_seen :: "webEvent \<Rightarrow> string \<Rightarrow> actorProfile \<times> actorStore \<Rightarrow> actorProfile \<times> actorStore" where
  "sequence_seen e fp p =
     (let p = marking (\<lambda>m. if actorFingerprintCountPrefix ''http:sequence:'' (fst m) < max_sequence_fingerprints
                           then mark_fingerprint fp m else m) p;
          kept = fresh_sightings (ev_at e) (lookup_or [] (ax_sightings (snd p)) fp);
          s = (snd p)\<lparr>ax_sightings := AList.update fp (push_last max_sightings (sighting_of e) kept) (ax_sightings (snd p))\<rparr>
      in marking (\<lambda>m. if parallel_worker e kept then mark_fingerprint ''http:parallel-target-worker-pool'' m else m) (fst p, s))"

definition updateHTTPSequenceFingerprint :: "actorEnv \<Rightarrow> webEvent \<Rightarrow> actorProfile \<times> actorStore \<Rightarrow> actorProfile \<times> actorStore" where
  "updateHTTPSequenceFingerprint env e p =
     (if ev_session e = [] \<or> eo_self_origin (ev_origin e) then p
      else (let s = snd p; steps = lookup_or [] (ax_sequences s) (ev_session e);
                short = length steps < sequence_length;
                steps = (if short then steps @ [sequence_step env e] else steps);
                s = (if short then s\<lparr>ax_sequences := AList.update (ev_session e) steps (ax_sequences s)\<rparr> else s)
            in if length steps \<noteq> sequence_length then (fst p, s)
               else sequence_seen e (sequence_fingerprint env steps) (fst p, s)))"

definition http_tools :: "(string \<times> string) list" where
  "http_tools =
    [(''infrawatch'', ''http:internet-measurement''), (''nuclei'', ''http:nuclei''), (''sqlmap'', ''http:sqlmap''),
     (''nikto'', ''http:nikto''), (''masscan'', ''http:masscan''), (''zgrab'', ''http:zgrab''), (''gobuster'', ''http:gobuster''),
     (''ffuf'', ''http:ffuf''), (''wpscan'', ''http:wpscan''), (''python-requests'', ''http:python-requests''),
     (''go-http-client'', ''http:go-client''), (''curl/'', ''http:curl''), (''wget/'', ''http:wget'')]"

definition fingerprintHTTP :: "actorEnv \<Rightarrow> webEvent \<Rightarrow> string" where
  "fingerprintHTTP env e =
     (if eo_host_sweep (ev_origin e) then ''web:host-header-sweep''
      else if gq_operation (ev_graphql e) = ''introspection'' then ''http:graphql-introspection''
      else if gq_operation (ev_graphql e) = ''mutation'' then ''http:graphql-mutation-probe''
      else if gq_operation (ev_graphql e) = ''subscription'' then ''http:graphql-subscription-probe''
      else (case List.find (\<lambda>(needle, _). Contains (ToLower (ae_lower env) (ev_agent e)) needle) http_tools of
              Some (_, label) \<Rightarrow> label
            | None \<Rightarrow>
                if 80 \<le> sc_automation (ev_scoring e) then ''http:high-rate-automation''
                else if sc_actor (ev_scoring e) = ''human'' then ''http:browser-like-client''
                else []))"

definition isHTTPLoginPath :: "(string \<Rightarrow> string) \<Rightarrow> string \<Rightarrow> bool" where
  "isHTTPLoginPath uni p \<longleftrightarrow>
     ToLower uni (TrimSpace p) \<in> {''/login'', ''/login.html'', ''/login.htm'', ''/login.jsp'', ''/manage/account/login''}"

definition login_post :: "actorEnv \<Rightarrow> webEvent \<Rightarrow> bool" where
  "login_post env e \<longleftrightarrow> ToUpper (ae_upper env) (TrimSpace (ev_method e)) = ''POST'' \<and> isHTTPLoginPath (ae_lower env) (ev_path e)"

definition httpPeriodicAuthValidator :: "actorEnv \<Rightarrow> webEvent list \<Rightarrow> webEvent \<Rightarrow> bool" where
  "httpPeriodicAuthValidator env es e =
     (if ev_session e = [] \<or> \<not> login_post env e \<or> sc_automation (ev_scoring e) < 80 then False
      else (let rows = List.filter (\<lambda>r. ev_ip r = ev_ip e \<and> login_post env r) (back_to ev_at (ev_at e - 2 * hour) es);
                gs = sort (List.filter (\<lambda>g. 5 * minute \<le> g \<and> g \<le> 30 * minute) (gaps_between (sort (map ev_at rows)))) in
            if length rows < 3 \<or> length gs < 2 then False
            else wrap64 (List.last gs - hd gs) \<le> 4 * minute \<and> 5 * minute \<le> middle gs \<and> middle gs \<le> 30 * minute))"

definition message_count :: "string \<Rightarrow> webEvent list \<Rightarrow> nat" where
  "message_count m rows = length (List.filter (\<lambda>r. ev_message r = m) rows)"

definition httpPHPUnitDockerExecChain :: "webEvent list \<Rightarrow> webEvent \<Rightarrow> bool" where
  "httpPHPUnitDockerExecChain es e =
     (if ev_session e = [] \<or> ev_message e \<noteq> ''fake-docker-api-exec-start'' then False
      else (let rows = List.filter (\<lambda>r. ev_session r = ev_session e) (back_to ev_at (ev_at e - 2 * minute) es)
            in 0 < message_count ''fake-phpunit-eval'' rows \<and> 0 < message_count ''fake-docker-api-containers'' rows
               \<and> 3 \<le> message_count ''fake-docker-api-exec-create'' rows \<and> 3 \<le> message_count ''fake-docker-api-exec-start'' rows))"

text \<open>What the event itself says of the profile.\<close>

definition http_evidence :: "webEvent \<Rightarrow> actorProfile \<Rightarrow> actorProfile" where
  "http_evidence e a0 =
     (let a = addProtocol ''http'' a0 in
      a\<lparr>ap_requests := wrap64 (ap_requests a + 1),
        ap_risk := max (ap_risk a) (sc_risk (ev_scoring e)),
        ap_depth := max (ap_depth a) (sc_depth (ev_scoring e)),
        ap_class := strongerClassification (ap_class a) (sc_class (ev_scoring e)),
        ap_actor := strongerActor (ap_actor a) (sc_actor (ev_scoring e))\<rparr>)"

definition activity_id :: "webEvent \<Rightarrow> string" where
  "activity_id e =
     (if vi_started (ev_visit e) = 0 then ev_session e else ev_session e @ ''|visit:'' @ RFC3339Nano (vi_started (ev_visit e)))"

definition http_labels :: "actorEnv \<Rightarrow> webEvent \<Rightarrow> marked \<Rightarrow> marked" where
  "http_labels env e m =
     (let category = TrimSpace (ev_category e); product = TrimSpace (pr_product (ev_probe e)); fp = fingerprintHTTP env e;
          m = (if category \<noteq> [] \<and> category \<noteq> ''request''
               then on_profile (bumpActorBehavior (ae_lower env) (''http-category:'' @ category)) m else m);
          m = (if product \<noteq> [] then on_profile (bumpActorBehavior (ae_lower env) (''http-product:'' @ product)) m else m);
          m = mark_fingerprint fp m
      in if fp \<noteq> [] \<and> \<not> HasPrefix fp ''http:sequence:''
         then on_profile (bumpActorBehavior (ae_lower env) (''fingerprint:'' @ fp)) m else m)"

definition http_chains :: "actorEnv \<Rightarrow> webEvent list \<Rightarrow> webEvent \<Rightarrow> marked \<Rightarrow> marked" where
  "http_chains env es e m =
     (let m = (if httpPHPUnitDockerExecChain es e
               then mark_fingerprint ''http:phpunit-docker-exec-chain'' (on_profile automated m) else m)
      in if httpPeriodicAuthValidator env es e
         then mark_fingerprint ''http:periodic-auth-validator''
                (on_profile (\<lambda>a. (automated a)\<lparr>ap_class := strongerClassification (ap_class a) ''hostile'', ap_risk := max (ap_risk a) 82\<rparr>) m)
         else m)"

definition agent_rotation :: "webEvent \<Rightarrow> actorProfile \<times> actorStore \<Rightarrow> actorProfile \<times> actorStore" where
  "agent_rotation e p =
     (if sc_automation (ev_scoring e) < 80 \<or> TrimSpace (ev_agent e) = [] then p
      else (let s = snd p;
                old = List.filter (\<lambda>(_, at). \<not> at < ev_at e - 15 * minute) (lookup_or [] (ax_agents s) (ev_ip e));
                uas = AList.update (ev_agent e) (ev_at e) old;
                s = s\<lparr>ax_agents := AList.update (ev_ip e) uas (ax_agents s)\<rparr>
            in marking (\<lambda>m. if 3 \<le> length uas then mark_fingerprint ''http:user-agent-rotation'' m else m) (fst p, s)))"

definition bot_rotation :: "actorEnv \<Rightarrow> webEvent \<Rightarrow> actorProfile \<times> actorStore \<Rightarrow> actorProfile \<times> actorStore" where
  "bot_rotation env e p =
     (let claim = botClaimLabel (ae_lower env) (ev_agent e) in
      if claim = [] then p
      else (let s = snd p; claims = List.insert claim (lookup_or [] (ax_claims s) (ev_ip e));
                s = s\<lparr>ax_claims := AList.update (ev_ip e) claims (ax_claims s)\<rparr>
            in marking (\<lambda>m. if 2 \<le> length claims then mark_fingerprint ''http:bot-identity-rotation'' m else m) (fst p, s)))"

definition http_activity :: "actorEnv \<Rightarrow> webEvent \<Rightarrow> actorActivity" where
  "http_activity env e =
     \<lparr>aa_at = ev_at e, aa_protocol = ''http'', aa_kind = ev_category e, aa_session = ev_session e,
      aa_summary = ev_method e @ '' '' @ ev_path e
        @ (if pr_name (ev_probe e) \<noteq> [] then [CHR '' '', CHR 0xC2, CHR 0xB7, CHR '' ''] @ pr_name (ev_probe e) else []),
      aa_path = ev_path e, aa_command = [], aa_family = [], aa_risk = sc_risk (ev_scoring e), aa_depth = sc_depth (ev_scoring e),
      aa_canary = [], aa_fingerprint = fingerprintHTTP env e\<rparr>"

definition applyActorHTTPEvent :: "actorEnv \<Rightarrow> webEvent list \<Rightarrow> webEvent \<Rightarrow> actorStore \<Rightarrow> actorStore" where
  "applyActorHTTPEvent env es e s =
     (let i = actorID (ae_sha env) (ev_ip e); a = ensureActor (ae_sha env) (ev_ip e) (eo_country (ev_origin e)) (ev_at e) s in
      if TrimSpace (ev_ip e) = [] then s
      else if eo_self_origin (ev_origin e) then put_actor i (a\<lparr>ap_self_requests := wrap64 (ap_self_requests a + 1)\<rparr>) s
      else (let p = addActorEngagement ''http'' (activity_id e) (ev_at e) (http_evidence e a, s);
                p = marking (http_labels env e) p;
                p = updateHTTPSequenceFingerprint env e p;
                p = marking (http_chains env es e) p;
                p = bot_rotation env e (agent_rotation e p)
            in appendActorActivity (ap_id (fst p)) (http_activity env e) (put_actor i (fst p) (snd p))))"

section \<open>Promotion, signals and pages\<close>

definition promote_actor :: "actorEnv \<Rightarrow> gotime \<Rightarrow> string \<Rightarrow> actorStore \<Rightarrow> actorStore" where
  "promote_actor env now ip s = put_actor (actorID (ae_sha env) ip) (automated (ensureActor (ae_sha env) ip [] now s)) s"

definition canonicalCampaignFingerprint :: "string \<Rightarrow> string" where
  "canonicalCampaignFingerprint fp0 =
     (let fp = TrimSpace fp0 in if fp = ''http:interactive-browser'' then ''http:browser-like-client'' else fp)"

definition mark_label :: "actorEnv \<Rightarrow> string \<Rightarrow> marked \<Rightarrow> marked" where
  "mark_label env fp m =
     (let m = mark_fingerprint fp m; fp = TrimSpace fp in
      if fp \<noteq> [] \<and> \<not> HasPrefix fp ''http:sequence:''
      then on_profile (bumpActorBehavior (ae_lower env) (''fingerprint:'' @ canonicalCampaignFingerprint fp)) m else m)"

definition mark_labels :: "actorEnv \<Rightarrow> gotime \<Rightarrow> string \<Rightarrow> string list \<Rightarrow> actorStore \<Rightarrow> actorStore" where
  "mark_labels env now ip fps s =
     (case marking (fold (mark_label env) fps) (ensureActor (ae_sha env) ip [] now s, s) of
        (a, s) \<Rightarrow> put_actor (actorID (ae_sha env) ip) a s)"

definition signal_activity :: "intelSignal \<Rightarrow> actorActivity" where
  "signal_activity e =
     \<lparr>aa_at = is_at e, aa_protocol = is_protocol e, aa_kind = is_kind e, aa_session = is_session e, aa_summary = is_summary e,
      aa_path = [], aa_command = [], aa_family = [], aa_risk = 0, aa_depth = 0, aa_canary = is_canary e, aa_fingerprint = []\<rparr>"

definition applyIntel :: "actorEnv \<Rightarrow> intelSignal \<Rightarrow> actorStore \<Rightarrow> actorStore" where
  "applyIntel env e s =
     (let a = ensureActor (ae_sha env) (is_ip e) [] (is_at e) s;
          a = a\<lparr>ap_canaries := (if is_kind e = ''canary'' then wrap64 (ap_canaries a + 1) else ap_canaries a),
                ap_payloads := (if is_kind e = ''payload'' then wrap64 (ap_payloads a + 1) else ap_payloads a)\<rparr>
      in appendActorActivity (ap_id a) (signal_activity e) (put_actor (actorID (ae_sha env) (is_ip e)) a s))"

definition push_signal :: "intelSignal \<Rightarrow> actorStore \<Rightarrow> actorStore" where
  "push_signal e s = s\<lparr>ax_intel := push_last maxIntelRing e (ax_intel s)\<rparr>"

text \<open>What the log keeps of a signal.\<close>

definition json_signal :: "intelSignal \<Rightarrow> intelSignal" where
  "json_signal e =
     e\<lparr>is_id := json_text (is_id e), is_actor := json_text (is_actor e), is_ip := json_text (is_ip e), is_protocol := json_text (is_protocol e),
        is_session := json_text (is_session e), is_kind := json_text (is_kind e), is_tool := json_text (is_tool e), is_technique := json_text (is_technique e),
        is_url := json_text (is_url e), is_host := json_text (is_host e), is_filename := json_text (is_filename e), is_canary := json_text (is_canary e),
        is_summary := json_text (is_summary e)\<rparr>"

text \<open>The file is not open, or a write to it succeeds or fails: \<open>None\<close>, \<open>Some True\<close>, \<open>Some False\<close>.\<close>

definition AddIntelSignal :: "actorEnv \<Rightarrow> bool option \<Rightarrow> intelSignal \<Rightarrow> actorStore \<Rightarrow> actorStore \<times> bool" where
  "AddIntelSignal env log e0 s =
     (if is_id e0 = [] \<or> is_at e0 = 0 \<or> is_ip e0 = [] then (s, True)
      else (let e = (if is_actor e0 = [] then e0\<lparr>is_actor := actorID (ae_sha env) (is_ip e0)\<rparr> else e0) in
        if log = Some False then (s, False)
        else (let s = (if log = Some True then s\<lparr>ax_intel_file := ax_intel_file s @ [Some (json_signal e)]\<rparr> else s)
              in (applyIntel env e (push_signal e s), True))))"

text \<open>A line of the file that is not a signal is \<open>None\<close>; none is too long for the scanner.\<close>

definition loadIntel :: "actorEnv \<Rightarrow> actorStore \<Rightarrow> actorStore" where
  "loadIntel env s =
     fold (\<lambda>line s. case line of None \<Rightarrow> s | Some e \<Rightarrow> applyIntel env e (push_signal e s)) (ax_intel_file s) s"

definition IntelEvents :: "int \<Rightarrow> actorStore \<Rightarrow> intelSignal list" where
  "IntelEvents limit s =
     (let n = length (ax_intel s); k = (if limit \<le> 0 \<or> int n < limit then n else nat limit) in rev (last_n k (ax_intel s)))"

definition Actors :: "int \<Rightarrow> actorStore \<Rightarrow> actorProfile list" where
  "Actors limit s = limit_rows limit (sort_by (later_first ap_last) (map snd (ax_actors s)))"

definition ActorDetail :: "string \<Rightarrow> int \<Rightarrow> actorStore \<Rightarrow> (actorProfile \<times> actorActivity list) option" where
  "ActorDetail i limit s =
     (case map_of (ax_actors s) i of None \<Rightarrow> None
      | Some a \<Rightarrow> (let rows = sort_by (earlier_first aa_at) (lookup_or [] (ax_timeline s) i)
                  in Some (a, if 0 < limit then last_n (nat limit) rows else rows)))"

record actorOverview =
  ov_total :: int
  ov_cross :: int
  ov_engagement :: int
  ov_canaries :: int
  ov_payloads :: int
  ov_fingerprints :: "(string \<times> int) list"

definition ActorOverview :: "actorStore \<Rightarrow> actorOverview" where
  "ActorOverview s =
     (let rows = map snd (ax_actors s) in
      \<lparr>ov_total = int (length rows),
       ov_cross = int (length (List.filter (\<lambda>a. 1 < length (ap_protocols a)) rows)),
       ov_engagement = foldl (\<lambda>n a. wrap64 (n + ap_engagement a)) 0 rows,
       ov_canaries = foldl (\<lambda>n a. wrap64 (n + ap_canaries a)) 0 rows,
       ov_payloads = foldl (\<lambda>n a. wrap64 (n + ap_payloads a)) 0 rows,
       ov_fingerprints = rankedCounts (ax_fingerprints s) 12\<rparr>)"

text \<open>Sessions that the event store drops lose their sequences.\<close>

definition drop_sequences :: "string list \<Rightarrow> actorStore \<Rightarrow> actorStore" where
  "drop_sequences dead s = s\<lparr>ax_sequences := fold AList.delete dead (ax_sequences s)\<rparr>"

end
