(* ===== verification/SshActors.thy ===== *)
theory SshActors
  imports ActorProfiles SshRecords AuthReality
begin

text \<open>
  The SSH half of the actor profiles (\<open>internal/store/actors.go\<close>): what an SSH event, the ring of SSH events and the SSH sessions say of an address.
\<close>

type_synonym sshSessions = "(string, sshSession) gomap"

section \<open>Patterns in the ring of events\<close>

definition ssh_recent :: "duration \<Rightarrow> gotime \<Rightarrow> sshEvent list \<Rightarrow> sshEvent list" where
  "ssh_recent window now es = takeWhile (\<lambda>e. \<not> window < time_sub now (sv_at e)) (rev es)"

text \<open>The pattern of the connections is that of the credential policy.\<close>

definition connect_of :: "sshEvent \<Rightarrow> connectEvent" where
  "connect_of e = \<lparr>ce_at = sv_at e, ce_ip = sv_ip e, ce_type = sv_type e\<rparr>"

definition sshScriptedReconSequence :: "(string \<Rightarrow> string) \<Rightarrow> sshEvent list \<Rightarrow> sshEvent \<Rightarrow> bool" where
  "sshScriptedReconSequence uni es e =
     (if sv_session e = [] \<or> \<not> ran_command e then False
      else (let rows = List.filter (\<lambda>r. sv_session r = sv_session e \<and> ran_command r) (back_to sv_at (sv_at e - 30 * second) es);
                fams = List.filter (\<lambda>f. f \<noteq> [] \<and> f \<noteq> ''other'') (map (\<lambda>r. ToLower uni (TrimSpace (sk_family (sv_command r)))) rows);
                gs = List.filter (\<lambda>g. 0 \<le> g) (gaps_between (sort (map sv_at rows)))
            in 10 \<le> length rows \<and> 3 \<le> length (remdups fams) \<and> gs \<noteq> [] \<and> middle gs \<le> second))"

text \<open>The newest payload of a kind, the event's own first.\<close>

definition newest_payload :: "string \<Rightarrow> string list \<Rightarrow> string" where
  "newest_payload kind fps = (case List.find (\<lambda>fp. HasPrefix fp kind) fps of None \<Rightarrow> [] | Some fp \<Rightarrow> TrimPrefix fp kind)"

definition sshPersistenceKitFingerprint :: "(string \<Rightarrow> string) \<Rightarrow> sshEvent list \<Rightarrow> sshEvent \<Rightarrow> string" where
  "sshPersistenceKitFingerprint uni es e =
     (if sv_session e = [] then []
      else (let rows = List.filter (\<lambda>r. sv_session r = sv_session e) (back_to sv_at (sv_at e - 3 * minute) es);
                fps = map (sshPayloadHashFingerprint uni) (e # rows);
                payload = newest_payload ''ssh:payload-sha256:'' fps; unit = newest_payload ''ssh:service-unit-sha256:'' fps
            in if payload = [] \<or> unit = [] then [] else ''ssh:persistence-kit:'' @ payload @ '':'' @ unit))"

definition ended :: "sshEvent \<Rightarrow> bool" where
  "ended e \<longleftrightarrow> sv_type e \<in> {''disconnect'', ''limit'', ''handshake_error''}"

definition nonblank :: "string list \<Rightarrow> string list" where
  "nonblank xs = remdups (List.filter (\<lambda>x. x \<noteq> []) xs)"

definition sshReconPlaybookFingerprint :: "actorEnv \<Rightarrow> sshEvent list \<Rightarrow> sshEvent \<Rightarrow> string" where
  "sshReconPlaybookFingerprint env es e =
     (if sv_session e = [] \<or> \<not> ended e then []
      else (let rows = List.filter (\<lambda>r. sv_session r = sv_session e \<and> ran_command r) es;
                names = nonblank (map (\<lambda>r. ToLower (ae_lower env) (TrimSpace (sk_name (sv_command r)))) rows);
                topics = nonblank (map (\<lambda>r. sshReconTopic (ae_lower env) (sk_name (sv_command r)) (sk_family (sv_command r))) rows)
            in if length rows < 15 \<or> length names < 8 \<or> length topics < 6 then []
               else ''ssh:recon-playbook:'' @ hex_encode (take 8 (ae_sha env (Join (sort_strings topics) ''|'')))))"

section \<open>The steps of an event\<close>

definition live_count :: "string \<Rightarrow> sshSessions \<Rightarrow> nat" where
  "live_count ip ss = length (List.filter (\<lambda>x. sx_ip x = ip \<and> sx_active x) (map snd ss))"

definition raise_concurrent :: "nat \<Rightarrow> actorProfile \<Rightarrow> actorProfile" where
  "raise_concurrent n a = a\<lparr>ap_ssh := (ap_ssh a)\<lparr>sf_concurrent := max (sf_concurrent (ap_ssh a)) n\<rparr>\<rparr>"

definition set_recurrence :: "sshRecurrence \<Rightarrow> actorProfile \<Rightarrow> actorProfile" where
  "set_recurrence r a = a\<lparr>ap_ssh := (ap_ssh a)\<lparr>sf_median := rc_median r, sf_jitter := rc_jitter r\<rparr>\<rparr>"

definition ssh_connect :: "sshEvent list \<Rightarrow> sshSessions \<Rightarrow> sshEvent \<Rightarrow> marked \<Rightarrow> marked" where
  "ssh_connect es ss e m =
     (if sv_type e \<noteq> ''connect'' then m
      else (let n = live_count (sv_ip e) ss; r = SSHRecurrence (sv_ip e) (sv_at e) (map connect_of es);
                m = on_profile (raise_concurrent n \<circ> (\<lambda>a. a\<lparr>ap_connections := wrap64 (ap_connections a + 1)\<rparr>)) m;
                m = (if 3 \<le> n then mark_fingerprint ''ssh:parallel-session-burst'' m else m);
                m = on_profile (set_recurrence r) m
            in if rc_rapid r \<or> rc_low_slow r then
                 mark_fingerprint ''ssh:recurring-credential-probe''
                   (mark_fingerprint (if rc_rapid r then ''ssh:rapid-recurrence'' else ''ssh:low-and-slow'') (on_profile automated m))
               else m))"

definition count_auth :: "sshEvent \<Rightarrow> actorProfile \<Rightarrow> actorProfile" where
  "count_auth e a =
     a\<lparr>ap_ssh := (if sa_accepted (sv_auth e) then (ap_ssh a)\<lparr>sf_accepted := wrap64 (sf_accepted (ap_ssh a) + 1)\<rparr>
                  else (ap_ssh a)\<lparr>sf_rejected := wrap64 (sf_rejected (ap_ssh a) + 1)\<rparr>)\<rparr>"

definition see_user :: "sshEvent \<Rightarrow> actorProfile \<times> actorStore \<Rightarrow> actorProfile \<times> actorStore" where
  "see_user e p =
     (let user = TrimSpace (sv_user e); (a, s) = p; users = List.insert user (lookup_or [] (ax_users s) (ap_id a)) in
      if user = [] then p
      else (a\<lparr>ap_ssh := (ap_ssh a)\<lparr>sf_users := length users\<rparr>\<rparr>, s\<lparr>ax_users := AList.update (ap_id a) users (ax_users s)\<rparr>))"

definition auth_rows :: "sshEvent list \<Rightarrow> sshEvent \<Rightarrow> sshEvent list" where
  "auth_rows es e = List.filter (\<lambda>r. sv_ip r = sv_ip e \<and> sv_type r = ''auth'') (back_to sv_at (sv_at e - 2 * minute) es)"

definition raise_attempts :: "nat \<Rightarrow> actorProfile \<Rightarrow> actorProfile" where
  "raise_attempts n a = a\<lparr>ap_ssh := (ap_ssh a)\<lparr>sf_per_minute := max (sf_per_minute (ap_ssh a)) n\<rparr>\<rparr>"

definition credential_spray :: "sshEvent list \<Rightarrow> bool" where
  "credential_spray rows \<longleftrightarrow>
     (let rejected = List.filter (\<lambda>r. \<not> sa_accepted (sv_auth r)) rows
      in 5 \<le> length (nonblank (map (\<lambda>r. TrimSpace (sv_user r)) rejected)) \<and> 6 \<le> length rejected)"

definition active_users :: "(string \<Rightarrow> string) \<Rightarrow> string \<Rightarrow> sshSessions \<Rightarrow> string list" where
  "active_users uni ip ss =
     nonblank (map (\<lambda>x. ToLower uni (TrimSpace (sx_user x)))
       (List.filter (\<lambda>x. sx_ip x = ip \<and> sx_active x \<and> sx_accepted x) (map snd ss)))"

definition ssh_auth_marks :: "(string \<Rightarrow> string) \<Rightarrow> sshEvent list \<Rightarrow> sshSessions \<Rightarrow> sshEvent \<Rightarrow> marked \<Rightarrow> marked" where
  "ssh_auth_marks uni es ss e m =
     (let rows = auth_rows es e;
          m = on_profile (raise_attempts (length (List.filter (\<lambda>r. \<not> sv_at r < sv_at e - minute) rows))) m;
          m = (if credential_spray rows then mark_fingerprint ''ssh:credential-spray'' (on_profile automated m) else m)
      in if sa_accepted (sv_auth e) \<and> 2 \<le> length (active_users uni (sv_ip e) ss)
         then mark_fingerprint ''ssh:parallel-account-validation'' (on_profile automated m) else m)"

definition ssh_auth :: "(string \<Rightarrow> string) \<Rightarrow> sshEvent list \<Rightarrow> sshSessions \<Rightarrow> sshEvent
     \<Rightarrow> actorProfile \<times> actorStore \<Rightarrow> actorProfile \<times> actorStore" where
  "ssh_auth uni es ss e p =
     (if sv_type e \<noteq> ''auth'' then p
      else marking (ssh_auth_marks uni es ss e) (see_user e (count_auth e (fst p), snd p)))"

definition rapid_exec :: "sshSessions \<Rightarrow> sshEvent \<Rightarrow> bool" where
  "rapid_exec ss e \<longleftrightarrow>
     sv_type e = ''exec''
     \<and> (case map_of ss (sv_session e) of None \<Rightarrow> False
        | Some x \<Rightarrow> \<not> sx_shell x \<and> 3 \<le> sx_execs x \<and> 0 \<le> time_sub (sx_last x) (sx_first x) \<and> time_sub (sx_last x) (sx_first x) \<le> 2 * second)"

definition ssh_commands :: "(string \<Rightarrow> string) \<Rightarrow> sshEvent list \<Rightarrow> sshSessions \<Rightarrow> sshEvent \<Rightarrow> marked \<Rightarrow> marked" where
  "ssh_commands uni es ss e m =
     (if \<not> ran_command e then m
      else (let family = TrimSpace (sk_family (sv_command e));
                m = on_profile (\<lambda>a. a\<lparr>ap_commands := wrap64 (ap_commands a + 1)\<rparr>) m;
                m = (if family \<noteq> [] \<and> family \<noteq> ''other'' then on_profile (bumpActorBehavior uni (''ssh-family:'' @ family)) m else m);
                m = (if rapid_exec ss e then mark_fingerprint ''ssh:rapid-exec-burst'' (on_profile automated m) else m)
            in if sshScriptedReconSequence uni es e
               then mark_fingerprint ''ssh:scripted-recon-sequence'' (on_profile automated m) else m))"

definition ssh_playbook :: "actorEnv \<Rightarrow> sshEvent list \<Rightarrow> sshEvent \<Rightarrow> marked \<Rightarrow> marked" where
  "ssh_playbook env es e m =
     (let fp = sshReconPlaybookFingerprint env es e in
      if fp = [] then m
      else on_profile (bumpActorBehavior (ae_lower env) (''fingerprint:'' @ fp)) (mark_fingerprint fp (on_profile automated m)))"

definition ssh_evidence :: "sshEvent \<Rightarrow> actorProfile \<Rightarrow> actorProfile" where
  "ssh_evidence e a =
     a\<lparr>ap_risk := max (ap_risk a) (sl_risk (sv_level e)), ap_depth := max (ap_depth a) (sl_depth (sv_level e)),
       ap_class := strongerClassification (ap_class a) (sl_class (sv_level e)),
       ap_actor := strongerActor (ap_actor a) (sl_actor (sv_level e))\<rparr>"

definition mark_side :: "string \<Rightarrow> string \<Rightarrow> marked \<Rightarrow> marked" where
  "mark_side fp side0 m = (let side = TrimSpace side0 in if side = [] \<or> side = fp then m else mark_fingerprint side m)"

text \<open>A fingerprint that may be absent, and one that also shows automation.\<close>

definition mark_found :: "string \<Rightarrow> marked \<Rightarrow> marked" where
  "mark_found fp m = (if fp = [] then m else mark_fingerprint fp m)"

definition mark_automated :: "string \<Rightarrow> marked \<Rightarrow> marked" where
  "mark_automated fp m = (if fp = [] then m else mark_fingerprint fp (on_profile automated m))"

definition ssh_marks :: "actorEnv \<Rightarrow> sshEvent list \<Rightarrow> sshEvent \<Rightarrow> marked \<Rightarrow> marked" where
  "ssh_marks env es e m =
     (let uni = ae_lower env; fp = fingerprintSSH uni e; m = mark_fingerprint fp m;
          m = (if fp \<noteq> [] then on_profile (bumpActorBehavior uni (''fingerprint:'' @ fp)) m else m);
          m = fold (mark_side fp) (sv_secondary e) m;
          m = mark_found (sshPayloadHashFingerprint uni e) m;
          m = mark_automated (sshPersistenceKitFingerprint uni es e) m;
          m = mark_automated (sshAuthorizedKeyFingerprint (ae_sha env) uni (sk_line (sv_command e))) m
      in mark_found (sshCredentialPersistenceFingerprint (sk_line (sv_command e))) m)"

definition environment_probe :: string where "environment_probe = ''ssh:environment-fingerprint-probe''"

definition probe_sessions :: "sshEvent list \<Rightarrow> sshEvent \<Rightarrow> nat" where
  "probe_sessions es e =
     length (remdups (map sv_session
       (List.filter (\<lambda>r. sv_ip r = sv_ip e \<and> sv_fingerprint r = environment_probe) (ssh_recent (30 * minute) (sv_at e) es))))"

definition repeats_command :: "actorStore \<Rightarrow> string \<Rightarrow> sshEvent \<Rightarrow> bool" where
  "repeats_command s i e \<longleftrightarrow>
     map_of (ax_last_command s) i = Some (sk_line (sv_command e))
     \<and> (let at = lookup_or 0 (ax_last_command_at s) i in at \<noteq> 0 \<and> \<not> sv_at e < at \<and> time_sub (sv_at e) at \<le> 2 * second)"

definition ssh_environment :: "actorEnv \<Rightarrow> sshEvent list \<Rightarrow> sshEvent \<Rightarrow> actorProfile \<times> actorStore \<Rightarrow> actorProfile \<times> actorStore" where
  "ssh_environment env es e p =
     (if \<not> ran_command e \<or> fingerprintSSH (ae_lower env) e \<noteq> environment_probe \<or> TrimSpace (sk_line (sv_command e)) = [] then p
      else (let i = ap_id (fst p);
                p = marking (\<lambda>m. if 3 \<le> probe_sessions es e
                                 then mark_fingerprint ''ssh:repeating-post-auth-probe'' (on_profile automated m) else m) p;
                p = marking (\<lambda>m. if repeats_command (snd p) i e then mark_fingerprint ''ssh:environment-fingerprint-burst'' m else m) p
            in (fst p, (snd p)\<lparr>ax_last_command := AList.update i (sk_line (sv_command e)) (ax_last_command (snd p)),
                               ax_last_command_at := AList.update i (sv_at e) (ax_last_command_at (snd p))\<rparr>)))"

definition ssh_activity :: "actorEnv \<Rightarrow> sshEvent \<Rightarrow> actorActivity" where
  "ssh_activity env e =
     \<lparr>aa_at = sv_at e, aa_protocol = ''ssh'', aa_kind = sv_type e, aa_session = sv_session e,
      aa_summary = (let summary = (if sk_line (sv_command e) \<noteq> [] then sk_line (sv_command e) else sv_message e)
                    in if summary = [] then sv_type e else summary),
      aa_path = [], aa_command = sk_line (sv_command e), aa_family = sk_family (sv_command e),
      aa_risk = sl_risk (sv_level e), aa_depth = sl_depth (sv_level e), aa_canary = Join (sv_canaries e) '','',
      aa_fingerprint = fingerprintSSH (ae_lower env) e\<rparr>"

definition applyActorSSHEvent :: "actorEnv \<Rightarrow> sshEvent list \<Rightarrow> sshSessions \<Rightarrow> sshEvent \<Rightarrow> actorStore \<Rightarrow> actorStore" where
  "applyActorSSHEvent env es ss e s =
     (if TrimSpace (sv_ip e) = [] then s
      else (let i = actorID (ae_sha env) (sv_ip e); uni = ae_lower env;
                a = addProtocol ''ssh'' (ensureActor (ae_sha env) (sv_ip e) (sv_country e) (sv_at e) s);
                p = ssh_auth uni es ss e (marking (ssh_connect es ss e) (a, s));
                p = marking (ssh_playbook env es e \<circ> ssh_commands uni es ss e) p;
                p = addActorEngagement ''ssh'' (sv_session e) (sv_at e) (ssh_evidence e (fst p), snd p);
                p = ssh_environment env es e (marking (ssh_marks env es e) p)
            in appendActorActivity (ap_id (fst p)) (ssh_activity env e) (put_actor i (fst p) (snd p))))"

end
