(* ===== verification/ActorProofs.thy ===== *)
theory ActorProofs
  imports SshActors GoLemmas
begin

text \<open>
  The actor profiles keep their bounds and their evidence: every step from a profile to the next
  is \<open>quiet\<close> (the evidence only grows, the shape stays, the clocks stand still) or an engagement, which moves
  the clocks. The collection \<open>quiet\<close> holds the steps.
\<close>

named_theorems quiet \<open>steps that keep the clocks of a profile\<close>

section \<open>Sorted names\<close>

interpretation names: row_order lex_le
  using lex_le_total by unfold_locales (auto intro: lex_le_trans)

lemma sort_strings_eq: "sort_strings xs = sort_by lex_le xs"
proof -
  have "insert_name x ys = insert_by lex_le x ys" for x ys by (induction ys) auto
  then have "insert_name = insert_by lex_le" by (simp add: fun_eq_iff)
  then show ?thesis by (simp add: sort_strings_def sort_by_def)
qed

lemma sorted_sort_strings [simp]: "sorted_wrt lex_le (sort_strings xs)"
  by (simp add: sort_strings_eq names.sorted_sort)

lemma distinct_sort_strings [simp]: "distinct (sort_strings xs) = distinct xs"
  by (simp add: sort_strings_eq)

section \<open>What a step keeps\<close>

definition grows :: "actorProfile \<Rightarrow> actorProfile \<Rightarrow> bool" where
  "grows a b \<longleftrightarrow>
     ap_id b = ap_id a \<and> ap_risk a \<le> ap_risk b \<and> ap_depth a \<le> ap_depth b \<and> class_rank (ap_class a) \<le> class_rank (ap_class b)
     \<and> (ap_actor a = ''automated'' \<longrightarrow> ap_actor b = ''automated'')
     \<and> set (ap_fingerprints a) \<subseteq> set (ap_fingerprints b) \<and> set (ap_protocols a) \<subseteq> set (ap_protocols b)"

definition names_ok :: "string list \<Rightarrow> bool" where
  "names_ok xs \<longleftrightarrow> distinct xs \<and> sorted_wrt lex_le xs"

definition behavior_ok :: "(string \<times> int) list \<Rightarrow> bool" where
  "behavior_ok rows \<longleftrightarrow> length rows \<le> maxActorBehaviorSummary \<and> distinct (map fst rows) \<and> sorted_wrt count_before rows"

definition profile_ok :: "actorProfile \<Rightarrow> bool" where
  "profile_ok a \<longleftrightarrow>
     behavior_ok (ap_behavior a) \<and> names_ok (ap_protocols a) \<and> names_ok (ap_fingerprints a)
     \<and> (\<forall>fp \<in> set (ap_fingerprints a). fp \<noteq> [] \<and> TrimSpace fp = fp)"

definition quiet_step :: "actorProfile \<Rightarrow> actorProfile \<Rightarrow> bool" where
  "quiet_step a b \<longleftrightarrow>
     grows a b \<and> (profile_ok a \<longrightarrow> profile_ok b)
     \<and> ap_http_wall b = ap_http_wall a \<and> ap_ssh_wall b = ap_ssh_wall a"

lemma quiet_refl [simp]: "quiet_step a a"
  by (simp add: quiet_step_def grows_def)

lemma quiet_trans: "quiet_step a b \<Longrightarrow> quiet_step b c \<Longrightarrow> quiet_step a c"
  by (auto simp: quiet_step_def grows_def)

lemma quiet_then: "quiet_step a b \<Longrightarrow> quiet_step b (f b) \<Longrightarrow> quiet_step a (f b)"
  by (rule quiet_trans)

text \<open>A step whose fields beside the listed ones are the same.\<close>

lemma quiet_other:
  assumes "ap_id b = ap_id a" "ap_protocols b = ap_protocols a" "ap_fingerprints b = ap_fingerprints a"
    and "ap_risk a \<le> ap_risk b" "ap_depth a \<le> ap_depth b" "class_rank (ap_class a) \<le> class_rank (ap_class b)"
    and "ap_actor a = ''automated'' \<Longrightarrow> ap_actor b = ''automated''" "behavior_ok (ap_behavior a) \<Longrightarrow> behavior_ok (ap_behavior b)"
    and "ap_http_wall b = ap_http_wall a" "ap_ssh_wall b = ap_ssh_wall a"
  shows "quiet_step a b"
  using assms by (auto simp: quiet_step_def grows_def profile_ok_def)

lemma class_rank_stronger: "class_rank a \<le> class_rank (strongerClassification a b)" "class_rank b \<le> class_rank (strongerClassification a b)"
  by (auto simp: strongerClassification_def)

lemma stronger_automated [simp]: "strongerActor ''automated'' b = ''automated''" "strongerActor a ''automated'' = ''automated''"
  by (auto simp: strongerActor_def)

section \<open>Protocols, fingerprints and behaviours\<close>

lemma quiet_protocol [quiet]: "quiet_step a (addProtocol p a)"
  by (auto simp: addProtocol_def quiet_step_def grows_def profile_ok_def names_ok_def)

lemma quiet_fingerprint: "quiet_step a (fst (addFingerprint fp a))"
  by (auto simp: addFingerprint_def quiet_step_def grows_def profile_ok_def names_ok_def Let_def)

lemma quiet_mark [quiet]: "quiet_step (fst m) (fst (mark_fingerprint fp m))"
  using quiet_fingerprint [of "fst m" fp] by (auto simp: mark_fingerprint_def split: prod.splits)

lemma count_name_keys: "count_name x rows = Some rows' \<Longrightarrow> map fst rows' = map fst rows"
  by (induction x rows arbitrary: rows' rule: count_name.induct) (auto split: if_splits)

lemma count_name_None: "count_name x rows = None \<longleftrightarrow> x \<notin> fst ` set rows"
  by (induction x rows rule: count_name.induct) auto

lemma sorted_take: "sorted_wrt le xs \<Longrightarrow> sorted_wrt le (take n xs)"
  by (metis append_take_drop_id sorted_wrt_append)

lemma bump_rows_ok: "behavior_ok rows \<Longrightarrow> behavior_ok (bump_rows x rows)"
proof (cases "count_name x rows")
  case None
  assume ok: "behavior_ok rows"
  have "distinct (map fst (sort_by count_before (rows @ [(x, 1)])))"
    using ok None by (simp add: count_name_None behavior_ok_def)
  then have "distinct (map fst (take n (sort_by count_before (rows @ [(x, 1)]))))" for n
    by (metis distinct_take take_map)
  then show ?thesis using None by (simp add: bump_rows_def behavior_ok_def sorted_take count_rows.sorted_sort)
next
  case (Some rows')
  assume "behavior_ok rows"
  then have "distinct (map fst rows')" "length rows' \<le> maxActorBehaviorSummary"
    using count_name_keys [OF Some] by (metis behavior_ok_def, metis behavior_ok_def length_map)
  then show ?thesis using Some by (simp add: bump_rows_def behavior_ok_def count_rows.sorted_sort)
qed

lemma quiet_bump [quiet]: "quiet_step a (bumpActorBehavior uni x a)"
  by (auto simp: bumpActorBehavior_def Let_def intro!: quiet_other bump_rows_ok)

lemma quiet_automated [quiet]: "quiet_step a (automated a)"
  by (rule quiet_other) (simp_all add: automated_def)

lemma quiet_on_profile [quiet]: "quiet_step (fst m) (f (fst m)) \<Longrightarrow> quiet_step (fst m) (fst (on_profile f m))"
  by (simp add: on_profile_def)

text \<open>Two marks, and a mark under a condition.\<close>

lemma quiet_if [quiet]: "quiet_step a (fst m) \<Longrightarrow> quiet_step a (fst n) \<Longrightarrow> quiet_step a (fst (if P then m else n))"
  by simp

lemma quiet_mark_on: "quiet_step a (fst m) \<Longrightarrow> quiet_step a (fst (mark_fingerprint fp m))"
  using quiet_mark quiet_trans by blast

lemma quiet_auto_on: "quiet_step a (fst m) \<Longrightarrow> quiet_step a (fst (on_profile automated m))"
  by (auto simp: on_profile_def intro: quiet_trans quiet_automated)

lemma quiet_bump_on: "quiet_step a (fst m) \<Longrightarrow> quiet_step a (fst (on_profile (bumpActorBehavior uni x) m))"
  by (auto simp: on_profile_def intro: quiet_trans quiet_bump)

lemma quiet_set_on: "quiet_step a (fst m) \<Longrightarrow> (\<And>b. quiet_step b (f b)) \<Longrightarrow> quiet_step a (fst (on_profile f m))"
  by (auto simp: on_profile_def intro: quiet_trans)

lemmas quiet_on = quiet_mark_on quiet_auto_on quiet_bump_on

lemma quiet_fold: "(\<And>x m. quiet_step (fst m) (fst (f x m))) \<Longrightarrow> quiet_step (fst m) (fst (fold f xs m))"
proof (induction xs arbitrary: m)
  case (Cons x xs)
  show ?case using quiet_trans [OF Cons.prems Cons.IH] Cons.prems by simp
qed simp

lemma fst_marking [simp]: "fst (marking f p) = fst (f (fst p, ax_fingerprints (snd p)))"
  by (simp add: marking_def split: prod.splits)

lemma quiet_marking [quiet]: "(\<And>m. quiet_step (fst m) (fst (f m))) \<Longrightarrow> quiet_step (fst p) (fst (marking f p))"
  using quiet_on_profile by (metis fst_conv fst_marking)

text \<open>The same over the store of the profiles, for the steps that keep their state beside a profile.\<close>

lemma quiet_marked: "quiet_step a (fst p) \<Longrightarrow> (\<And>m. quiet_step (fst m) (fst (f m))) \<Longrightarrow> quiet_step a (fst (marking f p))"
  using quiet_marking quiet_trans by blast

section \<open>The steps of a web event\<close>

lemma quiet_http_evidence [quiet]: "quiet_step a (http_evidence e a)"
  unfolding http_evidence_def Let_def
  by (rule quiet_trans [OF quiet_protocol [of a "''http''"]])
     (rule quiet_other, auto simp: class_rank_stronger)

lemma quiet_http_labels [quiet]: "quiet_step (fst m) (fst (http_labels env e m))"
  unfolding http_labels_def Let_def by (intro quiet_if quiet_on quiet_refl)

lemma quiet_http_chains [quiet]: "quiet_step (fst m) (fst (http_chains env es e m))"
  unfolding http_chains_def Let_def
  by (intro quiet_if quiet_on quiet_refl quiet_set_on quiet_other)
     (auto simp: class_rank_stronger automated_def)

lemma quiet_sequence_seen: "quiet_step (fst p) (fst (sequence_seen e fp p))"
  by (auto simp: sequence_seen_def Let_def intro!: quiet_mark_on)

lemma quiet_sequence [quiet]: "quiet_step (fst p) (fst (updateHTTPSequenceFingerprint env e p))"
  using quiet_sequence_seen [of "(fst p, s)" for s] by (simp add: updateHTTPSequenceFingerprint_def Let_def)

lemma quiet_agents [quiet]: "quiet_step (fst p) (fst (agent_rotation e p))"
  using quiet_mark [of "(fst p, c)" for c] by (simp add: agent_rotation_def Let_def)

lemma quiet_bots [quiet]: "quiet_step (fst p) (fst (bot_rotation env e p))"
  using quiet_mark [of "(fst p, c)" for c] by (simp add: bot_rotation_def Let_def)

section \<open>The steps of an SSH event\<close>

lemma quiet_figures: "quiet_step a (a\<lparr>ap_ssh := f\<rparr>)"
  by (rule quiet_other) simp_all

lemma quiet_connect [quiet]: "quiet_step (fst m) (fst (ssh_connect es ss e m))"
  unfolding ssh_connect_def Let_def
  by (intro quiet_if quiet_on quiet_refl quiet_set_on)
     (auto simp: raise_concurrent_def set_recurrence_def intro!: quiet_other)

lemma quiet_user: "quiet_step (fst p) (fst (see_user e p))"
  by (auto simp: see_user_def Let_def quiet_figures split: prod.splits)

lemma quiet_auth_marks: "quiet_step (fst m) (fst (ssh_auth_marks uni es ss e m))"
  unfolding ssh_auth_marks_def Let_def
  by (intro quiet_if quiet_on quiet_refl quiet_set_on)
     (auto simp: raise_attempts_def intro!: quiet_figures)

lemma quiet_auth [quiet]: "quiet_step (fst p) (fst (ssh_auth uni es ss e p))"
proof -
  have "quiet_step (fst p) (count_auth e (fst p))" by (simp add: count_auth_def quiet_figures)
  then have "quiet_step (fst p) (fst (see_user e (count_auth e (fst p), snd p)))"
    using quiet_user [of "(count_auth e (fst p), snd p)" e] by (auto intro: quiet_trans)
  then show ?thesis unfolding ssh_auth_def by (auto simp del: fst_marking intro: quiet_marked quiet_auth_marks)
qed

lemma quiet_commands [quiet]: "quiet_step (fst m) (fst (ssh_commands uni es ss e m))"
  unfolding ssh_commands_def Let_def
  by (intro quiet_if quiet_on quiet_refl quiet_set_on) (auto intro!: quiet_other)

lemma quiet_playbook [quiet]: "quiet_step (fst m) (fst (ssh_playbook env es e m))"
  unfolding ssh_playbook_def Let_def by (intro quiet_if quiet_on quiet_refl)

lemma quiet_ssh_evidence [quiet]: "quiet_step a (ssh_evidence e a)"
  by (rule quiet_other) (auto simp: ssh_evidence_def class_rank_stronger)

lemma quiet_found:
  "quiet_step a (fst m) \<Longrightarrow> quiet_step a (fst (mark_found fp m))"
  "quiet_step a (fst m) \<Longrightarrow> quiet_step a (fst (mark_automated fp m))"
  by (auto simp: mark_found_def mark_automated_def intro: quiet_on)

lemma quiet_side: "quiet_step a (fst m) \<Longrightarrow> quiet_step a (fst (fold (mark_side fp) xs m))"
  by (rule quiet_trans, assumption, rule quiet_fold) (simp add: mark_side_def Let_def quiet_mark)

lemma quiet_ssh_marks [quiet]: "quiet_step (fst m) (fst (ssh_marks env es e m))"
  unfolding ssh_marks_def Let_def by (intro quiet_found quiet_side quiet_if quiet_on quiet_refl)

lemma quiet_environment [quiet]: "quiet_step (fst p) (fst (ssh_environment env es e p))"
  by (auto simp: ssh_environment_def Let_def intro!: quiet_mark_on quiet_auto_on)

section \<open>Clocks\<close>

text \<open>Of \<open>n\<close> engagements, each of at most five minutes, the active time is at most the total.\<close>

definition clock_ok :: "int \<Rightarrow> wallClock \<Rightarrow> bool" where
  "clock_ok n w \<longleftrightarrow> 0 \<le> wc_active w \<and> wc_active w \<le> wc_total w \<and> wc_total w \<le> n * idle_gap"

definition most_engagements :: int where "most_engagements = 30000000"

lemma clock_ok_mono: "clock_ok n w \<Longrightarrow> n \<le> m \<Longrightarrow> clock_ok m w"
proof -
  assume w: "clock_ok n w" "n \<le> m"
  have "n * idle_gap \<le> m * idle_gap" using w(2) by (simp add: idle_gap_def minute_def second_def)
  then show ?thesis using w(1) unfolding clock_ok_def by linarith
qed

lemma clock_segment:
  assumes "clock_ok n w" "0 \<le> n" "n < most_engagements" "prev < at" "time_sub at prev \<le> idle_gap"
  shows "clock_ok (n + 1) (wall_segment prev at w)"
proof -
  let ?d = "time_sub at prev" and ?e = "time_sub at (wc_end w)"
  have d: "0 < ?d" "?d \<le> 300000000000"
    using assms(4,5) by (auto simp: time_sub_def max_duration_def min_duration_def idle_gap_def minute_def second_def)
  have e: "0 \<le> ?e \<and> ?e \<le> ?d" if "prev < wc_end w" "wc_end w < at"
    using that by (auto simp: time_sub_def max_duration_def min_duration_def)
  have w: "0 \<le> wc_active w" "wc_active w \<le> wc_total w" "wc_total w \<le> n * 300000000000" "n < 30000000"
    using assms(1,3) by (simp_all add: clock_ok_def idle_gap_def minute_def second_def most_engagements_def)
  have t: "wrap64 (wc_total w + ?d) = wc_total w + ?d" "wrap64 (wc_active w + ?d) = wc_active w + ?d"
    using d w by (simp_all add: wrap64_small)
  have a: "wrap64 (wc_active w + ?e) = wc_active w + ?e" if "prev < wc_end w" "wc_end w < at"
    using d w e [OF that] by (simp add: wrap64_small)
  have n: "(n + 1) * 300000000000 = n * 300000000000 + 300000000000" by simp
  show ?thesis
    using assms(1,4) d w e
    unfolding clock_ok_def wall_segment_def Let_def idle_gap_def minute_def second_def
    by (auto simp: t a n algebra_simps)
qed

definition clocks_ok :: "int \<Rightarrow> actorProfile \<Rightarrow> bool" where
  "clocks_ok n a \<longleftrightarrow> clock_ok n (ap_http_wall a) \<and> clock_ok n (ap_ssh_wall a)"

text \<open>A whole operation: it has at most one engagement.\<close>

definition later :: "actorProfile \<Rightarrow> actorProfile \<Rightarrow> bool" where
  "later a b \<longleftrightarrow>
     grows a b \<and> (profile_ok a \<longrightarrow> profile_ok b) \<and> (\<forall>n. 0 \<le> n \<and> n < most_engagements \<and> clocks_ok n a \<longrightarrow> clocks_ok (n + 1) b)"

lemma quiet_later: "quiet_step a b \<Longrightarrow> later a b"
  unfolding quiet_step_def later_def clocks_ok_def using clock_ok_mono by (metis less_add_one less_imp_le)

lemma later_quiet: "later a b \<Longrightarrow> quiet_step b c \<Longrightarrow> later a c"
  by (auto simp: later_def quiet_step_def grows_def clocks_ok_def)

lemma quiet_then_later: "quiet_step a b \<Longrightarrow> later b c \<Longrightarrow> later a c"
  by (auto simp: later_def quiet_step_def grows_def clocks_ok_def)

lemma later_segment:
  assumes "prev < at" "time_sub at prev \<le> idle_gap"
  shows "later a (addActorWallSegment protocol prev at (a\<lparr>ap_engagement := e\<rparr>))"
proof -
  have "clocks_ok (n + 1) (addActorWallSegment protocol prev at (a\<lparr>ap_engagement := e\<rparr>))"
    if "0 \<le> n" "n < most_engagements" "clocks_ok n a" for n
    using that clock_segment [OF _ that(1,2) assms] clock_ok_mono [of n _ "n + 1"]
    by (auto simp: clocks_ok_def addActorWallSegment_def)
  moreover have "grows a (addActorWallSegment protocol prev at (a\<lparr>ap_engagement := e\<rparr>))"
    by (simp add: grows_def addActorWallSegment_def)
  moreover have "profile_ok a \<longrightarrow> profile_ok (addActorWallSegment protocol prev at (a\<lparr>ap_engagement := e\<rparr>))"
    by (simp add: profile_ok_def addActorWallSegment_def)
  ultimately show ?thesis by (simp add: later_def)
qed

lemma later_refl [simp]: "later a a"
  by (simp add: quiet_later)

lemma later_engagement: "later (fst p) (fst (addActorEngagement protocol activity at p))"
proof -
  have "later (fst p) (fst (engage protocol prev at p))" for prev
    by (auto simp: engage_def Let_def intro: later_segment split: prod.splits)
  then show ?thesis
    by (auto simp: addActorEngagement_def Let_def split: option.splits prod.splits) (metis fst_conv)+
qed

lemmas later_engage = later_engagement [of "(a, s)" for a s, unfolded fst_conv]

lemma quiet_seen: "grows a (seen_actor ip country at a)" "quiet_step a (seen_actor ip country at a)"
  by (auto simp: seen_actor_def grows_def quiet_step_def profile_ok_def)

section \<open>The bounds of the store\<close>

definition rows_within :: "nat \<Rightarrow> (string, 'r list) gomap \<Rightarrow> bool" where
  "rows_within n m \<longleftrightarrow> (\<forall>p \<in> set m. length (snd p) \<le> n)"

lemma rows_within_update: "rows_within n m \<Longrightarrow> length rows \<le> n \<Longrightarrow> rows_within n (AList.update k rows m)"
  using set_update [of k rows m] by (auto simp: rows_within_def)

lemma rows_within_lookup: "rows_within n m \<Longrightarrow> length (lookup_or [] m k) \<le> n"
  by (fastforce simp: rows_within_def lookup_or_def split: option.splits dest: map_of_SomeD)

definition lists_ok :: "actorStore \<Rightarrow> bool" where
  "lists_ok s \<longleftrightarrow>
     rows_within maxActorTimeline (ax_timeline s) \<and> rows_within sequence_length (ax_sequences s)
     \<and> rows_within max_sightings (ax_sightings s) \<and> length (ax_intel s) \<le> maxIntelRing"

definition keeps :: "actorStore \<Rightarrow> actorStore \<Rightarrow> bool" where
  "keeps s t \<longleftrightarrow> ax_actors t = ax_actors s \<and> (lists_ok s \<longrightarrow> lists_ok t)"

lemma keeps_refl [simp]: "keeps s s" by (simp add: keeps_def)

lemma keeps_trans: "keeps s t \<Longrightarrow> keeps t u \<Longrightarrow> keeps s u" by (simp add: keeps_def)

lemma keeps_other [simp]:
  "keeps s (s\<lparr>ax_fingerprints := c\<rparr>)" "keeps s (s\<lparr>ax_session_last := l\<rparr>)" "keeps s (s\<lparr>ax_engagement := g\<rparr>)"
  "keeps s (s\<lparr>ax_agents := u\<rparr>)" "keeps s (s\<lparr>ax_claims := b\<rparr>)" "keeps s (s\<lparr>ax_users := n\<rparr>)"
  "keeps s (s\<lparr>ax_last_command := d, ax_last_command_at := t\<rparr>)"
  by (simp_all add: keeps_def lists_ok_def)

lemma keeps_marking [simp]: "keeps (snd p) (snd (marking f p))"
  by (simp add: marking_def split: prod.splits)

lemma keeps_engagement: "keeps (snd p) (snd (addActorEngagement protocol activity at p))"
proof -
  have e: "keeps (snd p) (snd (engage protocol prev at p))" for prev
    by (simp add: engage_def Let_def split: prod.splits)
  have "keeps (snd p) ((snd (engage protocol prev at p))\<lparr>ax_session_last := l\<rparr>)" for prev l
    using e [of prev] by (simp add: keeps_def lists_ok_def)
  then show ?thesis using e
    by (auto simp: addActorEngagement_def Let_def split: option.splits prod.splits) (metis snd_conv)+
qed

lemma keeps_sequence_seen: "keeps (snd p) (snd (sequence_seen e fp p))"
proof -
  have "keeps s (s\<lparr>ax_sightings := AList.update fp (push_last max_sightings x rows) (ax_sightings s)\<rparr>)" for s x rows
    by (auto simp: keeps_def lists_ok_def length_push_last intro!: rows_within_update)
  then have "keeps s (snd (marking f (a, s\<lparr>ax_sightings := AList.update fp (push_last max_sightings x rows) (ax_sightings s)\<rparr>)))"
    for f a s x rows
    using keeps_trans [OF _ keeps_marking [of "(a, t)" f for t, unfolded snd_conv]] by blast
  then show ?thesis unfolding sequence_seen_def Let_def by (rule keeps_trans [OF keeps_marking])
qed

lemma keeps_sequence: "keeps (snd p) (snd (updateHTTPSequenceFingerprint env e p))"
proof -
  let ?steps = "lookup_or [] (ax_sequences (snd p)) (ev_session e)"
  have *: "keeps (snd p) ((snd p)\<lparr>ax_sequences := AList.update (ev_session e) (?steps @ [x]) (ax_sequences (snd p))\<rparr>)"
    if "length ?steps < sequence_length" for x
    using that by (auto simp: keeps_def lists_ok_def intro!: rows_within_update)
  have "keeps (snd p) (snd (sequence_seen e fp (fst p, (snd p)\<lparr>ax_sequences := AList.update (ev_session e) (?steps @ [x]) (ax_sequences (snd p))\<rparr>)))"
    if "length ?steps < sequence_length" for x fp
    using keeps_trans [OF * [OF that] keeps_sequence_seen [of "(fst p, t)" for t, unfolded snd_conv]] .
  then show ?thesis
    using * keeps_sequence_seen [of p] by (auto simp: updateHTTPSequenceFingerprint_def Let_def)
qed

lemma keeps_rotation: "keeps (snd p) (snd (agent_rotation e p))" "keeps (snd p) (snd (bot_rotation env e p))"
proof -
  have "keeps s (snd (marking f (a, s\<lparr>ax_agents := u\<rparr>)))" "keeps s (snd (marking f (a, s\<lparr>ax_claims := b\<rparr>)))" for f a s u b
    by (simp_all add: marking_def keeps_def lists_ok_def split: prod.splits)
  then show "keeps (snd p) (snd (agent_rotation e p))" "keeps (snd p) (snd (bot_rotation env e p))"
    by (simp_all add: agent_rotation_def bot_rotation_def Let_def)
qed

lemma keeps_auth: "keeps (snd p) (snd (ssh_auth uni es ss e p))"
proof -
  have u: "keeps (snd q) (snd (see_user e q))" for q
    by (auto simp: see_user_def Let_def split: prod.splits)
  show ?thesis unfolding ssh_auth_def
    using keeps_trans [OF u [of "(count_auth e (fst p), snd p)"] keeps_marking] by simp
qed

lemma keeps_environment: "keeps (snd p) (snd (ssh_environment env es e p))"
proof -
  have "keeps (snd p) ((snd (marking f (marking g p)))\<lparr>ax_last_command := d, ax_last_command_at := t\<rparr>)" for f g d t
    by (simp add: marking_def keeps_def lists_ok_def split: prod.splits)
  then show ?thesis by (simp add: ssh_environment_def Let_def)
qed

section \<open>Operations\<close>

text \<open>An operation changes the profile of one address, old or new.\<close>

definition own_only :: "string \<Rightarrow> actorStore \<Rightarrow> actorStore \<Rightarrow> bool" where
  "own_only i s t \<longleftrightarrow>
     (\<exists>a b. ax_actors t = AList.update i b (ax_actors s) \<and> later a b
        \<and> (map_of (ax_actors s) i = Some a \<or> (map_of (ax_actors s) i = None \<and> (\<exists>ip country at. a = new_actor i ip country at))))
     \<and> (lists_ok s \<longrightarrow> lists_ok t)"

lemma own_onlyI:
  assumes "later (ensureActor sha ip country at s) b" "keeps s t" "i = actorID sha ip"
  shows "own_only i s (put_actor i b t)"
proof -
  let ?a = "lookup_or (new_actor i ip country at) (ax_actors s) i"
  have "later ?a b"
    using assms(1,3) quiet_then_later [OF quiet_seen(2)] by (simp add: ensureActor_def Let_def)
  then show ?thesis
    using assms(2) unfolding own_only_def put_actor_def keeps_def lookup_or_def
    by (cases "map_of (ax_actors s) i") (force simp: lists_ok_def)+
qed

lemma own_only_activity: "own_only i s t \<Longrightarrow> own_only i s (appendActorActivity j item t)"
  by (auto simp: own_only_def appendActorActivity_def lists_ok_def length_push_last intro!: rows_within_update)

lemma own_only_put_last:
  assumes "later a (fst p)" "keeps s (snd p)" "a = ensureActor sha ip country at s" "i = actorID sha ip"
  shows "own_only i s (appendActorActivity j item (put_actor i (fst p) (snd p)))"
  using assms by (auto intro: own_only_activity own_onlyI)

lemma web_steps:
  fixes env e es a s
  defines "u \<equiv> addActorEngagement ''http'' (activity_id e) (ev_at e) (http_evidence e a, s)"
  defines "p \<equiv> bot_rotation env e (agent_rotation e (marking (http_chains env es e)
     (updateHTTPSequenceFingerprint env e (marking (http_labels env e) u))))"
  shows "later (http_evidence e a) (fst p)" and "keeps s (snd p)"
proof -
  have "quiet_step (fst u) (fst p)" unfolding p_def
    by (rule quiet_trans [OF _ quiet_bots], rule quiet_trans [OF _ quiet_agents],
        rule quiet_trans [OF _ quiet_marking [OF quiet_http_chains]], rule quiet_trans [OF _ quiet_sequence],
        rule quiet_marking [OF quiet_http_labels])
  then show "later (http_evidence e a) (fst p)" unfolding u_def by (rule later_quiet [OF later_engage])
  show "keeps s (snd p)" unfolding p_def u_def
    by (rule keeps_trans [OF _ keeps_rotation(2)], rule keeps_trans [OF _ keeps_rotation(1)], rule keeps_trans [OF _ keeps_marking],
        rule keeps_trans [OF _ keeps_sequence], rule keeps_trans [OF _ keeps_marking],
        rule keeps_engagement [of "(b, s)" for b, unfolded snd_conv])
qed

lemma touched_web:
  "own_only (actorID (ae_sha env) (ev_ip e)) s (applyActorHTTPEvent env es e s) \<or> applyActorHTTPEvent env es e s = s"
proof -
  let ?a = "ensureActor (ae_sha env) (ev_ip e) (eo_country (ev_origin e)) (ev_at e) s"
  let ?p = "bot_rotation env e (agent_rotation e (marking (http_chains env es e) (updateHTTPSequenceFingerprint env e
     (marking (http_labels env e) (addActorEngagement ''http'' (activity_id e) (ev_at e) (http_evidence e ?a, s))))))"
  have "own_only (actorID (ae_sha env) (ev_ip e)) s (appendActorActivity (ap_id (fst ?p)) (http_activity env e)
      (put_actor (actorID (ae_sha env) (ev_ip e)) (fst ?p) (snd ?p)))"
    by (rule own_only_put_last [OF quiet_then_later [OF quiet_http_evidence web_steps(1)] web_steps(2) refl refl])
  moreover have "own_only (actorID (ae_sha env) (ev_ip e)) s
      (put_actor (actorID (ae_sha env) (ev_ip e)) (?a\<lparr>ap_self_requests := wrap64 (ap_self_requests ?a + 1)\<rparr>) s)"
    by (rule own_onlyI [OF quiet_later keeps_refl refl], rule quiet_other) simp_all
  ultimately show ?thesis by (simp add: applyActorHTTPEvent_def Let_def)
qed

text \<open>What a request shows, its profile has.\<close>

lemma web_profile:
  assumes "TrimSpace (ev_ip e) \<noteq> []" "\<not> eo_self_origin (ev_origin e)"
  obtains a where "map_of (ax_actors (applyActorHTTPEvent env es e s)) (actorID (ae_sha env) (ev_ip e)) = Some a"
    "grows (http_evidence e (ensureActor (ae_sha env) (ev_ip e) (eo_country (ev_origin e)) (ev_at e) s)) a"
proof -
  let ?a = "ensureActor (ae_sha env) (ev_ip e) (eo_country (ev_origin e)) (ev_at e) s"
  let ?p = "bot_rotation env e (agent_rotation e (marking (http_chains env es e) (updateHTTPSequenceFingerprint env e
     (marking (http_labels env e) (addActorEngagement ''http'' (activity_id e) (ev_at e) (http_evidence e ?a, s))))))"
  have "map_of (ax_actors (applyActorHTTPEvent env es e s)) (actorID (ae_sha env) (ev_ip e)) = Some (fst ?p)"
    using assms by (simp add: applyActorHTTPEvent_def Let_def appendActorActivity_def put_actor_def gomap)
  moreover have "grows (http_evidence e ?a) (fst ?p)" using web_steps(1) by (simp only: later_def)
  ultimately show ?thesis by (rule that)
qed

lemma quiet_both: "quiet_step (fst m) (fst ((ssh_playbook env es e \<circ> ssh_commands uni es ss e) m))"
  by (simp only: comp_apply, rule quiet_trans [OF quiet_commands quiet_playbook])

lemma touched_ssh:
  "own_only (actorID (ae_sha env) (sv_ip e)) s (applyActorSSHEvent env es ss e s) \<or> applyActorSSHEvent env es ss e s = s"
proof -
  let ?a = "ensureActor (ae_sha env) (sv_ip e) (sv_country e) (sv_at e) s" and ?uni = "ae_lower env"
  let ?u = "ssh_auth ?uni es ss e (marking (ssh_connect es ss e) (addProtocol ''ssh'' ?a, s))"
  let ?v = "marking (ssh_playbook env es e \<circ> ssh_commands ?uni es ss e) ?u"
  let ?w = "addActorEngagement ''ssh'' (sv_session e) (sv_at e) (ssh_evidence e (fst ?v), snd ?v)"
  let ?p = "ssh_environment env es e (marking (ssh_marks env es e) ?w)"
  have q0: "quiet_step ?a (fst ?u)"
    by (rule quiet_trans [OF _ quiet_auth], rule quiet_marked [OF _ quiet_connect]) (simp add: quiet_protocol)
  have q1: "quiet_step (fst ?u) (fst ?v)"
    by (rule quiet_marking [OF quiet_both])
  have l2: "later (fst ?v) (fst ?w)"
    by (rule quiet_then_later [OF quiet_ssh_evidence later_engage])
  have q2: "quiet_step (fst ?w) (fst ?p)"
    by (rule quiet_trans [OF _ quiet_environment], rule quiet_marking [OF quiet_ssh_marks])
  have k: "keeps s (snd ?p)"
  proof -
    have "keeps s (snd ?v)"
      by (rule keeps_trans [OF _ keeps_marking], rule keeps_trans [OF _ keeps_auth],
          rule keeps_marking [of "(b, s)" for b, unfolded snd_conv])
    then have "keeps s (snd ?w)"
      using keeps_trans keeps_engagement [of "(b, snd ?v)" for b, unfolded snd_conv] by blast
    then show ?thesis by (rule keeps_trans [OF keeps_trans [OF _ keeps_marking] keeps_environment])
  qed
  have "own_only (actorID (ae_sha env) (sv_ip e)) s
      (appendActorActivity (ap_id (fst ?p)) (ssh_activity env e) (put_actor (actorID (ae_sha env) (sv_ip e)) (fst ?p) (snd ?p)))"
    by (rule own_only_put_last [OF later_quiet [OF quiet_then_later [OF quiet_trans [OF q0 q1] l2] q2] k refl refl])
  then show ?thesis by (simp add: applyActorSSHEvent_def Let_def)
qed

lemma touched_promote: "own_only (actorID (ae_sha env) ip) s (promote_actor env now ip s)"
  unfolding promote_actor_def by (rule own_onlyI [OF quiet_later [OF quiet_automated] keeps_refl refl])

lemma quiet_label: "quiet_step (fst m) (fst (mark_label env fp m))"
  unfolding mark_label_def Let_def by (intro quiet_if quiet_on quiet_refl)

lemma touched_labels: "own_only (actorID (ae_sha env) ip) s (mark_labels env now ip fps s)"
proof -
  let ?q = "marking (fold (mark_label env) fps) (ensureActor (ae_sha env) ip [] now s, s)"
  have "quiet_step (ensureActor (ae_sha env) ip [] now s) (fst ?q)"
    using quiet_marking [OF quiet_fold [of "mark_label env", OF quiet_label], of "(ensureActor (ae_sha env) ip [] now s, s)"] by simp
  moreover have "keeps s (snd ?q)" using keeps_marking [of "(b, s)" for b] by simp
  ultimately show ?thesis
    unfolding mark_labels_def using own_onlyI [OF quiet_later _ refl] by (simp add: case_prod_beta)
qed

lemma touched_intel: "own_only (actorID (ae_sha env) (is_ip e)) s (applyIntel env e s)"
  unfolding applyIntel_def Let_def
  by (rule own_only_activity, rule own_onlyI [OF quiet_later keeps_refl refl], rule quiet_other) simp_all

section \<open>Runs\<close>

text \<open>Everything that changes the profiles, with the logs and the sessions as they are at that moment.\<close>

datatype actorOp =
    Web_Seen "webEvent list" webEvent
  | Ssh_Seen "sshEvent list" sshSessions sshEvent
  | Signal_Seen "bool option" intelSignal
  | Promoted gotime string
  | Labelled gotime string "string list"
  | Sessions_Dropped "string list"

fun actor_op :: "actorEnv \<Rightarrow> actorOp \<Rightarrow> actorStore \<Rightarrow> actorStore" where
  "actor_op env (Web_Seen es e) s = applyActorHTTPEvent env es e s"
| "actor_op env (Ssh_Seen es ss e) s = applyActorSSHEvent env es ss e s"
| "actor_op env (Signal_Seen log e) s = fst (AddIntelSignal env log e s)"
| "actor_op env (Promoted now ip) s = promote_actor env now ip s"
| "actor_op env (Labelled now ip fps) s = mark_labels env now ip fps s"
| "actor_op env (Sessions_Dropped dead) s = drop_sequences dead s"

lemma touched_after_keeps: "keeps s t \<Longrightarrow> own_only i t u \<Longrightarrow> own_only i s u"
  by (simp add: own_only_def keeps_def)

lemma drop_keeps: "keeps s (drop_sequences dead s)"
proof -
  have "rows_within n m \<Longrightarrow> rows_within n (fold AList.delete dead m)" for n and m :: "(string, string list) gomap"
    using set_delete by (induction dead arbitrary: m) (fastforce simp: rows_within_def)+
  then show ?thesis by (simp add: drop_sequences_def keeps_def lists_ok_def)
qed

lemma signal_step: "(\<exists>i. own_only i s (fst (AddIntelSignal env log e s))) \<or> fst (AddIntelSignal env log e s) = s"
proof -
  have "keeps s (push_signal x s')" if "keeps s s'" for x s'
    using that by (auto simp: push_signal_def keeps_def lists_ok_def length_push_last)
  moreover have "keeps s (s\<lparr>ax_intel_file := f\<rparr>)" for f by (simp add: keeps_def lists_ok_def)
  ultimately have "\<exists>i. own_only i s (applyIntel env x (push_signal x s))"
      "\<exists>i. own_only i s (applyIntel env x (push_signal x (s\<lparr>ax_intel_file := f\<rparr>)))" for x f
    using touched_after_keeps [OF _ touched_intel] keeps_refl by blast+
  then show ?thesis unfolding AddIntelSignal_def Let_def by (simp split: if_splits)
qed

lemma actor_op_cases: "(\<exists>i. own_only i s (actor_op env op s)) \<or> keeps s (actor_op env op s)"
proof (cases op)
  case (Web_Seen es e)
  then show ?thesis using touched_web [of env e s es] by auto
next
  case (Ssh_Seen es ss e)
  then show ?thesis using touched_ssh [of env e s es ss] by auto
next
  case (Signal_Seen log e)
  then show ?thesis using signal_step [of s env log e] by auto
qed (auto intro: touched_promote touched_labels drop_keeps)

definition shape_ok :: "actorStore \<Rightarrow> bool" where
  "shape_ok s \<longleftrightarrow> (\<forall>i a. map_of (ax_actors s) i = Some a \<longrightarrow> ap_id a = i \<and> profile_ok a) \<and> lists_ok s"

lemma new_actor_ok: "profile_ok (new_actor i ip country at)" "clocks_ok 0 (new_actor i ip country at)" "ap_id (new_actor i ip country at) = i"
  by (simp_all add: new_actor_def profile_ok_def behavior_ok_def names_ok_def clocks_ok_def clock_ok_def new_clock_def)

lemma op_shape: "shape_ok s \<Longrightarrow> shape_ok (actor_op env op s)"
  using actor_op_cases [of s env op] new_actor_ok
  by (auto simp: shape_ok_def own_only_def keeps_def later_def grows_def gomap split: if_splits)

lemma op_clocks:
  assumes "\<forall>i a. map_of (ax_actors s) i = Some a \<longrightarrow> clocks_ok n a" "0 \<le> n" "n < most_engagements"
    and "map_of (ax_actors (actor_op env op s)) i = Some b"
  shows "clocks_ok (n + 1) b"
proof -
  have up: "clocks_ok m a \<Longrightarrow> m \<le> k \<Longrightarrow> clocks_ok k a" for m k a
    using clock_ok_mono by (auto simp: clocks_ok_def)
  consider j where "own_only j s (actor_op env op s)" | "keeps s (actor_op env op s)" using actor_op_cases by blast
  then show ?thesis
  proof cases
    case (1 j)
    then obtain a c where c: "ax_actors (actor_op env op s) = AList.update j c (ax_actors s)" "later a c"
      and a: "map_of (ax_actors s) j = Some a \<or> (\<exists>ip country at. a = new_actor j ip country at)"
      unfolding own_only_def by blast
    have "clocks_ok n a" using a assms(1,2) up [OF new_actor_ok(2)] by blast
    then have "clocks_ok (n + 1) c" using c(2) assms(2,3) by (simp add: later_def)
    then show ?thesis using assms(1,4) c(1) up [of n b "n + 1"] by (auto simp: gomap split: if_splits)
  next
    case 2
    then show ?thesis using assms(1,4) up [of n b "n + 1"] by (simp add: keeps_def)
  qed
qed

lemma op_grows: "map_of (ax_actors s) i = Some a \<Longrightarrow> \<exists>b. map_of (ax_actors (actor_op env op s)) i = Some b \<and> grows a b"
proof -
  have "grows a a" by (simp add: grows_def)
  then show "map_of (ax_actors s) i = Some a \<Longrightarrow> \<exists>b. map_of (ax_actors (actor_op env op s)) i = Some b \<and> grows a b"
    using actor_op_cases [of s env op] by (auto simp: own_only_def keeps_def later_def gomap)
qed

lemma grows_trans: "grows a b \<Longrightarrow> grows b c \<Longrightarrow> grows a c"
  by (auto simp: grows_def)

text \<open>C2: What is known of an address is never lost: whatever happens after (web events, SSH events, signals,
  promotions, labels, dropped sessions), the profile stays under its id, its risk, its depth and the rank of
  its class do not fall, what was automated stays automated, and no fingerprint and no protocol goes.
\<close>

theorem evidence_is_kept:
  assumes "map_of (ax_actors s) i = Some a"
  shows "\<exists>b. map_of (ax_actors (fold (actor_op env) ops s)) i = Some b \<and> grows a b"
  using assms
proof (induction ops arbitrary: s a)
  case (Cons op ops)
  obtain b where b: "map_of (ax_actors (actor_op env op s)) i = Some b" "grows a b" using op_grows [OF Cons.prems] by blast
  show ?case using Cons.IH [OF b(1)] grows_trans [OF b(2)] by auto
qed (simp add: grows_def)

text \<open>C11: After any operations on a new store every profile has its id, at most 24 behaviours with distinct names in
  the order of the page, sorted distinct protocols and fingerprints, none blank or padded; no timeline has more
  than 240 rows, no sequence more than 12 steps, no fingerprint more than 64 sightings, and the ring of signals
  at most 3000.
\<close>

theorem profiles_bounded: "shape_ok (fold (actor_op env) ops (empty_actors log))"
proof -
  have "shape_ok s \<Longrightarrow> shape_ok (fold (actor_op env) ops s)" for s
    by (induction ops arbitrary: s) (simp_all add: op_shape)
  moreover have "shape_ok (empty_actors log)" by (simp add: shape_ok_def empty_actors_def lists_ok_def rows_within_def)
  ultimately show ?thesis by blast
qed

text \<open>C12: After at most thirty million operations on a new store, the active time of each protocol of a profile is
  between zero and the total of its activity: overlapping sessions are not counted twice, idle gaps of more
  than five minutes are not counted, and no sum overflows.
\<close>

theorem active_within_total:
  assumes "int (length ops) \<le> most_engagements"
    and "map_of (ax_actors (fold (actor_op env) ops (empty_actors log))) i = Some a"
    and "w = ap_http_wall a \<or> w = ap_ssh_wall a"
  shows "0 \<le> wc_active w \<and> wc_active w \<le> wc_total w \<and> wc_total w \<le> int (length ops) * (5 * minute)"
proof -
  have "map_of (ax_actors (fold (actor_op env) ops s)) i = Some a \<Longrightarrow> clocks_ok (n + int (length ops)) a"
    if "\<forall>i a. map_of (ax_actors s) i = Some a \<longrightarrow> clocks_ok n a" "0 \<le> n" "n + int (length ops) \<le> most_engagements" for s n
    using that
  proof (induction ops arbitrary: s n)
    case (Cons op ops)
    have "\<forall>i a. map_of (ax_actors (actor_op env op s)) i = Some a \<longrightarrow> clocks_ok (n + 1) a"
      using op_clocks [of s n env op] Cons.prems(2-4) by simp
    then show ?case using Cons.IH [of "actor_op env op s" "n + 1"] Cons.prems by (simp add: algebra_simps)
  qed simp
  from this [of "empty_actors log" 0] have "clocks_ok (int (length ops)) a"
    using assms(1,2) by (simp add: empty_actors_def)
  then show ?thesis using assms(3) by (auto simp: clocks_ok_def clock_ok_def idle_gap_def)
qed

section \<open>Concrete runs\<close>

definition plain_actor_env :: actorEnv where
  "plain_actor_env = \<lparr>ae_sha = (\<lambda>s. s @ replicate 32 (CHR 0x00)), ae_lower = (\<lambda>s. s), ae_upper = (\<lambda>s. s)\<rparr>"

abbreviation "some_actor \<equiv> (new_actor ''actor-1'' ''10.0.0.1'' [] 5)\<lparr>ap_risk := 90, ap_class := ''hostile''\<rparr>"
abbreviation "seen_sweep \<equiv> [Promoted 9 ''10.0.0.1'', Labelled 9 ''10.0.0.1'' [''http:config-hunter'']]"

theorem evidence_is_kept_witness:
  "\<exists>b. map_of (ax_actors (fold (actor_op plain_actor_env) seen_sweep (put_actor ''actor-1'' some_actor (empty_actors [])))) ''actor-1'' = Some b
     \<and> grows some_actor b"
  by (rule evidence_is_kept) (simp add: put_actor_def empty_actors_def)

theorem active_within_total_witness:
  "\<exists>a. map_of (ax_actors (fold (actor_op plain_actor_env) [Promoted 9 ''10.0.0.1''] (empty_actors []))) (actorID (ae_sha plain_actor_env) ''10.0.0.1'') = Some a
     \<and> wc_active (ap_http_wall a) \<le> wc_total (ap_http_wall a)"
proof -
  let ?ops = "[Promoted 9 ''10.0.0.1'']" and ?i = "actorID (ae_sha plain_actor_env) ''10.0.0.1''"
  obtain a where a: "map_of (ax_actors (fold (actor_op plain_actor_env) ?ops (empty_actors []))) ?i = Some a"
    by (simp add: promote_actor_def put_actor_def gomap)
  have "int (length ?ops) \<le> most_engagements" by (simp add: most_engagements_def)
  then show ?thesis using active_within_total [OF _ a disjI1 [OF refl]] a by blast
qed

end
