(* ===== verification/SshStore.thy ===== *)
theory SshStore
  imports SshActors
begin

text \<open>
  The store of SSH events (\<open>internal/store/ssh.go\<close>, the SSH part of \<open>activity.go\<close>) and the highlights
  (\<open>ssh_highlights.go\<close>): the ring of events, the sessions and the counters, the pages that read them, and
  the log with its replay at start. The whole store pairs it with the web events, whose profiles, daily
  activity and subscribers an SSH event changes too.
\<close>

section \<open>State\<close>

record highlightState =
  hi_accepted :: gotime
  hi_first :: gotime
  hi_last :: gotime
  hi_commands :: int
  hi_families :: "string list"
  hi_signals :: "string list"

record sshHighlight =
  hl_session :: string
  hl_at :: gotime
  hl_last :: gotime
  hl_ip :: string
  hl_country :: string
  hl_user :: string
  hl_score :: int
  hl_rating :: string
  hl_title :: string
  hl_reason :: string
  hl_tags :: "string list"
  hl_commands :: int
  hl_duration :: int
  hl_depth :: int
  hl_signals :: "string list"

text \<open>Counters in all and per day, and the names counted.\<close>

record sshCounts =
  ct_connections :: int
  ct_attempts :: int
  ct_shells :: int
  ct_commands :: int
  ct_day_connections :: "(string, int) gomap"
  ct_day_auth :: "(string, int) gomap"
  ct_day_shells :: "(string, int) gomap"
  ct_day_commands :: "(string, int) gomap"
  ct_countries :: "(string, int) gomap"
  ct_policies :: "(string, int) gomap"
  ct_users :: "(string, int) gomap"
  ct_clients :: "(string, int) gomap"
  ct_names :: "(string, int) gomap"
  ct_families :: "(string, int) gomap"

record sshStore =
  sh_events :: "sshEvent list"
  sh_sessions :: sshSessions
  sh_counts :: sshCounts
  sh_hours :: "(int, int) gomap"
  sh_states :: "(string, highlightState) gomap"
  sh_history :: "(string, sshHighlight) gomap"
  sh_file :: "sshEvent option list"

record fullStore =
  fs_web :: "actorStore eventStore"
  fs_ssh :: sshStore

definition no_counts :: sshCounts where
  "no_counts =
     \<lparr>ct_connections = 0, ct_attempts = 0, ct_shells = 0, ct_commands = 0, ct_day_connections = [], ct_day_auth = [],
      ct_day_shells = [], ct_day_commands = [], ct_countries = [], ct_policies = [], ct_users = [], ct_clients = [],
      ct_names = [], ct_families = []\<rparr>"

definition empty_ssh :: "sshEvent option list \<Rightarrow> sshStore" where
  "empty_ssh log = \<lparr>sh_events = [], sh_sessions = [], sh_counts = no_counts, sh_hours = [], sh_states = [], sh_history = [], sh_file = log\<rparr>"

section \<open>Highlights\<close>

definition sshHighlightMinScore :: int where "sshHighlightMinScore = 50"

definition newSSHHighlightState :: highlightState where
  "newSSHHighlightState = \<lparr>hi_accepted = 0, hi_first = 0, hi_last = 0, hi_commands = 0, hi_families = [], hi_signals = []\<rparr>"

definition highlight_signals :: "(string \<Rightarrow> string) \<Rightarrow> sshEvent \<Rightarrow> string list" where
  "highlight_signals uni e =
     (let fp = ToLower uni (sv_fingerprint e); cmd = ToLower uni (sk_line (sv_command e));
          fam = ToLower uni (sk_family (sv_command e)); canary = sv_canaries e \<noteq> [] in
      map fst (List.filter snd
        [(''privilege'', Contains fp ''privilege'' \<or> fam = ''privilege'' \<or> Contains cmd ''sudo -l''),
         (''resource-hijack'', Contains fp ''resource-hijack''),
         (''persistence'', Contains fp ''persistence'' \<or> fam = ''persistence'' \<or> (Contains cmd ''crontab'' \<and> \<not> Contains cmd ''crontab -r'')),
         (''payload-staging'', 0 < sy_bytes (sv_payload e) \<or> Contains fp ''staged-payload'' \<or> Contains cmd ''cat >'' \<or> Contains cmd ''cat  >''),
         (''process-control'', Contains fp ''process-killer'' \<or> HasPrefix (TrimSpace cmd) ''kill '' \<or> Contains cmd ''pkill '' \<or> Contains cmd ''killall ''),
         (''control-flow'', Contains fp ''shell-control-flow'' \<or> Contains cmd ''if '' \<or> Contains cmd ''for ''),
         (''credentials'', fam = ''credentials'' \<or> Contains (sl_persona (sv_level e)) ''credential'' \<or> canary),
         (''canary'', canary),
         (''miner'', Contains fp ''cryptominer'' \<or> Contains cmd ''xmrig'' \<or> Contains cmd ''cnrig'')]))"

definition command_seen :: "sshEvent \<Rightarrow> highlightState \<Rightarrow> highlightState" where
  "command_seen e st =
     (if \<not> ran_command e then st
      else st\<lparr>hi_commands := wrap64 (hi_commands st + 1),
              hi_first := (if hi_first st = 0 \<or> sv_at e < hi_first st then sv_at e else hi_first st),
              hi_last := (if hi_last st = 0 \<or> hi_last st < sv_at e then sv_at e else hi_last st),
              hi_families := (if sk_family (sv_command e) \<noteq> [] then List.insert (sk_family (sv_command e)) (hi_families st) else hi_families st)\<rparr>)"

definition highlight_apply :: "(string \<Rightarrow> string) \<Rightarrow> sshEvent \<Rightarrow> highlightState \<Rightarrow> highlightState" where
  "highlight_apply uni e st0 =
     (let st = (if sv_type e = ''auth'' \<and> sa_accepted (sv_auth e) \<and> hi_accepted st0 = 0 then st0\<lparr>hi_accepted := sv_at e\<rparr> else st0) in
      if hi_accepted st = 0 \<or> sv_at e < hi_accepted st then st
      else (let st = command_seen e st in st\<lparr>hi_signals := fold List.insert (highlight_signals uni e) (hi_signals st)\<rparr>))"

definition updateSSHHighlightState :: "(string \<Rightarrow> string) \<Rightarrow> sshEvent \<Rightarrow> sshStore \<Rightarrow> sshStore" where
  "updateSSHHighlightState uni e s =
     s\<lparr>sh_states := AList.update (sv_session e) (highlight_apply uni e (lookup_or newSSHHighlightState (sh_states s) (sv_session e))) (sh_states s)\<rparr>"

definition scripted_recon :: "highlightState \<Rightarrow> bool" where
  "scripted_recon st \<longleftrightarrow>
     10 \<le> hi_commands st \<and> 3 \<le> length (hi_families st) \<and> hi_first st \<noteq> 0 \<and> hi_last st \<noteq> 0
     \<and> 0 \<le> time_sub (hi_last st) (hi_first st) \<and> time_sub (hi_last st) (hi_first st) \<le> 30 * second"

definition mark_scripted :: "highlightState \<Rightarrow> highlightState" where
  "mark_scripted st = (if scripted_recon st then st\<lparr>hi_signals := List.insert ''scripted-recon'' (hi_signals st)\<rparr> else st)"

definition has_signal :: "highlightState \<Rightarrow> string \<Rightarrow> bool" where
  "has_signal st x \<longleftrightarrow> x \<in> set (hi_signals st)"

definition high_signal :: "highlightState \<Rightarrow> bool" where
  "high_signal st \<longleftrightarrow> list_ex (has_signal st) [''privilege'', ''persistence'', ''payload-staging'', ''canary'', ''miner'', ''resource-hijack'']"

definition signal_weights :: "(string \<times> int) list" where
  "signal_weights =
    [(''privilege'', 14), (''persistence'', 18), (''payload-staging'', 20), (''process-control'', 10), (''control-flow'', 7),
     (''scripted-recon'', 12), (''credentials'', 10), (''canary'', 20), (''miner'', 18), (''resource-hijack'', 20)]"

definition highlight_score :: "sshSession \<Rightarrow> highlightState \<Rightarrow> int" where
  "highlight_score ss st =
     (let depth = sl_depth (sx_level ss); k = hi_commands st
      in min 100 (wrap64 (20 + (if 10 < k then 18 else k * 2) + (if 5 < depth then 15 else depth * 2)
                    + sum_list (map snd (List.filter (\<lambda>(x, _). has_signal st x) signal_weights))
                    + (if 3 \<le> length (hi_families st) then 7 else 0))))"

text \<open>The names of the signals in the order of the page, with the tag of each.\<close>

definition signal_labels :: "(string \<times> string \<times> string) list" where
  "signal_labels =
    [(''canary'', ''Canary touch'', ''CANARY''), (''payload-staging'', ''Payload staging'', ''PAYLOAD''),
     (''resource-hijack'', ''Resource hijack prep'', ''RESOURCE''), (''persistence'', ''Persistence'', ''PERSISTENCE''),
     (''privilege'', ''Privilege discovery'', ''PRIVILEGE''), (''miner'', ''Miner behavior'', ''MINER''),
     (''scripted-recon'', ''Scripted host reconnaissance'', ''SCRIPTED-RECON''), (''process-control'', ''Process control'', ''PROCESS''),
     (''credentials'', ''Credential hunting'', ''CREDENTIALS''), (''control-flow'', ''Shell control flow'', ''CONTROL-FLOW'')]"

definition shown_signals :: "highlightState \<Rightarrow> (string \<times> string) list" where
  "shown_signals st =
     (let rows = map snd (List.filter (\<lambda>(x, _). has_signal st x) signal_labels)
      in if rows = [] then [(''Multi-stage command activity'', ''MULTI-STAGE'')] else rows)"

definition highlight_rating :: "int \<Rightarrow> string" where
  "highlight_rating score = (if 90 \<le> score then ''critical'' else if 70 \<le> score then ''high'' else ''notable'')"

definition highlight_of :: "sshSession \<Rightarrow> highlightState \<Rightarrow> sshHighlight" where
  "highlight_of ss st =
     (let rows = map fst (shown_signals st); score = highlight_score ss st in
      \<lparr>hl_session = sx_id ss, hl_at = (if sx_gone ss \<noteq> 0 then sx_gone ss else sx_last ss), hl_last = sx_last ss, hl_ip = sx_ip ss,
       hl_country = sx_country ss, hl_user = sx_user ss, hl_score = score, hl_rating = highlight_rating score,
       hl_title = hd rows @ (if 1 < length rows then '' + '' @ rows ! 1 else []),
       hl_reason = ''authenticated session executed '' @ Itoa (sx_commands ss) @ '' commands and reached depth ''
         @ Itoa (sl_depth (sx_level ss)) @ ''; signals: '' @ Join rows '', '',
       hl_tags = map snd (shown_signals st), hl_commands = sx_commands ss, hl_duration = sx_duration ss,
       hl_depth = sl_depth (sx_level ss), hl_signals = rows\<rparr>)"

text \<open>The score of a session; the signal of scripted reconnaissance stays in the state that is read.\<close>

definition scoreSSHHighlightState :: "sshSession \<Rightarrow> highlightState \<Rightarrow> sshHighlight option \<times> highlightState" where
  "scoreSSHHighlightState ss st =
     (if \<not> sx_accepted ss \<or> hi_accepted st = 0 \<or> hi_commands st < 2 then (None, st)
      else (let st = mark_scripted st in
        if \<not> high_signal st \<and> \<not> (4 \<le> hi_commands st \<and> 2 \<le> length (hi_families st)) then (None, st)
        else if highlight_score ss st < sshHighlightMinScore then (None, st)
        else (Some (highlight_of ss st), st)))"

definition scoreSSHHighlight :: "(string \<Rightarrow> string) \<Rightarrow> sshSession \<Rightarrow> sshEvent list \<Rightarrow> sshHighlight option" where
  "scoreSSHHighlight uni ss es = fst (scoreSSHHighlightState ss (fold (highlight_apply uni) es newSSHHighlightState))"

section \<open>An event\<close>

definition sshActivityType :: "(string \<Rightarrow> string) \<Rightarrow> string \<Rightarrow> bool" where
  "sshActivityType uni kind \<longleftrightarrow>
     ToLower uni (TrimSpace kind) \<in> {''connect'', ''auth'', ''shell'', ''exec'', ''command'', ''request''}"

definition countSSHActivity :: "actorStore eventEnv \<Rightarrow> (string \<Rightarrow> string) \<Rightarrow> sshEvent \<Rightarrow> fullStore \<Rightarrow> fullStore" where
  "countSSHActivity env fold_case e s =
     (if \<not> sshActivityType (en_lower env) (sv_type e) then s
      else (let s = s\<lparr>fs_ssh := (fs_ssh s)\<lparr>sh_hours := incr (hour_key (sv_at e)) (sh_hours (fs_ssh s))\<rparr>\<rparr>
            in if EqualFold fold_case (TrimSpace (sv_type e)) ''connect''
               then s\<lparr>fs_web := countIPDailyActivity env (sv_ip e) (sv_at e) False (fs_web s)\<rparr> else s))"

definition sshPersonaRank :: "string \<Rightarrow> int" where
  "sshPersonaRank persona =
     (let p = TrimSpace persona in
      if p = ''payload-execution'' then 100
      else if p = ''resource-hijack-preparation'' then 95
      else if p = ''payload-staging'' then 90
      else if p \<in> {''persistence'', ''privilege-escalation'', ''lateral-movement''} then 80
      else if p = ''anti-fingerprint'' then 75
      else if p \<in> {''network-recon'', ''hosting-provider-discovery'', ''resource-discovery'', ''system-recon''} then 50
      else if p \<in> {''file-manipulation'', ''file-discovery''} then 30
      else if p = ''interactive-shell'' then 20 else 40)"

definition normalizeSSHClient :: "string \<Rightarrow> string" where
  "normalizeSSHClient v0 = (let v = TrimSpace (TrimPrefix v0 ''SSH-2.0-'') in if v = [] then ''(unknown)'' else take 64 v)"

definition sshEventAction :: "sshEvent \<Rightarrow> string" where
  "sshEventAction e =
     (if TrimSpace (sk_line (sv_command e)) \<noteq> [] then TrimSpace (sk_line (sv_command e))
      else if TrimSpace (sv_message e) \<noteq> [] then TrimSpace (sv_message e)
      else if sv_type e = ''connect'' then ''SSH connection opened''
      else if sv_type e = ''auth'' then (if sa_accepted (sv_auth e) then ''authentication accepted'' else ''authentication rejected'')
      else if sv_type e = ''shell'' then ''virtual shell opened''
      else if sv_type e = ''disconnect'' then ''session ended via SSH''
      else if sv_type e = ''handshake_error'' then ''SSH handshake/authentication ended''
      else if sv_type e = ''limit'' then ''session ended by protection limit''
      else sv_type e)"

definition new_ssh_session :: "sshEvent \<Rightarrow> sshSession" where
  "new_ssh_session e =
     \<lparr>sx_id = sv_session e, sx_ip = sv_ip e, sx_country = [], sx_country_source = [], sx_client = [], sx_user = [],
      sx_first = sv_at e, sx_last = sv_at e, sx_gone = 0, sx_attempts = 0, sx_accepted = False, sx_shell = False, sx_sftp = False,
      sx_execs = 0, sx_commands = 0, sx_current = [], sx_action = [], sx_dir = ''/'',
      sx_level = \<lparr>sl_depth = 0, sl_loop = 0, sl_frustration = 0, sl_persona = [], sl_risk = 0, sl_class = ''suspicious'', sl_actor = ''unknown''\<rparr>,
      sx_active = False, sx_duration = 0\<rparr>"

definition merge_level :: "sshLevel \<Rightarrow> sshLevel \<Rightarrow> sshLevel" where
  "merge_level e l =
     \<lparr>sl_depth = max (sl_depth l) (sl_depth e), sl_loop = max (sl_loop l) (sl_loop e),
      sl_frustration = max (sl_frustration l) (sl_frustration e),
      sl_persona = (if sl_persona e \<noteq> [] \<and> (sl_persona l = [] \<or> sshPersonaRank (sl_persona l) \<le> sshPersonaRank (sl_persona e))
                    then sl_persona e else sl_persona l),
      sl_risk = max (sl_risk l) (sl_risk e),
      sl_class = newer (sl_class e) (sl_class l),
      sl_actor = (if sl_actor e \<noteq> [] \<and> sl_actor e \<noteq> ''unknown'' \<and> (sl_actor l \<noteq> ''automated'' \<or> sl_actor e = ''automated'')
                  then sl_actor e else sl_actor l)\<rparr>"

text \<open>What every event leaves in its session, then what its type does.\<close>

definition merge_ssh :: "sshEvent \<Rightarrow> sshSession \<Rightarrow> sshSession" where
  "merge_ssh e x =
     x\<lparr>sx_ip := newer (sv_ip e) (sx_ip x), sx_country := newer (sv_country e) (sx_country x),
       sx_country_source := (if sv_country e \<noteq> [] then sv_country_source e else sx_country_source x),
       sx_client := newer (sv_client e) (sx_client x), sx_user := newer (sv_user e) (sx_user x),
       sx_first := (if sv_at e < sx_first x \<or> sx_first x = 0 then sv_at e else sx_first x),
       sx_last := (if sx_last x < sv_at e \<or> sx_last x = 0 then sv_at e else sx_last x),
       sx_level := merge_level (sv_level e) (sx_level x), sx_dir := newer (sk_cwd (sv_command e)) (sx_dir x),
       sx_action := newer (sshEventAction e) (sx_action x)\<rparr>"

definition type_ssh :: "sshEvent \<Rightarrow> sshSession \<Rightarrow> sshSession" where
  "type_ssh e x =
     (if sv_type e = ''connect'' then x\<lparr>sx_active := True, sx_gone := 0\<rparr>
      else if sv_type e = ''auth'' then x\<lparr>sx_attempts := wrap64 (sx_attempts x + 1), sx_accepted := (sa_accepted (sv_auth e) \<or> sx_accepted x)\<rparr>
      else if sv_type e = ''shell'' then x\<lparr>sx_shell := True, sx_active := True\<rparr>
      else if ran_command e then
        (let x = (if sv_type e = ''exec'' then
                    (let x = x\<lparr>sx_execs := wrap64 (sx_execs x + 1)\<rparr>; d = time_sub (sv_at e) (sx_first x)
                     in if \<not> sx_shell x \<and> 3 \<le> sx_execs x \<and> sx_first x \<noteq> 0 \<and> 0 \<le> d \<and> d \<le> 2 * second
                        then x\<lparr>sx_level := (sx_level x)\<lparr>sl_actor := ''automated''\<rparr>\<rparr> else x)
                  else x)
         in x\<lparr>sx_commands := wrap64 (sx_commands x + 1), sx_current := sk_line (sv_command e)\<rparr>)
      else if ended e then x\<lparr>sx_active := False, sx_gone := sv_at e, sx_current := []\<rparr>
      else x)"

text \<open>\<open>Seconds\<close> is a float cut to an integer: the quotient (past half a year the float may round up a last nanosecond).\<close>

definition set_duration :: "sshSession \<Rightarrow> sshSession" where
  "set_duration x =
     (if sx_first x = 0 \<or> sx_last x = 0 then x
      else x\<lparr>sx_duration := max 0 (go_div (time_sub (sx_last x) (sx_first x)) second)\<rparr>)"

definition ssh_step :: "sshEvent \<Rightarrow> sshSession \<Rightarrow> sshSession" where
  "ssh_step e x = set_duration (type_ssh e (merge_ssh e x))"

definition count_ssh :: "(gotime \<Rightarrow> string) \<Rightarrow> sshEvent \<Rightarrow> sshSession \<Rightarrow> sshCounts \<Rightarrow> sshCounts" where
  "count_ssh day_key e x c =
     (let day = day_key (sv_at e) in
      if sv_type e = ''connect'' then
        c\<lparr>ct_connections := wrap64 (ct_connections c + 1), ct_day_connections := incr day (ct_day_connections c),
          ct_countries := incr (named_or ''(unknown)'' (TrimSpace (sv_country e))) (ct_countries c)\<rparr>
      else if sv_type e = ''auth'' then
        c\<lparr>ct_attempts := wrap64 (ct_attempts c + 1), ct_day_auth := incr day (ct_day_auth c),
          ct_policies := incr (if sa_accepted (sv_auth e) then ''accepted'' else ''rejected'')
            (incr (named_or ''legacy-unspecified'' (TrimSpace (sa_reason (sv_auth e)))) (ct_policies c)),
          ct_users := incr (named_or ''(empty)'' (TrimSpace (sv_user e))) (ct_users c),
          ct_clients := (if sx_client x = [] \<and> sv_client e \<noteq> [] then incr (normalizeSSHClient (sv_client e)) (ct_clients c) else ct_clients c)\<rparr>
      else if sv_type e = ''shell'' then
        (if sx_shell x then c else c\<lparr>ct_shells := wrap64 (ct_shells c + 1), ct_day_shells := incr day (ct_day_shells c)\<rparr>)
      else if ran_command e then
        c\<lparr>ct_commands := wrap64 (ct_commands c + 1), ct_day_commands := incr day (ct_day_commands c),
          ct_names := incr (named_or ''(unknown)'' (TrimSpace (sk_name (sv_command e)))) (ct_names c),
          ct_families := incr (named_or ''other'' (TrimSpace (sk_family (sv_command e)))) (ct_families c)\<rparr>
      else c)"

definition session_before :: "sshEvent \<Rightarrow> sshStore \<Rightarrow> sshSession" where
  "session_before e s = lookup_or (new_ssh_session e) (sh_sessions s) (sv_session e)"

definition applySSHEvent :: "(gotime \<Rightarrow> string) \<Rightarrow> sshEvent \<Rightarrow> sshStore \<Rightarrow> sshStore" where
  "applySSHEvent day_key e s =
     (let x = session_before e s in
      s\<lparr>sh_sessions := AList.update (sv_session e) (ssh_step e x) (sh_sessions s), sh_counts := count_ssh day_key e x (sh_counts s)\<rparr>)"

definition push_ssh :: "sshEvent \<Rightarrow> sshStore \<Rightarrow> sshStore" where
  "push_ssh e s = s\<lparr>sh_events := push_last maxRing e (sh_events s)\<rparr>"

text \<open>The sessions seen last stay; a session that goes leaves its highlight.\<close>

definition drop_ssh :: "string \<Rightarrow> sshStore \<Rightarrow> sshStore" where
  "drop_ssh i s =
     (let hl = (case map_of (sh_sessions s) i of None \<Rightarrow> None
                | Some x \<Rightarrow> (case map_of (sh_states s) i of None \<Rightarrow> None | Some st \<Rightarrow> fst (scoreSSHHighlightState x st)))
      in s\<lparr>sh_history := (case hl of None \<Rightarrow> sh_history s | Some h \<Rightarrow> AList.update i h (sh_history s)),
           sh_sessions := AList.delete i (sh_sessions s), sh_states := AList.delete i (sh_states s)\<rparr>)"

definition oldest_ssh :: "nat \<Rightarrow> sshSessions \<Rightarrow> string list" where
  "oldest_ssh target m = map fst (take (length m - target) (sort_by (earlier_first (\<lambda>p. sx_last (snd p))) m))"

definition pruneSSHSessions :: "nat \<Rightarrow> sshStore \<Rightarrow> sshStore" where
  "pruneSSHSessions target s = fold drop_ssh (oldest_ssh target (sh_sessions s)) s"

text \<open>The parameters of both halves of the store, and case folding for \<open>EqualFold\<close>.\<close>

record storeEnv =
  sn_web :: "actorStore eventEnv"
  sn_actor :: actorEnv
  sn_fold :: "string \<Rightarrow> string"

definition on_ssh :: "(sshStore \<Rightarrow> sshStore) \<Rightarrow> fullStore \<Rightarrow> fullStore" where
  "on_ssh f s = s\<lparr>fs_ssh := f (fs_ssh s)\<rparr>"

definition actor_ssh :: "storeEnv \<Rightarrow> sshEvent \<Rightarrow> fullStore \<Rightarrow> fullStore" where
  "actor_ssh env e s =
     s\<lparr>fs_web := (fs_web s)\<lparr>es_actors :=
         applyActorSSHEvent (sn_actor env) (sh_events (fs_ssh s)) (sh_sessions (fs_ssh s)) e (es_actors (fs_web s))\<rparr>\<rparr>"

text \<open>What both \<open>AddSSHEvent\<close> and the replay do with an event, in their order.\<close>

definition take_ssh :: "storeEnv \<Rightarrow> sshEvent \<Rightarrow> fullStore \<Rightarrow> fullStore" where
  "take_ssh env e s =
     actor_ssh env e (on_ssh (applySSHEvent (en_day_key (sn_web env)) e \<circ> push_ssh e \<circ> updateSSHHighlightState (en_lower (sn_web env)) e)
       (countSSHActivity (sn_web env) (sn_fold env) e s))"

text \<open>What the log keeps of an event: every text as JSON writes it. Commands and outputs are cut at bytes, so a cut rune is lost.\<close>

definition json_auth :: "sshAuth \<Rightarrow> sshAuth" where
  "json_auth a = a\<lparr>sa_method := json_text (sa_method a), sa_key := json_text (sa_key a), sa_reason := json_text (sa_reason a)\<rparr>"

definition json_command :: "sshCommand \<Rightarrow> sshCommand" where
  "json_command c =
     \<lparr>sk_line = json_text (sk_line c), sk_name = json_text (sk_name c), sk_family = json_text (sk_family c),
      sk_stages = map json_text (sk_stages c), sk_intent = json_text (sk_intent c), sk_target = json_text (sk_target c),
      sk_cwd = json_text (sk_cwd c), sk_output = json_text (sk_output c)\<rparr>"

definition json_payload :: "sshPayload \<Rightarrow> sshPayload" where
  "json_payload y =
     y\<lparr>sy_sha := json_text (sy_sha y), sy_kind := json_text (sy_kind y), sy_stage := json_text (sy_stage y), sy_path := json_text (sy_path y),
       sy_relation := json_text (sy_relation y), sy_network := json_text (sy_network y)\<rparr>"

definition json_ssh :: "sshEvent \<Rightarrow> sshEvent" where
  "json_ssh e =
     e\<lparr>sv_id := json_text (sv_id e), sv_session := json_text (sv_session e), sv_ip := json_text (sv_ip e),
       sv_country := json_text (sv_country e), sv_country_source := json_text (sv_country_source e), sv_client := json_text (sv_client e),
       sv_user := json_text (sv_user e), sv_type := json_text (sv_type e), sv_auth := json_auth (sv_auth e),
       sv_command := json_command (sv_command e),
       sv_level := (sv_level e)\<lparr>sl_persona := json_text (sl_persona (sv_level e)), sl_class := json_text (sl_class (sv_level e)),
                                sl_actor := json_text (sl_actor (sv_level e))\<rparr>,
       sv_message := json_text (sv_message e), sv_canaries := map json_text (sv_canaries e), sv_fingerprint := json_text (sv_fingerprint e),
       sv_secondary := map json_text (sv_secondary e), sv_payload := json_payload (sv_payload e)\<rparr>"

definition write_ssh :: "bool option \<Rightarrow> sshEvent \<Rightarrow> sshStore \<Rightarrow> sshStore" where
  "write_ssh log e s = (if log = Some True then s\<lparr>sh_file := sh_file s @ [Some (json_ssh e)]\<rparr> else s)"

definition limit_ssh :: "nat \<Rightarrow> nat \<Rightarrow> sshStore \<Rightarrow> sshStore" where
  "limit_ssh most target s = (if most < length (sh_sessions s) then pruneSSHSessions target s else s)"

definition AddSSHEvent :: "storeEnv \<Rightarrow> bool option \<Rightarrow> sshEvent \<Rightarrow> fullStore \<Rightarrow> fullStore \<times> bool" where
  "AddSSHEvent env log e s =
     (if log = Some False then (s, False)
      else (let s = on_ssh (limit_ssh maxSessions (maxSessions - 1000)) (take_ssh env e (on_ssh (write_ssh log e) s));
                view = map_of (sh_sessions (fs_ssh s)) (sv_session e)
            in (s\<lparr>fs_web := publishRealtime (SshMessage (sv_at e) e view) (sv_at e) (fs_web s)\<rparr>, True)))"

section \<open>The replay\<close>

definition load_ssh_line :: "storeEnv \<Rightarrow> sshEvent option \<Rightarrow> fullStore \<Rightarrow> fullStore" where
  "load_ssh_line env line s =
     (case line of None \<Rightarrow> s
      | Some e \<Rightarrow> on_ssh (limit_ssh (maxSessions + 1000) maxSessions) (take_ssh env e s))"

definition loadSSH :: "storeEnv \<Rightarrow> fullStore \<Rightarrow> fullStore" where
  "loadSSH env s = on_ssh (limit_ssh maxSessions maxSessions) (fold (load_ssh_line env) (sh_file (fs_ssh s)) s)"

definition initSSH :: "storeEnv \<Rightarrow> fullStore \<Rightarrow> fullStore" where
  "initSSH env s =
     on_ssh (\<lambda>h. h\<lparr>sh_sessions := map (\<lambda>(i, x). (i, x\<lparr>sx_active := False\<rparr>)) (sh_sessions h)\<rparr>) (loadSSH env s)"

text \<open>
  The SSH part of a start (\<open>NewWithRetention\<close>) on a log whose lines have the lengths \<open>sizes\<close>: the expired
  lines are removed, then the log is read, which a line too long for the scanner stops with an error.
\<close>

definition startSSH :: "storeEnv \<Rightarrow> nat list \<Rightarrow> gotime \<Rightarrow> fullStore \<Rightarrow> fullStore option" where
  "startSSH env sizes cutoff s =
     (if scannable sizes then Some (initSSH env (on_ssh (\<lambda>h. h\<lparr>sh_file := compactJSONL sv_at cutoff (sh_file h)\<rparr>) s)) else None)"

section \<open>Pages\<close>

definition rows_of :: "(sshSession \<Rightarrow> bool) \<Rightarrow> sshStore \<Rightarrow> sshSession list" where
  "rows_of P s = sort_by (later_first sx_last) (List.filter P (map snd (sh_sessions s)))"

definition still_active :: "duration \<Rightarrow> gotime \<Rightarrow> sshSession \<Rightarrow> bool" where
  "still_active within now x \<longleftrightarrow> sx_active x \<and> \<not> (0 < within \<and> within < time_sub now (sx_last x))"

definition just_left :: "duration \<Rightarrow> gotime \<Rightarrow> sshSession \<Rightarrow> bool" where
  "just_left grace now x \<longleftrightarrow> \<not> sx_active x \<and> 0 < grace \<and> sx_gone x \<noteq> 0 \<and> time_sub now (sx_gone x) \<le> grace"

definition GetSSHSession :: "string \<Rightarrow> sshStore \<Rightarrow> sshSession option" where
  "GetSSHSession i s = map_of (sh_sessions s) i"

definition AllSSHSessions :: "sshStore \<Rightarrow> sshSession list" where
  "AllSSHSessions s = rows_of (\<lambda>_. True) s"

definition SSHSessions :: "duration \<Rightarrow> int \<Rightarrow> gotime \<Rightarrow> sshStore \<Rightarrow> sshSession list" where
  "SSHSessions within limit now s = limit_rows limit (rows_of (still_active within now) s)"

definition SSHLiveSessions :: "duration \<Rightarrow> duration \<Rightarrow> int \<Rightarrow> gotime \<Rightarrow> sshStore \<Rightarrow> sshSession list" where
  "SSHLiveSessions within grace limit now s = limit_rows limit (rows_of (\<lambda>x. still_active within now x \<or> just_left grace now x) s)"

definition SSHLiveFeed :: "duration \<Rightarrow> duration \<Rightarrow> int \<Rightarrow> int \<Rightarrow> gotime \<Rightarrow> sshStore \<Rightarrow> (sshSession \<times> sshEvent list) list" where
  "SSHLiveFeed within grace sessions events now s =
     map (\<lambda>x. (x, rev (limit_rows events (rev (List.filter (\<lambda>e. sv_session e = sx_id x) (sh_events s))))))
       (SSHLiveSessions within grace sessions now s)"

definition SSHHistory :: "duration \<Rightarrow> int \<Rightarrow> gotime \<Rightarrow> sshStore \<Rightarrow> sshSession list" where
  "SSHHistory within limit now s =
     limit_rows limit (rows_of (\<lambda>x. \<not> (sx_active x \<and> (within \<le> 0 \<or> time_sub now (sx_last x) \<le> within))) s)"

definition SSHEvents :: "int \<Rightarrow> sshStore \<Rightarrow> sshEvent list" where
  "SSHEvents limit s =
     (let n = length (sh_events s); k = (if limit \<le> 0 \<or> int n < limit then n else nat limit) in rev (last_n k (sh_events s)))"

text \<open>The average depth is the pair of the sum and the number of the sessions that have one.\<close>

record sshOverview =
  sw_active :: nat
  sw_connections :: "int \<times> int"
  sw_auth :: "int \<times> int"
  sw_shells :: "int \<times> int"
  sw_commands :: "int \<times> int"
  sw_depth :: "int \<times> nat"
  sw_users :: "(string \<times> int) list"
  sw_names :: "(string \<times> int) list"
  sw_families :: "(string \<times> int) list"
  sw_countries :: "(string \<times> int) list"
  sw_clients :: "(string \<times> int) list"

definition depth_of :: "sshSession list \<Rightarrow> int \<times> nat" where
  "depth_of xs = (let ds = List.filter (\<lambda>d. 0 < d) (map (sl_depth \<circ> sx_level) xs) in (foldl (\<lambda>n d. wrap64 (n + d)) 0 ds, length ds))"

definition SSHOverview :: "(gotime \<Rightarrow> string) \<Rightarrow> duration \<Rightarrow> gotime \<Rightarrow> sshStore \<Rightarrow> sshOverview" where
  "SSHOverview day_key within0 now s =
     (let within = (if within0 \<le> 0 then 5 * minute else within0); c = sh_counts s; day = day_key now;
          live = List.filter (\<lambda>x. sx_active x \<and> time_sub now (sx_last x) \<le> within) (map snd (sh_sessions s)) in
      \<lparr>sw_active = length live, sw_connections = (ct_connections c, lookup_or 0 (ct_day_connections c) day),
       sw_auth = (ct_attempts c, lookup_or 0 (ct_day_auth c) day), sw_shells = (ct_shells c, lookup_or 0 (ct_day_shells c) day),
       sw_commands = (ct_commands c, lookup_or 0 (ct_day_commands c) day), sw_depth = depth_of live,
       sw_users = rankedCounts (ct_users c) 10, sw_names = rankedCounts (ct_names c) 12, sw_families = rankedCounts (ct_families c) 10,
       sw_countries = rankedCounts (ct_countries c) 10, sw_clients = rankedCounts (ct_clients c) 10\<rparr>)"

definition type_count :: "string \<Rightarrow> sshEvent list \<Rightarrow> int" where
  "type_count kind es = int (length (List.filter (\<lambda>e. sv_type e = kind) es))"

definition tally :: "string list \<Rightarrow> (string, int) gomap" where
  "tally xs = fold incr (List.filter (\<lambda>x. x \<noteq> []) xs) []"

text \<open>\<open>inRange\<close>: a zero bound is open.\<close>

definition in_range :: "gotime \<Rightarrow> gotime \<Rightarrow> gotime \<Rightarrow> bool" where
  "in_range at from to \<longleftrightarrow> (from = 0 \<or> from \<le> at) \<and> (to = 0 \<or> at < to)"

definition SSHOverviewRange :: "gotime \<Rightarrow> gotime \<Rightarrow> sshStore \<Rightarrow> sshOverview" where
  "SSHOverviewRange from to s =
     (let es = List.filter (\<lambda>e. in_range (sv_at e) from to) (sh_events s);
          xs = List.map_filter (map_of (sh_sessions s)) (remdups (map sv_session es));
          n = (\<lambda>kind. (type_count kind es, type_count kind es)) in
      \<lparr>sw_active = length (List.filter sx_active xs), sw_connections = n ''connect'', sw_auth = n ''auth'', sw_shells = n ''shell'',
       sw_commands = n ''exec'', sw_depth = depth_of xs,
       sw_users = rankedCounts (tally (map sv_user es)) 10, sw_names = rankedCounts (tally (map (sk_name \<circ> sv_command) es)) 12,
       sw_families = rankedCounts (tally (map (sk_family \<circ> sv_command) es)) 10,
       sw_countries = rankedCounts (tally (map sv_country es)) 10, sw_clients = rankedCounts (tally (map sv_client es)) 10\<rparr>)"

text \<open>What the credential policy reads of the store.\<close>

definition session_row :: "sshSession \<Rightarrow> sshSessionRow" where
  "session_row x = \<lparr>ss_ip = sx_ip x, ss_accepted = sx_accepted x, ss_username = sx_user x, ss_active = sx_active x, ss_last = sx_last x\<rparr>"

definition actor_counts :: "actorProfile \<Rightarrow> sshActor" where
  "actor_counts a = \<lparr>ac_unique_users = int (sf_users (ap_ssh a)), ac_accepted = sf_accepted (ap_ssh a), ac_rejected = sf_rejected (ap_ssh a)\<rparr>"

definition storeAuthProfile :: "actorEnv \<Rightarrow> string \<Rightarrow> fullStore \<Rightarrow> authProfile" where
  "storeAuthProfile env ip s =
     SSHAuthProfile (ae_lower env) ip
       (map_option actor_counts (map_of (ax_actors (es_actors (fs_web s))) (actorID (ae_sha env) (TrimSpace ip))))
       (map (session_row \<circ> snd) (sh_sessions (fs_ssh s)))"

definition storeRecurrence :: "string \<Rightarrow> gotime \<Rightarrow> fullStore \<Rightarrow> sshRecurrence" where
  "storeRecurrence ip now s = SSHRecurrence ip now (map connect_of (sh_events (fs_ssh s)))"

definition SSHAuthPolicyTelemetry :: "sshStore \<Rightarrow> (string, int) gomap" where
  "SSHAuthPolicyTelemetry s =
     (let out = AList.update ''attempts'' (ct_attempts (sh_counts s)) (ct_policies (sh_counts s));
          out = (if has_key out ''accepted'' then out else AList.update ''accepted'' 0 out)
      in if has_key out ''rejected'' then out else AList.update ''rejected'' 0 out)"

section \<open>The page of highlights\<close>

record highlightQuery =
  hq_limit :: int
  hq_before :: gotime
  hq_before_id :: string
  hq_rating :: string
  hq_from :: gotime
  hq_to :: gotime

definition clamp_limit :: "int \<Rightarrow> nat" where
  "clamp_limit limit = (if limit \<le> 0 then 20 else if 100 < limit then 100 else nat limit)"

definition past_cursor :: "highlightQuery \<Rightarrow> sshHighlight \<Rightarrow> bool" where
  "past_cursor q h \<longleftrightarrow>
     hq_before q = 0 \<or> hl_at h < hq_before q \<or> (hl_at h = hq_before q \<and> hq_before_id q \<noteq> [] \<and> \<not> lex_le (hq_before_id q) (hl_session h))"

definition wanted :: "(string \<Rightarrow> string) \<Rightarrow> highlightQuery \<Rightarrow> sshHighlight \<Rightarrow> bool" where
  "wanted uni q h \<longleftrightarrow>
     past_cursor q h \<and> (hq_from q = 0 \<or> hq_from q \<le> hl_at h) \<and> (hq_to q = 0 \<or> hl_at h < hq_to q)
     \<and> (let r = ToLower uni (TrimSpace (hq_rating q)) in r = [] \<or> r = ''all'' \<or> hl_rating h = r)"

definition highlight_before :: "sshHighlight \<Rightarrow> sshHighlight \<Rightarrow> bool" where
  "highlight_before a b \<longleftrightarrow> hl_at b < hl_at a \<or> (hl_at a = hl_at b \<and> lex_le (hl_session b) (hl_session a))"

definition state_for :: "(string \<Rightarrow> string) \<Rightarrow> sshStore \<Rightarrow> string \<Rightarrow> highlightState" where
  "state_for uni s i =
     (case map_of (sh_states s) i of Some st \<Rightarrow> st
      | None \<Rightarrow> fold (highlight_apply uni) (List.filter (\<lambda>e. sv_session e = i) (sh_events s)) newSSHHighlightState)"

text \<open>The sessions whose highlight the page computes, each with its state.\<close>

definition scored_now :: "(string \<Rightarrow> string) \<Rightarrow> highlightQuery \<Rightarrow> sshStore \<Rightarrow> (string \<times> sshSession) list" where
  "scored_now uni q s =
     (let seen = map fst (List.filter (\<lambda>p. wanted uni q (snd p)) (sh_history s))
      in List.filter (\<lambda>p. fst p \<notin> set seen \<and> sx_accepted (snd p)) (sh_sessions s))"

definition highlight_rows :: "(string \<Rightarrow> string) \<Rightarrow> highlightQuery \<Rightarrow> sshStore \<Rightarrow> sshHighlight list" where
  "highlight_rows uni q s =
     List.filter (wanted uni q) (map snd (sh_history s)
       @ List.map_filter (\<lambda>(i, x). fst (scoreSSHHighlightState x (state_for uni s i))) (scored_now uni q s))"

text \<open>A page, its cursor, and the store it leaves behind.\<close>

definition SSHHighlightsRange ::
  "(string \<Rightarrow> string) \<Rightarrow> highlightQuery \<Rightarrow> sshStore \<Rightarrow> (sshHighlight list \<times> (gotime \<times> string) option) \<times> sshStore" where
  "SSHHighlightsRange uni q s =
     (let n = clamp_limit (hq_limit q); rows = take n (sort_by highlight_before (highlight_rows uni q s));
          ids = map fst (scored_now uni q s)
      in ((rows, if length rows = n then Some (hl_at (List.last rows), hl_session (List.last rows)) else None),
          s\<lparr>sh_states := map (\<lambda>(i, st). (i, case map_of (sh_sessions s) i of
               Some x \<Rightarrow> if i \<in> set ids then snd (scoreSSHHighlightState x st) else st | None \<Rightarrow> st)) (sh_states s)\<rparr>))"

end
