(* ===== verification/SshStoreProofs.thy ===== *)
theory SshStoreProofs
  imports SshStore ActorProofs EventStoreProofs
begin

text \<open>
  The store of SSH events: what its log restores, its totals, the shape of its sessions, and the
  highlights with their pages.
\<close>

section \<open>What an event changes\<close>

definition hour_ssh :: "(string \<Rightarrow> string) \<Rightarrow> sshEvent \<Rightarrow> sshStore \<Rightarrow> sshStore" where
  "hour_ssh uni e h = (if sshActivityType uni (sv_type e) then h\<lparr>sh_hours := incr (hour_key (sv_at e)) (sh_hours h)\<rparr> else h)"

text \<open>The SSH half of the store after an event.\<close>

definition ssh_half :: "storeEnv \<Rightarrow> sshEvent \<Rightarrow> sshStore \<Rightarrow> sshStore" where
  "ssh_half env e h =
     applySSHEvent (en_day_key (sn_web env)) e (push_ssh e (updateSSHHighlightState (en_lower (sn_web env)) e (hour_ssh (en_lower (sn_web env)) e h)))"

lemma fs_ssh_take [simp]: "fs_ssh (take_ssh env e s) = ssh_half env e (fs_ssh s)"
  by (simp add: take_ssh_def actor_ssh_def on_ssh_def ssh_half_def countSSHActivity_def hour_ssh_def Let_def)

lemma fs_ssh_on [simp]: "fs_ssh (on_ssh f s) = f (fs_ssh s)" "fs_web (on_ssh f s) = fs_web s"
  by (simp_all add: on_ssh_def)

lemma fs_ssh_add:
  "fs_ssh (fst (AddSSHEvent env (Some True) e s)) = limit_ssh maxSessions (maxSessions - 1000) (ssh_half env e (write_ssh (Some True) e (fs_ssh s)))"
  by (simp add: AddSSHEvent_def Let_def)

lemma ssh_half_fields [simp]:
  "sh_file (ssh_half env e h) = sh_file h"
  "sh_history (ssh_half env e h) = sh_history h"
  "sh_events (ssh_half env e h) = push_last maxRing e (sh_events h)"
  "sh_sessions (ssh_half env e h) = AList.update (sv_session e) (ssh_step e (session_before e h)) (sh_sessions h)"
  "sh_counts (ssh_half env e h) = count_ssh (en_day_key (sn_web env)) e (session_before e h) (sh_counts h)"
  by (simp_all add: ssh_half_def applySSHEvent_def push_ssh_def updateSSHHighlightState_def hour_ssh_def session_before_def Let_def)

lemma ssh_half_file: "ssh_half env e (h\<lparr>sh_file := f\<rparr>) = (ssh_half env e h)\<lparr>sh_file := f\<rparr>"
  by (simp add: ssh_half_def applySSHEvent_def push_ssh_def updateSSHHighlightState_def hour_ssh_def session_before_def Let_def)

lemma write_ssh_half: "write_ssh (Some True) e h = h\<lparr>sh_file := sh_file h @ [Some (json_ssh e)]\<rparr>"
  by (simp add: write_ssh_def)

lemma ssh_sessions_grow: "length (sh_sessions (ssh_half env e h)) \<le> Suc (length (sh_sessions h))"
  by (simp add: length_update)

lemma limit_ssh_small [simp]: "length (sh_sessions h) \<le> n \<Longrightarrow> limit_ssh n m h = h"
  by (simp add: limit_ssh_def)

section \<open>The replay\<close>

text \<open>Two stores with the same SSH half, up to the log, the same profiles and the same daily activity.\<close>

definition alike :: "fullStore \<Rightarrow> fullStore \<Rightarrow> bool" where
  "alike s t \<longleftrightarrow>
     fs_ssh t = (fs_ssh s)\<lparr>sh_file := sh_file (fs_ssh t)\<rparr> \<and> es_actors (fs_web t) = es_actors (fs_web s) \<and> es_daily (fs_web t) = es_daily (fs_web s)"

lemma daily_count: "es_daily (countIPDailyActivity env ip at http s) =
    (let ip = TrimSpace ip in if ip = [] \<or> at = 0 then es_daily s
     else AList.update ip (AList.update (en_local_day env at) (let b = lookup_or \<lparr>ib_http = 0, ib_ssh = 0\<rparr> (lookup_or [] (es_daily s) ip) (en_local_day env at)
       in if http then b\<lparr>ib_http := wrap64 (ib_http b + 1)\<rparr> else b\<lparr>ib_ssh := wrap64 (ib_ssh b + 1)\<rparr>) (lookup_or [] (es_daily s) ip)) (es_daily s))"
  "es_actors (countIPDailyActivity env ip at http s) = es_actors s"
  by (simp_all add: countIPDailyActivity_def Let_def)

lemma web_take:
  "es_actors (fs_web (take_ssh env e s)) = applyActorSSHEvent (sn_actor env) (sh_events (ssh_half env e (fs_ssh s)))
     (sh_sessions (ssh_half env e (fs_ssh s))) e (es_actors (fs_web s))"
  "es_daily (fs_web (take_ssh env e s)) =
     (if sshActivityType (en_lower (sn_web env)) (sv_type e) \<and> EqualFold (sn_fold env) (TrimSpace (sv_type e)) ''connect''
      then es_daily (countIPDailyActivity (sn_web env) (sv_ip e) (sv_at e) False (fs_web s)) else es_daily (fs_web s))"
  by (simp_all add: take_ssh_def actor_ssh_def on_ssh_def ssh_half_def countSSHActivity_def hour_ssh_def daily_count(2) Let_def)

lemma alike_take:
  assumes "alike s t"
  shows "alike (take_ssh env e s) (take_ssh env e t)"
proof -
  have h: "fs_ssh t = (fs_ssh s)\<lparr>sh_file := sh_file (fs_ssh t)\<rparr>" using assms by (simp add: alike_def)
  have half: "ssh_half env e (fs_ssh t) = (ssh_half env e (fs_ssh s))\<lparr>sh_file := sh_file (fs_ssh t)\<rparr>"
    by (subst h) (simp only: ssh_half_file)
  have same: "sh_events (fs_ssh t) = sh_events (fs_ssh s)" "sh_sessions (ssh_half env e (fs_ssh t)) = sh_sessions (ssh_half env e (fs_ssh s))"
    by (subst h, simp) (simp add: half)
  have web: "es_actors (fs_web t) = es_actors (fs_web s)" "es_daily (fs_web t) = es_daily (fs_web s)" using assms by (simp_all add: alike_def)
  have "es_actors (fs_web (take_ssh env e t)) = es_actors (fs_web (take_ssh env e s))"
    unfolding web_take(1) same(2) web by (simp add: same(1))
  moreover have "es_daily (fs_web (take_ssh env e t)) = es_daily (fs_web (take_ssh env e s))"
    unfolding web_take(2) daily_count web ..
  ultimately show ?thesis using half by (simp add: alike_def)
qed

lemma alike_write: "alike s t \<Longrightarrow> alike (on_ssh (write_ssh log e) s) t"
  by (simp add: alike_def write_ssh_def)

lemma alike_publish: "alike s t \<Longrightarrow> alike (s\<lparr>fs_web := publishRealtime m at (fs_web s)\<rparr>) t"
  by (simp add: alike_def publishRealtime_def)

definition add_all :: "storeEnv \<Rightarrow> sshEvent list \<Rightarrow> fullStore \<Rightarrow> fullStore" where
  "add_all env es s = fold (\<lambda>e s. fst (AddSSHEvent env (Some True) e s)) es s"

definition fresh_store :: "domainStore \<Rightarrow> sshEvent option list \<Rightarrow> fullStore" where
  "fresh_store domains log = \<lparr>fs_web = empty_store (empty_actors []) domains [], fs_ssh = empty_ssh log\<rparr>"

lemma add_step:
  assumes "alike s t" "length (sh_sessions (fs_ssh s)) < maxSessions"
  shows "alike (fst (AddSSHEvent env (Some True) e s)) (load_ssh_line env (Some e) t)"
    and "sh_file (fs_ssh (fst (AddSSHEvent env (Some True) e s))) = sh_file (fs_ssh s) @ [Some (json_ssh e)]"
    and "sh_file (fs_ssh (load_ssh_line env (Some e) t)) = sh_file (fs_ssh t)"
    and "length (sh_sessions (fs_ssh (fst (AddSSHEvent env (Some True) e s)))) \<le> Suc (length (sh_sessions (fs_ssh s)))"
proof -
  let ?u = "take_ssh env e (on_ssh (write_ssh (Some True) e) s)" and ?v = "take_ssh env e t"
  have uv: "alike ?u ?v" by (intro alike_take alike_write assms)
  have n: "length (sh_sessions (fs_ssh ?u)) \<le> maxSessions"
    using ssh_sessions_grow [of env e "write_ssh (Some True) e (fs_ssh s)"] assms(2) by (simp add: write_ssh_def)
  have m: "length (sh_sessions (fs_ssh ?v)) \<le> maxSessions + 1000"
    using n uv by (simp add: alike_def)
  have id: "on_ssh (limit_ssh maxSessions (maxSessions - 1000)) ?u = ?u" "on_ssh (limit_ssh (maxSessions + 1000) maxSessions) ?v = ?v"
    using n m by (simp_all add: on_ssh_def del: fs_ssh_take)
  show "alike (fst (AddSSHEvent env (Some True) e s)) (load_ssh_line env (Some e) t)"
    using alike_publish [OF uv] by (simp add: AddSSHEvent_def load_ssh_line_def id Let_def del: fs_ssh_take)
  show "sh_file (fs_ssh (fst (AddSSHEvent env (Some True) e s))) = sh_file (fs_ssh s) @ [Some (json_ssh e)]"
    using n by (simp add: fs_ssh_add write_ssh_def)
  show "sh_file (fs_ssh (load_ssh_line env (Some e) t)) = sh_file (fs_ssh t)"
    unfolding load_ssh_line_def option.case id(2) by simp
  show "length (sh_sessions (fs_ssh (fst (AddSSHEvent env (Some True) e s)))) \<le> Suc (length (sh_sessions (fs_ssh s)))"
    using n ssh_sessions_grow [of env e "write_ssh (Some True) e (fs_ssh s)"] by (simp add: fs_ssh_add write_ssh_def)
qed

lemma add_all_replay:
  assumes "alike s t" "length (sh_sessions (fs_ssh s)) + length es \<le> maxSessions"
  shows "alike (add_all env es s) (fold (load_ssh_line env) (map Some es) t)
    \<and> sh_file (fs_ssh (add_all env es s)) = sh_file (fs_ssh s) @ map (\<lambda>e. Some (json_ssh e)) es
    \<and> sh_file (fs_ssh (fold (load_ssh_line env) (map Some es) t)) = sh_file (fs_ssh t)
    \<and> length (sh_sessions (fs_ssh (add_all env es s))) \<le> maxSessions"
  using assms
proof (induction es arbitrary: s t)
  case (Cons e es)
  have "length (sh_sessions (fs_ssh s)) < maxSessions" using Cons.prems(2) by simp
  note step = add_step [OF Cons.prems(1) this, of env e]
  from Cons.IH [OF step(1)] Cons.prems(2) step(4)
  show ?case by (simp add: add_all_def step(2,3) del: map_eq_Cons_conv)
qed (simp add: add_all_def)

section \<open>What the log keeps of an event\<close>

definition ssh_texts :: "sshEvent \<Rightarrow> string list" where
  "ssh_texts e =
     (let a = sv_auth e; c = sv_command e; l = sv_level e; y = sv_payload e in
      [sv_id e, sv_session e, sv_ip e, sv_country e, sv_country_source e, sv_client e, sv_user e, sv_type e, sa_method a, sa_key a,
       sa_reason a, sk_line c, sk_name c, sk_family c, sk_intent c, sk_target c, sk_cwd c, sk_output c, sl_persona l, sl_class l,
       sl_actor l, sv_message e, sv_fingerprint e, sy_sha y, sy_kind y, sy_stage y, sy_path y, sy_relation y, sy_network y]
      @ sk_stages c @ sv_canaries e @ sv_secondary e)"

lemmas json_ssh_defs = json_ssh_def json_auth_def json_command_def json_payload_def

lemma json_ssh_idem: "json_ssh (json_ssh e) = json_ssh e"
  by (simp add: json_ssh_defs comp_def)

lemma json_ssh_at [simp]: "sv_at (json_ssh e) = sv_at e"
  by (simp add: json_ssh_def)

lemma json_ssh_same: "list_all valid_utf8 (ssh_texts e) \<Longrightarrow> json_ssh e = e"
  unfolding ssh_texts_def Let_def by (simp add: json_ssh_defs json_text_same json_texts_same)

text \<open>C1: A restart finds what SSH left: after any events written by a new store (at most ten thousand, none
  without a time or older than the retention, no page of highlights read in between, which would leave
  signals the log does not hold), and when no line of the log is too long to read, a start on the log
  succeeds and has the ring of events, the sessions, only no longer active, the counters, the highlight
  states and the log of a store that was given the events as JSON keeps them (U+FFFD for what is no UTF-8),
  with the profiles of the addresses and the daily activity; that store is the one before the restart when
  all texts of the events were UTF-8.
\<close>

theorem restart_finds_ssh:
  assumes "length es \<le> maxSessions" "s = add_all env es (fresh_store domains [])"
    and "\<forall>e \<in> set es. sv_at e \<noteq> 0 \<and> cutoff \<le> sv_at e" "\<forall>n \<in> set sizes. n < 2097152"
    and "kept = add_all env (map json_ssh es) (fresh_store domains [])"
  shows "\<exists>t. startSSH env sizes cutoff (fresh_store domains (sh_file (fs_ssh s))) = Some t
    \<and> fs_ssh t = (fs_ssh kept)\<lparr>sh_sessions := map (\<lambda>(i, x). (i, x\<lparr>sx_active := False\<rparr>)) (sh_sessions (fs_ssh kept))\<rparr>
    \<and> es_actors (fs_web t) = es_actors (fs_web kept) \<and> es_daily (fs_web t) = es_daily (fs_web kept)
    \<and> ((\<forall>e \<in> set es. list_all valid_utf8 (ssh_texts e)) \<longrightarrow> kept = s)"
proof -
  let ?log = "map Some (map json_ssh es)"
  let ?v = "fold (load_ssh_line env) ?log (fresh_store domains ?log)"
  have new: "alike (fresh_store domains []) (fresh_store domains log)" for log by (simp add: alike_def fresh_store_def empty_ssh_def)
  have filed: "sh_file (fs_ssh s) = ?log"
    using add_all_replay [OF new, of es env] assms(1) by (simp add: assms(2) fresh_store_def empty_ssh_def comp_def)
  have r: "alike kept ?v" "sh_file (fs_ssh kept) = ?log" "sh_file (fs_ssh ?v) = ?log" "length (sh_sessions (fs_ssh kept)) \<le> maxSessions"
    using add_all_replay [OF new [of ?log], of "map json_ssh es" env] assms(1)
    by (simp_all add: assms(5) fresh_store_def empty_ssh_def comp_def json_ssh_idem)
  have same: "fs_ssh ?v = fs_ssh kept" using r(1-3) by (simp add: alike_def)
  have "loadSSH env (fresh_store domains ?log) = ?v"
    using r(4) same by (simp add: loadSSH_def fresh_store_def empty_ssh_def on_ssh_def)
  then have init: "fs_ssh (initSSH env (fresh_store domains ?log))
        = (fs_ssh kept)\<lparr>sh_sessions := map (\<lambda>(i, x). (i, x\<lparr>sx_active := False\<rparr>)) (sh_sessions (fs_ssh kept))\<rparr>
      \<and> es_actors (fs_web (initSSH env (fresh_store domains ?log))) = es_actors (fs_web kept)
      \<and> es_daily (fs_web (initSSH env (fresh_store domains ?log))) = es_daily (fs_web kept)"
    using r(1) same by (simp add: initSSH_def alike_def)
  have "compactJSONL sv_at cutoff ?log = ?log" using assms(3) by (intro compact_all) simp
  then have "on_ssh (\<lambda>h. h\<lparr>sh_file := compactJSONL sv_at cutoff (sh_file h)\<rparr>) (fresh_store domains ?log) = fresh_store domains ?log"
    by (simp add: on_ssh_def fresh_store_def empty_ssh_def)
  moreover have "scannable sizes" using assms(4) not_scannable [of sizes] by auto
  ultimately have "startSSH env sizes cutoff (fresh_store domains (sh_file (fs_ssh s))) = Some (initSSH env (fresh_store domains ?log))"
    by (simp add: startSSH_def filed)
  moreover have "kept = s" if "\<forall>e \<in> set es. list_all valid_utf8 (ssh_texts e)"
    using that by (simp add: assms(2,5) json_ssh_same map_idI)
  ultimately show ?thesis using init by blast
qed

section \<open>Runs of events\<close>

text \<open>The SSH half of a store after events and prunings: every property of it is shown for one event and for a dropped session.\<close>

lemma drop_fields [simp]:
  "sh_events (drop_ssh i h) = sh_events h" "sh_counts (drop_ssh i h) = sh_counts h" "sh_sessions (drop_ssh i h) = AList.delete i (sh_sessions h)"
  by (simp_all add: drop_ssh_def)

lemma limit_keeps: "(\<And>i h. P h \<Longrightarrow> P (drop_ssh i h)) \<Longrightarrow> P h \<Longrightarrow> P (limit_ssh most target h)"
proof -
  assume step: "\<And>i h. P h \<Longrightarrow> P (drop_ssh i h)" and h: "P h"
  have "P (fold drop_ssh xs g)" if "P g" for xs g using that step by (induction xs arbitrary: g) simp_all
  then show ?thesis using h by (simp add: limit_ssh_def pruneSSHSessions_def)
qed

lemma fs_ssh_any: "fs_ssh (fst (AddSSHEvent env log e s)) =
    (if log = Some False then fs_ssh s else limit_ssh maxSessions (maxSessions - 1000) (ssh_half env e (write_ssh log e (fs_ssh s))))"
  by (simp add: AddSSHEvent_def Let_def)

lemma add_keeps:
  assumes "\<And>h. P h \<Longrightarrow> P (ssh_half env e h)" "\<And>i h. P h \<Longrightarrow> P (drop_ssh i h)" "\<And>f h. P h \<Longrightarrow> P (h\<lparr>sh_file := f\<rparr>)" "P (fs_ssh s)"
  shows "P (fs_ssh (fst (AddSSHEvent env log e s)))"
proof (cases "log = Some False")
  case False
  have "P (write_ssh log e (fs_ssh s))" using assms(3,4) by (simp add: write_ssh_def)
  then have "P (ssh_half env e (write_ssh log e (fs_ssh s)))" by (rule assms(1))
  from limit_keeps [where P = P, OF assms(2) this]
  have "P (limit_ssh n m (ssh_half env e (write_ssh log e (fs_ssh s))))" for n m .
  then show ?thesis using False by (simp add: fs_ssh_any)
qed (simp add: fs_ssh_any assms(4))

section \<open>The totals agree\<close>

definition policy_names :: "(string, int) gomap \<Rightarrow> int" where
  "policy_names m = sum_list (map snd m)"

definition counts_ok :: "sshCounts \<Rightarrow> int \<Rightarrow> int \<Rightarrow> int \<Rightarrow> bool" where
  "counts_ok c k a r \<longleftrightarrow>
     ct_connections c = k \<and> balanced (ct_day_connections c) k \<and> balanced (ct_countries c) k
     \<and> ct_attempts c = a \<and> balanced (ct_day_auth c) a \<and> balanced (ct_users c) a \<and> balanced (ct_policies c) (2 * a)
     \<and> ct_commands c = r \<and> balanced (ct_day_commands c) r \<and> balanced (ct_names c) r \<and> balanced (ct_families c) r"

definition one_if :: "bool \<Rightarrow> int" where "one_if b = (if b then 1 else 0)"

lemma count_ssh_ok:
  assumes "counts_ok c k a r" "0 \<le> k" "0 \<le> a" "0 \<le> r" "k < 2 ^ 61" "a < 2 ^ 61" "r < 2 ^ 61"
  shows "counts_ok (count_ssh key e x c) (k + one_if (sv_type e = ''connect'')) (a + one_if (sv_type e = ''auth'')) (r + one_if (ran_command e))"
proof -
  have w: "wrap64 (n + 1) = n + 1" if "0 \<le> n" "n < 2 ^ 61" for n using that by (intro wrap64_small) auto
  have b: "balanced m n \<Longrightarrow> n < 2 ^ 62 \<Longrightarrow> balanced (incr j m) (n + 1)" for m :: "(string, int) gomap" and n j
    by (rule balanced_incr) auto
  have p: "balanced m (2 * a) \<Longrightarrow> balanced (incr i (incr j m)) (2 * a + 2)" for m :: "(string, int) gomap" and i j
    using b [OF b, of m "2 * a" i j] assms(6) by (simp add: algebra_simps)
  consider "sv_type e = ''connect''" | "sv_type e = ''auth''" | "sv_type e = ''shell''" | "ran_command e"
    | "sv_type e \<noteq> ''connect''" "sv_type e \<noteq> ''auth''" "sv_type e \<noteq> ''shell''" "\<not> ran_command e" by blast
  then show ?thesis
  proof cases
    case 1
    then show ?thesis using assms(1,2,5) by (simp add: counts_ok_def count_ssh_def ran_command_def one_if_def Let_def w b)
  next
    case 2
    then show ?thesis using assms(1,3,6) by (simp add: counts_ok_def count_ssh_def ran_command_def one_if_def Let_def w b p)
  next
    case 4
    then show ?thesis using assms(1,4,7) by (auto simp: counts_ok_def count_ssh_def ran_command_def one_if_def Let_def w b)
  qed (use assms(1) in \<open>simp_all add: counts_ok_def count_ssh_def ran_command_def one_if_def Let_def\<close>)
qed

definition number :: "(sshEvent \<Rightarrow> bool) \<Rightarrow> sshEvent list \<Rightarrow> int" where
  "number P es = int (length (List.filter P es))"

lemma number_step: "number P (e # es) = one_if (P e) + number P es"
  by (simp add: number_def one_if_def)

lemma add_counts: "sh_counts (fs_ssh (fst (AddSSHEvent env (Some True) e s))) = count_ssh (en_day_key (sn_web env)) e (session_before e (fs_ssh s)) (sh_counts (fs_ssh s))"
proof -
  have "sh_counts (limit_ssh n m h) = sh_counts h" for n m h
    by (rule limit_keeps [where P = "\<lambda>g. sh_counts g = sh_counts h"]) simp_all
  then show ?thesis by (simp add: fs_ssh_add write_ssh_def session_before_def)
qed

lemma all_counts:
  assumes "counts_ok (sh_counts (fs_ssh s)) k a r" "0 \<le> k" "0 \<le> a" "0 \<le> r"
    and "k + int (length es) < 2 ^ 61" "a + int (length es) < 2 ^ 61" "r + int (length es) < 2 ^ 61"
  shows "counts_ok (sh_counts (fs_ssh (add_all env es s))) (k + number (\<lambda>e. sv_type e = ''connect'') es)
    (a + number (\<lambda>e. sv_type e = ''auth'') es) (r + number ran_command es)"
  using assms
proof (induction es arbitrary: s k a r)
  case (Cons e es)
  let ?s = "fst (AddSSHEvent env (Some True) e s)"
  have "counts_ok (sh_counts (fs_ssh ?s)) (k + one_if (sv_type e = ''connect'')) (a + one_if (sv_type e = ''auth'')) (r + one_if (ran_command e))"
    unfolding add_counts using Cons.prems by (intro count_ssh_ok) auto
  from Cons.IH [OF this] show ?case using Cons.prems(2-)
    by (simp add: add_all_def number_step one_if_def algebra_simps split: if_splits)
qed (simp add: add_all_def number_def)

text \<open>C8: No SSH event is lost or counted twice: after fewer than \<open>2 ^ 61\<close> events the totals of connections, of
  attempts and of commands are the numbers of those events; each is the sum of its counts by day and by name
  (countries; users; commands, families), and every attempt is in the policy counts exactly twice, under its
  reason and under accepted or rejected.
\<close>

theorem ssh_totals_agree:
  assumes "int (length es) < 2 ^ 61" "c = sh_counts (fs_ssh (add_all env es (fresh_store domains log)))"
  shows "ct_connections c = number (\<lambda>e. sv_type e = ''connect'') es \<and> ct_attempts c = number (\<lambda>e. sv_type e = ''auth'') es
    \<and> ct_commands c = number ran_command es
    \<and> sum_list (map snd (ct_day_connections c)) = ct_connections c \<and> sum_list (map snd (ct_countries c)) = ct_connections c
    \<and> sum_list (map snd (ct_day_auth c)) = ct_attempts c \<and> sum_list (map snd (ct_users c)) = ct_attempts c
    \<and> sum_list (map snd (ct_policies c)) = 2 * ct_attempts c
    \<and> sum_list (map snd (ct_day_commands c)) = ct_commands c \<and> sum_list (map snd (ct_names c)) = ct_commands c
    \<and> sum_list (map snd (ct_families c)) = ct_commands c"
proof -
  have "counts_ok (sh_counts (fs_ssh (fresh_store domains log))) 0 0 0"
    by (simp add: counts_ok_def fresh_store_def empty_ssh_def no_counts_def balanced_def)
  from all_counts [OF this, of es env] assms show ?thesis by (simp add: counts_ok_def balanced_def)
qed

section \<open>Sessions\<close>

definition ssh_session_ok :: "string \<Rightarrow> sshSession \<Rightarrow> bool" where
  "ssh_session_ok i x \<longleftrightarrow>
     sx_id x = i \<and> sx_first x \<le> sx_last x \<and> 0 \<le> sx_duration x \<and> 0 \<le> sl_depth (sx_level x) \<and> 0 \<le> sl_risk (sx_level x)
     \<and> 0 \<le> sl_loop (sx_level x) \<and> 0 \<le> sl_frustration (sx_level x) \<and> sl_class (sx_level x) \<noteq> [] \<and> sl_actor (sx_level x) \<noteq> []
     \<and> (sx_active x \<longrightarrow> sx_gone x = 0 \<or> sx_shell x) \<and> sx_dir x \<noteq> []"

definition level_ok :: "sshLevel \<Rightarrow> bool" where
  "level_ok l \<longleftrightarrow> 0 \<le> sl_depth l \<and> 0 \<le> sl_risk l \<and> 0 \<le> sl_loop l \<and> 0 \<le> sl_frustration l \<and> sl_class l \<noteq> [] \<and> sl_actor l \<noteq> []"

lemma merge_level_ok: "level_ok l \<Longrightarrow> level_ok (merge_level e l)"
  by (simp add: level_ok_def merge_level_def newer_def max_def)

lemma merge_first_last: "sx_first x \<le> sx_last x \<Longrightarrow> sx_first (merge_ssh e x) \<le> sx_last (merge_ssh e x)"
  by (simp add: merge_ssh_def)

lemma merge_ok: "ssh_session_ok i x \<Longrightarrow> ssh_session_ok i (merge_ssh e x)"
proof -
  assume ok: "ssh_session_ok i x"
  then have "level_ok (sx_level (merge_ssh e x))"
    using merge_level_ok [of "sx_level x" "sv_level e"] by (simp add: merge_ssh_def ssh_session_ok_def level_ok_def)
  moreover have "sx_dir (merge_ssh e x) \<noteq> []" using ok by (simp add: merge_ssh_def ssh_session_ok_def newer_def)
  moreover have "sx_first (merge_ssh e x) \<le> sx_last (merge_ssh e x)" using ok by (intro merge_first_last) (simp add: ssh_session_ok_def)
  moreover have "sx_id (merge_ssh e x) = sx_id x" "sx_duration (merge_ssh e x) = sx_duration x" "sx_active (merge_ssh e x) = sx_active x"
    "sx_gone (merge_ssh e x) = sx_gone x" "sx_shell (merge_ssh e x) = sx_shell x" by (simp_all add: merge_ssh_def)
  ultimately show ?thesis using ok by (simp add: ssh_session_ok_def level_ok_def)
qed

lemma type_ok: "ssh_session_ok i x \<Longrightarrow> ssh_session_ok i (type_ssh e x)"
  by (simp add: ssh_session_ok_def type_ssh_def Let_def) blast

lemma duration_ok: "ssh_session_ok i x \<Longrightarrow> ssh_session_ok i (set_duration x)"
  by (auto simp: ssh_session_ok_def set_duration_def)

lemma step_ok: "ssh_session_ok i x \<Longrightarrow> ssh_session_ok i (ssh_step e x)"
  by (simp add: ssh_step_def merge_ok type_ok duration_ok)

definition ssh_store_ok :: "sshStore \<Rightarrow> bool" where
  "ssh_store_ok h \<longleftrightarrow> map_wf (sh_sessions h) \<and> length (sh_events h) \<le> maxRing \<and> (\<forall>(i, x) \<in> set (sh_sessions h). ssh_session_ok i x)"

lemma before_ok: "ssh_store_ok h \<Longrightarrow> ssh_session_ok (sv_session e) (session_before e h)"
proof (cases "map_of (sh_sessions h) (sv_session e)")
  case None
  then show ?thesis by (simp add: session_before_def lookup_or_def ssh_session_ok_def new_ssh_session_def)
next
  case (Some x)
  then show "ssh_store_ok h \<Longrightarrow> ?thesis"
    by (auto simp: session_before_def lookup_or_def ssh_store_ok_def dest: map_of_SomeD)
qed

lemma half_ok: "ssh_store_ok h \<Longrightarrow> ssh_store_ok (ssh_half env e h)"
  using step_ok [OF before_ok, of h e e] set_update [of "sv_session e" "ssh_step e (session_before e h)" "sh_sessions h"]
  by (auto simp: ssh_store_ok_def length_push_last)

lemma drop_ok: "ssh_store_ok h \<Longrightarrow> ssh_store_ok (drop_ssh i h)"
  using set_delete [of i "sh_sessions h"] by (auto simp: ssh_store_ok_def)

text \<open>A pruned store has as many sessions as it should.\<close>

lemma drop_all_length:
  "map_wf (sh_sessions h) \<Longrightarrow> distinct is \<Longrightarrow> set is \<subseteq> fst ` set (sh_sessions h)
   \<Longrightarrow> length (sh_sessions (fold drop_ssh is h)) = length (sh_sessions h) - length is"
proof (induction "is" arbitrary: h)
  case (Cons i "is")
  have "set is \<subseteq> fst ` set (sh_sessions (drop_ssh i h))"
    using Cons.prems(2,3) by (auto simp: AList.delete_eq image_iff) force
  then show ?case using Cons by (simp add: length_delete has_key_iff)
qed simp

lemma prune_length:
  assumes "map_wf (sh_sessions h)" "target \<le> length (sh_sessions h)"
  shows "length (sh_sessions (pruneSSHSessions target h)) = target"
proof -
  let ?o = "sort_by (earlier_first (\<lambda>p. sx_last (snd p))) (sh_sessions h)"
  have "distinct (map fst ?o)" using assms(1) by (simp add: map_wf_def)
  then have "distinct (oldest_ssh target (sh_sessions h))" by (simp add: oldest_ssh_def take_map [symmetric])
  moreover have "set (oldest_ssh target (sh_sessions h)) \<subseteq> fst ` set (sh_sessions h)"
    unfolding oldest_ssh_def using set_take_subset [of _ ?o] by auto
  moreover have "length (oldest_ssh target (sh_sessions h)) = length (sh_sessions h) - target" by (simp add: oldest_ssh_def)
  ultimately show ?thesis using drop_all_length [OF assms(1)] assms(2) by (simp add: pruneSSHSessions_def)
qed

section \<open>Highlights\<close>

definition highlight_ok :: "sshHighlight \<Rightarrow> bool" where
  "highlight_ok h \<longleftrightarrow>
     50 \<le> hl_score h \<and> hl_score h \<le> 100 \<and> hl_rating h = highlight_rating (hl_score h)
     \<and> hl_signals h \<noteq> [] \<and> length (hl_tags h) = length (hl_signals h) \<and> HasPrefix (hl_title h) (hd (hl_signals h))"

lemma shown_nonempty [simp]: "shown_signals st \<noteq> []"
  unfolding shown_signals_def Let_def by (simp split: if_split)

lemma highlight_of_ok: "50 \<le> highlight_score x st \<Longrightarrow> highlight_ok (highlight_of x st)"
proof -
  assume s: "50 \<le> highlight_score x st"
  have "highlight_score x st \<le> 100" by (simp add: highlight_score_def Let_def)
  then show ?thesis using s by (simp add: highlight_ok_def highlight_of_def Let_def HasPrefix_def)
qed

lemma highlight_session [simp]: "hl_session (highlight_of x st) = sx_id x"
  by (simp add: highlight_of_def Let_def)

definition scored :: "sshSession \<Rightarrow> highlightState \<Rightarrow> bool" where
  "scored x st \<longleftrightarrow> sx_accepted x \<and> hi_accepted st \<noteq> 0 \<and> 2 \<le> hi_commands st"

definition shown :: "sshSession \<Rightarrow> highlightState \<Rightarrow> bool" where
  "shown x st \<longleftrightarrow> (high_signal st \<or> 4 \<le> hi_commands st \<and> 2 \<le> length (hi_families st)) \<and> 50 \<le> highlight_score x st"

lemma score_eq:
  "scoreSSHHighlightState x st =
     (if scored x st then (if shown x (mark_scripted st) then Some (highlight_of x (mark_scripted st)) else None, mark_scripted st)
      else (None, st))"
  by (auto simp: scoreSSHHighlightState_def Let_def scored_def shown_def sshHighlightMinScore_def)

lemma score_sound:
  "fst (scoreSSHHighlightState x st) = Some h \<Longrightarrow> highlight_ok h \<and> hl_session h = sx_id x \<and> sx_accepted x"
  by (auto simp: score_eq shown_def scored_def highlight_of_ok split: if_splits)

text \<open>A second reading finds the same.\<close>

lemma mark_again [simp]: "mark_scripted (mark_scripted st) = mark_scripted st" "scored x (mark_scripted st) = scored x st"
  by (simp_all add: mark_scripted_def scripted_recon_def scored_def)

lemma score_again: "fst (scoreSSHHighlightState x (snd (scoreSSHHighlightState x st))) = fst (scoreSSHHighlightState x st)"
  by (simp add: score_eq)

section \<open>Pages\<close>

interpretation highlight_rows: row_order highlight_before
  using lex_le_total by unfold_locales (auto simp: highlight_before_def intro: lex_le_trans)

text \<open>Every highlight a store can show, from the history and from the sessions that are kept.\<close>

definition all_highlights :: "(string \<Rightarrow> string) \<Rightarrow> sshStore \<Rightarrow> sshHighlight list" where
  "all_highlights uni s =
     map snd (sh_history s) @ List.map_filter (\<lambda>(i, x). fst (scoreSSHHighlightState x (state_for uni s i))) (sh_sessions s)"

text \<open>No session came back after it had been dropped, and a highlight carries a time and the name of its session.\<close>

definition highlights_keyed :: "(string \<Rightarrow> string) \<Rightarrow> sshStore \<Rightarrow> bool" where
  "highlights_keyed uni s \<longleftrightarrow>
     fst ` set (sh_history s) \<inter> fst ` set (sh_sessions s) = {}
     \<and> distinct (map hl_session (all_highlights uni s)) \<and> (\<forall>h \<in> set (all_highlights uni s). hl_at h \<noteq> 0 \<and> hl_session h \<noteq> [])"

lemma map_filter_skip: "(\<And>x. x \<in> set xs \<Longrightarrow> \<not> P x \<Longrightarrow> f x = None) \<Longrightarrow> List.map_filter f (List.filter P xs) = List.map_filter f xs"
  by (induction xs) (auto simp: List.map_filter_simps split: option.split)

lemma page_rows:
  assumes "fst ` set (sh_history s) \<inter> fst ` set (sh_sessions s) = {}"
  shows "highlight_rows uni q s = List.filter (wanted uni q) (all_highlights uni s)"
proof -
  have "fst p \<notin> set (map fst (List.filter (\<lambda>p. wanted uni q (snd p)) (sh_history s)))" if "p \<in> set (sh_sessions s)" for p
    using assms that by force
  then have "scored_now uni q s = List.filter (\<lambda>p. sx_accepted (snd p)) (sh_sessions s)"
    unfolding scored_now_def Let_def by (intro filter_cong) auto
  moreover have "List.map_filter f (List.filter (\<lambda>p. sx_accepted (snd p)) xs) = List.map_filter f xs"
    if "\<And>i x. \<not> sx_accepted x \<Longrightarrow> f (i, x) = None" for f :: "string \<times> sshSession \<Rightarrow> sshHighlight option" and xs
    using that by (intro map_filter_skip) auto
  ultimately show ?thesis by (simp add: highlight_rows_def all_highlights_def score_eq scored_def)
qed

lemma map_filter_same: "(\<And>x. x \<in> set xs \<Longrightarrow> f x = g x) \<Longrightarrow> List.map_filter f xs = List.map_filter g xs"
  by (induction xs) (auto simp: List.map_filter_simps split: option.split)

text \<open>The store that a page leaves shows the same.\<close>

lemma map_of_snd: "map_of (map (\<lambda>(i, x). (i, f i x)) m) k = map_option (f k) (map_of m k)"
  by (induction m) auto

lemma view_keeps:
  assumes "map_wf (sh_sessions s)"
  shows "all_highlights uni (snd (SSHHighlightsRange uni q s)) = all_highlights uni s"
    and "sh_history (snd (SSHHighlightsRange uni q s)) = sh_history s"
    and "sh_sessions (snd (SSHHighlightsRange uni q s)) = sh_sessions s"
proof -
  let ?t = "snd (SSHHighlightsRange uni q s)"
  show same: "sh_history ?t = sh_history s" "sh_sessions ?t = sh_sessions s" by (simp_all add: SSHHighlightsRange_def Let_def)
  have es: "sh_events ?t = sh_events s" by (simp add: SSHHighlightsRange_def Let_def)
  have "fst (scoreSSHHighlightState x (state_for uni ?t i)) = fst (scoreSSHHighlightState x (state_for uni s i))"
    if "(i, x) \<in> set (sh_sessions s)" for i x
  proof -
    have m: "map_of (sh_sessions s) i = Some x" using assms that by (simp add: map_wf_def)
    have "map_of (sh_states ?t) i = map_option (\<lambda>st. if i \<in> set (map fst (scored_now uni q s)) then snd (scoreSSHHighlightState x st) else st)
        (map_of (sh_states s) i)"
      by (simp add: SSHHighlightsRange_def Let_def map_of_snd m)
    then show ?thesis using es score_again by (auto simp: state_for_def split: option.split)
  qed
  then show "all_highlights uni ?t = all_highlights uni s"
    unfolding all_highlights_def same by (auto intro!: map_filter_same)
qed

definition page_order :: "(string \<Rightarrow> string) \<Rightarrow> highlightQuery \<Rightarrow> sshStore \<Rightarrow> sshHighlight list" where
  "page_order uni q s = sort_by highlight_before (List.filter (wanted uni q) (all_highlights uni s))"

definition next_query :: "highlightQuery \<Rightarrow> gotime \<Rightarrow> string \<Rightarrow> highlightQuery" where
  "next_query q at i = q\<lparr>hq_before := at, hq_before_id := i\<rparr>"

lemma past_next: "past_cursor q h \<Longrightarrow> past_cursor (next_query q (hl_at h) (hl_session h)) y \<Longrightarrow> hl_at h \<noteq> 0 \<Longrightarrow> past_cursor q y"
  using lex_le_total [of "hl_session h" "hl_session y"] lex_le_trans [of "hq_before_id q" "hl_session y" "hl_session h"]
  by (auto simp: past_cursor_def next_query_def)

lemma wanted_next:
  assumes "wanted uni q h" "hl_at h \<noteq> 0"
  shows "wanted uni (next_query q (hl_at h) (hl_session h)) y \<longleftrightarrow> past_cursor (next_query q (hl_at h) (hl_session h)) y \<and> wanted uni q y"
  using past_next [of q h y] assms by (auto simp: wanted_def next_query_def)

lemma next_page:
  assumes "highlights_keyed uni s" "n \<noteq> 0" "length (take n (page_order uni q s)) = n" "h = List.last (take n (page_order uni q s))"
  shows "page_order uni (next_query q (hl_at h) (hl_session h)) s = drop n (page_order uni q s)"
proof -
  let ?L = "page_order uni q s" and ?past = "past_cursor (next_query q (hl_at h) (hl_session h))"
  have L: "set ?L \<subseteq> set (all_highlights uni s)" "sorted_wrt highlight_before ?L" "distinct (map hl_session ?L)"
    using assms(1) distinct_map_filter [of hl_session "all_highlights uni s" "wanted uni q"]
    by (auto simp: page_order_def highlight_rows.sorted_sort highlights_keyed_def)
  obtain xs where t: "take n ?L = xs @ [h]" using assms(2-4) by (metis append_butlast_last_id length_0_conv)
  have split: "?L = xs @ h # drop n ?L" using t by (metis append_take_drop_id append_Cons append_Nil append_assoc)
  have sd: "sorted_wrt highlight_before (xs @ h # drop n ?L)" "distinct (map hl_session (xs @ h # drop n ?L))"
    unfolding split [symmetric] by (rule L(2), rule L(3))
  have order: "\<forall>y \<in> set xs. highlight_before y h" "\<forall>y \<in> set (drop n ?L). highlight_before h y \<and> hl_session y \<noteq> hl_session h"
    using sd by (auto simp: sorted_wrt_append) (metis imageI)
  have "h \<in> set ?L" by (subst split) simp
  then have h: "wanted uni q h" "hl_at h \<noteq> 0" "hl_session h \<noteq> []"
    using L(1) assms(1) by (auto simp: page_order_def highlights_keyed_def)
  have "\<not> ?past y" if "y \<in> set xs \<or> y = h" for y
    using that order(1) h(2) lex_le_total [of "hl_session h" "hl_session h"] by (cases "y = h") (auto simp: past_cursor_def next_query_def highlight_before_def)
  moreover have "?past y" if "y \<in> set (drop n ?L)" for y
    using that order(2) h(3) lex_le_antisym [of "hl_session h" "hl_session y"]
    by (fastforce simp: past_cursor_def next_query_def highlight_before_def)
  ultimately have "List.filter ?past (xs @ h # drop n ?L) = drop n ?L" by simp
  moreover have "page_order uni (next_query q (hl_at h) (hl_session h)) s = List.filter ?past ?L"
    unfolding page_order_def highlight_rows.filter_sort filter_filter
    by (rule arg_cong [of _ _ "sort_by highlight_before"], rule filter_cong [OF refl]) (simp add: wanted_next [OF h(1,2)] conj_commute)
  ultimately show ?thesis using split by simp
qed

text \<open>A reader that follows the cursors; \<open>None\<close> when the pages do not end within \<open>k\<close>.\<close>

fun read_pages :: "nat \<Rightarrow> (string \<Rightarrow> string) \<Rightarrow> highlightQuery \<Rightarrow> sshStore \<Rightarrow> sshHighlight list option" where
  "read_pages 0 uni q s = None"
| "read_pages (Suc k) uni q s =
     (case SSHHighlightsRange uni q s of ((rows, c), s') \<Rightarrow>
        case c of None \<Rightarrow> Some rows
        | Some (at, i) \<Rightarrow> map_option ((@) rows) (read_pages k uni (next_query q at i) s'))"

lemma page_is:
  "highlights_keyed uni s \<Longrightarrow> fst (SSHHighlightsRange uni q s) =
     (let rows = take (clamp_limit (hq_limit q)) (page_order uni q s)
      in (rows, if length rows = clamp_limit (hq_limit q) then Some (hl_at (List.last rows), hl_session (List.last rows)) else None))"
  by (simp add: SSHHighlightsRange_def Let_def page_order_def page_rows highlights_keyed_def)

text \<open>C3: A reader of the highlights that follows the cursors gets every highlight the query asks for exactly once,
  the newest first, and comes to an end, whatever the size of the pages: if no session came back after it had
  been dropped, the pages are the sorted list cut into pieces, although each page changes the stored states.
\<close>

theorem highlight_pages_complete:
  assumes "map_wf (sh_sessions s)" "highlights_keyed uni s" "length (page_order uni q s) < k"
  shows "read_pages k uni q s = Some (page_order uni q s)"
  using assms
proof (induction k arbitrary: q s)
  case (Suc k)
  let ?n = "clamp_limit (hq_limit q)" and ?L = "page_order uni q s"
  let ?rows = "take ?n ?L"
  have n: "?n \<noteq> 0" by (simp add: clamp_limit_def)
  obtain page t where p: "SSHHighlightsRange uni q s = (page, t)" by fastforce
  have page: "page = (?rows, if length ?rows = ?n then Some (hl_at (List.last ?rows), hl_session (List.last ?rows)) else None)"
    using page_is [OF Suc.prems(2), of q] by (simp add: p Let_def)
  have kept: "all_highlights uni t = all_highlights uni s" "sh_history t = sh_history s" "sh_sessions t = sh_sessions s"
    using view_keeps [OF Suc.prems(1), of uni q] by (simp_all add: p)
  show ?case
  proof (cases "length ?rows = ?n")
    case False
    then have "length ?L < ?n" by simp
    then show ?thesis by (simp add: p page)
  next
    case True
    let ?q = "next_query q (hl_at (List.last ?rows)) (hl_session (List.last ?rows))"
    have rest: "page_order uni ?q t = drop ?n ?L"
      using next_page [OF Suc.prems(2) n True refl] by (simp add: page_order_def kept(1))
    have t: "map_wf (sh_sessions t)" "highlights_keyed uni t"
      using Suc.prems(1,2) by (simp_all add: highlights_keyed_def kept)
    have "length (page_order uni ?q t) < k" using rest n True Suc.prems(3) by simp
    from Suc.IH [OF t this] have "read_pages k uni ?q t = Some (drop ?n ?L)" by (simp only: rest)
    then show ?thesis unfolding read_pages.simps p page by (simp only: True simp_thms prod.case if_True option.case option.map append_take_drop_id)
  qed
qed simp

section \<open>Any use of the store\<close>

datatype sshOp = Ssh_Event "bool option" sshEvent | Ssh_Page highlightQuery

fun ssh_op :: "storeEnv \<Rightarrow> sshOp \<Rightarrow> fullStore \<Rightarrow> fullStore" where
  "ssh_op env (Ssh_Event log e) s = fst (AddSSHEvent env log e s)"
| "ssh_op env (Ssh_Page q) s = on_ssh (\<lambda>h. snd (SSHHighlightsRange (en_lower (sn_web env)) q h)) s"

definition ssh_inv :: "sshStore \<Rightarrow> bool" where
  "ssh_inv h \<longleftrightarrow> ssh_store_ok h \<and> (\<forall>(i, x) \<in> set (sh_history h). highlight_ok x)"

lemma inv_half: "ssh_inv h \<Longrightarrow> ssh_inv (ssh_half env e h)"
  by (simp add: ssh_inv_def half_ok)

lemma inv_drop: "ssh_inv h \<Longrightarrow> ssh_inv (drop_ssh i h)"
proof -
  assume inv: "ssh_inv h"
  have "highlight_ok y" if "(j, y) \<in> set (sh_history (drop_ssh i h))" for j y
  proof -
    have "(j, y) \<in> set (sh_history h) \<or> (\<exists>x st. fst (scoreSSHHighlightState x st) = Some y)"
      using that set_update [of i _ "sh_history h"] by (auto simp: drop_ssh_def Let_def split: option.splits)
    then show ?thesis using inv score_sound by (auto simp: ssh_inv_def)
  qed
  then show ?thesis using inv drop_ok by (auto simp: ssh_inv_def)
qed

lemma inv_file: "ssh_inv h \<Longrightarrow> ssh_inv (h\<lparr>sh_file := f\<rparr>)"
  by (simp add: ssh_inv_def ssh_store_ok_def)

lemma inv_limit: "ssh_inv h \<Longrightarrow> ssh_inv (limit_ssh n m h)"
  by (rule limit_keeps [where P = ssh_inv]) (rule inv_drop)

lemma limit_length: "ssh_inv h \<Longrightarrow> m \<le> n \<Longrightarrow> length (sh_sessions (limit_ssh n m h)) \<le> n"
  using prune_length [of h m] by (auto simp: limit_ssh_def ssh_inv_def ssh_store_ok_def)

lemma inv_page: "ssh_inv h \<Longrightarrow> ssh_inv (snd (SSHHighlightsRange uni q h))"
  by (simp add: ssh_inv_def ssh_store_ok_def SSHHighlightsRange_def Let_def)

lemma op_inv:
  assumes "ssh_inv (fs_ssh s)" "length (sh_sessions (fs_ssh s)) \<le> maxSessions"
  shows "ssh_inv (fs_ssh (ssh_op env op s)) \<and> length (sh_sessions (fs_ssh (ssh_op env op s))) \<le> maxSessions"
proof (cases op)
  case (Ssh_Event log e)
  have "ssh_inv (ssh_half env e (write_ssh log e (fs_ssh s)))"
    using assms(1) by (intro inv_half) (simp add: write_ssh_def inv_file)
  then show ?thesis using assms inv_limit limit_length [of _ "maxSessions - 1000" maxSessions] by (simp add: Ssh_Event fs_ssh_any)
next
  case (Ssh_Page q)
  then show ?thesis using assms inv_page by (simp add: SSHHighlightsRange_def Let_def ssh_inv_def ssh_store_ok_def)
qed

lemma load_inv: "ssh_inv (fs_ssh s) \<Longrightarrow> ssh_inv (fs_ssh (fold (load_ssh_line env) ls s))"
proof (induction ls arbitrary: s)
  case (Cons l ls)
  have "ssh_inv (fs_ssh (load_ssh_line env l s))"
    using Cons.prems by (cases l) (auto simp: load_ssh_line_def intro: inv_limit inv_half)
  then show ?case using Cons.IH by simp
qed simp

lemma quiet_sessions: "ssh_inv h \<Longrightarrow> ssh_inv (h\<lparr>sh_sessions := map (\<lambda>(i, x). (i, x\<lparr>sx_active := False\<rparr>)) (sh_sessions h)\<rparr>)"
  by (auto simp: ssh_inv_def ssh_store_ok_def map_wf_def case_prod_beta comp_def ssh_session_ok_def)

text \<open>C7: However the SSH store is used after a start from any log (events with or without a log, pages of
  highlights), it has at most 10000 sessions and 5000 events, every session has its own name, began no later
  than it was last seen, has no negative duration, depth or risk, and every highlight kept of a dropped session
  has a score from 50 to 100, the rating of its score, and a title that begins with its first signal.
\<close>

theorem ssh_store_invariant:
  "let h = fs_ssh (fold (ssh_op env) ops (initSSH env (fresh_store domains log)))
   in ssh_inv h \<and> length (sh_sessions h) \<le> maxSessions"
proof -
  have run: "ssh_inv (fs_ssh s) \<Longrightarrow> length (sh_sessions (fs_ssh s)) \<le> maxSessions \<Longrightarrow>
      ssh_inv (fs_ssh (fold (ssh_op env) ops s)) \<and> length (sh_sessions (fs_ssh (fold (ssh_op env) ops s))) \<le> maxSessions" for s
  proof (induction ops arbitrary: s)
    case (Cons op ops)
    show ?case using Cons.IH op_inv [OF Cons.prems, of env op] by simp
  qed simp
  let ?l = "fold (load_ssh_line env) log (fresh_store domains log)"
  have "ssh_inv (fs_ssh (fresh_store domains log))" by (simp add: ssh_inv_def ssh_store_ok_def fresh_store_def empty_ssh_def)
  then have l: "ssh_inv (fs_ssh ?l)" by (rule load_inv)
  have init: "fs_ssh (initSSH env (fresh_store domains log)) =
      (limit_ssh maxSessions maxSessions (fs_ssh ?l))\<lparr>sh_sessions := map (\<lambda>(i, x). (i, x\<lparr>sx_active := False\<rparr>))
         (sh_sessions (limit_ssh maxSessions maxSessions (fs_ssh ?l)))\<rparr>"
    by (simp add: initSSH_def loadSSH_def fresh_store_def empty_ssh_def)
  have "ssh_inv (fs_ssh (initSSH env (fresh_store domains log)))" unfolding init by (intro quiet_sessions inv_limit l)
  moreover have "length (sh_sessions (fs_ssh (initSSH env (fresh_store domains log)))) \<le> maxSessions"
    unfolding init using limit_length [OF l, of maxSessions maxSessions] by simp
  ultimately show ?thesis using run by (simp add: Let_def)
qed

section \<open>Two figures that do not agree\<close>

lemma add_events: "sh_events (fs_ssh (fst (AddSSHEvent env (Some True) e s))) = push_last maxRing e (sh_events (fs_ssh s))"
proof -
  have "sh_events (limit_ssh n m h) = sh_events h" for n m h
    by (rule limit_keeps [where P = "\<lambda>g. sh_events g = sh_events h"]) simp_all
  then show ?thesis by (simp add: fs_ssh_add write_ssh_def)
qed

lemma all_events: "length (sh_events (fs_ssh s)) + length es \<le> maxRing \<Longrightarrow> sh_events (fs_ssh (add_all env es s)) = sh_events (fs_ssh s) @ es"
proof (induction es arbitrary: s)
  case (Cons e es)
  have "push_last maxRing e (sh_events (fs_ssh s)) = sh_events (fs_ssh s) @ [e]"
    using Cons.prems by (simp add: push_last_def last_n_id)
  then show ?case using Cons.IH [of "fst (AddSSHEvent env (Some True) e s)"] Cons.prems by (simp add: add_all_def add_events)
qed (simp add: add_all_def)

text \<open>C34: The overview of a range leaves out the commands of shells: after at most 5000 events the total of the
  overview is greater than that of the open range by the number of commands typed in a shell, since the range
  counts executed commands only.
\<close>

theorem range_misses_shell_commands:
  assumes "length es \<le> maxRing" "h = fs_ssh (add_all env es (fresh_store domains log))"
  shows "fst (sw_commands (SSHOverview key within now h)) = fst (sw_commands (SSHOverviewRange 0 0 h)) + type_count ''command'' es"
proof -
  have e: "sh_events h = es" using all_events [of "fresh_store domains log" es env] assms by (simp add: fresh_store_def empty_ssh_def)
  have k: "counts_ok (sh_counts (fs_ssh (fresh_store domains log))) 0 0 0"
    by (simp add: counts_ok_def fresh_store_def empty_ssh_def no_counts_def balanced_def)
  have "ct_commands (sh_counts h) = number ran_command es"
    using all_counts [OF k, of es env] assms by (simp add: counts_ok_def maxRing_def)
  moreover have "number ran_command es = type_count ''exec'' es + type_count ''command'' es"
    by (induction es) (auto simp: number_def type_count_def ran_command_def)
  ultimately show ?thesis by (simp add: SSHOverview_def SSHOverviewRange_def Let_def e in_range_def)
qed

section \<open>Reading changes the score\<close>

definition plain_level :: sshLevel where
  "plain_level = \<lparr>sl_depth = 5, sl_loop = 0, sl_frustration = 0, sl_persona = [], sl_risk = 40, sl_class = ''suspicious'', sl_actor = ''unknown''\<rparr>"

definition plain_ssh :: "string \<Rightarrow> gotime \<Rightarrow> string \<Rightarrow> sshEvent" where
  "plain_ssh i at kind =
     \<lparr>sv_id = [], sv_at = at, sv_session = i, sv_ip = ''10.0.0.1'', sv_country = [], sv_country_source = [], sv_client = [], sv_user = [],
      sv_type = kind, sv_auth = \<lparr>sa_method = [], sa_accepted = True, sa_supplied = True, sa_length = 0, sa_key = [], sa_reason = []\<rparr>,
      sv_command = \<lparr>sk_line = [], sk_name = [], sk_family = [], sk_stages = [], sk_intent = [], sk_target = [], sk_cwd = [], sk_output = []\<rparr>,
      sv_level = plain_level, sv_message = [], sv_canaries = [], sv_fingerprint = [], sv_secondary = [],
      sv_payload = \<lparr>sy_bytes = 0, sy_sha = [], sy_kind = [], sy_stage = [], sy_path = [], sy_relation = [], sy_network = [], sy_port = 0\<rparr>\<rparr>"

definition busy_state :: highlightState where
  "busy_state = \<lparr>hi_accepted = 1, hi_first = 2, hi_last = 12, hi_commands = 10, hi_families = [''recon'', ''network'', ''system''], hi_signals = []\<rparr>"

definition busy_session :: sshSession where
  "busy_session = (new_ssh_session (plain_ssh ''s'' 1 ''connect''))\<lparr>sx_accepted := True, sx_level := plain_level, sx_commands := 10\<rparr>"

section \<open>Concrete runs\<close>

definition plain_store_env :: storeEnv where
  "plain_store_env =
     \<lparr>sn_web = \<lparr>en_lower = (\<lambda>x. x), en_upper = (\<lambda>x. x), en_parse_ip = (\<lambda>_. None), en_internal_ip = (\<lambda>_. False), en_digit = (\<lambda>_. False),
        en_day_key = (\<lambda>_. ''2024-05-01''), en_local_day = (\<lambda>_. 0), en_actor_event = applyActorHTTPEvent plain_actor_env,
        en_actor_drop = drop_sequences\<rparr>,
      sn_actor = plain_actor_env, sn_fold = (\<lambda>x. x)\<rparr>"

abbreviation "ssh_visit \<equiv> [plain_ssh ''s'' 1 ''connect'', plain_ssh ''s'' 2 ''auth'', plain_ssh ''s'' 3 ''shell'', plain_ssh ''s'' 4 ''command'']"
abbreviation "visited \<equiv> add_all plain_store_env ssh_visit (fresh_store no_domains [])"

lemma ssh_visit_texts: "\<forall>e \<in> set ssh_visit. list_all valid_utf8 (ssh_texts e)"
  by (simp add: ssh_texts_def plain_ssh_def plain_level_def valid_ascii is_ascii_def)

theorem restart_finds_ssh_witness:
  "\<exists>t. startSSH plain_store_env [300, 300, 300, 300] 1 (fresh_store no_domains (sh_file (fs_ssh visited))) = Some t
    \<and> sh_counts (fs_ssh t) = sh_counts (fs_ssh visited)"
proof -
  have "length ssh_visit \<le> maxSessions" "\<forall>e \<in> set ssh_visit. sv_at e \<noteq> 0 \<and> 1 \<le> sv_at e" "\<forall>n \<in> set [300, 300, 300, 300]. n < (2097152 :: nat)"
    by (simp_all add: maxSessions_def plain_ssh_def)
  from restart_finds_ssh [OF this(1) refl this(2,3) refl, of plain_store_env no_domains] ssh_visit_texts
  obtain t kept where t: "startSSH plain_store_env [300, 300, 300, 300] 1 (fresh_store no_domains (sh_file (fs_ssh visited))) = Some t"
    and ssh: "fs_ssh t = (fs_ssh kept)\<lparr>sh_sessions := map (\<lambda>(i, x). (i, x\<lparr>sx_active := False\<rparr>)) (sh_sessions (fs_ssh kept))\<rparr>"
    and kept: "kept = visited" by blast
  have "sh_counts (h\<lparr>sh_sessions := m\<rparr>) = sh_counts h" for h :: sshStore and m by simp
  then show ?thesis by (intro exI [of _ t]) (simp only: t ssh kept simp_thms)
qed

theorem ssh_totals_agree_witness:
  "ct_commands (sh_counts (fs_ssh visited)) = 1 \<and> sum_list (map snd (ct_policies (sh_counts (fs_ssh visited)))) = 2"
  using ssh_totals_agree [of ssh_visit "sh_counts (fs_ssh visited)" plain_store_env no_domains "[]"]
  by (simp add: number_def ran_command_def plain_ssh_def)

theorem range_misses_shell_commands_witness:
  "fst (sw_commands (SSHOverview (\<lambda>_. []) 0 9 (fs_ssh visited))) = fst (sw_commands (SSHOverviewRange 0 0 (fs_ssh visited))) + 1"
  using range_misses_shell_commands [of ssh_visit "fs_ssh visited" plain_store_env no_domains "[]" "\<lambda>_. []" 0 9]
  by (simp add: maxRing_def type_count_def plain_ssh_def)

definition old_highlight :: "string \<Rightarrow> gotime \<Rightarrow> sshHighlight" where
  "old_highlight i at = (highlight_of busy_session busy_state)\<lparr>hl_session := i, hl_at := at\<rparr>"

definition two_highlights :: sshStore where
  "two_highlights = (empty_ssh [])\<lparr>sh_history := [(''a'', old_highlight ''a'' 5), (''b'', old_highlight ''b'' 9)]\<rparr>"

definition one_each :: highlightQuery where
  "one_each = \<lparr>hq_limit = 1, hq_before = 0, hq_before_id = [], hq_rating = [], hq_from = 0, hq_to = 0\<rparr>"

theorem highlight_pages_complete_witness:
  "map_option (map hl_session) (read_pages 3 (\<lambda>x. x) one_each two_highlights) = Some [''b'', ''a'']"
proof -
  let ?a = "old_highlight ''a'' 5" and ?b = "old_highlight ''b'' 9"
  have all: "all_highlights (\<lambda>x. x) two_highlights = [?a, ?b]"
    by (simp add: all_highlights_def two_highlights_def empty_ssh_def List.map_filter_simps)
  have rows: "hl_session (old_highlight i at) = i" "hl_at (old_highlight i at) = at" for i at by (simp_all add: old_highlight_def)
  have order: "page_order (\<lambda>x. x) one_each two_highlights = [?b, ?a]"
    by (simp add: page_order_def all wanted_def past_cursor_def one_each_def sort_by_def highlight_before_def rows ToLower_def)
  have "highlights_keyed (\<lambda>x. x) two_highlights"
    by (simp add: highlights_keyed_def all rows) (simp add: two_highlights_def empty_ssh_def)
  moreover have "map_wf (sh_sessions two_highlights)" by (simp add: two_highlights_def empty_ssh_def)
  ultimately show ?thesis using highlight_pages_complete [of two_highlights "\<lambda>x. x" one_each 3] by (simp add: order rows)
qed

section \<open>A request and the profile of its address\<close>

lemma counted_actors [simp]:
  "es_actors (countHTTPActivity env e s) = es_actors s" "es_actors (pushEvent e s) = es_actors s"
  "es_actors (countPath env p s) = es_actors s" "es_actors (countDay env e s) = es_actors s" "es_actors (countTarget env t s) = es_actors s"
  "es_actors (countRequestHost env e s) = es_actors s" "es_actors (countUnknown env e s) = es_actors s"
  "es_actors (countProbe env e s) = es_actors s" "es_actors (countCatchAll env e s) = es_actors s"
  by (simp_all add: countHTTPActivity_def pushEvent_def countPath_def countDay_def countTarget_def countRequestHost_def countUnknown_def
      countProbe_def countCatchAll_def daily_count(2) Let_def)

lemma count_actors: "es_actors (countEvent env e s) = en_actor_event env (es_events (countEvent env e s)) e (es_actors s)"
  unfolding countEvent_def Let_def actorEvent_def by simp

text \<open>C9: Recording a web event raises the profile of its address: if the event is recorded, has an address and does
  not come from the server itself, the store has a profile under the id of the address whose risk, depth and
  class are at least those of the event, which has seen the web, and which is automated if the event is.
\<close>

theorem event_raises_profile:
  assumes "en_actor_event env = applyActorHTTPEvent aenv" "AddEvent env log e s = (s', True)"
    and "TrimSpace (ev_ip e) \<noteq> []" "\<not> eo_self_origin (ev_origin e)"
  shows "\<exists>a. map_of (ax_actors (es_actors s')) (actorID (ae_sha aenv) (ev_ip e)) = Some a
    \<and> sc_risk (ev_scoring e) \<le> ap_risk a \<and> sc_depth (ev_scoring e) \<le> ap_depth a
    \<and> class_rank (sc_class (ev_scoring e)) \<le> class_rank (ap_class a) \<and> ''http'' \<in> set (ap_protocols a)
    \<and> (sc_actor (ev_scoring e) = ''automated'' \<longrightarrow> ap_actor a = ''automated'')"
proof -
  have "es_actors s' = es_actors (countEvent env e (write_log env log e s))"
    using assms(2) unfolding AddEvent_def Let_def publishRealtime_def by (auto split: if_splits)
  also have "\<dots> = applyActorHTTPEvent aenv (es_events (countEvent env e (write_log env log e s))) e (es_actors s)"
    unfolding count_actors assms(1) by (simp add: write_log_def)
  finally have actors: "es_actors s' = applyActorHTTPEvent aenv (es_events (countEvent env e (write_log env log e s))) e (es_actors s)" .
  let ?a = "ensureActor (ae_sha aenv) (ev_ip e) (eo_country (ev_origin e)) (ev_at e) (es_actors s)"
  obtain a where a: "map_of (ax_actors (es_actors s')) (actorID (ae_sha aenv) (ev_ip e)) = Some a" "grows (http_evidence e ?a) a"
    unfolding actors by (rule web_profile [OF assms(3,4)])
  have "sc_risk (ev_scoring e) \<le> ap_risk (http_evidence e ?a)" "sc_depth (ev_scoring e) \<le> ap_depth (http_evidence e ?a)"
    "class_rank (sc_class (ev_scoring e)) \<le> class_rank (ap_class (http_evidence e ?a))" "''http'' \<in> set (ap_protocols (http_evidence e ?a))"
    "sc_actor (ev_scoring e) = ''automated'' \<Longrightarrow> ap_actor (http_evidence e ?a) = ''automated''"
    by (simp_all add: http_evidence_def Let_def class_rank_stronger addProtocol_def)
  then show ?thesis using a by (auto simp: grows_def)
qed

theorem event_raises_profile_witness:
  "\<exists>a. map_of (ax_actors (es_actors (fst (AddEvent (sn_web plain_store_env) None (plain_event ''s'' 5 ''/.env'')
      (empty_store (empty_actors []) no_domains []))))) (actorID (ae_sha plain_actor_env) ''192.0.2.1'') = Some a \<and> 30 \<le> ap_risk a"
proof -
  let ?e = "plain_event ''s'' 5 ''/.env''" and ?s = "empty_store (empty_actors []) no_domains []"
  have added: "AddEvent (sn_web plain_store_env) None ?e ?s = (fst (AddEvent (sn_web plain_store_env) None ?e ?s), True)"
    unfolding AddEvent_def Let_def by simp
  have ip: "ev_ip ?e = ''192.0.2.1''" "sc_risk (ev_scoring ?e) = 30" "\<not> eo_self_origin (ev_origin ?e)" by (simp_all add: plain_event_def)
  have "TrimSpace ''192.0.2.1'' = ''192.0.2.1''" by (rule TrimSpace_id) (simp_all add: char_is_space_def byte_in_def)
  then have "TrimSpace (ev_ip ?e) \<noteq> []" by (simp add: ip)
  moreover have "en_actor_event (sn_web plain_store_env) = applyActorHTTPEvent plain_actor_env" by (simp add: plain_store_env_def)
  ultimately show ?thesis using event_raises_profile [OF _ added _ ip(3)] unfolding ip by blast
qed

end
