(* ===== verification/ShellWorld.thy ===== *)
theory ShellWorld
  imports Terminal ShellLexer ShellArith
begin

text \<open>
  The state of a virtual shell (\<open>virtualSSHWorld\<close> of \<open>internal/server/trap_ssh_shell.go\<close>), the result of
  a command, and what the interpreter and its commands share: variables, processes and jobs
  (\<open>trap_ssh_process.go\<close>), the hosts of the decoy network (\<open>internal/lures/world.go\<close>), patterns of
  \<open>path.Match\<close>. The maps that several sessions of one source share are those of the one session here.
  \<open>vw_held\<close> tells whether the session has locked the mutex of those maps: the callers of the
  interpreter lock it for the time of a command, and a mutex of Go cannot be locked again by its holder.
  The share of the CPU and of the memory is in tenths of a percent. The load of the system, which only
  the texts of the monitoring commands show, is left out.
\<close>

definition nl :: string where "nl = [CHR 0x0A]"

section \<open>Results\<close>

record virtualSSHResult =
  vr_output :: string
  vr_status :: int
  vr_exit :: bool
  vr_interactive :: string
  vr_target :: string
  vr_action :: string
  vr_family :: string
  vr_name :: string
  vr_depth :: int
  vr_risk :: int
  vr_loop :: int
  vr_persona :: string
  vr_message :: string
  vr_delay :: duration
  vr_stream :: int
  vr_stdin_bytes :: int
  vr_stdin_sha :: string
  vr_stdin_kind :: string
  vr_stage :: string
  vr_path :: string
  vr_relation :: string

definition no_result :: virtualSSHResult where
  "no_result = \<lparr>vr_output = [], vr_status = 0, vr_exit = False, vr_interactive = [], vr_target = [], vr_action = [],
     vr_family = [], vr_name = [], vr_depth = 0, vr_risk = 0, vr_loop = 0, vr_persona = [], vr_message = [],
     vr_delay = 0, vr_stream = 0, vr_stdin_bytes = 0, vr_stdin_sha = [], vr_stdin_kind = [], vr_stage = [],
     vr_path = [], vr_relation = []\<rparr>"

definition virtualBaseResult :: "string \<Rightarrow> string \<Rightarrow> int \<Rightarrow> int \<Rightarrow> string \<Rightarrow> string \<Rightarrow> virtualSSHResult" where
  "virtualBaseResult cmd family depth risk persona message =
     no_result\<lparr>vr_name := cmd, vr_family := family, vr_depth := depth, vr_risk := risk, vr_persona := persona,
       vr_message := message\<rparr>"

definition says :: "string \<Rightarrow> int \<Rightarrow> virtualSSHResult \<Rightarrow> virtualSSHResult" where
  "says out status r = r\<lparr>vr_output := out, vr_status := status\<rparr>"

section \<open>The state\<close>

record virtualSSHContext =
  cx_user :: string
  cx_host :: string
  cx_cwd :: string

record virtualSSHProcess =
  pc_user :: string
  pc_command :: string
  pc_started :: gotime
  pc_cpu :: int
  pc_mem :: int
  pc_job :: int
  pc_disowned :: bool
  pc_alive :: bool

record shell =
  vw_fs :: world
  vw_host :: string
  vw_env :: "(string, string) gomap"
  vw_aliases :: "(string, string) gomap"
  vw_history :: "string list"
  vw_history_cleared :: bool
  vw_nested :: "virtualSSHContext list"
  vw_depth :: int
  vw_loop :: int
  vw_frustration :: int
  vw_ops :: int
  vw_source :: int
  vw_subst :: int
  vw_status :: int
  vw_interests :: "(string, int) gomap"
  vw_probe :: int
  vw_deep :: bool
  vw_canaries :: "(string, string) gomap"
  vw_processes :: "(int, virtualSSHProcess) gomap"
  vw_jobs :: "(int, int) gomap"
  vw_next_job :: int
  vw_next_pid :: int
  vw_crontab :: bool
  vw_crontab_text :: string
  vw_packages :: "(string, bool) gomap"
  vw_peer :: string
  vw_held :: bool

definition maxVirtualOps :: int where "maxVirtualOps = 750"

text \<open>
  What is not under \<open>src/\<close>: the case of letters outside ASCII, SHA-256, the matches of compiled regular
  expressions (\<open>se_regex\<close> those of a pattern given by the user, \<open>None\<close> when it does not compile;
  \<open>se_chpasswd\<close> and \<open>se_key\<close> the groups of the two fixed ones), the clock. The generated files of
  \<open>/proc\<close> and the commands that only print a text or report the clock and the load are the arguments
  \<open>se_file\<close> and \<open>se_command\<close>.
\<close>

record shellEnv =
  se_lower :: "string \<Rightarrow> string"
  se_sha :: "string \<Rightarrow> string"
  se_regex :: "string \<Rightarrow> (string \<Rightarrow> string list) option"
  se_chpasswd :: "string \<Rightarrow> (string \<times> string) option"
  se_key :: "string \<Rightarrow> string option"
  se_clock :: gotime
  se_file :: "shell \<Rightarrow> string \<Rightarrow> string option"
  se_command :: "string \<Rightarrow> string list \<Rightarrow> string \<Rightarrow> string \<Rightarrow> shell \<Rightarrow> virtualSSHResult \<times> shell"

definition on_fs :: "(world \<Rightarrow> world) \<Rightarrow> shell \<Rightarrow> shell" where
  "on_fs f s = s\<lparr>vw_fs := f (vw_fs s)\<rparr>"

definition set_env :: "string \<Rightarrow> string \<Rightarrow> shell \<Rightarrow> shell" where
  "set_env k v s = s\<lparr>vw_env := AList.update k v (vw_env s)\<rparr>"

definition get_env :: "shell \<Rightarrow> string \<Rightarrow> string" where
  "get_env s k = lookup_or [] (vw_env s) k"

definition read_file :: "shellEnv \<Rightarrow> shell \<Rightarrow> string \<Rightarrow> string option" where
  "read_file env s name = virtualReadFile (se_file env s) (vw_fs s) name"

definition set_file :: "shellEnv \<Rightarrow> string \<Rightarrow> string \<Rightarrow> shell \<Rightarrow> shell \<times> bool" where
  "set_file env target content s =
     (let (w, ok) = setVirtualFile (se_lower env) (se_clock env) target content (vw_fs s) in (s\<lparr>vw_fs := w\<rparr>, ok))"

definition append_file :: "shellEnv \<Rightarrow> string \<Rightarrow> string \<Rightarrow> shell \<Rightarrow> shell \<times> bool" where
  "append_file env target content s =
     (let (w, ok) = appendVirtualFile (se_lower env) (se_clock env) target content (vw_fs s) in (s\<lparr>vw_fs := w\<rparr>, ok))"

definition set_dir :: "string \<Rightarrow> shell \<Rightarrow> shell \<times> bool" where
  "set_dir target s = (let (w, ok) = setVirtualDir target (vw_fs s) in (s\<lparr>vw_fs := w\<rparr>, ok))"

definition put_file :: "shellEnv \<Rightarrow> string \<times> string \<Rightarrow> shell \<Rightarrow> shell" where
  "put_file env p s = fst (set_file env (fst p) (snd p) s)"

definition put_dir :: "string \<Rightarrow> shell \<Rightarrow> shell" where
  "put_dir target s = fst (set_dir target s)"

definition set_mode :: "string \<Rightarrow> nat \<Rightarrow> shell \<Rightarrow> shell" where
  "set_mode target m s = on_fs (\<lambda>w. w\<lparr>fileModes := AList.update target m (fileModes w)\<rparr>) s"

definition lower :: "shellEnv \<Rightarrow> string \<Rightarrow> string" where
  "lower env t = ToLower (se_lower env) t"

definition contains_any :: "string list \<Rightarrow> string \<Rightarrow> bool" where
  "contains_any needles t \<longleftrightarrow> list_ex (Contains t) needles"

definition count_needles :: "string list \<Rightarrow> string \<Rightarrow> int" where
  "count_needles needles t = int (length (List.filter (Contains t) needles))"

section \<open>Variables\<close>

definition virtualUserID :: "string \<Rightarrow> int" where
  "virtualUserID name0 =
     (let name = TrimSpace name0 in
      if name = ''root'' then 0 else if name = ''svc-web'' then 997 else if name = ''svc-backup'' then 998
      else if name = ''admin'' then 1000 else 1001 + int (fnv32a name mod 3000))"

definition virtualShellPID :: "shell \<Rightarrow> int" where
  "virtualShellPID s = 24000 + int (fnv32a (vw_peer s @ ''|shell'') mod 900)"

definition virtualVariable :: "shell \<Rightarrow> string \<Rightarrow> string" where
  "virtualVariable s name =
     (if name = ''UID'' \<or> name = ''EUID'' then Itoa (virtualUserID (user (vw_fs s)))
      else if name = ''PPID'' then Itoa (virtualShellPID s - 1)
      else get_env s name)"

definition set_names :: "shell \<Rightarrow> shell" where
  "set_names s = set_env ''PWD'' (cwd (vw_fs s)) (set_env ''HOME'' (homeDir (vw_fs s))
     (set_env ''LOGNAME'' (user (vw_fs s)) (set_env ''USER'' (user (vw_fs s)) s)))"

definition setVirtualUser :: "string \<Rightarrow> shell \<Rightarrow> shell" where
  "setVirtualUser name s =
     (let w = (vw_fs s)\<lparr>user := safeVirtualName name\<rparr> in set_names (s\<lparr>vw_fs := w\<lparr>cwd := homeDir w\<rparr>\<rparr>))"

definition virtualEnvOutput :: "string list \<Rightarrow> shell \<Rightarrow> string" where
  "virtualEnvOutput args s =
     (case args of
        [a] \<Rightarrow> if HasPrefix a ''-'' then Join (map (\<lambda>k. k @ ''='' @ get_env s k) (sort_strings (map fst (vw_env s)))) nl
               else get_env s a
      | _ \<Rightarrow> Join (map (\<lambda>k. k @ ''='' @ get_env s k) (sort_strings (map fst (vw_env s)))) nl)"

section \<open>Arguments\<close>

definition firstNonOption :: "string list \<Rightarrow> string" where
  "firstNonOption args = (case List.find (\<lambda>a. \<not> HasPrefix a ''-'') args of None \<Rightarrow> [] | Some a \<Rightarrow> a)"

definition lastNonOption :: "string list \<Rightarrow> string" where
  "lastNonOption args = firstNonOption (rev args)"

definition non_options :: "string list \<Rightarrow> string list" where
  "non_options args = List.filter (\<lambda>a. \<not> HasPrefix a ''-'') args"

definition containsShortFlag :: "string list \<Rightarrow> char \<Rightarrow> bool" where
  "containsShortFlag args flag \<longleftrightarrow>
     list_ex (\<lambda>a. 1 < length a \<and> HasPrefix a ''-'' \<and> \<not> HasPrefix a ''--'' \<and> flag \<in> set (tl a)) args"

definition containsCombinedFlag :: "string list \<Rightarrow> char \<Rightarrow> bool" where
  "containsCombinedFlag args flag \<longleftrightarrow> list_ex (\<lambda>a. HasPrefix a ''-'' \<and> flag \<in> set a) args"

text \<open>\<open>strings.Trim (v, cutset)\<close>.\<close>

definition trim_chars :: "string \<Rightarrow> string \<Rightarrow> string" where
  "trim_chars cs v = dropWhileEnd (\<lambda>c. c \<in> set cs) (dropWhile (\<lambda>c. c \<in> set cs) v)"

definition quotes :: string where "quotes = [CHR 0x27, CHR 0x22]"

lemma Index_bound: "Index v sep = Some i \<Longrightarrow> i + length sep \<le> length v"
proof (induction v arbitrary: i)
  case (Cons c v)
  then show ?case by (fastforce simp: HasPrefix_def dest: arg_cong [where f = length] split: if_splits)
qed (simp split: if_splits)

text \<open>\<open>strings.Split\<close> at a separator that is not empty; \<open>Index\<close> finds its first occurrence.\<close>

function Split :: "string \<Rightarrow> string \<Rightarrow> string list" where
  "Split v sep =
     (if sep = [] then [v]
      else case Index v sep of None \<Rightarrow> [v] | Some i \<Rightarrow> take i v # Split (drop (i + length sep) v) sep)"
  by pat_completeness auto

termination
proof (relation "measure (\<lambda>(v, sep). length v)")
  show "((drop (i + length sep) v, sep), v, sep) \<in> measure (\<lambda>(v, sep). length v)" if "sep \<noteq> []" "Index v sep = Some i" for v sep i
    using that Index_bound [of v sep i] by (cases sep) auto
qed simp

declare Split.simps [simp del]

section \<open>Patterns\<close>

text \<open>
  \<open>path.Match\<close> over the UTF-8 characters of pattern and name; a malformed pattern matches nothing.
  \<open>match_class\<close> reads the ranges of a bracket: whether one holds the character, and the rest.
\<close>

type_synonym chunks = "(nat \<times> string) list"

fun class_char :: "chunks \<Rightarrow> ((nat \<times> string) \<times> chunks) option" where
  "class_char [] = None"
| "class_char ((r, b) # p) =
     (if r = 45 \<or> r = 93 then None
      else if r = 92 then (case p of [] \<Rightarrow> None | q # p' \<Rightarrow> if p' = [] \<or> q = (rune_error, [hd (snd q)]) then None else Some (q, p'))
      else if p = [] \<or> (r, b) = (rune_error, [hd b]) then None else Some ((r, b), p))"

definition at_rune :: "nat \<Rightarrow> chunks \<Rightarrow> bool" where
  "at_rune r p \<longleftrightarrow> p \<noteq> [] \<and> fst (hd p) = r"

fun match_class :: "nat \<Rightarrow> bool \<Rightarrow> bool \<Rightarrow> nat \<Rightarrow> chunks \<Rightarrow> (bool \<times> chunks) option" where
  "match_class 0 some found c p = None"
| "match_class (Suc n) some found c p =
     (if some \<and> at_rune 93 p then Some (found, tl p)
      else
        (case class_char p of
           None \<Rightarrow> None
         | Some ((lo, _), p1) \<Rightarrow>
             if at_rune 45 p1 then
               (case class_char (tl p1) of
                  None \<Rightarrow> None
                | Some ((hi, _), p2) \<Rightarrow> match_class n True (found \<or> lo \<le> c \<and> c \<le> hi) c p2)
             else match_class n True (found \<or> lo = c) c p1))"

fun glob :: "nat \<Rightarrow> chunks \<Rightarrow> chunks \<Rightarrow> bool" where
  "glob 0 p v = False"
| "glob (Suc n) p v =
     (case p of
        [] \<Rightarrow> v = []
      | (r, b) # p' \<Rightarrow>
          if r = 42 then glob n p' v \<or> (case v of [] \<Rightarrow> False | (c, _) # v' \<Rightarrow> c \<noteq> 47 \<and> glob n p v')
          else
            (case v of
               [] \<Rightarrow> False
             | (c, d) # v' \<Rightarrow>
                 if r = 63 then c \<noteq> 47 \<and> glob n p' v'
                 else if r = 91 then
                   (let neg = at_rune 94 p' in
                    case match_class (length p) False False c (if neg then tl p' else p') of
                      None \<Rightarrow> False
                    | Some (found, q) \<Rightarrow> found \<noteq> neg \<and> glob n q v')
                 else if r = 92 then (case p' of [] \<Rightarrow> False | q # p'' \<Rightarrow> q = (c, d) \<and> glob n p'' v')
                 else (r, b) = (c, d) \<and> glob n p' v'))"

definition path_match :: "string \<Rightarrow> string \<Rightarrow> bool" where
  "path_match p v = glob (Suc (length p + length v)) (utf8_chunks p) (utf8_chunks v)"

section \<open>The decoy hosts\<close>

record lureHost =
  lh_name :: string
  lh_ip :: string
  lh_role :: string
  lh_aliases :: "string list"

definition lure_hosts :: "lureHost list" where
  "lure_hosts =
     [\<lparr>lh_name = ''prod-app-02'', lh_ip = ''10.10.30.21'', lh_role = ''application'', lh_aliases = [''portal.internal'', ''app.internal'']\<rparr>,
      \<lparr>lh_name = ''backup-01'', lh_ip = ''10.10.30.12'', lh_role = ''backup'', lh_aliases = [''backup.internal'']\<rparr>,
      \<lparr>lh_name = ''db-primary'', lh_ip = ''10.10.30.14'', lh_role = ''database'', lh_aliases = [''db-internal'', ''db.prod.internal'']\<rparr>,
      \<lparr>lh_name = ''cache-01'', lh_ip = ''10.10.30.18'', lh_role = ''cache'', lh_aliases = [''cache-internal'']\<rparr>,
      \<lparr>lh_name = ''registry-01'', lh_ip = ''10.10.30.25'', lh_role = ''registry'', lh_aliases = [''registry.internal'']\<rparr>,
      \<lparr>lh_name = ''git-01'', lh_ip = ''10.10.30.27'', lh_role = ''git'', lh_aliases = [''git.prod.internal'', ''git.internal'']\<rparr>,
      \<lparr>lh_name = ''ops-gw-01'', lh_ip = ''10.10.30.30'', lh_role = ''operations'', lh_aliases = [''ops.internal'']\<rparr>]"

definition Resolve :: "shellEnv \<Rightarrow> string \<Rightarrow> lureHost option" where
  "Resolve env name0 =
     (let name = TrimSpace (lower env (TrimSuffix name0 ''.'')) in
      List.find (\<lambda>h. lower env (lh_name h) = name \<or> lh_ip h = name \<or> list_ex (\<lambda>a. lower env a = name) (lh_aliases h)) lure_hosts)"

definition Inventory :: string where
  "Inventory = Join (sort_strings (map (\<lambda>h. lh_name h @ '' ansible_host='' @ lh_ip h @ '' role='' @ lh_role h) lure_hosts)) nl @ nl"

definition currentHost :: "shellEnv \<Rightarrow> shell \<Rightarrow> lureHost" where
  "currentHost env s =
     (case Resolve env (vw_host s) of
        Some h \<Rightarrow> h
      | None \<Rightarrow> (case Resolve env ''prod-app-02'' of
                   Some h \<Rightarrow> h
                 | None \<Rightarrow> \<lparr>lh_name = vw_host s, lh_ip = ''10.10.30.21'', lh_role = ''application'', lh_aliases = []\<rparr>))"

end
