(* ===== verification/ShellCommands.thy ===== *)
theory ShellCommands
  imports ShellWorld
begin

text \<open>
  The commands of the virtual shell that run nothing else (\<open>executeOneDepth\<close> of
  \<open>internal/server/trap_ssh_shell.go\<close>, \<open>executeExtraCommand\<close> of \<open>trap_ssh_extra.go\<close>,
  \<open>evalVirtualTest\<close> of \<open>trap_ssh_controlflow.go\<close>, \<open>virtualGrep\<close> of \<open>trap_ssh_os_reality.go\<close>): each is a
  function from its arguments, its input and the shell to a result and the shell after it. Octal modes
  are written in hexadecimal.
\<close>

type_synonym outcome = "virtualSSHResult \<times> shell"

section \<open>\<open>test\<close>\<close>

text \<open>The operator is looked for from the second argument to the last but one.\<close>

definition split_operator :: "string \<Rightarrow> string list \<Rightarrow> (string list \<times> string list) option" where
  "split_operator op args =
     (case List.find (\<lambda>i. args ! i = op) [1..<length args - 1] of
        None \<Rightarrow> None
      | Some i \<Rightarrow> Some (take i args, drop (Suc i) args))"

lemma split_operator_less:
  assumes "split_operator op args = Some (l, r)"
  shows "length l < length args" "length r < length args"
  using assms by (auto simp: split_operator_def find_Some_iff split: option.splits)

definition compare_numbers :: "string \<Rightarrow> int \<Rightarrow> int \<Rightarrow> bool" where
  "compare_numbers op a b =
     (if op = ''-eq'' then a = b else if op = ''-ne'' then a \<noteq> b else if op = ''-gt'' then a > b
      else if op = ''-ge'' then a \<ge> b else if op = ''-lt'' then a < b else a \<le> b)"

definition test_binary :: "shell \<Rightarrow> string \<Rightarrow> string \<Rightarrow> string \<Rightarrow> bool option" where
  "test_binary s left op right =
     (if op = ''='' \<or> op = ''=='' then Some (left = right)
      else if op = ''!='' then Some (left \<noteq> right)
      else if op \<in> {''-eq'', ''-ne'', ''-gt'', ''-ge'', ''-lt'', ''-le''} then
        (let a = ParseInt left 10; b = ParseInt right 10 in
         Some (parsed_ok a \<and> parsed_ok b \<and> compare_numbers op (parsed_value a) (parsed_value b)))
      else if op = ''-nt'' \<or> op = ''-ot'' then
        (case (map_of (fileMeta (vw_fs s)) (resolve (vw_fs s) left), map_of (fileMeta (vw_fs s)) (resolve (vw_fs s) right)) of
           (Some l, Some r) \<Rightarrow> Some (if op = ''-nt'' then m_mtime r < m_mtime l else m_mtime l < m_mtime r)
         | _ \<Rightarrow> Some False)
      else None)"

definition test_unary :: "shellEnv \<Rightarrow> shell \<Rightarrow> string \<Rightarrow> string \<Rightarrow> bool option" where
  "test_unary env s op t =
     (let w = vw_fs s; p = resolve w t; content = read_file env s p in
      if op = ''-f'' then Some (content \<noteq> None \<and> \<not> is_dir w p)
      else if op = ''-d'' then Some (is_dir w p)
      else if op = ''-e'' then Some (content \<noteq> None \<or> is_dir w p)
      else if op = ''-x'' then Some (content \<noteq> None \<and> virtualFileMode w p AND 0x49 \<noteq> 0)
      else if op = ''-r'' then Some (virtualFileReadable (se_file env s) w t)
      else if op = ''-w'' then Some (virtualFileWritable (se_file env s) w t)
      else if op = ''-s'' then Some (case content of Some c \<Rightarrow> c \<noteq> [] | None \<Rightarrow> False)
      else if op = ''-L'' \<or> op = ''-h'' then Some False
      else if op = ''-n'' then Some (t \<noteq> [])
      else if op = ''-z'' then Some (t = [])
      else None)"

definition test_primary :: "shellEnv \<Rightarrow> shell \<Rightarrow> string list \<Rightarrow> bool" where
  "test_primary env s args =
     (case (if 3 \<le> length args then test_binary s (args ! 0) (args ! 1) (args ! 2) else None) of
        Some b \<Rightarrow> b
      | None \<Rightarrow>
          (case (if 2 \<le> length args then test_unary env s (args ! 0) (args ! 1) else None) of
             Some b \<Rightarrow> b
           | None \<Rightarrow> length args = 1 \<and> args ! 0 \<noteq> []))"

function evalVirtualTest :: "(string list \<Rightarrow> bool) \<Rightarrow> string list \<Rightarrow> bool" where
  "evalVirtualTest prim args =
     (case args of
        [] \<Rightarrow> False
      | a # rest \<Rightarrow>
          if a = ''!'' then \<not> evalVirtualTest prim rest
          else (case split_operator ''-o'' args of
                  Some (l, r) \<Rightarrow> evalVirtualTest prim l \<or> evalVirtualTest prim r
                | None \<Rightarrow>
                    (case split_operator ''-a'' args of
                       Some (l, r) \<Rightarrow> evalVirtualTest prim l \<and> evalVirtualTest prim r
                     | None \<Rightarrow> prim args)))"
  by pat_completeness auto

termination
  by (relation "measure (\<lambda>(prim, args). length args)") (auto dest: split_operator_less)

declare evalVirtualTest.simps [simp del]

definition virtualTest :: "shellEnv \<Rightarrow> string \<Rightarrow> string list \<Rightarrow> shell \<Rightarrow> outcome" where
  "virtualTest env cmd args0 s =
     (let args = (if cmd = ''['' \<and> args0 \<noteq> [] \<and> last args0 = '']'' then butlast args0 else args0);
          r = virtualBaseResult ''test'' ''shell'' 3 80 ''shell-control-flow'' ''shell condition test''
      in (if evalVirtualTest (test_primary env s) args then r else r\<lparr>vr_status := 1\<rparr>, s))"

section \<open>Who and where\<close>

definition cmd_exit :: "string \<Rightarrow> shell \<Rightarrow> outcome" where
  "cmd_exit cmd s =
     (if vw_nested s \<noteq> [] then
        (let ctx = last (vw_nested s);
             s = s\<lparr>vw_nested := butlast (vw_nested s), vw_host := cx_host ctx,
                   vw_fs := (vw_fs s)\<lparr>user := cx_user ctx, cwd := cx_cwd ctx\<rparr>\<rparr>
         in ((virtualBaseResult cmd ''lateral'' 7 96 ''lateral-movement'' ''returned from simulated internal host'')
               \<lparr>vr_output := ''Connection to 10.10.30.12 closed.''\<rparr>,
             set_env ''HOSTNAME'' (vw_host s) (set_names s)))
      else ((virtualBaseResult cmd ''shell'' 2 80 ''interactive-shell'' ''virtual shell closed'')\<lparr>vr_exit := True\<rparr>, s))"

definition cmd_id :: "string \<Rightarrow> shell \<Rightarrow> outcome" where
  "cmd_id cmd s =
     (let u = user (vw_fs s); n = Itoa (virtualUserID u) in
      ((virtualBaseResult cmd ''recon'' 3 84 ''system-recon'' ''identity and group discovery'')
         \<lparr>vr_output := (if u = ''root'' then ''uid=0(root) gid=0(root) groups=0(root)''
            else ''uid='' @ n @ ''('' @ u @ '') gid='' @ n @ ''('' @ u @ '') groups='' @ n @ ''('' @ u @ ''),27(sudo),999(docker)'')\<rparr>, s))"

definition cmd_hostname :: "shellEnv \<Rightarrow> string \<Rightarrow> string list \<Rightarrow> shell \<Rightarrow> outcome" where
  "cmd_hostname env cmd args s =
     ((virtualBaseResult cmd ''recon'' 3 82 ''system-recon'' ''hostname discovery'')
        \<lparr>vr_output := (if ''-I'' \<in> set args then lh_ip (currentHost env s) @ '' ''
           else if ''-f'' \<in> set args \<or> ''--fqdn'' \<in> set args then vw_host s @ ''.prod.internal''
           else vw_host s)\<rparr>, s)"

definition uname_fields :: "string \<Rightarrow> (char \<times> string) list" where
  "uname_fields host =
     [(CHR ''s'', ''Linux''), (CHR ''n'', host), (CHR ''r'', ''6.8.0-64-generic''), (CHR ''v'', ''#67-Ubuntu SMP PREEMPT_DYNAMIC''),
      (CHR ''m'', ''x86_64''), (CHR ''p'', ''x86_64''), (CHR ''i'', ''x86_64''), (CHR ''o'', ''GNU/Linux'')]"

definition virtualGNUUname :: "string \<Rightarrow> string list \<Rightarrow> string" where
  "virtualGNUUname host args =
     (let selected = concat (map (\<lambda>a. if a = ''--all'' \<or> a = ''-a'' then ''snrvmpio''
                                     else if \<not> HasPrefix a ''-'' then [] else dropWhile (\<lambda>c. c = CHR ''-'') a) args);
          out = map snd (List.filter (\<lambda>f. fst f \<in> set selected) (uname_fields host))
      in if out = [] then ''Linux'' else Join out '' '')"

definition cmd_cd :: "string \<Rightarrow> string list \<Rightarrow> shell \<Rightarrow> outcome" where
  "cmd_cd cmd args s =
     (let r = virtualBaseResult cmd ''filesystem'' 3 82 ''file-discovery'' ''directory traversal'';
          w = vw_fs s;
          back = args \<noteq> [] \<and> hd args = ''-'';
          target = (if args = [] then homeDir w else if back then get_env s ''OLDPWD'' else resolve w (hd args));
          r = (if back then r\<lparr>vr_output := target\<rparr> else r)
      in if \<not> is_dir w target then (says (''bash: cd: '' @ Join args '' '' @ '': No such file or directory'') 1 r, s)
         else (r, set_env ''PWD'' target ((set_env ''OLDPWD'' (cwd w) s)\<lparr>vw_fs := w\<lparr>cwd := target\<rparr>\<rparr>)))"

definition cmd_printenv :: "string \<Rightarrow> string list \<Rightarrow> shell \<Rightarrow> outcome" where
  "cmd_printenv cmd args s =
     (let out = virtualEnvOutput args s;
          r = virtualBaseResult cmd ''credentials'' 4 90 ''credential-hunter'' ''environment discovery''
      in (says out (if length args = 1 \<and> out = [] then 1 else 0) r, s))"

definition empty_stdin :: string where
  "empty_stdin = CHR 0x00 # ''ZL_EMPTY_STDIN'' @ [CHR 0x00]"

fun read_names :: "string \<Rightarrow> string list \<Rightarrow> bool \<Rightarrow> string list \<Rightarrow> shell \<Rightarrow> shell" where
  "read_names line words single [] s = s"
| "read_names line words single (n # ns) s =
     (let v = (if single then line
               else if ns = [] then Join words '' ''
               else if words = [] then [] else hd words)
      in read_names line (tl words) single ns (if validVirtualEnvName n then set_env n v s else s))"

definition virtualReadBuiltin :: "string list \<Rightarrow> string \<Rightarrow> shell \<Rightarrow> outcome" where
  "virtualReadBuiltin args input s =
     (let r = virtualBaseResult ''read'' ''shell'' 2 74 ''interactive-shell'' ''shell input read'';
          names = (if non_options args = [] then [''REPLY''] else non_options args);
          line = hd (SplitByte input (CHR 0x0A))
      in if input = [] \<or> input = empty_stdin then (r\<lparr>vr_status := 1\<rparr>, s)
         else (r, read_names line (Fields line) (length names = 1) names s))"

definition pad_left :: "nat \<Rightarrow> string \<Rightarrow> string" where
  "pad_left n t = replicate (n - length t) (CHR '' '') @ t"

definition cmd_history :: "string \<Rightarrow> string list \<Rightarrow> shell \<Rightarrow> outcome" where
  "cmd_history cmd args s =
     (let r = virtualBaseResult cmd ''credentials'' 4 90 ''credential-hunter'' ''shell history discovery'' in
      if ''-c'' \<in> set args then
        (virtualBaseResult cmd ''persistence'' 6 99 ''history-evasion'' ''shell history cleared'',
         on_fs (\<lambda>w. deleteVirtualFile (PathJoin (homeDir w) ''.bash_history'') w)
           (s\<lparr>vw_history := [], vw_history_cleared := True\<rparr>))
      else (r\<lparr>vr_output := Join (map (\<lambda>(i, h). pad_left 5 (Itoa (int i + 1)) @ ''  '' @ h) (enumerate 0 (vw_history s))) nl\<rparr>, s))"

definition cmd_su :: "string \<Rightarrow> shell \<Rightarrow> outcome" where
  "cmd_su cmd s =
     ((virtualBaseResult cmd ''privilege'' 5 95 ''privilege-escalation'' ''user switch attempt'')\<lparr>vr_loop := 1\<rparr>,
      setVirtualUser ''root'' s)"

section \<open>Reading files\<close>

fun content_operand :: "bool \<Rightarrow> string list \<Rightarrow> string \<Rightarrow> string" where
  "content_operand skips [] found = found"
| "content_operand skips (a # args) found =
     (if skips \<and> a \<in> {''-n'', ''--lines'', ''-c'', ''--bytes''} then content_operand skips (tl args) found
      else content_operand skips args (if HasPrefix a ''-'' then found else a))"

definition virtualContentFileOperand :: "string \<Rightarrow> string list \<Rightarrow> string" where
  "virtualContentFileOperand cmd args = content_operand (cmd = ''head'' \<or> cmd = ''tail'') args []"

text \<open>A count given as text, when it is in the range the option takes.\<close>

definition count_arg :: "int \<Rightarrow> string \<Rightarrow> nat option" where
  "count_arg most t =
     (let n = Atoi t in if parsed_ok n \<and> 0 < parsed_value n \<and> parsed_value n \<le> most then Some (nat (parsed_value n)) else None)"

definition first_some :: "'a option list \<Rightarrow> 'a option" where
  "first_some xs = (case List.find (\<lambda>x. x \<noteq> None) xs of None \<Rightarrow> None | Some x \<Rightarrow> x)"

fun byte_count :: "string list \<Rightarrow> nat option" where
  "byte_count [] = None"
| "byte_count (a # args) =
     (case first_some
        [if (a = ''-c'' \<or> a = ''--bytes'') \<and> args \<noteq> [] then count_arg 65536 (hd args) else None,
         if HasPrefix a ''-c'' \<and> 2 < length a then count_arg 65536 (drop 2 a) else None] of
        Some n \<Rightarrow> Some n
      | None \<Rightarrow> byte_count args)"

fun line_count :: "string list \<Rightarrow> nat option" where
  "line_count [] = None"
| "line_count (a # args) =
     (case first_some
        [if (a = ''-n'' \<or> a = ''--lines'') \<and> args \<noteq> [] then count_arg 200 (hd args) else None,
         if HasPrefix a ''--lines='' then count_arg 200 (TrimPrefix a ''--lines='') else None,
         if HasPrefix a ''-n'' \<and> 2 < length a then count_arg 200 (drop 2 a) else None,
         if 1 < length a \<and> HasPrefix a ''-'' \<and> list_all is_digit (tl a) then count_arg 200 (tl a) else None] of
        Some n \<Rightarrow> Some n
      | None \<Rightarrow> line_count args)"

definition rows_of_text :: "string \<Rightarrow> string list" where
  "rows_of_text t = SplitByte t (CHR 0x0A)"

definition firstLines :: "string \<Rightarrow> nat \<Rightarrow> string" where
  "firstLines v n = Join (take n (rows_of_text v)) nl"

definition lastLines :: "string \<Rightarrow> nat \<Rightarrow> string" where
  "lastLines v n = Join (last_n n (rows_of_text v)) nl"

definition shown_part :: "string \<Rightarrow> string list \<Rightarrow> string \<Rightarrow> string" where
  "shown_part cmd args content =
     (let n = (case line_count args of Some n \<Rightarrow> n | None \<Rightarrow> 10) in
      if cmd = ''head'' then (case byte_count args of Some k \<Rightarrow> take k content | None \<Rightarrow> firstLines content n)
      else if cmd = ''tail'' then lastLines content n
      else content)"

definition cmd_cat :: "shellEnv \<Rightarrow> string \<Rightarrow> string list \<Rightarrow> string \<Rightarrow> shell \<Rightarrow> outcome" where
  "cmd_cat env cmd args input s =
     (let r = virtualBaseResult cmd ''filesystem'' 4 88 ''credential-hunter'' ''file content discovery'';
          p = virtualContentFileOperand cmd args in
      if p \<noteq> [] \<and> is_dir (vw_fs s) (resolve (vw_fs s) p) then
        (says (if cmd = ''head'' \<or> cmd = ''tail'' then cmd @ '': error reading '' @ [CHR 0x27] @ p @ [CHR 0x27] @ '': Is a directory''
               else cmd @ '': '' @ p @ '': Is a directory'') 1
           (r\<lparr>vr_persona := ''environment-fingerprint'', vr_message := ''directory content probe''\<rparr>), s)
      else
        (case (if p = [] then Some input else read_file env s p) of
           None \<Rightarrow> (says (cmd @ '': '' @ p @ '': No such file or directory'') 1 r, s)
         | Some content \<Rightarrow>
             (let r = r\<lparr>vr_output := shown_part cmd args content\<rparr> in
              (if contains_any [''.env'', ''shadow'', ''.ssh'', ''backup''] p
               then r\<lparr>vr_depth := 5, vr_risk := 94, vr_persona := ''credential-hunter'', vr_message := ''sensitive-looking lure opened''\<rparr>
               else r, s))))"

definition fakeFind :: "shellEnv \<Rightarrow> string \<Rightarrow> shell \<Rightarrow> string" where
  "fakeFind env raw s =
     (let low = lower env raw in
      Join (if Contains low ''.env'' then [''/opt/app/.env'', ''/opt/app/current/.env.production'', ''/var/lib/backup/.env'']
            else if contains_any [''id_rsa'', ''id_ed25519'', ''.ssh''] low then
              [''/root/.ssh'', ''/root/.ssh/config'', ''/root/.ssh/id_ed25519_backup'', ''/home/admin/.ssh'']
            else if contains_any [''*.conf'', ''.conf''] low then
              [''/etc/ssh/sshd_config'', ''/opt/backup/backup.conf'', ''/etc/systemd/system/backup-agent.service'']
            else if contains_any [''-4000'', ''-perm''] low then
              [''/usr/bin/sudo'', ''/usr/bin/passwd'', ''/usr/bin/mount'', ''/usr/local/bin/backupctl'']
            else if Contains low ''backup'' then
              [''/opt/backup'', ''/opt/backup/backup.conf'', ''/srv/archive/nightly'', ''/srv/archive/nightly/config-prod.tar.gz'']
            else take 40 (sort_strings (map fst (files (vw_fs s))))) nl)"

definition cmd_find :: "shellEnv \<Rightarrow> string \<Rightarrow> string \<Rightarrow> shell \<Rightarrow> outcome" where
  "cmd_find env cmd raw s =
     ((virtualBaseResult cmd ''filesystem'' 5 94 ''credential-hunter'' ''deep filesystem discovery'')
        \<lparr>vr_output := fakeFind env raw s, vr_delay := 350 * millisecond\<rparr>, s)"

definition cmd_ls :: "string \<Rightarrow> string list \<Rightarrow> shell \<Rightarrow> outcome" where
  "cmd_ls cmd args s =
     (let w = vw_fs s;
          target = (if lastNonOption args = [] \<and> non_options args = [] then cwd w else resolve w (lastNonOption args));
          (out, status) = listDir_short w target (containsShortFlag args (CHR ''a'') \<or> containsShortFlag args (CHR ''A''))
      in (says out status (virtualBaseResult cmd ''filesystem'' 3 82 ''file-discovery'' ''directory listing''), s))"

section \<open>\<open>grep\<close>\<close>

record grepOptions =
  gr_ignore :: bool
  gr_invert :: bool
  gr_quiet :: bool
  gr_count :: bool
  gr_only :: bool
  gr_fixed :: bool
  gr_most :: int
  gr_patterns :: "string list"
  gr_files :: "string list"

definition no_options :: grepOptions where
  "no_options = \<lparr>gr_ignore = False, gr_invert = False, gr_quiet = False, gr_count = False, gr_only = False,
     gr_fixed = False, gr_most = 0, gr_patterns = [], gr_files = []\<rparr>"

definition grep_long :: "string \<Rightarrow> grepOptions \<Rightarrow> grepOptions" where
  "grep_long a g =
     (if a = ''--ignore-case'' then g\<lparr>gr_ignore := True\<rparr>
      else if a = ''--invert-match'' then g\<lparr>gr_invert := True\<rparr>
      else if a = ''--quiet'' \<or> a = ''--silent'' then g\<lparr>gr_quiet := True\<rparr>
      else if a = ''--count'' then g\<lparr>gr_count := True\<rparr>
      else if a = ''--only-matching'' then g\<lparr>gr_only := True\<rparr>
      else if a = ''--fixed-strings'' then g\<lparr>gr_fixed := True\<rparr>
      else g)"

definition grep_flags :: "string \<Rightarrow> grepOptions \<Rightarrow> grepOptions" where
  "grep_flags fs g =
     g\<lparr>gr_ignore := gr_ignore g \<or> CHR ''i'' \<in> set fs, gr_invert := gr_invert g \<or> CHR ''v'' \<in> set fs,
       gr_quiet := gr_quiet g \<or> CHR ''q'' \<in> set fs, gr_count := gr_count g \<or> CHR ''c'' \<in> set fs,
       gr_only := gr_only g \<or> CHR ''o'' \<in> set fs, gr_fixed := gr_fixed g \<or> CHR ''F'' \<in> set fs\<rparr>"

function grep_args :: "string list \<Rightarrow> grepOptions \<Rightarrow> grepOptions" where
  "grep_args args g =
     (case args of
        [] \<Rightarrow> g
      | a # rest \<Rightarrow>
          if a = ''--'' then g\<lparr>gr_files := gr_files g @ rest\<rparr>
          else if HasPrefix a ''--'' then grep_args rest (grep_long a g)
          else if HasPrefix a ''-'' \<and> 1 < length a then
            (if a = ''-e'' \<and> rest \<noteq> [] then grep_args (tl rest) (g\<lparr>gr_patterns := gr_patterns g @ [hd rest]\<rparr>)
             else if a = ''-m'' \<and> rest \<noteq> [] then grep_args (tl rest) (g\<lparr>gr_most := parsed_value (Atoi (hd rest))\<rparr>)
             else if HasPrefix a ''-m'' \<and> 2 < length a then grep_args rest (g\<lparr>gr_most := parsed_value (Atoi (drop 2 a))\<rparr>)
             else if Contains a ''e'' \<and> rest \<noteq> [] then
               grep_args (tl rest) ((grep_flags (tl a) g)\<lparr>gr_patterns := gr_patterns g @ [hd rest]\<rparr>)
             else grep_args rest (grep_flags (tl a) g))
          else if gr_patterns g = [] then grep_args rest (g\<lparr>gr_patterns := [a]\<rparr>)
          else grep_args rest (g\<lparr>gr_files := gr_files g @ [a]\<rparr>))"
  by pat_completeness auto

termination
  by (relation "measure (\<lambda>(args, g). length args)") (auto simp: neq_Nil_conv)

declare grep_args.simps [simp del]

text \<open>What one pattern finds in a line; a pattern that does not compile is left out.\<close>

definition grep_matchers :: "shellEnv \<Rightarrow> grepOptions \<Rightarrow> (string \<Rightarrow> string list) list" where
  "grep_matchers env g =
     List.map_filter (\<lambda>p.
       if gr_fixed g then
         Some (\<lambda>line. if (if gr_ignore g then Contains (lower env line) (lower env p) else Contains line p) then [p] else [])
       else se_regex env ((if gr_ignore g then ''(?i)'' else []) @ p)) (gr_patterns g)"

definition grep_found :: "(string \<Rightarrow> string list) list \<Rightarrow> string \<Rightarrow> string list" where
  "grep_found ms line = (case List.find (\<lambda>x. x \<noteq> []) (map (\<lambda>m. m line) ms) of None \<Rightarrow> [] | Some x \<Rightarrow> x)"

text \<open>The lines found, up to the number asked for: how many, and what is printed of them.\<close>

fun grep_rows :: "grepOptions \<Rightarrow> (string \<Rightarrow> string list) list \<Rightarrow> string list \<Rightarrow> int \<Rightarrow> string list \<Rightarrow> int \<times> string list" where
  "grep_rows g ms [] n out = (n, out)"
| "grep_rows g ms (row # rows) n out =
     (let got = grep_found ms row in
      if (got \<noteq> []) = gr_invert g then grep_rows g ms rows n out
      else if gr_quiet g then (n + 1, [])
      else
        (let out = out @ (if gr_only g \<and> \<not> gr_invert g then got else [row]) in
         if 0 < gr_most g \<and> gr_most g \<le> n + 1 then (n + 1, out) else grep_rows g ms rows (n + 1) out))"

definition virtualGrep :: "shellEnv \<Rightarrow> string list \<Rightarrow> string \<Rightarrow> shell \<Rightarrow> outcome" where
  "virtualGrep env args input s =
     (let r = virtualBaseResult ''grep'' ''filesystem'' 4 87 ''file-discovery'' ''text search'';
          g = grep_args args no_options in
      if gr_patterns g = [] then (r\<lparr>vr_status := 2\<rparr>, s)
      else
        (let text0 = (if input = [] \<and> gr_files g \<noteq> [] then Join (List.map_filter (read_file env s) (gr_files g)) nl else input);
             (n, out) = grep_rows g (grep_matchers env g) (rows_of_text (TrimSuffix text0 nl)) 0 []
         in if n = 0 then (r\<lparr>vr_status := 1\<rparr>, s)
            else if gr_quiet g then (r, s)
            else (r\<lparr>vr_output := (if gr_count g then Itoa n else Join out nl)\<rparr>, s)))"

section \<open>Text filters\<close>

definition filter_base :: "string \<Rightarrow> string \<Rightarrow> virtualSSHResult" where
  "filter_base cmd message = virtualBaseResult cmd ''filesystem'' 3 82 ''file-discovery'' message"

definition virtualTextInput :: "shellEnv \<Rightarrow> string list \<Rightarrow> string \<Rightarrow> shell \<Rightarrow> string" where
  "virtualTextInput env args input s =
     (if input \<noteq> [] then input
      else (let ok = (\<lambda>a. \<not> HasPrefix a ''-'' \<and> set a \<inter> set ''{}$;'' = {}) in
            case first_some (map (read_file env s) (List.filter ok (rev args))) of None \<Rightarrow> [] | Some c \<Rightarrow> c))"

definition text_rows :: "shellEnv \<Rightarrow> string list \<Rightarrow> string \<Rightarrow> shell \<Rightarrow> string list" where
  "text_rows env args input s = rows_of_text (TrimSuffix (virtualTextInput env args input s) nl)"

fun adjacent_once :: "string list \<Rightarrow> string list" where
  "adjacent_once (a # b # xs) = (if a = b then adjacent_once (a # xs) else a # adjacent_once (b # xs))"
| "adjacent_once xs = xs"

definition cmd_sort :: "shellEnv \<Rightarrow> string \<Rightarrow> string list \<Rightarrow> string \<Rightarrow> shell \<Rightarrow> outcome" where
  "cmd_sort env cmd args input s =
     (let rows = sort_strings (text_rows env args input s) in
      ((filter_base cmd ''text sorting'')\<lparr>vr_output := Join (if ''-r'' \<in> set args then rev rows else rows) nl\<rparr>, s))"

definition cmd_uniq :: "shellEnv \<Rightarrow> string \<Rightarrow> string list \<Rightarrow> string \<Rightarrow> shell \<Rightarrow> outcome" where
  "cmd_uniq env cmd args input s =
     ((filter_base cmd ''text de-duplication'')\<lparr>vr_output := Join (adjacent_once (text_rows env args input s)) nl\<rparr>, s)"

definition cmd_wc :: "shellEnv \<Rightarrow> string \<Rightarrow> string list \<Rightarrow> string \<Rightarrow> shell \<Rightarrow> outcome" where
  "cmd_wc env cmd args input s =
     (let t = virtualTextInput env args input s;
          lines = count_list t (CHR 0x0A) + (if t \<noteq> [] \<and> \<not> HasSuffix t nl then 1 else 0);
          words = length (Fields t); p = lastNonOption args;
          bytes = (case (if input = [] \<and> ''-c'' \<in> set args \<and> p \<noteq> [] then map_of (fileMeta (vw_fs s)) (resolve (vw_fs s) p) else None) of
                     Some m \<Rightarrow> if 0 < m_size m then m_size m else int (length t)
                   | None \<Rightarrow> int (length t))
      in ((filter_base cmd ''text measurement'')
            \<lparr>vr_output := (if ''-l'' \<in> set args then Itoa (int lines) else if ''-w'' \<in> set args then Itoa (int words)
               else if ''-c'' \<in> set args then Itoa bytes
               else Join [Itoa (int lines), Itoa (int words), Itoa bytes] '' '')\<rparr>, s))"

definition field_spec :: "string \<Rightarrow> int \<times> bool" where
  "field_spec t = (let spec = hd (SplitByte t (CHR '','')) in (parsed_value (Atoi (TrimSuffix spec ''-'')), HasSuffix spec ''-''))"

definition cut_option :: "string \<Rightarrow> string list \<Rightarrow> string \<times> int \<times> bool \<Rightarrow> string \<times> int \<times> bool" where
  "cut_option a rest opts =
     (if a = ''-d'' \<and> rest \<noteq> [] then (hd rest, snd opts)
      else if HasPrefix a ''-d'' \<and> 2 < length a then (drop 2 a, snd opts)
      else if a = ''-f'' \<and> rest \<noteq> [] then (fst opts, field_spec (hd rest))
      else if HasPrefix a ''-f'' \<and> 2 < length a then (fst opts, field_spec (drop 2 a))
      else opts)"

primrec cut_args :: "string list \<Rightarrow> string \<times> int \<times> bool \<Rightarrow> string \<times> int \<times> bool" where
  "cut_args [] opts = opts"
| "cut_args (a # rest) opts = cut_args rest (cut_option a rest opts)"

definition cmd_cut :: "shellEnv \<Rightarrow> string \<Rightarrow> string list \<Rightarrow> string \<Rightarrow> shell \<Rightarrow> outcome" where
  "cmd_cut env cmd args input s =
     (let (d0, field, to_end) = cut_args args ([CHR 0x09], 1, False);
          d = (if d0 = [] then [CHR 0x09] else d0);
          pick = (\<lambda>row. let parts = Split row d in
                        if 0 < field \<and> field \<le> int (length parts)
                        then [if to_end then Join (drop (nat field - 1) parts) d else parts ! (nat field - 1)] else [])
      in ((virtualBaseResult cmd ''filesystem'' 3 83 ''file-discovery'' ''text field extraction'')
            \<lparr>vr_output := Join (concat (map pick (text_rows env args input s))) nl\<rparr>, s))"

end
