(* ===== verification/ShellFiles.thy ===== *)
theory ShellFiles
  imports ShellCommands
begin

text \<open>
  The commands of the virtual shell that change files, modes, attributes, processes, jobs, variables and
  aliases (\<open>internal/server/trap_ssh_shell.go\<close>, \<open>trap_ssh_extra.go\<close>, \<open>trap_ssh_process.go\<close>,
  \<open>trap_ssh_binaries.go\<close>).
\<close>

section \<open>Making and removing files\<close>

definition no_space :: string where "no_space = ''No space left on device''"

definition in_quotes :: "string \<Rightarrow> string" where "in_quotes t = [CHR 0x27] @ t @ [CHR 0x27]"

definition chmod_mode :: "string \<Rightarrow> nat \<Rightarrow> nat" where
  "chmod_mode arg m =
     (if Contains arg ''+x'' then m OR 0x49
      else if Contains arg ''-x'' then m - (m AND 0x49)
      else (case ParseUint arg 8 of Parsed n \<Rightarrow> if n < 4096 then nat n else m | _ \<Rightarrow> m))"

definition chmod_step :: "shellEnv \<Rightarrow> string \<Rightarrow> string \<Rightarrow> outcome \<Rightarrow> outcome" where
  "chmod_step env arg target p =
     (let (r, s) = p; t = resolve (vw_fs s) target in
      if HasPrefix target ''-'' then p
      else if read_file env s t = None then (says (''chmod: cannot access '' @ in_quotes target @ '': No such file or directory'') 1 r, s)
      else (r, set_mode t (chmod_mode arg (virtualFileMode (vw_fs s) t)) s))"

definition cmd_chmod :: "shellEnv \<Rightarrow> string \<Rightarrow> string list \<Rightarrow> shell \<Rightarrow> outcome" where
  "cmd_chmod env cmd args s =
     (let r = virtualBaseResult cmd ''execution'' 6 97 ''payload-preparation'' ''payload permission/ownership change'';
          (r, s) = (if cmd = ''chmod'' \<and> 2 \<le> length args then fold (chmod_step env (hd args)) (tl args) (r, s) else (r, s))
      in (r\<lparr>vr_loop := 1\<rparr>, s))"

text \<open>A loop over the operands that stops at the first that fails.\<close>

fun until_full :: "(string \<Rightarrow> shell \<Rightarrow> shell \<times> bool) \<Rightarrow> (string \<Rightarrow> string) \<Rightarrow> string list \<Rightarrow> outcome \<Rightarrow> outcome" where
  "until_full act complain [] p = p"
| "until_full act complain (a # args) (r, s) =
     (if HasPrefix a ''-'' then until_full act complain args (r, s)
      else (let (s', ok) = act a s in
            if ok then until_full act complain args (r, s') else (says (complain a) 1 r, s')))"

definition cmd_mkdir :: "string \<Rightarrow> string list \<Rightarrow> shell \<Rightarrow> outcome" where
  "cmd_mkdir cmd args s =
     until_full (\<lambda>a s. set_dir (resolve (vw_fs s) a) s)
       (\<lambda>a. ''mkdir: cannot create directory '' @ in_quotes a @ '': '' @ no_space) args
       (virtualBaseResult cmd ''filesystem'' 4 88 ''file-manipulation'' ''virtual directory created'', s)"

definition cmd_touch :: "shellEnv \<Rightarrow> string \<Rightarrow> string list \<Rightarrow> shell \<Rightarrow> outcome" where
  "cmd_touch env cmd args s =
     until_full (\<lambda>a s. set_file env (resolve (vw_fs s) a) [] s)
       (\<lambda>a. ''touch: cannot touch '' @ in_quotes a @ '': '' @ no_space) args
       (virtualBaseResult cmd ''filesystem'' 4 88 ''file-manipulation'' ''virtual file created'', s)"

definition delete_files :: "(string \<Rightarrow> bool) \<Rightarrow> world \<Rightarrow> world" where
  "delete_files P w =
     fold (\<lambda>f w. if P f \<and> \<not> virtualFileImmutable w f then deleteVirtualFile f w else w) (map fst (files w)) w"

definition delete_dirs :: "(string \<Rightarrow> bool) \<Rightarrow> world \<Rightarrow> world" where
  "delete_dirs P w = w\<lparr>dirs := List.filter (\<lambda>d. \<not> P (fst d)) (dirs w)\<rparr>"

definition removeVirtualPattern :: "string \<Rightarrow> world \<Rightarrow> world" where
  "removeVirtualPattern raw w =
     (let t = resolve w raw; prefix = TrimSuffix t ''/'' @ ''/'' in
      if CHR ''*'' \<in> set t \<or> CHR ''?'' \<in> set t then
        delete_dirs (path_match t) (delete_files (path_match t) w)
      else if has_key (files w) t \<and> virtualFileImmutable w t then w
      else delete_dirs (\<lambda>d. d = t \<or> HasPrefix d prefix)
             (delete_files (\<lambda>f. HasPrefix f prefix) (if has_key (files w) t then deleteVirtualFile t w else w)))"

definition rm_step :: "string \<Rightarrow> outcome \<Rightarrow> outcome" where
  "rm_step a p =
     (let (r, s) = p in
      if HasPrefix a ''-'' then p
      else if virtualFileImmutable (vw_fs s) (resolve (vw_fs s) a) then
        (says (''rm: cannot remove '' @ in_quotes a @ '': Operation not permitted'') 1 r, s)
      else (r, on_fs (removeVirtualPattern a) s))"

definition cmd_rm :: "string \<Rightarrow> string list \<Rightarrow> shell \<Rightarrow> outcome" where
  "cmd_rm cmd args s =
     fold rm_step args (virtualBaseResult cmd ''filesystem'' 5 93 ''file-manipulation'' ''virtual file removal'', s)"

definition last_two :: "string list \<Rightarrow> string \<times> string" where
  "last_two args = (args ! (length args - 2), args ! (length args - 1))"

definition cmd_copy :: "shellEnv \<Rightarrow> string \<Rightarrow> string list \<Rightarrow> shell \<Rightarrow> outcome" where
  "cmd_copy env cmd args s =
     (let r = virtualBaseResult cmd ''filesystem'' 5 92 ''file-manipulation'' ''virtual file copy/move'';
          (a, b) = last_two args; src = resolve (vw_fs s) a; dst = resolve (vw_fs s) b in
      if length args < 2 then (r, s)
      else
        (case map_of (files (vw_fs s)) src of
           None \<Rightarrow> (says (cmd @ '': cannot stat '' @ in_quotes a @ '': No such file or directory'') 1 r, s)
         | Some content \<Rightarrow>
             (let (s', ok) = set_file env dst content s in
              if \<not> ok then (says (cmd @ '': cannot create '' @ in_quotes b @ '': '' @ no_space) 1 r, s')
              else (r, if cmd = ''mv'' then on_fs (deleteVirtualFile src) s' else s'))))"

definition cmd_ln :: "shellEnv \<Rightarrow> string \<Rightarrow> string list \<Rightarrow> shell \<Rightarrow> outcome" where
  "cmd_ln env cmd args s =
     (let r = virtualBaseResult cmd ''filesystem'' 5 91 ''file-manipulation'' ''virtual link creation'';
          (a, b) = last_two args; src = resolve (vw_fs s) a; dst = resolve (vw_fs s) b in
      if length args < 2 then (says ''ln: missing file operand'' 1 r, s)
      else
        (case read_file env s src of
           None \<Rightarrow> (says (''ln: failed to access '' @ in_quotes a @ '': No such file or directory'') 1 r, s)
         | Some content \<Rightarrow>
             (let (s', ok) = set_file env dst content s in
              (if ok then r else says (''ln: failed to create link: '' @ no_space) 1 r, s'))))"

definition cmd_tee :: "shellEnv \<Rightarrow> string \<Rightarrow> string list \<Rightarrow> string \<Rightarrow> shell \<Rightarrow> outcome" where
  "cmd_tee env cmd args input s =
     (let r = virtualBaseResult cmd ''filesystem'' 5 91 ''file-manipulation'' ''pipeline output written to virtual file'';
          target = lastNonOption args; p = resolve (vw_fs s) target;
          (s', ok) = (if target = [] then (s, True) else if ''-a'' \<in> set args then append_file env p input s else set_file env p input s)
      in if ok then (r\<lparr>vr_output := input\<rparr>, s') else (says (''tee: '' @ target @ '': '' @ no_space) 1 r, s'))"

definition cmd_nohup :: "shellEnv \<Rightarrow> string \<Rightarrow> shell \<Rightarrow> outcome" where
  "cmd_nohup env cmd s =
     ((virtualBaseResult cmd ''persistence'' 6 97 ''persistence'' ''detached process execution'')
        \<lparr>vr_output := ''nohup: ignoring input and appending output to '' @ in_quotes ''nohup.out'', vr_loop := 1\<rparr>,
      fst (append_file env (resolve (vw_fs s) ''nohup.out'') (''worker started'' @ nl) s))"

section \<open>Attributes and paths\<close>

definition plain_attrs :: string where "plain_attrs = ''--------------e-------''"
definition immutable_attrs :: string where "immutable_attrs = ''----i---------e-------''"

definition lsattr_row :: "shellEnv \<Rightarrow> shell \<Rightarrow> string \<Rightarrow> string" where
  "lsattr_row env s f =
     (let t = resolve (vw_fs s) f; attrs = lookup_or [] (fileAttrs (vw_fs s)) t in
      if read_file env s t = None then ''lsattr: No such file or directory while trying to stat '' @ f
      else (if attrs = [] then plain_attrs else attrs) @ '' '' @ f)"

definition cmd_lsattr :: "shellEnv \<Rightarrow> string \<Rightarrow> string list \<Rightarrow> shell \<Rightarrow> outcome" where
  "cmd_lsattr env cmd args s =
     (let fs = non_options args;
          missing = list_ex (\<lambda>f. read_file env s (resolve (vw_fs s) f) = None) fs
      in (says (Join (map (lsattr_row env s) fs) nl) (if fs = [] \<or> missing then 1 else 0)
            (virtualBaseResult cmd ''filesystem'' 4 87 ''file-discovery'' ''extended attribute discovery''), s))"

definition attr_mode :: "string \<Rightarrow> bool" where
  "attr_mode a \<longleftrightarrow> (HasPrefix a ''+'' \<or> HasPrefix a ''-'') \<and> set a \<inter> set ''iae'' \<noteq> {}"

definition chattr_file :: "shellEnv \<Rightarrow> string \<Rightarrow> string \<Rightarrow> string list \<times> shell \<Rightarrow> string list \<times> shell" where
  "chattr_file env mode f p =
     (let (errs, s) = p; t = resolve (vw_fs s) f;
          old = Contains (lookup_or [] (fileAttrs (vw_fs s)) t) ''i'';
          fixed = (if Contains mode ''i'' then (if HasPrefix mode ''+'' then True else if HasPrefix mode ''-'' then False else old) else old) in
      if read_file env s t = None then (errs @ [''chattr: No such file or directory while trying to stat '' @ f], s)
      else (errs, on_fs (\<lambda>w. w\<lparr>fileAttrs := AList.update t (if fixed then immutable_attrs else plain_attrs) (fileAttrs w)\<rparr>) s))"

definition cmd_chattr :: "shellEnv \<Rightarrow> string \<Rightarrow> string list \<Rightarrow> shell \<Rightarrow> outcome" where
  "cmd_chattr env cmd args s =
     (let mode = (case List.find attr_mode (rev args) of Some a \<Rightarrow> a | None \<Rightarrow> []);
          fs = List.filter (\<lambda>a. \<not> attr_mode a \<and> \<not> HasPrefix a ''-'') args;
          (errs, s) = fold (chattr_file env mode) fs ([], s)
      in ((says (Join errs nl) (if errs = [] then 0 else 1)
             (virtualBaseResult cmd ''persistence'' 6 98 ''persistence'' ''immutable/extended attribute modification''))\<lparr>vr_loop := 1\<rparr>, s))"

definition cmd_pathname :: "string \<Rightarrow> string list \<Rightarrow> shell \<Rightarrow> outcome" where
  "cmd_pathname cmd args s =
     (let r = virtualBaseResult cmd ''filesystem'' 2 75 ''interactive-shell'' ''path manipulation'' in
      (if args = [] then r else r\<lparr>vr_output := (if cmd = ''dirname'' then Dir (last args) else Base (last args))\<rparr>, s))"

end
