(* ===== verification/ShellBuiltins.thy ===== *)
theory ShellBuiltins
  imports ShellFiles
begin

text \<open>
  Variables, aliases, processes and jobs, the table of the scheduled tasks, the editors and the rest of
  the built-in commands (\<open>internal/server/trap_ssh_shell.go\<close>, \<open>trap_ssh_extra.go\<close>,
  \<open>trap_ssh_process.go\<close>), and \<open>first_commands\<close> and \<open>extra_commands\<close>, the parts of the two
  switches over the commands that run nothing else. A command that is in neither is given to
  \<open>se_command\<close>.
\<close>

section \<open>Variables and aliases\<close>

definition cmd_alias_step :: "string \<Rightarrow> outcome \<Rightarrow> outcome" where
  "cmd_alias_step a p =
     (let (r, s) = p; (name, v, ok) = CutByte a (CHR ''='') in
      if ok then (r, s\<lparr>vw_aliases := AList.update name (trim_chars quotes v) (vw_aliases s)\<rparr>)
      else (case map_of (vw_aliases s) a of
              Some t \<Rightarrow> (r\<lparr>vr_output := ''alias '' @ a @ ''='' @ in_quotes t\<rparr>, s)
            | None \<Rightarrow> (says (''bash: alias: '' @ a @ '': not found'') 1 r, s)))"

definition cmd_alias :: "string \<Rightarrow> string list \<Rightarrow> shell \<Rightarrow> outcome" where
  "cmd_alias cmd args s =
     (let r = virtualBaseResult cmd ''shell'' 2 75 ''interactive-shell'' ''shell alias inspection/modification'' in
      if args = [] then
        (r\<lparr>vr_output := Join (map (\<lambda>k. ''alias '' @ k @ ''='' @ in_quotes (lookup_or [] (vw_aliases s) k))
             (sort_strings (map fst (vw_aliases s)))) nl\<rparr>, s)
      else fold cmd_alias_step args (r, s))"

definition cmd_unset :: "string \<Rightarrow> string list \<Rightarrow> shell \<Rightarrow> outcome" where
  "cmd_unset cmd args s =
     (virtualBaseResult cmd ''shell'' 2 76 ''interactive-shell'' ''environment modification'',
      s\<lparr>vw_env := fold AList.delete args (vw_env s)\<rparr>)"

definition export_step :: "string \<Rightarrow> shell \<Rightarrow> shell" where
  "export_step a s =
     (let (k, v, ok) = CutByte a (CHR ''='') in
      if ok \<and> validVirtualEnvName k then set_env k (trim_chars quotes v) s else s)"

definition cmd_export :: "string \<Rightarrow> string list \<Rightarrow> shell \<Rightarrow> outcome" where
  "cmd_export cmd args s =
     (let r = virtualBaseResult cmd ''credentials'' 4 88 ''environment-modification'' ''environment variable modification'' in
      if args = [] then (r\<lparr>vr_output := virtualEnvOutput [] s\<rparr>, s) else (r, fold export_step args s))"

section \<open>Where a command is\<close>

definition virtualBuiltin :: "string \<Rightarrow> bool" where
  "virtualBuiltin name \<longleftrightarrow>
     name \<in> set [''echo'', ''printf'', ''cd'', ''pwd'', ''type'', ''command'', ''alias'', ''export'', ''unset'', ''set'', ''history'',
       ''read'', ''test'', ''['', ''true'', ''false'', ''umask'', ''ulimit'', ''jobs'', ''disown'', ''source'', ''.'', ''exit'', ''logout'',
       ''break'', ''continue'']"

definition virtualCommandExists :: "string \<Rightarrow> bool" where
  "virtualCommandExists name \<longleftrightarrow> Base name \<in> set virtualSSHCommands"

definition system_binaries :: "string list" where
  "system_binaries =
     [''true'', ''false'', ''test'', ''['', ''echo'', ''printf'', ''cat'', ''ls'', ''pwd'', ''date'', ''uname'', ''grep'', ''sed'', ''awk'',
      ''env'', ''nproc'', ''curl'', ''wget'', ''ssh'', ''bash'', ''sh'']"

definition virtualCommandPath :: "string \<Rightarrow> string" where
  "virtualCommandPath name0 =
     (let name = Base (TrimSpace name0) in
      if name \<in> set system_binaries \<or> virtualCommandExists name then ''/usr/bin/'' @ name else [])"

definition packageInstalled :: "shellEnv \<Rightarrow> shell \<Rightarrow> string \<Rightarrow> bool" where
  "packageInstalled env s name = lookup_or False (vw_packages s) (lower env (Base name))"

definition binary_path :: "shellEnv \<Rightarrow> shell \<Rightarrow> string \<Rightarrow> string" where
  "binary_path env s name =
     (if name = ''htop'' \<and> packageInstalled env s ''htop'' then ''/usr/bin/htop'' else virtualCommandPath name)"

definition cmd_which :: "shellEnv \<Rightarrow> string \<Rightarrow> string list \<Rightarrow> shell \<Rightarrow> outcome" where
  "cmd_which env cmd args s =
     (let r = virtualBaseResult cmd ''recon'' 3 82 ''tool-discovery'' ''binary/tool discovery'' in
      if args = [] then (r\<lparr>vr_status := 1\<rparr>, s)
      else (let name = Base (last args); p = binary_path env s name in
        (if virtualBuiltin name \<and> cmd = ''type'' then r\<lparr>vr_output := name @ '' is a shell builtin''\<rparr>
         else if p \<noteq> [] then
           r\<lparr>vr_output := (if cmd = ''whereis'' then name @ '': '' @ p @ '' /usr/share/man/man1/'' @ name @ ''.1.gz''
                          else if cmd = ''type'' then name @ '' is '' @ p else p)\<rparr>
         else says (if cmd = ''type'' then ''bash: type: '' @ name @ '': not found'' else []) 1 r, s)))"

definition cmd_command :: "shellEnv \<Rightarrow> string \<Rightarrow> string list \<Rightarrow> shell \<Rightarrow> outcome" where
  "cmd_command env cmd args s =
     (let r = virtualBaseResult cmd ''recon'' 3 82 ''tool-discovery'' ''shell command discovery'' in
      if 2 \<le> length args \<and> hd args = ''-v'' then
        (let name = Base (args ! 1); p = binary_path env s name in
         (if virtualBuiltin name then r\<lparr>vr_output := name\<rparr>
          else if p \<noteq> [] then r\<lparr>vr_output := p\<rparr> else r\<lparr>vr_status := 1\<rparr>, s))
      else (r, s))"

definition virtualCommandNotFound :: "string \<Rightarrow> string" where
  "virtualCommandNotFound cmd =
     (case map_of [(''jq'', ''jq''), (''nmap'', ''nmap''), (''htop'', ''htop''), (''dig'', ''dnsutils''), (''nslookup'', ''dnsutils''),
                   (''socat'', ''socat''), (''rsync'', ''rsync'')] cmd of
        Some pkg \<Rightarrow> ''Command '' @ in_quotes cmd @ '' not found, but can be installed with:'' @ nl @ ''apt install '' @ pkg
      | None \<Rightarrow> ''bash: '' @ cmd @ '': command not found'')"

section \<open>Processes and jobs\<close>

definition new_job :: "int \<Rightarrow> shell \<Rightarrow> int \<times> shell" where
  "new_job pid s = (vw_next_job s, s\<lparr>vw_next_job := vw_next_job s + 1, vw_jobs := AList.update (vw_next_job s) pid (vw_jobs s)\<rparr>)"

definition set_process :: "int \<Rightarrow> virtualSSHProcess \<Rightarrow> shell \<Rightarrow> shell" where
  "set_process pid p s = s\<lparr>vw_processes := AList.update pid p (vw_processes s)\<rparr>"

definition startVirtualProcess :: "shellEnv \<Rightarrow> string \<Rightarrow> bool \<Rightarrow> shell \<Rightarrow> int \<times> shell" where
  "startVirtualProcess env cmd as_job s =
     (let pid = (if vw_next_pid s < 2000 then 2841 else vw_next_pid s);
          s = s\<lparr>vw_next_pid := pid + 1\<rparr>;
          (job, s) = (if as_job then new_job pid s else (0, s));
          p = \<lparr>pc_user = user (vw_fs s), pc_command = TrimSpace cmd, pc_started = se_clock env, pc_cpu = 1724, pc_mem = 31,
               pc_job = job, pc_disowned = False, pc_alive = True\<rparr>
      in (pid, on_fs (\<lambda>w. w\<lparr>dirs := AList.update (''/proc/'' @ Itoa pid) True (dirs w)\<rparr>) (set_process pid p s)))"

definition process_name :: "virtualSSHProcess \<Rightarrow> string" where
  "process_name p = (case Fields (pc_command p) of [] \<Rightarrow> [] | f # _ \<Rightarrow> Base f)"

text \<open>Go takes the processes in any order; here it is that of the table.\<close>

definition ensureVirtualPayloadProcess :: "shellEnv \<Rightarrow> string \<Rightarrow> shell \<Rightarrow> int \<times> shell" where
  "ensureVirtualPayloadProcess env target0 s =
     (let target = Clean target0 in
      case List.find (\<lambda>(pid, p). pc_alive p \<and> Fields (pc_command p) \<noteq> [] \<and> process_name p = Base target) (vw_processes s) of
        Some (pid, _) \<Rightarrow> (pid, s)
      | None \<Rightarrow>
          (let (pid, s) = startVirtualProcess env target False s in
           (pid, (case map_of (vw_processes s) pid of
                    Some p \<Rightarrow> set_process pid (p\<lparr>pc_cpu := 684, pc_mem := 27\<rparr>) s | None \<Rightarrow> s))))"

definition started_payload :: string where "started_payload = ''virtual staged payload started''"

definition local_command :: "string \<Rightarrow> bool" where
  "local_command first \<longleftrightarrow>
     HasPrefix first ''./'' \<or> HasPrefix first ''/tmp/'' \<or> HasPrefix first ''/var/tmp/'' \<or> HasPrefix first ''/dev/shm/'' \<or> first = ''nohup''"

text \<open>The job of the background command: that of the payload it started, or a process of its own.\<close>

definition background_job :: "shellEnv \<Rightarrow> string \<Rightarrow> string \<Rightarrow> virtualSSHResult \<Rightarrow> shell \<Rightarrow> int \<times> int \<times> shell" where
  "background_job env cmd first res s =
     (if vr_message res = started_payload \<and> first \<noteq> ''nohup'' then
        (let (pid, s) = ensureVirtualPayloadProcess env (resolve (vw_fs s) first) s in
         case map_of (vw_processes s) pid of
           None \<Rightarrow> (0, pid, s)
         | Some p \<Rightarrow>
             if pc_job p \<noteq> 0 then (pc_job p, pid, s)
             else (let (job, s) = new_job pid s in (job, pid, set_process pid (p\<lparr>pc_job := job\<rparr>) s)))
      else (let (pid, s) = startVirtualProcess env cmd True s in
            (case map_of (vw_processes s) pid of Some p \<Rightarrow> pc_job p | None \<Rightarrow> 0, pid, s)))"

definition backgroundResult :: "shellEnv \<Rightarrow> string \<Rightarrow> virtualSSHResult \<Rightarrow> shell \<Rightarrow> outcome" where
  "backgroundResult env cmd res s =
     (let low = lower env cmd; words = virtualWords cmd in
      if Contains low ''rm '' \<or> HasPrefix (TrimSpace low) ''pkill '' \<or> HasPrefix (TrimSpace low) ''killall '' then (res, s)
      else if words = [] \<or> \<not> local_command (hd words) then (res, s)
      else (let (job, pid, s) = background_job env cmd (hd words) res s in
        (res\<lparr>vr_output := ''['' @ Itoa job @ ''] '' @ Itoa pid, vr_status := 0, vr_family := ''execution'', vr_depth := 7,
             vr_risk := 100, vr_persona := ''payload-execution'', vr_message := ''virtual background payload started'',
             vr_loop := vr_loop res + 1\<rparr>, s)))"

definition virtualJobs :: "shell \<Rightarrow> string" where
  "virtualJobs s =
     Join (List.map_filter (\<lambda>i.
       case map_of (vw_processes s) (lookup_or 0 (vw_jobs s) i) of
         Some p \<Rightarrow> if pc_alive p \<and> \<not> pc_disowned p
                    then Some (''['' @ Itoa i @ '']+  Running                 '' @ TrimSpace (pc_command p) @ '' &'') else None
       | None \<Rightarrow> None) (sort (map fst (vw_jobs s)))) nl"

definition disown_job :: "int \<Rightarrow> shell \<Rightarrow> shell" where
  "disown_job i s =
     (let pid = lookup_or 0 (vw_jobs s) i;
          s = (case map_of (vw_processes s) pid of Some p \<Rightarrow> set_process pid (p\<lparr>pc_disowned := True\<rparr>) s | None \<Rightarrow> s)
      in s\<lparr>vw_jobs := AList.delete i (vw_jobs s)\<rparr>)"

definition disownVirtual :: "string list \<Rightarrow> shell \<Rightarrow> shell" where
  "disownVirtual args s =
     (if args = [] then
        (let i = fold max (map fst (vw_jobs s)) 0 in if 0 < i then disown_job i s else s)
      else fold (\<lambda>a s. let i = parsed_value (Atoi (TrimPrefix a ''%'')) in if i \<le> 0 then s else disown_job i s) args s)"

definition end_process :: "int \<Rightarrow> shell \<Rightarrow> shell" where
  "end_process pid s =
     (case map_of (vw_processes s) pid of Some p \<Rightarrow> set_process pid (p\<lparr>pc_alive := False\<rparr>) s | None \<Rightarrow> s)"

definition is_alive :: "shell \<Rightarrow> int \<Rightarrow> bool" where
  "is_alive s pid \<longleftrightarrow> (case map_of (vw_processes s) pid of Some p \<Rightarrow> pc_alive p | None \<Rightarrow> False)"

definition virtualStaticPID :: "int \<Rightarrow> bool" where
  "virtualStaticPID pid \<longleftrightarrow> pid \<in> {1, 581, 612, 844, 901, 932, 1021, 1102, 1842}"

definition kill_matching :: "shellEnv \<Rightarrow> string \<Rightarrow> int \<times> virtualSSHProcess \<Rightarrow> bool" where
  "kill_matching env pattern x \<longleftrightarrow> pc_alive (snd x) \<and> Contains (lower env (pc_command (snd x))) pattern"

definition killVirtualProcesses :: "shellEnv \<Rightarrow> string \<Rightarrow> shell \<Rightarrow> bool \<times> shell" where
  "killVirtualProcesses env pattern0 s =
     (let pattern = lower env (Base (TrimSpace pattern0)); hit = List.filter (kill_matching env pattern) (vw_processes s) in
      if pattern = [] then (False, s)
      else (hit \<noteq> [] \<or> pattern \<in> {''xmrig'', ''cnrig'', ''java'', ''opera''},
            fold (\<lambda>(pid, p) s. let s = end_process pid s in
                    if 0 < pc_job p then s\<lparr>vw_jobs := AList.delete (pc_job p) (vw_jobs s)\<rparr> else s) hit s))"

fun kill_pids :: "string list \<Rightarrow> bool \<Rightarrow> shell \<Rightarrow> (bool \<times> string option) \<times> shell" where
  "kill_pids [] hit s = ((hit, None), s)"
| "kill_pids (a # args) hit s =
     (let n = Atoi (TrimSpace a); pid = parsed_value n in
      if HasPrefix a ''-'' then kill_pids args hit s
      else if \<not> (parsed_ok n \<and> 0 < pid) then ((hit, Some a), s)
      else if is_alive s pid then kill_pids args True (end_process pid s)
      else kill_pids args (hit \<or> virtualStaticPID pid) s)"

definition cmd_kill :: "shellEnv \<Rightarrow> string \<Rightarrow> string list \<Rightarrow> shell \<Rightarrow> outcome" where
  "cmd_kill env cmd args s =
     (let r = virtualBaseResult cmd ''execution'' 5 92 ''process-control'' ''process termination attempt'' in
      if cmd = ''kill'' then
        (case kill_pids args False s of ((hit, wrong), s) \<Rightarrow>
           (case wrong of
              Some a \<Rightarrow> says (''bash: kill: '' @ a @ '': arguments must be process or job IDs'') 2 r
            | None \<Rightarrow> r\<lparr>vr_status := (if hit then 0 else 1), vr_loop := 1\<rparr>, s))
      else
        (let (hit, s) = killVirtualProcesses env (lastNonOption args) s in
         (r\<lparr>vr_status := (if hit then 0 else 1), vr_loop := 1\<rparr>, s)))"

section \<open>Scheduled tasks, editors, text\<close>

definition crontab_spool :: "shell \<Rightarrow> string" where
  "crontab_spool s = ''/var/spool/cron/crontabs/'' @ safeVirtualName (user (vw_fs s))"

definition open_crontab :: "shellEnv \<Rightarrow> shell \<Rightarrow> shell" where
  "open_crontab env s0 =
     (let s = put_dir ''/var/spool/cron/crontabs'' (put_dir ''/var/spool/cron'' (put_dir ''/var/spool'' s0)); spool = crontab_spool s in
      if has_key (files (vw_fs s)) spool then s
      else set_mode spool 0x180 (put_file env (spool, vw_crontab_text s) s))"

definition cmd_crontab :: "shellEnv \<Rightarrow> string \<Rightarrow> string list \<Rightarrow> string \<Rightarrow> shell \<Rightarrow> outcome" where
  "cmd_crontab env cmd args input s =
     (let r = virtualBaseResult cmd ''persistence'' 6 97 ''persistence'' ''scheduled task discovery or modification'' in
      if ''-e'' \<in> set args then
        (r\<lparr>vr_interactive := ''crontab-edit'', vr_target := crontab_spool s, vr_loop := 1\<rparr>, open_crontab env s)
      else if ''-r'' \<in> set args then
        (r\<lparr>vr_loop := 1\<rparr>, on_fs (deleteVirtualFile (crontab_spool s)) (s\<lparr>vw_crontab := False, vw_crontab_text := []\<rparr>))
      else if ''-l'' \<in> set args then
        (if vw_crontab s then r\<lparr>vr_output := TrimSuffix (vw_crontab_text s) nl\<rparr>
         else says (''no crontab for '' @ user (vw_fs s)) 1 r, s)
      else (r\<lparr>vr_loop := 1\<rparr>, s\<lparr>vw_crontab := True, vw_crontab_text := (if input = [] then vw_crontab_text s else input)\<rparr>))"

definition cmd_editor :: "string \<Rightarrow> string list \<Rightarrow> string \<Rightarrow> int \<Rightarrow> string \<Rightarrow> shell \<Rightarrow> outcome" where
  "cmd_editor cmd args program risk message s =
     (let p = lastNonOption args in
      ((virtualBaseResult cmd ''filesystem'' 5 risk ''interactive-editor'' message)
         \<lparr>vr_interactive := program, vr_target := (if p = [] then [] else resolve (vw_fs s) p)\<rparr>, s))"

definition cmd_power :: "string \<Rightarrow> shell \<Rightarrow> outcome" where
  "cmd_power cmd s =
     (let r = virtualBaseResult cmd ''system'' 6 96 ''system-control'' ''system power control requested'' in
      if user (vw_fs s) \<noteq> ''root'' then (says (cmd @ '': must be superuser.'') 1 r, s)
      else (r\<lparr>vr_output := ''Broadcast message from root@'' @ vw_host s @ '' (pts/0):'' @ nl @ nl @
                (if cmd = ''reboot'' then ''The system will reboot now!'' else ''The system will power off now!''), vr_exit := True\<rparr>, s))"

text \<open>The options of \<open>echo\<close>: whether escapes are read, whether the line is ended, the words.\<close>

fun echo_args :: "string list \<Rightarrow> bool \<Rightarrow> bool \<Rightarrow> bool \<times> bool \<times> string list" where
  "echo_args [] esc line = (esc, line, [])"
| "echo_args (a # args) esc line =
     (if HasPrefix a ''-'' \<and> 1 < length a then
        (let esc' = fold (\<lambda>c b. if c = CHR ''e'' then True else if c = CHR ''E'' then False else b) (tl a) esc;
             line' = (if CHR ''n'' \<in> set (tl a) then False else line)
         in if set (tl a) \<subseteq> set ''eEn'' then echo_args args esc' line' else (esc', line', a # args))
      else (esc, line, a # args))"

definition virtualEchoOutput :: "string list \<Rightarrow> string" where
  "virtualEchoOutput args =
     (let (esc, line, words) = echo_args args False True;
          out = (if esc then decodeVirtualEscapes (Join words '' '') else Join words '' '')
      in if line then TrimSuffix out nl else out)"

definition cmd_echo :: "string \<Rightarrow> string list \<Rightarrow> shell \<Rightarrow> outcome" where
  "cmd_echo cmd args s =
     (let r = virtualBaseResult cmd ''shell'' 2 70 ''interactive-shell'' ''shell output'' in
      (if cmd = ''printf'' then
         (if args = [] then says ''printf: usage: printf [-v var] format [arguments]'' 2 r
          else r\<lparr>vr_output := virtualFormatPrintf (hd args) (tl args)\<rparr>)
       else r\<lparr>vr_output := virtualEchoOutput args\<rparr>, s))"

definition cmd_seq :: "string \<Rightarrow> string list \<Rightarrow> shell \<Rightarrow> outcome" where
  "cmd_seq cmd args s =
     (let (out, status) = virtualSeq args in
      (says out status (virtualBaseResult cmd ''shell'' 2 74 ''interactive-shell'' ''numeric sequence generation''), s))"

definition cmd_expr :: "string \<Rightarrow> string list \<Rightarrow> shell \<Rightarrow> outcome" where
  "cmd_expr cmd args s =
     (let (out, status) = virtualExpr args in
      (says out status (virtualBaseResult cmd ''shell'' 2 74 ''interactive-shell'' ''shell expression evaluation''), s))"

definition virtualGetconf :: "string list \<Rightarrow> shell \<Rightarrow> outcome" where
  "virtualGetconf args s =
     (let r = virtualBaseResult ''getconf'' ''recon'' 3 80 ''system-recon'' ''system configuration discovery'';
          key = (if args = [] then [] else last args) in
      (case map_of [(''_NPROCESSORS_ONLN'', ''4''), (''NPROCESSORS_ONLN'', ''4''), (''PAGESIZE'', ''4096''), (''PAGE_SIZE'', ''4096''),
                    (''LONG_BIT'', ''64''), (''GNU_LIBC_VERSION'', ''glibc 2.39'')] key of
         Some v \<Rightarrow> r\<lparr>vr_output := v\<rparr>
       | None \<Rightarrow> says (''getconf: Unrecognized variable '' @ [CHR 0x60] @ key @ [CHR 0x27]) 2 r, s))"

section \<open>The switch\<close>

definition plain :: "string \<Rightarrow> string \<Rightarrow> int \<Rightarrow> int \<Rightarrow> string \<Rightarrow> string \<Rightarrow> string \<Rightarrow> shell \<Rightarrow> outcome" where
  "plain cmd family depth risk persona message out s =
     ((virtualBaseResult cmd family depth risk persona message)\<lparr>vr_output := out\<rparr>, s)"

text \<open>\<open>executeOneDepth\<close>: the cases that need no other command.\<close>

definition first_commands :: "shellEnv \<Rightarrow> string \<Rightarrow> string list \<Rightarrow> string \<Rightarrow> string \<Rightarrow> shell \<Rightarrow> outcome option" where
  "first_commands env cmd args raw input s =
     (if cmd = ''break'' then
        Some ((virtualBaseResult cmd ''execution'' 4 88 ''shell-control-flow'' ''simulated shell loop break'')\<lparr>vr_action := ''break''\<rparr>, s)
      else if cmd = ''continue'' then
        Some ((virtualBaseResult cmd ''execution'' 4 88 ''shell-control-flow'' ''simulated shell loop continue'')\<lparr>vr_action := ''continue''\<rparr>, s)
      else if cmd = ''test'' \<or> cmd = ''['' then Some (virtualTest env cmd args s)
      else if cmd = ''exit'' \<or> cmd = ''logout'' then Some (cmd_exit cmd s)
      else if cmd = ''pwd'' then Some (plain cmd ''recon'' 3 82 ''system-recon'' ''working directory discovery'' (cwd (vw_fs s)) s)
      else if cmd = ''whoami'' then Some (plain cmd ''recon'' 3 82 ''system-recon'' ''identity discovery'' (user (vw_fs s)) s)
      else if cmd = ''id'' then Some (cmd_id cmd s)
      else if cmd = ''hostname'' then Some (cmd_hostname env cmd args s)
      else if cmd = ''uname'' then Some (plain cmd ''recon'' 3 84 ''system-recon'' ''kernel discovery'' (virtualGNUUname (vw_host s) args) s)
      else if (cmd = ''ls'' \<or> cmd = ''dir'') \<and> \<not> containsShortFlag args (CHR ''l'') then Some (cmd_ls cmd args s)
      else if cmd = ''cd'' then Some (cmd_cd cmd args s)
      else if cmd \<in> {''cat'', ''less'', ''more'', ''head'', ''tail''} then Some (cmd_cat env cmd args input s)
      else if cmd = ''find'' then Some (cmd_find env cmd raw s)
      else if cmd \<in> {''grep'', ''egrep'', ''fgrep''} then
        Some (let (r, s) = virtualGrep env args input s in (r\<lparr>vr_name := cmd\<rparr>, s))
      else if cmd = ''printenv'' then Some (cmd_printenv cmd args s)
      else if cmd = ''set'' then
        Some (plain cmd ''shell'' 2 74 ''interactive-shell'' ''shell option or variable inspection'' (if args = [] then virtualEnvOutput [] s else []) s)
      else if cmd = ''read'' then Some (virtualReadBuiltin args input s)
      else if cmd = ''history'' then Some (cmd_history cmd args s)
      else if cmd = ''su'' then Some (cmd_su cmd s)
      else if cmd = ''crontab'' then Some (cmd_crontab env cmd args input s)
      else if cmd = ''chmod'' \<or> cmd = ''chown'' then Some (cmd_chmod env cmd args s)
      else if cmd = ''mkdir'' then Some (cmd_mkdir cmd args s)
      else if cmd = ''touch'' then Some (cmd_touch env cmd args s)
      else if cmd = ''rm'' then Some (cmd_rm cmd args s)
      else if cmd = ''cp'' \<or> cmd = ''mv'' then Some (cmd_copy env cmd args s)
      else if cmd = ''echo'' \<or> cmd = ''printf'' then Some (cmd_echo cmd args s)
      else if cmd = ''seq'' then Some (cmd_seq cmd args s)
      else if cmd = ''expr'' then Some (cmd_expr cmd args s)
      else if cmd = ''getconf'' then Some (virtualGetconf args s)
      else if cmd \<in> {''shutdown'', ''reboot'', ''poweroff'', ''halt''} then Some (cmd_power cmd s)
      else if cmd \<in> {''vim'', ''vi'', ''view''} \<and> ''--version'' \<notin> set args then
        Some (cmd_editor cmd args ''vim'' 93 ''virtual Vim editor opened'' s)
      else if cmd = ''nano'' \<and> ''--version'' \<notin> set args \<and> ''-V'' \<notin> set args then
        Some (cmd_editor cmd args ''nano'' 92 ''virtual nano editor opened'' s)
      else if cmd = ''jobs'' then Some (plain cmd ''execution'' 4 88 ''process-control'' ''shell job listing'' (virtualJobs s) s)
      else if cmd = ''disown'' then
        Some ((virtualBaseResult cmd ''persistence'' 6 98 ''persistence'' ''background job detached'')\<lparr>vr_loop := 1\<rparr>, disownVirtual args s)
      else if cmd = ''clear'' \<or> cmd = ''reset'' then
        Some ((virtualBaseResult cmd ''shell'' 2 75 ''interactive-shell'' ''terminal cleared'')\<lparr>vr_action := ''clear''\<rparr>, s)
      else if cmd = ''true'' then Some (virtualBaseResult cmd ''other'' 2 70 ''interactive-shell'' ''no-op'', s)
      else if cmd = ''false'' then
        Some ((virtualBaseResult cmd ''other'' 2 70 ''interactive-shell'' ''false command'')\<lparr>vr_status := 1\<rparr>, s)
      else None)"

text \<open>\<open>executeExtraCommand\<close>, past the two steps that look at the whole line.\<close>

definition extra_commands :: "shellEnv \<Rightarrow> string \<Rightarrow> string list \<Rightarrow> string \<Rightarrow> shell \<Rightarrow> outcome option" where
  "extra_commands env cmd args input s =
     (if cmd = ''which'' \<or> cmd = ''whereis'' \<or> cmd = ''type'' then Some (cmd_which env cmd args s)
      else if cmd = ''command'' then Some (cmd_command env cmd args s)
      else if cmd = ''alias'' then Some (cmd_alias cmd args s)
      else if cmd = ''unset'' then Some (cmd_unset cmd args s)
      else if cmd = ''export'' then Some (cmd_export cmd args s)
      else if cmd = ''umask'' then
        Some (plain cmd ''shell'' 2 74 ''interactive-shell'' ''umask inspection'' (if args = [] then ''0022'' else []) s)
      else if cmd = ''groups'' then
        Some (plain cmd ''recon'' 3 83 ''account-discovery'' ''group membership discovery''
          (if user (vw_fs s) = ''root'' then ''root'' else user (vw_fs s) @ '' sudo docker'') s)
      else if cmd = ''arch'' then Some (plain cmd ''recon'' 3 80 ''system-recon'' ''architecture discovery'' ''x86_64'' s)
      else if cmd = ''nproc'' then Some (plain cmd ''recon'' 3 80 ''system-recon'' ''CPU discovery'' ''4'' s)
      else if cmd = ''lsattr'' then Some (cmd_lsattr env cmd args s)
      else if cmd = ''chattr'' then Some (cmd_chattr env cmd args s)
      else if cmd = ''dirname'' \<or> cmd = ''basename'' then Some (cmd_pathname cmd args s)
      else if cmd = ''ln'' then Some (cmd_ln env cmd args s)
      else if cmd = ''wc'' then Some (cmd_wc env cmd args input s)
      else if cmd = ''sort'' then Some (cmd_sort env cmd args input s)
      else if cmd = ''uniq'' then Some (cmd_uniq env cmd args input s)
      else if cmd = ''cut'' then Some (cmd_cut env cmd args input s)
      else if cmd = ''tee'' then Some (cmd_tee env cmd args input s)
      else if cmd = ''kill'' \<or> cmd = ''pkill'' \<or> cmd = ''killall'' then Some (cmd_kill env cmd args s)
      else if cmd = ''nohup'' then Some (cmd_nohup env cmd s)
      else None)"

end
