(* ===== verification/SshAnalysis.thy ===== *)
theory SshAnalysis
  imports ShellBuiltins "HOL-Library.Monad_Syntax"
begin

text \<open>
  What the SSH trap makes of a command before it is recorded
  (\<open>internal/server/trap_ssh_command_analysis.go\<close>, \<open>trap_ssh_shell_shape.go\<close>,
  \<open>trap_ssh_compound_intent.go\<close>, \<open>trap_ssh_resource_reality.go\<close>): the names of the commands in it, the
  shape of the line, and the intent. The loop over the command substitutions need not end, so its value
  is an option and \<open>None\<close> means that it does not return.
\<close>

section \<open>Command substitutions\<close>

text \<open>
  The scan from behind \<open>$(\<close>: the closing parenthesis with what is before it; the end of the text, the
  last character having been looked at; or the end of the text in the middle of a quotation, behind an
  escape or without a character.
\<close>

datatype scan_end = Closed string | Ended | Stuck

fun scan_substitution :: "nat \<Rightarrow> char option \<Rightarrow> bool \<Rightarrow> string \<Rightarrow> string \<Rightarrow> scan_end" where
  "scan_substitution depth quote escaped seen [] = Stuck"
| "scan_substitution depth quote escaped seen (c # rest) =
     (if escaped then scan_substitution depth quote False (seen @ [c]) rest
      else if c = CHR 0x5C then scan_substitution depth quote True (seen @ [c]) rest
      else (case quote of
              Some q \<Rightarrow> scan_substitution depth (if c = q then None else quote) False (seen @ [c]) rest
            | None \<Rightarrow>
                if c = CHR 0x27 \<or> c = CHR 0x22 then scan_substitution depth (Some c) False (seen @ [c]) rest
                else if c = CHR '')'' \<and> depth = 1 then Closed seen
                else if rest = [] then Ended
                else scan_substitution (if c = CHR ''('' then depth + 1 else if c = CHR '')'' then depth - 1 else depth)
                       None False (seen @ [c]) rest))"

partial_function (option) substitution_loop :: "string \<Rightarrow> nat \<Rightarrow> string list option" where
  "substitution_loop line start =
     (if \<not> start + 2 < length line then Some []
      else (case Index (drop start line) ''$('' of
              None \<Rightarrow> Some []
            | Some k \<Rightarrow>
                (case scan_substitution 1 None False [] (drop (start + k + 2) line) of
                   Closed inner \<Rightarrow>
                     do {
                       rest \<leftarrow> substitution_loop line (start + k + 2 + length inner + 1);
                       Some (if TrimSpace inner = [] then rest else TrimSpace inner # rest)
                     }
                 | Ended \<Rightarrow> Some []
                 | Stuck \<Rightarrow> substitution_loop line start)))"

declare substitution_loop.simps [code]

definition collectSSHCommandSubstitutions :: "string \<Rightarrow> string list option" where
  "collectSSHCommandSubstitutions line = substitution_loop line 0"

section \<open>The commands of a line\<close>

definition isShellSyntaxWord :: "shellEnv \<Rightarrow> string \<Rightarrow> bool" where
  "isShellSyntaxWord env v \<longleftrightarrow>
     lower env (TrimSpace v) \<in> set [''if'', ''then'', ''elif'', ''else'', ''fi'', ''for'', ''while'', ''until'', ''do'', ''done'', ''case'', ''esac'',
       ''in'', ''function'', ''time'']"

definition shellExecFlag :: "string \<Rightarrow> bool" where
  "shellExecFlag v \<longleftrightarrow> v \<in> set [''-c'', ''-lc'', ''-cl'', ''-ec'', ''-ce'']"

definition stage_char :: "char \<Rightarrow> bool" where
  "stage_char c \<longleftrightarrow> is_letter c \<or> is_digit c \<or> c \<in> set ''._+:-''"

definition add_stage :: "shellEnv \<Rightarrow> string \<Rightarrow> string list \<Rightarrow> string list" where
  "add_stage env name0 out =
     (let name = Base (TrimSpace name0) in
      if name = [] \<or> HasPrefix name ''-'' \<or> \<not> list_all stage_char name \<or> isShellSyntaxWord env name \<or> name \<in> set out then out
      else out @ [name])"

definition is_assignment :: "string \<Rightarrow> bool" where
  "is_assignment word = (case CutByte word (CHR ''='') of (name, _, ok) \<Rightarrow> ok \<and> validVirtualEnvName name)"

text \<open>The flat scan: pieces between separators outside quotation marks.\<close>

definition flush_segment :: "string \<Rightarrow> string list \<Rightarrow> string list" where
  "flush_segment b segs = (if TrimSpace b = [] then segs else segs @ [TrimSpace b])"

fun flat_segments :: "char option \<Rightarrow> bool \<Rightarrow> string \<Rightarrow> string list \<Rightarrow> string \<Rightarrow> string list" where
  "flat_segments quote escaped b segs [] = flush_segment b segs"
| "flat_segments quote escaped b segs (c # rest) =
     (if escaped then flat_segments quote False (b @ [c]) segs rest
      else if c = CHR 0x5C then flat_segments quote True (b @ [c]) segs rest
      else if quote \<noteq> None then flat_segments (if quote = Some c then None else quote) False (b @ [c]) segs rest
      else if c = CHR 0x27 \<or> c = CHR 0x22 then flat_segments (Some c) False (b @ [c]) segs rest
      else if c = CHR '';'' \<or> c = CHR ''|'' \<or> c = CHR ''&'' then
        flat_segments None False [] (flush_segment b segs) (if rest \<noteq> [] \<and> hd rest = c then tl rest else rest)
      else flat_segments None False (b @ [c]) segs rest)"

fun segment_command :: "shellEnv \<Rightarrow> string list \<Rightarrow> string list" where
  "segment_command env [] = []"
| "segment_command env (word # words) =
     (let w = Base word in
      if isShellSyntaxWord env w \<or> w = ''!'' \<or> is_assignment word then segment_command env words
      else if virtualCommandExists w \<or> virtualBuiltin w then [w] else [])"

definition collectSSHFlatStages :: "shellEnv \<Rightarrow> string \<Rightarrow> string list" where
  "collectSSHFlatStages env line = concat (map (segment_command env \<circ> virtualWords) (flat_segments None False [] [] line))"

text \<open>
  \<open>addLine\<close>: \<open>n\<close> counts the levels that are left of five; \<open>again\<close> is the function at the next level.
\<close>

definition stage_words :: "string \<Rightarrow> string list" where
  "stage_words stage = dropWhile is_assignment (virtualWords (fst (parseVirtualRedirection stage)))"

definition add_pipe_stage ::
  "shellEnv \<Rightarrow> (string \<Rightarrow> string list \<Rightarrow> string list option) \<Rightarrow> string \<Rightarrow> string list \<Rightarrow> string list option" where
  "add_pipe_stage env again stage0 out =
     (let stage = TrimSpace stage0 in
      case unwrapVirtualGroup stage of
        Some inner \<Rightarrow> again inner out
      | None \<Rightarrow>
          (case stage_words stage of
             [] \<Rightarrow> Some out
           | w # ws \<Rightarrow>
               (let cmd = Base w; out = add_stage env cmd out in
                if cmd \<in> {''sh'', ''bash'', ''dash''} \<and> 2 \<le> length ws \<and> shellExecFlag (hd ws)
                then again (Join (tl ws) '' '') out else Some out)))"

fun fold_option :: "('a \<Rightarrow> 'b \<Rightarrow> 'b option) \<Rightarrow> 'a list \<Rightarrow> 'b \<Rightarrow> 'b option" where
  "fold_option f [] b = Some b"
| "fold_option f (x # xs) b = do { b' \<leftarrow> f x b; fold_option f xs b' }"

primrec add_line :: "shellEnv \<Rightarrow> nat \<Rightarrow> string \<Rightarrow> string list \<Rightarrow> string list option" where
  "add_line env 0 line out = Some out"
| "add_line env (Suc n) line out =
     do {
       out \<leftarrow> fold_option (add_pipe_stage env (add_line env n))
                (concat (map (\<lambda>part. splitOutsideQuotes (command part) (CHR ''|'')) (splitVirtualChain (TrimSpace line)))) out;
       nested \<leftarrow> collectSSHCommandSubstitutions line;
       out \<leftarrow> fold_option (add_line env n) nested out;
       Some (fold (add_stage env) (collectSSHFlatStages env line) out)
     }"

definition collectSSHCommandStages :: "shellEnv \<Rightarrow> string \<Rightarrow> string list option" where
  "collectSSHCommandStages env line = add_line env 5 line []"

definition auxiliary :: "string \<Rightarrow> bool" where
  "auxiliary s \<longleftrightarrow>
     s \<in> set [''grep'', ''egrep'', ''fgrep'', ''wc'', ''head'', ''tail'', ''sort'', ''uniq'', ''cut'', ''tr'', ''tee'', ''xargs'', ''sh'', ''bash'', ''dash'']"

definition primarySSHCommand :: "shellEnv \<Rightarrow> string list \<Rightarrow> string \<Rightarrow> string" where
  "primarySSHCommand env stages fallback =
     (case List.find (\<lambda>s. \<not> auxiliary s \<and> \<not> isShellSyntaxWord env s) stages of
        Some s \<Rightarrow> s
      | None \<Rightarrow>
          (case List.find (\<lambda>s. \<not> isShellSyntaxWord env s) stages of
             Some s \<Rightarrow> s
           | None \<Rightarrow> (let f = Base (TrimSpace fallback) in if f = [] \<or> isShellSyntaxWord env f then [] else f)))"

definition firstStageOr :: "string list \<Rightarrow> string \<Rightarrow> string" where
  "firstStageOr stages fallback = (case stages of [] \<Rightarrow> fallback | s # _ \<Rightarrow> s)"

section \<open>The shape of a line\<close>

record sshShellShape =
  sp_and :: int
  sp_or :: int
  sp_seq :: int
  sp_pipe :: int
  sp_subst :: int
  sp_group :: int

definition no_shape :: sshShellShape where
  "no_shape = \<lparr>sp_and = 0, sp_or = 0, sp_seq = 0, sp_pipe = 0, sp_subst = 0, sp_group = 0\<rparr>"

text \<open>A separator outside parentheses.\<close>

definition shape_separator :: "char \<Rightarrow> bool \<Rightarrow> sshShellShape \<Rightarrow> sshShellShape" where
  "shape_separator c twice s =
     (if c = CHR ''&'' then (if twice then s\<lparr>sp_and := sp_and s + 1\<rparr> else s)
      else if c = CHR ''|'' then (if twice then s\<lparr>sp_or := sp_or s + 1\<rparr> else s\<lparr>sp_pipe := sp_pipe s + 1\<rparr>)
      else if c = CHR '';'' then s\<lparr>sp_seq := sp_seq s + 1\<rparr> else s)"

fun shape_loop :: "char option \<Rightarrow> bool \<Rightarrow> nat \<Rightarrow> string \<Rightarrow> sshShellShape \<Rightarrow> sshShellShape" where
  "shape_loop quote escaped depth [] s = s"
| "shape_loop quote escaped depth (c # rest) s =
     (let twice = (rest \<noteq> [] \<and> hd rest = c) in
      if escaped then shape_loop quote False depth rest s
      else if c = CHR 0x5C \<and> quote \<noteq> Some (CHR 0x27) then shape_loop quote True depth rest s
      else if quote \<noteq> None then shape_loop (if quote = Some c then None else quote) False depth rest s
      else if c = CHR 0x27 \<or> c = CHR 0x22 \<or> c = CHR 0x60 then
        shape_loop (Some c) False depth rest (if c = CHR 0x60 then s\<lparr>sp_subst := sp_subst s + 1\<rparr> else s)
      else if c = CHR ''$'' \<and> rest \<noteq> [] \<and> hd rest = CHR ''('' then
        shape_loop None False (depth + 1) (tl rest) (s\<lparr>sp_subst := sp_subst s + 1\<rparr>)
      else if c = CHR ''('' \<or> c = CHR ''{'' then shape_loop None False (depth + 1) rest (s\<lparr>sp_group := sp_group s + 1\<rparr>)
      else if c = CHR '')'' \<or> c = CHR ''}'' then shape_loop None False (depth - 1) rest s
      else if depth \<noteq> 0 then shape_loop None False depth rest s
      else shape_loop None False depth (if twice \<and> (c = CHR ''&'' \<or> c = CHR ''|'') then tl rest else rest) (shape_separator c twice s))"

definition inspectSSHShellShape :: "string \<Rightarrow> sshShellShape" where
  "inspectSSHShellShape line = shape_loop None False 0 (take 32768 line) no_shape"

section \<open>Patterns of intent\<close>

definition isRootFilesystemDiscovery :: "string \<Rightarrow> bool" where
  "isRootFilesystemDiscovery low =
     (case virtualWords (TrimSpace low) of [] \<Rightarrow> False | w # ws \<Rightarrow> Base w = ''ls'' \<and> ''/'' \<in> set ws)"

definition isMountDiscovery :: "string \<Rightarrow> bool" where
  "isMountDiscovery low = (case virtualWords (TrimSpace low) of [] \<Rightarrow> False | w # _ \<Rightarrow> Base w = ''mount'')"

definition isSSHVersionDiscovery :: "string \<Rightarrow> bool" where
  "isSSHVersionDiscovery line =
     (case virtualWords (TrimSpace line) of [w, v] \<Rightarrow> Base w = ''ssh'' \<and> (v = ''-V'' \<or> v = ''--version'') | _ \<Rightarrow> False)"

definition looksLikeObservedResourceCleanup :: "string \<Rightarrow> bool" where
  "looksLikeObservedResourceCleanup low \<longleftrightarrow>
     5 \<le> count_needles [''crontab -r'', ''ps aux'', ''readlink -f /proc/$pid/exe'', ''kill -9 $pid'', ''xmrig cpuminer minerd ccminer'',
          ''pkill -9 $proc'', ''rm -rf /tmp'', ''rm -rf /var/tmp''] low"

definition hasSSHLocalPayloadExecution :: "string \<Rightarrow> bool" where
  "hasSSHLocalPayloadExecution low \<longleftrightarrow> Contains low ''./'' \<and> contains_any [''chmod '', '' disown'', ''&''] low"

definition looksLikeCompoundPayloadExecution :: "string \<Rightarrow> bool" where
  "looksLikeCompoundPayloadExecution low \<longleftrightarrow>
     hasSSHLocalPayloadExecution low
     \<and> 3 \<le> count_needles [''crontab -r'', ''chattr '', ''rm -rf '', ''pkill '', ''killall '', ''history -c'', ''.bash_history'', ''disown''] low"

definition looksLikeRemotePayloadBootstrap :: "string \<Rightarrow> bool" where
  "looksLikeRemotePayloadBootstrap low \<longleftrightarrow>
     contains_any [''begin openssh private key'', ''identityfile'', '' -i ''] low
     \<and> (Contains low ''scp '' \<and> Contains low ''@'' \<and> Contains low '':'' \<or> contains_any [''wget '', ''curl ''] low)
     \<and> contains_any [''| sh'', ''| bash'', '' sh out_'', ''./out_'', ''chmod +x''] low
     \<and> contains_any [''rm -rf'', ''rm -f''] low"

definition looksLikeAuthorizedKeyPersistence :: "string \<Rightarrow> bool" where
  "looksLikeAuthorizedKeyPersistence low \<longleftrightarrow>
     Contains low ''authorized_keys''
     \<and> (contains_any [''> ~/.ssh/authorized_keys'', ''>~/.ssh/authorized_keys'', ''> /root/.ssh/authorized_keys'', ''>/root/.ssh/authorized_keys''] low
        \<or> Contains low ''tee '' \<and> Contains low ''authorized_keys'')
     \<and> contains_any [''ssh-rsa '', ''ssh-ed25519 '', ''ecdsa-sha2-''] low"

definition looksLikeImmutableAuthorizedKeyPersistence :: "string \<Rightarrow> bool" where
  "looksLikeImmutableAuthorizedKeyPersistence low \<longleftrightarrow>
     looksLikeAuthorizedKeyPersistence low \<and> contains_any [''chattr +ai'', ''chattr +ia'', ''chattr +i''] low"

definition looksLikeScriptBootstrap :: "string \<Rightarrow> bool" where
  "looksLikeScriptBootstrap low \<longleftrightarrow>
     contains_any [''sh clean.sh'', ''./clean.sh'', ''sh setup.sh'', ''./setup.sh''] low
     \<and> contains_any [''rm -rf clean.sh'', ''rm -f clean.sh'', ''rm -rf setup.sh'', ''rm -f setup.sh''] low"

definition looksLikeFilesystemPermissionProbe :: "string \<Rightarrow> sshShellShape \<Rightarrow> bool" where
  "looksLikeFilesystemPermissionProbe low sp \<longleftrightarrow>
     Contains low ''touch '' \<and> contains_any [''[ -f '', ''test -f ''] low \<and> (contains_any [''sudo -s'', ''sudo ''] low \<or> 2 \<le> sp_or sp)"

definition looksLikeGPUCapacityProfiling :: "string \<Rightarrow> bool" where
  "looksLikeGPUCapacityProfiling low \<longleftrightarrow>
     2 \<le> count_needles [''nvidia-smi'', ''lspci'', ''3d controller'', ''grep vga'', ''product name''] low
     \<and> contains_any ['' -c'', ''wc -l'', ''grep . -c''] low"

text \<open>The bytes of \<open>auth_ok\<close> and of \<open>success\<close>, written as escapes.\<close>

definition escape_text :: "string list \<Rightarrow> string" where
  "escape_text codes = concat (map (\<lambda>x. CHR 0x5C # CHR ''x'' # x) codes)"

definition looksLikeEncodedExecutionMarker :: "string \<Rightarrow> bool" where
  "looksLikeEncodedExecutionMarker low \<longleftrightarrow>
     contains_any [''echo -e'', ''printf''] low
     \<and> contains_any [escape_text [''61'', ''75'', ''74'', ''68'', ''5f'', ''6f'', ''6b''],
                     escape_text [''73'', ''75'', ''63'', ''63'', ''65'', ''73'', ''73'']] low"

definition looksLikeDownloadExecuteCleanup :: "string \<Rightarrow> bool" where
  "looksLikeDownloadExecuteCleanup low \<longleftrightarrow>
     contains_any [''curl '', ''wget ''] low \<and> Contains low ''chmod +x'' \<and> contains_any [''./'', '' sh '', '' bash ''] low
     \<and> contains_any [''rm -rf'', ''rm -f''] low"

definition looksLikeArchitectureAwareDownloadExecute :: "string \<Rightarrow> sshShellShape \<Rightarrow> bool" where
  "looksLikeArchitectureAwareDownloadExecute low sp \<longleftrightarrow>
     contains_any [''curl '', ''wget ''] low
     \<and> contains_any [''uname -m'', ''$(uname'', ''${arch'', ''$arch'', '' aarch64'', ''x86_64''] low
     \<and> Contains low ''chmod +x'' \<and> contains_any [''./'', ''sh ''] low \<and> contains_any [''rm '', ''rm -''] low
     \<and> 2 \<le> sp_and sp + sp_or sp + sp_seq sp"

definition looksLikeCompoundEnvironmentFingerprint :: "string \<Rightarrow> sshShellShape \<Rightarrow> bool" where
  "looksLikeCompoundEnvironmentFingerprint low sp \<longleftrightarrow>
     4 \<le> count_needles [''uname'', ''/proc/uptime'', ''nproc'', ''/proc/cpuinfo'', ''lscpu'', ''lspci'', ''nvidia'', ''/etc/os-release'', ''last '',
          ''shell_behavior'', ''xxxxxx''] low
     \<and> (2 \<le> sp_subst sp \<or> 2 \<le> sp_seq sp \<or> 2 \<le> sp_or sp)"

definition looksLikePrivilegeFallbackChain :: "string \<Rightarrow> sshShellShape \<Rightarrow> bool" where
  "looksLikePrivilegeFallbackChain low sp \<longleftrightarrow>
     Contains low ''sudo'' \<and> (2 \<le> sp_or sp \<or> contains_any [''|| sh -c'', ''|| nproc'', ''|| /usr/bin/''] low)"

definition looksLikeSSHAntiForensics :: "shellEnv \<Rightarrow> string \<Rightarrow> bool" where
  "looksLikeSSHAntiForensics env line =
     (let low = lower env (TrimSpace line) in
      low \<noteq> [] \<and> (Contains low ''history -c''
        \<or> 2 \<le> count_needles [''history -c'', ''.bash_history'', ''unset histfile'', ''histfile=/dev/null'', ''shred '', ''truncate '',
               ''>/dev/null 2>&1''] low))"

text \<open>The first word that \<open>grep\<close> is given, over the matches of the compiled expression.\<close>

definition sshProcessProbeTarget :: "(string \<Rightarrow> string list) \<Rightarrow> shellEnv \<Rightarrow> string \<Rightarrow> string" where
  "sshProcessProbeTarget grep_targets env line =
     (if \<not> Contains (lower env line) ''grep'' then []
      else (case List.find (\<lambda>t. t \<notin> set [[], ''grep'', ''-v'', ''root'']) (map (trim_chars quotes) (grep_targets line)) of
              Some t \<Rightarrow> t | None \<Rightarrow> []))"

section \<open>The analysis\<close>

record sshCommandAnalysis =
  an_primary :: string
  an_family :: string
  an_intent :: string
  an_target :: string
  an_message :: string
  an_fingerprint :: string
  an_depth :: int
  an_risk :: int
  an_persona :: string

definition analysis :: "string \<Rightarrow> string \<Rightarrow> string \<Rightarrow> string \<Rightarrow> string \<Rightarrow> int \<Rightarrow> int \<Rightarrow> string \<Rightarrow> sshCommandAnalysis" where
  "analysis primary family intent message fp depth risk persona =
     \<lparr>an_primary = primary, an_family = family, an_intent = intent, an_target = [], an_message = message,
      an_fingerprint = fp, an_depth = depth, an_risk = risk, an_persona = persona\<rparr>"

text \<open>The switch of \<open>analyzeSSHCommand\<close>, in three parts; \<open>low\<close> is the line in small letters.\<close>

definition analyze_payload ::
  "shellEnv \<Rightarrow> string list \<Rightarrow> sshShellShape \<Rightarrow> string \<Rightarrow> string \<Rightarrow> virtualSSHResult \<Rightarrow> sshCommandAnalysis option" where
  "analyze_payload env stages sp line low r =
     (let primary = primarySSHCommand env stages; staged = (vr_path r \<noteq> []); run = (vr_stage r = ''executed'' \<and> staged) in
      if Contains low ''systemctl --user'' \<and> Contains low ''.service''
         \<and> contains_any ['' enable'', '' start'', '' restart'', '' stop'', '' disable'', ''daemon-reload''] low then
        Some (analysis ''systemctl'' ''persistence'' ''user-systemd-persistence''
                (if run then ''user systemd service enabled and started a previously staged payload'' else ''user systemd service modification'')
                ''ssh:user-systemd-persistence'' (if run then 7 else 6) (if run then 100 else 98) ''persistence'')
      else if looksLikeArchitectureAwareDownloadExecute low sp then
        Some (analysis (primary ''curl'') ''execution'' ''architecture-aware-download-execute''
                ''architecture-aware payload download, execution and cleanup'' ''ssh:download-execute'' 7 100 ''payload-execution'')
      else if looksLikeDownloadExecuteCleanup low then
        Some (analysis (primary ''curl'') ''execution'' ''download-execute-cleanup''
                ''payload download, execution and cleanup with transport fallback'' ''ssh:download-execute'' 7 100 ''payload-execution'')
      else if looksLikeObservedResourceCleanup low \<and> hasSSHLocalPayloadExecution low then
        Some (analysis (primary ''crontab'') ''execution'' ''resource-hijack-payload-execution''
                ''competitor cleanup followed by local payload execution'' ''ssh:resource-hijack-execution'' 7 100 ''payload-execution'')
      else if looksLikeCompoundPayloadExecution low then
        Some (analysis (primary ''crontab'') ''execution'' ''compound-payload-execution''
                ''local payload execution with cleanup and anti-forensics'' ''ssh:compound-payload-execution'' 7 100 ''payload-execution'')
      else if run then
        Some (analysis (Base (vr_path r)) ''execution'' ''staged-payload-execution''
                ''previously staged payload executed at exact virtual path'' [] 7 100 ''payload-execution'')
      else if (vr_stage r = ''completed'' \<or> vr_stage r = ''retry'') \<and> staged then
        Some (analysis (firstStageOr stages (vr_name r)) ''execution'' ''payload-staging'' [] [] 0 0 [])
      else if Contains (lower env (vr_message r)) ''payload permission/ownership change'' then
        Some (analysis (primary ''chmod'') ''execution'' ''payload-permission-change'' ''payload permission/ownership change'' [] 6 98
                ''payload-preparation'')
      else if isSSHVersionDiscovery line then
        Some (analysis ''ssh'' ''recon'' ''ssh-client-version-discovery'' ''SSH client version discovery'' ''ssh:ssh-client-discovery'' 3 82
                ''tool-discovery'')
      else if isMountDiscovery low then
        Some (analysis ''mount'' ''recon'' ''filesystem-mount-discovery'' ''filesystem mount discovery'' ''ssh:filesystem-discovery'' 4 87
                ''system-recon'')
      else if looksLikeImmutableAuthorizedKeyPersistence low then
        Some (analysis (primary ''chattr'') ''persistence'' ''immutable-authorized-key-persistence''
                ''SSH authorized key installed and protected with immutable attributes'' ''ssh:immutable-authorized-key'' 7 100 ''persistence'')
      else if looksLikeAuthorizedKeyPersistence low then
        Some (analysis (primary ''echo'') ''persistence'' ''authorized-key-persistence'' ''SSH authorized key persistence installed''
                ''ssh:authorized-key-persistence'' 7 100 ''persistence'')
      else if looksLikeScriptBootstrap low then
        Some (analysis (primary ''sh'') ''execution'' ''script-bootstrap-execution''
                ''staged helper scripts executed and removed during bootstrap'' ''ssh:script-dropper-execution'' 6 98 ''payload-execution'')
      else if looksLikeRemotePayloadBootstrap low then
        Some (analysis ''scp'' ''execution'' ''remote-payload-bootstrap''
                ''credential-assisted remote payload fetch and execution with cleanup'' ''ssh:remote-payload-bootstrap'' 7 100
                ''payload-execution'')
      else None)"

definition analyze_discovery ::
  "(string \<Rightarrow> string list) \<Rightarrow> shellEnv \<Rightarrow> string list \<Rightarrow> sshShellShape \<Rightarrow> string \<Rightarrow> string \<Rightarrow> virtualSSHResult \<Rightarrow> sshCommandAnalysis option" where
  "analyze_discovery grep_targets env stages sp line low r =
     (let primary = primarySSHCommand env stages; fallback = looksLikePrivilegeFallbackChain low sp in
      if looksLikeCompoundEnvironmentFingerprint low sp then
        Some (analysis (primary ''uname'') ''recon'' ''environment-fingerprint-discovery''
                ''compound operating-system, hardware and shell-behavior fingerprinting'' ''ssh:environment-fingerprinting'' 6 96 ''system-recon'')
      else if looksLikeFilesystemPermissionProbe low sp then
        Some (analysis (primary ''touch'') ''filesystem'' ''filesystem-permission-probe''
                ''filesystem write capability probe through privilege/direct fallbacks'' ''ssh:filesystem-permission-probe'' 6 94
                ''privilege-escalation'')
      else if looksLikeGPUCapacityProfiling low then
        Some (analysis (primary ''nvidia-smi'') ''recon'' ''gpu-capacity-profiling'' ''GPU/accelerator capacity and model profiling''
                ''ssh:gpu-capacity-profiling'' 5 92 ''resource-discovery'')
      else if looksLikeObservedResourceCleanup low then
        Some (analysis (primary ''crontab'') ''execution'' ''competitor-resource-cleanup'' ''virtual competitor/resource cleanup''
                ''ssh:resource-hijack-preparation'' 7 99 ''resource-hijack-preparation'')
      else if Contains low ''/etc/os-release'' then
        Some (analysis (firstStageOr stages ''cat'') ''recon'' ''os-release-discovery'' ''operating system release discovery''
                ''ssh:os-discovery'' 4 86 ''system-recon'')
      else if isRootFilesystemDiscovery low then
        Some (analysis ''ls'' ''filesystem'' ''root-filesystem-discovery'' ''root filesystem discovery'' ''ssh:filesystem-discovery'' 4 86
                ''file-discovery'')
      else if Contains low ''/proc/cpuinfo'' \<and> contains_any [''processor'', ''model name''] low then
        Some (analysis (firstStageOr stages ''cat'') ''recon''
                (if fallback then ''cpu-topology-discovery-with-privilege-fallback'' else ''cpu-topology-discovery'')
                (if fallback then ''CPU topology discovery through sudo/direct fallback chain'' else ''CPU topology discovery'')
                ''ssh:hardware-recon'' (if fallback then 6 else 4) (if fallback then 96 else 88) ''system-recon'')
      else if Contains low ''systemctl'' \<and> contains_any [''list-units'', '' status'', '' show'', ''is-active'', ''is-enabled''] low then
        Some (analysis ''systemctl'' ''recon'' ''service-discovery'' ''running service discovery'' ''ssh:service-discovery'' 4 89 ''system-recon'')
      else if Contains low ''time dd '' \<or> Contains low ''dd '' \<and> Contains low ''if=/dev/zero'' then
        Some (analysis ''dd'' ''recon'' ''storage-performance-profiling'' ''storage/filesystem throughput profiling''
                ''ssh:storage-performance-profiling'' 5 92 ''resource-discovery'')
      else if Contains low ''ps '' \<or> HasPrefix low (''ps'' @ [CHR 0x09]) then
        (let target = sshProcessProbeTarget grep_targets env line in
         Some (if target \<noteq> [] then
                 (analysis ''ps'' ''recon'' ''payload-process-discovery'' ''payload/process presence discovery'' ''ssh:payload-presence-check'' 4 91
                    ''system-recon'')\<lparr>an_target := target\<rparr>
               else if contains_any [''pcpu'', ''%cpu'', ''--sort=-pcpu'', ''--sort=-%cpu''] low then
                 analysis ''ps'' ''recon'' ''high-cpu-process-discovery'' ''high CPU process discovery'' ''ssh:resource-recon'' 4 90 ''system-recon''
               else analysis ''ps'' ''recon'' ''process-discovery'' ''process discovery'' ''ssh:process-discovery'' 4 88 ''system-recon''))
      else None)"

definition analyze_rest ::
  "shellEnv \<Rightarrow> string list \<Rightarrow> sshShellShape \<Rightarrow> string \<Rightarrow> virtualSSHResult \<Rightarrow> sshCommandAnalysis option" where
  "analyze_rest env stages sp low r =
     (let primary = primarySSHCommand env stages; fallback = looksLikePrivilegeFallbackChain low sp; own = primary (vr_name r) in
      if Contains low ''crontab'' then
        Some (if Contains low ''crontab -r'' \<and> \<not> contains_any [''@reboot'', ''| crontab'', ''crontab - ''] low then
                analysis ''crontab'' ''persistence'' ''scheduled-task-removal'' ''scheduled task removal'' ''ssh:scheduled-task-removal'' 5 93 ''persistence''
              else if contains_any [''@reboot'', ''| crontab''] low \<or> Contains low ''crontab -'' \<and> \<not> Contains low ''crontab -l'' then
                analysis ''crontab'' ''persistence'' ''scheduled-task-modification'' ''scheduled task discovery or modification''
                  ''ssh:cron-persistence'' 6 97 ''persistence''
              else analysis ''crontab'' ''persistence'' ''scheduled-task-discovery'' ''scheduled task discovery'' ''ssh:scheduled-task-discovery'' 5 92
                     ''persistence'')
      else if contains_any [''> /tmp/d.log'', ''>/tmp/d.log''] low then
        Some (analysis (primary ''echo'') ''filesystem'' ''execution-marker-write'' ''execution/campaign marker written'' ''ssh:execution-marker'' 5 91
                (vr_persona r))
      else if Contains low ''nvidia-smi'' then
        Some (analysis ''nvidia-smi'' ''recon'' ''gpu-capacity-profiling'' ''GPU/accelerator capacity and model profiling''
                ''ssh:gpu-capacity-profiling'' 5 92 ''resource-discovery'')
      else if contains_any [''nproc'', ''lscpu'', ''getconf _nprocessors''] low then
        Some (analysis own ''recon'' (if fallback then ''cpu-resource-discovery-with-privilege-fallback'' else ''cpu-resource-discovery'')
                (if fallback then ''CPU resource discovery through sudo/direct fallback chain'' else ''CPU resource discovery'')
                ''ssh:hardware-recon'' (if fallback then 6 else 4) (if fallback then 96 else 87) ''system-recon'')
      else if looksLikeEncodedExecutionMarker low then
        Some (analysis (primary ''echo'') ''execution'' ''encoded-execution-marker'' ''encoded execution/success marker emitted''
                ''ssh:execution-marker'' 5 91 ''file-manipulation'')
      else if Contains low ''uname'' then
        (let named = (\<lambda>intent message. Some (analysis ''uname'' ''recon'' intent message [] 3 84 ''system-recon'')) in
         if contains_any [''uname -a'', ''uname -s -v''] low \<or> Contains low ''uname -m'' \<and> contains_any ['' -n'', '' -r'', '' -v''] low
         then named ''system-identity-discovery'' ''system identity discovery''
         else if Contains low ''uname -m'' then named ''architecture-discovery'' ''architecture discovery''
         else if Contains low ''uname -n'' then named ''hostname-discovery'' ''hostname discovery''
         else if Contains low ''uname -r'' then named ''kernel-release-discovery'' ''kernel release discovery''
         else named ''system-identity-discovery'' ''system identity discovery'')
      else if Contains low ''uptime'' then
        Some (analysis ''uptime'' ''recon'' ''uptime-discovery'' ''system uptime discovery'' [] 3 84 ''system-recon'')
      else if contains_any [''ip addr'', ''ip route'', ''ifconfig'', ''netstat'', ''ss -''] low then
        Some (analysis own ''network'' ''network-discovery'' ''network configuration/service discovery'' ''ssh:network-recon'' 4 90 ''network-recon'')
      else None)"

definition analyze_with ::
  "(string \<Rightarrow> string list) \<Rightarrow> shellEnv \<Rightarrow> string list \<Rightarrow> string \<Rightarrow> virtualSSHResult \<Rightarrow> sshCommandAnalysis" where
  "analyze_with grep_targets env stages line r =
     (let low = lower env (TrimSpace line); sp = inspectSSHShellShape line in
      case first_some [analyze_payload env stages sp line low r, analyze_discovery grep_targets env stages sp line low r,
                       analyze_rest env stages sp low r] of
        Some a \<Rightarrow> a
      | None \<Rightarrow> analysis (primarySSHCommand env stages (vr_name r)) [] [] [] [] 0 0 [])"

definition analyzeSSHCommand ::
  "(string \<Rightarrow> string list) \<Rightarrow> shellEnv \<Rightarrow> string \<Rightarrow> virtualSSHResult \<Rightarrow> (string list \<times> sshCommandAnalysis) option" where
  "analyzeSSHCommand grep_targets env line r =
     do { stages \<leftarrow> collectSSHCommandStages env line; Some (stages, analyze_with grep_targets env stages line r) }"

definition sshAnalysisOwnsReconPersona :: "string \<Rightarrow> bool" where
  "sshAnalysisOwnsReconPersona intent \<longleftrightarrow>
     intent \<in> set [''system-identity-discovery'', ''architecture-discovery'', ''hostname-discovery'', ''kernel-release-discovery'',
       ''uptime-discovery'', ''cpu-topology-discovery'', ''cpu-resource-discovery'', ''cpu-topology-discovery-with-privilege-fallback'',
       ''cpu-resource-discovery-with-privilege-fallback'', ''environment-fingerprint-discovery'', ''filesystem-mount-discovery'',
       ''os-release-discovery'', ''root-filesystem-discovery'']"

definition applySSHCommandAnalysis :: "sshCommandAnalysis \<Rightarrow> virtualSSHResult \<Rightarrow> virtualSSHResult" where
  "applySSHCommandAnalysis a r =
     (let keep = (\<lambda>new old :: string. if new = [] then old else new); risk = max (vr_risk r) (an_risk a) in
      r\<lparr>vr_name := keep (an_primary a) (vr_name r), vr_family := keep (an_family a) (vr_family r),
        vr_message := keep (an_message a) (vr_message r), vr_depth := max (vr_depth r) (an_depth a), vr_risk := risk,
        vr_persona := (if an_persona a \<noteq> [] \<and> (risk \<le> an_risk a \<or> sshAnalysisOwnsReconPersona (an_intent a))
                       then an_persona a else vr_persona r)\<rparr>)"

end
