(* ===== verification/ShellAdapt.thy ===== *)
theory ShellAdapt
  imports ShellBuiltins SshAnalysis GoTime
begin

text \<open>
  How the virtual host changes with what the visitor does
  (\<open>internal/server/trap_ssh_adaptive.go\<close>, \<open>trap_ssh_reality.go\<close>, \<open>trap_ssh_process.go\<close>,
  \<open>trap_ssh_resource_reality.go\<close>): the lures put out for his interests, the larger host for one who checks whether it
  is real, the files a cleanup script expects to find and what it removes. Where the code ranges over a
  map, the model takes the order of the table.
\<close>

definition canary :: "shell \<Rightarrow> string \<Rightarrow> string" where
  "canary s label = lookup_or [] (vw_canaries s) label"

section \<open>Lures\<close>

definition seedCredentialLures :: "shellEnv \<Rightarrow> shell \<Rightarrow> shell" where
  "seedCredentialLures env s =
     fold (\<lambda>f. f)
       [put_dir ''/etc/backup-agent'',
        put_file env (''/etc/backup-agent/credentials'', ''user=svc-backup'' @ nl @ ''token='' @ canary s ''backup'' @ nl
            @ ''endpoint=ssh://backup-01'' @ nl),
        put_dir ''/home/admin/.aws'',
        put_file env (''/home/admin/.aws/credentials'', ''[production]'' @ nl @ ''aws_access_key_id=AKIA7Q2J5M4N8P3R9T1X'' @ nl
            @ ''aws_secret_access_key='' @ canary s ''internal-api'' @ nl @ ''region=eu-central-1'' @ nl),
        put_file env (''/opt/app/current/.npmrc'', ''@platform:registry=https://registry.internal/'' @ nl
            @ ''//registry.internal/:_authToken='' @ canary s ''registry'' @ nl)] s"

definition seedContainerLures :: "shellEnv \<Rightarrow> shell \<Rightarrow> shell" where
  "seedContainerLures env s =
     fold (\<lambda>f. f)
       [put_dir ''/home/admin/.kube'',
        put_file env (''/home/admin/.kube/config'', ''apiVersion: v1'' @ nl @ ''clusters:'' @ nl @ ''- cluster:'' @ nl
            @ ''    server: https://ops-gw-01:6443'' @ nl @ ''  name: prod'' @ nl @ ''contexts:'' @ nl @ ''- context:'' @ nl
            @ ''    cluster: prod'' @ nl @ ''    namespace: platform'' @ nl @ ''    user: deployer'' @ nl @ ''  name: prod'' @ nl
            @ ''current-context: prod'' @ nl @ ''users:'' @ nl @ ''- name: deployer'' @ nl @ ''  user:'' @ nl @ ''    token: ''
            @ canary s ''internal-api'' @ nl),
        put_dir ''/opt/app/current/k8s'',
        put_file env (''/opt/app/current/k8s/deployment.yaml'', ''apiVersion: apps/v1'' @ nl @ ''kind: Deployment'' @ nl
            @ ''metadata:'' @ nl @ ''  name: platform-web'' @ nl @ ''spec:'' @ nl @ ''  template:'' @ nl @ ''    spec:'' @ nl
            @ ''      imagePullSecrets:'' @ nl @ ''      - name: registry-prod'' @ nl @ ''      containers:'' @ nl
            @ ''      - name: web'' @ nl @ ''        image: registry.internal/platform/web:2026.08'' @ nl)] s"

definition seedNetworkLures :: "shellEnv \<Rightarrow> shell \<Rightarrow> shell" where
  "seedNetworkLures env s =
     fold (\<lambda>f. f)
       [put_dir ''/etc/ansible'',
        put_file env (''/etc/ansible/hosts'', Inventory),
        put_file env (''/opt/app/current/network-notes.txt'', ''prod VLAN: 10.10.30.0/24'' @ nl @ ''backup jump: svc-backup@backup-01''
            @ nl @ ''operations gateway: ops-gw-01'' @ nl @ ''registry: registry.internal'' @ nl @ ''git: git.prod.internal'' @ nl)] s"

definition seedPersistenceLures :: "shellEnv \<Rightarrow> shell \<Rightarrow> shell" where
  "seedPersistenceLures env s =
     fold (\<lambda>f. f)
       [put_dir ''/var/spool'',
        put_dir ''/var/spool/cron'',
        put_dir ''/var/spool/cron/crontabs'',
        put_file env (''/var/spool/cron/crontabs/root'', ''17 * * * * /usr/local/bin/health-sync --quiet'' @ nl
            @ ''0 2 * * * /usr/local/bin/backupctl sync --profile legacy'' @ nl),
        put_file env (''/etc/systemd/system/platform-maintenance.service'', ''[Unit]'' @ nl
            @ ''Description=Platform Maintenance Worker'' @ nl @ ''After=network-online.target'' @ nl @ nl @ ''[Service]'' @ nl
            @ ''Type=simple'' @ nl @ ''User=root'' @ nl @ ''EnvironmentFile=/opt/app/.env'' @ nl
            @ ''ExecStart=/usr/local/bin/platform-maintenance --registry registry.internal'' @ nl @ ''Restart=on-failure'' @ nl)] s"

definition seedExecutionLures :: "shellEnv \<Rightarrow> shell \<Rightarrow> shell" where
  "seedExecutionLures env s =
     fold (\<lambda>f. f)
       [put_dir ''/opt/app/current/scripts'',
        put_file env (''/opt/app/current/scripts/deploy-worker.sh'', ''#!/bin/sh'' @ nl @ ''set -e'' @ nl
            @ ''REGISTRY=${REGISTRY_HOST:-registry.internal}'' @ nl @ ''echo logging into $REGISTRY'' @ nl
            @ ''echo \"$REGISTRY_TOKEN\" | docker login $REGISTRY --username deploy --password-stdin'' @ nl
            @ ''docker pull $REGISTRY/platform/worker:2026.08'' @ nl)] s"

definition seedOperatorLures :: "shellEnv \<Rightarrow> shell \<Rightarrow> shell" where
  "seedOperatorLures env s =
     fold (\<lambda>f. f)
       [put_dir ''/opt/app/current/ops'',
        put_file env (''/opt/app/current/ops/README.md'', ''Operations notes'' @ nl @ nl
            @ ''- production deploys normally pass through ops-gw-01'' @ nl
            @ ''- legacy backup migration still depends on svc-backup@backup-01'' @ nl
            @ ''- registry.internal is required for worker rollouts'' @ nl
            @ ''- old archive credentials are scheduled for rotation after migration validation'' @ nl),
        put_dir ''/home/admin/.ssh'',
        put_file env (''/home/admin/.ssh/config'', ''Host ops-gw-01'' @ nl @ ''    HostName 10.10.30.30'' @ nl @ ''    User deployer''
            @ nl @ nl @ ''Host backup-01'' @ nl @ ''    HostName 10.10.30.12'' @ nl @ ''    User svc-backup'' @ nl),
        put_dir ''/var/log/backup-agent'',
        put_file env (''/var/log/backup-agent/last-run.log'', RFC3339Nano (second * go_div (se_clock env - 38 * minute) second)
            @ '' profile=legacy target=backup-01 result=warning message=remote manifest differs; retry queued'' @ nl)] s"

definition put_missing :: "shellEnv \<Rightarrow> string \<Rightarrow> string \<Rightarrow> shell \<Rightarrow> shell" where
  "put_missing env content f s = (if has_key (files (vw_fs s)) f then s else put_file env (f, content) s)"

definition seedMinerCleanupLures :: "shellEnv \<Rightarrow> shell \<Rightarrow> shell" where
  "seedMinerCleanupLures env s =
     fold (put_missing env ([CHR 0x7F] @ ''ELF'' @ [CHR 0x02, CHR 0x01, CHR 0x01] @ ''legacy-worker'' @ nl))
       [''/dev/shm/.x'', ''/dev/shm/rete.lock'', ''/tmp/.diicot'', ''/var/tmp/xmrig'', ''/var/tmp/.black'',
           ''/var/tmp/Documents/.diicot'',
        ''/var/tmp/.update-logs/History'', ''/var/tmp/.update-logs/Update'']
       (put_dir ''/var/tmp/.update-logs'' (put_dir ''/var/tmp/Documents'' s))"

definition looksLikeMinerCleanupSequence :: "string \<Rightarrow> bool" where
  "looksLikeMinerCleanupSequence low \<longleftrightarrow>
     3 \<le> count_needles [''pkill xmrig'', ''killall xmrig'', ''pkill cnrig'', ''history -c'', ''chattr -iae'', ''/dev/shm/'',
         ''/var/tmp/'', ''crontab -r''] low"

definition worker_binary :: string where
  "worker_binary = [CHR 0x7F] @ ''ELF'' @ [CHR 0x02, CHR 0x01, CHR 0x01, CHR 0x00, CHR 0x00, CHR 0x00, CHR 0x00, CHR 0x00, CHR 0x00]
      @ ''GLIBC_2.34'' @ [CHR 0x00] @ ''worker'' @ nl"

section \<open>Interests\<close>

definition bump :: "string \<Rightarrow> int \<Rightarrow> shell \<Rightarrow> shell" where
  "bump k n s = s\<lparr>vw_interests := AList.update k (lookup_or 0 (vw_interests s) k + n) (vw_interests s)\<rparr>"

definition upon :: "bool \<Rightarrow> (shell \<Rightarrow> shell) \<Rightarrow> shell \<Rightarrow> shell" where
  "upon c f s = (if c then f s else s)"

definition count_interests :: "shellEnv \<Rightarrow> string \<Rightarrow> string \<Rightarrow> shell \<Rightarrow> shell" where
  "count_interests env family low s =
     (let key = TrimSpace (lower env family) in
      fold (\<lambda>f. f)
        [bump (if key = [] then ''other'' else key) 1,
         upon (contains_any [''kube'', ''docker'', ''container''] low) (bump ''containers'' 1),
         upon (contains_any [''password'', ''token'', ''.env'', ''credential''] low) (bump ''credentials'' 1),
         upon (contains_any [''ssh '', ''ping '', ''nmap'', ''netstat'', ''ss ''] low) (bump ''network'' 1)] s)"

definition interest :: "shell \<Rightarrow> string \<Rightarrow> int" where
  "interest s k = lookup_or 0 (vw_interests s) k"

definition adaptToBehavior :: "shellEnv \<Rightarrow> string \<Rightarrow> string \<Rightarrow> shell \<Rightarrow> shell" where
  "adaptToBehavior env family line s0 =
     (let low = lower env line; s = count_interests env family low s0; i = interest s in
      fold (\<lambda>f. f)
        [upon (2 \<le> i ''credentials'') (seedCredentialLures env),
         upon (2 \<le> i ''containers'') (seedContainerLures env),
         upon (2 \<le> i ''network'' \<or> 1 \<le> i ''lateral'') (seedNetworkLures env),
         upon (1 \<le> i ''persistence'' \<or> contains_any [''crontab'', ''systemctl''] low) (seedPersistenceLures env),
         upon (2 \<le> i ''execution'' \<or> contains_any [''| bash'', ''| sh''] low) (seedExecutionLures env),
         upon (5 \<le> i ''credentials'' + i ''network'' + i ''containers'' + i ''execution'') (seedOperatorLures env),
         upon (looksLikeMinerCleanupSequence low) (bump ''persistence'' 2 \<circ> bump ''execution'' 2 \<circ> seedMinerCleanupLures env)] s)"

section \<open>Checks for a real host\<close>

definition deep_dirs :: "string list" where
  "deep_dirs =
     [''/dev'', ''/dev/pts'', ''/run'', ''/run/sshd'', ''/run/systemd'', ''/sys'', ''/sys/class'', ''/sys/class/dmi'',
         ''/sys/class/dmi/id'', ''/sys/devices'', ''/sys/fs'', ''/sys/fs/cgroup'', ''/lib'', ''/lib64'', ''/lib/x86_64-linux-gnu'',
         ''/usr/lib'', ''/usr/lib/systemd'', ''/usr/lib/systemd/system'', ''/proc/581'', ''/proc/612'', ''/proc/844'', ''/proc/901'',
         ''/proc/932'', ''/proc/1021'', ''/proc/1102'', ''/proc/1842'', ''/proc/driver'', ''/proc/driver/nvidia'',
         ''/proc/driver/nvidia/gpus'', ''/proc/driver/nvidia/gpus/0000:00:05.0'', ''/var/lib/dpkg'', ''/var/lib/dpkg/info'']"

definition deep_files :: "(string \<times> string) list" where
  "deep_files =
     [(''/etc/mtab'', ''proc /proc proc rw,nosuid,nodev,noexec,relatime 0 0'' @ nl
         @ ''sysfs /sys sysfs rw,nosuid,nodev,noexec,relatime 0 0'' @ nl @ ''/dev/vda2 / ext4 rw,relatime,errors=remount-ro 0 0'' @ nl
         @ ''/dev/vdb1 /srv/archive ext4 rw,nosuid,nodev,relatime 0 0'' @ nl),
      (''/sys/class/dmi/id/sys_vendor'', ''QEMU'' @ nl),
      (''/sys/class/dmi/id/product_name'', ''Standard PC (Q35 + ICH9, 2009)'' @ nl),
      (''/sys/class/dmi/id/product_version'', ''pc-q35-8.2'' @ nl),
      (''/sys/class/dmi/id/board_vendor'', ''Red Hat'' @ nl),
      (''/sys/class/dmi/id/bios_vendor'', ''SeaBIOS'' @ nl),
      (''/sys/class/dmi/id/bios_version'', ''1.16.3-debian-1.16.3-2'' @ nl),
      (''/proc/1/cmdline'', [CHR 0x00] @ ''/sbin/init'' @ [CHR 0x00] @ ''splash'' @ [CHR 0x00]),
      (''/proc/612/cmdline'', ''/usr/sbin/sshd'' @ [CHR 0x00] @ ''-D'' @ [CHR 0x00]),
      (''/proc/844/cmdline'', ''/opt/app/current/web'' @ [CHR 0x00] @ ''--config'' @ [CHR 0x00] @ ''/opt/app/current/config.yaml''
          @ [CHR 0x00]),
      (''/proc/901/cmdline'', ''postgres'' @ [CHR 0x00] @ ''-D'' @ [CHR 0x00] @ ''/var/lib/postgresql/data'' @ [CHR 0x00]),
      (''/proc/932/cmdline'', ''redis-server'' @ [CHR 0x00] @ ''10.10.30.32:6379'' @ [CHR 0x00]),
      (''/proc/1021/cmdline'', ''/usr/bin/dockerd'' @ [CHR 0x00] @ ''-H'' @ [CHR 0x00] @ ''fd://'' @ [CHR 0x00]),
      (''/proc/1102/cmdline'', ''/usr/bin/docker-proxy'' @ [CHR 0x00] @ ''-proto'' @ [CHR 0x00] @ ''tcp'' @ [CHR 0x00] @ ''-host-ip''
          @ [CHR 0x00] @ ''127.0.0.1'' @ [CHR 0x00] @ ''-host-port'' @ [CHR 0x00] @ ''5432'' @ [CHR 0x00]),
      (''/proc/1842/cmdline'', ''/usr/local/bin/backup-agent'' @ [CHR 0x00] @ ''--profile'' @ [CHR 0x00] @ ''legacy'' @ [CHR 0x00]),
      (''/proc/driver/nvidia/version'', ''NVRM version: NVIDIA UNIX x86_64 Kernel Module  550.120  Thu Jul 10 20:31:18 UTC 2026'' @ nl
          @ ''GCC version:  gcc version 13.3.0 (Ubuntu 13.3.0-6ubuntu2~24.04)'' @ nl),
      (''/proc/driver/nvidia/gpus/0000:00:05.0/information'', ''Model:           Tesla T4'' @ nl @ ''IRQ:             16'' @ nl
          @ ''GPU UUID:        GPU-7c2d1e4f-91a6-4b72-a3d5-18e249cc7a31'' @ nl @ ''Video BIOS:      90.04.96.00.01'' @ nl
          @ ''Bus Type:        PCIe'' @ nl @ ''DMA Size:        47 bits'' @ nl @ ''DMA Mask:        0x7fffffffffff'' @ nl
          @ ''Bus Location:    0000:00:05.0'' @ nl),
      (''/proc/1/cgroup'', ''0::/init.scope'' @ nl),
      (''/proc/612/cgroup'', ''0::/system.slice/ssh.service'' @ nl),
      (''/proc/844/cgroup'', ''0::/system.slice/platform-web.service'' @ nl),
      (''/proc/1021/cgroup'', ''0::/system.slice/docker.service'' @ nl),
      (''/proc/1842/cgroup'', ''0::/system.slice/backup-agent.service'' @ nl)]"

text \<open>Written to the maps themselves: the limits of \<open>setVirtualFile\<close> and \<open>setVirtualDir\<close> do not apply.\<close>

definition deep_file :: "gotime \<Rightarrow> string \<times> string \<Rightarrow> world \<Rightarrow> world" where
  "deep_file now p w =
     (if has_key (files w) (fst p) then w
      else w\<lparr>files := AList.update (fst p) (snd p) (files w),
             fileMeta := AList.update (fst p)
               \<lparr>m_size = int (length (snd p)), m_mtime = now - 48 * hour, m_kind = ''text''\<rparr> (fileMeta w)\<rparr>)"

definition deep_dir :: "string \<Rightarrow> world \<Rightarrow> world" where
  "deep_dir d w = w\<lparr>dirs := AList.update d True (dirs w)\<rparr>"

definition seedDeepReality :: "shellEnv \<Rightarrow> shell \<Rightarrow> shell" where
  "seedDeepReality env s = on_fs (fold (deep_file (se_clock env)) deep_files \<circ> fold deep_dir deep_dirs) s"

definition environmentFingerprintCollectorScore :: "string \<Rightarrow> int" where
  "environmentFingerprintCollectorScore low =
     int (length (List.filter (\<lambda>group. contains_any group low)
       [[''uname -s'', ''/bin/uname'', ''/usr/bin/uname'', ''busybox uname''],
        [''/proc/uptime'', '' uptime''],
        [''nproc'', ''/proc/cpuinfo''],
        [''lscpu'', ''model name'', ''/proc/device-tree/model''],
        [''lspci'', ''grep -i vga'', ''grep -i nvidia''],
        [''last 2>'', ''last_output=''],
        [''===shell_behavior==='', ''path_err='', ''cmd_err='', ''./xxxxxx'']]))"

definition reality_needles :: "string list" where
  "reality_needles =
     [''/proc/1/cgroup'', ''/proc/1/status'', ''/proc/1/cmdline'', ''/proc/self/status'',
      ''/sys/class/dmi/id/'', ''systemd-detect-virt'', ''virt-what'', ''dmidecode'', ''cat /bin/'', ''file /bin/'',
      ''stat /bin/'', ''ldd /bin/'', ''readelf '', ''ssh_connection'', ''ssh_client'', ''ssh_tty'', ''stty'', '' tty'',
      ''/proc/version'', ''/proc/cpuinfo'', ''/proc/mounts'', ''/etc/mtab'']"

definition observeRealityProbe :: "shellEnv \<Rightarrow> string \<Rightarrow> shell \<Rightarrow> shell" where
  "observeRealityProbe env line s0 =
     (let low = lower env line;
          score = count_needles reality_needles low;
          collector = environmentFingerprintCollectorScore low;
          s = s0\<lparr>vw_probe := vw_probe s0 + score + collector\<rparr>
      in if score = 0 \<and> collector = 0 then s0
         else upon (5 \<le> collector) (seedNetworkLures env \<circ> seedCredentialLures env)
                (upon (2 \<le> vw_probe s) (\<lambda>s. seedDeepReality env (s\<lparr>vw_deep := True\<rparr>)) s))"

text \<open>
  \<open>executeKnownEnvironmentCollector\<close>; the text of \<open>last\<close> is that of the command,
      and \<open>/proc/uptime\<close> is one of
  the generated files.
\<close>

definition looksLikeKnownEnvironmentCollector :: "string \<Rightarrow> bool" where
  "looksLikeKnownEnvironmentCollector line \<longleftrightarrow>
     list_all (Contains line)
       [''uname=$('', ''arch=$('', ''uptime=$('', ''cpus=$('', ''cpu_model=$('', ''gpu_info=$('', ''last_output=$('',
           ''filter_output=$('',
        ''/proc/uptime'', ''===SHELL_BEHAVIOR==='', ''path_err='', ''cmd_err='', ''execute_err='']"

definition collector_values :: "shellEnv \<Rightarrow> string \<Rightarrow> shell \<Rightarrow> (string \<times> string) list" where
  "collector_values env line s =
     [(''uname'', virtualGNUUname (vw_host s)
         (if contains_any [''uname -s -v -n -r -m'', ''uname -a''] line then [''-s'', ''-v'', ''-n'', ''-r'', ''-m''] else [''-s'',
             ''-v'', ''-n'', ''-m''])),
      (''arch'', ''x86_64''),
      (''uptime'', TrimSpace (case read_file env s ''/proc/uptime'' of None \<Rightarrow> [] | Some v \<Rightarrow> v)),
      (''cpus'', ''4''),
      (''cpu_model'', ''Intel(R) Xeon(R) CPU E-2288G @ 3.70GHz''),
      (''gpu_info'', ''00:04.0 VGA compatible controller: Red Hat, Inc. Virtio GPU'' @ nl @
         ''00:05.0 3D controller: NVIDIA Corporation TU104GL [Tesla T4] (rev a1)''),
      (''last_output'', vr_output (fst (se_command env ''last'' [] ''last'' [] s))),
      (''filter_output'', ''===SHELL_BEHAVIOR==='' @ nl @ ''path_err=bash: ./xxxxxx: No such file or directory'' @ nl
          @ ''cmd_err=bash: xxxxxx: command not found'' @ nl @ ''execute_err=xxxxxx'' @ nl @ ''===DONE==='')]"

definition executeKnownEnvironmentCollector :: "shellEnv \<Rightarrow> string \<Rightarrow> shell \<Rightarrow> outcome option" where
  "executeKnownEnvironmentCollector env line s =
     (if \<not> looksLikeKnownEnvironmentCollector line then None
      else (let vs = collector_values env line s in
        Some ((virtualBaseResult ''sh'' ''recon'' 6 96 ''environment-fingerprint'' ''environment fingerprint collector'')
                \<lparr>vr_output := Join (map2 (\<lambda>label v. label @ '':'' @ snd v)
                   [''UNAME'', ''ARCH'', ''UPTIME'', ''CPUS'', ''CPU_MODEL'', ''GPU'', ''LAST'', ''FILTER''] vs) nl\<rparr>,
              fold (\<lambda>v. set_env (fst v) (snd v)) vs s)))"

section \<open>What a line executes\<close>

definition target_char :: "char \<Rightarrow> bool" where
  "target_char c \<longleftrightarrow> is_letter c \<or> is_digit c \<or> c \<in> set ''_-.''"

function local_names :: "string \<Rightarrow> string list" where
  "local_names v =
     (case Index v ''./'' of
        None \<Rightarrow> []
      | Some i \<Rightarrow>
          (let rest = drop (i + 2) v; name = takeWhile target_char rest in
           if rest = [] then [] else name # local_names (drop (length name) rest)))"
  by pat_completeness auto

termination
proof (relation "measure length")
  show "(drop (length z) y, v) \<in> measure length"
    if "Index v ''./'' = Some i" "y = drop (i + 2) v" for v i y z
    using that Index_bound [of v "''./''" i] by auto
qed simp

declare local_names.simps [simp del]

definition add_new :: "'a \<Rightarrow> 'a list \<Rightarrow> 'a list" where
  "add_new x xs = (if x \<in> set xs then xs else xs @ [x])"

definition execution_dir :: "string \<Rightarrow> shell \<Rightarrow> string" where
  "execution_dir line s =
     (case List.find (\<lambda>d. Contains line (''cd '' @ d)) [''/dev/shm'', ''/var/tmp'',
         ''/tmp''] of Some d \<Rightarrow> d | None \<Rightarrow> cwd (vw_fs s))"

definition near_targets :: "string \<Rightarrow> shell \<Rightarrow> string list" where
  "near_targets line s =
     fold (\<lambda>n. add_new (PathJoin (execution_dir line s) n))
       (List.filter (\<lambda>n. n \<noteq> [] \<and> n \<noteq> ''.'' \<and> n \<noteq> ''..'' \<and> length n \<le> 48) (local_names line)) []"

definition staged_word :: "string list \<Rightarrow> shell \<Rightarrow> string \<Rightarrow> string list \<Rightarrow> string list" where
  "staged_word stages s word out =
     (let candidate = trim_chars (quotes @ ''(){}[];,|&'') word; target = Clean candidate in
      if HasPrefix candidate ''/'' \<and> has_key (stagingPayloadHash (vw_fs s)) target \<and> Base target \<in> set (map Base stages)
      then add_new target out else out)"

definition virtualLocalExecutionTargets :: "shellEnv \<Rightarrow> string \<Rightarrow> shell \<Rightarrow> string list option" where
  "virtualLocalExecutionTargets env line0 s =
     (let line = TrimSpace line0 in
      if line = [] then Some []
      else do {
        stages \<leftarrow> collectSSHCommandStages env line;
        Some (fold (staged_word stages s) (virtualWords line) (near_targets line s))
      })"

definition seed_target :: "shellEnv \<Rightarrow> string \<Rightarrow> shell \<Rightarrow> shell" where
  "seed_target env target s =
     (if has_key (files (vw_fs s)) target then s else set_mode target 0x1A4 (put_file env (target, worker_binary) s))"

definition seedDropperExecutionTargets :: "shellEnv \<Rightarrow> string \<Rightarrow> shell \<Rightarrow> shell option" where
  "seedDropperExecutionTargets env line s =
     do { targets \<leftarrow> virtualLocalExecutionTargets env line s; Some (fold (seed_target env) targets s) }"

section \<open>The cleanup of other payloads\<close>

definition doomed_file :: "shellEnv \<Rightarrow> string \<Rightarrow> bool" where
  "doomed_file env f \<longleftrightarrow>
     f \<notin> {''/tmp'', ''/var/tmp'', ''/dev/shm''} \<and>
     (HasPrefix f ''/tmp/'' \<or> HasPrefix f ''/var/tmp/'' \<or> lower env (Base f) \<in> {''xmrig'', ''cpuminer'', ''minerd'',
         ''ccminer'', ''cache''})"

definition doomed_process :: "shellEnv \<Rightarrow> virtualSSHProcess \<Rightarrow> bool" where
  "doomed_process env p \<longleftrightarrow>
     pc_alive p \<and> Fields (pc_command p) \<noteq> [] \<and>
     (400 < pc_cpu p \<or> 600 < pc_mem p \<or> lower env (process_name p) \<in> {''cache'', ''xmrig'', ''cpuminer'', ''minerd'',
         ''ccminer''})"

definition sweep :: "shellEnv \<Rightarrow> shell \<Rightarrow> shell" where
  "sweep env s =
     (let s = on_fs (deleteVirtualFile (''/var/spool/cron/crontabs/'' @ safeVirtualName (user (vw_fs s))))
                (s\<lparr>vw_crontab := False, vw_crontab_text := []\<rparr>);
          s = on_fs (\<lambda>w. fold (\<lambda>f w. if doomed_file env (Clean f) then deleteVirtualFile (Clean f) w else w) (map fst (files w)) w) s
      in s\<lparr>vw_processes := map (\<lambda>(pid, p). (pid,
          if doomed_process env p then p\<lparr>pc_alive := False\<rparr> else p)) (vw_processes s)\<rparr>)"

definition take_job :: "string \<Rightarrow> int \<Rightarrow> virtualSSHResult \<Rightarrow> shell \<Rightarrow> outcome" where
  "take_job low pid r s =
     (case map_of (vw_processes s) pid of
        None \<Rightarrow> (r, s)
      | Some p \<Rightarrow>
          (let gone = Contains low ''disown''; job = vw_next_job s in
           if Contains low ''&'' then
             (r\<lparr>vr_output := ''['' @ Itoa job @ ''] '' @ Itoa pid\<rparr>,
              (set_process pid (p\<lparr>pc_disowned := gone, pc_job := job\<rparr>) s)
                \<lparr>vw_next_job := job + 1, vw_jobs := (if gone then vw_jobs s else AList.update job pid (vw_jobs s))\<rparr>)
           else (r, set_process pid (p\<lparr>pc_disowned := gone\<rparr>) s)))"

definition run_target :: "shellEnv \<Rightarrow> string \<Rightarrow> string \<Rightarrow> virtualSSHResult \<Rightarrow> shell \<Rightarrow> outcome" where
  "run_target env low target r s =
     (let s = (if has_key (files (vw_fs s)) target then s else put_file env (target, worker_binary) s);
          base = lower env (Base target);
          s = upon (Contains low (''chmod 777 '' @ base) \<or> Contains low (''chmod +x '' @ base)) (set_mode target 0x1FF) s;
          (pid, s) = ensureVirtualPayloadProcess env target s;
          (r, s) = take_job low pid r s
      in (r\<lparr>vr_stage := ''executed'', vr_path := target, vr_risk := 100, vr_persona := ''payload-execution'',
            vr_message := ''virtual competitor cleanup and payload execution'', vr_loop := vr_loop r + 1\<rparr>, s))"

text \<open>The outer option is that of the analysis of the line; within,
    \<open>None\<close> means that the line is not such a cleanup.\<close>

definition executeKnownResourceCleanup :: "shellEnv \<Rightarrow> string \<Rightarrow> shell \<Rightarrow> outcome option option" where
  "executeKnownResourceCleanup env line s0 =
     (let low = lower env line; s = sweep env s0;
          r = (virtualBaseResult ''crontab'' ''execution'' 7 99 ''resource-hijack-preparation'' ''virtual competitor/resource cleanup'')\<lparr>vr_loop := 2\<rparr>
      in if \<not> looksLikeObservedResourceCleanup low then Some None
         else do {
           targets \<leftarrow> virtualLocalExecutionTargets env line s;
           let (r, s) = (case targets of [] \<Rightarrow> (r, s) | t # _ \<Rightarrow> run_target env low t r s);
           let s = upon (Contains low ''history -c'') (\<lambda>s. s\<lparr>vw_history := [], vw_history_cleared := True\<rparr>) s;
           let s = upon (Contains low ''.bash_history'') (\<lambda>s. on_fs (deleteVirtualFile (PathJoin (homeDir (vw_fs s)) ''.bash_history'')) s) s;
           Some (Some (r, s))
         })"

definition normalizeVirtualResourceIntent :: "shellEnv \<Rightarrow> string \<Rightarrow> virtualSSHResult \<Rightarrow> virtualSSHResult" where
  "normalizeVirtualResourceIntent env line r =
     (if contains_any [''nvidia-smi'', ''lspci'', ''lscpu'', ''nproc''] (lower env line) then
        r\<lparr>vr_family := ''recon'', vr_persona := ''resource-discovery'', vr_message := ''hardware/resource discovery'',
          vr_depth := max 4 (vr_depth r), vr_risk := max 89 (vr_risk r)\<rparr>
      else r)"

end
