(* ===== verification/ShellExpand.thy ===== *)
theory ShellExpand
  imports ShellAdapt
begin

unbundle bit_operations_syntax

text \<open>
  The expansion of a line (\<open>expandVirtualLine\<close> of \<open>internal/server/trap_ssh_extra.go\<close>, and
  \<open>trap_ssh_unix_semantics.go\<close>): command substitutions, variables, assignments.

  The functions of the interpreter call one another. Each is written here over a \<open>runner\<close>, the five that
  the others call; \<open>ShellRun\<close> closes the knot. A value \<open>None\<close> means that the call does not return.
  A function that looks whether a line is its business answers with an \<open>attempt\<close>: no result when it is not.
\<close>

record runner =
  rn_line :: "string \<Rightarrow> string \<Rightarrow> shell \<Rightarrow> outcome option"
  rn_pipe :: "string \<Rightarrow> string \<Rightarrow> shell \<Rightarrow> outcome option"
  rn_group :: "string \<Rightarrow> shell \<Rightarrow> outcome option"
  rn_one :: "nat \<Rightarrow> string \<Rightarrow> string \<Rightarrow> shell \<Rightarrow> outcome option"
  rn_expand :: "string \<Rightarrow> shell \<Rightarrow> (string \<times> shell) option"

type_synonym attempt = "(virtualSSHResult option \<times> shell) option"

definition handled :: "outcome option \<Rightarrow> attempt" where
  "handled m = do { (r, s) \<leftarrow> m; Some (Some r, s) }"

definition unhandled :: "shell \<Rightarrow> attempt" where
  "unhandled s = Some (None, s)"

definition or_else :: "attempt \<Rightarrow> (shell \<Rightarrow> attempt) \<Rightarrow> attempt" where
  "or_else m f = do { (r, s) \<leftarrow> m; case r of Some r \<Rightarrow> Some (Some r, s) | None \<Rightarrow> f s }"

section \<open>Command substitutions\<close>

text \<open>\<open>findInnermostVirtualSubstitution\<close>: the last opener, then the parenthesis that closes it.\<close>

fun subst_open :: "char option \<Rightarrow> nat \<Rightarrow> nat option \<Rightarrow> string \<Rightarrow> nat option" where
  "subst_open quote i found (c # d # t) =
     (if c = CHR 0x5C then subst_open quote (i + 2) found t
      else if quote = Some (CHR 0x27) then subst_open (if c = CHR 0x27 then None else quote) (i + 1) found (d # t)
      else if c = CHR 0x27 then subst_open (Some (CHR 0x27)) (i + 1) found (d # t)
      else if c = CHR 0x22 then
        subst_open (if quote = Some (CHR 0x22) then None else if quote = None then Some (CHR 0x22) else quote) (i + 1) found (d # t)
      else if c = CHR ''$'' \<and> d = CHR ''('' then subst_open quote (i + 2) (Some i) t
      else subst_open quote (i + 1) found (d # t))"
| "subst_open quote i found _ = found"

fun subst_close :: "nat \<Rightarrow> char option \<Rightarrow> nat \<Rightarrow> string \<Rightarrow> nat option" where
  "subst_close depth quote i [] = None"
| "subst_close depth quote i (c # t) =
     (if c = CHR 0x5C \<and> t \<noteq> [] then subst_close depth quote (i + 2) (tl t)
      else (case quote of
              Some q \<Rightarrow> subst_close depth (if c = q then None else quote) (i + 1) t
            | None \<Rightarrow>
                if c = CHR 0x27 \<or> c = CHR 0x22 then subst_close depth (Some c) (i + 1) t
                else if c = CHR ''('' then subst_close (depth + 1) None (i + 1) t
                else if c = CHR '')'' then (if depth = 1 then Some i else subst_close (depth - 1) None (i + 1) t)
                else subst_close depth None (i + 1) t))"

definition findInnermostVirtualSubstitution :: "string \<Rightarrow> (nat \<times> nat) option" where
  "findInnermostVirtualSubstitution v =
     (case subst_open None 0 None v of
        None \<Rightarrow> None
      | Some a \<Rightarrow> (case subst_close 1 None (a + 2) (drop (a + 2) v) of None \<Rightarrow> None | Some b \<Rightarrow> Some (a, b)))"

text \<open>\<open>strings.TrimRight (v, "\r\n")\<close>.\<close>

definition trim_lines :: "string \<Rightarrow> string" where
  "trim_lines v = dropWhileEnd (\<lambda>c. c = CHR 0x0D \<or> c = CHR 0x0A) v"

definition run_substitution :: "runner \<Rightarrow> string \<Rightarrow> shell \<Rightarrow> (string \<times> shell) option" where
  "run_substitution rn inner s =
     do {
       (r, s) \<leftarrow> rn_group rn inner (s\<lparr>vw_subst := vw_subst s + 1\<rparr>);
       Some (trim_lines (vr_output r), s\<lparr>vw_subst := vw_subst s - 1\<rparr>)
     }"

primrec subst_passes :: "nat \<Rightarrow> runner \<Rightarrow> string \<Rightarrow> shell \<Rightarrow> (string \<times> shell) option" where
  "subst_passes 0 rn line s = Some (line, s)"
| "subst_passes (Suc n) rn line s =
     (case findInnermostVirtualSubstitution line of
        None \<Rightarrow> Some (line, s)
      | Some (a, b) \<Rightarrow>
          do {
            (v, s) \<leftarrow> run_substitution rn (take (b - (a + 2)) (drop (a + 2) line)) s;
            subst_passes n rn (take a line @ v @ drop (b + 1) line) s
          })"

definition expandVirtualCommandSubstitutions :: "runner \<Rightarrow> string \<Rightarrow> shell \<Rightarrow> (string \<times> shell) option" where
  "expandVirtualCommandSubstitutions rn line s =
     (if 6 \<le> vw_subst s \<or> \<not> Contains line ''$('' then Some (line, s) else subst_passes 12 rn line s)"

fun find_ticks :: "char option \<Rightarrow> nat \<Rightarrow> nat option \<Rightarrow> string \<Rightarrow> (nat \<times> nat) option" where
  "find_ticks quote i start [] = None"
| "find_ticks quote i start (c # t) =
     (if c = CHR 0x5C then find_ticks quote (i + 2) start (tl t)
      else if quote = Some (CHR 0x27) then find_ticks (if c = CHR 0x27 then None else quote) (i + 1) start t
      else if c = CHR 0x27 then find_ticks (Some (CHR 0x27)) (i + 1) start t
      else if c = CHR 0x22 then
        find_ticks (if quote = Some (CHR 0x22) then None else if quote = None then Some (CHR 0x22) else quote) (i + 1) start t
      else if c = CHR 0x60 then (case start of None \<Rightarrow> find_ticks quote (i + 1) (Some i) t | Some a \<Rightarrow> Some (a, i))
      else find_ticks quote (i + 1) start t)"

primrec backtick_passes :: "nat \<Rightarrow> runner \<Rightarrow> string \<Rightarrow> shell \<Rightarrow> (string \<times> shell) option" where
  "backtick_passes 0 rn line s = Some (line, s)"
| "backtick_passes (Suc n) rn line s =
     (case find_ticks None 0 None line of
        None \<Rightarrow> Some (line, s)
      | Some (a, b) \<Rightarrow>
          do {
            (v, s) \<leftarrow> run_substitution rn (take (b - (a + 1)) (drop (a + 1) line)) s;
            backtick_passes n rn (take a line @ v @ drop (b + 1) line) s
          })"

definition expandVirtualBackticks :: "runner \<Rightarrow> string \<Rightarrow> shell \<Rightarrow> (string \<times> shell) option" where
  "expandVirtualBackticks rn line s = backtick_passes 12 rn line s"

section \<open>Variables\<close>

definition special_variable :: "string \<Rightarrow> bool" where
  "special_variable name \<longleftrightarrow> name \<in> {''UID'', ''EUID'', ''PPID''}"

definition parameter_operator :: "string \<Rightarrow> (string \<times> nat) option" where
  "parameter_operator expr =
     first_some (map (\<lambda>op. case Index expr op of Some p \<Rightarrow> if 0 < p then Some (op, p) else None | None \<Rightarrow> None)
       ['':-'', '':+'', ''-'', ''+''])"

definition virtualParameterExpansion :: "runner \<Rightarrow> string \<Rightarrow> shell \<Rightarrow> (string \<times> shell) option" where
  "virtualParameterExpansion rn expr s =
     (if HasPrefix expr ''#'' \<and> validVirtualEnvName (tl expr) then Some (Itoa (int (length (virtualVariable s (tl expr)))), s)
      else
        (case parameter_operator expr of
           None \<Rightarrow> Some (if validVirtualEnvName expr then virtualVariable s expr else [], s)
         | Some (op, p) \<Rightarrow>
             (let name = take p expr; word = drop (p + length op) expr;
                  val = virtualVariable s name;
                  present = (special_variable name \<or> has_key (vw_env s) name);
                  filled = (present \<and> val \<noteq> [])
              in if \<not> validVirtualEnvName name then Some ([], s)
                 else if op = '':-'' then (if filled then Some (val, s) else rn_expand rn word s)
                 else if op = ''-'' then (if present then Some (val, s) else rn_expand rn word s)
                 else if (if op = '':+'' then filled else present) then rn_expand rn word s
                 else Some ([], s))))"

definition name_char :: "char \<Rightarrow> bool" where
  "name_char c \<longleftrightarrow> is_letter c \<or> is_digit c \<or> c = CHR ''_''"

text \<open>What stands for the \<open>$\<close> before \<open>t\<close>, and how much of \<open>t\<close> goes with it.\<close>

definition dollar :: "runner \<Rightarrow> string \<Rightarrow> shell \<Rightarrow> (string \<times> nat \<times> shell) option" where
  "dollar rn t s =
     (let plain = Some (''$'', 0, s); name = takeWhile name_char t in
      if t = [] then plain
      else if hd t = CHR ''?'' then Some (Itoa (vw_status s), 1, s)
      else if hd t = CHR ''$'' then Some (Itoa (virtualShellPID s), 1, s)
      else if hd t = CHR ''#'' then Some (''0'', 1, s)
      else if hd t = CHR ''-'' then Some (''hBc'', 1, s)
      else if hd t = CHR ''0'' then Some (''bash'', 1, s)
      else if hd t = CHR ''{'' then
        (case IndexByte (tl t) (CHR ''}'') of
           None \<Rightarrow> plain
         | Some e \<Rightarrow> do { (v, s) \<leftarrow> virtualParameterExpansion rn (take e (tl t)) s; Some (v, e + 2, s) })
      else if name = [] then plain
      else Some (virtualVariable s name, length name, s))"

function expand_variables :: "runner \<Rightarrow> char option \<Rightarrow> string \<Rightarrow> shell \<Rightarrow> (string \<times> shell) option" where
  "expand_variables rn quote [] s = Some ([], s)"
| "expand_variables rn quote (c # t) s =
     (if c = CHR 0x5C \<and> t \<noteq> [] then do { (v, s) \<leftarrow> expand_variables rn quote (tl t) s; Some (c # hd t # v, s) }
      else if quote = Some (CHR 0x27) then
        do { (v, s) \<leftarrow> expand_variables rn (if c = CHR 0x27 then None else quote) t s; Some (c # v, s) }
      else if c = CHR 0x27 then do { (v, s) \<leftarrow> expand_variables rn (Some (CHR 0x27)) t s; Some (c # v, s) }
      else if c = CHR 0x22 then
        do {
          (v, s) \<leftarrow> expand_variables rn
            (if quote = Some (CHR 0x22) then None else if quote = None then Some (CHR 0x22) else quote) t s;
          Some (c # v, s)
        }
      else if c \<noteq> CHR ''$'' then do { (v, s) \<leftarrow> expand_variables rn quote t s; Some (c # v, s) }
      else do {
        (u, n, s) \<leftarrow> dollar rn t s;
        (v, s) \<leftarrow> expand_variables rn quote (drop n t) s;
        Some (u @ v, s)
      })"
  by pat_completeness auto
termination by (relation "measure (\<lambda>(rn, quote, t, s). length t)") auto

definition expandVirtualLine :: "runner \<Rightarrow> string \<Rightarrow> shell \<Rightarrow> (string \<times> shell) option" where
  "expandVirtualLine rn line s =
     do {
       (line, s) \<leftarrow> expandVirtualBackticks rn (expandVirtualArithmetic (virtualVariable s) line) s;
       (line, s) \<leftarrow> expandVirtualCommandSubstitutions rn line s;
       expand_variables rn None line s
     }"

section \<open>Assignments\<close>

definition assigned :: "string \<Rightarrow> string \<Rightarrow> int \<Rightarrow> shell \<Rightarrow> virtualSSHResult" where
  "assigned persona message risk s = virtualBaseResult [] ''shell'' (max 2 (vw_depth s)) risk persona message"

definition executeVirtualCapturedAssignment :: "runner \<Rightarrow> string \<Rightarrow> shell \<Rightarrow> attempt" where
  "executeVirtualCapturedAssignment rn raw s =
     (case splitVirtualAssignment raw of
        None \<Rightarrow> unhandled s
      | Some (name, val) \<Rightarrow>
          (let v = unquoteVirtualAssignmentValue val in
           if \<not> Contains v ''$('' \<and> \<not> Contains v [CHR 0x60] then unhandled s
           else do {
             (v, s) \<leftarrow> rn_expand rn v s;
             Some (Some (assigned ''environment-fingerprint'' ''captured command substitution assignment'' 80 (set_env name v s)),
                   set_env name v s)
           }))"

text \<open>\<open>applyTemporaryEnv\<close>: the assignments, and the values that they replace.\<close>

type_synonym replaced = "(string \<times> string option) list"

primrec applyTemporaryEnv :: "runner \<Rightarrow> (string \<times> string) list \<Rightarrow> replaced \<Rightarrow> shell \<Rightarrow> (replaced \<times> shell) option" where
  "applyTemporaryEnv rn [] old s = Some (old, s)"
| "applyTemporaryEnv rn (a # as) old s =
     (let old = (if fst a \<in> set (map fst old) then old else old @ [(fst a, map_of (vw_env s) (fst a))]) in
      do {
        (v, s) \<leftarrow> rn_expand rn (snd a) s;
        applyTemporaryEnv rn as old (set_env (fst a) v s)
      })"

definition restore_one :: "string \<times> string option \<Rightarrow> shell \<Rightarrow> shell" where
  "restore_one p s =
     (case snd p of Some v \<Rightarrow> set_env (fst p) v s | None \<Rightarrow> s\<lparr>vw_env := AList.delete (fst p) (vw_env s)\<rparr>)"

definition restoreTemporaryEnv :: "replaced \<Rightarrow> shell \<Rightarrow> shell" where
  "restoreTemporaryEnv old s = fold restore_one old s"

end
