(* ===== verification/ShellControl.thy ===== *)
theory ShellControl
  imports ShellExpand
begin

text \<open>
  Control flow, groups and pipelines (\<open>internal/server/trap_ssh_controlflow.go\<close>, \<open>executeGrouped\<close> and
  \<open>executePipeline\<close> of \<open>trap_ssh_shell.go\<close>, \<open>trap_ssh_unix_semantics.go\<close>).
\<close>

definition IndexAt :: "string \<Rightarrow> string \<Rightarrow> (string \<times> string) option" where
  "IndexAt v sep = map_option (\<lambda>i. (take i v, drop (i + length sep) v)) (Index v sep)"

definition worded :: "string \<Rightarrow> string" where
  "worded v = (if v \<noteq> [] \<and> \<not> HasSuffix v nl then v @ nl else v)"

section \<open>Loops\<close>

definition loop_result :: "string \<Rightarrow> string \<Rightarrow> virtualSSHResult" where
  "loop_result name message = virtualBaseResult name ''execution'' 5 94 ''shell-control-flow'' message"

definition loop_body :: "string \<Rightarrow> string" where
  "loop_body v = TrimSpace (TrimSuffix (TrimSpace (TrimSuffix (TrimSpace v) ''done'')) '';'')"

text \<open>The last steps of an iteration: whether the loop goes on.\<close>

definition loop_end :: "virtualSSHResult \<Rightarrow> virtualSSHResult \<Rightarrow> bool \<times> virtualSSHResult" where
  "loop_end r combined =
     (if vr_action r = ''break'' then (False, combined\<lparr>vr_status := 0\<rparr>)
      else if vr_action r = ''continue'' then (True, combined\<lparr>vr_status := 0\<rparr>)
      else if vr_exit r then (False, combined\<lparr>vr_exit := True\<rparr>)
      else (True, combined))"

definition deepest :: "virtualSSHResult \<Rightarrow> virtualSSHResult \<Rightarrow> virtualSSHResult" where
  "deepest r combined =
     (if vr_depth combined \<le> vr_depth r then
        combined\<lparr>vr_depth := vr_depth r, vr_risk := vr_risk r, vr_persona := vr_persona r, vr_message := vr_message r\<rparr>
      else combined)"

definition add_output :: "virtualSSHResult \<Rightarrow> string list \<Rightarrow> string list" where
  "add_output r outs = (if vr_output r = [] then outs else outs @ [vr_output r])"

definition close_loop :: "virtualSSHResult \<Rightarrow> string list \<Rightarrow> virtualSSHResult" where
  "close_loop combined outs = combined\<lparr>vr_output := Join outs nl, vr_action := []\<rparr>"

primrec for_loop :: "runner \<Rightarrow> string \<Rightarrow> string \<Rightarrow> string list \<Rightarrow> virtualSSHResult \<Rightarrow> string list \<Rightarrow> shell \<Rightarrow> outcome option" where
  "for_loop rn var body [] combined outs s = Some (close_loop combined outs, s)"
| "for_loop rn var body (v # vs) combined outs s =
     do {
       (r, s) \<leftarrow> rn_line rn body [] (set_env var v s);
       let outs = add_output r outs;
       let (on, combined) = loop_end r ((deepest r combined)\<lparr>vr_status := vr_status r\<rparr>);
       (if on then for_loop rn var body vs combined outs s else Some (close_loop combined outs, s))
     }"

definition executeVirtualFor :: "runner \<Rightarrow> string \<Rightarrow> shell \<Rightarrow> attempt" where
  "executeVirtualFor rn line s =
     (case IndexAt line ''; do '' of
        None \<Rightarrow> unhandled s
      | Some (front, rest) \<Rightarrow>
          (case IndexAt (TrimSpace (TrimPrefix front ''for '')) '' in '' of
             None \<Rightarrow> unhandled s
           | Some (name, text_of_values) \<Rightarrow>
               if \<not> validVirtualEnvName (TrimSpace name) then unhandled s
               else do {
                 (v, s) \<leftarrow> rn_expand rn text_of_values s;
                 handled (for_loop rn (TrimSpace name) (loop_body rest) (take 64 (virtualWords v))
                   (loop_result ''for'' ''simulated shell loop'') [] s)
               }))"

definition while_end :: "virtualSSHResult \<Rightarrow> virtualSSHResult \<Rightarrow> bool \<times> virtualSSHResult" where
  "while_end r combined =
     (if vr_exit r then (False, combined\<lparr>vr_exit := True\<rparr>)
      else if vr_action r = ''break'' then (False, combined\<lparr>vr_status := 0\<rparr>)
      else if vr_action r = ''continue'' then (True, combined\<lparr>vr_status := 0\<rparr>)
      else (True, combined))"

definition deeper :: "virtualSSHResult \<Rightarrow> virtualSSHResult \<Rightarrow> virtualSSHResult" where
  "deeper r combined =
     (if vr_depth combined < vr_depth r then
        combined\<lparr>vr_depth := vr_depth r, vr_risk := max (vr_risk combined) (vr_risk r), vr_persona := vr_persona r\<rparr>
      else combined)"

primrec while_loop ::
  "nat \<Rightarrow> runner \<Rightarrow> bool \<Rightarrow> string \<Rightarrow> string \<Rightarrow> virtualSSHResult \<Rightarrow> string list \<Rightarrow> shell \<Rightarrow> outcome option" where
  "while_loop 0 rn until condition body combined outs s = Some (close_loop combined outs, s)"
| "while_loop (Suc n) rn until condition body combined outs s =
     do {
       (line, s) \<leftarrow> rn_expand rn condition s;
       (cond, s) \<leftarrow> rn_pipe rn line [] s;
       (if (vr_status cond = 0) = until then Some (close_loop (combined\<lparr>vr_status := 0\<rparr>) outs, s)
        else do {
          (r, s) \<leftarrow> rn_line rn body [] s;
          let outs = add_output r outs;
          let (on, combined) = while_end r ((deeper r combined)\<lparr>vr_status := vr_status r\<rparr>);
          (if on then while_loop n rn until condition body combined outs s else Some (close_loop combined outs, s))
        })
     }"

definition executeVirtualWhile :: "runner \<Rightarrow> string \<Rightarrow> shell \<Rightarrow> attempt" where
  "executeVirtualWhile rn line s =
     (let until = HasPrefix line ''until ''; word = (if until then ''until'' else ''while'') in
      case IndexAt line ''; do '' of
        None \<Rightarrow> unhandled s
      | Some (front, rest) \<Rightarrow>
          (let condition = TrimSpace (TrimPrefix front (word @ '' '')) in
           if condition = [] then unhandled s
           else handled (while_loop 32 rn until condition (loop_body rest) (loop_result word ''simulated bounded shell loop'') [] s)))"

section \<open>Conditionals\<close>

definition splitVirtualIfBody :: "string \<Rightarrow> string \<times> string \<times> string" where
  "splitVirtualIfBody rest =
     (let fi = (case Index rest ''; fi'' of Some i \<Rightarrow> Some i | None \<Rightarrow> Index rest '' fi'');
          (body, tail) =
            (case fi of
               None \<Rightarrow> (rest, [])
             | Some i \<Rightarrow>
                 (let rem = TrimSpace (drop i rest);
                      rem = (if HasPrefix rem ''; fi'' then TrimSpace (TrimPrefix rem ''; fi'') else TrimSpace (TrimPrefix rem ''fi''))
                  in (TrimSpace (take i rest), TrimSpace (TrimPrefix rem '';''))))
      in case IndexAt body ''; elif '' of
           Some (a, b) \<Rightarrow> (TrimSpace a, ''if '' @ TrimSpace (drop 1 b) @ ''; fi'', tail)
         | None \<Rightarrow>
             (case IndexAt body ''; else '' of
                Some (a, b) \<Rightarrow> (TrimSpace a, TrimSpace b, tail)
              | None \<Rightarrow> (body, [], tail)))"

definition branch_result :: "virtualSSHResult \<Rightarrow> virtualSSHResult" where
  "branch_result r =
     (let r = r\<lparr>vr_name := ''if'', vr_family := ''execution'', vr_depth := max (vr_depth r) 5, vr_risk := max (vr_risk r) 94\<rparr> in
      if vr_stage r = [] then r\<lparr>vr_persona := ''shell-control-flow'', vr_message := ''simulated shell conditional''\<rparr> else r)"

definition tail_result :: "virtualSSHResult \<Rightarrow> virtualSSHResult \<Rightarrow> virtualSSHResult" where
  "tail_result tail r =
     (let r = (if vr_output r \<noteq> [] \<and> vr_output tail \<noteq> [] then r\<lparr>vr_output := vr_output r @ nl @ vr_output tail\<rparr>
               else if vr_output r = [] then r\<lparr>vr_output := vr_output tail\<rparr> else r);
          r = r\<lparr>vr_status := vr_status tail, vr_exit := vr_exit tail\<rparr>
      in if vr_depth r < vr_depth tail then r\<lparr>vr_depth := vr_depth tail, vr_risk := max (vr_risk r) (vr_risk tail)\<rparr> else r)"

definition executeVirtualIf :: "runner \<Rightarrow> string \<Rightarrow> string \<Rightarrow> shell \<Rightarrow> attempt" where
  "executeVirtualIf rn line input s =
     (case IndexAt line ''; then '' of
        None \<Rightarrow> unhandled s
      | Some (front, rest) \<Rightarrow>
          (let condition = TrimSpace (TrimPrefix front ''if '');
               (yes, no, tail) = splitVirtualIfBody (TrimSpace rest);
               negate = HasPrefix condition ''! '';
               condition = (if negate then TrimSpace (TrimPrefix condition ''! '') else condition)
           in do {
             (cl, s) \<leftarrow> rn_expand rn condition s;
             (cond, s) \<leftarrow> rn_pipe rn cl input s;
             let body = (if (vr_status cond = 0) \<noteq> negate then yes else no);
             (r, s) \<leftarrow>
               (if body = [] then Some (loop_result ''if'' ''simulated shell conditional'', s)
                else do { (r, s) \<leftarrow> rn_line rn body input s; Some (branch_result r, s) });
             (if tail = [] \<or> vr_exit r then Some (Some r, s)
              else do { (t, s) \<leftarrow> rn_line rn tail [] s; Some (Some (tail_result t r), s) })
           }))"

definition case_matches :: "string \<Rightarrow> string \<Rightarrow> bool" where
  "case_matches v pat0 = (let pat = trim_chars quotes (TrimSpace pat0) in pat = ''*'' \<or> path_match pat v)"

definition case_clause :: "string \<Rightarrow> string \<Rightarrow> string option" where
  "case_clause v clause =
     (let cl = TrimSpace clause in
      case IndexByte cl (CHR '')'') of
        None \<Rightarrow> None
      | Some p \<Rightarrow> if list_ex (case_matches v) (SplitByte (TrimSpace (take p cl)) (CHR ''|''))
                  then Some (TrimSpace (drop (p + 1) cl)) else None)"

definition LastIndexOf :: "string \<Rightarrow> string \<Rightarrow> nat option" where
  "LastIndexOf v sep = map_option (\<lambda>i. length v - length sep - i) (Index (rev v) (rev sep))"

definition case_result :: virtualSSHResult where
  "case_result = virtualBaseResult ''case'' ''execution'' 4 88 ''shell-control-flow'' ''simulated shell case branch''"

definition executeVirtualCase :: "runner \<Rightarrow> string \<Rightarrow> shell \<Rightarrow> attempt" where
  "executeVirtualCase rn line s =
     (case IndexAt line '' in'' of
        None \<Rightarrow> unhandled s
      | Some (front, rest0) \<Rightarrow>
          (let rest = TrimSpace rest0;
               rest = (case LastIndexOf rest ''esac'' of Some i \<Rightarrow> TrimSpace (take i rest) | None \<Rightarrow> rest)
           in do {
             (v, s) \<leftarrow> rn_expand rn (TrimSpace (TrimPrefix front ''case '')) s;
             (case first_some (map (case_clause (trim_chars quotes (TrimSpace v))) (Split rest '';;'')) of
                None \<Rightarrow> Some (Some case_result, s)
              | Some cmd \<Rightarrow>
                  do {
                    (r, s) \<leftarrow> rn_line rn cmd [] s;
                    Some (Some (r\<lparr>vr_name := ''case'', vr_family := ''execution'', vr_depth := max (vr_depth r) 4,
                      vr_risk := max (vr_risk r) 88, vr_persona := ''shell-control-flow'',
                      vr_message := ''simulated shell case branch''\<rparr>), s)
                  })
           }))"

definition ends_loop :: "string \<Rightarrow> bool" where
  "ends_loop v \<longleftrightarrow> HasSuffix v '' done'' \<or> HasSuffix v ''; done''"

definition executeVirtualControlFlow :: "runner \<Rightarrow> string \<Rightarrow> string \<Rightarrow> shell \<Rightarrow> attempt" where
  "executeVirtualControlFlow rn line0 input s =
     (let line = TrimSpace line0 in
      if line = [] then unhandled s
      else if HasPrefix line ''case '' \<and> Contains line '' in'' \<and> Contains line ''esac'' then executeVirtualCase rn line s
      else
        or_else (if HasPrefix line ''for '' \<and> ends_loop line then executeVirtualFor rn line s else unhandled s)
          (\<lambda>s. or_else
             (if (HasPrefix line ''while '' \<or> HasPrefix line ''until '') \<and> ends_loop line then executeVirtualWhile rn line s else unhandled s)
             (\<lambda>s. if HasPrefix line ''if '' \<and> Contains line ''; then '' \<and> Contains line '' fi'' then executeVirtualIf rn line input s
                   else unhandled s)))"

text \<open>\<open>executeEmbeddedVirtualIf\<close>: what is before the \<open>if\<close> has run when the rest turns out not to be one.\<close>

definition embedded_if :: "string \<Rightarrow> (bool \<times> string \<times> string) option" where
  "embedded_if line =
     (case (Index line ''&& if '', Index line ''; if '') of
        (None, None) \<Rightarrow> None
      | (Some i, None) \<Rightarrow> Some (True, take i line, drop (i + 6) line)
      | (None, Some j) \<Rightarrow> Some (False, take j line, drop (j + 5) line)
      | (Some i, Some j) \<Rightarrow> if j < i then Some (False, take j line, drop (j + 5) line) else Some (True, take i line, drop (i + 6) line))"

definition executeEmbeddedVirtualIf :: "runner \<Rightarrow> string \<Rightarrow> string \<Rightarrow> shell \<Rightarrow> attempt" where
  "executeEmbeddedVirtualIf rn line input s =
     (case embedded_if line of
        None \<Rightarrow> unhandled s
      | Some (anded, front, rest) \<Rightarrow>
          do {
            (pre, s) \<leftarrow> rn_line rn (TrimSpace front) [] s;
            (if anded \<and> vr_status pre \<noteq> 0 then Some (Some pre, s)
             else do {
               (c, s) \<leftarrow> executeVirtualIf rn (''if '' @ TrimSpace rest) input s;
               Some (map_option (\<lambda>c.
                 if vr_output pre \<noteq> [] \<and> vr_output c \<noteq> [] then c\<lparr>vr_output := vr_output pre @ nl @ vr_output c\<rparr>
                 else if vr_output c = [] then c\<lparr>vr_output := vr_output pre\<rparr> else c) c, s)
             })
          })"

section \<open>One command of a chain\<close>

text \<open>
  An assignment that captures the output of commands, a compound command, or a pipeline after its
  expansion; also the text that was executed in the end.
\<close>

definition run_command :: "runner \<Rightarrow> string \<Rightarrow> string \<Rightarrow> shell \<Rightarrow> (string \<times> virtualSSHResult \<times> shell) option" where
  "run_command rn cmd input s =
     do {
       (r, s) \<leftarrow> or_else (executeVirtualCapturedAssignment rn cmd s) (executeVirtualControlFlow rn cmd input);
       (case r of
          Some r \<Rightarrow> Some (cmd, r, s)
        | None \<Rightarrow>
            do {
              (v, s) \<leftarrow> rn_expand rn cmd s;
              (r, s) \<leftarrow> rn_pipe rn (TrimSpace v) input s;
              Some (TrimSpace v, r, s)
            })
     }"

definition skipped :: "chainPart \<Rightarrow> int \<Rightarrow> bool" where
  "skipped p status \<longleftrightarrow>
     command p = [] \<or> before p = ''&&'' \<and> status \<noteq> 0 \<or> before p = ''||'' \<and> status = 0"

definition leading :: "virtualSSHResult \<Rightarrow> virtualSSHResult \<Rightarrow> virtualSSHResult" where
  "leading r combined =
     (if vr_depth combined \<le> vr_depth r then
        combined\<lparr>vr_depth := vr_depth r, vr_risk := vr_risk r, vr_family := vr_family r, vr_name := vr_name r,
          vr_persona := vr_persona r, vr_message := vr_message r\<rparr>
      else combined)"

primrec group_loop ::
  "runner \<Rightarrow> chainPart list \<Rightarrow> int \<Rightarrow> virtualSSHResult \<Rightarrow> string \<Rightarrow> shell \<Rightarrow> (virtualSSHResult \<times> string \<times> shell) option" where
  "group_loop rn [] status combined out s = Some (combined, out, s)"
| "group_loop rn (p # ps) status combined out s =
     (if skipped p status then group_loop rn ps status combined out s
      else do {
        (cmd, r, s) \<leftarrow> run_command rn (TrimSpace (command p)) [] s;
        let s = s\<lparr>vw_status := vr_status r\<rparr>;
        let out = out @ worded (vr_output r);
        let combined = leading r (combined\<lparr>vr_status := vr_status r\<rparr>);
        (if vr_exit r \<or> vr_interactive r \<noteq> [] then Some (combined, out, s)
         else group_loop rn ps (vr_status r) combined out s)
      })"

definition executeGrouped :: "runner \<Rightarrow> string \<Rightarrow> shell \<Rightarrow> outcome option" where
  "executeGrouped rn inner s =
     do {
       (combined, out, s) \<leftarrow> group_loop rn (splitVirtualChain inner) 0
         (virtualBaseResult [] ''shell'' (max 2 (vw_depth s)) 78 ''interactive-shell'' ''virtual shell group'') [] s;
       Some (combined\<lparr>vr_output := TrimSuffix out nl\<rparr>, s)
     }"

section \<open>Pipelines\<close>

definition curl_value_flag :: "char \<Rightarrow> bool" where
  "curl_value_flag c \<longleftrightarrow> c \<in> set ''odeuwxHAFKTP''"

definition short_option :: "string \<Rightarrow> bool" where
  "short_option a \<longleftrightarrow> 2 \<le> length a \<and> HasPrefix a ''-'' \<and> \<not> HasPrefix a ''--''"

fun curl_flag :: "char \<Rightarrow> string \<Rightarrow> bool" where
  "curl_flag flag [] = False"
| "curl_flag flag (c # t) = (c = flag \<or> \<not> curl_value_flag c \<and> curl_flag flag t)"

definition containsCurlShortFlag :: "string list \<Rightarrow> char \<Rightarrow> bool" where
  "containsCurlShortFlag args flag \<longleftrightarrow> list_ex (\<lambda>a. short_option a \<and> curl_flag flag (tl a)) args"

text \<open>What follows the letter in a cluster of options.\<close>

fun curl_cluster :: "char \<Rightarrow> string \<Rightarrow> string option" where
  "curl_cluster short [] = None"
| "curl_cluster short (c # t) = (if c = short then Some t else if curl_value_flag c then None else curl_cluster short t)"

fun curlOptionValue :: "string list \<Rightarrow> char \<Rightarrow> string \<Rightarrow> string" where
  "curlOptionValue [] short long = []"
| "curlOptionValue (a # args) short long =
     (if a = long \<or> a = [CHR ''-'', short] then (if args = [] then [] else hd args)
      else if HasPrefix a (long @ ''='') then TrimPrefix a (long @ ''='')
      else if short_option a then
        (case curl_cluster short (tl a) of
           None \<Rightarrow> curlOptionValue args short long
         | Some v \<Rightarrow> if v \<noteq> [] then v else if args = [] then [] else hd args)
      else curlOptionValue args short long)"

definition curl_to_stdout :: "bool \<Rightarrow> string \<Rightarrow> string" where
  "curl_to_stdout piped line =
     (let words = virtualWords line in
      if piped \<and> words \<noteq> [] \<and> Base (hd words) = ''curl'' \<and> curlOptionValue (tl words) (CHR ''o'') ''--output'' = []
         \<and> \<not> containsCurlShortFlag (tl words) (CHR ''O'')
      then line @ '' --output -'' else line)"

definition staging :: "string \<Rightarrow> int \<Rightarrow> int \<Rightarrow> string \<Rightarrow> virtualSSHResult \<Rightarrow> virtualSSHResult" where
  "staging stage depth risk message r =
     r\<lparr>vr_stage := stage, vr_family := ''execution'', vr_depth := max depth (vr_depth r), vr_risk := max risk (vr_risk r),
       vr_persona := ''payload-staging'', vr_message := message,
       vr_loop := (if stage = ''retry'' then vr_loop r + 1 else vr_loop r)\<rparr>"

definition stage_payload :: "shellEnv \<Rightarrow> string \<Rightarrow> string \<Rightarrow> virtualSSHResult \<Rightarrow> shell \<Rightarrow> outcome" where
  "stage_payload env target input r0 s0 =
     (let n = lookup_or 0 (stagingAttempts (vw_fs s0)) target + 1;
          s = on_fs (\<lambda>w. w\<lparr>stagingAttempts := AList.update target n (stagingAttempts w)\<rparr>) s0;
          r = r0\<lparr>vr_path := target\<rparr>; sum = se_sha env input
      in if input \<noteq> [] \<and> input \<noteq> empty_stdin then
           (if map_of (stagingPayloadHash (vw_fs s)) target = Some sum then
              (staging ''retry'' 6 98 ''identical virtual payload staging retry'' r, s)
            else (staging ''completed'' 6 97 ''virtual payload staging completed'' r,
                  on_fs (\<lambda>w. w\<lparr>stagingPayloadHash := AList.update target sum (stagingPayloadHash w)\<rparr>) s))
         else if 1 < n then (staging ''retry'' 5 94 ''repeated virtual payload staging intent'' r, s)
         else (staging ''intent'' 5 93 ''virtual payload staging intent'' r, s))"

definition first_word :: "string \<Rightarrow> string" where
  "first_word line = (case virtualWords line of [] \<Rightarrow> [] | w # _ \<Rightarrow> Base w)"

definition redirect_output ::
  "shellEnv \<Rightarrow> string \<Rightarrow> virtualRedirection \<Rightarrow> string \<Rightarrow> virtualSSHResult \<Rightarrow> shell \<Rightarrow> outcome" where
  "redirect_output env line rd input r s =
     (if rd_stdout rd = [] then (r, s)
      else if rd_stdout rd = ''/dev/null'' then (r\<lparr>vr_output := []\<rparr>, s)
      else
        (let target = resolve (vw_fs s) (rd_stdout rd);
             (s, ok) = (if rd_append rd then append_file env target (worded (vr_output r)) s
                        else set_file env target (worded (vr_output r)) s) in
         if \<not> ok then (says (''bash: '' @ rd_stdout rd @ '': '' @ virtualWriteFailure (vw_fs s) target) 1 r, s)
         else
           (let r = r\<lparr>vr_output := [], vr_family := ''filesystem'', vr_depth := max (vr_depth r) 4, vr_risk := max (vr_risk r) 88,
                      vr_persona := ''file-manipulation'', vr_message := ''virtual shell output redirection''\<rparr> in
            if first_word line = ''cat'' \<and> isVirtualPayloadStagingPath target then stage_payload env target input r s else (r, s))))"

definition silence :: "virtualRedirection \<Rightarrow> bool \<Rightarrow> virtualSSHResult \<Rightarrow> virtualSSHResult" where
  "silence rd blank r =
     (if suppressStderr rd \<and> vr_status r \<noteq> 0 \<or> suppressStdout rd \<or> blank \<and> vr_output r = empty_stdin
      then r\<lparr>vr_output := []\<rparr> else r)"

text \<open>One stage: the result, or the one that ends the pipeline at once.\<close>

definition run_stage :: "shellEnv \<Rightarrow> runner \<Rightarrow> bool \<Rightarrow> string \<Rightarrow> string \<Rightarrow> shell \<Rightarrow> (bool \<times> virtualSSHResult \<times> shell) option" where
  "run_stage env rn inner stage input s =
     (let (line, rd) = parseVirtualRedirection stage;
          line' = curl_to_stdout (inner \<or> rd_stdout rd \<noteq> []) line;
          content = (if rd_stdin rd = [] then Some input else read_file env s (rd_stdin rd));
          blank = (rd_stdin rd \<noteq> [] \<and> content = Some [])
      in if syntaxError rd then
           Some (True, says (''bash: syntax error near unexpected token '' @ [CHR 0x60] @ ''newline'' @ [CHR 0x27]) 2
             (virtualBaseResult (Base (firstNonOption (virtualWords line))) ''shell'' (max 2 (vw_depth s)) 80 ''interactive-shell''
               ''virtual redirection syntax error''), s)
         else
           (case content of
              None \<Rightarrow>
                Some (True, says (''bash: '' @ rd_stdin rd @ '': No such file or directory'') 1
                  (virtualBaseResult [] ''filesystem'' (max 3 (vw_depth s)) 84 ''file-discovery'' ''virtual input redirection failed''), s)
            | Some c \<Rightarrow>
                (let given = (if blank then empty_stdin else c) in
                 do {
                   (r, s) \<leftarrow> rn_one rn 0 line' given s;
                   let (r, s) = redirect_output env line' rd given (silence rd blank r) s;
                   Some (False, r, s)
                 })))"

definition keep_best :: "bool \<Rightarrow> virtualSSHResult \<Rightarrow> virtualSSHResult \<Rightarrow> virtualSSHResult" where
  "keep_best first r best =
     (if first \<or> vr_depth best \<le> vr_depth r then r else best\<lparr>vr_status := vr_status r, vr_exit := vr_exit r\<rparr>)"

primrec pipe_loop ::
  "shellEnv \<Rightarrow> runner \<Rightarrow> string list \<Rightarrow> bool \<Rightarrow> virtualSSHResult \<Rightarrow> string \<Rightarrow> shell \<Rightarrow> outcome option" where
  "pipe_loop env rn [] first best input s = Some (best\<lparr>vr_output := input\<rparr>, s)"
| "pipe_loop env rn (part # parts) first best input s =
     (let stage = TrimSpace part in
      do {
        (failed, r, s) \<leftarrow>
          (case unwrapVirtualGroup stage of
             Some inner \<Rightarrow> do { (r, s) \<leftarrow> rn_group rn inner s; Some (False, r, s) }
           | None \<Rightarrow> run_stage env rn (parts \<noteq> []) stage input s);
        let best = keep_best first r best;
        (if failed then Some (r, s)
         else if vr_exit r \<or> vr_interactive r \<noteq> [] then Some (best\<lparr>vr_output := vr_output r\<rparr>, s)
         else pipe_loop env rn parts False best (vr_output r) s)
      })"

definition executePipeline :: "shellEnv \<Rightarrow> runner \<Rightarrow> string \<Rightarrow> string \<Rightarrow> shell \<Rightarrow> outcome option" where
  "executePipeline env rn line input s =
     pipe_loop env rn (splitOutsideQuotes line (CHR ''|'')) True
       (virtualBaseResult [] ''other'' 0 70 [] ''virtual pipeline processed'') input s"

end
