(* ===== verification/ShellRun.thy ===== *)
theory ShellRun
  imports ShellControl
begin

unbundle bit_operations_syntax

text \<open>
  One command (\<open>executeOneDepth\<close> of \<open>internal/server/trap_ssh_shell.go\<close> and the start of
  \<open>executeExtraCommand\<close> of \<open>trap_ssh_extra.go\<close>), one line (\<open>executeWithInput\<close>), and the interpreter
  \<open>run\<close>: its argument bounds the depth of the calls, at \<open>0\<close> no call returns.
\<close>

section \<open>Local programs\<close>

definition fakeExecute :: "shellEnv \<Rightarrow> string \<Rightarrow> shell \<Rightarrow> outcome" where
  "fakeExecute env target s =
     (let name = (case Fields target of [] \<Rightarrow> target | w # _ \<Rightarrow> w);
          p = resolve (vw_fs s) name;
          r = (virtualBaseResult (Base name) ''execution'' 6 100 ''payload-execution'' ''simulated payload execution'')
                \<lparr>vr_loop := 1, vr_delay := 400 * millisecond\<rparr>
      in if (isVirtualPayloadStagingPath p \<or> has_key (stagingPayloadHash (vw_fs s)) p) \<and> read_file env s p \<noteq> None then
           (r\<lparr>vr_message := started_payload, vr_stage := ''executed'', vr_path := p, vr_delay := 250 * millisecond\<rparr>,
            snd (ensureVirtualPayloadProcess env p s))
         else (r, s))"

definition system_binary :: "string \<Rightarrow> string \<Rightarrow> shell \<Rightarrow> bool" where
  "system_binary p cmd s \<longleftrightarrow>
     (case map_of (fileMeta (vw_fs s)) p of None \<Rightarrow> False | Some m \<Rightarrow> m_kind m = ''elf'') \<and> virtualCommandPath cmd \<noteq> [] \<and>
     list_ex (HasPrefix p) [''/bin/'', ''/usr/bin/'', ''/sbin/'', ''/usr/sbin/'']"

text \<open>A command with a slash: a directory, a file that is run or must not be, one that is missing.\<close>

definition run_path :: "shellEnv \<Rightarrow> string \<Rightarrow> shell \<Rightarrow> outcome option" where
  "run_path env word s =
     (let p = resolve (vw_fs s) word;
          refuse = (\<lambda>status depth risk persona message problem.
            Some (says (''bash: '' @ word @ '': '' @ problem) status
                    (virtualBaseResult (Base word) ''execution'' (max depth (vw_depth s)) risk persona message), s))
      in if \<not> HasPrefix word ''./'' \<and> slash \<notin> set word then None
         else if is_dir (vw_fs s) p then
           refuse 126 3 84 ''environment-fingerprint'' ''virtual directory execution rejected'' ''Is a directory''
         else if (case read_file env s word of None \<Rightarrow> False | Some c \<Rightarrow> c \<noteq> []) \<and> \<not> system_binary p (Base word) s then
           (if virtualFileMode (vw_fs s) p AND 0x49 = 0 then
              refuse 126 5 94 ''payload-preparation'' ''virtual executable permission denied'' ''Permission denied''
            else Some (fakeExecute env word s))
         else if HasPrefix word ''./'' \<and> \<not> virtualCommandExists (Base word) then
           refuse 127 4 90 ''execution-probe'' ''missing virtual executable probed'' ''No such file or directory''
         else None)"

section \<open>Commands that run others\<close>

definition at_least :: "int \<Rightarrow> int \<Rightarrow> virtualSSHResult \<Rightarrow> virtualSSHResult" where
  "at_least depth risk r = r\<lparr>vr_depth := max (vr_depth r) depth, vr_risk := max (vr_risk r) risk\<rparr>"

primrec env_args :: "string list \<Rightarrow> bool \<Rightarrow> (string \<times> string) list \<Rightarrow> bool \<times> (string \<times> string) list \<times> string list" where
  "env_args [] ignore assigns = (ignore, assigns, [])"
| "env_args (a # args) ignore assigns =
     (if a = ''-i'' \<or> a = ''--ignore-environment'' then env_args args True assigns
      else (case CutByte a (CHR ''='') of (name, v, ok) \<Rightarrow>
              if ok \<and> validVirtualEnvName name then env_args args ignore (assigns @ [(name, v)])
              else (ignore, assigns, a # args)))"

definition executeVirtualEnv :: "runner \<Rightarrow> string list \<Rightarrow> string \<Rightarrow> shell \<Rightarrow> outcome option" where
  "executeVirtualEnv rn args input s0 =
     (case env_args args False [] of (ignore, assigns, rest) \<Rightarrow>
        do {
          (old, s) \<leftarrow> applyTemporaryEnv rn assigns [] (if ignore then s0\<lparr>vw_env := []\<rparr> else s0);
          (r, s) \<leftarrow>
            (if rest = [] then
               Some ((virtualBaseResult ''env'' ''recon'' 3 82 ''environment-discovery'' ''environment inspection'')
                       \<lparr>vr_output := virtualEnvOutput [] s\<rparr>, s)
             else rn_one rn 0 (Join rest '' '') input s);
          let s = restoreTemporaryEnv old s;
          Some (r, if ignore then s\<lparr>vw_env := vw_env s0\<rparr> else s)
        })"

fun virtualSudoCommandArgs :: "string list \<Rightarrow> string list" where
  "virtualSudoCommandArgs [] = []"
| "virtualSudoCommandArgs (a # args) =
     (if a = ''--'' then args
      else if \<not> HasPrefix a ''-'' \<or> a = ''-'' then a # args
      else if a \<in> set [''-S'', ''--stdin'', ''-n'', ''--non-interactive'', ''-H'', ''-E'', ''-k'', ''-K'', ''-b''] then virtualSudoCommandArgs args
      else if a \<in> set [''-u'', ''-g'', ''-h'', ''-p'', ''-C'', ''-T'', ''--user'', ''--group'', ''--host'', ''--prompt''] then
        (case args of [] \<Rightarrow> [] | _ # rest \<Rightarrow> virtualSudoCommandArgs rest)
      else if \<not> HasPrefix a ''--'' then virtualSudoCommandArgs args
      else a # args)"

definition sudo_listing :: "shell \<Rightarrow> string" where
  "sudo_listing s =
     (let u = user (vw_fs s); h = vw_host s in
      ''Matching Defaults entries for '' @ u @ '' on '' @ h @ '':'' @ nl
      @ ''    env_reset, mail_badpass, secure_path=/usr/local/sbin:/usr/local/bin:/usr/sbin:/usr/bin:/sbin:/bin'' @ nl @ nl
      @ ''User '' @ u @ '' may run the following commands on '' @ h @ '':'' @ nl
      @ ''    (ALL) NOPASSWD: /usr/bin/docker, /usr/local/bin/backupctl'')"

definition cmd_sudo :: "runner \<Rightarrow> string \<Rightarrow> string list \<Rightarrow> string \<Rightarrow> shell \<Rightarrow> outcome option" where
  "cmd_sudo rn cmd args input s =
     (let r = virtualBaseResult cmd ''privilege'' 5 95 ''privilege-escalation'' ''privilege escalation attempt'';
          inner = virtualSudoCommandArgs args in
      if args = [] \<or> ''-l'' \<in> set args then Some (r\<lparr>vr_output := sudo_listing s\<rparr>, s)
      else if inner = [] then Some (r, s)
      else if hd inner = ''-i'' \<or> hd inner = ''su'' \<or> (hd inner = ''bash'' \<or> hd inner = ''sh'') \<and> ''-c'' \<notin> set (tl inner) then
        Some (r\<lparr>vr_loop := 1\<rparr>, setVirtualUser ''root'' s)
      else do {
        (r, s) \<leftarrow> rn_one rn 0 (Join inner '' '') input s;
        Some ((at_least 5 95 r)\<lparr>vr_persona := ''privilege-escalation''\<rparr>, s)
      })"

definition cmd_time :: "runner \<Rightarrow> string \<Rightarrow> string list \<Rightarrow> shell \<Rightarrow> outcome option" where
  "cmd_time rn cmd args s =
     (let tab = [CHR 0x09] in
      if args = [] then
        Some (plain cmd ''shell'' 2 72 ''interactive-shell'' ''shell timing builtin''
          (''real'' @ tab @ ''0m0.000s'' @ nl @ ''user'' @ tab @ ''0m0.000s'' @ nl @ ''sys'' @ tab @ ''0m0.000s'') s)
      else do {
        (r, s) \<leftarrow> rn_line rn (Join args '' '') [] s;
        Some ((at_least 5 92 r)
          \<lparr>vr_output := (if vr_output r = [] then [] else vr_output r @ nl) @ nl @ ''real'' @ tab @ ''0m0.043s'' @ nl @ ''user'' @ tab
             @ ''0m0.001s'' @ nl @ ''sys'' @ tab @ ''0m0.028s'',
           vr_name := ''time'', vr_family := ''recon'', vr_persona := ''resource-discovery'',
           vr_message := ''timed storage/resource performance probe''\<rparr>, s)
      })"

fun virtualShellInlineCommand :: "string list \<Rightarrow> string option" where
  "virtualShellInlineCommand [] = None"
| "virtualShellInlineCommand (a # args) =
     (if a \<in> {''-c'', ''-lc'', ''-cl''} \<or> HasPrefix a ''-'' \<and> \<not> HasPrefix a ''--'' \<and> CHR ''c'' \<in> set (tl a)
      then (if args = [] then None else Some (Join args '' '')) else virtualShellInlineCommand args)"

definition fakeInterpreter :: "shellEnv \<Rightarrow> string \<Rightarrow> string list \<Rightarrow> shell \<Rightarrow> outcome" where
  "fakeInterpreter env cmd args s =
     (let r = virtualBaseResult cmd ''execution'' 6 97 ''command-execution'' ''simulated interpreter execution'';
          low = lower env (Join args '' '') in
      (if contains_any [''os.getuid'', ''geteuid''] low then r\<lparr>vr_output := (if user (vw_fs s) = ''root'' then ''0'' else ''1000'')\<rparr>
       else if contains_any [''platform.machine'', ''uname''] low then r\<lparr>vr_output := ''x86_64''\<rparr>
       else if Contains low ''socket.gethostname'' then r\<lparr>vr_output := vw_host s\<rparr>
       else if contains_any [''requests.get'', ''urllib'', ''socket.socket''] low then
         r\<lparr>vr_output := ''connected'', vr_family := ''network'', vr_persona := ''network-tooling'', vr_depth := 6, vr_risk := 98, vr_loop := 1\<rparr>
       else r, s))"

definition fakeInterpreterVersion :: "string \<Rightarrow> shell \<Rightarrow> outcome" where
  "fakeInterpreterVersion cmd s =
     plain cmd ''recon'' 3 82 ''tool-discovery'' ''interpreter version discovery''
       (if cmd = ''bash'' then ''GNU bash, version 5.2.21(1)-release (x86_64-pc-linux-gnu)'' @ nl @ ''Copyright (C) 2022 Free Software Foundation, Inc.''
        else if cmd = ''sh'' \<or> cmd = ''dash'' then ''dash 0.5.12-6ubuntu5''
        else if cmd = ''python'' \<or> cmd = ''python3'' then ''Python 3.12.3''
        else if cmd = ''perl'' then
          ''This is perl 5, version 38, subversion 2 (v5.38.2) built for x86_64-linux-gnu-thread-multi''
        else ''PHP 8.3.6 (cli) (built: Jul 11 2026 09:14:22) (NTS)'') s"

definition unix_shell :: "string \<Rightarrow> bool" where
  "unix_shell cmd \<longleftrightarrow> cmd \<in> {''bash'', ''sh'', ''dash''}"

definition inline_result :: "string \<Rightarrow> virtualSSHResult \<Rightarrow> virtualSSHResult" where
  "inline_result cmd r =
     (at_least 6 98 r)
       \<lparr>vr_name := cmd, vr_family := ''execution'',
        vr_persona := (if vr_persona r = [] then ''command-execution'' else vr_persona r),
        vr_message := (if vr_message r = [] \<or> vr_message r = ''virtual command processed'' then ''simulated shell interpreter command''
                       else vr_message r)\<rparr>"

definition cmd_interpreter :: "shellEnv \<Rightarrow> runner \<Rightarrow> string \<Rightarrow> string list \<Rightarrow> string \<Rightarrow> shell \<Rightarrow> outcome option" where
  "cmd_interpreter env rn cmd args input s =
     (if ''--version'' \<in> set args \<or> ''-V'' \<in> set args \<or> (cmd = ''perl'' \<or> cmd = ''php'') \<and> ''-v'' \<in> set args then
        Some (fakeInterpreterVersion cmd s)
      else
        (case (if unix_shell cmd then virtualShellInlineCommand args else None) of
           Some inner \<Rightarrow> do { (r, s) \<leftarrow> rn_line rn inner input s; Some (inline_result cmd r, s) }
         | None \<Rightarrow>
             Some (if input \<noteq> [] \<and> unix_shell cmd then fakeExecute env ''stdin-script'' s
                   else if args \<noteq> [] then
                     (let script = firstNonOption args in
                      if (case read_file env s script of None \<Rightarrow> False | Some c \<Rightarrow> c \<noteq> []) then fakeExecute env script s
                      else fakeInterpreter env cmd args s)
                   else (virtualBaseResult cmd ''shell'' 5 94 ''execution'' ''secondary interpreter requested'', s))))"

section \<open>Hosts behind the host\<close>

fun ssh_destination :: "string list \<Rightarrow> (string \<times> string list) option" where
  "ssh_destination [] = None"
| "ssh_destination (a # args) =
     (if a \<in> set [''-b'', ''-c'', ''-D'', ''-E'', ''-F'', ''-i'', ''-J'', ''-L'', ''-l'', ''-m'', ''-O'', ''-o'', ''-p'', ''-Q'', ''-R'', ''-S'', ''-W'', ''-w'']
      then (case args of [] \<Rightarrow> None | _ # rest \<Rightarrow> ssh_destination rest)
      else if HasPrefix a ''-'' then ssh_destination args else Some (a, args))"

text \<open>\<open>Format ("Mon Jan _2 15:04:05 2006")\<close>; the first of January of the year 1 was a Monday.\<close>

definition ANSIC :: "gotime \<Rightarrow> string" where
  "ANSIC t =
     (case civil (t div day_ns) of (y, m, d) \<Rightarrow>
        let s = t mod day_ns in
        [''Mon'', ''Tue'', ''Wed'', ''Thu'', ''Fri'', ''Sat'', ''Sun''] ! nat (t div day_ns mod 7) @ '' ''
        @ [''Jan'', ''Feb'', ''Mar'', ''Apr'', ''May'', ''Jun'', ''Jul'', ''Aug'', ''Sep'', ''Oct'', ''Nov'', ''Dec''] ! nat (m - 1) @ '' ''
        @ pad_left 2 (Itoa d) @ '' '' @ zero_pad 2 (s div hour) @ '':'' @ zero_pad 2 (s mod hour div minute) @ '':''
        @ zero_pad 2 (s mod minute div second) @ '' '' @ zero_pad 4 y)"

definition session_names :: "string list" where
  "session_names = [''USER'', ''LOGNAME'', ''HOME'', ''PWD'', ''HOSTNAME'']"

definition enter_host :: "string \<Rightarrow> string \<Rightarrow> string \<Rightarrow> shell \<Rightarrow> shell" where
  "enter_host name host dir s =
     (let s = s\<lparr>vw_fs := (vw_fs s)\<lparr>user := safeVirtualName name, cwd := dir\<rparr>, vw_host := host\<rparr> in
      set_env ''HOSTNAME'' host (set_names s))"

definition leave_host :: "shell \<Rightarrow> shell \<Rightarrow> shell" where
  "leave_host outer s =
     (let s = s\<lparr>vw_fs := (vw_fs s)\<lparr>user := user (vw_fs outer), cwd := cwd (vw_fs outer)\<rparr>, vw_host := vw_host outer\<rparr> in
      fold (\<lambda>k. set_env k (get_env outer k)) session_names s)"

definition remote_account :: "lureHost \<Rightarrow> string \<Rightarrow> string" where
  "remote_account h name =
     (if name \<noteq> [] then name else if lh_role h = ''backup'' then ''svc-backup'' else if lh_role h = ''git'' then ''git'' else ''admin'')"

definition remote_dir :: "lureHost \<Rightarrow> string \<Rightarrow> string" where
  "remote_dir h name =
     (if lh_role h = ''backup'' then ''/var/lib/backup'' else if lh_role h = ''git'' then ''/srv/git''
      else if lh_role h = ''operations'' then ''/home/admin''
      else if name = ''root'' then ''/root'' else ''/home/'' @ safeVirtualName name)"

definition seed_git :: "shellEnv \<Rightarrow> lureHost \<Rightarrow> shell \<Rightarrow> shell" where
  "seed_git env h s =
     (if lh_role h = ''git'' then
        put_file env (''/srv/git/README'', ''Git service account. Interactive access is restricted.'' @ nl
          @ ''Repositories: platform/web platform/worker ops/backup-agent'' @ nl) (put_dir ''/srv/git'' s)
      else s)"

definition greeting :: "shellEnv \<Rightarrow> lureHost \<Rightarrow> string \<Rightarrow> string" where
  "greeting env h host =
     ''Warning: Permanently added '' @ in_quotes host @ '' (ED25519) to the list of known hosts.'' @ nl @ ''Welcome to ''
     @ (if lh_role h = ''operations'' then ''Ubuntu 24.04.3 LTS (GNU/Linux 6.8.0-64-generic x86_64)''
        else ''Ubuntu 22.04.5 LTS (GNU/Linux 5.15.0-139-generic x86_64)'') @ nl
     @ ''Last login: '' @ ANSIC (se_clock env - 2 * hour - 3 * minute) @ '' from 10.10.30.21''"

definition nested_session :: "runner \<Rightarrow> shellEnv \<Rightarrow> lureHost \<Rightarrow> string \<Rightarrow> string \<Rightarrow> string \<Rightarrow> virtualSSHResult \<Rightarrow> shell \<Rightarrow> outcome option" where
  "nested_session rn env h host name cmd r s0 =
     (let s = seed_git env h s0; dir = remote_dir h name in
      if cmd \<noteq> [] then
        do {
          (remote, s') \<leftarrow> rn_line rn cmd [] (enter_host name (lh_name h) dir s);
          let n = safeVirtualName name;
          Some (says (if vr_output remote = [] \<and> cmd = ''id'' then ''uid=998('' @ n @ '') gid=998('' @ n @ '') groups=998('' @ n @ '')''
                      else vr_output remote) (vr_status remote) r, leave_host s s')
        }
      else
        (let s = s\<lparr>vw_nested := vw_nested s @ [\<lparr>cx_user = user (vw_fs s), cx_host = vw_host s, cx_cwd = cwd (vw_fs s)\<rparr>]\<rparr> in
         Some (r\<lparr>vr_output := greeting env h host\<rparr>, put_dir dir (enter_host name (lh_name h) dir s))))"

definition fakeNestedSSH :: "runner \<Rightarrow> shellEnv \<Rightarrow> string list \<Rightarrow> shell \<Rightarrow> outcome option" where
  "fakeNestedSSH rn env args s =
     (let r = (virtualBaseResult ''ssh'' ''lateral'' 7 100 ''lateral-movement'' ''simulated lateral SSH movement'')
                \<lparr>vr_loop := 1, vr_delay := 500 * millisecond\<rparr> in
      if ''-V'' \<in> set args then
        Some (r\<lparr>vr_family := ''recon'', vr_depth := 3, vr_risk := 82, vr_persona := ''tool-discovery'', vr_loop := 0, vr_delay := 0,
                vr_output := ''OpenSSH_9.6p1 Ubuntu-3ubuntu13.13, OpenSSL 3.0.13 30 Jan 2024''\<rparr>, s)
      else
        (case ssh_destination args of
           None \<Rightarrow> Some (says ''usage: ssh [-46AaCfGgKkMNnqsTtVvXxYy] destination [command [argument ...]]'' 255 r, s)
         | Some (target, rest) \<Rightarrow>
             (let (name, host0) = (case LastIndexByte target (CHR ''@'') of Some i \<Rightarrow> (take i target, drop (i + 1) target) | None \<Rightarrow> ([], target));
                  host = trim_chars ''[]'' host0;
                  refuse = (\<lambda>problem. Some (says (''ssh: connect to host '' @ host @ '' port 22: '' @ problem) 255 r, s))
              in if target = [] then
                   Some (says ''usage: ssh [-46AaCfGgKkMNnqsTtVvXxYy] destination [command [argument ...]]'' 255 r, s)
                 else (case Resolve env host of
                         None \<Rightarrow> refuse ''Connection timed out''
                       | Some h \<Rightarrow>
                           if lh_role h \<in> {''database'', ''cache'', ''registry''} then refuse ''Connection refused''
                           else nested_session rn env h host (remote_account h name) (Join rest '' '') r s))))"

section \<open>Credentials in a command\<close>

definition virtualUserExists :: "string \<Rightarrow> shell \<Rightarrow> bool" where
  "virtualUserExists name s \<longleftrightarrow>
     list_ex (\<lambda>row. HasPrefix row (safeVirtualName name @ '':'')) (SplitByte (lookup_or [] (files (vw_fs s)) ''/etc/passwd'') (CHR 0x0A))"

primrec replace_row :: "string \<Rightarrow> string \<Rightarrow> string list \<Rightarrow> string list option" where
  "replace_row front row [] = None"
| "replace_row front row (r # rs) = (if HasPrefix r front then Some (row # rs) else map_option (Cons r) (replace_row front row rs))"

definition epoch_seconds :: "gotime \<Rightarrow> int" where
  "epoch_seconds t = t div second - 62135596800"

text \<open>\<open>token\<close> is the hexadecimal form of the first twelve bytes of the digest.\<close>

definition updateVirtualShadowPassword :: "shellEnv \<Rightarrow> string \<Rightarrow> string \<Rightarrow> shell \<Rightarrow> shell" where
  "updateVirtualShadowPassword env name0 secret s =
     (let name = safeVirtualName name0; f = ''/etc/shadow'';
          token = hex_encode (take 12 (se_sha env (vw_peer s @ ''|'' @ name @ ''|'' @ secret)));
          row = name @ '':$y$j9T$'' @ take 8 token @ ''$'' @ drop 8 token @ '':''
                @ Itoa (go_div (epoch_seconds (se_clock env)) 86400) @ '':0:99999:7:::'' in
      case replace_row (name @ '':'') row (SplitByte (TrimSuffix (lookup_or [] (files (vw_fs s)) f) nl) (CHR 0x0A)) of
        None \<Rightarrow> s
      | Some rows \<Rightarrow>
          (let content = Join rows nl @ nl; m = lookup_or zero_meta (fileMeta (vw_fs s)) f in
           on_fs (\<lambda>w. w\<lparr>files := AList.update f content (files w),
                        fileMeta := AList.update f (m\<lparr>m_mtime := se_clock env, m_size := int (length content)\<rparr>) (fileMeta w)\<rparr>) s))"

definition add_key :: "shellEnv \<Rightarrow> string \<Rightarrow> shell \<Rightarrow> shell" where
  "add_key env key s =
     (let dir = PathJoin (homeDir (vw_fs s)) ''.ssh''; f = PathJoin dir ''authorized_keys'';
          old = lookup_or [] (files (vw_fs s)) f;
          s = on_fs (deep_dir dir) s;
          s = put_file env (f, if Contains old (TrimSpace key) then old else old @ TrimSpace key @ nl) s
      in set_mode f 0x180 (set_mode dir 0x1C0 s))"

text \<open>The mutex of the shared maps is locked before they are written: a session that holds it waits for ever.\<close>

definition locked :: "shell \<Rightarrow> outcome \<Rightarrow> attempt" where
  "locked s p = (if vw_held s then None else handled (Some p))"

definition applyCompoundCredentialState :: "shellEnv \<Rightarrow> string \<Rightarrow> shell \<Rightarrow> attempt" where
  "applyCompoundCredentialState env raw s =
     (case se_chpasswd env raw of
        Some (name0, secret) \<Rightarrow>
          (let name = safeVirtualName name0 in
           if \<not> virtualUserExists name s then
             Some (Some (says (''chpasswd: (user '' @ name @ '') pam_chauthtok() failed, error:'') 1
               (virtualBaseResult ''chpasswd'' ''credentials'' 6 96 ''credential-persistence'' ''account credential modification'')), s)
           else locked s (virtualBaseResult ''chpasswd'' ''credentials'' 7 100 ''credential-persistence'' ''account credential persistence'',
                          updateVirtualShadowPassword env name secret s))
      | None \<Rightarrow>
          (case (if Contains (lower env raw) ''authorized_keys'' then se_key env raw else None) of
             None \<Rightarrow> unhandled s
           | Some key \<Rightarrow>
               locked s (virtualBaseResult ''ssh-key'' ''persistence'' 7 100 ''credential-persistence'' ''SSH authorized key persistence'',
                         add_key env key s)))"

section \<open>The other commands\<close>

definition deepRealityCommand :: "string \<Rightarrow> string list \<Rightarrow> shell \<Rightarrow> outcome option" where
  "deepRealityCommand cmd args s =
     (let virt = virtualBaseResult cmd ''recon'' 5 94 ''anti-fingerprint'' ''virtualization environment probe'' in
      if cmd = ''systemd-detect-virt'' then
        Some (if ''--vm'' \<in> set args \<or> args = [] then virt\<lparr>vr_output := ''kvm''\<rparr>
              else if ''--container'' \<in> set args then virt\<lparr>vr_status := 1\<rparr> else virt, s)
      else if cmd = ''virt-what'' then Some (virt\<lparr>vr_output := ''kvm''\<rparr>, s)
      else if cmd = ''tty'' then Some (plain cmd ''recon'' 4 90 ''anti-fingerprint'' ''TTY probe'' ''/dev/pts/0'' s)
      else None)"

definition busybox_applets :: "string list" where
  "busybox_applets = [''cat'', ''cut'', ''echo'', ''grep'', ''head'', ''sed'', ''tail'', ''tr'', ''uname'', ''wc'']"

definition cmd_busybox :: "runner \<Rightarrow> string \<Rightarrow> string list \<Rightarrow> string \<Rightarrow> shell \<Rightarrow> outcome option" where
  "cmd_busybox rn cmd args input s =
     (let r = virtualBaseResult cmd ''recon'' 3 84 ''tool-discovery'' ''busybox applet use'' in
      if args = [] then
        Some (r\<lparr>vr_output := ''BusyBox v1.36.1 (Ubuntu 1:1.36.1-6ubuntu3.1) multi-call binary.'' @ nl
                @ ''Currently defined functions: cat, cut, echo, grep, head, sed, tail, tr, uname, wc''\<rparr>, s)
      else if hd args \<notin> set busybox_applets then Some (says ''busybox: applet not found'' 127 r, s)
      else rn_one rn 0 (Join args '' '') input s)"

definition cmd_xargs :: "runner \<Rightarrow> string \<Rightarrow> string list \<Rightarrow> string \<Rightarrow> shell \<Rightarrow> outcome option" where
  "cmd_xargs rn cmd args input s =
     (let words = Join (Fields input) '' '' in
      if args = [] then Some (plain cmd ''execution'' 5 93 ''command-execution'' ''pipeline command construction'' words s)
      else do {
        (r, s) \<leftarrow> rn_one rn 0 (Join args '' '' @ '' '' @ words) [] s;
        Some (r\<lparr>vr_depth := max 5 (vr_depth r)\<rparr>, s)
      })"

primrec source_lines :: "runner \<Rightarrow> string list \<Rightarrow> virtualSSHResult \<Rightarrow> string list \<Rightarrow> shell \<Rightarrow> (virtualSSHResult \<times> string list \<times> shell) option" where
  "source_lines rn [] r outs s = Some (r, outs, s)"
| "source_lines rn (l # ls) r outs s =
     (let line = TrimSpace l in
      if line = [] \<or> HasPrefix line ''#'' then source_lines rn ls r outs s
      else do {
        (res, s) \<leftarrow> rn_line rn line [] s;
        let outs = add_output res outs;
        let r = r\<lparr>vr_status := vr_status res\<rparr>;
        (if vr_exit res then Some (r, outs, s) else source_lines rn ls r outs s)
      })"

definition cmd_source :: "shellEnv \<Rightarrow> runner \<Rightarrow> string \<Rightarrow> string list \<Rightarrow> shell \<Rightarrow> outcome option" where
  "cmd_source env rn cmd args s =
     (let r = virtualBaseResult cmd ''execution'' 6 96 ''script-execution'' ''virtual shell script sourced''; f = lastNonOption args in
      if 8 \<le> vw_source s then
        Some ((says ''bash: source: maximum virtual source depth exceeded'' 1 r)
                \<lparr>vr_persona := ''resource-abuse'', vr_message := ''virtual source recursion bounded''\<rparr>, s)
      else
        (case read_file env s f of
           None \<Rightarrow> Some (says (''bash: '' @ f @ '': No such file or directory'') 1 r, s)
         | Some content \<Rightarrow>
             do {
               (r, outs, s) \<leftarrow> source_lines rn (take 24 (SplitByte content (CHR 0x0A))) r [] (s\<lparr>vw_source := vw_source s + 1\<rparr>);
               Some (r\<lparr>vr_output := Join outs nl, vr_loop := 1\<rparr>, s\<lparr>vw_source := vw_source s - 1\<rparr>)
             }))"

text \<open>The commands whose text is left to \<open>se_command\<close>; any other name is not a command.\<close>

definition text_commands :: "string list" where
  "text_commands =
     [''date'', ''uptime'', ''timedatectl'', ''ls'', ''dir'', ''stat'', ''file'', ''du'', ''df'', ''free'', ''mount'', ''ps'', ''top'', ''ip'', ''ifconfig'',
      ''route'', ''ss'', ''netstat'', ''last'', ''w'', ''who'', ''systemctl'', ''service'', ''journalctl'', ''docker'', ''kubectl'', ''curl'', ''wget'',
      ''scp'', ''ping'', ''nc'', ''netcat'', ''ncat'', ''telnet'', ''dd'', ''htop'', ''vim'', ''vi'', ''view'', ''nano'', ''help'', ''stty'', ''dmidecode'']"

definition tool_commands :: "string list" where
  "tool_commands =
     [''pgrep'', ''pidof'', ''lspci'', ''ulimit'', ''getent'', ''lsb_release'', ''hostnamectl'', ''nvidia-smi'', ''lscpu'', ''lsblk'', ''blkid'', ''lsof'',
      ''dmesg'', ''lsmod'', ''sysctl'', ''getcap'', ''capsh'', ''readlink'', ''realpath'', ''mktemp'', ''sha256sum'', ''md5sum'', ''base64'', ''xxd'',
      ''strings'', ''tr'', ''sed'', ''awk'', ''tar'', ''gzip'', ''gunzip'', ''zcat'', ''zip'', ''unzip'', ''git'', ''apt'', ''apt-get'', ''dpkg'', ''openssl'',
      ''sleep'', ''tmux'', ''screen'', ''man'', ''psql'', ''dig'', ''nslookup'', ''host'', ''arp'', ''iptables'', ''nft'', ''ufw'', ''traceroute'',
      ''tracepath'', ''rsync'', ''sftp'', ''socat'', ''redis-cli'', ''mysql'', ''mariadb'', ''node'', ''npm'', ''go'', ''gcc'', ''cc'', ''make'', ''ldd'',
      ''readelf'', ''objdump'', ''strace'', ''passwd'']"

definition executeExtraCommand :: "shellEnv \<Rightarrow> runner \<Rightarrow> string \<Rightarrow> string list \<Rightarrow> string \<Rightarrow> string \<Rightarrow> shell \<Rightarrow> attempt" where
  "executeExtraCommand env rn cmd args raw input s0 =
     or_else (applyCompoundCredentialState env raw s0)
       (\<lambda>s. case deepRealityCommand cmd args s of
              Some p \<Rightarrow> handled (Some p)
            | None \<Rightarrow>
                if cmd = ''busybox'' then handled (cmd_busybox rn cmd args input s)
                else if cmd = ''xargs'' then handled (cmd_xargs rn cmd args input s)
                else if cmd = ''source'' \<or> cmd = ''.'' then handled (cmd_source env rn cmd args s)
                else (case extra_commands env cmd args input s of
                        Some p \<Rightarrow> handled (Some p)
                      | None \<Rightarrow>
                          if cmd \<in> set tool_commands \<or> cmd = ''stty'' \<or> cmd = ''dmidecode'' then handled (Some (se_command env cmd args raw input s))
                          else unhandled s))"

definition run_switch :: "shellEnv \<Rightarrow> runner \<Rightarrow> string \<Rightarrow> string list \<Rightarrow> string \<Rightarrow> string \<Rightarrow> shell \<Rightarrow> outcome option" where
  "run_switch env rn cmd args raw input s =
     (case first_commands env cmd args raw input s of
        Some p \<Rightarrow> Some p
      | None \<Rightarrow>
          if cmd = ''env'' then
            (if args = [] then
               Some (plain cmd ''credentials'' 4 90 ''credential-hunter'' ''environment discovery'' (virtualEnvOutput [] s) s)
             else executeVirtualEnv rn args input s)
          else if cmd = ''sudo'' then cmd_sudo rn cmd args input s
          else if cmd = ''time'' then cmd_time rn cmd args s
          else if cmd = ''ssh'' then fakeNestedSSH rn env args s
          else if cmd \<in> {''bash'', ''sh'', ''dash'', ''python'', ''python3'', ''perl'', ''php''} then cmd_interpreter env rn cmd args input s
          else if cmd \<in> set text_commands then Some (se_command env cmd args raw input s)
          else do {
            (r, s) \<leftarrow> executeExtraCommand env rn cmd args raw input s;
            (case r of
               Some r \<Rightarrow> Some (r, s)
             | None \<Rightarrow> Some (says (virtualCommandNotFound cmd) 127
                 (virtualBaseResult cmd ''other'' (max 3 (vw_depth s)) 80 ''interactive-shell'' ''unknown command''), s))
          })"

section \<open>One command\<close>

primrec assign_words :: "string list \<Rightarrow> shell \<Rightarrow> bool \<times> shell" where
  "assign_words [] s = (True, s)"
| "assign_words (w # ws) s =
     (case CutByte w (CHR ''='') of (name, v, ok) \<Rightarrow>
        if ok \<and> validVirtualEnvName name then assign_words ws (set_env name v s) else (False, s))"

definition spend :: "shell \<Rightarrow> shell" where
  "spend s = s\<lparr>vw_ops := vw_ops s + 1\<rparr>"

definition exhausted :: "string \<Rightarrow> shell \<Rightarrow> virtualSSHResult" where
  "exhausted cmd s =
     (says ''Connection reset by peer'' 255
        (virtualBaseResult cmd ''limit'' (max 2 (vw_depth s)) 98 ''resource-abuse'' ''virtual command budget exhausted''))\<lparr>vr_exit := True\<rparr>"

definition run_words :: "shellEnv \<Rightarrow> runner \<Rightarrow> nat \<Rightarrow> string list \<Rightarrow> string \<Rightarrow> string \<Rightarrow> shell \<Rightarrow> outcome option" where
  "run_words env rn depth words raw input s0 =
     (let cmd = Base (hd words); alias = lookup_or [] (vw_aliases s0) cmd; s = spend s0 in
      if alias \<noteq> [] \<and> alias \<noteq> cmd then
        (if 8 \<le> depth then
           Some (says (''bash: '' @ cmd @ '': alias expansion limit exceeded'') 1
             (virtualBaseResult cmd ''shell'' (max 2 (vw_depth s0)) 88 ''resource-abuse'' ''virtual alias expansion bounded''), s0)
         else rn_one rn (depth + 1) (TrimSpace (alias @ '' '' @ TrimSpace (TrimPrefix raw (hd words)))) input s0)
      else if maxVirtualOps < vw_ops s then Some (exhausted cmd s, s)
      else (case run_path env (hd words) s of
              Some p \<Rightarrow> Some p
            | None \<Rightarrow> run_switch env rn cmd (tl words) raw input s))"

text \<open>What follows the assignments in front of a command.\<close>

definition run_rest :: "shellEnv \<Rightarrow> runner \<Rightarrow> nat \<Rightarrow> string \<Rightarrow> string \<Rightarrow> shell \<Rightarrow> outcome option" where
  "run_rest env rn depth raw input s =
     (let assignment = assigned ''interactive-shell'' ''environment assignment'' 76 s in
      case unwrapVirtualGroup raw of
        Some inner \<Rightarrow> rn_group rn inner s
      | None \<Rightarrow>
          (case splitVirtualAssignment raw of
             Some (name, v) \<Rightarrow> Some (assignment, set_env name (unquoteVirtualAssignmentValue v) s)
           | None \<Rightarrow>
               (let words = virtualWords raw; (all, s) = assign_words words s in
                if words = [] then Some (no_result, s)
                else if all then Some (assignment, s)
                else run_words env rn depth words raw input s)))"

definition executeOneDepth :: "shellEnv \<Rightarrow> runner \<Rightarrow> nat \<Rightarrow> string \<Rightarrow> string \<Rightarrow> shell \<Rightarrow> outcome option" where
  "executeOneDepth env rn depth raw0 input s =
     (let raw = TrimSpace raw0 in
      do {
        (r, s) \<leftarrow> executeVirtualCapturedAssignment rn raw s;
        (case r of
           Some r \<Rightarrow> Some (r, s)
         | None \<Rightarrow>
             (case virtualCommandEnvPrefix raw of (rest, assigns) \<Rightarrow>
                if assigns = [] then run_rest env rn depth raw input s
                else do {
                  (old, s) \<leftarrow> applyTemporaryEnv rn assigns [] s;
                  (if rest = [] then Some (assigned ''interactive-shell'' ''environment assignment'' 76 s, s)
                   else do {
                     (r, s) \<leftarrow> run_rest env rn depth rest input s;
                     Some (r, restoreTemporaryEnv old s)
                   })
                }))
      })"

section \<open>One line\<close>

definition finish :: "shellEnv \<Rightarrow> string \<Rightarrow> outcome \<Rightarrow> outcome" where
  "finish env line p = (fst p, (adaptToBehavior env (vr_family (fst p)) line (snd p))\<lparr>vw_status := vr_status (fst p)\<rparr>)"

definition virtualFixedGrepNeedle :: "string \<Rightarrow> string" where
  "virtualFixedGrepNeedle line =
     (case LastIndexOf line ''grep -F'' of
        None \<Rightarrow> []
      | Some i \<Rightarrow>
          (let words = tl (virtualWords (drop i line)) in
           case first_some (map2 (\<lambda>w next. if w = ''-F'' \<and> next \<noteq> None then next
                                      else if HasPrefix w ''-F'' \<and> 2 < length w then Some (TrimPrefix w ''-F'') else None)
                            words (map Some (tl words) @ [None])) of
             Some v \<Rightarrow> v | None \<Rightarrow> []))"

definition executeEscapedSemicolonChain :: "shellEnv \<Rightarrow> string \<Rightarrow> shell \<Rightarrow> virtualSSHResult option" where
  "executeEscapedSemicolonChain env line s =
     (if \<not> Contains (lower env line) ''crontab'' then None
      else (case IndexAt line (''|| '' @ [CHR 0x5C, CHR '';'']) of
              None \<Rightarrow> None
            | Some (left, _) \<Rightarrow>
                (let needle = virtualFixedGrepNeedle (TrimSpace left) in
                 Some (if needle \<noteq> [] \<and> Contains (vw_crontab_text s) needle then
                         virtualBaseResult ''grep'' ''persistence'' (max 5 (vw_depth s)) 94 ''persistence'' ''scheduled task presence check''
                       else says ''bash: ;: command not found'' 127
                         (virtualBaseResult '';'' ''persistence'' (max 6 (vw_depth s)) 97 ''persistence''
                            ''scheduled task modification failed on malformed shell chain'')))))"

definition virtualCommandConsumesInput :: "shellEnv \<Rightarrow> string \<Rightarrow> bool" where
  "virtualCommandConsumesInput env line \<longleftrightarrow>
     contains_any [''cat >'', ''cat  >'', ''crontab -'', ''bash -s'', ''sh -s''] (lower env line)"

definition combine :: "virtualSSHResult \<Rightarrow> virtualSSHResult \<Rightarrow> virtualSSHResult" where
  "combine r c =
     (let c = c\<lparr>vr_status := vr_status r, vr_exit := vr_exit r, vr_interactive := vr_interactive r, vr_target := vr_target r,
                vr_action := vr_action r\<rparr>;
          c = (if vr_stage r \<noteq> [] then c\<lparr>vr_stage := vr_stage r, vr_path := vr_path r, vr_relation := vr_relation r\<rparr> else c);
          c = (if 0 < vr_stdin_bytes r then
                 c\<lparr>vr_stdin_bytes := vr_stdin_bytes r, vr_stdin_sha := vr_stdin_sha r, vr_stdin_kind := vr_stdin_kind r\<rparr> else c);
          c = leading r c
      in c\<lparr>vr_delay := vr_delay c + vr_delay r, vr_loop := (if 0 < vr_loop r then vr_loop c + vr_loop r else vr_loop c)\<rparr>)"

definition note_result :: "virtualSSHResult \<Rightarrow> shell \<Rightarrow> shell" where
  "note_result r s =
     (let s = s\<lparr>vw_status := vr_status r\<rparr>;
          s = (if 0 < vr_loop r then s\<lparr>vw_loop := vw_loop s + vr_loop r, vw_frustration := min 10 (vw_frustration s + vr_loop r)\<rparr> else s)
      in if vw_depth s < vr_depth r then s\<lparr>vw_depth := vr_depth r\<rparr> else s)"

definition ends_line :: "virtualSSHResult \<Rightarrow> bool" where
  "ends_line r \<longleftrightarrow> vr_exit r \<or> vr_interactive r \<noteq> [] \<or> vr_action r = ''break'' \<or> vr_action r = ''continue''"

primrec chain_steps ::
  "shellEnv \<Rightarrow> runner \<Rightarrow> string \<Rightarrow> chainPart list \<Rightarrow> int \<Rightarrow> bool \<Rightarrow> virtualSSHResult \<Rightarrow> string \<Rightarrow> shell
     \<Rightarrow> (bool \<times> virtualSSHResult \<times> string \<times> shell) option" where
  "chain_steps env rn input [] status executed combined out s = Some (executed, combined, out, s)"
| "chain_steps env rn input (p # ps) status executed combined out s =
     (if skipped p status then chain_steps env rn input ps status executed combined out s
      else do {
        let cmd = TrimSpace (command p);
        (cmd, r, s) \<leftarrow> run_command rn cmd (if virtualCommandConsumesInput env cmd \<or> \<not> executed then input else []) s;
        let (r, s) = (if background p then backgroundResult env cmd r s else (r, s));
        let s = note_result r (adaptToBehavior env (vr_family r) cmd s);
        let combined = combine r combined;
        let out = out @ worded (vr_output r);
        (if ends_line r then Some (True, combined, out, s)
         else chain_steps env rn input ps (vr_status r) True combined out s)
      })"

definition run_chain :: "shellEnv \<Rightarrow> runner \<Rightarrow> string \<Rightarrow> string \<Rightarrow> shell \<Rightarrow> outcome option" where
  "run_chain env rn line input s =
     do {
       (executed, combined, out, s) \<leftarrow>
         chain_steps env rn input (splitVirtualChain line) 0 False (virtualBaseResult [] ''other'' 0 70 [] ''virtual command processed'') [] s;
       let combined = normalizeVirtualResourceIntent env line (combined\<lparr>vr_output := TrimSuffix out nl\<rparr>);
       let combined = (if vr_depth combined = 0 then combined\<lparr>vr_depth := max 2 (vw_depth s)\<rparr> else combined);
       Some (combined, if executed then s\<lparr>vw_status := vr_status combined\<rparr> else s)
     }"

definition executeWithInput :: "shellEnv \<Rightarrow> runner \<Rightarrow> string \<Rightarrow> string \<Rightarrow> shell \<Rightarrow> outcome option" where
  "executeWithInput env rn line0 input s =
     (let line = TrimSpace line0 in
      if line = [] then Some (no_result, s)
      else do {
        s \<leftarrow> (if looksLikeMinerCleanupSequence (lower env line)
               then seedDropperExecutionTargets env line (seedMinerCleanupLures env s) else Some s);
        let s = observeRealityProbe env line s;
        (case executeKnownEnvironmentCollector env line s of
           Some p \<Rightarrow> Some (finish env line p)
         | None \<Rightarrow>
             do {
               cleanup \<leftarrow> executeKnownResourceCleanup env line s;
               (case cleanup of
                  Some p \<Rightarrow> Some (finish env line p)
                | None \<Rightarrow>
                    (case executeEscapedSemicolonChain env line s of
                       Some r \<Rightarrow> Some (finish env line (r, s))
                     | None \<Rightarrow>
                         do {
                           (r, s) \<leftarrow> or_else (executeVirtualControlFlow rn line input s) (executeEmbeddedVirtualIf rn line input);
                           (case r of
                              Some r \<Rightarrow> Some (finish env line (r, s))
                            | None \<Rightarrow> run_chain env rn line input s)
                         }))
             })
      })"

section \<open>The interpreter\<close>

definition nothing :: runner where
  "nothing = \<lparr>rn_line = (\<lambda>line input s. None), rn_pipe = (\<lambda>line input s. None), rn_group = (\<lambda>inner s. None),
     rn_one = (\<lambda>depth raw input s. None), rn_expand = (\<lambda>line s. None)\<rparr>"

definition step :: "shellEnv \<Rightarrow> runner \<Rightarrow> runner" where
  "step env rn = \<lparr>rn_line = executeWithInput env rn, rn_pipe = executePipeline env rn, rn_group = executeGrouped rn,
     rn_one = executeOneDepth env rn, rn_expand = expandVirtualLine rn\<rparr>"

primrec run :: "shellEnv \<Rightarrow> nat \<Rightarrow> runner" where
  "run env 0 = nothing"
| "run env (Suc n) = step env (run env n)"

text \<open>\<open>Execute\<close> of a line without input.\<close>

definition Execute :: "shellEnv \<Rightarrow> nat \<Rightarrow> string \<Rightarrow> shell \<Rightarrow> outcome option" where
  "Execute env n line s = rn_line (run env n) line [] s"

end
