(* ===== verification/ShellReach.thy ===== *)
theory ShellReach
  imports ShellRun VfsProofs
begin

text \<open>
  What a command can do to a session that holds the lock, stated once for every command: the disk changes
  only by the primitive operations of the filesystem (\<open>fs_step\<close>), the count of executed commands does not
  fall, and the lock and the two depth counters are as before (\<open>reaches\<close>).
\<close>

section \<open>The relation\<close>

inductive fs_step :: "world \<Rightarrow> world \<Rightarrow> bool" where
  put: "fs_step w (fst (setVirtualFile uni now t c w))"
| extend: "fs_step w (fst (appendVirtualFile uni now t c w))"
| unlink: "fs_step w (deleteVirtualFile t w)"
| seed: "p \<in> set deep_files \<Longrightarrow> fs_step w (deep_file now p w)"
| same: "files w' = files w \<Longrightarrow> fs_step w w'"

definition reaches :: "shell \<Rightarrow> shell \<Rightarrow> bool" where
  "reaches s s' \<longleftrightarrow>
     (vw_held s \<longrightarrow> fs_step\<^sup>*\<^sup>* (vw_fs s) (vw_fs s')) \<and> vw_held s' = vw_held s \<and> vw_ops s \<le> vw_ops s' \<and>
     vw_subst s' = vw_subst s \<and> vw_source s' = vw_source s"

named_theorems reach_intros

lemma reaches_refl [simp, intro]: "reaches s s"
  by (simp add: reaches_def)

lemma reaches_trans [trans]: "reaches s t \<Longrightarrow> reaches t u \<Longrightarrow> reaches s u"
  by (auto simp: reaches_def)

lemma reaches_fields [simp]:
  "reaches s (t\<lparr>vw_env := e\<rparr>) = reaches s t" "reaches s (t\<lparr>vw_aliases := a\<rparr>) = reaches s t"
  "reaches s (t\<lparr>vw_history := h\<rparr>) = reaches s t" "reaches s (t\<lparr>vw_history_cleared := b\<rparr>) = reaches s t"
  "reaches s (t\<lparr>vw_nested := n\<rparr>) = reaches s t" "reaches s (t\<lparr>vw_host := hn\<rparr>) = reaches s t"
  "reaches s (t\<lparr>vw_depth := i\<rparr>) = reaches s t" "reaches s (t\<lparr>vw_loop := i\<rparr>) = reaches s t"
  "reaches s (t\<lparr>vw_frustration := i\<rparr>) = reaches s t" "reaches s (t\<lparr>vw_status := i\<rparr>) = reaches s t"
  "reaches s (t\<lparr>vw_interests := m\<rparr>) = reaches s t" "reaches s (t\<lparr>vw_probe := i\<rparr>) = reaches s t"
  "reaches s (t\<lparr>vw_deep := b\<rparr>) = reaches s t" "reaches s (t\<lparr>vw_processes := p\<rparr>) = reaches s t"
  "reaches s (t\<lparr>vw_jobs := j\<rparr>) = reaches s t" "reaches s (t\<lparr>vw_next_job := i\<rparr>) = reaches s t"
  "reaches s (t\<lparr>vw_next_pid := i\<rparr>) = reaches s t" "reaches s (t\<lparr>vw_crontab := b\<rparr>) = reaches s t"
  "reaches s (t\<lparr>vw_crontab_text := v\<rparr>) = reaches s t"
  by (simp_all add: reaches_def)

lemma fs_one: "fs_step v w \<Longrightarrow> fs_step\<^sup>*\<^sup>* v w"
  by auto

lemma reaches_on_fs [reach_intros]: "reaches s t \<Longrightarrow> (\<And>w. fs_step\<^sup>*\<^sup>* w (f w)) \<Longrightarrow> reaches s (on_fs f t)"
  by (auto simp: reaches_def on_fs_def intro: rtranclp_trans)

lemma reaches_same_files [reach_intros]: "reaches s t \<Longrightarrow> files w = files (vw_fs t) \<Longrightarrow> reaches s (t\<lparr>vw_fs := w\<rparr>)"
  by (auto simp: reaches_def intro: rtranclp.rtrancl_into_rtrancl fs_step.same)

lemma reaches_env [simp]: "reaches s (set_env k v t) = reaches s t"
  by (simp add: set_env_def)

lemma reaches_set_names [simp]: "reaches s (set_names t) = reaches s t"
  by (simp add: set_names_def)

lemma set_env_fs [simp]: "vw_fs (set_env k v t) = vw_fs t"
  by (simp add: set_env_def)

lemma set_names_fs [simp]: "vw_fs (set_names t) = vw_fs t"
  by (simp add: set_names_def)

lemma reaches_file [reach_intros]: "reaches s t \<Longrightarrow> reaches s (fst (set_file env target c t))"
  by (auto simp: reaches_def set_file_def Let_def case_prod_beta' intro: rtranclp.rtrancl_into_rtrancl fs_step.put)

lemma reaches_append [reach_intros]: "reaches s t \<Longrightarrow> reaches s (fst (append_file env target c t))"
  by (auto simp: reaches_def append_file_def Let_def case_prod_beta' intro: rtranclp.rtrancl_into_rtrancl fs_step.extend)

lemma setVirtualDir_files: "files (fst (setVirtualDir t w)) = files w"
  by (simp add: setVirtualDir_def)

lemma reaches_dir [reach_intros]: "reaches s t \<Longrightarrow> reaches s (fst (set_dir target t))"
  unfolding set_dir_def Let_def case_prod_beta' fst_conv by (rule reaches_same_files) (simp_all add: setVirtualDir_files)

lemma reaches_put [reach_intros]:
  "reaches s t \<Longrightarrow> reaches s (put_file env p t)" "reaches s t \<Longrightarrow> reaches s (put_dir d t)"
  by (simp_all add: put_file_def put_dir_def reach_intros)

lemma reaches_mode [reach_intros]: "reaches s t \<Longrightarrow> reaches s (set_mode f m t)"
  unfolding set_mode_def by (intro reaches_on_fs fs_one fs_step.same) simp_all

lemma reaches_delete [reach_intros]: "reaches s t \<Longrightarrow> reaches s (on_fs (deleteVirtualFile f) t)"
  by (intro reaches_on_fs fs_one fs_step.unlink)

lemma reaches_if [reach_intros]: "(b \<Longrightarrow> reaches s t) \<Longrightarrow> (\<not> b \<Longrightarrow> reaches s u) \<Longrightarrow> reaches s (if b then t else u)"
  by simp

lemma reaches_fold [reach_intros]: "reaches s t \<Longrightarrow> (\<And>x u. reaches u (f x u)) \<Longrightarrow> reaches s (fold f xs t)"
  by (induction xs arbitrary: t) (simp, metis fold_simps(2) reaches_trans)

lemma reaches_steps [reach_intros]: "reaches s t \<Longrightarrow> list_all (\<lambda>f. \<forall>u. reaches u (f u)) fs \<Longrightarrow> reaches s (fold (\<lambda>f. f) fs t)"
  by (induction fs arbitrary: t) (auto intro: reaches_trans)

lemma reaches_outcomes: "reaches s (snd p) \<Longrightarrow> (\<And>x q. reaches (snd q) (snd (f x q))) \<Longrightarrow> reaches s (snd (fold f xs p))"
  by (induction xs arbitrary: p) (simp, metis fold_simps(2) reaches_trans)

lemma fs_fold: "(\<And>x w. fs_step\<^sup>*\<^sup>* w (f x w)) \<Longrightarrow> fs_step\<^sup>*\<^sup>* w (fold f xs w)"
  by (induction xs arbitrary: w) (auto intro: rtranclp_trans)

section \<open>Commands\<close>

lemma reaches_user [reach_intros]: "reaches s t \<Longrightarrow> reaches s (setVirtualUser name t)"
  by (auto simp: setVirtualUser_def Let_def intro: reaches_same_files)

lemma reaches_exit: "reaches s (snd (cmd_exit cmd s))"
  by (auto simp: cmd_exit_def Let_def intro!: reaches_same_files)

lemma reaches_cd: "reaches s (snd (cmd_cd cmd args s))"
  by (auto simp: cmd_cd_def Let_def intro!: reaches_same_files)

lemma read_names_reaches: "reaches s t \<Longrightarrow> reaches s (read_names line words single ns t)"
  by (induction ns arbitrary: words t) auto

lemma reaches_read: "reaches s (snd (virtualReadBuiltin args input s))"
  by (auto simp: virtualReadBuiltin_def Let_def intro: read_names_reaches)

lemma reaches_history: "reaches s (snd (cmd_history cmd args s))"
  by (auto simp: cmd_history_def Let_def intro!: reaches_on_fs fs_one fs_step.unlink)

lemma reaches_su: "reaches s (snd (cmd_su cmd s))"
  by (simp add: cmd_su_def reach_intros)

lemma reaches_chmod_step: "reaches (snd p) (snd (chmod_step env arg target p))"
  by (cases p) (auto simp: chmod_step_def Let_def intro: reaches_mode)

lemma reaches_chmod: "reaches s (snd (cmd_chmod env cmd args s))"
  using reaches_outcomes [of s "(r, s)" "chmod_step env (hd args)" "tl args" for r] reaches_chmod_step
  by (auto simp: cmd_chmod_def Let_def case_prod_beta')

lemma reaches_until_full:
  assumes "reaches s (snd p)" and act: "\<And>a u. reaches u (fst (act a u))"
  shows "reaches s (snd (until_full act complain args p))"
  using assms(1)
proof (induction args arbitrary: p)
  case (Cons a args)
  obtain r u where p: "p = (r, u)" by (cases p)
  have "reaches s (fst (act a u))" using Cons.prems act [of u a] by (simp add: p reaches_trans)
  then show ?case
    using Cons.prems Cons.IH [of p] Cons.IH [of "(r, fst (act a u))"] by (simp add: p Let_def case_prod_beta')
qed simp

lemma reaches_mkdir: "reaches s (snd (cmd_mkdir cmd args s))"
  unfolding cmd_mkdir_def by (rule reaches_until_full) (auto intro: reaches_dir)

lemma reaches_touch: "reaches s (snd (cmd_touch env cmd args s))"
  unfolding cmd_touch_def by (rule reaches_until_full) (auto intro: reaches_file)

lemma fs_remove_pattern: "fs_step\<^sup>*\<^sup>* w (removeVirtualPattern raw w)"
proof -
  have files: "fs_step\<^sup>*\<^sup>* v (delete_files P v)" for P v
    unfolding delete_files_def by (rule fs_fold) (auto intro: fs_step.unlink)
  have dirs: "fs_step\<^sup>*\<^sup>* v (delete_dirs P u)" if "fs_step\<^sup>*\<^sup>* v u" for P v u
    using that by (rule rtranclp.rtrancl_into_rtrancl) (simp add: delete_dirs_def fs_step.same)
  show ?thesis
    by (auto simp: removeVirtualPattern_def Let_def intro!: dirs files rtranclp_trans [OF fs_one [OF fs_step.unlink] files])
qed

lemma reaches_rm: "reaches s (snd (cmd_rm cmd args s))"
proof -
  have "reaches (snd p) (snd (rm_step a p))" for a p
    by (cases p) (auto simp: rm_step_def Let_def intro!: reaches_on_fs fs_remove_pattern)
  then show ?thesis unfolding cmd_rm_def by (intro reaches_outcomes) simp_all
qed

lemma reaches_copy: "reaches s (snd (cmd_copy env cmd args s))"
  using reaches_file [OF reaches_refl, of s env]
  by (auto simp: cmd_copy_def Let_def case_prod_beta' split: option.splits intro!: reaches_delete)

lemma reaches_ln: "reaches s (snd (cmd_ln env cmd args s))"
  using reaches_file [OF reaches_refl, of s env]
  by (auto simp: cmd_ln_def Let_def case_prod_beta' split: option.splits)

lemma reaches_tee: "reaches s (snd (cmd_tee env cmd args input s))"
  by (auto simp: cmd_tee_def Let_def case_prod_beta' intro!: reaches_file reaches_append)

lemma reaches_nohup: "reaches s (snd (cmd_nohup env cmd s))"
  by (simp add: cmd_nohup_def reaches_append)

lemma reaches_chattr: "reaches s (snd (cmd_chattr env cmd args s))"
proof -
  have step: "reaches (snd p) (snd (chattr_file env mode f p))" for mode f p
    by (cases p) (auto simp: chattr_file_def Let_def intro!: reaches_on_fs fs_one fs_step.same)
  show ?thesis
    unfolding cmd_chattr_def Let_def case_prod_beta' snd_conv by (rule reaches_outcomes) (simp_all add: step)
qed

lemma reaches_alias: "reaches s (snd (cmd_alias cmd args s))"
proof -
  have "reaches (snd p) (snd (cmd_alias_step a p))" for a p
    by (cases p) (auto simp: cmd_alias_step_def Let_def split: prod.splits option.splits)
  then show ?thesis by (auto simp: cmd_alias_def Let_def intro!: reaches_outcomes)
qed

lemma reaches_unset: "reaches s (snd (cmd_unset cmd args s))"
  by (simp add: cmd_unset_def)

lemma reaches_export: "reaches s (snd (cmd_export cmd args s))"
  by (auto simp: cmd_export_def export_step_def Let_def split: prod.splits intro!: reaches_fold)

section \<open>Processes\<close>

lemma reaches_process [simp]: "reaches s (set_process pid p t) = reaches s t"
  by (simp add: set_process_def)

lemma reaches_new_job [simp]: "reaches s (snd (new_job pid t)) = reaches s t"
  by (simp add: new_job_def)

lemma reaches_started [reach_intros]: "reaches s t \<Longrightarrow> reaches s (snd (startVirtualProcess env cmd as_job t))"
  by (auto simp: startVirtualProcess_def Let_def case_prod_beta' intro!: reaches_on_fs fs_one fs_step.same)

lemma reaches_ensure [reach_intros]: "reaches s t \<Longrightarrow> reaches s (snd (ensureVirtualPayloadProcess env target t))"
  by (auto simp: ensureVirtualPayloadProcess_def Let_def case_prod_beta' split: option.splits intro: reaches_started)

lemma reaches_background: "reaches s t \<Longrightarrow> reaches s (snd (backgroundResult env cmd r t))"
proof -
  assume t: "reaches s t"
  have "reaches s (snd (snd (background_job env cmd first r t)))" for first
    using reaches_ensure [OF t] reaches_started [OF t]
    by (auto simp: background_job_def Let_def case_prod_beta' split: option.splits)
  then show ?thesis using t by (auto simp: backgroundResult_def Let_def case_prod_beta')
qed

lemma reaches_end [simp]: "reaches s (end_process pid t) = reaches s t"
  by (auto simp: end_process_def split: option.splits)

lemma reaches_disown: "reaches s (disownVirtual args s)"
proof -
  have "reaches t (disown_job i t)" for i t
    by (auto simp: disown_job_def Let_def split: option.splits)
  then show ?thesis by (auto simp: disownVirtual_def Let_def intro!: reaches_fold)
qed

lemma reaches_kill: "reaches s (snd (cmd_kill env cmd args s))"
proof -
  have pids: "reaches s t \<Longrightarrow> reaches s (snd (kill_pids xs hit t))" for xs hit t
    by (induction xs hit t rule: kill_pids.induct) (auto simp: Let_def)
  have "reaches s (snd (killVirtualProcesses env pattern s))" for pattern
    by (auto simp: killVirtualProcesses_def Let_def intro!: reaches_fold)
  then show ?thesis using pids [of s]
    by (auto simp: cmd_kill_def Let_def case_prod_beta')
qed

lemma reaches_crontab: "reaches s (snd (cmd_crontab env cmd args input s))"
  by (auto simp: cmd_crontab_def open_crontab_def Let_def intro!: reach_intros fs_one fs_step.unlink)

lemma reaches_test: "reaches s (snd (virtualTest env cmd args s))"
  by (simp add: virtualTest_def Let_def)

lemma reaches_grep: "reaches s (snd (virtualGrep env args input s))"
  by (simp add: virtualGrep_def Let_def case_prod_beta')

lemma reaches_cat: "reaches s (snd (cmd_cat env cmd args input s))"
  by (auto simp: cmd_cat_def Let_def split: option.splits)

lemma reaches_which: "reaches s (snd (cmd_which env cmd args s))" "reaches s (snd (cmd_command env cmd args s))"
  by (auto simp: cmd_which_def cmd_command_def Let_def)

lemma reaches_plain [simp]: "snd (plain cmd family depth risk persona message out s) = s"
  by (simp add: plain_def)

lemma reaches_rest:
  "reaches s (snd (cmd_id cmd s))" "reaches s (snd (cmd_hostname env cmd args s))" "reaches s (snd (cmd_ls cmd args s))"
  "reaches s (snd (cmd_find env cmd raw s))" "reaches s (snd (cmd_printenv cmd args s))"
  "reaches s (snd (cmd_echo cmd args s))" "reaches s (snd (cmd_seq cmd args s))" "reaches s (snd (cmd_expr cmd args s))"
  "reaches s (snd (virtualGetconf args s))" "reaches s (snd (cmd_power cmd s))"
  "reaches s (snd (cmd_editor cmd args program risk message s))"
  "reaches s (snd (cmd_sort env cmd args input s))" "reaches s (snd (cmd_uniq env cmd args input s))"
  "reaches s (snd (cmd_wc env cmd args input s))" "reaches s (snd (cmd_cut env cmd args input s))"
  "reaches s (snd (cmd_lsattr env cmd args s))" "reaches s (snd (cmd_pathname cmd args s))"
  by (simp_all add: cmd_id_def cmd_hostname_def cmd_ls_def cmd_find_def cmd_printenv_def cmd_echo_def cmd_seq_def cmd_expr_def
      virtualGetconf_def cmd_power_def cmd_editor_def cmd_sort_def cmd_uniq_def cmd_wc_def cmd_cut_def cmd_lsattr_def
      cmd_pathname_def Let_def case_prod_beta')

section \<open>Lures and sweeps\<close>

lemma reaches_bump [simp]: "reaches s (bump k n t) = reaches s t"
  by (simp add: bump_def)

lemma reaches_upon [reach_intros]: "reaches s t \<Longrightarrow> (\<And>u. reaches u (f u)) \<Longrightarrow> reaches s (upon c f t)"
  by (auto simp: upon_def intro: reaches_trans)

lemma reaches_put_missing [reach_intros]: "reaches s t \<Longrightarrow> reaches s (put_missing env c f t)"
  by (simp add: put_missing_def reach_intros)

lemma reaches_lures [reach_intros]:
  "reaches u (seedCredentialLures env u)" "reaches u (seedContainerLures env u)" "reaches u (seedNetworkLures env u)"
  "reaches u (seedPersistenceLures env u)" "reaches u (seedExecutionLures env u)" "reaches u (seedOperatorLures env u)"
  by (simp_all add: seedCredentialLures_def seedContainerLures_def seedNetworkLures_def seedPersistenceLures_def
      seedExecutionLures_def seedOperatorLures_def reach_intros)

lemma reaches_miner [reach_intros]: "reaches s t \<Longrightarrow> reaches s (seedMinerCleanupLures env t)"
  unfolding seedMinerCleanupLures_def by (intro reaches_fold reaches_put_missing reaches_put reaches_refl)

lemma reaches_adapt: "reaches s t \<Longrightarrow> reaches s (adaptToBehavior env family line t)"
  unfolding adaptToBehavior_def count_interests_def Let_def
  by (intro reaches_steps) (auto simp: o_def intro!: reaches_upon reaches_lures reaches_miner)

lemma reaches_deep: "reaches s t \<Longrightarrow> reaches s (seedDeepReality env t)"
proof -
  have "fs_step\<^sup>*\<^sup>* w (fold (deep_file now) ps w)" if "set ps \<subseteq> set deep_files" for now ps w
    using that by (induction ps arbitrary: w) (auto intro: converse_rtranclp_into_rtranclp fs_step.seed)
  moreover have "fs_step\<^sup>*\<^sup>* w (fold deep_dir ds w)" for ds w
    by (rule fs_fold) (rule fs_one, simp add: deep_dir_def fs_step.same)
  ultimately show "reaches s t \<Longrightarrow> ?thesis"
    unfolding seedDeepReality_def o_def by (intro reaches_on_fs) (blast intro: rtranclp_trans)+
qed

lemma reaches_observe: "reaches s t \<Longrightarrow> reaches s (observeRealityProbe env line t)"
  unfolding observeRealityProbe_def Let_def
  by (auto simp: o_def intro!: reaches_upon intro: reaches_deep reaches_trans [OF reaches_lures(1)] reaches_lures)

lemma reaches_collector: "executeKnownEnvironmentCollector env line t = Some p \<Longrightarrow> reaches s t \<Longrightarrow> reaches s (snd p)"
  by (auto simp: executeKnownEnvironmentCollector_def Let_def split: if_splits intro!: reaches_fold)

lemma reaches_seed_target: "reaches s t \<Longrightarrow> reaches s (seed_target env target t)"
  by (simp add: seed_target_def reach_intros)

lemma reaches_dropper: "seedDropperExecutionTargets env line t = Some u \<Longrightarrow> reaches s t \<Longrightarrow> reaches s u"
  by (auto simp: seedDropperExecutionTargets_def bind_eq_Some_conv intro!: reaches_fold reaches_seed_target)

lemma reaches_sweep: "reaches s t \<Longrightarrow> reaches s (sweep env t)"
  by (auto simp: sweep_def Let_def intro!: reach_intros fs_one fs_step.unlink fs_fold intro: fs_step.same)

lemma reaches_take_job: "reaches s t \<Longrightarrow> reaches s (snd (take_job low pid r t))"
  by (auto simp: take_job_def Let_def split: option.splits)

lemma reaches_run_target: "reaches s t \<Longrightarrow> reaches s (snd (run_target env low target r t))"
  unfolding run_target_def Let_def case_prod_beta' snd_conv
  by (intro reaches_take_job reaches_ensure reaches_upon reaches_if reaches_put reaches_mode reaches_refl)

lemma reaches_cleanup:
  assumes "executeKnownResourceCleanup env line t = Some (Some p)" "reaches s t"
  shows "reaches s (snd p)"
proof -
  have "reaches s (snd (case targets of [] \<Rightarrow> (r, sweep env t) | x # _ \<Rightarrow> run_target env low x r (sweep env t)))" for targets low r
    using reaches_sweep [OF assms(2)] by (auto split: list.splits intro: reaches_run_target)
  then show ?thesis
    using assms(1) by (auto simp: executeKnownResourceCleanup_def Let_def bind_eq_Some_conv case_prod_beta' split: if_splits
        intro!: reaches_upon reaches_on_fs fs_one fs_step.unlink)
qed

section \<open>Computations\<close>

text \<open>A call that returns leaves a state that \<open>s\<close> reaches; \<open>f\<close> takes the state out of the value.\<close>

definition leads :: "('a \<Rightarrow> shell) \<Rightarrow> shell \<Rightarrow> 'a option \<Rightarrow> bool" where
  "leads f s m \<longleftrightarrow> (\<forall>x. m = Some x \<longrightarrow> reaches s (f x))"

named_theorems leads_intros

lemma leads_None [simp, leads_intros]: "leads f s None"
  by (simp add: leads_def)

lemma leads_Some [simp]: "leads f s (Some x) = reaches s (f x)"
  by (simp add: leads_def)

lemma leads_SomeI [leads_intros]: "reaches s (f x) \<Longrightarrow> leads f s (Some x)"
  by simp

lemma leads_if [leads_intros]: "(b \<Longrightarrow> leads f s m) \<Longrightarrow> (\<not> b \<Longrightarrow> leads f s n) \<Longrightarrow> leads f s (if b then m else n)"
  by simp

lemma leads_bind: "leads g s m \<Longrightarrow> (\<And>x. reaches s (g x) \<Longrightarrow> leads f s (k x)) \<Longrightarrow> leads f s (Option.bind m k)"
  by (cases m) (auto simp: leads_def)

lemma leads_bind2: "leads snd s m \<Longrightarrow> (\<And>a t. reaches s t \<Longrightarrow> leads f s (k a t)) \<Longrightarrow> leads f s (Option.bind m (\<lambda>(a, t). k a t))"
  by (rule leads_bind [of snd]) auto

lemma leads_option: "(m = None \<Longrightarrow> leads f s a) \<Longrightarrow> (\<And>x. m = Some x \<Longrightarrow> leads f s (b x)) \<Longrightarrow> leads f s (case m of None \<Rightarrow> a | Some x \<Rightarrow> b x)"
  by (cases m) auto

lemma leads_trans: "leads f t m \<Longrightarrow> reaches s t \<Longrightarrow> leads f s m"
  by (auto simp: leads_def intro: reaches_trans)

lemma first_commands_leads: "leads snd s (first_commands env cmd args raw input s)"
  unfolding first_commands_def Let_def case_prod_beta'
  by (intro leads_if leads_SomeI leads_None)
    (simp_all add: reaches_test reaches_exit reaches_rest reaches_cd reaches_cat reaches_grep reaches_read reaches_history reaches_su
      reaches_crontab reaches_chmod reaches_mkdir reaches_touch reaches_rm reaches_copy reaches_disown)

lemma extra_commands_leads: "leads snd s (extra_commands env cmd args input s)"
  unfolding extra_commands_def
  by (intro leads_if leads_SomeI leads_None)
    (simp_all add: reaches_rest reaches_which reaches_alias reaches_unset reaches_export reaches_chattr reaches_ln reaches_tee
      reaches_kill reaches_nohup)

end
