(* ===== verification/ShellRunProofs.thy ===== *)
theory ShellRunProofs
  imports ShellReach
begin

text \<open>
  The interpreter of the virtual shell at every bound of its depth: every run of a line, a pipeline, a
  group, a command or an expansion only \<open>reaches\<close> by \<open>ShellReach\<close>, so what no operation of the shell takes back
  holds after any line.
\<close>

section \<open>Every run reaches\<close>

definition runner_leads :: "runner \<Rightarrow> bool" where
  "runner_leads rn \<longleftrightarrow>
     (\<forall>s line input. leads snd s (rn_line rn line input s)) \<and> (\<forall>s line input. leads snd s (rn_pipe rn line input s)) \<and>
     (\<forall>s inner. leads snd s (rn_group rn inner s)) \<and> (\<forall>s depth raw input. leads snd s (rn_one rn depth raw input s)) \<and>
     (\<forall>s line. leads snd s (rn_expand rn line s))"

definition commands_lead :: "shellEnv \<Rightarrow> bool" where
  "commands_lead env \<longleftrightarrow> (\<forall>cmd args raw input s. reaches s (snd (se_command env cmd args raw input s)))"

lemma runner_leadsD:
  assumes "runner_leads rn" "reaches s t"
  shows "leads snd s (rn_line rn line input t)" "leads snd s (rn_pipe rn line input t)" "leads snd s (rn_group rn inner t)"
    "leads snd s (rn_one rn depth raw input t)" "leads snd s (rn_expand rn word t)"
  by (rule leads_trans [OF _ assms(2)], use assms(1) in \<open>simp add: runner_leads_def\<close>)+

lemma leads_handled: "leads snd s m \<Longrightarrow> leads snd s (handled m)"
  by (auto simp: handled_def leads_def bind_eq_Some_conv)

lemma leads_unhandled [simp]: "leads snd s (unhandled t) = reaches s t"
  by (simp add: unhandled_def)

lemma leads_or_else:
  "leads snd s m \<Longrightarrow> (\<And>t. reaches s t \<Longrightarrow> leads snd s (f t)) \<Longrightarrow> leads snd s (or_else m f)"
  by (auto simp: or_else_def leads_def bind_eq_Some_conv split: option.splits)

lemmas leads_rules = leads_if leads_SomeI leads_None leads_bind2 leads_handled leads_or_else runner_leadsD

lemma run_substitution_leads: "runner_leads rn \<Longrightarrow> reaches s t \<Longrightarrow> leads snd s (run_substitution rn inner t)"
proof -
  assume rn: "runner_leads rn" and t: "reaches s t"
  have "reaches s (u\<lparr>vw_subst := vw_subst u - 1\<rparr>)" if "reaches (t\<lparr>vw_subst := vw_subst t + 1\<rparr>) u" for u
    using that t by (auto simp: reaches_def)
  then show ?thesis
    using rn by (fastforce simp: run_substitution_def runner_leads_def leads_def bind_eq_Some_conv)
qed

lemma subst_passes_leads: "runner_leads rn \<Longrightarrow> reaches s t \<Longrightarrow> leads snd s (subst_passes n rn line t)"
  by (induction n arbitrary: line t) (auto split: option.splits intro!: leads_bind2 intro: run_substitution_leads)

lemma backtick_passes_leads: "runner_leads rn \<Longrightarrow> reaches s t \<Longrightarrow> leads snd s (backtick_passes n rn line t)"
  by (induction n arbitrary: line t) (auto split: option.splits intro!: leads_bind2 intro: run_substitution_leads)

lemma parameter_leads: "runner_leads rn \<Longrightarrow> reaches s t \<Longrightarrow> leads snd s (virtualParameterExpansion rn expr t)"
  by (auto simp: virtualParameterExpansion_def Let_def split: option.splits intro: runner_leadsD)

lemma dollar_leads: "runner_leads rn \<Longrightarrow> reaches s t \<Longrightarrow> leads (\<lambda>x. snd (snd x)) s (dollar rn v t)"
  by (auto simp: dollar_def Let_def split: option.splits intro!: leads_bind2 intro: parameter_leads)

lemma leads_bind3:
  "leads (\<lambda>x. snd (snd x)) s m \<Longrightarrow> (\<And>a b t. reaches s t \<Longrightarrow> leads f s (k a b t)) \<Longrightarrow>
     leads f s (Option.bind m (\<lambda>(a, b, t). k a b t))"
  by (rule leads_bind [of "\<lambda>x. snd (snd x)"]) auto

lemma expand_variables_leads: "runner_leads rn \<Longrightarrow> reaches s t \<Longrightarrow> leads snd s (expand_variables rn quote v t)"
proof (induction "length v" arbitrary: quote v t rule: less_induct)
  case less
  show ?case
  proof (cases v)
    case (Cons c u)
    have IH: "leads snd s (expand_variables rn q w t')" if "length w \<le> length u" "reaches s t'" for q w t'
      using less.hyps [of w t' q] less.prems that Cons by simp
    show ?thesis
      unfolding Cons expand_variables.simps
      by (intro leads_if leads_bind3 [OF dollar_leads] leads_bind2 IH leads_SomeI) (simp_all add: less.prems)
  qed (simp add: less.prems)
qed

lemma expand_leads: "runner_leads rn \<Longrightarrow> reaches s t \<Longrightarrow> leads snd s (expandVirtualLine rn line t)"
  unfolding expandVirtualLine_def expandVirtualBackticks_def expandVirtualCommandSubstitutions_def
  by (intro leads_bind2 leads_if leads_SomeI backtick_passes_leads subst_passes_leads expand_variables_leads) simp_all

lemma captured_leads: "runner_leads rn \<Longrightarrow> reaches s t \<Longrightarrow> leads snd s (executeVirtualCapturedAssignment rn raw t)"
  by (auto simp: executeVirtualCapturedAssignment_def Let_def split: option.splits intro!: leads_bind2 intro: runner_leadsD)

lemma temporary_leads: "runner_leads rn \<Longrightarrow> reaches s t \<Longrightarrow> leads snd s (applyTemporaryEnv rn as old t)"
  by (induction "as" arbitrary: old t) (auto simp: Let_def intro!: leads_bind2 intro: runner_leadsD)

lemma reaches_restore [simp]: "reaches s (restoreTemporaryEnv old t) = reaches s t"
proof -
  have "reaches s (restore_one p u) = reaches s u" for p u
    by (simp add: restore_one_def split: option.splits)
  then show ?thesis unfolding restoreTemporaryEnv_def by (induction old arbitrary: t) auto
qed

lemma leads_bind_snd: "leads snd s m \<Longrightarrow> (\<And>x. reaches s (snd x) \<Longrightarrow> leads f s (k x)) \<Longrightarrow> leads f s (Option.bind m k)"
  by (rule leads_bind)

lemma for_loop_leads: "runner_leads rn \<Longrightarrow> reaches s t \<Longrightarrow> leads snd s (for_loop rn var body vs combined outs t)"
  by (induction vs arbitrary: combined outs t)
    (auto simp: Let_def case_prod_beta' intro!: leads_bind_snd intro: runner_leadsD)

lemma while_loop_leads: "runner_leads rn \<Longrightarrow> reaches s t \<Longrightarrow> leads snd s (while_loop n rn until condition body combined outs t)"
proof (induction n arbitrary: combined outs t)
  case (Suc n)
  show ?case
    unfolding while_loop.simps Let_def case_prod_beta'
    by (intro leads_bind_snd leads_if leads_SomeI Suc.IH runner_leadsD) (simp_all add: Suc.prems)
qed simp

lemma for_leads: "runner_leads rn \<Longrightarrow> reaches s t \<Longrightarrow> leads snd s (executeVirtualFor rn line t)"
  by (auto simp: executeVirtualFor_def split: option.splits intro!: leads_bind2 leads_handled for_loop_leads intro: runner_leadsD)

lemma while_leads: "runner_leads rn \<Longrightarrow> reaches s t \<Longrightarrow> leads snd s (executeVirtualWhile rn line t)"
  by (auto simp: executeVirtualWhile_def Let_def split: option.splits intro!: leads_handled while_loop_leads)

lemma if_leads: "runner_leads rn \<Longrightarrow> reaches s t \<Longrightarrow> leads snd s (executeVirtualIf rn line input t)"
  by (auto simp: executeVirtualIf_def Let_def case_prod_beta' split: option.splits intro!: leads_bind_snd intro: runner_leadsD)

lemma case_leads: "runner_leads rn \<Longrightarrow> reaches s t \<Longrightarrow> leads snd s (executeVirtualCase rn line t)"
  by (auto simp: executeVirtualCase_def Let_def split: option.splits intro!: leads_bind2 intro: runner_leadsD)

lemma control_leads: "runner_leads rn \<Longrightarrow> reaches s t \<Longrightarrow> leads snd s (executeVirtualControlFlow rn line input t)"
  by (auto simp: executeVirtualControlFlow_def Let_def intro!: leads_or_else case_leads for_leads while_leads if_leads)

lemma embedded_leads: "runner_leads rn \<Longrightarrow> reaches s t \<Longrightarrow> leads snd s (executeEmbeddedVirtualIf rn line input t)"
  by (auto simp: executeEmbeddedVirtualIf_def split: option.splits intro!: leads_bind2 if_leads intro: runner_leadsD)

lemma run_command_leads: "runner_leads rn \<Longrightarrow> reaches s t \<Longrightarrow> leads (\<lambda>x. snd (snd x)) s (run_command rn cmd input t)"
  by (auto simp: run_command_def split: option.splits intro!: leads_bind2 leads_or_else captured_leads control_leads intro: runner_leadsD)

lemma group_loop_leads:
  "runner_leads rn \<Longrightarrow> reaches s t \<Longrightarrow> leads (\<lambda>x. snd (snd x)) s (group_loop rn ps status combined out t)"
  by (induction ps arbitrary: status combined out t) (auto simp: Let_def intro!: leads_bind3 run_command_leads)

lemma group_leads: "runner_leads rn \<Longrightarrow> reaches s t \<Longrightarrow> leads snd s (executeGrouped rn inner t)"
  unfolding executeGrouped_def by (intro leads_bind3 leads_SomeI) (simp_all add: group_loop_leads)

lemma reaches_redirect: "reaches s t \<Longrightarrow> reaches s (snd (redirect_output env line rd input r t))"
proof -
  assume t: "reaches s t"
  have stage: "reaches s (snd (stage_payload env target input r' u))" if "reaches s u" for target r' u
    using that by (auto simp: stage_payload_def Let_def intro!: reaches_on_fs fs_one fs_step.same)
  show ?thesis
    using reaches_append [OF t] reaches_file [OF t] t
    by (auto simp: redirect_output_def Let_def case_prod_beta' intro: stage)
qed

lemma run_stage_leads:
  "runner_leads rn \<Longrightarrow> reaches s t \<Longrightarrow> leads (\<lambda>x. snd (snd x)) s (run_stage env rn inner stage input t)"
  by (auto simp: run_stage_def Let_def case_prod_beta' split: option.splits intro!: leads_bind_snd reaches_redirect intro: runner_leadsD)

lemma pipe_loop_leads: "runner_leads rn \<Longrightarrow> reaches s t \<Longrightarrow> leads snd s (pipe_loop env rn parts first best input t)"
proof (induction parts arbitrary: first best input t)
  case (Cons part parts)
  have stage: "leads (\<lambda>x. snd (snd x)) s
      (case unwrapVirtualGroup (TrimSpace part) of
         Some inner \<Rightarrow> do { (r, s) \<leftarrow> rn_group rn inner t; Some (False, r, s) }
       | None \<Rightarrow> run_stage env rn (parts \<noteq> []) (TrimSpace part) input t)"
    using Cons.prems by (auto split: option.splits intro!: leads_bind2 run_stage_leads intro: runner_leadsD)
  show ?case
    unfolding pipe_loop.simps Let_def
    by (intro leads_bind3 [OF stage] leads_if leads_SomeI Cons.IH) (simp_all add: Cons.prems)
qed simp

lemma pipeline_leads: "runner_leads rn \<Longrightarrow> reaches s t \<Longrightarrow> leads snd s (executePipeline env rn line input t)"
  by (simp add: executePipeline_def pipe_loop_leads)

section \<open>Commands\<close>

lemma reaches_execute: "reaches s t \<Longrightarrow> reaches s (snd (fakeExecute env target t))"
  by (auto simp: fakeExecute_def Let_def intro: reaches_ensure)

lemma run_path_leads: "reaches s t \<Longrightarrow> leads snd s (run_path env word t)"
  by (auto simp: run_path_def Let_def intro: reaches_execute)

lemma env_leads: "runner_leads rn \<Longrightarrow> reaches s t \<Longrightarrow> leads snd s (executeVirtualEnv rn args input t)"
  by (auto simp: executeVirtualEnv_def Let_def case_prod_beta' intro!: leads_bind_snd temporary_leads intro: runner_leadsD)

lemma sudo_leads: "runner_leads rn \<Longrightarrow> reaches s t \<Longrightarrow> leads snd s (cmd_sudo rn cmd args input t)"
  unfolding cmd_sudo_def Let_def
  by (intro leads_if leads_SomeI leads_bind2 runner_leadsD) (simp_all add: reaches_user)

lemma time_leads: "runner_leads rn \<Longrightarrow> reaches s t \<Longrightarrow> leads snd s (cmd_time rn cmd args t)"
  unfolding cmd_time_def Let_def by (intro leads_if leads_SomeI leads_bind2 runner_leadsD) simp_all

lemma interpreter_leads: "runner_leads rn \<Longrightarrow> reaches s t \<Longrightarrow> leads snd s (cmd_interpreter env rn cmd args input t)"
  unfolding cmd_interpreter_def Let_def
  by (intro leads_if leads_SomeI leads_option leads_bind2 runner_leadsD)
    (simp_all add: fakeInterpreterVersion_def fakeInterpreter_def Let_def reaches_execute)

lemma reaches_enter: "reaches s t \<Longrightarrow> reaches s (enter_host name host dir t)"
  by (simp add: enter_host_def Let_def reaches_same_files)

lemma reaches_leave: "reaches s t \<Longrightarrow> reaches s (leave_host outer t)"
  unfolding leave_host_def Let_def by (intro reaches_fold) (simp_all add: reaches_same_files)

lemma nested_leads: "runner_leads rn \<Longrightarrow> reaches s t \<Longrightarrow> leads snd s (nested_session rn env h host name cmd r t)"
  unfolding nested_session_def Let_def
  by (intro leads_if leads_SomeI leads_bind2 runner_leadsD)
    (auto simp: seed_git_def intro!: reaches_put reaches_enter reaches_leave)

lemma ssh_leads: "runner_leads rn \<Longrightarrow> reaches s t \<Longrightarrow> leads snd s (fakeNestedSSH rn env args t)"
  unfolding fakeNestedSSH_def Let_def case_prod_beta'
  by (auto split: option.splits intro!: nested_leads)

lemma credentials_leads: "leads snd s (applyCompoundCredentialState env raw s)"
proof -
  have "leads snd s (locked s (r, u))" if "vw_held u = vw_held s" "vw_ops u = vw_ops s" "vw_subst u = vw_subst s" "vw_source u = vw_source s" for r u
    using that by (auto simp: locked_def handled_def reaches_def)
  then show ?thesis
    by (auto simp: applyCompoundCredentialState_def Let_def updateVirtualShadowPassword_def add_key_def on_fs_def put_file_def
        set_file_def set_mode_def case_prod_beta' split: option.splits)
qed

lemma deepReality_reaches: "deepRealityCommand cmd args t = Some p \<Longrightarrow> snd p = t"
  by (auto simp: deepRealityCommand_def Let_def split: if_splits)

lemma busybox_leads: "runner_leads rn \<Longrightarrow> reaches s t \<Longrightarrow> leads snd s (cmd_busybox rn cmd args input t)"
  by (auto simp: cmd_busybox_def Let_def intro: runner_leadsD)

lemma xargs_leads: "runner_leads rn \<Longrightarrow> reaches s t \<Longrightarrow> leads snd s (cmd_xargs rn cmd args input t)"
  by (auto simp: cmd_xargs_def Let_def intro!: leads_bind2 intro: runner_leadsD)

lemma source_lines_leads:
  "runner_leads rn \<Longrightarrow> reaches s t \<Longrightarrow> leads (\<lambda>x. snd (snd x)) s (source_lines rn ls r outs t)"
  by (induction ls arbitrary: r outs t) (auto simp: Let_def intro!: leads_bind2 intro: runner_leadsD)

lemma source_leads:
  assumes "runner_leads rn" "reaches s t"
  shows "leads snd s (cmd_source env rn cmd args t)"
proof -
  have "leads (\<lambda>x. snd (snd x)) (t\<lparr>vw_source := vw_source t + 1\<rparr>) (source_lines rn ls r outs (t\<lparr>vw_source := vw_source t + 1\<rparr>))" for ls r outs
    using assms(1) by (rule source_lines_leads) simp
  moreover have "reaches s (u\<lparr>vw_source := vw_source u - 1\<rparr>)" if "reaches (t\<lparr>vw_source := vw_source t + 1\<rparr>) u" for u
    using that assms(2) by (auto simp: reaches_def)
  ultimately show ?thesis
    using assms(2) by (fastforce simp: cmd_source_def Let_def leads_def bind_eq_Some_conv split: option.splits)
qed

lemma extra_leads:
  assumes rn: "runner_leads rn" and env: "commands_lead env" and st: "reaches s t"
  shows "leads snd s (executeExtraCommand env rn cmd args raw input t)"
proof -
  have commands: "reaches s (snd (se_command env cmd args raw input u))" if "reaches s u" for u
    using that env by (auto simp: commands_lead_def intro: reaches_trans)
  have rest: "leads snd s (case extra_commands env cmd args input u of
        Some p \<Rightarrow> handled (Some p)
      | None \<Rightarrow> if b then handled (Some (se_command env cmd args raw input u)) else unhandled u)" if u: "reaches s u" for u b
    using leads_trans [OF extra_commands_leads u, of env cmd args input]
    by (cases "extra_commands env cmd args input u") (auto intro!: leads_handled leads_SomeI commands u)
  show ?thesis
    unfolding executeExtraCommand_def
  proof (rule leads_or_else [OF leads_trans [OF credentials_leads st]])
    fix u
    assume u: "reaches s u"
    show "leads snd s (case deepRealityCommand cmd args u of
        Some p \<Rightarrow> handled (Some p)
      | None \<Rightarrow>
          if cmd = ''busybox'' then handled (cmd_busybox rn cmd args input u)
          else if cmd = ''xargs'' then handled (cmd_xargs rn cmd args input u)
          else if cmd = ''source'' \<or> cmd = ''.'' then handled (cmd_source env rn cmd args u)
          else (case extra_commands env cmd args input u of
                  Some p \<Rightarrow> handled (Some p)
                | None \<Rightarrow>
                    if cmd \<in> set tool_commands \<or> cmd = ''stty'' \<or> cmd = ''dmidecode''
                    then handled (Some (se_command env cmd args raw input u)) else unhandled u))"
    proof (cases "deepRealityCommand cmd args u")
      case None
      then show ?thesis
        using busybox_leads [OF rn u] xargs_leads [OF rn u] source_leads [OF rn u] rest [OF u]
        by (simp only: option.case) (intro leads_if leads_handled; assumption)
    next
      case (Some p)
      then show ?thesis using u deepReality_reaches [OF Some] by (auto intro!: leads_handled)
    qed
  qed
qed

lemma switch_leads:
  assumes rn: "runner_leads rn" and env: "commands_lead env" and st: "reaches s t"
  shows "leads snd s (run_switch env rn cmd args raw input t)"
proof -
  have "leads snd s (first_commands env cmd args raw input t)" by (rule leads_trans [OF first_commands_leads st])
  moreover have "reaches s (snd (se_command env cmd args raw input t))" using env st by (auto simp: commands_lead_def intro: reaches_trans)
  ultimately show ?thesis
    unfolding run_switch_def
    by (intro leads_option leads_if leads_SomeI leads_bind2 [OF extra_leads] env_leads sudo_leads time_leads ssh_leads interpreter_leads rn env st)
      (simp_all add: st leads_def)
qed

lemma assign_words_reaches: "reaches s t \<Longrightarrow> reaches s (snd (assign_words ws t))"
  by (induction ws arbitrary: t) (auto split: prod.splits)

lemma words_leads:
  assumes rn: "runner_leads rn" and env: "commands_lead env" and st: "reaches s t"
  shows "leads snd s (run_words env rn depth words raw input t)"
proof -
  have spend: "reaches s (spend t)" using st by (auto simp: reaches_def spend_def)
  show ?thesis
    unfolding run_words_def Let_def
    by (intro leads_if leads_SomeI leads_option runner_leadsD [OF rn] switch_leads [OF rn env])
      (use run_path_leads [OF spend] in \<open>auto simp: leads_def st spend\<close>)
qed

lemma rest_leads:
  assumes rn: "runner_leads rn" and env: "commands_lead env" and st: "reaches s t"
  shows "leads snd s (run_rest env rn depth raw input t)"
  using assign_words_reaches [OF st]
  by (auto simp: run_rest_def Let_def case_prod_beta' st split: option.splits intro!: words_leads rn env intro: runner_leadsD)

lemma one_leads:
  assumes rn: "runner_leads rn" and env: "commands_lead env" and st: "reaches s t"
  shows "leads snd s (executeOneDepth env rn depth raw input t)"
  unfolding executeOneDepth_def Let_def
  by (auto split: option.splits prod.splits
      intro!: leads_bind2 captured_leads rest_leads temporary_leads rn env st)

section \<open>Lines\<close>

lemma reaches_finish: "reaches s (snd p) \<Longrightarrow> reaches s (snd (finish env line p))"
  by (simp add: finish_def reaches_adapt)

lemma reaches_note: "reaches s t \<Longrightarrow> reaches s (note_result r t)"
  by (simp add: note_result_def Let_def)

lemma chain_steps_leads:
  assumes rn: "runner_leads rn"
  shows "reaches s t \<Longrightarrow> leads (\<lambda>x. snd (snd (snd x))) s (chain_steps env rn input ps status executed combined out t)"
proof (induction ps arbitrary: status executed combined out t)
  case (Cons p ps)
  show ?case
    unfolding chain_steps.simps Let_def case_prod_beta'
    by (intro leads_if leads_SomeI leads_bind [OF run_command_leads [OF rn]] Cons.IH)
      (auto simp: Cons.prems intro!: reaches_note reaches_adapt reaches_background)
qed simp

lemma chain_leads:
  assumes "runner_leads rn" "reaches s t"
  shows "leads snd s (run_chain env rn line input t)"
  unfolding run_chain_def Let_def case_prod_beta'
  by (intro leads_bind [OF chain_steps_leads [OF assms]] leads_SomeI) simp

lemma line_leads:
  assumes rn: "runner_leads rn" and st: "reaches s t"
  shows "leads snd s (executeWithInput env rn line input t)"
proof -
  have lures: "leads (\<lambda>u. u) s (if b then seedDropperExecutionTargets env l (seedMinerCleanupLures env t) else Some t)" for b l
    using st reaches_miner [OF st, of env] by (auto simp: leads_def dest: reaches_dropper)
  have cleanup: "leads snd s (case c of Some p \<Rightarrow> Some (finish env l p) | None \<Rightarrow> m)"
    if "executeKnownResourceCleanup env l u = Some c" "reaches s u" "c = None \<Longrightarrow> leads snd s m" for c l u m
    using that by (auto split: option.splits intro!: reaches_finish dest: reaches_cleanup)
  have rest: "leads snd s (executeKnownResourceCleanup env l u \<bind> (\<lambda>c. case c of Some p \<Rightarrow> Some (finish env l p) | None \<Rightarrow> m))"
    if "reaches s u" "leads snd s m" for l u m
    using that cleanup by (cases "executeKnownResourceCleanup env l u") auto
  have collected: "leads snd s (case executeKnownEnvironmentCollector env l u of Some p \<Rightarrow> Some (finish env l p) | None \<Rightarrow> m)"
    if "reaches s u" "leads snd s m" for l u m
    using that by (auto split: option.splits intro!: reaches_finish dest: reaches_collector)
  show ?thesis
    unfolding executeWithInput_def Let_def
    by (intro leads_if leads_SomeI leads_bind [OF lures] collected rest leads_option leads_bind2 leads_or_else control_leads
        embedded_leads chain_leads reaches_finish rn) (simp_all add: st reaches_observe)
qed

lemma step_leads: "runner_leads rn \<Longrightarrow> commands_lead env \<Longrightarrow> runner_leads (step env rn)"
  unfolding runner_leads_def [of "step env rn"]
  by (simp add: step_def line_leads pipeline_leads group_leads one_leads expand_leads)

lemma run_leads: "commands_lead env \<Longrightarrow> runner_leads (run env n)"
  by (induction n) (simp_all add: step_leads, simp add: runner_leads_def nothing_def)

lemma Execute_reaches: "commands_lead env \<Longrightarrow> Execute env n line s = Some (r, s') \<Longrightarrow> reaches s s'"
  using run_leads [of env n] by (fastforce simp: Execute_def runner_leads_def leads_def)

end
