(* ===== verification/ShellDisk.thy ===== *)
theory ShellDisk
  imports ShellRunProofs
begin

text \<open>
  The disk of a session: what the primitive operations of the filesystem keep (\<open>disk_ok\<close>) and the limits that
  follow from it. Every run of the interpreter is made of these operations (\<open>ShellRunProofs\<close>).
\<close>

text \<open>
  The files of \<open>seedDeepReality\<close> escape the limits: neither their number nor, while they are unchanged,
  their bytes count.
\<close>

definition weight :: "string \<times> string \<Rightarrow> nat" where
  "weight p = (if map_of deep_files (fst p) = Some (snd p) then 0 else length (snd p))"

definition own_file :: "string \<times> string \<Rightarrow> bool" where
  "own_file p \<longleftrightarrow> fst p \<notin> fst ` set deep_files"

definition disk_ok :: "world \<Rightarrow> bool" where
  "disk_ok w \<longleftrightarrow>
     map_wf (files w) \<and> length (List.filter own_file (files w)) \<le> maxVirtualFiles
     \<and> (\<forall>c \<in> snd ` set (files w). length c \<le> maxVirtualFileBytes)
     \<and> sum_list (map weight (files w)) \<le> maxVirtualTotalBytes"

lemma weight_le: "weight p \<le> length (snd p)"
  by (simp add: weight_def)

lemma weights_le_total: "sum_list (map weight m) \<le> total length m"
  by (induction m) (auto simp: total_def intro: add_mono weight_le)

lemma weights_update:
  "sum_list (map weight (AList.update k v m)) \<le> sum_list (map weight m) + weight (k, v)"
  by (induction m) auto

lemma weights_delete: "sum_list (map weight (AList.delete k m)) \<le> sum_list (map weight m)"
  by (induction m) (auto simp: AList.delete_eq)

lemma filter_delete_length: "length (List.filter P (AList.delete k m)) \<le> length (List.filter P m)"
  by (induction m) (auto simp: AList.delete_eq)

lemma own_update_length:
  "length (List.filter own_file (AList.update k v m))
     \<le> (if has_key m k then length (List.filter own_file m) else Suc (length (List.filter own_file m)))"
  by (induction m) (auto simp: own_file_def has_key_def split: if_splits)

lemma deep_sizes: "p \<in> set deep_files \<Longrightarrow> length (snd p) \<le> maxVirtualFileBytes"
proof -
  have "list_all (\<lambda>p. length (snd p) \<le> maxVirtualFileBytes) deep_files"
    unfolding deep_files_def maxVirtualFileBytes_def nl_def by simp
  then show "p \<in> set deep_files \<Longrightarrow> ?thesis" by (simp add: list_all_iff)
qed

lemma deep_names: "distinct (map fst deep_files)"
  unfolding deep_files_def by simp

lemma deep_totals: "length deep_files = 22" "total length deep_files = 1148"
  unfolding deep_files_def total_def nl_def by simp_all

lemma store_disk_ok:
  assumes ok: "disk_ok w" and free: "has_key (files w) t \<or> length (files w) < maxVirtualFiles"
  shows "disk_ok (fst (storeVirtualFile uni now t c w))"
proof (cases "canStoreVirtualContent w t (limitVirtualContent c)")
  case True
  let ?s = "limitVirtualContent c" let ?m = "AList.update t ?s (files w)"
  have "total length ?m \<le> maxVirtualTotalBytes"
    using True by (auto simp: canStoreVirtualContent_def virtualStorageBytes_def total_update lookup_or_def split: option.splits)
  then have "sum_list (map weight ?m) \<le> maxVirtualTotalBytes" using weights_le_total [of ?m] by simp
  moreover have "length (List.filter own_file ?m) \<le> maxVirtualFiles"
  proof (cases "has_key (files w) t")
    case True
    then show ?thesis using own_update_length [of t ?s "files w"] ok unfolding disk_ok_def by auto
  next
    case False
    then have "length (List.filter own_file (files w)) < maxVirtualFiles"
      using free length_filter_le [of own_file "files w"] by linarith
    then show ?thesis using own_update_length [of t ?s "files w"] False by simp
  qed
  moreover have "\<forall>x \<in> snd ` set ?m. length x \<le> maxVirtualFileBytes"
    using ok set_update [of t ?s "files w"] limitVirtualContent_length [of c] by (fastforce simp: disk_ok_def)
  ultimately show ?thesis using ok True by (simp add: storeVirtualFile_def disk_ok_def Let_def)
qed (use ok in \<open>simp add: storeVirtualFile_def Let_def\<close>)

lemma deep_disk_ok:
  assumes ok: "disk_ok w" and p: "p \<in> set deep_files"
  shows "disk_ok (deep_file now p w)"
proof (cases "has_key (files w) (fst p)")
  case False
  let ?m = "AList.update (fst p) (snd p) (files w)"
  have "map_of deep_files (fst p) = Some (snd p)" using p deep_names by simp
  then have "sum_list (map weight ?m) \<le> maxVirtualTotalBytes"
    using weights_update [of "fst p" "snd p" "files w"] ok by (simp add: weight_def disk_ok_def)
  moreover have "List.filter own_file ?m = List.filter own_file (files w)"
  proof -
    have "List.filter own_file (AList.update (fst p) (snd p) m) = List.filter own_file m" for m
      by (induction m) (use p in \<open>auto simp: own_file_def\<close>)
    then show ?thesis .
  qed
  moreover have "\<forall>x \<in> snd ` set ?m. length x \<le> maxVirtualFileBytes"
    using ok set_update [of "fst p" "snd p" "files w"] deep_sizes [OF p] by (fastforce simp: disk_ok_def)
  ultimately show ?thesis using ok False by (simp add: deep_file_def disk_ok_def)
qed (use ok in \<open>simp add: deep_file_def\<close>)

lemma delete_disk_ok: "disk_ok w \<Longrightarrow> disk_ok (deleteVirtualFile t w)"
  using weights_delete [of t "files w"] filter_delete_length [of own_file t "files w"] set_delete [of t "files w"]
  by (fastforce simp: disk_ok_def deleteVirtualFile_def)

lemma fs_step_disk_ok: "fs_step v w \<Longrightarrow> disk_ok v \<Longrightarrow> disk_ok w"
proof (induction rule: fs_step.induct)
  case (put w uni now t c)
  then show ?case by (auto simp: setVirtualFile_def Let_def intro: store_disk_ok)
next
  case (extend w uni now t c)
  then show ?case by (auto simp: appendVirtualFile_def Let_def intro: store_disk_ok)
qed (simp_all add: delete_disk_ok deep_disk_ok, simp add: disk_ok_def)

lemma fs_steps_disk_ok: "fs_step\<^sup>*\<^sup>* v w \<Longrightarrow> disk_ok v \<Longrightarrow> disk_ok w"
  by (induction rule: rtranclp_induct) (auto intro: fs_step_disk_ok)

text \<open>The limits on the files themselves.\<close>

lemma filter_deep_length:
  assumes "map_wf m"
  shows "length (List.filter (\<lambda>p. \<not> own_file p) m) \<le> length deep_files"
proof -
  let ?ks = "map fst (List.filter (\<lambda>p. \<not> own_file p) m)"
  have "distinct ?ks" using assms by (simp add: map_wf_def distinct_map_filter)
  then have "length ?ks = card (set ?ks)" by (rule distinct_card [symmetric])
  also have "\<dots> \<le> card (fst ` set deep_files)" by (rule card_mono) (auto simp: own_file_def)
  also have "\<dots> \<le> length deep_files" using card_image_le [of "set deep_files" fst] card_length [of deep_files] by simp
  finally show ?thesis by simp
qed

lemma unweighted_total:
  assumes "map_wf m"
  shows "total length m \<le> sum_list (map weight m) + total length deep_files"
proof -
  let ?d = "List.filter (\<lambda>p. p \<in> set deep_files) m"
  have "total length m \<le> sum_list (map weight m) + total length ?d"
    by (induction m) (auto simp: total_def weight_def dest!: map_of_SomeD)
  moreover have "total length ?d \<le> total length deep_files"
  proof -
    have d: "distinct ?d" using assms by (auto simp: map_wf_def distinct_map)
    have "total length ?d = (\<Sum>p\<in>set ?d. length (snd p))" using sum_list_distinct_conv_sum_set [OF d, of "\<lambda>p. length (snd p)"] by (simp add: total_def o_def)
    also have "\<dots> \<le> (\<Sum>p\<in>set deep_files. length (snd p))" by (rule sum_mono2) auto
    also have "\<dots> = total length deep_files"
      using sum_list_distinct_conv_sum_set [of deep_files "\<lambda>p. length (snd p)"] deep_names
      by (simp add: total_def o_def distinct_map)
    finally show ?thesis .
  qed
  ultimately show ?thesis by simp
qed

lemma disk_ok_limits:
  assumes "disk_ok w"
  shows "length (files w) \<le> 534" "virtualStorageBytes w \<le> 525436" "(f, c) \<in> set (files w) \<Longrightarrow> length c \<le> 16384"
proof -
  have "length (files w) = length (List.filter own_file (files w)) + length (List.filter (\<lambda>p. \<not> own_file p) (files w))"
    by (simp add: sum_length_filter_compl)
  then show "length (files w) \<le> 534"
    using assms filter_deep_length [of "files w"] by (simp add: disk_ok_def deep_totals maxVirtualFiles_def)
  show "virtualStorageBytes w \<le> 525436"
    using assms unweighted_total [of "files w"] by (simp add: disk_ok_def virtualStorageBytes_def deep_totals maxVirtualTotalBytes_def)
  show "(f, c) \<in> set (files w) \<Longrightarrow> length c \<le> 16384"
    using assms by (force simp: disk_ok_def maxVirtualFileBytes_def)
qed

end
