(* ===== verification/ShellFuel.thy ===== *)
theory ShellFuel
  imports ShellRun
begin

text \<open>
  The bound on the depth of the calls: a call of the interpreter that returns within a bound returns the
  same within every larger one, so \<open>run\<close> at any bound that suffices is the interpreter.
\<close>

definition below :: "'a option \<Rightarrow> 'a option \<Rightarrow> bool" where
  "below m n \<longleftrightarrow> m = None \<or> m = n"

named_theorems below_intros

lemma below_refl [below_intros]: "below m m"
  by (simp add: below_def)

lemma below_None: "below None m"
  by (simp add: below_def)

lemma below_bind [below_intros]: "below m m' \<Longrightarrow> (\<And>x. below (k x) (k' x)) \<Longrightarrow> below (Option.bind m k) (Option.bind m' k')"
  unfolding below_def by (metis bind.bind_lunit bind.bind_lzero option.exhaust)

lemma below_prod [below_intros]: "(\<And>a b. below (k a b) (k' a b)) \<Longrightarrow> below (case p of (a, b) \<Rightarrow> k a b) (case p of (a, b) \<Rightarrow> k' a b)"
  by (cases p) simp

lemma below_if [below_intros]: "below m m' \<Longrightarrow> below n n' \<Longrightarrow> below (if b then m else n) (if b then m' else n')"
  by simp

lemma below_option [below_intros]:
  "below m m' \<Longrightarrow> (\<And>x. below (k x) (k' x)) \<Longrightarrow>
     below (case v of None \<Rightarrow> m | Some x \<Rightarrow> k x) (case v of None \<Rightarrow> m' | Some x \<Rightarrow> k' x)"
  by (cases v) auto

definition runner_below :: "runner \<Rightarrow> runner \<Rightarrow> bool" where
  "runner_below r q \<longleftrightarrow>
     (\<forall>line input s. below (rn_line r line input s) (rn_line q line input s)) \<and>
     (\<forall>line input s. below (rn_pipe r line input s) (rn_pipe q line input s)) \<and>
     (\<forall>inner s. below (rn_group r inner s) (rn_group q inner s)) \<and>
     (\<forall>depth raw input s. below (rn_one r depth raw input s) (rn_one q depth raw input s)) \<and>
     (\<forall>line s. below (rn_expand r line s) (rn_expand q line s))"

lemma runner_belowD:
  assumes "runner_below r q"
  shows "below (rn_line r line input s) (rn_line q line input s)" "below (rn_pipe r line input s) (rn_pipe q line input s)"
    "below (rn_group r inner s) (rn_group q inner s)" "below (rn_one r depth raw input s) (rn_one q depth raw input s)"
    "below (rn_expand r line s) (rn_expand q line s)"
  using assms by (simp_all add: runner_below_def)

lemma handled_below: "below m n \<Longrightarrow> below (handled m) (handled n)"
  unfolding handled_def by (intro below_intros)

lemma or_else_below: "below m m' \<Longrightarrow> (\<And>s. below (f s) (f' s)) \<Longrightarrow> below (or_else m f) (or_else m' f')"
  unfolding or_else_def by (intro below_intros)

lemma run_substitution_below: "runner_below r q \<Longrightarrow> below (run_substitution r inner s) (run_substitution q inner s)"
  unfolding run_substitution_def by (intro below_intros runner_belowD)

lemma subst_passes_below: "runner_below r q \<Longrightarrow> below (subst_passes n r line s) (subst_passes n q line s)"
proof (induction n arbitrary: line s)
  case (Suc n)
  then show ?case unfolding subst_passes.simps by (intro below_intros run_substitution_below)
qed (simp add: below_refl)

lemma backtick_passes_below: "runner_below r q \<Longrightarrow> below (backtick_passes n r line s) (backtick_passes n q line s)"
proof (induction n arbitrary: line s)
  case (Suc n)
  then show ?case unfolding backtick_passes.simps by (intro below_intros run_substitution_below)
qed (simp add: below_refl)

lemma parameter_below: "runner_below r q \<Longrightarrow> below (virtualParameterExpansion r expr s) (virtualParameterExpansion q expr s)"
  unfolding virtualParameterExpansion_def Let_def by (intro below_intros runner_belowD)

lemma dollar_below: "runner_below r q \<Longrightarrow> below (dollar r v s) (dollar q v s)"
  unfolding dollar_def Let_def by (intro below_intros parameter_below)

lemma expand_variables_below: "runner_below r q \<Longrightarrow> below (expand_variables r quote v s) (expand_variables q quote v s)"
proof (induction "length v" arbitrary: quote v s rule: less_induct)
  case less
  show ?case
  proof (cases v)
    case (Cons c u)
    have IH: "below (expand_variables r k w t) (expand_variables q k w t)" if "length w \<le> length u" for k w t
      using less.hyps [of w k t] less.prems that Cons by simp
    show ?thesis
      unfolding Cons expand_variables.simps by (intro below_intros dollar_below less.prems IH) simp_all
  qed (simp add: below_refl)
qed

lemma expand_below: "runner_below r q \<Longrightarrow> below (expandVirtualLine r line s) (expandVirtualLine q line s)"
  unfolding expandVirtualLine_def expandVirtualBackticks_def expandVirtualCommandSubstitutions_def
  by (intro below_intros backtick_passes_below subst_passes_below expand_variables_below)

lemma captured_below: "runner_below r q \<Longrightarrow> below (executeVirtualCapturedAssignment r raw s) (executeVirtualCapturedAssignment q raw s)"
  unfolding executeVirtualCapturedAssignment_def Let_def by (intro below_intros runner_belowD)

lemma temporary_below: "runner_below r q \<Longrightarrow> below (applyTemporaryEnv r as old s) (applyTemporaryEnv q as old s)"
proof (induction "as" arbitrary: old s)
  case (Cons a "as")
  then show ?case unfolding applyTemporaryEnv.simps Let_def by (intro below_intros runner_belowD)
qed (simp add: below_refl)

section \<open>Control flow\<close>

lemma for_loop_below: "runner_below r q \<Longrightarrow> below (for_loop r var body vs combined outs s) (for_loop q var body vs combined outs s)"
proof (induction vs arbitrary: combined outs s)
  case (Cons v vs)
  then show ?case unfolding for_loop.simps Let_def by (intro below_intros runner_belowD)
qed (simp add: below_refl)

lemma while_loop_below:
  "runner_below r q \<Longrightarrow> below (while_loop n r until condition body combined outs s) (while_loop n q until condition body combined outs s)"
proof (induction n arbitrary: combined outs s)
  case (Suc n)
  then show ?case unfolding while_loop.simps Let_def by (intro below_intros runner_belowD)
qed (simp add: below_refl)

lemma for_below: "runner_below r q \<Longrightarrow> below (executeVirtualFor r line s) (executeVirtualFor q line s)"
  unfolding executeVirtualFor_def by (intro below_intros handled_below for_loop_below runner_belowD)

lemma while_below: "runner_below r q \<Longrightarrow> below (executeVirtualWhile r line s) (executeVirtualWhile q line s)"
  unfolding executeVirtualWhile_def Let_def by (intro below_intros handled_below while_loop_below)

lemma if_below: "runner_below r q \<Longrightarrow> below (executeVirtualIf r line input s) (executeVirtualIf q line input s)"
  unfolding executeVirtualIf_def Let_def by (intro below_intros runner_belowD)

lemma case_below: "runner_below r q \<Longrightarrow> below (executeVirtualCase r line s) (executeVirtualCase q line s)"
  unfolding executeVirtualCase_def Let_def by (intro below_intros runner_belowD)

lemma control_below: "runner_below r q \<Longrightarrow> below (executeVirtualControlFlow r line input s) (executeVirtualControlFlow q line input s)"
  unfolding executeVirtualControlFlow_def Let_def
  by (intro below_intros or_else_below case_below for_below while_below if_below)

lemma embedded_below: "runner_below r q \<Longrightarrow> below (executeEmbeddedVirtualIf r line input s) (executeEmbeddedVirtualIf q line input s)"
  unfolding executeEmbeddedVirtualIf_def by (intro below_intros if_below runner_belowD)

lemma run_command_below: "runner_below r q \<Longrightarrow> below (run_command r cmd input s) (run_command q cmd input s)"
  unfolding run_command_def by (intro below_intros or_else_below captured_below control_below runner_belowD)

lemma group_loop_below: "runner_below r q \<Longrightarrow> below (group_loop r ps status combined out s) (group_loop q ps status combined out s)"
proof (induction ps arbitrary: status combined out s)
  case (Cons p ps)
  then show ?case unfolding group_loop.simps Let_def by (intro below_intros run_command_below)
qed (simp add: below_refl)

lemma group_below: "runner_below r q \<Longrightarrow> below (executeGrouped r inner s) (executeGrouped q inner s)"
  unfolding executeGrouped_def by (intro below_intros group_loop_below)

lemma run_stage_below: "runner_below r q \<Longrightarrow> below (run_stage env r inner stage input s) (run_stage env q inner stage input s)"
  unfolding run_stage_def Let_def by (intro below_intros runner_belowD)

lemma pipe_loop_below: "runner_below r q \<Longrightarrow> below (pipe_loop env r parts first best input s) (pipe_loop env q parts first best input s)"
proof (induction parts arbitrary: first best input s)
  case (Cons p ps)
  then show ?case unfolding pipe_loop.simps Let_def by (intro below_intros run_stage_below runner_belowD)
qed (simp add: below_refl)

lemma pipeline_below: "runner_below r q \<Longrightarrow> below (executePipeline env r line input s) (executePipeline env q line input s)"
  by (simp add: executePipeline_def pipe_loop_below)

section \<open>Commands and lines\<close>

lemma source_lines_below: "runner_below r q \<Longrightarrow> below (source_lines r ls x outs s) (source_lines q ls x outs s)"
proof (induction ls arbitrary: x outs s)
  case (Cons l ls)
  then show ?case unfolding source_lines.simps Let_def by (intro below_intros runner_belowD)
qed (simp add: below_refl)

lemma command_below:
  assumes "runner_below r q"
  shows "below (executeVirtualEnv r args input s) (executeVirtualEnv q args input s)"
    "below (cmd_sudo r cmd args input s) (cmd_sudo q cmd args input s)" "below (cmd_time r cmd args s) (cmd_time q cmd args s)"
    "below (cmd_interpreter env r cmd args input s) (cmd_interpreter env q cmd args input s)"
    "below (cmd_busybox r cmd args input s) (cmd_busybox q cmd args input s)"
    "below (cmd_xargs r cmd args input s) (cmd_xargs q cmd args input s)"
    "below (cmd_source env r cmd args s) (cmd_source env q cmd args s)"
  unfolding executeVirtualEnv_def cmd_sudo_def cmd_time_def cmd_interpreter_def cmd_busybox_def cmd_xargs_def cmd_source_def Let_def
  by (intro below_intros temporary_below source_lines_below runner_belowD assms)+

lemma ssh_below: "runner_below r q \<Longrightarrow> below (fakeNestedSSH r env args s) (fakeNestedSSH q env args s)"
  unfolding fakeNestedSSH_def nested_session_def Let_def by (intro below_intros runner_belowD)

lemma extra_below:
  "runner_below r q \<Longrightarrow> below (executeExtraCommand env r cmd args raw input s) (executeExtraCommand env q cmd args raw input s)"
  unfolding executeExtraCommand_def by (intro below_intros or_else_below handled_below command_below)

lemma switch_below: "runner_below r q \<Longrightarrow> below (run_switch env r cmd args raw input s) (run_switch env q cmd args raw input s)"
  unfolding run_switch_def by (intro below_intros extra_below command_below ssh_below)

lemma words_below: "runner_below r q \<Longrightarrow> below (run_words env r depth words raw input s) (run_words env q depth words raw input s)"
  unfolding run_words_def Let_def by (intro below_intros switch_below runner_belowD)

lemma rest_below: "runner_below r q \<Longrightarrow> below (run_rest env r depth raw input s) (run_rest env q depth raw input s)"
  unfolding run_rest_def Let_def by (intro below_intros words_below runner_belowD)

lemma one_below: "runner_below r q \<Longrightarrow> below (executeOneDepth env r depth raw input s) (executeOneDepth env q depth raw input s)"
  unfolding executeOneDepth_def Let_def by (intro below_intros captured_below temporary_below rest_below)

lemma chain_steps_below:
  "runner_below r q \<Longrightarrow> below (chain_steps env r input ps status executed combined out s) (chain_steps env q input ps status executed combined out s)"
proof (induction ps arbitrary: status executed combined out s)
  case (Cons p ps)
  then show ?case unfolding chain_steps.simps Let_def by (intro below_intros run_command_below)
qed (simp add: below_refl)

lemma line_below: "runner_below r q \<Longrightarrow> below (executeWithInput env r line input s) (executeWithInput env q line input s)"
  unfolding executeWithInput_def run_chain_def Let_def
  by (intro below_intros or_else_below control_below embedded_below chain_steps_below)

lemma step_below: "runner_below r q \<Longrightarrow> runner_below (step env r) (step env q)"
  unfolding runner_below_def [of "step env r"]
  by (simp add: step_def line_below pipeline_below group_below one_below expand_below)

lemma run_below: "m \<le> n \<Longrightarrow> runner_below (run env m) (run env n)"
proof (induction m arbitrary: n)
  case 0
  show ?case by (simp add: runner_below_def nothing_def below_None)
next
  case (Suc m)
  then show ?case by (cases n) (auto intro: step_below)
qed

end
