(* ===== verification/ShellSample.thy ===== *)
theory ShellSample
  imports ShellDisk ShellFuel
begin

text \<open>
  Texts without \<open>$\<close> and backticks stand for themselves; and one line, \<open>pwd\<close>, executed step by step for every
  session. The witnesses of the properties of the interpreter start from it.
\<close>

section \<open>The functions of the interpreter\<close>

lemma run_fields:
  "rn_line (run env (Suc n)) = executeWithInput env (run env n)" "rn_pipe (run env (Suc n)) = executePipeline env (run env n)"
  "rn_group (run env (Suc n)) = executeGrouped (run env n)" "rn_one (run env (Suc n)) = executeOneDepth env (run env n)"
  "rn_expand (run env (Suc n)) = expandVirtualLine (run env n)"
  by (simp_all add: step_def)

section \<open>Texts that stand for themselves\<close>

lemma trim_set: "set (TrimSpace v) \<subseteq> set v"
proof -
  have drop: "set (dropWhile P xs) \<subseteq> set xs" for P and xs :: "(nat \<times> string) list"
    using set_dropWhileD by fast
  have "set (dropWhileEnd P (dropWhile P xs)) \<subseteq> set xs" for P and xs :: "(nat \<times> string) list"
    unfolding dropWhileEnd_def using drop [of P "rev (dropWhile P xs)"] drop [of P xs] by simp
  then have "set (TrimSpace v) \<subseteq> set (concat (map snd (utf8_chunks v)))"
    unfolding TrimSpace_def set_concat set_map by (meson UN_mono image_mono order_refl)
  then show ?thesis by simp
qed

lemma unescape_set: "set (unescape_dquoted v) \<subseteq> set v"
  by (induction v rule: unescape_dquoted.induct) auto

lemma butlast_tl_set: "set (butlast (tl v)) \<subseteq> set v"
  by (cases v) (auto dest: in_set_butlastD)

lemma unquote_set: "set (unquoteVirtualAssignmentValue v) \<subseteq> set v"
  using trim_set [of v] unescape_set [of "butlast (tl (TrimSpace v))"] butlast_tl_set [of "TrimSpace v"]
  unfolding unquoteVirtualAssignmentValue_def Let_def by (simp only: split: if_split) blast

lemma prefix_in: "HasPrefix v p \<Longrightarrow> set p \<subseteq> set v"
  unfolding HasPrefix_def by (metis set_take_subset)

lemma contains_in: "Contains v p \<Longrightarrow> set p \<subseteq> set v"
proof -
  have "Index v p = Some i \<Longrightarrow> set p \<subseteq> set v" for i
    by (induction v arbitrary: i) (auto dest!: prefix_in split: if_splits)
  then show "Contains v p \<Longrightarrow> ?thesis" by (auto simp: Contains_def)
qed

text \<open>A text without \<open>$\<close> and backticks stands for itself.\<close>

definition literal :: "string \<Rightarrow> bool" where
  "literal v \<longleftrightarrow> CHR ''$'' \<notin> set v \<and> CHR 0x60 \<notin> set v"

lemma no_arith: "CHR ''$'' \<notin> set v \<Longrightarrow> arith_open quote i None v = None"
  by (induction quote i "None :: nat option" v rule: arith_open.induct) auto

lemma tail_clean: "c \<notin> set (a # t) \<Longrightarrow> c \<notin> set t \<and> c \<notin> set (tl t)"
  by (cases t) auto

lemma no_ticks: "CHR 0x60 \<notin> set v \<Longrightarrow> find_ticks quote i None v = None"
proof (induction v arbitrary: quote i rule: length_induct)
  case (1 v)
  show ?case
  proof (cases v)
    case (Cons c t)
    then have "find_ticks q j None t = None" "find_ticks q j None (tl t) = None" for q j
      using 1 tail_clean [of "CHR 0x60" c t] by simp_all
    moreover have "c \<noteq> CHR 0x60" using Cons 1(2) by auto
    ultimately show ?thesis using Cons by simp
  qed simp
qed

lemma no_variables: "CHR ''$'' \<notin> set v \<Longrightarrow> expand_variables rn quote v s = Some (v, s)"
proof (induction v arbitrary: quote s rule: length_induct)
  case (1 v)
  show ?case
  proof (cases v)
    case (Cons c t)
    then have "expand_variables rn q t u = Some (t, u)" "expand_variables rn q (tl t) u = Some (tl t, u)" for q u
      using 1 tail_clean [of "CHR ''$''" c t] by simp_all
    moreover have "c \<noteq> CHR ''$''" using Cons 1(2) by auto
    ultimately show ?thesis using Cons by simp
  qed simp
qed

lemma expand_literal: "literal v \<Longrightarrow> expandVirtualLine rn v s = Some (v, s)"
proof -
  assume "literal v"
  then have v: "CHR ''$'' \<notin> set v" "CHR 0x60 \<notin> set v" by (simp_all add: literal_def)
  have "arith_passes n f v = v" for n f by (cases n) (simp_all add: no_arith [OF v(1)])
  moreover have "backtick_passes n rn v s = Some (v, s)" for n by (cases n) (simp_all add: no_ticks [OF v(2)])
  moreover have "\<not> Contains v ''$(''" using contains_in [of v "''$(''"] v(1) by auto
  ultimately show ?thesis
    by (simp add: expandVirtualLine_def expandVirtualArithmetic_def expandVirtualBackticks_def
        expandVirtualCommandSubstitutions_def no_variables [OF v(1)])
qed

lemma captured_literal: "literal raw \<Longrightarrow> executeVirtualCapturedAssignment rn raw s = unhandled s"
proof -
  assume raw: "literal raw"
  have "\<not> Contains v ''$('' \<and> \<not> Contains v [CHR 0x60]"
    if "splitVirtualAssignment raw = Some (name, val)" "v = unquoteVirtualAssignmentValue val" for name val v
  proof -
    have "set v \<subseteq> set raw"
      using that unquote_set [of val] trim_set set_drop_subset
      by (fastforce simp: splitVirtualAssignment_def Let_def split: option.splits if_splits)
    then show ?thesis using raw contains_in [of v "''$(''"] contains_in [of v "[CHR 0x60]"] by (auto simp: literal_def)
  qed
  then show ?thesis by (auto simp: executeVirtualCapturedAssignment_def Let_def split: option.splits)
qed

section \<open>Lines of one plain command\<close>

text \<open>A line without control flow, whose words touch none of the patterns that are looked for in whole lines.\<close>

definition plain_line :: "string \<Rightarrow> bool" where
  "plain_line l \<longleftrightarrow>
     l \<noteq> [] \<and> TrimSpace l = l \<and> is_ascii l \<and> map ascii_lower l = l
     \<and> list_all (\<lambda>k. \<not> HasPrefix l k) [''case '', ''for '', ''while '', ''until '', ''if ''] \<and> embedded_if l = None
     \<and> \<not> looksLikeMinerCleanupSequence l \<and> \<not> looksLikeKnownEnvironmentCollector l \<and> \<not> looksLikeObservedResourceCleanup l
     \<and> environmentFingerprintCollectorScore l = 0 \<and> count_needles reality_needles l = 0 \<and> \<not> Contains l ''crontab''
     \<and> \<not> contains_any [''nvidia-smi'', ''lspci'', ''lscpu'', ''nproc''] l
     \<and> splitVirtualAssignment l = None \<and> splitVirtualChain l = [\<lparr>before = [], command = l, background = False\<rparr>]"

lemma plain_lower: "plain_line l \<Longrightarrow> lower env l = l"
  by (simp add: plain_line_def lower_def ToLower_def)

lemma plain_probe: "plain_line l \<Longrightarrow> observeRealityProbe env l s = s"
  by (simp add: observeRealityProbe_def plain_lower Let_def) (simp add: plain_line_def)

lemma plain_no_control: "plain_line l \<Longrightarrow> executeVirtualControlFlow rn l input s = unhandled s"
  by (simp add: plain_line_def executeVirtualControlFlow_def or_else_def unhandled_def)

lemma plain_not_captured: "plain_line l \<Longrightarrow> executeVirtualCapturedAssignment rn l s = unhandled s"
  by (simp add: plain_line_def executeVirtualCapturedAssignment_def)

lemma plain_command:
  "plain_line l \<Longrightarrow> run_command rn l input s =
     Option.bind (rn_expand rn l s) (\<lambda>(v, s). Option.bind (rn_pipe rn (TrimSpace v) input s) (\<lambda>(r, s). Some (TrimSpace v, r, s)))"
  by (simp add: run_command_def plain_not_captured plain_no_control or_else_def unhandled_def)

lemma plain_executes: "plain_line l \<Longrightarrow> executeWithInput env rn l input s = run_chain env rn l input s"
proof -
  assume l: "plain_line l"
  then have "executeEscapedSemicolonChain env l s = None" "executeKnownResourceCleanup env l s = Some None"
    by (simp_all add: executeEscapedSemicolonChain_def executeKnownResourceCleanup_def plain_lower) (simp_all add: plain_line_def)
  moreover have "l \<noteq> []" "TrimSpace l = l" "\<not> looksLikeMinerCleanupSequence l" "\<not> looksLikeKnownEnvironmentCollector l" "embedded_if l = None"
    using l by (simp_all add: plain_line_def)
  ultimately show ?thesis
    using l by (simp add: executeWithInput_def plain_probe plain_no_control plain_lower or_else_def unhandled_def
        executeEmbeddedVirtualIf_def executeKnownEnvironmentCollector_def Let_def)
qed

lemma plain_intent: "plain_line l \<Longrightarrow> normalizeVirtualResourceIntent env l r = r"
  by (simp add: normalizeVirtualResourceIntent_def plain_lower) (simp add: plain_line_def)

section \<open>The line \<open>pwd\<close>\<close>

lemma pwd_trim [simp]: "TrimSpace ''pwd'' = ''pwd''" by (rule TrimSpace_id) (simp_all add: char_is_space_def byte_in_def)
lemma pwd_word: "processWord (chain_loop None ''pwd'' chain_init) = chain_init\<lparr>cs_b := ''pwd''\<rparr>"
  by code_simp
lemma pwd_chain: "splitVirtualChain ''pwd'' = [\<lparr>before = [], command = ''pwd'', background = False\<rparr>]"
  unfolding splitVirtualChain_def chain_flush_def pwd_word Let_def by (simp add: chain_init_def)
lemma pwd_redirection: "parseVirtualRedirection ''pwd'' = (''pwd'', no_redirection)" 
  by code_simp
lemma pwd_next: "nextVirtualShellWord ''pwd'' 0 = Some (''pwd'', 0, 3)" by code_simp
lemma pwd_assignment: "splitVirtualAssignment ''pwd'' = None" by code_simp
lemma pwd_group: "unwrapVirtualGroup ''pwd'' = None" by code_simp
lemma pwd_split: "virtualWords ''pwd'' = [''pwd'']" by code_simp
lemma pwd_base: "Base ''pwd'' = ''pwd''" by code_simp
lemma pwd_stages: "splitOutsideQuotes ''pwd'' (CHR ''|'') = [''pwd'']" by code_simp
lemmas pwd_syntax = pwd_assignment pwd_group pwd_split pwd_base pwd_stages
lemma pwd_prefix: "virtualCommandEnvPrefix ''pwd'' = (''pwd'', [])"
  unfolding virtualCommandEnvPrefix_def by (subst env_prefix_loop.simps) (simp add: pwd_next CutByte_def)
lemma a1_next: "nextVirtualShellWord ''A=1 pwd'' 0 = Some (''A=1'', 0, 3)" by code_simp
lemma a1_next2: "nextVirtualShellWord ''A=1 pwd'' 3 = Some (''pwd'', 4, 7)" by code_simp
lemma a1_name: "validVirtualEnvName ''A''" by code_simp
lemmas a1_syntax = a1_next a1_next2 a1_name
lemma a1_prefix: "virtualCommandEnvPrefix ''A=1 pwd'' = (''pwd'', [(''A'', ''1'')])"
  unfolding virtualCommandEnvPrefix_def
  by (subst env_prefix_loop.simps, simp add: a1_syntax CutByte_def, subst env_prefix_loop.simps, simp add: a1_syntax CutByte_def)
lemma pwd_words: "assign_words [''pwd''] s = (False, s)" by (simp add: CutByte_def)
definition pwd_result :: "shell \<Rightarrow> virtualSSHResult" where
 "pwd_result s = fst (plain ''pwd'' ''recon'' 3 82 ''system-recon'' ''working directory discovery'' (cwd (vw_fs s)) s)"
lemma pwd_rest: "map_of (vw_aliases s) ''pwd'' = None \<Longrightarrow> vw_ops s < 750 \<Longrightarrow>
   run_rest env rn depth ''pwd'' input s = Some (pwd_result s, spend s)"
  unfolding run_rest_def pwd_syntax Let_def option.case pwd_words prod.case
  apply (simp add: run_words_def pwd_syntax lookup_or_def maxVirtualOps_def spend_def run_path_def HasPrefix_def Contains_def Let_def slash_def)
  apply (simp add: run_switch_def first_commands_def pwd_result_def plain_def)
  done
lemma pwd_one: "map_of (vw_aliases s) ''pwd'' = None \<Longrightarrow> vw_ops s < 750 \<Longrightarrow>
   executeOneDepth env rn depth ''pwd'' input s = Some (pwd_result s, spend s)"
  by (simp add: executeOneDepth_def executeVirtualCapturedAssignment_def unhandled_def pwd_syntax pwd_prefix pwd_rest)
lemma pwd_stage: "map_of (vw_aliases s) ''pwd'' = None \<Longrightarrow> vw_ops s < 750 \<Longrightarrow> executePipeline env (run env (Suc n)) ''pwd'' [] s = Some (pwd_result s, spend s)"
  by (simp add: executePipeline_def run_stage_def pwd_syntax pwd_redirection no_redirection_def curl_to_stdout_def step_def pwd_one silence_def redirect_output_def keep_best_def pwd_result_def virtualBaseResult_def plain_def no_result_def Let_def)

lemma pwd_literal: "literal ''pwd''"
  by (simp add: literal_def)

text \<open>The facts that \<open>plain_line\<close> asks for, one by one.\<close>

lemma pwd_no_probe: "environmentFingerprintCollectorScore ''pwd'' = 0" "count_needles reality_needles ''pwd'' = 0" by code_simp+
lemma pwd_looks: "\<not> looksLikeMinerCleanupSequence ''pwd''" "\<not> looksLikeKnownEnvironmentCollector ''pwd''"
    "\<not> looksLikeObservedResourceCleanup ''pwd''" by code_simp+
lemma pwd_embedded: "embedded_if ''pwd'' = None" "\<not> Contains ''pwd'' ''crontab''"
    "\<not> contains_any [''nvidia-smi'', ''lspci'', ''lscpu'', ''nproc''] ''pwd''" by code_simp+

lemma pwd_plain: "plain_line ''pwd''"
  by (simp add: plain_line_def ascii_lower_def is_upper_def byte_in_def pwd_no_probe pwd_looks pwd_embedded pwd_assignment pwd_chain is_ascii_def HasPrefix_def)

lemma pwd_command:
  "map_of (vw_aliases s) ''pwd'' = None \<Longrightarrow> vw_ops s < 750 \<Longrightarrow>
     run_command (run env (Suc (Suc n))) ''pwd'' [] s = Some (''pwd'', pwd_result s, spend s)"
  by (simp add: plain_command [OF pwd_plain] run_fields expand_literal pwd_literal pwd_stage del: run.simps)

lemma pwd_outcome:
  "vr_family (pwd_result s) = ''recon''" "vr_status (pwd_result s) = 0" "\<not> ends_line (pwd_result s)" "\<not> vr_exit (pwd_result s)"
  by (simp_all add: pwd_result_def plain_def virtualBaseResult_def no_result_def ends_line_def)

lemma combine_status: "vr_status (combine r c) = vr_status r" "vr_exit (combine r c) = vr_exit r"
  by (simp_all add: combine_def leading_def Let_def)

lemma pwd_line:
  "map_of (vw_aliases s) ''pwd'' = None \<Longrightarrow> vw_ops s < 750 \<Longrightarrow>
     \<exists>r. rn_line (run env (Suc (Suc (Suc n)))) ''pwd'' [] s
            = Some (r, (note_result (pwd_result s) (adaptToBehavior env ''recon'' ''pwd'' (spend s)))\<lparr>vw_status := 0\<rparr>)
          \<and> \<not> vr_exit r"
  by (simp add: run_fields(1) plain_executes [OF pwd_plain] run_chain_def pwd_chain skipped_def pwd_command Let_def pwd_outcome
      combine_status plain_intent [OF pwd_plain] del: run.simps)

section \<open>A group that names itself\<close>

lemma self_trim: "TrimSpace ''{ $x; }'' = ''{ $x; }''" by (rule TrimSpace_id) (simp_all add: char_is_space_def byte_in_def)
lemma twice_trim: "TrimSpace ''{ { $x; }; }'' = ''{ { $x; }; }''" by (rule TrimSpace_id) (simp_all add: char_is_space_def byte_in_def)
lemma twice_inner_trim: "TrimSpace '' { $x; }; '' = ''{ $x; };''" by (subst TrimSpace_ascii) (simp_all add: char_is_space_def byte_in_def is_ascii_def dropWhileEnd_def)
lemma twice_stages: "splitOutsideQuotes ''{ { $x; }; }'' (CHR ''|'') = [''{ { $x; }; }'']" by code_simp
lemma twice_balanced: "balancedVirtualDelims '' { $x; }; ''" by code_simp
lemma twice_suffix: "TrimSuffix ''{ $x; };'' '';'' = ''{ $x; }''" by code_simp
lemma twice_group: "unwrapVirtualGroup ''{ { $x; }; }'' = Some ''{ $x; }''" 
  unfolding unwrapVirtualGroup_def Let_def twice_trim by (simp add: twice_balanced twice_inner_trim twice_suffix self_trim)
lemma self_word: "processWord (chain_loop None ''{ $x; }'' chain_init) = chain_init\<lparr>cs_b := ''{ $x; }''\<rparr>"
  by code_simp
lemma self_chain: "splitVirtualChain ''{ $x; }'' = [\<lparr>before = [], command = ''{ $x; }'', background = False\<rparr>]"
  unfolding splitVirtualChain_def chain_flush_def self_word Let_def by (simp add: chain_init_def self_trim)
lemma self_assignment: "splitVirtualAssignment ''{ $x; }'' = None" by code_simp
lemma self_arith: "arith_open None 0 None ''{ $x; }'' = None" by code_simp
lemma x_name: "name_char (CHR ''x'')" "\<not> name_char (CHR '';'')"  by code_simp+

lemma self_expand: "map_of (vw_env s) ''x'' = Some ''{ $x; }'' \<Longrightarrow> expandVirtualLine rn ''{ $x; }'' s = Some (''{ { $x; }; }'', s)"
  by (simp add: expandVirtualLine_def expandVirtualArithmetic_def self_arith eval_nat_numeral expandVirtualBackticks_def no_ticks
     expandVirtualCommandSubstitutions_def dollar_def virtualVariable_def get_env_def lookup_or_def x_name Contains_def HasPrefix_def)

lemma self_no_probe: "environmentFingerprintCollectorScore ''{ $x; }'' = 0" "count_needles reality_needles ''{ $x; }'' = 0" by code_simp+
lemma self_looks: "\<not> looksLikeMinerCleanupSequence ''{ $x; }''" "\<not> looksLikeKnownEnvironmentCollector ''{ $x; }''"
    "\<not> looksLikeObservedResourceCleanup ''{ $x; }''" by code_simp+
lemma self_embedded: "embedded_if ''{ $x; }'' = None" "\<not> Contains ''{ $x; }'' ''crontab''"
    "\<not> contains_any [''nvidia-smi'', ''lspci'', ''lscpu'', ''nproc''] ''{ $x; }''" by code_simp+

lemma self_plain: "plain_line ''{ $x; }''"
  by (simp add: plain_line_def ascii_lower_def is_upper_def byte_in_def self_trim self_no_probe self_looks self_embedded self_assignment self_chain is_ascii_def HasPrefix_def)

text \<open>The line is executed as the pipeline of the text that the variable makes of it, which is a group of the line itself.\<close>

lemma self_command:
  "map_of (vw_env s) ''x'' = Some ''{ $x; }'' \<Longrightarrow>
     run_command (run env n) ''{ $x; }'' input s =
       (if n = 0 then None else Option.bind (rn_pipe (run env n) ''{ { $x; }; }'' input s) (\<lambda>(r, t). Some (''{ { $x; }; }'', r, t)))"
  by (cases n) (simp_all add: plain_command [OF self_plain] run_fields(5) self_expand twice_trim nothing_def del: run.simps(2))

lemma twice_pipe:
  assumes "map_of (vw_env s) ''x'' = Some ''{ $x; }''"
  shows "rn_pipe (run env n) ''{ { $x; }; }'' input s = None"
  using assms
proof (induction n arbitrary: input rule: less_induct)
  case (less n)
  have "rn_group (run env m) ''{ $x; }'' s = None" if "m < n" for m
    using less that
    by (cases m) (simp_all add: run_fields(3) executeGrouped_def self_chain skipped_def self_trim self_command nothing_def del: run.simps(2))
  then show ?case
    by (cases n) (simp_all add: run_fields(2) executePipeline_def twice_stages twice_trim twice_group Let_def nothing_def del: run.simps(2))
qed

lemma self_line: "map_of (vw_env s) ''x'' = Some ''{ $x; }'' \<Longrightarrow> rn_line (run env n) ''{ $x; }'' input s = None"
  by (cases n) (simp_all add: run_fields(1) plain_executes [OF self_plain] run_chain_def self_chain skipped_def self_trim self_command
      twice_pipe Let_def nothing_def del: run.simps(2))

section \<open>A session\<close>

definition sample_env :: shellEnv where
  "sample_env = \<lparr>se_lower = id, se_sha = id, se_regex = (\<lambda>_. None),
     se_chpasswd = (\<lambda>raw. if Contains raw ''chpasswd'' then Some (''root'', ''pw'') else None), se_key = (\<lambda>_. None),
     se_clock = 0, se_file = (\<lambda>_ _. None), se_command = (\<lambda>cmd args raw input s. (no_result, s))\<rparr>"

definition sample_world :: world where
  "sample_world = \<lparr>user = ''root'', cwd = ''/root'', files = [(''/etc/passwd'', ''root:x:0:0'')], fileMeta = [],
     dirs = [(''/root'', True)], fileAttrs = [], fileModes = [], stagingAttempts = [], stagingPayloadHash = [], sessionPayloadHash = []\<rparr>"

definition sample_shell :: "(string \<times> string) list \<Rightarrow> shell" where
  "sample_shell vars = \<lparr>vw_fs = sample_world, vw_host = ''prod-app-02'', vw_env = vars, vw_aliases = [], vw_history = [],
     vw_history_cleared = False, vw_nested = [], vw_depth = 0, vw_loop = 0, vw_frustration = 0, vw_ops = 0, vw_source = 0,
     vw_subst = 0, vw_status = 0, vw_interests = [], vw_probe = 0, vw_deep = False, vw_canaries = [], vw_processes = [],
     vw_jobs = [], vw_next_job = 1, vw_next_pid = 2841, vw_crontab = False, vw_crontab_text = [], vw_packages = [],
     vw_peer = ''peer'', vw_held = True\<rparr>"

lemma sample_commands_lead: "commands_lead sample_env"
  by (simp add: commands_lead_def sample_env_def)

lemma sample_disk_ok: "disk_ok (vw_fs (sample_shell vars))"
proof -
  have "list_all (\<lambda>p. fst p \<noteq> ''/etc/passwd'') deep_files" unfolding deep_files_def by simp
  then show ?thesis
    by (simp add: disk_ok_def sample_shell_def sample_world_def map_wf_def maxVirtualFiles_def maxVirtualFileBytes_def
        maxVirtualTotalBytes_def weight_def)
qed

end
