(* ===== verification/SshSession.thy ===== *)
theory SshSession
  imports ShellRun
begin

text \<open>
  A session of the SSH trap around the interpreter (\<open>internal/server/trap_ssh.go\<close>, \<open>trap_ssh_stdin.go\<close>,
  \<open>trap_ssh_stdin_meta.go\<close>, \<open>trap_ssh_scp.go\<close>, \<open>trap_ssh_network_interactive.go\<close>): the cleaning of a
  command, the input of an exec request, the SCP sink, the execution under the lock of the shared maps.
  The bytes of the channel are arguments: what a client sends is a string that ends where he closes the
  channel, or where the connection is lost.
\<close>

section \<open>Texts\<close>

definition maxSSHExecCommandBytes :: nat where "maxSSHExecCommandBytes = 16384"
definition maxSSHInteractiveCommandBytes :: nat where "maxSSHInteractiveCommandBytes = 2048"

text \<open>A bound of \<open>0\<close> is none.\<close>

definition reached :: "nat \<Rightarrow> string \<Rightarrow> bool" where
  "reached bound b \<longleftrightarrow> 0 < bound \<and> bound \<le> length b"

primrec command_text :: "nat \<Rightarrow> bool \<Rightarrow> string \<Rightarrow> nat list \<Rightarrow> string" where
  "command_text bound sep b [] = b"
| "command_text bound sep b (r # rs) =
     (let (b', sep') =
            (if r = 13 \<or> r = 10 then (if \<not> sep \<and> b \<noteq> [] then (b @ ''; '', True) else (b, sep))
             else if (r = 9 \<or> 32 \<le> r) \<and> r \<noteq> 127 \<and> r \<noteq> 27 then (b @ encode_rune r, False)
             else (b, sep))
      in if reached bound b' then b' else command_text bound sep' b' rs)"

definition cleanSSHCommand :: "string \<Rightarrow> nat \<Rightarrow> string" where
  "cleanSSHCommand v bound =
     trim_chars '';'' (TrimSpace (command_text bound False [] (runes (List.filter (\<lambda>c. c \<noteq> CHR 0x00) v))))"

definition log_rune :: "nat \<Rightarrow> bool" where
  "log_rune r \<longleftrightarrow> r = 10 \<or> r = 13 \<or> r = 9 \<or> 32 \<le> r \<and> r \<noteq> 127 \<and> r \<noteq> 27 \<and> \<not> (127 \<le> r \<and> r < 160)"

primrec log_text :: "nat \<Rightarrow> string \<Rightarrow> nat list \<Rightarrow> string" where
  "log_text bound b [] = b"
| "log_text bound b (r # rs) =
     (let b' = (if log_rune r then b @ encode_rune r else b) in
      if reached bound b' then b' else log_text bound b' rs)"

definition sanitizeLogText :: "string \<Rightarrow> nat \<Rightarrow> string" where
  "sanitizeLogText v bound = (let out = log_text bound [] (runes v) in if 0 < bound then take bound out else out)"

definition line_end :: string where "line_end = [CHR 0x0D, CHR 0x0A]"

definition normalizeSSHOutput :: "string \<Rightarrow> string" where
  "normalizeSSHOutput v0 =
     (let v = sanitizeLogText (ReplaceAll (ReplaceAll v0 line_end nl) [CHR 0x0D] nl) 8192 in
      if v = [] then []
      else (let v = ReplaceAll v nl line_end in if HasSuffix v line_end then v else v @ line_end))"

datatype actorType = ActorUnknown | ActorHuman | ActorAutomated

definition classifySSHActor :: "shellEnv \<Rightarrow> string \<Rightarrow> bool \<Rightarrow> actorType" where
  "classifySSHActor env client interactive =
     (let v = lower env client in
      if contains_any [''masscan'', ''nmap'', ''zgrab'', ''sshscan'', ''scanner''] v then ActorAutomated
      else if interactive \<and> contains_any [''openssh'', ''libssh'', ''paramiko''] v then ActorHuman
      else ActorUnknown)"

definition Prompt :: "shell \<Rightarrow> string" where
  "Prompt s =
     (let dir = cwd (vw_fs s); home = homeDir (vw_fs s);
          shown = (if dir = home then ''~'' else if HasPrefix dir (home @ ''/'') then ''~'' @ TrimPrefix dir home else dir)
      in user (vw_fs s) @ ''@'' @ vw_host s @ '':'' @ shown @ (if user (vw_fs s) = ''root'' then ''#'' else ''$'') @ '' '')"

section \<open>The input of an exec request\<close>

definition maxVirtualExecStdinBytes :: nat where "maxVirtualExecStdinBytes = 524288"

text \<open>What the reader selects: bytes from the channel, its end, one of the two timers.\<close>

datatype stdin_event = Chunk string | Finished | Timer

text \<open>\<open>None\<close>: neither the channel nor a timer has ended the reading yet.\<close>

fun readVirtualExecStdin :: "string \<Rightarrow> stdin_event list \<Rightarrow> (string \<times> bool) option" where
  "readVirtualExecStdin data [] = None"
| "readVirtualExecStdin data (Chunk d # es) =
     (let left = maxVirtualExecStdinBytes - length data in
      if d = [] then readVirtualExecStdin data es
      else if left = 0 then Some (data, True)
      else if left < length d then Some (data @ take left d, True)
      else readVirtualExecStdin (data @ d) es)"
| "readVirtualExecStdin data (Finished # es) = Some (data, False)"
| "readVirtualExecStdin data (Timer # es) = Some (data, data \<noteq> [])"

definition virtualStdinKind :: "string \<Rightarrow> string" where
  "virtualStdinKind data =
     (if HasPrefix data [CHR 0x7F, CHR ''E'', CHR ''L'', CHR ''F''] then ''elf''
      else if HasPrefix data ''#!'' then ''script''
      else if valid_utf8 data then (if CHR 0x00 \<in> set data then ''binary'' else ''text'')
      else ''binary'')"

definition annotateVirtualExecStdin :: "shellEnv \<Rightarrow> string \<Rightarrow> bool \<Rightarrow> virtualSSHResult \<Rightarrow> virtualSSHResult" where
  "annotateVirtualExecStdin env data truncated r =
     (if data = [] then r
      else r\<lparr>vr_stdin_bytes := int (length data), vr_stdin_sha := hex_encode (se_sha env data),
             vr_stdin_kind := virtualStdinKind data @ (if truncated then ''/truncated'' else [])\<rparr>)"

section \<open>Programs that print over time\<close>

definition address :: "shellEnv \<Rightarrow> string \<Rightarrow> string" where
  "address env target = (case Resolve env target of Some h \<Rightarrow> lh_ip h | None \<Rightarrow> target)"

text \<open>The time is printed with three decimals: \<open>0.310\<close> and up to 82 thousandths.\<close>

definition virtualPingReply :: "string \<Rightarrow> int \<Rightarrow> string" where
  "virtualPingReply ip seq =
     ''64 bytes from '' @ ip @ '': icmp_seq='' @ Itoa seq @ '' ttl=64 time=0.'' @ zero_pad 3 (310 + go_mod (seq * 37) 83) @ '' ms'' @ line_end"

definition virtualPingCount :: "string list \<Rightarrow> int" where
  "virtualPingCount args =
     (let count = (\<lambda>v. case Atoi v of Parsed n \<Rightarrow> if 0 < n then Some (min 20 n) else None | _ \<Rightarrow> None) in
      case first_some (map2 (\<lambda>a next.
          case (if (a = ''-c'' \<or> a = ''--count'') \<and> next \<noteq> None then count (the next) else None) of
            Some n \<Rightarrow> Some n
          | None \<Rightarrow> if HasPrefix a ''-c'' \<and> 2 < length a then count (drop 2 a) else None)
        args (map Some (tl args) @ [None])) of
        Some n \<Rightarrow> n | None \<Rightarrow> 0)"

definition virtualPingBatchOutput :: "shellEnv \<Rightarrow> string \<Rightarrow> int \<Rightarrow> string" where
  "virtualPingBatchOutput env target count0 =
     (let count = (if count0 \<le> 0 then 4 else count0); ip = address env target in
      ''PING '' @ target @ '' ('' @ ip @ '') 56(84) bytes of data.'' @ nl
      @ concat (map (\<lambda>i. ReplaceAll (virtualPingReply ip (int i)) line_end nl) [1..<Suc (nat count)])
      @ nl @ ''--- '' @ target @ '' ping statistics ---'' @ nl @ Itoa count @ '' packets transmitted, '' @ Itoa count
      @ '' received, 0% packet loss'' @ nl @ ''rtt min/avg/max/mdev = 0.311/0.352/0.393/0.031 ms'')"

definition virtualTracerouteHops :: "shellEnv \<Rightarrow> string \<Rightarrow> string list" where
  "virtualTracerouteHops env target =
     ['' 1  _gateway (10.10.30.1)  0.381 ms  0.352 ms  0.341 ms'',
      '' 2  core-sw-01.prod.internal (10.10.20.1)  0.812 ms  0.773 ms  0.801 ms'',
      '' 3  '' @ target @ '' ('' @ address env target @ '')  1.204 ms  1.176 ms  1.191 ms'']"

definition virtualTracerouteBatchOutput :: "shellEnv \<Rightarrow> string \<Rightarrow> string" where
  "virtualTracerouteBatchOutput env target =
     ''traceroute to '' @ target @ '' ('' @ address env target @ ''), 30 hops max, 60 byte packets'' @ nl
     @ Join (virtualTracerouteHops env target) nl"

section \<open>The SCP sink\<close>

definition maxVirtualSCPBytes :: int where "maxVirtualSCPBytes = 67108864"

definition isVirtualSCPSink :: "string \<Rightarrow> bool" where
  "isVirtualSCPSink cmd =
     (case virtualWords cmd of
        [] \<Rightarrow> False
      | w # ws \<Rightarrow> Base w = ''scp'' \<and> list_ex (\<lambda>a. HasPrefix a ''-'' \<and> Contains a ''t'') ws)"

definition virtualSCPTarget :: "string \<Rightarrow> string" where
  "virtualSCPTarget cmd = (case rev (non_options (tl (virtualWords cmd))) of [] \<Rightarrow> ''.'' | a # _ \<Rightarrow> a)"

text \<open>\<open>strings.SplitN (v, " ", 3)\<close> when it has three parts.\<close>

definition three_parts :: "string \<Rightarrow> (string \<times> string \<times> string) option" where
  "three_parts v =
     (case CutByte v (CHR '' '') of
        (a, rest, ok) \<Rightarrow>
          (case CutByte rest (CHR '' '') of (b, c, ok') \<Rightarrow> if ok \<and> ok' then Some (a, b, c) else None))"

record upload =
  u_mode :: string
  u_size :: nat
  u_path :: string

text \<open>The record of a file is taken or refused with a text.\<close>

definition accept_upload :: "string \<Rightarrow> string \<Rightarrow> shell \<Rightarrow> (upload + string) option" where
  "accept_upload cmd line s =
     (case three_parts line of
        None \<Rightarrow> None
      | Some (mode, len, name) \<Rightarrow>
          Some (case ParseInt len 10 of
             Parsed n \<Rightarrow>
               (if n < 0 then Inr ''scp: protocol error: invalid file size''
                else if maxVirtualSCPBytes < n then Inr ''scp: write remote: No space left on device''
                else (let target = resolve (vw_fs s) (virtualSCPTarget cmd) in
                      Inl \<lparr>u_mode = mode, u_size = nat n,
                           u_path = (if is_dir (vw_fs s) target \<or> HasSuffix (virtualSCPTarget cmd) ''/''
                                     then PathJoin target (Base name) else target)\<rparr>))
           | _ \<Rightarrow> Inr ''scp: protocol error: invalid file size''))"

definition stage_message :: "string \<Rightarrow> string \<Rightarrow> string \<Rightarrow> string" where
  "stage_message stage relation message =
     (if stage = ''retry'' then ''identical virtual SCP payload staging retry''
      else if relation = ''companion-payload'' then ''virtual SCP companion payload staging completed''
      else if relation = ''payload-relocation'' \<or> relation = ''recurring-payload-relocation'' then
        ''identical virtual SCP payload staged at a different path''
      else if relation = ''payload-replacement'' then ''virtual SCP payload replaced at previously staged path''
      else message)"

text \<open>All bytes have arrived: the file is stored up to the bound of a file, with the size of the whole.\<close>

definition store_upload :: "shellEnv \<Rightarrow> upload \<Rightarrow> string \<Rightarrow> virtualSSHResult \<Rightarrow> shell \<Rightarrow> outcome" where
  "store_upload env u data r s0 =
     (let dest = u_path u; digest = se_sha env data; preview = take maxVirtualFileBytes data;
          (w, stage, relation, message) = classifyVirtualPayloadStage dest digest (vw_fs s0);
          (s, ok) = set_file env dest preview (s0\<lparr>vw_fs := w\<rparr>)
      in if \<not> ok then (says (''scp: '' @ dest @ '': '' @ virtualWriteFailure (vw_fs s) dest) 1 r, s)
         else
           (let kind = inferVirtualFileKind (se_lower env) dest preview;
                mode = (if HasPrefix (u_mode u) ''0755'' \<or> HasPrefix (u_mode u) ''0777'' then 0x1ED else 0x1A4);
                s = on_fs (\<lambda>w. w\<lparr>
                      fileMeta := AList.update dest
                        ((lookup_or zero_meta (fileMeta w) dest)\<lparr>m_size := int (u_size u), m_kind := kind\<rparr>) (fileMeta w),
                      fileModes := AList.update dest mode (fileModes w),
                      stagingAttempts := AList.update dest (lookup_or 0 (stagingAttempts w) dest + 1) (stagingAttempts w),
                      stagingPayloadHash := AList.update dest digest (stagingPayloadHash w)\<rparr>) s
            in (r\<lparr>vr_stdin_bytes := int (u_size u), vr_stdin_sha := hex_encode digest, vr_stdin_kind := kind, vr_path := dest,
                  vr_stage := stage, vr_relation := relation, vr_message := stage_message stage relation message,
                  vr_loop := (if stage = ''retry'' then vr_loop r + 1 else vr_loop r)\<rparr>, s)))"

text \<open>
  The records: what is left of the 32, and the bytes that are still to come. The value has the bytes that
  the sink has written. \<open>lost\<close>: behind its last byte the channel fails instead of ending.
\<close>

primrec scp_records ::
  "nat \<Rightarrow> shellEnv \<Rightarrow> bool \<Rightarrow> string \<Rightarrow> string \<Rightarrow> string \<Rightarrow> virtualSSHResult \<Rightarrow> shell \<Rightarrow> virtualSSHResult \<times> string \<times> shell" where
  "scp_records 0 env lost cmd bytes sent r s = (r, sent, s)"
| "scp_records (Suc n) env lost cmd bytes sent r s =
     (case CutByte bytes (CHR 0x0A) of
        (line, rest, ok) \<Rightarrow>
          if \<not> ok then (if lost then r\<lparr>vr_status := 1\<rparr> else r, sent, s)
          else if line = [] then scp_records n env lost cmd rest sent r s
          else if hd line \<in> {CHR ''T'', CHR ''D'', CHR ''E''} then scp_records n env lost cmd rest (sent @ [CHR 0x00]) r s
          else if hd line \<noteq> CHR ''C'' then (r\<lparr>vr_status := 1\<rparr>, sent, s)
          else
            (case accept_upload cmd (tl line) s of
               None \<Rightarrow> (r\<lparr>vr_status := 1\<rparr>, sent, s)
             | Some (Inr problem) \<Rightarrow> (says problem 1 r, sent @ [CHR 0x01] @ problem @ nl, s)
             | Some (Inl u) \<Rightarrow>
                 (case drop (u_size u) rest of
                    [] \<Rightarrow> (r\<lparr>vr_status := 1\<rparr>, sent @ [CHR 0x00], s)
                  | c # _ \<Rightarrow>
                      if c \<noteq> CHR 0x00 then (r\<lparr>vr_status := 1\<rparr>, sent @ [CHR 0x00], s)
                      else
                        (case store_upload env u (take (u_size u) rest) r s of
                           (r', s') \<Rightarrow> (r', sent @ [CHR 0x00] @ (if vr_stage r' = [] then [] else [CHR 0x00]), s')))))"

text \<open>The reader stops behind the largest upload and 256 KiB.\<close>

definition runVirtualSCPSink :: "shellEnv \<Rightarrow> bool \<Rightarrow> string \<Rightarrow> string \<Rightarrow> shell \<Rightarrow> virtualSSHResult \<times> string \<times> shell" where
  "runVirtualSCPSink env lost cmd bytes s =
     (let most = nat maxVirtualSCPBytes + 262144 in
      scp_records 32 env (lost \<and> length bytes < most) cmd (take most bytes) [CHR 0x00]
        (virtualBaseResult ''scp'' ''file-transfer'' 6 98 ''payload-staging'' ''virtual SCP upload received'') s)"

section \<open>Execution\<close>

definition hold :: "bool \<Rightarrow> shell \<Rightarrow> shell" where
  "hold b s = s\<lparr>vw_held := b\<rparr>"

definition remember :: "string \<Rightarrow> shell \<Rightarrow> shell" where
  "remember cmd s = s\<lparr>vw_history := addHistory cmd (vw_history s)\<rparr>"

text \<open>A line that was typed: no result when nothing is left of it; \<open>None\<close> when the interpreter does not return.\<close>

definition shell_line :: "shellEnv \<Rightarrow> nat \<Rightarrow> string \<Rightarrow> shell \<Rightarrow> attempt" where
  "shell_line env n line s =
     (let cmd = cleanSSHCommand line maxSSHInteractiveCommandBytes in
      if TrimSpace cmd = [] then unhandled s
      else do {
        (r, s) \<leftarrow> Execute env n cmd (hold True (remember cmd s));
        Some (Some r, hold False s)
      })"

text \<open>The session ends with \<open>exit\<close>.\<close>

primrec runVirtualSSHShell :: "shellEnv \<Rightarrow> nat \<Rightarrow> string list \<Rightarrow> shell \<Rightarrow> (virtualSSHResult list \<times> shell) option" where
  "runVirtualSSHShell env n [] s = Some ([], s)"
| "runVirtualSSHShell env n (line # lines) s =
     do {
       (r, s) \<leftarrow> shell_line env n line s;
       (case r of
          None \<Rightarrow> runVirtualSSHShell env n lines s
        | Some r \<Rightarrow>
            if vr_exit r then Some ([r], s)
            else do { (rs, s) \<leftarrow> runVirtualSSHShell env n lines s; Some (r # rs, s) })
     }"

text \<open>What an exec request prints instead of starting a program that needs a terminal.\<close>

definition batch_result :: "shellEnv \<Rightarrow> virtualSSHResult \<Rightarrow> virtualSSHResult" where
  "batch_result env r =
     (if vr_interactive r = ''ping'' then r\<lparr>vr_output := virtualPingBatchOutput env (vr_target r) (vr_stream r), vr_interactive := []\<rparr>
      else if vr_interactive r = ''traceroute'' then r\<lparr>vr_output := virtualTracerouteBatchOutput env (vr_target r), vr_interactive := []\<rparr>
      else if vr_interactive r = [] then r
      else says (if vr_output r \<noteq> [] then vr_output r else vr_name r @ '': Warning: Input is not from a terminal'') 1 r)"

text \<open>An exec request; \<open>stdin\<close> is what was read for a command that reads its input.\<close>

definition exec_request ::
  "shellEnv \<Rightarrow> nat \<Rightarrow> string \<Rightarrow> string \<times> bool \<Rightarrow> bool \<times> string \<Rightarrow> shell \<Rightarrow> (virtualSSHResult \<times> string \<times> shell) option" where
  "exec_request env n payload stdin channel s0 =
     (let cmd = cleanSSHCommand payload maxSSHExecCommandBytes; s = hold True (remember cmd s0) in
      if isVirtualSCPSink cmd then
        (case runVirtualSCPSink env (fst channel) cmd (snd channel) s of (r, sent, s) \<Rightarrow> Some (r, sent, hold False s))
      else
        (let (data, truncated) = (if virtualCommandConsumesInput env cmd then stdin else ([], False)) in
         do {
           (r, s) \<leftarrow> rn_line (run env n) cmd data s;
           let r = batch_result env (annotateVirtualExecStdin env data truncated r);
           Some (r, normalizeSSHOutput (vr_output r), hold False s)
         }))"

end
