(* ===== verification/ShellProperties.thy ===== *)
theory ShellProperties
  imports ShellSample SshSession
begin

text \<open>
  What the interpreter of the virtual shell promises: the result of a line does not depend on the bound of
  \<open>run\<close>, temporary assignments leave the variables as they were, a session stays within the limits of the
  disk; and the lines on which the interpreter does not return.
\<close>

section \<open>The bound on the depth of the calls\<close>

lemma run_more: "rn_line (run env m) line input s = Some x \<Longrightarrow> m \<le> n \<Longrightarrow> rn_line (run env n) line input s = Some x"
  using runner_belowD(1) [OF run_below, of m n env line input s] by (simp add: below_def)

text \<open>The result of a line does not depend on how deep the calls may go: when the interpreter returns within
  one bound it returns the same result and the same session within every larger one.
\<close>

lemma line_result_unique:
  assumes "Execute env m line s = Some x" "Execute env n line s = Some y"
  shows "x = y"
  using assms run_more [of env m line "[]" s x n] run_more [of env n line "[]" s y m]
  by (cases "m \<le> n") (auto simp: Execute_def)

section \<open>Temporary assignments\<close>

lemma temporary_old: "applyTemporaryEnv rn as old s = Some (old', s') \<Longrightarrow> distinct (map fst old) \<Longrightarrow>
   distinct (map fst old') \<and> (\<exists>more. old' = old @ more) \<and> set (map fst old') = set (map fst old) \<union> set (map fst as)"
proof (induction "as" arbitrary: old s)
  case (Cons a as)
  let ?old = "if fst a \<in> set (map fst old) then old else old @ [(fst a, map_of (vw_env s) (fst a))]"
  have "distinct (map fst ?old)" using Cons.prems(2) by auto
  moreover obtain v t where "applyTemporaryEnv rn as ?old (set_env (fst a) v t) = Some (old', s')"
    using Cons.prems(1) by (auto simp: Let_def bind_eq_Some_conv split: if_splits)
  ultimately show ?case using Cons.IH [of ?old] by (auto split: if_splits)
qed simp

lemma restore_other: "k \<notin> set (map fst old) \<Longrightarrow> map_of (vw_env (restoreTemporaryEnv old s)) k = map_of (vw_env s) k"
  unfolding restoreTemporaryEnv_def
  by (induction old arbitrary: s) (auto simp: restore_one_def set_env_def gomap split: option.splits)

lemma restore_env:
  "distinct (map fst old) \<Longrightarrow> (k, v) \<in> set old \<Longrightarrow> map_of (vw_env (restoreTemporaryEnv old s)) k = v"
proof (induction old arbitrary: s)
  case (Cons p old)
  have step: "restoreTemporaryEnv (p # old) s = restoreTemporaryEnv old (restore_one p s)"
    by (simp add: restoreTemporaryEnv_def)
  show ?case
  proof (cases "(k, v) = p")
    case True
    then have "k \<notin> set (map fst old)" using Cons.prems(1) by force
    then show ?thesis
      using True restore_other [of k old "restore_one p s"]
      by (auto simp: step restore_one_def set_env_def gomap split: option.splits)
  next
    case False
    then show ?thesis using Cons by (simp add: step)
  qed
qed simp

lemma temporary_saved:
  assumes "applyTemporaryEnv rn as old s = Some (old', s')" "(k, v) \<in> set old'"
    and "\<And>a t. a \<in> set as \<Longrightarrow> rn_expand rn (snd a) t = Some (snd a, t)"
  shows "(k, v) \<in> set old \<or> k \<notin> set (map fst old) \<and> v = map_of (vw_env s) k"
  using assms
proof (induction "as" arbitrary: old s)
  case (Cons a as)
  let ?old = "if fst a \<in> set (map fst old) then old else old @ [(fst a, map_of (vw_env s) (fst a))]"
  have "applyTemporaryEnv rn as ?old (set_env (fst a) (snd a) s) = Some (old', s')"
    using Cons.prems(1) Cons.prems(3) [of a s] by (simp add: Let_def split: if_splits)
  from Cons.IH [OF this Cons.prems(2)] Cons.prems(3) show ?case
    by (auto simp: set_env_def gomap split: if_splits)
qed simp





section \<open>The disk of a session\<close>

lemma hold_reaches: "reaches (hold True s) t \<Longrightarrow> fs_step\<^sup>*\<^sup>* (vw_fs s) (vw_fs (hold b t))"
  by (simp add: reaches_def hold_def)

lemma shell_line_steps:
  "commands_lead env \<Longrightarrow> shell_line env n line s = Some (r, s') \<Longrightarrow> fs_step\<^sup>*\<^sup>* (vw_fs s) (vw_fs s')"
  using hold_reaches [of "remember (cleanSSHCommand line maxSSHInteractiveCommandBytes) s"]
  by (auto simp: shell_line_def unhandled_def Let_def bind_eq_Some_conv remember_def split: if_splits dest!: Execute_reaches)

lemma shell_session_steps:
  "commands_lead env \<Longrightarrow> runVirtualSSHShell env n lines s = Some (rs, s') \<Longrightarrow> fs_step\<^sup>*\<^sup>* (vw_fs s) (vw_fs s')"
proof (induction lines arbitrary: s rs)
  case (Cons line lines)
  then obtain r t where t: "shell_line env n line s = Some (r, t)" by (auto simp: bind_eq_Some_conv)
  have "fs_step\<^sup>*\<^sup>* (vw_fs s) (vw_fs t)" using shell_line_steps [OF Cons.prems(1) t] .
  moreover have "fs_step\<^sup>*\<^sup>* (vw_fs t) (vw_fs s')"
    using Cons.prems(2) Cons.IH [OF Cons.prems(1)] t
    by (auto simp: bind_eq_Some_conv split: option.splits if_splits)
  ultimately show ?case by (rule rtranclp_trans)
qed simp

text \<open>
  Whatever is typed in a shell, a session that began within the limits of the disk ends with at most 534
  files of at most 16384 bytes and at most 525436 bytes together: the limits of the code (512 files, 524288
  bytes) and the 22 files of 1148 bytes that are put past them; if the commands left to \<open>se_command\<close> write
  through the checked operations only (installing a package does not).
\<close>

lemma shell_disk_bounded:
  assumes "commands_lead env" "disk_ok (vw_fs s)" "runVirtualSSHShell env n lines s = Some (rs, s')"
  shows "length (files (vw_fs s')) \<le> 534 \<and> virtualStorageBytes (vw_fs s') \<le> 525436
     \<and> (\<forall>(f, c) \<in> set (files (vw_fs s')). length c \<le> 16384)"
  using disk_ok_limits [OF fs_steps_disk_ok [OF shell_session_steps [OF assms(1,3)] assms(2)]] by auto

section \<open>Lines that never return\<close>

text \<open>A variable that holds a group which names it: the interpreter calls itself until the stack ends.\<close>

lemma group_recursion_never_returns:
  "map_of (vw_env s) ''x'' = Some ''{ $x; }'' \<Longrightarrow> Execute env n ''{ $x; }'' s = None"
  by (simp add: Execute_def self_line)

text \<open>
  A change of a password takes the lock of the shared maps, which the caller of the interpreter holds: the
  session waits for itself, and every other session behind it.
\<close>

lemma password_change_deadlocks:
  assumes "se_chpasswd env raw = Some (name, password)" "virtualUserExists (safeVirtualName name) s" "vw_held s"
  shows "applyCompoundCredentialState env raw s = None"
  using assms by (simp add: applyCompoundCredentialState_def locked_def)

end
