(* ===== verification/ScpProofs.thy ===== *)
theory ScpProofs
  imports ShellSample ShellLexerProofs SshSession SftpProofs
begin

text \<open>
  The SCP sink: an upload that a client sends by the protocol is stored, recorded and answered.
\<close>

section \<open>The record of a file\<close>

text \<open>What a client sends for one file: the record with mode, length and name, the bytes, and a zero byte.\<close>

definition scp_file :: "string \<Rightarrow> string \<Rightarrow> string \<Rightarrow> string" where
  "scp_file mode name data = CHR ''C'' # mode @ CHR '' '' # Itoa (int (length data)) @ CHR '' '' # name @ nl @ data @ [CHR 0x00]"

definition scp_header :: "string \<Rightarrow> string \<Rightarrow> string \<Rightarrow> string" where
  "scp_header mode name data = mode @ CHR '' '' # Itoa (int (length data)) @ CHR '' '' # name"

lemma Itoa_nat: "Itoa (int n) = nat_digits 10 n"
  by (simp add: Itoa_def FormatInt_def)

lemma Itoa_plain: "c \<in> set (Itoa (int n)) \<Longrightarrow> c \<noteq> CHR '' '' \<and> c \<noteq> CHR 0x0A"
  using nat_digits_is_digit [of c n] by (auto simp: Itoa_nat is_digit_def byte_in_def)

lemma header_parts:
  assumes "CHR '' '' \<notin> set mode"
  shows "three_parts (scp_header mode name data) = Some (mode, Itoa (int (length data)), name)"
proof -
  have "CHR '' '' \<notin> set (Itoa (int (length data)))" using Itoa_plain by blast
  then show ?thesis using assms by (simp add: three_parts_def scp_header_def CutByte_assignment)
qed

definition scp_dest :: "world \<Rightarrow> string \<Rightarrow> string \<Rightarrow> string" where
  "scp_dest w cmd name =
     (let target = resolve w (virtualSCPTarget cmd) in
      if is_dir w target \<or> HasSuffix (virtualSCPTarget cmd) ''/'' then PathJoin target (Base name) else target)"

lemma accept_header:
  assumes "CHR '' '' \<notin> set mode" "length data \<le> 67108864"
  shows "accept_upload cmd (scp_header mode name data) s
    = Some (Inl \<lparr>u_mode = mode, u_size = length data, u_path = scp_dest (vw_fs s) cmd name\<rparr>)"
proof -
  have "ParseInt (Itoa (int (length data))) 10 = Parsed (int (length data))"
    using assms(2) Atoi_Itoa [of "int (length data)"] by (simp add: Atoi_def)
  then show ?thesis
    using assms by (simp add: accept_upload_def header_parts maxVirtualSCPBytes_def scp_dest_def Let_def)
qed

lemma dest_clean:
  assumes "clean_abs (cwd w)" "clean_abs (homeDir w)"
  shows "Clean (scp_dest w cmd name) = scp_dest w cmd name"
proof -
  have "Clean (resolve w (virtualSCPTarget cmd)) = resolve w (virtualSCPTarget cmd)"
      "resolve w (virtualSCPTarget cmd) \<noteq> []"
    using resolve_clean_abs [OF assms, of "virtualSCPTarget cmd"] by (auto simp: clean_abs_def rooted_def)
  then show ?thesis by (simp add: scp_dest_def PathJoin_def Clean_idem Let_def)
qed

lemma stage_named: "classifyVirtualPayloadStage p d w = (w', stage, relation, message) \<Longrightarrow> stage \<noteq> []"
  by (auto simp: classifyVirtualPayloadStage_def Let_def split: option.splits if_splits)

lemma classify_keeps:
  "classifyVirtualPayloadStage p d w = (w', stage, relation, message) \<Longrightarrow>
     files w' = files w \<and> fileAttrs w' = fileAttrs w"
  by (auto simp: classifyVirtualPayloadStage_def Let_def split: option.splits if_splits)

section \<open>What is stored\<close>

text \<open>The file, its size and mode, the digest that later uploads are compared with, and what the result says of it.\<close>

definition scp_stored :: "shellEnv \<Rightarrow> string \<Rightarrow> string \<Rightarrow> string \<Rightarrow> virtualSSHResult \<Rightarrow> world \<Rightarrow> world \<Rightarrow> bool" where
  "scp_stored env mode dest data r w w' \<longleftrightarrow>
     map_of (files w') dest = Some (take maxVirtualFileBytes data) \<and> (\<forall>p. p \<noteq> dest \<longrightarrow> map_of (files w') p = map_of (files w) p)
     \<and> map_option m_size (map_of (fileMeta w') dest) = Some (int (length data))
     \<and> map_of (fileModes w') dest = Some (if HasPrefix mode ''0755'' \<or> HasPrefix mode ''0777'' then 0x1ED else 0x1A4)
     \<and> map_of (stagingPayloadHash w') dest = Some (se_sha env data)
     \<and> vr_status r = 0 \<and> vr_path r = dest \<and> vr_stdin_bytes r = int (length data) \<and> vr_stdin_sha r = hex_encode (se_sha env data)
     \<and> vr_stage r \<noteq> []"

lemma stored_upload:
  assumes "\<not> virtualFileImmutable (vw_fs s) dest" "length (files (vw_fs s)) < maxVirtualFiles"
    and "virtualStorageBytes (vw_fs s) + maxVirtualFileBytes \<le> maxVirtualTotalBytes" "Clean dest = dest" "vr_status r = 0"
  shows "\<exists>r' s'. store_upload env \<lparr>u_mode = mode, u_size = length data, u_path = dest\<rparr> data r s = (r', s')
    \<and> scp_stored env mode dest data r' (vw_fs s) (vw_fs s')"
proof -
  obtain w stage relation message where c: "classifyVirtualPayloadStage dest (se_sha env data) (vw_fs s) = (w, stage, relation, message)"
    by (cases "classifyVirtualPayloadStage dest (se_sha env data) (vw_fs s)")
  note w = classify_keeps [OF c]
  have "\<not> virtualFileImmutable w dest" using assms(1) w by (simp add: virtualFileImmutable_def)
  then obtain w' where w': "setVirtualFile (se_lower env) (se_clock env) dest (take maxVirtualFileBytes data) w = (w', True)"
    using setVirtualFile_accepts [of w dest "se_lower env" "se_clock env" "take maxVirtualFileBytes data"] assms(2,3) w
    by (cases "setVirtualFile (se_lower env) (se_clock env) dest (take maxVirtualFileBytes data) w") (auto simp: virtualStorageBytes_def)
  have "length (take maxVirtualFileBytes data) \<le> maxVirtualFileBytes" by simp
  then have f: "files w' = AList.update dest (take maxVirtualFileBytes data) (files (vw_fs s))"
    using setVirtualFile_fields(1) [OF w' assms(4)] w limit_id by metis
  have "set_file env dest (take maxVirtualFileBytes data) (s\<lparr>vw_fs := w\<rparr>) = (s\<lparr>vw_fs := w'\<rparr>, True)"
    by (simp add: set_file_def w')
  then show ?thesis
    using stage_named [OF c] assms(5)
    by (auto simp: store_upload_def c Let_def on_fs_def scp_stored_def f gomap)
qed



end
