(* ===== verification/Spec2Isabelle.thy ===== *)
theory Spec2Isabelle
  imports ShellLexerProofs ShellArithProofs SftpProofs AuthRealityProofs TerminalProofs TextEditorProofs
    AdminRealtimeProofs AdminAuthProofs TrustedDomainsProofs EventStoreProofs WebRequestProofs WebProbeProofs
    ScorerProofs WebBehaviorProofs IntegrationsProofs BotVerifyProofs WebTrapProofs ActorProofs SshStoreProofs
    SshAnalysis ShellProperties ScpProofs
begin

text \<open>
  A model of ZentLoop, a deception server for HTTP and SSH. Whoever connects is led through invented
  pages or an invented Unix host; what he does is recorded, scored and shown to the operator on an
  administration page. All sources named here are under \<open>src/internal/\<close>.

  The program's parts and how they interact.

    \<^item> The SSH trap (\<open>server/trap_ssh*.go\<close>) accepts a login by the policy of
      \<open>store/ssh_auth_reality.go\<close>, reads keys through a line editor, splits a line into commands and
      words, and runs them on a virtual filesystem that the editors and the SFTP subsystem share.

    \<^item> The web trap (\<open>server/trap.go\<close>) decides who is asking for which host, recognises known probes,
      scores the request against its session, answers, and records an event.

    \<^item> The store (\<open>store/\<close>) holds events, sessions, counters, peers and domains, writes them as JSON
      and reads them back at start. Its feed is what the administration page shows.

    \<^item> The administration server (\<open>server/admin*.go\<close>) guards its handlers with sessions and sends
      the feed over a WebSocket.

  The theories.

    \<^item> \<open>GoPrelude\<close>, \<open>GoLemmas\<close>, \<open>GoPath\<close>, \<open>GoNumbers\<close>, \<open>GoMaps\<close>, \<open>GoRunes\<close>, \<open>GoBinary\<close>,
      \<open>GoHosts\<close>, \<open>GoSort\<close>: what the code uses of Go. A string is its bytes; runes are decoded as UTF-8
      with the replacement character for what is not; \<open>int\<close> and \<open>int64\<close> are \<open>int\<close> with \<open>wrap64\<close>
      where they can leave their range; a map is an association list with distinct keys, a time a
      number of nanoseconds with 0 for the zero time. The collections \<open>golib\<close>, \<open>gomap\<close> and
      \<open>bounds_lemmas\<close> and the locale \<open>row_order\<close> (sorting by a comparison) are shared by all parts.

    \<^item> \<open>ShellLexer\<close>: splitting a command line into chains, pipelines and words, quotes, groups, the
      assignment prefix and the parts of an expansion (\<open>server/trap_ssh_shell.go\<close>,
      \<open>trap_ssh_unix_semantics.go\<close>). \<open>ShellLexerProofs\<close>: splitting loses nothing; a chain of quoted
      lines splits back into them.

    \<^item> \<open>ShellArith\<close>: arithmetic expansion, \<open>seq\<close>, \<open>expr\<close>, \<open>printf\<close>. The five mutually recursive
      functions of the parser take fuel, which \<open>evalVirtualArithmetic\<close> sets from the length of the
      text; \<open>ShellArithProofs\<close> shows that it always suffices and that the value of the text of an
      expression is the value of the expression.

    \<^item> \<open>ShellWorld\<close>, \<open>ShellCommands\<close>, \<open>ShellFiles\<close>, \<open>ShellBuiltins\<close>: the state of a virtual host and the commands
      that read or change it; \<open>ShellAdapt\<close>, \<open>ShellExpand\<close>, \<open>ShellControl\<close>, \<open>ShellRun\<close>: the lures that answer
      behaviour, expansion, control flow, and the interpreter with its groups, pipelines, redirections and
      assignments (\<open>server/trap_ssh_shell.go\<close>, \<open>trap_ssh_extra.go\<close>, \<open>trap_ssh_controlflow.go\<close>,
      \<open>trap_ssh_unix_semantics.go\<close>, \<open>trap_ssh_process.go\<close>, \<open>trap_ssh_adaptive.go\<close>). The code's functions
      call each other without a bound, so \<open>run\<close> closes the recursion with a depth and \<open>None\<close> is a call that has
      not returned within it; \<open>ShellFuel\<close> shows that a result does not change with a greater depth.
      \<open>ShellReach\<close>, \<open>ShellRunProofs\<close>, \<open>ShellDisk\<close>: every command changes the disk by checked steps only.
      \<open>ShellSample\<close>, \<open>ShellProperties\<close>: assignments in front of a command end with it; lines on which
      the interpreter never returns.

    \<^item> \<open>SshAnalysis\<close>: the commands and the intent that are recorded of a line
      (\<open>server/trap_ssh_command_analysis.go\<close>, \<open>trap_ssh_compound_intent.go\<close>, \<open>trap_ssh_shell_shape.go\<close>).
      \<open>SshSession\<close>: a session over the interpreter, with the lock it holds, and the SCP sink (\<open>server/trap_ssh.go\<close>,
      \<open>trap_ssh_scp.go\<close>, \<open>trap_ssh_stdin.go\<close>). \<open>ScpProofs\<close>: an upload by SCP is stored and recorded.

    \<^item> \<open>Vfs\<close>: the virtual filesystem with its quotas, permissions and immutable files. \<open>VfsProofs\<close>
      states what its users rely on as the locale \<open>bounded_store\<close>: quotas after any sequence of
      operations, and the last write to a path is what is read.

    \<^item> \<open>Sftp\<close>: the packets, the handles, one function per request, and the loop of a session, by
      recursion on the input. \<open>SftpProofs\<close>: every request gets one answer, uploads store the bytes
      sent, no input breaks the quotas, and the requests whose guards are missing.

    \<^item> \<open>AuthReality\<close>: which passwords the SSH trap accepts (\<open>store/ssh_auth_reality.go\<close>).
      \<open>AuthRealityProofs\<close>: the locale \<open>credential_host\<close> gives that what is accepted is known
      afterwards; pools, bindings and sources stay bounded, spraying creates nothing.

    \<^item> \<open>Terminal\<close>: the line editor with its history, completion and escape sequences
      (\<open>server/trap_ssh_terminal.go\<close>). \<open>TextEditor\<close>: \<open>nano\<close> and \<open>vim\<close>
      (\<open>server/trap_ssh_editor.go\<close>). Both refine a text with a cursor, the locale \<open>text_editor\<close>; the
      key loops recurse on the keys read, and panics are the value \<open>None\<close>.

    \<^item> \<open>AdminAuth\<close>: login, logout, the guard of the handlers, failed logins
      (\<open>server/admin_auth.go\<close>), over the locale \<open>session_table\<close>. \<open>AdminRealtime\<close>: the WebSocket
      handshake, its frames, the two loops of a connection (\<open>server/admin_realtime.go\<close>).

    \<^item> \<open>TrustedDomains\<close>: the canonical form of a host, the table of the operator's domains, the root of
      a host (\<open>store/trusted_domains.go\<close>). \<open>Integrations\<close>: the reverse proxies that proved themselves
      (\<open>store/integrations.go\<close>).

    \<^item> \<open>JsonLog\<close>: what the logs keep of a text (bytes that are no UTF-8 come back as U+FFFD), the longest line
      that a start can read, and the retention at start (\<open>store/retention.go\<close>).

    \<^item> \<open>EventStore\<close>: recording an event with its counters, the sessions, the feed with its subscribers,
      the log as JSON keeps it and the start from it (\<open>json_event\<close>, \<open>openStore\<close>), the lists (\<open>store/store.go\<close>,
      \<open>activity.go\<close>, \<open>realtime.go\<close>, \<open>model/types.go\<close>). \<open>EventStoreProofs\<close>: every table is bounded, the totals
      agree, a restart rebuilds the counters and the sessions of the events as the log kept them.

    \<^item> \<open>WebRequest\<close>: client address, proxy mode, original host, integrations and their signatures,
      country (\<open>server/trap.go\<close>, \<open>geoip.go\<close>). \<open>WebProbe\<close>: the normal form of a path and the known
      probes (\<open>server/probes.go\<close>, \<open>probe_families.go\<close>, \<open>probe_observed_web.go\<close>). \<open>Scorer\<close>: the score of
      a request (\<open>engine/scorer.go\<close>). \<open>WebBehavior\<close>: the signals of an address over its sessions
      (\<open>store/automation.go\<close>). \<open>BotVerify\<close>: the crawlers' address ranges, their refresh and cache
      (\<open>botverify/registry.go\<close>).

    \<^item> \<open>WebTrap\<close>: one request from its arrival to the logged event (\<open>handle\<close> of \<open>server/trap.go\<close>), over all
      the parts of the web trap and the store. \<open>WebTrapProofs\<close>: a start on the log finds the
      sessions that were there, with their texts as JSON keeps them, each request is logged once, what was hostile stays so, sessions are
      well formed.

    \<^item> \<open>ActorProfiles\<close> and \<open>SshActors\<close>: the profile of an address, built from its web events and from its
      SSH events, the intelligence signals and the pages that read profiles (\<open>store/actors.go\<close>).
      \<open>ActorProofs\<close>: what was once observed of an address is never taken back, every table is bounded,
      the time an address was active never exceeds the time since it was first seen (for up to thirty
      million engagements).

    \<^item> \<open>SshRecords\<close>, \<open>GoTime\<close>, \<open>SshStore\<close>: the SSH events and their log, the sessions, the counters,
      the daily activity, the highlights and their pages (\<open>store/ssh.go\<close>, \<open>ssh_highlights.go\<close>,
      \<open>activity.go\<close>), over one store \<open>fullStore\<close> that also holds the web store and the profiles; days and
      the text of a time are computed from the civil calendar. \<open>SshStoreProofs\<close>: a start from the log
      finds what was there, with its texts as JSON keeps them (at most 10000 events, the limit above which sessions are dropped), the totals
      agree (below 2^61 events, so no counter wraps), the cursors of the highlights reach every highlight
      once, and the page of a range misses commands that the counters have.

  Parameters. What is not under \<open>src/\<close> is an argument of the definitions that use it: case mapping
  and letters outside ASCII, SHA-256 and HMAC, base64 and \<open>bcrypt\<close>-like comparison, \<open>net.ParseIP\<close> with
  the classes of addresses, \<open>url.Parse\<close>, the program \<open>mmdblookup\<close>, the clock and random bytes, the
  standard deviation computed with \<open>float64\<close>, the package \<open>net/netip\<close>, and whether a file can be
  written. The web trap takes the operations on the actor profiles and the pages of the deception
  engine as arguments, the interpreter of the shell the commands that only print (\<open>se_command\<close>). The logs
  keep events as JSON does; the JSON files of peers, domains and credentials, whose texts are cleaned
  before, stand for their values. A line that does not decode is an option.

  Not modelled: the fixed outputs of some hundred commands of the virtual shell, and those that install,
  unpack or fetch files; the pages of the web trap, which are texts chosen by path; the
  glue to \<open>golang.org/x/crypto/ssh\<close> and \<open>net/http\<close>; the sweeps of the running server over its logs and
  their compaction past the storage budget; the configuration file; the support export and the terminal
  dashboard, which only read and print.
\<close>

end
